(* ===== verification/Py_Prelude.thy ===== *)
theory Py_Prelude imports Main "HOL-Library.AList" "HOL-Library.Sublist" begin

text \<open>
  Shared vocabulary of the development: dynamically typed Python values, exceptions as
  values, insertion-ordered dictionaries, and the rule collections the component theories use.

  A Python dictionary keeps its keys in insertion order and overwrites in place, which is what
  \<^theory_text>\<open>AList.update\<close> does on an association list, so a dictionary is an association list
  with distinct keys.  Lookup is \<^theory_text>\<open>map_of\<close>, \<open>pop\<close> is \<^theory_text>\<open>AList.delete\<close>.
\<close>

named_theorems py_simps \<open>equations of the Python library model\<close>
named_theorems dict_simps \<open>lookup after update, delete and map on dictionaries\<close>

section \<open>Values and exceptions\<close>

text \<open>
  JSON-like Python values.  A float is represented by the text Python prints for it; no
  operation of the model computes with such a text.
\<close>

datatype pyval =
    PNone
  | PBool bool
  | PInt int
  | PFloat string
  | PStr string
  | PList "pyval list"
  | PDict "(string \<times> pyval) list"

text \<open>The exceptions the modelled code raises.  \<open>HTTPException\<close> carries status and detail.\<close>

datatype py_exc =
    HTTPException int pyval
  | ValueError string
  | KeyError string
  | PermissionError string
  | LookupError string
  | TypeError string
  | AttributeError string
  | IndexError string

type_synonym 'a result = "py_exc + 'a"
type_synonym 'v dict = "(string \<times> 'v) list"

text \<open>Python truth value of a value.\<close>

fun truthy :: "pyval \<Rightarrow> bool" where
  "truthy PNone = False"
| "truthy (PBool b) = b"
| "truthy (PInt i) = (i \<noteq> 0)"
| "truthy (PFloat s) = (s \<noteq> ''0.0'' \<and> s \<noteq> ''-0.0'')"
| "truthy (PStr s) = (s \<noteq> [])"
| "truthy (PList xs) = (xs \<noteq> [])"
| "truthy (PDict d) = (d \<noteq> [])"

text \<open>\<open>a or b\<close> on values and on strings.\<close>

definition py_or :: "pyval \<Rightarrow> pyval \<Rightarrow> pyval" where
  "py_or a b = (if truthy a then a else b)"

definition str_or :: "string \<Rightarrow> string \<Rightarrow> string" where
  "str_or a b = (if a = [] then b else a)"

definition is_list :: "pyval \<Rightarrow> bool" where
  "is_list v = (case v of PList _ \<Rightarrow> True | _ \<Rightarrow> False)"

definition is_dict :: "pyval \<Rightarrow> bool" where
  "is_dict v = (case v of PDict _ \<Rightarrow> True | _ \<Rightarrow> False)"

definition is_str :: "pyval \<Rightarrow> bool" where
  "is_str v = (case v of PStr _ \<Rightarrow> True | _ \<Rightarrow> False)"

text \<open>The dictionary or list a value holds; empty for anything else, as in \<open>(x or {})\<close>
  for a value that is a dictionary or \<open>None\<close>.\<close>

definition dict_or_empty :: "pyval \<Rightarrow> (string \<times> pyval) list" where
  "dict_or_empty v = (case v of PDict d \<Rightarrow> d | _ \<Rightarrow> [])"

definition list_items :: "pyval \<Rightarrow> pyval list" where
  "list_items v = (case v of PList xs \<Rightarrow> xs | _ \<Rightarrow> [])"

section \<open>Dictionaries\<close>

text \<open>\<open>d.get(k, default)\<close>, \<open>d[k] = v\<close>, \<open>d.pop(k, None)\<close>, \<open>d.setdefault(k, v)\<close>.\<close>

definition dget :: "'v dict \<Rightarrow> string \<Rightarrow> 'v \<Rightarrow> 'v" where
  "dget d k v = (case map_of d k of None \<Rightarrow> v | Some w \<Rightarrow> w)"

definition dset :: "string \<Rightarrow> 'v \<Rightarrow> 'v dict \<Rightarrow> 'v dict" where
  "dset k v d = AList.update k v d"

definition dpop :: "string \<Rightarrow> 'v dict \<Rightarrow> 'v dict" where
  "dpop k d = AList.delete k d"

definition dhas :: "'v dict \<Rightarrow> string \<Rightarrow> bool" where
  "dhas d k = (map_of d k \<noteq> None)"

definition dkeys :: "'v dict \<Rightarrow> string list" where
  "dkeys d = map fst d"

definition dvals :: "'v dict \<Rightarrow> 'v list" where
  "dvals d = map snd d"

definition dsetdefault :: "string \<Rightarrow> 'v \<Rightarrow> 'v dict \<Rightarrow> 'v dict" where
  "dsetdefault k v d = (if dhas d k then d else dset k v d)"

text \<open>Updating the value stored under a key, when there is one.\<close>

definition dmap_at :: "string \<Rightarrow> ('v \<Rightarrow> 'v) \<Rightarrow> 'v dict \<Rightarrow> 'v dict" where
  "dmap_at k f d = map (\<lambda>(k', v). (k', if k' = k then f v else v)) d"

text \<open>\<open>d.get(k)\<close> on a dynamic dictionary value: \<open>None\<close> when the key is missing.\<close>

definition pget :: "pyval dict \<Rightarrow> string \<Rightarrow> pyval" where
  "pget d k = dget d k PNone"

definition wf_dict :: "'v dict \<Rightarrow> bool" where
  "wf_dict d = distinct (map fst d)"

lemma dget_dset [dict_simps]: "dget (dset k v d) k' w = (if k' = k then v else dget d k' w)"
  by (simp add: dget_def dset_def update_conv)

lemma map_of_dset [dict_simps]: "map_of (dset k v d) = (map_of d)(k \<mapsto> v)"
  by (simp add: dset_def update_conv')

lemma map_of_dpop [dict_simps]: "map_of (dpop k d) = (map_of d)(k := None)"
  by (simp add: dpop_def delete_conv')

lemma dhas_dset [dict_simps]: "dhas (dset k v d) k' \<longleftrightarrow> k' = k \<or> dhas d k'"
  by (simp add: dhas_def map_of_dset)

lemma dhas_dpop [dict_simps]: "dhas (dpop k d) k' \<longleftrightarrow> k' \<noteq> k \<and> dhas d k'"
  by (simp add: dhas_def map_of_dpop)

lemma map_of_dmap_at [dict_simps]:
  "map_of (dmap_at k f d) k' = (if k' = k then map_option f (map_of d k') else map_of d k')"
  by (induction d) (auto simp: dmap_at_def)

lemma dhas_dmap_at [dict_simps]: "dhas (dmap_at k f d) k' = dhas d k'"
  by (simp add: dhas_def map_of_dmap_at)

lemma dkeys_dmap_at [dict_simps]: "map fst (dmap_at k f d) = map fst d"
  by (induction d) (auto simp: dmap_at_def)

lemma wf_dset [dict_simps, intro]: "wf_dict d \<Longrightarrow> wf_dict (dset k v d)"
  by (simp add: wf_dict_def dset_def distinct_update)

lemma wf_dpop [dict_simps, intro]: "wf_dict d \<Longrightarrow> wf_dict (dpop k d)"
  by (simp add: wf_dict_def dpop_def distinct_delete)

lemma wf_dmap_at [dict_simps, intro]: "wf_dict d \<Longrightarrow> wf_dict (dmap_at k f d)"
  by (simp add: wf_dict_def dkeys_dmap_at)

lemma dhas_iff_keys: "dhas d k \<longleftrightarrow> k \<in> set (map fst d)"
  by (induction d) (auto simp: dhas_def)

lemma map_of_in_dict: "map_of d k = Some v \<Longrightarrow> (k, v) \<in> set d"
  by (rule map_of_SomeD)

lemma in_dict_map_of: "wf_dict d \<Longrightarrow> (k, v) \<in> set d \<Longrightarrow> map_of d k = Some v"
  by (simp add: wf_dict_def map_of_is_SomeI)

lemma dget_Some [dict_simps]: "map_of d k = Some v \<Longrightarrow> dget d k w = v"
  by (simp add: dget_def)

lemma dget_None [dict_simps]: "map_of d k = None \<Longrightarrow> dget d k w = w"
  by (simp add: dget_def)

lemma length_dset: "length (dset k v d) = (if dhas d k then length d else Suc (length d))"
  by (induction d) (auto simp: dset_def dhas_def)

lemma length_dmap_at [simp]: "length (dmap_at k f d) = length d"
  by (simp add: dmap_at_def)

lemma dset_new: "\<not> dhas d k \<Longrightarrow> dset k v d = d @ [(k, v)]"
  by (induction d) (auto simp: dset_def dhas_def split: if_splits)

lemma length_dpop_le: "length (dpop k d) \<le> length d"
  by (simp add: dpop_def length_delete_le)

lemma set_dpop [dict_simps]: "set (dpop k d) = {x \<in> set d. fst x \<noteq> k}"
  by (auto simp: dpop_def AList.delete_eq)

lemma map_of_filter_wf:
  "wf_dict d \<Longrightarrow> map_of (filter (\<lambda>(k, v). P k v) d) k = (case map_of d k of Some v \<Rightarrow> if P k v then Some v else None | None \<Rightarrow> None)"
proof (induction d)
  case (Cons x d)
  have "k = fst x \<Longrightarrow> map_of (filter (\<lambda>(k, v). P k v) d) k = None"
    using Cons.prems by (force simp: wf_dict_def map_of_eq_None_iff)
  then show ?case using Cons by (cases x) (auto simp: wf_dict_def split: option.split)
qed simp

lemma wf_filter: "wf_dict d \<Longrightarrow> wf_dict (filter P d)"
  by (simp add: wf_dict_def distinct_map_filter)

lemma truthy_py_or: "truthy (py_or a b) \<longleftrightarrow> truthy a \<or> truthy b"
  by (simp add: py_or_def)

subsection \<open>A dictionary as an abstract map\<close>

text \<open>
  What every component relies on of the store that holds its records: lookup after update
  and after delete, and an invariant that the operations keep.
\<close>

locale keyed_store =
  fixes lookup :: "'s \<Rightarrow> 'k \<Rightarrow> 'v option"
    and put :: "'k \<Rightarrow> 'v \<Rightarrow> 's \<Rightarrow> 's"
    and remove :: "'k \<Rightarrow> 's \<Rightarrow> 's"
    and inv :: "'s \<Rightarrow> bool"
  assumes lookup_put: "inv s \<Longrightarrow> lookup (put k v s) k' = (if k' = k then Some v else lookup s k')"
    and lookup_remove: "inv s \<Longrightarrow> lookup (remove k s) k' = (if k' = k then None else lookup s k')"
    and inv_put: "inv s \<Longrightarrow> inv (put k v s)"
    and inv_remove: "inv s \<Longrightarrow> inv (remove k s)"
begin

lemma put_then_remove:
  assumes "inv s"
  shows "lookup (remove k (put k v s)) k' = (if k' = k then None else lookup s k')"
  using assms by (simp add: lookup_remove lookup_put inv_put)

lemma put_other: "inv s \<Longrightarrow> k' \<noteq> k \<Longrightarrow> lookup (put k v s) k' = lookup s k'"
  by (simp add: lookup_put)

lemma put_put: "inv s \<Longrightarrow> lookup (put k w (put k v s)) k' = lookup (put k w s) k'"
  by (simp add: lookup_put inv_put)

end

interpretation dict: keyed_store map_of dset dpop wf_dict
  by unfold_locales (auto simp: dict_simps)

section \<open>Lists\<close>

lemma filter_length_lt_iff: "length (filter P xs) < length xs \<longleftrightarrow> (\<exists>x\<in>set xs. \<not> P x)"
proof (induction xs)
  case (Cons x xs)
  have "length (filter P xs) \<le> length xs" by simp
  then show ?case using Cons.IH by auto
qed simp

text \<open>\<open>xs[i:j]\<close>, where a negative bound counts from the end.\<close>

definition py_slice :: "int \<Rightarrow> int \<Rightarrow> 'a list \<Rightarrow> 'a list" where
  "py_slice i j xs =
     (let n = int (length xs); clip = (\<lambda>x. if x < 0 then max 0 (x + n) else min x n)
      in take (nat (clip j - clip i)) (drop (nat (clip i)) xs))"

text \<open>\<open>list(dict.fromkeys(xs))\<close>: the first occurrence of each element, in order.\<close>

fun fromkeys_acc :: "'a list \<Rightarrow> 'a list \<Rightarrow> 'a list" where
  "fromkeys_acc seen [] = []"
| "fromkeys_acc seen (x # xs) =
     (if x \<in> set seen then fromkeys_acc seen xs else x # fromkeys_acc (x # seen) xs)"

definition dict_fromkeys :: "'a list \<Rightarrow> 'a list" where
  "dict_fromkeys xs = fromkeys_acc [] xs"

lemma set_fromkeys_acc: "set (fromkeys_acc seen xs) = set xs - set seen"
  by (induction seen xs rule: fromkeys_acc.induct) auto

lemma distinct_fromkeys_acc: "distinct (fromkeys_acc seen xs)"
  by (induction seen xs rule: fromkeys_acc.induct) (auto simp: set_fromkeys_acc)

lemma set_dict_fromkeys [simp]: "set (dict_fromkeys xs) = set xs"
  by (simp add: dict_fromkeys_def set_fromkeys_acc)

lemma distinct_dict_fromkeys [simp]: "distinct (dict_fromkeys xs)"
  by (simp add: dict_fromkeys_def distinct_fromkeys_acc)

lemma subseq_fromkeys_acc: "subseq (fromkeys_acc seen xs) xs"
  by (induction seen xs rule: fromkeys_acc.induct) auto

lemma subseq_dict_fromkeys: "subseq (dict_fromkeys xs) xs"
  by (simp add: dict_fromkeys_def subseq_fromkeys_acc)

lemma dict_fromkeys_id: "distinct xs \<Longrightarrow> dict_fromkeys xs = xs"
proof -
  have "distinct xs \<Longrightarrow> set xs \<inter> set seen = {} \<Longrightarrow> fromkeys_acc seen xs = xs" for seen
    by (induction seen xs rule: fromkeys_acc.induct) auto
  then show "distinct xs \<Longrightarrow> dict_fromkeys xs = xs" by (simp add: dict_fromkeys_def)
qed

end
