(* ===== verification/Py_Strings.thy ===== *)
theory Py_Strings imports Py_Prelude begin

text \<open>
  The string methods of the Python standard library that the modelled code calls, on
  \<^theory_text>\<open>char list\<close>.  Case mapping and whitespace are those of ASCII text, which is what the
  simulator's identifiers, ARNs, paths and policies are made of.  \<open>fnmatch.fnmatchcase\<close> is
  modelled as CPython's \<open>fnmatch.translate\<close> reads a pattern: stars, question marks and
  bracket classes with negation and ranges.
\<close>

section \<open>Prefixes, suffixes, substrings\<close>

text \<open>\<open>s.startswith(p)\<close>, \<open>s.endswith(p)\<close>, \<open>sub in s\<close>.\<close>

fun startswith :: "string \<Rightarrow> string \<Rightarrow> bool" where
  "startswith s [] = True"
| "startswith [] (p # ps) = False"
| "startswith (c # s) (p # ps) = (c = p \<and> startswith s ps)"

definition endswith :: "string \<Rightarrow> string \<Rightarrow> bool" where
  "endswith s p = startswith (rev s) (rev p)"

fun contains :: "string \<Rightarrow> string \<Rightarrow> bool" where
  "contains sub [] = (sub = [])"
| "contains sub (c # s) = (startswith (c # s) sub \<or> contains sub s)"

definition startswith_any :: "string \<Rightarrow> string list \<Rightarrow> bool" where
  "startswith_any s ps = list_ex (startswith s) ps"

lemma startswith_prefix: "startswith s p \<longleftrightarrow> prefix p s"
  by (induction s p rule: startswith.induct) auto

lemma endswith_suffix: "endswith s p \<longleftrightarrow> suffix p s"
  by (simp add: endswith_def startswith_prefix suffix_to_prefix)

lemma contains_sublist: "contains sub s \<longleftrightarrow> sublist sub s"
  by (induction s) (auto simp: startswith_prefix sublist_Cons_right simp del: startswith.simps)

lemma startswith_refl [simp]: "startswith s s"
  by (simp add: startswith_prefix)

lemma startswith_append [simp]: "startswith (p @ s) p"
  by (simp add: startswith_prefix)

lemma endswith_append [simp]: "endswith (s @ p) p"
  by (auto simp: endswith_suffix suffix_def)

section \<open>Case, whitespace\<close>

definition char_lower :: "char \<Rightarrow> char" where
  "char_lower c = (let n = (of_char c :: nat) in if 65 \<le> n \<and> n \<le> 90 then char_of (n + 32) else c)"

definition char_upper :: "char \<Rightarrow> char" where
  "char_upper c = (let n = (of_char c :: nat) in if 97 \<le> n \<and> n \<le> 122 then char_of (n - 32) else c)"

definition lower :: "string \<Rightarrow> string" where
  "lower s = map char_lower s"

definition upper :: "string \<Rightarrow> string" where
  "upper s = map char_upper s"

text \<open>\<open>str.isspace\<close> on the characters 0 to 255.\<close>

definition is_space :: "char \<Rightarrow> bool" where
  "is_space c = (let n = (of_char c :: nat)
     in (9 \<le> n \<and> n \<le> 13) \<or> (28 \<le> n \<and> n \<le> 32) \<or> n = 133 \<or> n = 160)"

definition lstrip :: "string \<Rightarrow> string" where
  "lstrip s = dropWhile is_space s"

definition rstrip :: "string \<Rightarrow> string" where
  "rstrip s = rev (dropWhile is_space (rev s))"

definition strip :: "string \<Rightarrow> string" where
  "strip s = rstrip (lstrip s)"

definition rstrip_char :: "char \<Rightarrow> string \<Rightarrow> string" where
  "rstrip_char c s = rev (dropWhile (\<lambda>x. x = c) (rev s))"

lemma char_lower_idem [simp]: "char_lower (char_lower c) = char_lower c"
  by (auto simp: char_lower_def Let_def)

lemma lower_idem [simp]: "lower (lower s) = lower s"
  by (simp add: lower_def)

lemma length_lower [simp]: "length (lower s) = length s"
  by (simp add: lower_def)

lemma lower_append: "lower (s @ t) = lower s @ lower t"
  by (simp add: lower_def)

lemma lower_Nil_iff [simp]: "lower s = [] \<longleftrightarrow> s = []"
  by (simp add: lower_def)

lemma lower_Nil [simp]: "lower [] = []"
  by (simp add: lower_def)

lemma strip_Nil [simp]: "strip [] = []"
  by (simp add: strip_def lstrip_def rstrip_def)

lemma strip_no_space:
  assumes "\<forall>c \<in> set s. \<not> is_space c"
  shows "strip s = s"
proof -
  have l: "dropWhile is_space s = s" using assms by (cases s) auto
  have "dropWhile is_space (rev s) = rev s" using assms by (cases "rev s") (auto dest: arg_cong [of _ _ set])
  then show ?thesis by (simp add: strip_def lstrip_def rstrip_def l)
qed

lemma set_strip: "set (strip s) \<subseteq> set s"
  by (auto simp: strip_def lstrip_def rstrip_def dest!: set_dropWhileD)

lemma dropWhile_hd: "dropWhile P xs \<noteq> [] \<Longrightarrow> \<not> P (hd (dropWhile P xs))"
  by (rule hd_dropWhile)

lemma strip_idem [simp]: "strip (strip s) = strip s"
proof -
  let ?u = "dropWhile is_space s"
  let ?v = "strip s"
  have v: "?v = rev (dropWhile is_space (rev ?u))" by (simp add: strip_def lstrip_def rstrip_def)
  have r: "rstrip ?v = ?v" by (simp add: v rstrip_def)
  have "lstrip ?v = ?v"
  proof (cases "?v = []")
    case False
    obtain w where w: "rev ?u = w @ rev ?v" by (metis v rev_rev_ident takeWhile_dropWhile_id)
    then have u: "?u = ?v @ rev w" by (metis rev_append rev_rev_ident)
    with False have "?u \<noteq> []" by simp
    then have "\<not> is_space (hd ?u)" by (rule hd_dropWhile)
    with u False have "\<not> is_space (hd ?v)" by (simp add: hd_append)
    with False show ?thesis by (cases ?v) (simp_all add: lstrip_def)
  qed (simp add: lstrip_def)
  with r show ?thesis by (simp add: strip_def [of "strip s"])
qed

lemma strip_last: "strip s = s \<Longrightarrow> s \<noteq> [] \<Longrightarrow> \<not> is_space (last s)"
proof -
  assume s: "strip s = s" "s \<noteq> []"
  let ?w = "dropWhile is_space (rev (lstrip s))"
  have w: "s = rev ?w" using s(1) by (simp add: strip_def rstrip_def)
  with s(2) have "?w \<noteq> []" by (metis rev_is_Nil_conv)
  moreover have "last s = hd ?w" by (subst w) (rule last_rev)
  ultimately show ?thesis using hd_dropWhile by metis
qed

lemma strip_ends: "\<not> is_space (hd s) \<Longrightarrow> \<not> is_space (last s) \<Longrightarrow> strip s = s"
  by (simp add: strip_def lstrip_def rstrip_def dropWhile_eq_self_iff [THEN iffD2] hd_rev)

section \<open>Splitting, joining, replacing\<close>

text \<open>Text before and after the first occurrence of a separator, if there is one.\<close>

fun split_once :: "string \<Rightarrow> string \<Rightarrow> (string \<times> string) option" where
  "split_once sep [] = (if sep = [] then Some ([], []) else None)"
| "split_once sep (c # s) =
     (if startswith (c # s) sep then Some ([], drop (length sep) (c # s))
      else map_option (\<lambda>(a, b). (c # a, b)) (split_once sep s))"

text \<open>\<open>s.split(sep, 1)[-1]\<close>, \<open>s.split(sep)[0]\<close> and \<open>s.rsplit(sep, 1)[-1]\<close>.\<close>

definition after_first :: "string \<Rightarrow> string \<Rightarrow> string" where
  "after_first sep s = (case split_once sep s of None \<Rightarrow> s | Some (a, b) \<Rightarrow> b)"

definition before_first :: "string \<Rightarrow> string \<Rightarrow> string" where
  "before_first sep s = (case split_once sep s of None \<Rightarrow> s | Some (a, b) \<Rightarrow> a)"

definition after_last :: "string \<Rightarrow> string \<Rightarrow> string" where
  "after_last sep s = (case split_once (rev sep) (rev s) of None \<Rightarrow> s | Some (a, b) \<Rightarrow> rev a)"

text \<open>\<open>s.split(c)\<close> for a one-character separator.\<close>

fun split_char :: "char \<Rightarrow> string \<Rightarrow> string list" where
  "split_char c [] = [[]]"
| "split_char c (x # xs) =
     (if x = c then [] # split_char c xs
      else (case split_char c xs of [] \<Rightarrow> [[x]] | y # ys \<Rightarrow> (x # y) # ys))"

fun join :: "string \<Rightarrow> string list \<Rightarrow> string" where
  "join sep [] = []"
| "join sep [x] = x"
| "join sep (x # y # ys) = x @ sep @ join sep (y # ys)"

text \<open>\<open>s.replace(c, t)\<close> for a one-character pattern.\<close>

definition replace_char :: "char \<Rightarrow> string \<Rightarrow> string \<Rightarrow> string" where
  "replace_char c t s = concat (map (\<lambda>x. if x = c then t else [x]) s)"

lemma split_once_Some:
  "split_once sep s = Some (a, b) \<Longrightarrow> s = a @ sep @ b"
proof (induction s arbitrary: a b)
  case Nil
  then show ?case by (auto split: if_splits)
next
  case (Cons c s)
  show ?case
  proof (cases "startswith (c # s) sep")
    case True
    with Cons.prems have "a = []" and b: "b = drop (length sep) (c # s)"
      by (auto simp del: startswith.simps)
    moreover from True obtain t where "c # s = sep @ t" by (auto simp: startswith_prefix prefix_def)
    ultimately show ?thesis by simp
  next
    case False
    with Cons show ?thesis by (auto simp del: startswith.simps)
  qed
qed

lemma split_once_None: "split_once sep s = None \<longleftrightarrow> \<not> contains sep s"
  by (induction s) (auto simp del: startswith.simps)

text \<open>\<open>s.replace(old, new)\<close>; an empty \<open>old\<close> stands between all characters.\<close>

function replace_str :: "string \<Rightarrow> string \<Rightarrow> string \<Rightarrow> string" where
  "replace_str old new s =
     (if old = [] then new @ concat (map (\<lambda>c. c # new) s)
      else case split_once old s of
             None \<Rightarrow> s
           | Some (left, right) \<Rightarrow> left @ new @ replace_str old new right)"
  by pat_completeness auto

lemma split_once_shorter: "old \<noteq> [] \<Longrightarrow> split_once old s = Some (left, right) \<Longrightarrow> length right < length s"
  using split_once_Some [of old s left right] by auto

termination replace_str
  by (relation "measure (\<lambda>(_, _, s). length s)") (auto dest: split_once_shorter)

declare replace_str.simps [simp del]

lemma split_char_not_Nil [simp]: "split_char c s \<noteq> []"
  by (induction s) (auto split: list.split)

lemma join_split_char: "join [c] (split_char c s) = s"
proof (induction s)
  case (Cons x xs)
  obtain y ys where y: "split_char c xs = y # ys" by (meson neq_Nil_conv split_char_not_Nil)
  show ?case using Cons y by (cases ys) auto
qed simp

lemma replace_char_none: "c \<notin> set s \<Longrightarrow> replace_char c t s = s"
  by (induction s) (auto simp: replace_char_def)

section \<open>Numbers as text\<close>

definition digit_char :: "nat \<Rightarrow> char" where
  "digit_char d = char_of (48 + d)"

definition is_digit :: "char \<Rightarrow> bool" where
  "is_digit c = (let n = (of_char c :: nat) in 48 \<le> n \<and> n \<le> 57)"

definition digit_val :: "char \<Rightarrow> nat" where
  "digit_val c = (of_char c :: nat) - 48"

fun nat_str :: "nat \<Rightarrow> string" where
  "nat_str n = (if n < 10 then [digit_char n] else nat_str (n div 10) @ [digit_char (n mod 10)])"

declare nat_str.simps [simp del]

text \<open>\<open>str(i)\<close> and \<open>int(s)\<close>: surrounding whitespace, a sign and single underscores between
  digits are accepted; anything else raises \<open>ValueError\<close>, here \<^theory_text>\<open>None\<close>.\<close>

definition int_str :: "int \<Rightarrow> string" where
  "int_str i = (if i < 0 then ''-'' @ nat_str (nat (- i)) else nat_str (nat i))"

definition digits_val :: "string \<Rightarrow> nat" where
  "digits_val s = foldl (\<lambda>a c. 10 * a + digit_val c) 0 s"

definition parse_digits :: "string \<Rightarrow> nat option" where
  "parse_digits s =
     (let gs = split_char (CHR ''_'') s
      in if list_all (\<lambda>g. g \<noteq> [] \<and> list_all is_digit g) gs then Some (digits_val (concat gs)) else None)"

definition int_of_str :: "string \<Rightarrow> int option" where
  "int_of_str s =
     (case strip s of
        [] \<Rightarrow> None
      | c # t \<Rightarrow>
          if c = CHR ''-'' then map_option (\<lambda>n. - int n) (parse_digits t)
          else if c = CHR ''+'' then map_option int (parse_digits t)
          else map_option int (parse_digits (c # t)))"

lemma is_digit_digit_char: "d < 10 \<Longrightarrow> is_digit (digit_char d)"
  by (simp add: is_digit_def digit_char_def Let_def)

lemma digit_val_digit_char: "d < 10 \<Longrightarrow> digit_val (digit_char d) = d"
  by (simp add: digit_val_def digit_char_def)

lemma nat_str_digits: "list_all is_digit (nat_str n)"
proof (induction n rule: nat_str.induct)
  case (1 n)
  then show ?case by (subst nat_str.simps) (auto simp: is_digit_digit_char)
qed

lemma nat_str_not_Nil [simp]: "nat_str n \<noteq> []"
  by (subst nat_str.simps) simp

lemma digits_val_nat_str: "digits_val (nat_str n) = n"
proof (induction n rule: nat_str.induct)
  case (1 n)
  show ?case
  proof (cases "n < 10")
    case True
    then show ?thesis by (subst nat_str.simps) (simp add: digits_val_def digit_val_digit_char)
  next
    case False
    with 1 have "digits_val (nat_str (n div 10)) = n div 10" by simp
    with False show ?thesis
      by (subst nat_str.simps) (simp add: digits_val_def digit_val_digit_char)
  qed
qed

lemma is_digit_facts:
  "is_digit c \<Longrightarrow> c \<noteq> CHR ''_'' \<and> c \<noteq> CHR ''-'' \<and> c \<noteq> CHR ''+'' \<and> \<not> is_space c"
  by (auto simp: is_digit_def is_space_def Let_def)

lemma split_char_absent: "c \<notin> set s \<Longrightarrow> split_char c s = [s]"
  by (induction s) auto

lemma parse_digits_nat_str [simp]: "parse_digits (nat_str n) = Some n"
proof -
  have "CHR ''_'' \<notin> set (nat_str n)"
    using nat_str_digits [of n] is_digit_facts by (auto simp: list_all_iff)
  then show ?thesis
    by (simp add: parse_digits_def split_char_absent digits_val_nat_str nat_str_digits Let_def)
qed

lemma int_of_str_int_str [simp]: "int_of_str (int_str i) = Some i"
proof -
  have digs: "\<forall>c \<in> set (nat_str n). is_digit c" for n
    using nat_str_digits by (simp add: list_all_iff)
  have sp: "strip (nat_str n) = nat_str n" for n
    by (rule strip_no_space) (use digs is_digit_facts in blast)
  have sp': "strip (CHR ''-'' # nat_str n) = CHR ''-'' # nat_str n" for n
  proof (rule strip_no_space)
    have "\<not> is_space (CHR ''-'')" by (simp add: is_space_def)
    then show "\<forall>c \<in> set (CHR ''-'' # nat_str n). \<not> is_space c"
      using digs is_digit_facts by auto
  qed
  show ?thesis
  proof (cases "i < 0")
    case True
    then show ?thesis by (simp add: int_of_str_def int_str_def sp')
  next
    case False
    obtain c t where ct: "nat_str (nat i) = c # t" by (meson neq_Nil_conv nat_str_not_Nil)
    with digs [of "nat i"] have "c \<noteq> CHR ''-''" "c \<noteq> CHR ''+''"
      using is_digit_facts by auto
    then show ?thesis
      using False sp [of "nat i"] ct parse_digits_nat_str [of "nat i"]
      by (simp add: int_of_str_def int_str_def)
  qed
qed

lemma inj_int_str: "inj int_str"
  by (metis injI int_of_str_int_str option.inject)

section \<open>\<open>fnmatch.fnmatchcase\<close>\<close>

datatype glob_item = GSingle char | GRange char char

datatype glob_tok = GAny | GOne | GLit char | GClass bool "glob_item list"

text \<open>The text of a bracket class and what follows it; \<^theory_text>\<open>None\<close> when the bracket never
  closes, in which case the bracket stands for itself.\<close>

definition glob_class_split :: "string \<Rightarrow> (bool \<times> string \<times> string) option" where
  "glob_class_split s =
     (let neg = startswith s ''!'';
          s1 = (if neg then tl s else s);
          lead = startswith s1 '']'';
          s2 = (if lead then tl s1 else s1)
      in case split_once '']'' s2 of
           None \<Rightarrow> None
         | Some (a, rest) \<Rightarrow> Some (neg, (if lead then CHR '']'' # a else a), rest))"

fun glob_items :: "string \<Rightarrow> glob_item list" where
  "glob_items [] = []"
| "glob_items [c] = [GSingle c]"
| "glob_items [c, d] = [GSingle c, GSingle d]"
| "glob_items (c # d # e # s) =
     (if d = CHR ''-'' then GRange c e # glob_items s else GSingle c # glob_items (d # e # s))"

lemma glob_class_split_length:
  assumes "glob_class_split s = Some (n, b, r)"
  shows "length r < length s"
proof -
  obtain a t where "split_once '']'' t = Some (a, r)" "length t \<le> length s"
    using assms by (auto simp: glob_class_split_def Let_def split: option.splits if_splits)
  then show ?thesis by (auto dest!: split_once_Some)
qed

function glob_parse :: "string \<Rightarrow> glob_tok list" where
  "glob_parse [] = []"
| "glob_parse (c # s) =
     (if c = CHR ''*'' then GAny # glob_parse s
      else if c = CHR ''?'' then GOne # glob_parse s
      else if c = CHR ''['' then
        (case glob_class_split s of
           None \<Rightarrow> GLit c # glob_parse s
         | Some (neg, body, rest) \<Rightarrow> GClass neg (glob_items body) # glob_parse rest)
      else GLit c # glob_parse s)"
  by pat_completeness auto
termination
  by (relation "measure length") (auto dest: glob_class_split_length)

definition glob_item_match :: "char \<Rightarrow> glob_item \<Rightarrow> bool" where
  "glob_item_match c it =
     (case it of GSingle d \<Rightarrow> c = d
      | GRange a b \<Rightarrow> (of_char a :: nat) \<le> of_char c \<and> (of_char c :: nat) \<le> of_char b)"

fun glob_match :: "glob_tok list \<Rightarrow> string \<Rightarrow> bool" where
  "glob_match [] s = (s = [])"
| "glob_match (GAny # ts) [] = glob_match ts []"
| "glob_match (GAny # ts) (c # s) = (glob_match ts (c # s) \<or> glob_match (GAny # ts) s)"
| "glob_match (GOne # ts) [] = False"
| "glob_match (GOne # ts) (c # s) = glob_match ts s"
| "glob_match (GLit d # ts) [] = False"
| "glob_match (GLit d # ts) (c # s) = (c = d \<and> glob_match ts s)"
| "glob_match (GClass neg is # ts) [] = False"
| "glob_match (GClass neg is # ts) (c # s) =
     (list_ex (glob_item_match c) is \<noteq> neg \<and> glob_match ts s)"

definition fnmatchcase :: "string \<Rightarrow> string \<Rightarrow> bool" where
  "fnmatchcase name pat = glob_match (glob_parse pat) name"

lemma glob_match_any: "glob_match (GAny # ts) s \<longleftrightarrow> (\<exists>a b. s = a @ b \<and> glob_match ts b)"
proof (induction s)
  case (Cons c s)
  show ?case
  proof
    assume "glob_match (GAny # ts) (c # s)"
    then consider "glob_match ts (c # s)" | "glob_match (GAny # ts) s" by auto
    then show "\<exists>a b. c # s = a @ b \<and> glob_match ts b"
    proof cases
      case 1
      then show ?thesis by (intro exI [of _ "[]"] exI [of _ "c # s"]) simp
    next
      case 2
      with Cons.IH obtain a b where "s = a @ b" "glob_match ts b" by blast
      then show ?thesis by (intro exI [of _ "c # a"] exI [of _ b]) simp
    qed
  next
    assume "\<exists>a b. c # s = a @ b \<and> glob_match ts b"
    then obtain a b where ab: "c # s = a @ b" "glob_match ts b" by blast
    then show "glob_match (GAny # ts) (c # s)" using Cons.IH by (cases a) auto
  qed
qed auto

lemma fnmatchcase_star [simp]: "fnmatchcase s ''*''"
  by (auto simp: fnmatchcase_def glob_match_any)

definition glob_free :: "string \<Rightarrow> bool" where
  "glob_free s = list_all (\<lambda>c. c \<noteq> CHR ''*'' \<and> c \<noteq> CHR ''?'' \<and> c \<noteq> CHR ''['') s"

lemma glob_parse_free: "glob_free p \<Longrightarrow> glob_parse (p @ q) = map GLit p @ glob_parse q"
  by (induction p) (auto simp: glob_free_def)

lemma glob_match_lits: "glob_match (map GLit p @ ts) s \<longleftrightarrow> (\<exists>r. s = p @ r \<and> glob_match ts r)"
proof (induction p arbitrary: s)
  case (Cons c p)
  then show ?case by (cases s) auto
qed simp

text \<open>A pattern without metacharacters matches itself only; one ending in a single star
  matches exactly the strings that extend its literal part.\<close>

lemma fnmatchcase_literal: "glob_free p \<Longrightarrow> fnmatchcase s p \<longleftrightarrow> s = p"
  using glob_parse_free [of p "[]"] glob_match_lits [of p "[]" s] by (auto simp: fnmatchcase_def)

lemma fnmatchcase_prefix:
  assumes "glob_free p"
  shows "fnmatchcase s (p @ ''*'') \<longleftrightarrow> startswith s p"
  using glob_parse_free [OF assms, of "''*''"] glob_match_lits [of p "[GAny]" s]
  by (auto simp: fnmatchcase_def glob_match_any startswith_prefix prefix_def)

section \<open>\<open>str(v)\<close> and \<open>int(v)\<close> of dynamic values\<close>

text \<open>The representation of a string chooses double quotes when it holds a single quote and no
  double quote; backslashes, the quote and the usual control characters are escaped.\<close>

definition repr_char :: "char \<Rightarrow> char \<Rightarrow> string" where
  "repr_char q c =
     (if c = CHR 0x5C then [CHR 0x5C, CHR 0x5C]
      else if c = q then [CHR 0x5C, q]
      else if c = CHR 0x0A then [CHR 0x5C, CHR ''n'']
      else if c = CHR 0x0D then [CHR 0x5C, CHR ''r'']
      else if c = CHR 0x09 then [CHR 0x5C, CHR ''t'']
      else [c])"

definition repr_str :: "string \<Rightarrow> string" where
  "repr_str s =
     (let q = (if CHR 0x27 \<in> set s \<and> CHR 0x22 \<notin> set s then CHR 0x22 else CHR 0x27)
      in [q] @ concat (map (repr_char q) s) @ [q])"

fun py_repr :: "pyval \<Rightarrow> string" where
  "py_repr PNone = ''None''"
| "py_repr (PBool b) = (if b then ''True'' else ''False'')"
| "py_repr (PInt i) = int_str i"
| "py_repr (PFloat s) = s"
| "py_repr (PStr s) = repr_str s"
| "py_repr (PList xs) = ''['' @ join '', '' (map py_repr xs) @ '']''"
| "py_repr (PDict d) =
     ''{'' @ join '', '' (map (\<lambda>(k, v). repr_str k @ '': '' @ py_repr v) d) @ ''}''"

definition py_str :: "pyval \<Rightarrow> string" where
  "py_str v = (case v of PStr s \<Rightarrow> s | _ \<Rightarrow> py_repr v)"

lemma py_str_PStr [simp, py_simps]: "py_str (PStr s) = s"
  by (simp add: py_str_def)

text \<open>\<open>int(v)\<close>; a float is truncated at its point (its text has no exponent).\<close>

definition py_int :: "pyval \<Rightarrow> int result" where
  "py_int v =
     (case v of
        PInt i \<Rightarrow> Inr i
      | PBool b \<Rightarrow> Inr (if b then 1 else 0)
      | PFloat s \<Rightarrow> (case int_of_str (before_first ''.'' s) of Some i \<Rightarrow> Inr i | None \<Rightarrow> Inl (ValueError s))
      | PStr s \<Rightarrow> (case int_of_str s of Some i \<Rightarrow> Inr i | None \<Rightarrow> Inl (ValueError s))
      | _ \<Rightarrow> Inl (TypeError ''int() argument must be a string or a number''))"

lemma py_int_PInt [simp, py_simps]: "py_int (PInt i) = Inr i"
  by (simp add: py_int_def)

text \<open>\<open>int(d.get(k) or default)\<close>.\<close>

definition int_field :: "pyval dict \<Rightarrow> string \<Rightarrow> int \<Rightarrow> int result" where
  "int_field d k dflt = py_int (py_or (pget d k) (PInt dflt))"

text \<open>\<open>str(d.get(k) or default)\<close>.\<close>

definition str_field :: "pyval dict \<Rightarrow> string \<Rightarrow> string \<Rightarrow> string" where
  "str_field d k dflt = py_str (py_or (pget d k) (PStr dflt))"

lemma str_field_simps [simp]:
  "pget d k = PNone \<Longrightarrow> str_field d k s = s"
  "pget d k = PStr [] \<Longrightarrow> str_field d k s = s"
  "pget d k = PStr (c # cs) \<Longrightarrow> str_field d k s = c # cs"
  by (simp_all add: str_field_def py_or_def)

lemma int_field_simps [simp]:
  "pget d k = PNone \<Longrightarrow> int_field d k i = Inr i"
  "pget d k = PInt j \<Longrightarrow> int_field d k i = Inr (if j = 0 then i else j)"
  by (simp_all add: int_field_def py_or_def)

section \<open>Sequencing results\<close>

definition rbind :: "'a result \<Rightarrow> ('a \<Rightarrow> 'b result) \<Rightarrow> 'b result" where
  "rbind r f = (case r of Inl e \<Rightarrow> Inl e | Inr v \<Rightarrow> f v)"

lemma rbind_simps [simp]: "rbind (Inl e) f = Inl e" "rbind (Inr v) f = f v"
  by (simp_all add: rbind_def)

lemma rbind_Inr: "rbind r f = Inr y \<longleftrightarrow> (\<exists>v. r = Inr v \<and> f v = Inr y)"
  by (cases r) simp_all

fun rmap :: "('a \<Rightarrow> 'b result) \<Rightarrow> 'a list \<Rightarrow> 'b list result" where
  "rmap f [] = Inr []"
| "rmap f (x # xs) = rbind (f x) (\<lambda>y. rbind (rmap f xs) (\<lambda>ys. Inr (y # ys)))"

lemma rmap_Inr: "rmap f xs = Inr ys \<longleftrightarrow> list_all2 (\<lambda>x y. f x = Inr y) xs ys"
  by (induction xs arbitrary: ys) (auto simp: rbind_Inr list_all2_Cons1)

section \<open>Iteration and attribute access\<close>

text \<open>\<open>for m in v\<close> over a dynamic value, and attribute access \<open>v.get\<close> on one.\<close>

definition py_iter :: "pyval \<Rightarrow> pyval list result" where
  "py_iter v =
     (case v of
        PList xs \<Rightarrow> Inr xs
      | PStr s \<Rightarrow> Inr (map (\<lambda>c. PStr [c]) s)
      | PDict d \<Rightarrow> Inr (map (\<lambda>(k, _). PStr k) d)
      | _ \<Rightarrow> Inl (TypeError ''object is not iterable''))"

definition as_dict :: "pyval \<Rightarrow> pyval dict result" where
  "as_dict v = (case v of PDict d \<Rightarrow> Inr d | _ \<Rightarrow> Inl (AttributeError ''get''))"

lemma dict_or_empty_PDict [simp]: "dict_or_empty (PDict d) = d"
  by (simp add: dict_or_empty_def)

lemma as_dict_PDict [simp]: "as_dict (PDict d) = Inr d"
  by (simp add: as_dict_def)

end
