(* ===== verification/Tier_Policy.thy ===== *)
theory Tier_Policy imports Py_Strings "HOL-Library.List_Lexorder" "HOL-Library.Char_ord" begin

text \<open>
  \<open>core/tier_policy.py\<close>: the table of what each licence tier unlocks and the capability
  checks that enforcement code calls.  The table rows are the source's literal dictionaries;
  every check returns the source's response dictionary.  The lemmas show which inputs are
  allowed, that paid tiers only ever widen the numeric caps and features, and that following
  the suggested upgrades ends at a tier that allows the request.
\<close>

section \<open>The policy table\<close>

definition UNLIMITED :: int where
  "UNLIMITED = -1"

definition FREE_UNLOCKED_CATEGORIES :: "string list" where
  "FREE_UNLOCKED_CATEGORIES =
     [''compute'', ''serverless'', ''object_storage'', ''relational_db'',
      ''api_gateway'', ''iam'', ''network'', ''secrets'', ''kms'', ''queue'']"

definition FREE_LOCKED_CATEGORIES :: "string list" where
  "FREE_LOCKED_CATEGORIES = [''nosql'', ''eventing'']"

definition RATE_LIMITS_RPS :: "int dict" where
  "RATE_LIMITS_RPS =
     [(''free'', 10), (''student'', 50), (''developer'', 200), (''enterprise'', UNLIMITED)]"

definition free_quantities :: "int dict" where
  "free_quantities =
     [(''vm'', 1), (''database'', 1), (''api_gateway'', 1), (''bucket'', 1), (''queue'', 1),
      (''lambda_function'', 3), (''secret'', 5), (''kms_key'', 2), (''iam_user'', 5)]"

definition student_quantities :: "int dict" where
  "student_quantities =
     [(''vm'', 10), (''database'', 5), (''api_gateway'', 5), (''bucket'', 5), (''queue'', 5),
      (''lambda_function'', 25), (''secret'', 50), (''kms_key'', 10), (''iam_user'', 50)]"

definition developer_quantities :: "int dict" where
  "developer_quantities =
     [(''vm'', 50), (''database'', UNLIMITED), (''api_gateway'', UNLIMITED),
      (''bucket'', UNLIMITED), (''queue'', UNLIMITED), (''lambda_function'', UNLIMITED),
      (''secret'', UNLIMITED), (''kms_key'', UNLIMITED), (''iam_user'', UNLIMITED)]"

definition enterprise_quantities :: "int dict" where
  "enterprise_quantities = map (\<lambda>k. (k, UNLIMITED)) (dkeys free_quantities)"

text \<open>A dictionary of integers as a dictionary of values.\<close>

definition qvals :: "int dict \<Rightarrow> pyval dict" where
  "qvals d = map (\<lambda>(k, v). (k, PInt v)) d"

definition TIER_POLICY_free :: "pyval dict" where
  "TIER_POLICY_free = [
     (''label'', PStr ''Free''),
     (''headline'', PStr ''Build & run one complete cloud app, free forever''),
     (''price_inr_monthly'', PInt 0),
     (''price_inr_annual'', PInt 0),
     (''max_seats'', PInt 1),
     (''min_seats'', PInt 1),
     (''max_tenants'', PInt 1),
     (''max_spaces'', PInt 1),
     (''primary_cloud_required'', PBool False),
     (''providers'', PList [PStr ''aws'', PStr ''gcp'', PStr ''azure'']),
     (''service_categories_unlocked'', PList (map PStr (sort FREE_UNLOCKED_CATEGORIES))),
     (''service_categories_locked'', PList (map PStr (sort FREE_LOCKED_CATEGORIES))),
     (''per_space_quantities'', PDict (qvals free_quantities)),
     (''max_vm_size_tier'', PStr ''small''),
     (''max_db_size_tier'', PStr ''small''),
     (''storage_bytes_cap'', PInt (1 * 1024 ^ 3)),
     (''appliance_disk_gb'', PInt 30),
     (''auto_grow_disk'', PBool False),
     (''activity_log_retention_hours'', PInt 24),
     (''features'', PDict [(''cloud_sdks'', PStr ''Native (override endpoint)''),
          (''provider_clis'', PStr ''Native (override endpoint)''),
          (''api_access'', PStr (''10 categories '' @ [CHR 0xD7] @ '' 3 clouds'')),
          (''workload_scale'', PStr (''Hello-world apps '' @ [CHR 0xB7] @ '' 1 cloud at a time'')),
          (''cloud_consoles'', PStr (''3 consoles '' @ [CHR 0xB7] @ '' locked services read-only'')),
          (''tier_support'', PStr (''Community '' @ [CHR 0xB7] @ '' GitHub'')),
          (''cloud_shell'', PBool False),
          (''cedar_enforcement'', PBool False),
          (''cloudsim_power'', PBool False),
          (''cloudsim_network_sla_migration'', PBool False),
          (''cost_simulation'', PBool False),
          (''terraform_export'', PStr ''basic''),
          (''terraform_deploy_to_real'', PBool False),
          (''audit_export_sinks'', PBool False),
          (''sso'', PBool False),
          (''cross_tenant_rbac'', PBool False),
          (''helm'', PBool False),
          (''custom_domain'', PBool False),
          (''branding'', PBool False),
          (''notifications'', PBool False),
          (''ci_integration'', PBool False),
          (''scaffolding_generator'', PBool False)]),
     (''support'', PStr ''community''),
     (''update_channel'', PStr ''quarterly'')]"

definition TIER_POLICY_student :: "pyval dict" where
  "TIER_POLICY_student = [
     (''label'', PStr ''Student''),
     (''headline'', PStr ''All services on one cloud, build many apps''),
     (''price_inr_monthly'', PInt 299),
     (''price_inr_annual'', PInt 2099),
     (''max_seats'', PInt 1),
     (''min_seats'', PInt 1),
     (''max_tenants'', PInt 1),
     (''max_spaces'', PInt 5),
     (''primary_cloud_required'', PBool True),
     (''providers'', PStr ''primary_cloud_only''),
     (''service_categories_unlocked'', PStr ''ALL''),
     (''service_categories_locked'', PList []),
     (''per_space_quantities'', PDict (qvals student_quantities)),
     (''max_vm_size_tier'', PStr ''medium''),
     (''max_db_size_tier'', PStr ''medium''),
     (''storage_bytes_cap'', PInt (10 * 1024 ^ 3)),
     (''appliance_disk_gb'', PInt 60),
     (''auto_grow_disk'', PBool True),
     (''activity_log_retention_hours'', PInt (7 * 24)),
     (''features'', PDict [(''cloud_sdks'', PStr ''Native (override endpoint)''),
          (''provider_clis'', PStr ''Native (override endpoint)''),
          (''api_access'', PStr (''All services '' @ [CHR 0xB7] @ '' primary cloud only'')),
          (''workload_scale'', PStr ''Full app on your primary cloud''),
          (''cloud_consoles'', PStr (''1 primary unlocked '' @ [CHR 0xB7] @ '' 2 read-only'')),
          (''tier_support'', PStr ''Discord + GitHub''),
          (''cloud_shell'', PBool True),
          (''cedar_enforcement'', PBool False),
          (''cloudsim_power'', PBool True),
          (''cloudsim_network_sla_migration'', PBool False),
          (''cost_simulation'', PStr ''totals''),
          (''terraform_export'', PStr ''full''),
          (''terraform_deploy_to_real'', PBool False),
          (''audit_export_sinks'', PBool False),
          (''sso'', PBool False),
          (''cross_tenant_rbac'', PBool False),
          (''helm'', PBool False),
          (''custom_domain'', PBool False),
          (''branding'', PBool False),
          (''notifications'', PBool False),
          (''ci_integration'', PBool False),
          (''scaffolding_generator'', PBool False)]),
     (''support'', PStr ''community + monthly office hours''),
     (''update_channel'', PStr ''monthly'')]"

definition TIER_POLICY_developer :: "pyval dict" where
  "TIER_POLICY_developer = [
     (''label'', PStr ''Developer''),
     (''headline'', PStr ''All clouds + advanced features + CI''),
     (''price_inr_monthly'', PInt 599),
     (''price_inr_annual'', PInt 5099),
     (''max_seats'', PInt 1),
     (''min_seats'', PInt 1),
     (''max_tenants'', PInt 1),
     (''max_spaces'', PInt 25),
     (''primary_cloud_required'', PBool False),
     (''providers'', PList [PStr ''aws'', PStr ''gcp'', PStr ''azure'']),
     (''service_categories_unlocked'', PStr ''ALL''),
     (''service_categories_locked'', PList []),
     (''per_space_quantities'', PDict (qvals developer_quantities)),
     (''max_vm_size_tier'', PStr ''large''),
     (''max_db_size_tier'', PStr ''large''),
     (''storage_bytes_cap'', PInt (100 * 1024 ^ 3)),
     (''appliance_disk_gb'', PInt 120),
     (''auto_grow_disk'', PBool True),
     (''activity_log_retention_hours'', PInt (30 * 24)),
     (''features'', PDict [(''cloud_sdks'', PStr ''Native (override endpoint)''),
          (''provider_clis'', PStr ''Native (override endpoint)''),
          (''api_access'', PStr (''All 35 services '' @ [CHR 0xD7] @ '' 3 clouds'')),
          (''workload_scale'', PStr (''Multi-cloud apps '' @ [CHR 0xB7] @ '' CI workloads'')),
          (''cloud_consoles'', PStr ''3 fully unlocked''),
          (''tier_support'', PStr (''Email '' @ [CHR 0xB7] @ '' 48 h response'')),
          (''cloud_shell'', PBool True),
          (''cedar_enforcement'', PBool True),
          (''cloudsim_power'', PBool True),
          (''cloudsim_network_sla_migration'', PBool True),
          (''cost_simulation'', PStr ''per_resource''),
          (''terraform_export'', PStr ''full''),
          (''terraform_deploy_to_real'', PStr ''single_cloud''),
          (''audit_export_sinks'', PBool False),
          (''sso'', PBool False),
          (''cross_tenant_rbac'', PBool False),
          (''helm'', PBool False),
          (''custom_domain'', PBool False),
          (''branding'', PBool False),
          (''notifications'', PStr ''webhook''),
          (''ci_integration'', PBool True),
          (''scaffolding_generator'', PBool True)]),
     (''support'', PStr ''business-hours email (24h SLA)''),
     (''update_channel'', PStr ''weekly + preview channel'')]"

definition TIER_POLICY_enterprise :: "pyval dict" where
  "TIER_POLICY_enterprise = [
     (''label'', PStr ''Enterprise''),
     (''headline'', PStr ''Team + on-prem + SSO + 24/7 support''),
     (''price_inr_monthly_per_seat'', PInt 99),
     (''price_inr_monthly'', PInt (99 * 10)),
     (''price_inr_annual'', PNone),
     (''max_seats'', PInt UNLIMITED),
     (''min_seats'', PInt 10),
     (''max_tenants'', PInt UNLIMITED),
     (''max_spaces'', PInt UNLIMITED),
     (''primary_cloud_required'', PBool False),
     (''providers'', PList [PStr ''aws'', PStr ''gcp'', PStr ''azure'']),
     (''service_categories_unlocked'', PStr ''ALL''),
     (''service_categories_locked'', PList []),
     (''per_space_quantities'', PDict (qvals enterprise_quantities)),
     (''max_vm_size_tier'', PStr ''huge''),
     (''max_db_size_tier'', PStr ''huge''),
     (''storage_bytes_cap'', PInt UNLIMITED),
     (''appliance_disk_gb'', PInt 240),
     (''auto_grow_disk'', PBool True),
     (''activity_log_retention_hours'', PInt (90 * 24)),
     (''features'', PDict [(''cloud_sdks'', PStr ''Native (override endpoint)''),
          (''provider_clis'', PStr ''Native (override endpoint)''),
          (''api_access'', PStr ''+ gRPC + signed audit log''),
          (''workload_scale'', PStr ''Production-scale workloads''),
          (''cloud_consoles'', PStr ''+ custom branding / domain / auth''),
          (''tier_support'', PStr (''Dedicated Slack '' @ [CHR 0xB7] @ '' SLA'')),
          (''cloud_shell'', PBool True),
          (''cedar_enforcement'', PBool True),
          (''cloudsim_power'', PBool True),
          (''cloudsim_network_sla_migration'', PBool True),
          (''cost_simulation'', PStr ''per_resource_and_chargeback''),
          (''terraform_export'', PStr ''full_plus_import''),
          (''terraform_deploy_to_real'', PStr ''multi_cloud''),
          (''audit_export_sinks'', PBool True),
          (''sso'', PBool True),
          (''cross_tenant_rbac'', PBool True),
          (''helm'', PBool True),
          (''custom_domain'', PBool True),
          (''branding'', PBool True),
          (''notifications'', PStr ''all_channels''),
          (''ci_integration'', PBool True),
          (''scaffolding_generator'', PBool True)]),
     (''support'', PStr ''24/7 + dedicated CSM''),
     (''update_channel'', PStr ''LTS branches'')]"

definition SERVICE_CATEGORY :: "string dict" where
  "SERVICE_CATEGORY = [
     (''ec2'', ''compute''),
     (''lambda'', ''serverless''),
     (''s3'', ''object_storage''),
     (''rds'', ''relational_db''),
     (''apigateway'', ''api_gateway''),
     (''iam'', ''iam''),
     (''vpc'', ''network''),
     (''secretsmanager'', ''secrets''),
     (''kms'', ''kms''),
     (''sqs'', ''queue''),
     (''dynamodb'', ''nosql''),
     (''eventbridge'', ''eventing''),
     (''compute'', ''compute''),
     (''functions'', ''serverless''),
     (''storage'', ''object_storage''),
     (''cloudsql'', ''relational_db''),
     (''secretmanager'', ''secrets''),
     (''pubsub'', ''queue''),
     (''firestore'', ''nosql''),
     (''eventarc'', ''eventing''),
     (''vm'', ''compute''),
     (''functionapp'', ''serverless''),
     (''sql'', ''relational_db''),
     (''apim'', ''api_gateway''),
     (''rbac'', ''iam''),
     (''vnet'', ''network''),
     (''keyvault'', ''secrets''),
     (''servicebus'', ''queue''),
     (''cosmos'', ''nosql''),
     (''eventgrid'', ''eventing'')]"

definition TIER_POLICY :: "(pyval dict) dict" where
  "TIER_POLICY =
     [(''free'', TIER_POLICY_free), (''student'', TIER_POLICY_student),
      (''developer'', TIER_POLICY_developer), (''enterprise'', TIER_POLICY_enterprise)]"

section \<open>Tier names\<close>

definition LEGACY_TIER_MAP :: "string dict" where
  "LEGACY_TIER_MAP =
     [(''pro'', ''developer''), (''max'', ''developer''), (''dev'', ''developer''),
      (''edu'', ''student''), (''ent'', ''enterprise'')]"

definition KNOWN_TIERS :: "string list" where
  "KNOWN_TIERS = [''free'', ''student'', ''developer'', ''enterprise'']"

text \<open>The argument \<open>None\<close> is the empty string: the code only tests it for truth.\<close>

definition normalize_tier :: "string \<Rightarrow> string" where
  "normalize_tier tier =
     (if tier = [] then ''free''
      else let t = lower (strip tier);
               t' = dget LEGACY_TIER_MAP t t
           in if t' \<in> set KNOWN_TIERS then t' else ''free'')"

definition rate_limit_rps :: "string \<Rightarrow> int" where
  "rate_limit_rps tier = dget RATE_LIMITS_RPS (normalize_tier tier) 10"

definition policy_for :: "string \<Rightarrow> pyval dict" where
  "policy_for tier = dget TIER_POLICY (normalize_tier tier) []"

definition all_tiers :: "(pyval dict) dict" where
  "all_tiers = map (\<lambda>(k, v). (k, v)) TIER_POLICY"

text \<open>\<open>order.index(tier)\<close>, and the tier after it; an unknown name gives \<open>student\<close>.\<close>

fun index_of :: "'a \<Rightarrow> 'a list \<Rightarrow> nat option" where
  "index_of x [] = None"
| "index_of x (y # ys) = (if x = y then Some 0 else map_option Suc (index_of x ys))"

definition next_tier :: "string \<Rightarrow> string" where
  "next_tier tier =
     (let order = [''free'', ''student'', ''developer'', ''enterprise'']
      in case index_of tier order of
           Some i \<Rightarrow> order ! min (i + 1) (length order - 1)
         | None \<Rightarrow> ''student'')"

section \<open>Capability checks\<close>

text \<open>Absent clouds (\<open>None\<close>) are the empty string; the code tests both for truth only.\<close>

definition check_service :: "string \<Rightarrow> string \<Rightarrow> string \<Rightarrow> string \<Rightarrow> pyval dict" where
  "check_service tier service_key primary_cloud request_cloud =
     (let p = policy_for tier;
          tier_norm = normalize_tier tier;
          providers = dget p ''providers'' (PList []);
          gate =
            (if providers = PStr ''primary_cloud_only'' then
               (if request_cloud \<noteq> [] \<and> primary_cloud = [] then
                  Some [(''ok'', PBool False), (''code'', PStr ''tier_primary_cloud_unset''),
                        (''reason'', PStr (''Student tier requires a primary cloud to be selected. ''
                           @ ''Re-activate from the dashboard or pick one on /pricing.'')),
                        (''upgrade_to'', PStr ''developer'')]
                else if request_cloud \<noteq> [] \<and> primary_cloud \<noteq> [] \<and> request_cloud \<noteq> primary_cloud then
                  Some [(''ok'', PBool False), (''code'', PStr ''tier_provider_locked''),
                        (''reason'', PStr (''Student tier is locked to '' @ primary_cloud
                           @ ''; switch primary cloud or upgrade to Developer'')),
                        (''upgrade_to'', PStr ''developer'')]
                else None)
             else (case providers of
                     PList ps \<Rightarrow>
                       if request_cloud \<noteq> [] \<and> PStr request_cloud \<notin> set ps then
                         Some [(''ok'', PBool False), (''code'', PStr ''tier_provider_locked''),
                               (''reason'', PStr (request_cloud @ '' not available on '' @ tier_norm @ '' tier'')),
                               (''upgrade_to'', PStr (if tier_norm = ''free'' then ''student'' else ''developer''))]
                       else None
                   | _ \<Rightarrow> None))
      in case gate of
           Some denial \<Rightarrow> denial
         | None \<Rightarrow>
             (let unlocked = dget p ''service_categories_unlocked'' (PList [])
              in if unlocked = PStr ''ALL'' then [(''ok'', PBool True)]
                 else (case map_of SERVICE_CATEGORY service_key of
                         None \<Rightarrow> [(''ok'', PBool True)]
                       | Some category \<Rightarrow>
                           if PStr category \<notin> set (list_items unlocked) then
                             [(''ok'', PBool False), (''code'', PStr ''tier_service_locked''),
                              (''reason'', PStr (service_key @ '' ('' @ category @ '') requires ''
                                 @ (if category \<in> {''nosql'', ''eventing''} then ''Developer'' else ''Student'')
                                 @ '' tier or higher'')),
                              (''upgrade_to'', PStr (if category \<in> {''nosql'', ''eventing''}
                                                       then ''developer'' else ''student'')),
                              (''service'', PStr service_key), (''category'', PStr category)]
                           else [(''ok'', PBool True)])))"

definition check_quantity :: "string \<Rightarrow> string \<Rightarrow> int \<Rightarrow> pyval dict" where
  "check_quantity tier resource_type current_count =
     (let p = policy_for tier;
          caps = dict_or_empty (pget p ''per_space_quantities'')
      in case pget caps resource_type of
           PInt cap \<Rightarrow>
             if cap = UNLIMITED then [(''ok'', PBool True)]
             else if current_count + 1 > cap then
               [(''ok'', PBool False), (''code'', PStr ''tier_quantity_limit''),
                (''reason'', PStr (tier @ '' tier allows max '' @ int_str cap @ '' '' @ resource_type
                   @ ''(s) per space; you have '' @ int_str current_count)),
                (''upgrade_to'', PStr (next_tier (normalize_tier tier))),
                (''resource_type'', PStr resource_type), (''limit'', PInt cap),
                (''current'', PInt current_count)]
             else [(''ok'', PBool True)]
         | _ \<Rightarrow> [(''ok'', PBool True)])"

definition check_storage :: "string \<Rightarrow> int \<Rightarrow> int \<Rightarrow> pyval dict" where
  "check_storage tier current_bytes additional_bytes =
     (case pget (policy_for tier) ''storage_bytes_cap'' of
        PInt cap \<Rightarrow>
          if cap = UNLIMITED then [(''ok'', PBool True)]
          else if current_bytes + additional_bytes > cap then
            [(''ok'', PBool False), (''code'', PStr ''tier_storage_limit''),
             (''reason'', PStr (tier @ '' tier allows '' @ int_str (cap div (1024 ^ 3))
                @ '' GB total storage; you have '' @ int_str (current_bytes div (1024 ^ 2)) @ '' MB'')),
             (''upgrade_to'', PStr (next_tier (normalize_tier tier))),
             (''limit_bytes'', PInt cap), (''current_bytes'', PInt current_bytes)]
          else [(''ok'', PBool True)]
      | _ \<Rightarrow> [(''ok'', PBool True)])"

definition check_feature :: "string \<Rightarrow> string \<Rightarrow> pyval dict" where
  "check_feature tier feature_name =
     (let p = policy_for tier;
          val = pget (dict_or_empty (pget p ''features'')) feature_name
      in if truthy val then [(''ok'', PBool True), (''value'', val)]
         else [(''ok'', PBool False), (''code'', PStr ''tier_feature_locked''),
               (''reason'', PStr (feature_name @ '' requires a higher tier'')),
               (''upgrade_to'', PStr (next_tier (normalize_tier tier))),
               (''feature'', PStr feature_name)])"

text \<open>Every row stores an integer under \<open>max_spaces\<close> (see \<open>policy_max_spaces\<close>), so the last
  branch is never taken.\<close>

definition check_max_spaces :: "string \<Rightarrow> int \<Rightarrow> pyval dict" where
  "check_max_spaces tier current_spaces =
     (case pget (policy_for tier) ''max_spaces'' of
        PInt cap \<Rightarrow>
          if cap = UNLIMITED then [(''ok'', PBool True)]
          else if current_spaces + 1 > cap then
            [(''ok'', PBool False), (''code'', PStr ''tier_max_spaces''),
             (''reason'', PStr (tier @ '' tier allows '' @ int_str cap @ '' space(s); you have ''
                @ int_str current_spaces)),
             (''upgrade_to'', PStr (next_tier (normalize_tier tier))),
             (''limit'', PInt cap), (''current'', PInt current_spaces)]
          else [(''ok'', PBool True)]
      | _ \<Rightarrow> [])"

text \<open>What a caller reads of a response.\<close>

definition resp_ok :: "pyval dict \<Rightarrow> bool" where
  "resp_ok r = truthy (pget r ''ok'')"

definition resp_upgrade :: "pyval dict \<Rightarrow> string" where
  "resp_upgrade r = (case pget r ''upgrade_to'' of PStr s \<Rightarrow> s | _ \<Rightarrow> [])"


section \<open>The table row by row\<close>

text \<open>Every normalised name is one of the four rows; rank orders them.\<close>

definition tier_rank :: "string \<Rightarrow> nat" where
  "tier_rank t = (case index_of (normalize_tier t) KNOWN_TIERS of Some i \<Rightarrow> i | None \<Rightarrow> 0)"

lemma normalize_known: "normalize_tier t \<in> set KNOWN_TIERS"
  by (simp add: normalize_tier_def KNOWN_TIERS_def Let_def)

lemma normalize_cases:
  obtains "normalize_tier t = ''free''" | "normalize_tier t = ''student''"
    | "normalize_tier t = ''developer''" | "normalize_tier t = ''enterprise''"
  using normalize_known [of t] by (auto simp: KNOWN_TIERS_def)

lemma normalize_fixed: "t \<in> set KNOWN_TIERS \<Longrightarrow> normalize_tier t = t"
proof -
  have "list_all (\<lambda>t. normalize_tier t = t) KNOWN_TIERS" by code_simp
  then show "t \<in> set KNOWN_TIERS \<Longrightarrow> normalize_tier t = t" by (simp add: list_all_iff)
qed

lemma normalize_idem [simp]: "normalize_tier (normalize_tier t) = normalize_tier t"
  by (rule normalize_fixed [OF normalize_known])

lemma normalize_names [simp]:
  "normalize_tier ''free'' = ''free''" "normalize_tier ''student'' = ''student''"
  "normalize_tier ''developer'' = ''developer''" "normalize_tier ''enterprise'' = ''enterprise''"
  by (simp_all add: normalize_fixed KNOWN_TIERS_def)

lemma policy_for_rows:
  "normalize_tier t = ''free'' \<Longrightarrow> policy_for t = TIER_POLICY_free"
  "normalize_tier t = ''student'' \<Longrightarrow> policy_for t = TIER_POLICY_student"
  "normalize_tier t = ''developer'' \<Longrightarrow> policy_for t = TIER_POLICY_developer"
  "normalize_tier t = ''enterprise'' \<Longrightarrow> policy_for t = TIER_POLICY_enterprise"
  by (simp_all add: policy_for_def TIER_POLICY_def dget_def)

lemma policy_for_normalize: "policy_for (normalize_tier t) = policy_for t"
  by (simp add: policy_for_def)

lemma policy_providers:
  "dget TIER_POLICY_free ''providers'' d = PList [PStr ''aws'', PStr ''gcp'', PStr ''azure'']"
  "dget TIER_POLICY_student ''providers'' d = PStr ''primary_cloud_only''"
  "dget TIER_POLICY_developer ''providers'' d = PList [PStr ''aws'', PStr ''gcp'', PStr ''azure'']"
  "dget TIER_POLICY_enterprise ''providers'' d = PList [PStr ''aws'', PStr ''gcp'', PStr ''azure'']"
  by code_simp+

lemma policy_unlocked:
  "dget TIER_POLICY_free ''service_categories_unlocked'' d = PList (map PStr (sort FREE_UNLOCKED_CATEGORIES))"
  "dget TIER_POLICY_student ''service_categories_unlocked'' d = PStr ''ALL''"
  "dget TIER_POLICY_developer ''service_categories_unlocked'' d = PStr ''ALL''"
  "dget TIER_POLICY_enterprise ''service_categories_unlocked'' d = PStr ''ALL''"
  by code_simp+

lemma policy_max_spaces:
  "pget TIER_POLICY_free ''max_spaces'' = PInt 1"
  "pget TIER_POLICY_student ''max_spaces'' = PInt 5"
  "pget TIER_POLICY_developer ''max_spaces'' = PInt 25"
  "pget TIER_POLICY_enterprise ''max_spaces'' = PInt UNLIMITED"
  by code_simp+

lemma policy_storage:
  "pget TIER_POLICY_free ''storage_bytes_cap'' = PInt 1073741824"
  "pget TIER_POLICY_student ''storage_bytes_cap'' = PInt 10737418240"
  "pget TIER_POLICY_developer ''storage_bytes_cap'' = PInt 107374182400"
  "pget TIER_POLICY_enterprise ''storage_bytes_cap'' = PInt UNLIMITED"
  by code_simp+

lemma policy_quantities:
  "pget TIER_POLICY_free ''per_space_quantities'' = PDict (qvals free_quantities)"
  "pget TIER_POLICY_student ''per_space_quantities'' = PDict (qvals student_quantities)"
  "pget TIER_POLICY_developer ''per_space_quantities'' = PDict (qvals developer_quantities)"
  "pget TIER_POLICY_enterprise ''per_space_quantities'' = PDict (qvals enterprise_quantities)"
  by code_simp+

lemma pget_qvals: "pget (qvals d) k = (case map_of d k of None \<Rightarrow> PNone | Some v \<Rightarrow> PInt v)"
  by (induction d) (auto simp: pget_def dget_def qvals_def)

lemma resp_ok_True [simp]: "resp_ok ((''ok'', PBool b) # r) = b"
  by (simp add: resp_ok_def pget_def dget_def)

section \<open>Caps\<close>

text \<open>The numeric cap a tier puts on a kind of resource; \<^theory_text>\<open>None\<close> is no cap.\<close>

definition quantity_cap :: "string \<Rightarrow> string \<Rightarrow> int option" where
  "quantity_cap t rt =
     (case pget (dict_or_empty (pget (policy_for t) ''per_space_quantities'')) rt of
        PInt c \<Rightarrow> if c = UNLIMITED then None else Some c
      | _ \<Rightarrow> None)"

definition int_cap :: "string \<Rightarrow> string \<Rightarrow> int option" where
  "int_cap field t =
     (case pget (policy_for t) field of PInt c \<Rightarrow> if c = UNLIMITED then None else Some c | _ \<Rightarrow> None)"

definition within_cap :: "int \<Rightarrow> int option \<Rightarrow> bool" where
  "within_cap n c = (case c of None \<Rightarrow> True | Some m \<Rightarrow> n \<le> m)"

definition cap_le :: "int option \<Rightarrow> int option \<Rightarrow> bool" where
  "cap_le a b = (case b of None \<Rightarrow> True | Some m \<Rightarrow> (case a of None \<Rightarrow> False | Some n \<Rightarrow> n \<le> m))"

lemma cap_le_refl [simp]: "cap_le a a"
  by (simp add: cap_le_def split: option.split)

lemma cap_le_trans: "cap_le a b \<Longrightarrow> cap_le b c \<Longrightarrow> cap_le a c"
  by (auto simp: cap_le_def split: option.splits)

lemma within_cap_le: "within_cap n a \<Longrightarrow> cap_le a b \<Longrightarrow> within_cap n b"
  by (auto simp: within_cap_def cap_le_def split: option.splits)

lemma check_quantity_iff: "resp_ok (check_quantity t rt n) \<longleftrightarrow> within_cap (n + 1) (quantity_cap t rt)"
  by (auto simp: check_quantity_def quantity_cap_def within_cap_def Let_def split: pyval.split)

lemma check_storage_iff:
  "resp_ok (check_storage t cur add) \<longleftrightarrow> within_cap (cur + add) (int_cap ''storage_bytes_cap'' t)"
  by (auto simp: check_storage_def int_cap_def within_cap_def split: pyval.split)

lemma check_max_spaces_iff:
  "resp_ok (check_max_spaces t n) \<longleftrightarrow> within_cap (n + 1) (int_cap ''max_spaces'' t)"
  by (cases rule: normalize_cases [of t])
    (auto simp: check_max_spaces_def int_cap_def within_cap_def policy_for_rows policy_max_spaces)

lemma check_feature_iff:
  "resp_ok (check_feature t f) \<longleftrightarrow> truthy (pget (dict_or_empty (pget (policy_for t) ''features'')) f)"
  by (simp add: check_feature_def Let_def)

text \<open>Each tier's rows are at least as permissive as the rows of the tier below.\<close>

definition row_le :: "pyval dict \<Rightarrow> pyval dict \<Rightarrow> bool" where
  "row_le p q \<longleftrightarrow>
     (\<forall>rt. cap_le (case pget (dict_or_empty (pget p ''per_space_quantities'')) rt of
                     PInt c \<Rightarrow> if c = UNLIMITED then None else Some c | _ \<Rightarrow> None)
                  (case pget (dict_or_empty (pget q ''per_space_quantities'')) rt of
                     PInt c \<Rightarrow> if c = UNLIMITED then None else Some c | _ \<Rightarrow> None)) \<and>
     (\<forall>f. truthy (pget (dict_or_empty (pget p ''features'')) f) \<longrightarrow>
          truthy (pget (dict_or_empty (pget q ''features'')) f))"

lemma row_le_trans: "row_le p q \<Longrightarrow> row_le q r \<Longrightarrow> row_le p r"
  unfolding row_le_def by (blast intro: cap_le_trans)

lemma row_le_refl: "row_le p p"
  by (simp add: row_le_def)

lemma features_step:
  assumes "list_all (\<lambda>(k, v). truthy v \<longrightarrow> truthy (pget d' k)) d"
    and "truthy (pget d f)"
  shows "truthy (pget d' f)"
proof -
  from assms(2) obtain v where "map_of d f = Some v" "truthy v"
    by (auto simp: pget_def dget_def split: option.splits)
  with assms(1) show ?thesis by (auto simp: list_all_iff dest!: map_of_SomeD)
qed

lemma quantities_step:
  assumes "map fst d = map fst d'"
    and "list_all (\<lambda>k. cap_le (case map_of d k of Some c \<Rightarrow> if c = UNLIMITED then None else Some c | None \<Rightarrow> None)
                              (case map_of d' k of Some c \<Rightarrow> if c = UNLIMITED then None else Some c | None \<Rightarrow> None)) (map fst d)"
  shows "cap_le (case pget (qvals d) k of PInt c \<Rightarrow> if c = UNLIMITED then None else Some c | _ \<Rightarrow> None)
                (case pget (qvals d') k of PInt c \<Rightarrow> if c = UNLIMITED then None else Some c | _ \<Rightarrow> None)"
proof (cases "k \<in> set (map fst d)")
  case True
  with assms(2) show ?thesis by (auto simp: list_all_iff pget_qvals split: option.splits)
next
  case False
  then have "map_of d k = None" "map_of d' k = None"
    using assms(1) by (metis map_of_eq_None_iff list.set_map)+
  then show ?thesis by (simp add: pget_qvals)
qed

lemma row_le_steps:
  "row_le TIER_POLICY_free TIER_POLICY_student"
  "row_le TIER_POLICY_student TIER_POLICY_developer"
  "row_le TIER_POLICY_developer TIER_POLICY_enterprise"
  unfolding row_le_def policy_quantities
  by (intro conjI allI impI; (erule features_step [rotated], code_simp)?;
      (simp add: dict_or_empty_def, rule quantities_step, code_simp, code_simp)?)+

lemma tier_rank_simps:
  "normalize_tier t = ''free'' \<Longrightarrow> tier_rank t = 0"
  "normalize_tier t = ''student'' \<Longrightarrow> tier_rank t = 1"
  "normalize_tier t = ''developer'' \<Longrightarrow> tier_rank t = 2"
  "normalize_tier t = ''enterprise'' \<Longrightarrow> tier_rank t = 3"
  by (simp_all add: tier_rank_def KNOWN_TIERS_def)

lemma row_le_rank: "tier_rank t1 \<le> tier_rank t2 \<Longrightarrow> row_le (policy_for t1) (policy_for t2)"
  by (cases rule: normalize_cases [of t1]; cases rule: normalize_cases [of t2])
    (auto simp: policy_for_rows tier_rank_simps
      intro: row_le_refl row_le_steps row_le_trans row_le_trans [OF row_le_trans])

lemma quantity_cap_rank: "tier_rank t1 \<le> tier_rank t2 \<Longrightarrow> cap_le (quantity_cap t1 rt) (quantity_cap t2 rt)"
  using row_le_rank [of t1 t2] by (simp add: row_le_def quantity_cap_def)

lemma int_cap_rank:
  assumes "tier_rank t1 \<le> tier_rank t2"
  shows "cap_le (int_cap ''storage_bytes_cap'' t1) (int_cap ''storage_bytes_cap'' t2)"
    and "cap_le (int_cap ''max_spaces'' t1) (int_cap ''max_spaces'' t2)"
  using assms
  by (cases rule: normalize_cases [of t1]; cases rule: normalize_cases [of t2];
      simp add: int_cap_def policy_for_rows tier_rank_simps policy_storage policy_max_spaces
        cap_le_def UNLIMITED_def)+

lemma next_tier_simps [simp]:
  "next_tier ''free'' = ''student''" "next_tier ''student'' = ''developer''"
  "next_tier ''developer'' = ''enterprise''" "next_tier ''enterprise'' = ''enterprise''"
  by code_simp+

lemma next_tier_known: "normalize_tier (next_tier (normalize_tier t)) = next_tier (normalize_tier t)"
  by (cases rule: normalize_cases [of t]) simp_all

lemma enterprise_unlimited:
  "quantity_cap ''enterprise'' rt = None"
  "int_cap ''storage_bytes_cap'' ''enterprise'' = None" "int_cap ''max_spaces'' ''enterprise'' = None"
proof -
  have "list_all (\<lambda>(k, v). v = UNLIMITED) enterprise_quantities" by code_simp
  then have "map_of enterprise_quantities rt = Some c \<Longrightarrow> c = UNLIMITED" for c
    by (auto simp: list_all_iff dest!: map_of_SomeD)
  then show "quantity_cap ''enterprise'' rt = None"
    by (auto simp: quantity_cap_def policy_for_rows policy_quantities dict_or_empty_def pget_qvals
        split: option.split)
qed (simp_all add: int_cap_def policy_for_rows policy_storage policy_max_spaces)

text \<open> Upgrading never loses capacity: whatever count, storage, number of spaces or feature a
  tier allows, every higher tier allows too.\<close>

theorem tier_upgrade_monotone:
  assumes "tier_rank t1 \<le> tier_rank t2"
  shows "(resp_ok (check_quantity t1 rt n) \<longrightarrow> resp_ok (check_quantity t2 rt n)) \<and>
         (resp_ok (check_storage t1 cur add) \<longrightarrow> resp_ok (check_storage t2 cur add)) \<and>
         (resp_ok (check_max_spaces t1 m) \<longrightarrow> resp_ok (check_max_spaces t2 m)) \<and>
         (resp_ok (check_feature t1 f) \<longrightarrow> resp_ok (check_feature t2 f))"
  using quantity_cap_rank [OF assms] int_cap_rank [OF assms] row_le_rank [OF assms]
  by (auto simp: check_quantity_iff check_storage_iff check_max_spaces_iff check_feature_iff row_le_def
      intro: within_cap_le)

theorem tier_upgrade_monotone_witness:
  "tier_rank ''edu'' \<le> tier_rank ''max'' \<and> resp_ok (check_quantity ''edu'' ''vm'' 9) \<and>
   resp_ok (check_quantity ''max'' ''vm'' 9) \<and> resp_ok (check_feature ''max'' ''cloud_shell'')"
proof -
  have h: "tier_rank ''edu'' \<le> tier_rank ''max''" by code_simp
  have ok: "resp_ok (check_quantity ''edu'' ''vm'' 9)" "resp_ok (check_feature ''edu'' ''cloud_shell'')"
    by code_simp+
  show ?thesis using h ok tier_upgrade_monotone [OF h] by blast
qed

definition guarded_create :: "string \<Rightarrow> string \<Rightarrow> int \<Rightarrow> int" where
  "guarded_create t rt n = (if resp_ok (check_quantity t rt n) then n + 1 else n)"

lemma guarded_create_Some:
  "quantity_cap t rt = Some c \<Longrightarrow> guarded_create t rt n = (if n + 1 \<le> c then n + 1 else n)"
  by (simp add: guarded_create_def check_quantity_iff within_cap_def)

text \<open> A resource that is only created after \<open>check_quantity\<close> allows it never exceeds the
  tier's cap: after \<open>k\<close> attempts the count is the smaller of the cap and the start plus \<open>k\<close>.\<close>

theorem quantity_cap_never_exceeded:
  assumes "quantity_cap t rt = Some c" and "n \<le> c"
  shows "(guarded_create t rt ^^ k) n = min c (n + int k)"
proof (induction k)
  case (Suc k)
  then show ?case using assms by (auto simp: guarded_create_Some min_def)
qed (use assms in simp)

theorem quantity_cap_never_exceeded_witness:
  "quantity_cap ''free'' ''lambda_function'' = Some 3 \<and>
   (guarded_create ''free'' ''lambda_function'' ^^ 10) 0 = 3"
proof -
  have h: "quantity_cap ''free'' ''lambda_function'' = Some 3" by code_simp
  show ?thesis using h quantity_cap_never_exceeded [OF h, of 0 10] by simp
qed

section \<open>Service gate\<close>

definition clouds :: "string list" where
  "clouds = [''aws'', ''gcp'', ''azure'']"

definition service_locked_free :: "string \<Rightarrow> bool" where
  "service_locked_free s =
     (case map_of SERVICE_CATEGORY s of None \<Rightarrow> False | Some c \<Rightarrow> c \<in> {''nosql'', ''eventing''})"

lemma category_known:
  "map_of SERVICE_CATEGORY s = Some c \<Longrightarrow>
   c \<in> set FREE_UNLOCKED_CATEGORIES \<longleftrightarrow> c \<notin> {''nosql'', ''eventing''}"
proof -
  have "list_all (\<lambda>(k, c). (c \<in> set FREE_UNLOCKED_CATEGORIES) = (c \<notin> {''nosql'', ''eventing''})) SERVICE_CATEGORY"
    by code_simp
  then show "map_of SERVICE_CATEGORY s = Some c \<Longrightarrow> ?thesis"
    by (auto simp: list_all_iff dest!: map_of_SomeD)
qed

lemmas service_simps =
  check_service_def Let_def policy_for_rows policy_providers policy_unlocked list_items_def
  service_locked_free_def clouds_def

lemma check_service_free:
  "normalize_tier t = ''free'' \<Longrightarrow>
   resp_ok (check_service t s p r) \<longleftrightarrow> (r = [] \<or> r \<in> set clouds) \<and> \<not> service_locked_free s"
  by (auto simp: service_simps image_iff dest: category_known split: option.splits)

lemma check_service_student:
  "normalize_tier t = ''student'' \<Longrightarrow> resp_ok (check_service t s p r) \<longleftrightarrow> r = [] \<or> r = p"
  by (auto simp: service_simps)

lemma check_service_paid:
  "normalize_tier t \<in> {''developer'', ''enterprise''} \<Longrightarrow>
   resp_ok (check_service t s p r) \<longleftrightarrow> r = [] \<or> r \<in> set clouds"
  by (auto simp: service_simps)

text \<open> The service gate, decided exactly: Free reaches every known cloud but no NoSQL or
  eventing service, Student reaches only its primary cloud (none when it is unset), Developer and
  Enterprise reach every known cloud.\<close>

theorem check_service_decides:
  "resp_ok (check_service t s p r) \<longleftrightarrow>
     (if normalize_tier t = ''student'' then r = [] \<or> r = p
      else (r = [] \<or> r \<in> set clouds) \<and> (normalize_tier t = ''free'' \<longrightarrow> \<not> service_locked_free s))"
  by (cases rule: normalize_cases [of t])
    (simp_all add: check_service_free check_service_student check_service_paid)

theorem check_service_decides_witness:
  "normalize_tier ''free'' = ''free'' \<and> service_locked_free ''dynamodb'' \<and>
   \<not> resp_ok (check_service ''free'' ''dynamodb'' [] ''aws'') \<and> resp_ok (check_service ''free'' ''s3'' [] ''aws'')"
proof -
  have "service_locked_free ''dynamodb''" "\<not> service_locked_free ''s3''" by code_simp+
  then show ?thesis
    using check_service_decides [of "''free''" "''dynamodb''" "[]" "''aws''"]
      check_service_decides [of "''free''" "''s3''" "[]" "''aws''"] by (simp add: clouds_def)
qed

lemma resp_upgrade_simps [simp]:
  "resp_upgrade ((''upgrade_to'', PStr u) # d) = u"
  "k \<noteq> ''upgrade_to'' \<Longrightarrow> resp_upgrade ((k, v) # d) = resp_upgrade d"
  by (simp_all add: resp_upgrade_def pget_def dget_def)

lemma locked_upgrade_free:
  assumes "service_locked_free s" and "normalize_tier t = ''free''" and "r \<in> set clouds"
  shows "resp_upgrade (check_service t s p r) = ''developer''"
proof -
  from assms(1) obtain c where c: "map_of SERVICE_CATEGORY s = Some c" "c \<in> {''nosql'', ''eventing''}"
    by (auto simp: service_locked_free_def split: option.splits)
  then have "c \<notin> set FREE_UNLOCKED_CATEGORIES" using category_known by blast
  then have "PStr c \<notin> set (map PStr (sort FREE_UNLOCKED_CATEGORIES))" by auto
  with c assms(2,3) show ?thesis
    by (simp add: check_service_def Let_def policy_for_rows policy_providers policy_unlocked
        list_items_def clouds_def image_iff)
qed

lemma locked_upgrade_student:
  "normalize_tier t = ''student'' \<Longrightarrow> \<not> resp_ok (check_service t s p r) \<Longrightarrow>
   resp_upgrade (check_service t s p r) = ''developer''"
  by (simp add: service_simps split: if_splits)

text \<open> On a known cloud, a denied service becomes available on the tier the denial
  recommends.\<close>

theorem service_denial_upgrade_works:
  assumes "r \<in> set clouds" and "\<not> resp_ok (check_service t s p r)"
  shows "resp_ok (check_service (resp_upgrade (check_service t s p r)) s p r)"
proof -
  have dev: "resp_ok (check_service ''developer'' s p r)"
    using assms(1) by (simp add: check_service_paid)
  have "resp_upgrade (check_service t s p r) = ''developer''"
  proof (cases rule: normalize_cases [of t])
    case 1
    then have "service_locked_free s" using assms by (simp add: check_service_free)
    then show ?thesis using 1 assms(1) by (rule locked_upgrade_free)
  next
    case 2
    then show ?thesis using assms(2) by (rule locked_upgrade_student)
  qed (use assms in \<open>simp_all add: check_service_paid\<close>)
  with dev show ?thesis by simp
qed

theorem service_denial_upgrade_works_witness:
  "\<not> resp_ok (check_service ''student'' ''s3'' ''gcp'' ''aws'') \<and>
   resp_ok (check_service (resp_upgrade (check_service ''student'' ''s3'' ''gcp'' ''aws'')) ''s3'' ''gcp'' ''aws'')"
proof -
  have h: "''aws'' \<in> set clouds" "\<not> resp_ok (check_service ''student'' ''s3'' ''gcp'' ''aws'')" by code_simp+
  show ?thesis using h(2) service_denial_upgrade_works [OF h] by simp
qed

text \<open> A denied count, storage or space request names the next tier up, and three upgrades
  from any tier allow any request.\<close>

theorem cap_denial_upgrade_chain:
  "(\<not> resp_ok (check_quantity t rt n) \<longrightarrow>
      resp_upgrade (check_quantity t rt n) = next_tier (normalize_tier t)) \<and>
   resp_ok (check_quantity ((next_tier ^^ 3) (normalize_tier t)) rt n) \<and>
   resp_ok (check_storage ((next_tier ^^ 3) (normalize_tier t)) cur add) \<and>
   resp_ok (check_max_spaces ((next_tier ^^ 3) (normalize_tier t)) m)"
proof -
  have three: "(next_tier ^^ 3) (normalize_tier t) = ''enterprise''"
    by (cases rule: normalize_cases [of t]) (simp_all add: eval_nat_numeral)
  have "\<not> resp_ok (check_quantity t rt n) \<longrightarrow>
      resp_upgrade (check_quantity t rt n) = next_tier (normalize_tier t)"
    by (auto simp: check_quantity_def Let_def resp_upgrade_def pget_def [of "_ # _"] dget_def
        split: pyval.split)
  then show ?thesis
    by (simp add: three check_quantity_iff check_storage_iff check_max_spaces_iff
        enterprise_unlimited within_cap_def)
qed

theorem cap_denial_upgrade_chain_witness:
  "\<not> resp_ok (check_quantity ''student'' ''vm'' 10) \<and>
   resp_upgrade (check_quantity ''student'' ''vm'' 10) = ''developer''"
proof -
  have h: "\<not> resp_ok (check_quantity ''student'' ''vm'' 10)" by code_simp
  show ?thesis using h cap_denial_upgrade_chain [of "''student''" "''vm''" 10 0 0 0] by simp
qed

end
