(* ===== verification/Runtime_Sizer.thy ===== *)
theory Runtime_Sizer
imports Tier_Policy
begin

text \<open>Instance types and what they become on the host: the catalog of machine shapes
  (\<open>core/instance_catalog.py\<close>), the mapping of a shape to container limits
  (\<open>core/runtime_sizer.py\<close>) and the tier's ceilings on sizes and feature levels
  (\<open>core/app_context.py\<close>).  The simulator's own budget is an argument, as is the active tier.\<close>

section \<open>The catalog\<close>

record shape =
  sh_name :: "string option"
  vcpu :: int
  ram_mb :: int
  mips_per_vcpu :: int
  sh_family :: string

definition MIPS :: "int dict" where
  "MIPS = [(''burstable'', 1000), (''general'', 2400), (''memory'', 2400), (''storage'', 2400),
           (''compute'', 3400), (''gpu'', 3000)]"

definition mk_shape :: "int \<Rightarrow> int \<Rightarrow> string \<Rightarrow> shape" where
  "mk_shape v r f = \<lparr>sh_name = None, vcpu = v, ram_mb = r, mips_per_vcpu = dget MIPS f 2400, sh_family = f\<rparr>"

definition AWS :: "shape dict" where
  "AWS =
    [(''t3.nano'', mk_shape 2 512 ''burstable''),
     (''t3.micro'', mk_shape 2 1024 ''burstable''),
     (''t3.small'', mk_shape 2 2048 ''burstable''),
     (''t3.medium'', mk_shape 2 4096 ''burstable''),
     (''t3.large'', mk_shape 2 8192 ''burstable''),
     (''t3.xlarge'', mk_shape 4 16384 ''burstable''),
     (''t3.2xlarge'', mk_shape 8 32768 ''burstable''),
     (''m5.large'', mk_shape 2 8192 ''general''),
     (''m5.xlarge'', mk_shape 4 16384 ''general''),
     (''m5.2xlarge'', mk_shape 8 32768 ''general''),
     (''m5.4xlarge'', mk_shape 16 65536 ''general''),
     (''m5.8xlarge'', mk_shape 32 131072 ''general''),
     (''m6i.large'', mk_shape 2 8192 ''general''),
     (''m6i.xlarge'', mk_shape 4 16384 ''general''),
     (''c5.large'', mk_shape 2 4096 ''compute''),
     (''c5.xlarge'', mk_shape 4 8192 ''compute''),
     (''c5.2xlarge'', mk_shape 8 16384 ''compute''),
     (''c5.4xlarge'', mk_shape 16 32768 ''compute''),
     (''c6i.large'', mk_shape 2 4096 ''compute''),
     (''c6i.xlarge'', mk_shape 4 8192 ''compute''),
     (''r5.large'', mk_shape 2 16384 ''memory''),
     (''r5.xlarge'', mk_shape 4 32768 ''memory''),
     (''r5.2xlarge'', mk_shape 8 65536 ''memory''),
     (''r5.4xlarge'', mk_shape 16 131072 ''memory''),
     (''i3.large'', mk_shape 2 15360 ''storage''),
     (''i3.xlarge'', mk_shape 4 31232 ''storage''),
     (''i4i.large'', mk_shape 2 16384 ''storage''),
     (''p3.2xlarge'', mk_shape 8 61440 ''gpu''),
     (''g5.xlarge'', mk_shape 4 16384 ''gpu'')]"

definition GCP :: "shape dict" where
  "GCP =
    [(''e2-micro'', mk_shape 2 1024 ''burstable''),
     (''e2-small'', mk_shape 2 2048 ''burstable''),
     (''e2-medium'', mk_shape 2 4096 ''burstable''),
     (''e2-standard-2'', mk_shape 2 8192 ''general''),
     (''e2-standard-4'', mk_shape 4 16384 ''general''),
     (''e2-standard-8'', mk_shape 8 32768 ''general''),
     (''n2-standard-2'', mk_shape 2 8192 ''general''),
     (''n2-standard-4'', mk_shape 4 16384 ''general''),
     (''n2-standard-8'', mk_shape 8 32768 ''general''),
     (''n2-standard-16'', mk_shape 16 65536 ''general''),
     (''n2-standard-32'', mk_shape 32 131072 ''general''),
     (''c2-standard-4'', mk_shape 4 16384 ''compute''),
     (''c2-standard-8'', mk_shape 8 32768 ''compute''),
     (''c2-standard-16'', mk_shape 16 65536 ''compute''),
     (''c2-standard-30'', mk_shape 30 122880 ''compute''),
     (''n2-highmem-2'', mk_shape 2 16384 ''memory''),
     (''n2-highmem-4'', mk_shape 4 32768 ''memory''),
     (''n2-highmem-8'', mk_shape 8 65536 ''memory''),
     (''m2-ultramem-208'', mk_shape 208 5816320 ''memory''),
     (''a2-highgpu-1g'', mk_shape 12 89088 ''gpu''),
     (''a2-highgpu-2g'', mk_shape 24 178176 ''gpu'')]"

definition AZURE :: "shape dict" where
  "AZURE =
    [(''Standard_B1s'', mk_shape 1 1024 ''burstable''),
     (''Standard_B1ms'', mk_shape 1 2048 ''burstable''),
     (''Standard_B2s'', mk_shape 2 4096 ''burstable''),
     (''Standard_B2ms'', mk_shape 2 8192 ''burstable''),
     (''Standard_B4ms'', mk_shape 4 16384 ''burstable''),
     (''Standard_B8ms'', mk_shape 8 32768 ''burstable''),
     (''Standard_D2s_v5'', mk_shape 2 8192 ''general''),
     (''Standard_D4s_v5'', mk_shape 4 16384 ''general''),
     (''Standard_D8s_v5'', mk_shape 8 32768 ''general''),
     (''Standard_D16s_v5'', mk_shape 16 65536 ''general''),
     (''Standard_D32s_v5'', mk_shape 32 131072 ''general''),
     (''Standard_F2s_v2'', mk_shape 2 4096 ''compute''),
     (''Standard_F4s_v2'', mk_shape 4 8192 ''compute''),
     (''Standard_F8s_v2'', mk_shape 8 16384 ''compute''),
     (''Standard_F16s_v2'', mk_shape 16 32768 ''compute''),
     (''Standard_E2s_v5'', mk_shape 2 16384 ''memory''),
     (''Standard_E4s_v5'', mk_shape 4 32768 ''memory''),
     (''Standard_E8s_v5'', mk_shape 8 65536 ''memory''),
     (''Standard_E16s_v5'', mk_shape 16 131072 ''memory''),
     (''Standard_M128ms'', mk_shape 128 3892224 ''memory''),
     (''Standard_L8s_v3'', mk_shape 8 65536 ''storage''),
     (''Standard_NC6'', mk_shape 6 57344 ''gpu''),
     (''Standard_NC12'', mk_shape 12 114688 ''gpu''),
     (''Standard_NC24'', mk_shape 24 229376 ''gpu'')]"

definition DEFAULT_GENERAL :: shape where
  "DEFAULT_GENERAL = mk_shape 2 8192 ''general''"

definition DEFAULT_BURSTABLE :: shape where
  "DEFAULT_BURSTABLE = mk_shape 1 1024 ''burstable''"

definition annotate :: "shape \<Rightarrow> string \<Rightarrow> shape" where
  "annotate s name = s\<lparr>sh_name := Some name\<rparr>"

definition lookup_aws :: "string \<Rightarrow> shape" where
  "lookup_aws t =
     (if t = [] then annotate DEFAULT_BURSTABLE ''t3.nano''
      else annotate (dget AWS t DEFAULT_GENERAL) t)"

text \<open>The last segment of a machine type, which may be a URL.\<close>

definition last_segment :: "string \<Rightarrow> string" where
  "last_segment s = after_last ''/'' (rstrip_char (CHR ''/'') s)"

definition lookup_gcp :: "string \<Rightarrow> shape" where
  "lookup_gcp t =
     (if t = [] then annotate DEFAULT_BURSTABLE ''e2-micro''
      else let name = last_segment t in annotate (dget GCP name DEFAULT_GENERAL) name)"

definition lookup_azure :: "string \<Rightarrow> shape" where
  "lookup_azure t =
     (if t = [] then annotate DEFAULT_BURSTABLE ''Standard_B1s''
      else annotate (dget AZURE t DEFAULT_GENERAL) t)"

section \<open>Shapes to container limits\<close>

definition SIZE_TIERS :: "(int \<times> string \<times> int \<times> int) list" where
  "SIZE_TIERS =
     [(1, ''nano'', 1, 256), (4, ''small'', 1, 512), (16, ''medium'', 2, 1024),
      (32, ''large'', 3, 2048), (64, ''xlarge'', 4, 4096), (2 ^ 30, ''huge'', 5, 6144)]"

definition shape_for_instance :: "string \<Rightarrow> string \<Rightarrow> shape option" where
  "shape_for_instance itype provider =
     (let p = lower (strip provider) in
      if itype = [] then None
      else
        let found = (if p = ''aws'' then map_of AWS itype
                     else if p = ''gcp'' then map_of GCP (last_segment itype)
                     else if p = ''azure'' then map_of AZURE itype
                     else None)
        in case found of None \<Rightarrow> None | Some s \<Rightarrow> Some (annotate s itype))"

record limits =
  lx_tier :: string
  lx_cpu :: int
  lx_memory_mb :: int
  requested_vcpu :: int
  requested_ram_mb :: int
  host_cpu_cap :: int
  host_mem_cap_mb :: int

fun pick_tier :: "int \<Rightarrow> (int \<times> string \<times> int \<times> int) list \<Rightarrow> string \<times> int \<times> int" where
  "pick_tier score [] = (''huge'', 5, 6144)"
| "pick_tier score ((max_score, row) # rest) = (if score \<le> max_score then row else pick_tier score rest)"

definition size_score :: "shape \<Rightarrow> int" where
  "size_score s =
     (let v = max 1 (vcpu s); r = max 128 (ram_mb s); q = r div 1024
      in max v (if q = 0 then 1 else q))"

definition lxd_limits :: "shape \<Rightarrow> int \<Rightarrow> int \<Rightarrow> limits" where
  "lxd_limits s host_cpus host_mem_mb =
     (let v = max 1 (vcpu s);
          r = max 128 (ram_mb s);
          (name, cpu, mem) = pick_tier (size_score s) SIZE_TIERS;
          cpu_cap = max 1 (host_cpus div 2);
          mem_cap = max 256 (host_mem_mb div 3)
      in \<lparr>lx_tier = name, lx_cpu = min cpu cpu_cap, lx_memory_mb = min mem mem_cap,
          requested_vcpu = v, requested_ram_mb = r,
          host_cpu_cap = cpu_cap, host_mem_cap_mb = mem_cap\<rparr>)"

record itype_limits = limits +
  il_instance_type :: string
  il_family :: string

definition for_instance_type :: "int \<times> int \<Rightarrow> string \<Rightarrow> string \<Rightarrow> itype_limits option" where
  "for_instance_type host_budget itype provider =
     (case shape_for_instance itype provider of
        None \<Rightarrow> None
      | Some s \<Rightarrow>
          let (cpus, mem) = host_budget
          in Some (limits.extend (lxd_limits s cpus mem)
                     (itype_limits.fields itype (sh_family s))))"

section \<open>Tier enforcement of sizes and feature levels\<close>

definition SIZE_ORDER :: "string list" where
  "SIZE_ORDER = [''nano'', ''small'', ''medium'', ''large'', ''xlarge'', ''huge'']"

definition classify_instance_size :: "string \<Rightarrow> string \<Rightarrow> string option" where
  "classify_instance_size provider itype =
     (if itype = [] then None
      else
        let found = (case shape_for_instance itype provider of
                       Some s \<Rightarrow> Some s
                     | None \<Rightarrow> if startswith itype ''db.'' then shape_for_instance (drop 3 itype) provider else None)
        in case found of None \<Rightarrow> None | Some s \<Rightarrow> Some (fst (pick_tier (size_score s) SIZE_TIERS)))"

definition docs_url :: pyval where
  "docs_url = PStr ''https://cloudlearn.io/docs/tiers''"

text \<open>The policy's ceiling for a kind of resource: \<open>str(p.get(field) or "huge").lower()\<close>.\<close>

definition size_cap :: "string \<Rightarrow> string \<Rightarrow> string" where
  "size_cap tier kind =
     (case pget (policy_for tier) (if kind = ''vm'' then ''max_vm_size_tier'' else ''max_db_size_tier'') of
        PStr s \<Rightarrow> lower (str_or s ''huge'')
      | _ \<Rightarrow> ''huge'')"

definition enforce_size_cap :: "string \<Rightarrow> string \<Rightarrow> string \<Rightarrow> string \<Rightarrow> unit result" where
  "enforce_size_cap tier kind provider itype =
     (let cap = size_cap tier kind in
      case index_of cap SIZE_ORDER of
        None \<Rightarrow> Inr ()
      | Some cap_ix \<Rightarrow>
          (case classify_instance_size provider itype of
             None \<Rightarrow> Inr ()
           | Some actual \<Rightarrow>
               (case index_of actual SIZE_ORDER of
                  None \<Rightarrow> Inr ()
                | Some ix \<Rightarrow>
                    if ix > cap_ix then
                      Inl (HTTPException 403 (PDict
                        [(''ok'', PBool False), (''code'', PStr ''tier_size_limit''),
                         (''reason'', PStr (tier @ '' tier caps '' @ kind @ '' size at '' @ [CHR 0x27] @ cap
                            @ [CHR 0x27] @ ''; requested '' @ [CHR 0x27] @ itype @ [CHR 0x27] @ '' is ''
                            @ [CHR 0x27] @ actual @ [CHR 0x27])),
                         (''active_tier'', PStr tier), (''resource_kind'', PStr kind),
                         (''requested_type'', PStr itype), (''requested_size'', PStr actual),
                         (''max_size'', PStr cap),
                         (''upgrade_to'', PStr (next_tier (normalize_tier tier))),
                         (''docs'', docs_url)]))
                    else Inr ())))"

definition FEATURE_LEVEL_ORDER :: "(pyval list) dict" where
  "FEATURE_LEVEL_ORDER =
     [(''cost_simulation'', [PStr ''totals'', PStr ''per_resource'', PStr ''per_resource_and_chargeback'']),
      (''terraform_export'', [PStr ''basic'', PStr ''full'', PStr ''full_plus_import'']),
      (''terraform_deploy_to_real'', [PBool False, PStr ''single_cloud'', PStr ''multi_cloud'']),
      (''notifications'', [PBool False, PStr ''webhook'', PStr ''all_channels''])]"

definition feature_level_meets :: "string \<Rightarrow> pyval \<Rightarrow> pyval \<Rightarrow> bool" where
  "feature_level_meets f current required =
     (case map_of FEATURE_LEVEL_ORDER f of
        None \<Rightarrow> True
      | Some order \<Rightarrow>
          (case (index_of current order, index_of required order) of
             (Some i, Some j) \<Rightarrow> i \<ge> j
           | _ \<Rightarrow> True))"

text \<open>\<open>level_str\<close> is \<open>str\<close> of a level in the message: levels are strings or \<open>False\<close>.\<close>

definition level_str :: "pyval \<Rightarrow> string" where
  "level_str v = (case v of PStr s \<Rightarrow> s | PBool True \<Rightarrow> ''True'' | PBool False \<Rightarrow> ''False'' | _ \<Rightarrow> [])"

definition enforce_tier_feature :: "string \<Rightarrow> string \<Rightarrow> pyval option \<Rightarrow> pyval result" where
  "enforce_tier_feature tier f min_level =
     (let r = check_feature tier f in
      if \<not> resp_ok r then
        Inl (HTTPException 403 (PDict (dset ''docs'' docs_url (dset ''active_tier'' (PStr tier) r))))
      else
        let val = pget r ''value'' in
        case min_level of
          None \<Rightarrow> Inr val
        | Some lv \<Rightarrow>
            if feature_level_meets f val lv then Inr val
            else Inl (HTTPException 403 (PDict
              [(''ok'', PBool False), (''code'', PStr ''tier_feature_level''),
               (''reason'', PStr (f @ '' requires level '' @ [CHR 0x27] @ level_str lv @ [CHR 0x27]
                  @ '' or higher; active tier has '' @ [CHR 0x27] @ level_str val @ [CHR 0x27])),
               (''active_tier'', PStr tier), (''feature'', PStr f),
               (''current_level'', val), (''required_level'', lv),
               (''upgrade_to'', PStr (next_tier (normalize_tier tier))), (''docs'', docs_url)])))"

section \<open>Facts about sizes\<close>

lemma size_score_ge_1: "1 \<le> size_score s"
  by (simp add: size_score_def Let_def)

lemma size_score_max: "size_score s = max (max 1 (vcpu s)) (max 1 (max 128 (ram_mb s) div 1024))"
proof -
  have "(if q = 0 then 1 else q) = max 1 q" if "0 \<le> q" for q :: int using that by simp
  from this [of "max 128 (ram_mb s) div 1024"] show ?thesis by (simp add: size_score_def Let_def)
qed

lemma size_score_mono:
  assumes "vcpu s \<le> vcpu s'" and "ram_mb s \<le> ram_mb s'"
  shows "size_score s \<le> size_score s'"
proof -
  have "max 128 (ram_mb s) div 1024 \<le> max 128 (ram_mb s') div 1024"
    using assms(2) by (intro zdiv_mono1 max.mono) simp_all
  then show ?thesis unfolding size_score_max using assms(1) by (intro max.mono order_refl)
qed

lemma pick_tier_row:
  "pick_tier k SIZE_TIERS =
     (if k \<le> 1 then (''nano'', 1, 256) else if k \<le> 4 then (''small'', 1, 512)
      else if k \<le> 16 then (''medium'', 2, 1024) else if k \<le> 32 then (''large'', 3, 2048)
      else if k \<le> 64 then (''xlarge'', 4, 4096) else (''huge'', 5, 6144))"
  by (simp add: SIZE_TIERS_def)

lemma pick_tier_mono:
  assumes "k \<le> k'"
  shows "fst (snd (pick_tier k SIZE_TIERS)) \<le> fst (snd (pick_tier k' SIZE_TIERS))"
    and "snd (snd (pick_tier k SIZE_TIERS)) \<le> snd (snd (pick_tier k' SIZE_TIERS))"
  using assms by (simp_all add: pick_tier_row)

lemma lxd_limits_sel:
  "lx_tier (lxd_limits s hc hm) = fst (pick_tier (size_score s) SIZE_TIERS)"
  "lx_cpu (lxd_limits s hc hm) = min (fst (snd (pick_tier (size_score s) SIZE_TIERS))) (max 1 (hc div 2))"
  "lx_memory_mb (lxd_limits s hc hm) = min (snd (snd (pick_tier (size_score s) SIZE_TIERS))) (max 256 (hm div 3))"
  by (simp_all add: lxd_limits_def Let_def split: prod.split)

lemma pick_tier_bounds:
  "1 \<le> fst (snd (pick_tier k SIZE_TIERS))" "256 \<le> snd (snd (pick_tier k SIZE_TIERS))"
  by (simp_all add: pick_tier_row)

text \<open>The rank of the size a score falls in, and the highest score a tier's ceiling admits.\<close>

lemma index_of_size:
  "index_of (fst (pick_tier k SIZE_TIERS)) SIZE_ORDER =
     Some (if k \<le> 1 then 0 else if k \<le> 4 then 1 else if k \<le> 16 then 2
           else if k \<le> 32 then 3 else if k \<le> 64 then 4 else 5)"
  by (simp add: pick_tier_row SIZE_ORDER_def)

lemma policy_sizes:
  "pget TIER_POLICY_free ''max_vm_size_tier'' = PStr ''small''"
  "pget TIER_POLICY_free ''max_db_size_tier'' = PStr ''small''"
  "pget TIER_POLICY_student ''max_vm_size_tier'' = PStr ''medium''"
  "pget TIER_POLICY_student ''max_db_size_tier'' = PStr ''medium''"
  "pget TIER_POLICY_developer ''max_vm_size_tier'' = PStr ''large''"
  "pget TIER_POLICY_developer ''max_db_size_tier'' = PStr ''large''"
  "pget TIER_POLICY_enterprise ''max_vm_size_tier'' = PStr ''huge''"
  "pget TIER_POLICY_enterprise ''max_db_size_tier'' = PStr ''huge''"
  by code_simp+

lemma lower_sizes [simp]:
  "lower (str_or ''small'' h) = ''small''" "lower (str_or ''medium'' h) = ''medium''"
  "lower (str_or ''large'' h) = ''large''" "lower (str_or ''huge'' h) = ''huge''"
  by (simp_all add: str_or_def) (code_simp+)

definition score_ceiling :: "string \<Rightarrow> int option" where
  "score_ceiling t =
     (if normalize_tier t = ''free'' then Some 4 else if normalize_tier t = ''student'' then Some 16
      else if normalize_tier t = ''developer'' then Some 32 else None)"

lemma index_of_cap:
  "index_of (size_cap t kind) SIZE_ORDER =
     Some (case score_ceiling t of None \<Rightarrow> 5 | Some c \<Rightarrow> if c = 4 then 1 else if c = 16 then 2 else 3)"
  by (cases rule: normalize_cases [of t])
    (simp_all add: size_cap_def score_ceiling_def policy_for_rows policy_sizes SIZE_ORDER_def)

lemma enforce_size_cap_classified:
  assumes "classify_instance_size p it = Some (fst (pick_tier k SIZE_TIERS))"
  shows "enforce_size_cap t kind p it = Inr () \<longleftrightarrow> within_cap k (score_ceiling t)"
  using assms
  by (auto simp: enforce_size_cap_def index_of_cap index_of_size within_cap_def score_ceiling_def Let_def)

lemma classify_shape:
  "shape_for_instance it p = Some s \<Longrightarrow> classify_instance_size p it = Some (fst (pick_tier (size_score s) SIZE_TIERS))"
  by (auto simp: classify_instance_size_def shape_for_instance_def)

lemma score_ceiling_rank:
  "tier_rank t1 \<le> tier_rank t2 \<Longrightarrow> cap_le (score_ceiling t1) (score_ceiling t2)"
  by (cases rule: normalize_cases [of t1]; cases rule: normalize_cases [of t2])
    (simp_all add: score_ceiling_def cap_le_def tier_rank_simps)

section \<open>Properties of sizes\<close>

text \<open> Container limits respect the host and the request: every container has at least one CPU
  and 256 MB, at most half of the host's CPUs and a third of its memory (or that minimum, on a
  small host), and a request with more vCPU and RAM never gets a smaller container.\<close>

theorem lxd_limits_fit_host:
  assumes "vcpu s \<le> vcpu s'" and "ram_mb s \<le> ram_mb s'"
  shows "1 \<le> lx_cpu (lxd_limits s hc hm) \<and> lx_cpu (lxd_limits s hc hm) \<le> max 1 (hc div 2) \<and>
         256 \<le> lx_memory_mb (lxd_limits s hc hm) \<and> lx_memory_mb (lxd_limits s hc hm) \<le> max 256 (hm div 3) \<and>
         lx_cpu (lxd_limits s hc hm) \<le> lx_cpu (lxd_limits s' hc hm) \<and>
         lx_memory_mb (lxd_limits s hc hm) \<le> lx_memory_mb (lxd_limits s' hc hm)"
  using pick_tier_mono [OF size_score_mono [OF assms]] pick_tier_bounds [of "size_score s"]
  by (simp add: lxd_limits_sel min_le_iff_disj)

theorem lxd_limits_fit_host_witness:
  "vcpu (mk_shape 2 8192 ''general'') \<le> vcpu (mk_shape 32 131072 ''general'') \<and>
   lx_cpu (lxd_limits (mk_shape 2 8192 ''general'') 8 16384) = 2 \<and>
   lx_cpu (lxd_limits (mk_shape 2 8192 ''general'') 8 16384)
     \<le> lx_cpu (lxd_limits (mk_shape 32 131072 ''general'') 8 16384)"
proof -
  have h: "vcpu (mk_shape 2 8192 ''general'') \<le> vcpu (mk_shape 32 131072 ''general'')"
    "ram_mb (mk_shape 2 8192 ''general'') \<le> ram_mb (mk_shape 32 131072 ''general'')"
    by (simp_all add: mk_shape_def)
  have "lx_cpu (lxd_limits (mk_shape 2 8192 ''general'') 8 16384) = 2" by code_simp
  then show ?thesis using h lxd_limits_fit_host [OF h, of 8 16384] by simp
qed

text \<open>The size gate, decided exactly for every instance type of the catalog: a request passes
  when its score (the larger of vCPU and GB of RAM) is at most 4 on Free, 16 on Student, 32 on
  Developer, and always on Enterprise; an unknown type passes.\<close>

theorem enforce_size_cap_decides:
  "enforce_size_cap t kind p it = Inr () \<longleftrightarrow>
     (case classify_instance_size p it of
        None \<Rightarrow> True
      | Some _ \<Rightarrow>
          (case shape_for_instance it p of
             Some s \<Rightarrow> within_cap (size_score s) (score_ceiling t)
           | None \<Rightarrow> (case shape_for_instance (drop 3 it) p of
                       Some s \<Rightarrow> within_cap (size_score s) (score_ceiling t) | None \<Rightarrow> True)))"
proof (cases "classify_instance_size p it")
  case None
  then show ?thesis by (simp add: enforce_size_cap_def index_of_cap Let_def)
next
  case (Some z)
  show ?thesis
  proof (cases "shape_for_instance it p")
    case None
    with Some obtain s where "shape_for_instance (drop 3 it) p = Some s"
      "z = fst (pick_tier (size_score s) SIZE_TIERS)"
      by (auto simp: classify_instance_size_def split: if_splits option.splits)
    then show ?thesis using Some None by (simp add: enforce_size_cap_classified [of p it "size_score s"])
  next
    case (Some s)
    then show ?thesis using classify_shape [OF Some] enforce_size_cap_classified by simp
  qed
qed

text \<open>The largest container of each tier: CPUs and megabytes.\<close>

definition tier_container :: "string \<Rightarrow> int \<times> int" where
  "tier_container t =
     (if normalize_tier t = ''free'' then (1, 512) else if normalize_tier t = ''student'' then (2, 1024)
      else if normalize_tier t = ''developer'' then (3, 2048) else (5, 6144))"

lemma tier_container_row:
  "within_cap k (score_ceiling t) \<Longrightarrow>
   fst (snd (pick_tier k SIZE_TIERS)) \<le> fst (tier_container t) \<and>
   snd (snd (pick_tier k SIZE_TIERS)) \<le> snd (tier_container t)"
  by (auto simp: within_cap_def score_ceiling_def tier_container_def pick_tier_row split: if_splits)

text \<open> A request the size gate lets through gets a container no larger than its tier's
  largest, on every host (1 CPU and 512 MB on Free, up to 5 CPUs and 6144 MB on Enterprise), and
  passes the gate of every higher tier.\<close>

theorem size_cap_bounds_container:
  assumes "shape_for_instance it p = Some s" and "enforce_size_cap t kind p it = Inr ()"
    and "tier_rank t \<le> tier_rank t'"
  shows "lx_cpu (lxd_limits s hc hm) \<le> fst (tier_container t) \<and>
         lx_memory_mb (lxd_limits s hc hm) \<le> snd (tier_container t) \<and>
         enforce_size_cap t' kind p it = Inr ()"
proof -
  note decides = enforce_size_cap_classified [OF classify_shape [OF assms(1)]]
  have w: "within_cap (size_score s) (score_ceiling t)" using assms(2) decides by simp
  with score_ceiling_rank [OF assms(3)] have "within_cap (size_score s) (score_ceiling t')"
    using within_cap_le by blast
  with tier_container_row [OF w] show ?thesis by (simp add: decides lxd_limits_sel min_le_iff_disj)
qed

theorem size_cap_bounds_container_witness:
  "enforce_size_cap ''free'' ''vm'' ''aws'' ''t3.medium'' = Inr () \<and>
   lx_memory_mb (lxd_limits (dget AWS ''t3.medium'' DEFAULT_GENERAL) 64 65536) \<le> 512 \<and>
   enforce_size_cap ''free'' ''vm'' ''aws'' ''m5.xlarge'' \<noteq> Inr ()"
proof -
  have h: "shape_for_instance ''t3.medium'' ''aws'' = Some (annotate (mk_shape 2 4096 ''burstable'') ''t3.medium'')"
    "enforce_size_cap ''free'' ''vm'' ''aws'' ''t3.medium'' = Inr ()"
    "dget AWS ''t3.medium'' DEFAULT_GENERAL = mk_shape 2 4096 ''burstable''"
    "enforce_size_cap ''free'' ''vm'' ''aws'' ''m5.xlarge'' \<noteq> Inr ()"
    by code_simp+
  have "lxd_limits (mk_shape 2 4096 ''burstable'') 64 65536
      = lxd_limits (annotate (mk_shape 2 4096 ''burstable'') ''t3.medium'') 64 65536"
    by (simp add: lxd_limits_def annotate_def size_score_def)
  then show ?thesis
    using h size_cap_bounds_container [OF h(1,2) order_refl, of 64 65536] by (simp add: tier_container_def)
qed

end
