(* ===== verification/Spaces.thy ===== *)
theory Spaces
imports Tier_Policy "HOL-Library.Product_Lexorder"
begin

text \<open>Simulation spaces: the kernel's store of spaces (\<open>core/cloudlearn_platform.py\<close>) and the
  tenant-checked handlers over it (\<open>routes/spaces.py\<close>).  A space is the dictionary the code builds;
  every value the store holds under a space id is such a dictionary.  One call reads the clock once
  (\<open>now\<close>) and draws its random identifiers as arguments: \<open>rid\<close> is \<open>uuid4().hex[:12]\<close>, \<open>tok\<close> is
  \<open>token_hex(8)\<close>.  \<open>persist\<close> writes the state to disk and is left out.\<close>

section \<open>The store\<close>

type_synonym space = "pyval dict"

record spaces_st =
  ss_spaces :: "space dict"
  ss_active :: string
  ss_settings :: "pyval dict"

definition spaces_state :: "spaces_st \<Rightarrow> spaces_st" where
  "spaces_state ss =
     (let s0 = dsetdefault ''max_spaces'' (PInt 100) (ss_settings ss);
          s1 = (if pget s0 ''max_spaces'' = PInt 6 then dset ''max_spaces'' (PInt 100) s0 else s0);
          s2 = dsetdefault ''default_provider'' (PStr ''aws'') s1;
          s3 = dsetdefault ''default_region'' (PStr ''us-east-1'') s2;
          s4 = dsetdefault ''max_memory_mb'' (PInt 8192) s3;
          s5 = dsetdefault ''max_disk_mb'' (PInt 32768) s4
      in ss\<lparr>ss_settings := s5\<rparr>)"

definition empty_spaces :: spaces_st where
  "empty_spaces = \<lparr>ss_spaces = [], ss_active = [], ss_settings = []\<rparr>"

definition list_spaces :: "spaces_st \<Rightarrow> space list" where
  "list_spaces ss =
     sort_key (\<lambda>s. (py_str (dget s ''created_at'' (PStr [])), py_str (dget s ''name'' (PStr []))))
       (dvals (ss_spaces ss))"

definition get_active_space :: "spaces_st \<Rightarrow> space option" where
  "get_active_space ss = (if ss_active ss = [] then None else map_of (ss_spaces ss) (ss_active ss))"

section \<open>Cost estimate\<close>

record counts =
  n_runtime :: int
  n_ec2 :: int
  n_lambda :: int
  n_rds :: int
  n_sqs :: int
  n_dynamodb :: int

definition counts_of :: "pyval dict \<Rightarrow> counts result" where
  "counts_of spec =
     rbind (int_field spec ''runtime_count'' 0) (\<lambda>a.
     rbind (int_field spec ''ec2_count'' 0) (\<lambda>b.
     rbind (int_field spec ''lambda_count'' 0) (\<lambda>c.
     rbind (int_field spec ''rds_count'' 0) (\<lambda>d.
     rbind (int_field spec ''sqs_count'' 0) (\<lambda>e.
     rbind (int_field spec ''dynamodb_count'' 0) (\<lambda>f.
       Inr \<lparr>n_runtime = a, n_ec2 = b, n_lambda = c, n_rds = d, n_sqs = e, n_dynamodb = f\<rparr>))))))"

definition counts_dict :: "counts \<Rightarrow> pyval dict" where
  "counts_dict c =
     [(''runtime_count'', PInt (n_runtime c)), (''ec2_count'', PInt (n_ec2 c)),
      (''lambda_count'', PInt (n_lambda c)), (''rds_count'', PInt (n_rds c)),
      (''sqs_count'', PInt (n_sqs c)), (''dynamodb_count'', PInt (n_dynamodb c))]"

record estimate =
  es_provider :: string
  es_base_memory :: int
  es_cloudsim_memory :: int
  es_lxd_memory :: int
  es_memory :: counts
  es_total_memory :: int
  es_base_disk :: int
  es_disk :: counts
  es_total_disk :: int
  es_max_spaces :: int
  es_max_memory :: int
  es_max_disk :: int
  es_current :: nat

definition sum_counts :: "counts \<Rightarrow> int" where
  "sum_counts c = n_runtime c + n_ec2 c + n_lambda c + n_rds c + n_sqs c + n_dynamodb c"

definition memory_counts :: "counts \<Rightarrow> counts" where
  "memory_counts c =
     \<lparr>n_runtime = n_runtime c * 70, n_ec2 = n_ec2 c * 140, n_lambda = n_lambda c * 35,
      n_rds = n_rds c * 220, n_sqs = n_sqs c * 35, n_dynamodb = n_dynamodb c * 95\<rparr>"

definition disk_counts :: "counts \<Rightarrow> counts" where
  "disk_counts c =
     \<lparr>n_runtime = n_runtime c * 20, n_ec2 = n_ec2 c * 120, n_lambda = n_lambda c * 20,
      n_rds = n_rds c * 260, n_sqs = n_sqs c * 5, n_dynamodb = n_dynamodb c * 40\<rparr>"

text \<open>\<open>int(settings.get(k, default))\<close>, the settings holding integers.\<close>

definition setting_int :: "spaces_st \<Rightarrow> string \<Rightarrow> int \<Rightarrow> int result" where
  "setting_int ss k dflt = py_int (dget (ss_settings ss) k (PInt dflt))"

definition setting_str :: "spaces_st \<Rightarrow> string \<Rightarrow> string \<Rightarrow> pyval" where
  "setting_str ss k dflt = dget (ss_settings ss) k (PStr dflt)"

definition estimate_space_cost :: "pyval dict \<Rightarrow> spaces_st \<Rightarrow> estimate result" where
  "estimate_space_cost spec ss0 =
     (let ss = spaces_state ss0;
          provider = lower (py_str (py_or (pget spec ''provider'') (setting_str ss ''default_provider'' ''aws'')));
          base_memory = (if provider = ''aws'' then 180 else if provider = ''gcp'' then 170 else 175);
          base_disk = (if provider = ''aws'' then 35 else if provider = ''gcp'' then 32 else 34)
      in
      rbind (counts_of spec) (\<lambda>c.
      rbind (setting_int ss ''max_spaces'' 6) (\<lambda>ms.
      rbind (setting_int ss ''max_memory_mb'' 8192) (\<lambda>mm.
      rbind (setting_int ss ''max_disk_mb'' 32768) (\<lambda>md.
        Inr \<lparr>es_provider = provider,
             es_base_memory = base_memory, es_cloudsim_memory = 110, es_lxd_memory = 75,
             es_memory = memory_counts c,
             es_total_memory = base_memory + 110 + 75 + sum_counts (memory_counts c),
             es_base_disk = base_disk, es_disk = disk_counts c,
             es_total_disk = base_disk + sum_counts (disk_counts c),
             es_max_spaces = ms, es_max_memory = mm, es_max_disk = md,
             es_current = length (ss_spaces ss)\<rparr>)))))"

section \<open>Creating a space\<close>

definition default_runtime_backends :: "bool \<Rightarrow> pyval" where
  "default_runtime_backends appliance =
     PList (if appliance then [PStr ''lxd''] else [PStr ''multipass'', PStr ''lxd''])"

definition default_space_policy :: "bool \<Rightarrow> pyval" where
  "default_space_policy appliance =
     PDict [(''ec2'', PDict
       [(''launch'', PBool True),
        (''allowed_runtime_backends'', default_runtime_backends appliance),
        (''allowed_amis'', PList [])])]"

definition empty_service_states :: pyval where
  "empty_service_states = PDict
     [(''s3'', PDict [(''buckets'', PDict []), (''objects'', PDict []), (''multiparts'', PDict [])]),
      (''ec2'', PDict [(''instances'', PDict [])]),
      (''vpc'', PDict [(''vpcs'', PDict []), (''subnets'', PDict []), (''security_groups'', PDict []),
                      (''route_tables'', PDict []), (''internet_gateways'', PDict [])]),
      (''rds'', PDict [(''db_instances'', PDict []), (''db_subnet_groups'', PDict []),
                      (''db_parameter_groups'', PDict []), (''db_snapshots'', PDict []), (''events'', PList [])]),
      (''apigateway'', PDict [(''apis'', PDict []), (''logs'', PList [])]),
      (''lambda'', PDict [(''functions'', PDict []), (''events'', PList []), (''invocations'', PList [])]),
      (''sqs'', PDict [(''queues'', PDict []), (''events'', PList [])]),
      (''dynamodb'', PDict [(''tables'', PDict []), (''events'', PList [])])]"

text \<open>The fields that depend on the request are computed first; each may raise.\<close>

record space_limits =
  sl_max_instances :: int
  sl_max_memory :: int
  sl_max_disk :: int
  sl_runtime_mb :: int

definition space_limits_of :: "pyval dict \<Rightarrow> estimate \<Rightarrow> space_limits result" where
  "space_limits_of spec e =
     rbind (int_field spec ''max_instances'' 10) (\<lambda>i.
     rbind (int_field spec ''max_memory_mb'' (es_total_memory e * 2)) (\<lambda>m.
     rbind (int_field spec ''max_disk_mb'' (es_total_disk e * 2)) (\<lambda>d.
     rbind (int_field spec ''estimated_runtime_mb'' (n_runtime (es_memory e))) (\<lambda>r.
       Inr \<lparr>sl_max_instances = i, sl_max_memory = m, sl_max_disk = d, sl_runtime_mb = r\<rparr>))))"

definition new_space ::
  "bool \<Rightarrow> pyval dict \<Rightarrow> string \<Rightarrow> string \<Rightarrow> string \<Rightarrow> string \<Rightarrow> string \<Rightarrow> string \<Rightarrow>
   estimate \<Rightarrow> space_limits \<Rightarrow> counts \<Rightarrow> space" where
  "new_space appliance spec sid name provider region tok now e sl c =
     [(''space_id'', PStr sid), (''name'', PStr name), (''provider'', PStr provider),
      (''status'', PStr ''running''),
      (''seed'', py_or (pget spec ''seed'') (PStr tok)),
      (''owner_id'', py_or (pget spec ''owner_id'') (PStr ''local-user'')),
      (''created_at'', PStr now), (''updated_at'', PStr now),
      (''cloudsim_runtime_id'', PStr (''cloudsim-'' @ sid)),
      (''lxd_project_name'', PStr (''cl-'' @ sid)),
      (''active_region'', PStr region),
      (''active_account'', py_or (pget spec ''active_account'') (PStr ''local-account'')),
      (''max_instances'', PInt (sl_max_instances sl)),
      (''max_memory_mb'', PInt (sl_max_memory sl)), (''max_disk_mb'', PInt (sl_max_disk sl)),
      (''estimated_memory_mb'', PInt (es_total_memory e)), (''estimated_disk_mb'', PInt (es_total_disk e)),
      (''estimated_runtime_mb'', PInt (sl_runtime_mb sl)),
      (''estimated_cost_notes'', py_or (pget spec ''estimated_cost_notes'')
         (PStr ''Local resource estimate; not billing cost.''))]
     @ counts_dict c @
     [(''runtime'', PDict [(''mode'', PStr ''sandboxed''), (''instances'', PDict []), (''sandbox_count'', PInt 0)]),
      (''resources'', PDict []), (''events'', PList []), (''snapshots'', PList []),
      (''cloudsim'', PDict [(''summary'', PDict []), (''events'', PList []), (''last_tick'', PStr []),
                           (''policy'', default_space_policy appliance)]),
      (''service_states'', empty_service_states),
      (''tags'', py_or (pget spec ''tags'') (PDict []))]"

definition memory_error :: "estimate \<Rightarrow> int \<Rightarrow> string" where
  "memory_error e cap = ''Estimated memory usage '' @ int_str (es_total_memory e)
     @ '' MB exceeds local budget '' @ int_str cap @ '' MB''"

definition disk_error :: "estimate \<Rightarrow> int \<Rightarrow> string" where
  "disk_error e cap = ''Estimated disk usage '' @ int_str (es_total_disk e)
     @ '' MB exceeds local budget '' @ int_str cap @ '' MB''"

definition put_space :: "string \<Rightarrow> space \<Rightarrow> spaces_st \<Rightarrow> spaces_st" where
  "put_space sid sp ss =
     ss\<lparr>ss_spaces := dset sid sp (ss_spaces ss),
        ss_active := (if ss_active ss = [] then sid else ss_active ss)\<rparr>"

definition create_space ::
  "bool \<Rightarrow> pyval dict \<Rightarrow> string \<Rightarrow> string \<Rightarrow> string \<Rightarrow> spaces_st \<Rightarrow> spaces_st \<times> space result" where
  "create_space appliance spec rid tok now ss0 =
     (let ss = spaces_state ss0;
          body =
            rbind (setting_int ss ''max_spaces'' 6) (\<lambda>max_spaces.
            rbind (setting_int ss ''max_memory_mb'' 8192) (\<lambda>max_memory_mb.
            rbind (setting_int ss ''max_disk_mb'' 32768) (\<lambda>max_disk_mb.
            if int (length (ss_spaces ss)) \<ge> max_spaces
            then Inl (ValueError ''Maximum simulation space limit reached'')
            else
              let provider = lower (py_str (py_or (pget spec ''provider'') (setting_str ss ''default_provider'' ''aws'')));
                  name = strip (str_field spec ''name''
                           (provider @ ''-space-'' @ nat_str (length (ss_spaces ss) + 1)));
                  region = str_or (strip (py_str (py_or (pget spec ''region'')
                             (setting_str ss ''default_region'' ''us-east-1'')))) ''us-east-1'';
                  sid = str_field spec ''space_id'' (''space-'' @ rid)
              in
              rbind (counts_of spec) (\<lambda>c.
              rbind (estimate_space_cost ((''provider'', PStr provider) # counts_dict c) ss) (\<lambda>e.
              if es_total_memory e > max_memory_mb then Inl (ValueError (memory_error e max_memory_mb))
              else if es_total_disk e > max_disk_mb then Inl (ValueError (disk_error e max_disk_mb))
              else
                rbind (space_limits_of spec e) (\<lambda>sl.
                  Inr (sid, new_space appliance spec sid name provider region tok now e sl c)))))))
      in case body of
           Inl ex \<Rightarrow> (ss, Inl ex)
         | Inr (sid, sp) \<Rightarrow> (put_space sid sp ss, Inr sp))"

section \<open>Lifecycle\<close>

definition switch_space :: "string \<Rightarrow> string \<Rightarrow> spaces_st \<Rightarrow> spaces_st \<times> space result" where
  "switch_space sid now ss0 =
     (let ss = spaces_state ss0 in
      case map_of (ss_spaces ss) sid of
        None \<Rightarrow> (ss, Inl (KeyError sid))
      | Some sp \<Rightarrow>
          let sp' = dset ''last_selected_at'' (PStr now) sp
          in (ss\<lparr>ss_active := sid, ss_spaces := dset sid sp' (ss_spaces ss)\<rparr>, Inr sp'))"

definition set_status :: "string \<Rightarrow> string \<Rightarrow> string \<Rightarrow> spaces_st \<Rightarrow> spaces_st \<times> space result" where
  "set_status status sid now ss0 =
     (let ss = spaces_state ss0 in
      case map_of (ss_spaces ss) sid of
        None \<Rightarrow> (ss, Inl (KeyError sid))
      | Some sp \<Rightarrow>
          let sp' = dset ''updated_at'' (PStr now) (dset ''status'' (PStr status) sp)
          in (ss\<lparr>ss_spaces := dset sid sp' (ss_spaces ss)\<rparr>, Inr sp'))"

definition pause_space :: "string \<Rightarrow> string \<Rightarrow> spaces_st \<Rightarrow> spaces_st \<times> space result" where
  "pause_space = set_status ''paused''"

definition resume_space :: "string \<Rightarrow> string \<Rightarrow> spaces_st \<Rightarrow> spaces_st \<times> space result" where
  "resume_space = set_status ''running''"

definition archive_space :: "string \<Rightarrow> string \<Rightarrow> spaces_st \<Rightarrow> spaces_st \<times> space result" where
  "archive_space = set_status ''archived''"

definition first_key :: "'v dict \<Rightarrow> string" where
  "first_key d = (case d of [] \<Rightarrow> [] | (k, _) # _ \<Rightarrow> k)"

definition delete_space :: "string \<Rightarrow> spaces_st \<Rightarrow> spaces_st \<times> unit result" where
  "delete_space sid ss0 =
     (let ss = spaces_state ss0 in
      if \<not> dhas (ss_spaces ss) sid then (ss, Inl (KeyError sid))
      else
        let rest = dpop sid (ss_spaces ss)
        in (ss\<lparr>ss_spaces := rest,
               ss_active := (if ss_active ss = sid then first_key rest else ss_active ss)\<rparr>, Inr ()))"

definition get_space_policy :: "bool \<Rightarrow> string \<Rightarrow> spaces_st \<Rightarrow> spaces_st \<times> pyval result" where
  "get_space_policy appliance sid ss =
     (case map_of (ss_spaces ss) sid of
        None \<Rightarrow> (ss, Inl (KeyError sid))
      | Some sp \<Rightarrow>
          let cs = dict_or_empty (dget sp ''cloudsim''
                     (PDict [(''summary'', PDict []), (''events'', PList []), (''last_tick'', PStr [])]));
              cs' = dsetdefault ''policy'' (default_space_policy appliance) cs
          in (ss\<lparr>ss_spaces := dset sid (dset ''cloudsim'' (PDict cs') sp) (ss_spaces ss)\<rparr>,
              Inr (pget cs' ''policy'')))"

definition set_space_policy :: "bool \<Rightarrow> string \<Rightarrow> pyval \<Rightarrow> spaces_st \<Rightarrow> spaces_st \<times> pyval result" where
  "set_space_policy appliance sid policy ss =
     (case map_of (ss_spaces ss) sid of
        None \<Rightarrow> (ss, Inl (KeyError sid))
      | Some sp \<Rightarrow>
          let cs = dict_or_empty (dget sp ''cloudsim''
                     (PDict [(''summary'', PDict []), (''events'', PList []), (''last_tick'', PStr [])]));
              pv = dict_or_empty policy;
              ec2 = dict_or_empty (dget pv ''ec2'' (PDict []));
              ec2' = dsetdefault ''allowed_amis'' (PList [])
                       (dsetdefault ''allowed_runtime_backends'' (default_runtime_backends appliance)
                         (dsetdefault ''launch'' (PBool True) ec2));
              pv' = dset ''ec2'' (PDict ec2') pv
          in (ss\<lparr>ss_spaces := dset sid (dset ''cloudsim'' (PDict (dset ''policy'' (PDict pv') cs)) sp) (ss_spaces ss)\<rparr>,
              Inr (PDict pv')))"

section \<open>Well-formed stores\<close>

definition default_settings :: "pyval dict" where
  "default_settings =
     [(''max_spaces'', PInt 100), (''default_provider'', PStr ''aws''),
      (''default_region'', PStr ''us-east-1''), (''max_memory_mb'', PInt 8192),
      (''max_disk_mb'', PInt 32768)]"

text \<open>A space is filed under its own id, within the memory and disk budget of the store.\<close>

definition space_ok :: "string \<Rightarrow> space \<Rightarrow> bool" where
  "space_ok k sp \<longleftrightarrow> k \<noteq> [] \<and> pget sp ''space_id'' = PStr k \<and>
     (\<exists>m d. pget sp ''estimated_memory_mb'' = PInt m \<and> m \<le> 8192 \<and>
            pget sp ''estimated_disk_mb'' = PInt d \<and> d \<le> 32768)"

definition wf_spaces :: "spaces_st \<Rightarrow> bool" where
  "wf_spaces ss \<longleftrightarrow>
     wf_dict (ss_spaces ss) \<and> length (ss_spaces ss) \<le> 100 \<and>
     (\<forall>k sp. map_of (ss_spaces ss) k = Some sp \<longrightarrow> space_ok k sp) \<and>
     (if ss_spaces ss = [] then ss_active ss = [] else dhas (ss_spaces ss) (ss_active ss)) \<and>
     ss_settings ss \<in> {[], default_settings}"

lemma spaces_state_sel [simp]:
  "ss_spaces (spaces_state ss) = ss_spaces ss" "ss_active (spaces_state ss) = ss_active ss"
  by (simp_all add: spaces_state_def Let_def)

lemma spaces_state_default:
  assumes "ss_settings ss \<in> {[], default_settings}"
  shows "ss_settings (spaces_state ss) = default_settings"
proof -
  have "ss_settings (spaces_state ss) = ss_settings (spaces_state (empty_spaces\<lparr>ss_settings := ss_settings ss\<rparr>))"
    by (simp add: spaces_state_def Let_def)
  moreover have "ss_settings (spaces_state (empty_spaces\<lparr>ss_settings := x\<rparr>)) = default_settings"
    if "x = [] \<or> x = default_settings" for x
    using that by (elim disjE; hypsubst; code_simp)
  ultimately show ?thesis using assms by simp
qed

lemma wf_spaces_state: "wf_spaces ss \<Longrightarrow> wf_spaces (spaces_state ss)"
  by (simp add: wf_spaces_def spaces_state_default)

lemma wf_space_ok: "wf_spaces ss \<Longrightarrow> map_of (ss_spaces ss) k = Some sp \<Longrightarrow> space_ok k sp"
  by (simp add: wf_spaces_def)

lemma dset_not_Nil [simp]: "dset k v d \<noteq> []"
  by (cases d) (auto simp: dset_def)

lemma wf_put_existing:
  assumes "wf_spaces ss" and "dhas (ss_spaces ss) k" and "space_ok k sp"
  shows "wf_spaces (ss\<lparr>ss_spaces := dset k sp (ss_spaces ss)\<rparr>)"
proof -
  have "ss_spaces ss \<noteq> []" using assms(2) by (auto simp: dhas_def)
  then show ?thesis using assms by (auto simp: wf_spaces_def dict_simps length_dset)
qed

lemma wf_activate: "wf_spaces ss \<Longrightarrow> dhas (ss_spaces ss) k \<Longrightarrow> wf_spaces (ss\<lparr>ss_active := k\<rparr>)"
  by (auto simp: wf_spaces_def dhas_def split: if_splits)

lemma dhas_map_of: "map_of d k = Some v \<Longrightarrow> dhas d k"
  by (simp add: dhas_def)

lemma dhas_Some: "dhas d k \<longleftrightarrow> (\<exists>v. map_of d k = Some v)"
  by (auto simp: dhas_def)

lemma pget_dset [dict_simps]: "pget (dset k v d) k' = (if k' = k then v else pget d k')"
  by (simp add: pget_def dict_simps)

lemma space_ok_dset:
  "space_ok k sp \<Longrightarrow> f \<notin> {''space_id'', ''estimated_memory_mb'', ''estimated_disk_mb''} \<Longrightarrow>
   space_ok k (dset f v sp)"
  by (auto simp: space_ok_def dict_simps)

lemma dhas_first_key: "d \<noteq> [] \<Longrightarrow> dhas d (first_key d)"
  by (cases d) (auto simp: first_key_def dhas_def)

lemma wf_delete:
  assumes "wf_spaces ss"
  shows "wf_spaces (fst (delete_space sid ss))"
proof (cases "dhas (ss_spaces ss) sid")
  case True
  let ?r = "dpop sid (ss_spaces ss)"
  have "length ?r \<le> 100" using assms length_dpop_le [of sid "ss_spaces ss"] by (simp add: wf_spaces_def)
  moreover have "ss_spaces ss \<noteq> []" using True by (auto simp: dhas_def)
  then have "dhas (ss_spaces ss) (ss_active ss)" using assms by (simp add: wf_spaces_def)
  moreover have "?r = [] \<Longrightarrow> ss_active ss = sid"
    using \<open>dhas (ss_spaces ss) (ss_active ss)\<close> dhas_dpop [of sid "ss_spaces ss" "ss_active ss"]
    by (auto simp: dhas_def)
  moreover have "wf_dict ?r" "\<forall>k sp. map_of ?r k = Some sp \<longrightarrow> space_ok k sp"
    "ss_settings (spaces_state ss) = default_settings"
    using assms by (auto simp: wf_spaces_def dict_simps spaces_state_default)
  ultimately show ?thesis
    using True dhas_first_key [of ?r]
    by (auto simp: delete_space_def Let_def wf_spaces_def dict_simps first_key_def)
next
  case False
  then show ?thesis using wf_spaces_state [OF assms] by (simp add: delete_space_def Let_def)
qed

lemma wf_update_existing:
  assumes "wf_spaces ss" and "map_of (ss_spaces ss) k = Some sp"
    and "f \<notin> {''space_id'', ''estimated_memory_mb'', ''estimated_disk_mb''}"
  shows "wf_spaces (ss\<lparr>ss_spaces := dset k (dset f v sp) (ss_spaces ss)\<rparr>)"
  using wf_put_existing [OF assms(1) dhas_map_of [OF assms(2)]
      space_ok_dset [OF wf_space_ok [OF assms(1,2)] assms(3)]] .

lemma wf_set_status: "wf_spaces ss \<Longrightarrow> wf_spaces (fst (set_status st sid now ss))"
proof (cases "map_of (ss_spaces ss) sid")
  case (Some sp)
  assume "wf_spaces ss"
  note w = wf_spaces_state [OF this]
  have "space_ok sid (dset ''updated_at'' (PStr now) (dset ''status'' (PStr st) sp))"
    using wf_space_ok [OF w, of sid sp] Some by (intro space_ok_dset) simp_all
  from wf_put_existing [OF w _ this] show ?thesis
    using Some by (simp add: set_status_def Let_def dhas_map_of)
qed (simp add: set_status_def Let_def wf_spaces_state)

lemma wf_switch: "wf_spaces ss \<Longrightarrow> wf_spaces (fst (switch_space sid now ss))"
proof (cases "map_of (ss_spaces ss) sid")
  case (Some sp)
  assume "wf_spaces ss"
  note w = wf_spaces_state [OF this]
  have "space_ok sid (dset ''last_selected_at'' (PStr now) sp)"
    using wf_space_ok [OF w, of sid sp] Some by (intro space_ok_dset) simp_all
  from wf_put_existing [OF wf_activate [OF w] _ this] show ?thesis
    using Some by (simp add: switch_space_def Let_def dhas_map_of)
qed (simp add: switch_space_def Let_def wf_spaces_state)

lemma wf_policy:
  "wf_spaces ss \<Longrightarrow> wf_spaces (fst (get_space_policy ap sid ss))"
  "wf_spaces ss \<Longrightarrow> wf_spaces (fst (set_space_policy ap sid pv ss))"
  by (cases "map_of (ss_spaces ss) sid";
      simp add: get_space_policy_def set_space_policy_def Let_def wf_update_existing)+

section \<open>Creation\<close>

text \<open>A successful creation, taken apart: the budget checks have passed and the new space is filed.\<close>

lemma setting_default:
  assumes "wf_spaces ss"
  shows "setting_int (spaces_state ss) ''max_spaces'' d = Inr 100"
    and "setting_int (spaces_state ss) ''max_memory_mb'' d = Inr 8192"
    and "setting_int (spaces_state ss) ''max_disk_mb'' d = Inr 32768"
  using assms spaces_state_default [of ss]
  by (simp_all add: wf_spaces_def setting_int_def default_settings_def dget_def)

lemma create_space_cases:
  assumes wf: "wf_spaces ss" and ok: "create_space ap spec rid tok now ss = (ss', Inr sp)"
  obtains sid name provider region e sl c where
    "sid = str_field spec ''space_id'' (''space-'' @ rid)"
    and "sp = new_space ap spec sid name provider region tok now e sl c"
    and "ss' = put_space sid sp (spaces_state ss)"
    and "length (ss_spaces ss) < 100" and "es_total_memory e \<le> 8192" and "es_total_disk e \<le> 32768"
proof -
  show thesis
    using ok setting_default [OF wf]
    by (auto simp: create_space_def Let_def rbind_Inr split: sum.splits if_splits intro!: that)
qed

lemma create_space_error: "create_space ap spec rid tok now ss = (ss', Inl ex) \<Longrightarrow> ss' = spaces_state ss"
  by (simp add: create_space_def Let_def split: sum.splits prod.splits)

lemma new_space_fields:
  "pget (new_space ap spec sid name provider region tok now e sl c) ''space_id'' = PStr sid"
  "pget (new_space ap spec sid name provider region tok now e sl c) ''provider'' = PStr provider"
  "pget (new_space ap spec sid name provider region tok now e sl c) ''estimated_memory_mb'' = PInt (es_total_memory e)"
  "pget (new_space ap spec sid name provider region tok now e sl c) ''estimated_disk_mb'' = PInt (es_total_disk e)"
  "pget (new_space ap spec sid name provider region tok now e sl c) ''status'' = PStr ''running''"
  "pget (new_space ap spec sid name provider region tok now e sl c) ''tenant_id'' = PNone"
  by (simp_all add: new_space_def counts_dict_def pget_def dget_def)

text \<open>A request names its space by a text, or leaves the name to the kernel.\<close>

definition spec_id_ok :: "pyval dict \<Rightarrow> bool" where
  "spec_id_ok spec = (case pget spec ''space_id'' of PNone \<Rightarrow> True | PStr _ \<Rightarrow> True | _ \<Rightarrow> False)"

lemma spec_id_not_Nil: "spec_id_ok spec \<Longrightarrow> str_field spec ''space_id'' (''space-'' @ rid) \<noteq> []"
  by (auto simp: spec_id_ok_def str_field_def py_or_def py_str_def split: pyval.splits)

lemma wf_put_new:
  assumes "wf_spaces ss" and "space_ok k sp" and "length (ss_spaces ss) < 100"
  shows "wf_spaces (put_space k sp ss)"
  using assms by (auto simp: wf_spaces_def put_space_def dict_simps length_dset space_ok_def dhas_def split: if_splits)

lemma wf_create:
  assumes wf: "wf_spaces ss" and "spec_id_ok spec"
  shows "wf_spaces (fst (create_space ap spec rid tok now ss))"
proof (cases "create_space ap spec rid tok now ss")
  case (Pair ss' r)
  show ?thesis
  proof (cases r)
    case (Inl ex)
    then show ?thesis using Pair create_space_error wf_spaces_state [OF wf] by auto
  next
    case (Inr sp)
    with Pair obtain sid name provider region e sl c where
      "sid = str_field spec ''space_id'' (''space-'' @ rid)"
      "sp = new_space ap spec sid name provider region tok now e sl c"
      "ss' = put_space sid sp (spaces_state ss)" "length (ss_spaces ss) < 100"
      "es_total_memory e \<le> 8192" "es_total_disk e \<le> 32768"
      using create_space_cases [OF wf] by metis
    then show ?thesis
      using Pair assms(2) spec_id_not_Nil wf_spaces_state [OF wf]
      by (auto intro!: wf_put_new simp: space_ok_def new_space_fields)
  qed
qed

section \<open>Reachable stores\<close>

inductive space_step :: "spaces_st \<Rightarrow> spaces_st \<Rightarrow> bool" where
  create: "spec_id_ok spec \<Longrightarrow> space_step ss (fst (create_space ap spec rid tok now ss))"
| switch: "space_step ss (fst (switch_space sid now ss))"
| pause: "space_step ss (fst (pause_space sid now ss))"
| resume: "space_step ss (fst (resume_space sid now ss))"
| archive: "space_step ss (fst (archive_space sid now ss))"
| delete: "space_step ss (fst (delete_space sid ss))"
| get_policy: "space_step ss (fst (get_space_policy ap sid ss))"
| set_policy: "space_step ss (fst (set_space_policy ap sid pv ss))"

lemma space_step_wf: "space_step ss ss' \<Longrightarrow> wf_spaces ss \<Longrightarrow> wf_spaces ss'"
  by (induction rule: space_step.induct)
    (simp_all add: wf_create wf_switch wf_set_status wf_delete wf_policy pause_space_def
      resume_space_def archive_space_def)

lemma wf_empty: "wf_spaces empty_spaces"
  by (simp add: wf_spaces_def empty_spaces_def wf_dict_def)

lemma reachable_wf: "space_step\<^sup>*\<^sup>* empty_spaces ss \<Longrightarrow> wf_spaces ss"
  by (induction rule: rtranclp_induct) (auto intro: wf_empty space_step_wf)



section \<open>Functional behaviour\<close>

text \<open> Creating a space: success files exactly one space, running, under the requested or
  generated id, within the budget, leaves every other space alone and activates it only when
  none was active; failure leaves spaces and active id as they were.\<close>

theorem create_space_spec:
  assumes "wf_spaces ss" and "create_space ap spec rid tok now ss = (ss', r)"
  shows "case r of
           Inl ex \<Rightarrow> ss_spaces ss' = ss_spaces ss \<and> ss_active ss' = ss_active ss
         | Inr sp \<Rightarrow>
             (let sid = str_field spec ''space_id'' (''space-'' @ rid) in
              map_of (ss_spaces ss') = (map_of (ss_spaces ss))(sid \<mapsto> sp) \<and>
              pget sp ''space_id'' = PStr sid \<and> pget sp ''status'' = PStr ''running'' \<and>
              pget sp ''tenant_id'' = PNone \<and> length (ss_spaces ss) < 100 \<and>
              ss_active ss' = (if ss_active ss = [] then sid else ss_active ss))"
proof (cases r)
  case (Inl ex)
  then have "ss' = spaces_state ss" using assms(2) create_space_error by blast
  then show ?thesis using Inl by simp
next
  case (Inr sp)
  with assms obtain sid name provider region e sl c where
    "sid = str_field spec ''space_id'' (''space-'' @ rid)"
    "sp = new_space ap spec sid name provider region tok now e sl c"
    "ss' = put_space sid sp (spaces_state ss)" "length (ss_spaces ss) < 100"
    using create_space_cases [OF assms(1)] by metis
  then show ?thesis using Inr by (simp add: Let_def put_space_def dict_simps new_space_fields)
qed

theorem create_space_spec_witness:
  "wf_spaces empty_spaces \<and>
   (\<exists>ss' sp. create_space True [(''space_id'', PStr ''s1''), (''ec2_count'', PInt 3)] ''0a'' ''ff'' ''t'' empty_spaces
       = (ss', Inr sp) \<and> ss_active ss' = ''s1'' \<and> pget sp ''status'' = PStr ''running'')"
proof -
  let ?c = "create_space True [(''space_id'', PStr ''s1''), (''ec2_count'', PInt 3)] ''0a'' ''ff'' ''t'' empty_spaces"
  have "\<not> isl (snd ?c)" by code_simp
  then obtain ss' sp where c: "?c = (ss', Inr sp)" by (metis isl_def sum.exhaust prod.collapse)
  have "str_field [(''space_id'', PStr ''s1''), (''ec2_count'', PInt 3)] ''space_id'' (''space-'' @ ''0a'') = ''s1''"
    by code_simp
  with create_space_spec [OF wf_empty c] show ?thesis
    using c wf_empty by (auto simp: Let_def empty_spaces_def)
qed

text \<open>A lifecycle operation changes one space's status and nothing else: pausing and then
  resuming leaves every other space and the active id as they were, and the space running;
  no status forbids a transition.\<close>

theorem pause_resume_frame:
  assumes "map_of (ss_spaces ss) sid = Some sp"
  shows "let ss1 = fst (pause_space sid t1 ss); ss2 = fst (resume_space sid t2 ss1) in
         map_of (ss_spaces ss1) sid = Some (dset ''updated_at'' (PStr t1) (dset ''status'' (PStr ''paused'') sp)) \<and>
         pget (the (map_of (ss_spaces ss2) sid)) ''status'' = PStr ''running'' \<and>
         (\<forall>k. k = sid \<or> map_of (ss_spaces ss2) k = map_of (ss_spaces ss) k) \<and>
         ss_active ss2 = ss_active ss"
  using assms by (simp add: pause_space_def resume_space_def set_status_def Let_def dict_simps)

theorem pause_resume_frame_witness:
  "map_of (ss_spaces (empty_spaces\<lparr>ss_spaces := [(''a'', [(''status'', PStr ''archived'')])]\<rparr>)) ''a''
     = Some [(''status'', PStr ''archived'')] \<and>
   map_of (ss_spaces (fst (pause_space ''a'' ''t'' (empty_spaces\<lparr>ss_spaces := [(''a'', [(''status'', PStr ''archived'')])]\<rparr>)))) ''a''
     = Some [(''status'', PStr ''paused''), (''updated_at'', PStr ''t'')]"
proof -
  let ?ss = "empty_spaces\<lparr>ss_spaces := [(''a'', [(''status'', PStr ''archived'')])]\<rparr>"
  have h: "map_of (ss_spaces ?ss) ''a'' = Some [(''status'', PStr ''archived'')]" by simp
  from pause_resume_frame [OF h, of "''t''" "''u''"]
  show ?thesis using h by (simp add: Let_def dset_def)
qed

text \<open> Deleting a space removes it and only it; when it was the active one, the first
  remaining space becomes active, and none when it was the last.\<close>

theorem delete_space_spec:
  assumes "wf_spaces ss" and "dhas (ss_spaces ss) sid"
  shows "let ss' = fst (delete_space sid ss) in
         map_of (ss_spaces ss') = (map_of (ss_spaces ss))(sid := None) \<and>
         (if ss_active ss = sid
          then (ss_active ss' = [] \<longleftrightarrow> ss_spaces ss' = []) \<and>
               (ss_spaces ss' = [] \<or> dhas (ss_spaces ss') (ss_active ss'))
          else ss_active ss' = ss_active ss)"
proof -
  let ?r = "dpop sid (ss_spaces ss)"
  have "map_of (ss_spaces ss) [] = None"
    using wf_space_ok [OF assms(1), of "[]"] by (cases "map_of (ss_spaces ss) []") (simp_all add: space_ok_def)
  then have "\<not> dhas ?r []" by (simp add: dhas_def dict_simps)
  then have "first_key ?r = [] \<longleftrightarrow> ?r = []"
    using dhas_first_key [of ?r] by (cases "?r = []") (auto simp: first_key_def [of "[]"])
  then show ?thesis
    using assms(2) dhas_first_key [of ?r] by (auto simp: delete_space_def Let_def dict_simps)
qed

theorem delete_space_spec_witness:
  "dhas (ss_spaces (fst (create_space True [(''space_id'', PStr ''s1'')] ''0a'' ''ff'' ''t'' empty_spaces))) ''s1'' \<and>
   ss_active (fst (delete_space ''s1''
     (fst (create_space True [(''space_id'', PStr ''s1'')] ''0a'' ''ff'' ''t'' empty_spaces)))) = []"
proof -
  let ?ss = "fst (create_space True [(''space_id'', PStr ''s1'')] ''0a'' ''ff'' ''t'' empty_spaces)"
  have w: "wf_spaces ?ss" by (rule wf_create [OF wf_empty]) code_simp
  have h: "dhas (ss_spaces ?ss) ''s1''" by code_simp
  have "ss_active ?ss = ''s1''" "ss_spaces (fst (delete_space ''s1'' ?ss)) = []" by code_simp+
  then show ?thesis using h delete_space_spec [OF w h] by (simp add: Let_def)
qed

end
