(* ===== verification/Tenants.thy ===== *)
theory Tenants
imports Spaces
begin

text \<open>Tenants and the space-scoped stores (\<open>core/app_context.py\<close>): the tenant of a request, the
  proxies through which every service reaches the state of one space, the resource counter of the
  tier's quantity gate, and the tenant-checked space handlers (\<open>routes/spaces.py\<close>).\<close>

section \<open>State and requests\<close>

record pstate =
  st_spaces :: spaces_st
  st_tenants :: "(pyval dict) dict"
  st_active_tenant :: string
  st_license :: "pyval dict"
  st_services :: "(pyval dict) dict"

text \<open>The two context variables a request sets: the emulated cloud and the tenant header.\<close>

record request =
  rq_provider :: string
  rq_tenant :: string

definition DEFAULT_TENANT_ID :: string where
  "DEFAULT_TENANT_ID = ''default''"

definition ALLOWED_PROVIDERS :: "string list" where
  "ALLOWED_PROVIDERS = [''aws'', ''gcp'', ''azure'']"

definition active_tenant_id :: "request \<Rightarrow> pstate \<Rightarrow> string" where
  "active_tenant_id rq st =
     (let tid = strip (rq_tenant rq)
      in if tid \<noteq> [] then tid else str_or (st_active_tenant st) DEFAULT_TENANT_ID)"

definition tenant_dict :: "pstate \<Rightarrow> string \<Rightarrow> pyval dict option" where
  "tenant_dict st tid = map_of (st_tenants st) tid"

definition tag_space :: "space \<Rightarrow> space" where
  "tag_space sp = (if truthy (pget sp ''tenant_id'') then sp else dset ''tenant_id'' (PStr DEFAULT_TENANT_ID) sp)"

definition ensure_default_tenant :: "string \<Rightarrow> pstate \<Rightarrow> pstate" where
  "ensure_default_tenant now st =
     st\<lparr>st_tenants := dsetdefault DEFAULT_TENANT_ID
          [(''tenant_id'', PStr DEFAULT_TENANT_ID), (''name'', PStr ''Default Tenant''),
           (''license_tier'', PStr (py_str (dget (st_license st) ''tier'' (PStr ''free'')))),
           (''created_at'', PStr now), (''settings'', PDict [(''max_spaces'', PInt 6)])] (st_tenants st),
        st_active_tenant := str_or (st_active_tenant st) DEFAULT_TENANT_ID,
        st_spaces := (st_spaces st)\<lparr>ss_spaces := map (\<lambda>(k, sp). (k, tag_space sp)) (ss_spaces (st_spaces st))\<rparr>\<rparr>"

text \<open>The active tier outside appliance mode, the cache having expired.\<close>

definition active_tier :: "request \<Rightarrow> pstate \<Rightarrow> string" where
  "active_tier rq st =
     (let tenant = (case tenant_dict st (active_tenant_id rq st) of Some t \<Rightarrow> t | None \<Rightarrow> [])
      in py_str (py_or (pget tenant ''license_tier'') (py_or (pget (st_license st) ''tier'') (PStr ''free''))))"

section \<open>Space-scoped stores\<close>

text \<open>A nested dictionary under a key, read and written.\<close>

definition sub :: "string \<Rightarrow> pyval dict \<Rightarrow> pyval dict" where
  "sub k d = dict_or_empty (pget d k)"

definition put_sub :: "string \<Rightarrow> pyval dict \<Rightarrow> pyval dict \<Rightarrow> pyval dict" where
  "put_sub k v d = dset k (PDict v) d"

definition ensure_sub :: "string \<Rightarrow> pyval dict \<Rightarrow> pyval dict \<Rightarrow> pyval dict" where
  "ensure_sub k dflt d = dsetdefault k (PDict dflt) d"

record proxy =
  px_service :: string
  px_default :: "pyval dict"
  px_nested :: "string option"

definition req_provider :: "request \<Rightarrow> string" where
  "req_provider rq = strip (lower (str_or (rq_provider rq) ''aws''))"

definition space_tid :: "space \<Rightarrow> pyval" where
  "space_tid sp = py_or (pget sp ''tenant_id'') (PStr DEFAULT_TENANT_ID)"

definition space_provider :: "space \<Rightarrow> string" where
  "space_provider sp = strip (lower (str_field sp ''provider'' ''aws''))"

definition matches :: "string \<Rightarrow> string \<Rightarrow> space \<Rightarrow> bool" where
  "matches tid prov sp \<longleftrightarrow> space_tid sp = PStr tid \<and> space_provider sp = prov"

definition auto_id :: "string \<Rightarrow> string \<Rightarrow> string" where
  "auto_id prov rid = ''space-auto-'' @ prov @ ''-'' @ rid"

definition auto_space :: "string \<Rightarrow> string \<Rightarrow> string \<Rightarrow> string \<Rightarrow> space" where
  "auto_space prov tid rid now =
     [(''space_id'', PStr (auto_id prov rid)), (''name'', PStr (upper prov @ '' workspace (auto)'')),
      (''provider'', PStr prov), (''tenant_id'', PStr tid), (''service_states'', PDict []),
      (''created_at'', PStr now), (''auto_created'', PBool True)]"

text \<open>The key and the updated spaces; \<open>rid\<close> is \<open>uuid4().hex[:8]\<close>.\<close>

definition pivot_to_matching_space ::
  "string \<Rightarrow> string \<Rightarrow> space dict \<Rightarrow> string \<Rightarrow> string \<Rightarrow> string \<times> space dict" where
  "pivot_to_matching_space rid now spaces prov tid =
     (case find (\<lambda>(sid, s). s \<noteq> [] \<and> matches tid prov s) spaces of
        Some (sid, s) \<Rightarrow> (sid, dset sid (dsetdefault ''space_id'' (PStr sid) s) spaces)
      | None \<Rightarrow> (auto_id prov rid, dset (auto_id prov rid) (auto_space prov tid rid now) spaces))"

text \<open>The space a request works in, if there is one, and the spaces after resolving it.\<close>

definition resolve_space :: "request \<Rightarrow> string \<Rightarrow> string \<Rightarrow> pstate \<Rightarrow> string option \<times> space dict" where
  "resolve_space rq rid now st =
     (let ss = st_spaces st;
          active = ss_active ss;
          space = (if active \<noteq> [] then dget (ss_spaces ss) active [] else [])
      in if space = [] then (None, ss_spaces ss)
         else if matches (active_tenant_id rq st) (req_provider rq) space then (Some active, ss_spaces ss)
         else let (sid, sps) = pivot_to_matching_space rid now (ss_spaces ss) (req_provider rq) (active_tenant_id rq st)
              in (Some sid, sps))"

definition service_key :: "request \<Rightarrow> proxy \<Rightarrow> string" where
  "service_key rq px =
     (if req_provider rq = ''aws'' then px_service px else req_provider rq @ ''_'' @ px_service px)"

text \<open>The entries of a proxy inside the dictionary of its service, and their update.\<close>

definition nested_get :: "proxy \<Rightarrow> pyval dict \<Rightarrow> pyval dict" where
  "nested_get px d = (case px_nested px of None \<Rightarrow> d | Some n \<Rightarrow> sub n d)"

definition nested_upd :: "proxy \<Rightarrow> (pyval dict \<Rightarrow> pyval dict) \<Rightarrow> pyval dict \<Rightarrow> pyval dict" where
  "nested_upd px f d =
     (case px_nested px of None \<Rightarrow> f d | Some n \<Rightarrow> (let d' = ensure_sub n [] d in put_sub n (f (sub n d')) d'))"

definition space_upd :: "string \<Rightarrow> proxy \<Rightarrow> (pyval dict \<Rightarrow> pyval dict) \<Rightarrow> space \<Rightarrow> space" where
  "space_upd key px f sp =
     (let sp1 = ensure_sub ''service_states'' [] sp;
          svc = ensure_sub key (px_default px) (sub ''service_states'' sp1)
      in put_sub ''service_states'' (put_sub key (nested_upd px f (sub key svc)) svc) sp1)"

definition space_get :: "string \<Rightarrow> proxy \<Rightarrow> space \<Rightarrow> pyval dict" where
  "space_get key px sp =
     nested_get px (sub key (ensure_sub key (px_default px) (sub ''service_states'' sp)))"

text \<open>Every operation of a proxy first resolves its target, creating what is missing, then reads or
  updates the target's entries.\<close>

definition target_upd ::
  "request \<Rightarrow> string \<Rightarrow> string \<Rightarrow> proxy \<Rightarrow> (pyval dict \<Rightarrow> pyval dict) \<Rightarrow> pstate \<Rightarrow> pstate" where
  "target_upd rq rid now px f st =
     (case resolve_space rq rid now st of
        (Some sid, sps) \<Rightarrow>
          st\<lparr>st_spaces := (st_spaces st)\<lparr>ss_spaces :=
             dset sid (space_upd (service_key rq px) px f (dget sps sid [])) sps\<rparr>\<rparr>
      | (None, _) \<Rightarrow>
          st\<lparr>st_services := dset (px_service px)
             (nested_upd px f (dget (st_services st) (px_service px) (px_default px))) (st_services st)\<rparr>)"

definition target_get :: "request \<Rightarrow> string \<Rightarrow> string \<Rightarrow> proxy \<Rightarrow> pstate \<Rightarrow> pyval dict" where
  "target_get rq rid now px st =
     (case resolve_space rq rid now st of
        (Some sid, sps) \<Rightarrow> space_get (service_key rq px) px (dget sps sid [])
      | (None, _) \<Rightarrow> nested_get px (dget (st_services st) (px_service px) (px_default px)))"

definition proxy_getitem ::
  "request \<Rightarrow> string \<Rightarrow> string \<Rightarrow> proxy \<Rightarrow> string \<Rightarrow> pstate \<Rightarrow> pstate \<times> pyval result" where
  "proxy_getitem rq rid now px k st =
     (target_upd rq rid now px id st,
      case map_of (target_get rq rid now px st) k of Some v \<Rightarrow> Inr v | None \<Rightarrow> Inl (KeyError k))"

definition proxy_setitem ::
  "request \<Rightarrow> string \<Rightarrow> string \<Rightarrow> proxy \<Rightarrow> string \<Rightarrow> pyval \<Rightarrow> pstate \<Rightarrow> pstate" where
  "proxy_setitem rq rid now px k v st = target_upd rq rid now px (dset k v) st"

definition proxy_delitem ::
  "request \<Rightarrow> string \<Rightarrow> string \<Rightarrow> proxy \<Rightarrow> string \<Rightarrow> pstate \<Rightarrow> pstate \<times> unit result" where
  "proxy_delitem rq rid now px k st =
     (target_upd rq rid now px (dpop k) st,
      if dhas (target_get rq rid now px st) k then Inr () else Inl (KeyError k))"

definition proxy_get ::
  "request \<Rightarrow> string \<Rightarrow> string \<Rightarrow> proxy \<Rightarrow> string \<Rightarrow> pyval \<Rightarrow> pstate \<Rightarrow> pstate \<times> pyval" where
  "proxy_get rq rid now px k dflt st =
     (target_upd rq rid now px id st, dget (target_get rq rid now px st) k dflt)"

definition proxy_pop ::
  "request \<Rightarrow> string \<Rightarrow> string \<Rightarrow> proxy \<Rightarrow> string \<Rightarrow> pyval \<Rightarrow> pstate \<Rightarrow> pstate \<times> pyval" where
  "proxy_pop rq rid now px k dflt st =
     (target_upd rq rid now px (dpop k) st, dget (target_get rq rid now px st) k dflt)"

definition proxy_len :: "request \<Rightarrow> string \<Rightarrow> string \<Rightarrow> proxy \<Rightarrow> pstate \<Rightarrow> pstate \<times> nat" where
  "proxy_len rq rid now px st =
     (target_upd rq rid now px id st, length (target_get rq rid now px st))"

definition proxy_clear :: "request \<Rightarrow> string \<Rightarrow> string \<Rightarrow> proxy \<Rightarrow> pstate \<Rightarrow> pstate" where
  "proxy_clear rq rid now px st = target_upd rq rid now px (\<lambda>_. []) st"

section \<open>Facts about nested dictionaries\<close>

lemma sub_put_sub [simp]: "sub k (put_sub k' v d) = (if k = k' then v else sub k d)"
  by (simp add: sub_def put_sub_def dict_simps dict_or_empty_def)

lemma sub_dset_other: "k' \<noteq> k \<Longrightarrow> sub k (dset k' v d) = sub k d"
  by (simp add: sub_def dict_simps)

lemma sub_dsetdefault_other: "k' \<noteq> k \<Longrightarrow> sub k (dsetdefault k' v d) = sub k d"
  by (simp add: dsetdefault_def sub_dset_other)

lemma sub_ensure_sub: "sub k (ensure_sub k' v d) = (if k = k' \<and> \<not> dhas d k then v else sub k d)"
  by (auto simp: ensure_sub_def dsetdefault_def sub_def dict_simps dict_or_empty_def)

lemma sub_ensure_empty [simp]: "sub k (ensure_sub k [] d) = sub k d"
  by (simp add: sub_ensure_sub) (simp add: sub_def pget_def dget_def dhas_def dict_or_empty_def)

lemma dhas_put_sub [simp]: "dhas (put_sub k v d) k' \<longleftrightarrow> k' = k \<or> dhas d k'"
  by (simp add: put_sub_def dict_simps)

lemma ensure_put_sub [simp]: "ensure_sub k v (put_sub k w d) = put_sub k w d"
  by (simp add: ensure_sub_def dsetdefault_def)

lemma nested_get_upd [simp]: "nested_get px (nested_upd px f d) = f (nested_get px d)"
  by (simp add: nested_get_def nested_upd_def Let_def split: option.split)

lemma nested_get_upd_other:
  "px_nested px = Some n \<Longrightarrow> px_nested px' = Some n' \<Longrightarrow> n \<noteq> n' \<Longrightarrow>
   nested_get px' (nested_upd px f d) = nested_get px' d"
  by (auto simp: nested_get_def nested_upd_def Let_def sub_ensure_sub)

lemma space_get_upd [simp]: "space_get key px (space_upd key px f sp) = f (space_get key px sp)"
  by (simp add: space_get_def space_upd_def Let_def)

lemma dhas_ensure_sub [simp]: "dhas (ensure_sub k v d) k' \<longleftrightarrow> k' = k \<or> dhas d k'"
  by (auto simp: ensure_sub_def dsetdefault_def dict_simps)

lemma sub_ensure_put_other:
  "k \<noteq> k' \<Longrightarrow> sub k (ensure_sub k w (put_sub k' x (ensure_sub k' y d))) = sub k (ensure_sub k w d)"
  by (simp add: sub_ensure_sub)

lemma space_get_upd_key:
  "key' \<noteq> key \<Longrightarrow> space_get key' px' (space_upd key px f sp) = space_get key' px' sp"
  using sub_ensure_put_other [of key' key] by (simp add: space_get_def space_upd_def Let_def)

lemma pget_space_upd: "k \<noteq> ''service_states'' \<Longrightarrow> pget (space_upd key px f sp) k = pget sp k"
  by (simp add: space_upd_def Let_def put_sub_def ensure_sub_def dsetdefault_def dict_simps)

lemma space_upd_not_Nil [simp]: "space_upd key px f sp \<noteq> []"
  by (simp add: space_upd_def Let_def put_sub_def)

lemma matches_cong:
  "pget sp ''tenant_id'' = pget sp' ''tenant_id'' \<Longrightarrow> pget sp ''provider'' = pget sp' ''provider'' \<Longrightarrow>
   matches t p sp = matches t p sp'"
  by (simp add: matches_def space_tid_def space_provider_def str_field_def)

lemma matches_space_upd [simp]: "matches t p (space_upd key px f sp) = matches t p sp"
  by (rule matches_cong) (simp_all add: pget_space_upd)

lemma pget_dsetdefault_other: "k' \<noteq> k \<Longrightarrow> pget (dsetdefault k' v d) k = pget d k"
  by (simp add: dsetdefault_def dict_simps)

lemma matches_named [simp]: "matches t p (dsetdefault ''space_id'' v sp) = matches t p sp"
  by (rule matches_cong) (simp_all add: pget_dsetdefault_other)

lemma dsetdefault_not_Nil [simp]: "sp \<noteq> [] \<Longrightarrow> dsetdefault k v sp \<noteq> []"
  by (simp add: dsetdefault_def)

lemma space_get_named [simp]: "space_get key px (dsetdefault ''space_id'' v sp) = space_get key px sp"
  by (simp add: space_get_def sub_dsetdefault_other)

lemma matches_unique: "matches t p sp \<Longrightarrow> matches t' p' sp \<Longrightarrow> t = t' \<and> p = p'"
  by (auto simp: matches_def)

lemma active_tenant_not_Nil [simp]: "active_tenant_id rq st \<noteq> []"
  by (simp add: active_tenant_id_def Let_def str_or_def DEFAULT_TENANT_ID_def)

lemma provider_normal: "p \<in> set ALLOWED_PROVIDERS \<Longrightarrow> strip (lower p) = p \<and> p \<noteq> []"
proof -
  have "list_all (\<lambda>p. strip (lower p) = p \<and> p \<noteq> []) ALLOWED_PROVIDERS" by code_simp
  then show "p \<in> set ALLOWED_PROVIDERS \<Longrightarrow> ?thesis" by (simp add: list_all_iff)
qed

lemma matches_auto:
  "p \<in> set ALLOWED_PROVIDERS \<Longrightarrow> t \<noteq> [] \<Longrightarrow> matches t p (auto_space p t rid now)"
  using provider_normal [of p]
  by (simp add: matches_def space_tid_def space_provider_def str_field_def py_or_def auto_space_def
      pget_def dget_def)

lemma auto_space_not_Nil [simp]: "auto_space p t rid now \<noteq> []"
  by (simp add: auto_space_def)

lemma space_get_auto [simp]: "space_get key px (auto_space p t rid now) = nested_get px (px_default px)"
  by (simp add: space_get_def auto_space_def sub_ensure_sub) (simp add: sub_def pget_def dget_def dhas_def dict_or_empty_def)

section \<open>Which space a request works in\<close>

lemma find_dset:
  "\<not> P (k, v) \<Longrightarrow> (\<And>old. map_of d k = Some old \<Longrightarrow> \<not> P (k, old)) \<Longrightarrow> find P (dset k v d) = find P d"
  by (induction d) (auto simp: dset_def split: if_splits)

lemma dset_dset [simp]: "dset k v (dset k w d) = dset k v d"
  by (induction d) (auto simp: dset_def)

lemma find_pair_Some: "find P d = Some (k, v) \<Longrightarrow> (k, v) \<in> set d \<and> P (k, v)"
  by (auto simp: find_Some_iff in_set_conv_nth)

definition has_active :: "pstate \<Rightarrow> bool" where
  "has_active st \<longleftrightarrow>
     wf_dict (ss_spaces (st_spaces st)) \<and> ss_active (st_spaces st) \<noteq> [] \<and>
     dget (ss_spaces (st_spaces st)) (ss_active (st_spaces st)) [] \<noteq> []"

text \<open>The entries a tenant's request sees through a proxy, read off the spaces.\<close>

definition view :: "string \<Rightarrow> string \<Rightarrow> string \<Rightarrow> proxy \<Rightarrow> string \<Rightarrow> space dict \<Rightarrow> pyval dict" where
  "view t p key px active spaces =
     (if matches t p (dget spaces active []) then space_get key px (dget spaces active [])
      else case find (\<lambda>(sid, s). s \<noteq> [] \<and> matches t p s) spaces of
             Some (sid, s) \<Rightarrow> space_get key px s
           | None \<Rightarrow> nested_get px (px_default px))"

lemma target_get_view:
  assumes "has_active st" and "req_provider rq \<in> set ALLOWED_PROVIDERS"
  shows "target_get rq rid now px st =
    view (active_tenant_id rq st) (req_provider rq) (service_key rq px) px
      (ss_active (st_spaces st)) (ss_spaces (st_spaces st))"
  using assms
  by (auto simp: target_get_def resolve_space_def view_def has_active_def pivot_to_matching_space_def
      Let_def dict_simps split: option.splits prod.splits)

text \<open>An update through a proxy rewrites one space, which belongs to the request.\<close>

lemma target_upd_shape:
  assumes "has_active st" and "req_provider rq \<in> set ALLOWED_PROVIDERS"
    and fresh: "\<not> dhas (ss_spaces (st_spaces st)) (auto_id (req_provider rq) rid)"
  obtains sid sp where
    "target_upd rq rid now px f st = st\<lparr>st_spaces := (st_spaces st)\<lparr>ss_spaces :=
       dset sid (space_upd (service_key rq px) px f sp) (ss_spaces (st_spaces st))\<rparr>\<rparr>"
    and "matches (active_tenant_id rq st) (req_provider rq) sp"
    and "\<forall>old. map_of (ss_spaces (st_spaces st)) sid = Some old \<longrightarrow>
           matches (active_tenant_id rq st) (req_provider rq) old"
    and "if matches (active_tenant_id rq st) (req_provider rq)
              (dget (ss_spaces (st_spaces st)) (ss_active (st_spaces st)) [])
         then sid = ss_active (st_spaces st)
         else case find (\<lambda>(sid, s). s \<noteq> [] \<and> matches (active_tenant_id rq st) (req_provider rq) s)
                (ss_spaces (st_spaces st)) of None \<Rightarrow> True | Some (k, _) \<Rightarrow> k = sid"
    and "space_get (service_key rq px) px sp =
           view (active_tenant_id rq st) (req_provider rq) (service_key rq px) px
             (ss_active (st_spaces st)) (ss_spaces (st_spaces st))"
    and "\<forall>old. map_of (ss_spaces (st_spaces st)) sid = Some old \<longrightarrow>
           sub ''service_states'' sp = sub ''service_states'' old"
proof -
  let ?t = "active_tenant_id rq st" and ?p = "req_provider rq"
  let ?d = "ss_spaces (st_spaces st)" and ?a = "ss_active (st_spaces st)"
  have wf: "wf_dict ?d" and a: "?a \<noteq> []" "dget ?d ?a [] \<noteq> []" using assms(1) by (auto simp: has_active_def)
  show thesis
  proof (cases "matches ?t ?p (dget ?d ?a [])")
    case True
    then show ?thesis
      using a by (intro that [of ?a "dget ?d ?a []"])
        (auto simp: target_upd_def resolve_space_def Let_def dict_simps view_def)
  next
    case False
    show ?thesis
    proof (cases "find (\<lambda>(sid, s). s \<noteq> [] \<and> matches ?t ?p s) ?d")
      case None
      have "matches ?t ?p (auto_space ?p ?t rid now)" by (rule matches_auto) (use assms(2) in auto)
      then show ?thesis
        using a None False fresh by (intro that [of "auto_id ?p rid" "auto_space ?p ?t rid now"])
          (auto simp: target_upd_def resolve_space_def pivot_to_matching_space_def Let_def dict_simps dhas_def view_def)
    next
      case (Some ks)
      obtain sid s where ks: "ks = (sid, s)" by force
      with Some have s: "(sid, s) \<in> set ?d" "matches ?t ?p s" using find_pair_Some by force+
      then show ?thesis
        using a Some ks False in_dict_map_of [OF wf s(1)]
        by (intro that [of sid "dsetdefault ''space_id'' (PStr sid) s"])
          (auto simp: target_upd_def resolve_space_def pivot_to_matching_space_def Let_def dict_simps view_def sub_dsetdefault_other)
    qed
  qed
qed

lemma view_update_foreign:
  assumes "wf_dict d" and "dget d a [] \<noteq> []" and "matches t p sp"
    and "\<forall>old. map_of d sid = Some old \<longrightarrow> matches t p old"
    and "(t', p') \<noteq> (t, p)"
  shows "view t' p' key px a (dset sid (space_upd k px1 f sp) d) = view t' p' key px a d"
proof -
  let ?sp = "space_upd k px1 f sp"
  have no: "\<not> matches t' p' ?sp" using matches_unique [of t p sp t' p'] assms(3,5) by auto
  have old: "\<not> matches t' p' old" if "map_of d sid = Some old" for old
    using matches_unique [of t p old t' p'] assms(4) that assms(5) by auto
  have "find (\<lambda>(sid, s). s \<noteq> [] \<and> matches t' p' s) (dset sid ?sp d)
      = find (\<lambda>(sid, s). s \<noteq> [] \<and> matches t' p' s) d"
    by (rule find_dset) (use no old in auto)
  moreover have "matches t' p' (dget (dset sid ?sp d) a []) = matches t' p' (dget d a [])"
  proof (cases "a = sid")
    case True
    from assms(2) obtain old where "map_of d a = Some old" "dget d a [] = old"
      by (cases "map_of d a") (auto simp: dict_simps)
    then show ?thesis using True no old by (simp add: dict_simps)
  qed (simp add: dict_simps)
  moreover have "a = sid \<Longrightarrow> \<not> matches t' p' (dget d a [])"
    using assms(2) old by (cases "map_of d a") (auto simp: dict_simps)
  ultimately show ?thesis by (auto simp: view_def dict_simps)
qed

lemma find_dset_first:
  assumes "P (k, v)" and "\<And>old. map_of d k = Some old \<Longrightarrow> P (k, old)"
  shows "find P (dset k v d) =
    (case find P d of None \<Rightarrow> Some (k, v) | Some (k', v') \<Rightarrow> if k' = k then Some (k, v) else Some (k', v'))"
  using assms by (induction d) (auto simp: dset_def split: if_splits option.splits)

section \<open>Isolation\<close>


lemma target_upd_keeps:
  assumes "has_active st" and "req_provider rq \<in> set ALLOWED_PROVIDERS"
    and "\<not> dhas (ss_spaces (st_spaces st)) (auto_id (req_provider rq) rid)"
  shows "has_active (target_upd rq rid now px f st)"
    and "active_tenant_id rq' (target_upd rq rid now px f st) = active_tenant_id rq' st"
proof -
  obtain sid sp where "target_upd rq rid now px f st = st\<lparr>st_spaces := (st_spaces st)\<lparr>ss_spaces :=
       dset sid (space_upd (service_key rq px) px f sp) (ss_spaces (st_spaces st))\<rparr>\<rparr>"
    by (rule target_upd_shape [OF assms, of now px f])
  then show "has_active (target_upd rq rid now px f st)"
    "active_tenant_id rq' (target_upd rq rid now px f st) = active_tenant_id rq' st"
    using assms(1) by (auto simp: has_active_def dict_simps active_tenant_id_def Let_def)
qed

lemma view_update_own:
  assumes "wf_dict d" and "dget d a [] \<noteq> []" and "matches t p sp"
    and "\<forall>old. map_of d sid = Some old \<longrightarrow> matches t p old"
    and "if matches t p (dget d a []) then sid = a
         else case find (\<lambda>(sid, s). s \<noteq> [] \<and> matches t p s) d of None \<Rightarrow> True | Some (k, _) \<Rightarrow> k = sid"
  shows "view t p key px a (dset sid (space_upd key' px' f sp) d) = space_get key px (space_upd key' px' f sp)"
proof (cases "matches t p (dget d a [])")
  case True
  then show ?thesis using assms(3,5) by (simp add: view_def dict_simps)
next
  case False
  then have "sid \<noteq> a" using assms(2,4) by (cases "map_of d a") (auto simp: dict_simps)
  moreover have "find (\<lambda>(sid, s). s \<noteq> [] \<and> matches t p s) (dset sid (space_upd key' px' f sp) d)
      = Some (sid, space_upd key' px' f sp)"
  proof (cases "find (\<lambda>(sid, s). s \<noteq> [] \<and> matches t p s) d")
    case None
    then have "map_of d sid = None \<or> map_of d sid = Some []"
      using assms(4) by (cases "map_of d sid") (auto simp: find_None_iff dest: map_of_SomeD)
    then show ?thesis using None assms(3)
      by (induction d) (auto simp: dset_def split: if_splits)
  next
    case (Some ks)
    then have "fst ks = sid" using assms(5) False by (auto split: prod.splits)
    then show ?thesis using Some assms(3) by (induction d) (auto simp: dset_def split: if_splits)
  qed
  ultimately show ?thesis using False by (simp add: view_def dict_simps)
qed

text \<open> Read your writes: the entries a request sees through a store are exactly its update of
  the entries it saw before, also when the write had to move to another space or to create one;
  the next request may find the space instead of creating it.\<close>

theorem proxy_read_own_write:
  assumes "has_active st" and "req_provider rq \<in> set ALLOWED_PROVIDERS"
    and "\<not> dhas (ss_spaces (st_spaces st)) (auto_id (req_provider rq) rid)"
  shows "target_get rq rid' now' px (target_upd rq rid now px f st) = f (target_get rq rid'' now'' px st)"
proof -
  have wf: "wf_dict (ss_spaces (st_spaces st))"
    and a: "dget (ss_spaces (st_spaces st)) (ss_active (st_spaces st)) [] \<noteq> []"
    using assms(1) by (auto simp: has_active_def)
  have "target_get rq rid' now' px (target_upd rq rid now px f st)
      = view (active_tenant_id rq st) (req_provider rq) (service_key rq px) px
          (ss_active (st_spaces (target_upd rq rid now px f st))) (ss_spaces (st_spaces (target_upd rq rid now px f st)))"
    by (simp add: target_get_view [OF target_upd_keeps(1) [OF assms] assms(2)] target_upd_keeps(2) [OF assms])
  also have "\<dots> = f (view (active_tenant_id rq st) (req_provider rq) (service_key rq px) px
          (ss_active (st_spaces st)) (ss_spaces (st_spaces st)))"
    by (rule target_upd_shape [OF assms, of now px f]) (use view_update_own [OF wf a] in simp)
  finally show ?thesis by (simp add: target_get_view [OF assms(1,2)])
qed

text \<open>A store with two spaces: the active one is an AWS space of the default tenant.\<close>

definition demo_spaces :: spaces_st where
  "demo_spaces = \<lparr>ss_spaces =
      [(''s1'', [(''space_id'', PStr ''s1''), (''provider'', PStr ''aws''), (''tenant_id'', PStr ''default'')]),
       (''s2'', [(''space_id'', PStr ''s2''), (''provider'', PStr ''gcp''), (''tenant_id'', PStr ''acme'')])],
     ss_active = ''s1'', ss_settings = []\<rparr>"

definition demo_state :: pstate where
  "demo_state = \<lparr>st_spaces = demo_spaces, st_tenants = [], st_active_tenant = ''default'', st_license = [],
     st_services = []\<rparr>"

definition buckets_proxy :: proxy where
  "buckets_proxy = \<lparr>px_service = ''s3'',
     px_default = [(''buckets'', PDict []), (''objects'', PDict []), (''multiparts'', PDict [])],
     px_nested = Some ''buckets''\<rparr>"

lemma demo_active: "has_active demo_state"
  by (simp add: has_active_def demo_state_def demo_spaces_def wf_dict_def dget_def)


theorem proxy_read_own_write_witness:
  "target_get \<lparr>rq_provider = ''azure'', rq_tenant = ''acme''\<rparr> ''b'' ''t'' buckets_proxy
     (target_upd \<lparr>rq_provider = ''azure'', rq_tenant = ''acme''\<rparr> ''a'' ''t'' buckets_proxy (dset ''logs'' PNone) demo_state)
   = dset ''logs'' PNone
      (target_get \<lparr>rq_provider = ''azure'', rq_tenant = ''acme''\<rparr> ''c'' ''t'' buckets_proxy demo_state)"
  by (rule proxy_read_own_write [OF demo_active]) code_simp+

section \<open>The proxies and the quantity gate\<close>

definition plain_proxy :: "string \<Rightarrow> pyval dict \<Rightarrow> proxy" where
  "plain_proxy key dflt = \<lparr>px_service = key, px_default = dflt, px_nested = None\<rparr>"

abbreviation empty_dicts :: "string list \<Rightarrow> pyval dict" where
  "empty_dicts ks \<equiv> map (\<lambda>k. (k, PDict [])) ks"

definition objects_proxy :: proxy where
  "objects_proxy = buckets_proxy\<lparr>px_nested := Some ''objects''\<rparr>"

definition multiparts_proxy :: proxy where
  "multiparts_proxy = buckets_proxy\<lparr>px_nested := Some ''multiparts''\<rparr>"

definition ec2_proxy :: proxy where
  "ec2_proxy = plain_proxy ''ec2'' (empty_dicts [''instances''])"

definition gcp_proxies :: "proxy list" where
  "gcp_proxies =
     [plain_proxy ''gcp_compute'' (empty_dicts [''instances'', ''instance_groups'', ''disks'', ''snapshots'', ''images'']
        @ [(''operations'', PList [])]),
      plain_proxy ''gcp_storage'' (empty_dicts [''buckets'', ''objects'', ''folders'', ''transfers'', ''policies'']
        @ [(''operations'', PList [])]),
      plain_proxy ''gcp_sql'' (empty_dicts [''instances'', ''backups'', ''query_insights''] @ [(''operations'', PList [])]),
      plain_proxy ''gcp_pubsub'' (empty_dicts [''topics'', ''subscriptions'', ''messages'', ''schemas'']
        @ [(''operations'', PList [])]),
      plain_proxy ''gcp_firestore'' (empty_dicts [''databases'', ''documents'', ''indexes''] @ [(''operations'', PList [])]),
      plain_proxy ''gcp_functions'' (empty_dicts [''functions'', ''versions'']
        @ [(''invocations'', PList []), (''operations'', PList [])]),
      plain_proxy ''gcp_apigateway'' (empty_dicts [''apis'', ''api_configs'', ''gateways'']
        @ [(''operations'', PList []), (''logs'', PList [])]),
      plain_proxy ''gcp_vpc'' (empty_dicts [''networks'', ''subnetworks'', ''firewalls'', ''routes'']
        @ [(''operations'', PList [])]),
      plain_proxy ''gcp_iam'' (empty_dicts [''policies'', ''service_accounts'']
        @ [(''bindings'', PList []), (''operations'', PList [])])]"

definition azure_arm_proxy :: proxy where
  "azure_arm_proxy = \<lparr>px_service = ''arm'', px_default = [(''resources'', PDict [])], px_nested = Some ''resources''\<rparr>"

definition vpc_proxy :: proxy where
  "vpc_proxy = plain_proxy ''vpc'' (empty_dicts [''vpcs'', ''subnets'', ''security_groups'', ''route_tables'', ''internet_gateways''])"

definition rds_proxy :: proxy where
  "rds_proxy = plain_proxy ''rds'' (empty_dicts [''db_instances'', ''db_subnet_groups'', ''db_parameter_groups'', ''db_snapshots'']
     @ [(''events'', PList [])])"

definition apigw_proxy :: proxy where
  "apigw_proxy = plain_proxy ''apigateway'' [(''apis'', PDict []), (''logs'', PList [])]"

definition lambda_proxy :: proxy where
  "lambda_proxy = plain_proxy ''lambda'' [(''functions'', PDict []), (''events'', PList []), (''invocations'', PList [])]"

definition sqs_proxy :: proxy where
  "sqs_proxy = plain_proxy ''sqs'' [(''queues'', PDict []), (''events'', PList [])]"

definition ddb_proxy :: proxy where
  "ddb_proxy = plain_proxy ''dynamodb'' [(''tables'', PDict []), (''events'', PList [])]"

definition QUANTITY_COUNTER_PATHS :: "((string \<times> string) list) dict" where
  "QUANTITY_COUNTER_PATHS =
     [(''vm'', [(''ec2'', ''instances''), (''gcp_compute'', ''instances'')]),
      (''database'', [(''rds'', ''db_instances''), (''gcp_sql'', ''instances'')]),
      (''api_gateway'', [(''apigateway'', ''apis''), (''gcp_apigateway'', ''apis'')]),
      (''queue'', [(''sqs'', ''queues''), (''gcp_pubsub'', ''topics'')]),
      (''lambda_function'', [(''lambda'', ''functions''), (''gcp_functions'', ''functions'')]),
      (''bucket'', [(''gcp_storage'', ''buckets'')])]"

definition QUANTITY_AZURE_TYPES :: "string dict" where
  "QUANTITY_AZURE_TYPES =
     [(''vm'', ''microsoft.compute/virtualmachines''),
      (''database'', ''microsoft.sql/servers/databases''),
      (''bucket'', ''microsoft.storage/storageaccounts''),
      (''queue'', ''microsoft.servicebus/namespaces/queues''),
      (''api_gateway'', ''microsoft.apimanagement/service''),
      (''lambda_function'', ''microsoft.web/sites'')]"

definition items_len :: "pyval \<Rightarrow> nat" where
  "items_len v = (case v of PDict d \<Rightarrow> length d | PList xs \<Rightarrow> length xs | _ \<Rightarrow> 0)"

definition azure_typed :: "string \<Rightarrow> pyval \<Rightarrow> bool" where
  "azure_typed ty rec =
     (case rec of PDict d \<Rightarrow> lower (py_str (dget d ''_type'' (PStr []))) = ty | _ \<Rightarrow> False)"

definition count_in_services :: "string \<Rightarrow> pyval dict \<Rightarrow> nat" where
  "count_in_services rt svc =
     sum_list (map (\<lambda>(svc_key, sub_key). items_len (pget (sub svc_key svc) sub_key)) (dget QUANTITY_COUNTER_PATHS rt []))
     + (case map_of QUANTITY_AZURE_TYPES rt of
          None \<Rightarrow> 0
        | Some ty \<Rightarrow> length (filter (azure_typed ty) (dvals (sub ''resources'' (sub ''azure_arm'' svc)))))"

definition count_active_space_resources ::
  "request \<Rightarrow> string \<Rightarrow> string \<Rightarrow> string \<Rightarrow> pstate \<Rightarrow> pstate \<times> nat" where
  "count_active_space_resources rq rid now rt st =
     (let active = ss_active (st_spaces st) in
      if active = [] then (st, 0)
      else
        let svc = sub ''service_states'' (dget (ss_spaces (st_spaces st)) active []);
            total = count_in_services rt svc
        in if rt = ''bucket''
           then (let (st', n) = proxy_len rq rid now buckets_proxy st in (st', total + n))
           else (st, total))"

definition enforce_quantity_cap ::
  "request \<Rightarrow> string \<Rightarrow> string \<Rightarrow> string \<Rightarrow> string \<Rightarrow> pstate \<Rightarrow> pstate \<times> unit result" where
  "enforce_quantity_cap rq rid now tier rt st =
     (let (st', n) = count_active_space_resources rq rid now rt st;
          r = check_quantity tier rt (int n)
      in (st', if resp_ok r then Inr ()
               else Inl (HTTPException 403 (PDict (dset ''docs'' (PStr ''https://cloudlearn.io/docs/tiers'')
                      (dset ''active_tier'' (PStr tier) r))))))"

lemma sub_space_upd:
  "k \<noteq> key \<Longrightarrow> sub k (sub ''service_states'' (space_upd key px f sp)) = sub k (sub ''service_states'' sp)"
  by (simp add: space_upd_def Let_def) (simp add: sub_ensure_sub)

lemma sub_space_upd_own:
  "px_nested px = None \<Longrightarrow>
   sub key (sub ''service_states'' (space_upd key px f sp)) = f (sub key (ensure_sub key (px_default px) (sub ''service_states'' sp)))"
  by (simp add: space_upd_def Let_def nested_upd_def)

text \<open>The counter reads services under these keys only.\<close>

definition counted_keys :: "string list" where
  "counted_keys = ''azure_arm'' # map fst (concat (map snd QUANTITY_COUNTER_PATHS))"

lemma counted_keysI: "map_of QUANTITY_COUNTER_PATHS rt = Some ps \<Longrightarrow> (a, b) \<in> set ps \<Longrightarrow> a \<in> set counted_keys"
  by (force simp: counted_keys_def dest: map_of_SomeD)

lemma count_in_services_cong:
  assumes "\<And>k. k \<in> set counted_keys \<Longrightarrow> sub k s = sub k s'"
  shows "count_in_services rt s = count_in_services rt s'"
proof -
  have "map (\<lambda>(svc_key, sub_key). items_len (pget (sub svc_key s) sub_key)) (dget QUANTITY_COUNTER_PATHS rt [])
      = map (\<lambda>(svc_key, sub_key). items_len (pget (sub svc_key s') sub_key)) (dget QUANTITY_COUNTER_PATHS rt [])"
  proof (cases "map_of QUANTITY_COUNTER_PATHS rt")
    case (Some ps)
    then show ?thesis using assms counted_keysI by (fastforce simp: dict_simps)
  qed (simp add: dict_simps)
  moreover have "sub ''azure_arm'' s = sub ''azure_arm'' s'" by (rule assms) (simp add: counted_keys_def)
  ultimately show ?thesis by (simp only: count_in_services_def)
qed

lemma gcp_keys_uncounted:
  assumes "px \<in> set gcp_proxies" and "req_provider rq = ''gcp''"
  shows "service_key rq px \<notin> set counted_keys"
proof -
  have "list_all (\<lambda>px. ''gcp_'' @ px_service px \<notin> set counted_keys) gcp_proxies" by code_simp
  then show ?thesis using assms by (auto simp: service_key_def list_all_iff)
qed

definition in_active :: "request \<Rightarrow> pstate \<Rightarrow> bool" where
  "in_active rq st \<longleftrightarrow> has_active st \<and>
     matches (active_tenant_id rq st) (req_provider rq)
       (dget (ss_spaces (st_spaces st)) (ss_active (st_spaces st)) [])"

lemma target_upd_active:
  "in_active rq st \<Longrightarrow> target_upd rq rid now px f st =
     st\<lparr>st_spaces := (st_spaces st)\<lparr>ss_spaces := dset (ss_active (st_spaces st))
       (space_upd (service_key rq px) px f (dget (ss_spaces (st_spaces st)) (ss_active (st_spaces st)) []))
       (ss_spaces (st_spaces st))\<rparr>\<rparr>"
  by (simp add: in_active_def has_active_def target_upd_def resolve_space_def Let_def)

lemma in_active_upd: "in_active rq st \<Longrightarrow> in_active rq (target_upd rq rid now px f st)"
  by (auto simp: target_upd_active) (auto simp: in_active_def has_active_def dict_simps active_tenant_id_def Let_def)

lemma count_after_gcp:
  assumes "in_active rq st" and "req_provider rq = ''gcp''" and "px \<in> set gcp_proxies" and "rt \<noteq> ''bucket''"
  shows "snd (count_active_space_resources rq' rid' now' rt (target_upd rq rid now px f st))
       = snd (count_active_space_resources rq' rid' now' rt st)"
proof -
  have "service_key rq px \<notin> set counted_keys" by (rule gcp_keys_uncounted [OF assms(3,2)])
  then have "count_in_services rt (sub ''service_states'' (space_upd (service_key rq px) px f sp))
      = count_in_services rt (sub ''service_states'' sp)" for sp
    by (intro count_in_services_cong sub_space_upd) auto
  then show ?thesis
    using assms(1,4) by (simp add: count_active_space_resources_def Let_def target_upd_active dict_simps)
qed

lemma enforce_quantity_snd:
  "snd (enforce_quantity_cap rq rid now tier rt st) =
     (let r = check_quantity tier rt (int (snd (count_active_space_resources rq rid now rt st)))
      in if resp_ok r then Inr ()
         else Inl (HTTPException 403 (PDict (dset ''docs'' (PStr ''https://cloudlearn.io/docs/tiers'')
                (dset ''active_tier'' (PStr tier) r)))))"
  by (simp add: enforce_quantity_cap_def Let_def split: prod.split)

text \<open> In a GCP space the quantity gate is blind: whatever a sequence of requests writes
  through the GCP stores (any number of instances, topics, functions or databases), the counted
  number of resources, and so the verdict of the gate, stays as it was.\<close>

theorem gcp_quantity_gate_blind:
  assumes "in_active rq st" and "req_provider rq = ''gcp''" and "rt \<noteq> ''bucket''"
    and "\<forall>(px, f) \<in> set ops. px \<in> set gcp_proxies"
  shows "snd (enforce_quantity_cap rq rid now tier rt (fold (\<lambda>(px, f). target_upd rq rid now px f) ops st))
       = snd (enforce_quantity_cap rq rid now tier rt st)"
proof -
  have "snd (count_active_space_resources rq rid now rt (fold (\<lambda>(px, f). target_upd rq rid now px f) ops st))
      = snd (count_active_space_resources rq rid now rt st)"
    using assms
  proof (induction ops arbitrary: st)
    case (Cons op ops)
    then show ?case using in_active_upd count_after_gcp by (cases op) auto
  qed simp
  then show ?thesis by (simp only: enforce_quantity_snd)
qed

definition create_instance :: "string \<Rightarrow> pyval dict \<Rightarrow> pyval dict" where
  "create_instance k d = put_sub ''instances'' (dset k PNone (sub ''instances'' d)) d"

theorem gcp_quantity_gate_blind_witness:
  "snd (enforce_quantity_cap \<lparr>rq_provider = ''gcp'', rq_tenant = ''acme''\<rparr> ''r'' ''t'' ''free'' ''vm''
      (fold (\<lambda>(px, f). target_upd \<lparr>rq_provider = ''gcp'', rq_tenant = ''acme''\<rparr> ''r'' ''t'' px f)
        (map (\<lambda>k. (hd gcp_proxies, create_instance k)) [''i1'', ''i2'', ''i3''])
        (demo_state\<lparr>st_spaces := demo_spaces\<lparr>ss_active := ''s2''\<rparr>\<rparr>)))
   = Inr ()"
proof -
  let ?rq = "\<lparr>rq_provider = ''gcp'', rq_tenant = ''acme''\<rparr>"
  let ?st = "demo_state\<lparr>st_spaces := demo_spaces\<lparr>ss_active := ''s2''\<rparr>\<rparr>"
  have a: "in_active ?rq ?st"
  proof -
    have "has_active ?st" by (simp add: has_active_def demo_state_def demo_spaces_def wf_dict_def dget_def)
    moreover have "matches (active_tenant_id ?rq ?st) (req_provider ?rq)
       (dget (ss_spaces (st_spaces ?st)) (ss_active (st_spaces ?st)) [])" by code_simp
    ultimately show ?thesis by (simp add: in_active_def)
  qed
  have p: "req_provider ?rq = ''gcp''" by code_simp
  have ok: "snd (enforce_quantity_cap ?rq ''r'' ''t'' ''free'' ''vm'' ?st) = Inr ()" by code_simp
  have ops: "\<forall>(px, f) \<in> set (map (\<lambda>k. (hd gcp_proxies, create_instance k)) [''i1'', ''i2'', ''i3'']). px \<in> set gcp_proxies"
    by (simp add: gcp_proxies_def)
  from gcp_quantity_gate_blind [OF a p _ ops, of "''vm''"] ok show ?thesis by simp
qed

lemma count_vm:
  "count_in_services ''vm'' svc =
     items_len (pget (sub ''ec2'' svc) ''instances'') + items_len (pget (sub ''gcp_compute'' svc) ''instances'')
     + length (filter (azure_typed ''microsoft.compute/virtualmachines'') (dvals (sub ''resources'' (sub ''azure_arm'' svc))))"
  by (simp add: count_in_services_def QUANTITY_COUNTER_PATHS_def QUANTITY_AZURE_TYPES_def dget_def)

lemma instances_length:
  assumes "is_dict (pget (sub ''ec2'' (ensure_sub ''ec2'' (px_default ec2_proxy) svc)) ''instances'')"
  shows "length (sub ''instances'' (sub ''ec2'' (ensure_sub ''ec2'' (px_default ec2_proxy) svc)))
    = items_len (pget (sub ''ec2'' svc) ''instances'')"
proof (cases "dhas svc ''ec2''")
  case True
  then show ?thesis
    using assms unfolding sub_ensure_sub
    by (simp add: sub_def [of "''instances''"] dict_or_empty_def items_len_def is_dict_def split: pyval.splits)
next
  case False
  then have "sub ''ec2'' svc = []" by (simp add: sub_def pget_def dget_def dhas_def dict_or_empty_def)
  moreover have "sub ''instances'' (px_default ec2_proxy) = []" by code_simp
  ultimately show ?thesis using False unfolding sub_ensure_sub by (simp add: items_len_def pget_def dget_def)
qed

text \<open>In an AWS space the gate counts: launching a new instance through the EC2 store raises
  the counted number of virtual machines by exactly one.\<close>

theorem aws_instance_counted:
  assumes "in_active rq st" and "req_provider rq = ''aws''"
    and "is_dict (pget (target_get rq rid now ec2_proxy st) ''instances'')"
    and "\<not> dhas (sub ''instances'' (target_get rq rid now ec2_proxy st)) k"
  shows "snd (count_active_space_resources rq rid now ''vm'' (target_upd rq rid now ec2_proxy (create_instance k) st))
       = snd (count_active_space_resources rq rid now ''vm'' st) + 1"
proof -
  let ?sp = "dget (ss_spaces (st_spaces st)) (ss_active (st_spaces st)) []"
  let ?svc = "sub ''service_states'' ?sp"
  let ?svc' = "sub ''service_states'' (space_upd ''ec2'' ec2_proxy (create_instance k) ?sp)"
  let ?d = "sub ''ec2'' (ensure_sub ''ec2'' (px_default ec2_proxy) ?svc)"
  have key: "service_key rq ec2_proxy = ''ec2''" "px_nested ec2_proxy = None"
    using assms(2) by (simp_all add: service_key_def ec2_proxy_def plain_proxy_def)
  have get: "target_get rq rid now ec2_proxy st = ?d"
    using assms(1) by (simp add: target_get_def resolve_space_def in_active_def has_active_def Let_def key
        space_get_def nested_get_def)
  have "items_len (pget (sub ''ec2'' ?svc') ''instances'') = Suc (length (sub ''instances'' ?d))"
    using assms(4) get key(2)
    by (simp add: sub_space_upd_own create_instance_def put_sub_def dict_simps items_len_def length_dset)
  also have "length (sub ''instances'' ?d) = items_len (pget (sub ''ec2'' ?svc) ''instances'')"
    using assms(3) unfolding get by (rule instances_length)
  finally have "count_in_services ''vm'' ?svc' = count_in_services ''vm'' ?svc + 1"
    by (simp add: count_vm sub_space_upd)
  then show ?thesis
    using assms(1) by (simp add: count_active_space_resources_def Let_def target_upd_active dict_simps key
        in_active_def has_active_def)
qed

theorem aws_instance_counted_witness:
  "snd (count_active_space_resources \<lparr>rq_provider = ''aws'', rq_tenant = []\<rparr> ''r'' ''t'' ''vm''
     (target_upd \<lparr>rq_provider = ''aws'', rq_tenant = []\<rparr> ''r'' ''t'' ec2_proxy (create_instance ''i-1'') demo_state)) = 1"
proof -
  let ?rq = "\<lparr>rq_provider = ''aws'', rq_tenant = []\<rparr>"
  have a: "in_active ?rq demo_state"
    using demo_active unfolding in_active_def by (rule conjI) code_simp
  have p: "req_provider ?rq = ''aws''" by code_simp
  have d: "is_dict (pget (target_get ?rq ''r'' ''t'' ec2_proxy demo_state) ''instances'')"
    "\<not> dhas (sub ''instances'' (target_get ?rq ''r'' ''t'' ec2_proxy demo_state)) ''i-1''"
    "snd (count_active_space_resources ?rq ''r'' ''t'' ''vm'' demo_state) = 0"
    by code_simp+
  show ?thesis using aws_instance_counted [OF a p d(1,2)] d(3) by simp
qed

end
