(* ===== verification/Space_API.thy ===== *)
theory Space_API
imports Tenants
begin

text \<open>The space handlers of \<open>routes/spaces.py\<close> over the platform's operations
  (\<open>CloudLearnPlatform\<close> in \<open>core/cloudlearn_platform.py\<close>).  The CloudSim engine is a parameter: its
  answer to a call, or \<^theory_text>\<open>None\<close> when the call raises or does not answer with a dictionary.  The usage
  log and the summary counter the handlers also write are not part of the state.\<close>

section \<open>The platform over the kernel\<close>

record engine =
  en_create :: "space \<Rightarrow> pyval dict option"
  en_switch :: "string \<Rightarrow> pyval dict option"

definition count_field :: "space \<Rightarrow> string \<Rightarrow> int" where
  "count_field sp k = (case pget sp k of PInt i \<Rightarrow> i | _ \<Rightarrow> 0)"

definition fallback_summary :: "string \<Rightarrow> space \<Rightarrow> pyval dict" where
  "fallback_summary now sp =
     (let r = count_field sp ''runtime_count''; e = count_field sp ''ec2_count''; l = count_field sp ''lambda_count'';
          d = count_field sp ''rds_count''; q = count_field sp ''sqs_count''; t = count_field sp ''dynamodb_count''
      in [(''space_id'', dget sp ''space_id'' (PStr [])), (''name'', dget sp ''name'' (PStr [])),
          (''provider'', dget sp ''provider'' (PStr ''aws'')), (''status'', dget sp ''status'' (PStr ''running'')),
          (''active_region'', dget sp ''active_region'' (PStr ''us-east-1'')),
          (''cloudsim_engine'', PStr ''CloudSim Plus 8.5.7 (local fallback)''),
          (''cloudsim_runtime_id'', dget sp ''cloudsim_runtime_id'' (PStr [])),
          (''datacenters'', PInt 1),
          (''hosts'', PInt (max 1 ((r + e + l + d + q + t + 1) div 2))),
          (''vms'', PInt (max 1 (r + e + l + d + q + t))),
          (''cloudlets'', PInt (max 1 (r + e + l + d + q + t * 2))),
          (''finished_cloudlets'', PInt 0),
          (''runtime_count'', PInt r), (''ec2_count'', PInt e), (''lambda_count'', PInt l),
          (''rds_count'', PInt d), (''sqs_count'', PInt q), (''dynamodb_count'', PInt t),
          (''last_tick'', PStr now), (''updated_at'', dget sp ''updated_at'' (PStr now)),
          (''created_at'', dget sp ''created_at'' (PStr now)),
          (''simulation_state'', PStr ''local-fallback'')])"

definition platform_create_space ::
  "engine \<Rightarrow> bool \<Rightarrow> pyval dict \<Rightarrow> string \<Rightarrow> string \<Rightarrow> string \<Rightarrow> spaces_st \<Rightarrow> spaces_st \<times> space result" where
  "platform_create_space en appliance spec rid tok now ss0 =
     (case create_space appliance spec rid tok now ss0 of
        (ss, Inl ex) \<Rightarrow> (ss, Inl ex)
      | (ss, Inr sp) \<Rightarrow>
          let sp1 = dset ''cloudsim'' (PDict [(''summary'', PDict (fallback_summary now sp)), (''events'', PList []),
                      (''last_tick'', PStr now)]) sp
          in case en_create en sp1 of
               None \<Rightarrow> (ss, Inr sp1)
             | Some remote \<Rightarrow>
                 let rsp = sub ''space'' remote; rsum = sub ''summary'' remote;
                     sp2 = dset ''cloudsim'' (PDict
                       [(''summary'', PDict rsum), (''events'', dget (sub ''cloudsim'' rsp) ''events'' (PList [])),
                        (''last_tick'', dget rsum ''last_tick'' (dget rsp ''last_tick'' (PStr [])))]) sp1;
                     sp3 = (if truthy (pget rsp ''cloudsim_runtime_id'')
                            then dset ''cloudsim_runtime_id'' (pget rsp ''cloudsim_runtime_id'') sp2 else sp2)
                 in (ss\<lparr>ss_spaces := dset (py_str (pget sp3 ''space_id'')) sp3 (ss_spaces ss)\<rparr>, Inr sp3))"

text \<open>\<open>{**local, **remote}\<close>.\<close>

definition dict_merge :: "'v dict \<Rightarrow> 'v dict \<Rightarrow> 'v dict" where
  "dict_merge d e = fold (\<lambda>(k, v). dset k v) e d"

definition platform_switch_space ::
  "engine \<Rightarrow> string \<Rightarrow> string \<Rightarrow> spaces_st \<Rightarrow> spaces_st \<times> space result" where
  "platform_switch_space en sid now ss0 =
     (case switch_space sid now ss0 of
        (ss, Inl ex) \<Rightarrow> (ss, Inl ex)
      | (ss, Inr sp) \<Rightarrow>
          (case en_switch en sid of
             Some remote \<Rightarrow>
               (case pget remote ''space'' of
                  PDict rsp \<Rightarrow>
                    let local = (case map_of (ss_spaces ss) sid of Some l \<Rightarrow> l | None \<Rightarrow> sp);
                        merged0 = dict_merge local rsp;
                        merged = (case pget local ''service_states'' of
                                    PDict svc \<Rightarrow> dset ''service_states'' (PDict svc) merged0
                                  | _ \<Rightarrow> merged0)
                    in (ss\<lparr>ss_spaces := dset sid merged (ss_spaces ss)\<rparr>, Inr merged)
                | _ \<Rightarrow> (ss, Inr sp))
           | None \<Rightarrow> (ss, Inr sp)))"

section \<open>Handlers\<close>

definition not_found :: py_exc where
  "not_found = HTTPException 404 (PStr ''SimulationSpaceNotFound'')"

definition space_belongs_to_active_tenant :: "request \<Rightarrow> pstate \<Rightarrow> space \<Rightarrow> bool" where
  "space_belongs_to_active_tenant rq st sp \<longleftrightarrow> space_tid sp = PStr (active_tenant_id rq st)"

definition require_tenant_space :: "request \<Rightarrow> string \<Rightarrow> pstate \<Rightarrow> space result" where
  "require_tenant_space rq sid st =
     (case map_of (ss_spaces (st_spaces st)) sid of
        None \<Rightarrow> Inl not_found
      | Some sp \<Rightarrow> if space_belongs_to_active_tenant rq st sp then Inr sp else Inl not_found)"

text \<open>\<open>except KeyError: raise HTTPException(404)\<close> around a platform call.\<close>

definition guard_key :: "'a result \<Rightarrow> 'a result" where
  "guard_key r = (case r of Inl (KeyError _) \<Rightarrow> Inl not_found | _ \<Rightarrow> r)"

definition on_tenant_space ::
  "request \<Rightarrow> string \<Rightarrow> (spaces_st \<Rightarrow> spaces_st \<times> 'a result) \<Rightarrow> pstate \<Rightarrow> pstate \<times> 'a result" where
  "on_tenant_space rq sid f st =
     (case require_tenant_space rq sid st of
        Inl ex \<Rightarrow> (st, Inl ex)
      | Inr _ \<Rightarrow> (let (ss, r) = f (st_spaces st) in (st\<lparr>st_spaces := ss\<rparr>, guard_key r)))"

definition api_switch_space :: "engine \<Rightarrow> request \<Rightarrow> string \<Rightarrow> string \<Rightarrow> pstate \<Rightarrow> pstate \<times> space result" where
  "api_switch_space en rq sid now = on_tenant_space rq sid (platform_switch_space en sid now)"

definition api_pause_space :: "request \<Rightarrow> string \<Rightarrow> string \<Rightarrow> pstate \<Rightarrow> pstate \<times> space result" where
  "api_pause_space rq sid now = on_tenant_space rq sid (pause_space sid now)"

definition api_resume_space :: "request \<Rightarrow> string \<Rightarrow> string \<Rightarrow> pstate \<Rightarrow> pstate \<times> space result" where
  "api_resume_space rq sid now = on_tenant_space rq sid (resume_space sid now)"

definition api_archive_space :: "request \<Rightarrow> string \<Rightarrow> string \<Rightarrow> pstate \<Rightarrow> pstate \<times> space result" where
  "api_archive_space rq sid now = on_tenant_space rq sid (archive_space sid now)"

definition api_delete_space :: "request \<Rightarrow> string \<Rightarrow> pstate \<Rightarrow> pstate \<times> unit result" where
  "api_delete_space rq sid = on_tenant_space rq sid (delete_space sid)"

definition tenant_spaces :: "string \<Rightarrow> space dict \<Rightarrow> nat" where
  "tenant_spaces tid spaces = length (filter (\<lambda>sp. space_tid sp = PStr tid) (dvals spaces))"

definition provider_error :: "pyval \<Rightarrow> string" where
  "provider_error v = ''provider must be one of ('' @ join '', '' (map repr_str ALLOWED_PROVIDERS) @ ''); got ''
     @ [CHR 0x27] @ py_str v @ [CHR 0x27]"

definition quota_error :: "string \<Rightarrow> int \<Rightarrow> nat \<Rightarrow> pyval" where
  "quota_error tier m n = PDict
     [(''ok'', PBool False), (''code'', PStr ''tier_max_spaces''),
      (''reason'', PStr (tier @ '' tier allows '' @ int_str m @ '' space(s); you have '' @ nat_str n)),
      (''upgrade_to'', PStr (next_tier tier)), (''active_tier'', PStr tier),
      (''limit'', PInt m), (''current'', PInt (int n)),
      (''docs'', PStr ''https://cloudlearn.io/docs/tiers'')]"

text \<open>The quota check: the tier's cap, or no check when the tier is unlimited (the tenant's own
  setting is still read as an integer).\<close>

definition check_space_quota :: "pyval dict \<Rightarrow> string \<Rightarrow> space dict \<Rightarrow> unit result" where
  "check_space_quota tenant tid spaces =
     (let tier = normalize_tier (py_str (py_or (pget tenant ''license_tier'') (PStr ''free'')));
          n = tenant_spaces tid spaces
      in case pget (policy_for tier) ''max_spaces'' of
           PInt cap \<Rightarrow>
             if cap = UNLIMITED
             then rbind (py_int (dget (sub ''settings'' tenant) ''max_spaces'' (PInt 6))) (\<lambda>_. Inr ())
             else if int n \<ge> cap then Inl (HTTPException 403 (quota_error tier cap n)) else Inr ()
         | _ \<Rightarrow>
             rbind (py_int (dget (sub ''settings'' tenant) ''max_spaces'' (PInt 6)))
               (\<lambda>cap. if int n \<ge> cap then Inl (HTTPException 403 (quota_error tier cap n)) else Inr ()))"

definition api_create_space ::
  "engine \<Rightarrow> bool \<Rightarrow> request \<Rightarrow> pyval dict \<Rightarrow> string \<Rightarrow> string \<Rightarrow> string \<Rightarrow> pstate \<Rightarrow> pstate \<times> space result" where
  "api_create_space en appliance rq payload rid tok now st =
     (let provider = lower (strip (str_field payload ''provider'' [])) in
      if provider \<notin> set ALLOWED_PROVIDERS
      then (st, Inl (HTTPException 400 (PStr (provider_error (pget payload ''provider'')))))
      else
        let spec = dset ''provider'' (PStr provider) payload;
            tid = str_or (strip (str_field spec ''tenant_id'' [])) (active_tenant_id rq st)
        in case tenant_dict st tid of
             None \<Rightarrow> (st, Inl (HTTPException 400 (PStr (''tenant '' @ [CHR 0x27] @ tid @ [CHR 0x27] @ '' not found''))))
           | Some tenant \<Rightarrow>
               if tenant = [] then (st, Inl (HTTPException 400 (PStr (''tenant '' @ [CHR 0x27] @ tid @ [CHR 0x27] @ '' not found''))))
               else
               (case check_space_quota tenant tid (ss_spaces (st_spaces st)) of
                  Inl ex \<Rightarrow> (st, Inl ex)
                | Inr _ \<Rightarrow>
                    (case platform_create_space en appliance spec rid tok now (st_spaces st) of
                       (ss, Inl (ValueError msg)) \<Rightarrow> (st\<lparr>st_spaces := ss\<rparr>, Inl (HTTPException 400 (PStr msg)))
                     | (ss, Inl ex) \<Rightarrow> (st\<lparr>st_spaces := ss\<rparr>, Inl ex)
                     | (ss, Inr sp) \<Rightarrow>
                         let sid = py_str (pget sp ''space_id'') in
                         (case map_of (ss_spaces ss) sid of
                            Some stored \<Rightarrow>
                              (st\<lparr>st_spaces := ss\<lparr>ss_spaces := dset sid (dset ''tenant_id'' (PStr tid) stored) (ss_spaces ss)\<rparr>\<rparr>,
                               Inr (dset ''tenant_id'' (PStr tid) sp))
                          | None \<Rightarrow> (st\<lparr>st_spaces := ss\<rparr>, Inr sp)))))"

section \<open>Cloud shell\<close>

definition CLOUD_SHELL_ALLOWED :: "string list" where
  "CLOUD_SHELL_ALLOWED =
     [''aws'', ''gcloud'', ''gsutil'', ''bq'', ''az'', ''terraform'', ''kubectl'', ''helm'',
      ''curl'', ''jq'', ''yq'', ''ls'', ''cat'', ''echo'', ''pwd'', ''env'',
      ''python3'', ''node'', ''java'', ''go'']"

text \<open>The check before a command is handed to \<open>bash -lc\<close>: the text \<open>bash\<close> runs, or the error.  The
  feature gate on the tier comes first.\<close>

definition first_word :: "string \<Rightarrow> string" where
  "first_word s = takeWhile (\<lambda>c. \<not> is_space c) (lstrip s)"

definition cloud_shell_command :: "string \<Rightarrow> pyval dict \<Rightarrow> string result" where
  "cloud_shell_command tier body =
     (let gate = check_feature tier ''cloud_shell'';
          cmd = strip (str_field body ''command'' [])
      in if \<not> resp_ok gate then
           Inl (HTTPException 403 (PDict (dset ''docs'' (PStr ''https://cloudlearn.io/docs/tiers'')
             (dset ''active_tier'' (PStr tier) gate))))
         else if cmd = [] then Inl (HTTPException 400 (PStr ''command required''))
         else if first_word cmd \<notin> set CLOUD_SHELL_ALLOWED then
           Inl (HTTPException 403 (PDict
             [(''ok'', PBool False), (''code'', PStr ''command_not_allowed''),
              (''reason'', PStr (''command '' @ repr_str (first_word cmd) @ '' not in cloud-shell allow-list'')),
              (''allowed'', PList (map PStr (sort CLOUD_SHELL_ALLOWED)))]))
         else Inr cmd)"

section \<open>Frames of the platform's operations\<close>

text \<open>An operation on one id leaves the spaces under other ids alone.\<close>

definition frames :: "string \<Rightarrow> (spaces_st \<Rightarrow> spaces_st \<times> 'a result) \<Rightarrow> bool" where
  "frames sid f \<longleftrightarrow> (\<forall>ss k. k \<noteq> sid \<longrightarrow> map_of (ss_spaces (fst (f ss))) k = map_of (ss_spaces ss) k)"

lemma frames_set_status: "frames sid (set_status status sid now)"
  by (simp add: frames_def set_status_def Let_def dict_simps split: option.split)

lemma frames_delete: "frames sid (delete_space sid)"
  by (simp add: frames_def delete_space_def Let_def dict_simps)

lemma frames_kernel_switch: "frames sid (switch_space sid now)"
  by (simp add: frames_def switch_space_def Let_def dict_simps split: option.split)

lemma frames_switch: "frames sid (platform_switch_space en sid now)"
proof -
  have k: "map_of (ss_spaces ss') k = map_of (ss_spaces ss) k" if "switch_space sid now ss = (ss', r)" "k \<noteq> sid" for ss ss' r k
    using frames_kernel_switch [of sid now] that unfolding frames_def by (metis fst_conv)
  show ?thesis unfolding frames_def platform_switch_space_def
    by (auto simp: dict_simps Let_def split: prod.splits sum.splits option.splits pyval.splits dest: k)
qed

datatype space_op = Switch | Pause | Resume | Archive | Delete

text \<open>The five handlers that name a space, the answer reduced to success or error.\<close>

definition ok_only :: "'s \<times> 'a result \<Rightarrow> 's \<times> unit result" where
  "ok_only sr = (fst sr, case snd sr of Inl e \<Rightarrow> Inl e | Inr _ \<Rightarrow> Inr ())"

fun api_space_op :: "engine \<Rightarrow> space_op \<Rightarrow> request \<Rightarrow> string \<Rightarrow> string \<Rightarrow> pstate \<Rightarrow> pstate \<times> unit result" where
  "api_space_op en Switch rq sid now st = ok_only (api_switch_space en rq sid now st)"
| "api_space_op en Pause rq sid now st = ok_only (api_pause_space rq sid now st)"
| "api_space_op en Resume rq sid now st = ok_only (api_resume_space rq sid now st)"
| "api_space_op en Archive rq sid now st = ok_only (api_archive_space rq sid now st)"
| "api_space_op en Delete rq sid now st = ok_only (api_delete_space rq sid st)"

lemma on_tenant_space_frame:
  assumes "frames sid f" and "map_of (ss_spaces (st_spaces st)) k = Some sp"
    and "\<not> space_belongs_to_active_tenant rq st sp"
  shows "map_of (ss_spaces (st_spaces (fst (on_tenant_space rq sid f st)))) k = Some sp"
proof (cases "require_tenant_space rq sid st")
  case (Inr sp')
  then have "k \<noteq> sid" using assms(2,3) by (auto simp: require_tenant_space_def split: if_splits)
  then have "map_of (ss_spaces (fst (f (st_spaces st)))) k = Some sp"
    using assms(1,2) by (simp add: frames_def)
  then show ?thesis using Inr by (simp add: on_tenant_space_def case_prod_beta Let_def)
qed (use assms(2) in \<open>simp add: on_tenant_space_def\<close>)

lemma on_tenant_space_foreign:
  "(case map_of (ss_spaces (st_spaces st)) sid of None \<Rightarrow> True | Some sp \<Rightarrow> \<not> space_belongs_to_active_tenant rq st sp) \<Longrightarrow>
   on_tenant_space rq sid f st = (st, Inl not_found)"
  by (simp add: on_tenant_space_def require_tenant_space_def split: option.splits)

lemmas api_space_defs =
  api_switch_space_def api_pause_space_def api_resume_space_def api_archive_space_def api_delete_space_def

lemma api_space_op_on:
  obtains f :: "spaces_st \<Rightarrow> spaces_st \<times> space result" where
      "api_space_op en op rq sid now st = ok_only (on_tenant_space rq sid f st)" "frames sid f"
  | f :: "spaces_st \<Rightarrow> spaces_st \<times> unit result" where
      "api_space_op en op rq sid now st = ok_only (on_tenant_space rq sid f st)" "frames sid f"
proof (cases op)
  case Delete
  then show ?thesis using that(2) [of "delete_space sid"] frames_delete by (simp add: api_space_defs)
next
  case Switch
  then show ?thesis using that(1) [of "platform_switch_space en sid now"] frames_switch by (simp add: api_space_defs)
next
  case Pause
  then show ?thesis using that(1) [of "pause_space sid now"] frames_set_status
    by (simp add: api_space_defs pause_space_def)
next
  case Resume
  then show ?thesis using that(1) [of "resume_space sid now"] frames_set_status
    by (simp add: api_space_defs resume_space_def)
next
  case Archive
  then show ?thesis using that(1) [of "archive_space sid now"] frames_set_status
    by (simp add: api_space_defs archive_space_def)
qed

text \<open> The handlers that switch, pause, resume, archive or delete a space never touch a space of
  another tenant, whatever the CloudSim engine answers; and they answer a foreign id exactly as an id
  that does not exist: the same error, the state unchanged.\<close>

theorem space_ops_tenant_safe:
  "(\<forall>k sp. map_of (ss_spaces (st_spaces st)) k = Some sp \<and> \<not> space_belongs_to_active_tenant rq st sp \<longrightarrow>
      map_of (ss_spaces (st_spaces (fst (api_space_op en op rq sid now st)))) k = Some sp) \<and>
   (case map_of (ss_spaces (st_spaces st)) sid of
      None \<Rightarrow> api_space_op en op rq sid now st = (st, Inl not_found)
    | Some sp \<Rightarrow> space_belongs_to_active_tenant rq st sp \<or> api_space_op en op rq sid now st = (st, Inl not_found))"
  by (rule api_space_op_on [of en op rq sid now st])
    (auto simp: ok_only_def on_tenant_space_frame on_tenant_space_foreign split: option.split)

theorem space_ops_tenant_safe_witness:
  "map_of (ss_spaces (st_spaces demo_state)) ''s2'' \<noteq> None \<and>
   map_of (ss_spaces (st_spaces (fst (api_space_op \<lparr>en_create = \<lambda>_. None, en_switch = \<lambda>_. None\<rparr> Delete
     \<lparr>rq_provider = ''aws'', rq_tenant = []\<rparr> ''s1'' ''t'' demo_state)))) ''s2''
   = map_of (ss_spaces (st_spaces demo_state)) ''s2''"
proof -
  let ?rq = "\<lparr>rq_provider = ''aws'', rq_tenant = []\<rparr>"
  obtain sp where sp: "map_of (ss_spaces (st_spaces demo_state)) ''s2'' = Some sp"
    by (simp add: demo_state_def demo_spaces_def)
  then have "sp = [(''space_id'', PStr ''s2''), (''provider'', PStr ''gcp''), (''tenant_id'', PStr ''acme'')]"
    by (simp add: demo_state_def demo_spaces_def)
  moreover have "\<not> space_belongs_to_active_tenant ?rq demo_state
      [(''space_id'', PStr ''s2''), (''provider'', PStr ''gcp''), (''tenant_id'', PStr ''acme'')]" by code_simp
  ultimately show ?thesis
    using sp space_ops_tenant_safe [of demo_state ?rq "\<lparr>en_create = \<lambda>_. None, en_switch = \<lambda>_. None\<rparr>" Delete "''s1''" "''t''"]
    by simp
qed

section \<open>Creation\<close>

definition spec_space_id :: "pyval dict \<Rightarrow> string \<Rightarrow> string" where
  "spec_space_id spec rid = str_field spec ''space_id'' (''space-'' @ rid)"

lemma create_space_files:
  "create_space ap spec rid tok now ss = (ss', Inr sp) \<Longrightarrow>
   ss_spaces ss' = dset (spec_space_id spec rid) sp (ss_spaces ss) \<and>
   pget sp ''space_id'' = PStr (spec_space_id spec rid)"
  by (auto simp: create_space_def Let_def put_space_def rbind_Inr new_space_fields spec_space_id_def
      split: sum.splits if_splits)

lemma platform_create_files:
  assumes "platform_create_space en ap spec rid tok now ss = (ss', Inr sp)"
  shows "\<exists>x. ss_spaces ss' = dset (spec_space_id spec rid) x (ss_spaces ss) \<and>
             pget sp ''space_id'' = PStr (spec_space_id spec rid)"
proof -
  from assms obtain ss1 sp0 where k: "create_space ap spec rid tok now ss = (ss1, Inr sp0)"
    by (auto simp: platform_create_space_def split: prod.splits sum.splits)
  note f = create_space_files [OF k]
  show ?thesis
    using assms k f
    by (cases "en_create en (dset ''cloudsim'' (PDict [(''summary'', PDict (fallback_summary now sp0)), (''events'', PList []),
                      (''last_tick'', PStr now)]) sp0)")
      (auto simp: platform_create_space_def Let_def dict_simps split: if_splits)
qed

definition requested_tenant :: "request \<Rightarrow> pyval dict \<Rightarrow> pstate \<Rightarrow> string" where
  "requested_tenant rq payload st = str_or (strip (str_field payload ''tenant_id'' [])) (active_tenant_id rq st)"

lemma str_field_dset_other: "k' \<noteq> k \<Longrightarrow> str_field (dset k' v d) k s = str_field d k s"
  by (simp add: str_field_def dict_simps)

lemma api_create_success:
  assumes "api_create_space en ap rq payload rid tok now st = (st', Inr sp)"
  obtains tenant y where
    "tenant_dict st (requested_tenant rq payload st) = Some tenant"
    "check_space_quota tenant (requested_tenant rq payload st) (ss_spaces (st_spaces st)) = Inr ()"
    "ss_spaces (st_spaces st') = dset (spec_space_id payload rid) y (ss_spaces (st_spaces st))"
    "pget y ''tenant_id'' = PStr (requested_tenant rq payload st)"
    "pget sp ''tenant_id'' = PStr (requested_tenant rq payload st)"
proof -
  let ?spec = "dset ''provider'' (PStr (lower (strip (str_field payload ''provider'' [])))) payload"
  let ?tid = "requested_tenant rq payload st"
  have tid: "str_or (strip (str_field ?spec ''tenant_id'' [])) (active_tenant_id rq st) = ?tid"
    by (simp add: requested_tenant_def str_field_dset_other)
  have sid: "spec_space_id ?spec rid = spec_space_id payload rid"
    by (simp add: spec_space_id_def str_field_dset_other)
  from assms tid obtain tenant ss sp0 where t: "tenant_dict st ?tid = Some tenant"
    and q: "check_space_quota tenant ?tid (ss_spaces (st_spaces st)) = Inr ()"
    and c: "platform_create_space en ap ?spec rid tok now (st_spaces st) = (ss, Inr sp0)"
    by (auto simp: api_create_space_def Let_def split: if_splits option.splits sum.splits prod.splits py_exc.splits)
  obtain x where x: "ss_spaces ss = dset (spec_space_id payload rid) x (ss_spaces (st_spaces st))"
    "pget sp0 ''space_id'' = PStr (spec_space_id payload rid)"
    using platform_create_files [OF c] sid by auto
  show thesis
  proof (rule that [OF t q, of "dset ''tenant_id'' (PStr ?tid) x"])
    show "ss_spaces (st_spaces st') = dset (spec_space_id payload rid) (dset ''tenant_id'' (PStr ?tid) x) (ss_spaces (st_spaces st))"
      "pget sp ''tenant_id'' = PStr ?tid"
      using assms t q c x tid by (auto simp: api_create_space_def Let_def dict_simps split: if_splits)
  qed (simp add: dict_simps)
qed

lemma tenant_spaces_dset:
  "tenant_spaces t (dset k y d) \<le> tenant_spaces t d + (if space_tid y = PStr t then 1 else 0)"
  by (induction d) (auto simp: tenant_spaces_def dset_def dvals_def)

lemma quota_int_cap:
  "check_space_quota tenant tid spaces = Inr () \<Longrightarrow>
   within_cap (int (tenant_spaces tid spaces) + 1)
     (int_cap ''max_spaces'' (py_str (py_or (pget tenant ''license_tier'') (PStr ''free''))))"
  by (auto simp: check_space_quota_def Let_def within_cap_def int_cap_def policy_for_normalize
      split: pyval.splits if_splits)

lemma space_tid_PStr: "pget y ''tenant_id'' = PStr t \<Longrightarrow> t \<noteq> [] \<Longrightarrow> space_tid y = PStr t"
  by (simp add: space_tid_def py_or_def)

lemma requested_not_Nil [simp]: "requested_tenant rq payload st \<noteq> []"
  by (simp add: requested_tenant_def str_or_def)

text \<open> The per-tenant quota holds at creation: after a successful request the tenant has at
  most as many spaces as its tier allows, and no other tenant has more than before.\<close>

theorem api_create_space_quota:
  assumes "api_create_space en ap rq payload rid tok now st = (st', Inr sp)"
    and "t = requested_tenant rq payload st"
  shows "\<exists>tenant. tenant_dict st t = Some tenant \<and>
           within_cap (int (tenant_spaces t (ss_spaces (st_spaces st'))))
             (int_cap ''max_spaces'' (py_str (py_or (pget tenant ''license_tier'') (PStr ''free'')))) \<and>
           (\<forall>t'. t' = t \<or> tenant_spaces t' (ss_spaces (st_spaces st')) \<le> tenant_spaces t' (ss_spaces (st_spaces st)))"
proof -
  obtain tenant y where t: "tenant_dict st t = Some tenant"
    and q: "check_space_quota tenant t (ss_spaces (st_spaces st)) = Inr ()"
    and s: "ss_spaces (st_spaces st') = dset (spec_space_id payload rid) y (ss_spaces (st_spaces st))"
    and y: "pget y ''tenant_id'' = PStr t"
    using assms by (elim api_create_success) auto
  have ty: "space_tid y = PStr t" using y assms(2) by (simp add: space_tid_PStr)
  let ?cap = "int_cap ''max_spaces'' (py_str (py_or (pget tenant ''license_tier'') (PStr ''free'')))"
  have "int (tenant_spaces t (ss_spaces (st_spaces st'))) \<le> int (tenant_spaces t (ss_spaces (st_spaces st))) + 1"
    using tenant_spaces_dset [of t "spec_space_id payload rid" y "ss_spaces (st_spaces st)"] ty s by simp
  then have "within_cap (int (tenant_spaces t (ss_spaces (st_spaces st')))) ?cap"
    using quota_int_cap [OF q] by (auto simp: within_cap_def split: option.splits)
  moreover have "tenant_spaces t' (ss_spaces (st_spaces st')) \<le> tenant_spaces t' (ss_spaces (st_spaces st))" if "t' \<noteq> t" for t'
    using tenant_spaces_dset [of t' "spec_space_id payload rid" y "ss_spaces (st_spaces st)"] ty s that by simp
  ultimately show ?thesis using t by blast
qed

text \<open> Creation does not check that the id it is given is free: a successful request that names
  a space id ends with that id filed under the requesting tenant, whichever tenant owned it before.\<close>

theorem api_create_space_takes_id:
  assumes "api_create_space en ap rq payload rid tok now st = (st', Inr sp)"
    and "pget payload ''space_id'' = PStr (c # cs)"
  shows "\<exists>y. map_of (ss_spaces (st_spaces st')) (c # cs) = Some y \<and>
             space_tid y = PStr (requested_tenant rq payload st) \<and>
             (\<forall>k. k = c # cs \<or> map_of (ss_spaces (st_spaces st')) k = map_of (ss_spaces (st_spaces st)) k)"
proof -
  have "spec_space_id payload rid = c # cs" using assms(2) by (simp add: spec_space_id_def)
  moreover obtain y where "ss_spaces (st_spaces st') = dset (spec_space_id payload rid) y (ss_spaces (st_spaces st))"
    "pget y ''tenant_id'' = PStr (requested_tenant rq payload st)"
    using assms(1) by (elim api_create_success) auto
  ultimately show ?thesis by (auto simp: dict_simps space_tid_PStr)
qed

definition offline :: engine where
  "offline = \<lparr>en_create = \<lambda>_. None, en_switch = \<lambda>_. None\<rparr>"

definition demo_tenants :: pstate where
  "demo_tenants = demo_state\<lparr>st_tenants :=
     [(''default'', [(''license_tier'', PStr ''student'')]), (''acme'', [(''license_tier'', PStr ''free'')])]\<rparr>"

lemma demo_create:
  "\<exists>st' sp. api_create_space offline True \<lparr>rq_provider = ''aws'', rq_tenant = []\<rparr>
      [(''provider'', PStr ''gcp''), (''space_id'', PStr ''s2'')] ''0a'' ''ff'' ''t'' demo_tenants = (st', Inr sp)"
proof -
  let ?r = "api_create_space offline True \<lparr>rq_provider = ''aws'', rq_tenant = []\<rparr>
      [(''provider'', PStr ''gcp''), (''space_id'', PStr ''s2'')] ''0a'' ''ff'' ''t'' demo_tenants"
  have "\<not> isl (snd ?r)" by code_simp
  then show ?thesis by (metis isl_def sum.exhaust prod.collapse)
qed

theorem api_create_space_quota_witness:
  "\<exists>st' sp tenant. api_create_space offline True \<lparr>rq_provider = ''aws'', rq_tenant = []\<rparr>
      [(''provider'', PStr ''gcp''), (''space_id'', PStr ''s2'')] ''0a'' ''ff'' ''t'' demo_tenants = (st', Inr sp) \<and>
     tenant_dict demo_tenants ''default'' = Some tenant \<and>
     within_cap (int (tenant_spaces ''default'' (ss_spaces (st_spaces st'))))
       (int_cap ''max_spaces'' (py_str (py_or (pget tenant ''license_tier'') (PStr ''free''))))"
proof -
  have "''default'' = requested_tenant \<lparr>rq_provider = ''aws'', rq_tenant = []\<rparr>
      [(''provider'', PStr ''gcp''), (''space_id'', PStr ''s2'')] demo_tenants" by code_simp
  moreover obtain st' sp where c: "api_create_space offline True \<lparr>rq_provider = ''aws'', rq_tenant = []\<rparr>
      [(''provider'', PStr ''gcp''), (''space_id'', PStr ''s2'')] ''0a'' ''ff'' ''t'' demo_tenants = (st', Inr sp)"
    using demo_create by blast
  ultimately show ?thesis using api_create_space_quota [OF c] by blast
qed

theorem api_create_space_takes_id_witness:
  "space_tid (dget (ss_spaces (st_spaces demo_tenants)) ''s2'' []) = PStr ''acme'' \<and>
   (\<exists>st' sp y. api_create_space offline True \<lparr>rq_provider = ''aws'', rq_tenant = []\<rparr>
      [(''provider'', PStr ''gcp''), (''space_id'', PStr ''s2'')] ''0a'' ''ff'' ''t'' demo_tenants = (st', Inr sp) \<and>
     map_of (ss_spaces (st_spaces st')) ''s2'' = Some y \<and> space_tid y = PStr ''default'')"
proof -
  have o: "space_tid (dget (ss_spaces (st_spaces demo_tenants)) ''s2'' []) = PStr ''acme''" by code_simp
  have d: "requested_tenant \<lparr>rq_provider = ''aws'', rq_tenant = []\<rparr>
      [(''provider'', PStr ''gcp''), (''space_id'', PStr ''s2'')] demo_tenants = ''default''" by code_simp
  obtain st' sp where c: "api_create_space offline True \<lparr>rq_provider = ''aws'', rq_tenant = []\<rparr>
      [(''provider'', PStr ''gcp''), (''space_id'', PStr ''s2'')] ''0a'' ''ff'' ''t'' demo_tenants = (st', Inr sp)"
    using demo_create by blast
  have "pget [(''provider'', PStr ''gcp''), (''space_id'', PStr ''s2'')] ''space_id'' = PStr ''s2''" by code_simp
  from api_create_space_takes_id [OF c this] show ?thesis using o c d by auto
qed

text \<open> The cloud shell's allow-list looks at the first word only: on a tier with the feature, an
  allowed command followed by anything at all, another command included, is handed to the shell.\<close>

theorem cloud_shell_first_word_only:
  assumes "resp_ok (check_feature tier ''cloud_shell'')" and "strip rest = rest" and "rest \<noteq> []"
  shows "cloud_shell_command tier [(''command'', PStr (''ls '' @ rest))] = Inr (''ls '' @ rest)"
proof -
  have sp: "is_space (CHR '' '')" "\<not> is_space (CHR ''l'')" "\<not> is_space (CHR ''s'')" by code_simp+
  have "\<not> is_space (last rest)" by (rule strip_last [OF assms(2,3)])
  then have "strip (''ls '' @ rest) = ''ls '' @ rest"
    using assms(3) sp by (intro strip_ends) simp_all
  then show ?thesis
    using assms(1) by (simp add: cloud_shell_command_def Let_def pget_def dget_def first_word_def lstrip_def
        sp CLOUD_SHELL_ALLOWED_def)
qed

theorem cloud_shell_first_word_only_witness:
  "cloud_shell_command ''student'' [(''command'', PStr (''ls '' @ ''; rm -rf /srv''))] = Inr (''ls '' @ ''; rm -rf /srv'')"
  by (rule cloud_shell_first_word_only) code_simp+

end
