(* ===== verification/Iam_Routes.thy ===== *)
theory Iam_Routes
imports Py_Strings
begin

text \<open>The action and the resource a request is authorised for (\<open>_iam_route_action_resource\<close> in
  \<open>server.py\<close>): one definition per service prefix, composed in the order of the code.  A component
  answers \<^theory_text>\<open>None\<close> when the code falls through to the next prefix, \<^theory_text>\<open>Some None\<close> when it returns
  \<open>None\<close> (the request is not authorised at all) and \<^theory_text>\<open>Some (Some (a, r))\<close> when it returns a pair.\<close>

section \<open>Amazon resource names\<close>

definition AWS_ACCOUNT_ID :: string where
  "AWS_ACCOUNT_ID = ''123456789012''"

definition iam_root_principal :: string where
  "iam_root_principal = ''arn:aws:iam::'' @ AWS_ACCOUNT_ID @ '':root''"

definition iam_user_arn :: "string \<Rightarrow> string" where
  "iam_user_arn n = ''arn:aws:iam::'' @ AWS_ACCOUNT_ID @ '':user/'' @ n"

definition iam_role_arn :: "string \<Rightarrow> string" where
  "iam_role_arn n = ''arn:aws:iam::'' @ AWS_ACCOUNT_ID @ '':role/'' @ n"

definition iam_group_arn :: "string \<Rightarrow> string" where
  "iam_group_arn n = ''arn:aws:iam::'' @ AWS_ACCOUNT_ID @ '':group/'' @ n"

definition iam_s3_bucket_arn :: "string \<Rightarrow> string" where
  "iam_s3_bucket_arn b = ''arn:aws:s3:::'' @ b"

definition iam_s3_object_arn :: "string \<Rightarrow> string \<Rightarrow> string" where
  "iam_s3_object_arn b k = ''arn:aws:s3:::'' @ b @ ''/'' @ k"

definition iam_ec2_arn :: "string \<Rightarrow> string \<Rightarrow> string" where
  "iam_ec2_arn kind i = ''arn:aws:ec2:us-east-1:'' @ AWS_ACCOUNT_ID @ '':'' @ kind @ ''/'' @ i"

definition iam_ec2_instance_arn :: "string \<Rightarrow> string" where
  "iam_ec2_instance_arn = iam_ec2_arn ''instance''"

definition iam_ec2_vpc_arn :: "string \<Rightarrow> string" where
  "iam_ec2_vpc_arn = iam_ec2_arn ''vpc''"

definition iam_ec2_security_group_arn :: "string \<Rightarrow> string" where
  "iam_ec2_security_group_arn = iam_ec2_arn ''security-group''"

definition iam_ec2_route_table_arn :: "string \<Rightarrow> string" where
  "iam_ec2_route_table_arn = iam_ec2_arn ''route-table''"

definition iam_ec2_internet_gateway_arn :: "string \<Rightarrow> string" where
  "iam_ec2_internet_gateway_arn = iam_ec2_arn ''internet-gateway''"

definition iam_apigw_api_arn :: "string \<Rightarrow> string" where
  "iam_apigw_api_arn i = ''arn:aws:apigateway:us-east-1::/restapis/'' @ i"

definition iam_apigw_stage_arn :: "string \<Rightarrow> string \<Rightarrow> string" where
  "iam_apigw_stage_arn i s = ''arn:aws:apigateway:us-east-1::/restapis/'' @ i @ ''/stages/'' @ s"

definition iam_rds_db_arn :: "string \<Rightarrow> string" where
  "iam_rds_db_arn i = ''arn:aws:rds:us-east-1:'' @ AWS_ACCOUNT_ID @ '':db:'' @ i"

definition iam_rds_snapshot_arn :: "string \<Rightarrow> string" where
  "iam_rds_snapshot_arn i = ''arn:aws:rds:us-east-1:'' @ AWS_ACCOUNT_ID @ '':snapshot:'' @ i"

definition iam_sqs_queue_arn :: "string \<Rightarrow> string" where
  "iam_sqs_queue_arn q = ''arn:aws:sqs:us-east-1:'' @ AWS_ACCOUNT_ID @ '':'' @ q"

definition iam_lambda_function_arn :: "string \<Rightarrow> string" where
  "iam_lambda_function_arn f = ''arn:aws:lambda:us-east-1:'' @ AWS_ACCOUNT_ID @ '':function:'' @ f"

definition iam_dynamodb_table_arn :: "string \<Rightarrow> string" where
  "iam_dynamodb_table_arn t = ''arn:aws:dynamodb:us-east-1:'' @ AWS_ACCOUNT_ID @ '':table/'' @ t"

section \<open>Cases in order\<close>

type_synonym auth = "(string \<times> string) option"

text \<open>The request as the function reads it; \<open>hq_query\<close> is the set of query parameter names and
  \<open>hq_target\<close> the \<open>x-amz-target\<close> header.\<close>

record http_req =
  hq_path :: string
  hq_method :: string
  hq_query :: "string list"
  hq_target :: string

fun first_case :: "(bool \<times> 'a) list \<Rightarrow> 'a option" where
  "first_case [] = None"
| "first_case ((c, v) # rest) = (if c then Some v else first_case rest)"

definition path_parts :: "string \<Rightarrow> string list" where
  "path_parts p = filter (\<lambda>s. s \<noteq> []) (split_char (CHR ''/'') p)"

definition part :: "nat \<Rightarrow> string list \<Rightarrow> string" where
  "part i xs = (if i < length xs then xs ! i else [])"

text \<open>\<open>(table.get(method), resource) if method in table else None\<close>.\<close>

definition by_method :: "string dict \<Rightarrow> string \<Rightarrow> string \<Rightarrow> auth" where
  "by_method table method resource = map_option (\<lambda>a. (a, resource)) (map_of table method)"

text \<open>\<open>action_map.get((method, path))\<close>.\<close>

definition by_route :: "((string \<times> string) \<times> string) list \<Rightarrow> string \<Rightarrow> string \<Rightarrow> auth" where
  "by_route table method path = map_option (\<lambda>a. (a, ''*'')) (map_of table (method, path))"

section \<open>Unauthorised prefixes and the platform's own routes\<close>

definition open_prefixes :: "string list" where
  "open_prefixes =
     [''/ui'', ''/product'', ''/assets/'', ''/static/'', ''/favicon.ico'', ''/console'', ''/docs/'',
      ''/api/tenants'', ''/api/instances'', ''/api/runtime'']"

definition open_api_prefixes :: "string list" where
  "open_api_prefixes =
     [''/api/catalog'', ''/api/packs'', ''/api/license'', ''/api/runtime/bundles'', ''/api/deployments'',
      ''/api/actions'']"

definition route_open :: "string \<Rightarrow> auth option" where
  "route_open path =
     first_case
       [(path \<in> {''/healthz'', ''/docs'', ''/redoc'', ''/openapi.json''} \<or> startswith_any path open_prefixes, None),
        (startswith_any path open_api_prefixes, None)]"

definition route_spaces :: "string \<Rightarrow> string \<Rightarrow> auth option" where
  "route_spaces path method =
     (let parts = path_parts path;
          arn = ''arn:cloudlearn:space::'' @ part 2 parts;
          sub = (\<lambda>n verb. length parts = n \<and> method = verb)
      in if \<not> startswith path ''/api/spaces'' then None
         else first_case
           [(path = ''/api/spaces'' \<and> method = ''GET'', Some (''cloudlearn:ListSpaces'', ''*'')),
            (path = ''/api/spaces'' \<and> method = ''POST'', Some (''cloudlearn:CreateSpace'', ''*'')),
            (path = ''/api/spaces/estimate'' \<and> method = ''POST'', Some (''cloudlearn:EstimateSpace'', ''*'')),
            (path = ''/api/spaces/active'' \<and> method = ''GET'', Some (''cloudlearn:GetActiveSpace'', ''*'')),
            (sub 3 ''GET'', Some (''cloudlearn:GetSpace'', arn)),
            (sub 3 ''DELETE'', Some (''cloudlearn:DeleteSpace'', arn)),
            (sub 4 ''POST'' \<and> part 3 parts = ''switch'', Some (''cloudlearn:SwitchSpace'', arn)),
            (sub 4 ''POST'' \<and> part 3 parts = ''pause'', Some (''cloudlearn:PauseSpace'', arn)),
            (sub 4 ''POST'' \<and> part 3 parts = ''resume'', Some (''cloudlearn:ResumeSpace'', arn)),
            (sub 4 ''POST'' \<and> part 3 parts = ''archive'', Some (''cloudlearn:ArchiveSpace'', arn)),
            (True, None)])"

definition cloudsim_map :: "((string \<times> string) \<times> string) list" where
  "cloudsim_map =
     [((''GET'', ''/api/cloudsim/current''), ''cloudlearn:GetCloudSimCurrent''),
      ((''GET'', ''/api/cloudsim/summary''), ''cloudlearn:GetCloudSimSummary''),
      ((''POST'', ''/api/cloudsim/reconcile''), ''cloudlearn:ReconcileCloudSim''),
      ((''GET'', ''/api/cloudsim/events''), ''cloudlearn:ListCloudSimEvents'')]"

definition route_cloudsim :: "string \<Rightarrow> string \<Rightarrow> auth option" where
  "route_cloudsim path method =
     (if startswith path ''/api/cloudsim/'' then Some (by_route cloudsim_map method path) else None)"

definition route_federations :: "string \<Rightarrow> string \<Rightarrow> auth option" where
  "route_federations path method =
     (let below = startswith path ''/api/federations/'' in
      if \<not> (below \<or> path = ''/api/federations'') then None
      else first_case
        [(path = ''/api/federations'' \<and> method = ''GET'', Some (''cloudlearn:ListFederations'', ''*'')),
         (path = ''/api/federations'' \<and> method = ''POST'', Some (''cloudlearn:CreateFederation'', ''*'')),
         (below \<and> method = ''POST'' \<and> endswith path ''/links'', Some (''cloudlearn:CreateFederationLink'', ''*'')),
         (below \<and> method = ''POST'' \<and> endswith path ''/tests'', Some (''cloudlearn:RunFederationTest'', ''*'')),
         (True, None)])"

definition iam_map :: "((string \<times> string) \<times> string) list" where
  "iam_map =
     [((''GET'', ''/api/iam/users''), ''iam:ListUsers''), ((''POST'', ''/api/iam/users''), ''iam:CreateUser''),
      ((''GET'', ''/api/iam/groups''), ''iam:ListGroups''), ((''POST'', ''/api/iam/groups''), ''iam:CreateGroup''),
      ((''GET'', ''/api/iam/roles''), ''iam:ListRoles''), ((''POST'', ''/api/iam/roles''), ''iam:CreateRole''),
      ((''GET'', ''/api/iam/policies''), ''iam:ListPolicies''), ((''POST'', ''/api/iam/policies''), ''iam:CreatePolicy''),
      ((''POST'', ''/api/iam/attach-policy''), ''iam:AttachPolicy''),
      ((''GET'', ''/api/iam/attachments''), ''iam:ListAttachments''),
      ((''GET'', ''/api/iam/identity-providers''), ''iam:ListIdentityProviders''),
      ((''POST'', ''/api/iam/identity-providers''), ''iam:CreateIdentityProvider''),
      ((''GET'', ''/api/iam/account-settings''), ''iam:GetAccountSettings''),
      ((''PUT'', ''/api/iam/account-settings''), ''iam:UpdateAccountSettings'')]"

definition route_iam :: "string \<Rightarrow> string \<Rightarrow> auth option" where
  "route_iam path method =
     (let parts = path_parts path;
          groups = startswith path ''/api/iam/groups/'';
          star = (\<lambda>a. Some (a, ''*''))
      in if \<not> startswith path ''/api/iam/'' then None
         else first_case
           [(groups \<and> length parts = 5 \<and> part 4 parts = ''users'' \<and> method = ''POST'', star ''iam:AddUserToGroup''),
            (groups \<and> length parts = 6 \<and> part 4 parts = ''users'' \<and> method = ''DELETE'', star ''iam:RemoveUserFromGroup''),
            (groups \<and> length parts = 4 \<and> method = ''DELETE'', star ''iam:DeleteGroup''),
            (startswith path ''/api/iam/users/'' \<and> method = ''DELETE'', star ''iam:DeleteUser''),
            (startswith path ''/api/iam/roles/'' \<and> method = ''DELETE'', star ''iam:DeleteRole''),
            (startswith path ''/api/iam/policies/'' \<and> method = ''DELETE'', star ''iam:DeletePolicy''),
            (startswith path ''/api/iam/attachments'' \<and> method = ''DELETE'', star ''iam:DetachPolicy''),
            (startswith path ''/api/iam/identity-providers/'' \<and> method = ''DELETE'', star ''iam:DeleteIdentityProvider''),
            (startswith path ''/api/iam/users/'' \<and> endswith path ''/policies'' \<and> method = ''GET'', star ''iam:ListUserPolicies''),
            (startswith path ''/api/iam/roles/'' \<and> endswith path ''/policies'' \<and> method = ''GET'', star ''iam:ListRolePolicies''),
            (startswith path ''/api/iam/policies/'' \<and> endswith path ''/usage'' \<and> method = ''GET'', star ''iam:ListPolicyUsage''),
            (True, by_route iam_map method path)])"

section \<open>S3 and compute\<close>

definition route_api_s3 :: "string \<Rightarrow> string \<Rightarrow> auth option" where
  "route_api_s3 path method =
     (let parts = path_parts path;
          bucket_arn = iam_s3_bucket_arn (part 3 parts);
          tail = drop 4 parts;
          object_arn = iam_s3_object_arn (part 3 parts) (part 1 tail);
          b = length parts \<ge> 4 \<and> part 2 parts = ''buckets'';
          o2 = b \<and> length tail = 2 \<and> part 0 tail = ''objects'';
          o3 = b \<and> length tail = 3 \<and> part 0 tail = ''objects''
      in if \<not> startswith path ''/api/s3/'' then None
         else first_case
           [(path = ''/api/s3/buckets'', by_method [(''GET'', ''s3:ListAllMyBuckets'')] method ''*''),
            (b \<and> tail = [], by_method [(''GET'', ''s3:GetBucket''), (''POST'', ''s3:CreateBucket''), (''DELETE'', ''s3:DeleteBucket'')] method bucket_arn),
            (b \<and> tail = [''versioning''], by_method [(''GET'', ''s3:GetBucketVersioning''), (''PUT'', ''s3:PutBucketVersioning'')] method bucket_arn),
            (b \<and> tail = [''notifications''],
               by_method [(''GET'', ''s3:GetBucketNotificationConfiguration''), (''PUT'', ''s3:PutBucketNotificationConfiguration''),
                          (''DELETE'', ''s3:DeleteBucketNotificationConfiguration'')] method bucket_arn),
            (b \<and> tail = [''notifications'', ''events''] \<and> method = ''GET'', Some (''s3:GetBucketNotificationConfiguration'', bucket_arn)),
            (b \<and> tail = [''objects''], by_method [(''GET'', ''s3:ListBucket''), (''POST'', ''s3:PutObject'')] method bucket_arn),
            (b \<and> tail = [''versions''] \<and> method = ''GET'', Some (''s3:ListBucketVersions'', bucket_arn)),
            (o2 \<and> method \<in> {''GET'', ''DELETE''}, by_method [(''GET'', ''s3:GetObject''), (''DELETE'', ''s3:DeleteObject'')] method object_arn),
            (o2 \<and> method = ''POST'', Some (''s3:PutObject'', object_arn)),
            (o3 \<and> part 2 tail = ''meta'' \<and> method = ''GET'', Some (''s3:GetObject'', object_arn)),
            (o3 \<and> part 2 tail = ''download'' \<and> method = ''GET'', Some (''s3:GetObject'', object_arn)),
            (o3 \<and> part 2 tail = ''versions'' \<and> method = ''GET'', Some (''s3:ListObjectVersions'', object_arn)),
            (o3 \<and> part 2 tail = ''tags'' \<and> method \<in> {''GET'', ''POST'', ''DELETE''},
               by_method [(''GET'', ''s3:GetObjectTagging''), (''POST'', ''s3:PutObjectTagging''), (''DELETE'', ''s3:DeleteObjectTagging'')] method object_arn),
            (True, None)])"

definition route_ec2_instances :: "string \<Rightarrow> string \<Rightarrow> auth option" where
  "route_ec2_instances path method =
     (let parts = path_parts path;
          resource = iam_ec2_instance_arn (part 3 parts);
          tail = drop 4 parts;
          act = (\<lambda>verb. length parts \<ge> 4 \<and> tail = [verb] \<and> method = ''POST'')
      in if startswith path ''/api/ec2/runtime/lxd/bootstrap'' then Some (Some (''ec2:DescribeInstances'', ''*''))
         else if \<not> startswith path ''/api/ec2/instances'' then None
         else first_case
           [(length parts = 3 \<and> method = ''GET'', Some (''ec2:DescribeInstances'', ''*'')),
            (length parts = 3 \<and> method = ''POST'', Some (''ec2:RunInstances'', ''*'')),
            (length parts = 4 \<and> method = ''GET'', Some (''ec2:DescribeInstances'', resource)),
            (act ''start'', Some (''ec2:StartInstances'', resource)),
            (act ''stop'', Some (''ec2:StopInstances'', resource)),
            (act ''reboot'', Some (''ec2:RebootInstances'', resource)),
            (act ''terminate'', Some (''ec2:TerminateInstances'', resource)),
            (True, None)])"

definition route_gcp_compute :: "string \<Rightarrow> string \<Rightarrow> auth option" where
  "route_gcp_compute path method =
     (let parts = path_parts path;
          zone_res = ''projects/'' @ part 4 parts @ ''/zones/'' @ part 6 parts;
          resource = zone_res @ ''/instances/'' @ part 8 parts;
          tail = drop 9 parts;
          ok = length parts \<ge> 8 \<and> part 3 parts = ''projects'' \<and> part 5 parts = ''zones'' \<and> part 7 parts = ''instances''
      in if \<not> startswith path ''/api/gcp/compute/'' then None
         else first_case
           [(ok \<and> length parts = 8, by_method [(''GET'', ''compute:ListInstances''), (''POST'', ''compute:InsertInstance'')] method zone_res),
            (ok \<and> tail = [], by_method [(''GET'', ''compute:GetInstance''), (''DELETE'', ''compute:DeleteInstance'')] method resource),
            (ok \<and> tail = [''start''] \<and> method = ''POST'', Some (''compute:StartInstance'', resource)),
            (ok \<and> tail = [''stop''] \<and> method = ''POST'', Some (''compute:StopInstance'', resource)),
            (ok \<and> tail = [''reset''] \<and> method = ''POST'', Some (''compute:ResetInstance'', resource)),
            (True, None)])"

definition ec2_map :: "((string \<times> string) \<times> string) list" where
  "ec2_map =
     [((''GET'', ''/api/ec2/amis''), ''ec2:DescribeImages''),
      ((''GET'', ''/api/ec2/runtime''), ''ec2:DescribeInstances''),
      ((''GET'', ''/api/ec2/runtime/lxd''), ''ec2:DescribeInstances''),
      ((''GET'', ''/api/ec2/runtime/multipass''), ''ec2:DescribeInstances''),
      ((''POST'', ''/api/ec2/runtime/bootstrap''), ''ec2:CreateServiceLinkedRole''),
      ((''POST'', ''/api/ec2/runtime/lxd/bootstrap''), ''ec2:CreateServiceLinkedRole''),
      ((''POST'', ''/api/ec2/runtime/multipass/bootstrap''), ''ec2:CreateServiceLinkedRole'')]"

definition route_ec2 :: "string \<Rightarrow> string \<Rightarrow> auth option" where
  "route_ec2 path method =
     (if startswith path ''/api/ec2/'' then Some (by_route ec2_map method path) else None)"

section \<open>Networks, databases, functions, queues\<close>

text \<open>From here on a component that finds no case falls through.\<close>

definition route_vpc :: "string \<Rightarrow> string \<Rightarrow> auth option" where
  "route_vpc path method =
     (let parts = path_parts path;
          vpc = length parts \<ge> 4 \<and> part 2 parts = ''vpcs'';
          resource = iam_ec2_vpc_arn (part 3 parts);
          child = (\<lambda>kind verb. length parts \<ge> 5 \<and> part 2 parts = kind \<and> part 4 parts = verb \<and> method = ''POST'')
      in if \<not> startswith path ''/api/vpc/'' then None
         else first_case
           [(path = ''/api/vpc/vpcs'', by_method [(''GET'', ''vpc:DescribeVpcs''), (''POST'', ''vpc:CreateVpc'')] method ''*''),
            (vpc \<and> length parts = 4 \<and> method = ''GET'', Some (''vpc:DescribeVpcs'', resource)),
            (vpc \<and> length parts = 4 \<and> method = ''DELETE'', Some (''vpc:DeleteVpc'', resource)),
            (vpc \<and> length parts \<ge> 5 \<and> part 4 parts = ''resources'' \<and> method = ''GET'', Some (''vpc:DescribeVpcs'', resource)),
            (path = ''/api/vpc/subnets'' \<and> method = ''POST'', Some (''vpc:CreateSubnet'', ''*'')),
            (path = ''/api/vpc/security-groups'' \<and> method = ''POST'', Some (''vpc:CreateSecurityGroup'', ''*'')),
            (child ''security-groups'' ''ingress'', Some (''ec2:AuthorizeSecurityGroupIngress'', iam_ec2_security_group_arn (part 3 parts))),
            (path = ''/api/vpc/route-tables'' \<and> method = ''POST'', Some (''vpc:CreateRouteTable'', ''*'')),
            (path = ''/api/vpc/internet-gateways'',
               by_method [(''GET'', ''vpc:DescribeInternetGateways''), (''POST'', ''vpc:CreateInternetGateway'')] method ''*''),
            (child ''internet-gateways'' ''attach'', Some (''vpc:AttachInternetGateway'', iam_ec2_internet_gateway_arn (part 3 parts))),
            (child ''route-tables'' ''routes'', Some (''vpc:CreateRoute'', iam_ec2_route_table_arn (part 3 parts))),
            (child ''route-tables'' ''associate-subnet'', Some (''vpc:AssociateRouteTable'', iam_ec2_route_table_arn (part 3 parts)))])"

definition route_rds :: "string \<Rightarrow> string \<Rightarrow> auth option" where
  "route_rds path method =
     (let parts = path_parts path;
          db = length parts \<ge> 4 \<and> part 2 parts = ''databases'';
          resource = iam_rds_db_arn (part 3 parts);
          tail = drop 4 parts;
          act = (\<lambda>t verb. db \<and> tail = [t] \<and> method = verb)
      in if \<not> startswith path ''/api/rds/'' then None
         else first_case
           [(path = ''/api/rds/databases'', by_method [(''GET'', ''rds:DescribeDBInstances''), (''POST'', ''rds:CreateDBInstance'')] method ''*''),
            (db \<and> length parts = 4,
               by_method [(''GET'', ''rds:DescribeDBInstances''), (''PUT'', ''rds:ModifyDBInstance''), (''DELETE'', ''rds:DeleteDBInstance'')] method resource),
            (act ''start'' ''POST'', Some (''rds:StartDBInstance'', resource)),
            (act ''stop'' ''POST'', Some (''rds:StopDBInstance'', resource)),
            (act ''reboot'' ''POST'', Some (''rds:RebootDBInstance'', resource)),
            (act ''snapshots'' ''POST'', Some (''rds:CreateDBSnapshot'', resource)),
            (act ''tags'' ''GET'', Some (''rds:ListTagsForResource'', resource)),
            (act ''tags'' ''POST'', Some (''rds:AddTagsToResource'', resource)),
            (path = ''/api/rds/subnet-groups'', by_method [(''GET'', ''rds:DescribeDBSubnetGroups''), (''POST'', ''rds:CreateDBSubnetGroup'')] method ''*''),
            (path = ''/api/rds/parameter-groups'', by_method [(''GET'', ''rds:DescribeDBParameterGroups''), (''POST'', ''rds:CreateDBParameterGroup'')] method ''*''),
            (path = ''/api/rds/snapshots'' \<and> method = ''GET'', Some (''rds:DescribeDBSnapshots'', ''*'')),
            (length parts \<ge> 5 \<and> part 2 parts = ''snapshots'' \<and> part 4 parts = ''restore'' \<and> method = ''POST'',
               Some (''rds:RestoreDBInstanceFromDBSnapshot'', iam_rds_snapshot_arn (part 3 parts)))])"

definition route_lambda :: "string \<Rightarrow> string \<Rightarrow> auth option" where
  "route_lambda path method =
     (let parts = path_parts path;
          fn = length parts \<ge> 4 \<and> part 2 parts = ''functions'';
          resource = iam_lambda_function_arn (part 3 parts);
          tail = drop 4 parts
      in if \<not> (startswith path ''/api/lambda/'' \<or> startswith path ''/2015-03-31/functions'') then None
         else first_case
           [(path \<in> {''/api/lambda/functions'', ''/2015-03-31/functions''},
               by_method [(''GET'', ''lambda:ListFunctions''), (''POST'', ''lambda:CreateFunction'')] method ''*''),
            (fn \<and> tail = [], by_method [(''GET'', ''lambda:GetFunction''), (''DELETE'', ''lambda:DeleteFunction'')] method resource),
            (fn \<and> tail = [''code''] \<and> method = ''PUT'', Some (''lambda:UpdateFunctionCode'', resource)),
            (fn \<and> tail = [''configuration''] \<and> method = ''PUT'', Some (''lambda:UpdateFunctionConfiguration'', resource)),
            (fn \<and> tail = [''invoke''] \<and> method = ''POST'', Some (''lambda:InvokeFunction'', resource)),
            (fn \<and> tail = [''versions''], by_method [(''GET'', ''lambda:ListVersionsByFunction''), (''POST'', ''lambda:PublishVersion'')] method resource),
            (fn \<and> tail = [''policy''], by_method [(''GET'', ''lambda:GetPolicy''), (''POST'', ''lambda:AddPermission'')] method resource),
            (fn \<and> length tail = 2 \<and> part 0 tail = ''policy'' \<and> method = ''DELETE'', Some (''lambda:RemovePermission'', resource)),
            (fn \<and> tail = [''invocations''] \<and> method = ''GET'', Some (''lambda:GetFunction'', resource))])"

definition route_sqs :: "string \<Rightarrow> string \<Rightarrow> auth option" where
  "route_sqs path method =
     (let parts = path_parts path;
          q = length parts \<ge> 4 \<and> part 2 parts = ''queues'';
          resource = iam_sqs_queue_arn (part 3 parts);
          tail = drop 4 parts
      in if \<not> (startswith path ''/api/sqs/'' \<or> path = ''/sqs'') then None
         else first_case
           [(path = ''/api/sqs/queues'', by_method [(''GET'', ''sqs:ListQueues''), (''POST'', ''sqs:CreateQueue'')] method ''*''),
            (q \<and> tail = [],
               by_method [(''GET'', ''sqs:GetQueueAttributes''), (''PUT'', ''sqs:SetQueueAttributes''), (''DELETE'', ''sqs:DeleteQueue'')] method resource),
            (q \<and> tail = [''messages''], by_method [(''GET'', ''sqs:ReceiveMessage''), (''POST'', ''sqs:SendMessage'')] method resource),
            (q \<and> length tail = 2 \<and> part 0 tail = ''messages'' \<and> method = ''DELETE'', Some (''sqs:DeleteMessage'', resource)),
            (q \<and> length tail = 3 \<and> part 0 tail = ''messages'' \<and> part 2 tail = ''visibility'' \<and> method = ''POST'',
               Some (''sqs:ChangeMessageVisibility'', resource)),
            (q \<and> tail = [''purge''] \<and> method = ''POST'', Some (''sqs:PurgeQueue'', resource)),
            (q \<and> tail = [''tags''],
               by_method [(''GET'', ''sqs:ListQueueTags''), (''POST'', ''sqs:TagQueue''), (''DELETE'', ''sqs:UntagQueue'')] method resource)])"

definition route_dynamodb :: "string \<Rightarrow> string \<Rightarrow> string \<Rightarrow> auth option" where
  "route_dynamodb path method target =
     (let parts = path_parts path;
          tb = length parts \<ge> 4 \<and> part 2 parts = ''tables'';
          resource = iam_dynamodb_table_arn (part 3 parts);
          tail = drop 4 parts;
          action = (if target = [] then ''Unknown'' else after_last ''.'' target)
      in if \<not> (startswith path ''/api/dynamodb/'' \<or> path = ''/dynamodb'') then None
         else first_case
           [(path = ''/api/dynamodb/tables'', by_method [(''GET'', ''dynamodb:ListTables''), (''POST'', ''dynamodb:CreateTable'')] method ''*''),
            (path \<in> {''/api/dynamodb/aws'', ''/dynamodb''} \<and> method = ''POST'', Some (''dynamodb:'' @ action, ''*'')),
            (tb \<and> tail = [], by_method [(''GET'', ''dynamodb:DescribeTable''), (''DELETE'', ''dynamodb:DeleteTable'')] method resource),
            (tb \<and> tail = [''items''],
               by_method [(''GET'', ''dynamodb:Scan''), (''POST'', ''dynamodb:PutItem''), (''PUT'', ''dynamodb:UpdateItem''),
                          (''DELETE'', ''dynamodb:DeleteItem'')] method resource),
            (tb \<and> tail = [''query''] \<and> method = ''POST'', Some (''dynamodb:Query'', resource)),
            (tb \<and> tail = [''scan''] \<and> method = ''POST'', Some (''dynamodb:Scan'', resource)),
            (tb \<and> tail = [''batch-get''] \<and> method = ''POST'', Some (''dynamodb:BatchGetItem'', resource)),
            (tb \<and> tail = [''batch-write''] \<and> method = ''POST'', Some (''dynamodb:BatchWriteItem'', resource)),
            (tb \<and> tail = [''tags''],
               by_method [(''GET'', ''dynamodb:ListTagsOfResource''), (''POST'', ''dynamodb:TagResource''), (''DELETE'', ''dynamodb:UntagResource'')] method resource)])"

definition route_apigateway :: "string \<Rightarrow> string \<Rightarrow> auth option" where
  "route_apigateway path method =
     (let parts = path_parts path;
          api = length parts \<ge> 4 \<and> part 2 parts = ''apis'';
          resource = iam_apigw_api_arn (part 3 parts);
          tail = drop 4 parts
      in if \<not> startswith path ''/api/apigateway/'' then None
         else first_case
           [(path = ''/api/apigateway/apis'', by_method [(''GET'', ''apigateway:GetRestApis''), (''POST'', ''apigateway:CreateRestApi'')] method ''*''),
            (api \<and> tail = [], by_method [(''GET'', ''apigateway:GetRestApi''), (''DELETE'', ''apigateway:DeleteRestApi'')] method resource),
            (api \<and> tail = [''resources''], by_method [(''GET'', ''apigateway:GetResources''), (''POST'', ''apigateway:CreateResource'')] method resource),
            (api \<and> tail = [''methods''] \<and> method = ''POST'', Some (''apigateway:PutMethod'', resource)),
            (api \<and> tail = [''integrations''] \<and> method = ''POST'', Some (''apigateway:PutIntegration'', resource)),
            (api \<and> tail = [''deployments''], by_method [(''GET'', ''apigateway:GetDeployments''), (''POST'', ''apigateway:CreateDeployment'')] method resource),
            (api \<and> tail = [''stages''], by_method [(''GET'', ''apigateway:GetStages''), (''POST'', ''apigateway:CreateStage'')] method resource),
            (api \<and> tail = [''logs''] \<and> method = ''GET'', Some (''apigateway:GetLogs'', resource)),
            (length parts \<ge> 4 \<and> part 2 parts = ''invoke'',
               Some (''execute-api:Invoke'', iam_apigw_stage_arn (part 3 parts) (str_or (part 4 parts) ''*'')))])"

section \<open>Root-level S3 paths and the whole map\<close>

definition route_bucket :: "string \<Rightarrow> string list \<Rightarrow> string \<Rightarrow> auth" where
  "route_bucket method query resource =
     (let has = (\<lambda>k. k \<in> set query); to = (\<lambda>a. Some (a, resource))
      in case first_case
           [(method = ''GET'' \<and> has ''versions'', to ''s3:ListBucketVersions''),
            (method = ''GET'', to ''s3:ListBucket''),
            (method = ''PUT'' \<and> has ''versioning'', to ''s3:PutBucketVersioning''),
            (method = ''PUT'' \<and> has ''notification'', to ''s3:PutBucketNotificationConfiguration''),
            (method = ''PUT'' \<and> has ''tagging'', to ''s3:PutBucketTagging''),
            (method = ''PUT'' \<and> has ''acl'', to ''s3:PutBucketAcl''),
            (method = ''PUT'' \<and> has ''cors'', to ''s3:PutBucketCors''),
            (method = ''PUT'' \<and> has ''lifecycle'', to ''s3:PutBucketLifecycleConfiguration''),
            (method = ''PUT'' \<and> has ''encryption'', to ''s3:PutBucketEncryption''),
            (method = ''PUT'', to ''s3:CreateBucket''),
            (method = ''HEAD'', to ''s3:HeadBucket''),
            (method = ''DELETE'', to ''s3:DeleteBucket''),
            (method = ''POST'' \<and> has ''delete'', to ''s3:DeleteObjects''),
            (method = ''POST'', to ''s3:CreateMultipartUpload'')] of
           Some r \<Rightarrow> r
         | None \<Rightarrow> None)"

definition route_object :: "string \<Rightarrow> string list \<Rightarrow> string \<Rightarrow> auth" where
  "route_object method query resource =
     (let has = (\<lambda>k. k \<in> set query); to = (\<lambda>a. Some (a, resource))
      in case first_case
           [(method = ''GET'' \<and> has ''tagging'', to ''s3:GetObjectTagging''),
            (method = ''GET'' \<and> has ''acl'', to ''s3:GetObjectAcl''),
            (method = ''GET'', to ''s3:GetObject''),
            (method = ''PUT'' \<and> has ''tagging'', to ''s3:PutObjectTagging''),
            (method = ''PUT'', to ''s3:PutObject''),
            (method = ''DELETE'' \<and> has ''tagging'', to ''s3:DeleteObjectTagging''),
            (method = ''DELETE'', to ''s3:DeleteObject''),
            (method = ''POST'' \<and> has ''uploads'', to ''s3:CreateMultipartUpload''),
            (method = ''POST'' \<and> has ''uploadId'', to ''s3:CompleteMultipartUpload'')] of
           Some r \<Rightarrow> r
         | None \<Rightarrow> None)"

definition route_root :: "string \<Rightarrow> string \<Rightarrow> string list \<Rightarrow> auth" where
  "route_root path method query =
     (let segs = path_parts path in
      if path = ''/'' then Some (''s3:ListAllMyBuckets'', ''*'')
      else if path \<in> {''/ui'', ''/product'', ''/api'', ''/healthz''} \<or> startswith path ''/api/'' then None
      else case segs of
             [] \<Rightarrow> None
           | [bucket] \<Rightarrow> route_bucket method query (iam_s3_bucket_arn bucket)
           | bucket # keys \<Rightarrow> route_object method query (iam_s3_object_arn bucket (join ''/'' keys)))"

fun first_some :: "'a option list \<Rightarrow> 'a option" where
  "first_some [] = None"
| "first_some (None # xs) = first_some xs"
| "first_some (Some x # xs) = Some x"

definition iam_route_action_resource :: "http_req \<Rightarrow> auth" where
  "iam_route_action_resource rq =
     (let path = hq_path rq; method = upper (hq_method rq)
      in case first_some
           [route_open path, route_spaces path method, route_cloudsim path method, route_federations path method,
            route_iam path method, route_api_s3 path method, route_ec2_instances path method,
            route_gcp_compute path method, route_ec2 path method, route_vpc path method, route_rds path method,
            route_lambda path method, route_sqs path method, route_dynamodb path method (hq_target rq),
            route_apigateway path method] of
           Some r \<Rightarrow> r
         | None \<Rightarrow> route_root path method (hq_query rq))"

section \<open>Properties\<close>

text \<open> A path that begins like a page of the console is never authorised: any bucket or object
  path under a bucket named \<open>ui...\<close>, \<open>product...\<close> or \<open>console...\<close> has no action, so no policy is asked.\<close>

theorem page_prefix_unauthorised:
  assumes "p \<in> {''/ui'', ''/product'', ''/console''}"
  shows "iam_route_action_resource \<lparr>hq_path = p @ rest, hq_method = m, hq_query = q, hq_target = t\<rparr> = None"
  using assms
  by (auto simp: iam_route_action_resource_def route_open_def startswith_any_def open_prefixes_def)

theorem page_prefix_unauthorised_witness:
  "iam_route_action_resource \<lparr>hq_path = ''/product'' @ ''-invoices/2026.csv'', hq_method = ''DELETE'', hq_query = [], hq_target = []\<rparr> = None
   \<and> iam_route_action_resource \<lparr>hq_path = ''/prod-invoices/2026.csv'', hq_method = ''DELETE'', hq_query = [], hq_target = []\<rparr>
     = Some (''s3:DeleteObject'', ''arn:aws:s3:::prod-invoices/2026.csv'')"
proof -
  have "iam_route_action_resource \<lparr>hq_path = ''/prod-invoices/2026.csv'', hq_method = ''DELETE'', hq_query = [], hq_target = []\<rparr>
     = Some (''s3:DeleteObject'', ''arn:aws:s3:::prod-invoices/2026.csv'')" by code_simp
  then show ?thesis using page_prefix_unauthorised [of "''/product''"] by blast
qed

lemma split_char_word: "c \<notin> set s \<Longrightarrow> split_char c (s @ c # t) = s # split_char c t"
  by (induction s) auto

lemma lambda_sdk_parts:
  assumes "CHR ''/'' \<notin> set f" and "f \<noteq> []"
  shows "path_parts (''/2015-03-31/functions/'' @ f) = [''2015-03-31'', ''functions'', f]"
    and "path_parts (''/2015-03-31/functions/'' @ f @ ''/invocations'') = [''2015-03-31'', ''functions'', f, ''invocations'']"
  using assms split_char_word [of "CHR ''/''" f "''invocations''"]
  by (simp_all add: path_parts_def split_char_absent)

lemmas route_defs =
  route_open_def route_spaces_def route_cloudsim_def route_federations_def route_iam_def route_api_s3_def
  route_ec2_instances_def route_gcp_compute_def route_ec2_def route_vpc_def route_rds_def route_lambda_def
  route_sqs_def route_dynamodb_def route_apigateway_def

text \<open> The SDK path of Lambda is authorised as S3: deleting a function asks for
  \<open>s3:DeleteObject\<close>, and invoking one asks for nothing.\<close>

theorem lambda_sdk_misrouted:
  assumes "CHR ''/'' \<notin> set f" and "f \<noteq> []" and "f \<noteq> ''functions''"
  shows "iam_route_action_resource \<lparr>hq_path = ''/2015-03-31/functions/'' @ f, hq_method = ''DELETE'', hq_query = [], hq_target = t\<rparr>
       = Some (''s3:DeleteObject'', ''arn:aws:s3:::2015-03-31/functions/'' @ f) \<and>
     iam_route_action_resource \<lparr>hq_path = ''/2015-03-31/functions/'' @ f @ ''/invocations'', hq_method = ''POST'', hq_query = [], hq_target = t\<rparr>
       = None"
proof -
  have up: "upper ''DELETE'' = ''DELETE''" "upper ''POST'' = ''POST''" by code_simp+
  show ?thesis
    using assms lambda_sdk_parts [OF assms(1,2)]
    by (simp add: iam_route_action_resource_def Let_def up route_defs startswith_any_def open_prefixes_def
        open_api_prefixes_def part_def route_root_def route_object_def iam_s3_object_arn_def)
qed

theorem lambda_sdk_misrouted_witness:
  "iam_route_action_resource \<lparr>hq_path = ''/2015-03-31/functions/'' @ ''pay'' @ ''/invocations'', hq_method = ''POST'', hq_query = [], hq_target = []\<rparr> = None"
proof -
  have "CHR ''/'' \<notin> set ''pay''" "''pay'' \<noteq> []" "''pay'' \<noteq> ''functions''" by simp_all
  from lambda_sdk_misrouted [OF this] show ?thesis by blast
qed

end
