(* ===== verification/Aws_Iam.thy ===== *)
theory Aws_Iam
imports Iam_Routes
begin

text \<open>AWS IAM: the policy decision of \<open>server.py\<close> (\<open>_iam_authorize\<close> and what it calls), the
  management handlers of \<open>providers/aws_iam.py\<close>, and the check the middleware makes of a request.
  Users, groups, roles and policies are records with the fields the handlers create; an id generator's
  answer is an argument of the handler that draws it.\<close>

section \<open>State\<close>

record iam_user =
  u_id :: string
  u_name :: string
  u_path :: string
  u_created :: string
  u_policies :: "string list"
  u_groups :: "string list"

record iam_group =
  g_id :: string
  g_name :: string
  g_path :: string
  g_created :: string
  g_members :: "string list"
  g_policies :: "string list"

record iam_role =
  r_id :: string
  r_name :: string
  r_path :: string
  r_assume :: pyval
  r_description :: string
  r_created :: string
  r_policies :: "string list"

record iam_policy =
  p_id :: string
  p_name :: string
  p_document :: "pyval dict"
  p_created :: string

record iam_attachment =
  at_type :: string
  at_target :: string
  at_policy :: string
  at_time :: string

record iam_st =
  i_users :: "iam_user dict"
  i_groups :: "iam_group dict"
  i_roles :: "iam_role dict"
  i_policies :: "iam_policy dict"
  i_attachments :: "iam_attachment list"
  i_providers :: "(pyval dict) dict"
  i_settings :: "pyval dict"

section \<open>Matching\<close>

fun iam_value_matches :: "pyval \<Rightarrow> string \<Rightarrow> bool" where
  "iam_value_matches (PList items) v = list_ex (\<lambda>p. iam_value_matches p v) items"
| "iam_value_matches PNone v = False"
| "iam_value_matches p v =
     (let pat = strip (py_str p) in if pat = [] then False else fnmatchcase (lower v) (lower pat))"

definition condition_operand :: "string \<Rightarrow> pyval \<Rightarrow> string \<Rightarrow> bool" where
  "condition_operand operator expected actual =
     (let op = lower operator in
      if op \<in> {''stringequals'', ''arnequals''} then
        (case expected of PList xs \<Rightarrow> actual \<in> set (map py_str xs) | _ \<Rightarrow> actual = py_str expected)
      else if op \<in> {''stringlike'', ''arnlike''} then iam_value_matches expected actual
      else False)"

definition iam_condition_matches :: "pyval dict \<Rightarrow> string dict \<Rightarrow> bool" where
  "iam_condition_matches condition ctx =
     list_all (\<lambda>(operator, operands).
       case operands of
         PDict d \<Rightarrow> list_all (\<lambda>(k, expected). condition_operand operator expected (dget ctx k [])) d
       | _ \<Rightarrow> False) condition"

definition stmt_effect :: "pyval dict \<Rightarrow> string \<Rightarrow> string" where
  "stmt_effect st dflt = lower (strip (py_str (dget st ''Effect'' (PStr dflt))))"

definition iam_statement_matches :: "pyval \<Rightarrow> string \<Rightarrow> string \<Rightarrow> string dict \<Rightarrow> bool result" where
  "iam_statement_matches statement action resource ctx =
     (case statement of
        PDict st \<Rightarrow>
          if stmt_effect st ''Allow'' \<notin> {''allow'', ''deny''} then Inr False
          else if (if dhas st ''Action'' then \<not> iam_value_matches (pget st ''Action'') action
                   else if dhas st ''NotAction'' then iam_value_matches (pget st ''NotAction'') action
                   else True) then Inr False
          else if (if dhas st ''Resource'' then \<not> iam_value_matches (pget st ''Resource'') resource
                   else if dhas st ''NotResource'' then iam_value_matches (pget st ''NotResource'') resource
                   else False) then Inr False
          else (case py_or (pget st ''Condition'') (PDict []) of
                  PDict cond \<Rightarrow> Inr (iam_condition_matches cond ctx)
                | _ \<Rightarrow> Inl (AttributeError ''items''))
      | _ \<Rightarrow> Inr False)"

section \<open>Identities\<close>

definition iam_is_root_principal :: "string \<Rightarrow> bool" where
  "iam_is_root_principal princ \<longleftrightarrow> lower (strip princ) \<in> {''root'', ''admin'', lower iam_root_principal}"

definition iam_principal_from_request :: "string dict \<Rightarrow> string" where
  "iam_principal_from_request headers =
     (let h = (\<lambda>k. dget headers k []) in
      str_or (strip (str_or (h ''x-cloudlearn-principal'') (str_or (h ''x-cloudlearn-user'')
               (str_or (h ''x-cloudlearn-role'') (h ''x-principal''))))) iam_root_principal)"

record identity =
  id_principal :: string
  id_type :: string
  id_name :: string
  id_arn :: string
  id_policy_ids :: "string list"
  id_policies :: "iam_policy list"
  id_is_root :: bool

definition user_keys :: "iam_user \<Rightarrow> string list" where
  "user_keys u = [u_id u, u_name u, iam_user_arn (u_name u)]"

definition group_keys :: "iam_group \<Rightarrow> string list" where
  "group_keys g = [g_id g, g_name g, iam_group_arn (g_name g)]"

definition role_keys :: "iam_role \<Rightarrow> string list" where
  "role_keys r = [r_id r, r_name r, iam_role_arn (r_name r)]"

definition find_policies :: "iam_st \<Rightarrow> string list \<Rightarrow> iam_policy list" where
  "find_policies st ids = List.map_filter (map_of (i_policies st)) ids"

definition user_policy_ids :: "iam_st \<Rightarrow> iam_user \<Rightarrow> string list" where
  "user_policy_ids st u =
     dict_fromkeys (u_policies u @
       concat (map g_policies (filter (\<lambda>g. \<exists>k \<in> set (group_keys g). k \<in> set (u_groups u)) (dvals (i_groups st)))))"

definition iam_resolve_identity :: "iam_st \<Rightarrow> string \<Rightarrow> identity" where
  "iam_resolve_identity st princ0 =
     (let princ = str_or (strip princ0) iam_root_principal in
      if iam_is_root_principal princ then
        \<lparr>id_principal = princ, id_type = ''root'', id_name = ''root'', id_arn = iam_root_principal,
         id_policy_ids = [], id_policies = [], id_is_root = True\<rparr>
      else case find (\<lambda>u. princ \<in> set (user_keys u)) (dvals (i_users st)) of
        Some u \<Rightarrow>
          (let ids = user_policy_ids st u in
           \<lparr>id_principal = princ, id_type = ''user'', id_name = u_name u, id_arn = iam_user_arn (u_name u),
            id_policy_ids = ids, id_policies = find_policies st ids, id_is_root = False\<rparr>)
      | None \<Rightarrow>
          (case find (\<lambda>r. princ \<in> set (role_keys r)) (dvals (i_roles st)) of
             Some r \<Rightarrow>
               \<lparr>id_principal = princ, id_type = ''role'', id_name = r_name r, id_arn = iam_role_arn (r_name r),
                id_policy_ids = r_policies r, id_policies = find_policies st (r_policies r), id_is_root = False\<rparr>
           | None \<Rightarrow>
               \<lparr>id_principal = princ, id_type = ''unknown'', id_name = princ, id_arn = princ,
                id_policy_ids = [], id_policies = [], id_is_root = False\<rparr>))"

section \<open>The decision\<close>

text \<open>Iterating over a policy's statements: a list's items, a dictionary's keys, a text's characters.\<close>

definition iter_items :: "pyval \<Rightarrow> pyval list result" where
  "iter_items v =
     (case v of
        PList xs \<Rightarrow> Inr xs
      | PDict d \<Rightarrow> Inr (map (\<lambda>(k, _). PStr k) d)
      | PStr s \<Rightarrow> Inr (map (\<lambda>c. PStr [c]) s)
      | _ \<Rightarrow> Inl (TypeError ''object is not iterable''))"

definition deny_msg :: "string \<Rightarrow> string \<Rightarrow> string" where
  "deny_msg action resource = ''AccessDenied: explicit deny for '' @ action @ '' on '' @ resource @ ''.''"

fun auth_statements :: "pyval list \<Rightarrow> string \<Rightarrow> string \<Rightarrow> string dict \<Rightarrow> (bool \<times> string) option result" where
  "auth_statements [] action resource ctx = Inr None"
| "auth_statements (s # ss) action resource ctx =
     rbind (iam_statement_matches s action resource ctx) (\<lambda>m.
       if \<not> m then auth_statements ss action resource ctx
       else (let e = stmt_effect (dict_or_empty s) [] in
             if e = ''deny'' then Inr (Some (False, deny_msg action resource))
             else if e = ''allow'' then Inr (Some (True, []))
             else auth_statements ss action resource ctx))"

fun auth_policies :: "iam_policy list \<Rightarrow> string \<Rightarrow> string \<Rightarrow> string dict \<Rightarrow> (bool \<times> string) option result" where
  "auth_policies [] action resource ctx = Inr None"
| "auth_policies (p # ps) action resource ctx =
     rbind (iter_items (dget (p_document p) ''Statement'' (PList []))) (\<lambda>ss.
     rbind (auth_statements ss action resource ctx) (\<lambda>d.
       case d of Some v \<Rightarrow> Inr (Some v) | None \<Rightarrow> auth_policies ps action resource ctx))"

definition base_context :: "identity \<Rightarrow> string \<Rightarrow> string dict" where
  "base_context i resource =
     [(''aws:PrincipalArn'', id_arn i), (''aws:PrincipalType'', id_type i), (''aws:username'', id_name i),
      (''aws:RequestedRegion'', ''us-east-1''), (''aws:ResourceArn'', resource)]"

definition iam_authorize ::
  "iam_st \<Rightarrow> string \<Rightarrow> string \<Rightarrow> string \<Rightarrow> string dict \<Rightarrow> (bool \<times> string) result" where
  "iam_authorize st princ action resource context =
     (let i = iam_resolve_identity st princ in
      if id_is_root i then Inr (True, [])
      else
        let ctx = fold (\<lambda>(k, v). dset k v) context (base_context i resource);
            quoted = [CHR 0x27] @ princ @ [CHR 0x27]
        in if id_policies i = [] then
             Inr (False, ''AccessDenied: principal '' @ quoted @ '' has no attached policies for '' @ action @ ''.'')
           else
             rbind (auth_policies (id_policies i) action resource ctx) (\<lambda>d.
               case d of
                 Some v \<Rightarrow> Inr v
               | None \<Rightarrow> Inr (False, ''AccessDenied: principal '' @ quoted @ '' is not authorized for '' @ action
                                @ '' on '' @ resource @ ''.'')))"

text \<open>The middleware's use: \<^theory_text>\<open>None\<close> lets the request through, \<^theory_text>\<open>Some\<close> carries the denial; \<open>native\<close> says
  whether the path is one of the other clouds' (they have their own check).\<close>

definition iam_gate ::
  "iam_st \<Rightarrow> (string \<Rightarrow> bool) \<Rightarrow> string dict \<Rightarrow> http_req \<Rightarrow> (string \<times> string \<times> string) option result" where
  "iam_gate st native headers rq =
     (let princ = iam_principal_from_request headers;
          i = iam_resolve_identity st princ
      in case iam_route_action_resource rq of
           None \<Rightarrow> Inr None
         | Some (action, resource) \<Rightarrow>
             if id_is_root i \<or> native (hq_path rq) then Inr None
             else
               rbind (iam_authorize st princ action resource
                 [(''aws:PrincipalArn'', id_arn i), (''aws:PrincipalType'', id_type i),
                  (''aws:username'', id_name i), (''aws:RequestedRegion'', ''us-east-1'')]) (\<lambda>(allowed, reason).
               Inr (if allowed then None else Some (action, resource, reason))))"

section \<open>Management\<close>

text \<open>The key of the record a name, an id or an ARN stands for.\<close>

definition find_user :: "iam_st \<Rightarrow> string \<Rightarrow> (string \<times> iam_user) option" where
  "find_user st k0 =
     (let k = strip k0 in if k = [] then None else find (\<lambda>(_, u). k \<in> set (user_keys u)) (i_users st))"

definition find_group :: "iam_st \<Rightarrow> string \<Rightarrow> (string \<times> iam_group) option" where
  "find_group st k0 =
     (let k = strip k0 in if k = [] then None else find (\<lambda>(_, g). k \<in> set (group_keys g)) (i_groups st))"

definition find_role :: "iam_st \<Rightarrow> string \<Rightarrow> (string \<times> iam_role) option" where
  "find_role st k =
     (case map_of (i_roles st) k of
        Some r \<Rightarrow> Some (k, r)
      | None \<Rightarrow> find (\<lambda>(_, r). k \<in> set (role_keys r)) (i_roles st))"

text \<open>\<open>users.get(k) or _iam_find_user(k)\<close>.\<close>

definition lookup_user :: "iam_st \<Rightarrow> string \<Rightarrow> (string \<times> iam_user) option" where
  "lookup_user st k = (case map_of (i_users st) k of Some u \<Rightarrow> Some (k, u) | None \<Rightarrow> find_user st k)"

definition lookup_group :: "iam_st \<Rightarrow> string \<Rightarrow> (string \<times> iam_group) option" where
  "lookup_group st k = (case map_of (i_groups st) k of Some g \<Rightarrow> Some (k, g) | None \<Rightarrow> find_group st k)"

definition iam_target_keys :: "string \<Rightarrow> string \<Rightarrow> string list" where
  "iam_target_keys ty i =
     (if ty = ''user'' then [i, i, iam_user_arn i]
      else if ty = ''group'' then [i, i, iam_group_arn i]
      else if ty = ''role'' then [i, i, iam_role_arn i]
      else [[], []])"

definition attachment_matches :: "string \<Rightarrow> string \<Rightarrow> string \<Rightarrow> iam_attachment \<Rightarrow> bool" where
  "attachment_matches ty i pid a \<longleftrightarrow>
     at_type a = ty \<and> (at_target a = i \<or> at_target a \<in> set (iam_target_keys ty i)) \<and>
     (pid = [] \<or> at_policy a = pid)"

definition strip_policy :: "string \<Rightarrow> string \<Rightarrow> string \<Rightarrow> iam_st \<Rightarrow> iam_st" where
  "strip_policy ty i pid st =
     (if ty = ''user'' then
        (case find_user st i of
           None \<Rightarrow> st
         | Some (k, _) \<Rightarrow> st\<lparr>i_users := dmap_at k (u_policies_update (filter (\<lambda>p. p \<noteq> pid))) (i_users st)\<rparr>)
      else if ty = ''group'' then
        (case find_group st i of
           None \<Rightarrow> st
         | Some (k, _) \<Rightarrow> st\<lparr>i_groups := dmap_at k (g_policies_update (filter (\<lambda>p. p \<noteq> pid))) (i_groups st)\<rparr>)
      else if ty = ''role'' then
        (case find_role st i of
           None \<Rightarrow> st
         | Some (k, _) \<Rightarrow> st\<lparr>i_roles := dmap_at k (r_policies_update (filter (\<lambda>p. p \<noteq> pid))) (i_roles st)\<rparr>)
      else st)"

definition iam_detach_policy_records :: "string \<Rightarrow> string \<Rightarrow> string \<Rightarrow> iam_st \<Rightarrow> iam_st \<times> nat" where
  "iam_detach_policy_records ty0 i0 pid st =
     (let ty = lower (strip ty0); i = strip i0 in
      if ty = [] \<or> i = [] then (st, 0)
      else
        let hit = filter (attachment_matches ty i pid) (i_attachments st);
            st' = fold (\<lambda>a. strip_policy ty i (at_policy a)) hit st
        in (st'\<lparr>i_attachments := filter (\<lambda>a. \<not> attachment_matches ty i pid a) (i_attachments st)\<rparr>, length hit))"

definition dict_map :: "('v \<Rightarrow> 'v) \<Rightarrow> 'v dict \<Rightarrow> 'v dict" where
  "dict_map f d = map (\<lambda>(k, v). (k, f v)) d"

definition iam_remove_policy_from_all_principals :: "string \<Rightarrow> iam_st \<Rightarrow> iam_st" where
  "iam_remove_policy_from_all_principals pid st =
     st\<lparr>i_users := dict_map (u_policies_update (filter (\<lambda>p. p \<noteq> pid))) (i_users st),
        i_groups := dict_map (g_policies_update (filter (\<lambda>p. p \<noteq> pid))) (i_groups st),
        i_roles := dict_map (r_policies_update (filter (\<lambda>p. p \<noteq> pid))) (i_roles st),
        i_attachments := filter (\<lambda>a. at_policy a \<noteq> pid) (i_attachments st)\<rparr>"

definition missing :: "string \<Rightarrow> py_exc" where
  "missing f = HTTPException 400 (PStr (''MissingParameter: '' @ f))"

definition target_not_found :: py_exc where
  "target_not_found = HTTPException 404 (PStr ''TargetNotFound'')"

definition no_such_policy :: py_exc where
  "no_such_policy = HTTPException 404 (PStr ''NoSuchPolicy'')"

definition api_iam_create_user :: "string \<Rightarrow> string \<Rightarrow> string \<Rightarrow> string \<Rightarrow> iam_st \<Rightarrow> iam_st \<times> iam_user result" where
  "api_iam_create_user nid now name path st =
     (if strip name = [] then (st, Inl (missing ''user_name is required.''))
      else let u = \<lparr>u_id = nid, u_name = name, u_path = path, u_created = now, u_policies = [], u_groups = []\<rparr>
           in (st\<lparr>i_users := dset nid u (i_users st)\<rparr>, Inr u))"

definition api_iam_delete_user :: "string \<Rightarrow> iam_st \<Rightarrow> iam_st \<times> unit result" where
  "api_iam_delete_user k st =
     (case lookup_user st k of
        None \<Rightarrow> (st, Inl target_not_found)
      | Some (_, u) \<Rightarrow>
          let st1 = st\<lparr>i_groups := dict_map (g_members_update (filter (\<lambda>m. m \<noteq> u_id u))) (i_groups st)\<rparr>;
              st2 = fst (iam_detach_policy_records ''user'' (u_id u) [] st1)
          in (st2\<lparr>i_users := dpop (u_id u) (i_users st2)\<rparr>, Inr ()))"

definition api_iam_create_group :: "string \<Rightarrow> string \<Rightarrow> string \<Rightarrow> string \<Rightarrow> iam_st \<Rightarrow> iam_st \<times> iam_group result" where
  "api_iam_create_group nid now name path st =
     (if strip name = [] then (st, Inl (missing ''group_name is required.''))
      else let g = \<lparr>g_id = nid, g_name = name, g_path = path, g_created = now, g_members = [], g_policies = []\<rparr>
           in (st\<lparr>i_groups := dset nid g (i_groups st)\<rparr>, Inr g))"

definition api_iam_delete_group :: "string \<Rightarrow> iam_st \<Rightarrow> iam_st \<times> unit result" where
  "api_iam_delete_group k st =
     (case lookup_group st k of
        None \<Rightarrow> (st, Inl target_not_found)
      | Some (_, g) \<Rightarrow>
          let st1 = st\<lparr>i_users := dict_map (u_groups_update (filter (\<lambda>x. x \<noteq> g_id g))) (i_users st)\<rparr>;
              st2 = fst (iam_detach_policy_records ''group'' (g_id g) [] st1)
          in (st2\<lparr>i_groups := dpop (g_id g) (i_groups st2)\<rparr>, Inr ()))"

definition add_once :: "'a \<Rightarrow> 'a list \<Rightarrow> 'a list" where
  "add_once x xs = (if x \<in> set xs then xs else xs @ [x])"

definition api_iam_add_user_to_group :: "string \<Rightarrow> string \<Rightarrow> iam_st \<Rightarrow> iam_st \<times> unit result" where
  "api_iam_add_user_to_group gk uk st =
     (case lookup_group st gk of
        None \<Rightarrow> (st, Inl target_not_found)
      | Some (kg, g) \<Rightarrow>
          (case find_user st uk of
             None \<Rightarrow> (st, Inl target_not_found)
           | Some (ku, u) \<Rightarrow>
               (st\<lparr>i_groups := dmap_at kg (g_members_update (add_once (u_id u))) (i_groups st),
                   i_users := dmap_at ku (u_groups_update (add_once (g_id g))) (i_users st)\<rparr>, Inr ())))"

definition api_iam_remove_user_from_group :: "string \<Rightarrow> string \<Rightarrow> iam_st \<Rightarrow> iam_st \<times> unit result" where
  "api_iam_remove_user_from_group gk uk st =
     (case lookup_group st gk of
        None \<Rightarrow> (st, Inl target_not_found)
      | Some (kg, g) \<Rightarrow>
          (case find_user st uk of
             None \<Rightarrow> (st, Inl target_not_found)
           | Some (ku, u) \<Rightarrow>
               (st\<lparr>i_groups := dmap_at kg (g_members_update (filter (\<lambda>m. m \<noteq> u_id u))) (i_groups st),
                   i_users := dmap_at ku (u_groups_update (filter (\<lambda>x. x \<noteq> g_id g))) (i_users st)\<rparr>, Inr ())))"

definition api_iam_create_role ::
  "string \<Rightarrow> string \<Rightarrow> string \<Rightarrow> string \<Rightarrow> pyval \<Rightarrow> string \<Rightarrow> iam_st \<Rightarrow> iam_st \<times> iam_role result" where
  "api_iam_create_role nid now name path assume_doc descr st =
     (if strip name = [] then (st, Inl (missing ''role_name is required.''))
      else let r = \<lparr>r_id = nid, r_name = name, r_path = path, r_assume = assume_doc, r_description = descr,
                    r_created = now, r_policies = []\<rparr>
           in (st\<lparr>i_roles := dset nid r (i_roles st)\<rparr>, Inr r))"

definition api_iam_delete_role :: "string \<Rightarrow> iam_st \<Rightarrow> iam_st \<times> unit result" where
  "api_iam_delete_role k st =
     (case find_role st k of
        None \<Rightarrow> (st, Inl target_not_found)
      | Some (_, r) \<Rightarrow>
          let st2 = fst (iam_detach_policy_records ''role'' (r_id r) [] st)
          in (st2\<lparr>i_roles := dpop (r_id r) (i_roles st2)\<rparr>, Inr ()))"

definition api_iam_create_policy ::
  "string \<Rightarrow> string \<Rightarrow> string \<Rightarrow> pyval dict \<Rightarrow> iam_st \<Rightarrow> iam_st \<times> iam_policy result" where
  "api_iam_create_policy nid now name doc st =
     (if strip name = [] then (st, Inl (missing ''policy_name is required.''))
      else let p = \<lparr>p_id = nid, p_name = name, p_document = doc, p_created = now\<rparr>
           in (st\<lparr>i_policies := dset nid p (i_policies st)\<rparr>, Inr p))"

definition api_iam_delete_policy :: "string \<Rightarrow> iam_st \<Rightarrow> iam_st \<times> unit result" where
  "api_iam_delete_policy pid st =
     (if \<not> dhas (i_policies st) pid then (st, Inl no_such_policy)
      else
        let st1 = iam_remove_policy_from_all_principals pid st
        in (st1\<lparr>i_policies := dpop pid (i_policies st1),
                i_attachments := filter (\<lambda>a. at_policy a \<noteq> pid) (i_attachments st1)\<rparr>, Inr ()))"

text \<open>A role is attached by key, name or ARN; \<open>target_id\<close> is recorded as it was given.\<close>

definition find_role_by_name :: "iam_st \<Rightarrow> string \<Rightarrow> (string \<times> iam_role) option" where
  "find_role_by_name st k =
     (case map_of (i_roles st) k of
        Some r \<Rightarrow> Some (k, r)
      | None \<Rightarrow> find (\<lambda>(_, r). k \<in> {r_name r, iam_role_arn (r_name r)}) (i_roles st))"

definition api_iam_attach_policy :: "string \<Rightarrow> string \<Rightarrow> string \<Rightarrow> string \<Rightarrow> iam_st \<Rightarrow> iam_st \<times> unit result" where
  "api_iam_attach_policy now ty i pid st =
     (if \<not> dhas (i_policies st) pid then (st, Inl no_such_policy)
      else
        let st' =
              (if ty = ''user'' then
                 map_option (\<lambda>(k, _). st\<lparr>i_users := dmap_at k (u_policies_update (\<lambda>ps. ps @ [pid])) (i_users st)\<rparr>) (lookup_user st i)
               else if ty = ''group'' then
                 map_option (\<lambda>(k, _). st\<lparr>i_groups := dmap_at k (g_policies_update (\<lambda>ps. ps @ [pid])) (i_groups st)\<rparr>) (lookup_group st i)
               else
                 map_option (\<lambda>(k, _). st\<lparr>i_roles := dmap_at k (r_policies_update (\<lambda>ps. ps @ [pid])) (i_roles st)\<rparr>) (find_role_by_name st i));
            a = \<lparr>at_type = ty, at_target = i, at_policy = pid, at_time = now\<rparr>
        in case st' of
             None \<Rightarrow> (st, Inl target_not_found)
           | Some s \<Rightarrow> (s\<lparr>i_attachments := i_attachments s @ [a]\<rparr>, Inr ()))"

definition api_iam_detach_policy :: "string \<Rightarrow> string \<Rightarrow> string \<Rightarrow> iam_st \<Rightarrow> iam_st \<times> unit result" where
  "api_iam_detach_policy ty0 i0 pid0 st =
     (let ty = lower (strip (str_or ty0 ''user'')); i = strip i0; pid = strip pid0 in
      if i = [] \<or> pid = [] then (st, Inl (missing ''target_id and policy_id are required.''))
      else let (st', n) = iam_detach_policy_records ty i pid st
           in (st', if n = 0 then Inl target_not_found else Inr ()))"

definition api_iam_create_identity_provider ::
  "string \<Rightarrow> string \<Rightarrow> string \<Rightarrow> pyval \<Rightarrow> pyval \<Rightarrow> pyval \<Rightarrow> iam_st \<Rightarrow> iam_st \<times> (pyval dict) result" where
  "api_iam_create_identity_provider nid now name ty url tags st =
     (if strip name = [] then (st, Inl (missing ''provider_name is required.''))
      else let p = [(''provider_id'', PStr nid), (''provider_name'', PStr name), (''provider_type'', ty), (''url'', url),
                    (''created'', PStr now), (''tags'', py_or tags (PList []))]
           in (st\<lparr>i_providers := dset nid p (i_providers st)\<rparr>, Inr p))"

definition api_iam_delete_identity_provider :: "string \<Rightarrow> iam_st \<Rightarrow> iam_st \<times> (pyval dict) result" where
  "api_iam_delete_identity_provider k st =
     (case map_of (i_providers st) k of
        None \<Rightarrow> (st, Inl target_not_found)
      | Some p \<Rightarrow> (st\<lparr>i_providers := dpop k (i_providers st)\<rparr>, Inr p))"

definition api_iam_update_account_settings :: "pyval \<Rightarrow> iam_st \<Rightarrow> iam_st" where
  "api_iam_update_account_settings pw st =
     (if truthy pw then st\<lparr>i_settings := dset ''password_policy'' pw (i_settings st)\<rparr> else st)"

section \<open>How a decision is made\<close>

definition decisive :: "string \<Rightarrow> string \<Rightarrow> string dict \<Rightarrow> pyval \<Rightarrow> bool" where
  "decisive action resource ctx s \<longleftrightarrow>
     iam_statement_matches s action resource ctx = Inr True \<and>
     stmt_effect (dict_or_empty s) [] \<in> {''allow'', ''deny''}"

definition stmt_ok :: "pyval \<Rightarrow> bool" where
  "stmt_ok s = (case s of PDict st \<Rightarrow> is_dict (py_or (pget st ''Condition'') (PDict [])) | _ \<Rightarrow> True)"

definition policy_statements :: "iam_policy \<Rightarrow> pyval list" where
  "policy_statements p = list_items (dget (p_document p) ''Statement'' (PList []))"

definition policy_ok :: "iam_policy \<Rightarrow> bool" where
  "policy_ok p \<longleftrightarrow> is_list (dget (p_document p) ''Statement'' (PList [])) \<and> list_all stmt_ok (policy_statements p)"

lemma statement_matches_total: "stmt_ok s \<Longrightarrow> \<exists>b. iam_statement_matches s action resource ctx = Inr b"
proof (cases s)
  case (PDict st)
  moreover assume "stmt_ok s"
  ultimately obtain c where "py_or (pget st ''Condition'') (PDict []) = PDict c"
    by (cases "py_or (pget st ''Condition'') (PDict [])") (simp_all add: stmt_ok_def is_dict_def)
  then show ?thesis by (simp add: PDict iam_statement_matches_def ex_bool_eq)
qed (simp_all add: iam_statement_matches_def ex_bool_eq)

lemma auth_statements_find:
  "list_all stmt_ok ss \<Longrightarrow> auth_statements ss action resource ctx =
     Inr (map_option (\<lambda>s. if stmt_effect (dict_or_empty s) [] = ''deny'' then (False, deny_msg action resource) else (True, []))
            (find (decisive action resource ctx) ss))"
proof (induction ss)
  case (Cons s ss)
  then obtain b where "iam_statement_matches s action resource ctx = Inr b"
    using statement_matches_total by fastforce
  then show ?case using Cons by (auto simp: decisive_def Let_def)
qed simp

lemma find_append: "find P (xs @ ys) = (case find P xs of None \<Rightarrow> find P ys | Some x \<Rightarrow> Some x)"
  by (induction xs) auto

lemma auth_policies_find:
  "list_all policy_ok ps \<Longrightarrow> auth_policies ps action resource ctx =
     Inr (map_option (\<lambda>s. if stmt_effect (dict_or_empty s) [] = ''deny'' then (False, deny_msg action resource) else (True, []))
            (find (decisive action resource ctx) (concat (map policy_statements ps))))"
proof (induction ps)
  case (Cons p ps)
  then have "iter_items (dget (p_document p) ''Statement'' (PList [])) = Inr (policy_statements p)"
    by (cases "dget (p_document p) ''Statement'' (PList [])")
      (simp_all add: policy_ok_def iter_items_def policy_statements_def is_list_def list_items_def)
  then show ?case using Cons auth_statements_find [of "policy_statements p"]
    by (auto simp: policy_ok_def find_append split: option.split)
qed simp

text \<open> The decision for a principal other than the root is the first statement of its policies, in
  attachment order, that matches the action, the resource and the context and has an effect: allowed
  when it allows, denied when it denies or there is none.\<close>

theorem iam_authorize_first_match:
  assumes "i = iam_resolve_identity st pr" and "\<not> id_is_root i" and "list_all policy_ok (id_policies i)"
    and "ctx = fold (\<lambda>(k, v). dset k v) context (base_context i resource)"
  shows "\<exists>msg. iam_authorize st pr action resource context =
    Inr (case find (decisive action resource ctx) (concat (map policy_statements (id_policies i))) of
           None \<Rightarrow> False
         | Some s \<Rightarrow> stmt_effect (dict_or_empty s) [] = ''allow'', msg)"
proof -
  have "stmt_effect (dict_or_empty s) [] \<noteq> ''deny'' \<longleftrightarrow> stmt_effect (dict_or_empty s) [] = ''allow''"
    if "find (decisive action resource ctx) ss = Some s" for s ss
    using that by (auto simp: find_Some_iff decisive_def)
  then show ?thesis
    using assms auth_policies_find [OF assms(3)]
    by (auto simp: iam_authorize_def Let_def split: option.split)
qed

lemma auth_policies_append:
  "auth_policies ps action resource ctx = Inr (Some v) \<Longrightarrow> auth_policies (ps @ qs) action resource ctx = Inr (Some v)"
  by (induction ps) (auto simp: rbind_Inr split: option.splits)

text \<open> An explicit deny does not override: once an earlier policy allows, every policy that comes
  later in the list, one that denies everything included, changes nothing.\<close>

theorem iam_later_deny_ignored:
  assumes "iam_authorize st pr action resource context = Inr (True, m)"
    and "\<not> id_is_root (iam_resolve_identity st pr)"
    and "iam_resolve_identity st' pr = (iam_resolve_identity st pr)
           \<lparr>id_policy_ids := ids, id_policies := id_policies (iam_resolve_identity st pr) @ qs\<rparr>"
  shows "iam_authorize st' pr action resource context = Inr (True, m)"
proof -
  let ?i = "iam_resolve_identity st pr"
  have ne: "id_policies ?i \<noteq> []" using assms(1,2) by (auto simp: iam_authorize_def Let_def split: if_splits)
  moreover have "auth_policies (id_policies ?i) action resource
      (fold (\<lambda>(k, v). dset k v) context (base_context ?i resource)) = Inr (Some (True, m))"
    using assms(1,2) ne by (auto simp: iam_authorize_def Let_def rbind_Inr split: option.splits)
  ultimately show ?thesis
    using assms(2) auth_policies_append
    by (auto simp: iam_authorize_def Let_def assms(3) base_context_def rbind_Inr)
qed

section \<open>Referential integrity\<close>

definition policies_exist :: "iam_st \<Rightarrow> string list \<Rightarrow> bool" where
  "policies_exist st ids \<longleftrightarrow> (\<forall>p \<in> set ids. dhas (i_policies st) p)"

definition in_group :: "iam_st \<Rightarrow> string \<Rightarrow> string \<Rightarrow> bool" where
  "in_group st uk gk \<longleftrightarrow> (\<exists>u. map_of (i_users st) uk = Some u \<and> gk \<in> set (u_groups u))"

definition has_member :: "iam_st \<Rightarrow> string \<Rightarrow> string \<Rightarrow> bool" where
  "has_member st gk uk \<longleftrightarrow> (\<exists>g. map_of (i_groups st) gk = Some g \<and> uk \<in> set (g_members g))"

definition iam_base :: "iam_st \<Rightarrow> bool" where
  "iam_base st \<longleftrightarrow>
     wf_dict (i_users st) \<and> wf_dict (i_groups st) \<and> wf_dict (i_roles st) \<and>
     (\<forall>k u. map_of (i_users st) k = Some u \<longrightarrow> u_id u = k \<and> policies_exist st (u_policies u)) \<and>
     (\<forall>k g. map_of (i_groups st) k = Some g \<longrightarrow> g_id g = k \<and> policies_exist st (g_policies g)) \<and>
     (\<forall>k r. map_of (i_roles st) k = Some r \<longrightarrow> r_id r = k \<and> policies_exist st (r_policies r))"

definition iam_ok :: "iam_st \<Rightarrow> bool" where
  "iam_ok st \<longleftrightarrow> iam_base st \<and> (\<forall>uk gk. in_group st uk gk = has_member st gk uk)"

lemma map_of_dict_map [dict_simps]: "map_of (dict_map f d) k = map_option f (map_of d k)"
  by (induction d) (auto simp: dict_map_def)

lemma wf_dict_map [dict_simps]: "wf_dict (dict_map f d) = wf_dict d"
  by (simp add: wf_dict_def dict_map_def case_prod_beta comp_def)

lemma find_dict: "wf_dict d \<Longrightarrow> find P d = Some (k, v) \<Longrightarrow> map_of d k = Some v"
  by (auto simp: find_Some_iff in_dict_map_of)

lemma find_user_map: "iam_base st \<Longrightarrow> find_user st i = Some (k, u) \<Longrightarrow> map_of (i_users st) k = Some u \<and> u_id u = k"
  by (auto simp: find_user_def Let_def iam_base_def dest: find_dict split: if_splits)

lemma find_group_map: "iam_base st \<Longrightarrow> find_group st i = Some (k, g) \<Longrightarrow> map_of (i_groups st) k = Some g \<and> g_id g = k"
  by (auto simp: find_group_def Let_def iam_base_def dest: find_dict split: if_splits)

lemma find_role_map: "iam_base st \<Longrightarrow> find_role st i = Some (k, r) \<Longrightarrow> map_of (i_roles st) k = Some r \<and> r_id r = k"
  by (auto simp: find_role_def iam_base_def dest: find_dict split: option.splits)

lemma lookup_user_map: "iam_base st \<Longrightarrow> lookup_user st i = Some (k, u) \<Longrightarrow> map_of (i_users st) k = Some u \<and> u_id u = k"
  using find_user_map [of st i k u] by (cases "map_of (i_users st) i") (auto simp: lookup_user_def iam_base_def)

lemma lookup_group_map: "iam_base st \<Longrightarrow> lookup_group st i = Some (k, g) \<Longrightarrow> map_of (i_groups st) k = Some g \<and> g_id g = k"
  using find_group_map [of st i k g] by (cases "map_of (i_groups st) i") (auto simp: lookup_group_def iam_base_def)

text \<open>Changing only the policies of principals keeps the invariant when the policies still exist.\<close>

lemma policies_exist_filter: "policies_exist st ps \<Longrightarrow> policies_exist st (filter P ps)"
  by (simp add: policies_exist_def)

lemma policies_exist_cong [simp]:
  "policies_exist (st\<lparr>i_users := u\<rparr>) = policies_exist st"
  "policies_exist (st\<lparr>i_groups := g\<rparr>) = policies_exist st"
  "policies_exist (st\<lparr>i_roles := r\<rparr>) = policies_exist st"
  "policies_exist (st\<lparr>i_attachments := a\<rparr>) = policies_exist st"
  by (simp_all add: policies_exist_def fun_eq_iff)

lemma cross_fields [simp]:
  "in_group (st\<lparr>i_groups := g\<rparr>) = in_group st" "in_group (st\<lparr>i_roles := r\<rparr>) = in_group st"
  "in_group (st\<lparr>i_attachments := a\<rparr>) = in_group st" "in_group (st\<lparr>i_policies := p\<rparr>) = in_group st"
  "has_member (st\<lparr>i_users := u\<rparr>) = has_member st" "has_member (st\<lparr>i_roles := r\<rparr>) = has_member st"
  "has_member (st\<lparr>i_attachments := a\<rparr>) = has_member st" "has_member (st\<lparr>i_policies := p\<rparr>) = has_member st"
  by (simp_all add: fun_eq_iff in_group_def has_member_def)

lemma base_user_update:
  "iam_base st \<Longrightarrow> (\<And>u. u_id (f u) = u_id u \<and> (policies_exist st (u_policies u) \<longrightarrow> policies_exist st (u_policies (f u)))) \<Longrightarrow>
   iam_base (st\<lparr>i_users := dmap_at k f (i_users st)\<rparr>)"
  by (auto simp: iam_base_def dict_simps)

lemma base_group_update:
  "iam_base st \<Longrightarrow> (\<And>g. g_id (f g) = g_id g \<and> (policies_exist st (g_policies g) \<longrightarrow> policies_exist st (g_policies (f g)))) \<Longrightarrow>
   iam_base (st\<lparr>i_groups := dmap_at k f (i_groups st)\<rparr>)"
  by (auto simp: iam_base_def dict_simps)

lemma base_role_update:
  "iam_base st \<Longrightarrow> (\<And>r. r_id (f r) = r_id r \<and> (policies_exist st (r_policies r) \<longrightarrow> policies_exist st (r_policies (f r)))) \<Longrightarrow>
   iam_base (st\<lparr>i_roles := dmap_at k f (i_roles st)\<rparr>)"
  by (auto simp: iam_base_def dict_simps)

lemma base_attachments [simp]: "iam_base (st\<lparr>i_attachments := a\<rparr>) = iam_base st"
  by (simp add: iam_base_def)

lemma base_strip_policy: "iam_base st \<Longrightarrow> iam_base (strip_policy ty i pid st)"
  by (simp add: strip_policy_def base_user_update base_group_update base_role_update policies_exist_filter
      split: option.split)

lemma strip_policy_members:
  "in_group (strip_policy ty i pid st) uk gk = in_group st uk gk"
  "has_member (strip_policy ty i pid st) gk uk = has_member st gk uk"
proof -
  have "in_group (st\<lparr>i_users := dmap_at k (u_policies_update f) (i_users st)\<rparr>) uk gk = in_group st uk gk"
    "has_member (st\<lparr>i_groups := dmap_at k (g_policies_update f) (i_groups st)\<rparr>) gk uk = has_member st gk uk" for k f
    by (auto simp: in_group_def has_member_def dict_simps)
  then show "in_group (strip_policy ty i pid st) uk gk = in_group st uk gk"
    "has_member (strip_policy ty i pid st) gk uk = has_member st gk uk"
    by (simp_all add: strip_policy_def split: option.split)
qed

lemma fold_strip_policy:
  "iam_base st \<Longrightarrow> iam_base (fold (\<lambda>a. strip_policy ty i (at_policy a)) as st)"
  "in_group (fold (\<lambda>a. strip_policy ty i (at_policy a)) as st) uk gk = in_group st uk gk"
  "has_member (fold (\<lambda>a. strip_policy ty i (at_policy a)) as st) gk uk = has_member st gk uk"
  by (induction as arbitrary: st) (simp_all add: base_strip_policy strip_policy_members)

text \<open>Detaching changes policies only, so group membership survives it.\<close>

lemma detach_keeps:
  "iam_base st \<Longrightarrow> iam_base (fst (iam_detach_policy_records ty i pid st))"
  "in_group (fst (iam_detach_policy_records ty i pid st)) uk gk = in_group st uk gk"
  "has_member (fst (iam_detach_policy_records ty i pid st)) gk uk = has_member st gk uk"
  by (simp_all add: iam_detach_policy_records_def Let_def fold_strip_policy)

lemma ok_detach: "iam_ok st \<Longrightarrow> iam_ok (fst (iam_detach_policy_records ty i pid st))"
  by (simp add: iam_ok_def detach_keeps)

lemma ok_create_user:
  assumes "iam_ok st" and "\<not> dhas (i_users st) nid"
  shows "iam_ok (fst (api_iam_create_user nid now name path st))"
proof (cases "strip name = []")
  case False
  let ?u = "\<lparr>u_id = nid, u_name = name, u_path = path, u_created = now, u_policies = [], u_groups = []\<rparr>"
  have "in_group (st\<lparr>i_users := dset nid ?u (i_users st)\<rparr>) uk gk = in_group st uk gk" for uk gk
    using assms(2) by (auto simp: in_group_def dict_simps dhas_def)
  then show ?thesis using False assms(1)
    by (auto simp: api_iam_create_user_def Let_def iam_ok_def iam_base_def dict_simps policies_exist_def)
qed (use assms in \<open>simp add: api_iam_create_user_def\<close>)

lemma ok_create_group:
  assumes "iam_ok st" and "\<not> dhas (i_groups st) nid"
  shows "iam_ok (fst (api_iam_create_group nid now name path st))"
proof (cases "strip name = []")
  case False
  let ?g = "\<lparr>g_id = nid, g_name = name, g_path = path, g_created = now, g_members = [], g_policies = []\<rparr>"
  have "has_member (st\<lparr>i_groups := dset nid ?g (i_groups st)\<rparr>) gk uk = has_member st gk uk" for uk gk
    using assms(2) by (auto simp: has_member_def dict_simps dhas_def)
  then show ?thesis using False assms(1)
    by (auto simp: api_iam_create_group_def Let_def iam_ok_def iam_base_def dict_simps policies_exist_def)
qed (use assms in \<open>simp add: api_iam_create_group_def\<close>)

lemma ok_create_role: "iam_ok st \<Longrightarrow> iam_ok (fst (api_iam_create_role nid now name path a d st))"
  by (auto simp: api_iam_create_role_def Let_def iam_ok_def iam_base_def dict_simps policies_exist_def)

lemma ok_create_policy: "iam_ok st \<Longrightarrow> iam_ok (fst (api_iam_create_policy nid now name doc st))"
  by (auto simp: api_iam_create_policy_def Let_def iam_ok_def iam_base_def dict_simps policies_exist_def)

lemma ok_delete_policy: "iam_ok st \<Longrightarrow> iam_ok (fst (api_iam_delete_policy pid st))"
proof (cases "dhas (i_policies st) pid")
  case True
  assume ok: "iam_ok st"
  let ?s = "fst (api_iam_delete_policy pid st)"
  have pe: "policies_exist ?s (filter (\<lambda>p. p \<noteq> pid) ps)" if "policies_exist st ps" for ps
    using that True by (auto simp: policies_exist_def api_iam_delete_policy_def Let_def dict_simps
        iam_remove_policy_from_all_principals_def)
  have u: "i_users ?s = dict_map (u_policies_update (filter (\<lambda>p. p \<noteq> pid))) (i_users st)"
    "i_groups ?s = dict_map (g_policies_update (filter (\<lambda>p. p \<noteq> pid))) (i_groups st)"
    "i_roles ?s = dict_map (r_policies_update (filter (\<lambda>p. p \<noteq> pid))) (i_roles st)"
    using True by (simp_all add: api_iam_delete_policy_def Let_def iam_remove_policy_from_all_principals_def)
  have "in_group ?s uk gk = in_group st uk gk" "has_member ?s gk uk = has_member st gk uk" for uk gk
    by (auto simp: in_group_def has_member_def u dict_simps)
  then show ?thesis using ok pe by (auto simp: iam_ok_def iam_base_def u dict_simps)
qed (simp add: api_iam_delete_policy_def)

lemma ok_add_member:
  assumes "iam_ok st" and "map_of (i_groups st) kg = Some g" and "map_of (i_users st) ku = Some u"
  shows "iam_ok (st\<lparr>i_groups := dmap_at kg (g_members_update (add_once ku)) (i_groups st),
                   i_users := dmap_at ku (u_groups_update (add_once kg)) (i_users st)\<rparr>)" (is "iam_ok ?s")
proof -
  have a: "x \<in> set (add_once y xs) \<longleftrightarrow> x = y \<or> x \<in> set xs" for x y :: string and xs
    by (auto simp: add_once_def)
  have "in_group ?s uk gk \<longleftrightarrow> (uk = ku \<and> gk = kg) \<or> in_group st uk gk" for uk gk
    using assms(3) by (auto simp: in_group_def dict_simps a)
  moreover have "has_member ?s gk uk \<longleftrightarrow> (uk = ku \<and> gk = kg) \<or> has_member st gk uk" for uk gk
    using assms(2) by (auto simp: has_member_def dict_simps a)
  ultimately show ?thesis using assms(1) by (auto simp: iam_ok_def iam_base_def dict_simps policies_exist_def)
qed

lemma ok_remove_member:
  assumes "iam_ok st"
  shows "iam_ok (st\<lparr>i_groups := dmap_at kg (g_members_update (filter (\<lambda>m. m \<noteq> ku))) (i_groups st),
                   i_users := dmap_at ku (u_groups_update (filter (\<lambda>x. x \<noteq> kg))) (i_users st)\<rparr>)" (is "iam_ok ?s")
proof -
  have "in_group ?s uk gk \<longleftrightarrow> \<not> (uk = ku \<and> gk = kg) \<and> in_group st uk gk" for uk gk
    by (auto simp: in_group_def dict_simps)
  moreover have "has_member ?s gk uk \<longleftrightarrow> \<not> (uk = ku \<and> gk = kg) \<and> has_member st gk uk" for uk gk
    by (auto simp: has_member_def dict_simps)
  ultimately show ?thesis using assms(1) by (auto simp: iam_ok_def iam_base_def dict_simps policies_exist_def)
qed

lemma ok_add: "iam_ok st \<Longrightarrow> iam_ok (fst (api_iam_add_user_to_group gk uk st))"
  using lookup_group_map [of st gk] find_user_map [of st uk] iam_ok_def [of st]
  by (auto simp: api_iam_add_user_to_group_def ok_add_member split: option.split)

lemma ok_remove: "iam_ok st \<Longrightarrow> iam_ok (fst (api_iam_remove_user_from_group gk uk st))"
  using lookup_group_map [of st gk] find_user_map [of st uk] iam_ok_def [of st]
  by (auto simp: api_iam_remove_user_from_group_def ok_remove_member split: option.split)

lemma base_maps:
  "iam_base st \<Longrightarrow> iam_base (st\<lparr>i_groups := dict_map (g_members_update f) (i_groups st)\<rparr>)"
  "iam_base st \<Longrightarrow> iam_base (st\<lparr>i_users := dict_map (u_groups_update f) (i_users st)\<rparr>)"
  by (auto simp: iam_base_def dict_simps)

lemma base_pops:
  "iam_base st \<Longrightarrow> iam_base (st\<lparr>i_users := dpop k (i_users st)\<rparr>)"
  "iam_base st \<Longrightarrow> iam_base (st\<lparr>i_groups := dpop k (i_groups st)\<rparr>)"
  "iam_base st \<Longrightarrow> iam_base (st\<lparr>i_roles := dpop k (i_roles st)\<rparr>)"
  by (auto simp: iam_base_def dict_simps)

lemma member_maps:
  "has_member (st\<lparr>i_groups := dict_map (g_members_update (filter (\<lambda>m. m \<noteq> x))) (i_groups st)\<rparr>) gk uk
     \<longleftrightarrow> uk \<noteq> x \<and> has_member st gk uk"
  "in_group (st\<lparr>i_users := dict_map (u_groups_update (filter (\<lambda>m. m \<noteq> x))) (i_users st)\<rparr>) uk gk
     \<longleftrightarrow> gk \<noteq> x \<and> in_group st uk gk"
  "in_group (st\<lparr>i_users := dpop x (i_users st)\<rparr>) uk gk \<longleftrightarrow> uk \<noteq> x \<and> in_group st uk gk"
  "has_member (st\<lparr>i_groups := dpop x (i_groups st)\<rparr>) gk uk \<longleftrightarrow> gk \<noteq> x \<and> has_member st gk uk"
  by (auto simp: has_member_def in_group_def dict_simps)

lemma ok_delete_user: "iam_ok st \<Longrightarrow> iam_ok (fst (api_iam_delete_user k st))"
proof (cases "lookup_user st k")
  case (Some ku)
  assume ok: "iam_ok st"
  obtain uk u where ku: "ku = (uk, u)" by force
  let ?st1 = "st\<lparr>i_groups := dict_map (g_members_update (filter (\<lambda>m. m \<noteq> u_id u))) (i_groups st)\<rparr>"
  let ?st2 = "fst (iam_detach_policy_records ''user'' (u_id u) [] ?st1)"
  let ?st3 = "?st2\<lparr>i_users := dpop (u_id u) (i_users ?st2)\<rparr>"
  have "iam_base ?st3" using ok by (intro base_pops detach_keeps base_maps) (simp add: iam_ok_def)
  then have "iam_ok ?st3" using ok by (simp add: iam_ok_def detach_keeps member_maps)
  then show ?thesis using Some ku by (simp add: api_iam_delete_user_def Let_def)
qed (simp add: api_iam_delete_user_def)

lemma ok_delete_group: "iam_ok st \<Longrightarrow> iam_ok (fst (api_iam_delete_group k st))"
proof (cases "lookup_group st k")
  case (Some kg)
  assume ok: "iam_ok st"
  obtain gk g where kg: "kg = (gk, g)" by force
  let ?st1 = "st\<lparr>i_users := dict_map (u_groups_update (filter (\<lambda>x. x \<noteq> g_id g))) (i_users st)\<rparr>"
  let ?st2 = "fst (iam_detach_policy_records ''group'' (g_id g) [] ?st1)"
  let ?st3 = "?st2\<lparr>i_groups := dpop (g_id g) (i_groups ?st2)\<rparr>"
  have "iam_base ?st3" using ok by (intro base_pops detach_keeps base_maps) (simp add: iam_ok_def)
  then have "iam_ok ?st3" using ok by (simp add: iam_ok_def detach_keeps member_maps)
  then show ?thesis using Some kg by (simp add: api_iam_delete_group_def Let_def)
qed (simp add: api_iam_delete_group_def)

lemma ok_delete_role: "iam_ok st \<Longrightarrow> iam_ok (fst (api_iam_delete_role k st))"
proof (cases "find_role st k")
  case (Some kr)
  assume ok: "iam_ok st"
  let ?st2 = "fst (iam_detach_policy_records ''role'' (r_id (snd kr)) [] st)"
  have "iam_ok ?st2" using ok by (rule ok_detach)
  then have "iam_ok (?st2\<lparr>i_roles := dpop (r_id (snd kr)) (i_roles ?st2)\<rparr>)"
    by (simp add: iam_ok_def base_pops)
  then show ?thesis using Some by (simp add: api_iam_delete_role_def Let_def case_prod_beta)
qed (simp add: api_iam_delete_role_def)

lemma members_policy_updates:
  "in_group (st\<lparr>i_users := dmap_at k (u_policies_update f) (i_users st)\<rparr>) uk gk = in_group st uk gk"
  "has_member (st\<lparr>i_groups := dmap_at k (g_policies_update f) (i_groups st)\<rparr>) gk uk = has_member st gk uk"
  by (auto simp: in_group_def has_member_def dict_simps)

lemma ok_attach: "iam_ok st \<Longrightarrow> iam_ok (fst (api_iam_attach_policy now ty i pid st))"
proof (cases "dhas (i_policies st) pid")
  case True
  assume ok: "iam_ok st"
  have pe: "policies_exist st (ps @ [pid]) = policies_exist st ps" for ps
    using True by (auto simp: policies_exist_def)
  have "iam_ok (st\<lparr>i_users := dmap_at k (u_policies_update (\<lambda>ps. ps @ [pid])) (i_users st)\<rparr>)"
    "iam_ok (st\<lparr>i_groups := dmap_at k (g_policies_update (\<lambda>ps. ps @ [pid])) (i_groups st)\<rparr>)"
    "iam_ok (st\<lparr>i_roles := dmap_at k (r_policies_update (\<lambda>ps. ps @ [pid])) (i_roles st)\<rparr>)" for k
    using ok by (simp_all add: iam_ok_def members_policy_updates base_user_update base_group_update base_role_update pe)
  moreover have "iam_ok (s\<lparr>i_attachments := a\<rparr>) = iam_ok s" for s a by (simp add: iam_ok_def)
  ultimately show ?thesis using True ok
    by (auto simp: api_iam_attach_policy_def Let_def split: option.split)
qed (simp add: api_iam_attach_policy_def)

lemma ok_detach_api: "iam_ok st \<Longrightarrow> iam_ok (fst (api_iam_detach_policy ty i pid st))"
  using ok_detach [of st] by (simp add: api_iam_detach_policy_def Let_def case_prod_beta)

text \<open>One management call; an id drawn for a user or a group is new.\<close>

inductive iam_step :: "iam_st \<Rightarrow> iam_st \<Rightarrow> bool" where
  create_user: "\<not> dhas (i_users st) nid \<Longrightarrow> iam_step st (fst (api_iam_create_user nid now name path st))"
| delete_user: "iam_step st (fst (api_iam_delete_user k st))"
| create_group: "\<not> dhas (i_groups st) nid \<Longrightarrow> iam_step st (fst (api_iam_create_group nid now name path st))"
| delete_group: "iam_step st (fst (api_iam_delete_group k st))"
| add_member: "iam_step st (fst (api_iam_add_user_to_group gk uk st))"
| remove_member: "iam_step st (fst (api_iam_remove_user_from_group gk uk st))"
| create_role: "iam_step st (fst (api_iam_create_role nid now name path a d st))"
| delete_role: "iam_step st (fst (api_iam_delete_role k st))"
| create_policy: "iam_step st (fst (api_iam_create_policy nid now name doc st))"
| delete_policy: "iam_step st (fst (api_iam_delete_policy pid st))"
| attach: "iam_step st (fst (api_iam_attach_policy now ty i pid st))"
| detach: "iam_step st (fst (api_iam_detach_policy ty i pid st))"

lemma iam_step_ok: "iam_step st st' \<Longrightarrow> iam_ok st \<Longrightarrow> iam_ok st'"
  by (induction rule: iam_step.induct)
    (simp_all add: ok_create_user ok_delete_user ok_create_group ok_delete_group ok_add ok_remove
      ok_create_role ok_delete_role ok_create_policy ok_delete_policy ok_attach ok_detach_api)

definition empty_iam :: iam_st where
  "empty_iam = \<lparr>i_users = [], i_groups = [], i_roles = [], i_policies = [], i_attachments = [],
     i_providers = [], i_settings = []\<rparr>"

lemma empty_iam_ok: "iam_ok empty_iam"
  by (simp add: iam_ok_def iam_base_def empty_iam_def wf_dict_def in_group_def has_member_def)

text \<open>C26.  After any sequence of management calls, failed ones included, the IAM state is
  referentially whole: every policy id a user, group or role carries names an existing policy, and a
  user lists a group exactly when that group exists and lists the user.\<close>

theorem iam_reachable_integrity:
  assumes "iam_step\<^sup>*\<^sup>* empty_iam st"
  shows "(\<forall>k u. map_of (i_users st) k = Some u \<longrightarrow> u_id u = k \<and> (\<forall>p \<in> set (u_policies u). dhas (i_policies st) p)) \<and>
         (\<forall>k r. map_of (i_roles st) k = Some r \<longrightarrow> r_id r = k \<and> (\<forall>p \<in> set (r_policies r). dhas (i_policies st) p)) \<and>
         (\<forall>k g. map_of (i_groups st) k = Some g \<longrightarrow> g_id g = k \<and> (\<forall>p \<in> set (g_policies g). dhas (i_policies st) p)) \<and>
         (\<forall>uk gk. in_group st uk gk = has_member st gk uk)"
proof -
  have "iam_ok st"
    using assms by (induction rule: rtranclp_induct) (auto intro: empty_iam_ok iam_step_ok)
  then show ?thesis by (simp add: iam_ok_def iam_base_def policies_exist_def)
qed

text \<open> Deleting a policy revokes it everywhere: afterwards no principal's identity, whether by
  direct attachment, by group or by role, carries the policy's id.\<close>

theorem delete_policy_revokes:
  assumes "dhas (i_policies st) pid"
  shows "pid \<notin> set (id_policy_ids (iam_resolve_identity (fst (api_iam_delete_policy pid st)) pr)) \<and>
         \<not> dhas (i_policies (fst (api_iam_delete_policy pid st))) pid \<and>
         (\<forall>a \<in> set (i_attachments (fst (api_iam_delete_policy pid st))). at_policy a \<noteq> pid)"
proof -
  let ?s = "fst (api_iam_delete_policy pid st)"
  have s: "i_users ?s = dict_map (u_policies_update (filter (\<lambda>p. p \<noteq> pid))) (i_users st)"
    "i_groups ?s = dict_map (g_policies_update (filter (\<lambda>p. p \<noteq> pid))) (i_groups st)"
    "i_roles ?s = dict_map (r_policies_update (filter (\<lambda>p. p \<noteq> pid))) (i_roles st)"
    "i_policies ?s = dpop pid (i_policies st)"
    "\<forall>a \<in> set (i_attachments ?s). at_policy a \<noteq> pid"
    using assms by (simp_all add: api_iam_delete_policy_def Let_def iam_remove_policy_from_all_principals_def)
  have vals: "set (dvals (dict_map f d)) = f ` set (dvals d)" for f :: "'b \<Rightarrow> 'b" and d
    by (force simp: dvals_def dict_map_def)
  have "pid \<notin> set (user_policy_ids ?s u)" if "u \<in> set (dvals (i_users ?s))" for u
    using that by (auto simp: user_policy_ids_def s vals)
  moreover have "pid \<notin> set (r_policies r)" if "r \<in> set (dvals (i_roles ?s))" for r
    using that by (auto simp: s vals)
  ultimately have "pid \<notin> set (id_policy_ids (iam_resolve_identity ?s pr))"
    by (auto simp: iam_resolve_identity_def Let_def find_Some_iff split: option.splits)
  then show ?thesis using s by (simp add: dict_simps)
qed

text \<open> Detaching goes by the spelling used when attaching: when no attachment of a user is recorded
  under the given id or its ARN, although the user may carry the policy through a record made under
  its name, detaching by the id fails and changes nothing.\<close>

theorem detach_misses_other_spelling:
  assumes "strip i = i" and "i \<noteq> []" and "strip pid = pid" and "pid \<noteq> []"
    and "\<forall>a \<in> set (i_attachments st). at_type a \<noteq> ''user'' \<or> at_target a \<notin> {i, iam_user_arn i}"
  shows "api_iam_detach_policy ''user'' i pid st = (st, Inl target_not_found)"
proof -
  have ty: "lower (strip (str_or ''user'' ''user'')) = ''user''" "lower (strip ''user'') = ''user''" by code_simp+
  have no: "\<not> attachment_matches ''user'' i pid a" if "a \<in> set (i_attachments st)" for a
    using assms(5) that by (auto simp: attachment_matches_def iam_target_keys_def)
  then have "filter (attachment_matches ''user'' i pid) (i_attachments st) = []"
    "filter (\<lambda>a. \<not> attachment_matches ''user'' i pid a) (i_attachments st) = i_attachments st"
    by (auto simp: filter_empty_conv filter_id_conv)
  then show ?thesis
    using assms(1-4) by (simp add: api_iam_detach_policy_def iam_detach_policy_records_def Let_def ty)
qed

definition demo_allow :: "pyval dict" where
  "demo_allow = [(''Statement'', PList [PDict [(''Effect'', PStr ''Allow''), (''Action'', PStr ''s3:Get*''), (''Resource'', PStr ''*'')]])]"

definition demo_deny :: "pyval dict" where
  "demo_deny = [(''Statement'', PList [PDict [(''Effect'', PStr ''Deny''), (''Action'', PStr ''*''), (''Resource'', PStr ''*'')]])]"

text \<open>Alice, with a policy that allows reads attached under her name.\<close>

definition demo_iam :: iam_st where
  "demo_iam =
     (let s1 = fst (api_iam_create_user ''user-1'' ''t'' ''alice'' ''/'' empty_iam);
          s2 = fst (api_iam_create_policy ''policy-1'' ''t'' ''reads'' demo_allow s1);
          s3 = fst (api_iam_create_policy ''policy-2'' ''t'' ''nothing'' demo_deny s2)
      in fst (api_iam_attach_policy ''t'' ''user'' ''alice'' ''policy-1'' s3))"

definition demo_iam_denied :: iam_st where
  "demo_iam_denied = fst (api_iam_attach_policy ''t'' ''user'' ''alice'' ''policy-2'' demo_iam)"

theorem detach_misses_other_spelling_witness:
  "api_iam_detach_policy ''user'' ''user-1'' ''policy-1'' demo_iam = (demo_iam, Inl target_not_found) \<and>
   id_policy_ids (iam_resolve_identity demo_iam ''alice'') = [''policy-1'']"
proof (rule conjI)
  show "api_iam_detach_policy ''user'' ''user-1'' ''policy-1'' demo_iam = (demo_iam, Inl target_not_found)"
    by (rule detach_misses_other_spelling) code_simp+
qed code_simp

theorem iam_authorize_first_match_witness:
  "\<exists>msg. iam_authorize demo_iam ''alice'' ''s3:GetObject'' ''arn:aws:s3:::b/k'' [] = Inr (True, msg)"
proof -
  let ?i = "iam_resolve_identity demo_iam ''alice''"
  have h: "\<not> id_is_root ?i" "list_all policy_ok (id_policies ?i)" by code_simp+
  have f: "(case find (decisive ''s3:GetObject'' ''arn:aws:s3:::b/k''
      (fold (\<lambda>(k, v). dset k v) [] (base_context ?i ''arn:aws:s3:::b/k''))) (concat (map policy_statements (id_policies ?i))) of
           None \<Rightarrow> False
         | Some s \<Rightarrow> stmt_effect (dict_or_empty s) [] = ''allow'')" by code_simp
  from iam_authorize_first_match [OF refl h refl, of "''s3:GetObject''" "''arn:aws:s3:::b/k''" "[]"] f
  show ?thesis by simp
qed

theorem iam_later_deny_ignored_witness:
  "iam_authorize demo_iam_denied ''alice'' ''s3:GetObject'' ''arn:aws:s3:::b/k'' [] = Inr (True, []) \<and>
   id_policy_ids (iam_resolve_identity demo_iam_denied ''alice'') = [''policy-1'', ''policy-2'']"
proof (rule conjI)
  let ?i = "iam_resolve_identity demo_iam ''alice''"
  have a: "iam_authorize demo_iam ''alice'' ''s3:GetObject'' ''arn:aws:s3:::b/k'' [] = Inr (True, [])"
    "\<not> id_is_root ?i" by code_simp+
  have "iam_resolve_identity demo_iam_denied ''alice'' = ?i
      \<lparr>id_policy_ids := [''policy-1'', ''policy-2''],
       id_policies := id_policies ?i @ find_policies demo_iam_denied [''policy-2'']\<rparr>" by code_simp
  from iam_later_deny_ignored [OF a this]
  show "iam_authorize demo_iam_denied ''alice'' ''s3:GetObject'' ''arn:aws:s3:::b/k'' [] = Inr (True, [])" .
qed code_simp

theorem iam_reachable_integrity_witness:
  "iam_step\<^sup>*\<^sup>* empty_iam (fst (api_iam_create_user ''user-1'' ''t'' ''alice'' ''/'' empty_iam)) \<and>
   (\<forall>uk gk. in_group (fst (api_iam_create_user ''user-1'' ''t'' ''alice'' ''/'' empty_iam)) uk gk
      = has_member (fst (api_iam_create_user ''user-1'' ''t'' ''alice'' ''/'' empty_iam)) gk uk)"
proof -
  have r: "iam_step\<^sup>*\<^sup>* empty_iam (fst (api_iam_create_user ''user-1'' ''t'' ''alice'' ''/'' empty_iam))"
    by (intro r_into_rtranclp iam_step.create_user) (simp add: empty_iam_def dhas_def)
  then show ?thesis using iam_reachable_integrity [OF r] by blast
qed

theorem delete_policy_revokes_witness:
  "dhas (i_policies demo_iam) ''policy-1'' \<and>
   ''policy-1'' \<notin> set (id_policy_ids (iam_resolve_identity (fst (api_iam_delete_policy ''policy-1'' demo_iam)) ''alice''))"
proof -
  have h: "dhas (i_policies demo_iam) ''policy-1''" by code_simp
  then show ?thesis using delete_policy_revokes [OF h] by blast
qed

end
