(* ===== verification/Sqs.thy ===== *)
theory Sqs
imports Iam_Routes
begin

text \<open>SQS queues (\<open>server.py\<close>, the \<open>_sqs_\<close> functions, and the handlers of \<open>routes/aws_sqs.py\<close>).
  A queue record has the fields its creation writes, so normalising is the identity.  The clock is an
  integer of microseconds; stored times are whole seconds, as the code formats them.  \<open>uid n\<close> is the
  text of the \<open>n\<close>-th id drawn, \<open>sha\<close> and \<open>md5\<close> are the two digests and \<open>loads\<close> is \<open>json.loads\<close>
  (\<^theory_text>\<open>None\<close> when it raises).  Messages are referred to by id, queues by name.\<close>

section \<open>State\<close>

record msg =
  m_id :: string
  m_body :: string
  m_attrs :: pyval
  m_mattrs :: pyval
  m_md5 :: string
  m_sent :: int
  m_visible :: int
  m_receive :: int
  m_receipt :: string
  m_inflight :: bool
  m_deleted :: bool
  m_group :: string
  m_dedup :: string
  m_seq :: string
  m_source :: string

record queue =
  q_name :: string
  q_url :: string
  q_arn :: string
  q_type :: string
  q_fifo :: bool
  q_cbd :: bool
  q_visibility :: int
  q_wait :: int
  q_retention :: int
  q_max_size :: int
  q_delay :: int
  q_redrive :: pyval
  q_tags :: "string dict"
  q_messages :: "msg list"
  q_created :: int
  q_modified :: int

record sqs_st =
  sq_queues :: "queue dict"
  sq_ids :: nat

record sqs_env =
  uid :: "nat \<Rightarrow> string"
  sha :: "string \<Rightarrow> string"
  md5 :: "string \<Rightarrow> string"
  loads :: "string \<Rightarrow> pyval option"

definition secs :: "int \<Rightarrow> int" where
  "secs now = now div 1000000"

section \<open>Queues by name\<close>

definition name_char :: "char \<Rightarrow> bool" where
  "name_char c = (let n = (of_char c :: nat)
     in (48 \<le> n \<and> n \<le> 57) \<or> (65 \<le> n \<and> n \<le> 90) \<or> (97 \<le> n \<and> n \<le> 122) \<or> c \<in> {CHR ''_'', CHR ''.'', CHR ''-''})"

definition bad_request :: "string \<Rightarrow> py_exc" where
  "bad_request m = HTTPException 400 (PStr m)"

definition sqs_validate_queue_name :: "string \<Rightarrow> unit result" where
  "sqs_validate_queue_name n =
     (if n = [] then Inl (bad_request ''MissingParameter: queue_name is required.'')
      else if length n < 1 \<or> length n > 80 then Inl (bad_request ''InvalidParameterValue: queue_name must be 1-80 characters.'')
      else if \<not> list_all name_char n
        then Inl (bad_request ''InvalidParameterValue: queue_name can contain letters, numbers, periods, underscores, and hyphens.'')
      else Inr ())"

definition sqs_queue_url :: "string \<Rightarrow> string" where
  "sqs_queue_url n = ''http://127.0.0.1:9000/api/sqs/queues/'' @ n"

definition sqs_find_queue :: "sqs_st \<Rightarrow> string \<Rightarrow> string option" where
  "sqs_find_queue st name =
     (let key = strip name in
      if key = [] then None
      else if dhas (sq_queues st) key then Some key
      else map_option fst (find (\<lambda>(n, _). lower n = lower key) (sq_queues st)))"

definition sqs_queue_from_name_or_url :: "sqs_st \<Rightarrow> string \<Rightarrow> string option" where
  "sqs_queue_from_name_or_url st s =
     (if s = [] then None
      else if (startswith s ''http://'' \<or> startswith s ''https://'') \<and> contains ''/queues/'' s
        then sqs_find_queue st (after_last ''/queues/'' s)
      else if contains '':queue/'' s then sqs_find_queue st (after_last '':'' s)
      else sqs_find_queue st s)"

definition upd_queue :: "string \<Rightarrow> (queue \<Rightarrow> queue) \<Rightarrow> sqs_st \<Rightarrow> sqs_st" where
  "upd_queue qn f st = st\<lparr>sq_queues := dmap_at qn f (sq_queues st)\<rparr>"

definition upd_msg :: "string \<Rightarrow> (msg \<Rightarrow> msg) \<Rightarrow> queue \<Rightarrow> queue" where
  "upd_msg mid f q = q\<lparr>q_messages := map (\<lambda>m. if m_id m = mid then f m else m) (q_messages q)\<rparr>"

section \<open>Visibility and the sweep\<close>

definition sqs_message_is_visible :: "int \<Rightarrow> msg \<Rightarrow> bool" where
  "sqs_message_is_visible now m \<longleftrightarrow> \<not> m_deleted m \<and> m_visible m * 1000000 \<le> now"

text \<open>\<open>int(x or dflt)\<close>: a stored zero counts as absent.\<close>

definition or_default :: "int \<Rightarrow> int \<Rightarrow> int" where
  "or_default x d = (if x = 0 then d else x)"

definition expired :: "int \<Rightarrow> int \<Rightarrow> msg \<Rightarrow> bool" where
  "expired now retention m \<longleftrightarrow> now - m_sent m * 1000000 > retention * 1000000"

definition release :: "int \<Rightarrow> msg \<Rightarrow> msg" where
  "release now m =
     (if m_inflight m \<and> m_visible m * 1000000 \<le> now then m\<lparr>m_inflight := False, m_receipt := []\<rparr> else m)"

definition sqs_sweep_queue :: "int \<Rightarrow> queue \<Rightarrow> queue" where
  "sqs_sweep_queue now q =
     (let retention = or_default (q_retention q) 345600
      in q\<lparr>q_messages := filter (\<lambda>m. \<not> m_deleted m)
             (map (release now) (filter (\<lambda>m. \<not> expired now retention m) (q_messages q)))\<rparr>)"

section \<open>Sending\<close>

definition sqs_dedup_key :: "sqs_env \<Rightarrow> queue \<Rightarrow> string \<Rightarrow> string \<Rightarrow> string" where
  "sqs_dedup_key en q body dedup_id =
     (if dedup_id \<noteq> [] then dedup_id else if q_cbd q then sha en body else [])"

definition utf8_len :: "string \<Rightarrow> int" where
  "utf8_len s = sum_list (map (\<lambda>c. if (of_char c :: nat) < 128 then 1 else 2) s)"

definition duplicate_of :: "int \<Rightarrow> string \<Rightarrow> queue \<Rightarrow> msg option" where
  "duplicate_of now key q =
     find (\<lambda>m. m_dedup m = key \<and> m_sent m * 1000000 \<ge> now - 300000000) (rev (q_messages q))"

definition new_message ::
  "sqs_env \<Rightarrow> int \<Rightarrow> nat \<Rightarrow> queue \<Rightarrow> string \<Rightarrow> pyval \<Rightarrow> pyval \<Rightarrow> string \<Rightarrow> string \<Rightarrow> string \<Rightarrow> msg" where
  "new_message en now n q body attrs mattrs grp key source =
     \<lparr>m_id = ''msg-'' @ uid en n, m_body = body, m_attrs = py_or attrs (PDict []), m_mattrs = py_or mattrs (PDict []),
      m_md5 = md5 en body, m_sent = secs now,
      m_visible = (if q_delay q > 0 then secs now + q_delay q else secs now),
      m_receive = 0, m_receipt = [], m_inflight = False, m_deleted = False,
      m_group = grp, m_dedup = key, m_seq = nat_str (length (q_messages q) + 1), m_source = source\<rparr>"

definition sqs_enqueue_message ::
  "sqs_env \<Rightarrow> int \<Rightarrow> string \<Rightarrow> string \<Rightarrow> pyval \<Rightarrow> pyval \<Rightarrow> string \<Rightarrow> string \<Rightarrow> string \<Rightarrow> sqs_st \<Rightarrow> sqs_st \<times> msg result" where
  "sqs_enqueue_message en now qn body attrs mattrs grp dedup source st0 =
     (let st = upd_queue qn (sqs_sweep_queue now) st0 in
      case map_of (sq_queues st) qn of
        None \<Rightarrow> (st, Inl (KeyError qn))
      | Some q \<Rightarrow>
          if utf8_len body > or_default (q_max_size q) 262144
          then (st, Inl (bad_request ''InvalidParameterValue: message body exceeds MaximumMessageSize.''))
          else if q_fifo q \<and> grp = []
          then (st, Inl (bad_request ''MissingParameter: MessageGroupId is required for FIFO queues.''))
          else
            let key = sqs_dedup_key en q body dedup in
            case (if q_fifo q \<and> key \<noteq> [] then duplicate_of now key q else None) of
              Some existing \<Rightarrow> (st, Inr existing)
            | None \<Rightarrow>
                let m = new_message en now (sq_ids st) q body attrs mattrs grp key source
                in (upd_queue qn (\<lambda>q. q\<lparr>q_messages := q_messages q @ [m], q_modified := secs now\<rparr>)
                      (st\<lparr>sq_ids := Suc (sq_ids st)\<rparr>), Inr m))"

section \<open>Receiving\<close>

definition group_of :: "msg \<Rightarrow> string" where
  "group_of m = str_or (m_group m) ''__default__''"

text \<open>Blocked: an earlier message of the group is in flight (\<open>earlier\<close> are the messages before it).\<close>

definition sqs_message_is_blocked_by_fifo :: "queue \<Rightarrow> msg list \<Rightarrow> msg \<Rightarrow> bool" where
  "sqs_message_is_blocked_by_fifo q earlier m \<longleftrightarrow>
     q_fifo q \<and> list_ex (\<lambda>c. \<not> m_deleted c \<and> group_of c = group_of m \<and> m_inflight c) earlier"

text \<open>The selection loop: \<open>earlier\<close> are the messages passed, \<open>locks\<close> the groups taken, \<open>k\<close> how many
  more messages may be taken.\<close>

fun select_available :: "int \<Rightarrow> queue \<Rightarrow> msg list \<Rightarrow> string list \<Rightarrow> nat \<Rightarrow> msg list \<Rightarrow> msg list" where
  "select_available now q earlier locks k [] = []"
| "select_available now q earlier locks k (m # ms) =
     (if m_deleted m \<or> m_inflight m \<or> \<not> sqs_message_is_visible now m
         \<or> q_fifo q \<and> (group_of m \<in> set locks \<or> sqs_message_is_blocked_by_fifo q earlier m)
      then select_available now q (earlier @ [m]) locks k ms
      else m # (if k \<le> 1 then []
                else select_available now q (earlier @ [m]) (if q_fifo q then group_of m # locks else locks) (k - 1) ms))"

definition redrive_policy :: "queue \<Rightarrow> pyval dict result" where
  "redrive_policy q =
     (case py_or (q_redrive q) (PDict []) of PDict d \<Rightarrow> Inr d | _ \<Rightarrow> Inl (AttributeError ''get''))"

definition max_receive_count :: "queue \<Rightarrow> int result" where
  "max_receive_count q =
     rbind (redrive_policy q) (\<lambda>d. py_int (py_or (pget d ''maxReceiveCount'') (PInt 0)))"

definition arn_queue_name :: "pyval \<Rightarrow> string result" where
  "arn_queue_name target =
     (case target of
        PStr t \<Rightarrow> Inr (if contains '':queue/'' t \<or> contains '':sqs:'' t then after_last '':'' t else [])
      | PList vs \<Rightarrow> (if PStr '':queue/'' \<in> set vs \<or> PStr '':sqs:'' \<in> set vs then Inl (AttributeError ''rsplit'') else Inr [])
      | PDict d \<Rightarrow> (if dhas d '':queue/'' \<or> dhas d '':sqs:'' then Inl (AttributeError ''rsplit'') else Inr [])
      | _ \<Rightarrow> Inl (TypeError ''not iterable''))"

definition sqs_redrive_queue_name :: "queue \<Rightarrow> string result" where
  "sqs_redrive_queue_name q =
     rbind (redrive_policy q) (\<lambda>d.
       arn_queue_name (py_or (pget d ''deadLetterTargetArn'') (py_or (pget d ''deadLetterTargetQueueArn'') (PStr []))))"

text \<open>Handing a spent message to the dead-letter queue, when the policy names one that exists.\<close>

definition sqs_redrive :: "sqs_env \<Rightarrow> int \<Rightarrow> queue \<Rightarrow> msg \<Rightarrow> sqs_st \<Rightarrow> sqs_st \<times> unit result" where
  "sqs_redrive en now q m st =
     (case sqs_redrive_queue_name q of
        Inl e \<Rightarrow> (st, Inl e)
      | Inr n \<Rightarrow>
          (case (if n = [] then None else sqs_find_queue st n) of
             None \<Rightarrow> (st, Inr ())
           | Some dn \<Rightarrow>
               (case sqs_enqueue_message en now dn (m_body m) (m_attrs m) (m_mattrs m)
                       (m_group m) (m_dedup m) (''redrive:'' @ q_name q) st of
                  (st', Inl e) \<Rightarrow> (st', Inl e)
                | (st', Inr _) \<Rightarrow> (st', Inr ()))))"

definition mark_delivered :: "string \<Rightarrow> int \<Rightarrow> msg \<Rightarrow> msg" where
  "mark_delivered receipt t m = m\<lparr>m_inflight := True, m_receipt := receipt, m_visible := t\<rparr>"

text \<open>One message of the batch: counted, then moved to the dead-letter queue or delivered.\<close>

definition deliver_one ::
  "sqs_env \<Rightarrow> int \<Rightarrow> string \<Rightarrow> int \<Rightarrow> msg \<Rightarrow> sqs_st \<Rightarrow> sqs_st \<times> msg option result" where
  "deliver_one en now qn visibility m st0 =
     (let m1 = m\<lparr>m_receive := m_receive m + 1\<rparr>;
          st = upd_queue qn (upd_msg (m_id m) (m_receive_update (\<lambda>c. c + 1))) st0
      in case map_of (sq_queues st) qn of
           None \<Rightarrow> (st, Inl (KeyError qn))
         | Some q \<Rightarrow>
             (case max_receive_count q of
                Inl e \<Rightarrow> (st, Inl e)
              | Inr mr \<Rightarrow>
                  if mr \<noteq> 0 \<and> m_receive m1 > mr then
                    (case sqs_redrive en now q m st of
                       (st', Inl e) \<Rightarrow> (st', Inl e)
                     | (st', Inr _) \<Rightarrow> (upd_queue qn (upd_msg (m_id m) (m_deleted_update (\<lambda>_. True))) st', Inr None))
                  else
                    let f = mark_delivered (''rhdl-'' @ uid en (sq_ids st)) (secs now + visibility)
                    in (upd_queue qn (upd_msg (m_id m) f) (st\<lparr>sq_ids := Suc (sq_ids st)\<rparr>), Inr (Some (f m1)))))"

fun deliver_all ::
  "sqs_env \<Rightarrow> int \<Rightarrow> string \<Rightarrow> int \<Rightarrow> msg list \<Rightarrow> sqs_st \<Rightarrow> sqs_st \<times> msg list result" where
  "deliver_all en now qn visibility [] st = (st, Inr [])"
| "deliver_all en now qn visibility (m # ms) st =
     (case deliver_one en now qn visibility m st of
        (st1, Inl e) \<Rightarrow> (st1, Inl e)
      | (st1, Inr d) \<Rightarrow>
          (case deliver_all en now qn visibility ms st1 of
             (st2, Inl e) \<Rightarrow> (st2, Inl e)
           | (st2, Inr ds) \<Rightarrow> (st2, Inr (case d of None \<Rightarrow> ds | Some x \<Rightarrow> x # ds))))"

definition sqs_extract_messages_for_delivery ::
  "sqs_env \<Rightarrow> int \<Rightarrow> string \<Rightarrow> nat \<Rightarrow> sqs_st \<Rightarrow> sqs_st \<times> msg list result" where
  "sqs_extract_messages_for_delivery en now qn k st0 =
     (let st = upd_queue qn (sqs_sweep_queue now) st0 in
      case map_of (sq_queues st) qn of
        None \<Rightarrow> (st, Inl (KeyError qn))
      | Some q \<Rightarrow>
          let available = select_available now q [] [] k (q_messages q);
              visibility = or_default (q_visibility q) 30
          in case deliver_all en now qn visibility available st of
               (st1, Inl e) \<Rightarrow> (st1, Inl e)
             | (st1, Inr ds) \<Rightarrow> (upd_queue qn (q_modified_update (\<lambda>_. secs now)) st1, Inr ds))"

section \<open>Queue management\<close>

record queue_req =
  rq_name :: string
  rq_fifo :: bool
  rq_cbd :: bool
  rq_visibility :: int
  rq_wait :: int
  rq_retention :: int
  rq_max_size :: int
  rq_delay :: int
  rq_redrive :: pyval
  rq_tags :: "string dict"

definition new_queue :: "int \<Rightarrow> queue_req \<Rightarrow> string \<Rightarrow> bool \<Rightarrow> queue" where
  "new_queue now rq n fifo =
     \<lparr>q_name = n, q_url = sqs_queue_url n, q_arn = iam_sqs_queue_arn n,
      q_type = (if fifo then ''fifo'' else ''standard''), q_fifo = fifo, q_cbd = rq_cbd rq,
      q_visibility = max 0 (or_default (rq_visibility rq) 30),
      q_wait = max 0 (rq_wait rq),
      q_retention = max 60 (or_default (rq_retention rq) 345600),
      q_max_size = max 1024 (or_default (rq_max_size rq) 262144),
      q_delay = max 0 (rq_delay rq),
      q_redrive = py_or (rq_redrive rq) (PDict []), q_tags = rq_tags rq, q_messages = [],
      q_created = secs now, q_modified = secs now\<rparr>"

text \<open>The kind of the queue and the name it is stored under.\<close>

definition fifo_name :: "bool \<Rightarrow> string \<Rightarrow> bool \<times> string" where
  "fifo_name flag n =
     (let fifo = (flag \<or> endswith n ''.fifo'')
      in (fifo, if fifo \<and> \<not> endswith n ''.fifo'' then n @ ''.fifo'' else n))"

definition sqs_create_queue_record :: "int \<Rightarrow> queue_req \<Rightarrow> sqs_st \<Rightarrow> sqs_st \<times> queue result" where
  "sqs_create_queue_record now rq st =
     (let n0 = strip (rq_name rq) in
      case sqs_validate_queue_name n0 of
        Inl e \<Rightarrow> (st, Inl e)
      | Inr _ \<Rightarrow>
          if sqs_find_queue st n0 \<noteq> None then (st, Inl (HTTPException 409 (PStr ''QueueAlreadyExists'')))
          else
            let (fifo, n) = fifo_name (rq_fifo rq) n0;
                q = new_queue now rq n fifo
            in if truthy (q_redrive q) \<and> \<not> is_dict (q_redrive q)
               then (st, Inl (bad_request ''InvalidParameterValue: redrive_policy must be an object.''))
               else (st\<lparr>sq_queues := dset n q (sq_queues st)\<rparr>, Inr q))"

definition no_queue :: py_exc where
  "no_queue = HTTPException 404 (PStr ''QueueNotFound'')"

definition api_sqs_create_queue :: "int \<Rightarrow> queue_req \<Rightarrow> sqs_st \<Rightarrow> sqs_st \<times> queue result" where
  "api_sqs_create_queue now rq st =
     (case sqs_create_queue_record now rq st of
        (st', Inl e) \<Rightarrow> (st', Inl e)
      | (st', Inr q) \<Rightarrow> (upd_queue (q_name q) (sqs_sweep_queue now) st', Inr (sqs_sweep_queue now q)))"

definition sqs_delete_queue :: "string \<Rightarrow> sqs_st \<Rightarrow> sqs_st \<times> unit result" where
  "sqs_delete_queue name st =
     (case sqs_find_queue st name of
        None \<Rightarrow> (st, Inl (HTTPException 404 (PStr ''AWS.SimpleQueueService.NonExistentQueue'')))
      | Some qn \<Rightarrow> (st\<lparr>sq_queues := dpop qn (sq_queues st)\<rparr>, Inr ()))"

text \<open>Attribute updates run in order; one that raises leaves the earlier ones in place.\<close>

definition set_int ::
  "string \<Rightarrow> int \<Rightarrow> (int \<Rightarrow> queue \<Rightarrow> queue) \<Rightarrow> pyval dict \<Rightarrow> queue \<times> unit result \<Rightarrow> queue \<times> unit result" where
  "set_int k lo upd payload qr =
     (case qr of
        (q, Inl e) \<Rightarrow> (q, Inl e)
      | (q, Inr _) \<Rightarrow>
          if dhas payload k
          then (case py_int (pget payload k) of Inl e \<Rightarrow> (q, Inl e) | Inr v \<Rightarrow> (upd (max lo v) q, Inr ()))
          else (q, Inr ()))"

definition set_redrive :: "sqs_env \<Rightarrow> pyval dict \<Rightarrow> queue \<times> unit result \<Rightarrow> queue \<times> unit result" where
  "set_redrive en payload qr =
     (case qr of
        (q, Inl e) \<Rightarrow> (q, Inl e)
      | (q, Inr _) \<Rightarrow>
          if dhas payload ''RedrivePolicy''
          then (case py_or (pget payload ''RedrivePolicy'') (PDict []) of
                  PStr s \<Rightarrow>
                    (case loads en s of
                       None \<Rightarrow> (q, Inl (bad_request ''InvalidParameterValue: RedrivePolicy must be JSON.''))
                     | Some v \<Rightarrow> (q\<lparr>q_redrive := py_or v (PDict [])\<rparr>, Inr ()))
                | v \<Rightarrow> (q\<lparr>q_redrive := py_or v (PDict [])\<rparr>, Inr ()))
          else (q, Inr ()))"

definition set_cbd :: "int \<Rightarrow> pyval dict \<Rightarrow> queue \<times> unit result \<Rightarrow> queue \<times> unit result" where
  "set_cbd now payload qr =
     (case qr of
        (q, Inl e) \<Rightarrow> (q, Inl e)
      | (q, Inr _) \<Rightarrow>
          let q1 = (if dhas payload ''ContentBasedDeduplication''
                    then q\<lparr>q_cbd := lower (py_str (pget payload ''ContentBasedDeduplication'')) = ''true''\<rparr> else q)
          in (q1\<lparr>q_modified := secs now\<rparr>, Inr ()))"

definition sqs_update_queue_attributes :: "sqs_env \<Rightarrow> int \<Rightarrow> pyval dict \<Rightarrow> queue \<Rightarrow> queue \<times> unit result" where
  "sqs_update_queue_attributes en now payload q =
     (let s1 = set_int ''VisibilityTimeout'' 0 (\<lambda>v. q_visibility_update (\<lambda>_. v)) payload (q, Inr ());
          s2 = set_int ''ReceiveMessageWaitTimeSeconds'' 0 (\<lambda>v. q_wait_update (\<lambda>_. v)) payload s1;
          s3 = set_int ''MessageRetentionPeriod'' 60 (\<lambda>v. q_retention_update (\<lambda>_. v)) payload s2;
          s4 = set_int ''MaximumMessageSize'' 1024 (\<lambda>v. q_max_size_update (\<lambda>_. v)) payload s3;
          s5 = set_int ''DelaySeconds'' 0 (\<lambda>v. q_delay_update (\<lambda>_. v)) payload s4
      in set_cbd now payload (set_redrive en payload s5))"

definition api_sqs_update_queue ::
  "sqs_env \<Rightarrow> int \<Rightarrow> string \<Rightarrow> pyval dict \<Rightarrow> string dict option \<Rightarrow> sqs_st \<Rightarrow> sqs_st \<times> unit result" where
  "api_sqs_update_queue en now name payload tags st =
     (case sqs_find_queue st name of
        None \<Rightarrow> (st, Inl no_queue)
      | Some qn \<Rightarrow>
          (case map_of (sq_queues st) qn of
             None \<Rightarrow> (st, Inl no_queue)
           | Some q0 \<Rightarrow>
               let q1 = (case tags of None \<Rightarrow> q0 | Some t \<Rightarrow> q0\<lparr>q_tags := t\<rparr>);
                   (q2, r) = sqs_update_queue_attributes en now payload q1
               in (upd_queue qn (\<lambda>_. case r of Inl _ \<Rightarrow> q2 | Inr _ \<Rightarrow> sqs_sweep_queue now q2) st, r)))"

section \<open>Messages and tags through the handlers\<close>

text \<open>Apply to the queue a name stands for.\<close>

definition on_queue :: "string \<Rightarrow> (string \<Rightarrow> sqs_st \<Rightarrow> sqs_st \<times> 'a result) \<Rightarrow> sqs_st \<Rightarrow> sqs_st \<times> 'a result" where
  "on_queue name f st = (case sqs_find_queue st name of None \<Rightarrow> (st, Inl no_queue) | Some qn \<Rightarrow> f qn st)"

definition api_sqs_send_message ::
  "sqs_env \<Rightarrow> int \<Rightarrow> string \<Rightarrow> string \<Rightarrow> pyval \<Rightarrow> pyval \<Rightarrow> string \<Rightarrow> string \<Rightarrow> sqs_st \<Rightarrow> sqs_st \<times> msg result" where
  "api_sqs_send_message en now name body mattrs mmap grp dedup =
     on_queue name (\<lambda>qn. sqs_enqueue_message en now qn body (py_or mattrs (py_or mmap (PDict [])))
       (py_or mmap (PDict [])) grp dedup ''api_send_message'')"

definition set_visible :: "int \<Rightarrow> int \<Rightarrow> string \<Rightarrow> string list \<Rightarrow> sqs_st \<Rightarrow> sqs_st" where
  "set_visible now vt qn ids =
     upd_queue qn (\<lambda>q. q\<lparr>q_messages := map (\<lambda>m. if m_id m \<in> set ids then m\<lparr>m_visible := secs now + max 0 vt\<rparr> else m) (q_messages q)\<rparr>)"

definition batch_size :: "int \<Rightarrow> nat" where
  "batch_size n = nat (max 1 (min (or_default n 1) 10))"

definition api_sqs_receive_message ::
  "sqs_env \<Rightarrow> int \<Rightarrow> string \<Rightarrow> int \<Rightarrow> int option \<Rightarrow> sqs_st \<Rightarrow> sqs_st \<times> msg list result" where
  "api_sqs_receive_message en now name n vt =
     on_queue name (\<lambda>qn st.
       case sqs_extract_messages_for_delivery en now qn (batch_size n) st of
         (st', Inl e) \<Rightarrow> (st', Inl e)
       | (st', Inr ds) \<Rightarrow>
           (case vt of
              None \<Rightarrow> (st', Inr ds)
            | Some v \<Rightarrow> (set_visible now v qn (map m_id ds) st', Inr (map (m_visible_update (\<lambda>_. secs now + max 0 v)) ds))))"

definition holds_receipt :: "string \<Rightarrow> msg \<Rightarrow> bool" where
  "holds_receipt rh m \<longleftrightarrow> m_receipt m = rh \<and> m_inflight m"

definition sqs_delete_message :: "int \<Rightarrow> string \<Rightarrow> string \<Rightarrow> sqs_st \<Rightarrow> sqs_st \<times> bool" where
  "sqs_delete_message now rh qn st =
     (case map_of (sq_queues st) qn of
        None \<Rightarrow> (st, False)
      | Some q \<Rightarrow>
          (case find (holds_receipt rh) (q_messages q) of
             None \<Rightarrow> (st, False)
           | Some m \<Rightarrow>
               (upd_queue qn (\<lambda>q. (upd_msg (m_id m) (m_deleted_update (\<lambda>_. True)) q)
                  \<lparr>q_messages := filter (\<lambda>x. \<not> m_deleted x) (q_messages (upd_msg (m_id m) (m_deleted_update (\<lambda>_. True)) q)),
                   q_modified := secs now\<rparr>) st, True)))"

definition sqs_change_message_visibility :: "int \<Rightarrow> string \<Rightarrow> int \<Rightarrow> string \<Rightarrow> sqs_st \<Rightarrow> sqs_st \<times> bool" where
  "sqs_change_message_visibility now rh vt qn st =
     (case map_of (sq_queues st) qn of
        None \<Rightarrow> (st, False)
      | Some q \<Rightarrow>
          (case find (holds_receipt rh) (q_messages q) of
             None \<Rightarrow> (st, False)
           | Some m \<Rightarrow>
               (upd_queue qn (\<lambda>q. (upd_msg (m_id m) (m_visible_update (\<lambda>_. secs now + max 0 vt)) q)
                  \<lparr>q_modified := secs now\<rparr>) st, True)))"

definition invalid_receipt :: py_exc where
  "invalid_receipt = bad_request ''ReceiptHandleIsInvalid''"

definition api_sqs_delete_message :: "int \<Rightarrow> string \<Rightarrow> string \<Rightarrow> sqs_st \<Rightarrow> sqs_st \<times> unit result" where
  "api_sqs_delete_message now name rh =
     on_queue name (\<lambda>qn st. let (st', ok) = sqs_delete_message now rh qn st in (st', if ok then Inr () else Inl invalid_receipt))"

definition api_sqs_change_visibility :: "int \<Rightarrow> string \<Rightarrow> string \<Rightarrow> int \<Rightarrow> sqs_st \<Rightarrow> sqs_st \<times> unit result" where
  "api_sqs_change_visibility now name rh vt =
     on_queue name (\<lambda>qn st. let (st', ok) = sqs_change_message_visibility now rh vt qn st
                           in (st', if ok then Inr () else Inl invalid_receipt))"

definition sqs_purge_queue :: "int \<Rightarrow> queue \<Rightarrow> queue" where
  "sqs_purge_queue now q = q\<lparr>q_messages := [], q_modified := secs now\<rparr>"

definition api_sqs_purge :: "int \<Rightarrow> string \<Rightarrow> sqs_st \<Rightarrow> sqs_st \<times> unit result" where
  "api_sqs_purge now name = on_queue name (\<lambda>qn st. (upd_queue qn (sqs_purge_queue now) st, Inr ()))"

definition sqs_set_tags :: "int \<Rightarrow> string dict \<Rightarrow> queue \<Rightarrow> queue" where
  "sqs_set_tags now tags q = q\<lparr>q_tags := tags, q_modified := secs now\<rparr>"

definition api_sqs_tag_queue :: "int \<Rightarrow> string \<Rightarrow> string dict \<Rightarrow> sqs_st \<Rightarrow> sqs_st \<times> unit result" where
  "api_sqs_tag_queue now name payload =
     on_queue name (\<lambda>qn st. (upd_queue qn (\<lambda>q. sqs_set_tags now (fold (\<lambda>(k, v). dset k v) payload (q_tags q)) q) st, Inr ()))"

definition api_sqs_untag_queue :: "int \<Rightarrow> string \<Rightarrow> string list \<Rightarrow> sqs_st \<Rightarrow> sqs_st \<times> unit result" where
  "api_sqs_untag_queue now name ks =
     on_queue name (\<lambda>qn st. (upd_queue qn (\<lambda>q. sqs_set_tags now (fold dpop ks (q_tags q)) q) st, Inr ()))"

section \<open>Views\<close>

text \<open>What a caller sees of a message, and the attributes and counts of a queue.  The times are the stored ones;
  \<open>dumps\<close> is \<open>json.dumps\<close>.\<close>

record msg_view =
  v_id :: string
  v_receipt :: string
  v_receive :: int
  v_sent :: int
  v_visible :: int
  v_group :: string
  v_dedup :: string
  v_inflight :: bool
  v_md5 :: string
  v_seq :: string
  v_body :: string
  v_attrs :: pyval
  v_mattrs :: pyval

definition sqs_view_message :: "msg \<Rightarrow> msg_view" where
  "sqs_view_message m =
     \<lparr>v_id = m_id m, v_receipt = m_receipt m, v_receive = m_receive m, v_sent = m_sent m, v_visible = m_visible m,
      v_group = m_group m, v_dedup = m_dedup m, v_inflight = m_inflight m, v_md5 = m_md5 m, v_seq = m_seq m,
      v_body = m_body m, v_attrs = m_attrs m, v_mattrs = m_mattrs m\<rparr>"

definition visible_count :: "int \<Rightarrow> queue \<Rightarrow> nat" where
  "visible_count now q =
     length (filter (\<lambda>m. \<not> m_deleted m \<and> \<not> m_inflight m \<and> sqs_message_is_visible now m) (q_messages q))"

definition in_flight_count :: "queue \<Rightarrow> nat" where
  "in_flight_count q = length (filter (\<lambda>m. \<not> m_deleted m \<and> m_inflight m) (q_messages q))"

definition bool_text :: "bool \<Rightarrow> string" where
  "bool_text b = (if b then ''true'' else ''false'')"

definition sqs_queue_attributes :: "(pyval \<Rightarrow> string) \<Rightarrow> int \<Rightarrow> queue \<Rightarrow> string dict" where
  "sqs_queue_attributes dumps now q =
     [(''ApproximateNumberOfMessages'', int_str (int (visible_count now q))),
      (''ApproximateNumberOfMessagesNotVisible'', int_str (int (in_flight_count q))),
      (''VisibilityTimeout'', int_str (or_default (q_visibility q) 30)),
      (''CreatedTimestamp'', int_str (q_created q)),
      (''LastModifiedTimestamp'', int_str (q_modified q)),
      (''DelaySeconds'', int_str (q_delay q)),
      (''ReceiveMessageWaitTimeSeconds'', int_str (q_wait q)),
      (''MessageRetentionPeriod'', int_str (or_default (q_retention q) 345600)),
      (''MaximumMessageSize'', int_str (or_default (q_max_size q) 262144)),
      (''QueueArn'', q_arn q),
      (''FifoQueue'', bool_text (q_fifo q)),
      (''ContentBasedDeduplication'', bool_text (q_cbd q))] @
     (if truthy (q_redrive q) then [(''RedrivePolicy'', dumps (q_redrive q))] else [])"

record queue_view =
  qv_queue :: queue
  qv_attributes :: "string dict"
  qv_count :: nat
  qv_visible :: nat
  qv_in_flight :: nat
  qv_messages :: "msg_view list"

text \<open>The view sweeps the stored queue first.\<close>

definition sqs_queue_view :: "(pyval \<Rightarrow> string) \<Rightarrow> int \<Rightarrow> bool \<Rightarrow> queue \<Rightarrow> queue \<times> queue_view" where
  "sqs_queue_view dumps now include_messages q0 =
     (let q = sqs_sweep_queue now q0 in
      (q, \<lparr>qv_queue = q, qv_attributes = sqs_queue_attributes dumps now q, qv_count = length (q_messages q),
           qv_visible = visible_count now q, qv_in_flight = in_flight_count q,
           qv_messages = (if include_messages then map sqs_view_message (filter (\<lambda>m. \<not> m_deleted m) (q_messages q)) else [])\<rparr>))"

definition api_sqs_get_queue :: "(pyval \<Rightarrow> string) \<Rightarrow> int \<Rightarrow> string \<Rightarrow> sqs_st \<Rightarrow> sqs_st \<times> queue_view result" where
  "api_sqs_get_queue dumps now name =
     on_queue name (\<lambda>qn st.
       case map_of (sq_queues st) qn of
         None \<Rightarrow> (st, Inl no_queue)
       | Some q \<Rightarrow> (upd_queue qn (sqs_sweep_queue now) st, Inr (snd (sqs_queue_view dumps now True q))))"

section \<open>Facts about selection and delivery\<close>

lemma find_SomeD: "find P xs = Some x \<Longrightarrow> x \<in> set xs \<and> P x"
  by (auto simp: find_Some_iff)

lemma map_of_upd_queue [dict_simps]:
  "map_of (sq_queues (upd_queue qn f st)) k = (if k = qn then map_option f (map_of (sq_queues st) k) else map_of (sq_queues st) k)"
  by (simp add: upd_queue_def dict_simps)

lemma find_upd_queue: "sqs_find_queue (upd_queue qn f st) n = sqs_find_queue st n"
proof -
  have "map_option fst (find (\<lambda>(k, _). P k) (dmap_at qn f d)) = map_option fst (find (\<lambda>(k, _). P k) d)" for P d
    by (induction d) (auto simp: dmap_at_def)
  then show ?thesis by (simp add: sqs_find_queue_def upd_queue_def Let_def dict_simps)
qed

lemma find_ids: "sqs_find_queue (st\<lparr>sq_ids := n\<rparr>) k = sqs_find_queue st k"
  by (simp add: sqs_find_queue_def Let_def)

lemma upd_queue_ids [simp]: "sq_ids (upd_queue qn f st) = sq_ids st"
  by (simp add: upd_queue_def)

lemma select_length: "length (select_available now q e l k ms) \<le> max 1 k"
  by (induction now q e l k ms rule: select_available.induct) auto

lemma select_subseq: "subseq (select_available now q e l k ms) ms"
  by (induction now q e l k ms rule: select_available.induct) auto

lemma select_sound:
  "m \<in> set (select_available now q e l k ms) \<Longrightarrow>
   \<not> m_deleted m \<and> \<not> m_inflight m \<and> sqs_message_is_visible now m"
  by (induction now q e l k ms rule: select_available.induct) (auto split: if_splits)

lemma select_groups:
  "q_fifo q \<Longrightarrow> distinct (map group_of (select_available now q e l k ms)) \<and>
     (\<forall>m \<in> set (select_available now q e l k ms). group_of m \<notin> set l)"
proof (induction now q e l k ms rule: select_available.induct)
  case (2 now q e l k x ms)
  show ?case
  proof (cases "m_deleted x \<or> m_inflight x \<or> \<not> sqs_message_is_visible now x
     \<or> q_fifo q \<and> (group_of x \<in> set l \<or> sqs_message_is_blocked_by_fifo q e x)")
    case True
    then have "select_available now q e l k (x # ms) = select_available now q (e @ [x]) l k ms" by simp
    then show ?thesis using "2.IH"(1) [OF True "2.prems"] by simp
  next
    case False
    then have s: "select_available now q e l k (x # ms) =
        x # (if k \<le> 1 then [] else select_available now q (e @ [x]) (group_of x # l) (k - 1) ms)"
      using "2.prems" by simp
    have x: "group_of x \<notin> set l" using False "2.prems" by blast
    show ?thesis
    proof (cases "k \<le> 1")
      case True
      then show ?thesis unfolding s using x by simp
    next
      case k: False
      have "distinct (map group_of (select_available now q (e @ [x]) (group_of x # l) (k - 1) ms)) \<and>
        (\<forall>m \<in> set (select_available now q (e @ [x]) (group_of x # l) (k - 1) ms). group_of m \<notin> set (group_of x # l))"
        using "2.IH"(2) [OF False k "2.prems"] "2.prems" by simp
      then show ?thesis unfolding s using x k by auto
    qed
  qed
qed simp

lemma select_not_blocked:
  "q_fifo q \<Longrightarrow> m \<in> set (select_available now q e l k ms) \<Longrightarrow>
   \<exists>a b. ms = a @ m # b \<and>
     (\<forall>c \<in> set (e @ a). \<not> (m_inflight c \<and> \<not> m_deleted c \<and> group_of c = group_of m))"
proof (induction now q e l k ms rule: select_available.induct)
  case (2 now q e l k x ms)
  let ?skip = "m_deleted x \<or> m_inflight x \<or> \<not> sqs_message_is_visible now x
     \<or> q_fifo q \<and> (group_of x \<in> set l \<or> sqs_message_is_blocked_by_fifo q e x)"
  show ?case
  proof (cases "\<not> ?skip \<and> m = x")
    case True
    then have "\<forall>c \<in> set e. \<not> (m_inflight c \<and> \<not> m_deleted c \<and> group_of c = group_of m)"
      using 2(3) by (auto simp: sqs_message_is_blocked_by_fifo_def list_ex_iff)
    then show ?thesis using True by (intro exI [of _ "[]"] exI [of _ ms]) simp
  next
    case False
    then obtain a b where "ms = a @ m # b"
      "\<forall>c \<in> set ((e @ [x]) @ a). \<not> (m_inflight c \<and> \<not> m_deleted c \<and> group_of c = group_of m)"
      using 2 by (auto split: if_splits)
    then show ?thesis by (intro exI [of _ "x # a"] exI [of _ b]) simp
  qed
qed simp

text \<open>What a delivery keeps of the message it was selected from.\<close>

definition same_msg :: "msg \<Rightarrow> msg \<Rightarrow> bool" where
  "same_msg d m \<longleftrightarrow> m_id d = m_id m \<and> m_body d = m_body m \<and> m_group d = m_group m \<and>
     m_receive d = m_receive m + 1 \<and> m_inflight d"

lemma deliver_one_same: "deliver_one en now qn v m st = (st', Inr (Some d)) \<Longrightarrow> same_msg d m \<and> m_visible d = secs now + v"
  by (auto simp: deliver_one_def Let_def same_msg_def mark_delivered_def split: option.splits sum.splits prod.splits if_splits)

lemma deliver_all_same:
  "deliver_all en now qn v ms st = (st', Inr ds) \<Longrightarrow>
   \<exists>xs. subseq xs ms \<and> list_all2 (\<lambda>d m. same_msg d m \<and> m_visible d = secs now + v) ds xs"
proof (induction ms arbitrary: st st' ds)
  case (Cons m ms)
  then obtain st1 r st2 ds2 where *: "deliver_one en now qn v m st = (st1, Inr r)"
    "deliver_all en now qn v ms st1 = (st2, Inr ds2)" "ds = (case r of None \<Rightarrow> ds2 | Some x \<Rightarrow> x # ds2)"
    by (auto split: prod.splits sum.splits)
  from Cons.IH [OF *(2)] obtain xs where xs: "subseq xs ms"
    "list_all2 (\<lambda>d m. same_msg d m \<and> m_visible d = secs now + v) ds2 xs" by blast
  show ?case
  proof (cases r)
    case None
    then show ?thesis using * xs by auto
  next
    case (Some d)
    then show ?thesis using * xs deliver_one_same by (intro exI [of _ "m # xs"]) auto
  qed
qed auto

definition swept :: "int \<Rightarrow> queue \<Rightarrow> msg list" where
  "swept now q = q_messages (sqs_sweep_queue now q)"

lemma extract_from:
  assumes "sqs_extract_messages_for_delivery en now qn k st = (st', Inr ds)"
    and "map_of (sq_queues st) qn = Some q"
  obtains xs where "subseq xs (select_available now (sqs_sweep_queue now q) [] [] k (swept now q))"
    and "list_all2 (\<lambda>d m. same_msg d m \<and> m_visible d = secs now + or_default (q_visibility q) 30) ds xs"
proof -
  have v: "q_visibility (sqs_sweep_queue now q) = q_visibility q" by (simp add: sqs_sweep_queue_def Let_def)
  from assms obtain st1 where
    "deliver_all en now qn (or_default (q_visibility q) 30)
       (select_available now (sqs_sweep_queue now q) [] [] k (swept now q)) (upd_queue qn (sqs_sweep_queue now) st) = (st1, Inr ds)"
    by (auto simp: sqs_extract_messages_for_delivery_def Let_def dict_simps swept_def v split: prod.splits sum.splits)
  from deliver_all_same [OF this] show thesis using that by blast
qed

lemma sweep_fifo [simp]: "q_fifo (sqs_sweep_queue now q) = q_fifo q"
  by (simp add: sqs_sweep_queue_def Let_def)

lemma same_msg_maps:
  "list_all2 (\<lambda>d m. same_msg d m \<and> P d) ds xs \<Longrightarrow>
   length ds = length xs \<and> map group_of ds = map group_of xs \<and> map m_id ds = map m_id xs"
  by (induction rule: list_all2_induct) (auto simp: same_msg_def group_of_def)

lemma subseq_in: "subseq xs ys \<Longrightarrow> x \<in> set xs \<Longrightarrow> x \<in> set ys"
  by (erule list_emb_set) auto

lemma distinct_subseq: "subseq xs ys \<Longrightarrow> distinct (map f ys) \<Longrightarrow> distinct (map f xs)"
  by (induction rule: list_emb.induct) (auto dest: subseq_in)

lemma list_all2_in: "list_all2 P xs ys \<Longrightarrow> x \<in> set xs \<Longrightarrow> \<exists>y \<in> set ys. P x y"
  by (induction rule: list_all2_induct) auto

lemma sqs_receive_batch_from:
  assumes "sqs_extract_messages_for_delivery en now qn k st = (st', Inr ds)"
    and "map_of (sq_queues st) qn = Some q" and d: "d \<in> set ds"
  shows "m_inflight d \<and> m_visible d = secs now + or_default (q_visibility q) 30 \<and>
      (\<exists>m \<in> set (swept now q). \<not> m_inflight m \<and> m_id d = m_id m \<and> m_body d = m_body m \<and> m_receive d = m_receive m + 1)"
proof -
  let ?sel = "select_available now (sqs_sweep_queue now q) [] [] k (swept now q)"
  obtain xs where xs: "subseq xs ?sel"
    "list_all2 (\<lambda>d m. same_msg d m \<and> m_visible d = secs now + or_default (q_visibility q) 30) ds xs"
    using extract_from [OF assms(1,2)] by blast
  from list_all2_in [OF xs(2) d] obtain m where m: "m \<in> set xs" "same_msg d m"
    "m_visible d = secs now + or_default (q_visibility q) 30" by blast
  have sel: "m \<in> set ?sel" by (rule subseq_in [OF xs(1) m(1)])
  have "m \<in> set (swept now q)" by (rule subseq_in [OF select_subseq sel])
  moreover have "\<not> m_inflight m" using select_sound [OF sel] by simp
  ultimately show ?thesis using m(2,3) unfolding same_msg_def by blast
qed

section \<open>A concrete environment\<close>

definition sqs_demo_env :: sqs_env where
  "sqs_demo_env = \<lparr>uid = (\<lambda>n. replicate n (CHR ''i'')), sha = id, md5 = id, loads = (\<lambda>_. None)\<rparr>"

lemma inj_demo: "inj (uid sqs_demo_env)"
  by (auto simp: sqs_demo_env_def inj_def)

definition demo_req :: "string \<Rightarrow> bool \<Rightarrow> queue_req" where
  "demo_req n fifo = \<lparr>rq_name = n, rq_fifo = fifo, rq_cbd = False, rq_visibility = 30, rq_wait = 0,
     rq_retention = 345600, rq_max_size = 262144, rq_delay = 0, rq_redrive = PDict [], rq_tags = []\<rparr>"

definition demo_queue :: "string \<Rightarrow> bool \<Rightarrow> msg list \<Rightarrow> sqs_st" where
  "demo_queue n fifo ms =
     \<lparr>sq_queues = [(n, (new_queue 0 (demo_req n fifo) n fifo)\<lparr>q_messages := ms\<rparr>)], sq_ids = length ms\<rparr>"

definition demo_msg :: "nat \<Rightarrow> string \<Rightarrow> string \<Rightarrow> msg" where
  "demo_msg i grp dedup =
     (new_message sqs_demo_env 0 i (new_queue 0 (demo_req ''q'' True) ''q'' True) ''hello'' (PDict []) (PDict []) grp dedup [])"

definition demo_fifo :: sqs_st where
  "demo_fifo = demo_queue ''q.fifo'' True [demo_msg 0 ''a'' ''x'', demo_msg 1 ''a'' ''y'', demo_msg 2 ''b'' ''z'']"

lemma demo_fifo_receive:
  "case sqs_extract_messages_for_delivery sqs_demo_env 5000000 ''q.fifo'' 10 demo_fifo of
     (s, Inr ds) \<Rightarrow> map m_id ds = [''msg-'', ''msg-ii''] | _ \<Rightarrow> False"
  by code_simp

lemma demo_fifo_find:
  "map_of (sq_queues demo_fifo) ''q.fifo'' = Some (snd (hd (sq_queues demo_fifo)))"
  "0 \<le> q_visibility (snd (hd (sq_queues demo_fifo)))" "or_default (q_visibility (snd (hd (sq_queues demo_fifo)))) 30 = 30"
  by code_simp+

text \<open> One receive hands out at most the requested number of messages, each in flight with its
  count raised and a fresh visibility deadline; on a FIFO queue no two of them share a message group.\<close>

theorem sqs_receive_batch:
  assumes "sqs_extract_messages_for_delivery en now qn k st = (st', Inr ds)"
    and "map_of (sq_queues st) qn = Some q"
  shows "length ds \<le> max 1 k \<and>
         (\<forall>d \<in> set ds. m_inflight d \<and> m_visible d = secs now + or_default (q_visibility q) 30 \<and>
            (\<exists>m \<in> set (swept now q). \<not> m_inflight m \<and> m_id d = m_id m \<and> m_body d = m_body m \<and>
               m_receive d = m_receive m + 1)) \<and>
         (q_fifo q \<longrightarrow> distinct (map group_of ds))"
proof -
  let ?sel = "select_available now (sqs_sweep_queue now q) [] [] k (swept now q)"
  obtain xs where xs: "subseq xs ?sel"
    "list_all2 (\<lambda>d m. same_msg d m \<and> m_visible d = secs now + or_default (q_visibility q) 30) ds xs"
    using extract_from [OF assms] by blast
  have len: "length ds \<le> max 1 k"
    using same_msg_maps [OF xs(2)] list_emb_length [OF xs(1)] select_length [of now "sqs_sweep_queue now q" "[]" "[]" k "swept now q"] by simp
  have "distinct (map group_of ds)" if "q_fifo q"
  proof -
    have "distinct (map group_of ?sel)" using select_groups [of "sqs_sweep_queue now q"] that by simp
    from distinct_subseq [OF xs(1) this] show ?thesis using same_msg_maps [OF xs(2)] by simp
  qed
  with len sqs_receive_batch_from [OF assms] show ?thesis by blast
qed

theorem sqs_receive_batch_witness:
  "\<exists>st' ds. sqs_extract_messages_for_delivery sqs_demo_env 5000000 ''q.fifo'' 10 demo_fifo = (st', Inr ds) \<and>
     length ds = 2 \<and> length ds \<le> 10"
proof -
  obtain st' ds where e: "sqs_extract_messages_for_delivery sqs_demo_env 5000000 ''q.fifo'' 10 demo_fifo = (st', Inr ds)"
    and "map m_id ds = [''msg-'', ''msg-ii'']"
    using demo_fifo_receive by (auto split: prod.splits sum.splits)
  then have "length ds = 2" by (metis length_map length_Cons list.size(3) numeral_2_eq_2)
  moreover have "length ds \<le> 10" using sqs_receive_batch [OF e demo_fifo_find(1)] by simp
  ultimately show ?thesis using e by blast
qed

section \<open>The invariant of the queues\<close>

definition used_ids :: "sqs_env \<Rightarrow> nat \<Rightarrow> string set" where
  "used_ids en n = (\<lambda>i. ''msg-'' @ uid en i) ` {..<n}"

definition queue_ok :: "sqs_env \<Rightarrow> nat \<Rightarrow> string \<Rightarrow> queue \<Rightarrow> bool" where
  "queue_ok en n qn q \<longleftrightarrow> q_name q = qn \<and> distinct (map m_id (q_messages q)) \<and>
     set (map m_id (q_messages q)) \<subseteq> used_ids en n \<and>
     (q_fifo q \<longrightarrow> endswith qn ''.fifo'' \<and> (\<forall>m \<in> set (q_messages q). m_group m \<noteq> []))"

definition sqs_wf :: "sqs_env \<Rightarrow> sqs_st \<Rightarrow> bool" where
  "sqs_wf en st \<longleftrightarrow> (\<forall>qn q. map_of (sq_queues st) qn = Some q \<longrightarrow> queue_ok en (sq_ids st) qn q)"

text \<open>An update that keeps a queue's identity and may only lose messages.\<close>

definition idgrp :: "msg \<Rightarrow> string \<times> string" where
  "idgrp m = (m_id m, m_group m)"

definition shrinks :: "(queue \<Rightarrow> queue) \<Rightarrow> queue \<Rightarrow> bool" where
  "shrinks f q \<longleftrightarrow> q_name (f q) = q_name q \<and> q_fifo (f q) = q_fifo q \<and>
     subseq (map idgrp (q_messages (f q))) (map idgrp (q_messages q))"

lemma shrinks_ok:
  assumes "shrinks f q" "queue_ok en n qn q"
  shows "queue_ok en n qn (f q)"
proof -
  have *: "subseq (map idgrp (q_messages (f q))) (map idgrp (q_messages q))" using assms(1) by (simp add: shrinks_def)
  have ids: "map m_id ms = map fst (map idgrp ms)" for ms by (simp add: idgrp_def)
  have "distinct (map m_id (q_messages (f q)))"
    unfolding ids using distinct_subseq [OF *, of fst] assms(2) by (simp add: queue_ok_def ids)
  moreover have sub: "set (map idgrp (q_messages (f q))) \<subseteq> set (map idgrp (q_messages q))"
    using subseq_in [OF *] by blast
  moreover have "set (map m_id (q_messages (f q))) \<subseteq> used_ids en n"
  proof -
    have "set (map m_id (q_messages (f q))) \<subseteq> set (map m_id (q_messages q))"
      unfolding ids set_map [of fst] using sub by (rule image_mono)
    also have "\<dots> \<subseteq> used_ids en n" using assms(2) by (simp add: queue_ok_def)
    finally show ?thesis .
  qed
  moreover have "\<forall>m \<in> set (q_messages (f q)). m_group m \<noteq> []" if "\<forall>m \<in> set (q_messages q). m_group m \<noteq> []"
    using sub that by (auto simp: idgrp_def image_iff subset_iff) metis
  ultimately show ?thesis using assms unfolding queue_ok_def shrinks_def by simp
qed

lemma used_mono: "n \<le> n' \<Longrightarrow> used_ids en n \<subseteq> used_ids en n'"
  by (auto simp: used_ids_def)

lemma queue_ok_mono: "queue_ok en n qn q \<Longrightarrow> n \<le> n' \<Longrightarrow> queue_ok en n' qn q"
  using used_mono [of n n' en] by (auto simp: queue_ok_def)

lemma wf_upd:
  assumes "sqs_wf en st" "\<And>q. map_of (sq_queues st) qn = Some q \<Longrightarrow> shrinks f q"
  shows "sqs_wf en (upd_queue qn f st)"
  unfolding sqs_wf_def
proof (intro allI impI)
  fix k q assume q: "map_of (sq_queues (upd_queue qn f st)) k = Some q"
  show "queue_ok en (sq_ids (upd_queue qn f st)) k q"
  proof (cases "k = qn")
    case True
    then obtain q0 where "map_of (sq_queues st) qn = Some q0" "q = f q0" using q by (auto simp: dict_simps)
    then show ?thesis using assms True shrinks_ok [of f q0] by (auto simp: sqs_wf_def)
  next
    case False
    then show ?thesis using assms(1) q by (auto simp: sqs_wf_def dict_simps)
  qed
qed

lemma wf_ids: "sqs_wf en st \<Longrightarrow> sqs_wf en (st\<lparr>sq_ids := Suc (sq_ids st)\<rparr>)"
  using queue_ok_mono [of en "sq_ids st" _ _ "Suc (sq_ids st)"] by (auto simp: sqs_wf_def)

lemma idgrp_release [simp]: "idgrp (release now m) = idgrp m" "m_id (release now m) = m_id m"
  by (simp_all add: release_def idgrp_def)

lemma subseq_filter_map: "subseq (map f (filter P xs)) (map f xs)"
  by (intro subseq_map) simp

lemma shrinks_sweep: "shrinks (sqs_sweep_queue now) q"
proof -
  let ?a = "filter (\<lambda>m. \<not> expired now (or_default (q_retention q) 345600) m) (q_messages q)"
  have "subseq (map idgrp (filter (\<lambda>m. \<not> m_deleted m) (map (release now) ?a))) (map idgrp (map (release now) ?a))"
    by (rule subseq_filter_map)
  also have "map idgrp (map (release now) ?a) = map idgrp ?a" by simp
  also have "subseq (map idgrp ?a) (map idgrp (q_messages q))" by (rule subseq_filter_map)
  finally show ?thesis by (simp add: shrinks_def sqs_sweep_queue_def Let_def)
qed

lemma shrinks_upd_msg:
  assumes "\<And>m. m \<in> set (q_messages q) \<Longrightarrow> m_id m = mid \<Longrightarrow> idgrp (f m) = idgrp m"
  shows "shrinks (upd_msg mid f) q"
proof -
  have "map idgrp (q_messages (upd_msg mid f q)) = map idgrp (q_messages q)"
    using assms by (auto simp: upd_msg_def)
  then show ?thesis by (simp add: shrinks_def) (simp add: upd_msg_def)
qed

lemma shrinks_same: "q_name (f q) = q_name q \<Longrightarrow> q_fifo (f q) = q_fifo q \<Longrightarrow> q_messages (f q) = q_messages q \<Longrightarrow> shrinks f q"
  by (simp add: shrinks_def)

lemma sweep_messages: "q_messages (sqs_sweep_queue now q) = swept now q"
  by (simp add: swept_def)

lemma swept_ids: "set (map m_id (swept now q)) \<subseteq> set (map m_id (q_messages q))"
  by (auto simp: swept_def sqs_sweep_queue_def Let_def)

text \<open>The two ways an enqueue that is not an error can go.\<close>

lemma new_message_id [simp]:
  "m_id (new_message en now n q body attrs mattrs grp key source) = ''msg-'' @ uid en n"
  "m_group (new_message en now n q body attrs mattrs grp key source) = grp"
  by (simp_all add: new_message_def)

lemma enqueue_shape:
  assumes "sqs_enqueue_message en now qn body attrs mattrs grp dedup source st = (st', r)"
  shows "st' = upd_queue qn (sqs_sweep_queue now) st \<or>
    (\<exists>q m t. map_of (sq_queues (upd_queue qn (sqs_sweep_queue now) st)) qn = Some q \<and> (q_fifo q \<longrightarrow> grp \<noteq> []) \<and>
       m_id m = ''msg-'' @ uid en (sq_ids st) \<and> m_group m = grp \<and> r = Inr m \<and>
       st' = upd_queue qn (\<lambda>q. q\<lparr>q_messages := q_messages q @ [m], q_modified := t\<rparr>)
               ((upd_queue qn (sqs_sweep_queue now) st)\<lparr>sq_ids := Suc (sq_ids st)\<rparr>))"
proof (cases "map_of (sq_queues (upd_queue qn (sqs_sweep_queue now) st)) qn")
  case None
  then show ?thesis using assms by (simp add: sqs_enqueue_message_def Let_def)
next
  case (Some q)
  let ?key = "sqs_dedup_key en q body dedup"
  let ?m = "new_message en now (sq_ids st) q body attrs mattrs grp ?key source"
  consider "st' = upd_queue qn (sqs_sweep_queue now) st" |
    "q_fifo q \<longrightarrow> grp \<noteq> []" "r = Inr ?m"
    "st' = upd_queue qn (\<lambda>q. q\<lparr>q_messages := q_messages q @ [?m], q_modified := secs now\<rparr>)
               ((upd_queue qn (sqs_sweep_queue now) st)\<lparr>sq_ids := Suc (sq_ids st)\<rparr>)"
    using assms Some unfolding sqs_enqueue_message_def Let_def by (simp split: option.splits if_splits)
  then show ?thesis
  proof cases
    case 2
    then show ?thesis using Some by (intro disjI2 exI [of _ q] exI [of _ ?m] exI [of _ "secs now"]) simp
  qed simp
qed

lemma enqueue_wf:
  assumes wf: "sqs_wf en st" and inj: "inj (uid en)"
    and e: "sqs_enqueue_message en now qn body attrs mattrs grp dedup source st = (st', r)"
  shows "sqs_wf en st'"
proof -
  have sw: "sqs_wf en (upd_queue qn (sqs_sweep_queue now) st)" using wf by (intro wf_upd shrinks_sweep)
  have add: "sqs_wf en (upd_queue qn (\<lambda>q. q\<lparr>q_messages := q_messages q @ [m], q_modified := t\<rparr>) (s\<lparr>sq_ids := Suc (sq_ids s)\<rparr>))"
    if s: "sqs_wf en s" "map_of (sq_queues s) qn = Some q" and m: "m_id m = ''msg-'' @ uid en (sq_ids s)"
      and g: "q_fifo q \<longrightarrow> m_group m \<noteq> []" for s q m t
  proof -
    have new: "''msg-'' @ uid en (sq_ids s) \<notin> used_ids en (sq_ids s)"
      using inj by (auto simp: used_ids_def inj_def)
    have up: "''msg-'' @ uid en (sq_ids s) \<in> used_ids en (Suc (sq_ids s))" by (auto simp: used_ids_def)
    have "queue_ok en (sq_ids s) qn q" using s by (simp add: sqs_wf_def)
    then have "queue_ok en (Suc (sq_ids s)) qn (q\<lparr>q_messages := q_messages q @ [m], q_modified := t\<rparr>)"
      using new up m g used_mono [of "sq_ids s" "Suc (sq_ids s)" en] by (auto simp: queue_ok_def)
    then show ?thesis using wf_ids [OF s(1)] s(2) by (auto simp: sqs_wf_def dict_simps)
  qed
  show ?thesis
    using enqueue_shape [OF e] sw add [OF sw] by auto
qed

lemma redrive_wf:
  assumes "sqs_wf en st" "inj (uid en)" "sqs_redrive en now q m st = (st', r)"
  shows "sqs_wf en st'"
proof (cases "sqs_redrive_queue_name q")
  case (Inl e)
  then show ?thesis using assms by (simp add: sqs_redrive_def)
next
  case (Inr n)
  show ?thesis
  proof (cases "if n = [] then None else sqs_find_queue st n")
    case None
    then show ?thesis using assms Inr by (simp add: sqs_redrive_def del: if_split)
  next
    case (Some dn)
    obtain s2 r2 where e: "sqs_enqueue_message en now dn (m_body m) (m_attrs m) (m_mattrs m)
                       (m_group m) (m_dedup m) (''redrive:'' @ q_name q) st = (s2, r2)" by force
    have "st' = s2" using assms(3) Inr Some e by (cases r2) (simp_all add: sqs_redrive_def)
    then show ?thesis using enqueue_wf [OF assms(1,2) e] by simp
  qed
qed

lemma shrinks_count: "shrinks (upd_msg mid (m_receive_update f)) q"
  by (rule shrinks_upd_msg) (simp add: idgrp_def)

lemma shrinks_deleted: "shrinks (upd_msg mid (m_deleted_update f)) q"
  by (rule shrinks_upd_msg) (simp add: idgrp_def)

lemma shrinks_delivered: "shrinks (upd_msg mid (mark_delivered rh t)) q"
  by (rule shrinks_upd_msg) (simp add: idgrp_def mark_delivered_def)

text \<open>The three ways one delivery can go; \<open>s\<close> is the state with the count raised.\<close>

lemma deliver_one_shape:
  assumes "deliver_one en now qn v m st = (st', r)"
    and s: "s = upd_queue qn (upd_msg (m_id m) (m_receive_update (\<lambda>c. c + 1))) st"
  shows "(st' = s \<and> (\<exists>e. r = Inl e)) \<or>
    (\<exists>q s2 r2. sqs_redrive en now q m s = (s2, r2) \<and>
       (st' = s2 \<and> (\<exists>e. r = Inl e) \<or> st' = upd_queue qn (upd_msg (m_id m) (m_deleted_update (\<lambda>_. True))) s2 \<and> r = Inr None)) \<or>
    (\<exists>rh. st' = upd_queue qn (upd_msg (m_id m) (mark_delivered rh (secs now + v))) (s\<lparr>sq_ids := Suc (sq_ids s)\<rparr>) \<and>
       (\<exists>d. r = Inr (Some d)))"
proof (cases "map_of (sq_queues s) qn")
  case None
  then show ?thesis using assms(1) by (auto simp: deliver_one_def Let_def s [symmetric])
next
  case (Some q)
  show ?thesis
  proof (cases "max_receive_count q")
    case (Inl e)
    then show ?thesis using assms(1) Some by (auto simp: deliver_one_def Let_def s [symmetric])
  next
    case (Inr mr)
    obtain s2 r2 where r2: "sqs_redrive en now q m s = (s2, r2)" by force
    show ?thesis
    proof (cases "mr \<noteq> 0 \<and> m_receive m + 1 > mr")
      case True
      then have "st' = s2 \<and> (\<exists>e. r = Inl e) \<or> st' = upd_queue qn (upd_msg (m_id m) (m_deleted_update (\<lambda>_. True))) s2 \<and> r = Inr None"
        using assms(1) Some Inr r2 by (cases r2) (auto simp: deliver_one_def Let_def s [symmetric])
      then show ?thesis using r2 by blast
    next
      case False
      then show ?thesis using assms(1) Some Inr by (auto simp: deliver_one_def Let_def s [symmetric])
    qed
  qed
qed

lemma deliver_one_wf:
  assumes wf: "sqs_wf en st" and inj: "inj (uid en)" and d: "deliver_one en now qn v m st = (st', r)"
  shows "sqs_wf en st'"
proof -
  define s where "s = upd_queue qn (upd_msg (m_id m) (m_receive_update (\<lambda>c. c + 1))) st"
  have s: "sqs_wf en s" unfolding s_def using wf by (intro wf_upd shrinks_count)
  from deliver_one_shape [OF d s_def] consider "st' = s" |
    q s2 r2 where "sqs_redrive en now q m s = (s2, r2)"
      "st' = s2 \<or> st' = upd_queue qn (upd_msg (m_id m) (m_deleted_update (\<lambda>_. True))) s2" |
    rh where "st' = upd_queue qn (upd_msg (m_id m) (mark_delivered rh (secs now + v))) (s\<lparr>sq_ids := Suc (sq_ids s)\<rparr>)"
    by blast
  then show ?thesis
  proof cases
    case 2
    have "sqs_wf en s2" by (rule redrive_wf [OF s inj 2(1)])
    then show ?thesis using 2(2) by (auto intro: wf_upd shrinks_deleted)
  next
    case 3
    then show ?thesis using wf_ids [OF s] by (auto intro: wf_upd shrinks_delivered)
  qed (use s in simp)
qed

lemma deliver_all_wf:
  "sqs_wf en st \<Longrightarrow> inj (uid en) \<Longrightarrow> deliver_all en now qn v ms st = (st', r) \<Longrightarrow> sqs_wf en st'"
proof (induction ms arbitrary: st st' r)
  case (Cons m ms)
  obtain s1 r1 where d: "deliver_one en now qn v m st = (s1, r1)" by force
  note w = deliver_one_wf [OF Cons.prems(1,2) d]
  show ?case
  proof (cases r1)
    case (Inl e)
    then show ?thesis using Cons.prems(3) d w by simp
  next
    case (Inr x)
    obtain s2 r2 where a: "deliver_all en now qn v ms s1 = (s2, r2)" by force
    have "st' = s2" using Cons.prems(3) d Inr a by (cases r2) auto
    then show ?thesis using Cons.IH [OF w Cons.prems(2) a] by simp
  qed
qed simp

lemma extract_wf:
  assumes "sqs_wf en st" "inj (uid en)" "sqs_extract_messages_for_delivery en now qn k st = (st', r)"
  shows "sqs_wf en st'"
proof -
  let ?s = "upd_queue qn (sqs_sweep_queue now) st"
  have w: "sqs_wf en ?s" using assms(1) by (intro wf_upd shrinks_sweep)
  show ?thesis
  proof (cases "map_of (sq_queues ?s) qn")
    case None
    then show ?thesis using assms(3) w by (simp add: sqs_extract_messages_for_delivery_def Let_def)
  next
    case (Some q)
    obtain s1 r1 where d: "deliver_all en now qn (or_default (q_visibility q) 30)
        (select_available now q [] [] k (q_messages q)) ?s = (s1, r1)" by force
    note w1 = deliver_all_wf [OF w assms(2) d]
    have "st' = s1 \<or> st' = upd_queue qn (q_modified_update (\<lambda>_. secs now)) s1"
      using assms(3) Some d by (cases r1) (simp_all add: sqs_extract_messages_for_delivery_def Let_def)
    then show ?thesis using w1 by (auto intro!: wf_upd shrinks_same)
  qed
qed

section \<open>Histories of calls\<close>

text \<open>One call of the service, at any time and with any arguments.\<close>

inductive sqs_step :: "sqs_env \<Rightarrow> sqs_st \<Rightarrow> sqs_st \<Rightarrow> bool" for en where
  create: "api_sqs_create_queue now rq st = (st', r) \<Longrightarrow> sqs_step en st st'"
| remove: "sqs_delete_queue name st = (st', u) \<Longrightarrow> sqs_step en st st'"
| update: "api_sqs_update_queue en now name payload tags st = (st', u) \<Longrightarrow> sqs_step en st st'"
| send: "api_sqs_send_message en now name body ma mm grp dedup st = (st', s) \<Longrightarrow> sqs_step en st st'"
| receive: "api_sqs_receive_message en now name n vt st = (st', ds) \<Longrightarrow> sqs_step en st st'"
| delete: "api_sqs_delete_message now name rh st = (st', u) \<Longrightarrow> sqs_step en st st'"
| visibility: "api_sqs_change_visibility now name rh t st = (st', u) \<Longrightarrow> sqs_step en st st'"
| purge: "api_sqs_purge now name st = (st', u) \<Longrightarrow> sqs_step en st st'"
| tag: "api_sqs_tag_queue now name kvs st = (st', u) \<Longrightarrow> sqs_step en st st'"
| untag: "api_sqs_untag_queue now name ks st = (st', u) \<Longrightarrow> sqs_step en st st'"
| get: "api_sqs_get_queue dumps now name st = (st', v) \<Longrightarrow> sqs_step en st st'"

definition no_queues :: sqs_st where
  "no_queues = \<lparr>sq_queues = [], sq_ids = 0\<rparr>"

lemma on_queue_wf:
  assumes "on_queue name f st = (st', r)" "sqs_wf en st"
    "\<And>qn s r. f qn st = (s, r) \<Longrightarrow> sqs_wf en s"
  shows "sqs_wf en st'"
  using assms by (auto simp: on_queue_def split: option.splits)

lemma shrinks_map_msg: "(\<And>m. idgrp (g m) = idgrp m) \<Longrightarrow> shrinks (\<lambda>q. q\<lparr>q_messages := map g (q_messages q)\<rparr>) q"
  by (simp add: shrinks_def comp_def)

lemma shrinks_comp: "shrinks f q \<Longrightarrow> shrinks g (f q) \<Longrightarrow> shrinks (\<lambda>q. g (f q)) q"
  unfolding shrinks_def by (metis subseq_order.trans)

lemma shrinks_keep: "shrinks (\<lambda>q. q\<lparr>q_messages := filter P (q_messages q), q_modified := t\<rparr>) q"
  by (simp add: shrinks_def subseq_filter_map)

lemma shrinks_modified: "shrinks (\<lambda>q. q\<lparr>q_modified := t\<rparr>) q"
  by (rule shrinks_same) simp_all

lemma delete_message_wf:
  assumes "sqs_delete_message now rh qn st = (st', b)" "sqs_wf en st"
  shows "sqs_wf en st'"
proof -
  have "sqs_wf en (upd_queue qn (\<lambda>q. (upd_msg mid (m_deleted_update (\<lambda>_. True)) q)
          \<lparr>q_messages := filter (\<lambda>x. \<not> m_deleted x) (q_messages (upd_msg mid (m_deleted_update (\<lambda>_. True)) q)),
           q_modified := secs now\<rparr>) st)" for mid
    by (rule wf_upd [OF assms(2)]) (rule shrinks_comp [OF shrinks_deleted shrinks_keep])
  then show ?thesis using assms by (auto simp: sqs_delete_message_def split: option.splits)
qed

lemma visibility_wf:
  assumes "sqs_change_message_visibility now rh vt qn st = (st', b)" "sqs_wf en st"
  shows "sqs_wf en st'"
proof -
  have "shrinks (upd_msg mid (m_visible_update (\<lambda>_. t))) q" for mid t q
    by (rule shrinks_upd_msg) (simp add: idgrp_def)
  then have "sqs_wf en (upd_queue qn (\<lambda>q. (upd_msg mid (m_visible_update (\<lambda>_. t)) q)\<lparr>q_modified := u\<rparr>) st)" for mid t u
    by (intro wf_upd [OF assms(2)] shrinks_comp [OF _ shrinks_modified])
  then show ?thesis using assms by (auto simp: sqs_change_message_visibility_def split: option.splits)
qed

lemma set_visible_wf: "sqs_wf en st \<Longrightarrow> sqs_wf en (set_visible now vt qn ids st)"
  unfolding set_visible_def by (erule wf_upd) (rule shrinks_map_msg, simp add: idgrp_def)

text \<open>Attribute updates keep the name, the kind and the messages.\<close>

definition core :: "queue \<Rightarrow> string \<times> bool \<times> msg list" where
  "core q = (q_name q, q_fifo q, q_messages q)"

lemma core_set_int: "(\<And>v q. core (u v q) = core q) \<Longrightarrow> core (fst (set_int k lo u p qr)) = core (fst qr)"
  by (auto simp: set_int_def split: prod.splits sum.splits)

lemma core_set_redrive: "core (fst (set_redrive en p qr)) = core (fst qr)"
proof -
  obtain q r where qr: "qr = (q, r)" by force
  have "core (q\<lparr>q_redrive := v\<rparr>) = core q" for v by (simp add: core_def)
  then show ?thesis unfolding qr
    by (cases r; cases "py_or (pget p ''RedrivePolicy'') (PDict [])") (simp_all add: set_redrive_def split: option.splits)
qed

lemma core_set_cbd: "core (fst (set_cbd now p qr)) = core (fst qr)"
  by (auto simp: set_cbd_def core_def Let_def split: prod.splits sum.splits)

lemma core_update: "core (fst (sqs_update_queue_attributes en now p q)) = core q"
  unfolding sqs_update_queue_attributes_def Let_def core_set_cbd core_set_redrive
  by (subst core_set_int, simp add: core_def)+ simp

lemma core_shrinks: "core (f q) = core q \<Longrightarrow> shrinks f q"
  by (rule shrinks_same) (simp_all add: core_def)

lemma update_wf:
  assumes "api_sqs_update_queue en now name p tags st = (st', r)" "sqs_wf en st"
  shows "sqs_wf en st'"
proof (cases "sqs_find_queue st name")
  case (Some qn)
  show ?thesis
  proof (cases "map_of (sq_queues st) qn")
    case q: (Some q0)
    let ?q1 = "case tags of None \<Rightarrow> q0 | Some t \<Rightarrow> q0\<lparr>q_tags := t\<rparr>"
    obtain q2 u where u: "sqs_update_queue_attributes en now p ?q1 = (q2, u)" by force
    have "core q2 = core q0"
      using core_update [of en now p ?q1] u by (cases tags) (simp_all add: core_def)
    then have "shrinks (\<lambda>_. q2) q0" "shrinks (\<lambda>_. sqs_sweep_queue now q2) q0"
      using core_shrinks [of "\<lambda>_. q2" q0] shrinks_comp [of "\<lambda>_. q2" q0, OF _ shrinks_sweep] by simp_all
    then have "shrinks (\<lambda>_. case u of Inl _ \<Rightarrow> q2 | Inr _ \<Rightarrow> sqs_sweep_queue now q2) q0"
      by (simp split: sum.splits)
    then have "sqs_wf en (upd_queue qn (\<lambda>_. case u of Inl _ \<Rightarrow> q2 | Inr _ \<Rightarrow> sqs_sweep_queue now q2) st)"
      using assms(2) q by (intro wf_upd) auto
    then show ?thesis using assms(1) Some q u by (auto simp: api_sqs_update_queue_def)
  qed (use assms Some in \<open>simp add: api_sqs_update_queue_def\<close>)
qed (use assms in \<open>simp add: api_sqs_update_queue_def\<close>)

lemma create_wf:
  assumes "api_sqs_create_queue now rq st = (st', r)" "sqs_wf en st"
  shows "sqs_wf en st'"
proof -
  obtain s u where c: "sqs_create_queue_record now rq st = (s, u)" by force
  obtain f n where fn: "fifo_name (rq_fifo rq) (strip (rq_name rq)) = (f, n)" by force
  then have e: "f \<longrightarrow> endswith n ''.fifo''"
    using endswith_append [of "strip (rq_name rq)" "''.fifo''"] by (auto simp: fifo_name_def Let_def)
  have "s = st \<or> s = st\<lparr>sq_queues := dset n (new_queue now rq n f) (sq_queues st)\<rparr>"
    using c fn by (auto simp: sqs_create_queue_record_def Let_def split: sum.splits if_splits)
  moreover have "sqs_wf en (st\<lparr>sq_queues := dset n (new_queue now rq n f) (sq_queues st)\<rparr>)"
    if "f \<longrightarrow> endswith n ''.fifo''" for n f
    using assms(2) that by (simp add: sqs_wf_def dict_simps queue_ok_def new_queue_def)
  ultimately have "sqs_wf en s" using assms(2) e by fast
  then show ?thesis
    using assms(1) c by (cases u) (auto simp: api_sqs_create_queue_def intro: wf_upd shrinks_sweep)
qed

lemma receive_wf:
  assumes "api_sqs_receive_message en now name n vt st = (st', r)" "sqs_wf en st" "inj (uid en)"
  shows "sqs_wf en st'"
proof (rule on_queue_wf [OF assms(1) [unfolded api_sqs_receive_message_def] assms(2)])
  fix qn s u
  obtain s1 r1 where e: "sqs_extract_messages_for_delivery en now qn (batch_size n) st = (s1, r1)" by force
  assume "(case sqs_extract_messages_for_delivery en now qn (batch_size n) st of
         (st', Inl e) \<Rightarrow> (st', Inl e)
       | (st', Inr ds) \<Rightarrow>
           (case vt of
              None \<Rightarrow> (st', Inr ds)
            | Some v \<Rightarrow> (set_visible now v qn (map m_id ds) st', Inr (map (m_visible_update (\<lambda>_. secs now + max 0 v)) ds)))) = (s, u)"
  then show "sqs_wf en s" using e extract_wf [OF assms(2,3) e]
    by (cases r1; cases vt) (auto intro: set_visible_wf)
qed

text \<open>The calls keep the invariant.\<close>

lemma sqs_step_wf: "sqs_step en st st' \<Longrightarrow> inj (uid en) \<Longrightarrow> sqs_wf en st \<Longrightarrow> sqs_wf en st'"
proof (induction rule: sqs_step.induct)
  case (remove name st st' u)
  then show ?case by (auto simp: sqs_delete_queue_def sqs_wf_def dict_simps split: option.splits if_splits)
next
  case (send now name body ma mm grp dedup st st' s)
  show ?case by (rule on_queue_wf [OF send(1) [unfolded api_sqs_send_message_def] send(3)])
    (rule enqueue_wf [OF send(3,2)])
next
  case (delete now name rh st st' u)
  show ?case by (rule on_queue_wf [OF delete(1) [unfolded api_sqs_delete_message_def] delete(3)])
    (auto simp: Let_def split: prod.splits intro: delete_message_wf delete(3))
next
  case (visibility now name rh t st st' u)
  show ?case by (rule on_queue_wf [OF visibility(1) [unfolded api_sqs_change_visibility_def] visibility(3)])
    (auto simp: Let_def split: prod.splits intro: visibility_wf visibility(3))
next
  case (purge now name st st' u)
  have "shrinks (sqs_purge_queue now) q" for q by (simp add: shrinks_def sqs_purge_queue_def)
  then show ?case using purge
    by (intro on_queue_wf [OF purge(1) [unfolded api_sqs_purge_def] purge(3)]) (auto intro: wf_upd)
next
  case (tag now name kvs st st' u)
  have "shrinks (\<lambda>q. sqs_set_tags now (g q) q) q" for g q by (rule shrinks_same) (simp_all add: sqs_set_tags_def)
  then show ?case using tag
    by (intro on_queue_wf [OF tag(1) [unfolded api_sqs_tag_queue_def] tag(3)]) (auto intro: wf_upd)
next
  case (untag now name ks st st' u)
  have "shrinks (\<lambda>q. sqs_set_tags now (g q) q) q" for g q by (rule shrinks_same) (simp_all add: sqs_set_tags_def)
  then show ?case using untag
    by (intro on_queue_wf [OF untag(1) [unfolded api_sqs_untag_queue_def] untag(3)]) (auto intro: wf_upd)
next
  case (get dumps now name st st' v)
  show ?case by (rule on_queue_wf [OF get(1) [unfolded api_sqs_get_queue_def] get(3)])
    (auto split: option.splits intro: wf_upd shrinks_sweep get(3))
qed (auto intro: create_wf update_wf receive_wf)

section \<open>A delivered message stays hidden\<close>

definition held :: "string \<Rightarrow> int \<Rightarrow> queue \<Rightarrow> bool" where
  "held i t q \<longleftrightarrow> (\<forall>m \<in> set (q_messages q). m_id m = i \<longrightarrow> m_inflight m \<and> m_visible m = t)"

definition held_in :: "string \<Rightarrow> string \<Rightarrow> int \<Rightarrow> sqs_st \<Rightarrow> bool" where
  "held_in qn i t st \<longleftrightarrow> (\<forall>q. map_of (sq_queues st) qn = Some q \<longrightarrow> held i t q)"

lemma held_upd: "held_in qn i t st \<Longrightarrow> (\<And>q. held i t q \<Longrightarrow> held i t (f q)) \<Longrightarrow> held_in qn i t (upd_queue k f st)"
  by (auto simp: held_in_def dict_simps)

lemma held_sweep: "held i t q \<Longrightarrow> now < t * 1000000 \<Longrightarrow> held i t (sqs_sweep_queue now q)"
  by (auto simp: held_def sqs_sweep_queue_def Let_def release_def)

lemma held_in_ids [simp]: "held_in qn i t (st\<lparr>sq_ids := n\<rparr>) = held_in qn i t st"
  by (simp add: held_in_def)

lemma held_other: "held i t q \<Longrightarrow> mid \<noteq> i \<Longrightarrow> (\<And>m. m_id (f m) = m_id m) \<Longrightarrow> held i t (upd_msg mid f q)"
  by (auto simp: held_def upd_msg_def)

text \<open>What one delivery of another message keeps.\<close>

definition hides :: "sqs_env \<Rightarrow> int \<Rightarrow> string \<Rightarrow> string \<Rightarrow> int \<Rightarrow> sqs_st \<Rightarrow> bool" where
  "hides en now qn i t st \<longleftrightarrow> held_in qn i t st \<and> i \<in> used_ids en (sq_ids st) \<and> now < t * 1000000"

lemma enqueue_hides:
  assumes h: "hides en now qn i t st" and inj: "inj (uid en)"
    and e: "sqs_enqueue_message en now k body attrs mattrs grp dedup source st = (st', r)"
  shows "hides en now qn i t st'"
proof -
  have s: "held_in qn i t (upd_queue k (sqs_sweep_queue now) st)"
    using h by (intro held_upd) (auto simp: hides_def intro: held_sweep)
  have "''msg-'' @ uid en (sq_ids st) \<noteq> i"
    using h inj by (auto simp: hides_def used_ids_def inj_def)
  then have "held_in qn i t (upd_queue k (\<lambda>q. q\<lparr>q_messages := q_messages q @ [m], q_modified := u\<rparr>)
      ((upd_queue k (sqs_sweep_queue now) st)\<lparr>sq_ids := Suc (sq_ids st)\<rparr>))"
    if "m_id m = ''msg-'' @ uid en (sq_ids st)" for m u
    using that s by (intro held_upd) (auto simp: held_def)
  then show ?thesis
    using enqueue_shape [OF e] s h used_mono [of "sq_ids st" "Suc (sq_ids st)" en] by (auto simp: hides_def)
qed

lemma hides_upd: "hides en now qn i t st \<Longrightarrow> (\<And>q. held i t q \<Longrightarrow> held i t (f q)) \<Longrightarrow> hides en now qn i t (upd_queue k f st)"
  by (auto simp: hides_def intro: held_upd)

lemma hides_ids: "hides en now qn i t st \<Longrightarrow> hides en now qn i t (st\<lparr>sq_ids := Suc (sq_ids st)\<rparr>)"
  using used_mono [of "sq_ids st" "Suc (sq_ids st)" en] by (auto simp: hides_def)

lemma redrive_hides:
  assumes "hides en now qn i t st" "inj (uid en)" "sqs_redrive en now q m st = (st', r)"
  shows "hides en now qn i t st'"
proof -
  have "hides en now qn i t s" if "sqs_enqueue_message en now dn (m_body m) (m_attrs m) (m_mattrs m)
                       (m_group m) (m_dedup m) (''redrive:'' @ q_name q) st = (s, u)" for dn s u
    by (rule enqueue_hides [OF assms(1,2) that])
  then show ?thesis using assms(1,3) by (auto simp: sqs_redrive_def split: sum.splits option.splits prod.splits if_splits)
qed

lemma deliver_one_hides:
  assumes h: "hides en now qn i t st" and inj: "inj (uid en)" and ne: "m_id m \<noteq> i"
    and d: "deliver_one en now k v m st = (st', r)"
  shows "hides en now qn i t st'"
proof -
  define s where "s = upd_queue k (upd_msg (m_id m) (m_receive_update (\<lambda>c. c + 1))) st"
  have s: "hides en now qn i t s" unfolding s_def using h ne by (intro hides_upd held_other) auto
  from deliver_one_shape [OF d s_def] consider "st' = s" |
    q s2 r2 where "sqs_redrive en now q m s = (s2, r2)"
      "st' = s2 \<or> st' = upd_queue k (upd_msg (m_id m) (m_deleted_update (\<lambda>_. True))) s2" |
    rh where "st' = upd_queue k (upd_msg (m_id m) (mark_delivered rh (secs now + v))) (s\<lparr>sq_ids := Suc (sq_ids s)\<rparr>)"
    by blast
  then show ?thesis
  proof cases
    case 2
    have s2: "hides en now qn i t s2" by (rule redrive_hides [OF s inj 2(1)])
    have "hides en now qn i t (upd_queue k (upd_msg (m_id m) (m_deleted_update (\<lambda>_. True))) s2)"
      using s2 ne by (intro hides_upd held_other) auto
    then show ?thesis using 2(2) s2 by auto
  next
    case 3
    show ?thesis unfolding 3 using hides_ids [OF s] ne by (intro hides_upd held_other) (auto simp: mark_delivered_def)
  qed (use s in simp)
qed

lemma deliver_all_hides:
  "hides en now qn i t st \<Longrightarrow> inj (uid en) \<Longrightarrow> i \<notin> set (map m_id ms) \<Longrightarrow>
   deliver_all en now k v ms st = (st', r) \<Longrightarrow> hides en now qn i t st'"
proof (induction ms arbitrary: st st' r)
  case (Cons m ms)
  obtain s1 r1 where d: "deliver_one en now k v m st = (s1, r1)" by force
  have w: "hides en now qn i t s1" using deliver_one_hides [OF Cons.prems(1,2) _ d] Cons.prems(3) by auto
  obtain s2 r2 where a: "deliver_all en now k v ms s1 = (s2, r2)" by force
  have "st' = s1 \<or> st' = s2" using Cons.prems(4) d a by (auto split: sum.splits)
  then show ?case using Cons.IH [OF w Cons.prems(2) _ a] Cons.prems(3) w by auto
qed simp

lemma redrive_ids: "sqs_redrive en now q m st = (st', r) \<Longrightarrow> sq_ids st \<le> sq_ids st'"
  by (auto simp: sqs_redrive_def dest!: enqueue_shape split: sum.splits option.splits prod.splits if_splits)

lemma deliver_one_ids:
  assumes "deliver_one en now k v m st = (st', r)"
  shows "sq_ids st \<le> sq_ids st'"
  using deliver_one_shape [OF assms refl] redrive_ids by fastforce

text \<open>Every message handed out is hidden afterwards.\<close>

lemma mark_delivered_sel [simp]:
  "m_id (mark_delivered rh t m) = m_id m" "m_inflight (mark_delivered rh t m)" "m_visible (mark_delivered rh t m) = t"
  by (simp_all add: mark_delivered_def)

lemma held_delivered: "held i t (upd_msg i (mark_delivered rh t) q)"
  unfolding held_def
proof (intro ballI impI)
  fix m assume *: "m \<in> set (q_messages (upd_msg i (mark_delivered rh t) q))" and m: "m_id m = i"
  have "q_messages (upd_msg i (mark_delivered rh t) q) =
      map (\<lambda>x. if m_id x = i then mark_delivered rh t x else x) (q_messages q)" by (simp add: upd_msg_def)
  with * have "m \<in> (\<lambda>x. if m_id x = i then mark_delivered rh t x else x) ` set (q_messages q)"
    by (simp only: set_map)
  then obtain x where "m = (if m_id x = i then mark_delivered rh t x else x)" by (rule imageE)
  then show "m_inflight m \<and> m_visible m = t" using m by (cases "m_id x = i") simp_all
qed

lemma deliver_one_delivers:
  assumes "deliver_one en now qn v m st = (st', Inr (Some d))" "m_id m \<in> used_ids en (sq_ids st)"
    "now < (secs now + v) * 1000000"
  shows "hides en now qn (m_id d) (secs now + v) st'"
proof -
  have id: "m_id d = m_id m" using deliver_one_same [OF assms(1)] by (simp add: same_msg_def)
  define s where "s = upd_queue qn (upd_msg (m_id m) (m_receive_update (\<lambda>c. c + 1))) st"
  have *: "held_in qn i t (upd_queue qn (upd_msg i (mark_delivered rh t)) s)" for i t rh s
    using held_delivered by (auto simp: held_in_def dict_simps)
  from deliver_one_shape [OF assms(1) s_def] obtain rh where
    st': "st' = upd_queue qn (upd_msg (m_id m) (mark_delivered rh (secs now + v))) (s\<lparr>sq_ids := Suc (sq_ids s)\<rparr>)"
    by blast
  have "m_id m \<in> used_ids en (sq_ids st')"
    using subsetD [OF used_mono assms(2), of "sq_ids st'"] by (simp add: st' s_def)
  then show ?thesis unfolding hides_def id using * assms(3) by (simp add: st')
qed

lemma deliver_all_delivers:
  "inj (uid en) \<Longrightarrow> distinct (map m_id ms) \<Longrightarrow> set (map m_id ms) \<subseteq> used_ids en (sq_ids st) \<Longrightarrow>
   now < (secs now + v) * 1000000 \<Longrightarrow> deliver_all en now qn v ms st = (st', Inr ds) \<Longrightarrow>
   \<forall>d \<in> set ds. hides en now qn (m_id d) (secs now + v) st'"
proof (induction ms arbitrary: st st' ds)
  case (Cons m ms)
  from Cons.prems(5) obtain s1 r ds2 where d: "deliver_one en now qn v m st = (s1, Inr r)"
    and a: "deliver_all en now qn v ms s1 = (st', Inr ds2)" and ds: "ds = (case r of None \<Rightarrow> ds2 | Some x \<Rightarrow> x # ds2)"
    by (auto split: prod.splits sum.splits)
  have "set (map m_id ms) \<subseteq> used_ids en (sq_ids s1)"
    using Cons.prems(3) used_mono [OF deliver_one_ids [OF d], of en] by auto
  then have rest: "\<forall>d \<in> set ds2. hides en now qn (m_id d) (secs now + v) st'"
    using Cons.IH [OF Cons.prems(1) _ _ Cons.prems(4) a] Cons.prems(2) by auto
  show ?case
  proof (cases r)
    case (Some x)
    have "m_id x = m_id m" using deliver_one_same d Some by (auto simp: same_msg_def)
    moreover have "hides en now qn (m_id x) (secs now + v) s1"
      using deliver_one_delivers [of en now qn v m st s1 x] d Some Cons.prems(3,4) by auto
    ultimately have "hides en now qn (m_id x) (secs now + v) st'"
      using deliver_all_hides [OF _ Cons.prems(1) _ a] Cons.prems(2) by auto
    then show ?thesis using rest Some ds by simp
  qed (use rest ds in simp)
qed simp

lemma extract_hides:
  assumes wf: "sqs_wf en st" and inj: "inj (uid en)" and q: "map_of (sq_queues st) qn = Some q" "0 \<le> q_visibility q"
    and e: "sqs_extract_messages_for_delivery en now qn k st = (st', Inr ds)" and d: "d \<in> set ds"
  shows "held_in qn (m_id d) (secs now + or_default (q_visibility q) 30) st'"
proof -
  let ?s = "upd_queue qn (sqs_sweep_queue now) st" and ?v = "or_default (q_visibility q) 30"
  let ?sel = "select_available now (sqs_sweep_queue now q) [] [] k (swept now q)"
  have v: "q_visibility (sqs_sweep_queue now q) = q_visibility q" by (simp add: sqs_sweep_queue_def Let_def)
  obtain s1 where a: "deliver_all en now qn ?v ?sel ?s = (s1, Inr ds)"
    and st': "st' = upd_queue qn (q_modified_update (\<lambda>_. secs now)) s1"
    using e q by (auto simp: sqs_extract_messages_for_delivery_def Let_def dict_simps sweep_messages v split: prod.splits sum.splits)
  have ok: "queue_ok en (sq_ids st) qn (sqs_sweep_queue now q)"
    using shrinks_ok [OF shrinks_sweep] wf q(1) by (simp add: sqs_wf_def)
  have "distinct (map m_id ?sel)"
    using distinct_subseq [OF select_subseq] ok by (auto simp: queue_ok_def sweep_messages)
  moreover have "set (map m_id ?sel) \<subseteq> used_ids en (sq_ids ?s)"
    using ok subseq_in [OF select_subseq] by (auto simp: queue_ok_def sweep_messages)
  moreover have "now < (secs now + ?v) * 1000000"
    using q(2) by (simp add: secs_def or_default_def) linarith
  ultimately have "hides en now qn (m_id d) (secs now + ?v) s1"
    using deliver_all_delivers [OF inj _ _ _ a] d by blast
  then show ?thesis unfolding st' by (intro held_upd) (auto simp: hides_def held_def)
qed

text \<open> A message that was received is not handed out again by a later receive on the queue before its
  visibility deadline, whatever number of messages is asked for.\<close>

theorem sqs_no_redelivery:
  assumes "sqs_wf en st" "inj (uid en)" "map_of (sq_queues st) qn = Some q" "0 \<le> q_visibility q"
    and "sqs_extract_messages_for_delivery en now qn k st = (st', Inr ds)" and "d \<in> set ds"
    and "now' < (secs now + or_default (q_visibility q) 30) * 1000000"
    and "sqs_extract_messages_for_delivery en now' qn k' st' = (st'', Inr ds')"
  shows "m_id d \<notin> set (map m_id ds')"
proof (cases "map_of (sq_queues st') qn")
  case None
  then show ?thesis using assms(8) by (simp add: sqs_extract_messages_for_delivery_def Let_def dict_simps)
next
  case (Some q')
  have "held (m_id d) (secs now + or_default (q_visibility q) 30) q'"
    using extract_hides [OF assms(1-6)] Some by (simp add: held_in_def)
  from held_sweep [OF this assms(7)]
  have h: "\<forall>m \<in> set (swept now' q'). m_id m = m_id d \<longrightarrow> m_inflight m" by (simp add: held_def sweep_messages)
  from sqs_receive_batch_from [OF assms(8) Some] h show ?thesis by fastforce
qed

theorem sqs_no_redelivery_witness:
  "\<exists>st' d ds ds'. sqs_extract_messages_for_delivery sqs_demo_env 5000000 ''q.fifo'' 1 demo_fifo = (st', Inr (d # ds)) \<and>
     snd (sqs_extract_messages_for_delivery sqs_demo_env 6000000 ''q.fifo'' 10 st') = Inr ds' \<and> ds' \<noteq> [] \<and>
     m_id d \<notin> set (map m_id ds')"
proof -
  let ?e = "sqs_extract_messages_for_delivery sqs_demo_env 5000000 ''q.fifo'' 1 demo_fifo"
  have "case ?e of (s, Inr (d # ds)) \<Rightarrow>
      (case sqs_extract_messages_for_delivery sqs_demo_env 6000000 ''q.fifo'' 10 s of (_, Inr ds') \<Rightarrow> ds' \<noteq> [] | _ \<Rightarrow> False)
     | _ \<Rightarrow> False" by code_simp
  then obtain s d ds s' ds' where 1: "?e = (s, Inr (d # ds))"
    and 2: "sqs_extract_messages_for_delivery sqs_demo_env 6000000 ''q.fifo'' 10 s = (s', Inr ds')" "ds' \<noteq> []"
    by (auto split: prod.splits sum.splits list.splits)
  have ok: "distinct (map m_id (q_messages (snd (hd (sq_queues demo_fifo)))))"
    "list_all (\<lambda>m. m_id m \<in> set (map (\<lambda>i. ''msg-'' @ uid sqs_demo_env i) [0..<3]) \<and> m_group m \<noteq> [])
       (q_messages (snd (hd (sq_queues demo_fifo))))"
    "q_name (snd (hd (sq_queues demo_fifo))) = ''q.fifo''" "endswith ''q.fifo'' ''.fifo''" "sq_ids demo_fifo = 3"
    "map fst (sq_queues demo_fifo) = [''q.fifo'']"
    by code_simp+
  have one: "k = ''q.fifo''" if "map_of (sq_queues demo_fifo) k = Some q" for k q
    using that ok(6) by (cases "sq_queues demo_fifo") (auto split: if_splits)
  have "sqs_wf sqs_demo_env demo_fifo"
    unfolding sqs_wf_def
  proof (intro allI impI)
    fix k q assume k: "map_of (sq_queues demo_fifo) k = Some q"
    then have "k = ''q.fifo''" "q = snd (hd (sq_queues demo_fifo))" using one demo_fifo_find(1) by auto
    then show "queue_ok sqs_demo_env (sq_ids demo_fifo) k q"
      using ok by (auto simp: queue_ok_def used_ids_def list_all_iff)
  qed
  from sqs_no_redelivery [OF this inj_demo demo_fifo_find(1,2) 1 _ _ 2(1), of d]
  have "m_id d \<notin> set (map m_id ds')" by (simp add: demo_fifo_find(3) secs_def)
  then show ?thesis using 1 2 by (intro exI [of _ s] exI [of _ d] exI [of _ ds] exI [of _ ds']) simp
qed

section \<open>Properties of the service\<close>

text \<open>C38.  Whatever calls are made, every queue is stored under its own name, its messages have distinct ids, all
  of them drawn before, and a FIFO queue has the suffix in its name and a group on every message.\<close>

theorem sqs_reachable_wf:
  assumes "(sqs_step en)\<^sup>*\<^sup>* no_queues st" "inj (uid en)"
  shows "sqs_wf en st"
  using assms(1)
proof (induction rule: rtranclp_induct)
  case base
  show ?case by (simp add: sqs_wf_def no_queues_def)
next
  case (step s t)
  then show ?case using sqs_step_wf assms(2) by blast
qed

theorem sqs_reachable_wf_witness:
  "sqs_wf sqs_demo_env (fst (api_sqs_create_queue 0 (demo_req ''q'' False) no_queues))"
proof (rule sqs_reachable_wf [OF _ inj_demo], rule r_into_rtranclp, rule create)
  show "api_sqs_create_queue 0 (demo_req ''q'' False) no_queues =
    (fst (api_sqs_create_queue 0 (demo_req ''q'' False) no_queues), snd (api_sqs_create_queue 0 (demo_req ''q'' False) no_queues))"
    by simp
qed

lemma enqueue_spec:
  assumes q: "map_of (sq_queues st) qn = Some q" and len: "utf8_len body \<le> or_default (q_max_size q) 262144"
    and grp: "q_fifo q \<longrightarrow> grp \<noteq> []" and key: "key = sqs_dedup_key en q body dedup"
    and e: "sqs_enqueue_message en now qn body attrs mattrs grp dedup source st = (st', r)"
  shows "\<exists>q' m. map_of (sq_queues st') qn = Some q' \<and> r = Inr m \<and>
     (if q_fifo q \<and> key \<noteq> [] \<and>
         (\<exists>m \<in> set (swept now q). m_dedup m = key \<and> m_sent m * 1000000 \<ge> now - 300000000)
      then q_messages q' = swept now q \<and> m \<in> set (swept now q) \<and> m_dedup m = key \<and> sq_ids st' = sq_ids st
      else q_messages q' = swept now q @ [m] \<and> m_id m = ''msg-'' @ uid en (sq_ids st) \<and> m_body m = body \<and>
           m_dedup m = key \<and> sq_ids st' = Suc (sq_ids st))"
proof -
  let ?q = "sqs_sweep_queue now q"
  have k: "sqs_dedup_key en ?q body dedup = key" "q_max_size ?q = q_max_size q"
    by (simp_all add: key sqs_dedup_key_def sqs_sweep_queue_def Let_def)
  have q': "map_of (sq_queues (upd_queue qn (sqs_sweep_queue now) st)) qn = Some ?q" using q by (simp add: dict_simps)
  have dup: "duplicate_of now key ?q = None \<longleftrightarrow>
      \<not> (\<exists>m \<in> set (swept now q). m_dedup m = key \<and> m_sent m * 1000000 \<ge> now - 300000000)"
    by (auto simp: duplicate_of_def find_None_iff sweep_messages)
  note E = e [unfolded sqs_enqueue_message_def Let_def q' k option.case sweep_fifo]
  show ?thesis
  proof (cases "if q_fifo q \<and> key \<noteq> [] then duplicate_of now key ?q else None")
    case None
    then have "st' = upd_queue qn (\<lambda>x. x\<lparr>q_messages := q_messages x @
          [new_message en now (sq_ids st) ?q body attrs mattrs grp key source], q_modified := secs now\<rparr>)
        (upd_queue qn (sqs_sweep_queue now) st\<lparr>sq_ids := Suc (sq_ids st)\<rparr>)"
      "r = Inr (new_message en now (sq_ids st) ?q body attrs mattrs grp key source)"
      using E len grp by (auto split: if_splits)
    moreover have "\<not> (q_fifo q \<and> key \<noteq> [] \<and>
         (\<exists>m \<in> set (swept now q). m_dedup m = key \<and> m_sent m * 1000000 \<ge> now - 300000000))"
      using None dup by (auto split: if_splits)
    ultimately show ?thesis using q by (simp add: dict_simps sweep_messages new_message_def)
  next
    case (Some x)
    then have f: "q_fifo q" "key \<noteq> []" "duplicate_of now key ?q = Some x" by (auto split: if_splits)
    then have "st' = upd_queue qn (sqs_sweep_queue now) st" "r = Inr x" using E len grp by auto
    moreover have "x \<in> set (swept now q)" "m_dedup x = key"
      using find_SomeD [OF f(3) [unfolded duplicate_of_def]] by (auto simp: sweep_messages)
    moreover have "\<exists>m \<in> set (swept now q). m_dedup m = key \<and> m_sent m * 1000000 \<ge> now - 300000000"
      using f(3) dup by auto
    ultimately show ?thesis using q f by (simp add: dict_simps sweep_messages)
  qed
qed

lemma sqs_enqueue_accepted:
  assumes "map_of (sq_queues st) qn = Some q" "utf8_len body \<le> or_default (q_max_size q) 262144" "\<not> q_fifo q"
    and "q_fifo q \<longrightarrow> grp \<noteq> []" and "sqs_enqueue_message en now qn body attrs mattrs grp dedup source st = (st', r)"
  shows "\<exists>q' m. map_of (sq_queues st') qn = Some q' \<and> q_messages q' = swept now q @ [m] \<and> m_body m = body"
  using enqueue_spec [OF assms(1,2,4) refl assms(5)] assms(3) by auto

text \<open> Enqueuing a message that is accepted: on a FIFO queue with a deduplication key, if a message with
  that key was sent in the last five minutes and is still queued, the queue is only swept and that message is
  returned; otherwise exactly one message, with the next id, is appended behind the ones that were swept.\<close>

theorem sqs_enqueue_or_deduplicate:
  assumes q: "map_of (sq_queues st) qn = Some q" and len: "utf8_len body \<le> or_default (q_max_size q) 262144"
    and grp: "q_fifo q \<longrightarrow> grp \<noteq> []" and key: "key = sqs_dedup_key en q body dedup"
    and e: "sqs_enqueue_message en now qn body attrs mattrs grp dedup source st = (st', r)"
  shows "\<exists>q' m. map_of (sq_queues st') qn = Some q' \<and> r = Inr m \<and>
     (if q_fifo q \<and> key \<noteq> [] \<and>
         (\<exists>m \<in> set (swept now q). m_dedup m = key \<and> m_sent m * 1000000 \<ge> now - 300000000)
      then q_messages q' = swept now q \<and> m \<in> set (swept now q) \<and> m_dedup m = key \<and> sq_ids st' = sq_ids st
      else q_messages q' = swept now q @ [m] \<and> m_id m = ''msg-'' @ uid en (sq_ids st) \<and> m_body m = body \<and>
           m_dedup m = key \<and> sq_ids st' = Suc (sq_ids st))"
  by (rule enqueue_spec [OF assms])

theorem sqs_enqueue_or_deduplicate_witness:
  "\<exists>q' m. map_of (sq_queues (fst (sqs_enqueue_message sqs_demo_env 5000000 ''q.fifo'' ''again'' PNone PNone ''b'' ''z'' [] demo_fifo)))
       ''q.fifo'' = Some q' \<and> m \<in> set (q_messages q') \<and> length (q_messages q') = 3 \<and> m_dedup m = ''z''"
proof -
  let ?q = "snd (hd (sq_queues demo_fifo))"
  let ?e = "sqs_enqueue_message sqs_demo_env 5000000 ''q.fifo'' ''again'' PNone PNone ''b'' ''z'' [] demo_fifo"
  have e: "?e = (fst ?e, snd ?e)" by simp
  have k: "utf8_len ''again'' \<le> or_default (q_max_size ?q) 262144" "q_fifo ?q"
    "''z'' = sqs_dedup_key sqs_demo_env ?q ''again'' ''z''" "length (swept 5000000 ?q) = 3"
    "list_ex (\<lambda>m. m_dedup m = ''z'' \<and> m_sent m * 1000000 \<ge> 5000000 - 300000000) (swept 5000000 ?q)"
    by code_simp+
  from k(5) have "\<exists>m \<in> set (swept 5000000 ?q). m_dedup m = ''z'' \<and> m_sent m * 1000000 \<ge> 5000000 - 300000000"
    by (simp only: list_ex_iff)
  then show ?thesis
    using sqs_enqueue_or_deduplicate [OF demo_fifo_find(1) k(1) _ k(3) e] k(2,4) by auto
qed

text \<open> Creating a FIFO queue by its name without the suffix succeeds although the suffixed queue exists, and
  replaces it: the messages it held are gone.\<close>

theorem sqs_create_overwrites_fifo:
  assumes "map_of (sq_queues st) (n @ ''.fifo'') = Some q" "strip (rq_name rq) = n"
    and "sqs_validate_queue_name n = Inr ()" "sqs_find_queue st n = None"
    and "rq_fifo rq" "\<not> endswith n ''.fifo''" "rq_redrive rq = PDict []"
  shows "\<exists>q'. snd (api_sqs_create_queue now rq st) = Inr q' \<and> q_messages q' = [] \<and>
           map_of (sq_queues (fst (api_sqs_create_queue now rq st))) (n @ ''.fifo'') = Some q'"
  using assms
  by (simp add: api_sqs_create_queue_def sqs_create_queue_record_def Let_def fifo_name_def new_queue_def dict_simps
      py_or_def sqs_sweep_queue_def)

theorem sqs_create_overwrites_fifo_witness:
  "\<exists>q'. snd (api_sqs_create_queue 0 (demo_req ''q'' True) demo_fifo) = Inr q' \<and> q_messages q' = []"
proof -
  have "strip (rq_name (demo_req ''q'' True)) = ''q''" "sqs_validate_queue_name ''q'' = Inr ()"
    "sqs_find_queue demo_fifo ''q'' = None" "rq_fifo (demo_req ''q'' True)" "\<not> endswith ''q'' ''.fifo''"
    "rq_redrive (demo_req ''q'' True) = PDict []" "map_of (sq_queues demo_fifo) (''q'' @ ''.fifo'') = Some (snd (hd (sq_queues demo_fifo)))"
    by code_simp+
  from sqs_create_overwrites_fifo [OF this(7,1-6), of 0] show ?thesis by blast
qed

definition demo_poison :: sqs_st where
  "demo_poison = upd_queue ''q'' (\<lambda>q. q\<lparr>q_redrive := PDict [(''maxReceiveCount'', PInt 1), (''deadLetterTargetArn'', PStr ''arn:aws:sqs:us-east-1:000000000000:gone'')]\<rparr>)
     (demo_queue ''q'' False [(demo_msg 0 [] [])\<lparr>m_receive := 1\<rparr>])"

text \<open> A message received as often as the redrive policy allows, on a queue whose policy names no
  dead-letter queue that exists, is marked deleted at the next receive and handed to nobody.\<close>

theorem sqs_redrive_without_dlq_loses:
  assumes q: "map_of (sq_queues st) qn = Some q" and p: "max_receive_count q = Inr mr" "mr \<noteq> 0" "m_receive m \<ge> mr"
    and n: "sqs_redrive_queue_name q = Inr dn" "dn = [] \<or> sqs_find_queue st dn = None"
    and d: "deliver_one en now qn v m st = (st', r)"
  shows "r = Inr None \<and> sq_ids st' = sq_ids st \<and>
    map_of (sq_queues st') = (map_of (sq_queues st))(qn \<mapsto> q\<lparr>q_messages :=
       map (\<lambda>x. if m_id x = m_id m then x\<lparr>m_receive := m_receive x + 1, m_deleted := True\<rparr> else x) (q_messages q)\<rparr>)"
proof -
  let ?c = "upd_msg (m_id m) (m_receive_update (\<lambda>c. c + 1))" and ?x = "upd_msg (m_id m) (m_deleted_update (\<lambda>_. True))"
  have c: "max_receive_count (?c q) = max_receive_count q" "sqs_redrive_queue_name (?c q) = sqs_redrive_queue_name q"
    by (simp_all add: upd_msg_def max_receive_count_def sqs_redrive_queue_name_def redrive_policy_def)
  have "sqs_redrive en now (?c q) m (upd_queue qn ?c st) = (upd_queue qn ?c st, Inr ())"
    using n c by (auto simp: sqs_redrive_def find_upd_queue)
  then have s: "st' = upd_queue qn ?x (upd_queue qn ?c st)" "r = Inr None"
    using d q p c by (auto simp: deliver_one_def Let_def dict_simps)
  have m: "?x (?c q) = q\<lparr>q_messages :=
       map (\<lambda>x. if m_id x = m_id m then x\<lparr>m_receive := m_receive x + 1, m_deleted := True\<rparr> else x) (q_messages q)\<rparr>"
    by (simp add: upd_msg_def)
  show ?thesis unfolding s m [symmetric] using q by (auto simp: dict_simps)
qed

theorem sqs_redrive_without_dlq_loses_witness:
  "snd (deliver_one sqs_demo_env 0 ''q'' 30 ((demo_msg 0 [] [])\<lparr>m_receive := 1\<rparr>) demo_poison) = Inr None"
proof -
  let ?q = "snd (hd (sq_queues demo_poison))"
  let ?e = "deliver_one sqs_demo_env 0 ''q'' 30 ((demo_msg 0 [] [])\<lparr>m_receive := 1\<rparr>) demo_poison"
  have e: "?e = (fst ?e, snd ?e)" by simp
  have "map_of (sq_queues demo_poison) ''q'' = Some ?q" "max_receive_count ?q = Inr 1" "(1::int) \<noteq> 0"
    "m_receive ((demo_msg 0 [] [])\<lparr>m_receive := 1\<rparr>) \<ge> 1" "sqs_redrive_queue_name ?q = Inr ''gone''"
    "''gone'' = [] \<or> sqs_find_queue demo_poison ''gone'' = None" by code_simp+
  from sqs_redrive_without_dlq_loses [OF this e] show ?thesis by blast
qed

lemma sweep_single:
  "q_messages q = [m] \<Longrightarrow> \<not> expired now (or_default (q_retention q) 345600) m \<Longrightarrow> \<not> m_inflight m \<Longrightarrow> \<not> m_deleted m \<Longrightarrow>
   sqs_sweep_queue now q = q"
  by (simp add: sqs_sweep_queue_def Let_def release_def)

lemma select_single:
  "\<not> q_fifo q \<Longrightarrow> \<not> m_inflight m \<Longrightarrow> \<not> m_deleted m \<Longrightarrow> sqs_message_is_visible now m \<Longrightarrow>
   select_available now q [] [] k [m] = [m]"
  by simp

text \<open> On a standard queue with nothing pending, a message sent is the one the next receive hands out, and
  deleting it by the receipt handle it came with leaves the queue empty.\<close>

theorem sqs_send_receive_delete:
  assumes q: "sqs_find_queue st name = Some qn" "map_of (sq_queues st) qn = Some q" "\<not> q_fifo q" "swept now q = []"
    and p: "q_delay q \<le> 0" "max_receive_count q = Inr 0" "utf8_len body \<le> or_default (q_max_size q) 262144"
    and t: "now \<le> t" "t - secs now * 1000000 \<le> or_default (q_retention q) 345600 * 1000000"
    and s: "api_sqs_send_message en now name body ma mm grp dedup st = (st1, r1)"
    and r: "api_sqs_receive_message en t name k None st1 = (st2, r2)"
  shows "\<exists>m d. r1 = Inr m \<and> r2 = Inr [d] \<and> m_body d = body \<and> m_id d = m_id m \<and> m_receive d = 1 \<and>
    (\<exists>st3 q3. api_sqs_delete_message u name (m_receipt d) st2 = (st3, Inr ()) \<and>
       map_of (sq_queues st3) qn = Some q3 \<and> q_messages q3 = [])"
proof -
  let ?q0 = "sqs_sweep_queue now q"
  define m where "m = new_message en now (sq_ids st) ?q0 body (py_or ma (py_or mm (PDict []))) (py_or mm (PDict [])) grp
      (sqs_dedup_key en q body dedup) ''api_send_message''"
  define q1 where "q1 = ?q0\<lparr>q_messages := [m], q_modified := secs now\<rparr>"
  have e0: "q_messages ?q0 = []" "q_max_size ?q0 = q_max_size q" "q_fifo ?q0 = q_fifo q" "q_delay ?q0 = q_delay q"
      "q_retention ?q0 = q_retention q" "q_redrive ?q0 = q_redrive q" "q_visibility ?q0 = q_visibility q"
      "sqs_dedup_key en ?q0 = sqs_dedup_key en q"
    using q(4) by (simp_all add: swept_def sqs_sweep_queue_def Let_def sqs_dedup_key_def fun_eq_iff)
  have m: "m_body m = body" "m_sent m = secs now" "m_visible m = secs now" "m_receive m = 0" "\<not> m_inflight m" "\<not> m_deleted m"
    using p(1) e0 by (simp_all add: m_def new_message_def)
  have 1: "r1 = Inr m" "map_of (sq_queues st1) qn = Some q1" "sqs_find_queue st1 name = Some qn"
    using s q p e0 by (auto simp: api_sqs_send_message_def on_queue_def sqs_enqueue_message_def Let_def dict_simps
        m_def q1_def find_upd_queue find_ids)
  have v: "secs now * 1000000 \<le> t" using t(1) by (simp add: secs_def)
  have "\<not> expired t (or_default (q_retention q) 345600) m" using t(2) m by (simp add: expired_def)
  then have sw: "sqs_sweep_queue t q1 = q1"
    using m e0(5) by (intro sweep_single [of _ m]) (simp_all add: q1_def)
  have sel: "select_available t q1 [] [] j [m] = [m]" for j
    using m v q(3) e0(3) by (intro select_single) (simp_all add: q1_def sqs_message_is_visible_def)
  let ?v = "or_default (q_visibility q) 30"
  let ?q2 = "upd_msg (m_id m) (m_receive_update (\<lambda>c. c + 1)) q1"
  define d where "d = mark_delivered (''rhdl-'' @ uid en (sq_ids st1)) (secs t + ?v) (m\<lparr>m_receive := 1\<rparr>)"
  have mr: "max_receive_count ?q2 = Inr 0"
    using p(2) e0 by (simp add: upd_msg_def q1_def max_receive_count_def redrive_policy_def)
  obtain s2 where one: "deliver_one en t qn ?v m (upd_queue qn (sqs_sweep_queue t) st1) = (s2, Inr (Some d))"
    and s2: "\<exists>q2. map_of (sq_queues s2) qn = Some q2 \<and> q_messages q2 = [d]" "sqs_find_queue s2 name = Some qn"
    using 1 sw mr m by (simp add: deliver_one_def Let_def dict_simps find_upd_queue find_ids d_def)
      (simp add: upd_msg_def q1_def mark_delivered_def)
  have "sqs_extract_messages_for_delivery en t qn (batch_size k) st1 =
      (upd_queue qn (q_modified_update (\<lambda>_. secs t)) s2, Inr [d])"
  proof -
    have "q_messages q1 = [m]" "q_visibility q1 = q_visibility q" using e0 by (simp_all add: q1_def)
    then show ?thesis using 1(2) sw sel one
      by (simp add: sqs_extract_messages_for_delivery_def Let_def dict_simps)
  qed
  then have 2: "st2 = upd_queue qn (q_modified_update (\<lambda>_. secs t)) s2" "r2 = Inr [d]"
    using r 1(3) by (simp_all add: api_sqs_receive_message_def on_queue_def)
  obtain q2 where q2: "map_of (sq_queues st2) qn = Some q2" "q_messages q2 = [d]"
    using s2(1) by (auto simp: 2 dict_simps)
  have f2: "sqs_find_queue st2 name = Some qn" using s2(2) by (simp add: 2 find_upd_queue)
  have "\<exists>st3 q3. api_sqs_delete_message u name (m_receipt d) st2 = (st3, Inr ()) \<and>
       map_of (sq_queues st3) qn = Some q3 \<and> q_messages q3 = []"
    using q2 f2 by (simp add: api_sqs_delete_message_def on_queue_def sqs_delete_message_def holds_receipt_def d_def
        mark_delivered_def dict_simps upd_msg_def)
  moreover have "m_body d = body" "m_id d = m_id m" "m_receive d = 1"
    using m by (simp_all add: d_def mark_delivered_def)
  ultimately show ?thesis using 1(1) 2(2) by blast
qed

theorem sqs_send_receive_delete_witness:
  "\<exists>d. snd (api_sqs_receive_message sqs_demo_env 5000000 ''q'' 10 None
       (fst (api_sqs_send_message sqs_demo_env 0 ''q'' ''hi'' PNone PNone [] [] (demo_queue ''q'' False [])))) = Inr [d] \<and> m_body d = ''hi''"
proof -
  let ?st = "demo_queue ''q'' False []"
  let ?q = "snd (hd (sq_queues ?st))"
  let ?s = "api_sqs_send_message sqs_demo_env 0 ''q'' ''hi'' PNone PNone [] [] ?st"
  let ?r = "api_sqs_receive_message sqs_demo_env 5000000 ''q'' 10 None (fst ?s)"
  have s: "?s = (fst ?s, snd ?s)" and r: "?r = (fst ?r, snd ?r)" by simp_all
  have "sqs_find_queue ?st ''q'' = Some ''q''" "map_of (sq_queues ?st) ''q'' = Some ?q" "\<not> q_fifo ?q" "swept 0 ?q = []"
    "q_delay ?q \<le> 0" "max_receive_count ?q = Inr 0" "utf8_len ''hi'' \<le> or_default (q_max_size ?q) 262144"
    "(0::int) \<le> 5000000" "5000000 - secs 0 * 1000000 \<le> or_default (q_retention ?q) 345600 * 1000000" by code_simp+
  from sqs_send_receive_delete [OF this s r] show ?thesis by blast
qed

end
