(* ===== verification/S3_Objects.thy ===== *)
theory S3_Objects
imports Sqs Tier_Policy "HOL-Library.List_Lexorder" "HOL-Library.Product_Lexorder" "HOL-Library.Char_ord"
begin

text \<open>S3 buckets and object versions (\<open>routes/aws_s3.py\<close>): the entry of a key keeps its versions newest first and
  repeats the current one in fields of its own; writes, delete markers and version deletion act on that
  list by the versioning status of the bucket.  One state is the S3 service of one space.  Bytes are
  characters, times whole seconds.  Parameters: \<open>hex n\<close> the \<open>n\<close>-th uuid drawn, the MD5 digest of the queue
  environment, \<open>dumps\<close> (\<open>json.dumps\<close>), the XML parser (\<^theory_text>\<open>None\<close> when it raises) and printer, \<open>iso\<close> and \<open>http_date\<close> (the two time formats), and
  \<open>invoke\<close>, what calling a Lambda function by a reference does.  The mirror to MinIO, whose errors
  are swallowed and whose state is not read back, is left out.\<close>

section \<open>State\<close>

record over =
  ov_id :: string
  ov_marker :: bool
  ov_data :: string
  ov_size :: int
  ov_ctype :: string
  ov_modified :: int
  ov_etag :: string
  ov_class :: string
  ov_meta :: "string dict"
  ov_tags :: "string dict"
  ov_latest :: bool

text \<open>\<open>en_versions\<close> is \<^theory_text>\<open>None\<close> for an entry written before versions existed.\<close>

record entry =
  en_versions :: "over list option"
  en_current :: string
  en_version_id :: string
  en_marker :: bool
  en_data :: string
  en_size :: int
  en_ctype :: string
  en_modified :: int
  en_etag :: string
  en_class :: string
  en_meta :: "string dict"
  en_tags :: "string dict"
  en_latest :: bool

record rule =
  ru_id :: string
  ru_events :: "string list"
  ru_prefix :: string
  ru_suffix :: string
  ru_dest :: string

record delivery =
  de_id :: string
  de_at :: int
  de_key :: string
  de_version :: string
  de_event :: string
  de_source :: string
  de_type :: string
  de_dest :: string
  de_rule :: string
  de_error :: "pyval option"
  de_test :: bool
  de_payload :: pyval

record notif =
  nf_bridge :: bool
  nf_topics :: "rule list"
  nf_queues :: "rule list"
  nf_functions :: "rule list"
  nf_deliveries :: "delivery list"
  nf_updated :: int

record bucket =
  b_region :: string
  b_created :: int
  b_access :: string
  b_versioning :: string
  b_arn :: string
  b_tags :: "string dict option"
  b_notif :: "notif option"
  b_acl :: string
  b_cors :: string
  b_lifecycle :: string

record part =
  pt_data :: string
  pt_etag :: string
  pt_size :: int

record upload =
  up_bucket :: string
  up_key :: string
  up_parts :: "(int \<times> part) list"
  up_ctype :: string
  up_meta :: "string dict"
  up_initiated :: int

record s3_st =
  s3_buckets :: "bucket dict"
  s3_objects :: "entry dict dict"
  s3_uploads :: "upload dict"
  s3_sqs :: sqs_st
  s3_n :: nat

text \<open>An XML element: tag, text and children, as \<open>xml.etree\<close> parses it.\<close>

datatype xml = Xml (xml_tag: string) (xml_text: "string option") (xml_children: "xml list")

datatype invocation = Invoked | No_Function | Invoke_Failed pyval

record s3_env =
  sv_sqs :: sqs_env
  sv_hex :: "nat \<Rightarrow> string"
  sv_dumps :: "pyval \<Rightarrow> string"
  sv_xml :: "string \<Rightarrow> xml option"
  sv_tostring :: "xml \<Rightarrow> string"
  sv_iso :: "int \<Rightarrow> string"
  sv_http_date :: "int \<Rightarrow> string"
  sv_invoke :: "string \<Rightarrow> string \<Rightarrow> pyval \<Rightarrow> invocation"
  sv_tier :: string
  sv_other_buckets :: nat

section \<open>Versioning status\<close>

definition s3_etag :: "s3_env \<Rightarrow> string \<Rightarrow> string" where
  "s3_etag ev data = CHR 0x22 # md5 (sv_sqs ev) data @ [CHR 0x22]"

definition bucket_exists :: "s3_st \<Rightarrow> string \<Rightarrow> bool" where
  "bucket_exists st b = dhas (s3_buckets st) b"

definition s3_bucket_versioning_status :: "s3_st \<Rightarrow> string \<Rightarrow> string" where
  "s3_bucket_versioning_status st b =
     (let status = (case map_of (s3_buckets st) b of None \<Rightarrow> ''Disabled'' | Some m \<Rightarrow> b_versioning m)
      in if status \<in> set [''Enabled'', ''Suspended'', ''Disabled''] then status else ''Disabled'')"

text \<open>A new version id; one uuid is drawn unless the bucket is suspended.\<close>

definition s3_new_version_id :: "s3_env \<Rightarrow> s3_st \<Rightarrow> string \<Rightarrow> s3_st \<times> string" where
  "s3_new_version_id ev st b =
     (if s3_bucket_versioning_status st b = ''Suspended'' then (st, ''null'')
      else (st\<lparr>s3_n := Suc (s3_n st)\<rparr>, sv_hex ev (s3_n st)))"

section \<open>Entries\<close>

definition s3_object_version_from_entry :: "entry \<Rightarrow> over" where
  "s3_object_version_from_entry e =
     \<lparr>ov_id = str_or (str_or (en_version_id e) (en_current e)) ''null'', ov_marker = en_marker e,
      ov_data = (if en_marker e then [] else en_data e), ov_size = en_size e, ov_ctype = en_ctype e,
      ov_modified = en_modified e, ov_etag = en_etag e, ov_class = en_class e, ov_meta = en_meta e,
      ov_tags = en_tags e, ov_latest = en_latest e\<rparr>"

fun mark_latest :: "over list \<Rightarrow> over list" where
  "mark_latest [] = []"
| "mark_latest (v # vs) = v\<lparr>ov_latest := True\<rparr> # map (ov_latest_update (\<lambda>_. False)) vs"

definition versions_of :: "entry \<Rightarrow> over list" where
  "versions_of e = (case en_versions e of None \<Rightarrow> [] | Some vs \<Rightarrow> vs)"

definition s3_refresh_object_entry :: "int \<Rightarrow> entry \<Rightarrow> entry" where
  "s3_refresh_object_entry now e =
     (case mark_latest (versions_of e) of
        [] \<Rightarrow> e\<lparr>en_current := [], en_marker := False, en_data := [], en_size := 0, en_ctype := ''application/octet-stream'',
               en_modified := secs now, en_etag := [], en_class := ''STANDARD'', en_meta := [], en_tags := []\<rparr>
      | c # vs \<Rightarrow>
          e\<lparr>en_versions := Some (c # vs), en_current := ov_id c, en_version_id := ov_id c, en_marker := ov_marker c,
            en_data := (if ov_marker c then [] else ov_data c), en_size := ov_size c, en_ctype := ov_ctype c,
            en_modified := ov_modified c, en_etag := ov_etag c, en_class := ov_class c, en_meta := ov_meta c,
            en_tags := ov_tags c\<rparr>)"

definition blank_entry :: entry where
  "blank_entry =
     \<lparr>en_versions = Some [], en_current = ''null'', en_version_id = [], en_marker = False, en_data = [], en_size = 0,
      en_ctype = ''application/octet-stream'', en_modified = 0, en_etag = [], en_class = ''STANDARD'', en_meta = [],
      en_tags = [], en_latest = False\<rparr>"

definition normal_entry :: "int \<Rightarrow> entry \<Rightarrow> entry" where
  "normal_entry now e =
     (let e1 = (case en_versions e of None \<Rightarrow> e\<lparr>en_versions := Some [s3_object_version_from_entry e]\<rparr> | Some _ \<Rightarrow> e)
      in if versions_of e1 \<noteq> [] then s3_refresh_object_entry now e1 else e1)"

definition put_entry :: "string \<Rightarrow> string \<Rightarrow> entry \<Rightarrow> s3_st \<Rightarrow> s3_st" where
  "put_entry b k e st = st\<lparr>s3_objects := dset b (dset k e (dget (s3_objects st) b [])) (s3_objects st)\<rparr>"

definition drop_entry :: "string \<Rightarrow> string \<Rightarrow> s3_st \<Rightarrow> s3_st" where
  "drop_entry b k st = st\<lparr>s3_objects := dmap_at b (dpop k) (s3_objects st)\<rparr>"

definition find_entry :: "s3_st \<Rightarrow> string \<Rightarrow> string \<Rightarrow> entry option" where
  "find_entry st b k = map_of (dget (s3_objects st) b []) k"

text \<open>The entry of a key, created on request; reading it also stores its normal form.\<close>

definition s3_ensure_object_entry :: "int \<Rightarrow> string \<Rightarrow> string \<Rightarrow> bool \<Rightarrow> s3_st \<Rightarrow> s3_st \<times> entry option" where
  "s3_ensure_object_entry now b k create st0 =
     (let st = st0\<lparr>s3_objects := dsetdefault b [] (s3_objects st0)\<rparr>
      in case (case find_entry st b k of None \<Rightarrow> if create then Some blank_entry else None | Some e \<Rightarrow> Some e) of
           None \<Rightarrow> (st, None)
         | Some e \<Rightarrow> (let e1 = normal_entry now e in (put_entry b k e1 st, Some e1)))"

section \<open>Versions\<close>

definition s3_make_version_record ::
  "s3_env \<Rightarrow> int \<Rightarrow> string \<Rightarrow> string \<Rightarrow> string \<Rightarrow> string dict \<Rightarrow> string dict \<Rightarrow> string \<Rightarrow> bool \<Rightarrow> over" where
  "s3_make_version_record ev now data ctype cls meta tags vid marker =
     \<lparr>ov_id = str_or vid ''null'', ov_marker = marker, ov_data = (if marker then [] else data),
      ov_size = (if marker then 0 else int (length data)),
      ov_ctype = (if marker then ''application/octet-stream'' else ctype), ov_modified = secs now,
      ov_etag = (if marker then [] else s3_etag ev data), ov_class = cls, ov_meta = meta, ov_tags = tags,
      ov_latest = False\<rparr>"

definition s3_find_version :: "entry option \<Rightarrow> string \<Rightarrow> over option" where
  "s3_find_version e vid =
     (case e of
        None \<Rightarrow> None
      | Some e \<Rightarrow>
          if vid = [] then (case versions_of e of [] \<Rightarrow> None | v # _ \<Rightarrow> Some v)
          else find (\<lambda>v. ov_id v = vid) (versions_of e))"

definition s3_latest_visible_version :: "entry option \<Rightarrow> over option" where
  "s3_latest_visible_version e =
     (case e of
        None \<Rightarrow> None
      | Some e \<Rightarrow> (case versions_of e of [] \<Rightarrow> None | v # _ \<Rightarrow> if ov_marker v then None else Some v))"

text \<open>\<open>int(v.get("size") or len(data))\<close>.\<close>

definition stored_size :: "over \<Rightarrow> int" where
  "stored_size v = or_default (ov_size v) (int (length (ov_data v)))"

definition s3_total_bytes :: "s3_st \<Rightarrow> int" where
  "s3_total_bytes st =
     sum_list (map (\<lambda>bo. sum_list (map (\<lambda>e. sum_list (map stored_size (filter (\<lambda>v. \<not> ov_marker v) (versions_of e))))
       (dvals bo))) (dvals (s3_objects st)))"

definition enforce_storage_cap :: "s3_env \<Rightarrow> s3_st \<Rightarrow> int \<Rightarrow> unit result" where
  "enforce_storage_cap ev st extra =
     (let r = check_storage (sv_tier ev) (s3_total_bytes st) extra
      in if resp_ok r then Inr ()
         else Inl (HTTPException 403 (PDict (dset ''docs'' (PStr ''https://cloudlearn.io/docs/tiers'')
                (dset ''active_tier'' (PStr (sv_tier ev)) r)))))"

text \<open>Where a new version goes: in place of all, of the first with a given id, or in front.\<close>

datatype placement = Overwrite | Replace string | Prepend

fun replace_version :: "string \<Rightarrow> over \<Rightarrow> over list \<Rightarrow> over list option" where
  "replace_version vid v [] = None"
| "replace_version vid v (x # xs) = (if ov_id x = vid then Some (v # xs) else map_option ((#) x) (replace_version vid v xs))"

definition place :: "placement \<Rightarrow> over \<Rightarrow> over list \<Rightarrow> over list" where
  "place p v vs =
     (case p of
        Overwrite \<Rightarrow> [v]
      | Replace vid \<Rightarrow> (case replace_version vid v vs of Some ws \<Rightarrow> ws | None \<Rightarrow> v # vs)
      | Prepend \<Rightarrow> v # vs)"

definition placement_for :: "string \<Rightarrow> placement" where
  "placement_for status =
     (if status = ''Disabled'' then Overwrite else if status = ''Suspended'' then Replace ''null'' else Prepend)"

section \<open>Event rules\<close>

text \<open>\<open>re.fullmatch(re.escape(pattern).replace("\*", ".*"), s)\<close>.\<close>

fun star_match :: "string \<Rightarrow> string \<Rightarrow> bool" where
  "star_match [] s = (s = [])"
| "star_match (c # p) [] = (c = CHR ''*'' \<and> star_match p [])"
| "star_match (c # p) (x # xs) =
     (if c = CHR ''*'' then star_match p (x # xs) \<or> (x \<noteq> CHR 0x0A \<and> star_match (c # p) xs)
      else x = c \<and> star_match p xs)"

definition s3_notification_rule_matches :: "rule \<Rightarrow> string \<Rightarrow> string \<Rightarrow> bool" where
  "s3_notification_rule_matches r event key \<longleftrightarrow>
     (ru_events r = [] \<or> list_ex (\<lambda>p. star_match p event) (ru_events r)) \<and>
     (strip (ru_prefix r) = [] \<or> startswith key (strip (ru_prefix r))) \<and>
     (strip (ru_suffix r) = [] \<or> endswith key (strip (ru_suffix r)))"

definition s3_default_notifications :: "int \<Rightarrow> notif" where
  "s3_default_notifications now =
     \<lparr>nf_bridge = False, nf_topics = [], nf_queues = [], nf_functions = [], nf_deliveries = [], nf_updated = secs now\<rparr>"

record target =
  tg_type :: string
  tg_dest :: string
  tg_id :: string

definition rule_targets :: "string \<Rightarrow> string \<Rightarrow> string \<Rightarrow> rule list \<Rightarrow> target list" where
  "rule_targets ty event key rules =
     map (\<lambda>r. \<lparr>tg_type = ty, tg_dest = ru_dest r, tg_id = ru_id r\<rparr>)
       (filter (\<lambda>r. s3_notification_rule_matches r event key) rules)"

definition s3_notification_delivery_targets :: "notif option \<Rightarrow> string \<Rightarrow> string \<Rightarrow> target list" where
  "s3_notification_delivery_targets n event key =
     (case n of
        None \<Rightarrow> []
      | Some n \<Rightarrow>
          rule_targets ''TopicConfiguration'' event key (nf_topics n)
          @ rule_targets ''QueueConfiguration'' event key (nf_queues n)
          @ rule_targets ''CloudFunctionConfiguration'' event key (nf_functions n)
          @ (if nf_bridge n then [\<lparr>tg_type = ''EventBridgeConfiguration'', tg_dest = ''eventbridge'', tg_id = ''eventbridge''\<rparr>] else []))"

section \<open>Events and their delivery\<close>

definition req_id :: "string \<Rightarrow> string" where
  "req_id h = take 16 (upper h)"

text \<open>The event document; three uuids are drawn for it.\<close>

definition s3_build_notification_event ::
  "s3_env \<Rightarrow> int \<Rightarrow> string \<Rightarrow> string \<Rightarrow> over option \<Rightarrow> string \<Rightarrow> string \<Rightarrow> s3_st \<Rightarrow> s3_st \<times> pyval" where
  "s3_build_notification_event ev now b k v event source st =
     (let n = s3_n st;
          meta = map_of (s3_buckets st) b;
          region = (case meta of None \<Rightarrow> ''us-east-1'' | Some m \<Rightarrow> b_region m);
          arn = (case meta of None \<Rightarrow> ''arn:aws:s3:::'' @ b | Some m \<Rightarrow> b_arn m);
          vid = (case v of None \<Rightarrow> ''null'' | Some v \<Rightarrow> ov_id v);
          size = (case v of None \<Rightarrow> 0 | Some v \<Rightarrow> ov_size v);
          tag = (case v of None \<Rightarrow> [] | Some v \<Rightarrow> ov_etag v)
      in (st\<lparr>s3_n := n + 3\<rparr>,
          PDict [(''Records'', PList [PDict
            [(''eventVersion'', PStr ''2.1''), (''eventSource'', PStr ''aws:s3''), (''awsRegion'', PStr region),
             (''eventTime'', PStr (sv_iso ev (secs now))),
             (''eventName'', PStr (if startswith event ''s3:'' then drop 3 event else event)),
             (''userIdentity'', PDict [(''principalId'', PStr ''AWS:SIMULATOR'')]),
             (''requestParameters'', PDict [(''sourceIPAddress'', PStr ''127.0.0.1'')]),
             (''responseElements'', PDict [(''x-amz-request-id'', PStr (req_id (sv_hex ev n))), (''x-amz-id-2'', PStr (sv_hex ev (n + 1)))]),
             (''s3'', PDict
               [(''s3SchemaVersion'', PStr ''1.0''), (''configurationId'', PStr (str_or source ''cloudlearn-s3-notification'')),
                (''bucket'', PDict [(''name'', PStr b), (''arn'', PStr arn)]),
                (''object'', PDict
                  [(''key'', PStr k), (''size'', PInt size), (''eTag'', PStr tag), (''versionId'', PStr vid),
                   (''sequencer'', PStr (take 16 (sv_hex ev (n + 2))))])])]])]))"

definition exc_detail :: "py_exc \<Rightarrow> pyval" where
  "exc_detail e =
     (case e of HTTPException _ d \<Rightarrow> d | ValueError s \<Rightarrow> PStr s | KeyError s \<Rightarrow> PStr (repr_str s) | PermissionError s \<Rightarrow> PStr s
      | LookupError s \<Rightarrow> PStr s | TypeError s \<Rightarrow> PStr s | AttributeError s \<Rightarrow> PStr s | IndexError s \<Rightarrow> PStr s)"

text \<open>Handing the event to one target: the queue it names, or the function; the error when it failed.\<close>

definition deliver_to ::
  "s3_env \<Rightarrow> int \<Rightarrow> string \<Rightarrow> string \<Rightarrow> string \<Rightarrow> pyval \<Rightarrow> target \<Rightarrow> sqs_st \<Rightarrow> sqs_st \<times> pyval option" where
  "deliver_to ev now b event source payload t sq =
     (if tg_type t = ''CloudFunctionConfiguration'' \<and> tg_dest t \<noteq> [] then
        (sq, case sv_invoke ev b (tg_dest t) payload of
               Invoked \<Rightarrow> None
             | No_Function \<Rightarrow> Some (PStr ''Lambda function not found'')
             | Invoke_Failed e \<Rightarrow> Some e)
      else if tg_type t = ''QueueConfiguration'' \<and> tg_dest t \<noteq> [] then
        (case sqs_queue_from_name_or_url sq (tg_dest t) of
           None \<Rightarrow> (sq, Some (PStr ''SQS queue not found''))
         | Some qn \<Rightarrow>
             (case sqs_enqueue_message (sv_sqs ev) now qn (sv_dumps ev payload)
                     (PDict [(''event_name'', PStr event), (''bucket'', PStr b), (''source'', PStr (str_or source ''s3''))])
                     (PDict []) [] [] (str_or source ''s3'') sq of
                (sq', Inl e) \<Rightarrow> (sq', Some (exc_detail e))
              | (sq', Inr _) \<Rightarrow> (sq', None)))
      else (sq, None))"

definition delivery_record ::
  "s3_env \<Rightarrow> int \<Rightarrow> nat \<Rightarrow> string \<Rightarrow> string \<Rightarrow> string \<Rightarrow> string \<Rightarrow> pyval \<Rightarrow> bool \<Rightarrow> target \<Rightarrow> pyval option \<Rightarrow> delivery" where
  "delivery_record ev now n k vid event source payload test t err =
     \<lparr>de_id = ''s3evt-'' @ take 12 (sv_hex ev n), de_at = secs now, de_key = k, de_version = str_or vid ''null'', de_event = event,
      de_source = source, de_type = tg_type t, de_dest = tg_dest t, de_rule = tg_id t, de_error = err, de_test = test,
      de_payload = payload\<rparr>"

fun deliver_targets ::
  "s3_env \<Rightarrow> int \<Rightarrow> string \<Rightarrow> string \<Rightarrow> string \<Rightarrow> string \<Rightarrow> string \<Rightarrow> pyval \<Rightarrow> bool \<Rightarrow> target list \<Rightarrow>
   sqs_st \<times> nat \<times> delivery list \<Rightarrow> sqs_st \<times> nat \<times> delivery list" where
  "deliver_targets ev now b k vid event source payload test [] s = s"
| "deliver_targets ev now b k vid event source payload test (t # ts) (sq, n, ds) =
     (let (sq', err) = deliver_to ev now b event source payload t sq
      in deliver_targets ev now b k vid event source payload test ts
           (sq', Suc n, ds @ [delivery_record ev now n k vid event source payload test t err]))"

text \<open>The bucket keeps the last 200 deliveries.\<close>

definition last_200 :: "'a list \<Rightarrow> 'a list" where
  "last_200 xs = drop (length xs - 200) xs"

definition upd_bucket :: "string \<Rightarrow> (bucket \<Rightarrow> bucket) \<Rightarrow> s3_st \<Rightarrow> s3_st" where
  "upd_bucket b f st = st\<lparr>s3_buckets := dmap_at b f (s3_buckets st)\<rparr>"

definition s3_notification_record_delivery ::
  "s3_env \<Rightarrow> int \<Rightarrow> string \<Rightarrow> string \<Rightarrow> string \<Rightarrow> string \<Rightarrow> string \<Rightarrow> pyval \<Rightarrow> bool \<Rightarrow> s3_st \<Rightarrow> s3_st" where
  "s3_notification_record_delivery ev now b event k vid source payload test st =
     (case map_of (s3_buckets st) b of
        None \<Rightarrow> st
      | Some m \<Rightarrow>
          let nf = (case b_notif m of None \<Rightarrow> s3_default_notifications now | Some nf \<Rightarrow> nf);
              (sq, n, ds) = deliver_targets ev now b k vid event source payload test
                 (s3_notification_delivery_targets (Some nf) event k) (s3_sqs st, s3_n st, nf_deliveries nf)
          in upd_bucket b (b_notif_update (\<lambda>_. Some (nf\<lparr>nf_deliveries := last_200 ds, nf_updated := secs now\<rparr>)))
               (st\<lparr>s3_sqs := sq, s3_n := n\<rparr>))"

definition s3_emit_event ::
  "s3_env \<Rightarrow> int \<Rightarrow> string \<Rightarrow> string \<Rightarrow> string \<Rightarrow> over option \<Rightarrow> string \<Rightarrow> s3_st \<Rightarrow> s3_st" where
  "s3_emit_event ev now b k event v source st =
     (let (st1, payload) = s3_build_notification_event ev now b k v event source st
      in s3_notification_record_delivery ev now b event k (case v of None \<Rightarrow> ''null'' | Some v \<Rightarrow> ov_id v) source payload
           (event = ''s3:TestEvent'') st1)"

section \<open>Writing and deleting\<close>

definition s3_write_object_version ::
  "s3_env \<Rightarrow> int \<Rightarrow> string \<Rightarrow> string \<Rightarrow> over \<Rightarrow> placement \<Rightarrow> string \<Rightarrow> string \<Rightarrow> s3_st \<Rightarrow> s3_st \<times> entry result" where
  "s3_write_object_version ev now b k v p event source st =
     (case (if ov_marker v then Inr () else enforce_storage_cap ev st (stored_size v)) of
        Inl e \<Rightarrow> (st, Inl e)
      | Inr _ \<Rightarrow>
          (case s3_ensure_object_entry now b k True st of
             (st1, None) \<Rightarrow> (st1, Inl (TypeError ''NoneType''))
           | (st1, Some e) \<Rightarrow>
               let e1 = s3_refresh_object_entry now (e\<lparr>en_versions := Some (place p v (versions_of e))\<rparr>);
                   st2 = put_entry b k e1 st1
               in (s3_emit_event ev now b k event
                     (case versions_of e1 of [] \<Rightarrow> Some v | c # _ \<Rightarrow> Some c) source st2, Inr e1)))"

definition s3_insert_simple_delete_marker ::
  "s3_env \<Rightarrow> int \<Rightarrow> string \<Rightarrow> string \<Rightarrow> string \<Rightarrow> s3_st \<Rightarrow> s3_st \<times> entry option result" where
  "s3_insert_simple_delete_marker ev now b k source st =
     (case s3_ensure_object_entry now b k True st of
        (st1, None) \<Rightarrow> (st1, Inl (TypeError ''NoneType''))
      | (st1, Some e) \<Rightarrow>
          let status = s3_bucket_versioning_status st1 b in
          if status = ''Disabled'' then
            (s3_emit_event ev now b k ''s3:ObjectRemoved:Delete'' None source (drop_entry b k st1), Inr None)
          else
            let vs = versions_of e;
                e1 = (if status = ''Suspended'' \<and> vs \<noteq> [] \<and> ov_id (hd vs) = ''null'' then e\<lparr>en_versions := Some (tl vs)\<rparr> else e);
                st2 = put_entry b k e1 st1;
                (st3, vid) = (if status = ''Enabled'' then s3_new_version_id ev st2 b else (st2, ''null''));
                mk = s3_make_version_record ev now [] ''application/octet-stream'' ''STANDARD'' [] [] vid True
            in (case s3_write_object_version ev now b k mk Prepend ''s3:ObjectRemoved:DeleteMarkerCreated'' source st3 of
                  (st4, Inl x) \<Rightarrow> (st4, Inl x)
                | (st4, Inr e2) \<Rightarrow> (st4, Inr (Some e2))))"

definition s3_delete_version :: "s3_env \<Rightarrow> int \<Rightarrow> string \<Rightarrow> string \<Rightarrow> string \<Rightarrow> s3_st \<Rightarrow> s3_st \<times> bool" where
  "s3_delete_version ev now b k vid st =
     (case s3_ensure_object_entry now b k False st of
        (st1, None) \<Rightarrow> (st1, False)
      | (st1, Some e) \<Rightarrow>
          let vs = versions_of e;
              gone = find (\<lambda>v. ov_id v = vid) vs;
              rest = filter (\<lambda>v. ov_id v \<noteq> vid) vs
          in if length rest = length vs then (st1, False)
             else
               let st2 = (if rest \<noteq> [] then put_entry b k (s3_refresh_object_entry now (e\<lparr>en_versions := Some rest\<rparr>)) st1
                          else drop_entry b k st1)
               in (s3_emit_event ev now b k ''s3:ObjectRemoved:Delete'' gone ''DeleteObject'' st2, True))"

end
