(* ===== verification/S3_Buckets.thy ===== *)
theory S3_Buckets
imports S3_Objects
begin

text \<open>The bucket handlers of S3 (\<open>routes/aws_s3.py\<close>): creation and deletion, versioning, tags, ACL, CORS and
  lifecycle documents, the notification configuration as XML, and the two listings and the version listing.
  A response is its status, the headers the code chooses and its text; the request ids drawn for every
  response are left out, an error keeps its code instead of the rendered document.\<close>

datatype s3_resp =
    S3_Response int "string dict" string
  | S3_Error string string int

definition S3_NS :: string where
  "S3_NS = ''http://s3.amazonaws.com/doc/2006-03-01/''"

definition xml_response :: "string \<Rightarrow> s3_resp" where
  "xml_response body = S3_Response 200 [] body"

definition empty_response :: "int \<Rightarrow> string dict \<Rightarrow> s3_resp" where
  "empty_response status headers = S3_Response status headers []"

definition no_such_bucket :: "string \<Rightarrow> s3_resp" where
  "no_such_bucket b = S3_Error ''NoSuchBucket'' (CHR ''/'' # b) 404"

definition elem :: "string \<Rightarrow> string \<Rightarrow> string" where
  "elem t body = ''<'' @ t @ ''>'' @ body @ ''</'' @ t @ ''>''"

definition xml_decl :: string where
  "xml_decl = ''<?xml version='' @ [CHR 0x22] @ ''1.0'' @ [CHR 0x22] @ '' encoding='' @ [CHR 0x22] @ ''UTF-8'' @ [CHR 0x22] @ ''?>''"

definition root_elem :: "string \<Rightarrow> string \<Rightarrow> string" where
  "root_elem t body = xml_decl @ ''<'' @ t @ '' xmlns='' @ [CHR 0x22] @ S3_NS @ [CHR 0x22] @ ''>'' @ body @ ''</'' @ t @ ''>''"

definition true_false :: "bool \<Rightarrow> string" where
  "true_false b = (if b then ''true'' else ''false'')"

section \<open>Bucket names\<close>

definition bucket_edge :: "char \<Rightarrow> bool" where
  "bucket_edge c = (let n = (of_char c :: nat) in (97 \<le> n \<and> n \<le> 122) \<or> (48 \<le> n \<and> n \<le> 57))"

definition bucket_inner :: "char \<Rightarrow> bool" where
  "bucket_inner c = (bucket_edge c \<or> c = CHR ''-'' \<or> c = CHR ''.'')"

definition bucket_text :: "string \<Rightarrow> bool" where
  "bucket_text s = (length s \<ge> 2 \<and> bucket_edge (hd s) \<and> bucket_edge (last s) \<and> list_all bucket_inner s)"

text \<open>The closing dollar of the pattern also matches before a final newline.\<close>

definition bucket_pattern :: "string \<Rightarrow> bool" where
  "bucket_pattern s = (bucket_text s \<or> (s \<noteq> [] \<and> last s = CHR 0x0A \<and> bucket_text (butlast s)))"

definition validate_bucket_name :: "string \<Rightarrow> s3_resp option" where
  "validate_bucket_name s =
     (if length s < 3 \<or> length s > 63 then Some (S3_Error ''InvalidBucketName'' (CHR ''/'' # s) 400)
      else if \<not> bucket_pattern s \<and> length s > 1 then Some (S3_Error ''InvalidBucketName'' (CHR ''/'' # s) 400)
      else None)"

section \<open>Walking XML\<close>

definition s3_xml_name :: "xml \<Rightarrow> string" where
  "s3_xml_name e = after_last ''}'' (xml_tag e)"

definition s3_xml_find_children :: "xml \<Rightarrow> string \<Rightarrow> xml list" where
  "s3_xml_find_children e n = filter (\<lambda>c. s3_xml_name c = n) (xml_children e)"

definition s3_xml_find_child :: "xml \<Rightarrow> string \<Rightarrow> xml option" where
  "s3_xml_find_child e n = find (\<lambda>c. s3_xml_name c = n) (xml_children e)"

definition text_or :: "xml \<Rightarrow> string \<Rightarrow> string" where
  "text_or e d = (case xml_text e of None \<Rightarrow> d | Some t \<Rightarrow> str_or t d)"

definition s3_xml_text :: "xml \<Rightarrow> string \<Rightarrow> string \<Rightarrow> string" where
  "s3_xml_text e n d = (case s3_xml_find_child e n of None \<Rightarrow> d | Some c \<Rightarrow> strip (text_or c d))"

definition ns_tag :: "string \<Rightarrow> string" where
  "ns_tag n = ''{'' @ S3_NS @ ''}'' @ n"

text \<open>\<open>root.iter(tag)\<close> and \<open>elem.find(tag)\<close>.\<close>

function xml_iter :: "string \<Rightarrow> xml \<Rightarrow> xml list" where
  "xml_iter t (Xml tag tx cs) = (if tag = t then [Xml tag tx cs] else []) @ concat (map (xml_iter t) cs)"
  by pat_completeness auto
termination
proof (relation "measure (\<lambda>(t, e). size e)")
  fix t tag :: string and tx and cs :: "xml list" and x
  assume "x \<in> set cs"
  then have "size x \<le> size_list size cs" by (induction cs) auto
  then show "((t, x), (t, Xml tag tx cs)) \<in> measure (\<lambda>(t, e). size e)" by simp
qed simp

definition xml_find :: "string \<Rightarrow> xml \<Rightarrow> xml option" where
  "xml_find t e = find (\<lambda>c. xml_tag c = t) (xml_children e)"

definition add_tag :: "xml \<Rightarrow> string dict \<Rightarrow> string dict" where
  "add_tag e tags =
     (case xml_find (ns_tag ''Key'') e of
        None \<Rightarrow> tags
      | Some k \<Rightarrow>
          (case xml_text k of
             None \<Rightarrow> tags
           | Some kt \<Rightarrow>
               if kt = [] then tags
               else dset kt (case xml_find (ns_tag ''Value'') e of None \<Rightarrow> [] | Some v \<Rightarrow> text_or v []) tags))"

definition parse_tagging_xml :: "s3_env \<Rightarrow> string \<Rightarrow> string dict" where
  "parse_tagging_xml ev body =
     (if body = [] then []
      else case sv_xml ev body of None \<Rightarrow> [] | Some root \<Rightarrow> fold add_tag (xml_iter (ns_tag ''Tag'') root) [])"

definition build_tagging_xml :: "string dict \<Rightarrow> string" where
  "build_tagging_xml tags =
     root_elem ''Tagging'' (elem ''TagSet'' (concat (map (\<lambda>(k, v). elem ''Tag'' (elem ''Key'' k @ elem ''Value'' v)) tags)))"

section \<open>The notification configuration\<close>

text \<open>The filter rules of a rule element, later ones replacing earlier ones.\<close>

definition add_filter_rule :: "xml \<Rightarrow> rule \<Rightarrow> rule" where
  "add_filter_rule fr r =
     (let name = lower (s3_xml_text fr ''Name'' []); v = s3_xml_text fr ''Value'' []
      in if name = ''prefix'' then r\<lparr>ru_prefix := v\<rparr> else if name = ''suffix'' then r\<lparr>ru_suffix := v\<rparr> else r)"

definition dest_tag :: "string \<Rightarrow> string" where
  "dest_tag kind = (if kind = ''TopicConfiguration'' then ''Topic'' else if kind = ''QueueConfiguration'' then ''Queue'' else ''CloudFunction'')"

definition event_texts :: "xml \<Rightarrow> string list" where
  "event_texts e =
     concat (map (\<lambda>c. case xml_text c of None \<Rightarrow> [] | Some t \<Rightarrow> if strip t = [] then [] else [strip t]) (s3_xml_find_children e ''Event''))"

definition parse_rule :: "s3_env \<Rightarrow> nat \<Rightarrow> string \<Rightarrow> xml \<Rightarrow> rule" where
  "parse_rule ev n kind e =
     (let r = \<lparr>ru_id = s3_xml_text e ''Id'' (''notif-'' @ take 12 (sv_hex ev n)), ru_events = event_texts e,
               ru_prefix = [], ru_suffix = [], ru_dest = s3_xml_text e (dest_tag kind) []\<rparr>
      in case s3_xml_find_child e ''Filter'' of
           None \<Rightarrow> r
         | Some f \<Rightarrow>
             (case s3_xml_find_child f ''S3Key'' of
                None \<Rightarrow> r
              | Some s \<Rightarrow> fold add_filter_rule (s3_xml_find_children s ''FilterRule'') r))"

fun parse_rules :: "s3_env \<Rightarrow> string \<Rightarrow> nat \<Rightarrow> xml list \<Rightarrow> nat \<times> rule list" where
  "parse_rules ev kind n [] = (n, [])"
| "parse_rules ev kind n (e # es) =
     (let (n', rs) = parse_rules ev kind (Suc n) es in (n', parse_rule ev n kind e # rs))"

definition s3_parse_notification_xml :: "s3_env \<Rightarrow> int \<Rightarrow> nat \<Rightarrow> string \<Rightarrow> nat \<times> notif result" where
  "s3_parse_notification_xml ev now n body =
     (let config = s3_default_notifications now in
      if strip body = [] then (n, Inr config)
      else case sv_xml ev body of
             None \<Rightarrow> (n, Inl (bad_request ''MalformedXML''))
           | Some root \<Rightarrow>
               if s3_xml_name root \<noteq> ''NotificationConfiguration'' then (n, Inl (bad_request ''InvalidNotificationConfiguration''))
               else
                 let kids = s3_xml_find_children root;
                     (n1, ts) = parse_rules ev ''TopicConfiguration'' n (kids ''TopicConfiguration'');
                     (n2, qs) = parse_rules ev ''QueueConfiguration'' n1 (kids ''QueueConfiguration'');
                     (n3, fs) = parse_rules ev ''CloudFunctionConfiguration'' n2 (kids ''CloudFunctionConfiguration'')
                 in (n3, Inr (config\<lparr>nf_bridge := s3_xml_find_child root ''EventBridgeConfiguration'' \<noteq> None,
                                     nf_topics := ts, nf_queues := qs, nf_functions := fs\<rparr>)))"

definition leaf :: "string \<Rightarrow> string \<Rightarrow> xml" where
  "leaf t s = Xml t (Some s) []"

definition filter_rule :: "string \<Rightarrow> string \<Rightarrow> xml list" where
  "filter_rule name v = (if v = [] then [] else [Xml ''FilterRule'' None [leaf ''Name'' name, leaf ''Value'' v]])"

definition rule_xml :: "string \<Rightarrow> rule \<Rightarrow> xml" where
  "rule_xml kind r =
     Xml kind None
       ((if ru_id r = [] then [] else [leaf ''Id'' (ru_id r)])
        @ map (leaf ''Event'') (ru_events r)
        @ [leaf (dest_tag kind) (ru_dest r)]
        @ (if ru_prefix r = [] \<and> ru_suffix r = [] then []
           else [Xml ''Filter'' None [Xml ''S3Key'' None (filter_rule ''prefix'' (ru_prefix r) @ filter_rule ''suffix'' (ru_suffix r))]]))"

definition notification_tree :: "notif \<Rightarrow> xml" where
  "notification_tree nf =
     Xml ''NotificationConfiguration'' None
       ((if nf_bridge nf then [Xml ''EventBridgeConfiguration'' None []] else [])
        @ map (rule_xml ''TopicConfiguration'') (nf_topics nf)
        @ map (rule_xml ''QueueConfiguration'') (nf_queues nf)
        @ map (rule_xml ''CloudFunctionConfiguration'') (nf_functions nf))"

definition s3_notification_xml_from_config :: "s3_env \<Rightarrow> notif \<Rightarrow> string" where
  "s3_notification_xml_from_config ev nf = sv_tostring ev (notification_tree nf)"

section \<open>Configuring and creating a bucket\<close>

definition new_bucket :: "int \<Rightarrow> string \<Rightarrow> string \<Rightarrow> bucket" where
  "new_bucket now region b =
     \<lparr>b_region = region, b_created = secs now, b_access = ''Bucket and objects not public'', b_versioning = ''Disabled'',
      b_arn = ''arn:aws:s3:::'' @ b, b_tags = Some [], b_notif = Some (s3_default_notifications now),
      b_acl = [], b_cors = [], b_lifecycle = []\<rparr>"

definition create_region :: "s3_env \<Rightarrow> string \<Rightarrow> string" where
  "create_region ev body =
     (if body = [] then ''us-east-1''
      else case sv_xml ev body of
             None \<Rightarrow> ''us-east-1''
           | Some root \<Rightarrow>
               (case xml_find (ns_tag ''LocationConstraint'') root of
                  None \<Rightarrow> ''us-east-1'' | Some l \<Rightarrow> text_or l ''us-east-1''))"

definition bucket_gate :: "s3_env \<Rightarrow> s3_st \<Rightarrow> unit result" where
  "bucket_gate ev st =
     (let r = check_quantity (sv_tier ev) ''bucket'' (int (sv_other_buckets ev + length (s3_buckets st)))
      in if resp_ok r then Inr ()
         else Inl (HTTPException 403 (PDict (dset ''docs'' (PStr ''https://cloudlearn.io/docs/tiers'')
                (dset ''active_tier'' (PStr (sv_tier ev)) r)))))"

definition create_bucket :: "s3_env \<Rightarrow> int \<Rightarrow> string \<Rightarrow> string \<Rightarrow> s3_st \<Rightarrow> s3_st \<times> s3_resp result" where
  "create_bucket ev now b body st =
     (case validate_bucket_name b of
        Some err \<Rightarrow> (st, Inr err)
      | None \<Rightarrow>
          if bucket_exists st b then (st, Inr (S3_Error ''BucketAlreadyOwnedByYou'' (CHR ''/'' # b) 409))
          else
            (case bucket_gate ev st of
               Inl e \<Rightarrow> (st, Inl e)
             | Inr _ \<Rightarrow>
                 (st\<lparr>s3_buckets := dset b (new_bucket now (create_region ev body) b) (s3_buckets st),
                    s3_objects := dset b [] (s3_objects st)\<rparr>,
                  Inr (empty_response 200 [(''Location'', CHR ''/'' # b)]))))"

definition put_document ::
  "s3_env \<Rightarrow> bool \<Rightarrow> (string \<Rightarrow> bucket \<Rightarrow> bucket) \<Rightarrow> string \<Rightarrow> string \<Rightarrow> s3_st \<Rightarrow> s3_st \<times> s3_resp result" where
  "put_document ev check upd b body st =
     (if strip body = [] then (st, Inr (empty_response 200 []))
      else if check \<and> sv_xml ev body = None then (st, Inr (S3_Error ''MalformedXML'' (CHR ''/'' # b) 400))
      else (upd_bucket b (upd body) st, Inr (empty_response 200 [])))"

definition put_notification :: "s3_env \<Rightarrow> int \<Rightarrow> string \<Rightarrow> string \<Rightarrow> s3_st \<Rightarrow> s3_st \<times> s3_resp result" where
  "put_notification ev now b body st =
     (case s3_parse_notification_xml ev now (s3_n st) body of
        (n, Inl e) \<Rightarrow> (st\<lparr>s3_n := n\<rparr>, Inl e)
      | (n, Inr nf) \<Rightarrow>
          let st1 = upd_bucket b (b_notif_update (\<lambda>_. Some nf)) (st\<lparr>s3_n := n\<rparr>);
              st2 = (if strip body = [] then st1
                     else s3_notification_record_delivery ev now b ''s3:TestEvent'' [] [] ''PutBucketNotificationConfiguration''
                            (PDict [(''message'', PStr ''TestEvent'')]) True st1)
          in (st2, Inr (empty_response 200 [])))"

definition s3_put_bucket :: "s3_env \<Rightarrow> int \<Rightarrow> string dict \<Rightarrow> string \<Rightarrow> string \<Rightarrow> s3_st \<Rightarrow> s3_st \<times> s3_resp result" where
  "s3_put_bucket ev now params b body st =
     (let guarded = (\<lambda>r. if bucket_exists st b then r else (st, Inr (no_such_bucket b))) in
      if dhas params ''versioning'' then
        guarded (upd_bucket b (b_versioning_update (\<lambda>_. if contains ''Enabled'' body then ''Enabled'' else ''Suspended'')) st,
                 Inr (empty_response 200 []))
      else if dhas params ''notification'' then guarded (put_notification ev now b body st)
      else if dhas params ''tagging'' then
        guarded (upd_bucket b (b_tags_update (\<lambda>_. Some (parse_tagging_xml ev body))) st, Inr (empty_response 204 []))
      else if dhas params ''acl'' then guarded (put_document ev False (\<lambda>t. b_acl_update (\<lambda>_. t)) b body st)
      else if dhas params ''cors'' then guarded (put_document ev True (\<lambda>t. b_cors_update (\<lambda>_. t)) b body st)
      else if dhas params ''lifecycle'' then guarded (put_document ev True (\<lambda>t. b_lifecycle_update (\<lambda>_. t)) b body st)
      else if dhas params ''encryption'' then guarded (st, Inr (empty_response 200 []))
      else create_bucket ev now b body st)"

definition s3_head_bucket :: "string \<Rightarrow> s3_st \<Rightarrow> s3_resp" where
  "s3_head_bucket b st = (if bucket_exists st b then empty_response 200 [] else no_such_bucket b)"

definition s3_delete_bucket :: "int \<Rightarrow> string dict \<Rightarrow> string \<Rightarrow> s3_st \<Rightarrow> s3_st \<times> s3_resp" where
  "s3_delete_bucket now params b st =
     (if \<not> bucket_exists st b then (st, no_such_bucket b)
      else if dhas params ''notification'' then
        (upd_bucket b (b_notif_update (\<lambda>_. Some (s3_default_notifications now))) st, empty_response 204 [])
      else if dhas params ''cors'' then (upd_bucket b (b_cors_update (\<lambda>_. [])) st, empty_response 204 [])
      else if dhas params ''lifecycle'' then (upd_bucket b (b_lifecycle_update (\<lambda>_. [])) st, empty_response 204 [])
      else if dhas params ''tagging'' then (upd_bucket b (b_tags_update (\<lambda>_. None)) st, empty_response 204 [])
      else if dget (s3_objects st) b [] \<noteq> [] then (st, S3_Error ''BucketNotEmpty'' (CHR ''/'' # b) 409)
      else (st\<lparr>s3_buckets := dpop b (s3_buckets st), s3_objects := dpop b (s3_objects st)\<rparr>, empty_response 204 []))"

definition s3_list_buckets :: "s3_env \<Rightarrow> s3_st \<Rightarrow> s3_resp" where
  "s3_list_buckets ev st =
     xml_response (root_elem ''ListAllMyBucketsResult''
       (''<Owner><ID>simulator</ID><DisplayName>cloudlearn-simulator</DisplayName></Owner>'' @
        elem ''Buckets'' (concat (map (\<lambda>(n, m). elem ''Bucket'' (elem ''Name'' n @ elem ''CreationDate'' (sv_iso ev (b_created m))))
          (s3_buckets st)))))"

section \<open>Listings\<close>

text \<open>The visible keys of a bucket in order; reading an entry stores its normal form, which changes nothing
  that is read here, so the listings leave the state as it is.\<close>

definition visible_key :: "int \<Rightarrow> entry \<Rightarrow> bool" where
  "visible_key now e = (s3_latest_visible_version (Some (normal_entry now e)) \<noteq> None)"

definition bucket_objects :: "s3_st \<Rightarrow> string \<Rightarrow> entry dict" where
  "bucket_objects st b = dget (s3_objects st) b []"

definition listed_keys :: "int \<Rightarrow> string \<Rightarrow> string \<Rightarrow> string \<Rightarrow> s3_st \<Rightarrow> string list" where
  "listed_keys now b pre start st =
     (let ks = filter (\<lambda>k. startswith k pre \<and> (case find_entry st b k of None \<Rightarrow> False | Some e \<Rightarrow> visible_key now e))
                 (sort (dkeys (bucket_objects st b)))
      in if start = [] then ks else filter (\<lambda>k. k > start) ks)"

text \<open>\<open>suffix.find(delimiter)\<close> at the end of the delimiter.\<close>

definition common_prefix :: "string \<Rightarrow> string \<Rightarrow> string \<Rightarrow> string option" where
  "common_prefix pre delim k =
     (if delim = [] then None
      else map_option (\<lambda>(a, _). pre @ a @ delim) (split_once delim (drop (length pre) k)))"

text \<open>One page: the keys, the rolled-up prefixes, whether it was cut, and where to go on.  Python slices with a
  negative bound count from the end; a cut page with no key raises.\<close>

record page =
  pg_keys :: "string list"
  pg_prefixes :: "string list"
  pg_truncated :: bool
  pg_next :: string

definition take_int :: "int \<Rightarrow> 'a list \<Rightarrow> 'a list" where
  "take_int n xs = (if n < 0 then take (length xs - nat (- n)) xs else take (nat n) xs)"

definition list_page :: "int \<Rightarrow> string \<Rightarrow> string \<Rightarrow> string \<Rightarrow> string \<Rightarrow> int \<Rightarrow> s3_st \<Rightarrow> page result" where
  "list_page now b pre delim start max_keys st =
     (let ks = listed_keys now b pre start st;
          cps = sort (dict_fromkeys (map the (filter (\<lambda>c. c \<noteq> None) (map (common_prefix pre delim) ks))));
          rs = filter (\<lambda>k. common_prefix pre delim k = None) ks;
          truncated = (int (length rs) > max_keys);
          page = take_int max_keys rs
      in if truncated \<and> page = [] then Inl (IndexError ''list index out of range'')
         else Inr \<lparr>pg_keys = page, pg_prefixes = cps, pg_truncated = truncated, pg_next = (if truncated then last page else [])\<rparr>)"

definition parse_max_keys :: "string dict \<Rightarrow> int result" where
  "parse_max_keys params =
     (case map_of params ''max-keys'' of
        None \<Rightarrow> Inr 1000
      | Some s \<Rightarrow> (case int_of_str s of None \<Rightarrow> Inl (ValueError ''invalid literal'') | Some n \<Rightarrow> Inr (min n 1000)))"

definition owner_xml :: string where
  "owner_xml = ''<Owner><ID>simulator</ID><DisplayName>cloudlearn-simulator</DisplayName></Owner>''"

definition object_xml :: "s3_env \<Rightarrow> int \<Rightarrow> string \<Rightarrow> bool \<Rightarrow> s3_st \<Rightarrow> string \<Rightarrow> string" where
  "object_xml ev now b owner st k =
     (case s3_latest_visible_version (map_option (normal_entry now) (find_entry st b k)) of
        None \<Rightarrow> []
      | Some v \<Rightarrow>
          elem ''Contents'' (elem ''Key'' k @ elem ''LastModified'' (sv_iso ev (ov_modified v)) @ elem ''ETag'' (ov_etag v)
            @ elem ''Size'' (int_str (ov_size v)) @ elem ''StorageClass'' (ov_class v) @ (if owner then owner_xml else [])))"

definition prefixes_xml :: "string list \<Rightarrow> string" where
  "prefixes_xml cps = concat (map (\<lambda>c. elem ''CommonPrefixes'' (elem ''Prefix'' c)) cps)"

definition list_objects_v1 :: "s3_env \<Rightarrow> int \<Rightarrow> string \<Rightarrow> string dict \<Rightarrow> s3_st \<Rightarrow> s3_resp result" where
  "list_objects_v1 ev now b params st =
     rbind (parse_max_keys params) (\<lambda>mk.
       let pre = dget params ''prefix'' []; delim = dget params ''delimiter'' []; marker = dget params ''marker'' [] in
       rbind (list_page now b pre delim marker mk st) (\<lambda>pg.
         Inr (xml_response (root_elem ''ListBucketResult''
           (elem ''Name'' b @ elem ''Prefix'' pre @ elem ''Marker'' marker @ elem ''MaxKeys'' (int_str mk)
            @ elem ''IsTruncated'' (true_false (pg_truncated pg))
            @ (if pg_truncated pg then elem ''NextMarker'' (pg_next pg) else [])
            @ (if delim \<noteq> [] then elem ''Delimiter'' delim else [])
            @ concat (map (object_xml ev now b True st) (pg_keys pg))
            @ prefixes_xml (pg_prefixes pg))))))"

definition list_objects_v2 :: "s3_env \<Rightarrow> int \<Rightarrow> string \<Rightarrow> string dict \<Rightarrow> s3_st \<Rightarrow> s3_resp result" where
  "list_objects_v2 ev now b params st =
     rbind (parse_max_keys params) (\<lambda>mk.
       let pre = dget params ''prefix'' []; delim = dget params ''delimiter'' [];
           token = dget params ''continuation-token'' []; after = dget params ''start-after'' [];
           owner = (lower (dget params ''fetch-owner'' ''false'') = ''true'') in
       rbind (list_page now b pre delim (str_or token after) mk st) (\<lambda>pg.
         Inr (xml_response (root_elem ''ListBucketResult''
           (elem ''Name'' b @ elem ''Prefix'' pre @ elem ''MaxKeys'' (int_str mk)
            @ elem ''KeyCount'' (int_str (int (length (pg_keys pg))))
            @ elem ''IsTruncated'' (true_false (pg_truncated pg))
            @ (if token \<noteq> [] then elem ''ContinuationToken'' token else [])
            @ (if pg_truncated pg then elem ''NextContinuationToken'' (pg_next pg) else [])
            @ (if delim \<noteq> [] then elem ''Delimiter'' delim else [])
            @ (if after \<noteq> [] then elem ''StartAfter'' after else [])
            @ concat (map (object_xml ev now b owner st) (pg_keys pg))
            @ prefixes_xml (pg_prefixes pg))))))"

section \<open>Version listing\<close>

definition version_order :: "over list \<Rightarrow> over list" where
  "version_order vs = rev (sort_key (\<lambda>v. (ov_modified v, ov_id v)) (rev vs))"

definition s3_list_versions :: "int \<Rightarrow> string \<Rightarrow> string \<Rightarrow> s3_st \<Rightarrow> (string \<times> over) list" where
  "s3_list_versions now b pre st =
     concat (map (\<lambda>k. case find_entry st b k of
                        None \<Rightarrow> []
                      | Some e \<Rightarrow> map (\<lambda>v. (k, v)) (version_order (versions_of (normal_entry now e))))
       (filter (\<lambda>k. startswith k pre) (sort (dkeys (bucket_objects st b)))))"

text \<open>The versions after a marker: later keys, and those of the marker key behind the marked version.\<close>

fun after_marker :: "string \<Rightarrow> string \<Rightarrow> (string \<times> over) list \<Rightarrow> (string \<times> over) list" where
  "after_marker mk vmk [] = []"
| "after_marker mk vmk ((k, v) # kvs) =
     (if k < mk then after_marker mk vmk kvs
      else if k > mk then (k, v) # kvs
      else if vmk \<noteq> [] \<and> ov_id v = vmk then kvs
      else after_marker mk vmk kvs)"

definition version_xml :: "s3_env \<Rightarrow> string \<times> over \<Rightarrow> string" where
  "version_xml ev kv =
     (case kv of (k, v) \<Rightarrow>
        elem (if ov_marker v then ''DeleteMarker'' else ''Version'')
          (elem ''Key'' k @ elem ''VersionId'' (ov_id v) @ elem ''IsLatest'' (true_false (ov_latest v))
           @ elem ''LastModified'' (sv_iso ev (ov_modified v)) @ owner_xml
           @ (if ov_marker v then []
              else elem ''ETag'' (ov_etag v) @ elem ''Size'' (int_str (ov_size v)) @ elem ''StorageClass'' (ov_class v))))"

definition list_versions :: "s3_env \<Rightarrow> int \<Rightarrow> string \<Rightarrow> string dict \<Rightarrow> s3_st \<Rightarrow> s3_resp result" where
  "list_versions ev now b params st =
     rbind (parse_max_keys params) (\<lambda>mk.
       let pre = dget params ''prefix'' []; marker = dget params ''key-marker'' []; vmarker = dget params ''version-id-marker'' [];
           all0 = s3_list_versions now b pre st;
           allv = (if marker \<noteq> [] then after_marker marker vmarker all0 else all0);
           truncated = (int (length allv) > mk);
           page = take_int mk allv
       in Inr (xml_response (root_elem ''ListVersionsResult''
            (elem ''Name'' b @ elem ''Prefix'' pre @ elem ''KeyMarker'' marker @ elem ''VersionIdMarker'' vmarker
             @ elem ''MaxKeys'' (int_str mk) @ elem ''IsTruncated'' (true_false truncated)
             @ (if truncated \<and> page \<noteq> [] then elem ''NextKeyMarker'' (fst (last page)) @ elem ''NextVersionIdMarker'' (ov_id (snd (last page)))
                else [])
             @ concat (map (version_xml ev) page)))))"

definition acl_xml :: string where
  "acl_xml = root_elem ''AccessControlPolicy''
     (owner_xml @ elem ''AccessControlList''
        (''<Grant><Grantee xmlns:xsi='' @ [CHR 0x22] @ ''http://www.w3.org/2001/XMLSchema-instance'' @ [CHR 0x22]
         @ '' xsi:type='' @ [CHR 0x22] @ ''CanonicalUser'' @ [CHR 0x22] @ ''><ID>simulator</ID>''
         @ ''<DisplayName>cloudlearn-simulator</DisplayName></Grantee><Permission>FULL_CONTROL</Permission></Grant>''))"

definition uploads_xml :: "s3_env \<Rightarrow> string \<Rightarrow> s3_st \<Rightarrow> string" where
  "uploads_xml ev b st =
     root_elem ''ListMultipartUploadsResult''
       (elem ''Bucket'' b @ ''<KeyMarker></KeyMarker><UploadIdMarker></UploadIdMarker><NextKeyMarker></NextKeyMarker>''
        @ ''<NextUploadIdMarker></NextUploadIdMarker><MaxUploads>1000</MaxUploads><IsTruncated>false</IsTruncated>''
        @ concat (map (\<lambda>(u, mp). if up_bucket mp = b
             then elem ''Upload'' (elem ''Key'' (up_key mp) @ elem ''UploadId'' u
               @ ''<Initiator><ID>simulator</ID><DisplayName>cloudlearn-simulator</DisplayName></Initiator>'' @ owner_xml
               @ ''<StorageClass>STANDARD</StorageClass>'' @ elem ''Initiated'' (sv_iso ev (up_initiated mp)))
             else []) (s3_uploads st)))"

definition stored_or :: "string \<Rightarrow> s3_resp \<Rightarrow> s3_resp" where
  "stored_or t r = (if t \<noteq> [] then xml_response t else r)"

definition s3_get_bucket :: "s3_env \<Rightarrow> int \<Rightarrow> string dict \<Rightarrow> string \<Rightarrow> s3_st \<Rightarrow> s3_st \<times> s3_resp result" where
  "s3_get_bucket ev now params b st =
     (case map_of (s3_buckets st) b of
        None \<Rightarrow> (st, Inr (no_such_bucket b))
      | Some m \<Rightarrow>
          if dhas params ''location'' then
            (st, Inr (xml_response (root_elem ''LocationConstraint'' (if b_region m = ''us-east-1'' then [] else b_region m))))
          else if dhas params ''versioning'' then
            (st, Inr (xml_response (root_elem ''VersioningConfiguration''
               (if b_versioning m \<noteq> ''Disabled'' then elem ''Status'' (b_versioning m) else []))))
          else if dhas params ''notification'' then
            (let nf = (case b_notif m of None \<Rightarrow> s3_default_notifications now | Some nf \<Rightarrow> nf)
             in (upd_bucket b (b_notif_update (\<lambda>_. Some nf)) st, Inr (xml_response (s3_notification_xml_from_config ev nf))))
          else if dhas params ''versions'' then (st, list_versions ev now b params st)
          else if dhas params ''tagging'' then
            (st, Inr (case b_tags m of
                        Some (t # ts) \<Rightarrow> xml_response (build_tagging_xml (t # ts))
                      | _ \<Rightarrow> S3_Error ''NoSuchTagSet'' (CHR ''/'' # b) 404))
          else if dhas params ''acl'' then (st, Inr (stored_or (b_acl m) (xml_response acl_xml)))
          else if dhas params ''encryption'' then
            (st, Inr (S3_Error ''ServerSideEncryptionConfigurationNotFoundError'' (CHR ''/'' # b) 404))
          else if dhas params ''lifecycle'' then
            (st, Inr (stored_or (b_lifecycle m) (S3_Error ''NoSuchLifecycleConfiguration'' (CHR ''/'' # b) 404)))
          else if dhas params ''cors'' then
            (st, Inr (stored_or (b_cors m) (S3_Error ''NoSuchCORSConfiguration'' (CHR ''/'' # b) 404)))
          else if dhas params ''uploads'' then (st, Inr (xml_response (uploads_xml ev b st)))
          else if map_of params ''list-type'' = Some ''2'' then (st, list_objects_v2 ev now b params st)
          else (st, list_objects_v1 ev now b params st))"

end
