(* ===== verification/S3_API.thy ===== *)
theory S3_API
imports S3_Buckets
begin

text \<open>The object handlers of S3 (\<open>routes/aws_s3.py\<close>): put, copy, get with ranges, head, delete and batch delete, tags,
  and multipart uploads, over the versions of \<open>S3_Objects\<close>.  A request is its query parameters, its headers (a
  dictionary with lower-case names) and its body; \<open>gcs\<close> is the object store that \<open>GET\<close> asks for a bucket it does not
  know.  A copy's \<open>x-amz-metadata-directive\<close> decides the content type only, as in the code.\<close>

definition object_path :: "string \<Rightarrow> string \<Rightarrow> string" where
  "object_path b k = CHR ''/'' # b @ CHR ''/'' # k"

definition no_such_key :: "string \<Rightarrow> string \<Rightarrow> s3_resp" where
  "no_such_key b k = S3_Error ''NoSuchKey'' (object_path b k) 404"

definition delete_marker_response :: "s3_env \<Rightarrow> string \<Rightarrow> string \<Rightarrow> int \<Rightarrow> s3_resp" where
  "delete_marker_response ev b k t =
     S3_Response 405 [(''x-amz-delete-marker'', ''true''), (''Last-Modified'', sv_http_date ev t)]
       (xml_decl @ elem ''Error'' (elem ''Code'' ''MethodNotAllowed'' @ elem ''Message'' ''The specified version is a delete marker.''
          @ elem ''Resource'' (object_path b k)))"

definition no_such_upload :: "string \<Rightarrow> string \<Rightarrow> s3_resp" where
  "no_such_upload b k = S3_Error ''NoSuchUpload'' (object_path b k) 404"

definition meta_headers :: "string dict \<Rightarrow> string dict" where
  "meta_headers meta = map (\<lambda>(k, v). (''x-amz-meta-'' @ k, v)) meta"

definition user_meta :: "string dict \<Rightarrow> string dict" where
  "user_meta headers =
     fold (\<lambda>(h, v). dset (drop 11 h) v) (filter (\<lambda>(h, _). startswith (lower h) ''x-amz-meta-'') headers) []"

section \<open>Reading\<close>

text \<open>The version a request asks for; reading stores the normal form of the entry.\<close>

definition asked_version :: "int \<Rightarrow> string \<Rightarrow> string \<Rightarrow> string \<Rightarrow> s3_st \<Rightarrow> s3_st \<times> over option" where
  "asked_version now b k vid st =
     (let (st1, e) = s3_ensure_object_entry now b k False st in (st1, s3_find_version e vid))"

definition s3_head_object :: "s3_env \<Rightarrow> int \<Rightarrow> string dict \<Rightarrow> string \<Rightarrow> string \<Rightarrow> s3_st \<Rightarrow> s3_st \<times> s3_resp" where
  "s3_head_object ev now params b k st =
     (if \<not> bucket_exists st b then (st, S3_Error ''NoSuchBucket'' (object_path b k) 404)
      else
        let vid = dget params ''versionId'' [] in
        case asked_version now b k vid st of
          (st1, None) \<Rightarrow> (st1, no_such_key b k)
        | (st1, Some v) \<Rightarrow>
            (st1,
             if ov_marker v then (if vid \<noteq> [] then delete_marker_response ev b k (ov_modified v) else no_such_key b k)
             else S3_Response 200
               ([(''Content-Length'', int_str (ov_size v)), (''Content-Type'', ov_ctype v), (''ETag'', ov_etag v),
                 (''Last-Modified'', sv_http_date ev (ov_modified v)), (''x-amz-storage-class'', ov_class v),
                 (''x-amz-version-id'', ov_id v)] @ meta_headers (ov_meta v)) []))"

text \<open>\<open>re.match(r"bytes=(\d+)-(\d*)", h)\<close>: the start, and the end when there is one.\<close>

definition range_match :: "string \<Rightarrow> (nat \<times> nat option) option" where
  "range_match h =
     (if \<not> startswith h ''bytes='' then None
      else
        let r = drop 6 h; d1 = takeWhile is_digit r; r1 = dropWhile is_digit r in
        if d1 = [] \<or> \<not> startswith r1 ''-'' then None
        else let d2 = takeWhile is_digit (drop 1 r1)
             in Some (digits_val d1, if d2 = [] then None else Some (digits_val d2)))"

text \<open>\<open>data[start:end + 1]\<close> with the end cut at the last byte, and the range answered.\<close>

definition apply_range :: "string \<Rightarrow> int \<Rightarrow> string \<Rightarrow> string \<times> int \<times> string dict" where
  "apply_range h full data =
     (case range_match h of
        None \<Rightarrow> (data, 200, [])
      | Some (a, b) \<Rightarrow>
          let last_byte = int (length data) - 1;
              stop = min (case b of None \<Rightarrow> last_byte | Some e \<Rightarrow> int e) last_byte
          in (py_slice (int a) (stop + 1) data, 206,
              [(''Content-Range'', ''bytes '' @ nat_str a @ ''-'' @ int_str stop @ ''/'' @ int_str full)]))"

definition get_response :: "s3_env \<Rightarrow> string dict \<Rightarrow> over \<Rightarrow> s3_resp" where
  "get_response ev headers v =
     (case apply_range (dget headers ''range'' []) (ov_size v) (ov_data v) of
        (data, status, rng) \<Rightarrow>
          S3_Response status
            ([(''Content-Type'', ov_ctype v), (''ETag'', ov_etag v), (''Last-Modified'', sv_http_date ev (ov_modified v)),
              (''Content-Length'', nat_str (length data)), (''x-amz-storage-class'', ov_class v), (''x-amz-version-id'', ov_id v)]
             @ rng @ meta_headers (ov_meta v)) data)"

definition parts_xml :: "s3_env \<Rightarrow> int \<Rightarrow> string \<Rightarrow> string \<Rightarrow> string \<Rightarrow> upload \<Rightarrow> string" where
  "parts_xml ev now b k u mp =
     root_elem ''ListPartsResult''
       (elem ''Bucket'' b @ elem ''Key'' k @ elem ''UploadId'' u
        @ ''<Initiator><ID>simulator</ID><DisplayName>cloudlearn-simulator</DisplayName></Initiator>'' @ owner_xml
        @ ''<StorageClass>STANDARD</StorageClass><IsTruncated>false</IsTruncated>''
        @ concat (map (\<lambda>(n, p). elem ''Part'' (elem ''PartNumber'' (int_str n) @ elem ''LastModified'' (sv_iso ev (secs now))
             @ elem ''ETag'' (pt_etag p) @ elem ''Size'' (int_str (pt_size p)))) (sort_key fst (up_parts mp))))"

definition s3_get_object ::
  "s3_env \<Rightarrow> (string \<Rightarrow> string \<Rightarrow> s3_resp option) \<Rightarrow> int \<Rightarrow> string dict \<Rightarrow> string dict \<Rightarrow> string \<Rightarrow> string \<Rightarrow> s3_st \<Rightarrow> s3_st \<times> s3_resp" where
  "s3_get_object ev gcs now params headers b k st =
     (if \<not> bucket_exists st b then
        (st, if k \<noteq> [] \<and> \<not> list_ex (dhas params) [''uploadId'', ''tagging'', ''acl'', ''versions'', ''uploads'']
             then (case gcs b k of Some r \<Rightarrow> r | None \<Rightarrow> no_such_bucket b)
             else no_such_bucket b)
      else if dhas params ''uploadId'' then
        (let u = dget params ''uploadId'' [] in
         (st, case map_of (s3_uploads st) u of None \<Rightarrow> no_such_upload b k | Some mp \<Rightarrow> xml_response (parts_xml ev now b k u mp)))
      else
        let vid = dget params ''versionId'' []; (st1, ver) = asked_version now b k vid st in
        (st1,
         if dhas params ''tagging'' \<or> dhas params ''acl'' then
           (case ver of
              None \<Rightarrow> no_such_key b k
            | Some v \<Rightarrow> if ov_marker v then no_such_key b k
                        else if dhas params ''tagging'' then xml_response (build_tagging_xml (ov_tags v)) else xml_response acl_xml)
         else
           (case ver of
              None \<Rightarrow> no_such_key b k
            | Some v \<Rightarrow>
                if ov_marker v then (if vid \<noteq> [] then delete_marker_response ev b k (ov_modified v) else no_such_key b k)
                else get_response ev headers v)))"

section \<open>Writing\<close>

text \<open>A new current object: the version id and the place depend on the versioning status.\<close>

definition store_object ::
  "s3_env \<Rightarrow> int \<Rightarrow> string \<Rightarrow> string \<Rightarrow> string \<Rightarrow> string \<Rightarrow> string \<Rightarrow> string dict \<Rightarrow> string dict \<Rightarrow> string \<Rightarrow> string \<Rightarrow>
   s3_st \<Rightarrow> s3_st \<times> (over \<times> entry) result" where
  "store_object ev now b k data ctype cls meta tags event source st =
     (let status = s3_bucket_versioning_status st b;
          (st1, vid) = (if status = ''Enabled'' then s3_new_version_id ev st b else (st, ''null''));
          v = s3_make_version_record ev now data ctype cls meta tags vid False
      in case s3_write_object_version ev now b k v (placement_for status) event source st1 of
           (st2, Inl e) \<Rightarrow> (st2, Inl e)
         | (st2, Inr e) \<Rightarrow> (st2, Inr (v, e)))"

definition put_object :: "s3_env \<Rightarrow> int \<Rightarrow> string dict \<Rightarrow> string \<Rightarrow> string \<Rightarrow> string \<Rightarrow> s3_st \<Rightarrow> s3_st \<times> s3_resp result" where
  "put_object ev now headers b k body st =
     (case store_object ev now b k body (dget headers ''content-type'' ''application/octet-stream'')
             (dget headers ''x-amz-storage-class'' ''STANDARD'') (user_meta headers) [] ''s3:ObjectCreated:Put'' ''PutObject'' st of
        (st1, Inl e) \<Rightarrow> (st1, Inl e)
      | (st1, Inr (v, e)) \<Rightarrow> (st1, Inr (empty_response 200 [(''ETag'', ov_etag v), (''x-amz-version-id'', en_current e)])))"

definition lstrip_slash :: "string \<Rightarrow> string" where
  "lstrip_slash s = dropWhile (\<lambda>c. c = CHR ''/'') s"

definition copy_type :: "string dict \<Rightarrow> over \<Rightarrow> string" where
  "copy_type headers v =
     (if dget headers ''x-amz-metadata-directive'' ''COPY'' = ''REPLACE'' \<and> dget headers ''content-type'' (ov_ctype v) \<noteq> []
      then dget headers ''content-type'' (ov_ctype v) else ov_ctype v)"

definition copy_object :: "s3_env \<Rightarrow> int \<Rightarrow> string dict \<Rightarrow> string \<Rightarrow> string \<Rightarrow> string \<Rightarrow> s3_st \<Rightarrow> s3_st \<times> s3_resp result" where
  "copy_object ev now headers source b k st =
     (case split_once ''/'' (lstrip_slash source) of
        None \<Rightarrow> (st, Inr (S3_Error ''InvalidArgument'' (object_path b k) 400))
      | Some (sb, sk) \<Rightarrow>
          if \<not> bucket_exists st sb then (st, Inr (S3_Error ''NoSuchBucket'' (CHR ''/'' # sb) 404))
          else
            (case asked_version now sb sk (dget headers ''x-amz-copy-source-version-id'' []) st of
               (st1, None) \<Rightarrow> (st1, Inr (no_such_key sb sk))
             | (st1, Some v) \<Rightarrow>
                 if ov_marker v then (st1, Inr (no_such_key sb sk))
                 else
                   (case store_object ev now b k (ov_data v) (copy_type headers v) ''STANDARD'' (ov_meta v) (ov_tags v)
                           ''s3:ObjectCreated:Copy'' ''CopyObject'' st1 of
                      (st2, Inl e) \<Rightarrow> (st2, Inl e)
                    | (st2, Inr (w, _)) \<Rightarrow>
                        (st2, Inr (xml_response (root_elem ''CopyObjectResult''
                           (elem ''LastModified'' (sv_iso ev (secs now)) @ elem ''ETag'' (ov_etag w))))))))"

definition set_part :: "int \<Rightarrow> part \<Rightarrow> (int \<times> part) list \<Rightarrow> (int \<times> part) list" where
  "set_part n p ps = (if n \<in> set (map fst ps) then map (\<lambda>(m, q). (m, if m = n then p else q)) ps else ps @ [(n, p)])"

definition upload_part :: "s3_env \<Rightarrow> string \<Rightarrow> string \<Rightarrow> string \<Rightarrow> string \<Rightarrow> string \<Rightarrow> s3_st \<Rightarrow> s3_st \<times> s3_resp result" where
  "upload_part ev u number body b k st =
     (case int_of_str number of
        None \<Rightarrow> (st, Inl (ValueError ''invalid literal''))
      | Some n \<Rightarrow>
          if \<not> dhas (s3_uploads st) u then (st, Inr (no_such_upload b k))
          else
            let p = \<lparr>pt_data = body, pt_etag = s3_etag ev body, pt_size = int (length body)\<rparr>
            in (st\<lparr>s3_uploads := dmap_at u (up_parts_update (set_part n p)) (s3_uploads st)\<rparr>,
                Inr (empty_response 200 [(''ETag'', s3_etag ev body)])))"

text \<open>An update of the version list of an entry that is there.\<close>

definition update_versions :: "int \<Rightarrow> string \<Rightarrow> string \<Rightarrow> (over list \<Rightarrow> over list) \<Rightarrow> entry \<Rightarrow> s3_st \<Rightarrow> s3_st" where
  "update_versions now b k f e st =
     put_entry b k (s3_refresh_object_entry now (e\<lparr>en_versions := Some (f (versions_of e))\<rparr>)) st"

fun set_first_tags :: "string dict \<Rightarrow> over list \<Rightarrow> over list" where
  "set_first_tags t [] = []"
| "set_first_tags t (v # vs) = v\<lparr>ov_tags := t\<rparr> # vs"

definition put_object_tagging :: "s3_env \<Rightarrow> int \<Rightarrow> string \<Rightarrow> string \<Rightarrow> string \<Rightarrow> s3_st \<Rightarrow> s3_st \<times> s3_resp" where
  "put_object_tagging ev now body b k st =
     (case s3_ensure_object_entry now b k False st of
        (st1, None) \<Rightarrow> (st1, no_such_key b k)
      | (st1, Some e) \<Rightarrow>
          if versions_of e = [] then (st1, no_such_key b k)
          else (update_versions now b k (set_first_tags (parse_tagging_xml ev body)) e st1, empty_response 200 []))"

definition s3_put_object ::
  "s3_env \<Rightarrow> int \<Rightarrow> string dict \<Rightarrow> string dict \<Rightarrow> string \<Rightarrow> string \<Rightarrow> string \<Rightarrow> s3_st \<Rightarrow> s3_st \<times> s3_resp result" where
  "s3_put_object ev now params headers b k body st =
     (if \<not> bucket_exists st b then (st, Inr (no_such_bucket b))
      else if dhas params ''uploadId'' \<and> dhas params ''partNumber''
        then upload_part ev (dget params ''uploadId'' []) (dget params ''partNumber'' []) body b k st
      else if dhas params ''tagging'' then (let (st1, r) = put_object_tagging ev now body b k st in (st1, Inr r))
      else if dhas params ''acl'' then
        (case s3_ensure_object_entry now b k False st of
           (st1, None) \<Rightarrow> (st1, Inr (no_such_key b k))
         | (st1, Some e) \<Rightarrow> (st1, Inr (if versions_of e = [] then no_such_key b k else empty_response 200 [])))
      else if dget headers ''x-amz-copy-source'' [] \<noteq> [] then copy_object ev now headers (dget headers ''x-amz-copy-source'' []) b k st
      else put_object ev now headers b k body st)"

section \<open>Deleting\<close>

fun clear_tags_at :: "string \<Rightarrow> over list \<Rightarrow> over list" where
  "clear_tags_at vid [] = []"
| "clear_tags_at vid (v # vs) = (if vid = [] \<or> ov_id v = vid then v\<lparr>ov_tags := []\<rparr> # vs else v # clear_tags_at vid vs)"

definition delete_object_tagging :: "int \<Rightarrow> string \<Rightarrow> string \<Rightarrow> string \<Rightarrow> s3_st \<Rightarrow> s3_st \<times> s3_resp" where
  "delete_object_tagging now vid b k st =
     (case s3_ensure_object_entry now b k False st of
        (st1, None) \<Rightarrow> (st1, no_such_key b k)
      | (st1, Some e) \<Rightarrow>
          (case s3_find_version (Some e) vid of
             None \<Rightarrow> (st1, no_such_key b k)
           | Some v \<Rightarrow>
               if ov_marker v then (st1, no_such_key b k)
               else (update_versions now b k (clear_tags_at vid) e st1, empty_response 204 [])))"

definition s3_delete_object :: "s3_env \<Rightarrow> int \<Rightarrow> string dict \<Rightarrow> string \<Rightarrow> string \<Rightarrow> s3_st \<Rightarrow> s3_st \<times> s3_resp result" where
  "s3_delete_object ev now params b k st =
     (if \<not> bucket_exists st b then (st, Inr (no_such_bucket b))
      else if dhas params ''uploadId'' then
        (st\<lparr>s3_uploads := dpop (dget params ''uploadId'' []) (s3_uploads st)\<rparr>, Inr (empty_response 204 []))
      else
        let vid = dget params ''versionId'' [] in
        if dhas params ''tagging'' then (let (st1, r) = delete_object_tagging now vid b k st in (st1, Inr r))
        else
          let (st1, _) = s3_ensure_object_entry now b k False st in
          if vid \<noteq> [] then
            (let (st2, ok) = s3_delete_version ev now b k vid st1
             in (st2, Inr (if ok then empty_response 204 [(''x-amz-version-id'', vid)]
                           else S3_Error ''NoSuchVersion'' (object_path b k) 404)))
          else if s3_bucket_versioning_status st1 b = ''Disabled'' then (drop_entry b k st1, Inr (empty_response 204 []))
          else
            (case s3_insert_simple_delete_marker ev now b k ''DeleteObject'' st1 of
               (st2, Inl e) \<Rightarrow> (st2, Inl e)
             | (st2, Inr e) \<Rightarrow>
                 (st2, Inr (empty_response 204 [(''x-amz-delete-marker'', ''true''),
                    (''x-amz-version-id'', case e of None \<Rightarrow> ''null'' | Some e \<Rightarrow> en_current e)]))))"

fun delete_keys :: "s3_env \<Rightarrow> int \<Rightarrow> string \<Rightarrow> string list \<Rightarrow> s3_st \<Rightarrow> s3_st \<times> unit result" where
  "delete_keys ev now b [] st = (st, Inr ())"
| "delete_keys ev now b (k # ks) st =
     (if \<not> dhas (bucket_objects st b) k then delete_keys ev now b ks st
      else if s3_bucket_versioning_status st b = ''Disabled'' then
        delete_keys ev now b ks (s3_emit_event ev now b k ''s3:ObjectRemoved:Delete'' None ''DeleteObjects'' (drop_entry b k st))
      else
        (case s3_insert_simple_delete_marker ev now b k ''DeleteObjects'' st of
           (st1, Inl e) \<Rightarrow> (st1, Inl e)
         | (st1, Inr _) \<Rightarrow> delete_keys ev now b ks st1))"

text \<open>The keys a batch request names, in order.\<close>

definition batch_keys :: "xml \<Rightarrow> string list" where
  "batch_keys root =
     concat (map (\<lambda>ob. case xml_find (ns_tag ''Key'') ob of
                        None \<Rightarrow> []
                      | Some k \<Rightarrow> (case xml_text k of None \<Rightarrow> [] | Some t \<Rightarrow> if t = [] then [] else [t]))
       (filter (\<lambda>c. xml_tag c = ns_tag ''Object'') (xml_children root)))"

definition s3_post_bucket :: "s3_env \<Rightarrow> int \<Rightarrow> string dict \<Rightarrow> string \<Rightarrow> string \<Rightarrow> s3_st \<Rightarrow> s3_st \<times> s3_resp result" where
  "s3_post_bucket ev now params b body st =
     (if \<not> bucket_exists st b then (st, Inr (no_such_bucket b))
      else if \<not> dhas params ''delete'' then (st, Inr (S3_Error ''MethodNotAllowed'' (CHR ''/'' # b) 405))
      else
        (case sv_xml ev body of
           None \<Rightarrow> (st, Inr (S3_Error ''MalformedXML'' (CHR ''/'' # b) 400))
         | Some root \<Rightarrow>
             let ks = batch_keys root in
             (case delete_keys ev now b ks st of
                (st1, Inl e) \<Rightarrow> (st1, Inl e)
              | (st1, Inr _) \<Rightarrow>
                  (st1, Inr (xml_response (root_elem ''DeleteResult'' (concat (map (\<lambda>k. elem ''Deleted'' (elem ''Key'' k)) ks))))))))"

section \<open>Multipart uploads\<close>

definition create_upload :: "s3_env \<Rightarrow> int \<Rightarrow> string dict \<Rightarrow> string \<Rightarrow> string \<Rightarrow> s3_st \<Rightarrow> s3_st \<times> s3_resp result" where
  "create_upload ev now headers b k st =
     (let u = sv_hex ev (s3_n st);
          mp = \<lparr>up_bucket = b, up_key = k, up_parts = [], up_ctype = dget headers ''content-type'' ''application/octet-stream'',
                up_meta = user_meta headers, up_initiated = secs now\<rparr>
      in (st\<lparr>s3_uploads := dset u mp (s3_uploads st), s3_n := Suc (s3_n st)\<rparr>,
          Inr (xml_response (root_elem ''InitiateMultipartUploadResult'' (elem ''Bucket'' b @ elem ''Key'' k @ elem ''UploadId'' u)))))"

text \<open>The part numbers a completion names that were uploaded, in the order named; an error in a number raises.\<close>

fun named_parts :: "(int \<times> part) list \<Rightarrow> xml list \<Rightarrow> int list result" where
  "named_parts ps [] = Inr []"
| "named_parts ps (e # es) =
     (case (case xml_find (ns_tag ''PartNumber'') e of None \<Rightarrow> [] | Some x \<Rightarrow> text_or x []) of
        [] \<Rightarrow> named_parts ps es
      | t \<Rightarrow>
          (case int_of_str t of
             None \<Rightarrow> Inl (ValueError ''invalid literal'')
           | Some n \<Rightarrow> rbind (named_parts ps es) (\<lambda>ns. Inr (if n \<in> set (map fst ps) then n # ns else ns))))"

definition ordered_parts :: "s3_env \<Rightarrow> string \<Rightarrow> upload \<Rightarrow> int list result" where
  "ordered_parts ev body mp =
     rbind (case sv_xml ev body of
              None \<Rightarrow> Inr []
            | Some root \<Rightarrow> named_parts (up_parts mp) (filter (\<lambda>c. xml_tag c = ns_tag ''Part'') (xml_children root)))
       (\<lambda>ns. Inr (if ns = [] then sort (map fst (up_parts mp)) else ns))"

definition part_data :: "(int \<times> part) list \<Rightarrow> int \<Rightarrow> string" where
  "part_data ps n = (case map_of ps n of None \<Rightarrow> [] | Some p \<Rightarrow> pt_data p)"

definition complete_upload :: "s3_env \<Rightarrow> int \<Rightarrow> string \<Rightarrow> upload \<Rightarrow> string \<Rightarrow> string \<Rightarrow> string \<Rightarrow> s3_st \<Rightarrow> s3_st \<times> s3_resp result" where
  "complete_upload ev now u mp b k body st =
     (case ordered_parts ev body mp of
        Inl e \<Rightarrow> (st, Inl e)
      | Inr ns \<Rightarrow>
          (case store_object ev now b k (concat (map (part_data (up_parts mp)) ns)) (up_ctype mp) ''STANDARD'' (up_meta mp) []
                  ''s3:ObjectCreated:CompleteMultipartUpload'' ''CompleteMultipartUpload'' st of
             (st1, Inl e) \<Rightarrow> (st1, Inl e)
           | (st1, Inr (v, _)) \<Rightarrow>
               (st1\<lparr>s3_uploads := dpop u (s3_uploads st1)\<rparr>,
                Inr (xml_response (root_elem ''CompleteMultipartUploadResult''
                  (elem ''Location'' (''http://localhost:9000/'' @ b @ CHR ''/'' # k) @ elem ''Bucket'' b @ elem ''Key'' k
                   @ elem ''ETag'' (ov_etag v)))))))"

definition s3_post_object ::
  "s3_env \<Rightarrow> int \<Rightarrow> string dict \<Rightarrow> string dict \<Rightarrow> string \<Rightarrow> string \<Rightarrow> string \<Rightarrow> s3_st \<Rightarrow> s3_st \<times> s3_resp result" where
  "s3_post_object ev now params headers b k body st =
     (if \<not> bucket_exists st b then (st, Inr (no_such_bucket b))
      else if dhas params ''uploads'' then create_upload ev now headers b k st
      else if dhas params ''uploadId'' then
        (let u = dget params ''uploadId'' [] in
         case map_of (s3_uploads st) u of
           None \<Rightarrow> (st, Inr (no_such_upload b k))
         | Some mp \<Rightarrow> complete_upload ev now u mp b k body st)
      else (st, Inr (S3_Error ''MethodNotAllowed'' (object_path b k) 405)))"

end
