(* ===== verification/S3_Facts.thy ===== *)
theory S3_Facts
imports S3_API
begin

text \<open>Facts about the object store of \<open>S3_Objects\<close>: the history of a key (its versions, newest first) as the
  abstraction of its entry, what each operation does to it, and the invariant that the handlers of
  \<open>S3_Buckets\<close> and \<open>S3_API\<close> keep.\<close>

named_theorems s3_simps

section \<open>Histories\<close>

definition raw_versions :: "entry \<Rightarrow> over list" where
  "raw_versions e = (case en_versions e of None \<Rightarrow> [s3_object_version_from_entry e] | Some vs \<Rightarrow> vs)"

definition history :: "s3_st \<Rightarrow> string \<Rightarrow> string \<Rightarrow> over list" where
  "history st b k = (case find_entry st b k of None \<Rightarrow> [] | Some e \<Rightarrow> mark_latest (raw_versions e))"

lemma mark_latest_Nil [simp]: "mark_latest vs = [] \<longleftrightarrow> vs = []"
  by (cases vs) auto

lemma mark_latest_idem [simp]: "mark_latest (mark_latest vs) = mark_latest vs"
  by (cases vs) auto

lemma versions_refresh: "versions_of (s3_refresh_object_entry now e) = mark_latest (versions_of e)"
  by (cases "versions_of e") (auto simp: s3_refresh_object_entry_def versions_of_def)

lemma versions_set [simp]: "versions_of (e\<lparr>en_versions := Some vs\<rparr>) = vs"
  by (simp add: versions_of_def)

lemma raw_versions_Some: "en_versions e \<noteq> None \<Longrightarrow> raw_versions e = versions_of e"
  by (auto simp: raw_versions_def versions_of_def)

lemma versions_normal: "versions_of (normal_entry now e) = mark_latest (raw_versions e)"
proof (cases "en_versions e")
  case None
  then show ?thesis by (simp add: normal_entry_def Let_def raw_versions_def versions_refresh)
next
  case (Some vs)
  then have "versions_of e = vs" by (simp add: versions_of_def)
  then show ?thesis using Some by (cases vs) (simp_all add: normal_entry_def Let_def raw_versions_def versions_refresh)
qed

lemma refresh_has_versions [simp]: "versions_of e \<noteq> [] \<Longrightarrow> en_versions (s3_refresh_object_entry now e) \<noteq> None"
  by (cases "versions_of e") (auto simp: s3_refresh_object_entry_def)

lemma normal_has_versions: "en_versions (normal_entry now e) \<noteq> None"
proof (cases "en_versions e")
  case (Some vs)
  then show ?thesis
    by (cases vs) (auto simp: normal_entry_def Let_def versions_of_def s3_refresh_object_entry_def)
qed (simp add: normal_entry_def Let_def)

lemma raw_normal: "mark_latest (raw_versions (normal_entry now e)) = mark_latest (raw_versions e)"
  using raw_versions_Some [OF normal_has_versions] by (simp add: versions_normal)

section \<open>The store\<close>

lemma find_put [s3_simps]:
  "find_entry (put_entry b k e st) b' k' = (if b' = b \<and> k' = k then Some e else find_entry st b' k')"
  by (auto simp: find_entry_def put_entry_def dict_simps)

lemma find_drop [s3_simps]:
  "find_entry (drop_entry b k st) b' k' = (if b' = b \<and> k' = k then None else find_entry st b' k')"
  by (auto simp: find_entry_def drop_entry_def dict_simps dget_def split: option.splits)

lemma put_entry_rest [simp]:
  "s3_buckets (put_entry b k e st) = s3_buckets st" "s3_sqs (put_entry b k e st) = s3_sqs st"
  "s3_n (put_entry b k e st) = s3_n st" "s3_uploads (put_entry b k e st) = s3_uploads st"
  by (simp_all add: put_entry_def)

lemma drop_entry_rest [simp]:
  "s3_buckets (drop_entry b k st) = s3_buckets st" "s3_uploads (drop_entry b k st) = s3_uploads st"
  by (simp_all add: drop_entry_def)

lemma entry_status [simp]:
  "s3_bucket_versioning_status (put_entry b k e st) c = s3_bucket_versioning_status st c"
  "s3_bucket_versioning_status (drop_entry b k st) c = s3_bucket_versioning_status st c"
  "bucket_exists (put_entry b k e st) c = bucket_exists st c" "bucket_exists (drop_entry b k st) c = bucket_exists st c"
  by (simp_all add: s3_bucket_versioning_status_def bucket_exists_def)

lemma find_objects_cong: "s3_objects st' = s3_objects st \<Longrightarrow> find_entry st' b k = find_entry st b k"
  by (simp add: find_entry_def)

lemma history_cong: "s3_objects st' = s3_objects st \<Longrightarrow> history st' b k = history st b k"
  by (simp add: history_def find_entry_def)

lemma history_put: "en_versions e \<noteq> None \<Longrightarrow>
  history (put_entry b k e st) b' k' = (if b' = b \<and> k' = k then mark_latest (versions_of e) else history st b' k')"
  by (simp add: history_def find_put raw_versions_Some)

lemma history_drop: "history (drop_entry b k st) b' k' = (if b' = b \<and> k' = k then [] else history st b' k')"
  by (simp add: history_def find_drop)

lemma find_setdefault: "find_entry (st\<lparr>s3_objects := dsetdefault b [] (s3_objects st)\<rparr>) b' k = find_entry st b' k"
  by (auto simp: find_entry_def dsetdefault_def dict_simps dget_def dhas_def split: option.splits)

lemma ensure_spec:
  assumes "s3_ensure_object_entry now b k create st = (st', r)"
  shows "(case r of
      None \<Rightarrow> find_entry st b k = None \<and> \<not> create \<and> st' = st\<lparr>s3_objects := dsetdefault b [] (s3_objects st)\<rparr>
    | Some e \<Rightarrow> st' = put_entry b k e (st\<lparr>s3_objects := dsetdefault b [] (s3_objects st)\<rparr>) \<and>
        e = normal_entry now (case find_entry st b k of None \<Rightarrow> blank_entry | Some e0 \<Rightarrow> e0) \<and> (create \<or> find_entry st b k \<noteq> None))"
proof (cases "find_entry st b k")
  case None
  then show ?thesis using assms
    by (cases create) (auto simp: s3_ensure_object_entry_def Let_def find_setdefault)
next
  case (Some e)
  then show ?thesis using assms by (auto simp: s3_ensure_object_entry_def Let_def find_setdefault)
qed

lemma ensure_history:
  assumes "s3_ensure_object_entry now b k create st = (st', r)"
  shows "history st' b' k' = history st b' k'" "s3_buckets st' = s3_buckets st"
    "r = Some e \<Longrightarrow> versions_of e = history st b k \<and> en_versions e \<noteq> None \<and> find_entry st' b k = Some e"
    "r = None \<Longrightarrow> history st b k = []"
proof -
  have bl: "raw_versions blank_entry = []" by (simp add: raw_versions_def blank_entry_def)
  note s = ensure_spec [OF assms]
  show "s3_buckets st' = s3_buckets st" using s by (cases r) auto
  show "r = None \<Longrightarrow> history st b k = []" using s by (simp add: history_def)
  show "r = Some e \<Longrightarrow> versions_of e = history st b k \<and> en_versions e \<noteq> None \<and> find_entry st' b k = Some e"
    using s bl normal_has_versions by (auto simp: history_def versions_normal find_put split: option.splits)
  show "history st' b' k' = history st b' k'"
  proof (cases r)
    case None
    then show ?thesis using s by (simp add: history_def find_setdefault)
  next
    case (Some e)
    then show ?thesis using s bl
      by (auto simp: history_def find_put find_setdefault raw_normal split: option.splits)
  qed
qed

section \<open>Events change no object\<close>

lemma status_upd [simp]: "(\<And>m. b_versioning (f m) = b_versioning m) \<Longrightarrow>
   s3_bucket_versioning_status (upd_bucket c f st) b = s3_bucket_versioning_status st b"
  by (auto simp: s3_bucket_versioning_status_def upd_bucket_def dict_simps Let_def split: option.splits)

lemma exists_upd [simp]: "bucket_exists (upd_bucket c f st) b = bucket_exists st b"
  by (simp add: bucket_exists_def upd_bucket_def dict_simps)

lemma upd_bucket_objects [simp]: "s3_objects (upd_bucket c f st) = s3_objects st"
  by (simp add: upd_bucket_def)

lemma record_objects [simp]:
  "s3_objects (s3_notification_record_delivery ev now b event k vid source payload test st) = s3_objects st"
  "s3_uploads (s3_notification_record_delivery ev now b event k vid source payload test st) = s3_uploads st"
  "bucket_exists (s3_notification_record_delivery ev now b event k vid source payload test st) c = bucket_exists st c"
  "s3_bucket_versioning_status (s3_notification_record_delivery ev now b event k vid source payload test st) c
     = s3_bucket_versioning_status st c"
  unfolding s3_notification_record_delivery_def Let_def
  by (simp_all split: option.splits prod.splits)
    (simp_all add: upd_bucket_def bucket_exists_def s3_bucket_versioning_status_def dict_simps split: option.splits)

lemma emit_objects [simp]:
  "s3_objects (s3_emit_event ev now b k event v source st) = s3_objects st"
  "s3_uploads (s3_emit_event ev now b k event v source st) = s3_uploads st"
  "bucket_exists (s3_emit_event ev now b k event v source st) c = bucket_exists st c"
  "s3_bucket_versioning_status (s3_emit_event ev now b k event v source st) c = s3_bucket_versioning_status st c"
  by (simp_all add: s3_emit_event_def s3_build_notification_event_def Let_def)
    (simp_all add: bucket_exists_def s3_bucket_versioning_status_def)

lemma history_emit: "history (s3_emit_event ev now b k event v source st) b' k' = history st b' k'"
  by (rule history_cong) simp

section \<open>What the operations do to a history\<close>

lemma place_not_Nil [simp]: "place p v vs \<noteq> []"
proof -
  have "replace_version vid v vs = Some ws \<Longrightarrow> ws \<noteq> []" for vid ws by (cases vs) (auto split: if_splits)
  then show ?thesis by (auto simp: place_def split: placement.splits option.splits)
qed

lemma write_shape:
  assumes "s3_write_object_version ev now b k v p event source st = (st', Inr e)"
  obtains st1 e0 where "s3_ensure_object_entry now b k True st = (st1, Some e0)"
    "e = s3_refresh_object_entry now (e0\<lparr>en_versions := Some (place p v (versions_of e0))\<rparr>)"
    "st' = s3_emit_event ev now b k event (Some (hd (versions_of e))) source (put_entry b k e st1)"
proof -
  have h: "(case xs of [] \<Rightarrow> Some v | c # _ \<Rightarrow> Some c) = Some (hd xs)" if "xs \<noteq> []" for xs :: "over list"
    using that by (cases xs) auto
  from assms show thesis
    by (auto simp: s3_write_object_version_def Let_def versions_refresh h split: sum.splits prod.splits option.splits if_splits
        intro!: that)
qed

lemma write_history:
  assumes w: "s3_write_object_version ev now b k v p event source st = (st', Inr e)"
  shows "history st' b' k' = (if b' = b \<and> k' = k then mark_latest (place p v (history st b k)) else history st b' k')"
    and "find_entry st' b k = Some e" and "versions_of e = mark_latest (place p v (history st b k))"
    and "s3_bucket_versioning_status st' c = s3_bucket_versioning_status st c" and "bucket_exists st' c = bucket_exists st c"
    and "s3_uploads st' = s3_uploads st"
proof -
  obtain st1 e0 where e0: "s3_ensure_object_entry now b k True st = (st1, Some e0)"
    and e: "e = s3_refresh_object_entry now (e0\<lparr>en_versions := Some (place p v (versions_of e0))\<rparr>)"
    and st': "st' = s3_emit_event ev now b k event (Some (hd (versions_of e))) source (put_entry b k e st1)"
    by (rule write_shape [OF w])
  have v0: "versions_of e0 = history st b k" using ensure_history(3) [OF e0 refl] by simp
  show ve: "versions_of e = mark_latest (place p v (history st b k))" by (simp add: e versions_refresh v0)
  have ne: "en_versions e \<noteq> None" by (simp add: e)
  show "find_entry st' b k = Some e" by (simp add: st' find_entry_def) (simp add: put_entry_def dict_simps)
  show "history st' b' k' = (if b' = b \<and> k' = k then mark_latest (place p v (history st b k)) else history st b' k')"
    unfolding st' history_emit history_put [OF ne] ensure_history(1) [OF e0] ve by simp
  have st1: "s3_buckets st1 = s3_buckets st" by (rule ensure_history(2) [OF e0])
  show "s3_bucket_versioning_status st' c = s3_bucket_versioning_status st c" "bucket_exists st' c = bucket_exists st c"
    by (simp_all add: st') (simp_all add: s3_bucket_versioning_status_def bucket_exists_def st1)
  have "s3_uploads st1 = s3_uploads st" using ensure_spec [OF e0] by simp
  then show "s3_uploads st' = s3_uploads st" by (simp add: st')
qed

lemma new_version_id_objects [simp]:
  "s3_new_version_id ev st b = (st1, vid) \<Longrightarrow> s3_objects st1 = s3_objects st \<and> s3_buckets st1 = s3_buckets st \<and> s3_uploads st1 = s3_uploads st"
  by (auto simp: s3_new_version_id_def split: if_splits)

definition fresh_id :: "s3_env \<Rightarrow> s3_st \<Rightarrow> string \<Rightarrow> string" where
  "fresh_id ev st b = (if s3_bucket_versioning_status st b = ''Enabled'' then sv_hex ev (s3_n st) else ''null'')"

lemma drawn_id:
  assumes "(if s3_bucket_versioning_status st b = ''Enabled'' then s3_new_version_id ev st b else (st, ''null'')) = (st1, vid)"
  shows "s3_objects st1 = s3_objects st" "s3_buckets st1 = s3_buckets st" "s3_uploads st1 = s3_uploads st" "vid = fresh_id ev st b"
    "s3_sqs st1 = s3_sqs st"
proof -
  let ?e = "s3_bucket_versioning_status st b = ''Enabled''"
  have "(if ?e then s3_new_version_id ev st b else (st, ''null'')) = (if ?e then st\<lparr>s3_n := Suc (s3_n st)\<rparr> else st, fresh_id ev st b)"
    by (simp add: fresh_id_def s3_new_version_id_def)
  then have "(st1, vid) = (if ?e then st\<lparr>s3_n := Suc (s3_n st)\<rparr> else st, fresh_id ev st b)" using assms by (simp only:)
  then have e: "st1 = (if ?e then st\<lparr>s3_n := Suc (s3_n st)\<rparr> else st)" "vid = fresh_id ev st b" by (simp_all only: prod.inject)
  show "vid = fresh_id ev st b" by (rule e(2))
  show "s3_objects st1 = s3_objects st" "s3_buckets st1 = s3_buckets st" "s3_uploads st1 = s3_uploads st"
    "s3_sqs st1 = s3_sqs st"
    unfolding e(1) by simp_all
qed

text \<open>Storing an object: the version it makes and where it goes.\<close>

lemma store_history:
  assumes s: "store_object ev now b k data ctype cls meta tags event source st = (st', Inr (v, e))"
  shows "v = s3_make_version_record ev now data ctype cls meta tags (fresh_id ev st b) False"
    and "history st' b' k' = (if b' = b \<and> k' = k then mark_latest (place (placement_for (s3_bucket_versioning_status st b)) v (history st b k))
           else history st b' k')"
    and "find_entry st' b k = Some e" and "versions_of e = history st' b k"
    and "s3_bucket_versioning_status st' c = s3_bucket_versioning_status st c" and "bucket_exists st' c = bucket_exists st c"
    and "s3_uploads st' = s3_uploads st"
proof -
  let ?status = "s3_bucket_versioning_status st b"
  obtain st1 vid where i: "(if ?status = ''Enabled'' then s3_new_version_id ev st b else (st, ''null'')) = (st1, vid)" by force
  note st1 = drawn_id(1-3) [OF i] and vid = drawn_id(4) [OF i]
  let ?v = "s3_make_version_record ev now data ctype cls meta tags vid False"
  have w: "s3_write_object_version ev now b k ?v (placement_for ?status) event source st1 = (st', Inr e)" and v: "v = ?v"
    using s unfolding store_object_def Let_def i by (auto split: prod.splits sum.splits)
  show "v = s3_make_version_record ev now data ctype cls meta tags (fresh_id ev st b) False" by (simp add: v vid)
  note W = write_history [OF w]
  have h: "history st1 x y = history st x y" for x y using st1(1) by (rule history_cong)
  show "history st' b' k' = (if b' = b \<and> k' = k then mark_latest (place (placement_for ?status) v (history st b k)) else history st b' k')"
    using W(1) [of b' k'] by (simp add: h v)
  show "find_entry st' b k = Some e" by (rule W(2))
  show "versions_of e = history st' b k" using W(1) [of b k] W(3) by simp
  show "s3_bucket_versioning_status st' c = s3_bucket_versioning_status st c" "bucket_exists st' c = bucket_exists st c"
    "s3_uploads st' = s3_uploads st"
    using W(4,5) [of c] W(6) st1 by (simp_all add: s3_bucket_versioning_status_def bucket_exists_def)
qed

text \<open>A delete without a version id on a versioned bucket.\<close>

lemma marker_history:
  assumes i: "s3_insert_simple_delete_marker ev now b k source st = (st', Inr (Some e))"
  shows "s3_bucket_versioning_status st b \<noteq> ''Disabled''"
    and "\<exists>mk. ov_marker mk \<and> ov_data mk = [] \<and> ov_size mk = 0 \<and> ov_id mk = str_or (fresh_id ev st b) ''null'' \<and>
      (\<forall>b' k'. history st' b' k' = (if b' = b \<and> k' = k then mark_latest (mk #
        (if s3_bucket_versioning_status st b = ''Suspended'' \<and> history st b k \<noteq> [] \<and> ov_id (hd (history st b k)) = ''null''
         then tl (history st b k) else history st b k)) else history st b' k'))"
    and "find_entry st' b k = Some e" and "s3_bucket_versioning_status st' c = s3_bucket_versioning_status st c"
    and "bucket_exists st' c = bucket_exists st c" and "versions_of e = history st' b k"
proof -
  obtain st1 e0 where e0: "s3_ensure_object_entry now b k True st = (st1, Some e0)"
    using i by (auto simp: s3_insert_simple_delete_marker_def split: prod.splits option.splits)
  note E = ensure_history [OF e0]
  let ?status = "s3_bucket_versioning_status st b"
  have sb: "s3_bucket_versioning_status st1 c = s3_bucket_versioning_status st c" "bucket_exists st1 c = bucket_exists st c" for c
    using E(2) by (simp_all add: s3_bucket_versioning_status_def bucket_exists_def)
  show en: "?status \<noteq> ''Disabled''"
    using i e0 sb by (auto simp: s3_insert_simple_delete_marker_def Let_def)
  have v0: "versions_of e0 = history st b k" "en_versions e0 \<noteq> None" using E(3) by auto
  define vs where "vs = (if ?status = ''Suspended'' \<and> history st b k \<noteq> [] \<and> ov_id (hd (history st b k)) = ''null''
         then tl (history st b k) else history st b k)"
  define e1 where "e1 = (if ?status = ''Suspended'' \<and> versions_of e0 \<noteq> [] \<and> ov_id (hd (versions_of e0)) = ''null''
      then e0\<lparr>en_versions := Some (tl (versions_of e0))\<rparr> else e0)"
  have e1: "versions_of e1 = vs" "en_versions e1 \<noteq> None" using v0 by (auto simp: e1_def vs_def)
  let ?st2 = "put_entry b k e1 st1"
  have sp: "s3_bucket_versioning_status ?st2 b = ?status" using sb by (simp add: s3_bucket_versioning_status_def)
  obtain st3 vid where st3: "(if ?status = ''Enabled'' then s3_new_version_id ev ?st2 b else (?st2, ''null'')) = (st3, vid)" by force
  note d3 = drawn_id [OF st3 [folded sp]]
  have n1: "s3_n st1 = s3_n st" using ensure_spec [OF e0] by simp
  have s3: "s3_objects st3 = s3_objects ?st2" "s3_buckets st3 = s3_buckets st1" using d3 by simp_all
  have vid: "vid = fresh_id ev st b" using d3(4) n1 by (simp add: fresh_id_def sb)
  define mk where "mk = s3_make_version_record ev now [] ''application/octet-stream'' ''STANDARD'' [] [] vid True"
  have w: "s3_write_object_version ev now b k mk Prepend ''s3:ObjectRemoved:DeleteMarkerCreated'' source st3 = (st', Inr e)"
    using i en unfolding s3_insert_simple_delete_marker_def e0 prod.case option.case Let_def sb e1_def [symmetric] st3 mk_def [symmetric]
    by (auto split: prod.splits sum.splits)
  note W = write_history [OF w]
  have h3: "history st3 b' k' = (if b' = b \<and> k' = k then mark_latest vs else history st b' k')" for b' k'
    using history_cong [OF s3(1)] history_put [OF e1(2), of b k st1 b' k'] E(1) by (simp add: e1)
  have pl: "place Prepend mk vs = mk # vs" for vs by (simp add: place_def)
  have ml: "mark_latest (mk # mark_latest vs) = mark_latest (mk # vs)" by (cases vs) auto
  have H: "history st' b' k' = (if b' = b \<and> k' = k then mark_latest (mk # vs) else history st b' k')" for b' k'
    using W(1) [of b' k'] h3 ml by (simp add: pl)
  show "\<exists>mk. ov_marker mk \<and> ov_data mk = [] \<and> ov_size mk = 0 \<and> ov_id mk = str_or (fresh_id ev st b) ''null'' \<and>
      (\<forall>b' k'. history st' b' k' = (if b' = b \<and> k' = k then mark_latest (mk #
        (if ?status = ''Suspended'' \<and> history st b k \<noteq> [] \<and> ov_id (hd (history st b k)) = ''null''
         then tl (history st b k) else history st b k)) else history st b' k'))"
    unfolding vs_def [symmetric] using H by (intro exI [of _ mk]) (simp add: mk_def s3_make_version_record_def vid)
  show "find_entry st' b k = Some e" by (rule W(2))
  show "versions_of e = history st' b k" using W(1) [of b k] W(3) by simp
  show "s3_bucket_versioning_status st' c = s3_bucket_versioning_status st c" "bucket_exists st' c = bucket_exists st c"
    using W(4,5) [of c] s3(2) sb by (simp_all add: s3_bucket_versioning_status_def bucket_exists_def)
qed

lemma delete_version_history:
  assumes d: "s3_delete_version ev now b k vid st = (st', ok)"
  shows "history st' b' k' = (if b' = b \<and> k' = k then mark_latest (filter (\<lambda>v. ov_id v \<noteq> vid) (history st b k)) else history st b' k')"
    and "ok \<longleftrightarrow> (\<exists>v \<in> set (history st b k). ov_id v = vid)"
    and "s3_bucket_versioning_status st' c = s3_bucket_versioning_status st c" and "bucket_exists st' c = bucket_exists st c"
proof -
  obtain st1 r where e0: "s3_ensure_object_entry now b k False st = (st1, r)" by force
  note E = ensure_history [OF e0]
  have sb: "s3_bucket_versioning_status st1 c = s3_bucket_versioning_status st c" "bucket_exists st1 c = bucket_exists st c" for c
    using E(2) by (simp_all add: s3_bucket_versioning_status_def bucket_exists_def)
  have "history st' b' k' = (if b' = b \<and> k' = k then mark_latest (filter (\<lambda>v. ov_id v \<noteq> vid) (history st b k)) else history st b' k') \<and>
    (ok \<longleftrightarrow> (\<exists>v \<in> set (history st b k). ov_id v = vid)) \<and> s3_bucket_versioning_status st' c = s3_bucket_versioning_status st c \<and>
    bucket_exists st' c = bucket_exists st c"
  proof (cases r)
    case None
    then show ?thesis using d e0 E sb by (auto simp: s3_delete_version_def)
  next
    case (Some e)
    let ?rest = "filter (\<lambda>v. ov_id v \<noteq> vid) (versions_of e)"
    have v: "versions_of e = history st b k" using E(3) [OF Some] by simp
    have ml: "mark_latest (history st b k) = history st b k" by (simp add: history_def split: option.split)
    show ?thesis
    proof (cases "length ?rest = length (versions_of e)")
      case True
      then have "?rest = versions_of e" "\<forall>x \<in> set (versions_of e). ov_id x \<noteq> vid"
        using filter_length_lt_iff [of "\<lambda>v. ov_id v \<noteq> vid" "versions_of e"] by (auto simp: filter_id_conv)
      then show ?thesis using d e0 Some True E(1) v ml sb by (auto simp: s3_delete_version_def Let_def)
    next
      case False
      then have ex: "\<exists>x \<in> set (versions_of e). ov_id x = vid" by (auto simp: filter_id_conv intro: ccontr)
      have "en_versions (s3_refresh_object_entry now (e\<lparr>en_versions := Some ?rest\<rparr>)) \<noteq> None" if "?rest \<noteq> []" using that by simp
      from history_put [OF this] have hp: "?rest \<noteq> [] \<Longrightarrow>
        history (put_entry b k (s3_refresh_object_entry now (e\<lparr>en_versions := Some ?rest\<rparr>)) st1) b' k'
          = (if b' = b \<and> k' = k then mark_latest ?rest else history st1 b' k')"
        by (simp add: versions_refresh)
      have st': "s3_objects st' = s3_objects (if ?rest \<noteq> [] then put_entry b k (s3_refresh_object_entry now (e\<lparr>en_versions := Some ?rest\<rparr>)) st1
          else drop_entry b k st1)" and ok: "ok" and
        st2: "s3_bucket_versioning_status st' c = s3_bucket_versioning_status st1 c" "bucket_exists st' c = bucket_exists st1 c"
        using d e0 Some False by (cases "?rest = []"; auto simp: s3_delete_version_def Let_def)+
      have "history st' b' k' = (if b' = b \<and> k' = k then mark_latest ?rest else history st1 b' k')"
        unfolding history_cong [OF st'] using hp by (auto simp: history_drop)
      then show ?thesis using ok ex v E(1) sb st2 by auto
    qed
  qed
  then show "history st' b' k' = (if b' = b \<and> k' = k then mark_latest (filter (\<lambda>v. ov_id v \<noteq> vid) (history st b k)) else history st b' k')"
    "ok \<longleftrightarrow> (\<exists>v \<in> set (history st b k). ov_id v = vid)" "s3_bucket_versioning_status st' c = s3_bucket_versioning_status st c"
    "bucket_exists st' c = bucket_exists st c" by blast+
qed

lemma write_status:
  assumes "s3_write_object_version ev now b k v p event source st = (st', r)"
  shows "s3_bucket_versioning_status st' c = s3_bucket_versioning_status st c" "bucket_exists st' c = bucket_exists st c"
proof -
  have "(st' = st \<or> (\<exists>e. s3_ensure_object_entry now b k True st = (st', e))) \<or> (\<exists>e. r = Inr e)"
    using assms by (auto simp: s3_write_object_version_def Let_def split: sum.splits prod.splits option.splits if_splits)
  then show "s3_bucket_versioning_status st' c = s3_bucket_versioning_status st c" "bucket_exists st' c = bucket_exists st c"
    using ensure_history(2) write_history(4,5) assms by (auto simp: s3_bucket_versioning_status_def bucket_exists_def)
qed

text \<open>The steps of putting a marker on a versioned bucket.\<close>

definition popped :: "string \<Rightarrow> entry \<Rightarrow> entry" where
  "popped status e = (if status = ''Suspended'' \<and> versions_of e \<noteq> [] \<and> ov_id (hd (versions_of e)) = ''null''
     then e\<lparr>en_versions := Some (tl (versions_of e))\<rparr> else e)"

lemma marker_shape:
  assumes i: "s3_insert_simple_delete_marker ev now b k source st = (st', r)"
    and e: "s3_ensure_object_entry now b k True st = (st1, Some e0)"
    and st: "s3_bucket_versioning_status st1 b = status" "status \<noteq> ''Disabled''"
  obtains st3 vid r1 where
    "(if s3_bucket_versioning_status (put_entry b k (popped status e0) st1) b = ''Enabled''
      then s3_new_version_id ev (put_entry b k (popped status e0) st1) b else (put_entry b k (popped status e0) st1, ''null'')) = (st3, vid)"
    "s3_write_object_version ev now b k (s3_make_version_record ev now [] ''application/octet-stream'' ''STANDARD'' [] [] vid True)
       Prepend ''s3:ObjectRemoved:DeleteMarkerCreated'' source st3 = (st', r1)"
proof -
  obtain st3 vid where d: "(if status = ''Enabled'' then s3_new_version_id ev (put_entry b k (popped status e0) st1) b
     else (put_entry b k (popped status e0) st1, ''null'')) = (st3, vid)" by force
  obtain r1 where "s3_write_object_version ev now b k (s3_make_version_record ev now [] ''application/octet-stream'' ''STANDARD'' [] [] vid True)
       Prepend ''s3:ObjectRemoved:DeleteMarkerCreated'' source st3 = (st', r1)"
    using i st d unfolding s3_insert_simple_delete_marker_def e Let_def popped_def by (auto split: prod.splits sum.splits)
  then show thesis using that d st(1) by simp
qed

lemma marker_status:
  assumes i: "s3_insert_simple_delete_marker ev now b k source st = (st', r)"
  shows "s3_bucket_versioning_status st' c = s3_bucket_versioning_status st c"
proof -
  obtain st1 e0 where e: "s3_ensure_object_entry now b k True st = (st1, e0)" by force
  have st1: "s3_bucket_versioning_status st1 c = s3_bucket_versioning_status st c"
    using ensure_history(2) [OF e] by (simp add: s3_bucket_versioning_status_def)
  show ?thesis
  proof (cases "e0 = None \<or> s3_bucket_versioning_status st1 b = ''Disabled''")
    case True
    then show ?thesis using i e st1 by (auto simp: s3_insert_simple_delete_marker_def Let_def split: option.splits)
  next
    case False
    then obtain e0' where e0': "e0 = Some e0'" and nd: "s3_bucket_versioning_status st1 b \<noteq> ''Disabled''" by auto
    obtain st3 vid r1 where d: "(if s3_bucket_versioning_status (put_entry b k (popped (s3_bucket_versioning_status st1 b) e0') st1) b = ''Enabled''
      then s3_new_version_id ev (put_entry b k (popped (s3_bucket_versioning_status st1 b) e0') st1) b
      else (put_entry b k (popped (s3_bucket_versioning_status st1 b) e0') st1, ''null'')) = (st3, vid)"
      and w: "s3_write_object_version ev now b k (s3_make_version_record ev now [] ''application/octet-stream'' ''STANDARD'' [] [] vid True)
       Prepend ''s3:ObjectRemoved:DeleteMarkerCreated'' source st3 = (st', r1)"
      by (rule marker_shape [OF i e [unfolded e0'] refl nd])
    have "s3_bucket_versioning_status st3 c = s3_bucket_versioning_status st1 c"
      using drawn_id(2) [OF d] by (simp add: s3_bucket_versioning_status_def)
    then show ?thesis using write_status(1) [OF w] st1 by simp
  qed
qed

lemma marker_exists:
  assumes i: "s3_insert_simple_delete_marker ev now b k source st = (st', r)"
  shows "bucket_exists st' c = bucket_exists st c"
proof -
  obtain st1 e0 where e: "s3_ensure_object_entry now b k True st = (st1, e0)" by force
  have st1: "bucket_exists st1 c = bucket_exists st c"
    using ensure_history(2) [OF e] by (simp add: bucket_exists_def)
  show ?thesis
  proof (cases "e0 = None \<or> s3_bucket_versioning_status st1 b = ''Disabled''")
    case True
    then show ?thesis using i e st1 by (auto simp: s3_insert_simple_delete_marker_def Let_def split: option.splits)
  next
    case False
    then obtain e0' where e0': "e0 = Some e0'" and nd: "s3_bucket_versioning_status st1 b \<noteq> ''Disabled''" by auto
    obtain st3 vid r1 where d: "(if s3_bucket_versioning_status (put_entry b k (popped (s3_bucket_versioning_status st1 b) e0') st1) b = ''Enabled''
      then s3_new_version_id ev (put_entry b k (popped (s3_bucket_versioning_status st1 b) e0') st1) b
      else (put_entry b k (popped (s3_bucket_versioning_status st1 b) e0') st1, ''null'')) = (st3, vid)"
      and w: "s3_write_object_version ev now b k (s3_make_version_record ev now [] ''application/octet-stream'' ''STANDARD'' [] [] vid True)
       Prepend ''s3:ObjectRemoved:DeleteMarkerCreated'' source st3 = (st', r1)"
      by (rule marker_shape [OF i e [unfolded e0'] refl nd])
    have "bucket_exists st3 c = bucket_exists st1 c"
      using drawn_id(2) [OF d] by (simp add: bucket_exists_def)
    then show ?thesis using write_status(2) [OF w] st1 by simp
  qed
qed

end
