(* ===== verification/S3_Props.thy ===== *)
theory S3_Props
imports S3_Facts
begin

text \<open>The S3 service as a whole: one call of any handler as a step, reading what was written, versions that are
  never lost, and the invariant of the store.\<close>

section \<open>Calls\<close>

datatype s3_call =
    Put_Bucket "string dict" string
  | Get_Bucket "string dict"
  | Delete_Bucket "string dict"
  | Head_Object "string dict" string
  | Get_Object "string dict" "string dict" string
  | Put_Object "string dict" "string dict" string string
  | Delete_Object "string dict" string
  | Post_Bucket "string dict" string
  | Post_Object "string dict" "string dict" string string

type_synonym gcs_store = "string \<Rightarrow> string \<Rightarrow> s3_resp option"

fun s3_run :: "s3_env \<Rightarrow> gcs_store \<Rightarrow> int \<Rightarrow> string \<Rightarrow> s3_call \<Rightarrow> s3_st \<Rightarrow> s3_st" where
  "s3_run ev gcs now b (Put_Bucket params body) st = fst (s3_put_bucket ev now params b body st)"
| "s3_run ev gcs now b (Get_Bucket params) st = fst (s3_get_bucket ev now params b st)"
| "s3_run ev gcs now b (Delete_Bucket params) st = fst (s3_delete_bucket now params b st)"
| "s3_run ev gcs now b (Head_Object params k) st = fst (s3_head_object ev now params b k st)"
| "s3_run ev gcs now b (Get_Object params headers k) st = fst (s3_get_object ev gcs now params headers b k st)"
| "s3_run ev gcs now b (Put_Object params headers k body) st = fst (s3_put_object ev now params headers b k body st)"
| "s3_run ev gcs now b (Delete_Object params k) st = fst (s3_delete_object ev now params b k st)"
| "s3_run ev gcs now b (Post_Bucket params body) st = fst (s3_post_bucket ev now params b body st)"
| "s3_run ev gcs now b (Post_Object params headers k body) st = fst (s3_post_object ev now params headers b k body st)"

section \<open>Reading back\<close>

fun served :: "s3_resp \<Rightarrow> (int \<times> string) option" where
  "served (S3_Response status headers body) = Some (status, body)"
| "served (S3_Error code resource status) = None"

lemma range_none [simp]: "range_match [] = None"
  by (simp add: range_match_def)

lemma served_plain: "served (get_response ev [] v) = Some (200, ov_data v)"
  by (simp add: get_response_def apply_range_def dget_def)

lemma asked_current:
  assumes "asked_version now b k [] st = (st', r)"
  shows "r = (case history st b k of [] \<Rightarrow> None | v # _ \<Rightarrow> Some v)"
proof -
  obtain st1 e where e: "s3_ensure_object_entry now b k False st = (st1, e)" by force
  have "r = s3_find_version e []" using assms e by (simp add: asked_version_def)
  then show ?thesis using ensure_history(3,4) [OF e] by (cases e) (auto simp: s3_find_version_def)
qed

lemma get_current:
  assumes "bucket_exists st b" "history st b k = v # vs" "\<not> ov_marker v"
  shows "snd (s3_get_object ev gcs t [] headers b k st) = get_response ev headers v"
proof -
  obtain st1 r where a: "asked_version t b k [] st = (st1, r)" by force
  have "r = Some v" using asked_current [OF a] assms(2) by simp
  then show ?thesis using assms a by (simp add: s3_get_object_def dhas_def dget_def Let_def)
qed

lemma mark_latest_hd: "vs \<noteq> [] \<Longrightarrow> mark_latest vs = (hd vs)\<lparr>ov_latest := True\<rparr> # map (ov_latest_update (\<lambda>_. False)) (tl vs)"
  by (cases vs) auto

lemma replace_in_tail:
  "ov_id v \<noteq> vid \<Longrightarrow> \<exists>w \<in> set vs. ov_id w = vid \<Longrightarrow> \<exists>ws. replace_version vid n (v # vs) = Some (v # ws)"
proof -
  assume "\<exists>w \<in> set vs. ov_id w = vid"
  then have "replace_version vid n vs \<noteq> None" by (induction vs) auto
  moreover assume "ov_id v \<noteq> vid"
  ultimately show ?thesis by auto
qed

lemma replace_none: "\<forall>w \<in> set vs. ov_id w \<noteq> vid \<Longrightarrow> replace_version vid n vs = None"
  by (induction vs) auto

lemma put_object_stores:
  assumes "put_object ev now headers b k data st = (st1, Inr r)"
  obtains v e where "store_object ev now b k data (dget headers ''content-type'' ''application/octet-stream'')
      (dget headers ''x-amz-storage-class'' ''STANDARD'') (user_meta headers) [] ''s3:ObjectCreated:Put'' ''PutObject'' st = (st1, Inr (v, e))"
    "r = empty_response 200 [(''ETag'', ov_etag v), (''x-amz-version-id'', en_current e)]"
  using assms by (auto simp: put_object_def split: prod.splits sum.splits intro!: that)

text \<open>C9.  A stored object reads back byte for byte, whatever the versioning status of its bucket, as long as it is
  not put into a suspended bucket below a newer version.\<close>

theorem s3_put_then_get:
  assumes "bucket_exists st b" and put: "put_object ev now headers b k data st = (st1, Inr r)"
    and top: "s3_bucket_versioning_status st b = ''Suspended'' \<Longrightarrow>
      history st b k \<noteq> [] \<Longrightarrow> ov_id (hd (history st b k)) \<noteq> ''null'' \<Longrightarrow> \<forall>v \<in> set (history st b k). ov_id v \<noteq> ''null''"
  shows "served (snd (s3_get_object ev gcs t [] [] b k st1)) = Some (200, data)"
proof -
  obtain v e where s: "store_object ev now b k data (dget headers ''content-type'' ''application/octet-stream'')
      (dget headers ''x-amz-storage-class'' ''STANDARD'') (user_meta headers) [] ''s3:ObjectCreated:Put'' ''PutObject'' st = (st1, Inr (v, e))"
    by (rule put_object_stores [OF put])
  note S = store_history [OF s]
  let ?p = "placement_for (s3_bucket_versioning_status st b)"
  have "hd (place ?p v (history st b k)) = v"
  proof (cases "history st b k")
    case (Cons w ws)
    show ?thesis
    proof (cases "s3_bucket_versioning_status st b = ''Suspended'' \<and> ov_id w = ''null''")
      case False
      then have "s3_bucket_versioning_status st b = ''Suspended'' \<Longrightarrow> replace_version ''null'' v (history st b k) = None"
        using top Cons by (intro replace_none) auto
      then show ?thesis by (simp add: placement_for_def place_def)
    qed (use Cons in \<open>simp add: placement_for_def place_def\<close>)
  qed (simp add: placement_for_def place_def)
  then have h: "history st1 b k = v\<lparr>ov_latest := True\<rparr> # map (ov_latest_update (\<lambda>_. False)) (tl (place ?p v (history st b k)))"
    using S(2) [of b k] by (simp add: mark_latest_hd)
  have "bucket_exists st1 b" using S(6) assms(1) by simp
  from get_current [OF this h] show ?thesis
    by (simp add: S(1) served_plain s3_make_version_record_def)
qed

text \<open> In a suspended bucket a put under a key whose newest version has an id of its own and that has a null version
  below is accepted and not visible: a read still returns the data of the newest version.\<close>

theorem s3_suspended_put_hidden:
  assumes "bucket_exists st b" "s3_bucket_versioning_status st b = ''Suspended''"
    and h: "history st b k = v # vs" "ov_id v \<noteq> ''null''" "\<not> ov_marker v" "\<exists>w \<in> set vs. ov_id w = ''null''"
    and put: "put_object ev now headers b k data st = (st1, Inr r)"
  shows "served (snd (s3_get_object ev gcs t [] [] b k st1)) = Some (200, ov_data v)"
proof -
  obtain w e where s: "store_object ev now b k data (dget headers ''content-type'' ''application/octet-stream'')
      (dget headers ''x-amz-storage-class'' ''STANDARD'') (user_meta headers) [] ''s3:ObjectCreated:Put'' ''PutObject'' st = (st1, Inr (w, e))"
    by (rule put_object_stores [OF put])
  note S = store_history [OF s]
  obtain ws where "replace_version ''null'' w (v # vs) = Some (v # ws)" using replace_in_tail [OF h(2,4)] by blast
  then have "history st1 b k = v\<lparr>ov_latest := True\<rparr> # map (ov_latest_update (\<lambda>_. False)) ws"
    using S(2) [of b k] by (simp add: assms(2) placement_for_def place_def h(1))
  moreover have "bucket_exists st1 b" using S(6) assms(1) by simp
  ultimately show ?thesis using h(3) by (simp add: get_current served_plain)
qed

section \<open>Delete markers\<close>

lemma delete_object_plain:
  assumes "bucket_exists st b" "s3_bucket_versioning_status st b \<noteq> ''Disabled''"
    and "s3_delete_object ev now [] b k st = (st1, Inr r)"
  obtains st0 e e1 where "s3_ensure_object_entry now b k False st = (st0, e)"
    "s3_insert_simple_delete_marker ev now b k ''DeleteObject'' st0 = (st1, Inr (Some e1))"
    "r = empty_response 204 [(''x-amz-delete-marker'', ''true''), (''x-amz-version-id'', en_current e1)]"
proof -
  obtain st0 e where e: "s3_ensure_object_entry now b k False st = (st0, e)" by force
  have s0: "s3_bucket_versioning_status st0 b = s3_bucket_versioning_status st b"
    using ensure_history(2) [OF e] by (simp add: s3_bucket_versioning_status_def)
  obtain e1 where "s3_insert_simple_delete_marker ev now b k ''DeleteObject'' st0 = (st1, Inr e1)"
    and r: "r = empty_response 204 [(''x-amz-delete-marker'', ''true''),
         (''x-amz-version-id'', case e1 of None \<Rightarrow> ''null'' | Some e \<Rightarrow> en_current e)]"
    using assms e s0 by (auto simp: s3_delete_object_def dhas_def dget_def split: prod.splits sum.splits)
  moreover have "e1 \<noteq> None"
  proof
    assume "e1 = None"
    then have "s3_insert_simple_delete_marker ev now b k ''DeleteObject'' st0 = (st1, Inr None)" using calculation by simp
    then have "s3_bucket_versioning_status st0 b = ''Disabled''"
      using ensure_history(2) by (auto simp: s3_insert_simple_delete_marker_def Let_def s3_bucket_versioning_status_def
          split: prod.splits option.splits sum.splits if_splits)
    then show False using assms(2) s0 by simp
  qed
  ultimately show thesis using that e by auto
qed

lemma ensure_status:
  assumes "s3_ensure_object_entry now b k c st = (st', e)"
  shows "s3_bucket_versioning_status st' x = s3_bucket_versioning_status st x" "bucket_exists st' x = bucket_exists st x"
    "s3_n st' = s3_n st" "s3_uploads st' = s3_uploads st"
  using ensure_history(2) [OF assms] ensure_spec [OF assms]
  by (auto simp: s3_bucket_versioning_status_def bucket_exists_def split: option.splits)

text \<open> In a versioned bucket a delete hides the object (a read answers that there is no such key) and loses nothing:
  deleting the marker by the version id the delete answered brings the same history back.\<close>

theorem s3_delete_then_undelete:
  assumes ex: "bucket_exists st b" and en: "s3_bucket_versioning_status st b = ''Enabled''"
    and d: "s3_delete_object ev now [] b k st = (st1, Inr r)"
    and fresh: "sv_hex ev (s3_n st) \<noteq> []" "\<forall>v \<in> set (history st b k). ov_id v \<noteq> sv_hex ev (s3_n st)"
  shows "snd (s3_get_object ev gcs t [] [] b k st1) = no_such_key b k \<and>
         r = empty_response 204 [(''x-amz-delete-marker'', ''true''), (''x-amz-version-id'', sv_hex ev (s3_n st))] \<and>
         (\<exists>st2. s3_delete_object ev u [(''versionId'', sv_hex ev (s3_n st))] b k st1 =
                  (st2, Inr (empty_response 204 [(''x-amz-version-id'', sv_hex ev (s3_n st))])) \<and>
                history st2 b k = history st b k)"
proof -
  let ?id = "sv_hex ev (s3_n st)"
  have nd: "s3_bucket_versioning_status st b \<noteq> ''Disabled''" using en by simp
  obtain st0 e e1 where e: "s3_ensure_object_entry now b k False st = (st0, e)"
    and i: "s3_insert_simple_delete_marker ev now b k ''DeleteObject'' st0 = (st1, Inr (Some e1))"
    and r: "r = empty_response 204 [(''x-amz-delete-marker'', ''true''), (''x-amz-version-id'', en_current e1)]"
    by (rule delete_object_plain [OF ex nd d])
  note E = ensure_history(1) [OF e] and S = ensure_status [OF e] and M = marker_history [OF i]
  have f: "fresh_id ev st0 b = ?id" using S en by (simp add: fresh_id_def)
  obtain mk where mk: "ov_marker mk" "ov_id mk = ?id" "history st1 b k = mark_latest (mk # history st b k)"
    using M(2) S(1) en fresh(1) E by (auto simp: f str_or_def)
  have ex1: "bucket_exists st1 b" using M(5) S(2) ex by simp
  have cur: "en_current e1 = ?id"
  proof -
    obtain stx mk' src where w: "s3_write_object_version ev now b k mk' Prepend src ''DeleteObject'' stx = (st1, Inr e1)"
      using i by (auto simp: s3_insert_simple_delete_marker_def Let_def split: prod.splits option.splits sum.splits if_splits)
    then obtain e0 where "e1 = s3_refresh_object_entry now (e0\<lparr>en_versions := Some (place Prepend mk' (versions_of e0))\<rparr>)"
      by (rule write_shape)
    then have "en_current e1 = ov_id (hd (versions_of e1))"
      by (simp add: s3_refresh_object_entry_def versions_of_def place_def split: list.splits)
    then show ?thesis using M(6) mk by simp
  qed
  have "snd (s3_get_object ev gcs t [] [] b k st1) = no_such_key b k"
  proof -
    obtain stg rg where a: "asked_version t b k [] st1 = (stg, rg)" by force
    have "rg = Some (mk\<lparr>ov_latest := True\<rparr>)" using asked_current [OF a] mk(3) by simp
    then show ?thesis using ex1 a mk(1) by (simp add: s3_get_object_def dhas_def dget_def Let_def)
  qed
  moreover have "\<exists>st2. s3_delete_object ev u [(''versionId'', ?id)] b k st1 =
                  (st2, Inr (empty_response 204 [(''x-amz-version-id'', ?id)])) \<and> history st2 b k = history st b k"
  proof -
    obtain st2 e2 where e2: "s3_ensure_object_entry u b k False st1 = (st2, e2)" by force
    obtain st3 ok where dv: "s3_delete_version ev u b k ?id st2 = (st3, ok)" by force
    note D = delete_version_history [OF dv]
    have h2: "history st2 b k = mark_latest (mk # history st b k)" using ensure_history(1) [OF e2] mk(3) by simp
    have ok: "ok" unfolding D(2) h2 by (simp add: mk(2))
    have "filter (\<lambda>v. ov_id v \<noteq> ?id) (map (ov_latest_update (\<lambda>_. False)) (history st b k))
        = map (ov_latest_update (\<lambda>_. False)) (history st b k)"
      using fresh(2) by (simp add: filter_id_conv)
    moreover have "mark_latest (map (ov_latest_update (\<lambda>_. False)) vs) = mark_latest vs" for vs
      by (cases vs) simp_all
    moreover have "mark_latest (history st b k) = history st b k" by (simp add: history_def split: option.split)
    ultimately have "history st3 b k = history st b k" using D(1) [of b k] h2 mk(2) by simp
    then show ?thesis using ex1 e2 dv ok fresh(1) by (simp add: s3_delete_object_def dhas_def dget_def)
  qed
  ultimately show ?thesis using r cur by simp
qed

section \<open>No version is lost\<close>

text \<open>A version without the two fields that change in place.\<close>

definition frozen :: "over \<Rightarrow> over" where
  "frozen v = v\<lparr>ov_latest := False, ov_tags := []\<rparr>"

definition keeps :: "string \<Rightarrow> string \<Rightarrow> s3_st \<Rightarrow> s3_st \<Rightarrow> bool" where
  "keeps b k st st' \<longleftrightarrow> suffix (map frozen (history st b k)) (map frozen (history st' b k))"

lemma keeps_trans: "keeps b k st st1 \<Longrightarrow> keeps b k st1 st2 \<Longrightarrow> keeps b k st st2"
  unfolding keeps_def by (rule suffix_order.trans)

lemma keeps_same: "history st' b k = history st b k \<Longrightarrow> keeps b k st st'"
  by (simp add: keeps_def)

lemma keeps_objects: "s3_objects st' = s3_objects st \<Longrightarrow> keeps b k st st'"
  by (rule keeps_same) (rule history_cong)

lemma frozen_latest [simp]: "frozen (v\<lparr>ov_latest := x\<rparr>) = frozen v" "frozen (v\<lparr>ov_tags := t\<rparr>) = frozen v"
  by (simp_all add: frozen_def)

lemma frozen_mark [simp]: "map frozen (mark_latest vs) = map frozen vs"
  by (cases vs) simp_all

lemma frozen_history: "map frozen (history st b k) = map frozen (case find_entry st b k of None \<Rightarrow> [] | Some e \<Rightarrow> raw_versions e)"
  by (simp add: history_def split: option.split)

lemma ensure_keeps: "s3_ensure_object_entry now c k' create st = (st', e) \<Longrightarrow> keeps b k st st'"
  by (rule keeps_same) (rule ensure_history(1))

lemma write_keeps:
  assumes w: "s3_write_object_version ev now c k' v p event source st = (st', r)"
    and p: "c = b \<Longrightarrow> p = Prepend"
  shows "keeps b k st st'"
proof (cases r)
  case (Inr e)
  have "history st' b k = (if b = c \<and> k = k' then mark_latest (place p v (history st c k')) else history st b k)"
    by (rule write_history(1)) (use w Inr in simp)
  then show ?thesis using p by (cases "b = c \<and> k = k'") (auto simp: keeps_def place_def suffix_Cons simp del: mark_latest.simps)
next
  case (Inl x)
  then have "st' = st \<or> (\<exists>e. s3_ensure_object_entry now c k' True st = (st', e))"
    using w by (auto simp: s3_write_object_version_def Let_def split: sum.splits prod.splits option.splits if_splits)
  then show ?thesis using ensure_keeps by (auto simp: keeps_def)
qed

lemma store_keeps:
  assumes s: "store_object ev now c k' data ctype cls meta tags event source st = (st', r)"
    and en: "s3_bucket_versioning_status st b = ''Enabled''"
  shows "keeps b k st st'"
proof -
  let ?status = "s3_bucket_versioning_status st c"
  obtain st1 vid where i: "(if ?status = ''Enabled'' then s3_new_version_id ev st c else (st, ''null'')) = (st1, vid)" by force
  obtain r1 where w: "s3_write_object_version ev now c k' (s3_make_version_record ev now data ctype cls meta tags vid False)
      (placement_for ?status) event source st1 = (st', r1)"
    using s unfolding store_object_def Let_def i by (auto split: prod.splits sum.splits)
  have "keeps b k st st1" by (rule keeps_objects) (rule drawn_id(1) [OF i])
  moreover have "keeps b k st1 st'" by (rule write_keeps [OF w]) (use en in \<open>simp add: placement_for_def\<close>)
  ultimately show ?thesis by (rule keeps_trans)
qed

lemma emit_keeps: "keeps b k st (s3_emit_event ev now c k' event v source st)"
  by (rule keeps_same) (rule history_emit)

lemma put_entry_keeps:
  assumes "en_versions e \<noteq> None" "c = b \<Longrightarrow> k' = k \<Longrightarrow> map frozen (versions_of e) = map frozen (history st b k)"
  shows "keeps b k st (put_entry c k' e st)"
  using assms by (auto simp: keeps_def history_put)

lemma marker_keeps:
  assumes i: "s3_insert_simple_delete_marker ev now c k' source st = (st', r)"
    and en: "s3_bucket_versioning_status st b = ''Enabled''"
  shows "keeps b k st st'"
proof -
  obtain st1 e0 where e: "s3_ensure_object_entry now c k' True st = (st1, e0)" by force
  note E = ensure_history [OF e] and S = ensure_status [OF e] and K = ensure_keeps [OF e, of b k]
  show ?thesis
  proof (cases e0)
    case None
    then show ?thesis using i e K by (simp add: s3_insert_simple_delete_marker_def)
  next
    case (Some e0')
    let ?status = "s3_bucket_versioning_status st1 c"
    show ?thesis
    proof (cases "?status = ''Disabled''")
      case True
      then have "c \<noteq> b" using S(1) [of c] en by auto
      then have "keeps b k st1 (drop_entry c k' st1)" by (intro keeps_same) (simp add: history_drop)
      then show ?thesis using i e Some True K emit_keeps keeps_trans
        by (auto simp: s3_insert_simple_delete_marker_def Let_def)
    next
      case False
      let ?e1 = "popped ?status e0'"
      let ?st2 = "put_entry c k' ?e1 st1"
      have v: "versions_of e0' = history st c k'" "en_versions e0' \<noteq> None" using E(3) [OF Some] by auto
      have "c = b \<Longrightarrow> ?e1 = e0'" using S(1) [of b] en by (simp add: popped_def)
      then have k2: "keeps b k st1 ?st2" using v E(1) by (intro put_entry_keeps) (auto simp: popped_def)
      obtain st3 vid r1 where d: "(if s3_bucket_versioning_status ?st2 c = ''Enabled'' then s3_new_version_id ev ?st2 c else (?st2, ''null'')) = (st3, vid)"
        and w: "s3_write_object_version ev now c k' (s3_make_version_record ev now [] ''application/octet-stream'' ''STANDARD'' [] [] vid True)
          Prepend ''s3:ObjectRemoved:DeleteMarkerCreated'' source st3 = (st', r1)"
        by (rule marker_shape [OF i e [unfolded Some] refl False])
      have k3: "keeps b k ?st2 st3" by (rule keeps_objects) (rule drawn_id(1) [OF d])
      have "keeps b k st3 st'" by (rule write_keeps [OF w]) simp
      then show ?thesis using K k2 k3 by (blast intro: keeps_trans)
    qed
  qed
qed

lemma delete_keys_keeps:
  "delete_keys ev now c ks st = (st', r) \<Longrightarrow> s3_bucket_versioning_status st b = ''Enabled'' \<Longrightarrow> keeps b k st st'"
proof (induction ev now c ks st arbitrary: st' r rule: delete_keys.induct)
  case (1 ev now c st)
  then show ?case by (simp add: keeps_def)
next
  case (2 ev now c k1 ks st)
  let ?dis = "s3_bucket_versioning_status st c = ''Disabled''"
  consider "\<not> dhas (bucket_objects st c) k1" | "dhas (bucket_objects st c) k1" ?dis | "dhas (bucket_objects st c) k1" "\<not> ?dis" by blast
  then show ?case
  proof cases
    case 1
    then show ?thesis using 2 by simp
  next
    case 2: 2
    let ?s = "s3_emit_event ev now c k1 ''s3:ObjectRemoved:Delete'' None ''DeleteObjects'' (drop_entry c k1 st)"
    have "c \<noteq> b" using 2 "2.prems"(2) by auto
    then have "keeps b k st ?s" by (intro keeps_same) (simp add: history_emit history_drop)
    moreover have "delete_keys ev now c ks ?s = (st', r)" using "2.prems"(1) 2 by simp
    then have "keeps b k ?s st'" using "2.IH"(2) [of st' r] 2 "2.prems"(2) by simp
    ultimately show ?thesis by (rule keeps_trans)
  next
    case 3: 3
    obtain s1 r1 where i: "s3_insert_simple_delete_marker ev now c k1 ''DeleteObjects'' st = (s1, r1)" by force
    have k1: "keeps b k st s1" by (rule marker_keeps [OF i "2.prems"(2)])
    show ?thesis
    proof (cases r1)
      case (Inl x)
      then show ?thesis using "2.prems"(1) 3 i k1 by simp
    next
      case (Inr x)
      have "s3_bucket_versioning_status s1 b = ''Enabled''" using "2.prems"(2) marker_status [OF i] by simp
      moreover have "delete_keys ev now c ks s1 = (st', r)" using "2.prems"(1) 3 i Inr by simp
      ultimately have "keeps b k s1 st'" using "2.IH"(3) 3 i Inr by simp
      then show ?thesis using k1 by (blast intro: keeps_trans)
    qed
  qed
qed

definition deletes_version :: "s3_call \<Rightarrow> bool" where
  "deletes_version call =
     (case call of Delete_Object params k \<Rightarrow> dget params ''versionId'' [] \<noteq> [] \<and> \<not> dhas params ''uploadId'' \<and> \<not> dhas params ''tagging''
      | _ \<Rightarrow> False)"

lemma put_bucket_keeps:
  assumes "bucket_exists st b"
  shows "keeps b k st (fst (s3_put_bucket ev now params c body st))"
proof -
  have n: "keeps b k st (fst (put_notification ev now c body st))"
  proof -
    obtain n r where "s3_parse_notification_xml ev now (s3_n st) body = (n, r)" by force
    then show ?thesis by (cases r) (auto simp: put_notification_def Let_def intro: keeps_objects)
  qed
  have d: "keeps b k st (fst (put_document ev check upd c body st))" for check upd
    by (simp add: put_document_def keeps_objects)
  have u: "keeps b k st (upd_bucket c f st)" for f by (rule keeps_objects) simp
  have r: "keeps b k st st" by (simp add: keeps_def)
  have cr: "keeps b k st (fst (create_bucket ev now c body st))"
  proof (cases "fst (create_bucket ev now c body st) = st")
    case False
    then have "\<not> bucket_exists st c"
      and s: "s3_objects (fst (create_bucket ev now c body st)) = dset c [] (s3_objects st)"
      by (auto simp: create_bucket_def split: option.splits sum.splits if_splits)
    then have "c \<noteq> b" using assms by auto
    then show ?thesis by (intro keeps_same) (simp add: history_def find_entry_def s dict_simps)
  qed (simp add: keeps_def)
  show ?thesis
    unfolding s3_put_bucket_def Let_def
    by (simp add: n d u r cr if_distrib [of fst] if_distrib [of "keeps b k st"])
qed

lemma get_bucket_keeps: "keeps b k st (fst (s3_get_bucket ev now params c st))"
  by (rule keeps_objects) (simp add: s3_get_bucket_def Let_def split: option.split)

lemma delete_bucket_keeps: "keeps b k st (fst (s3_delete_bucket now params c st))"
proof (cases "s3_objects (fst (s3_delete_bucket now params c st)) = s3_objects st")
  case False
  then have "dget (s3_objects st) c [] = []" and o: "s3_objects (fst (s3_delete_bucket now params c st)) = dpop c (s3_objects st)"
    by (auto simp: s3_delete_bucket_def split: if_splits)
  then have "b \<noteq> c \<Longrightarrow> history (fst (s3_delete_bucket now params c st)) b k = history st b k" "b = c \<Longrightarrow> history st b k = []"
    by (auto simp: history_def find_entry_def dict_simps dget_def)
  then show ?thesis by (cases "b = c") (simp_all add: keeps_def)
qed (rule keeps_objects)

lemma asked_keeps: "asked_version now c k' vid st = (st', r) \<Longrightarrow> keeps b k st st'"
  by (auto simp: asked_version_def dest: ensure_keeps split: prod.splits)

lemma read_keeps:
  "keeps b k st (fst (s3_head_object ev now params c k' st))" "keeps b k st (fst (s3_get_object ev gcs now params headers c k' st))"
proof -
  obtain st1 r where a: "asked_version now c k' (dget params ''versionId'' []) st = (st1, r)" by force
  show "keeps b k st (fst (s3_head_object ev now params c k' st))" "keeps b k st (fst (s3_get_object ev gcs now params headers c k' st))"
    using asked_keeps [OF a, of b k] a by (auto simp: s3_head_object_def s3_get_object_def Let_def keeps_def split: option.splits)
qed

lemma update_versions_keeps:
  assumes e: "s3_ensure_object_entry now c k' False st = (st1, Some e)" and f: "map frozen (f (versions_of e)) = map frozen (versions_of e)"
  shows "keeps b k st (update_versions now c k' f e st1)"
proof -
  note E = ensure_history [OF e]
  show ?thesis
  proof (cases "f (versions_of e) = []")
    case True
    then have "versions_of e = []" using f by simp
    then have "keeps b k st1 (update_versions now c k' f e st1)"
      using True E by (auto simp: update_versions_def keeps_def history_def find_put raw_versions_def versions_of_def
          s3_refresh_object_entry_def split: option.splits)
    then show ?thesis using ensure_keeps [OF e] keeps_trans by blast
  next
    case False
    then have "keeps b k st1 (update_versions now c k' f e st1)"
      unfolding update_versions_def using E(3) [OF refl] E(1) f by (intro put_entry_keeps) (simp_all add: versions_refresh)
    then show ?thesis using ensure_keeps [OF e] keeps_trans by blast
  qed
qed

lemma frozen_tags: "map frozen (set_first_tags t vs) = map frozen vs" "map frozen (clear_tags_at vid vs) = map frozen vs"
  by (cases vs; simp) (induction vs, auto)

lemma put_object_keeps:
  assumes en: "s3_bucket_versioning_status st b = ''Enabled''"
  shows "keeps b k st (fst (s3_put_object ev now params headers c k' body st))"
proof -
  have up: "keeps b k st (fst (upload_part ev u n body c k' st))" for u n
    by (rule keeps_objects) (simp add: upload_part_def Let_def split: option.split)
  have po: "keeps b k st (fst (put_object ev now headers c k' body st))"
  proof -
    obtain st' r where "put_object ev now headers c k' body st = (st', r)" by force
    then show ?thesis using store_keeps [OF _ en] by (auto simp: put_object_def split: prod.splits sum.splits)
  qed
  have tg: "keeps b k st (fst (put_object_tagging ev now body c k' st))"
    using update_versions_keeps ensure_keeps
    by (auto simp: put_object_tagging_def frozen_tags split: prod.splits option.splits)
  have co: "keeps b k st (fst (copy_object ev now headers source c k' st))" for source
  proof -
    have "keeps b k st st2" if a: "asked_version now sb sk vid st = (st1, v)"
      and s: "store_object ev now c k' data ctype cls meta tags event src st1 = (st2, r)" for sb sk vid st1 v st2 data ctype cls meta tags event src r
    proof -
      have "s3_bucket_versioning_status st1 b = ''Enabled''"
        using a en ensure_status(1) by (auto simp: asked_version_def split: prod.splits)
      from store_keeps [OF s this] asked_keeps [OF a] show ?thesis by (blast intro: keeps_trans)
    qed
    then show ?thesis using asked_keeps
      by (auto simp: copy_object_def keeps_same split: option.splits prod.splits sum.splits)
  qed
  have ac: "keeps b k st st1" if "s3_ensure_object_entry now c k' False st = (st1, e)" for st1 e by (rule ensure_keeps [OF that])
  show ?thesis
    unfolding s3_put_object_def
    by (auto simp: Let_def up po tg co ac keeps_same split: prod.splits option.splits) (use tg in auto)
qed

lemma delete_object_keeps:
  assumes en: "s3_bucket_versioning_status st b = ''Enabled''" and nv: "\<not> deletes_version (Delete_Object params k')"
  shows "keeps b k st (fst (s3_delete_object ev now params c k' st))"
proof -
  let ?vid = "dget params ''versionId'' []"
  have tg: "keeps b k st (fst (delete_object_tagging now ?vid c k' st))"
    using update_versions_keeps ensure_keeps
    by (auto simp: delete_object_tagging_def frozen_tags split: prod.splits option.splits)
  obtain st1 e where e: "s3_ensure_object_entry now c k' False st = (st1, e)" by force
  have en1: "s3_bucket_versioning_status st1 b = ''Enabled''" using ensure_status(1) [OF e] en by simp
  obtain st2 r where i: "s3_insert_simple_delete_marker ev now c k' ''DeleteObject'' st1 = (st2, r)" by force
  have k2: "keeps b k st st2" using marker_keeps [OF i en1] ensure_keeps [OF e] by (blast intro: keeps_trans)
  have dr: "keeps b k st (drop_entry c k' st1)" if "s3_bucket_versioning_status st1 c = ''Disabled''"
  proof -
    have "c \<noteq> b" using that en1 by auto
    then have "keeps b k st1 (drop_entry c k' st1)" by (intro keeps_same) (simp add: history_drop)
    then show ?thesis using ensure_keeps [OF e] by (blast intro: keeps_trans)
  qed
  consider "\<not> bucket_exists st c \<or> dhas params ''uploadId''" |
    "bucket_exists st c" "\<not> dhas params ''uploadId''" "dhas params ''tagging''" |
    "bucket_exists st c" "\<not> dhas params ''uploadId''" "\<not> dhas params ''tagging''" "?vid = []"
    using nv by (auto simp: deletes_version_def)
  then show ?thesis
  proof cases
    case 1
    then show ?thesis by (intro keeps_objects) (auto simp: s3_delete_object_def)
  next
    case 2
    then show ?thesis using tg by (auto simp: s3_delete_object_def Let_def split: prod.split)
  next
    case 3
    then show ?thesis using e i k2 dr by (cases r) (simp_all add: s3_delete_object_def Let_def)
  qed
qed

lemma post_keeps:
  assumes en: "s3_bucket_versioning_status st b = ''Enabled''"
  shows "keeps b k st (fst (s3_post_bucket ev now params c body st))"
    and "keeps b k st (fst (s3_post_object ev now params headers c k' body st))"
proof -
  have "keeps b k st s" if "delete_keys ev now c ks st = (s, r)" for ks s r by (rule delete_keys_keeps [OF that en])
  then show "keeps b k st (fst (s3_post_bucket ev now params c body st))"
    by (auto simp: s3_post_bucket_def Let_def keeps_same split: option.splits prod.splits sum.splits)
  have cr: "keeps b k st (fst (create_upload ev now headers c k' st))"
    by (rule keeps_objects) (simp add: create_upload_def Let_def)
  have co: "keeps b k st (fst (complete_upload ev now u mp c k' body st))" for u mp
  proof -
    have "keeps b k st (s\<lparr>s3_uploads := x\<rparr>)" if "keeps b k st s" for s x
      using that keeps_objects [of "s\<lparr>s3_uploads := x\<rparr>" s] keeps_trans by fastforce
    then show ?thesis using store_keeps [OF _ en]
      by (auto simp: complete_upload_def keeps_same split: sum.splits prod.splits)
  qed
  show "keeps b k st (fst (s3_post_object ev now params headers c k' body st))"
    by (simp add: s3_post_object_def Let_def cr co keeps_same split: option.split)
qed

text \<open>C8.  No call but the deletion of one version loses a version: whatever handler is called on whatever bucket and key,
  the history of every key of a versioned bucket is afterwards the one before, perhaps with newer versions in front
  (the tags of the current version may change).\<close>

theorem s3_versions_never_lost:
  assumes "s3_bucket_versioning_status st b = ''Enabled''" and "\<not> deletes_version call"
  shows "suffix (map frozen (history st b k)) (map frozen (history (s3_run ev gcs now c call st) b k))"
proof -
  have ex: "bucket_exists st b"
    using assms(1) by (auto simp: s3_bucket_versioning_status_def bucket_exists_def dhas_def Let_def split: option.splits if_splits)
  have "keeps b k st (s3_run ev gcs now c call st)"
    using assms put_bucket_keeps [OF ex] get_bucket_keeps delete_bucket_keeps read_keeps put_object_keeps [OF assms(1)]
      delete_object_keeps [OF assms(1)] post_keeps [OF assms(1)]
    by (cases call) simp_all
  then show ?thesis by (simp only: keeps_def)
qed

section \<open>Multipart uploads\<close>

definition upload_all :: "s3_env \<Rightarrow> string \<Rightarrow> string \<Rightarrow> string \<Rightarrow> (nat \<times> string) list \<Rightarrow> s3_st \<Rightarrow> s3_st" where
  "upload_all ev u b k ps st =
     fold (\<lambda>(n, d) s. fst (s3_put_object ev 0 [(''uploadId'', u), (''partNumber'', nat_str n)] [] b k d s)) ps st"

definition part_of :: "s3_env \<Rightarrow> string \<Rightarrow> part" where
  "part_of ev d = \<lparr>pt_data = d, pt_etag = s3_etag ev d, pt_size = int (length d)\<rparr>"

lemma int_str_nat: "int_str (int n) = nat_str n"
  by (simp add: int_str_def)

lemma put_part:
  assumes "bucket_exists st b" "map_of (s3_uploads st) u = Some mp"
  shows "fst (s3_put_object ev now [(''uploadId'', u), (''partNumber'', nat_str n)] headers b k d st)
       = st\<lparr>s3_uploads := dmap_at u (up_parts_update (set_part (int n) (part_of ev d))) (s3_uploads st)\<rparr>"
  using assms by (simp add: s3_put_object_def upload_part_def dhas_def dget_def int_of_str_int_str [of "int n", simplified int_str_nat] part_of_def Let_def)

lemma upload_all_parts:
  "bucket_exists st b \<Longrightarrow> map_of (s3_uploads st) u = Some mp \<Longrightarrow> distinct (map fst ps) \<Longrightarrow>
   int ` fst ` set ps \<inter> fst ` set (up_parts mp) = {} \<Longrightarrow>
   map_of (s3_uploads (upload_all ev u b k ps st)) u
     = Some (mp\<lparr>up_parts := up_parts mp @ map (\<lambda>(n, d). (int n, part_of ev d)) ps\<rparr>) \<and>
   s3_objects (upload_all ev u b k ps st) = s3_objects st \<and> s3_buckets (upload_all ev u b k ps st) = s3_buckets st"
proof (induction ps arbitrary: st mp)
  case Nil
  then show ?case by (simp add: upload_all_def)
next
  case (Cons p ps)
  obtain n d where p: "p = (n, d)" by force
  let ?st = "st\<lparr>s3_uploads := dmap_at u (up_parts_update (set_part (int n) (part_of ev d))) (s3_uploads st)\<rparr>"
  let ?mp = "mp\<lparr>up_parts := up_parts mp @ [(int n, part_of ev d)]\<rparr>"
  have u: "map_of (s3_uploads ?st) u = Some ?mp" using Cons.prems by (auto simp: p dict_simps set_part_def)
  have "upload_all ev u b k (p # ps) st = upload_all ev u b k ps ?st"
    using put_part [OF Cons.prems(1,2)] by (simp add: upload_all_def p)
  moreover have "bucket_exists ?st b" using Cons.prems(1) by (simp add: bucket_exists_def)
  moreover have "distinct (map fst ps)" "int ` fst ` set ps \<inter> fst ` set (up_parts ?mp) = {}"
    using Cons.prems(3,4) by (force simp: p)+
  note Cons.IH [OF \<open>bucket_exists ?st b\<close> u this]
  ultimately show ?case by (simp add: p)
qed

lemma sort_key_map: "sort_key f (map g xs) = map g (sort_key (f \<circ> g) xs)"
proof -
  have "insort_key f (g x) (map g ys) = map g (insort_key (f \<circ> g) x ys)" for x ys by (induction ys) simp_all
  then show ?thesis by (induction xs) (simp_all add: comp_def)
qed

lemma sorted_parts:
  assumes "distinct (map fst ps)"
  shows "map (part_data ps) (sort (map fst ps)) = map (\<lambda>(_, p). pt_data p) (sort_key fst ps)"
proof -
  have s: "sort (map fst ps) = map fst (sort_key fst ps)"
    by (simp add: sort_key_map comp_def)
  have "part_data ps n = pt_data p" if "(n, p) \<in> set ps" for n p
    using assms that by (simp add: part_data_def)
  then show ?thesis unfolding s by (auto simp: comp_def)
qed

text \<open> Completing a multipart upload whose body names no part stores the parts joined in the order of their numbers,
  whatever the order they were sent in.\<close>

theorem s3_multipart_joined:
  assumes ex: "bucket_exists st b" and dis: "s3_bucket_versioning_status st b = ''Disabled''"
    and mp: "map_of (s3_uploads st) u = Some mp" "up_parts mp = []" and ps: "ps \<noteq> []" "distinct (map fst ps)"
    and body: "sv_xml ev body = None"
    and c: "s3_post_object ev now [(''uploadId'', u)] [] b k body (upload_all ev u b k ps st) = (st2, Inr r)"
  shows "served (snd (s3_get_object ev gcs t [] [] b k st2)) = Some (200, concat (map snd (sort_key fst ps)))"
proof -
  let ?st = "upload_all ev u b k ps st" and ?parts = "map (\<lambda>(n, d). (int n, part_of ev d)) ps"
  note U = upload_all_parts [OF ex mp(1) ps(2), of ev k]
  have up: "map_of (s3_uploads ?st) u = Some (mp\<lparr>up_parts := ?parts\<rparr>)" "s3_buckets ?st = s3_buckets st"
    using U mp(2) by auto
  have ex1: "bucket_exists ?st b" "s3_bucket_versioning_status ?st b = ''Disabled''"
    using ex dis up(2) by (simp_all add: bucket_exists_def s3_bucket_versioning_status_def)
  have dp: "distinct (map fst ?parts)"
    using ps(2) by (auto simp: distinct_map inj_on_def comp_def case_prod_unfold)
  define data where "data = concat (map (part_data ?parts) (sort (map fst ?parts)))"
  have joined: "data = concat (map snd (sort_key fst ps))"
  proof -
    have "sort_key fst ?parts = map (\<lambda>(n, d). (int n, part_of ev d)) (sort_key (\<lambda>x. int (fst x)) ps)"
      by (simp add: sort_key_map comp_def case_prod_unfold)
    moreover have "sort_key (\<lambda>x. int (fst x)) ps = sort_key fst ps"
    proof -
      have "insort_key (\<lambda>x. int (fst x)) x ys = insort_key fst x ys" for x and ys :: "(nat \<times> string) list" by (induction ys) simp_all
      then show ?thesis by (induction ps) simp_all
    qed
    ultimately show ?thesis unfolding data_def sorted_parts [OF dp]
      by (simp add: comp_def case_prod_unfold part_of_def)
  qed
  have "ordered_parts ev body (mp\<lparr>up_parts := ?parts\<rparr>) = Inr (sort (map fst ?parts))"
    by (simp add: ordered_parts_def body)
  then obtain w e st1 where s: "store_object ev now b k data (up_ctype mp) ''STANDARD'' (up_meta mp) []
      ''s3:ObjectCreated:CompleteMultipartUpload'' ''CompleteMultipartUpload'' ?st = (st1, Inr (w, e))"
    and st2: "st2 = st1\<lparr>s3_uploads := dpop u (s3_uploads st1)\<rparr>"
    using c up(1) ex1(1)
    by (auto simp: s3_post_object_def complete_upload_def dhas_def dget_def data_def Let_def split: prod.splits sum.splits)
  note S = store_history [OF s]
  have "history st2 b k = [w\<lparr>ov_latest := True\<rparr>]"
    using S(2) [of b k] history_cong [of st2 st1] by (simp add: st2 ex1(2) placement_for_def place_def)
  moreover have "bucket_exists st2 b" using S(6) [of b] ex1(1) by (simp add: st2 bucket_exists_def)
  ultimately show ?thesis using S(1) joined
    by (simp add: get_current s3_make_version_record_def served_plain)
qed

end
