(* ===== verification/S3_Listing.thy ===== *)
theory S3_Listing
imports S3_Props
begin

text \<open>Paging through a bucket: a client that follows the continuation tokens of the second listing, or the markers of
  the first one, gets every visible key once, in order.\<close>

fun list_all_pages :: "nat \<Rightarrow> int \<Rightarrow> string \<Rightarrow> string \<Rightarrow> string \<Rightarrow> int \<Rightarrow> s3_st \<Rightarrow> string list option" where
  "list_all_pages 0 now b pre start mk st = None"
| "list_all_pages (Suc n) now b pre start mk st =
     (case list_page now b pre [] start mk st of
        Inl e \<Rightarrow> None
      | Inr pg \<Rightarrow>
          if pg_truncated pg then map_option ((@) (pg_keys pg)) (list_all_pages n now b pre (pg_next pg) mk st)
          else Some (pg_keys pg))"

lemma filter_after:
  fixes ks :: "string list"
  assumes "sorted ks" "distinct ks" "0 < n" "n \<le> length ks"
  shows "filter (\<lambda>k. last (take n ks) < k) ks = drop n ks"
proof -
  let ?l = "last (take n ks)"
  have l: "?l = ks ! (n - 1)" using assms(3,4) by (subst last_conv_nth) (auto simp: min_def)
  have lo: "\<forall>k \<in> set (take n ks). \<not> ?l < k"
  proof
    fix k assume "k \<in> set (take n ks)"
    then obtain i where "i < n" "k = ks ! i" using assms(4) by (auto simp: in_set_conv_nth)
    then have "k \<le> ?l" using assms(1,3,4) by (auto simp: l intro!: sorted_nth_mono)
    then show "\<not> ?l < k" by simp
  qed
  have hi: "\<forall>k \<in> set (drop n ks). ?l < k"
  proof
    fix k assume "k \<in> set (drop n ks)"
    then obtain i where i: "n + i < length ks" "k = ks ! (n + i)"
      using assms(4) by (metis add.commute in_set_conv_nth length_drop less_diff_conv nth_drop)
    have "?l \<le> k" using assms(1,3) i by (auto simp: l intro!: sorted_nth_mono)
    moreover have "?l \<noteq> k" using assms(2,3) i nth_eq_iff_index_eq [OF assms(2), of "n - 1" "n + i"] by (auto simp: l)
    ultimately show "?l < k" by simp
  qed
  have "filter (\<lambda>k. ?l < k) (take n ks @ drop n ks) = drop n ks"
    using lo hi by (simp only: filter_append) (simp add: filter_empty_conv filter_id_conv)
  then show ?thesis by simp
qed

lemma list_page_plain:
  assumes "1 \<le> mk" and M: "M = listed_keys now b pre start st"
  shows "list_page now b pre [] start mk st =
    Inr \<lparr>pg_keys = take (nat mk) M, pg_prefixes = [], pg_truncated = (nat mk < length M),
         pg_next = (if nat mk < length M then last (take (nat mk) M) else [])\<rparr>"
proof -
  have "(int (length M) > mk) = (nat mk < length M)" using assms(1) by linarith
  moreover have "nat mk < length M \<Longrightarrow> take (nat mk) M \<noteq> []" using assms(1) by (cases M) auto
  ultimately show ?thesis
    using assms(1) by (simp add: list_page_def common_prefix_def Let_def take_int_def dict_fromkeys_def flip: M)
qed

text \<open>C40.  Paging is complete and ends: with any page size of at least one, following the answered token from the start
  until a page is not cut yields every visible key under the prefix exactly once and in order, within one call more than
  there are keys.  (An object stored under the empty key would make the token empty and start over.)\<close>

theorem s3_paging_complete:
  assumes mk: "1 \<le> mk" and wf: "distinct (dkeys (bucket_objects st b))" and ne: "[] \<notin> set (dkeys (bucket_objects st b))"
  shows "list_all_pages (Suc (length (listed_keys now b pre [] st))) now b pre [] mk st = Some (listed_keys now b pre [] st)"
proof -
  let ?L = "\<lambda>start. listed_keys now b pre start st"
  have base: "sorted (?L [])" "distinct (?L [])" "[] \<notin> set (?L [])"
    using wf ne by (auto simp: listed_keys_def Let_def intro: sorted_filter [where f = id, simplified])
  have L: "?L start = filter (\<lambda>k. start < k) (?L [])" if "start \<noteq> []" for start
    using that by (simp add: listed_keys_def Let_def)
  have "list_all_pages (Suc n) now b pre start mk st = Some (?L start)"
    if "length (?L start) \<le> n" for n start
    using that
  proof (induction n arbitrary: start)
    case 0
    then show ?case using list_page_plain [OF mk refl, of now b pre start st] by simp
  next
    case (Suc n)
    let ?M = "?L start" and ?n = "nat mk"
    have M: "sorted ?M" "distinct ?M" "[] \<notin> set ?M"
      using base L [of start] by (cases "start = []"; auto simp: sorted_filter [where f = id, simplified])+
    show ?case
    proof (cases "?n < length ?M")
      case False
      then show ?thesis using list_page_plain [OF mk refl, of now b pre start st] by simp
    next
      case True
      let ?next = "last (take ?n ?M)"
      have t: "take ?n ?M \<noteq> []" using True mk by (cases ?M) auto
      have mem: "?next \<in> set ?M" using last_in_set [OF t] in_set_takeD by fast
      then have nn: "?next \<noteq> []" using M(3) by auto
      have "?L ?next = filter (\<lambda>k. ?next < k) ?M"
      proof (cases "start = []")
        case False
        then have "start < ?next" using mem L [OF False] by simp
        then show ?thesis using L [OF nn] L [OF False] by (auto simp: filter_filter intro!: filter_cong)
      qed (use L [OF nn] in simp)
      also have "\<dots> = drop ?n ?M" using M True mk by (intro filter_after) auto
      finally have d: "?L ?next = drop ?n ?M" .
      have "list_all_pages (Suc n) now b pre ?next mk st = Some (drop ?n ?M)"
        using Suc.IH [of ?next] Suc.prems True mk by (simp add: d)
      then have "list_all_pages (Suc (Suc n)) now b pre start mk st = Some (take ?n ?M @ drop ?n ?M)"
        using list_page_plain [OF mk refl, of now b pre start st] True by (simp del: append_take_drop_id)
      then show ?thesis by simp
    qed
  qed
  then show ?thesis by blast
qed

end
