(* ===== verification/S3_Notify.thy ===== *)
theory S3_Notify
imports S3_Listing
begin

text \<open>Notifications across components: an object write reaches the queue its bucket names, and a notification
  configuration survives being printed and parsed again.\<close>

section \<open>From a write to a queue\<close>

lemma store_emits:
  assumes s: "store_object ev now b k data ctype cls meta tags event source st = (st', Inr (v, e))"
  obtains s0 where "st' = s3_emit_event ev now b k event (Some (hd (history st' b k))) source s0"
    "s3_buckets s0 = s3_buckets st" "s3_sqs s0 = s3_sqs st"
proof -
  let ?status = "s3_bucket_versioning_status st b"
  obtain st1 vid where i: "(if ?status = ''Enabled'' then s3_new_version_id ev st b else (st, ''null'')) = (st1, vid)" by force
  have w: "s3_write_object_version ev now b k (s3_make_version_record ev now data ctype cls meta tags vid False)
      (placement_for ?status) event source st1 = (st', Inr e)"
    using s unfolding store_object_def Let_def i by (auto split: prod.splits sum.splits)
  obtain st2 e0 where e0: "s3_ensure_object_entry now b k True st1 = (st2, Some e0)"
    and st': "st' = s3_emit_event ev now b k event (Some (hd (versions_of e))) source (put_entry b k e st2)"
    by (rule write_shape [OF w])
  have "s3_sqs st1 = s3_sqs st" by (rule drawn_id(5) [OF i])
  then have "s3_sqs (put_entry b k e st2) = s3_sqs st" "s3_buckets (put_entry b k e st2) = s3_buckets st"
    using ensure_spec [OF e0] ensure_history(2) [OF e0] drawn_id(2) [OF i] by simp_all
  then show thesis using that [OF st' [unfolded store_history(4) [OF s]]] by blast
qed

text \<open> Storing an object in a bucket with one matching queue rule sends exactly one message to the named standard
  queue: the JSON text of an event about the version just written, behind the messages still there.\<close>

theorem s3_put_notifies_queue:
  assumes m: "map_of (s3_buckets st) b = Some m" "b_notif m = Some nf"
    and nf: "nf_topics nf = []" "nf_queues nf = [ru]" "nf_functions nf = []" "\<not> nf_bridge nf"
    and ru: "s3_notification_rule_matches ru ''s3:ObjectCreated:Put'' k" "ru_dest ru \<noteq> []"
    and q: "sqs_queue_from_name_or_url (s3_sqs st) (ru_dest ru) = Some qn" "map_of (sq_queues (s3_sqs st)) qn = Some q" "\<not> q_fifo q"
    and fits: "\<And>p. utf8_len (sv_dumps ev p) \<le> or_default (q_max_size q) 262144"
    and put: "put_object ev now headers b k data st = (st1, Inr r)"
  shows "\<exists>q' msg s0. map_of (sq_queues (s3_sqs st1)) qn = Some q' \<and> q_messages q' = swept now q @ [msg] \<and>
    m_body msg = sv_dumps ev (snd (s3_build_notification_event ev now b k (Some (hd (history st1 b k)))
                                     ''s3:ObjectCreated:Put'' ''PutObject'' s0))"
proof -
  obtain v e where s: "store_object ev now b k data (dget headers ''content-type'' ''application/octet-stream'')
      (dget headers ''x-amz-storage-class'' ''STANDARD'') (user_meta headers) [] ''s3:ObjectCreated:Put'' ''PutObject'' st = (st1, Inr (v, e))"
    by (rule put_object_stores [OF put])
  obtain s0 where st1: "st1 = s3_emit_event ev now b k ''s3:ObjectCreated:Put'' (Some (hd (history st1 b k))) ''PutObject'' s0"
    and s0: "s3_buckets s0 = s3_buckets st" "s3_sqs s0 = s3_sqs st"
    by (rule store_emits [OF s])
  obtain s2 p where p: "s3_build_notification_event ev now b k (Some (hd (history st1 b k))) ''s3:ObjectCreated:Put'' ''PutObject'' s0 = (s2, p)"
    by force
  have s2: "s3_buckets s2 = s3_buckets st" "s3_sqs s2 = s3_sqs st" using p s0 by (auto simp: s3_build_notification_event_def Let_def)
  let ?enq = "sqs_enqueue_message (sv_sqs ev) now qn (sv_dumps ev p)
    (PDict [(''event_name'', PStr ''s3:ObjectCreated:Put''), (''bucket'', PStr b), (''source'', PStr ''PutObject'')])
    (PDict []) [] [] ''PutObject'' (s3_sqs st)"
  obtain sq r' where e: "?enq = (sq, r')" by force
  have t: "s3_notification_delivery_targets (Some nf) ''s3:ObjectCreated:Put'' k =
      [\<lparr>tg_type = ''QueueConfiguration'', tg_dest = ru_dest ru, tg_id = ru_id ru\<rparr>]"
    using nf ru(1) by (simp add: s3_notification_delivery_targets_def rule_targets_def)
  have "fst (deliver_to ev now b ''s3:ObjectCreated:Put'' ''PutObject'' p
      \<lparr>tg_type = ''QueueConfiguration'', tg_dest = ru_dest ru, tg_id = ru_id ru\<rparr> (s3_sqs st)) = sq"
    using ru(2) q(1) e by (cases r') (simp_all add: deliver_to_def str_or_def)
  then have "s3_sqs st1 = sq"
    using m s2 by (subst st1) (auto simp: s3_emit_event_def p s3_notification_record_delivery_def Let_def t upd_bucket_def split: prod.split)
  moreover obtain q' msg where "map_of (sq_queues sq) qn = Some q'" "q_messages q' = swept now q @ [msg]" "m_body msg = sv_dumps ev p"
    using sqs_enqueue_accepted [OF q(2) fits _ _ e] q(3) by auto
  ultimately show ?thesis using p by (metis snd_conv)
qed

section \<open>The notification configuration as XML\<close>

text \<open>What the library's printer and parser do to a document: the default namespace of the root goes in front of
  every tag, and an empty text comes back as no text.\<close>

primrec qualify :: "xml \<Rightarrow> xml" where
  "qualify (Xml t tx cs) = Xml (ns_tag t) (if tx = Some [] then None else tx) (map qualify cs)"

lemma ns_name: "CHR ''}'' \<notin> set t \<Longrightarrow> after_last ''}'' (ns_tag t) = t"
proof -
  assume t: "CHR ''}'' \<notin> set t"
  have "split_once ''}'' (a @ CHR ''}'' # b) = Some (a, b)" if "CHR ''}'' \<notin> set a" for a b
    using that by (induction a) auto
  from this [of "rev t"] t show ?thesis by (simp add: after_last_def ns_tag_def)
qed

lemma qualify_tag [simp]: "xml_tag (qualify e) = ns_tag (xml_tag e)"
  by (cases e) simp

definition tagged :: "string \<Rightarrow> xml \<Rightarrow> bool" where
  "tagged t e \<longleftrightarrow> xml_tag e = t"

lemma find_children_q:
  "\<forall>c \<in> set cs. CHR ''}'' \<notin> set (xml_tag c) \<Longrightarrow> s3_xml_find_children (qualify (Xml t tx cs)) n = map qualify (filter (tagged n) cs)"
  by (induction cs) (auto simp: s3_xml_find_children_def s3_xml_name_def ns_name tagged_def)

lemma find_child_q:
  "\<forall>c \<in> set cs. CHR ''}'' \<notin> set (xml_tag c) \<Longrightarrow> s3_xml_find_child (qualify (Xml t tx cs)) n = map_option qualify (find (tagged n) cs)"
  by (induction cs) (auto simp: s3_xml_find_child_def s3_xml_name_def ns_name tagged_def)

lemma leaf_text: "text_or (qualify (leaf t s)) d = str_or s d"
  by (auto simp: leaf_def text_or_def str_or_def)

lemma xml_text_q:
  "\<forall>c \<in> set cs. CHR ''}'' \<notin> set (xml_tag c) \<Longrightarrow> find (tagged n) cs = Some (leaf n s) \<Longrightarrow>
   s3_xml_text (qualify (Xml t tx cs)) n d = strip (str_or s d)"
  unfolding s3_xml_text_def by (subst find_child_q) (simp_all add: leaf_text del: qualify.simps)

lemma find_app: "find P (xs @ ys) = (case find P xs of None \<Rightarrow> find P ys | Some x \<Rightarrow> Some x)"
  by (induction xs) auto

lemma find_leaves: "find (tagged n) (map (leaf t) ss) = (if t = n \<and> ss \<noteq> [] then Some (leaf t (hd ss)) else None)"
  by (induction ss) (auto simp: tagged_def leaf_def)

lemma filter_leaves: "filter (tagged n) (map (leaf t) ss) = (if t = n then map (leaf t) ss else [])"
  by (induction ss) (auto simp: tagged_def leaf_def)

lemma tagged_Xml [simp]: "tagged n (Xml t tx cs) \<longleftrightarrow> t = n" "tagged n (leaf t s) \<longleftrightarrow> t = n"
  by (simp_all add: tagged_def leaf_def)

definition clean :: "string \<Rightarrow> bool" where
  "clean s \<longleftrightarrow> strip s = s"

definition clean_rule :: "rule \<Rightarrow> bool" where
  "clean_rule r \<longleftrightarrow> ru_id r \<noteq> [] \<and> clean (ru_id r) \<and> list_all (\<lambda>e. e \<noteq> [] \<and> clean e) (ru_events r) \<and>
     clean (ru_prefix r) \<and> clean (ru_suffix r) \<and> clean (ru_dest r)"

lemma event_texts_q:
  assumes "list_all (\<lambda>e. e \<noteq> [] \<and> clean e) es"
  shows "concat (map (\<lambda>c. case xml_text c of None \<Rightarrow> [] | Some t \<Rightarrow> if strip t = [] then [] else [strip t])
     (map qualify (map (leaf ''Event'') es))) = es"
  using assms by (induction es) (auto simp: leaf_def clean_def)

lemma filter_rule_q:
  assumes "v \<noteq> []" "clean v" "name = ''prefix'' \<or> name = ''suffix''"
  shows "add_filter_rule (qualify (Xml ''FilterRule'' None [leaf ''Name'' name, leaf ''Value'' v])) r =
    (if name = ''prefix'' then r\<lparr>ru_prefix := v\<rparr> else r\<lparr>ru_suffix := v\<rparr>)"
proof -
  let ?e = "qualify (Xml ''FilterRule'' None [leaf ''Name'' name, leaf ''Value'' v])"
  have n: "s3_xml_text ?e ''Name'' [] = strip name" using assms(3)
    by (subst xml_text_q [where s = name]) (auto simp: leaf_def tagged_def str_or_def)
  have v: "s3_xml_text ?e ''Value'' [] = v" using assms(1,2)
    by (subst xml_text_q [where s = v]) (auto simp: leaf_def tagged_def str_or_def clean_def)
  have "lower (strip ''prefix'') = ''prefix''" "lower (strip ''suffix'') = ''suffix''" by code_simp+
  then show ?thesis using assms(3) unfolding add_filter_rule_def n v Let_def by auto
qed

lemma filter_kids:
  assumes "clean p" "clean s"
  shows "fold add_filter_rule (map qualify (filter_rule ''prefix'' p @ filter_rule ''suffix'' s)) r =
     r\<lparr>ru_prefix := (if p = [] then ru_prefix r else p), ru_suffix := (if s = [] then ru_suffix r else s)\<rparr>"
  using assms by (auto simp: filter_rule_def filter_rule_q simp del: qualify.simps)

lemma parse_rule_q:
  assumes c: "clean_rule r" and k: "kind \<in> {''TopicConfiguration'', ''QueueConfiguration'', ''CloudFunctionConfiguration''}"
  shows "parse_rule ev n kind (qualify (rule_xml kind r)) = r"
proof -
  let ?t = "dest_tag kind"
  define fs where "fs = filter_rule ''prefix'' (ru_prefix r) @ filter_rule ''suffix'' (ru_suffix r)"
  define cs where "cs = [leaf ''Id'' (ru_id r)] @ map (leaf ''Event'') (ru_events r) @ [leaf ?t (ru_dest r)] @
     (if ru_prefix r = [] \<and> ru_suffix r = [] then [] else [Xml ''Filter'' None [Xml ''S3Key'' None fs]])"
  have x: "rule_xml kind r = Xml kind None cs" using c by (simp add: rule_xml_def cs_def fs_def clean_rule_def)
  have t: "?t \<in> {''Topic'', ''Queue'', ''CloudFunction''}" using k by (auto simp: dest_tag_def)
  have tags: "\<forall>c \<in> set cs. CHR ''}'' \<notin> set (xml_tag c)" using t by (auto simp: cs_def leaf_def)
  have tags2: "\<forall>c \<in> set fs. CHR ''}'' \<notin> set (xml_tag c)" by (auto simp: fs_def filter_rule_def)
  have id: "s3_xml_text (qualify (Xml kind None cs)) ''Id'' d = ru_id r" for d
    using c by (subst xml_text_q [OF tags, where s = "ru_id r"]) (auto simp: cs_def clean_rule_def str_or_def clean_def)
  have "find (tagged ?t) cs = Some (leaf ?t (ru_dest r))" using t by (auto simp: cs_def find_app find_leaves)
  then have dest: "s3_xml_text (qualify (Xml kind None cs)) ?t [] = ru_dest r"
    using c by (subst xml_text_q [OF tags]) (auto simp: clean_rule_def str_or_def clean_def)
  have "filter (tagged ''Event'') cs = map (leaf ''Event'') (ru_events r)" using t by (auto simp: cs_def filter_leaves)
  then have evs: "event_texts (qualify (Xml kind None cs)) = ru_events r"
    using c event_texts_q [of "ru_events r"] unfolding event_texts_def find_children_q [OF tags] by (simp add: clean_rule_def)
  have filt: "s3_xml_find_child (qualify (Xml kind None cs)) ''Filter'' =
      (if ru_prefix r = [] \<and> ru_suffix r = [] then None else Some (qualify (Xml ''Filter'' None [Xml ''S3Key'' None fs])))"
    unfolding find_child_q [OF tags] using t by (auto simp: cs_def find_app find_leaves)
  have s3key: "s3_xml_find_child (qualify (Xml ''Filter'' None [Xml ''S3Key'' None fs])) ''S3Key'' = Some (qualify (Xml ''S3Key'' None fs))"
    by (subst find_child_q) simp_all
  have kids: "s3_xml_find_children (qualify (Xml ''S3Key'' None fs)) ''FilterRule'' = map qualify fs"
    unfolding find_children_q [OF tags2] by (simp add: fs_def filter_rule_def)
  have "clean (ru_prefix r)" "clean (ru_suffix r)" using c by (simp_all add: clean_rule_def)
  note fk = filter_kids [OF this]
  show ?thesis
    unfolding parse_rule_def x Let_def id dest evs filt
    using s3key kids fk by (simp add: fs_def del: qualify.simps map_append)
qed

lemma parse_rules_q:
  "list_all clean_rule rs \<Longrightarrow> kind \<in> {''TopicConfiguration'', ''QueueConfiguration'', ''CloudFunctionConfiguration''} \<Longrightarrow>
   parse_rules ev kind n (map qualify (map (rule_xml kind) rs)) = (n + length rs, rs)"
  by (induction rs arbitrary: n) (auto simp: parse_rule_q)

text \<open> A notification configuration printed for GET and put back gives the same rules, provided the library parses
  what it prints (the namespace in front of the tags, empty texts dropped) and no field of a rule has outer blanks,
  no event and no rule id is empty.\<close>

theorem s3_notification_roundtrip:
  assumes lib: "sv_xml ev (sv_tostring ev (notification_tree nf)) = Some (qualify (notification_tree nf))"
      "strip (sv_tostring ev (notification_tree nf)) \<noteq> []"
    and clean: "list_all clean_rule (nf_topics nf)" "list_all clean_rule (nf_queues nf)" "list_all clean_rule (nf_functions nf)"
  shows "\<exists>n' nf'. s3_parse_notification_xml ev now n (s3_notification_xml_from_config ev nf) = (n', Inr nf') \<and>
    nf_topics nf' = nf_topics nf \<and> nf_queues nf' = nf_queues nf \<and> nf_functions nf' = nf_functions nf \<and> nf_bridge nf' = nf_bridge nf"
proof -
  define cs where "cs = (if nf_bridge nf then [Xml ''EventBridgeConfiguration'' None []] else [])
        @ map (rule_xml ''TopicConfiguration'') (nf_topics nf)
        @ map (rule_xml ''QueueConfiguration'') (nf_queues nf)
        @ map (rule_xml ''CloudFunctionConfiguration'') (nf_functions nf)"
  let ?root = "qualify (Xml ''NotificationConfiguration'' None cs)"
  have tags: "\<forall>c \<in> set cs. CHR ''}'' \<notin> set (xml_tag c)" by (auto simp: cs_def rule_xml_def)
  have fr: "filter (tagged k) (map (rule_xml t) rs) = (if t = k then map (rule_xml t) rs else [])" for k t rs
    by (induction rs) (auto simp: rule_xml_def)
  have fi: "find (tagged k) (map (rule_xml t) rs) = None" if "t \<noteq> k" for k t rs
    using that by (induction rs) (auto simp: rule_xml_def)
  have kids: "s3_xml_find_children ?root ''TopicConfiguration'' = map qualify (map (rule_xml ''TopicConfiguration'') (nf_topics nf))"
    "s3_xml_find_children ?root ''QueueConfiguration'' = map qualify (map (rule_xml ''QueueConfiguration'') (nf_queues nf))"
    "s3_xml_find_children ?root ''CloudFunctionConfiguration'' = map qualify (map (rule_xml ''CloudFunctionConfiguration'') (nf_functions nf))"
    unfolding find_children_q [OF tags] by (simp_all add: cs_def fr)
  have bridge: "s3_xml_find_child ?root ''EventBridgeConfiguration'' \<noteq> None \<longleftrightarrow> nf_bridge nf"
    unfolding find_child_q [OF tags] by (simp add: cs_def find_app fi)
  have name: "s3_xml_name ?root = ''NotificationConfiguration''" by (simp add: s3_xml_name_def ns_name)
  have tree: "notification_tree nf = Xml ''NotificationConfiguration'' None cs" by (simp add: notification_tree_def cs_def)
  show ?thesis
    unfolding s3_notification_xml_from_config_def s3_parse_notification_xml_def Let_def tree lib(1) [unfolded tree]
    using lib(2) [unfolded tree] bridge clean
    by (simp add: name kids parse_rules_q del: qualify.simps list.map map_map)
qed

end
