(* ===== verification/S3_Wf.thy ===== *)
theory S3_Wf
imports S3_Notify
begin

text \<open>The invariant of the object store: buckets and object tables go together, every entry has a version, its own
  fields repeat the first version, sizes are the sizes of the data, and delete markers carry none.\<close>

definition ver_ok :: "over \<Rightarrow> bool" where
  "ver_ok v \<longleftrightarrow> ov_size v = int (length (ov_data v)) \<and> (ov_marker v \<longrightarrow> ov_data v = [])"

definition entry_ok :: "entry \<Rightarrow> bool" where
  "entry_ok e \<longleftrightarrow> versions_of e \<noteq> [] \<and> s3_refresh_object_entry 0 e = e \<and> list_all ver_ok (versions_of e)"

definition same_domain :: "s3_st \<Rightarrow> bool" where
  "same_domain st \<longleftrightarrow> (\<forall>b. dhas (s3_buckets st) b \<longleftrightarrow> dhas (s3_objects st) b)"

definition s3_wf :: "s3_st \<Rightarrow> bool" where
  "s3_wf st \<longleftrightarrow> same_domain st \<and> (\<forall>b k e. find_entry st b k = Some e \<longrightarrow> entry_ok e)"

text \<open>The same with one entry under construction.\<close>

definition wf_but :: "string \<Rightarrow> string \<Rightarrow> s3_st \<Rightarrow> bool" where
  "wf_but b k st \<longleftrightarrow> same_domain st \<and> (\<forall>b' k' e. (b', k') \<noteq> (b, k) \<longrightarrow> find_entry st b' k' = Some e \<longrightarrow> entry_ok e) \<and>
     list_all ver_ok (history st b k)"

lemma refresh_again:
  "versions_of e \<noteq> [] \<Longrightarrow> s3_refresh_object_entry n (s3_refresh_object_entry m e) = s3_refresh_object_entry n e"
  "versions_of e \<noteq> [] \<Longrightarrow> s3_refresh_object_entry n e = s3_refresh_object_entry 0 e"
  by (cases "versions_of e"; simp add: s3_refresh_object_entry_def versions_of_def)+

lemma ver_ok_latest [simp]: "ver_ok (v\<lparr>ov_latest := x\<rparr>) = ver_ok v" "ver_ok (v\<lparr>ov_tags := t\<rparr>) = ver_ok v"
  by (simp_all add: ver_ok_def)

lemma mark_latest_ok [simp]: "list_all ver_ok (mark_latest vs) = list_all ver_ok vs"
  by (cases vs) (simp_all add: list.pred_map comp_def)

lemma refreshed_ok: "vs \<noteq> [] \<Longrightarrow> list_all ver_ok vs \<Longrightarrow> entry_ok (s3_refresh_object_entry now (e\<lparr>en_versions := Some vs\<rparr>))"
  using refresh_again(1) [of "e\<lparr>en_versions := Some vs\<rparr>" 0 now] refresh_again(2) [of "e\<lparr>en_versions := Some vs\<rparr>" now]
  by (simp add: entry_ok_def versions_refresh)

lemma entry_ok_history: "find_entry st b k = Some e \<Longrightarrow> entry_ok e \<Longrightarrow> list_all ver_ok (history st b k) \<and> history st b k \<noteq> []"
  by (cases "en_versions e") (auto simp: history_def entry_ok_def raw_versions_def versions_of_def)

lemma entry_ok_normal: "entry_ok e \<Longrightarrow> normal_entry now e = e"
  using refresh_again(2) [of e now]
  by (cases "en_versions e") (auto simp: entry_ok_def normal_entry_def Let_def versions_of_def)

lemma wf_history: "s3_wf st \<Longrightarrow> list_all ver_ok (history st b k)"
  using entry_ok_history [of st b k] by (cases "find_entry st b k") (auto simp: s3_wf_def history_def)

lemma wf_but_of_wf: "s3_wf st \<Longrightarrow> wf_but b k st"
  using wf_history by (auto simp: s3_wf_def wf_but_def)

lemma wf_cong: "s3_wf st \<Longrightarrow> s3_objects st' = s3_objects st \<Longrightarrow> (\<And>b. bucket_exists st' b = bucket_exists st b) \<Longrightarrow> s3_wf st'"
  by (simp add: s3_wf_def same_domain_def find_entry_def bucket_exists_def)

lemma wf_but_cong:
  "wf_but b k st \<Longrightarrow> s3_objects st' = s3_objects st \<Longrightarrow> (\<And>b. bucket_exists st' b = bucket_exists st b) \<Longrightarrow> wf_but b k st'"
  by (simp add: wf_but_def same_domain_def find_entry_def bucket_exists_def history_def)

lemma domain_put: "same_domain st \<Longrightarrow> bucket_exists st b \<Longrightarrow> same_domain (put_entry b k e st)"
  by (auto simp: same_domain_def put_entry_def dict_simps bucket_exists_def)

lemma domain_drop: "same_domain st \<Longrightarrow> same_domain (drop_entry b k st)"
  by (simp add: same_domain_def drop_entry_def dict_simps)

lemma wf_put: "wf_but b k st \<Longrightarrow> bucket_exists st b \<Longrightarrow> entry_ok e \<Longrightarrow> s3_wf (put_entry b k e st)"
  using domain_put by (auto simp: s3_wf_def wf_but_def find_put)

lemma wf_drop: "wf_but b k st \<Longrightarrow> s3_wf (drop_entry b k st)"
  using domain_drop by (auto simp: s3_wf_def wf_but_def find_drop)

lemma wf_but_put:
  "wf_but b k st \<Longrightarrow> bucket_exists st b \<Longrightarrow> en_versions e \<noteq> None \<Longrightarrow> list_all ver_ok (versions_of e) \<Longrightarrow> wf_but b k (put_entry b k e st)"
  using domain_put by (auto simp: wf_but_def find_put history_put)

lemma wf_but_domain: "wf_but b k st \<Longrightarrow> bucket_exists st b \<Longrightarrow> dhas (s3_objects st) b"
  by (auto simp: wf_but_def same_domain_def bucket_exists_def)

lemma setdefault_same: "dhas (s3_objects st) b \<Longrightarrow> st\<lparr>s3_objects := dsetdefault b [] (s3_objects st)\<rparr> = st"
  by (simp add: dsetdefault_def)

lemma ensure_wf:
  assumes e: "s3_ensure_object_entry now b k create st = (st', r)" and ex: "bucket_exists st b"
  shows "wf_but b k st \<Longrightarrow> wf_but b k st'" and "s3_wf st \<Longrightarrow> \<not> create \<Longrightarrow> s3_wf st'"
    and "s3_wf st \<Longrightarrow> r = Some x \<Longrightarrow> \<not> create \<Longrightarrow> entry_ok x"
proof -
  note s = ensure_spec [OF e]
  have id: "st\<lparr>s3_objects := dsetdefault b [] (s3_objects st)\<rparr> = st" if "same_domain st"
    using that ex by (intro setdefault_same) (simp add: same_domain_def bucket_exists_def)
  have nv: "list_all ver_ok (versions_of (normal_entry now (case find_entry st b k of None \<Rightarrow> blank_entry | Some e0 \<Rightarrow> e0)))"
    if "wf_but b k st"
    using that by (cases "find_entry st b k") (auto simp: versions_normal wf_but_def history_def raw_versions_def blank_entry_def)
  show "wf_but b k st'" if w: "wf_but b k st"
  proof (cases r)
    case None
    then show ?thesis using s w id by (simp add: wf_but_def)
  next
    case (Some y)
    have "st' = put_entry b k y st" and y: "y = normal_entry now (case find_entry st b k of None \<Rightarrow> blank_entry | Some e0 \<Rightarrow> e0)"
      using s Some w id by (simp_all add: wf_but_def)
    then show ?thesis using wf_but_put [OF w ex, of y] nv [OF w] normal_has_versions by simp
  qed
  have ok: "entry_ok y" if "s3_wf st" "r = Some y" "\<not> create" for y
    using s that by (auto simp: s3_wf_def entry_ok_normal split: option.splits)
  then show "s3_wf st \<Longrightarrow> r = Some x \<Longrightarrow> \<not> create \<Longrightarrow> entry_ok x" by blast
  show "s3_wf st'" if w: "s3_wf st" and c: "\<not> create"
  proof (cases r)
    case None
    then show ?thesis using s w id by (simp add: s3_wf_def)
  next
    case (Some y)
    then show ?thesis using s w ex id ok [OF w Some c] wf_put [OF wf_but_of_wf [OF w]] by (simp add: s3_wf_def)
  qed
qed

lemma emit_wf: "s3_wf (s3_emit_event ev now b k event v source st) = s3_wf st"
  using wf_cong [of st "s3_emit_event ev now b k event v source st"] wf_cong [of "s3_emit_event ev now b k event v source st" st] by auto

lemma place_ok: "ver_ok v \<Longrightarrow> list_all ver_ok vs \<Longrightarrow> list_all ver_ok (place p v vs)"
proof -
  assume v: "ver_ok v" and vs: "list_all ver_ok vs"
  have "replace_version vid v xs = Some ws \<Longrightarrow> list_all ver_ok xs \<Longrightarrow> list_all ver_ok ws" for vid xs ws
    using v by (induction xs arbitrary: ws) (auto split: if_splits)
  then show ?thesis using v vs by (auto simp: place_def split: placement.splits option.splits)
qed

lemma write_wf:
  assumes w: "s3_write_object_version ev now b k v p event source st = (st', Inr e)"
    and wf: "wf_but b k st" and ex: "bucket_exists st b" and v: "ver_ok v"
  shows "s3_wf st'"
proof -
  obtain st1 e0 where e0: "s3_ensure_object_entry now b k True st = (st1, Some e0)"
    and e: "e = s3_refresh_object_entry now (e0\<lparr>en_versions := Some (place p v (versions_of e0))\<rparr>)"
    and st': "st' = s3_emit_event ev now b k event (Some (hd (versions_of e))) source (put_entry b k e st1)"
    by (rule write_shape [OF w])
  have w1: "wf_but b k st1" by (rule ensure_wf(1) [OF e0 ex wf])
  have "list_all ver_ok (versions_of e0)" using ensure_history(3) [OF e0 refl] wf by (simp add: wf_but_def)
  then have "entry_ok e" unfolding e using v by (intro refreshed_ok place_ok) simp_all
  then show ?thesis using w1 ensure_status(2) [OF e0] ex by (simp add: st' emit_wf wf_put)
qed

lemma made_ok: "ver_ok (s3_make_version_record ev now data ctype cls meta tags vid m)"
  by (simp add: ver_ok_def s3_make_version_record_def)

lemma write_error: "s3_write_object_version ev now b k v p event source st = (st', Inl x) \<Longrightarrow>
  st' = st \<or> (\<exists>s. s3_ensure_object_entry now b k True st = (s, None))"
  by (auto simp: s3_write_object_version_def Let_def split: sum.splits prod.splits option.splits if_splits)

lemma ensure_True: "s3_ensure_object_entry now b k True st = (s, r) \<Longrightarrow> r \<noteq> None"
  by (cases r) (auto dest: ensure_spec)

lemma store_wf:
  assumes s: "store_object ev now b k data ctype cls meta tags event source st = (st', r)" and wf: "s3_wf st" and ex: "bucket_exists st b"
  shows "s3_wf st'"
proof -
  let ?status = "s3_bucket_versioning_status st b"
  obtain st1 vid where i: "(if ?status = ''Enabled'' then s3_new_version_id ev st b else (st, ''null'')) = (st1, vid)" by force
  have wf1: "s3_wf st1" and ex1: "bucket_exists st1 b"
    using wf_cong [OF wf drawn_id(1) [OF i]] drawn_id(2) [OF i] ex by (simp_all add: bucket_exists_def)
  obtain r1 where w: "s3_write_object_version ev now b k (s3_make_version_record ev now data ctype cls meta tags vid False)
      (placement_for ?status) event source st1 = (st', r1)"
    using s unfolding store_object_def Let_def i by (auto split: prod.splits sum.splits)
  show ?thesis
  proof (cases r1)
    case (Inl x)
    then show ?thesis using write_error w wf1 ensure_True by blast
  next
    case (Inr e)
    then show ?thesis using write_wf [OF w [unfolded Inr] wf_but_of_wf [OF wf1] ex1 made_ok] by simp
  qed
qed

lemma marker_wf:
  assumes i: "s3_insert_simple_delete_marker ev now b k source st = (st', r)" and wf: "s3_wf st" and ex: "bucket_exists st b"
  shows "s3_wf st'"
proof -
  obtain st1 e0 where e: "s3_ensure_object_entry now b k True st = (st1, Some e0)"
    using ensure_True by (metis option.exhaust surj_pair)
  note w1 = ensure_wf(1) [OF e ex wf_but_of_wf [OF wf]]
  have ex1: "bucket_exists st1 b" using ensure_status(2) [OF e] ex by simp
  let ?status = "s3_bucket_versioning_status st1 b"
  show ?thesis
  proof (cases "?status = ''Disabled''")
    case True
    then show ?thesis using i e wf_drop [OF w1] by (auto simp: s3_insert_simple_delete_marker_def Let_def emit_wf)
  next
    case False
    let ?e1 = "popped ?status e0"
    have ev: "en_versions e0 \<noteq> None" "list_all ver_ok (versions_of e0)"
      using ensure_history(3) [OF e refl] wf_history [OF wf] by simp_all
    then have e1: "en_versions ?e1 \<noteq> None" "list_all ver_ok (versions_of ?e1)"
      by (auto simp: popped_def list_all_iff dest: list.set_sel(2))
    obtain st3 vid r1 where d: "(if s3_bucket_versioning_status (put_entry b k ?e1 st1) b = ''Enabled''
        then s3_new_version_id ev (put_entry b k ?e1 st1) b else (put_entry b k ?e1 st1, ''null'')) = (st3, vid)"
      and w: "s3_write_object_version ev now b k (s3_make_version_record ev now [] ''application/octet-stream'' ''STANDARD'' [] [] vid True)
          Prepend ''s3:ObjectRemoved:DeleteMarkerCreated'' source st3 = (st', r1)"
      by (rule marker_shape [OF i e refl False])
    have w3: "wf_but b k st3" and ex3: "bucket_exists st3 b"
      using wf_but_cong [OF wf_but_put [OF w1 ex1 e1] drawn_id(1) [OF d]] drawn_id(2) [OF d] ex1 by (simp_all add: bucket_exists_def)
    obtain e2 where "r1 = Inr e2"
      using w ensure_True
      by (cases r1) (auto simp: s3_write_object_version_def Let_def s3_make_version_record_def split: prod.splits option.splits; fastforce)
    then show ?thesis using write_wf [OF _ w3 ex3 made_ok] w by simp
  qed
qed

lemma update_versions_wf:
  assumes e: "s3_ensure_object_entry now b k False st = (st1, Some e)" and wf: "s3_wf st" and ex: "bucket_exists st b"
    and f: "list_all ver_ok (f (versions_of e))" "f (versions_of e) \<noteq> []"
  shows "s3_wf (update_versions now b k f e st1)"
  unfolding update_versions_def
  using ensure_wf(1) [OF e ex wf_but_of_wf [OF wf]] ensure_status(2) [OF e] ex f by (intro wf_put refreshed_ok) simp_all

lemma tags_ok:
  "set_first_tags t vs = [] \<longleftrightarrow> vs = []" "clear_tags_at vid vs = [] \<longleftrightarrow> vs = []"
  "list_all ver_ok (set_first_tags t vs) = list_all ver_ok vs" "list_all ver_ok (clear_tags_at vid vs) = list_all ver_ok vs"
proof -
  show "set_first_tags t vs = [] \<longleftrightarrow> vs = []" "clear_tags_at vid vs = [] \<longleftrightarrow> vs = []"
    "list_all ver_ok (set_first_tags t vs) = list_all ver_ok vs" by (cases vs; simp)+
  show "list_all ver_ok (clear_tags_at vid vs) = list_all ver_ok vs" by (induction vs) auto
qed

lemma delete_version_wf:
  assumes d: "s3_delete_version ev now b k vid st = (st', ok)" and wf: "s3_wf st" and ex: "bucket_exists st b"
  shows "s3_wf st'"
proof -
  obtain st1 r where e: "s3_ensure_object_entry now b k False st = (st1, r)" by force
  have w1: "s3_wf st1" using ensure_wf(2) [OF e ex wf] by simp
  have ex1: "bucket_exists st1 b" using ensure_status(2) [OF e] ex by simp
  show ?thesis
  proof (cases r)
    case None
    then show ?thesis using d e w1 by (simp add: s3_delete_version_def)
  next
    case (Some x)
    let ?rest = "filter (\<lambda>v. ov_id v \<noteq> vid) (versions_of x)"
    have "list_all ver_ok (versions_of x)" using ensure_wf(3) [OF e ex wf Some] by (simp add: entry_ok_def)
    then have "list_all ver_ok ?rest" by (auto simp: list_all_iff)
    then have "?rest \<noteq> [] \<Longrightarrow> s3_wf (put_entry b k (s3_refresh_object_entry now (x\<lparr>en_versions := Some ?rest\<rparr>)) st1)"
      using wf_but_of_wf [OF w1] ex1 by (intro wf_put refreshed_ok)
    then show ?thesis using d e Some w1 wf_drop [OF wf_but_of_wf [OF w1]]
      by (cases "?rest = []") (auto simp: s3_delete_version_def Let_def emit_wf split: if_splits)
  qed
qed

lemma asked_wf:
  assumes "asked_version now b k vid st = (st', r)" "s3_wf st" "bucket_exists st b"
  shows "s3_wf st' \<and> (\<forall>c. bucket_exists st' c = bucket_exists st c)"
proof -
  obtain e where "s3_ensure_object_entry now b k False st = (st', e)" using assms(1) by (auto simp: asked_version_def split: prod.splits)
  then show ?thesis using ensure_wf(2) ensure_status(2) assms(2,3) by blast
qed

lemma put_bucket_wf: "s3_wf st \<Longrightarrow> s3_wf (fst (s3_put_bucket ev now params b body st))"
proof -
  assume wf: "s3_wf st"
  have u: "s3_wf (upd_bucket b f st)" for f by (rule wf_cong [OF wf]) simp_all
  have "s3_wf (fst (put_notification ev now b body st))"
  proof -
    obtain n r where p: "s3_parse_notification_xml ev now (s3_n st) body = (n, r)" by force
    have "s3_wf (st\<lparr>s3_n := n\<rparr>)" by (rule wf_cong [OF wf]) (simp_all add: bucket_exists_def)
    then have "s3_wf (upd_bucket b f (st\<lparr>s3_n := n\<rparr>))" for f by (rule wf_cong) simp_all
    then have "s3_wf (s3_notification_record_delivery ev now b e2 k v s2 pl t (upd_bucket b f (st\<lparr>s3_n := n\<rparr>)))" for f e2 k v s2 pl t
      by (rule wf_cong) simp_all
    then show ?thesis using p \<open>s3_wf (st\<lparr>s3_n := n\<rparr>)\<close> \<open>\<And>f. s3_wf (upd_bucket b f (st\<lparr>s3_n := n\<rparr>))\<close>
      by (cases r) (simp_all add: put_notification_def Let_def)
  qed
  moreover have "s3_wf (fst (put_document ev c f b body st))" for c f using wf u by (simp add: put_document_def)
  moreover have "s3_wf (fst (create_bucket ev now b body st))"
  proof -
    have "s3_wf (st\<lparr>s3_buckets := dset b m (s3_buckets st), s3_objects := dset b [] (s3_objects st)\<rparr>)" for m
      using wf by (auto simp: s3_wf_def same_domain_def dict_simps find_entry_def split: if_splits)
    then show ?thesis using wf by (auto simp: create_bucket_def split: option.split sum.split)
  qed
  ultimately show ?thesis using u wf unfolding s3_put_bucket_def Let_def by (simp add: if_distrib [of fst])
qed

lemma bucket_wf:
  assumes wf: "s3_wf st"
  shows "s3_wf (fst (s3_get_bucket ev now params b st))" "s3_wf (fst (s3_delete_bucket now params b st))"
proof -
  have u: "s3_wf (upd_bucket b f st)" for f by (rule wf_cong [OF wf]) simp_all
  show "s3_wf (fst (s3_get_bucket ev now params b st))" using u wf by (simp add: s3_get_bucket_def Let_def split: option.split)
  have "s3_wf (st\<lparr>s3_buckets := dpop b (s3_buckets st), s3_objects := dpop b (s3_objects st)\<rparr>)"
    using wf by (auto simp: s3_wf_def same_domain_def dict_simps find_entry_def dget_def split: if_splits option.splits)
  then show "s3_wf (fst (s3_delete_bucket now params b st))" using u wf by (simp add: s3_delete_bucket_def)
qed

lemma uploads_wf: "s3_wf st \<Longrightarrow> s3_wf (st\<lparr>s3_uploads := x\<rparr>)" "s3_wf st \<Longrightarrow> s3_wf (st\<lparr>s3_uploads := x, s3_n := n\<rparr>)"
  by (rule wf_cong; simp add: bucket_exists_def)+

lemma read_wf:
  assumes "s3_wf st"
  shows "s3_wf (fst (s3_head_object ev now params b k st))" "s3_wf (fst (s3_get_object ev gcs now params headers b k st))"
proof -
  obtain st1 r where a: "asked_version now b k (dget params ''versionId'' []) st = (st1, r)" by force
  show "s3_wf (fst (s3_head_object ev now params b k st))" "s3_wf (fst (s3_get_object ev gcs now params headers b k st))"
    using asked_wf [OF a assms] assms a by (auto simp: s3_head_object_def s3_get_object_def Let_def split: option.splits)
qed

lemma put_object_wf:
  assumes wf: "s3_wf st"
  shows "s3_wf (fst (s3_put_object ev now params headers b k body st))"
proof (cases "bucket_exists st b")
  case ex: True
  have up: "s3_wf (fst (upload_part ev u n body b k st))" for u n
    using wf uploads_wf by (simp add: upload_part_def Let_def split: option.split)
  have po: "s3_wf (fst (put_object ev now headers b k body st))"
  proof -
    obtain st' r where "put_object ev now headers b k body st = (st', r)" by force
    then show ?thesis using store_wf [OF _ wf ex] by (auto simp: put_object_def split: prod.splits sum.splits)
  qed
  have en: "s3_wf st1" if "s3_ensure_object_entry now b k False st = (st1, e)" for st1 e
    using ensure_wf(2) [OF that ex wf] by simp
  have tg: "s3_wf (fst (put_object_tagging ev now body b k st))"
    using update_versions_wf [OF _ wf ex] ensure_wf(3) [OF _ ex wf] en
    by (auto simp: put_object_tagging_def tags_ok entry_ok_def split: prod.splits option.splits)
  have co: "s3_wf (fst (copy_object ev now headers source b k st))" for source
    using asked_wf [OF _ wf] store_wf ex wf by (auto simp: copy_object_def split: option.splits prod.splits sum.splits)
  show ?thesis
    unfolding s3_put_object_def using ex up po co en tg
    by (auto simp: Let_def split: prod.splits option.splits)
qed (use wf in \<open>simp add: s3_put_object_def\<close>)

lemma delete_object_wf:
  assumes wf: "s3_wf st"
  shows "s3_wf (fst (s3_delete_object ev now params b k st))"
proof (cases "bucket_exists st b")
  case ex: True
  let ?vid = "dget params ''versionId'' []"
  have en: "s3_wf st1" if "s3_ensure_object_entry now b k False st = (st1, e)" for st1 e
    using ensure_wf(2) [OF that ex wf] by simp
  have tg: "s3_wf (fst (delete_object_tagging now ?vid b k st))"
    using update_versions_wf [OF _ wf ex] ensure_wf(3) [OF _ ex wf] en
    by (auto simp: delete_object_tagging_def tags_ok entry_ok_def split: prod.splits option.splits)
  obtain st1 e where e: "s3_ensure_object_entry now b k False st = (st1, e)" by force
  have w1: "s3_wf st1" and ex1: "bucket_exists st1 b" using en [OF e] ensure_status(2) [OF e] ex by simp_all
  obtain st2 ok where dv: "s3_delete_version ev now b k ?vid st1 = (st2, ok)" by force
  obtain st3 r where i: "s3_insert_simple_delete_marker ev now b k ''DeleteObject'' st1 = (st3, r)" by force
  have "s3_wf st2" "s3_wf st3" "s3_wf (drop_entry b k st1)"
    using delete_version_wf [OF dv w1 ex1] marker_wf [OF i w1 ex1] wf_drop [OF wf_but_of_wf [OF w1]] by simp_all
  then show ?thesis
    using ex tg e dv i uploads_wf(1) [OF wf] by (cases r) (auto simp: s3_delete_object_def Let_def split: prod.split)
qed (use wf in \<open>simp add: s3_delete_object_def\<close>)

lemma delete_keys_wf:
  "delete_keys ev now b ks st = (st', r) \<Longrightarrow> s3_wf st \<Longrightarrow> bucket_exists st b \<Longrightarrow> s3_wf st'"
proof (induction ev now b ks st arbitrary: st' r rule: delete_keys.induct)
  case (2 ev now b k ks st)
  let ?dis = "s3_bucket_versioning_status st b = ''Disabled''"
  consider "\<not> dhas (bucket_objects st b) k" | "dhas (bucket_objects st b) k" ?dis | "dhas (bucket_objects st b) k" "\<not> ?dis" by blast
  then show ?case
  proof cases
    case 1
    then show ?thesis using 2 by simp
  next
    case 2: 2
    let ?s = "s3_emit_event ev now b k ''s3:ObjectRemoved:Delete'' None ''DeleteObjects'' (drop_entry b k st)"
    have "s3_wf ?s" using wf_drop [OF wf_but_of_wf] "2.prems"(2) by (simp add: emit_wf)
    moreover have "delete_keys ev now b ks ?s = (st', r)" using "2.prems"(1) 2 by simp
    ultimately show ?thesis using "2.IH"(2) 2 "2.prems"(3) by simp
  next
    case 3: 3
    obtain s1 r1 where i: "s3_insert_simple_delete_marker ev now b k ''DeleteObjects'' st = (s1, r1)" by force
    have w1: "s3_wf s1" by (rule marker_wf [OF i "2.prems"(2,3)])
    show ?thesis
    proof (cases r1)
      case (Inl x)
      then show ?thesis using "2.prems"(1) 3 i w1 by simp
    next
      case (Inr x)
      have "bucket_exists s1 b" using "2.prems"(3) marker_exists [OF i] by simp
      moreover have "delete_keys ev now b ks s1 = (st', r)" using "2.prems"(1) 3 i Inr by simp
      ultimately show ?thesis using "2.IH"(3) 3 i Inr w1 by simp
    qed
  qed
qed simp

lemma post_wf:
  assumes wf: "s3_wf st"
  shows "s3_wf (fst (s3_post_bucket ev now params b body st))" and "s3_wf (fst (s3_post_object ev now params headers b k body st))"
proof -
  have "s3_wf s" if "delete_keys ev now b ks st = (s, r)" "bucket_exists st b" for ks s r by (rule delete_keys_wf [OF that(1) wf that(2)])
  then show "s3_wf (fst (s3_post_bucket ev now params b body st))"
    using wf by (auto simp: s3_post_bucket_def Let_def split: option.splits prod.splits sum.splits)
  have cr: "s3_wf (fst (create_upload ev now headers b k st))"
    using uploads_wf(2) [OF wf] by (simp add: create_upload_def Let_def)
  have co: "s3_wf (fst (complete_upload ev now u mp b k body st))" if "bucket_exists st b" for u mp
    using store_wf [OF _ wf that] uploads_wf(1) wf by (auto simp: complete_upload_def split: sum.splits prod.splits)
  show "s3_wf (fst (s3_post_object ev now params headers b k body st))"
    using cr co wf by (simp add: s3_post_object_def Let_def split: option.split)
qed

lemma s3_run_wf: "s3_wf st \<Longrightarrow> s3_wf (s3_run ev gcs now b call st)"
  using put_bucket_wf bucket_wf read_wf put_object_wf delete_object_wf post_wf by (cases call) simp_all

definition no_buckets :: "sqs_st \<Rightarrow> s3_st" where
  "no_buckets sq = \<lparr>s3_buckets = [], s3_objects = [], s3_uploads = [], s3_sqs = sq, s3_n = 0\<rparr>"

text \<open>C21.  After any sequence of calls buckets and object tables go together, every stored key has at least one version,
  its own fields are those of its first version, which alone is marked latest, sizes are right and delete markers
  carry no data.\<close>

theorem s3_reachable_wf:
  "s3_wf (fold (\<lambda>(now, b, call). s3_run ev gcs now b call) calls (no_buckets sq))"
proof -
  have "s3_wf st \<Longrightarrow> s3_wf (fold (\<lambda>(now, b, call). s3_run ev gcs now b call) calls st)" for st
    by (induction calls arbitrary: st) (auto simp: s3_run_wf)
  moreover have "s3_wf (no_buckets sq)" by (simp add: s3_wf_def same_domain_def no_buckets_def find_entry_def dhas_def dget_def)
  ultimately show ?thesis by blast
qed

end
