(* ===== verification/S3_Examples.thy ===== *)
theory S3_Examples
imports S3_Wf
begin

text \<open>Concrete runs of the object store at which the properties of the S3 theories apply.\<close>

definition demo_ev :: s3_env where
  "demo_ev = \<lparr>sv_sqs = sqs_demo_env, sv_hex = (\<lambda>n. ''v'' @ replicate n (CHR ''i'')), sv_dumps = (\<lambda>_. ''event''),
     sv_xml = (\<lambda>_. None), sv_tostring = (\<lambda>_. ''xml''), sv_iso = (\<lambda>_. ''t''), sv_http_date = (\<lambda>_. ''d''),
     sv_invoke = (\<lambda>_ _ _. No_Function), sv_tier = ''free'', sv_other_buckets = 0\<rparr>"

definition no_gcs :: gcs_store where
  "no_gcs = (\<lambda>_ _. None)"

definition run_all :: "s3_call list \<Rightarrow> s3_st" where
  "run_all calls = fold (s3_run demo_ev no_gcs 0 ''docs'') calls (no_buckets demo_fifo)"

definition demo_plain :: s3_st where
  "demo_plain = run_all [Put_Bucket [] [], Put_Object [] [] ''a'' ''one'', Put_Object [] [] ''b'' ''two'']"

definition demo_versioned :: s3_st where
  "demo_versioned = run_all [Put_Bucket [] [], Put_Object [] [] ''a'' ''one'',
     Put_Bucket [(''versioning'', [])] ''Enabled'', Put_Object [] [] ''a'' ''two'']"

definition demo_suspended :: s3_st where
  "demo_suspended = s3_run demo_ev no_gcs 0 ''docs'' (Put_Bucket [(''versioning'', [])] ''Suspended'') demo_versioned"

lemma split_ok:
  assumes "case x of (s, Inr r) \<Rightarrow> True | _ \<Rightarrow> False"
  obtains s r where "x = (s, Inr r)"
  using assms by (auto split: prod.splits sum.splits)

theorem s3_put_then_get_witness:
  "served (snd (s3_get_object demo_ev no_gcs 1 [] [] ''docs'' ''a'' (fst (put_object demo_ev 0 [] ''docs'' ''a'' ''new'' demo_plain))))
     = Some (200, ''new'')"
proof -
  have "case put_object demo_ev 0 [] ''docs'' ''a'' ''new'' demo_plain of (s, Inr r) \<Rightarrow> True | _ \<Rightarrow> False" by code_simp
  then obtain s r where p: "put_object demo_ev 0 [] ''docs'' ''a'' ''new'' demo_plain = (s, Inr r)" by (rule split_ok)
  have e: "bucket_exists demo_plain ''docs''" "s3_bucket_versioning_status demo_plain ''docs'' \<noteq> ''Suspended''" by code_simp+
  have "served (snd (s3_get_object demo_ev no_gcs 1 [] [] ''docs'' ''a'' s)) = Some (200, ''new'')"
    by (rule s3_put_then_get [OF e(1) p]) (use e(2) in simp)
  then show ?thesis by (simp add: p)
qed

theorem s3_suspended_put_hidden_witness:
  "served (snd (s3_get_object demo_ev no_gcs 1 [] [] ''docs'' ''a'' (fst (put_object demo_ev 0 [] ''docs'' ''a'' ''three'' demo_suspended))))
     = Some (200, ''two'')"
proof -
  let ?v = "hd (history demo_suspended ''docs'' ''a'')" and ?vs = "tl (history demo_suspended ''docs'' ''a'')"
  have "case put_object demo_ev 0 [] ''docs'' ''a'' ''three'' demo_suspended of (s, Inr r) \<Rightarrow> True | _ \<Rightarrow> False" by code_simp
  then obtain s r where p: "put_object demo_ev 0 [] ''docs'' ''a'' ''three'' demo_suspended = (s, Inr r)" by (rule split_ok)
  have e: "bucket_exists demo_suspended ''docs''" "s3_bucket_versioning_status demo_suspended ''docs'' = ''Suspended''"
    "history demo_suspended ''docs'' ''a'' = ?v # ?vs" "ov_id ?v \<noteq> ''null''" "\<not> ov_marker ?v"
    "list_ex (\<lambda>w. ov_id w = ''null'') ?vs" "ov_data ?v = ''two''" by code_simp+
  have "served (snd (s3_get_object demo_ev no_gcs 1 [] [] ''docs'' ''a'' s)) = Some (200, ov_data ?v)"
    by (rule s3_suspended_put_hidden [OF e(1-5) _ p]) (use e(6) in \<open>simp add: list_ex_iff\<close>)
  then show ?thesis using e(7) by (simp add: p)
qed

theorem s3_delete_then_undelete_witness:
  "snd (s3_get_object demo_ev no_gcs 1 [] [] ''docs'' ''a'' (fst (s3_delete_object demo_ev 0 [] ''docs'' ''a'' demo_versioned)))
     = no_such_key ''docs'' ''a''"
proof -
  have "case s3_delete_object demo_ev 0 [] ''docs'' ''a'' demo_versioned of (s, Inr r) \<Rightarrow> True | _ \<Rightarrow> False" by code_simp
  then obtain s r where p: "s3_delete_object demo_ev 0 [] ''docs'' ''a'' demo_versioned = (s, Inr r)" by (rule split_ok)
  have e: "bucket_exists demo_versioned ''docs''" "s3_bucket_versioning_status demo_versioned ''docs'' = ''Enabled''"
    "sv_hex demo_ev (s3_n demo_versioned) \<noteq> []"
    "list_all (\<lambda>v. ov_id v \<noteq> sv_hex demo_ev (s3_n demo_versioned)) (history demo_versioned ''docs'' ''a'')" by code_simp+
  from s3_delete_then_undelete [OF e(1,2) p e(3)] e(4) show ?thesis by (simp add: p list_all_iff)
qed

theorem s3_versions_never_lost_witness:
  "suffix (map frozen (history demo_versioned ''docs'' ''a''))
     (map frozen (history (s3_run demo_ev no_gcs 1 ''docs'' (Put_Object [] [] ''a'' ''three'') demo_versioned) ''docs'' ''a''))"
  by (rule s3_versions_never_lost) code_simp+

definition demo_upload :: s3_st where
  "demo_upload = s3_run demo_ev no_gcs 0 ''docs'' (Post_Object [(''uploads'', [])] [] ''big'' []) demo_plain"

definition demo_uid :: string where
  "demo_uid = fst (last (s3_uploads demo_upload))"

theorem s3_multipart_joined_witness:
  "served (snd (s3_get_object demo_ev no_gcs 1 [] [] ''docs'' ''big''
     (fst (s3_post_object demo_ev 1 [(''uploadId'', demo_uid)] [] ''docs'' ''big'' []
        (upload_all demo_ev demo_uid ''docs'' ''big'' [(2, ''world''), (1, ''hello '')] demo_upload))))) = Some (200, ''hello world'')"
proof -
  let ?c = "s3_post_object demo_ev 1 [(''uploadId'', demo_uid)] [] ''docs'' ''big'' []
        (upload_all demo_ev demo_uid ''docs'' ''big'' [(2, ''world''), (1, ''hello '')] demo_upload)"
  have "case ?c of (s, Inr r) \<Rightarrow> True | _ \<Rightarrow> False" by code_simp
  then obtain s r where c: "?c = (s, Inr r)" by (rule split_ok)
  have e: "bucket_exists demo_upload ''docs''" "s3_bucket_versioning_status demo_upload ''docs'' = ''Disabled''"
    "map_of (s3_uploads demo_upload) demo_uid = Some (snd (last (s3_uploads demo_upload)))"
    "up_parts (snd (last (s3_uploads demo_upload))) = []"
    "[(2::nat, ''world''), (1, ''hello '')] \<noteq> []" "distinct (map fst [(2::nat, ''world''), (1, ''hello '')])"
    "sv_xml demo_ev [] = None" by code_simp+
  from s3_multipart_joined [OF e c] show ?thesis unfolding c by simp
qed

theorem s3_paging_complete_witness:
  "list_all_pages 3 0 ''docs'' [] [] 1 demo_plain = Some [''a'', ''b'']"
proof -
  have e: "(1::int) \<le> 1" "distinct (dkeys (bucket_objects demo_plain ''docs''))" "[] \<notin> set (dkeys (bucket_objects demo_plain ''docs''))"
    "listed_keys 0 ''docs'' [] [] demo_plain = [''a'', ''b'']" "Suc (length [''a'', ''b'']) = 3" by code_simp+
  from s3_paging_complete [OF e(1-3), of 0 "[]"] show ?thesis by (simp only: e(4,5))
qed

definition demo_rule :: rule where
  "demo_rule = \<lparr>ru_id = ''r1'', ru_events = [''s3:ObjectCreated:*''], ru_prefix = ''a'', ru_suffix = [], ru_dest = ''q''\<rparr>"

definition demo_nf :: notif where
  "demo_nf = (s3_default_notifications 0)\<lparr>nf_queues := [demo_rule]\<rparr>"

definition demo_notified :: s3_st where
  "demo_notified = upd_bucket ''docs'' (b_notif_update (\<lambda>_. Some demo_nf)) (demo_plain\<lparr>s3_sqs := demo_queue ''q'' False []\<rparr>)"

theorem s3_put_notifies_queue_witness:
  "\<exists>q' msg. map_of (sq_queues (s3_sqs (fst (put_object demo_ev 0 [] ''docs'' ''a'' ''new'' demo_notified)))) ''q'' = Some q' \<and>
     q_messages q' = [msg] \<and> m_body msg = ''event''"
proof -
  let ?m = "snd (hd (s3_buckets demo_notified))" and ?q = "snd (hd (sq_queues (s3_sqs demo_notified)))"
  have "case put_object demo_ev 0 [] ''docs'' ''a'' ''new'' demo_notified of (s, Inr r) \<Rightarrow> True | _ \<Rightarrow> False" by code_simp
  then obtain s r where p: "put_object demo_ev 0 [] ''docs'' ''a'' ''new'' demo_notified = (s, Inr r)" by (rule split_ok)
  have e: "map_of (s3_buckets demo_notified) ''docs'' = Some ?m" "b_notif ?m = Some demo_nf" "nf_topics demo_nf = []"
    "nf_queues demo_nf = [demo_rule]" "nf_functions demo_nf = []" "\<not> nf_bridge demo_nf"
    "s3_notification_rule_matches demo_rule ''s3:ObjectCreated:Put'' ''a''" "ru_dest demo_rule \<noteq> []"
    "sqs_queue_from_name_or_url (s3_sqs demo_notified) (ru_dest demo_rule) = Some ''q''"
    "map_of (sq_queues (s3_sqs demo_notified)) ''q'' = Some ?q" "\<not> q_fifo ?q"
    "utf8_len ''event'' \<le> or_default (q_max_size ?q) 262144" "swept 0 ?q = []" by code_simp+
  have d: "sv_dumps demo_ev p = ''event''" for p by (simp add: demo_ev_def)
  have "utf8_len (sv_dumps demo_ev p) \<le> or_default (q_max_size ?q) 262144" for p using e(12) by (simp only: d)
  from s3_put_notifies_queue [OF e(1-11) this p] show ?thesis using e(13) by (auto simp: p d)
qed

definition xml_ev :: s3_env where
  "xml_ev = demo_ev\<lparr>sv_xml := (\<lambda>_. Some (qualify (notification_tree demo_nf)))\<rparr>"

theorem s3_notification_roundtrip_witness:
  "\<exists>n' nf'. s3_parse_notification_xml xml_ev 0 0 (s3_notification_xml_from_config xml_ev demo_nf) = (n', Inr nf') \<and>
     nf_queues nf' = [demo_rule]"
proof -
  have "sv_xml xml_ev (sv_tostring xml_ev (notification_tree demo_nf)) = Some (qualify (notification_tree demo_nf))"
    by (simp add: xml_ev_def)
  moreover have "strip (sv_tostring xml_ev (notification_tree demo_nf)) \<noteq> []" by code_simp
  moreover have "list_all clean_rule (nf_topics demo_nf)" "list_all clean_rule (nf_queues demo_nf)" "list_all clean_rule (nf_functions demo_nf)"
    "nf_queues demo_nf = [demo_rule]" by code_simp+
  ultimately show ?thesis using s3_notification_roundtrip [of xml_ev demo_nf 0 0] by auto
qed

end
