(* ===== verification/Gcp_Iam.thy ===== *)
theory Gcp_Iam
imports Tenants Iam_Routes
begin

text \<open>The GCP policy decision point of \<open>core/gcp_iam_policy.py\<close>, the handlers that read and set a
  project's policy (\<open>providers/gcp_iam.py\<close>, \<open>server.py\<close>) and the gate the provider middleware makes of
  both (\<open>core/middleware.py\<close>).  Policies come from request bodies and are kept as dynamic values; what
  the code raises on a malformed one is an error value, which the gate turns into access.\<close>

section \<open>Roles and permissions\<close>

definition ROLE_PERMISSIONS :: "(string \<times> string list) list" where
  "ROLE_PERMISSIONS =
     [(''roles/owner'', [''*'']),
      (''roles/editor'', [''*.create'', ''*.update'', ''*.delete'', ''*.get'', ''*.list'', ''*.use'', ''*.invoke'', ''*.publish'', ''*.consume'', ''*.connect'']),
      (''roles/viewer'', [''*.get'', ''*.list'']),
      (''roles/storage.admin'', [''storage.*'']),
      (''roles/storage.objectAdmin'', [''storage.objects.*'', ''storage.buckets.get'', ''storage.buckets.list'']),
      (''roles/storage.objectCreator'', [''storage.objects.create'', ''storage.buckets.get'']),
      (''roles/storage.objectViewer'', [''storage.objects.get'', ''storage.objects.list'', ''storage.buckets.get'']),
      (''roles/cloudsql.admin'', [''cloudsql.*'']),
      (''roles/cloudsql.editor'', [''cloudsql.instances.*'', ''cloudsql.backupRuns.*'']),
      (''roles/cloudsql.viewer'', [''cloudsql.instances.get'', ''cloudsql.instances.list'']),
      (''roles/cloudsql.client'', [''cloudsql.instances.connect'', ''cloudsql.instances.get'']),
      (''roles/pubsub.admin'', [''pubsub.*'']),
      (''roles/pubsub.editor'', [''pubsub.topics.*'', ''pubsub.subscriptions.*'']),
      (''roles/pubsub.publisher'', [''pubsub.topics.publish'', ''pubsub.topics.get'']),
      (''roles/pubsub.subscriber'', [''pubsub.subscriptions.consume'', ''pubsub.subscriptions.get'']),
      (''roles/pubsub.viewer'', [''pubsub.topics.get'', ''pubsub.topics.list'', ''pubsub.subscriptions.get'', ''pubsub.subscriptions.list'']),
      (''roles/cloudfunctions.admin'', [''cloudfunctions.*'']),
      (''roles/cloudfunctions.developer'', [''cloudfunctions.functions.*'']),
      (''roles/cloudfunctions.invoker'', [''cloudfunctions.functions.invoke'']),
      (''roles/cloudfunctions.viewer'', [''cloudfunctions.functions.get'', ''cloudfunctions.functions.list'']),
      (''roles/compute.admin'', [''compute.*'']),
      (''roles/compute.instanceAdmin'', [''compute.instances.*'', ''compute.disks.*'']),
      (''roles/compute.viewer'', [''compute.*.get'', ''compute.*.list'']),
      (''roles/datastore.user'', [''datastore.entities.*'', ''datastore.databases.get'']),
      (''roles/datastore.viewer'', [''datastore.entities.get'', ''datastore.entities.list'']),
      (''roles/apigateway.admin'', [''apigateway.*'']),
      (''roles/apigateway.viewer'', [''apigateway.*.get'', ''apigateway.*.list'']),
      (''roles/iam.serviceAccountAdmin'', [''iam.serviceAccounts.*'']),
      (''roles/iam.securityAdmin'', [''resourcemanager.projects.getIamPolicy'', ''resourcemanager.projects.setIamPolicy'', ''iam.*''])]"

definition OWNER_PRINCIPALS :: "string list" where
  "OWNER_PRINCIPALS = [''root'', ''owner'', ''admin'', [], ''allauthenticatedusers'', ''allusers'']"

definition OWNER_ROLES :: "string list" where
  "OWNER_ROLES = [''roles/owner'']"

definition verb :: "string \<Rightarrow> string" where
  "verb meth = (if meth \<in> {''GET'', ''HEAD''} then ''get'' else if meth = ''DELETE'' then ''delete'' else ''create'')"

definition permission_for_request :: "string \<Rightarrow> string \<Rightarrow> string" where
  "permission_for_request path meth0 =
     (let meth = upper (str_or meth0 ''GET'');
          p = before_first ''?'' path;
          v = verb meth;
          has = (\<lambda>s. contains s p)
      in case first_case
        [(startswith p ''/upload/storage/v1/'' \<or> has ''/storage/v1/'',
          if has ''/o/'' \<or> endswith p ''/o'' \<or> has ''/upload/'' then ''storage.objects.'' @ v else ''storage.buckets.'' @ v),
         (has ''/compute/v1/'',
          the (first_case
            [(endswith p ''/start'' \<or> endswith p ''/stop'' \<or> endswith p ''/reset'', ''compute.instances.update''),
             (has ''/instances'', ''compute.instances.'' @ v),
             (has ''/disks'', ''compute.disks.'' @ v),
             (has ''/networks'', ''compute.networks.'' @ v),
             (has ''/firewalls'', ''compute.firewalls.'' @ v),
             (has ''/subnetworks'', ''compute.subnetworks.'' @ v),
             (True, ''compute.instances.'' @ v)])),
         (has ''/sql/v1beta4/'', ''cloudsql.instances.'' @ v),
         (has ''/topics'', if endswith p '':publish'' then ''pubsub.topics.publish'' else ''pubsub.topics.'' @ v),
         (has ''/subscriptions'',
          if endswith p '':pull'' \<or> endswith p '':acknowledge'' \<or> endswith p '':modifyAckDeadline''
          then ''pubsub.subscriptions.consume'' else ''pubsub.subscriptions.'' @ v),
         (has ''/functions'',
          if endswith p '':call'' then ''cloudfunctions.functions.invoke'' else ''cloudfunctions.functions.'' @ v),
         (has ''/firestore/v1/'', ''datastore.entities.'' @ v),
         (has ''/apis'' \<or> has ''/apiConfigs'' \<or> has ''/gateways'', ''apigateway.apiconfigs.'' @ v),
         (has ''/serviceAccounts'', ''iam.serviceAccounts.'' @ v)]
      of Some perm \<Rightarrow> perm | None \<Rightarrow> [])"

text \<open>No caller passes custom roles, so a role outside the catalog grants nothing.\<close>

definition permissions_for_role :: "string \<Rightarrow> string list" where
  "permissions_for_role role = dget ROLE_PERMISSIONS role []"

definition perm_matches :: "string \<Rightarrow> string \<Rightarrow> bool" where
  "perm_matches granted required \<longleftrightarrow> granted = ''*'' \<or> granted = required \<or> fnmatchcase required granted"

section \<open>Bindings\<close>

definition member_is :: "string \<Rightarrow> string \<Rightarrow> bool" where
  "member_is princ m \<longleftrightarrow> m \<in> {''allUsers'', ''allAuthenticatedUsers''} \<or> m = princ \<or> after_first '':'' m = princ"

definition principal_in :: "string \<Rightarrow> pyval \<Rightarrow> bool result" where
  "principal_in princ members =
     rbind (py_iter (py_or members (PList []))) (\<lambda>ms. Inr (list_ex (\<lambda>m. member_is princ (py_str m)) ms))"

fun owner_binding :: "string \<Rightarrow> pyval list \<Rightarrow> bool result" where
  "owner_binding princ [] = Inr False"
| "owner_binding princ (b # bs) =
     rbind (as_dict b) (\<lambda>d.
       if py_str (pget d ''role'') \<in> set OWNER_ROLES
       then rbind (principal_in princ (dget d ''members'' (PList []))) (\<lambda>i. if i then Inr True else owner_binding princ bs)
       else owner_binding princ bs)"

definition is_owner :: "string \<Rightarrow> pyval list \<Rightarrow> bool result" where
  "is_owner princ bindings =
     (if lower (strip princ) \<in> set OWNER_PRINCIPALS then Inr True else owner_binding princ bindings)"

fun granted_permissions :: "string \<Rightarrow> pyval list \<Rightarrow> string list result" where
  "granted_permissions princ [] = Inr []"
| "granted_permissions princ (b # bs) =
     rbind (as_dict b) (\<lambda>d.
     rbind (principal_in princ (dget d ''members'' (PList []))) (\<lambda>i.
     rbind (granted_permissions princ bs) (\<lambda>ps.
       Inr ((if i then permissions_for_role (py_str (pget d ''role'')) else []) @ ps))))"

definition gcp_authorize :: "string \<Rightarrow> string \<Rightarrow> pyval list \<Rightarrow> bool result" where
  "gcp_authorize princ required bindings =
     (if required = [] then Inr True
      else rbind (is_owner princ bindings) (\<lambda>own.
        if own then Inr True
        else rbind (granted_permissions princ bindings) (\<lambda>ps. Inr (list_ex (\<lambda>g. perm_matches g required) ps))))"

section \<open>Policies of a project, and the gate\<close>

text \<open>\<open>policies\<close> is the dictionary of that name of the GCP IAM store, by project.\<close>

definition set_policy :: "string \<Rightarrow> pyval dict \<Rightarrow> pyval dict \<Rightarrow> (pyval dict \<times> pyval dict) result" where
  "set_policy project payload policies =
     rbind (int_field payload ''version'' 1) (\<lambda>version.
       let policy = [(''version'', PInt version), (''etag'', PStr (str_field payload ''etag'' [])),
                     (''bindings'', if is_list (pget payload ''bindings'') then pget payload ''bindings'' else PList [])]
       in Inr (dset project (PDict policy) policies, policy))"

definition gcp_project_name :: "string \<Rightarrow> string" where
  "gcp_project_name p = str_or (strip (str_or p ''cloudlearn'')) ''cloudlearn''"

fun strip_action_suffix :: "string \<Rightarrow> string list \<Rightarrow> string" where
  "strip_action_suffix value [] = value"
| "strip_action_suffix value (s # ss) =
     (if s \<noteq> [] \<and> endswith value s then take (length value - length s) value else strip_action_suffix value ss)"

definition iam_suffixes :: "string list" where
  "iam_suffixes = ['':getIamPolicy'', '':setIamPolicy'', '':testIamPermissions'']"

definition api_gcp_iam_set_policy :: "string \<Rightarrow> pyval \<Rightarrow> pyval dict \<Rightarrow> (pyval dict \<times> pyval dict) result" where
  "api_gcp_iam_set_policy project body policies =
     (let payload = dict_or_empty body
      in set_policy (gcp_project_name (strip_action_suffix project iam_suffixes))
           (if is_dict (pget payload ''policy'') then dict_or_empty (pget payload ''policy'') else payload) policies)"

text \<open>The bindings the gate reads: those of every stored policy.\<close>

definition all_bindings :: "pyval dict \<Rightarrow> pyval list" where
  "all_bindings policies = concat (map (\<lambda>(_, p). list_items (pget (dict_or_empty p) ''bindings'')) policies)"

text \<open>The principal a request acts as: its header, else the one the space names, else root.\<close>

definition request_principal :: "string \<Rightarrow> pyval dict \<Rightarrow> string" where
  "request_principal header space = (if header \<noteq> [] then header else str_field space ''active_principal'' ''root'')"

text \<open>\<open>None\<close> lets the request pass, \<open>Some\<close> is the denied permission; an exception lets it pass.\<close>

definition gcp_iam_enforcement_response ::
  "pyval dict \<Rightarrow> pyval dict \<Rightarrow> string \<Rightarrow> string \<Rightarrow> string \<Rightarrow> string option" where
  "gcp_iam_enforcement_response space policies header path meth =
     (if \<not> truthy (pget space ''enforce_iam'') then None
      else let required = permission_for_request path meth
           in if required = [] then None
              else case gcp_authorize (request_principal header space) required (all_bindings policies) of
                     Inl _ \<Rightarrow> None
                   | Inr True \<Rightarrow> None
                   | Inr False \<Rightarrow> Some required)"

text \<open>\<open>testIamPermissions\<close>: the permissions asked for that the caller holds; all of them when the check
  raises.  A stored policy holds its bindings as a list.\<close>

definition test_permission :: "string \<Rightarrow> pyval list \<Rightarrow> pyval \<Rightarrow> bool result" where
  "test_permission princ bindings v =
     (if \<not> truthy v then Inr True
      else case v of
        PStr s \<Rightarrow> gcp_authorize princ s bindings
      | _ \<Rightarrow> rbind (is_owner princ bindings) (\<lambda>own.
               if own then Inr True
               else rbind (granted_permissions princ bindings) (\<lambda>ps.
                 if ps = [] then Inr False else Inl (TypeError ''expected str''))))"

fun keep_granted :: "(pyval \<Rightarrow> bool result) \<Rightarrow> pyval list \<Rightarrow> pyval list result" where
  "keep_granted f [] = Inr []"
| "keep_granted f (v # vs) = rbind (f v) (\<lambda>ok. rbind (keep_granted f vs) (\<lambda>r. Inr (if ok then v # r else r)))"

definition api_gcp_iam_test_permissions ::
  "string \<Rightarrow> pyval \<Rightarrow> string \<Rightarrow> pyval dict \<Rightarrow> pyval dict \<Rightarrow> pyval list" where
  "api_gcp_iam_test_permissions project body header space policies =
     (let permissions = list_items (pget (dict_or_empty body) ''permissions'');
          policy = dict_or_empty (pget policies (gcp_project_name (strip_action_suffix project iam_suffixes)));
          bindings = list_items (pget policy ''bindings'')
      in case keep_granted (test_permission (request_principal header space) bindings) permissions of
           Inl _ \<Rightarrow> permissions
         | Inr granted \<Rightarrow> granted)"

section \<open>The decision as a predicate on bindings\<close>

text \<open>A binding the code reads without an exception, whom it names, and what it grants.\<close>

definition members_of :: "pyval dict \<Rightarrow> pyval" where
  "members_of d = py_or (dget d ''members'' (PList [])) (PList [])"

definition well_formed :: "pyval \<Rightarrow> bool" where
  "well_formed b = (case b of PDict d \<Rightarrow> (case py_iter (members_of d) of Inr _ \<Rightarrow> True | Inl _ \<Rightarrow> False) | _ \<Rightarrow> False)"

definition names :: "string \<Rightarrow> pyval \<Rightarrow> bool" where
  "names princ b = (case py_iter (members_of (dict_or_empty b)) of
     Inr ms \<Rightarrow> list_ex (\<lambda>m. member_is princ (py_str m)) ms | Inl _ \<Rightarrow> False)"

definition role_of :: "pyval \<Rightarrow> string" where
  "role_of b = py_str (pget (dict_or_empty b) ''role'')"

definition grants :: "string \<Rightarrow> string \<Rightarrow> pyval \<Rightarrow> bool" where
  "grants princ required b \<longleftrightarrow>
     names princ b \<and> list_ex (\<lambda>g. perm_matches g required) (permissions_for_role (role_of b))"

lemma well_formed_PDict: "well_formed b \<longleftrightarrow> (\<exists>d ms. b = PDict d \<and> py_iter (members_of d) = Inr ms)"
  by (cases b) (auto simp: well_formed_def split: sum.splits)

lemma principal_in_wf:
  "well_formed (PDict d) \<Longrightarrow> principal_in p (dget d ''members'' (PList [])) = Inr (names p (PDict d))"
  by (auto simp: well_formed_PDict principal_in_def names_def members_of_def)

lemma owner_binding_wf:
  "\<forall>b\<in>set bs. well_formed b \<Longrightarrow>
   owner_binding p bs = Inr (\<exists>b\<in>set bs. names p b \<and> role_of b \<in> set OWNER_ROLES)"
proof (induction bs)
  case (Cons b bs)
  then obtain d where b: "b = PDict d" by (auto simp: well_formed_PDict)
  with Cons have "principal_in p (dget d ''members'' (PList [])) = Inr (names p b)" by (simp add: principal_in_wf)
  with Cons b show ?case by (auto simp: role_of_def)
qed simp

lemma granted_wf:
  "\<forall>b\<in>set bs. well_formed b \<Longrightarrow>
   granted_permissions p bs = Inr (concat (map (\<lambda>b. if names p b then permissions_for_role (role_of b) else []) bs))"
proof (induction bs)
  case (Cons b bs)
  then obtain d where b: "b = PDict d" by (auto simp: well_formed_PDict)
  with Cons have "principal_in p (dget d ''members'' (PList [])) = Inr (names p b)" by (simp add: principal_in_wf)
  with Cons b show ?case by (auto simp: role_of_def)
qed simp

lemma owner_grants: "role_of b \<in> set OWNER_ROLES \<Longrightarrow> names p b \<Longrightarrow> grants p r b"
  by (auto simp: grants_def OWNER_ROLES_def permissions_for_role_def ROLE_PERMISSIONS_def perm_matches_def dget_def)

lemma gcp_authorize_spec:
  assumes "\<forall>b\<in>set bindings. well_formed b"
  shows "gcp_authorize princ required bindings =
    Inr (required = [] \<or> lower (strip princ) \<in> set OWNER_PRINCIPALS \<or> (\<exists>b\<in>set bindings. grants princ required b))"
proof -
  have "(\<exists>b\<in>set bindings. names princ b \<and> list_ex (\<lambda>g. perm_matches g required) (permissions_for_role (role_of b)))
      \<longleftrightarrow> (\<exists>b\<in>set bindings. grants princ required b)" by (simp add: grants_def)
  moreover have "list_ex (\<lambda>g. perm_matches g required)
      (concat (map (\<lambda>b. if names princ b then permissions_for_role (role_of b) else []) bindings))
    \<longleftrightarrow> (\<exists>b\<in>set bindings. names princ b \<and> list_ex (\<lambda>g. perm_matches g required) (permissions_for_role (role_of b)))"
    by (auto simp: list_ex_iff)
  ultimately show ?thesis
    by (auto simp: gcp_authorize_def is_owner_def owner_binding_wf [OF assms] granted_wf [OF assms] intro: owner_grants)
qed

text \<open>C31. The decision point allows a request exactly when it needs no permission, the principal is
  one of the fixed owner names, or some binding names the principal and gives it a role with a
  permission pattern matching the one required; the order of the bindings plays no part.\<close>

theorem gcp_authorize_iff:
  assumes "\<forall>b\<in>set bindings. well_formed b"
  shows "gcp_authorize princ required bindings =
    Inr (required = [] \<or> lower (strip princ) \<in> set OWNER_PRINCIPALS \<or> (\<exists>b\<in>set bindings. grants princ required b))"
  by (rule gcp_authorize_spec [OF assms])

section \<open>Least privilege\<close>

lemma fnmatchcase_suffix: "glob_free p \<Longrightarrow> fnmatchcase s (CHR ''*'' # p) \<longleftrightarrow> endswith s p"
  using glob_parse_free [of p "[]"] glob_match_lits [of p "[]"]
  by (auto simp: fnmatchcase_def glob_match_any endswith_suffix suffix_def)

lemma viewer_matches:
  "list_ex (\<lambda>g. perm_matches g r) (permissions_for_role ''roles/viewer'') \<longleftrightarrow>
     endswith r ''.get'' \<or> endswith r ''.list''"
proof -
  have "fnmatchcase r ''*.get'' \<longleftrightarrow> endswith r ''.get''" "fnmatchcase r ''*.list'' \<longleftrightarrow> endswith r ''.list''"
    by (simp_all add: fnmatchcase_suffix glob_free_def)
  moreover have "perm_matches ''*.get'' r = fnmatchcase r ''*.get''" "perm_matches ''*.list'' r = fnmatchcase r ''*.list''"
    by (auto simp: perm_matches_def fnmatchcase_suffix glob_free_def endswith_suffix suffix_def)
  ultimately show ?thesis
    by (simp add: permissions_for_role_def ROLE_PERMISSIONS_def dget_def)
qed

text \<open>What a request that is not a read needs does not end like a read permission.\<close>

lemma first_case_all: "P d \<Longrightarrow> list_all (\<lambda>(_, v). P v) xs \<Longrightarrow> P (case first_case xs of Some v \<Rightarrow> v | None \<Rightarrow> d)"
  by (induction xs rule: first_case.induct) auto

lemma the_first_case_all: "True \<in> fst ` set xs \<Longrightarrow> list_all (\<lambda>(_, v). P v) xs \<Longrightarrow> P (the (first_case xs))"
  by (induction xs rule: first_case.induct) auto

lemma list_all_pair_intros: "list_all (\<lambda>(_, v). P v) []"
    "P v \<Longrightarrow> list_all (\<lambda>(_, v). P v) xs \<Longrightarrow> list_all (\<lambda>(_, v). P v) ((c, v) # xs)"
  by simp_all

lemma if_both: "P a \<Longrightarrow> P b \<Longrightarrow> P (if c then a else b)"
  by simp

definition write_only :: "string \<Rightarrow> bool" where
  "write_only r \<longleftrightarrow> \<not> endswith r ''.get'' \<and> \<not> endswith r ''.list''"

lemma write_only_literals:
  "write_only ''compute.instances.update''" "write_only ''pubsub.topics.publish''"
  "write_only ''pubsub.subscriptions.consume''" "write_only ''cloudfunctions.functions.invoke''" "write_only []"
  by (simp_all add: write_only_def endswith_def)

lemma write_only_verb: "verb m \<noteq> ''get'' \<Longrightarrow> write_only (s @ verb m)"
  by (auto simp: verb_def write_only_def endswith_def split: if_splits)

lemma write_permission:
  assumes "upper m \<notin> {''GET'', ''HEAD''}" and "m \<noteq> []"
  shows "write_only (permission_for_request path m)"
proof -
  have v: "write_only (s @ verb (upper m))" for s by (rule write_only_verb) (use assms(1) in \<open>auto simp: verb_def\<close>)
  have m: "str_or m ''GET'' = m" using assms(2) by (simp add: str_or_def)
  show ?thesis
    unfolding permission_for_request_def Let_def m
    apply (rule first_case_all [where P = write_only], rule write_only_literals)
    apply (intro list_all_pair_intros [where P = write_only] if_both [where P = write_only]
        the_first_case_all [where P = write_only] v write_only_literals)
    apply (simp only: list.set image_insert fst_conv insert_iff simp_thms)
    done
qed

text \<open>A principal whose only role is viewer is denied every request that changes something and needs
  a permission, whatever the path.\<close>

theorem gcp_viewer_cannot_write:
  assumes "truthy (pget space ''enforce_iam'')" and "\<forall>b\<in>set (all_bindings policies). well_formed b"
    and "\<forall>b\<in>set (all_bindings policies). names princ b \<longrightarrow> role_of b = ''roles/viewer''"
    and "princ \<noteq> []" and "lower (strip princ) \<notin> set OWNER_PRINCIPALS"
    and "upper m \<notin> {''GET'', ''HEAD''}" and "m \<noteq> []" and "permission_for_request path m \<noteq> []"
  shows "gcp_iam_enforcement_response space policies princ path m = Some (permission_for_request path m)"
proof -
  have "\<not> (\<exists>b\<in>set (all_bindings policies). grants princ (permission_for_request path m) b)"
    using assms(3) write_permission [OF assms(6,7), of path] by (auto simp: grants_def viewer_matches write_only_def)
  then have "gcp_authorize princ (permission_for_request path m) (all_bindings policies) = Inr False"
    using gcp_authorize_spec [OF assms(2)] assms(5,8) by simp
  then show ?thesis using assms(1,4,8) by (simp add: gcp_iam_enforcement_response_def request_principal_def)
qed

section \<open>Ways around the gate\<close>

lemma all_bindings_dset:
  "set (list_items (pget (dict_or_empty p) ''bindings'')) \<subseteq> set (all_bindings (dset k p policies))"
proof -
  have "(k, p) \<in> set (dset k p policies)" by (rule map_of_in_dict) (simp add: dict_simps)
  then show ?thesis by (force simp: all_bindings_def)
qed

lemma owner_binding_ok:
  assumes "PDict d \<in> set bs" and "py_str (pget d ''role'') \<in> set OWNER_ROLES"
    and "principal_in p (dget d ''members'' (PList [])) = Inr True"
  shows "owner_binding p bs \<noteq> Inr False"
  using assms(1)
proof (induction bs)
  case (Cons b bs)
  then show ?case
    using assms(2,3) by (cases "as_dict b"; cases b) (auto simp: rbind_def as_dict_def split: sum.splits)
qed simp

lemma owner_bound_passes:
  assumes "PDict d \<in> set (all_bindings policies)" and "py_str (pget d ''role'') \<in> set OWNER_ROLES"
    and "principal_in p (dget d ''members'' (PList [])) = Inr True" and "p \<noteq> []"
  shows "gcp_iam_enforcement_response space policies p path m = None"
proof -
  have "is_owner p (all_bindings policies) \<noteq> Inr False"
    using owner_binding_ok [OF assms(1-3)] by (simp add: is_owner_def)
  then show ?thesis using assms(4)
    by (cases "is_owner p (all_bindings policies)")
       (auto simp: gcp_iam_enforcement_response_def gcp_authorize_def request_principal_def Let_def)
qed

lemma set_policy_ungated: "permission_for_request ''/v1/projects/cloudlearn:setIamPolicy'' ''POST'' = []"
  by code_simp

definition owner_request :: "string \<Rightarrow> pyval" where
  "owner_request p = PDict [(''bindings'', PList [PDict [(''role'', PStr ''roles/owner''), (''members'', PList [PStr p])]])]"

text \<open>Setting the policy of a project is a request the gate asks no permission for.  Whatever policies
  are in force, any principal may send one that makes it the owner, and from then on the gate lets
  every request of that principal pass.\<close>

theorem gcp_set_policy_escalates:
  assumes "princ \<noteq> []"
  shows "gcp_iam_enforcement_response space policies princ ''/v1/projects/cloudlearn:setIamPolicy'' ''POST'' = None \<and>
    (\<exists>policies' resp. api_gcp_iam_set_policy ''cloudlearn'' (owner_request princ) policies = Inr (policies', resp) \<and>
      (\<forall>path meth. gcp_iam_enforcement_response space policies' princ path meth = None))"
proof (intro conjI)
  show "gcp_iam_enforcement_response space policies princ ''/v1/projects/cloudlearn:setIamPolicy'' ''POST'' = None"
    by (simp add: gcp_iam_enforcement_response_def set_policy_ungated Let_def)
  let ?b = "[(''role'', PStr ''roles/owner''), (''members'', PList [PStr princ])]"
  let ?p = "PDict [(''version'', PInt 1), (''etag'', PStr []), (''bindings'', PList [PDict ?b])]"
  have proj: "gcp_project_name (strip_action_suffix ''cloudlearn'' iam_suffixes) = ''cloudlearn''" by code_simp
  have setp: "api_gcp_iam_set_policy ''cloudlearn'' (owner_request princ) policies =
      Inr (dset ''cloudlearn'' ?p policies, dict_or_empty ?p)"
    by (simp add: api_gcp_iam_set_policy_def set_policy_def owner_request_def proj pget_def dget_def is_list_def
        is_dict_def int_field_def py_or_def str_field_def Let_def)
  have "PDict ?b \<in> set (all_bindings (dset ''cloudlearn'' ?p policies))"
    using all_bindings_dset [of ?p "''cloudlearn''" policies] by (simp add: pget_def dget_def list_items_def)
  moreover have "principal_in princ (dget ?b ''members'' (PList [])) = Inr True"
    by (simp add: dget_def principal_in_def py_or_def py_iter_def member_is_def)
  moreover have "py_str (pget ?b ''role'') \<in> set OWNER_ROLES" by (simp add: pget_def dget_def OWNER_ROLES_def)
  ultimately have "gcp_iam_enforcement_response space (dset ''cloudlearn'' ?p policies) princ path meth = None" for path meth
    using owner_bound_passes assms by blast
  with setp show "\<exists>policies' resp. api_gcp_iam_set_policy ''cloudlearn'' (owner_request princ) policies = Inr (policies', resp) \<and>
      (\<forall>path meth. gcp_iam_enforcement_response space policies' princ path meth = None)" by blast
qed

text \<open>An exception anywhere in the decision opens the gate: one stored binding that is not an object
  lets every principal pass everywhere.\<close>

lemma owner_binding_malformed: "b \<in> set bs \<Longrightarrow> \<not> is_dict b \<Longrightarrow> owner_binding p bs \<noteq> Inr False"
proof (induction bs)
  case (Cons x bs)
  then show ?case
    by (cases x) (auto simp: rbind_def as_dict_def is_dict_def split: sum.splits)
qed simp

lemma gcp_gate_fails_open:
  assumes "b \<in> set (all_bindings policies)" and "\<not> is_dict b"
  shows "gcp_iam_enforcement_response space policies header path m = None"
proof -
  have "is_owner p (all_bindings policies) \<noteq> Inr False" for p
    using owner_binding_malformed [OF assms] by (simp add: is_owner_def)
  then show ?thesis
    by (cases "is_owner (request_principal header space) (all_bindings policies)")
       (auto simp: gcp_iam_enforcement_response_def gcp_authorize_def Let_def)
qed

section \<open>Instances\<close>

definition demo_space :: "pyval dict" where
  "demo_space = [(''enforce_iam'', PBool True), (''active_principal'', PStr ''root'')]"

definition demo_policies :: "pyval dict" where
  "demo_policies = [(''cloudlearn'', PDict [(''version'', PInt 1), (''etag'', PStr []), (''bindings'',
     PList [PDict [(''role'', PStr ''roles/viewer''), (''members'', PList [PStr ''user:ann@x.org''])],
            PDict [(''role'', PStr ''roles/storage.admin''), (''members'', PList [PStr ''user:bob@x.org''])]])])]"

theorem gcp_authorize_iff_witness:
  "gcp_authorize ''bob@x.org'' ''storage.objects.create'' (all_bindings demo_policies) = Inr True \<and>
   gcp_authorize ''ann@x.org'' ''storage.objects.create'' (all_bindings demo_policies) = Inr False"
proof -
  have wf: "\<forall>b\<in>set (all_bindings demo_policies). well_formed b"
    by (simp add: demo_policies_def all_bindings_def well_formed_def members_of_def pget_def dget_def py_or_def
        py_iter_def list_items_def)
  have "(\<exists>b\<in>set (all_bindings demo_policies). grants ''bob@x.org'' ''storage.objects.create'' b) \<and>
      \<not> (\<exists>b\<in>set (all_bindings demo_policies). grants ''ann@x.org'' ''storage.objects.create'' b) \<and>
      lower (strip ''ann@x.org'') \<notin> set OWNER_PRINCIPALS" by code_simp
  then show ?thesis
    using gcp_authorize_iff [OF wf, of "''bob@x.org''" "''storage.objects.create''"]
      gcp_authorize_iff [OF wf, of "''ann@x.org''" "''storage.objects.create''"] by simp
qed

theorem gcp_viewer_cannot_write_witness:
  "gcp_iam_enforcement_response demo_space demo_policies ''ann@x.org'' ''/compute/v1/projects/p/zones/z/instances'' ''POST''
     = Some ''compute.instances.create''"
proof -
  have f: "truthy (pget demo_space ''enforce_iam'')" "\<forall>b\<in>set (all_bindings demo_policies). well_formed b"
    "\<forall>b\<in>set (all_bindings demo_policies). names ''ann@x.org'' b \<longrightarrow> role_of b = ''roles/viewer''"
    "lower (strip ''ann@x.org'') \<notin> set OWNER_PRINCIPALS" "upper ''POST'' \<notin> {''GET'', ''HEAD''}"
    "permission_for_request ''/compute/v1/projects/p/zones/z/instances'' ''POST'' = ''compute.instances.create''"
    by code_simp+
  show ?thesis
    using gcp_viewer_cannot_write [OF f(1-3) _ f(4,5), of "''/compute/v1/projects/p/zones/z/instances''"]
    unfolding f(6) by simp
qed

theorem gcp_set_policy_escalates_witness:
  "gcp_iam_enforcement_response demo_space demo_policies ''eve@x.org'' ''/v1/projects/cloudlearn:setIamPolicy'' ''POST'' = None \<and>
   gcp_iam_enforcement_response demo_space demo_policies ''eve@x.org'' ''/storage/v1/b'' ''POST'' = Some ''storage.buckets.create'' \<and>
   (case api_gcp_iam_set_policy ''cloudlearn'' (owner_request ''eve@x.org'') demo_policies of
      Inr (ps, _) \<Rightarrow> gcp_iam_enforcement_response demo_space ps ''eve@x.org'' ''/storage/v1/b'' ''POST'' = None
    | Inl _ \<Rightarrow> False)"
proof -
  have "gcp_iam_enforcement_response demo_space demo_policies ''eve@x.org'' ''/storage/v1/b'' ''POST'' = Some ''storage.buckets.create''"
    by code_simp
  with gcp_set_policy_escalates [of "''eve@x.org''" demo_space demo_policies] show ?thesis by auto
qed

end
