(* ===== verification/Azure_Rbac.thy ===== *)
theory Azure_Rbac
imports Gcp_Iam
begin

text \<open>The Azure RBAC gate of \<open>core/middleware.py\<close>: the namespace of an ARM path, action patterns, role
  assignments and definitions among the ARM resources of the space, and the decision.  Resources are
  dynamic values; whatever the code raises on them lets the request pass.\<close>

section \<open>Namespaces and action patterns\<close>

definition azure_namespace_from_path :: "string \<Rightarrow> string" where
  "azure_namespace_from_path path =
     (case split_once ''/providers/'' (lower path) of
        None \<Rightarrow> []
      | Some (a, _) \<Rightarrow> hd (split_char (CHR ''/'') (drop (length a + length ''/providers/'') path)))"

definition action_suffix :: "string \<Rightarrow> string" where
  "action_suffix meth =
     dget [(''GET'', ''read''), (''PUT'', ''write''), (''PATCH'', ''write''), (''POST'', ''action''), (''DELETE'', ''delete'')]
       (upper meth) ''read''"

definition azure_action_matches :: "string \<Rightarrow> string \<Rightarrow> string \<Rightarrow> bool" where
  "azure_action_matches pat ns meth =
     (if pat = ''*'' then True
      else case split_once ''/'' pat of
        Some (pat_ns, pat_action) \<Rightarrow>
          (pat_ns = ''*'' \<or> lower pat_ns = lower ns) \<and> (pat_action = ''*'' \<or> lower pat_action = action_suffix meth)
      | None \<Rightarrow> lower pat = lower ns)"

section \<open>Reading the resources\<close>

definition lower_of :: "pyval \<Rightarrow> string result" where
  "lower_of v = (case v of PStr s \<Rightarrow> Inr (lower s) | _ \<Rightarrow> Inl (AttributeError ''lower''))"

definition action_val :: "string \<Rightarrow> string \<Rightarrow> pyval \<Rightarrow> bool result" where
  "action_val ns meth v =
     (case v of PStr p \<Rightarrow> Inr (azure_action_matches p ns meth) | _ \<Rightarrow> Inl (TypeError ''argument is not iterable''))"

text \<open>\<open>any(f(x) for x in xs)\<close> stops at the first true element.\<close>

fun any_true :: "('a \<Rightarrow> bool result) \<Rightarrow> 'a list \<Rightarrow> bool result" where
  "any_true f [] = Inr False"
| "any_true f (x # xs) = rbind (f x) (\<lambda>b. if b then Inr True else any_true f xs)"

definition res_type :: "pyval dict \<Rightarrow> string result" where
  "res_type d = lower_of (py_or (py_or (pget d ''_type'') (pget d ''type'')) (PStr []))"

definition props_of :: "pyval dict \<Rightarrow> pyval dict result" where
  "props_of d = as_dict (dget d ''properties'' (PDict []))"

text \<open>\<open>d.get(k, "")\<close>.\<close>

definition get_str :: "pyval dict \<Rightarrow> string \<Rightarrow> pyval" where
  "get_str d k = dget d k (PStr [])"

fun role_assignments :: "string \<Rightarrow> pyval dict \<Rightarrow> pyval dict list result" where
  "role_assignments princ [] = Inr []"
| "role_assignments princ ((_, v) # rest) =
     rbind (as_dict v) (\<lambda>d. rbind (res_type d) (\<lambda>ty.
       if ty \<noteq> ''microsoft.authorization/roleassignments'' then role_assignments princ rest
       else rbind (props_of d) (\<lambda>props.
            rbind (role_assignments princ rest) (\<lambda>ds.
              Inr (if lower (py_str (get_str props ''principalId'')) = lower princ then d # ds else ds)))))"

definition is_definition :: "string \<Rightarrow> pyval dict \<Rightarrow> bool result" where
  "is_definition rid d =
     rbind (props_of d) (\<lambda>props.
     rbind (lower_of (get_str props ''roleName'')) (\<lambda>rn.
       if rn = lower rid then Inr True
       else rbind (lower_of (get_str d ''name'')) (\<lambda>nm.
         if nm = lower rid then Inr True
         else rbind (lower_of (get_str d ''id'')) (\<lambda>i. Inr (endswith i (''/'' @ lower rid))))))"

fun find_role_def :: "string \<Rightarrow> pyval dict \<Rightarrow> pyval dict option result" where
  "find_role_def rid [] = Inr None"
| "find_role_def rid ((_, v) # rest) =
     rbind (as_dict v) (\<lambda>d. rbind (res_type d) (\<lambda>ty.
       if ty \<noteq> ''microsoft.authorization/roledefinitions'' then find_role_def rid rest
       else rbind (is_definition rid d) (\<lambda>b. if b then Inr (Some d) else find_role_def rid rest)))"

section \<open>The decision\<close>

fun perms_grant :: "string \<Rightarrow> string \<Rightarrow> pyval list \<Rightarrow> bool result" where
  "perms_grant ns meth [] = Inr False"
| "perms_grant ns meth (v # vs) =
     rbind (as_dict v) (\<lambda>perm.
     rbind (py_iter (dget perm ''actions'' (PList []))) (\<lambda>acts.
     rbind (any_true (action_val ns meth) acts) (\<lambda>granted.
       if \<not> granted then perms_grant ns meth vs
       else rbind (py_iter (dget perm ''notActions'' (PList []))) (\<lambda>nots.
            rbind (any_true (action_val ns meth) nots) (\<lambda>excluded.
              if excluded then perms_grant ns meth vs else Inr True)))))"

fun assignments_grant :: "pyval dict \<Rightarrow> string \<Rightarrow> string \<Rightarrow> pyval dict list \<Rightarrow> bool result" where
  "assignments_grant res ns meth [] = Inr False"
| "assignments_grant res ns meth (a # as) =
     rbind (props_of a) (\<lambda>props.
     rbind (find_role_def (py_str (get_str props ''roleDefinitionId'')) res) (\<lambda>rd.
       case rd of
         None \<Rightarrow> assignments_grant res ns meth as
       | Some d \<Rightarrow>
           if d = [] then assignments_grant res ns meth as
           else rbind (props_of d) (\<lambda>rp.
                rbind (py_iter (dget rp ''permissions'' (PList []))) (\<lambda>perms.
                rbind (perms_grant ns meth perms) (\<lambda>ok.
                  if ok then Inr True else assignments_grant res ns meth as)))))"

text \<open>Why a request is refused: no assignment at all, or none that grants it.\<close>

datatype rbac_denial = NoAssignments | NotGranted

definition azure_rbac_decide :: "pyval dict \<Rightarrow> string \<Rightarrow> string \<Rightarrow> string \<Rightarrow> rbac_denial option result" where
  "azure_rbac_decide res princ ns meth =
     rbind (role_assignments princ res) (\<lambda>ras.
       if ras = [] then Inr (Some NoAssignments)
       else rbind (assignments_grant res ns meth ras) (\<lambda>ok. Inr (if ok then None else Some NotGranted)))"

definition azure_rbac_enforcement_response ::
  "pyval dict \<Rightarrow> pyval dict \<Rightarrow> string \<Rightarrow> string \<Rightarrow> string \<Rightarrow> rbac_denial option" where
  "azure_rbac_enforcement_response space res header path meth =
     (let ns = azure_namespace_from_path path;
          princ = request_principal header space
      in if \<not> truthy (pget space ''enforce_rbac'') \<or> ns = [] \<or> princ = ''root'' then None
         else case azure_rbac_decide res princ ns meth of Inl _ \<Rightarrow> None | Inr d \<Rightarrow> d)"

section \<open>Built-in roles\<close>

definition builtin_role :: "string \<Rightarrow> string \<Rightarrow> string \<Rightarrow> string list \<Rightarrow> string list \<Rightarrow> pyval" where
  "builtin_role i name descr actions nots =
     PDict [(''id'', PStr i), (''name'', PStr name),
       (''properties'', PDict [(''roleName'', PStr name), (''type'', PStr ''BuiltInRole''), (''description'', PStr descr),
         (''permissions'', PList [PDict [(''actions'', PList (map PStr actions)), (''notActions'', PList (map PStr nots))]])])]"

definition BUILTIN_ROLES :: "pyval list" where
  "BUILTIN_ROLES =
     [builtin_role ''owner'' ''Owner'' ''Full access to all resources'' [''*''] [],
      builtin_role ''contributor'' ''Contributor'' ''Create and manage all resources, but cannot grant access'' [''*'']
        [''Microsoft.Authorization/*/Write'', ''Microsoft.Authorization/*/Delete''],
      builtin_role ''reader'' ''Reader'' ''View all resources'' [''*/read''] [],
      builtin_role ''vm-contributor'' ''Virtual Machine Contributor'' ''Manage VMs but not access'' [''Microsoft.Compute/*''] [],
      builtin_role ''storage-contributor'' ''Storage Account Contributor'' ''Manage storage accounts'' [''Microsoft.Storage/*''] [],
      builtin_role ''sql-contributor'' ''SQL DB Contributor'' ''Manage SQL databases'' [''Microsoft.Sql/*''] []]"

text \<open>An action with more than one segment after its namespace never matches: the request side is one of
  four words.\<close>

lemma action_suffix_no_slash: "CHR ''/'' \<notin> set (action_suffix meth)"
  by (auto simp: action_suffix_def dget_def)

lemma split_once_first:
  "CHR ''/'' \<notin> set a \<Longrightarrow> split_once ''/'' (a @ ''/'' @ b) = Some (a, b)"
  by (induction a) auto

lemma lower_slash: "CHR ''/'' \<in> set s \<Longrightarrow> CHR ''/'' \<in> set (lower s)"
  by (force simp: lower_def char_lower_def image_iff)

lemma deep_action_never_matches:
  assumes "CHR ''/'' \<notin> set p" and "CHR ''/'' \<in> set act" and "act \<noteq> ''*''"
  shows "\<not> azure_action_matches (p @ ''/'' @ act) ns meth"
proof -
  have "p @ ''/'' @ act \<noteq> ''*''" by (cases p) auto
  moreover have "lower act \<noteq> action_suffix meth" using lower_slash [OF assms(2)] action_suffix_no_slash by metis
  ultimately show ?thesis using assms(2,3) split_once_first [OF assms(1), of act]
    by (simp add: azure_action_matches_def)
qed

lemma contributor_nots:
  "\<not> azure_action_matches ''Microsoft.Authorization/*/Write'' ns meth"
  "\<not> azure_action_matches ''Microsoft.Authorization/*/Delete'' ns meth"
  using deep_action_never_matches [of "''Microsoft.Authorization''" "''*/Write''" ns meth]
    deep_action_never_matches [of "''Microsoft.Authorization''" "''*/Delete''" ns meth] by simp_all

definition contributor_perms :: "pyval list" where
  "contributor_perms =
     [PDict [(''actions'', PList [PStr ''*'']),
             (''notActions'', PList [PStr ''Microsoft.Authorization/*/Write'', PStr ''Microsoft.Authorization/*/Delete''])]]"

lemma contributor_grants: "perms_grant ns meth contributor_perms = Inr True"
  by (simp add: contributor_perms_def dget_def py_iter_def action_val_def contributor_nots)
     (simp add: azure_action_matches_def)

lemma role_assignments_has:
  assumes "(k, PDict d) \<in> set res" and "res_type d = Inr ''microsoft.authorization/roleassignments''"
    and "props_of d = Inr props" and "lower (py_str (get_str props ''principalId'')) = lower princ"
    and "role_assignments princ res = Inr ras"
  shows "d \<in> set ras"
  using assms(1,5)
proof (induction res arbitrary: ras)
  case (Cons kv res)
  obtain k' v where kv: "kv = (k', v)" by (cases kv)
  show ?case
  proof (cases "v = PDict d")
    case True
    with Cons.prems(2) kv assms(2-4) show ?thesis by (auto simp: rbind_Inr)
  next
    case False
    with Cons kv show ?thesis by (auto simp: rbind_Inr split: if_splits)
  qed
qed simp

lemma assignments_grant_has:
  assumes "a \<in> set as" and "props_of a = Inr props"
    and "find_role_def (py_str (get_str props ''roleDefinitionId'')) res = Inr (Some d)" and "d \<noteq> []"
    and "props_of d = Inr rp" and "py_iter (dget rp ''permissions'' (PList [])) = Inr perms"
    and "perms_grant ns meth perms = Inr True"
  shows "assignments_grant res ns meth as \<noteq> Inr False"
  using assms(1)
proof (induction as)
  case (Cons x as)
  show ?case
  proof (cases "x = a")
    case True
    with assms(2-7) show ?thesis by simp
  next
    case False
    with Cons have "assignments_grant res ns meth as \<noteq> Inr False" by simp
    then show ?thesis
      by (auto simp: rbind_def split: sum.splits option.splits if_splits)
  qed
qed simp

text \<open>The built-in Contributor excludes writing and deleting under Microsoft.Authorization, yet the
  exclusions never match a request: whoever holds the role passes the gate on every path with every
  method, so it may also create role assignments.\<close>

theorem azure_contributor_unrestricted:
  assumes "(k, PDict a) \<in> set res" and "res_type a = Inr ''microsoft.authorization/roleassignments''"
    and "props_of a = Inr props" and "pget props ''principalId'' = PStr princ"
    and "pget props ''roleDefinitionId'' = PStr ''Contributor''"
    and "find_role_def ''Contributor'' res = Inr (Some d)" and "d \<noteq> []"
    and "pget d ''properties'' = pget (dict_or_empty (BUILTIN_ROLES ! 1)) ''properties''"
    and "princ \<noteq> []"
  shows "azure_rbac_enforcement_response space res princ path meth = None"
proof -
  have p: "py_str (get_str props ''principalId'') = princ" and r: "py_str (get_str props ''roleDefinitionId'') = ''Contributor''"
    using assms(4,5) by (auto simp: get_str_def pget_def dget_def split: option.splits)
  obtain rp where rp: "props_of d = Inr rp" "py_iter (dget rp ''permissions'' (PList [])) = Inr contributor_perms"
    using assms(8) by (auto simp: BUILTIN_ROLES_def builtin_role_def props_of_def pget_def dget_def as_dict_def py_iter_def
        contributor_perms_def split: option.splits)
  have "azure_rbac_decide res princ ns meth \<noteq> Inr (Some e)" for ns e
  proof (cases "role_assignments princ res")
    case (Inr ras)
    have mem: "a \<in> set ras" by (rule role_assignments_has [OF assms(1-3) _ Inr]) (simp add: p)
    have "assignments_grant res ns meth ras \<noteq> Inr False"
      by (rule assignments_grant_has [OF mem assms(3) _ assms(7) rp contributor_grants]) (simp add: r assms(6))
    with Inr mem show ?thesis
      by (cases "assignments_grant res ns meth ras") (auto simp: azure_rbac_decide_def)
  qed (simp add: azure_rbac_decide_def)
  then show ?thesis using assms(9)
    by (auto simp: azure_rbac_enforcement_response_def request_principal_def Let_def split: sum.splits)
       (metis option.exhaust)+
qed

text \<open>An assignment that names its role by the resource id of the definition, as ARM clients do, finds no
  definition: the id is compared with a slash put in front of it.\<close>

definition plain_definition :: "pyval dict \<Rightarrow> bool" where
  "plain_definition d \<longleftrightarrow>
     (\<forall>props s. props_of d = Inr props \<longrightarrow> get_str props ''roleName'' = PStr s \<longrightarrow> CHR ''/'' \<notin> set s) \<and>
     (\<forall>s. get_str d ''name'' = PStr s \<longrightarrow> CHR ''/'' \<notin> set s) \<and>
     (\<forall>s. get_str d ''id'' = PStr s \<longrightarrow> \<not> sublist ''//'' (lower s))"

lemma lower_of_Inr: "lower_of v = Inr t \<longleftrightarrow> (\<exists>s. v = PStr s \<and> t = lower s)"
  by (auto simp: lower_of_def split: pyval.splits)

lemma char_lower_slash: "char_lower c = CHR ''/'' \<Longrightarrow> c = CHR ''/''"
proof -
  assume c: "char_lower c = CHR ''/''"
  show ?thesis
  proof (cases "65 \<le> (of_char c :: nat) \<and> (of_char c :: nat) \<le> 90")
    case True
    then have "(of_char (char_lower c) :: nat) = of_char c + 32" by (simp add: char_lower_def)
    with c True show ?thesis by simp
  qed (use c in \<open>auto simp: char_lower_def Let_def split: if_splits\<close>)
qed

lemma lower_no_slash: "CHR ''/'' \<notin> set s \<Longrightarrow> CHR ''/'' \<notin> set (lower s)"
  by (auto simp: lower_def dest: sym [THEN char_lower_slash])

lemma full_id_not_definition:
  assumes "plain_definition d" and "rid = CHR ''/'' # t"
  shows "is_definition rid d \<noteq> Inr True"
proof
  assume h: "is_definition rid d = Inr True"
  have l: "lower rid = CHR ''/'' # lower t" using assms(2) by (simp add: lower_def char_lower_def)
  obtain props rn where rn: "props_of d = Inr props" "get_str props ''roleName'' = PStr rn"
    using h by (auto simp: is_definition_def rbind_Inr lower_of_Inr)
  have 1: "lower rn \<noteq> lower rid" using assms(1) rn lower_no_slash l unfolding plain_definition_def by fastforce
  with h rn obtain nm where nm: "get_str d ''name'' = PStr nm"
    by (auto simp: is_definition_def rbind_Inr lower_of_Inr split: if_splits)
  have 2: "lower nm \<noteq> lower rid" using assms(1) nm lower_no_slash l unfolding plain_definition_def by fastforce
  from h rn nm 1 2 obtain i where i: "get_str d ''id'' = PStr i" "endswith (lower i) (''/'' @ lower rid)"
    by (auto simp: is_definition_def rbind_Inr lower_of_Inr split: if_splits)
  then have "sublist ''//'' (lower i)" using l by (auto simp: endswith_suffix suffix_def sublist_def)
  with assms(1) i show False by (auto simp: plain_definition_def)
qed

lemma full_id_finds_nothing:
  assumes "\<forall>(k, v)\<in>set res. \<forall>d. v = PDict d \<longrightarrow> res_type d = Inr ''microsoft.authorization/roledefinitions'' \<longrightarrow> plain_definition d"
    and "rid = CHR ''/'' # t"
  shows "find_role_def rid res \<noteq> Inr (Some d)"
  using assms(1)
proof (induction res)
  case (Cons kv res)
  obtain k v where kv: "kv = (k, v)" by (cases kv)
  with Cons have IH: "find_role_def rid res \<noteq> Inr (Some d)" by simp
  show ?case
  proof
    assume h: "find_role_def rid (kv # res) = Inr (Some d)"
    with kv IH obtain d' where "v = PDict d'" "res_type d' = Inr ''microsoft.authorization/roledefinitions''"
        "is_definition rid d' = Inr True"
      by (auto simp: rbind_Inr as_dict_def split: if_splits pyval.splits)
    with Cons.prems kv full_id_not_definition [OF _ assms(2)] show False by auto
  qed
qed simp

lemma assignments_none:
  assumes "\<forall>a\<in>set as. \<forall>props d. props_of a = Inr props \<longrightarrow>
      find_role_def (py_str (get_str props ''roleDefinitionId'')) res \<noteq> Inr (Some d)"
  shows "assignments_grant res ns meth as \<noteq> Inr True"
  using assms
proof (induction as)
  case (Cons a as)
  then show ?case by (auto simp: rbind_Inr split: option.splits)
qed simp

text \<open>So a principal all of whose assignments name their role that way is refused, whatever the role
  grants, unless reading the resources raises.\<close>

theorem azure_full_id_denied:
  assumes "\<forall>(k, v)\<in>set res. \<forall>d. v = PDict d \<longrightarrow> res_type d = Inr ''microsoft.authorization/roledefinitions'' \<longrightarrow> plain_definition d"
    and "role_assignments princ res = Inr ras"
    and "\<forall>a\<in>set ras. \<forall>props. props_of a = Inr props \<longrightarrow>
      (\<exists>t. py_str (get_str props ''roleDefinitionId'') = CHR ''/'' # t)"
  shows "azure_rbac_decide res princ ns meth \<noteq> Inr None"
proof -
  have "assignments_grant res ns meth ras \<noteq> Inr True"
    by (rule assignments_none) (use assms(3) full_id_finds_nothing [OF assms(1)] in fastforce)
  then show ?thesis using assms(2) by (auto simp: azure_rbac_decide_def rbind_Inr split: if_splits)
qed

section \<open>Instances\<close>

definition demo_resources :: "pyval dict" where
  "demo_resources =
     [(''/subscriptions/s/providers/microsoft.authorization/roledefinitions/contributor'',
       PDict [(''id'', PStr ''/subscriptions/s/providers/Microsoft.Authorization/roleDefinitions/contributor''),
         (''name'', PStr ''Contributor''), (''_type'', PStr ''Microsoft.Authorization/roleDefinitions''),
         (''properties'', pget (dict_or_empty (BUILTIN_ROLES ! 1)) ''properties'')]),
      (''/subscriptions/s/resourcegroups/g/providers/microsoft.authorization/roleassignments/a1'',
       PDict [(''_type'', PStr ''Microsoft.Authorization/roleAssignments''),
         (''properties'', PDict [(''principalId'', PStr ''carol''), (''roleDefinitionId'', PStr ''Contributor'')])])]"

definition demo_azure_space :: "pyval dict" where
  "demo_azure_space = [(''enforce_rbac'', PBool True)]"

theorem azure_contributor_unrestricted_witness:
  "azure_rbac_enforcement_response demo_azure_space demo_resources ''carol''
     ''/subscriptions/s/resourceGroups/g/providers/Microsoft.Authorization/roleAssignments/a2'' ''PUT'' = None \<and>
   azure_rbac_enforcement_response demo_azure_space demo_resources ''dave''
     ''/subscriptions/s/resourceGroups/g/providers/Microsoft.Authorization/roleAssignments/a2'' ''PUT'' = Some NoAssignments"
proof
  let ?props = "[(''principalId'', PStr ''carol''), (''roleDefinitionId'', PStr ''Contributor'')]"
  let ?a = "[(''_type'', PStr ''Microsoft.Authorization/roleAssignments''), (''properties'', PDict ?props)]"
  have res: "(''/subscriptions/s/resourcegroups/g/providers/microsoft.authorization/roleassignments/a1'', PDict ?a) \<in> set demo_resources"
    by (simp add: demo_resources_def)
  have ty: "res_type ?a = Inr ''microsoft.authorization/roleassignments''" "props_of ?a = Inr ?props"
    "pget ?props ''principalId'' = PStr ''carol''" "pget ?props ''roleDefinitionId'' = PStr ''Contributor''"
    by code_simp+
  let ?d = "dict_or_empty (snd (demo_resources ! 0))"
  have rd: "find_role_def ''Contributor'' demo_resources = Inr (Some ?d)" "?d \<noteq> []"
      "pget ?d ''properties'' = pget (dict_or_empty (BUILTIN_ROLES ! 1)) ''properties''"
    by code_simp+
  show "azure_rbac_enforcement_response demo_azure_space demo_resources ''carol''
     ''/subscriptions/s/resourceGroups/g/providers/Microsoft.Authorization/roleAssignments/a2'' ''PUT'' = None"
    by (rule azure_contributor_unrestricted [OF res ty rd]) simp
  show "azure_rbac_enforcement_response demo_azure_space demo_resources ''dave''
     ''/subscriptions/s/resourceGroups/g/providers/Microsoft.Authorization/roleAssignments/a2'' ''PUT'' = Some NoAssignments"
    by code_simp
qed

end
