(* ===== verification/Tenant_Rbac.thy ===== *)
theory Tenant_Rbac
imports Py_Strings "HOL-Library.List_Lexorder" "HOL-Library.Char_ord"
begin

text \<open>Grants between tenants (\<open>core/cross_tenant_rbac.py\<close>): a tenant lets another act on its resources
  with a role, for some services, until a date.  A grant is a record with the fields \<open>create_grant\<close>
  writes; \<open>uid\<close> is the hexadecimal part of its id and \<open>now\<close> the time, both arguments.\<close>

section \<open>Grants\<close>

record grant =
  g_id :: string
  g_grantor :: string
  g_grantee :: string
  g_role :: string
  g_services :: "pyval list"
  g_created :: string
  g_expires :: "string option"
  g_uses :: int
  g_last :: "string option"

definition ROLE_HIERARCHY :: "(string \<times> string list) list" where
  "ROLE_HIERARCHY =
     [(''viewer'', [''GET'', ''HEAD'', ''OPTIONS'']),
      (''operator'', [''GET'', ''HEAD'', ''OPTIONS'', ''POST'', ''PUT'', ''PATCH'']),
      (''admin'', [''GET'', ''HEAD'', ''OPTIONS'', ''POST'', ''PUT'', ''PATCH'', ''DELETE''])]"

text \<open>An empty tenant filters nothing.\<close>

definition list_grants :: "grant list \<Rightarrow> string \<Rightarrow> grant list" where
  "list_grants gs tid = (if tid \<noteq> [] then filter (\<lambda>g. g_grantor g = tid \<or> g_grantee g = tid) gs else gs)"

definition spec_services :: "pyval \<Rightarrow> pyval list" where
  "spec_services v = (case py_or v (PList [PStr ''*'']) of PList xs \<Rightarrow> xs | w \<Rightarrow> [PStr (py_str w)])"

definition spec_expiry :: "pyval \<Rightarrow> string option" where
  "spec_expiry v = (let s = py_str (py_or v (PStr [])) in if s = [] then None else Some s)"

definition create_grant ::
  "string \<Rightarrow> string \<Rightarrow> grant list \<Rightarrow> string \<Rightarrow> pyval dict \<Rightarrow> (grant list \<times> grant) result" where
  "create_grant uid now gs grantor spec =
     (let grantee = strip (str_field spec ''grantee_tenant'' []);
          role = lower (strip (str_field spec ''role'' ''viewer''))
      in if grantee = [] then Inl (ValueError ''grantee_tenant required'')
         else if grantee = grantor then Inl (ValueError ''cannot grant to self'')
         else if \<not> dhas ROLE_HIERARCHY role
         then Inl (ValueError ''role must be one of ['admin', 'operator', 'viewer']'')
         else let g = \<lparr>g_id = ''xtg-'' @ uid, g_grantor = grantor, g_grantee = grantee, g_role = role,
                        g_services = spec_services (pget spec ''services''), g_created = now,
                        g_expires = spec_expiry (pget spec ''expires_at''), g_uses = 0, g_last = None\<rparr>
              in Inr (gs @ [g], g))"

definition delete_grant :: "grant list \<Rightarrow> string \<Rightarrow> string \<Rightarrow> grant list \<times> bool" where
  "delete_grant gs gid requestor =
     (let rest = filter (\<lambda>g. \<not> (g_id g = gid \<and> g_grantor g = requestor)) gs in (rest, length rest < length gs))"

section \<open>The check\<close>

definition expired :: "string \<Rightarrow> grant \<Rightarrow> bool" where
  "expired now g = (case g_expires g of None \<Rightarrow> False | Some e \<Rightarrow> e < now)"

text \<open>An empty service asks for none in particular.\<close>

definition grant_services :: "grant \<Rightarrow> pyval list" where
  "grant_services g = (if g_services g = [] then [PStr ''*''] else g_services g)"

definition covers :: "string \<Rightarrow> string \<Rightarrow> string \<Rightarrow> string \<Rightarrow> string \<Rightarrow> grant \<Rightarrow> bool" where
  "covers now grantee target meth service g \<longleftrightarrow>
     g_grantor g = target \<and> g_grantee g = grantee \<and> \<not> expired now g \<and>
     meth \<in> set (dget ROLE_HIERARCHY (g_role g) []) \<and>
     (PStr ''*'' \<in> set (grant_services g) \<or> service = [] \<or> PStr service \<in> set (grant_services g))"

datatype xt_answer =
    Granted string string
  | SameTenant
  | Refused string

fun is_granted :: "xt_answer \<Rightarrow> bool" where
  "is_granted (Granted _ _) = True"
| "is_granted SameTenant = True"
| "is_granted (Refused _) = False"

text \<open>The first grant that covers the request counts the use.\<close>

fun use_first :: "(grant \<Rightarrow> bool) \<Rightarrow> string \<Rightarrow> grant list \<Rightarrow> (grant list \<times> grant) option" where
  "use_first P now [] = None"
| "use_first P now (g # gs) =
     (if P g then Some (g\<lparr>g_uses := g_uses g + 1, g_last := Some now\<rparr> # gs, g)
      else map_option (\<lambda>(gs', h). (g # gs', h)) (use_first P now gs))"

definition xt_check ::
  "string \<Rightarrow> grant list \<Rightarrow> string \<Rightarrow> string \<Rightarrow> string \<Rightarrow> string \<Rightarrow> grant list \<times> xt_answer" where
  "xt_check now gs grantee target meth0 service =
     (if grantee = [] \<or> target = [] then (gs, Refused ''missing tenant'')
      else if grantee = target then (gs, SameTenant)
      else let meth = upper meth0
           in case use_first (covers now grantee target meth service) now gs of
                Some (gs', g) \<Rightarrow> (gs', Granted (g_id g) (g_role g))
              | None \<Rightarrow> (gs, Refused (''no grant from '' @ target @ '' to '' @ grantee @ '' for '' @ meth @ '' '' @ service)))"

section \<open>Lemmas\<close>

text \<open>What the counters of a grant do not touch.\<close>

definition same_grant :: "grant \<Rightarrow> grant \<Rightarrow> bool" where
  "same_grant g h \<longleftrightarrow> h\<lparr>g_uses := g_uses g, g_last := g_last g\<rparr> = g"

lemma same_grant_refl [simp]: "same_grant g g"
  by (simp add: same_grant_def)

lemma use_first_None: "use_first P now gs = None \<longleftrightarrow> (\<forall>g\<in>set gs. \<not> P g)"
  by (induction gs) auto

lemma use_first_Some:
  "use_first P now gs = Some (gs', g) \<Longrightarrow> g \<in> set gs \<and> P g \<and> list_all2 same_grant gs gs'"
proof (induction gs arbitrary: gs')
  case (Cons h gs)
  show ?case
  proof (cases "P h")
    case True
    then show ?thesis using Cons.prems
      by (auto simp: same_grant_def list_all2_refl)
  next
    case False
    with Cons obtain gs1 where "use_first P now gs = Some (gs1, g)" "gs' = h # gs1" by auto
    with Cons.IH show ?thesis by auto
  qed
qed simp

lemma covers_same: "same_grant g h \<Longrightarrow> covers now a b m s g = covers now a b m s h"
  by (cases g; cases h) (simp add: same_grant_def covers_def expired_def grant_services_def)

lemma list_all2_same_ex:
  "list_all2 same_grant gs gs' \<Longrightarrow> (\<exists>g\<in>set gs. covers now a b m s g) = (\<exists>g\<in>set gs'. covers now a b m s g)"
  by (induction rule: list_all2_induct) (auto simp: covers_same)

lemma xt_check_granted_iff:
  "is_granted (snd (xt_check now gs a b m s)) \<longleftrightarrow>
     a \<noteq> [] \<and> b \<noteq> [] \<and> (a = b \<or> (\<exists>g\<in>set gs. covers now a b (upper m) s g))"
proof (cases "use_first (covers now a b (upper m) s) now gs")
  case None
  then show ?thesis using use_first_None [of "covers now a b (upper m) s" now gs]
    by (auto simp: xt_check_def)
next
  case (Some p)
  then show ?thesis using use_first_Some [of "covers now a b (upper m) s" now gs]
    by (cases p) (auto simp: xt_check_def)
qed

lemma xt_check_same: "list_all2 same_grant gs (fst (xt_check now gs a b m s))"
  using use_first_Some [of "covers now a b (upper m) s" now gs]
  by (auto simp: xt_check_def list_all2_refl Let_def split: option.splits)

lemma delete_grant_other:
  assumes "\<forall>h\<in>set gs. g_id h \<noteq> gid" and "g_id g = gid"
  shows "delete_grant (gs @ [g]) gid req = (if g_grantor g = req then (gs, True) else (gs @ [g], False))"
proof -
  have "filter (\<lambda>h. \<not> (g_id h = gid \<and> g_grantor h = req)) gs = gs" using assms(1) by (auto simp: filter_id_conv)
  then show ?thesis using assms(2) by (simp add: delete_grant_def Let_def)
qed

lemma create_grant_Inr:
  assumes "create_grant uid now gs grantor spec = Inr (gs1, g)"
  shows "gs1 = gs @ [g]" and "g_id g = ''xtg-'' @ uid" and "g_grantor g = grantor" and "g_grantee g \<noteq> grantor"
    and "g_grantee g \<noteq> []" and "dhas ROLE_HIERARCHY (g_role g)"
  using assms by (auto simp: create_grant_def Let_def split: if_splits)

text \<open>A new grant lets its grantee do exactly what it covers beside what was allowed before, and only to
  the grantor's resources; deleting it takes that away again, and nobody but the grantor can delete
  it.  Checks never change what is allowed, only the counters of the grant they use.\<close>

theorem xt_grant_lifecycle:
  assumes "create_grant uid now gs grantor spec = Inr (gs1, g)" and "\<forall>h\<in>set gs. g_id h \<noteq> ''xtg-'' @ uid"
  shows "(is_granted (snd (xt_check t gs1 a b m s)) \<longleftrightarrow>
            is_granted (snd (xt_check t gs a b m s)) \<or> (a \<noteq> [] \<and> b = grantor \<and> b \<noteq> [] \<and> covers t a b (upper m) s g)) \<and>
         (is_granted (snd (xt_check t (fst (xt_check t' gs1 a' b' m' s')) a b m s)) \<longleftrightarrow>
            is_granted (snd (xt_check t gs1 a b m s))) \<and>
         delete_grant gs1 (g_id g) who = (if who = grantor then (gs, True) else (gs1, False))"
proof (intro conjI)
  note g = create_grant_Inr [OF assms(1)]
  show "is_granted (snd (xt_check t gs1 a b m s)) \<longleftrightarrow>
     is_granted (snd (xt_check t gs a b m s)) \<or> (a \<noteq> [] \<and> b = grantor \<and> b \<noteq> [] \<and> covers t a b (upper m) s g)"
    by (auto simp: xt_check_granted_iff g(1)) (auto simp: covers_def g(3))
  show "is_granted (snd (xt_check t (fst (xt_check t' gs1 a' b' m' s')) a b m s)) \<longleftrightarrow>
     is_granted (snd (xt_check t gs1 a b m s))"
    using list_all2_same_ex [OF xt_check_same [where gs = gs1]] by (simp add: xt_check_granted_iff)
  show "delete_grant gs1 (g_id g) who = (if who = grantor then (gs, True) else (gs1, False))"
    using delete_grant_other [of gs "g_id g" g who] assms(2) g by auto
qed

text \<open>A role allows its methods only: a viewer never writes, an operator never deletes.\<close>

lemma granted_role_methods:
  assumes "xt_check now gs a b m s = (gs', Granted i r)"
  shows "upper m \<in> set (dget ROLE_HIERARCHY r [])"
  using assms use_first_Some [of "covers now a b (upper m) s" now gs]
  by (auto simp: xt_check_def Let_def covers_def split: if_splits option.splits)

definition demo_spec :: "pyval dict" where
  "demo_spec = [(''grantee_tenant'', PStr ''acme''), (''role'', PStr ''Operator''),
     (''services'', PList [PStr ''s3'']), (''expires_at'', PStr ''2030-01-01'')]"

theorem xt_grant_lifecycle_witness:
  "(case create_grant ''1a2b'' ''2026-01-01'' [] ''corp'' demo_spec of
      Inr (gs1, g) \<Rightarrow> is_granted (snd (xt_check ''2027-01-01'' gs1 ''acme'' ''corp'' ''put'' ''s3'')) \<and>
                     \<not> is_granted (snd (xt_check ''2027-01-01'' gs1 ''acme'' ''corp'' ''DELETE'' ''s3'')) \<and>
                     \<not> is_granted (snd (xt_check ''2031-01-01'' gs1 ''acme'' ''corp'' ''PUT'' ''s3'')) \<and>
                     delete_grant gs1 (g_id g) ''corp'' = ([], True) \<and> delete_grant gs1 (g_id g) ''acme'' = (gs1, False)
    | Inl _ \<Rightarrow> False)"
proof -
  obtain gs1 g where c: "create_grant ''1a2b'' ''2026-01-01'' [] ''corp'' demo_spec = Inr (gs1, g)"
    and cov: "covers ''2027-01-01'' ''acme'' ''corp'' (upper ''put'') ''s3'' g"
      "\<not> covers ''2027-01-01'' ''acme'' ''corp'' (upper ''DELETE'') ''s3'' g"
      "\<not> covers ''2031-01-01'' ''acme'' ''corp'' (upper ''PUT'') ''s3'' g"
    by (rule that [of "fst (projr (create_grant ''1a2b'' ''2026-01-01'' [] ''corp'' demo_spec))"
          "snd (projr (create_grant ''1a2b'' ''2026-01-01'' [] ''corp'' demo_spec))"]; code_simp)
  have e: "\<not> is_granted (snd (xt_check t [] ''acme'' ''corp'' m s))" for t m s by (simp add: xt_check_granted_iff)
  show ?thesis
    using xt_grant_lifecycle [OF c, of "''2027-01-01''" "''acme''" "''corp''" "''put''" "''s3''"]
      xt_grant_lifecycle [OF c, of "''2027-01-01''" "''acme''" "''corp''" "''DELETE''" "''s3''"]
      xt_grant_lifecycle [OF c, of "''2031-01-01''" "''acme''" "''corp''" "''PUT''" "''s3''"] e cov
    by (auto simp: c)
qed

end
