(* ===== verification/Rate_Limit.thy ===== *)
theory Rate_Limit
imports Py_Strings Complex_Main
begin

text \<open>The token bucket of \<open>core/middleware.py\<close> (and its copy in \<open>core/app_context.py\<close>): a bucket per
  tenant holds at most four seconds' worth of requests and refills at the tier's rate.  Times and
  tokens are rationals, so the rounding of Python's floats is left out; \<open>now\<close> is \<open>time.time()\<close>.\<close>

section \<open>The bucket\<close>

type_synonym buckets = "(rat \<times> rat) dict"

definition RATE_BURST_MULT :: rat where
  "RATE_BURST_MULT = 4"

definition rate_limit_tenant :: "string \<Rightarrow> int \<Rightarrow> rat \<Rightarrow> buckets \<Rightarrow> buckets \<times> bool \<times> rat" where
  "rate_limit_tenant tid rps now bks =
     (if rps \<le> 0 then (bks, True, 0)
      else let burst = of_int rps * RATE_BURST_MULT;
               (tokens0, since) = dget bks tid (burst, now);
               elapsed = now - since;
               tokens = min burst (tokens0 + elapsed * of_int rps)
           in if 1 \<le> tokens then (dset tid (tokens - 1, now) bks, True, 0)
              else (dset tid (tokens, now) bks, False, max (1 / 1000) ((1 - tokens) / of_int rps)))"

text \<open>A run of requests: tenant, rate of its tier and time of each.  The answers are in order.\<close>

fun rate_run :: "(string \<times> int \<times> rat) list \<Rightarrow> buckets \<Rightarrow> buckets \<times> bool list" where
  "rate_run [] bks = (bks, [])"
| "rate_run ((tid, rps, now) # rs) bks =
     (let (b1, ok, _) = rate_limit_tenant tid rps now bks; (b2, oks) = rate_run rs b1 in (b2, ok # oks))"

section \<open>One step\<close>

text \<open>What a tenant has at a time, before the request is charged.\<close>

definition level :: "string \<Rightarrow> int \<Rightarrow> rat \<Rightarrow> buckets \<Rightarrow> rat" where
  "level tid rps now bks =
     (case map_of bks tid of
        None \<Rightarrow> 4 * of_int rps
      | Some (tokens, since) \<Rightarrow> min (4 * of_int rps) (tokens + (now - since) * of_int rps))"

lemma rate_step:
  assumes "0 < rps"
  shows "rate_limit_tenant tid rps now bks =
    (if 1 \<le> level tid rps now bks then (dset tid (level tid rps now bks - 1, now) bks, True, 0)
     else (dset tid (level tid rps now bks, now) bks, False, max (1 / 1000) ((1 - level tid rps now bks) / of_int rps)))"
  using assms
  by (auto simp: rate_limit_tenant_def level_def RATE_BURST_MULT_def dget_def Let_def mult.commute split: option.split)

lemma rate_step_other:
  "t \<noteq> tid \<Longrightarrow> map_of (fst (rate_limit_tenant tid rps now bks)) t = map_of bks t"
  by (cases "0 < rps") (simp_all add: rate_step dict_simps, simp add: rate_limit_tenant_def)

lemma level_le: "level tid rps now bks \<le> 4 * of_int rps"
  by (auto simp: level_def split: option.split)

lemma level_later:
  assumes "now \<le> now'" and "0 < rps"
  shows "level tid rps now' (dset tid (x, now) bks) = min (4 * of_int rps) (x + (now' - now) * of_int rps)"
  by (simp add: level_def dict_simps)

lemma level_other: "t \<noteq> tid \<Longrightarrow> level tid rps now' (fst (rate_limit_tenant t r now bks)) = level tid rps now' bks"
  by (simp add: level_def rate_step_other)

text \<open>Over time a bucket gains at most what it refills, and never loses.\<close>

lemma level_grows:
  assumes "now \<le> now'" and "0 < rps"
  shows "level tid rps now' bks \<le> level tid rps now bks + (now' - now) * of_int rps"
    and "level tid rps now bks \<le> level tid rps now' bks"
proof -
  have d: "0 \<le> (now' - now) * of_int rps" using assms by simp
  have e: "(now' - t) * of_int rps = (now - t) * of_int rps + (now' - now) * of_int rps" for t
    by (simp add: algebra_simps)
  show "level tid rps now' bks \<le> level tid rps now bks + (now' - now) * of_int rps"
  proof (cases "map_of bks tid")
    case (Some p)
    obtain x t where p: "p = (x, t)" by (cases p)
    show ?thesis using d e [of t] by (simp only: level_def Some p option.case prod.case; linarith)
  qed (use d in \<open>simp add: level_def\<close>)
  show "level tid rps now bks \<le> level tid rps now' bks"
  proof (cases "map_of bks tid")
    case (Some p)
    obtain x t where p: "p = (x, t)" by (cases p)
    show ?thesis using d e [of t] by (simp only: level_def Some p option.case prod.case; linarith)
  qed (simp add: level_def)
qed

section \<open>Runs\<close>

definition admitted :: "string \<Rightarrow> (string \<times> int \<times> rat) list \<Rightarrow> buckets \<Rightarrow> nat" where
  "admitted tid rs bks = length (filter (\<lambda>((t, _, _), ok). t = tid \<and> ok) (zip rs (snd (rate_run rs bks))))"

lemma admitted_Nil [simp]: "admitted tid [] bks = 0"
  by (simp add: admitted_def)

lemma admitted_Cons:
  "admitted tid ((t, r, now) # rs) bks =
     (if t = tid \<and> fst (snd (rate_limit_tenant t r now bks)) then 1 else 0) +
     admitted tid rs (fst (rate_limit_tenant t r now bks))"
  by (cases "rate_limit_tenant t r now bks"; cases "rate_run rs (fst (rate_limit_tenant t r now bks))")
     (simp add: admitted_def)

lemma rate_run_fst:
  "fst (rate_run ((t, r, now) # rs) bks) = fst (rate_run rs (fst (rate_limit_tenant t r now bks)))"
  by (simp split: prod.splits)

text \<open>The requests a tenant is granted between two times, plus what is left, are paid for by the level at
  the first and the refill in between.\<close>

lemma admitted_level:
  assumes "0 < rps" and "sorted (map (\<lambda>(_, _, x). x) rs)" and "\<forall>(tn, r, x)\<in>set rs. t \<le> x \<and> x \<le> t1"
    and "\<forall>(tn, r, x)\<in>set rs. tn = tid \<longrightarrow> r = rps" and "t \<le> t1"
  shows "of_nat (admitted tid rs bks) \<le> max 0 (level tid rps t bks) + (t1 - t) * of_int rps"
  using assms(2-5)
proof (induction rs arbitrary: bks t)
  case Nil
  then show ?case using assms(1) by simp
next
  case (Cons rq rs)
  obtain tn r now where rq: "rq = (tn, r, now)" by (cases rq)
  have now: "t \<le> now" "now \<le> t1" and later: "\<forall>(tn, r, x)\<in>set rs. now \<le> x \<and> x \<le> t1"
    using Cons.prems rq by (auto split: prod.splits)
  let ?b = "fst (rate_limit_tenant tn r now bks)" and ?L = "level tid rps now bks"
  have IH: "of_nat (admitted tid rs ?b) \<le> max 0 (level tid rps now ?b) + (t1 - now) * of_int rps"
    by (rule Cons.IH) (use Cons.prems later now rq in auto)
  have grow: "?L \<le> level tid rps t bks + (now - t) * of_int rps" by (rule level_grows [OF now(1) assms(1)])
  have pos: "0 \<le> (now - t) * of_int rps" using now assms(1) by simp
  have split: "(t1 - t) * of_int rps = (now - t) * of_int rps + (t1 - now) * of_int rps" by (simp add: algebra_simps)
  show ?case
  proof (cases "tn = tid")
    case True
    then have r: "r = rps" using Cons.prems rq by auto
    have same: "level tid rps now (dset tid (x, now) bks) = min (4 * of_int rps) x" for x
      using level_later [of now now rps tid x bks] assms(1) by simp
    show ?thesis
      using IH grow pos split level_le [of tid rps now bks]
      by (simp add: rq True r admitted_Cons rate_step [OF assms(1)] same split: if_splits)
  next
    case False
    then show ?thesis
      using IH grow pos split by (simp add: rq admitted_Cons level_other)
  qed
qed

text \<open>C25. Whatever the other tenants do, a tenant is granted between two times at most four seconds' worth
  of requests plus what its rate allows for the time between them.\<close>

theorem rate_window_bound:
  assumes "0 < rps" and "sorted (map (\<lambda>(_, _, x). x) rs)" and "\<forall>(tn, r, x)\<in>set rs. t0 \<le> x \<and> x \<le> t1"
    and "\<forall>(tn, r, x)\<in>set rs. tn = tid \<longrightarrow> r = rps" and "t0 \<le> t1"
  shows "of_nat (admitted tid rs bks) \<le> (4 + (t1 - t0)) * of_int rps"
  using admitted_level [OF assms, of bks] level_le [of tid rps t0 bks] assms(1)
  by (simp add: algebra_simps max_def split: if_splits)

lemma level_run_other:
  "\<forall>(tn, _, _)\<in>set rs. tn \<noteq> tid \<Longrightarrow> level tid rps now (fst (rate_run rs bks)) = level tid rps now bks"
proof (induction rs arbitrary: bks)
  case (Cons rq rs)
  obtain tn r x where rq: "rq = (tn, r, x)" by (cases rq)
  show ?case using Cons.IH [of "fst (rate_limit_tenant tn r x bks)"] Cons.prems
    unfolding rq rate_run_fst by (simp add: level_other)
qed simp

text \<open>C28. A refused tenant is told how long to wait; after that time its next request is granted, however
  many requests other tenants make meanwhile.\<close>

theorem rate_retry_admitted:
  assumes "rate_limit_tenant tid rps now bks = (b1, False, wait)" and "now + wait \<le> now'"
    and "\<forall>(tn, r, x)\<in>set rs. tn \<noteq> tid"
  shows "fst (snd (rate_limit_tenant tid rps now' (fst (rate_run rs b1))))"
proof -
  have rps: "0 < rps" using assms(1) by (auto simp: rate_limit_tenant_def split: if_splits)
  then have r1: "1 \<le> (of_int rps :: rat)" by simp
  let ?L = "level tid rps now bks"
  have b1: "b1 = dset tid (?L, now) bks" and w: "(1 - ?L) / of_int rps \<le> wait" and L: "?L < 1" and w0: "0 < wait"
    using assms(1) by (auto simp: rate_step [OF rps] split: if_splits)
  have "1 - ?L \<le> wait * of_int rps" using w rps by (simp add: pos_divide_le_eq)
  also have "\<dots> \<le> (now' - now) * of_int rps" using assms(2) rps by (intro mult_right_mono) auto
  finally have "1 \<le> ?L + (now' - now) * of_int rps" by simp
  moreover have "level tid rps now' b1 = min (4 * of_int rps) (?L + (now' - now) * of_int rps)"
    unfolding b1 by (rule level_later) (use assms(2) w0 rps in auto)
  ultimately have "1 \<le> level tid rps now' b1" using r1 by simp
  then show ?thesis using rps level_run_other [of rs tid rps now' b1] assms(3)
    by (auto simp: rate_step)
qed

theorem rate_window_bound_witness:
  "of_nat (admitted ''acme'' [(''acme'', 5, 0), (''corp'', 5, 1), (''acme'', 5, 1), (''acme'', 5, 2)] []) \<le> (4 + (2 - 0)) * (of_int 5 :: rat)"
  by (rule rate_window_bound) auto

theorem rate_retry_admitted_witness:
  "fst (snd (rate_limit_tenant ''acme'' 5 (1/5) (fst (rate_run [(''corp'', 5, 1/10)] (dset ''acme'' (0, 0) [])))))"
proof (rule rate_retry_admitted)
  show "rate_limit_tenant ''acme'' 5 0 [(''acme'', (0, 0))] = (dset ''acme'' (0, 0) [], False, 1/5)"
    by (simp add: rate_limit_tenant_def RATE_BURST_MULT_def dget_def dset_def Let_def)
qed auto

end
