(* ===== verification/Capabilities.thy ===== *)
theory Capabilities
imports Tier_Policy Iam_Routes
begin

text \<open>Capability packs and the kernel's policy probe (\<open>core/cloudlearn_platform.py\<close>, \<open>core/pack_catalog.py\<close>):
  which pack a path needs, which packs a tier may use, activation, and the check the middleware makes
  of each request (\<open>server.py\<close>).  The packs are a dictionary of dynamic values by pack id.\<close>

section \<open>Packs of a tier\<close>

definition CORE_PACK_IDS :: "string list" where
  "CORE_PACK_IDS =
     [''cloudlearn.s3.basic'', ''cloudlearn.iam.basic'', ''cloudlearn.ec2.basic'',
      ''cloudlearn.awscli.basic'', ''cloudlearn.aws.sdk.java.basic'', ''cloudlearn.aws.sdk.go.basic'',
      ''cloudlearn.gcp.compute.basic'', ''cloudlearn.gcp.gcloud.basic'', ''cloudlearn.gcp.sdk.java.basic'',
      ''cloudlearn.gcp.sdk.go.basic'', ''cloudlearn.gcp.iam.basic'', ''cloudlearn.gcp.vpc.basic'',
      ''cloudlearn.gcp.cloudsql.basic'', ''cloudlearn.gcp.pubsub.basic'', ''cloudlearn.gcp.firestore.basic'',
      ''cloudlearn.gcp.functions.basic'', ''cloudlearn.gcp.apigateway.basic'', ''cloudlearn.gcp.storage.basic'',
      ''cloudlearn.vpc.basic'', ''cloudlearn.apigateway.basic'', ''cloudlearn.runtime.python'',
      ''cloudlearn.lambda.basic'', ''cloudlearn.sqs.basic'', ''cloudlearn.dynamodb.basic'',
      ''cloudlearn.cloudsim.basic'', ''cloudlearn.rds.basic'', ''cloudlearn.eventbridge.basic'',
      ''cloudlearn.secretsmanager.basic'', ''cloudlearn.kms.basic'', ''cloudlearn.gcp.eventarc.basic'',
      ''cloudlearn.gcp.secretmanager.basic'', ''cloudlearn.gcp.kms.basic'', ''cloudlearn.azure.vm.basic'',
      ''cloudlearn.azure.storage.basic'', ''cloudlearn.azure.sql.basic'', ''cloudlearn.azure.servicebus.basic'',
      ''cloudlearn.azure.cosmos.basic'', ''cloudlearn.azure.functionapp.basic'', ''cloudlearn.azure.apim.basic'',
      ''cloudlearn.azure.vnet.basic'', ''cloudlearn.azure.eventgrid.basic'', ''cloudlearn.azure.keyvault.basic'',
      ''cloudlearn.azure.rbac.basic'', ''cloudlearn.azure.azcli.basic'', ''cloudlearn.azure.sdk.java.basic'',
      ''cloudlearn.azure.sdk.go.basic'']"

definition locked_pack_substrings :: "string list" where
  "locked_pack_substrings = [''dynamodb'', ''firestore'', ''cosmos'', ''eventbridge'', ''eventarc'', ''eventgrid'']"

definition allowed_capabilities :: "string \<Rightarrow> string list" where
  "allowed_capabilities tier =
     (if normalize_tier tier = ''free''
      then filter (\<lambda>p. \<not> list_ex (\<lambda>s. contains s p) locked_pack_substrings) CORE_PACK_IDS
      else CORE_PACK_IDS)"

text \<open>The kernel checks the licence of the deployment.\<close>

definition check_license_for_pack :: "pyval dict \<Rightarrow> string \<Rightarrow> unit result" where
  "check_license_for_pack license pid =
     (if pid \<in> set (allowed_capabilities (py_str (dget license ''tier'' (PStr ''free'')))) then Inr ()
      else Inl (PermissionError ''CapabilityLockedByTier''))"

section \<open>Activation\<close>

definition activate_pack :: "string \<Rightarrow> string \<Rightarrow> pyval dict \<Rightarrow> pyval dict result" where
  "activate_pack now pid packs =
     (case map_of packs pid of
        None \<Rightarrow> Inl (KeyError pid)
      | Some v \<Rightarrow>
          rbind (as_dict v) (\<lambda>pack.
          rbind (as_dict (dget pack ''api'' (PDict []))) (\<lambda>api.
            if \<not> endswith (str_field api ''protocol'' []) ''-like''
            then Inl (ValueError ''PackRejected: missing provider-like API contract'')
            else if \<not> truthy (pget api ''actions'') \<or> \<not> truthy (pget api ''requestSchemas'') \<or>
                    \<not> truthy (pget api ''responseSchemas'')
            then Inl (ValueError ''PackRejected: incomplete API contract'')
            else Inr (dset pid (PDict (dset ''activated_at'' (PStr now)
                        (dset ''state'' (PStr ''active'') (dset ''active'' (PBool True) pack)))) packs))))"

section \<open>The pack of a path\<close>

definition capability_for_path :: "string \<Rightarrow> string option" where
  "capability_for_path path =
     (let starts = startswith_any path; has = (\<lambda>s. contains s path)
      in first_some
        [if path = ''/'' \<or> starts [''/ui'', ''/api/s3''] then Some ''cloudlearn.s3.basic'' else None,
         if starts [''/storage/v1/'', ''/api/gcp/storage/'', ''/api/gcp/s3''] then Some ''cloudlearn.gcp.storage.basic'' else None,
         if starts [''/api/iam''] then Some ''cloudlearn.iam.basic'' else None,
         if list_ex has ['':getIamPolicy'', '':setIamPolicy'', '':testIamPermissions'', ''/serviceAccounts''] \<or> starts [''/api/gcp/iam'']
         then Some ''cloudlearn.gcp.iam.basic'' else None,
         if starts [''/compute/v1'', ''/api/gcp/compute''] then Some ''cloudlearn.gcp.compute.basic'' else None,
         if starts [''/api/ec2''] then Some ''cloudlearn.ec2.basic'' else None,
         if starts [''/api/gcp/ec2''] then Some ''cloudlearn.gcp.compute.basic'' else None,
         if starts [''/api/vpc''] then Some ''cloudlearn.vpc.basic'' else None,
         if starts [''/compute/v1/projects/'', ''/api/gcp/vpc''] then Some ''cloudlearn.gcp.vpc.basic'' else None,
         if starts [''/api/spaces'', ''/api/cloudsim'', ''/api/federations''] then Some ''cloudlearn.cloudsim.basic'' else None,
         if starts [''/api/dynamodb'', ''/dynamodb''] then Some ''cloudlearn.dynamodb.basic'' else None,
         if starts [''/firestore/v1/'', ''/api/gcp/dynamodb''] then Some ''cloudlearn.gcp.firestore.basic'' else None,
         if starts [''/api/runtime''] then Some ''cloudlearn.runtime.python'' else None,
         if starts [''/api/deployments''] then Some ''cloudlearn.runtime.python'' else None,
         if starts [''/sql/v1beta4/'', ''/api/gcp/rds''] then Some ''cloudlearn.gcp.cloudsql.basic'' else None,
         if starts [''/pubsub/v1/'', ''/api/gcp/sqs''] then Some ''cloudlearn.gcp.pubsub.basic'' else None,
         if starts [''/api/gcp/lambda''] \<or> (starts [''/v1/projects/''] \<and> has ''/locations/'' \<and> has ''/functions'') \<or> has '':call''
         then Some ''cloudlearn.gcp.functions.basic'' else None,
         if starts [''/api/gcp/apigateway''] \<or> (starts [''/v1/projects/''] \<and> has ''/locations/'' \<and>
              list_ex has [''/apis'', ''/apiConfigs'', ''/gateways''])
         then Some ''cloudlearn.gcp.apigateway.basic'' else None])"

definition kernel_ensure_capability :: "string \<Rightarrow> pyval dict \<Rightarrow> pyval dict \<Rightarrow> string \<Rightarrow> pyval dict result" where
  "kernel_ensure_capability now license packs path =
     (case capability_for_path path of
        None \<Rightarrow> Inr packs
      | Some pid \<Rightarrow>
          rbind (check_license_for_pack license pid) (\<lambda>_.
            let v = pget packs pid
            in if \<not> truthy v then Inl (LookupError ''CapabilityPackMissing'')
               else rbind (as_dict v) (\<lambda>pack.
                      if truthy (pget pack ''active'') then Inr packs else activate_pack now pid packs)))"

text \<open>The wrapper the middleware calls answers 404 to a lookup error (a \<open>KeyError\<close> is one) and passes every
  other exception on.\<close>

definition ensure_capability :: "string \<Rightarrow> pyval dict \<Rightarrow> pyval dict \<Rightarrow> string \<Rightarrow> pyval dict result" where
  "ensure_capability now license packs path =
     (case kernel_ensure_capability now license packs path of
        Inl (LookupError _) \<Rightarrow> Inl (HTTPException 404 (PStr ''CapabilityPackMissing''))
      | Inl (KeyError _) \<Rightarrow> Inl (HTTPException 404 (PStr ''CapabilityPackMissing''))
      | r \<Rightarrow> r)"

section \<open>The policy probe\<close>

text \<open>The elements of an \<open>Action\<close> or \<open>Resource\<close>: a list, a string taken as a list of one, or an object.\<close>

definition as_actions :: "pyval \<Rightarrow> pyval list" where
  "as_actions v = (case v of PStr s \<Rightarrow> [PStr s] | PList xs \<Rightarrow> xs | PDict d \<Rightarrow> map (\<lambda>(k, _). PStr k) d | _ \<Rightarrow> [])"

definition statement_applies :: "string \<Rightarrow> string \<Rightarrow> pyval dict \<Rightarrow> bool" where
  "statement_applies action resource s \<longleftrightarrow>
     (PStr ''*'' \<in> set (as_actions (pget s ''Action'')) \<or> PStr action \<in> set (as_actions (pget s ''Action''))) \<and>
     (PStr ''*'' \<in> set (as_actions (pget s ''Resource'')) \<or> PStr resource \<in> set (as_actions (pget s ''Resource'')))"

definition policy_statements_of :: "pyval dict \<Rightarrow> (pyval dict) list" where
  "policy_statements_of policies =
     concat (map (\<lambda>(_, p).
       map dict_or_empty (filter is_dict (list_items (pget (dict_or_empty (pget (dict_or_empty p) ''document'')) ''Statement'')))) policies)"

definition evaluate_policy :: "pyval dict \<Rightarrow> string \<Rightarrow> string \<Rightarrow> bool" where
  "evaluate_policy policies action resource =
     (case find (statement_applies action resource) (policy_statements_of policies) of
        None \<Rightarrow> True
      | Some s \<Rightarrow> lower (py_str (dget s ''Effect'' (PStr ''Allow''))) \<noteq> ''deny'')"

section \<open>Properties\<close>

lemma locked_free:
  "pid \<in> set (allowed_capabilities tier) \<longleftrightarrow>
     pid \<in> set CORE_PACK_IDS \<and>
     (normalize_tier tier = ''free'' \<longrightarrow> \<not> list_ex (\<lambda>s. contains s pid) locked_pack_substrings)"
  by (auto simp: allowed_capabilities_def)

lemma activate_pack_Inr:
  assumes "activate_pack now pid packs = Inr packs'"
  shows "truthy (pget (dict_or_empty (pget packs' pid)) ''active'')"
    and "pget packs' pid \<noteq> PNone \<and> is_dict (pget packs' pid)"
    and "q \<noteq> pid \<Longrightarrow> map_of packs' q = map_of packs q"
  using assms
  by (auto simp: activate_pack_def rbind_Inr pget_def dict_simps is_dict_def split: option.splits if_splits)

text \<open>A request that passes the capability check leaves the pack of its path active and the others as they
  were, and the pack is one the tier of the deployment may use; checking again changes nothing.\<close>

theorem ensure_capability_activates:
  assumes "ensure_capability now license packs path = Inr packs'" and "capability_for_path path = Some pid"
  shows "pid \<in> set (allowed_capabilities (py_str (dget license ''tier'' (PStr ''free'')))) \<and>
    truthy (pget (dict_or_empty (pget packs' pid)) ''active'') \<and>
    (\<forall>q. q \<noteq> pid \<longrightarrow> map_of packs' q = map_of packs q) \<and>
    ensure_capability now' license packs' path = Inr packs'"
proof -
  have k: "kernel_ensure_capability now license packs path = Inr packs'"
    using assms(1) by (auto simp: ensure_capability_def split: sum.splits py_exc.splits)
  then have lic: "check_license_for_pack license pid = Inr ()"
    using assms(2) by (auto simp: kernel_ensure_capability_def rbind_Inr)
  from k obtain pack where pack: "pget packs pid = PDict pack"
    and step: "if truthy (pget pack ''active'') then packs' = packs else activate_pack now pid packs = Inr packs'"
    using assms(2) by (auto simp: kernel_ensure_capability_def rbind_Inr Let_def as_dict_def split: if_splits pyval.splits)
  have act: "truthy (pget (dict_or_empty (pget packs' pid)) ''active'')" "is_dict (pget packs' pid)"
    and frame: "\<forall>q. q \<noteq> pid \<longrightarrow> map_of packs' q = map_of packs q"
    using step activate_pack_Inr [of now pid packs packs'] pack by (auto simp: is_dict_def split: if_splits)
  from act(2) obtain pack' where p': "pget packs' pid = PDict pack'" by (auto simp: is_dict_def split: pyval.splits)
  moreover have t: "truthy (pget pack' ''active'')" using act(1) p' by simp
  moreover have "pack' \<noteq> []" using t by (auto simp: pget_def dget_def)
  ultimately have p': "pget packs' pid = PDict pack'" "truthy (pget pack' ''active'')" "pack' \<noteq> []" by auto
  have "kernel_ensure_capability now' license packs' path = Inr packs'"
    using assms(2) lic p' by (simp add: kernel_ensure_capability_def)
  then show ?thesis
    using act frame lic by (auto simp: ensure_capability_def check_license_for_pack_def split: if_splits)
qed

text \<open>The probe takes the first statement that applies: a denial after an allowing statement is not looked
  at, against the comment in the source.\<close>

theorem evaluate_policy_first:
  "evaluate_policy (p # ps) action resource =
     (case find (statement_applies action resource) (policy_statements_of [p]) of
        Some s \<Rightarrow> lower (py_str (dget s ''Effect'' (PStr ''Allow''))) \<noteq> ''deny''
      | None \<Rightarrow> evaluate_policy ps action resource)"
proof -
  have "find P (xs @ ys) = (case find P xs of Some x \<Rightarrow> Some x | None \<Rightarrow> find P ys)"
    for P :: "pyval dict \<Rightarrow> bool" and xs ys by (induction xs) auto
  then show ?thesis
    by (auto simp: evaluate_policy_def policy_statements_of_def split: option.splits prod.splits)
qed

text \<open>The VPC branch of the compute paths is never taken: the compute branch comes first.\<close>

lemma compute_paths_never_vpc:
  "startswith path ''/compute/v1/projects/'' \<Longrightarrow> capability_for_path path \<noteq> Some ''cloudlearn.gcp.vpc.basic''"
proof -
  assume p: "startswith path ''/compute/v1/projects/''"
  then have "startswith path ''/compute/v1''" by (auto simp: startswith_prefix prefix_def)
  then show ?thesis by (auto simp: capability_for_path_def Let_def startswith_any_def split: if_splits)
qed

end
