(* ===== verification/Sso_Config.thy ===== *)
theory Sso_Config
imports Py_Strings Complex_Main
begin

text \<open>Single sign-on of a tenant (\<open>core/sso_config.py\<close>): configuration against an identity provider and the
  validation of a bearer token.  The network and the cryptography are parameters: \<open>fetch\<close> is an HTTP GET
  of a JSON document, \<open>decode_json\<close> and \<open>decode\<close> are \<open>json.loads(_b64url_decode(s))\<close> and \<open>_b64url_decode(s)\<close>
  (\<open>None\<close> when they raise), \<open>rsa\<close> and \<open>ec\<close> the verification of a signature with a key of the key set.\<close>

section \<open>Configuration\<close>

definition conf_for :: "pyval dict dict \<Rightarrow> string \<Rightarrow> pyval dict" where
  "conf_for sso tid = dget sso tid [(''enabled'', PBool False)]"

definition get_config :: "pyval dict \<Rightarrow> pyval dict" where
  "get_config conf =
     dpop ''jwks'' (dset ''jwks_keys_count''
       (PInt (int (length (list_items (pget (dict_or_empty (pget conf ''jwks'')) ''keys''))))) conf)"

definition sso_configure ::
  "(string \<Rightarrow> pyval option) \<Rightarrow> string \<Rightarrow> pyval dict dict \<Rightarrow> string \<Rightarrow> pyval dict \<Rightarrow> (pyval dict dict \<times> pyval dict) result" where
  "sso_configure fetch now sso tid spec =
     (let conf = conf_for sso tid;
          discovery = strip (str_field spec ''idp_discovery_url'' []);
          issuer0 = strip (str_field spec ''issuer'' []);
          uri0 = strip (str_field spec ''jwks_uri'' [])
      in rbind (if discovery = [] then Inr (PStr issuer0, PStr uri0)
                else if \<not> startswith_any discovery [''http://'', ''https://'']
                then Inl (ValueError ''idp_discovery_url must be http(s)://'')
                else case fetch discovery of
                       Some (PDict doc) \<Rightarrow>
                         Inr (py_or (PStr issuer0) (py_or (pget doc ''issuer'') (PStr [])),
                              py_or (PStr uri0) (py_or (pget doc ''jwks_uri'') (PStr [])))
                     | _ \<Rightarrow> Inl (ValueError ''failed to fetch discovery doc''))
         (\<lambda>(issuer, uri).
           if \<not> truthy issuer \<or> \<not> truthy uri
           then Inl (ValueError ''issuer + jwks_uri required (or a working idp_discovery_url)'')
           else case fetch (py_str uri) of
                  None \<Rightarrow> Inl (ValueError ''failed to fetch JWKS'')
                | Some jwks \<Rightarrow>
                    let conf' = fold (\<lambda>(k, v). dset k v)
                          [(''enabled'', PBool True), (''configured_at'', PStr now), (''idp_discovery_url'', PStr discovery),
                           (''issuer'', issuer), (''jwks_uri'', uri), (''jwks'', jwks), (''jwks_fetched_at'', PStr now),
                           (''audience'', PStr (strip (str_field spec ''audience'' []))),
                           (''user_mapping'', PStr (lower (strip (str_field spec ''user_mapping'' ''email'')))),
                           (''default_role'', PStr (strip (str_field spec ''default_role'' ''user'')))] conf
                    in Inr (dset tid conf' sso, get_config conf')))"

definition sso_disable :: "string \<Rightarrow> pyval dict dict \<Rightarrow> string \<Rightarrow> pyval dict dict \<times> pyval dict" where
  "sso_disable now sso tid =
     (let conf' = dset ''disabled_at'' (PStr now) (dpop ''jwks'' (dset ''enabled'' (PBool False) (conf_for sso tid)))
      in (dset tid conf' sso, get_config conf'))"

section \<open>Signatures\<close>

text \<open>The key with the token's id, else the first key.\<close>

fun find_key :: "pyval \<Rightarrow> pyval list \<Rightarrow> pyval result" where
  "find_key kid [] = Inr PNone"
| "find_key kid (k # ks) = rbind (as_dict k) (\<lambda>d. if pget d ''kid'' = kid then Inr k else find_key kid ks)"

definition verify_signature ::
  "(pyval \<Rightarrow> string \<Rightarrow> string \<Rightarrow> bool) \<Rightarrow> (pyval \<Rightarrow> string \<Rightarrow> string \<Rightarrow> bool) \<Rightarrow> pyval \<Rightarrow> string \<Rightarrow> string \<Rightarrow> pyval \<Rightarrow> bool result" where
  "verify_signature rsa ec header input sig jwks =
     rbind (as_dict header) (\<lambda>h.
     rbind (as_dict (py_or jwks (PDict []))) (\<lambda>j.
       let alg = dget h ''alg'' (PStr []); kid = dget h ''kid'' (PStr []);
           keys = list_items (pget j ''keys'')
       in rbind (find_key kid keys) (\<lambda>found.
            let key = py_or found (if keys = [] then PNone else hd keys)
            in Inr (if \<not> truthy key then False
                    else if alg = PStr ''RS256'' then rsa key input sig
                    else if alg = PStr ''ES256'' then ec key input sig
                    else False))))"

section \<open>Tokens\<close>

datatype sso_answer =
    SsoOk "pyval dict" string
  | SsoBad string

definition audience_ok :: "pyval \<Rightarrow> pyval \<Rightarrow> bool" where
  "audience_ok expected aud =
     (\<not> truthy expected \<or> (case aud of PList xs \<Rightarrow> expected \<in> set xs | _ \<Rightarrow> aud = expected))"

definition check_claims :: "pyval dict \<Rightarrow> rat \<Rightarrow> pyval dict \<Rightarrow> sso_answer result" where
  "check_claims conf now claims =
     rbind (int_field claims ''exp'' 0) (\<lambda>expiry.
       if of_int expiry < now - 30 then Inr (SsoBad ''token_expired'')
       else rbind (int_field claims ''nbf'' 0) (\<lambda>nbf.
         if now + 30 < of_int nbf then Inr (SsoBad ''token_not_yet_valid'')
         else let iss = py_or (pget claims ''iss'') (PStr [])
              in if truthy (pget conf ''issuer'') \<and> iss \<noteq> pget conf ''issuer'' then Inr (SsoBad ''issuer_mismatch'')
                 else if \<not> audience_ok (py_or (pget conf ''audience'') (PStr [])) (py_or (pget claims ''aud'') (PStr []))
                 then Inr (SsoBad ''audience_mismatch'')
                 else let mapping = py_str (dget conf ''user_mapping'' (PStr ''email''))
                      in Inr (SsoOk claims (py_str (py_or (pget claims mapping)
                               (py_or (pget claims ''email'') (py_or (pget claims ''sub'') (PStr []))))))))"

definition validate_bearer ::
  "(string \<Rightarrow> pyval option) \<Rightarrow> (string \<Rightarrow> string option) \<Rightarrow> (pyval \<Rightarrow> string \<Rightarrow> string \<Rightarrow> bool) \<Rightarrow>
   (pyval \<Rightarrow> string \<Rightarrow> string \<Rightarrow> bool) \<Rightarrow> pyval dict \<Rightarrow> rat \<Rightarrow> string \<Rightarrow> sso_answer result" where
  "validate_bearer decode_json decode rsa ec conf now authz =
     (if \<not> truthy (pget conf ''enabled'') then Inr (SsoBad ''sso_not_configured'')
      else if \<not> startswith authz ''Bearer '' then Inr (SsoBad ''missing_bearer'')
      else case split_char (CHR ''.'') (strip (drop 7 authz)) of
        [p0, p1, p2] \<Rightarrow>
          (case (decode_json p0, decode_json p1, decode p2) of
             (Some header, Some claims, Some sig) \<Rightarrow>
               rbind (verify_signature rsa ec header (p0 @ ''.'' @ p1) sig (py_or (pget conf ''jwks'') (PDict []))) (\<lambda>ok.
                 if \<not> ok then Inr (SsoBad ''signature_invalid'')
                 else rbind (as_dict claims) (check_claims conf now))
           | _ \<Rightarrow> Inr (SsoBad ''decode_failed''))
      | _ \<Rightarrow> Inr (SsoBad ''malformed_jwt''))"

section \<open>What acceptance means\<close>

lemma find_key_mem: "find_key kid ks = Inr k \<Longrightarrow> k = PNone \<or> k \<in> set ks"
  by (induction ks) (auto simp: rbind_Inr split: if_splits)

lemma verify_signature_true:
  assumes "verify_signature rsa ec header input sig jwks = Inr True"
  shows "\<exists>h key. header = PDict h \<and> key \<in> set (list_items (pget (dict_or_empty jwks) ''keys'')) \<and>
    ((pget h ''alg'' = PStr ''RS256'' \<and> rsa key input sig) \<or> (pget h ''alg'' = PStr ''ES256'' \<and> ec key input sig))"
proof -
  from assms obtain h j found where h: "header = PDict h" and j: "py_or jwks (PDict []) = PDict j"
    and f: "find_key (dget h ''kid'' (PStr [])) (list_items (pget j ''keys'')) = Inr found"
    and v: "let key = py_or found (if list_items (pget j ''keys'') = [] then PNone else hd (list_items (pget j ''keys'')))
       in truthy key \<and> ((dget h ''alg'' (PStr []) = PStr ''RS256'' \<and> rsa key input sig) \<or>
                        (dget h ''alg'' (PStr []) = PStr ''ES256'' \<and> ec key input sig))"
    by (auto simp: verify_signature_def rbind_Inr Let_def as_dict_def split: pyval.splits if_splits)
  let ?ks = "list_items (pget j ''keys'')"
  let ?key = "py_or found (if ?ks = [] then PNone else hd ?ks)"
  have t: "truthy ?key" using v by (simp add: Let_def)
  have mem: "?key \<in> set ?ks"
    using t find_key_mem [OF f] by (auto simp: py_or_def split: if_splits)
  have ne: "?ks \<noteq> []" using mem by auto
  have jw: "dict_or_empty jwks = j"
    using j ne by (cases jwks) (auto simp: py_or_def dict_or_empty_def list_items_def pget_def dget_def split: if_splits)
  have alg: "dget h ''alg'' (PStr []) = PStr a \<Longrightarrow> a \<noteq> [] \<Longrightarrow> pget h ''alg'' = PStr a" for a
    by (auto simp: pget_def dget_def split: option.splits)
  show ?thesis using h mem v alg unfolding jw Let_def by fastforce
qed


text \<open>A token whose header is not a JSON object makes the validation raise instead of answer.\<close>

lemma sso_header_not_object:
  assumes "truthy (pget conf ''enabled'')" and "split_char (CHR ''.'') (strip (drop 7 authz)) = [p0, p1, p2]"
    and "startswith authz ''Bearer ''" and "decode_json p0 = Some header" and "\<not> is_dict header"
    and "decode_json p1 = Some cl" and "decode p2 = Some sig"
  shows "\<exists>e. validate_bearer decode_json decode rsa ec conf now authz = Inl e"
  using assms by (cases header) (auto simp: validate_bearer_def verify_signature_def as_dict_def is_dict_def)

text \<open>A decoder and a verifier for three fixed parts.\<close>

definition demo_conf :: "pyval dict" where
  "demo_conf = [(''enabled'', PBool True), (''issuer'', PStr ''https://idp''), (''audience'', PStr ''cloudlearn''),
     (''user_mapping'', PStr ''email''), (''jwks'', PDict [(''keys'', PList [PDict [(''kid'', PStr ''k1'')]])])]"

definition demo_claims :: "pyval dict" where
  "demo_claims = [(''iss'', PStr ''https://idp''), (''aud'', PStr ''cloudlearn''), (''exp'', PInt 2000), (''email'', PStr ''ann@x.org'')]"

definition demo_decode :: "string \<Rightarrow> pyval option" where
  "demo_decode s = (if s = ''h'' then Some (PDict [(''alg'', PStr ''RS256''), (''kid'', PStr ''k1'')])
                    else if s = ''c'' then Some (PDict demo_claims) else if s = ''l'' then Some (PList []) else None)"


end
