(* ===== verification/Cedar_Engine.thy ===== *)
theory Cedar_Engine
imports Py_Strings
begin

text \<open>The policy sets of the spaces, their evaluation and the compilation of provider policies to Cedar
  text (\<open>core/cedar_engine.py\<close>, \<open>core/cedar_routes.py\<close>).  The Cedar evaluator itself is the package
  \<open>cedarpy\<close>: a parameter, \<open>None\<close> when it is not installed, which answers \<open>None\<close> when it raises and
  otherwise its decision with a diagnostic text.\<close>

section \<open>Policy sets of a space\<close>

type_synonym cedarpy = "(string \<Rightarrow> string \<Rightarrow> string \<Rightarrow> pyval dict \<Rightarrow> string \<Rightarrow> (bool \<times> string) option) option"

definition nl :: string where
  "nl = [CHR 0x0A]"

definition quoted :: "string \<Rightarrow> string" where
  "quoted s = [CHR 0x22] @ s @ [CHR 0x22]"

definition set_policies :: "string \<Rightarrow> string \<Rightarrow> string dict \<Rightarrow> string dict" where
  "set_policies sid ps store = dset sid ps store"

definition get_policies :: "string \<Rightarrow> string dict \<Rightarrow> string" where
  "get_policies sid store = dget store sid []"

definition add_policy :: "string \<Rightarrow> string \<Rightarrow> string dict \<Rightarrow> string dict" where
  "add_policy sid p store = dset sid (strip (get_policies sid store @ nl @ p)) store"

definition clear_policies :: "string \<Rightarrow> string dict \<Rightarrow> string dict" where
  "clear_policies sid store = dpop sid store"

definition cedar_evaluate ::
  "cedarpy \<Rightarrow> string dict \<Rightarrow> string \<Rightarrow> string \<Rightarrow> string \<Rightarrow> string \<Rightarrow> pyval dict \<Rightarrow> bool \<times> string" where
  "cedar_evaluate engine store sid princ action resource context =
     (case engine of
        None \<Rightarrow> (True, ''cedar-not-installed'')
      | Some authorized \<Rightarrow>
          if strip (get_policies sid store) = [] then (True, ''no-policies'')
          else case authorized princ action resource context (get_policies sid store) of
                 Some (allowed, why) \<Rightarrow> (allowed, if why \<noteq> [] then why else if allowed then ''explicit-allow'' else ''default-deny'')
               | None \<Rightarrow> (True, ''cedar-error''))"

section \<open>Compilation\<close>

definition cedar_rule :: "string \<Rightarrow> string \<Rightarrow> string \<Rightarrow> string \<Rightarrow> string" where
  "cedar_rule directive princ action resource =
     directive @ ''('' @ nl @ ''  principal == '' @ princ @ '','' @ nl @ ''  action == '' @ action @ '','' @ nl
       @ ''  '' @ resource @ nl @ '');''"

text \<open>One action, then one resource after the other; the quotes of a resource are escaped, those of an
  action are not.\<close>

definition aws_rule :: "string \<Rightarrow> string \<Rightarrow> pyval \<Rightarrow> pyval \<Rightarrow> string result" where
  "aws_rule directive princ act res =
     (case res of
        PStr r \<Rightarrow>
          let r' = replace_char (CHR 0x22) [CHR 0x5C, CHR 0x22] r
          in Inr (cedar_rule directive princ (''Action::'' @ quoted (py_str act))
                   (if r = ''*'' then ''resource'' else ''resource == Resource::'' @ quoted r'))
      | _ \<Rightarrow> Inl (AttributeError ''replace''))"

definition one_or_many :: "pyval \<Rightarrow> pyval list result" where
  "one_or_many v = (case py_or v (PList []) of PStr s \<Rightarrow> Inr [PStr s] | w \<Rightarrow> py_iter w)"

definition aws_statement :: "string \<Rightarrow> pyval \<Rightarrow> string list result" where
  "aws_statement princ v =
     rbind (as_dict v) (\<lambda>st.
       case dget st ''Effect'' (PStr ''Deny'') of
         PStr eff \<Rightarrow>
           rbind (one_or_many (dget st ''Action'' (PList []))) (\<lambda>actions.
           rbind (one_or_many (dget st ''Resource'' (PList []))) (\<lambda>resources.
           rbind (rmap (\<lambda>a. rmap (aws_rule (if lower eff = ''allow'' then ''permit'' else ''forbid'') princ a) resources) actions)
             (\<lambda>rules. Inr (concat rules))))
       | _ \<Rightarrow> Inl (AttributeError ''lower''))"

definition aws_iam_json_to_cedar :: "pyval dict \<Rightarrow> string \<Rightarrow> string result" where
  "aws_iam_json_to_cedar doc princ =
     rbind (case py_or (dget doc ''Statement'' (PList [])) (PList []) of PDict d \<Rightarrow> Inr [PDict d] | w \<Rightarrow> py_iter w) (\<lambda>stmts.
     rbind (rmap (aws_statement princ) stmts) (\<lambda>rules. Inr (join (nl @ nl) (concat rules))))"

text \<open>\<open>kind, _, name = m.partition(":")\<close>: without a colon the whole text is the kind.\<close>

definition member_entity :: "string \<Rightarrow> string" where
  "member_entity m =
     (let (kind, name) = (case split_once '':'' m of Some p \<Rightarrow> p | None \<Rightarrow> (m, []))
      in dget [(''user'', ''User''), (''group'', ''Group''), (''serviceAccount'', ''ServiceAccount'')] kind ''User''
           @ ''::'' @ quoted name)"

definition gcp_binding_to_cedar :: "pyval dict \<Rightarrow> string result" where
  "gcp_binding_to_cedar binding =
     rbind (py_iter (py_or (dget binding ''members'' (PList [])) (PList []))) (\<lambda>ms.
     rbind (rmap (\<lambda>m. case m of
         PStr s \<Rightarrow> Inr (cedar_rule ''permit'' (member_entity s)
                     (''Action::'' @ quoted (py_str (dget binding ''role'' (PStr ''roles/viewer'')))) ''resource'')
       | _ \<Rightarrow> Inl (AttributeError ''partition'')) ms) (\<lambda>rules.
       Inr (join (nl @ nl) rules)))"

definition principal_kind :: "string \<Rightarrow> string" where
  "principal_kind ty = (if lower ty = ''user'' then ''User'' else if lower ty = ''group'' then ''Group'' else ''ServicePrincipal'')"

definition azure_rbac_to_cedar :: "pyval dict \<Rightarrow> string result" where
  "azure_rbac_to_cedar a =
     (case dget a ''principalType'' (PStr ''User'') of
        PStr ty \<Rightarrow>
          Inr (cedar_rule ''permit''
            (principal_kind ty @ ''::'' @ quoted (py_str (dget a ''principalId'' (PStr ''unknown''))))
            (''Action::'' @ quoted (py_str (py_or (pget a ''roleName'') (dget a ''roleDefinitionId'' (PStr ''Reader'')))))
            (''resource in Scope::'' @ quoted (py_str (dget a ''scope'' (PStr ''/'')))))
      | _ \<Rightarrow> Inl (AttributeError ''lower''))"

section \<open>The handlers\<close>

fun add_all :: "(pyval dict \<Rightarrow> string result) \<Rightarrow> string \<Rightarrow> pyval list \<Rightarrow> string dict \<Rightarrow> string dict \<times> unit result" where
  "add_all f sid [] store = (store, Inr ())"
| "add_all f sid (v # vs) store =
     (case rbind (as_dict v) f of
        Inl e \<Rightarrow> (store, Inl e)
      | Inr p \<Rightarrow> add_all f sid vs (add_policy sid p store))"

definition aws_doc :: "pyval dict \<Rightarrow> string result" where
  "aws_doc doc = aws_iam_json_to_cedar doc (py_str (dget doc ''__principal__'' (PStr (''User::'' @ quoted ''*''))))"

text \<open>The set of the active space is cleared first and refilled; a malformed policy stops half way.\<close>

definition add_key ::
  "(pyval dict \<Rightarrow> string result) \<Rightarrow> string \<Rightarrow> pyval dict \<Rightarrow> string \<Rightarrow> string dict \<times> unit result \<Rightarrow> string dict \<times> unit result" where
  "add_key f k body sid s =
     (case s of
        (store, Inl e) \<Rightarrow> (store, Inl e)
      | (store, Inr _) \<Rightarrow>
          if \<not> dhas body k then (store, Inr ())
          else case py_iter (pget body k) of
                 Inl e \<Rightarrow> (store, Inl e)
               | Inr vs \<Rightarrow> add_all f sid vs store)"

definition api_set_policies :: "string \<Rightarrow> pyval dict \<Rightarrow> string dict \<Rightarrow> string dict \<times> string result" where
  "api_set_policies sid body store =
     (let s0 = clear_policies sid store;
          s1 = (if dhas body ''policies'' then set_policies sid (py_str (pget body ''policies'')) s0 else s0);
          (s2, r) = add_key azure_rbac_to_cedar ''azure'' body sid
                      (add_key gcp_binding_to_cedar ''gcp'' body sid (add_key aws_doc ''aws'' body sid (s1, Inr ())))
      in (s2, rbind r (\<lambda>_. Inr (get_policies sid s2))))"

section \<open>Properties\<close>

text \<open>The policies of another space never enter a decision.\<close>

lemma get_policies_other:
  "sid' \<noteq> sid \<Longrightarrow> get_policies sid' (set_policies sid p store) = get_policies sid' store"
  "sid' \<noteq> sid \<Longrightarrow> get_policies sid' (add_policy sid p store) = get_policies sid' store"
  "sid' \<noteq> sid \<Longrightarrow> get_policies sid' (clear_policies sid store) = get_policies sid' store"
  by (simp_all add: get_policies_def set_policies_def add_policy_def clear_policies_def dget_def dict_simps)

lemma add_all_other: "sid' \<noteq> sid \<Longrightarrow> get_policies sid' (fst (add_all f sid vs store)) = get_policies sid' store"
  by (induction vs arbitrary: store) (auto simp: get_policies_other split: sum.splits)

lemma add_key_other:
  "sid' \<noteq> sid \<Longrightarrow> get_policies sid' (fst (add_key f k body sid s)) = get_policies sid' (fst s)"
  by (auto simp: add_key_def add_all_other split: sum.splits prod.splits)

lemma cedar_evaluate_cong:
  "get_policies sid s = get_policies sid s' \<Longrightarrow> cedar_evaluate e s sid p a r c = cedar_evaluate e s' sid p a r c"
  unfolding cedar_evaluate_def by (erule arg_cong)

theorem cedar_spaces_isolated:
  assumes "sid' \<noteq> sid"
  shows "cedar_evaluate engine (fst (api_set_policies sid body store)) sid' p a r c = cedar_evaluate engine store sid' p a r c"
  by (rule cedar_evaluate_cong)
     (simp add: api_set_policies_def Let_def case_prod_unfold add_key_other [OF assms] get_policies_other [OF assms])

text \<open>A member without a kind, \<open>allUsers\<close> or a bare address, is compiled into the user with the empty name.\<close>

lemma member_without_kind: "split_once '':'' m = None \<Longrightarrow> m \<notin> {''user'', ''group'', ''serviceAccount''} \<Longrightarrow>
    member_entity m = ''User::'' @ quoted []"
  by (auto simp: member_entity_def dget_def)

text \<open>The quotes of an action are copied as they are: an action can end the rule and begin another.\<close>

lemma action_injects:
  "aws_rule ''forbid'' p (PStr (''x'' @ [CHR 0x22] @ '',resource);permit(principal,action,resource);//'')) (PStr ''*'') =
     Inr (''forbid('' @ nl @ ''  principal == '' @ p @ '','' @ nl @ ''  action == Action::'' @ quoted ''x'' @
       '',resource);permit(principal,action,resource);//'' @ [CHR 0x22] @ '','' @ nl @ ''  resource'' @ nl @ '');'')"
  by (simp add: aws_rule_def cedar_rule_def quoted_def)

end
