(* ===== verification/Request_Gates.thy ===== *)
theory Request_Gates
imports Aws_Iam Azure_Rbac Tenant_Rbac Rate_Limit Capabilities Sso_Config Cedar_Engine
begin

text \<open>The way of a request through the middleware (\<open>core/middleware.py\<close>): Starlette runs the layers in the
  reverse of the order they are registered in, so the tier gate comes first, then the rate limit, the
  IAM and capability gate, the tenant context and last the provider gate, which also picks the cloud
  and the path the handler sees.  The two layers that refuse nothing (CORS and decompression) are left
  out.  A gate answers \<open>None\<close> to let the request pass.\<close>

section \<open>Requests\<close>

text \<open>Header names are in lower case, as Starlette matches them.\<close>

record http =
  ht_path :: string
  ht_method :: string
  ht_query :: "string list"
  ht_headers :: "string dict"

definition header :: "http \<Rightarrow> string \<Rightarrow> string" where
  "header h n = dget (ht_headers h) n []"

definition gcp_native_prefixes :: "string list" where
  "gcp_native_prefixes =
     [''/compute/v1/'', ''/storage/v1/'', ''/upload/storage/v1/'', ''/download/storage/v1/'', ''/sql/v1beta4/'',
      ''/pubsub/v1/'', ''/firestore/v1/'', ''/v1/projects/'', ''/v1/operations/'', ''/api/gcp/s3/'', ''/api/gcp/iam/'',
      ''/api/gcp/rds/'', ''/api/gcp/sqs/'', ''/api/gcp/dynamodb/'', ''/api/gcp/lambda/'', ''/api/gcp/apigateway/'',
      ''/api/gcp/vpc/'', ''/api/gcp/compute/'', ''/api/gcp/storage/'', ''/api/gcp/sql/'', ''/api/gcp/pubsub/'',
      ''/api/gcp/firestore/'', ''/api/gcp/cloudfunctions/'', ''/api/gcp/console/'', ''/api/gcp/catalog'',
      ''/api/gcp/extras/'', ''/api/gcp/extras-config/'']"

definition is_gcp_native_path :: "string \<Rightarrow> bool" where
  "is_gcp_native_path path = startswith_any path gcp_native_prefixes"

definition is_azure_native_path :: "string \<Rightarrow> bool" where
  "is_azure_native_path path = startswith_any path [''/subscriptions/'', ''/api/azure/'', ''/azure-data/'']"

text \<open>The service in the credential scope of an AWS signature: the search for
  \<open>Credential=[^/]+/\d+/[^/]+/(\w+)/aws4_request\<close>.\<close>

definition is_word_char :: "char \<Rightarrow> bool" where
  "is_word_char c \<longleftrightarrow> is_digit c \<or> c = CHR ''_'' \<or> (let n = (of_char c :: nat) in (65 \<le> n \<and> n \<le> 90) \<or> (97 \<le> n \<and> n \<le> 122))"

definition scope_at :: "string \<Rightarrow> string option" where
  "scope_at s =
     (if \<not> startswith s ''Credential='' then None
      else case split_char (CHR ''/'') (drop 11 s) of
        a # d # r # w # t # _ \<Rightarrow>
          if a \<noteq> [] \<and> d \<noteq> [] \<and> list_all is_digit d \<and> r \<noteq> [] \<and> w \<noteq> [] \<and> list_all is_word_char w \<and>
             startswith t ''aws4_request'' then Some w else None
      | _ \<Rightarrow> None)"

fun credential_service :: "string \<Rightarrow> string option" where
  "credential_service [] = None"
| "credential_service (c # s) = (case scope_at (c # s) of Some w \<Rightarrow> Some w | None \<Rightarrow> credential_service s)"

definition provided :: "bool \<Rightarrow> 'a \<Rightarrow> 'a option" where
  "provided b x = (if b then Some x else None)"

definition resolve_provider_service :: "http \<Rightarrow> string \<times> string" where
  "resolve_provider_service h =
     (let path = ht_path h; target = header h ''x-amz-target'';
          starts = startswith_any path; has = (\<lambda>s. contains s path);
          projects = starts [''/v1/projects/'']; arm = starts [''/subscriptions/'']; data = starts [''/azure-data/'']
      in case first_some
        [provided (starts [''/compute/v1/'']) (''gcp'', ''compute''),
         provided (starts [''/storage/v1/'', ''/upload/storage/v1/'', ''/download/storage/v1/'']) (''gcp'', ''storage''),
         provided (starts [''/sql/v1beta4/'']) (''gcp'', ''cloudsql''),
         provided (starts [''/pubsub/v1/'']) (''gcp'', ''pubsub''),
         provided (starts [''/firestore/v1/'']) (''gcp'', ''firestore''),
         provided (starts [''/api/gcp/apigateway/'']) (''gcp'', ''apigateway''),
         provided (projects \<and> (has ''/topics/'' \<or> has ''/subscriptions/'')) (''gcp'', ''pubsub''),
         provided (projects \<and> has ''/secrets/'') (''gcp'', ''secretmanager''),
         provided (projects \<and> (has ''/cryptoKeys/'' \<or> has ''/keyRings/'')) (''gcp'', ''kms''),
         provided (projects \<and> (has ''/triggers/'' \<or> has ''/channels/'')) (''gcp'', ''eventarc''),
         provided (projects \<and> has ''/functions/'') (''gcp'', ''functions''),
         provided (projects \<and> (has ''/serviceAccounts'' \<or> has ''/iamPolicies'' \<or> has '':getIamPolicy'')) (''gcp'', ''iam''),
         provided (projects \<and> (has ''/databases/'' \<or> has ''/documents/'')) (''gcp'', ''firestore''),
         provided (arm \<and> has ''/Microsoft.Compute/'') (''azure'', ''vm''),
         provided (arm \<and> has ''/Microsoft.Storage/'') (''azure'', ''storage''),
         provided (arm \<and> has ''/Microsoft.Sql/'') (''azure'', ''sql''),
         provided (arm \<and> has ''/Microsoft.DocumentDB/'') (''azure'', ''cosmos''),
         provided (arm \<and> has ''/Microsoft.Web/'') (''azure'', ''functionapp''),
         provided (arm \<and> has ''/Microsoft.ApiManagement/'') (''azure'', ''apim''),
         provided (arm \<and> has ''/Microsoft.Network/'') (''azure'', ''vnet''),
         provided (arm \<and> has ''/Microsoft.EventGrid/'') (''azure'', ''eventgrid''),
         provided (arm \<and> has ''/Microsoft.KeyVault/'') (''azure'', ''keyvault''),
         provided (arm \<and> has ''/Microsoft.ServiceBus/'') (''azure'', ''servicebus''),
         provided (arm \<and> has ''/Microsoft.Authorization/'') (''azure'', ''rbac''),
         provided (data \<and> has ''/keyvault/'') (''azure'', ''keyvault''),
         provided (data \<and> has ''/eventgrid/'') (''azure'', ''eventgrid''),
         provided (data \<and> has ''/servicebus/'') (''azure'', ''servicebus''),
         provided (data \<and> has ''/cosmos/'') (''azure'', ''cosmos''),
         provided (data \<and> has ''/blob/'') (''azure'', ''storage''),
         provided (data \<and> has ''/sql/'') (''azure'', ''sql''),
         provided (startswith target ''DynamoDB_'') (''aws'', ''dynamodb''),
         provided (startswith target ''TrentService.'') (''aws'', ''kms''),
         provided (startswith target ''secretsmanager.'') (''aws'', ''secretsmanager''),
         provided (startswith target ''AWSEvents.'') (''aws'', ''eventbridge''),
         provided (startswith target ''AmazonSQS.'') (''aws'', ''sqs''),
         map_option (\<lambda>w. (''aws'', lower w)) (credential_service (header h ''authorization''))]
      of Some r \<Rightarrow> r | None \<Rightarrow> ([], []))"

section \<open>The state and the environment of the gates\<close>

record platform =
  pf_state :: pstate
  pf_grants :: "grant list"
  pf_buckets :: buckets
  pf_packs :: "pyval dict"
  pf_iam :: iam_st
  pf_cedar :: "string dict"
  pf_sso :: "pyval dict dict"

text \<open>What a request meets that is not state: the clock as text and as a number, an identifier for a space
  created on the way, whether tiers are enforced, and the packages behind Cedar and the signatures.\<close>

record env =
  en_now :: string
  en_time :: rat
  en_rid :: string
  en_enforce :: bool
  en_cedar :: cedarpy
  en_decode_json :: "string \<Rightarrow> pyval option"
  en_decode :: "string \<Rightarrow> string option"
  en_rsa :: "pyval \<Rightarrow> string \<Rightarrow> string \<Rightarrow> bool"
  en_ec :: "pyval \<Rightarrow> string \<Rightarrow> string \<Rightarrow> bool"

datatype denial =
    XtDenied string
  | SsoDenied string
  | TierDenied "pyval dict"
  | CedarDenied string
  | RateLimited rat
  | IamDenied string string string
  | Raised py_exc
  | UnknownTenant string
  | AzureDenied rbac_denial
  | GcpDenied string

text \<open>The context variables before the tenant and provider layers have set them.\<close>

definition outside :: request where
  "outside = \<lparr>rq_provider = ''aws'', rq_tenant = []\<rparr>"

section \<open>The tier gate\<close>

definition acting_gate :: "env \<Rightarrow> http \<Rightarrow> platform \<Rightarrow> platform \<times> denial option" where
  "acting_gate en h pf =
     (let acting = strip (header h ''x-cloudlearn-acting-as-tenant'')
      in if acting = [] then (pf, None)
         else let (gs, answer) = xt_check (en_now en) (pf_grants pf) (active_tenant_id outside (pf_state pf)) acting
                                   (ht_method h) (snd (resolve_provider_service h))
              in (pf\<lparr>pf_grants := gs\<rparr>, case answer of Refused why \<Rightarrow> Some (XtDenied why) | _ \<Rightarrow> None))"

definition active_tenant :: "platform \<Rightarrow> pyval dict" where
  "active_tenant pf =
     (case tenant_dict (pf_state pf) (active_tenant_id outside (pf_state pf)) of Some t \<Rightarrow> t | None \<Rightarrow> [])"

definition gate_tier :: "platform \<Rightarrow> string" where
  "gate_tier pf =
     py_str (py_or (py_or (pget (active_tenant pf) ''license_tier'') (pget (st_license (pf_state pf)) ''tier'')) (PStr ''free''))"

text \<open>A token is validated when the tenant has single sign-on; an exception lets it pass.\<close>

definition sso_gate :: "env \<Rightarrow> http \<Rightarrow> platform \<Rightarrow> denial option" where
  "sso_gate en h pf =
     (let authz = header h ''authorization'';
          conf = dget (pf_sso pf) (active_tenant_id outside (pf_state pf)) []
      in if startswith authz ''Bearer '' \<and> active_tenant pf \<noteq> [] \<and> truthy (pget conf ''enabled'')
         then case validate_bearer (en_decode_json en) (en_decode en) (en_rsa en) (en_ec en) conf (en_time en) authz of
                Inr (SsoBad why) \<Rightarrow> Some (SsoDenied why)
              | _ \<Rightarrow> None
         else None)"

definition cedar_gate :: "env \<Rightarrow> http \<Rightarrow> platform \<Rightarrow> denial option" where
  "cedar_gate en h pf =
     (let sid = ss_active (st_spaces (pf_state pf));
          (prov, svc) = resolve_provider_service h;
          by_tier = truthy (pget (dict_or_empty (pget (policy_for (gate_tier pf)) ''features'')) ''cedar_enforcement'');
          by_space = strip (get_policies sid (pf_cedar pf)) \<noteq> []
      in if (by_tier \<or> by_space) \<and> sid \<noteq> []
         then let (allowed, why) = cedar_evaluate (en_cedar en) (pf_cedar pf) sid
                    (''User::'' @ quoted (active_tenant_id outside (pf_state pf)))
                    (''Action::'' @ quoted (prov @ '':'' @ svc @ '':'' @ ht_method h))
                    (''Resource::'' @ quoted (prov @ ''/'' @ svc))
                    [(''path'', PStr (ht_path h)), (''method'', PStr (ht_method h)), (''provider'', PStr prov), (''service'', PStr svc)]
              in if allowed then None else Some (CedarDenied why)
         else None)"

definition service_gate :: "http \<Rightarrow> platform \<Rightarrow> denial option" where
  "service_gate h pf =
     (let (prov, svc) = resolve_provider_service h;
          result = check_service (gate_tier pf) svc (py_str (py_or (pget (active_tenant pf) ''primary_cloud'') (PStr []))) prov
      in if truthy (pget result ''ok'') then None else Some (TierDenied result))"

definition tier_gate :: "env \<Rightarrow> http \<Rightarrow> platform \<Rightarrow> platform \<times> denial option" where
  "tier_gate en h pf =
     (case acting_gate en h pf of
        (pf1, Some d) \<Rightarrow> (pf1, Some d)
      | (pf1, None) \<Rightarrow>
          let (prov, svc) = resolve_provider_service h
          in if \<not> en_enforce en \<or> prov = [] \<or> svc = [] then (pf1, None)
             else (pf1, first_some [sso_gate en h pf1, service_gate h pf1, cedar_gate en h pf1]))"

section \<open>The rate limit, the capability gate\<close>

definition rate_bypass :: "string list" where
  "rate_bypass = [''/healthz'', ''/favicon.ico'', ''/static/'', ''/assets/'', ''/api/runtime/branding/'']"

definition rate_gate :: "env \<Rightarrow> http \<Rightarrow> platform \<Rightarrow> platform \<times> denial option" where
  "rate_gate en h pf =
     (if startswith_any (ht_path h) rate_bypass then (pf, None)
      else let (bks, ok, wait) = rate_limit_tenant (active_tenant_id outside (pf_state pf))
                 (rate_limit_rps (active_tier outside (pf_state pf))) (en_time en) (pf_buckets pf)
           in (pf\<lparr>pf_buckets := bks\<rparr>, if ok then None else Some (RateLimited wait)))"

definition native :: "string \<Rightarrow> bool" where
  "native path \<longleftrightarrow> is_gcp_native_path path \<or> is_azure_native_path path"

definition capability_gate :: "env \<Rightarrow> http \<Rightarrow> platform \<Rightarrow> platform \<times> denial option" where
  "capability_gate en h pf =
     (case iam_gate (pf_iam pf) native (ht_headers h)
             \<lparr>hq_path = ht_path h, hq_method = ht_method h, hq_query = ht_query h, hq_target = header h ''x-amz-target''\<rparr> of
        Inl e \<Rightarrow> (pf, Some (Raised e))
      | Inr (Some (action, resource, why)) \<Rightarrow> (pf, Some (IamDenied action resource why))
      | Inr None \<Rightarrow>
          case ensure_capability (en_now en) (st_license (pf_state pf)) (pf_packs pf) (ht_path h) of
            Inl e \<Rightarrow> (pf, Some (Raised e))
          | Inr packs \<Rightarrow> (pf\<lparr>pf_packs := packs\<rparr>, None))"

section \<open>The tenant and the provider\<close>

definition tenant_gate :: "http \<Rightarrow> platform \<Rightarrow> denial option" where
  "tenant_gate h pf =
     (let tid = strip (header h ''x-cloudlearn-tenant'')
      in if tid \<noteq> [] \<and> \<not> dhas (st_tenants (pf_state pf)) tid then Some (UnknownTenant tid) else None)"

definition compute_socket :: "string \<Rightarrow> bool" where
  "compute_socket path = startswith_any path [''/ws/gcp/compute/'', ''/ws/compute/'']"

definition request_provider :: "string \<Rightarrow> string" where
  "request_provider path =
     (if is_azure_native_path path then ''azure''
      else if is_gcp_native_path path \<or> compute_socket path then ''gcp'' else ''aws'')"

definition gcp_iam_proxy :: proxy where
  "gcp_iam_proxy = gcp_proxies ! 8"

definition active_space :: "platform \<Rightarrow> pyval dict" where
  "active_space pf =
     (let ss = st_spaces (pf_state pf) in if ss_active ss = [] then [] else dget (ss_spaces ss) (ss_active ss) [])"

text \<open>Reading the IAM store of the request's GCP space creates what is missing of it.\<close>

definition gcp_gate :: "env \<Rightarrow> http \<Rightarrow> request \<Rightarrow> platform \<Rightarrow> platform \<times> denial option" where
  "gcp_gate en h rq pf =
     (let space = active_space pf
      in if \<not> truthy (pget space ''enforce_iam'') \<or> permission_for_request (ht_path h) (ht_method h) = [] then (pf, None)
         else let policies = dict_or_empty (pget (target_get rq (en_rid en) (en_now en) gcp_iam_proxy (pf_state pf)) ''policies'')
              in (pf\<lparr>pf_state := target_upd rq (en_rid en) (en_now en) gcp_iam_proxy id (pf_state pf)\<rparr>,
                  map_option GcpDenied
                    (gcp_iam_enforcement_response space policies (header h ''x-cloudlearn-principal'') (ht_path h) (ht_method h))))"

definition azure_gate :: "http \<Rightarrow> platform \<Rightarrow> denial option" where
  "azure_gate h pf =
     (let space = active_space pf;
          resources = sub ''resources'' (sub ''azure_arm'' (sub ''service_states'' space))
      in map_option AzureDenied
           (azure_rbac_enforcement_response space resources (header h ''x-cloudlearn-principal'') (ht_path h) (ht_method h)))"

text \<open>The provider gate, and the path the handler sees.\<close>

definition alias_gate :: "env \<Rightarrow> http \<Rightarrow> request \<Rightarrow> platform \<Rightarrow> platform \<times> denial option" where
  "alias_gate en h rq pf =
     (let path = ht_path h
      in if is_azure_native_path path then (pf, if startswith path ''/api/azure/'' then None else azure_gate h pf)
         else if is_gcp_native_path path \<or> compute_socket path
         then if startswith_any path [''/ws/'', ''/api/gcp/console/''] then (pf, None) else gcp_gate en h rq pf
         else (pf, None))"

definition handler_path :: "string \<Rightarrow> string" where
  "handler_path path =
     (if \<not> native path \<and> \<not> compute_socket path \<and> startswith path ''/api/gcp/'' then ''/api/'' @ drop (length ''/api/gcp/'') path
      else path)"

section \<open>The whole way\<close>

datatype fate =
    Stopped denial
  | Reaches request string

fun run_gates :: "(http \<Rightarrow> platform \<Rightarrow> platform \<times> denial option) list \<Rightarrow> http \<Rightarrow> platform \<Rightarrow> platform \<times> denial option" where
  "run_gates [] h pf = (pf, None)"
| "run_gates (g # gs) h pf = (case g h pf of (pf1, Some d) \<Rightarrow> (pf1, Some d) | (pf1, None) \<Rightarrow> run_gates gs h pf1)"

definition outer_gates :: "env \<Rightarrow> http \<Rightarrow> platform \<Rightarrow> platform \<times> denial option" where
  "outer_gates en = run_gates [tier_gate en, rate_gate en, capability_gate en]"

definition request_context :: "http \<Rightarrow> request" where
  "request_context h =
     \<lparr>rq_provider = request_provider (ht_path h), rq_tenant = strip (header h ''x-cloudlearn-tenant'')\<rparr>"

definition process :: "env \<Rightarrow> http \<Rightarrow> platform \<Rightarrow> platform \<times> fate" where
  "process en h pf =
     (case outer_gates en h pf of
        (pf1, Some d) \<Rightarrow> (pf1, Stopped d)
      | (pf1, None) \<Rightarrow>
          case tenant_gate h pf1 of
            Some d \<Rightarrow> (pf1, Stopped d)
          | None \<Rightarrow>
              case alias_gate en h (request_context h) pf1 of
                (pf2, Some d) \<Rightarrow> (pf2, Stopped d)
              | (pf2, None) \<Rightarrow> (pf2, Reaches (request_context h) (handler_path (ht_path h))))"

section \<open>What the gates depend on\<close>

definition with_header :: "string \<Rightarrow> string \<Rightarrow> http \<Rightarrow> http" where
  "with_header n v h = h\<lparr>ht_headers := dset n v (ht_headers h)\<rparr>"

lemma with_header_simps [simp]:
  "ht_path (with_header n v h) = ht_path h" "ht_method (with_header n v h) = ht_method h"
  "ht_query (with_header n v h) = ht_query h"
  "header (with_header n v h) m = (if m = n then v else header h m)"
  by (simp_all add: with_header_def header_def dict_simps)

text \<open>Headers the outer gates look at; the tenant header is none of them.\<close>

definition gate_headers :: "string list" where
  "gate_headers =
     [''x-cloudlearn-acting-as-tenant'', ''x-amz-target'', ''authorization'', ''x-cloudlearn-principal'', ''x-cloudlearn-user'',
      ''x-cloudlearn-role'', ''x-principal'']"

lemma resolve_with_header:
  "n \<notin> {''x-amz-target'', ''authorization''} \<Longrightarrow> resolve_provider_service (with_header n v h) = resolve_provider_service h"
proof -
  assume "n \<notin> {''x-amz-target'', ''authorization''}"
  then have "header (with_header n v h) ''x-amz-target'' = header h ''x-amz-target''"
    and "header (with_header n v h) ''authorization'' = header h ''authorization''" by auto
  then show ?thesis unfolding resolve_provider_service_def with_header_simps(1) by metis
qed

lemma principal_with_header:
  "n \<notin> set gate_headers \<Longrightarrow> iam_principal_from_request (ht_headers (with_header n v h)) = iam_principal_from_request (ht_headers h)"
proof -
  assume n: "n \<notin> set gate_headers"
  have "dget (dset n v (ht_headers h)) m [] = dget (ht_headers h) m []" if "m \<in> set gate_headers" for m
    using n that by (auto simp: dget_def dict_simps)
  then show ?thesis by (simp add: iam_principal_from_request_def with_header_def gate_headers_def)
qed

lemma outer_gates_with_header:
  assumes "n \<notin> set gate_headers"
  shows "outer_gates en (with_header n v h) pf = outer_gates en h pf"
proof -
  have n: "n \<noteq> ''x-cloudlearn-acting-as-tenant''" "n \<noteq> ''x-amz-target''" "n \<noteq> ''authorization''"
    using assms by (auto simp: gate_headers_def)
  have r: "resolve_provider_service (with_header n v h) = resolve_provider_service h"
    by (rule resolve_with_header) (use n in simp)
  have a: "acting_gate en (with_header n v h) = acting_gate en h"
    and s: "sso_gate en (with_header n v h) = sso_gate en h"
    and v: "service_gate (with_header n v h) = service_gate h"
    and c: "cedar_gate en (with_header n v h) = cedar_gate en h"
    using n
    unfolding fun_eq_iff acting_gate_def sso_gate_def service_gate_def cedar_gate_def r with_header_simps
    by simp_all
  have "tier_gate en (with_header n v h) = tier_gate en h"
    unfolding fun_eq_iff tier_gate_def a s v c r by simp
  moreover have "rate_gate en (with_header n v h) = rate_gate en h"
    by (simp add: fun_eq_iff rate_gate_def)
  moreover have "capability_gate en (with_header n v h) = capability_gate en h"
    using n unfolding fun_eq_iff capability_gate_def iam_gate_def principal_with_header [OF assms] with_header_simps
    by simp
  ultimately show ?thesis by (simp add: outer_gates_def)
qed

text \<open>The outer gates leave tenants, spaces and stores alone.\<close>

lemma acting_gate_state: "pf_state (fst (acting_gate en h pf)) = pf_state pf"
  by (auto simp: acting_gate_def Let_def split: prod.splits)

lemma tier_gate_state: "pf_state (fst (tier_gate en h pf)) = pf_state pf"
  using acting_gate_state [of en h pf] by (auto simp: tier_gate_def Let_def split: prod.splits option.splits)

lemma rate_gate_state: "pf_state (fst (rate_gate en h pf)) = pf_state pf"
  by (auto simp: rate_gate_def split: prod.splits)

lemma capability_gate_state: "pf_state (fst (capability_gate en h pf)) = pf_state pf"
  by (auto simp: capability_gate_def split: sum.splits option.splits)

text \<open>A chain of gates none of which touches a part of the platform: neither does the chain, however far the
  request gets.\<close>

locale gate_chain =
  fixes gates :: "(http \<Rightarrow> platform \<Rightarrow> platform \<times> denial option) list"
    and part :: "platform \<Rightarrow> 'v"
  assumes keeps: "g \<in> set gates \<Longrightarrow> part (fst (g h pf)) = part pf"
begin

lemma run_sub: "set gs \<subseteq> set gates \<Longrightarrow> part (fst (run_gates gs h pf)) = part pf"
proof (induction gs arbitrary: pf)
  case (Cons g gs)
  obtain pf1 d where g: "g h pf = (pf1, d)" by (cases "g h pf")
  have "part (fst (g h pf)) = part pf" by (rule keeps) (use Cons.prems in simp)
  then show ?case using Cons g by (auto split: option.splits)
qed simp

lemma run_keeps: "run_gates gates h pf = (pf1, d) \<Longrightarrow> part pf1 = part pf"
  using run_sub [of gates h pf] by simp

end

interpretation outer_state: gate_chain "[tier_gate en, rate_gate en, capability_gate en]" pf_state for en
  by unfold_locales (auto simp: tier_gate_state rate_gate_state capability_gate_state)

lemma acting_gate_rules: "pf_cedar (fst (acting_gate en h pf)) = pf_cedar pf \<and> pf_sso (fst (acting_gate en h pf)) = pf_sso pf \<and>
    pf_iam (fst (acting_gate en h pf)) = pf_iam pf"
  by (auto simp: acting_gate_def Let_def split: prod.splits)

definition rules_of :: "platform \<Rightarrow> iam_st \<times> string dict \<times> pyval dict dict" where
  "rules_of pf = (pf_iam pf, pf_cedar pf, pf_sso pf)"

interpretation outer_rules: gate_chain "[tier_gate en, rate_gate en, capability_gate en]" rules_of for en
proof unfold_locales
  fix g h pf
  assume "g \<in> set [tier_gate en, rate_gate en, capability_gate en]"
  then show "rules_of (fst (g h pf)) = rules_of pf"
    using acting_gate_rules [of en h pf]
    by (auto simp: rules_of_def tier_gate_def rate_gate_def capability_gate_def Let_def
        split: prod.splits option.splits sum.splits)
qed

lemma outer_gates_state: "outer_gates en h pf = (pf1, d) \<Longrightarrow> pf_state pf1 = pf_state pf"
  unfolding outer_gates_def by (rule outer_state.run_keeps)

lemma outer_gates_rules: "outer_gates en h pf = (pf1, d) \<Longrightarrow> rules_of pf1 = rules_of pf"
  unfolding outer_gates_def by (rule outer_rules.run_keeps)

lemma active_space_cong: "pf_state pf1 = pf_state pf \<Longrightarrow> active_space pf1 = active_space pf"
  by (simp add: active_space_def)

lemma alias_gate_open:
  assumes "\<not> truthy (pget (active_space pf) ''enforce_iam'')"
  shows "alias_gate en (with_header ''x-cloudlearn-tenant'' t h) rq pf = alias_gate en h rq' pf"
  using assms by (simp add: alias_gate_def azure_gate_def gcp_gate_def Let_def)

text \<open>C3. The tenant header is read after the tier, the rate limit, single sign-on, Cedar and IAM have
  been checked: a request that reaches its handler for the active tenant reaches it for any other
  known tenant too, whatever the tier and the settings of that tenant, with everything charged to
  the active one.\<close>

theorem tenant_header_unchecked:
  assumes "process en h pf = (pf', Reaches rq path)" and "dhas (st_tenants (pf_state pf)) (strip t)"
    and "\<not> truthy (pget (active_space pf) ''enforce_iam'')"
  shows "process en (with_header ''x-cloudlearn-tenant'' t h) pf = (pf', Reaches (rq\<lparr>rq_tenant := strip t\<rparr>) path)"
proof -
  let ?h = "with_header ''x-cloudlearn-tenant'' t h"
  have outer: "outer_gates en ?h pf = outer_gates en h pf"
    by (rule outer_gates_with_header) (simp add: gate_headers_def)
  obtain pf1 where pf1: "outer_gates en h pf = (pf1, None)"
    using assms(1) by (auto simp: process_def split: prod.splits option.splits)
  then have st: "pf_state pf1 = pf_state pf" by (rule outer_gates_state)
  have open_space: "\<not> truthy (pget (active_space pf1) ''enforce_iam'')" using assms(3) active_space_cong [OF st] by simp
  have "tenant_gate ?h pf1 = None" using assms(2) st by (simp add: tenant_gate_def)
  moreover have "alias_gate en ?h (request_context ?h) pf1 = alias_gate en h (request_context h) pf1"
    by (rule alias_gate_open [OF open_space])
  moreover have "request_context ?h = (request_context h)\<lparr>rq_tenant := strip t\<rparr>" by (simp add: request_context_def)
  ultimately show ?thesis
    using assms(1) pf1 outer by (auto simp: process_def split: prod.splits option.splits)
qed

section \<open>What reaching the handler means\<close>

lemma run_gates_passed:
  "run_gates (g # gs) h pf = (pf', None) \<Longrightarrow> \<exists>pf1. g h pf = (pf1, None) \<and> run_gates gs h pf1 = (pf', None)"
  by (auto split: prod.splits option.splits)

lemma outer_passed:
  assumes "outer_gates en h pf = (pf', None)"
  shows "\<exists>pf1 pf2. tier_gate en h pf = (pf1, None) \<and> rate_gate en h pf1 = (pf2, None) \<and> capability_gate en h pf2 = (pf', None)"
proof -
  obtain pf1 where 1: "tier_gate en h pf = (pf1, None)" "run_gates [rate_gate en, capability_gate en] h pf1 = (pf', None)"
    using run_gates_passed assms unfolding outer_gates_def by blast
  obtain pf2 where 2: "rate_gate en h pf1 = (pf2, None)" "run_gates [capability_gate en] h pf2 = (pf', None)"
    using run_gates_passed [OF 1(2)] by blast
  obtain pf3 where 3: "capability_gate en h pf2 = (pf3, None)" "run_gates [] h pf3 = (pf', None)"
    using run_gates_passed [OF 2(2)] by blast
  then show ?thesis using 1 2 by simp
qed

lemma first_some_None: "first_some xs = None \<longleftrightarrow> (\<forall>x\<in>set xs. x = None)"
  by (induction xs rule: first_some.induct) auto

definition acting_ok :: "env \<Rightarrow> http \<Rightarrow> platform \<Rightarrow> bool" where
  "acting_ok en h pf \<longleftrightarrow>
     (let acting = strip (header h ''x-cloudlearn-acting-as-tenant'')
      in acting = [] \<or> is_granted (snd (xt_check (en_now en) (pf_grants pf) (active_tenant_id outside (pf_state pf)) acting
           (ht_method h) (snd (resolve_provider_service h)))))"

lemma acting_gate_None: "acting_gate en h pf = (pf1, None) \<longleftrightarrow> acting_ok en h pf \<and> pf1 = fst (acting_gate en h pf)"
  by (auto simp: acting_gate_def acting_ok_def Let_def split: prod.splits xt_answer.splits)

lemma gates_same_state:
  assumes "pf_state pf1 = pf_state pf"
  shows "service_gate h pf1 = service_gate h pf"
    and "pf_sso pf1 = pf_sso pf \<Longrightarrow> sso_gate en h pf1 = sso_gate en h pf"
    and "pf_cedar pf1 = pf_cedar pf \<Longrightarrow> cedar_gate en h pf1 = cedar_gate en h pf"
proof -
  have t: "active_tenant pf1 = active_tenant pf" "gate_tier pf1 = gate_tier pf"
    using assms by (simp_all add: active_tenant_def gate_tier_def)
  show "service_gate h pf1 = service_gate h pf" unfolding service_gate_def t ..
  show "sso_gate en h pf1 = sso_gate en h pf" if e: "pf_sso pf1 = pf_sso pf" unfolding sso_gate_def t assms e ..
  show "cedar_gate en h pf1 = cedar_gate en h pf" if e: "pf_cedar pf1 = pf_cedar pf" unfolding cedar_gate_def t assms e ..
qed

text \<open>C2. A request reaches its handler only when every check has passed: the grant it acts under covers it,
  its service is in the tier of the active tenant, its token and the space's Cedar policies allow it,
  the tenant's bucket held a token, IAM authorises it, the pack of its path could be activated, and
  the tenant it names exists.\<close>

theorem reaches_means_checked:
  assumes "process en h pf = (pf', Reaches rq path)"
  shows "acting_ok en h pf \<and>
    (en_enforce en \<longrightarrow> fst (resolve_provider_service h) \<noteq> [] \<longrightarrow> snd (resolve_provider_service h) \<noteq> [] \<longrightarrow>
       service_gate h pf = None \<and> sso_gate en h pf = None \<and> cedar_gate en h pf = None) \<and>
    (startswith_any (ht_path h) rate_bypass \<or>
       1 \<le> level (active_tenant_id outside (pf_state pf)) (rate_limit_rps (active_tier outside (pf_state pf))) (en_time en) (pf_buckets pf)
       \<or> rate_limit_rps (active_tier outside (pf_state pf)) \<le> 0) \<and>
    iam_gate (pf_iam pf) native (ht_headers h)
      \<lparr>hq_path = ht_path h, hq_method = ht_method h, hq_query = ht_query h, hq_target = header h ''x-amz-target''\<rparr> = Inr None \<and>
    (\<exists>packs. ensure_capability (en_now en) (st_license (pf_state pf)) (pf_packs pf) (ht_path h) = Inr packs) \<and>
    (rq_tenant rq = [] \<or> dhas (st_tenants (pf_state pf)) (rq_tenant rq)) \<and> rq = request_context h"
proof -
  obtain pf3 where outer: "outer_gates en h pf = (pf3, None)" and ten: "tenant_gate h pf3 = None" and rq: "rq = request_context h"
    using assms by (auto simp: process_def split: prod.splits option.splits)
  obtain pf1 pf2 where t: "tier_gate en h pf = (pf1, None)" and r: "rate_gate en h pf1 = (pf2, None)"
    and c: "capability_gate en h pf2 = (pf3, None)" using outer_passed [OF outer] by blast
  obtain pf0 where a: "acting_gate en h pf = (pf0, None)"
    using t by (auto simp: tier_gate_def split: prod.splits option.splits)
  then have ok: "acting_ok en h pf" by (simp add: acting_gate_None)
  have same: "pf_state pf0 = pf_state pf" "pf_cedar pf0 = pf_cedar pf" "pf_sso pf0 = pf_sso pf"
    using acting_gate_state [of en h pf] acting_gate_rules [of en h pf] a by simp_all
  have b0: "pf_buckets pf0 = pf_buckets pf \<and> pf_packs pf0 = pf_packs pf \<and> pf_iam pf0 = pf_iam pf"
    using a by (auto simp: acting_gate_def Let_def split: if_splits prod.splits)
  have tier: "en_enforce en \<longrightarrow> fst (resolve_provider_service h) \<noteq> [] \<longrightarrow> snd (resolve_provider_service h) \<noteq> [] \<longrightarrow>
       service_gate h pf = None \<and> sso_gate en h pf = None \<and> cedar_gate en h pf = None" and pf1: "pf1 = pf0"
    using t a gates_same_state [of pf0 pf] same
    by (auto simp: tier_gate_def Let_def first_some_None split: prod.splits if_splits)
  let ?tid = "active_tenant_id outside (pf_state pf)" and ?rps = "rate_limit_rps (active_tier outside (pf_state pf))"
  have rate: "startswith_any (ht_path h) rate_bypass \<or> 1 \<le> level ?tid ?rps (en_time en) (pf_buckets pf) \<or> ?rps \<le> 0"
    using r pf1 same b0 rate_step [of ?rps ?tid "en_time en" "pf_buckets pf"]
    by (auto simp: rate_gate_def split: if_splits prod.splits)
  have p2: "pf_state pf2 = pf_state pf" "pf_packs pf2 = pf_packs pf" "pf_iam pf2 = pf_iam pf"
    using r pf1 same b0 by (auto simp: rate_gate_def split: if_splits prod.splits)
  have cap: "iam_gate (pf_iam pf) native (ht_headers h)
      \<lparr>hq_path = ht_path h, hq_method = ht_method h, hq_query = ht_query h, hq_target = header h ''x-amz-target''\<rparr> = Inr None"
    "\<exists>packs. ensure_capability (en_now en) (st_license (pf_state pf)) (pf_packs pf) (ht_path h) = Inr packs"
    using c p2 by (auto simp: capability_gate_def split: sum.splits option.splits)
  have "rq_tenant rq = [] \<or> dhas (st_tenants (pf_state pf)) (rq_tenant rq)"
    using ten outer_gates_state [OF outer] rq by (auto simp: tenant_gate_def request_context_def Let_def split: if_splits)
  with ok tier rate cap rq show ?thesis by blast
qed

text \<open>Acting as another tenant changes nothing: when the grant covers the request, what follows is what
  would follow without the header, for the caller's own tenant; only the grant's counters differ.\<close>

theorem acting_as_no_effect:
  assumes "acting_ok en h pf"
  shows "process en h pf =
    process en (with_header ''x-cloudlearn-acting-as-tenant'' [] h) (pf\<lparr>pf_grants := pf_grants (fst (acting_gate en h pf))\<rparr>)"
proof -
  let ?n = "''x-cloudlearn-acting-as-tenant''"
  let ?h = "with_header ?n [] h"
  obtain pf0 where a: "acting_gate en h pf = (pf0, None)" using assms acting_gate_None [of en h pf] by auto
  have pf: "pf\<lparr>pf_grants := pf_grants (fst (acting_gate en h pf))\<rparr> = pf0"
    using a by (auto simp: acting_gate_def Let_def split: prod.splits if_splits)
  have r: "resolve_provider_service ?h = resolve_provider_service h" by (rule resolve_with_header) simp
  have hd: "header ?h m = header h m" if "m \<noteq> ?n" for m using that by simp
  have a': "acting_gate en ?h q = (q, None)" for q by (simp add: acting_gate_def)
  have s: "sso_gate en ?h q = sso_gate en h q" "service_gate ?h q = service_gate h q" "cedar_gate en ?h q = cedar_gate en h q" for q
    unfolding sso_gate_def service_gate_def cedar_gate_def r with_header_simps(1-3) by (simp_all add: hd)
  have t: "tier_gate en ?h pf0 = tier_gate en h pf"
    unfolding tier_gate_def a a' r s by simp
  have ra: "rate_gate en ?h = rate_gate en h" by (simp add: fun_eq_iff rate_gate_def)
  have pr: "iam_principal_from_request (ht_headers ?h) = iam_principal_from_request (ht_headers h)"
    using hd by (simp add: iam_principal_from_request_def header_def)
  have tg: "header ?h ''x-amz-target'' = header h ''x-amz-target''" by simp
  have ca: "capability_gate en ?h = capability_gate en h"
    unfolding fun_eq_iff capability_gate_def iam_gate_def with_header_simps(1-3) pr tg by simp
  have o: "outer_gates en ?h pf0 = outer_gates en h pf"
    by (simp add: outer_gates_def t ra ca)
  have pc: "header ?h ''x-cloudlearn-principal'' = header h ''x-cloudlearn-principal''" by simp
  have az: "azure_gate ?h = azure_gate h" and gc: "gcp_gate en ?h = gcp_gate en h"
    unfolding fun_eq_iff azure_gate_def gcp_gate_def with_header_simps(1-3) pc by simp_all
  have al: "alias_gate en ?h = alias_gate en h"
    unfolding fun_eq_iff alias_gate_def with_header_simps(1-3) az gc by simp
  have te: "tenant_gate ?h = tenant_gate h" "request_context ?h = request_context h"
    by (simp_all add: fun_eq_iff tenant_gate_def request_context_def)
  show ?thesis unfolding pf process_def o te al with_header_simps(1-3) by simp
qed

end
