(* ===== verification/Gate_Examples.thy ===== *)
theory Gate_Examples
imports Request_Gates
begin

text \<open>Concrete requests through the gates: the instances of the properties of \<open>Request_Gates\<close>.\<close>

definition demo_env :: env where
  "demo_env = \<lparr>en_now = ''2026-01-01'', en_time = 0, en_rid = ''0a1b'', en_enforce = True, en_cedar = None,
     en_decode_json = (\<lambda>_. None), en_decode = (\<lambda>_. None), en_rsa = (\<lambda>_ _ _. False), en_ec = (\<lambda>_ _ _. False)\<rparr>"

definition demo_platform :: platform where
  "demo_platform =
     \<lparr>pf_state = \<lparr>st_spaces = \<lparr>ss_spaces = [(''s1'', [(''space_id'', PStr ''s1''), (''provider'', PStr ''aws''),
                    (''tenant_id'', PStr ''corp'')])], ss_active = ''s1'', ss_settings = []\<rparr>,
        st_tenants = [(''corp'', [(''license_tier'', PStr ''enterprise'')]), (''tiny'', [(''license_tier'', PStr ''free'')])],
        st_active_tenant = ''corp'', st_license = [(''tier'', PStr ''enterprise'')], st_services = []\<rparr>,
      pf_grants = [\<lparr>g_id = ''xtg-1'', g_grantor = ''tiny'', g_grantee = ''corp'', g_role = ''operator'',
        g_services = [PStr ''*''], g_created = ''2025-01-01'', g_expires = None, g_uses = 0, g_last = None\<rparr>],
      pf_buckets = [],
      pf_packs = [(''cloudlearn.dynamodb.basic'', PDict [(''active'', PBool True)])],
      pf_iam = empty_iam,
      pf_cedar = [], pf_sso = []\<rparr>"

definition demo_request :: http where
  "demo_request = \<lparr>ht_path = ''/dynamodb'', ht_method = ''POST'', ht_query = [],
     ht_headers = [(''x-amz-target'', ''DynamoDB_20120810.ListTables'')]\<rparr>"

lemma demo_reaches:
  "process demo_env demo_request demo_platform =
     (fst (process demo_env demo_request demo_platform), Reaches \<lparr>rq_provider = ''aws'', rq_tenant = []\<rparr> ''/dynamodb'')"
  by code_simp

text \<open>A request for the tenant on the free tier is served with a service that tier lacks.\<close>

theorem tenant_header_unchecked_witness:
  "snd (process demo_env (with_header ''x-cloudlearn-tenant'' ''tiny'' demo_request) demo_platform) =
     Reaches \<lparr>rq_provider = ''aws'', rq_tenant = ''tiny''\<rparr> ''/dynamodb'' \<and>
   \<not> truthy (pget (check_service ''free'' ''dynamodb'' [] ''aws'') ''ok'')"
proof -
  have "dhas (st_tenants (pf_state demo_platform)) (strip ''tiny'')"
    and "\<not> truthy (pget (active_space demo_platform) ''enforce_iam'')"
    and s: "strip ''tiny'' = ''tiny''" and d: "\<not> truthy (pget (check_service ''free'' ''dynamodb'' [] ''aws'') ''ok'')"
    by code_simp+
  from tenant_header_unchecked [OF demo_reaches this(1,2)] s d show ?thesis by simp
qed

theorem reaches_means_checked_witness:
  "service_gate demo_request demo_platform = None \<and> sso_gate demo_env demo_request demo_platform = None \<and>
   iam_gate empty_iam native (ht_headers demo_request)
     \<lparr>hq_path = ''/dynamodb'', hq_method = ''POST'', hq_query = [], hq_target = ''DynamoDB_20120810.ListTables''\<rparr> = Inr None"
proof -
  have "resolve_provider_service demo_request = (''aws'', ''dynamodb'')" "en_enforce demo_env"
    "pf_iam demo_platform = empty_iam" "header demo_request ''x-amz-target'' = ''DynamoDB_20120810.ListTables''"
    "ht_path demo_request = ''/dynamodb''" "ht_method demo_request = ''POST''" "ht_query demo_request = []"
    by code_simp+
  with reaches_means_checked [OF demo_reaches] show ?thesis by simp
qed

text \<open>A tenant that acts as another with a grant is served in its own name.\<close>

theorem acting_as_no_effect_witness:
  "snd (process demo_env (with_header ''x-cloudlearn-acting-as-tenant'' ''tiny'' demo_request) demo_platform) =
     Reaches \<lparr>rq_provider = ''aws'', rq_tenant = []\<rparr> ''/dynamodb''"
proof -
  let ?h = "with_header ''x-cloudlearn-acting-as-tenant'' ''tiny'' demo_request"
  have "acting_ok demo_env ?h demo_platform" by code_simp
  from acting_as_no_effect [OF this] show ?thesis by (simp only:) code_simp
qed

end
