(* ===== verification/Py_Json.thy ===== *)
theory Py_Json
imports Py_Strings "HOL-Library.List_Lexorder" "HOL-Library.Char_ord"
begin

text \<open>\<open>json.dumps\<close> on the dynamic values: strings with non-ASCII characters escaped, the separators of the
  call, keys sorted on demand; and \<open>json.loads\<close>, with the theorem that it reads back what
  \<open>dumps\<close> printed.  A string is a sequence of Latin-1 characters, so an escape of a code point above 255
  is outside the model and reads as an error; a float keeps its text.\<close>

section \<open>Strings\<close>

definition hex_digit :: "nat \<Rightarrow> char" where
  "hex_digit n = ''0123456789abcdef'' ! (n mod 16)"

text \<open>Printable ASCII is copied except for the quote and the backslash.\<close>

definition json_char :: "char \<Rightarrow> string" where
  "json_char c =
     (let n = (of_char c :: nat)
      in if c = CHR 0x22 then [CHR 0x5C, CHR 0x22]
         else if c = CHR 0x5C then [CHR 0x5C, CHR 0x5C]
         else if 32 \<le> n \<and> n \<le> 126 then [c]
         else if n = 10 then [CHR 0x5C, CHR ''n'']
         else if n = 13 then [CHR 0x5C, CHR ''r'']
         else if n = 9 then [CHR 0x5C, CHR ''t'']
         else if n = 12 then [CHR 0x5C, CHR ''f'']
         else if n = 8 then [CHR 0x5C, CHR ''b'']
         else [CHR 0x5C, CHR ''u'', CHR ''0'', CHR ''0'', hex_digit (n div 16), hex_digit n])"

definition json_chars :: "string \<Rightarrow> string" where
  "json_chars s = concat (map json_char s)"

definition json_str :: "string \<Rightarrow> string" where
  "json_str s = [CHR 0x22] @ json_chars s @ [CHR 0x22]"

section \<open>Values\<close>

definition json_float :: "string \<Rightarrow> string" where
  "json_float s = dget [(''inf'', ''Infinity''), (''-inf'', ''-Infinity''), (''nan'', ''NaN'')] s s"

fun json_dumps :: "string \<Rightarrow> string \<Rightarrow> pyval \<Rightarrow> string" where
  "json_dumps sep colon PNone = ''null''"
| "json_dumps sep colon (PBool b) = (if b then ''true'' else ''false'')"
| "json_dumps sep colon (PInt i) = int_str i"
| "json_dumps sep colon (PFloat s) = json_float s"
| "json_dumps sep colon (PStr s) = json_str s"
| "json_dumps sep colon (PList xs) = ''['' @ join sep (map (json_dumps sep colon) xs) @ '']''"
| "json_dumps sep colon (PDict d) =
     ''{'' @ join sep (map (\<lambda>(k, v). json_str k @ colon @ json_dumps sep colon v) d) @ ''}''"

fun sorted_keys :: "pyval \<Rightarrow> pyval" where
  "sorted_keys (PList xs) = PList (map sorted_keys xs)"
| "sorted_keys (PDict d) = PDict (sort_key fst (map (\<lambda>(k, v). (k, sorted_keys v)) d))"
| "sorted_keys v = v"

text \<open>The calls the code makes: by default, compact, and with sorted keys.\<close>

definition dumps :: "pyval \<Rightarrow> string" where
  "dumps v = json_dumps '', '' '': '' v"

definition dumps_compact :: "pyval \<Rightarrow> string" where
  "dumps_compact v = json_dumps '','' '':'' v"

definition dumps_sorted :: "pyval \<Rightarrow> string" where
  "dumps_sorted v = dumps (sorted_keys v)"

section \<open>Reading\<close>

definition json_ws :: "char \<Rightarrow> bool" where
  "json_ws c = (c \<in> {CHR 0x20, CHR 0x09, CHR 0x0A, CHR 0x0D})"

definition skip_ws :: "string \<Rightarrow> string" where
  "skip_ws s = dropWhile json_ws s"

definition hex_val :: "char \<Rightarrow> nat option" where
  "hex_val c =
     (let n = (of_char c :: nat)
      in if 48 \<le> n \<and> n \<le> 57 then Some (n - 48)
         else if 97 \<le> n \<and> n \<le> 102 then Some (n - 87)
         else if 65 \<le> n \<and> n \<le> 70 then Some (n - 55)
         else None)"

text \<open>The character after a backslash, other than \<open>u\<close>.\<close>

definition json_unesc :: "char \<Rightarrow> char option" where
  "json_unesc e =
     map_of [(CHR 0x22, CHR 0x22), (CHR 0x5C, CHR 0x5C), (CHR ''/'', CHR ''/''), (CHR ''b'', CHR 0x08), (CHR ''f'', CHR 0x0C),
             (CHR ''n'', CHR 0x0A), (CHR ''r'', CHR 0x0D), (CHR ''t'', CHR 0x09)] e"

definition json_hex4 :: "char \<Rightarrow> char \<Rightarrow> char \<Rightarrow> char \<Rightarrow> char option" where
  "json_hex4 a b x y =
     (case (hex_val a, hex_val b, hex_val x, hex_val y) of
        (Some h, Some i, Some j, Some k) \<Rightarrow> (if h = 0 \<and> i = 0 then Some (char_of (16 * j + k)) else None)
      | _ \<Rightarrow> None)"

definition json_cons :: "char option \<Rightarrow> (string \<times> string) option \<Rightarrow> (string \<times> string) option" where
  "json_cons c rest =
     (case (c, rest) of (Some d, Some (t, r)) \<Rightarrow> Some (d # t, r) | _ \<Rightarrow> None)"

text \<open>The characters of a string up to its closing quote, and what follows it; a raw control character is refused.\<close>

fun json_scan :: "string \<Rightarrow> (string \<times> string) option" where
  "json_scan [] = None"
| "json_scan (c # r) =
     (if c = CHR 0x22 then Some ([], r)
      else if c = CHR 0x5C then
        (case r of
           [] \<Rightarrow> None
         | e # r1 \<Rightarrow>
             if e = CHR ''u'' then
               (case r1 of a # b # x # y # r2 \<Rightarrow> json_cons (json_hex4 a b x y) (json_scan r2) | _ \<Rightarrow> None)
             else json_cons (json_unesc e) (json_scan r1))
      else if (of_char c :: nat) < 32 then None
      else json_cons (Some c) (json_scan r))"

text \<open>A number is the longest run of its characters; it is an integer, or a fraction or exponent follows.\<close>

definition num_char :: "char \<Rightarrow> bool" where
  "num_char c = (is_digit c \<or> c \<in> {CHR ''-'', CHR ''+'', CHR ''.'', CHR ''e'', CHR ''E''})"

definition int_part :: "string \<Rightarrow> bool" where
  "int_part s = (s \<noteq> [] \<and> list_all is_digit s \<and> (hd s = CHR ''0'' \<longrightarrow> length s = 1))"

definition digits1 :: "string \<Rightarrow> bool" where
  "digits1 s = (s \<noteq> [] \<and> list_all is_digit s)"

definition exp_part :: "string \<Rightarrow> bool" where
  "exp_part s =
     (case s of
        [] \<Rightarrow> True
      | e # r \<Rightarrow> e \<in> {CHR ''e'', CHR ''E''}
                 \<and> digits1 (case r of c # q \<Rightarrow> (if c \<in> {CHR ''-'', CHR ''+''} then q else r) | [] \<Rightarrow> r))"

definition unsigned_float :: "string \<Rightarrow> bool" where
  "unsigned_float s =
     (let ds = takeWhile is_digit s; r = dropWhile is_digit s
      in int_part ds
         \<and> (case r of
              CHR ''.'' # q \<Rightarrow> digits1 (takeWhile is_digit q) \<and> exp_part (dropWhile is_digit q)
            | _ \<Rightarrow> r \<noteq> [] \<and> exp_part r))"

definition json_number :: "string \<Rightarrow> pyval option" where
  "json_number t =
     (let u = (case t of c # r \<Rightarrow> (if c = CHR ''-'' then r else t) | [] \<Rightarrow> t)
      in if int_part u then Some (PInt (if u = t then int (digits_val u) else - int (digits_val u)))
         else if unsigned_float u then Some (PFloat t)
         else None)"

definition json_literals :: "(string \<times> pyval) list" where
  "json_literals =
     [(''null'', PNone), (''true'', PBool True), (''false'', PBool False), (''NaN'', PFloat ''nan''),
      (''Infinity'', PFloat ''inf''), (''-Infinity'', PFloat ''-inf'')]"

definition json_scalar :: "string \<Rightarrow> (pyval \<times> string) option" where
  "json_scalar s =
     (case find (\<lambda>(t, v). startswith s t) json_literals of
        Some (t, v) \<Rightarrow> Some (v, drop (length t) s)
      | None \<Rightarrow> map_option (\<lambda>v. (v, dropWhile num_char s)) (json_number (takeWhile num_char s)))"

text \<open>Values, the elements of a list after its bracket or a comma, the members of an object.  The fuel is a bound
  on the nesting and the lengths; a later member replaces an earlier one with the same key.\<close>

definition of_pairs :: "(string \<times> pyval) list \<Rightarrow> pyval dict" where
  "of_pairs ps = foldl (\<lambda>d (k, v). dset k v d) [] ps"

fun json_value :: "nat \<Rightarrow> string \<Rightarrow> (pyval \<times> string) option"
  and json_items :: "nat \<Rightarrow> string \<Rightarrow> (pyval list \<times> string) option"
  and json_pairs :: "nat \<Rightarrow> string \<Rightarrow> ((string \<times> pyval) list \<times> string) option" where
  "json_value 0 s = None"
| "json_value (Suc n) s =
     (case s of
        [] \<Rightarrow> None
      | c # r \<Rightarrow>
          if c = CHR 0x22 then map_option (\<lambda>(t, q). (PStr t, q)) (json_scan r)
          else if c = CHR ''['' then
            (case skip_ws r of
               [] \<Rightarrow> None
             | d # q \<Rightarrow> if d = CHR '']'' then Some (PList [], q)
                        else map_option (\<lambda>(xs, p). (PList xs, p)) (json_items n (d # q)))
          else if c = CHR ''{'' then
            (case skip_ws r of
               [] \<Rightarrow> None
             | d # q \<Rightarrow> if d = CHR ''}'' then Some (PDict [], q)
                        else map_option (\<lambda>(ps, p). (PDict (of_pairs ps), p)) (json_pairs n (d # q)))
          else json_scalar s)"
| "json_items 0 s = None"
| "json_items (Suc n) s =
     (case json_value n s of
        None \<Rightarrow> None
      | Some (v, r) \<Rightarrow>
          (case skip_ws r of
             [] \<Rightarrow> None
           | d # q \<Rightarrow> if d = CHR '']'' then Some ([v], q)
                      else if d = CHR '','' then map_option (\<lambda>(vs, p). (v # vs, p)) (json_items n (skip_ws q))
                      else None))"
| "json_pairs 0 s = None"
| "json_pairs (Suc n) s =
     (case s of
        [] \<Rightarrow> None
      | c # r \<Rightarrow>
          if c \<noteq> CHR 0x22 then None
          else (case json_scan r of
                  None \<Rightarrow> None
                | Some (k, r1) \<Rightarrow>
                    (case skip_ws r1 of
                       [] \<Rightarrow> None
                     | e # r2 \<Rightarrow>
                         if e \<noteq> CHR '':'' then None
                         else (case json_value n (skip_ws r2) of
                                 None \<Rightarrow> None
                               | Some (v, r3) \<Rightarrow>
                                   (case skip_ws r3 of
                                      [] \<Rightarrow> None
                                    | d # q \<Rightarrow>
                                        if d = CHR ''}'' then Some ([(k, v)], q)
                                        else if d = CHR '','' then
                                          map_option (\<lambda>(ps, p). ((k, v) # ps, p)) (json_pairs n (skip_ws q))
                                        else None)))))"

definition json_loads :: "string \<Rightarrow> pyval option" where
  "json_loads s =
     (case json_value (2 * length s + 2) (skip_ws s) of
        None \<Rightarrow> None
      | Some (v, r) \<Rightarrow> if skip_ws r = [] then Some v else None)"

section \<open>What is printed is read back\<close>

lemma char_of_controls:
  "char_of (10 :: nat) = CHR 0x0A" "char_of (13 :: nat) = CHR 0x0D" "char_of (9 :: nat) = CHR 0x09"
  "char_of (12 :: nat) = CHR 0x0C" "char_of (8 :: nat) = CHR 0x08"
  by code_simp+

lemma json_char_forms:
  obtains (Plain) "c \<noteq> CHR 0x5C" "c \<noteq> CHR 0x22" "\<not> (of_char c :: nat) < 32" "json_char c = [c]"
  | (Escaped) y where "json_char c = [CHR 0x5C, y]" "y \<noteq> CHR ''u''" "json_unesc y = Some c"
  | (Unicode) "json_char c = [CHR 0x5C, CHR ''u'', CHR ''0'', CHR ''0'', hex_digit (of_char c div 16), hex_digit (of_char c)]"
proof -
  let ?n = "of_char c :: nat"
  have undo: "c = char_of k" if "?n = k" for k using that [symmetric] by simp
  consider (quote) "c = CHR 0x22" | (slash) "c = CHR 0x5C" | (plain) "c \<noteq> CHR 0x22" "c \<noteq> CHR 0x5C" "32 \<le> ?n \<and> ?n \<le> 126"
    | (other) "c \<noteq> CHR 0x22" "c \<noteq> CHR 0x5C" "\<not> (32 \<le> ?n \<and> ?n \<le> 126)" by blast
  then show thesis
  proof cases
    case quote then show thesis by (intro Escaped [of "CHR 0x22"]) (simp_all add: json_char_def json_unesc_def)
  next
    case slash then show thesis by (intro Escaped [of "CHR 0x5C"]) (simp_all add: json_char_def json_unesc_def)
  next
    case plain then show thesis by (intro Plain) (simp_all add: json_char_def)
  next
    case other
    consider (nl) "?n = 10" | (cr) "?n = 13" | (tab) "?n = 9" | (ff) "?n = 12" | (bs) "?n = 8"
      | (hex) "?n \<notin> {10, 13, 9, 12, 8}" by blast
    then show thesis
    proof cases
      case nl with other show thesis
        by (intro Escaped [of "CHR ''n''"]) (simp_all add: json_char_def json_unesc_def undo [OF nl] char_of_controls)
    next
      case cr with other show thesis
        by (intro Escaped [of "CHR ''r''"]) (simp_all add: json_char_def json_unesc_def undo [OF cr] char_of_controls)
    next
      case tab with other show thesis
        by (intro Escaped [of "CHR ''t''"]) (simp_all add: json_char_def json_unesc_def undo [OF tab] char_of_controls)
    next
      case ff with other show thesis
        by (intro Escaped [of "CHR ''f''"]) (simp_all add: json_char_def json_unesc_def undo [OF ff] char_of_controls)
    next
      case bs with other show thesis
        by (intro Escaped [of "CHR ''b''"]) (simp_all add: json_char_def json_unesc_def undo [OF bs] char_of_controls)
    next
      case hex with other show thesis by (intro Unicode) (simp add: json_char_def Let_def)
    qed
  qed
qed

lemma hex_val_digit: "hex_val (hex_digit n) = Some (n mod 16)"
proof -
  have "list_all (\<lambda>k. hex_val (''0123456789abcdef'' ! k) = Some k) [0..<16]" by code_simp
  then have "\<forall>k<16. hex_val (''0123456789abcdef'' ! k) = Some k" by (auto simp: list_all_iff)
  then show ?thesis by (simp add: hex_digit_def)
qed

lemma json_hex4_char: "json_hex4 CHR ''0'' CHR ''0'' (hex_digit (of_char c div 16)) (hex_digit (of_char c)) = Some c"
proof -
  have "(of_char c :: nat) < 256" by simp
  then have "of_char c div 16 < (16 :: nat)" by (simp only: less_mult_imp_div_less [of _ 16 16, simplified])
  then have "of_char c div 16 mod 16 = (of_char c div 16 :: nat)" by (rule mod_less)
  then have e: "16 * (of_char c div 16 mod 16) + of_char c mod 16 = (of_char c :: nat)"
    by (simp only: mult_div_mod_eq)
  have z: "hex_val CHR ''0'' = Some 0" by code_simp
  show ?thesis unfolding json_hex4_def hex_val_digit z by (simp only: prod.case option.case e if_True simp_thms char_of_char)
qed

lemma json_scan_char: "json_scan (json_char c @ s) = json_cons (Some c) (json_scan s)"
proof (cases c rule: json_char_forms)
  case Plain then show ?thesis by simp
next
  case (Escaped y) then show ?thesis by simp
next
  case Unicode
  then have "json_scan (json_char c @ s) = json_cons (json_hex4 CHR ''0'' CHR ''0'' (hex_digit (of_char c div 16)) (hex_digit (of_char c))) (json_scan s)"
    by simp
  then show ?thesis by (simp only: json_hex4_char)
qed

lemma json_scan_chars: "json_scan (json_chars t @ CHR 0x22 # s) = Some (t, s)"
proof (induction t)
  case Nil then show ?case by (simp add: json_chars_def)
next
  case (Cons c t)
  have "json_scan (json_chars (c # t) @ CHR 0x22 # s) = json_scan (json_char c @ (json_chars t @ CHR 0x22 # s))"
    by (simp add: json_chars_def)
  also have "\<dots> = Some (c # t, s)" by (simp only: json_scan_char Cons.IH) (simp add: json_cons_def)
  finally show ?case .
qed

text \<open>Numbers and literals in front of a text that does not continue them.\<close>

definition ends_num :: "string \<Rightarrow> bool" where
  "ends_num s \<longleftrightarrow> s = [] \<or> \<not> num_char (hd s)"

lemma is_digit_literal: "is_digit c \<Longrightarrow> c \<notin> {CHR ''n'', CHR ''t'', CHR ''f'', CHR ''N'', CHR ''I'', CHR ''-'', CHR 0x22, CHR ''['', CHR ''{''}"
  by (auto simp: is_digit_def)

lemma unsigned_head: "int_part u \<or> unsigned_float u \<Longrightarrow> \<exists>c r. u = c # r \<and> is_digit c"
  by (cases u) (auto simp: int_part_def unsigned_float_def Let_def split: if_splits)

lemma json_number_head:
  assumes "json_number t = Some v"
  shows "(\<exists>c r. t = c # r \<and> is_digit c) \<or> (\<exists>c r. t = CHR ''-'' # c # r \<and> is_digit c)"
proof -
  let ?u = "case t of c # r \<Rightarrow> (if c = CHR ''-'' then r else t) | [] \<Rightarrow> t"
  have "int_part ?u \<or> unsigned_float ?u" using assms by (auto simp: json_number_def Let_def split: if_splits)
  then obtain c r where "?u = c # r" "is_digit c" using unsigned_head by blast
  then show ?thesis by (cases t) (auto split: if_splits)
qed

lemma json_scalar_number:
  assumes n: "json_number t = Some v" and t: "list_all num_char t" and s: "ends_num s"
  shows "json_scalar (t @ s) = Some (v, s)"
proof -
  have "find (\<lambda>(w, x). startswith (t @ s) w) json_literals = None"
    using json_number_head [OF n] is_digit_literal by (auto simp: json_literals_def)
  moreover have "takeWhile num_char (t @ s) = t" "dropWhile num_char (t @ s) = s"
    using t s by (cases s; auto simp: ends_num_def list_all_iff takeWhile_append2 dropWhile_append2)+
  ultimately show ?thesis using n by (simp add: json_scalar_def)
qed

lemma nat_str_no_leading_zero: "0 < n \<Longrightarrow> hd (nat_str n) \<noteq> CHR ''0''"
proof (induction n rule: nat_str.induct)
  case (1 n)
  show ?case
  proof (cases "n < 10")
    case True
    have "digit_val (digit_char n) = n" using True by (rule digit_val_digit_char)
    moreover have "digit_val CHR ''0'' = 0" by code_simp
    ultimately have "digit_char n \<noteq> CHR ''0''" using 1(2) by (metis less_irrefl)
    with True show ?thesis by (subst nat_str.simps) simp
  next
    case False
    then have "0 < n div 10" by simp
    with 1 False have "hd (nat_str (n div 10)) \<noteq> CHR ''0''" by blast
    with False show ?thesis by (subst nat_str.simps) simp
  qed
qed

lemma int_part_nat_str: "int_part (nat_str n)"
proof (cases "n = 0")
  case True
  have "nat_str 0 = [digit_char 0]" by (subst nat_str.simps) simp
  then show ?thesis using True by (simp add: int_part_def is_digit_digit_char)
next
  case False then show ?thesis using nat_str_no_leading_zero [of n] nat_str_digits [of n] by (simp add: int_part_def)
qed

lemma json_number_int_str: "json_number (int_str i) = Some (PInt i)"
proof -
  obtain c r where cr: "nat_str (nat \<bar>i\<bar>) = c # r" by (meson neq_Nil_conv nat_str_not_Nil)
  then have "is_digit c" using nat_str_digits [of "nat \<bar>i\<bar>"] by simp
  then have "c \<noteq> CHR ''-''" using is_digit_literal by blast
  then show ?thesis
    using int_part_nat_str [of "nat \<bar>i\<bar>"] digits_val_nat_str [of "nat \<bar>i\<bar>"] cr
    by (cases "i < 0") (simp_all add: json_number_def int_str_def)
qed

lemma num_chars_int_str: "list_all num_char (int_str i)"
  using nat_str_digits by (auto simp: int_str_def list_all_iff num_char_def)

text \<open>The values the text keeps: floats are the texts of numbers, keys are distinct.\<close>

definition float_text :: "string \<Rightarrow> bool" where
  "float_text t \<longleftrightarrow> t \<in> {''inf'', ''-inf'', ''nan''} \<or> (list_all num_char t \<and> json_number t = Some (PFloat t))"

fun json_ok :: "pyval \<Rightarrow> bool" where
  "json_ok (PFloat t) = float_text t"
| "json_ok (PList xs) = (\<forall>x\<in>set xs. json_ok x)"
| "json_ok (PDict d) = (wf_dict d \<and> (\<forall>(k, v)\<in>set d. json_ok v))"
| "json_ok v = True"

lemma json_scalar_literal:
  "json_scalar (''null'' @ s) = Some (PNone, s)" "json_scalar (''true'' @ s) = Some (PBool True, s)"
  "json_scalar (''false'' @ s) = Some (PBool False, s)" "json_scalar (''NaN'' @ s) = Some (PFloat ''nan'', s)"
  "json_scalar (''Infinity'' @ s) = Some (PFloat ''inf'', s)" "json_scalar (''-Infinity'' @ s) = Some (PFloat ''-inf'', s)"
  by (simp_all add: json_scalar_def json_literals_def)

lemma json_scalar_float:
  assumes "float_text t" and "ends_num s"
  shows "json_scalar (json_float t @ s) = Some (PFloat t, s)"
proof -
  consider "t = ''inf''" | "t = ''-inf''" | "t = ''nan''"
    | (num) "t \<notin> {''inf'', ''-inf'', ''nan''}" "list_all num_char t" "json_number t = Some (PFloat t)"
    using assms(1) by (auto simp: float_text_def)
  then show ?thesis
  proof cases
    case num
    then have "json_float t = t" by (auto simp: json_float_def dget_def)
    with num assms(2) show ?thesis using json_scalar_number by simp
  qed (use json_scalar_literal [of s] in \<open>simp_all add: json_float_def dget_def\<close>)
qed

lemma of_pairs_id: "wf_dict d \<Longrightarrow> of_pairs d = d"
proof (induction d rule: rev_induct)
  case Nil then show ?case by (simp add: of_pairs_def)
next
  case (snoc x d)
  obtain k v where x: "x = (k, v)" by (cases x)
  with snoc.prems have "wf_dict d" "\<not> dhas d k" by (auto simp: wf_dict_def dhas_iff_keys)
  with snoc.IH x show ?case by (simp add: of_pairs_def dset_new)
qed

lemma json_number_chars: "json_number t = Some v \<Longrightarrow> t \<noteq> [] \<and> hd t \<notin> {CHR 0x22, CHR ''['', CHR ''{'', CHR '']'', CHR ''}''} \<and> \<not> json_ws (hd t)"
  using json_number_head [of t v] by (auto simp: is_digit_def json_ws_def)

lemma json_dumps_head:
  assumes "json_ok v"
  shows "json_dumps sep colon v \<noteq> []" and "\<not> json_ws (hd (json_dumps sep colon v))"
    and "hd (json_dumps sep colon v) \<notin> {CHR '']'', CHR ''}''}"
proof -
  have f: "json_float t \<noteq> [] \<and> \<not> json_ws (hd (json_float t)) \<and> hd (json_float t) \<notin> {CHR '']'', CHR ''}''}"
    if "float_text t" for t
  proof (cases "t \<in> {''inf'', ''-inf'', ''nan''}")
    case True then show ?thesis by (auto simp: json_float_def dget_def json_ws_def)
  next
    case False
    then have "json_float t = t" by (auto simp: json_float_def dget_def)
    with False that json_number_chars [of t] show ?thesis by (auto simp: float_text_def)
  qed
  show "json_dumps sep colon v \<noteq> []" "\<not> json_ws (hd (json_dumps sep colon v))"
    "hd (json_dumps sep colon v) \<notin> {CHR '']'', CHR ''}''}"
    using assms f json_number_chars [OF json_number_int_str]
    by (cases v; auto simp: json_ws_def json_str_def)+
qed

lemma skip_ws_stop: "s \<noteq> [] \<Longrightarrow> \<not> json_ws (hd s) \<Longrightarrow> skip_ws s = s"
  by (cases s) (simp_all add: skip_ws_def)

lemma skip_ws_pad: "list_all json_ws w \<Longrightarrow> skip_ws (w @ s) = skip_ws s"
  by (simp add: skip_ws_def list_all_iff dropWhile_append2)

lemma skip_ws_dumps: "json_ok v \<Longrightarrow> skip_ws (json_dumps sep colon v @ s) = json_dumps sep colon v @ s"
  using json_dumps_head [of v sep colon] by (intro skip_ws_stop) (simp_all add: hd_append)

lemma json_value_scalar:
  "json_scalar s = Some (v, r) \<Longrightarrow> s \<noteq> [] \<Longrightarrow> hd s \<notin> {CHR 0x22, CHR ''['', CHR ''{''} \<Longrightarrow> json_value (Suc n) s = Some (v, r)"
  by (cases s) auto

text \<open>The separators of the calls: a comma or a colon, then blanks.\<close>

definition separators :: "string \<Rightarrow> string \<Rightarrow> bool" where
  "separators sep colon \<longleftrightarrow> (\<exists>w. sep = CHR '','' # w \<and> list_all json_ws w) \<and> (\<exists>w. colon = CHR '':'' # w \<and> list_all json_ws w)"

text \<open>Reading a printed value, and reading the elements of a printed list, when each element can be read.\<close>

definition reads :: "string \<Rightarrow> string \<Rightarrow> pyval \<Rightarrow> bool" where
  "reads sep colon v \<longleftrightarrow>
     (\<forall>n rest. size v < n \<longrightarrow> ends_num rest \<longrightarrow> json_value n (json_dumps sep colon v @ rest) = Some (v, rest))"

lemma ends_num_marks: "ends_num (CHR '','' # s)" "ends_num (CHR '']'' # s)" "ends_num (CHR ''}'' # s)"
  by (simp_all add: ends_num_def num_char_def is_digit_def)

lemma skip_ws_marks: "skip_ws (CHR '','' # s) = CHR '','' # s" "skip_ws (CHR '']'' # s) = CHR '']'' # s"
  "skip_ws (CHR ''}'' # s) = CHR ''}'' # s" "skip_ws (CHR '':'' # s) = CHR '':'' # s"
  by (simp_all add: skip_ws_def json_ws_def)

lemma json_items_dumps:
  assumes "separators sep colon" and "\<forall>x\<in>set xs. json_ok x \<and> reads sep colon x" and "xs \<noteq> []"
    and "size_list size xs < n"
  shows "json_items n (join sep (map (json_dumps sep colon) xs) @ CHR '']'' # rest) = Some (xs, rest)"
  using assms(2-4)
proof (induction xs arbitrary: n)
  case (Cons x xs)
  then obtain m where n: "n = Suc m" and mx: "size x < m" and mxs: "size_list size xs < m" by (cases n) auto
  have x: "json_value m (json_dumps sep colon x @ s) = Some (x, s)" if "ends_num s" for s
    using Cons.prems(1) mx that by (simp add: reads_def)
  show ?case
  proof (cases xs)
    case Nil
    with n x [OF ends_num_marks(2)] show ?thesis by (simp add: skip_ws_marks)
  next
    case (Cons y ys)
    obtain w where w: "sep = CHR '','' # w" "list_all json_ws w" using assms(1) by (auto simp: separators_def)
    let ?t = "join sep (map (json_dumps sep colon) xs) @ CHR '']'' # rest"
    have "skip_ws (w @ ?t) = ?t"
    proof -
      have "?t = json_dumps sep colon y @ ((case ys of [] \<Rightarrow> [] | _ \<Rightarrow> sep @ join sep (map (json_dumps sep colon) ys)) @ CHR '']'' # rest)"
        using Cons by (cases ys) simp_all
      with Cons.prems(1) Cons w(2) show ?thesis by (simp only: skip_ws_pad) (simp add: skip_ws_dumps)
    qed
    moreover have "json_items m ?t = Some (xs, rest)" using Cons.IH [of m] Cons.prems(1) Cons mxs by simp
    moreover have "join sep (map (json_dumps sep colon) (x # xs)) @ CHR '']'' # rest = json_dumps sep colon x @ CHR '','' # (w @ ?t)"
      using Cons w(1) by simp
    ultimately show ?thesis
      using n x [OF ends_num_marks(1), of "w @ ?t"] by (simp add: skip_ws_marks del: json_items.simps(1))
  qed
qed simp

lemma json_pairs_dumps:
  assumes "separators sep colon" and "\<forall>(k, v)\<in>set d. json_ok v \<and> reads sep colon v" and "d \<noteq> []"
    and "size_list (size_prod (\<lambda>_. 0) size) d < n"
  shows "json_pairs n (join sep (map (\<lambda>(k, v). json_str k @ colon @ json_dumps sep colon v) d) @ CHR ''}'' # rest) = Some (d, rest)"
  using assms(2-4)
proof (induction d arbitrary: n)
  case (Cons kv d)
  obtain k v where kv: "kv = (k, v)" by (cases kv)
  let ?D = "json_dumps sep colon" and ?F = "\<lambda>(k, v). json_str k @ colon @ json_dumps sep colon v"
  from Cons.prems kv obtain m where n: "n = Suc m" and mx: "size v < m"
    and mxs: "size_list (size_prod (\<lambda>_. 0) size) d < m" by (cases n) auto
  obtain w where w: "sep = CHR '','' # w" "list_all json_ws w" using assms(1) by (auto simp: separators_def)
  obtain w' where w': "colon = CHR '':'' # w'" "list_all json_ws w'" using assms(1) by (auto simp: separators_def)
  have v: "json_value m (skip_ws (w' @ ?D v @ s)) = Some (v, s)" if "ends_num s" for s
    using Cons.prems(1) kv mx that w'(2) by (simp add: reads_def skip_ws_pad skip_ws_dumps)
  have key: "json_str k @ colon @ ?D v @ s = CHR 0x22 # (json_chars k @ CHR 0x22 # CHR '':'' # (w' @ ?D v @ s))" for s
    using w'(1) by (simp add: json_str_def)
  show ?case
  proof (cases d)
    case Nil
    have "json_pairs n (json_str k @ colon @ ?D v @ CHR ''}'' # rest) = Some ([(k, v)], rest)"
      unfolding n key using v [OF ends_num_marks(3)] by (simp add: json_scan_chars skip_ws_marks)
    with Nil kv show ?thesis by simp
  next
    case (Cons e ds)
    let ?t = "join sep (map ?F d) @ CHR ''}'' # rest"
    have "skip_ws (w @ ?t) = ?t"
    proof -
      obtain j u where e: "e = (j, u)" by (cases e)
      have "?t = CHR 0x22 # (json_chars j @ [CHR 0x22] @ colon @ ?D u @ (case ds of [] \<Rightarrow> [] | _ \<Rightarrow> sep @ join sep (map ?F ds)) @ CHR ''}'' # rest)"
        using Cons e by (cases ds) (simp_all add: json_str_def)
      with w(2) show ?thesis by (simp only: skip_ws_pad) (simp add: skip_ws_stop json_ws_def)
    qed
    moreover have "json_pairs m ?t = Some (d, rest)" using Cons.IH [of m] Cons.prems(1) Cons mxs by simp
    moreover have "join sep (map ?F (kv # d)) @ CHR ''}'' # rest = json_str k @ colon @ ?D v @ CHR '','' # (w @ ?t)"
      using Cons w(1) kv by simp
    ultimately show ?thesis
      unfolding n key using v [OF ends_num_marks(1), of "w @ ?t"] kv
      by (simp add: json_scan_chars skip_ws_marks key)
  qed
qed simp

lemma reads_scalar:
  assumes "json_dumps sep colon v \<noteq> []" and "hd (json_dumps sep colon v) \<notin> {CHR 0x22, CHR ''['', CHR ''{''}"
    and "\<And>rest. ends_num rest \<Longrightarrow> json_scalar (json_dumps sep colon v @ rest) = Some (v, rest)"
  shows "reads sep colon v"
  unfolding reads_def
proof (intro allI impI)
  fix n rest assume "size v < n" "ends_num rest"
  then obtain m where "n = Suc m" by (cases n) auto
  then show "json_value n (json_dumps sep colon v @ rest) = Some (v, rest)"
    using assms(1,2) assms(3) [OF \<open>ends_num rest\<close>] json_value_scalar [of "json_dumps sep colon v @ rest" v rest m]
    by (simp add: hd_append)
qed

lemma reads_dumps:
  assumes "separators sep colon"
  shows "json_ok v \<Longrightarrow> reads sep colon v"
proof (induction v)
  case PNone
  show ?case by (rule reads_scalar) (use json_scalar_literal(1) in simp_all)
next
  case (PBool b)
  show ?case by (rule reads_scalar) (use json_scalar_literal(2,3) in \<open>cases b; simp\<close>)+
next
  case (PInt i)
  show ?case
    by (rule reads_scalar)
      (use json_number_chars [OF json_number_int_str, of i] json_scalar_number [OF json_number_int_str num_chars_int_str]
       in simp_all)
next
  case (PFloat t)
  then have ok: "float_text t" by simp
  have "hd (json_float t) \<notin> {CHR 0x22, CHR ''['', CHR ''{''}"
    using ok json_number_chars [of t]
    by (cases "t \<in> {''inf'', ''-inf'', ''nan''}") (auto simp: float_text_def json_float_def dget_def)
  then show ?case
    by (intro reads_scalar) (use json_dumps_head(1) [OF PFloat] json_scalar_float [OF ok] in simp_all)
next
  case (PStr t)
  show ?case unfolding reads_def
  proof (intro allI impI)
    fix n rest assume "size (PStr t) < n" "ends_num rest"
    then obtain m where "n = Suc m" by (cases n) auto
    then show "json_value n (json_dumps sep colon (PStr t) @ rest) = Some (PStr t, rest)"
      by (simp add: json_str_def json_scan_chars)
  qed
next
  case (PList xs)
  show ?case unfolding reads_def
  proof (intro allI impI)
    fix n rest assume n: "size (PList xs) < n" and "ends_num rest"
    then obtain m where m: "n = Suc m" "size_list size xs < m" by (cases n) auto
    show "json_value n (json_dumps sep colon (PList xs) @ rest) = Some (PList xs, rest)"
    proof (cases xs)
      case Nil then show ?thesis using m by (simp add: skip_ws_marks)
    next
      case (Cons y ys)
      let ?t = "join sep (map (json_dumps sep colon) xs) @ CHR '']'' # rest"
      have all: "\<forall>x\<in>set xs. json_ok x \<and> reads sep colon x" using PList by simp
      have items: "json_items m ?t = Some (xs, rest)" by (rule json_items_dumps [OF assms all _ m(2)]) (simp add: Cons)
      obtain c r where t: "?t = c # r" "\<not> json_ws c" "c \<noteq> CHR '']''"
        using json_dumps_head [of y sep colon] all Cons by (cases "json_dumps sep colon y"; cases ys) auto
      then have "skip_ws ?t = ?t" by (simp add: skip_ws_stop)
      then show ?thesis using m(1) items t by simp
    qed
  qed
next
  case (PDict d)
  show ?case unfolding reads_def
  proof (intro allI impI)
    fix n rest assume n: "size (PDict d) < n" and "ends_num rest"
    then obtain m where m: "n = Suc m" "size_list (size_prod (\<lambda>_. 0) size) d < m" by (cases n) auto
    show "json_value n (json_dumps sep colon (PDict d) @ rest) = Some (PDict d, rest)"
    proof (cases d)
      case Nil then show ?thesis using m by (simp add: skip_ws_marks)
    next
      case (Cons y ys)
      let ?t = "join sep (map (\<lambda>(k, v). json_str k @ colon @ json_dumps sep colon v) d) @ CHR ''}'' # rest"
      have all: "\<forall>(k, v)\<in>set d. json_ok v \<and> reads sep colon v" using PDict by (fastforce elim: snds.cases)
      have pairs: "json_pairs m ?t = Some (d, rest)" by (rule json_pairs_dumps [OF assms all _ m(2)]) (simp add: Cons)
      obtain r where t: "?t = CHR 0x22 # r" using Cons by (cases y; cases ys) (auto simp: json_str_def)
      then have "skip_ws ?t = ?t" by (simp add: skip_ws_stop json_ws_def)
      then show ?thesis using m(1) pairs t PDict.prems by (simp add: of_pairs_id)
    qed
  qed
qed

text \<open>The fuel of \<^const>\<open>json_loads\<close> covers every printed value.\<close>

lemma size_join_bound:
  assumes "sep \<noteq> []" and "\<forall>x\<in>set xs. f x \<le> 2 * length (g x)"
  shows "size_list f xs \<le> 2 * length (join sep (map g xs)) + 1"
  using assms(2)
proof (induction xs)
  case (Cons x xs)
  obtain c w where "sep = c # w" using assms(1) by (cases sep) auto
  with Cons show ?case by (cases xs) auto
qed simp

lemma size_dumps:
  assumes "sep \<noteq> []"
  shows "size v \<le> 2 * length (json_dumps sep colon v)"
proof (induction v)
  case (PList xs)
  then have "size_list size xs \<le> 2 * length (join sep (map (json_dumps sep colon) xs)) + 1"
    by (intro size_join_bound assms) blast
  then show ?case by simp
next
  case (PDict d)
  have "size_prod (\<lambda>_. 0) size p \<le> 2 * length ((\<lambda>(k, v). json_str k @ colon @ json_dumps sep colon v) p)"
    if "p \<in> set d" for p
    using PDict [OF that, of "snd p"] by (cases p) (auto simp: json_str_def)
  then have "size_list (size_prod (\<lambda>_. 0) size) d
     \<le> 2 * length (join sep (map (\<lambda>(k, v). json_str k @ colon @ json_dumps sep colon v) d)) + 1"
    by (intro size_join_bound assms) blast
  then show ?case by simp
qed simp_all

theorem json_roundtrip:
  assumes "separators sep colon" and "json_ok v"
  shows "json_loads (json_dumps sep colon v) = Some v"
proof -
  let ?t = "json_dumps sep colon v"
  have "sep \<noteq> []" using assms(1) by (auto simp: separators_def)
  then have "size v < 2 * length ?t + 2" using size_dumps [of sep v colon] by simp
  moreover have "ends_num []" by (simp add: ends_num_def)
  ultimately have "json_value (2 * length ?t + 2) (?t @ []) = Some (v, [])"
    using reads_dumps [OF assms] unfolding reads_def by blast
  moreover have "skip_ws ?t = ?t" using skip_ws_dumps [OF assms(2), of sep colon "[]"] by simp
  ultimately show ?thesis by (simp add: json_loads_def skip_ws_def)
qed

lemma separators_calls: "separators '', '' '': ''" "separators '','' '':''" "separators '','' '': ''"
  by (auto simp: separators_def json_ws_def)

lemma loads_dumps [simp]: "json_ok v \<Longrightarrow> json_loads (dumps v) = Some v"
  by (simp add: dumps_def json_roundtrip separators_calls)

lemma loads_dumps_compact [simp]: "json_ok v \<Longrightarrow> json_loads (dumps_compact v) = Some v"
  by (simp add: dumps_compact_def json_roundtrip separators_calls)

text \<open>Sorting the keys keeps the value as a dictionary and what it can be printed.\<close>

lemma map_fst_pairs: "map fst (map (\<lambda>(k, v). (k, f v)) d) = map fst d"
  by (induction d) auto

lemma sort_key_fst_map: "sort_key fst (map (\<lambda>(k, v). (k, f v)) d) = map (\<lambda>(k, v). (k, f v)) (sort_key fst d)"
proof -
  have ins: "insort_key fst (k, f v) (map (\<lambda>(k, v). (k, f v)) d) = map (\<lambda>(k, v). (k, f v)) (insort_key fst (k, v) d)"
    for k v d by (induction d) auto
  show ?thesis by (induction d) (auto simp: sort_key_def ins)
qed

lemma those_all: "\<forall>x\<in>set xs. f x \<noteq> None \<Longrightarrow> those (map f xs) = Some (map (the \<circ> f) xs)"
  by (induction xs) auto

lemma wf_sort_key: "wf_dict (sort_key fst d) = wf_dict d"
  by (simp add: wf_dict_def distinct_map)

lemma json_ok_sorted: "json_ok v \<Longrightarrow> json_ok (sorted_keys v)"
proof (induction v)
  case (PDict d)
  have "wf_dict (map (\<lambda>(k, v). (k, sorted_keys v)) d)" using PDict.prems by (simp add: wf_dict_def map_fst_pairs del: map_map)
  then have "wf_dict (sort_key fst (map (\<lambda>(k, v). (k, sorted_keys v)) d))" by (simp only: wf_sort_key)
  moreover have "json_ok (sorted_keys v)" if "(k, v) \<in> set d" for k v
    using PDict.IH [OF that, of v] PDict.prems that by auto
  ultimately show ?case by auto
qed auto

lemma loads_dumps_sorted [simp]: "json_ok v \<Longrightarrow> json_loads (dumps_sorted v) = Some (sorted_keys v)"
  by (simp add: dumps_sorted_def json_ok_sorted)

lemma inj_dumps:
  assumes "json_ok v" and "json_ok w" and "dumps_compact v = dumps_compact w"
  shows "v = w"
proof -
  have "Some v = json_loads (dumps_compact v)" by (rule loads_dumps_compact [OF assms(1), symmetric])
  also have "\<dots> = Some w" by (simp only: assms(3) loads_dumps_compact [OF assms(2)])
  finally show ?thesis by simp
qed

text \<open>What is read can be printed.\<close>

lemma wf_of_pairs: "wf_dict (of_pairs ps) \<and> set (of_pairs ps) \<subseteq> set ps"
proof (induction ps rule: rev_induct)
  case Nil then show ?case by (simp add: of_pairs_def wf_dict_def)
next
  case (snoc x ps)
  obtain k v where x: "x = (k, v)" by (cases x)
  have "set (dset k v d) \<subseteq> insert (k, v) (set d)" for d
    unfolding dset_def by (induction d) auto
  with snoc x show ?case by (fastforce simp: of_pairs_def dict_simps)
qed

lemma json_number_ok: "json_number t = Some v \<Longrightarrow> list_all num_char t \<Longrightarrow> json_ok v"
  by (auto simp: json_number_def float_text_def Let_def split: if_splits)

lemma json_scalar_ok: "json_scalar s = Some (v, r) \<Longrightarrow> json_ok v"
proof (cases "find (\<lambda>(t, v). startswith s t) json_literals")
  case None
  assume "json_scalar s = Some (v, r)"
  then have "json_number (takeWhile num_char s) = Some v" using None by (auto simp: json_scalar_def)
  then show "json_ok v" by (rule json_number_ok) (auto simp: list_all_iff dest: set_takeWhileD)
next
  case (Some tv)
  assume "json_scalar s = Some (v, r)"
  then have "snd tv = v" using Some by (cases tv) (simp add: json_scalar_def)
  moreover have "tv \<in> set json_literals" using Some by (auto simp: find_Some_iff intro: nth_mem)
  ultimately show "json_ok v" by (auto simp: json_literals_def float_text_def)
qed

lemma json_ok_of_pairs: "list_all (\<lambda>(k, v). json_ok v) ps \<Longrightarrow> json_ok (PDict (of_pairs ps))"
  using wf_of_pairs [of ps] by (auto simp: list_all_iff)

lemma json_ok_empty: "json_ok (PDict [])" "json_ok (PList [])"
  by (simp_all add: wf_dict_def)

lemma json_value_ok:
  "\<And>v r. json_value n s = Some (v, r) \<Longrightarrow> json_ok v"
  "\<And>vs r. json_items m t = Some (vs, r) \<Longrightarrow> list_all json_ok vs"
  "\<And>ps r. json_pairs q u = Some (ps, r) \<Longrightarrow> list_all (\<lambda>(k, v). json_ok v) ps"
proof (induction n s and m t and q u rule: json_value_json_items_json_pairs.induct)
  case (2 n s)
  show ?case
  proof (cases s)
    case Nil with 2 show ?thesis by simp
  next
    case (Cons c t)
    have "json_ok v" if "json_value (Suc n) s = Some (v, r)" "c = CHR ''{''"
      using that Cons 2(2) [OF Cons]
      by (auto split: list.splits if_splits intro: json_ok_of_pairs json_ok_empty(1) simp del: json_ok.simps(3))
    moreover have "json_ok v" if "json_value (Suc n) s = Some (v, r)" "c = CHR ''[''"
      using that Cons 2(1) [OF Cons] by (auto simp: list_all_iff split: list.splits if_splits)
    moreover have "json_ok v" if "json_value (Suc n) s = Some (v, r)" "c \<noteq> CHR ''{''" "c \<noteq> CHR ''[''"
      using that Cons by (auto split: if_splits dest: json_scalar_ok)
    ultimately show ?thesis using 2(3) by blast
  qed
next
  case (4 n s)
  then show ?case by (auto split: option.splits list.splits if_splits)
next
  case (6 n s)
  then show ?case by (auto split: option.splits list.splits if_splits)
qed simp_all

lemma json_loads_ok: "json_loads s = Some v \<Longrightarrow> json_ok v"
  unfolding json_loads_def
  by (cases "json_value (2 * length s + 2) (skip_ws s)") (auto split: if_splits dest: json_value_ok(1) simp del: json_value.simps)

end
