(* ===== verification/Py_Base64.thy ===== *)
theory Py_Base64
imports Py_Strings
begin

text \<open>\<open>base64.b64encode\<close> and the lenient \<open>base64.b64decode\<close>, and the theorem that the one undoes the other.\<close>

definition b64_alphabet :: string where
  "b64_alphabet = ''ABCDEFGHIJKLMNOPQRSTUVWXYZabcdefghijklmnopqrstuvwxyz0123456789+/''"

definition b64_char :: "nat \<Rightarrow> char" where
  "b64_char n = b64_alphabet ! n"

definition b64_val :: "char \<Rightarrow> nat option" where
  "b64_val c =
     (let n = length (takeWhile (\<lambda>x. x \<noteq> c) b64_alphabet) in if n < 64 then Some n else None)"

fun b64encode :: "string \<Rightarrow> string" where
  "b64encode [] = []"
| "b64encode [a] =
     (let x = (of_char a :: nat) in [b64_char (x div 4), b64_char (x mod 4 * 16), CHR ''='', CHR ''=''])"
| "b64encode [a, b] =
     (let x = (of_char a :: nat); y = of_char b
      in [b64_char (x div 4), b64_char (x mod 4 * 16 + y div 16), b64_char (y mod 16 * 4), CHR ''=''])"
| "b64encode (a # b # c # r) =
     (let x = (of_char a :: nat); y = of_char b; z = of_char c
      in [b64_char (x div 4), b64_char (x mod 4 * 16 + y div 16), b64_char (y mod 16 * 4 + z div 64),
          b64_char (z mod 64)] @ b64encode r)"

text \<open>The lenient decoder: characters outside the alphabet are skipped, padding ends the text, and an incomplete
  group raises \<open>binascii.Error\<close>, as does a character that is not ASCII.  \<open>q\<close> counts the characters of the open group, \<open>l\<close> holds its left-over bits.\<close>

fun b64_scan :: "nat \<Rightarrow> nat \<Rightarrow> nat \<Rightarrow> string \<Rightarrow> string option" where
  "b64_scan q l p [] = (if q = 0 then Some [] else None)"
| "b64_scan q l p (c # r) =
     (if c = CHR ''='' then
        (if 2 \<le> q then (if 4 \<le> q + (p + 1) then Some [] else b64_scan q l (p + 1) r) else b64_scan q l p r)
      else case b64_val c of
        None \<Rightarrow> b64_scan q l p r
      | Some v \<Rightarrow>
          (if q = 0 then b64_scan 1 v 0 r
           else if q = 1 then map_option (Cons (char_of (l * 4 + v div 16))) (b64_scan 2 (v mod 16) 0 r)
           else if q = 2 then map_option (Cons (char_of (l * 16 + v div 4))) (b64_scan 3 (v mod 4) 0 r)
           else map_option (Cons (char_of (l * 64 + v))) (b64_scan 0 0 0 r)))"

definition b64decode :: "string \<Rightarrow> string option" where
  "b64decode s = (if list_all (\<lambda>c. (of_char c :: nat) < 128) s then b64_scan 0 0 0 s else None)"

lemma b64_val_char: "n < 64 \<Longrightarrow> b64_val (b64_char n) = Some n \<and> b64_char n \<noteq> CHR ''=''"
proof -
  have "list_all (\<lambda>k. b64_val (b64_char k) = Some k \<and> b64_char k \<noteq> CHR ''='') [0..<64]" by code_simp
  then show "n < 64 \<Longrightarrow> b64_val (b64_char n) = Some n \<and> b64_char n \<noteq> CHR ''=''" by (auto simp: list_all_iff)
qed

lemma b64_scan_char:
  "n < 64 \<Longrightarrow> b64_scan q l p (b64_char n # r) =
     (if q = 0 then b64_scan 1 n 0 r
      else if q = 1 then map_option (Cons (char_of (l * 4 + n div 16))) (b64_scan 2 (n mod 16) 0 r)
      else if q = 2 then map_option (Cons (char_of (l * 16 + n div 4))) (b64_scan 3 (n mod 4) 0 r)
      else map_option (Cons (char_of (l * 64 + n))) (b64_scan 0 0 0 r))"
  using b64_val_char [of n] by simp

lemma b64_scan_pad:
  "b64_scan q l p (CHR ''='' # r) =
     (if 2 \<le> q then (if 4 \<le> q + (p + 1) then Some [] else b64_scan q l (p + 1) r) else b64_scan q l p r)"
  by simp

declare b64_scan.simps(2) [simp del]

lemma byte_of_char: "(of_char (c :: char) :: nat) < 256"
  by simp

lemma byte_bounds:
  fixes x y :: nat assumes x: "x < 256" and y: "y < 256"
  shows "x div 4 < 64" "x mod 4 * 16 < 64" "x mod 16 * 4 < 64" "x mod 64 < 64"
    "x mod 4 * 16 + y div 16 < 64" "x mod 16 * 4 + y div 64 < 64"
    "y div 16 div 16 = 0" "y div 16 mod 16 = y div 16" "y div 64 div 4 = 0" "y div 64 mod 4 = y div 64"
proof -
  have y: "y div 16 < 16" "y div 64 < 4" using y by auto
  have m: "x mod 4 < 4" "x mod 16 < 16" by auto
  show "x div 4 < 64" "x mod 4 * 16 < 64" "x mod 16 * 4 < 64" "x mod 64 < 64" using x by auto
  show "x mod 4 * 16 + y div 16 < 64" "x mod 16 * 4 + y div 64 < 64" using y m by linarith+
  show "y div 16 div 16 = 0" "y div 16 mod 16 = y div 16" "y div 64 div 4 = 0" "y div 64 mod 4 = y div 64"
    using y by simp_all
qed

lemmas char_bounds = byte_bounds [OF byte_of_char byte_of_char]

lemma b64_roundtrip: "b64_scan 0 0 0 (b64encode s) = Some s"
proof (induction s rule: b64encode.induct)
  case (2 a)
  show ?case
    by (simp add: b64_scan_char b64_scan_pad char_bounds Let_def)
next
  case (3 a b)
  show ?case
    by (simp add: b64_scan_char b64_scan_pad char_bounds Let_def)
next
  case (4 a b c r)
  show ?case
    using 4 by (simp add: b64_scan_char b64_scan_pad char_bounds Let_def)
qed simp

lemma b64_char_ascii: "n < 64 \<Longrightarrow> (of_char (b64_char n) :: nat) < 128"
proof -
  have "list_all (\<lambda>k. (of_char (b64_char k) :: nat) < 128) [0..<64]" by code_simp
  then show "n < 64 \<Longrightarrow> (of_char (b64_char n) :: nat) < 128" by (auto simp: list_all_iff)
qed

lemma b64encode_ascii: "list_all (\<lambda>c. (of_char c :: nat) < 128) (b64encode s)"
  by (induction s rule: b64encode.induct) (simp_all add: b64_char_ascii char_bounds Let_def)

lemma b64decode_encode [simp]: "b64decode (b64encode s) = Some s"
  by (simp add: b64decode_def b64_roundtrip b64encode_ascii)

end
