(* ===== verification/State_Store.thy ===== *)
theory State_Store
imports Py_Json Py_Base64
begin

text \<open>The persistent state (\<open>core/cloudlearn_platform.py\<close>, \<open>core/state_integrity.py\<close>): the tagged JSON encoding with
  byte strings in base64, the SQLite store with its signature, events and snapshots, the install key, and the
  resource graph of the kernel.  The keyed hash is a parameter.\<close>

section \<open>State values\<close>

text \<open>What the state holds: the values of JSON, byte strings, tuples and paths.\<close>

datatype stval =
    SNone
  | SBool bool
  | SInt int
  | SFloat string
  | SStr string
  | SBytes string
  | SPath string
  | SList "stval list"
  | STuple "stval list"
  | SDict "(string \<times> stval) list"

definition type_tag :: string where
  "type_tag = ''__cloudlearn_type__''"

text \<open>A path reaches \<open>json.dumps\<close> as it is and is printed by its default hook, as a string.\<close>

fun encode_state_value :: "stval \<Rightarrow> pyval" where
  "encode_state_value (SBytes b) = PDict [(type_tag, PStr ''bytes''), (''base64'', PStr (b64encode b))]"
| "encode_state_value (SDict d) = PDict (map (\<lambda>(k, v). (k, encode_state_value v)) d)"
| "encode_state_value (SList xs) = PList (map encode_state_value xs)"
| "encode_state_value (STuple xs) = PList (map encode_state_value xs)"
| "encode_state_value SNone = PNone"
| "encode_state_value (SBool b) = PBool b"
| "encode_state_value (SInt i) = PInt i"
| "encode_state_value (SFloat s) = PFloat s"
| "encode_state_value (SStr s) = PStr s"
| "encode_state_value (SPath s) = PStr s"

definition tagged :: "pyval dict \<Rightarrow> bool" where
  "tagged d \<longleftrightarrow> pget d type_tag = PStr ''bytes'' \<and> dhas d ''base64''"

text \<open>Decoding raises on a tagged dictionary whose text is not base64; a value that is not text raises as well.\<close>

fun decode_state_value :: "pyval \<Rightarrow> stval option" where
  "decode_state_value (PDict d) =
     (if tagged d then
        (case pget d ''base64'' of PStr s \<Rightarrow> map_option SBytes (b64decode s) | _ \<Rightarrow> None)
      else map_option SDict (those (map (\<lambda>(k, v). map_option (Pair k) (decode_state_value v)) d)))"
| "decode_state_value (PList xs) = map_option SList (those (map decode_state_value xs))"
| "decode_state_value PNone = Some SNone"
| "decode_state_value (PBool b) = Some (SBool b)"
| "decode_state_value (PInt i) = Some (SInt i)"
| "decode_state_value (PFloat s) = Some (SFloat s)"
| "decode_state_value (PStr s) = Some (SStr s)"

text \<open>What comes back: keys sorted, tuples as lists, paths as strings.\<close>

fun canon :: "stval \<Rightarrow> stval" where
  "canon (SDict d) = SDict (sort_key fst (map (\<lambda>(k, v). (k, canon v)) d))"
| "canon (SList xs) = SList (map canon xs)"
| "canon (STuple xs) = SList (map canon xs)"
| "canon (SPath s) = SStr s"
| "canon v = v"

text \<open>The values the encoding keeps: distinct keys, printed floats, and no dictionary of the user that carries the
  tag of the byte strings.\<close>

fun storable :: "stval \<Rightarrow> bool" where
  "storable (SDict d) =
     (wf_dict d \<and> \<not> (dget d type_tag SNone \<in> {SStr ''bytes'', SPath ''bytes''} \<and> dhas d ''base64'') \<and> (\<forall>(k, v)\<in>set d. storable v))"
| "storable (SList xs) = (\<forall>x\<in>set xs. storable x)"
| "storable (STuple xs) = (\<forall>x\<in>set xs. storable x)"
| "storable (SFloat s) = float_text s"
| "storable v = True"

lemma those_map_Some: "(\<And>x. x \<in> set xs \<Longrightarrow> f x = Some (g x)) \<Longrightarrow> those (map f xs) = Some (map g xs)"
  by (induction xs) auto

lemma map_of_map_pairs: "map_of (map (\<lambda>(k, v). (k, f v)) d) k = map_option f (map_of d k)"
  by (induction d) auto

lemma map_of_sort_key: "wf_dict d \<Longrightarrow> map_of (sort_key fst d) = map_of d"
proof -
  assume d: "wf_dict d"
  show "map_of (sort_key fst d) = map_of d"
    by (rule map_of_inject_set [THEN iffD2]) (use d in \<open>simp_all add: wf_dict_def distinct_map\<close>)
qed

lemma json_ok_encode: "storable v \<Longrightarrow> json_ok (encode_state_value v)"
proof (induction v)
  case (SDict d)
  have "wf_dict (map (\<lambda>(k, v). (k, encode_state_value v)) d)"
    using SDict.prems by (simp add: wf_dict_def map_fst_pairs del: map_map)
  then show ?case using SDict by fastforce
qed (auto simp: wf_dict_def type_tag_def)

lemma tagged_encode:
  assumes "storable (SDict d)"
  shows "\<not> tagged (sort_key fst (map (\<lambda>(k, v). (k, sorted_keys (encode_state_value v))) d))"
proof -
  let ?e = "map (\<lambda>(k, v). (k, sorted_keys (encode_state_value v))) d"
  have e: "wf_dict ?e" using assms by (simp add: wf_dict_def map_fst_pairs del: map_map)
  have "sorted_keys (encode_state_value v) = PStr ''bytes'' \<longleftrightarrow> v = SStr ''bytes'' \<or> v = SPath ''bytes''" for v
    by (cases v) auto
  then show ?thesis
    using assms by (auto simp: tagged_def pget_def dget_def dhas_def map_of_sort_key [OF e] map_of_map_pairs split: option.splits)
qed

lemma decode_encode: "storable v \<Longrightarrow> decode_state_value (sorted_keys (encode_state_value v)) = Some (canon v)"
proof (induction v)
  case (SBytes b)
  have "sort_key fst [(type_tag, PStr ''bytes''), (''base64'', PStr (b64encode b))]
      = [(type_tag, PStr ''bytes''), (''base64'', PStr (b64encode b))]"
    by (simp add: sort_key_def type_tag_def)
  then show ?case by (simp add: tagged_def pget_def dget_def dhas_def type_tag_def)
next
  case (SList xs)
  then have "those (map (decode_state_value \<circ> (sorted_keys \<circ> encode_state_value)) xs) = Some (map canon xs)"
    by (intro those_map_Some) simp
  then show ?case by (simp add: comp_assoc)
next
  case (STuple xs)
  then have "those (map (decode_state_value \<circ> (sorted_keys \<circ> encode_state_value)) xs) = Some (map canon xs)"
    by (intro those_map_Some) simp
  then show ?case by (simp add: comp_assoc)
next
  case (SDict d)
  let ?e = "sort_key fst (map (\<lambda>(k, v). (k, sorted_keys (encode_state_value v))) d)"
  have pairs: "sorted_keys (encode_state_value (SDict d)) = PDict ?e"
    by (simp add: comp_def split_def)
  have e: "?e = map (\<lambda>(k, v). (k, sorted_keys (encode_state_value v))) (sort_key fst d)" by (rule sort_key_fst_map)
  have "those (map ((\<lambda>(k, v). map_option (Pair k) (decode_state_value v)) \<circ> (\<lambda>(k, v). (k, sorted_keys (encode_state_value v)))) (sort_key fst d))
      = Some (map (\<lambda>(k, v). (k, canon v)) (sort_key fst d))"
    using SDict by (intro those_map_Some) fastforce
  then have "those (map (\<lambda>(k, v). map_option (Pair k) (decode_state_value v)) ?e) = Some (map (\<lambda>(k, v). (k, canon v)) (sort_key fst d))"
    by (simp only: e map_map)
  then show ?case unfolding pairs using tagged_encode [OF SDict.prems] by (simp add: sort_key_fst_map)
qed auto

section \<open>The signature and the install key\<close>

text \<open>\<open>mac\<close> is HMAC-SHA256 under the derived key.\<close>

definition sign_state :: "(string \<Rightarrow> string) \<Rightarrow> string \<Rightarrow> string" where
  "sign_state mac raw = mac raw"

definition verify_state :: "(string \<Rightarrow> string) \<Rightarrow> string \<Rightarrow> string \<Rightarrow> bool" where
  "verify_state mac raw sig = (if sig = [] then False else mac raw = sig)"

text \<open>The key of the installation: cached in the process, read from its file, or generated; a file system that cannot
  be written leaves the new key in memory only.  \<open>fresh\<close> is the 64 hexadecimal digits the generator returns.\<close>

record key_store =
  cached_key :: "string option"
  key_file :: "string option"
  key_writable :: bool

definition get_or_create_install_key :: "string \<Rightarrow> key_store \<Rightarrow> string \<times> key_store" where
  "get_or_create_install_key fresh ks =
     (case cached_key ks of
        Some k \<Rightarrow> (k, ks)
      | None \<Rightarrow>
          (case map_option strip (key_file ks) of
             Some raw \<Rightarrow>
               (if 32 \<le> length raw then (take 64 raw, ks\<lparr>cached_key := Some (take 64 raw)\<rparr>)
                else (fresh, ks\<lparr>cached_key := Some fresh, key_file := (if key_writable ks then Some fresh else key_file ks)\<rparr>))
           | None \<Rightarrow>
               (fresh, ks\<lparr>cached_key := Some fresh, key_file := (if key_writable ks then Some fresh else None)\<rparr>)))"

definition restart_process :: "key_store \<Rightarrow> key_store" where
  "restart_process ks = ks\<lparr>cached_key := None\<rparr>"

definition derive_hmac_key :: "(string \<Rightarrow> string \<Rightarrow> string) \<Rightarrow> string \<Rightarrow> string" where
  "derive_hmac_key pbkdf2 install_key = pbkdf2 install_key ''cloudlearn-state-integrity-v1''"

section \<open>The SQLite store\<close>

record state_db =
  metadata :: "string dict"
  event_rows :: "(string \<times> string \<times> string) list"
  snapshot_rows :: "(int \<times> string \<times> string \<times> string) list"
  snapshot_seq :: int

definition empty_db :: state_db where
  "empty_db = \<lparr>metadata = [], event_rows = [], snapshot_rows = [], snapshot_seq = 0\<rparr>"

definition ensure_schema :: "state_db \<Rightarrow> state_db" where
  "ensure_schema d = d\<lparr>metadata := dsetdefault ''state_hmac'' [] (metadata d)\<rparr>"

definition connect :: "state_db option \<Rightarrow> state_db" where
  "connect f = ensure_schema (case f of Some d \<Rightarrow> d | None \<Rightarrow> empty_db)"

definition state_text :: "stval dict \<Rightarrow> string" where
  "state_text s = dumps_sorted (encode_state_value (SDict s))"

definition decode_dict :: "pyval \<Rightarrow> stval option result" where
  "decode_dict v =
     (case v of
        PDict d \<Rightarrow> (case decode_state_value v of Some w \<Rightarrow> Inr (Some w) | None \<Rightarrow> Inl (ValueError ''Incorrect padding''))
      | _ \<Rightarrow> Inr None)"

definition read_state_json :: "(string \<Rightarrow> string) \<Rightarrow> state_db \<Rightarrow> stval option result" where
  "read_state_json mac d =
     (case map_of (metadata d) ''state_json'' of
        None \<Rightarrow> Inr None
      | Some raw \<Rightarrow>
          (case json_loads raw of
             None \<Rightarrow> Inr None
           | Some payload \<Rightarrow>
               if \<not> is_dict payload then Inr None
               else let signature = dget (metadata d) ''state_hmac'' []
                    in if signature \<noteq> [] \<and> \<not> verify_state mac raw signature then Inr None
                       else decode_dict payload))"

definition write_state_json :: "(string \<Rightarrow> string) \<Rightarrow> stval dict \<Rightarrow> state_db \<Rightarrow> state_db" where
  "write_state_json mac s d =
     (let t = state_text s
      in d\<lparr>metadata := dset ''state_hmac'' (sign_state mac t) (dset ''state_json'' t (metadata d))\<rparr>)"

definition save_state :: "(string \<Rightarrow> string) \<Rightarrow> stval dict \<Rightarrow> state_db option \<Rightarrow> state_db" where
  "save_state mac s f = write_state_json mac s (connect f)"

text \<open>Loading at start-up: the stored state, else the legacy pickle, else the default, which is then saved.  An exception
  while reading is swallowed.\<close>

definition load_state ::
  "(string \<Rightarrow> string) \<Rightarrow> stval dict option \<Rightarrow> stval dict \<Rightarrow> state_db option \<Rightarrow> stval dict \<times> state_db" where
  "load_state mac legacy initial f =
     (let fallback = (let s = (case legacy of Some p \<Rightarrow> p | None \<Rightarrow> initial) in (s, save_state mac s f))
      in case f of
           None \<Rightarrow> fallback
         | Some d \<Rightarrow>
             (case read_state_json mac (ensure_schema d) of
                Inr (Some (SDict s)) \<Rightarrow> (s, ensure_schema d)
              | _ \<Rightarrow> fallback))"

text \<open>An event's detail is printed without the encoding, so a byte string in it is a \<open>TypeError\<close>.\<close>

fun has_bytes :: "stval \<Rightarrow> bool" where
  "has_bytes (SBytes b) = True"
| "has_bytes (SList xs) = (\<exists>x\<in>set xs. has_bytes x)"
| "has_bytes (STuple xs) = (\<exists>x\<in>set xs. has_bytes x)"
| "has_bytes (SDict d) = (\<exists>(k, v)\<in>set d. has_bytes v)"
| "has_bytes v = False"

definition store_append_event :: "string \<Rightarrow> stval dict \<Rightarrow> string \<Rightarrow> state_db option \<Rightarrow> state_db result" where
  "store_append_event event detail at f =
     (let d = connect f
      in if has_bytes (SDict detail) then Inl (TypeError ''Object of type bytes is not JSON serializable'')
         else Inr (d\<lparr>event_rows := event_rows d @ [(event, state_text detail, at)]\<rparr>))"

definition store_save_snapshot :: "string \<Rightarrow> stval dict \<Rightarrow> string \<Rightarrow> state_db option \<Rightarrow> int \<times> state_db" where
  "store_save_snapshot label s at f =
     (let d = connect f; i = snapshot_seq d + 1
      in (i, d\<lparr>snapshot_rows := snapshot_rows d @ [(i, label, state_text s, at)], snapshot_seq := i\<rparr>))"

definition store_restore_snapshot :: "int \<Rightarrow> state_db option \<Rightarrow> stval option result" where
  "store_restore_snapshot i f =
     (case map_of (map (\<lambda>(j, _, t, _). (j, t)) (snapshot_rows (connect f))) i of
        None \<Rightarrow> Inr None
      | Some t \<Rightarrow> (case json_loads t of None \<Rightarrow> Inr None | Some payload \<Rightarrow> decode_dict payload))"

section \<open>The kernel\<close>

record kernel =
  kernel_db :: "state_db option"
  kernel_state :: "stval dict"

definition kernel_start :: "(string \<Rightarrow> string) \<Rightarrow> stval dict option \<Rightarrow> stval dict \<Rightarrow> state_db option \<Rightarrow> kernel" where
  "kernel_start mac legacy initial f =
     (case load_state mac legacy initial f of (s, d) \<Rightarrow> \<lparr>kernel_db = Some d, kernel_state = s\<rparr>)"

definition kernel_persist :: "(string \<Rightarrow> string) \<Rightarrow> kernel \<Rightarrow> kernel" where
  "kernel_persist mac k = k\<lparr>kernel_db := Some (save_state mac (kernel_state k) (kernel_db k))\<rparr>"

text \<open>\<open>d.setdefault(k, {})\<close> and \<open>d.setdefault(k, [])\<close> read as containers.\<close>

definition sub_dict :: "stval dict \<Rightarrow> string \<Rightarrow> stval dict result" where
  "sub_dict d k =
     (case map_of d k of
        None \<Rightarrow> Inr []
      | Some (SDict e) \<Rightarrow> Inr e
      | Some _ \<Rightarrow> Inl (AttributeError k))"

definition sub_list :: "stval dict \<Rightarrow> string \<Rightarrow> stval list result" where
  "sub_list d k =
     (case map_of d k of
        None \<Rightarrow> Inr []
      | Some (SList xs) \<Rightarrow> Inr xs
      | Some _ \<Rightarrow> Inl (AttributeError k))"

definition kernel_record_event ::
  "(string \<Rightarrow> string) \<Rightarrow> string \<Rightarrow> stval dict \<Rightarrow> string \<Rightarrow> kernel \<Rightarrow> kernel result" where
  "kernel_record_event mac event detail at k =
     rbind (sub_dict (kernel_state k) ''usage'') (\<lambda>usage.
     rbind (sub_list usage ''events'') (\<lambda>es.
       let entry = SDict [(''event'', SStr event), (''detail'', SDict detail), (''at'', SStr at)];
           usage' = dset ''last_event_at'' (SStr at) (dset ''events'' (SList (es @ [entry])) usage)
       in rbind (store_append_event event detail at (kernel_db k)) (\<lambda>d.
            Inr (kernel_persist mac
              (k\<lparr>kernel_state := dset ''usage'' (SDict usage') (kernel_state k), kernel_db := Some d\<rparr>)))))"

text \<open>The resource graph: service, region, identifier.\<close>

definition graph_region :: "stval dict \<Rightarrow> string \<Rightarrow> string \<Rightarrow> stval dict result" where
  "graph_region st service region =
     rbind (sub_dict st ''resource_graph'') (\<lambda>graph. rbind (sub_dict graph service) (\<lambda>sg. sub_dict sg region))"

definition graph_put :: "stval dict \<Rightarrow> string \<Rightarrow> string \<Rightarrow> stval dict \<Rightarrow> stval dict result" where
  "graph_put st service region rg =
     rbind (sub_dict st ''resource_graph'') (\<lambda>graph. rbind (sub_dict graph service) (\<lambda>sg.
       Inr (dset ''resource_graph'' (SDict (dset service (SDict (dset region (SDict rg) sg)) graph)) st)))"

definition create_resource ::
  "(string \<Rightarrow> string) \<Rightarrow> string \<Rightarrow> string \<Rightarrow> string \<Rightarrow> stval dict \<Rightarrow> string \<Rightarrow> kernel \<Rightarrow> (stval dict \<times> kernel) result" where
  "create_resource mac service rtype rid payload region k =
     rbind (graph_region (kernel_state k) service region) (\<lambda>rg.
       let resource = dsetdefault ''region'' (SStr region) (dsetdefault ''service'' (SStr service)
             (dsetdefault ''resource_type'' (SStr rtype) (dsetdefault ''resource_id'' (SStr rid) payload)))
       in rbind (graph_put (kernel_state k) service region (dset rid (SDict resource) rg)) (\<lambda>st.
            Inr (resource, kernel_persist mac (k\<lparr>kernel_state := st\<rparr>))))"

definition query_resource :: "string \<Rightarrow> string \<Rightarrow> string \<Rightarrow> kernel \<Rightarrow> stval option result" where
  "query_resource service rid region k =
     rbind (graph_region (kernel_state k) service region) (\<lambda>rg. Inr (map_of rg rid))"

definition dict_update :: "stval dict \<Rightarrow> stval dict \<Rightarrow> stval dict" where
  "dict_update d updates = foldl (\<lambda>e (k, v). dset k v e) d updates"

definition update_resource ::
  "(string \<Rightarrow> string) \<Rightarrow> string \<Rightarrow> string \<Rightarrow> stval dict \<Rightarrow> string \<Rightarrow> kernel \<Rightarrow> (stval dict \<times> kernel) result" where
  "update_resource mac service rid updates region k =
     rbind (graph_region (kernel_state k) service region) (\<lambda>rg.
       case map_of rg rid of
         Some (SDict resource) \<Rightarrow>
           (if resource = [] then Inl (KeyError rid)
            else let r = dict_update resource updates
                 in rbind (graph_put (kernel_state k) service region (dset rid (SDict r) rg)) (\<lambda>st.
                      Inr (r, kernel_persist mac (k\<lparr>kernel_state := st\<rparr>))))
       | Some _ \<Rightarrow> Inl (AttributeError ''update'')
       | None \<Rightarrow> Inl (KeyError rid))"

definition delete_resource :: "(string \<Rightarrow> string) \<Rightarrow> string \<Rightarrow> string \<Rightarrow> string \<Rightarrow> kernel \<Rightarrow> kernel result" where
  "delete_resource mac service rid region k =
     rbind (graph_region (kernel_state k) service region) (\<lambda>rg.
     rbind (graph_put (kernel_state k) service region (dpop rid rg)) (\<lambda>st.
       Inr (kernel_persist mac (k\<lparr>kernel_state := st\<rparr>))))"

definition kernel_save_snapshot :: "string \<Rightarrow> string \<Rightarrow> kernel \<Rightarrow> int \<times> kernel" where
  "kernel_save_snapshot label at k =
     (case store_save_snapshot label (kernel_state k) at (kernel_db k) of (i, d) \<Rightarrow> (i, k\<lparr>kernel_db := Some d\<rparr>))"

definition kernel_restore_snapshot :: "(string \<Rightarrow> string) \<Rightarrow> int \<Rightarrow> kernel \<Rightarrow> kernel result" where
  "kernel_restore_snapshot mac i k =
     (case store_restore_snapshot i (kernel_db k) of
        Inr (Some (SDict s)) \<Rightarrow> Inr (kernel_persist mac (k\<lparr>kernel_state := s\<rparr>))
      | Inr _ \<Rightarrow> Inl (KeyError (int_str i))
      | Inl e \<Rightarrow> Inl e)"

section \<open>What is saved comes back\<close>

definition canon_dict :: "stval dict \<Rightarrow> stval dict" where
  "canon_dict s = sort_key fst (map (\<lambda>(k, v). (k, canon v)) s)"

lemma canon_SDict: "canon (SDict s) = SDict (canon_dict s)"
  by (simp add: canon_dict_def)

lemma canon_dict_lookup: "wf_dict s \<Longrightarrow> map_of (canon_dict s) k = map_option canon (map_of s k)"
proof -
  assume s: "wf_dict s"
  then have "wf_dict (map (\<lambda>(k, v). (k, canon v)) s)" by (simp add: wf_dict_def map_fst_pairs del: map_map)
  then show ?thesis by (simp add: canon_dict_def map_of_sort_key map_of_map_pairs)
qed

lemma encode_SDict_is_dict: "\<exists>d. sorted_keys (encode_state_value (SDict s)) = PDict d"
  by simp

lemma loads_state_text: "json_ok (encode_state_value (SDict s)) \<Longrightarrow> json_loads (state_text s) = Some (sorted_keys (encode_state_value (SDict s)))"
  unfolding state_text_def by (rule loads_dumps_sorted)

lemma decode_dict_state:
  "storable (SDict s) \<Longrightarrow> decode_dict (sorted_keys (encode_state_value (SDict s))) = Inr (Some (SDict (canon_dict s)))"
proof -
  assume s: "storable (SDict s)"
  obtain d where d: "sorted_keys (encode_state_value (SDict s)) = PDict d" using encode_SDict_is_dict by blast
  have "decode_state_value (PDict d) = Some (SDict (canon_dict s))"
    using decode_encode [OF s] unfolding d canon_SDict .
  then show ?thesis unfolding d decode_dict_def by (simp del: decode_state_value.simps)
qed

text \<open>What the reader does with a row that holds a printed state.\<close>

lemma read_stored:
  assumes "map_of (metadata d) ''state_json'' = Some (state_text s)" and "json_ok (encode_state_value (SDict s))"
  shows "read_state_json mac d =
     (let sig = dget (metadata d) ''state_hmac'' []
      in if sig \<noteq> [] \<and> mac (state_text s) \<noteq> sig then Inr None
         else decode_dict (sorted_keys (encode_state_value (SDict s))))"
proof -
  obtain e where e: "sorted_keys (encode_state_value (SDict s)) = PDict e" using encode_SDict_is_dict by blast
  have "json_loads (state_text s) = Some (PDict e)" using loads_state_text [OF assms(2)] e by simp
  then show ?thesis using assms(1) e
    unfolding read_state_json_def by (simp add: is_dict_def verify_state_def Let_def)
qed

lemma ensure_schema_id: "dhas (metadata d) ''state_hmac'' \<Longrightarrow> ensure_schema d = d"
  by (simp add: ensure_schema_def dsetdefault_def)

lemma save_state_metadata:
  "dget (metadata (save_state mac s f)) ''state_hmac'' [] = mac (state_text s)"
  "map_of (metadata (save_state mac s f)) ''state_json'' = Some (state_text s)"
  "dhas (metadata (save_state mac s f)) ''state_hmac''"
  by (simp_all add: save_state_def write_state_json_def sign_state_def dict_simps Let_def)

text \<open>C5. A saved state comes back: starting again on the file that \<open>save_state\<close> wrote, with the same key, gives the
  same dictionary (keys sorted, tuples as lists, byte strings decoded), whatever the legacy file and the default
  are, and leaves the file as it is.\<close>

theorem state_roundtrip:
  assumes "storable (SDict s)"
  shows "load_state mac legacy initial (Some (save_state mac s f)) = (canon_dict s, save_state mac s f)
     \<and> (\<forall>k. map_of (canon_dict s) k = map_option canon (map_of s k))"
proof -
  let ?d = "save_state mac s f"
  have "read_state_json mac (ensure_schema ?d) = Inr (Some (SDict (canon_dict s)))"
    using read_stored [OF save_state_metadata(2) json_ok_encode [OF assms], of mac mac f]
    by (simp add: ensure_schema_id save_state_metadata decode_dict_state [OF assms] Let_def
        del: encode_state_value.simps sorted_keys.simps)
  then have "load_state mac legacy initial (Some ?d) = (canon_dict s, ?d)"
    by (simp add: load_state_def ensure_schema_id save_state_metadata Let_def)
  moreover have "map_of (canon_dict s) k = map_option canon (map_of s k)" for k
    using assms by (intro canon_dict_lookup) simp
  ultimately show ?thesis by blast
qed

text \<open>A state row whose signature does not match is dropped whole: the process starts from the legacy file or the
  default, and that state overwrites the row at once.\<close>

theorem tampered_state_reset:
  assumes "dget (metadata d) ''state_hmac'' [] = sig" and "sig \<noteq> []"
    and "map_of (metadata d) ''state_json'' = Some raw" and "mac raw \<noteq> sig"
  shows "load_state mac legacy initial (Some d)
     = (let s = (case legacy of Some p \<Rightarrow> p | None \<Rightarrow> initial) in (s, save_state mac s (Some d)))"
proof -
  have h: "dhas (metadata d) ''state_hmac''" using assms(1,2) by (auto simp: dget_def dhas_def split: option.splits)
  have "read_state_json mac d = Inr None"
    using assms unfolding read_state_json_def verify_state_def by (auto split: option.splits)
  then show ?thesis by (simp add: load_state_def ensure_schema_id [OF h] Let_def)
qed

text \<open>C10. The signature protects nothing from an editor of the file: with the signature row emptied (or deleted), any
  state written into the row is accepted, without the key.\<close>

theorem unsigned_state_accepted:
  assumes "storable (SDict forged)" and "meta' = dset ''state_json'' (state_text forged) (metadata d)"
    and "d' = d\<lparr>metadata := dset ''state_hmac'' [] meta'\<rparr> \<or> d' = d\<lparr>metadata := dpop ''state_hmac'' meta'\<rparr>"
  shows "fst (load_state mac legacy initial (Some d')) = canon_dict forged"
proof -
  let ?e = "ensure_schema d'"
  have e: "dget (metadata ?e) ''state_hmac'' [] = []" "map_of (metadata ?e) ''state_json'' = Some (state_text forged)"
    using assms(2,3) by (auto simp: ensure_schema_def dsetdefault_def dict_simps dget_def)
  have "read_state_json mac ?e = Inr (Some (SDict (canon_dict forged)))"
    using read_stored [OF e(2) json_ok_encode [OF assms(1)], of mac] e(1) decode_dict_state [OF assms(1)]
    by (simp add: Let_def del: encode_state_value.simps sorted_keys.simps)
  then show ?thesis by (simp add: load_state_def)
qed

section \<open>A tagged dictionary in the state\<close>

definition poison :: "string \<Rightarrow> stval" where
  "poison text = SDict [(type_tag, SStr ''bytes''), (''base64'', SStr text)]"

lemma those_None: "None \<in> set xs \<Longrightarrow> those xs = None"
proof (induction xs)
  case (Cons x xs) then show ?case by (cases x) auto
qed simp

lemma sorted_poison: "sorted_keys (encode_state_value (poison t)) = PDict [(type_tag, PStr ''bytes''), (''base64'', PStr t)]"
  by (simp add: poison_def sort_key_def type_tag_def)

lemma decode_poison: "decode_state_value (sorted_keys (encode_state_value (poison t))) = map_option SBytes (b64decode t)"
  unfolding sorted_poison by (simp add: tagged_def pget_def dget_def dhas_def type_tag_def)

lemma decode_poisoned_dict:
  assumes "(k, poison t) \<in> set s" and "b64decode t = None" and "\<not> tagged (sort_key fst (map (\<lambda>(k, v). (k, sorted_keys (encode_state_value v))) s))"
  shows "decode_state_value (sorted_keys (encode_state_value (SDict s))) = None"
proof -
  let ?e = "sort_key fst (map (\<lambda>(k, v). (k, sorted_keys (encode_state_value v))) s)"
  have pairs: "sorted_keys (encode_state_value (SDict s)) = PDict ?e" by (simp add: comp_def split_def)
  have "(k, sorted_keys (encode_state_value (poison t))) \<in> set ?e" using assms(1) by force
  then have "None \<in> set (map (\<lambda>(k, v). map_option (Pair k) (decode_state_value v)) ?e)"
    using assms(2) decode_poison [of t] by (force simp: image_iff)
  then have "those (map (\<lambda>(k, v). map_option (Pair k) (decode_state_value v)) ?e) = None" by (rule those_None)
  then show ?thesis unfolding pairs using assms(3) by simp
qed


section \<open>Snapshots\<close>

definition snapshots_wf :: "kernel \<Rightarrow> bool" where
  "snapshots_wf k \<longleftrightarrow>
     (let d = connect (kernel_db k)
      in distinct (map fst (snapshot_rows d)) \<and> (\<forall>i\<in>fst ` set (snapshot_rows d). i \<le> snapshot_seq d))"

text \<open>One operation of the kernel.\<close>

inductive kernel_step :: "(string \<Rightarrow> string) \<Rightarrow> kernel \<Rightarrow> kernel \<Rightarrow> bool" for mac where
  mutate: "kernel_step mac k (k\<lparr>kernel_state := s\<rparr>)"
| persist: "kernel_step mac k (kernel_persist mac k)"
| log: "kernel_record_event mac event detail at k = Inr k' \<Longrightarrow> kernel_step mac k k'"
| create: "create_resource mac service rtype rid payload region k = Inr (r, k') \<Longrightarrow> kernel_step mac k k'"
| update: "update_resource mac service rid updates region k = Inr (r, k') \<Longrightarrow> kernel_step mac k k'"
| delete: "delete_resource mac service rid region k = Inr k' \<Longrightarrow> kernel_step mac k k'"
| save: "kernel_save_snapshot label at k = (i, k') \<Longrightarrow> kernel_step mac k k'"
| restore: "kernel_restore_snapshot mac i k = Inr k' \<Longrightarrow> kernel_step mac k k'"
| restart: "kernel_start mac legacy initial (kernel_db k) = k' \<Longrightarrow> kernel_step mac k k'"

inductive kernel_steps :: "(string \<Rightarrow> string) \<Rightarrow> kernel \<Rightarrow> kernel \<Rightarrow> bool" for mac where
  stop: "kernel_steps mac k k"
| step: "kernel_steps mac k k' \<Longrightarrow> kernel_step mac k' k'' \<Longrightarrow> kernel_steps mac k k''"

text \<open>The rows of a later state: the earlier rows are a prefix of them.\<close>

definition keeps_snapshots :: "state_db \<Rightarrow> state_db \<Rightarrow> bool" where
  "keeps_snapshots d d' \<longleftrightarrow>
     (\<exists>new. snapshot_rows d' = snapshot_rows d @ new \<and> snapshot_seq d \<le> snapshot_seq d'
        \<and> (\<forall>i\<in>fst ` set new. snapshot_seq d < i \<and> i \<le> snapshot_seq d') \<and> distinct (map fst new))"

lemma keeps_refl: "snapshot_rows d' = snapshot_rows d \<Longrightarrow> snapshot_seq d' = snapshot_seq d \<Longrightarrow> keeps_snapshots d d'"
  by (simp add: keeps_snapshots_def)

lemma snapshots_trans:
  assumes "keeps_snapshots d e" and "keeps_snapshots e f"
  shows "keeps_snapshots d f"
proof -
  obtain x where x: "snapshot_rows e = snapshot_rows d @ x" "snapshot_seq d \<le> snapshot_seq e"
    "\<forall>i\<in>fst ` set x. snapshot_seq d < i \<and> i \<le> snapshot_seq e" "distinct (map fst x)"
    using assms(1) by (auto simp: keeps_snapshots_def)
  obtain y where y: "snapshot_rows f = snapshot_rows e @ y" "snapshot_seq e \<le> snapshot_seq f"
    "\<forall>i\<in>fst ` set y. snapshot_seq e < i \<and> i \<le> snapshot_seq f" "distinct (map fst y)"
    using assms(2) by (auto simp: keeps_snapshots_def)
  have "fst ` set x \<inter> fst ` set y = {}" using x(3) y(3) by fastforce
  moreover have "\<forall>i\<in>fst ` set (x @ y). snapshot_seq d < i \<and> i \<le> snapshot_seq f"
    using x y by (auto simp: image_Un intro: order.strict_trans1 order.trans)
  ultimately show ?thesis using x y by (auto simp: keeps_snapshots_def intro!: exI [of _ "x @ y"])
qed

lemma keeps_wf:
  assumes "keeps_snapshots d e" and "distinct (map fst (snapshot_rows d))" and "\<forall>i\<in>fst ` set (snapshot_rows d). i \<le> snapshot_seq d"
  shows "distinct (map fst (snapshot_rows e)) \<and> (\<forall>i\<in>fst ` set (snapshot_rows e). i \<le> snapshot_seq e)"
proof -
  obtain x where x: "snapshot_rows e = snapshot_rows d @ x" "snapshot_seq d \<le> snapshot_seq e"
    "\<forall>i\<in>fst ` set x. snapshot_seq d < i \<and> i \<le> snapshot_seq e" "distinct (map fst x)"
    using assms(1) by (auto simp: keeps_snapshots_def)
  have "fst ` set (snapshot_rows d) \<inter> fst ` set x = {}" using x(3) assms(3) by fastforce
  then show ?thesis using x assms(2,3) by (auto simp: image_Un intro: order.trans)
qed

lemma snapshot_fields [simp]:
  "snapshot_rows (ensure_schema d) = snapshot_rows d" "snapshot_seq (ensure_schema d) = snapshot_seq d"
  "snapshot_rows (write_state_json mac s d) = snapshot_rows d" "snapshot_seq (write_state_json mac s d) = snapshot_seq d"
  by (simp_all add: ensure_schema_def write_state_json_def Let_def)

lemma snapshot_fields_connect [simp]:
  "snapshot_rows (connect (Some d)) = snapshot_rows d" "snapshot_seq (connect (Some d)) = snapshot_seq d"
  "snapshot_rows (save_state mac s f) = snapshot_rows (connect f)" "snapshot_seq (save_state mac s f) = snapshot_seq (connect f)"
  by (simp_all add: connect_def save_state_def)

lemma snapshot_fields_persist [simp]:
  "snapshot_rows (connect (kernel_db (kernel_persist mac k))) = snapshot_rows (connect (kernel_db k))"
  "snapshot_seq (connect (kernel_db (kernel_persist mac k))) = snapshot_seq (connect (kernel_db k))"
  by (simp_all add: kernel_persist_def)

lemma keeps_persist: "kernel_db k' = kernel_db k \<Longrightarrow> keeps_snapshots (connect (kernel_db k)) (connect (kernel_db (kernel_persist mac k')))"
  by (rule keeps_refl) simp_all

lemma update_resource_Inr:
  assumes "update_resource mac service rid updates region k = Inr (r, k')"
  obtains rg resource st where "graph_region (kernel_state k) service region = Inr rg" and "map_of rg rid = Some (SDict resource)"
    and "resource \<noteq> []" and "r = dict_update resource updates"
    and "graph_put (kernel_state k) service region (dset rid (SDict r) rg) = Inr st"
    and "k' = kernel_persist mac (k\<lparr>kernel_state := st\<rparr>)"
proof -
  obtain rg where rg: "graph_region (kernel_state k) service region = Inr rg"
    using assms unfolding update_resource_def rbind_Inr by blast
  obtain v where v: "map_of rg rid = Some v" using assms rg by (cases "map_of rg rid") (auto simp: update_resource_def)
  obtain resource where "v = SDict resource" using assms rg v by (cases v) (simp_all add: update_resource_def)
  with assms rg v that show thesis by (auto simp: update_resource_def rbind_Inr Let_def split: if_splits)
qed

lemma load_state_file:
  "snd (load_state mac legacy initial f) \<in> {connect f} \<union> {save_state mac s f |s. True}"
proof (cases f)
  case None then show ?thesis by (auto simp: load_state_def Let_def)
next
  case (Some d)
  have "connect f = ensure_schema d" using Some by (simp add: connect_def)
  then show ?thesis using Some unfolding load_state_def Let_def
    by (cases "read_state_json mac (ensure_schema d)" rule: sum.exhaust) (auto split: option.split stval.split)
qed

lemma step_keeps_snapshots:
  "kernel_step mac k k' \<Longrightarrow> keeps_snapshots (connect (kernel_db k)) (connect (kernel_db k'))"
proof (induction rule: kernel_step.induct)
  case (mutate k s) show ?case by (rule keeps_refl) simp_all
next
  case (persist k) show ?case by (rule keeps_persist) simp
next
  case (log event detail at k k')
  then show ?case
    by (intro keeps_refl) (auto simp: kernel_record_event_def rbind_Inr store_append_event_def Let_def split: if_splits)
next
  case (create service rtype rid payload region k r k')
  then show ?case by (auto simp: create_resource_def rbind_Inr Let_def intro!: keeps_persist)
next
  case (update service rid updates region k r k')
  then obtain st where "k' = kernel_persist mac (k\<lparr>kernel_state := st\<rparr>)" using update_resource_Inr by blast
  then show ?case by (auto intro: keeps_persist)
next
  case (delete service rid region k k')
  then show ?case by (auto simp: delete_resource_def rbind_Inr intro!: keeps_persist)
next
  case (save label at k i k')
  then show ?case
    by (auto simp: kernel_save_snapshot_def store_save_snapshot_def keeps_snapshots_def Let_def)
next
  case (restore i k k')
  then show ?case
    by (auto simp: kernel_restore_snapshot_def intro!: keeps_persist split: sum.splits option.splits stval.splits)
next
  case (restart legacy initial k k')
  obtain s d where l: "load_state mac legacy initial (kernel_db k) = (s, d)" by (cases "load_state mac legacy initial (kernel_db k)")
  with restart load_state_file [of mac legacy initial "kernel_db k"] show ?case
    by (intro keeps_refl) (auto simp: kernel_start_def)
qed

lemma steps_keep_snapshots:
  "kernel_steps mac k k' \<Longrightarrow> keeps_snapshots (connect (kernel_db k)) (connect (kernel_db k'))"
  by (induction rule: kernel_steps.induct) (auto intro: keeps_refl snapshots_trans step_keeps_snapshots)

lemma snapshot_lookup_kept:
  assumes "keeps_snapshots d e" and "map_of (map (\<lambda>(j, _, t, _). (j, t)) (snapshot_rows d)) i = Some t"
  shows "map_of (map (\<lambda>(j, _, t, _). (j, t)) (snapshot_rows e)) i = Some t"
  using assms by (auto simp: keeps_snapshots_def map_add_Some_iff map_add_def)

lemma saved_snapshot_row:
  assumes "kernel_save_snapshot label at k = (i, k1)" and "snapshots_wf k"
  shows "map_of (map (\<lambda>(j, _, t, _). (j, t)) (snapshot_rows (connect (kernel_db k1)))) i = Some (state_text (kernel_state k))"
proof -
  let ?d = "connect (kernel_db k)"
  have k1: "snapshot_rows (connect (kernel_db k1)) = snapshot_rows ?d @ [(i, label, state_text (kernel_state k), at)]"
    and i: "i = snapshot_seq ?d + 1"
    using assms(1) by (auto simp: kernel_save_snapshot_def store_save_snapshot_def Let_def)
  have "i \<notin> fst ` set (snapshot_rows ?d)" using assms(2) i by (force simp: snapshots_wf_def Let_def)
  then have "map_of (map (\<lambda>(j, _, t, _). (j, t)) (snapshot_rows ?d)) i = None"
    by (force simp: map_of_eq_None_iff)
  then show ?thesis by (simp add: k1 map_add_def)
qed

lemma snapshots_wf_kept: "kernel_steps mac k k' \<Longrightarrow> snapshots_wf k \<Longrightarrow> snapshots_wf k'"
  using keeps_wf [OF steps_keep_snapshots] by (simp add: snapshots_wf_def Let_def)

text \<open>C6. A snapshot is immutable: whatever runs after it was saved, events, resource changes, other snapshots,
  restores and restarts included, restoring its identifier brings back the state it was saved from.\<close>

theorem snapshot_restores:
  assumes "snapshots_wf k" and "storable (SDict (kernel_state k))"
    and "kernel_save_snapshot label at k = (i, k1)" and "kernel_steps mac k1 k2"
  shows "\<exists>k3. kernel_restore_snapshot mac i k2 = Inr k3 \<and> kernel_state k3 = canon_dict (kernel_state k)"
proof -
  let ?s = "kernel_state k"
  have "map_of (map (\<lambda>(j, _, t, _). (j, t)) (snapshot_rows (connect (kernel_db k2)))) i = Some (state_text ?s)"
    by (rule snapshot_lookup_kept [OF steps_keep_snapshots [OF assms(4)] saved_snapshot_row [OF assms(3,1)]])
  moreover have "json_loads (state_text ?s) = Some (sorted_keys (encode_state_value (SDict ?s)))"
    by (rule loads_state_text [OF json_ok_encode [OF assms(2)]])
  ultimately have "store_restore_snapshot i (kernel_db k2) = Inr (Some (SDict (canon_dict ?s)))"
    using decode_dict_state [OF assms(2)]
    by (simp add: store_restore_snapshot_def del: encode_state_value.simps sorted_keys.simps)
  then show ?thesis by (simp add: kernel_restore_snapshot_def kernel_persist_def)
qed

section \<open>The resource graph as a map\<close>

definition graph_at :: "stval dict \<Rightarrow> string \<times> string \<times> string \<Rightarrow> stval option" where
  "graph_at st = (\<lambda>(service, region, rid). case graph_region st service region of Inr rg \<Rightarrow> map_of rg rid | Inl _ \<Rightarrow> None)"

text \<open>The three levels of the graph are dictionaries.\<close>

fun dict_levels :: "nat \<Rightarrow> stval \<Rightarrow> bool" where
  "dict_levels 0 v = (case v of SDict _ \<Rightarrow> True | _ \<Rightarrow> False)"
| "dict_levels (Suc n) v = (case v of SDict d \<Rightarrow> \<forall>(k, w)\<in>set d. dict_levels n w | _ \<Rightarrow> False)"

definition graph_ok :: "stval dict \<Rightarrow> bool" where
  "graph_ok st \<longleftrightarrow> (\<forall>v. map_of st ''resource_graph'' = Some v \<longrightarrow> dict_levels 3 v)"

lemma dict_levels_Suc: "dict_levels (Suc n) v \<longleftrightarrow> (\<exists>d. v = SDict d \<and> (\<forall>w\<in>snd ` set d. dict_levels n w))"
  by (cases v) auto

lemma dict_levels_0: "dict_levels 0 v \<longleftrightarrow> (\<exists>d. v = SDict d)"
  by (cases v) auto

declare dict_levels.simps [simp del]

lemma sub_dict_levels:
  assumes "\<forall>w\<in>snd ` set d. dict_levels (Suc n) w"
  obtains e where "sub_dict d k = Inr e" and "\<forall>w\<in>snd ` set e. dict_levels n w"
    and "map_of d k = None \<Longrightarrow> e = []" and "\<And>w. map_of d k = Some w \<Longrightarrow> w = SDict e"
proof (cases "map_of d k")
  case None then show thesis using that [of "[]"] by (simp add: sub_dict_def)
next
  case (Some w)
  then have "dict_levels (Suc n) w" using assms map_of_SomeD by force
  then obtain e where e: "w = SDict e" "\<forall>w\<in>snd ` set e. dict_levels n w" by (auto simp: dict_levels_Suc)
  show thesis
  proof (rule that [of e])
    show "sub_dict d k = Inr e" using Some e(1) by (simp add: sub_dict_def)
  qed (use Some e in simp_all)
qed

lemma dict_levels_dset:
  assumes "\<forall>w\<in>snd ` set d. dict_levels n w" and "dict_levels n v"
  shows "\<forall>w\<in>snd ` set (dset k v d). dict_levels n w"
proof -
  have "set (dset k v d) \<subseteq> insert (k, v) (set d)" unfolding dset_def by (induction d) auto
  with assms show ?thesis by fastforce
qed

lemma graph_ok_top: "graph_ok st \<Longrightarrow> (map_of st ''resource_graph'' = None \<or> (\<exists>g. map_of st ''resource_graph'' = Some (SDict g)
    \<and> (\<forall>w\<in>snd ` set g. dict_levels 2 w)))"
  by (cases "map_of st ''resource_graph''") (auto simp: graph_ok_def numeral_3_eq_3 numeral_2_eq_2 dict_levels_Suc)

lemma sub_dict_dset [simp]: "sub_dict (dset k (SDict e) d) k' = (if k' = k then Inr e else sub_dict d k')"
  by (simp add: sub_dict_def dict_simps)

lemma graph_ok_levels:
  assumes "graph_ok st"
  obtains g sg rg where "sub_dict st ''resource_graph'' = Inr g" and "\<forall>w\<in>snd ` set g. dict_levels 2 w"
    and "sub_dict g service = Inr sg" and "\<forall>w\<in>snd ` set sg. dict_levels 1 w"
    and "sub_dict sg region = Inr rg" and "\<forall>w\<in>snd ` set rg. dict_levels 0 w"
proof -
  obtain g where g: "sub_dict st ''resource_graph'' = Inr g" "\<forall>w\<in>snd ` set g. dict_levels 2 w"
    using graph_ok_top [OF assms] by (auto simp: sub_dict_def)
  then have "\<forall>w\<in>snd ` set g. dict_levels (Suc 1) w" by (simp add: numeral_2_eq_2)
  then obtain sg where sg: "sub_dict g service = Inr sg" "\<forall>w\<in>snd ` set sg. dict_levels 1 w" by (rule sub_dict_levels)
  then have "\<forall>w\<in>snd ` set sg. dict_levels (Suc 0) w" by simp
  then obtain rg where rg: "sub_dict sg region = Inr rg" "\<forall>w\<in>snd ` set rg. dict_levels 0 w" by (rule sub_dict_levels)
  show thesis by (rule that [OF g sg rg])
qed

lemma graph_put_spec:
  assumes "graph_ok st" and "\<forall>w\<in>snd ` set rg. dict_levels 0 w"
  obtains st' where "graph_put st service region rg = Inr st'" and "graph_ok st'"
    and "graph_at st' = (\<lambda>(s, r, i). if s = service \<and> r = region then map_of rg i else graph_at st (s, r, i))"
proof -
  obtain g sg rg0 where g: "sub_dict st ''resource_graph'' = Inr g" "\<forall>w\<in>snd ` set g. dict_levels 2 w"
    and sg: "sub_dict g service = Inr sg" "\<forall>w\<in>snd ` set sg. dict_levels 1 w" and "sub_dict sg region = Inr rg0"
    by (rule graph_ok_levels [OF assms(1), of service region]) blast
  let ?sg = "dset region (SDict rg) sg" and ?g = "dset service (SDict (dset region (SDict rg) sg)) g"
  let ?st = "dset ''resource_graph'' (SDict ?g) st"
  have "dict_levels 1 (SDict rg)" using assms(2) by (simp add: dict_levels_Suc One_nat_def)
  then have "\<forall>w\<in>snd ` set ?sg. dict_levels 1 w" by (rule dict_levels_dset [OF sg(2)])
  then have "dict_levels 2 (SDict ?sg)" by (simp add: dict_levels_Suc numeral_2_eq_2)
  then have "\<forall>w\<in>snd ` set ?g. dict_levels 2 w" by (rule dict_levels_dset [OF g(2)])
  then have "dict_levels 3 (SDict ?g)" by (simp add: dict_levels_Suc numeral_3_eq_3 numeral_2_eq_2)
  then have ok: "graph_ok ?st" by (simp add: graph_ok_def dict_simps)
  have "graph_at ?st = (\<lambda>(s, r, i). if s = service \<and> r = region then map_of rg i else graph_at st (s, r, i))"
    using g(1) sg(1) by (auto simp: graph_at_def graph_region_def fun_eq_iff)
  then show thesis using g(1) sg(1) ok by (intro that [of ?st]) (simp_all add: graph_put_def)
qed

lemma graph_at_region: "graph_region st service region = Inr rg \<Longrightarrow> graph_at st (service, region, rid) = map_of rg rid"
  by (simp add: graph_at_def)

lemma graph_region_ok:
  assumes "graph_ok st"
  obtains rg where "graph_region st service region = Inr rg" and "\<forall>w\<in>snd ` set rg. dict_levels 0 w"
  by (rule graph_ok_levels [OF assms, of service region]) (use that in \<open>simp add: graph_region_def\<close>)

lemma kernel_state_persist [simp]: "kernel_state (kernel_persist mac k) = kernel_state k"
  by (simp add: kernel_persist_def)

definition resource_record :: "string \<Rightarrow> string \<Rightarrow> string \<Rightarrow> stval dict \<Rightarrow> string \<Rightarrow> stval dict" where
  "resource_record service rtype rid payload region =
     dsetdefault ''region'' (SStr region) (dsetdefault ''service'' (SStr service)
       (dsetdefault ''resource_type'' (SStr rtype) (dsetdefault ''resource_id'' (SStr rid) payload)))"

lemma create_refines:
  assumes "graph_ok (kernel_state k)"
  shows "\<exists>k'. create_resource mac service rtype rid payload region k = Inr (resource_record service rtype rid payload region, k')
    \<and> graph_ok (kernel_state k')
    \<and> graph_at (kernel_state k') = (graph_at (kernel_state k))((service, region, rid) \<mapsto> SDict (resource_record service rtype rid payload region))"
proof -
  obtain rg where rg: "graph_region (kernel_state k) service region = Inr rg" "\<forall>w\<in>snd ` set rg. dict_levels 0 w"
    by (rule graph_region_ok [OF assms])
  let ?r = "resource_record service rtype rid payload region"
  have "\<forall>w\<in>snd ` set (dset rid (SDict ?r) rg). dict_levels 0 w"
    by (rule dict_levels_dset [OF rg(2)]) (simp add: dict_levels_0)
  then obtain st where st: "graph_put (kernel_state k) service region (dset rid (SDict ?r) rg) = Inr st" "graph_ok st"
    "graph_at st = (\<lambda>(s, r, i). if s = service \<and> r = region then map_of (dset rid (SDict ?r) rg) i else graph_at (kernel_state k) (s, r, i))"
    by (rule graph_put_spec [OF assms])
  have "graph_at st = (graph_at (kernel_state k))((service, region, rid) \<mapsto> SDict ?r)"
    using st(3) graph_at_region [OF rg(1)] by (auto simp: fun_eq_iff dict_simps)
  then show ?thesis using rg(1) st(1,2)
    unfolding create_resource_def resource_record_def by (simp add: Let_def)
qed

lemma update_refines:
  assumes "graph_ok (kernel_state k)"
  shows "case graph_at (kernel_state k) (service, region, rid) of
      Some (SDict resource) \<Rightarrow>
        (if resource = [] then update_resource mac service rid updates region k = Inl (KeyError rid)
         else \<exists>k'. update_resource mac service rid updates region k = Inr (dict_update resource updates, k')
             \<and> graph_ok (kernel_state k')
             \<and> graph_at (kernel_state k') = (graph_at (kernel_state k))((service, region, rid) \<mapsto> SDict (dict_update resource updates)))
    | Some _ \<Rightarrow> False
    | None \<Rightarrow> update_resource mac service rid updates region k = Inl (KeyError rid)"
proof -
  obtain rg where rg: "graph_region (kernel_state k) service region = Inr rg" "\<forall>w\<in>snd ` set rg. dict_levels 0 w"
    by (rule graph_region_ok [OF assms])
  note at = graph_at_region [OF rg(1)]
  show ?thesis
  proof (cases "map_of rg rid")
    case None then show ?thesis using rg at by (simp add: update_resource_def)
  next
    case (Some v)
    then have "dict_levels 0 v" using rg(2) map_of_SomeD by force
    then obtain res where v: "v = SDict res" by (auto simp: dict_levels_0)
    let ?r = "dict_update res updates"
    have "\<forall>w\<in>snd ` set (dset rid (SDict ?r) rg). dict_levels 0 w"
      by (rule dict_levels_dset [OF rg(2)]) (simp add: dict_levels_0)
    then obtain st where st: "graph_put (kernel_state k) service region (dset rid (SDict ?r) rg) = Inr st" "graph_ok st"
      "graph_at st = (\<lambda>(s, r, i). if s = service \<and> r = region then map_of (dset rid (SDict ?r) rg) i else graph_at (kernel_state k) (s, r, i))"
      by (rule graph_put_spec [OF assms])
    have "graph_at st = (graph_at (kernel_state k))((service, region, rid) \<mapsto> SDict ?r)"
      using st(3) at by (auto simp: fun_eq_iff dict_simps)
    then show ?thesis using Some v rg(1) at st(1,2) by (simp add: update_resource_def Let_def)
  qed
qed

lemma delete_refines:
  assumes "graph_ok (kernel_state k)"
  shows "\<exists>k'. delete_resource mac service rid region k = Inr k' \<and> graph_ok (kernel_state k')
    \<and> graph_at (kernel_state k') = (graph_at (kernel_state k))((service, region, rid) := None)"
proof -
  obtain rg where rg: "graph_region (kernel_state k) service region = Inr rg" "\<forall>w\<in>snd ` set rg. dict_levels 0 w"
    by (rule graph_region_ok [OF assms])
  have "\<forall>w\<in>snd ` set (dpop rid rg). dict_levels 0 w" using rg(2) by (auto simp: dict_simps)
  then obtain st where st: "graph_put (kernel_state k) service region (dpop rid rg) = Inr st" "graph_ok st"
    "graph_at st = (\<lambda>(s, r, i). if s = service \<and> r = region then map_of (dpop rid rg) i else graph_at (kernel_state k) (s, r, i))"
    by (rule graph_put_spec [OF assms])
  have "graph_at st = (graph_at (kernel_state k))((service, region, rid) := None)"
    using st(3) graph_at_region [OF rg(1)] by (auto simp: fun_eq_iff dict_simps)
  then show ?thesis using rg(1) st(1,2) by (simp add: delete_resource_def)
qed

text \<open>C11. The kernel's resource graph refines a finite map from (service, region, identifier) to resources: creating
  overwrites one point and fills in the identity fields, updating merges into a present one and is a \<open>KeyError\<close>
  otherwise, deleting clears one point, and nothing else changes.\<close>

theorem graph_refines_map:
  assumes "graph_ok (kernel_state k)"
  shows "(\<exists>k'. create_resource mac service rtype rid payload region k = Inr (resource_record service rtype rid payload region, k')
      \<and> graph_ok (kernel_state k')
      \<and> graph_at (kernel_state k') = (graph_at (kernel_state k))((service, region, rid) \<mapsto> SDict (resource_record service rtype rid payload region)))
    \<and> (case graph_at (kernel_state k) (service, region, rid) of
        Some (SDict resource) \<Rightarrow>
          (if resource = [] then update_resource mac service rid updates region k = Inl (KeyError rid)
           else \<exists>k'. update_resource mac service rid updates region k = Inr (dict_update resource updates, k')
               \<and> graph_ok (kernel_state k')
               \<and> graph_at (kernel_state k') = (graph_at (kernel_state k))((service, region, rid) \<mapsto> SDict (dict_update resource updates)))
      | Some _ \<Rightarrow> False
      | None \<Rightarrow> update_resource mac service rid updates region k = Inl (KeyError rid))
    \<and> (\<exists>k'. delete_resource mac service rid region k = Inr k' \<and> graph_ok (kernel_state k')
      \<and> graph_at (kernel_state k') = (graph_at (kernel_state k))((service, region, rid) := None))
    \<and> query_resource service rid region k = Inr (graph_at (kernel_state k) (service, region, rid))"
proof -
  obtain rg where "graph_region (kernel_state k) service region = Inr rg" by (rule graph_region_ok [OF assms])
  then have "query_resource service rid region k = Inr (graph_at (kernel_state k) (service, region, rid))"
    by (simp add: query_resource_def graph_at_def)
  then show ?thesis
    by (intro conjI create_refines [OF assms] update_refines [OF assms] delete_refines [OF assms])
qed

section \<open>The install key across restarts\<close>

lemma install_key_kept:
  assumes "length fresh = 64" and "\<forall>c\<in>set fresh. \<not> is_space c" and "key_writable ks"
    and "get_or_create_install_key fresh ks = (key, ks')"
    and "cached_key ks = None"
  shows "fst (get_or_create_install_key fresh' (restart_process ks')) = key"
  using assms
  by (auto simp: get_or_create_install_key_def restart_process_def strip_no_space strip_idem
      split: option.splits if_splits)

text \<open>On a file system that cannot be written every process has its own key, and takes the state of the previous one
  for tampered.\<close>

lemma unwritable_key_changes:
  assumes "\<not> key_writable ks" and "key_file ks = None" and "cached_key ks = None"
    and "get_or_create_install_key fresh ks = (key, ks')"
  shows "key = fresh \<and> fst (get_or_create_install_key fresh' (restart_process ks')) = fresh'"
  using assms by (auto simp: get_or_create_install_key_def restart_process_def)

section \<open>Concrete runs\<close>

definition demo_state :: "stval dict" where
  "demo_state =
     [(''s3'', SDict [(''body'', SBytes ''hi!''), (''tags'', STuple [SInt 1, SFloat ''1.5''])]),
      (''license'', SDict [(''tier'', SStr ''free'')])]"

lemma demo_storable: "storable (SDict demo_state)"
proof -
  have "float_text ''1.5''"
    by (simp add: float_text_def num_char_def is_digit_def json_number_def int_part_def unsigned_float_def digits1_def exp_part_def)
  then show ?thesis by (simp add: demo_state_def wf_dict_def dhas_def dget_def type_tag_def)
qed

theorem state_roundtrip_witness:
  "fst (load_state rev None [] (Some (save_state rev demo_state None)))
   = [(''license'', SDict [(''tier'', SStr ''free'')]),
      (''s3'', SDict [(''body'', SBytes ''hi!''), (''tags'', SList [SInt 1, SFloat ''1.5''])])]"
proof -
  have "canon_dict demo_state
    = [(''license'', SDict [(''tier'', SStr ''free'')]),
       (''s3'', SDict [(''body'', SBytes ''hi!''), (''tags'', SList [SInt 1, SFloat ''1.5''])])]"
    by code_simp
  then show ?thesis using state_roundtrip [OF demo_storable, of rev None "[]" None] by simp
qed

theorem tampered_state_reset_witness:
  "fst (load_state rev None [] (Some \<lparr>metadata = [(''state_json'', ''{}''), (''state_hmac'', ''00'')], event_rows = [],
     snapshot_rows = [], snapshot_seq = 0\<rparr>)) = []"
  by (subst tampered_state_reset [where sig = "''00''" and raw = "''{}''"]) (simp_all add: dget_def)

theorem unsigned_state_accepted_witness:
  "fst (load_state rev None [] (Some (empty_db\<lparr>metadata := dset ''state_hmac'' []
     (dset ''state_json'' (state_text [(''license'', SDict [(''tier'', SStr ''enterprise'')])]) (metadata empty_db))\<rparr>)))
   = canon_dict [(''license'', SDict [(''tier'', SStr ''enterprise'')])]"
  by (rule unsigned_state_accepted [OF _ refl, where d = empty_db]) (simp_all add: wf_dict_def dget_def type_tag_def)


theorem snapshot_restores_witness:
  "\<exists>k3. kernel_restore_snapshot rev 1
      ((snd (kernel_save_snapshot ''manual'' ''now'' \<lparr>kernel_db = None, kernel_state = demo_state\<rparr>))\<lparr>kernel_state := []\<rparr>) = Inr k3
    \<and> kernel_state k3 = canon_dict demo_state"
proof -
  let ?k = "\<lparr>kernel_db = None, kernel_state = demo_state\<rparr>" and ?k1 = "snd (kernel_save_snapshot ''manual'' ''now'' \<lparr>kernel_db = None, kernel_state = demo_state\<rparr>)"
  have wf: "snapshots_wf ?k" by (simp add: snapshots_wf_def connect_def ensure_schema_def empty_db_def)
  have "fst (kernel_save_snapshot ''manual'' ''now'' ?k) = 1"
    by (simp add: kernel_save_snapshot_def store_save_snapshot_def connect_def ensure_schema_def empty_db_def Let_def)
  then have s: "kernel_save_snapshot ''manual'' ''now'' ?k = (1, ?k1)" by (metis prod.collapse)
  have "kernel_steps rev ?k1 (?k1\<lparr>kernel_state := []\<rparr>)" by (rule kernel_steps.step [OF kernel_steps.stop kernel_step.mutate])
  then show ?thesis
    using snapshot_restores [OF wf _ s, of rev "?k1\<lparr>kernel_state := []\<rparr>"] demo_storable by simp
qed

theorem graph_refines_map_witness:
  "\<exists>k'. create_resource rev ''ec2'' ''instance'' ''i-1'' [] ''global'' \<lparr>kernel_db = None, kernel_state = []\<rparr>
      = Inr (resource_record ''ec2'' ''instance'' ''i-1'' [] ''global'', k')
    \<and> graph_at (kernel_state k') (''ec2'', ''global'', ''i-1'') = Some (SDict (resource_record ''ec2'' ''instance'' ''i-1'' [] ''global''))"
  using graph_refines_map [of "\<lparr>kernel_db = None, kernel_state = []\<rparr>" rev "''ec2''" "''instance''" "''i-1''" "[]" "''global''" "[]"]
  by (auto simp: graph_ok_def)

end
