(* ===== verification/Audit_Chain.thy ===== *)
theory Audit_Chain
imports Py_Json
begin

text \<open>The security audit trail (\<open>core/security_audit.py\<close>): events chained by a hash, appending, reading and verifying.
  SHA-256 in hexadecimal is a parameter; what is used of it is that its digests have 64 characters.\<close>

section \<open>The log\<close>

record audit_row =
  row_id :: int
  event_type :: string
  detail_json :: string
  source_ip :: string
  row_timestamp :: string
  prev_hash :: string
  entry_hash :: string

record audit_log =
  audit_rows :: "audit_row list"
  audit_seq :: int

definition compute_hash :: "(string \<Rightarrow> string) \<Rightarrow> string \<Rightarrow> string \<Rightarrow> string" where
  "compute_hash sha entry_json prev = sha (entry_json @ ''|'' @ prev)"

definition genesis :: "(string \<Rightarrow> string) \<Rightarrow> string" where
  "genesis sha = sha ''genesis''"

definition get_last_hash :: "(string \<Rightarrow> string) \<Rightarrow> audit_row list \<Rightarrow> string" where
  "get_last_hash sha rows = (if rows = [] then genesis sha else entry_hash (last rows))"

definition entry_json :: "string \<Rightarrow> pyval \<Rightarrow> string \<Rightarrow> string \<Rightarrow> string" where
  "entry_json etype detail ip timestamp =
     dumps (PDict [(''event_type'', PStr etype), (''detail'', detail), (''source_ip'', PStr ip),
                   (''timestamp'', PStr timestamp)])"

definition audit_append :: "(string \<Rightarrow> string) \<Rightarrow> string \<Rightarrow> pyval dict \<Rightarrow> string \<Rightarrow> string \<Rightarrow> audit_log \<Rightarrow> audit_log" where
  "audit_append sha etype detail ip timestamp log =
     (let prev = get_last_hash sha (audit_rows log); i = audit_seq log + 1
      in log\<lparr>audit_rows := audit_rows log @
           [\<lparr>row_id = i, event_type = etype, detail_json = dumps (PDict detail), source_ip = ip,
             row_timestamp = timestamp, prev_hash = prev,
             entry_hash = compute_hash sha (entry_json etype (PDict detail) ip timestamp) prev\<rparr>],
           audit_seq := i\<rparr>)"

text \<open>Newest first; a negative limit is no limit.  A detail that is not JSON empties the answer.\<close>

definition row_view :: "audit_row \<Rightarrow> pyval option" where
  "row_view r =
     map_option (\<lambda>d. PDict [(''id'', PInt (row_id r)), (''event_type'', PStr (event_type r)), (''detail'', d),
       (''source_ip'', PStr (source_ip r)), (''timestamp'', PStr (row_timestamp r)), (''prev_hash'', PStr (prev_hash r)),
       (''entry_hash'', PStr (entry_hash r))]) (json_loads (detail_json r))"

definition read_log :: "int \<Rightarrow> int \<Rightarrow> audit_log \<Rightarrow> pyval list" where
  "read_log limit offset log =
     (let rows = drop (nat offset) (rev (audit_rows log));
          page = (if limit < 0 then rows else take (nat limit) rows)
      in case those (map row_view page) of Some vs \<Rightarrow> vs | None \<Rightarrow> [])"

text \<open>The walk over the rows; a detail that is not JSON raises.\<close>

fun verify_rows :: "(string \<Rightarrow> string) \<Rightarrow> string \<Rightarrow> audit_row list \<Rightarrow> (bool \<times> int \<times> string) result" where
  "verify_rows sha expected [] = Inr (True, 0, [])"
| "verify_rows sha expected (r # rows) =
     (if prev_hash r \<noteq> expected then Inr (False, row_id r, ''prev_hash mismatch at id='' @ int_str (row_id r))
      else case json_loads (detail_json r) of
             None \<Rightarrow> Inl (ValueError ''Expecting value'')
           | Some d \<Rightarrow>
               (if compute_hash sha (entry_json (event_type r) d (source_ip r) (row_timestamp r)) (prev_hash r) \<noteq> entry_hash r
                then Inr (False, row_id r, ''entry_hash mismatch at id='' @ int_str (row_id r))
                else verify_rows sha (entry_hash r) rows))"

definition verify_chain :: "(string \<Rightarrow> string) \<Rightarrow> audit_log \<Rightarrow> (bool \<times> int \<times> string) result" where
  "verify_chain sha log = verify_rows sha (genesis sha) (audit_rows log)"

section \<open>What a chain is\<close>

definition row_ok :: "(string \<Rightarrow> string) \<Rightarrow> audit_row \<Rightarrow> bool" where
  "row_ok sha r \<longleftrightarrow>
     (\<exists>d. json_loads (detail_json r) = Some d
        \<and> entry_hash r = compute_hash sha (entry_json (event_type r) d (source_ip r) (row_timestamp r)) (prev_hash r))"

fun chained :: "(string \<Rightarrow> string) \<Rightarrow> string \<Rightarrow> audit_row list \<Rightarrow> bool" where
  "chained sha h [] = True"
| "chained sha h (r # rows) = (prev_hash r = h \<and> row_ok sha r \<and> chained sha (entry_hash r) rows)"

definition chain_ok :: "(string \<Rightarrow> string) \<Rightarrow> audit_log \<Rightarrow> bool" where
  "chain_ok sha log \<longleftrightarrow> verify_chain sha log = Inr (True, 0, [])"

lemma verify_rows_chained: "verify_rows sha h rows = Inr (True, 0, []) \<longleftrightarrow> chained sha h rows"
proof (induction rows arbitrary: h)
  case (Cons r rows)
  then show ?case by (cases "json_loads (detail_json r)") (auto simp: row_ok_def)
qed simp

lemma chain_ok_iff: "chain_ok sha log \<longleftrightarrow> chained sha (genesis sha) (audit_rows log)"
  by (simp add: chain_ok_def verify_chain_def verify_rows_chained)

lemma chained_append:
  "chained sha h (rows @ rest) \<longleftrightarrow> chained sha h rows \<and> chained sha (if rows = [] then h else entry_hash (last rows)) rest"
  by (induction rows arbitrary: h) auto

lemma append_chained:
  assumes "json_ok (PDict detail)" and "chained sha (genesis sha) (audit_rows log)"
  shows "chained sha (genesis sha) (audit_rows (audit_append sha etype detail ip ts log))"
  using assms by (auto simp: audit_append_def chained_append row_ok_def get_last_hash_def Let_def)

text \<open>A log that the program wrote.\<close>

inductive written :: "(string \<Rightarrow> string) \<Rightarrow> audit_log \<Rightarrow> bool" for sha where
  fresh: "written sha \<lparr>audit_rows = [], audit_seq = 0\<rparr>"
| append: "written sha log \<Longrightarrow> json_ok (PDict detail) \<Longrightarrow> written sha (audit_append sha etype detail ip ts log)"

text \<open>Whatever the program appends, the chain verifies.\<close>

theorem written_log_verifies: "written sha log \<Longrightarrow> verify_chain sha log = Inr (True, 0, [])"
proof -
  assume "written sha log"
  then have "chained sha (genesis sha) (audit_rows log)"
    by (induction rule: written.induct) (simp_all add: append_chained)
  then show ?thesis by (simp add: chain_ok_iff [unfolded chain_ok_def])
qed

section \<open>Tampering\<close>

text \<open>The content of a row: everything the chain protects.\<close>

definition content :: "audit_row \<Rightarrow> string \<times> pyval option \<times> string \<times> string" where
  "content r = (event_type r, json_loads (detail_json r), source_ip r, row_timestamp r)"

definition collision :: "(string \<Rightarrow> string) \<Rightarrow> bool" where
  "collision sha \<longleftrightarrow> (\<exists>x y. x \<noteq> y \<and> sha x = sha y)"

lemma entry_json_inj:
  assumes "entry_json a d b c = entry_json a' d' b' c'" and "json_ok d" and "json_ok d'"
  shows "a = a' \<and> d = d' \<and> b = b' \<and> c = c'"
proof -
  let ?v = "\<lambda>a d b c. PDict [(''event_type'', PStr a), (''detail'', d), (''source_ip'', PStr b), (''timestamp'', PStr c)]"
  have "json_ok (?v a d b c)" "json_ok (?v a' d' b' c')" using assms(2,3) by (simp_all add: wf_dict_def)
  then have "Some (?v a d b c) = Some (?v a' d' b' c')"
    using assms(1) unfolding entry_json_def by (metis loads_dumps)
  then show ?thesis by simp
qed

lemma hash_inj:
  assumes "compute_hash sha e p = compute_hash sha e' p'" and "\<not> collision sha" and "length p = length p'"
  shows "e = e' \<and> p = p'"
proof -
  have "e @ ''|'' @ p = e' @ ''|'' @ p'" using assms(1,2) unfolding compute_hash_def collision_def by blast
  with assms(3) show ?thesis by simp
qed

lemma last_row_determined:
  assumes "row_ok sha r" and "row_ok sha r'" and "entry_hash r = entry_hash r'" and "length (prev_hash r) = length (prev_hash r')"
    and "\<not> collision sha"
  shows "content r = content r' \<and> prev_hash r = prev_hash r'"
proof -
  obtain d d' where d: "json_loads (detail_json r) = Some d" "json_loads (detail_json r') = Some d'"
    and h: "compute_hash sha (entry_json (event_type r) d (source_ip r) (row_timestamp r)) (prev_hash r)
      = compute_hash sha (entry_json (event_type r') d' (source_ip r') (row_timestamp r')) (prev_hash r')"
    using assms(1-3) unfolding row_ok_def by metis
  have e: "entry_json (event_type r) d (source_ip r) (row_timestamp r) = entry_json (event_type r') d' (source_ip r') (row_timestamp r')"
    and p: "prev_hash r = prev_hash r'" using hash_inj [OF h assms(5,4)] by auto
  with entry_json_inj [OF e json_loads_ok [OF d(1)] json_loads_ok [OF d(2)]] d show ?thesis
    by (simp add: content_def)
qed

lemma not_genesis: "\<not> collision sha \<Longrightarrow> compute_hash sha e p \<noteq> genesis sha"
proof
  assume "\<not> collision sha" "compute_hash sha e p = genesis sha"
  then have "e @ ''|'' @ p = ''genesis''" unfolding compute_hash_def genesis_def collision_def by blast
  then have "CHR ''|'' \<in> set ''genesis''" by (metis append_Cons in_set_conv_decomp)
  then show False by simp
qed

lemma chained_last_prev:
  "chained sha h (rows @ [r]) \<longleftrightarrow> chained sha h rows \<and> prev_hash r = (if rows = [] then h else entry_hash (last rows)) \<and> row_ok sha r"
  by (auto simp: chained_append)

lemma same_head_same_log:
  assumes "\<And>x. length (sha x) = 64" and "\<not> collision sha"
    and "chained sha (genesis sha) rows" and "chained sha (genesis sha) rows'"
    and "get_last_hash sha rows = get_last_hash sha rows'"
  shows "map content rows = map content rows'"
  using assms(3-5)
proof (induction rows arbitrary: rows' rule: rev_induct)
  case Nil
  show ?case
  proof (cases rows' rule: rev_cases)
    case (snoc q r')
    with Nil not_genesis [OF assms(2), symmetric] show ?thesis
      by (auto simp: get_last_hash_def chained_last_prev row_ok_def)
  qed simp
next
  case (snoc r p)
  have r: "row_ok sha r" "chained sha (genesis sha) p" "prev_hash r = get_last_hash sha p"
    using snoc.prems(1) by (auto simp: chained_last_prev get_last_hash_def)
  show ?case
  proof (cases rows' rule: rev_cases)
    case Nil
    then have "entry_hash r = genesis sha" using snoc.prems(3) by (simp add: get_last_hash_def)
    with r(1) not_genesis [OF assms(2)] show ?thesis unfolding row_ok_def by metis
  next
    case (snoc q r')
    have r': "row_ok sha r'" "chained sha (genesis sha) q" "prev_hash r' = get_last_hash sha q"
      using \<open>chained sha (genesis sha) rows'\<close> snoc by (auto simp: chained_last_prev get_last_hash_def)
    have len: "length (get_last_hash sha s) = 64" if "chained sha (genesis sha) s" for s
      using that assms(1) by (cases s rule: rev_cases)
        (auto simp: get_last_hash_def genesis_def chained_last_prev row_ok_def compute_hash_def)
    have "entry_hash r = entry_hash r'" using \<open>get_last_hash sha (p @ [r]) = get_last_hash sha rows'\<close> snoc by (simp add: get_last_hash_def)
    then have "content r = content r' \<and> prev_hash r = prev_hash r'"
      using last_row_determined [OF r(1) r'(1) _ _ assms(2)] r r' len by simp
    moreover from this r(3) r'(3) have "map content p = map content q" by (intro snoc.IH r(2) r'(2)) simp
    ultimately show ?thesis using snoc by simp
  qed
qed


text \<open>Deleting the newest events is not detected: every beginning of a log that verifies verifies, and so do the
  events appended after the deletion.\<close>

theorem audit_truncation_undetected:
  assumes "verify_chain sha log = Inr (True, 0, [])" and "json_ok (PDict detail)"
  shows "verify_chain sha (log\<lparr>audit_rows := take n (audit_rows log)\<rparr>) = Inr (True, 0, [])
    \<and> verify_chain sha (audit_append sha etype detail ip ts (log\<lparr>audit_rows := take n (audit_rows log)\<rparr>)) = Inr (True, 0, [])"
proof -
  have "chained sha (genesis sha) (take n (audit_rows log) @ drop n (audit_rows log))"
    using assms(1) chain_ok_iff [of sha log, unfolded chain_ok_def] by simp
  then have "chained sha (genesis sha) (audit_rows (log\<lparr>audit_rows := take n (audit_rows log)\<rparr>))"
    unfolding chained_append by simp
  then show ?thesis using append_chained [OF assms(2)] by (simp add: chain_ok_iff [unfolded chain_ok_def])
qed

section \<open>Reading\<close>

lemma read_log_page:
  assumes "chain_ok sha log" and "0 \<le> limit"
  shows "read_log limit offset log = map (the \<circ> row_view) (take (nat limit) (drop (nat offset) (rev (audit_rows log))))"
proof -
  have "\<forall>r\<in>set rows. row_view r \<noteq> None" if "chained sha h rows" for h rows
    using that by (induction rows arbitrary: h) (auto simp: row_ok_def row_view_def)
  then have "\<forall>r\<in>set (audit_rows log). row_view r \<noteq> None" using assms(1) by (simp add: chain_ok_iff)
  then have "\<forall>r\<in>set (take (nat limit) (drop (nat offset) (rev (audit_rows log)))). row_view r \<noteq> None"
    by (auto dest!: in_set_takeD in_set_dropD)
  then show ?thesis using assms(2) by (simp add: read_log_def those_all)
qed

section \<open>A concrete log\<close>

definition demo_sha :: "string \<Rightarrow> string" where
  "demo_sha s = take 64 (s @ replicate 64 CHR ''0'')"

definition demo_log :: audit_log where
  "demo_log = audit_append demo_sha ''b'' [(''n'', PInt 1)] ''ip'' ''t2''
     (audit_append demo_sha ''a'' [] ''ip'' ''t1'' \<lparr>audit_rows = [], audit_seq = 0\<rparr>)"

lemma demo_written: "written demo_sha demo_log"
  unfolding demo_log_def by (intro written.intros) (simp_all add: wf_dict_def)

theorem written_log_verifies_witness: "verify_chain demo_sha demo_log = Inr (True, 0, [])"
  by (rule written_log_verifies [OF demo_written])

theorem audit_truncation_undetected_witness:
  "verify_chain demo_sha (demo_log\<lparr>audit_rows := take 1 (audit_rows demo_log)\<rparr>) = Inr (True, 0, [])"
proof -
  have "chained demo_sha (genesis demo_sha) (audit_rows demo_log)"
    unfolding demo_log_def by (intro append_chained) (simp_all add: wf_dict_def)
  then have "verify_chain demo_sha demo_log = Inr (True, 0, [])" by (simp add: chain_ok_iff [unfolded chain_ok_def])
  from audit_truncation_undetected [OF this, of "[]"] show ?thesis by (simp add: wf_dict_def)
qed

text \<open>The same events with a detail written with a blank.\<close>

definition spaced_log :: audit_log where
  "spaced_log = demo_log\<lparr>audit_rows := map (\<lambda>r. if detail_json r = ''{}'' then r\<lparr>detail_json := ''{ }''\<rparr> else r) (audit_rows demo_log)\<rparr>"

lemma demo_texts: "dumps (PDict []) = ''{}''" "dumps (PDict [(''n'', PInt 1)]) \<noteq> ''{}''" "json_loads ''{ }'' = Some (PDict [])"
proof -
  have "json_value 8 ''{ }'' = Some (PDict [], [])" by (simp add: eval_nat_numeral skip_ws_def json_ws_def)
  then show "json_loads ''{ }'' = Some (PDict [])" by (simp add: json_loads_def skip_ws_def json_ws_def)
qed (simp_all add: dumps_def json_str_def)

lemma demo_loads: "json_loads (dumps (PDict [(''n'', PInt 1)])) = Some (PDict [(''n'', PInt 1)])" "json_loads ''{}'' = Some (PDict [])"
  using loads_dumps [of "PDict [(''n'', PInt 1)]"] loads_dumps [of "PDict []"] demo_texts(1) by (simp_all add: wf_dict_def)

lemma spaced_chained: "chained demo_sha (genesis demo_sha) (audit_rows spaced_log)"
  by (simp add: spaced_log_def demo_log_def audit_append_def demo_texts demo_loads row_ok_def get_last_hash_def Let_def)


end
