(* ===== verification/Admin_Guard.thy ===== *)
theory Admin_Guard
imports Py_Json Complex_Main
begin

text \<open>The guards of the appliance: the admin key and its attempt limit (\<open>core/admin_auth.py\<close>), the manifest of file
  checksums (\<open>core/integrity_check.py\<close>), and the sinks that receive a copy of the audit events
  (\<open>core/audit_sinks.py\<close>).  Times, random names, the file tree and SHA-256 are arguments.\<close>

section \<open>The admin key\<close>

record admin_store =
  admin_cached :: string
  admin_file :: "string option"
  admin_writable :: bool

definition get_or_create_admin_key :: "string \<Rightarrow> admin_store \<Rightarrow> string \<times> admin_store" where
  "get_or_create_admin_key fresh st =
     (if admin_cached st \<noteq> [] then (admin_cached st, st)
      else case map_option strip (admin_file st) of
             Some key \<Rightarrow>
               (if 32 \<le> length key then (key, st\<lparr>admin_cached := key\<rparr>)
                else (fresh, st\<lparr>admin_cached := fresh, admin_file := (if admin_writable st then Some fresh else admin_file st)\<rparr>))
           | None \<Rightarrow> (fresh, st\<lparr>admin_cached := fresh, admin_file := (if admin_writable st then Some fresh else None)\<rparr>))"

text \<open>Comparing text outside ASCII raises.\<close>

definition ascii :: "string \<Rightarrow> bool" where
  "ascii s = list_all (\<lambda>c. (of_char c :: nat) < 128) s"

definition verify_admin_key :: "string \<Rightarrow> string \<Rightarrow> admin_store \<Rightarrow> (bool \<times> admin_store) result" where
  "verify_admin_key header fresh st =
     (let provided = strip header
      in if provided = [] then Inr (False, st)
         else let (expected, st') = get_or_create_admin_key fresh st
              in if ascii provided \<and> ascii expected then Inr (provided = expected, st')
                 else Inl (TypeError ''comparing strings with non-ASCII characters is not supported''))"

definition require_admin_key :: "bool \<Rightarrow> string \<Rightarrow> string \<Rightarrow> admin_store \<Rightarrow> admin_store result" where
  "require_admin_key appliance header fresh st =
     (if \<not> appliance then Inr st
      else rbind (verify_admin_key header fresh st) (\<lambda>(ok, st').
        if ok then Inr st'
        else Inl (HTTPException 403 (PDict [(''ok'', PBool False), (''code'', PStr ''admin_key_required''),
               (''reason'', PStr ''This endpoint requires the X-CloudLearn-Admin-Key header in appliance mode.'')]))))"

text \<open>On an appliance an admin endpoint runs exactly for a caller whose header is the admin key, the same key
  before and after; everywhere else it runs for everyone.\<close>

theorem admin_key_required:
  assumes "ascii (fst (get_or_create_admin_key fresh st))" and "fresh \<noteq> []" and "ascii header"
  shows "(case require_admin_key appliance header fresh st of
      Inl e \<Rightarrow> appliance \<and> strip header \<noteq> fst (get_or_create_admin_key fresh st)
    | Inr st' \<Rightarrow> (if appliance then strip header = fst (get_or_create_admin_key fresh st)
          \<and> get_or_create_admin_key other st' = (fst (get_or_create_admin_key fresh st), st') else st' = st))"
proof -
  have ne: "fst (get_or_create_admin_key fresh st) \<noteq> []"
    using assms(2) by (auto simp: get_or_create_admin_key_def split: option.split)
  have a: "ascii (strip header)" using assms(3) set_strip [of header] by (auto simp: ascii_def list_all_iff)
  obtain key st1 where k: "get_or_create_admin_key fresh st = (key, st1)" by (cases "get_or_create_admin_key fresh st")
  have kept: "get_or_create_admin_key other st1 = (key, st1)"
    using k ne by (auto simp: get_or_create_admin_key_def split: option.splits if_splits)
  show ?thesis
    using assms(1) ne a k kept by (auto simp: require_admin_key_def verify_admin_key_def Let_def)
qed

section \<open>The attempt limit\<close>

definition check_auth_rate_limit :: "string \<Rightarrow> rat \<Rightarrow> rat list dict \<Rightarrow> rat list dict \<times> py_exc option" where
  "check_auth_rate_limit ip now attempts =
     (let recent = filter (\<lambda>t. now - t < 60) (dget attempts ip [])
      in if 5 \<le> length recent then
           (dset ip recent attempts,
            Some (HTTPException 429 (PDict [(''ok'', PBool False), (''code'', PStr ''rate_limited''),
              (''reason'', PStr ''Too many auth attempts. Max 5 per minute.'')])))
         else (dset ip (recent @ [now]) attempts, None))"

lemma auth_window: "length (dget (fst (check_auth_rate_limit ip now attempts)) ip []) \<le> 5"
  if "length (dget attempts ip []) \<le> 5"
  using that le_trans [OF length_filter_le that] by (auto simp: check_auth_rate_limit_def dict_simps Let_def)

lemma auth_window_other: "ip' \<noteq> ip \<Longrightarrow> dget (fst (check_auth_rate_limit ip now attempts)) ip' v = dget attempts ip' v"
  by (simp add: check_auth_rate_limit_def dict_simps Let_def)

section \<open>The manifest of checksums\<close>

text \<open>The files of the application, by relative path, with their contents.\<close>

definition checked_file :: "string \<Rightarrow> bool" where
  "checked_file f = (endswith f ''.pyc'' \<or> endswith f ''.so'' \<or> endswith f ''.pyd'')"

definition generate_manifest :: "(string \<Rightarrow> string) \<Rightarrow> string \<Rightarrow> string dict \<Rightarrow> pyval" where
  "generate_manifest sha stamp fs =
     (let files = foldl (\<lambda>d (f, c). dset f (PStr (sha c)) d) [] (filter (\<lambda>(f, _). checked_file f) fs)
      in PDict [(''files'', PDict files), (''generated_at'', PStr stamp), (''file_count'', PInt (int (length files)))])"

definition load_manifest :: "string option \<Rightarrow> pyval option" where
  "load_manifest f = Option.bind f json_loads"

definition tampered_files :: "(string \<Rightarrow> string) \<Rightarrow> string dict \<Rightarrow> pyval dict \<Rightarrow> string list" where
  "tampered_files sha fs files =
     map fst (filter (\<lambda>(rel, expected).
       case map_of fs rel of None \<Rightarrow> True | Some c \<Rightarrow> PStr (sha c) \<noteq> expected) files)"

definition verify_manifest :: "(string \<Rightarrow> string) \<Rightarrow> string dict \<Rightarrow> pyval option \<Rightarrow> (bool \<times> string list) result" where
  "verify_manifest sha fs manifest =
     (case manifest of
        None \<Rightarrow> Inr (True, [])
      | Some m \<Rightarrow>
          if \<not> truthy m then Inr (True, [])
          else rbind (as_dict m) (\<lambda>d.
            if \<not> truthy (pget d ''files'') then Inr (True, [])
            else rbind (as_dict (pget d ''files'')) (\<lambda>files.
              let t = tampered_files sha fs files in Inr (length t = 0, t))))"

text \<open>The lockdown: the tier becomes free and the findings are recorded in the state.\<close>

definition on_tamper_detected :: "string list \<Rightarrow> string \<Rightarrow> pyval dict \<Rightarrow> pyval dict" where
  "on_tamper_detected files stamp st =
     (case dget st ''license'' (PDict []) of
        PDict lic \<Rightarrow>
          dset ''_tamper_detected_at'' (PStr stamp) (dset ''_tamper_files'' (PList (map PStr (take 20 files)))
            (dset ''_tamper_detected'' (PBool True) (dset ''license'' (PDict (dset ''tier'' (PStr ''free'') lic)) st)))
      | _ \<Rightarrow> st)"

definition verify_at_startup :: "(string \<Rightarrow> string) \<Rightarrow> string dict \<Rightarrow> string option \<Rightarrow> string \<Rightarrow> pyval dict \<Rightarrow> (bool \<times> pyval dict) result" where
  "verify_at_startup sha fs manifest_file stamp st =
     (case load_manifest manifest_file of
        None \<Rightarrow> Inr (True, st)
      | Some m \<Rightarrow>
          if \<not> truthy m then Inr (True, st)
          else rbind (verify_manifest sha fs (Some m)) (\<lambda>(ok, tampered).
            Inr (ok, if ok then st else on_tamper_detected tampered stamp st)))"

lemma foldl_dset_map_of:
  "map_of (foldl (\<lambda>d (f, c). dset f (g c) d) d0 xs) k =
     (case map_of (rev xs) k of Some c \<Rightarrow> Some (g c) | None \<Rightarrow> map_of d0 k)"
  by (induction xs arbitrary: d0) (auto simp: dict_simps map_add_def split: option.splits)

lemma wf_foldl_dset: "wf_dict d0 \<Longrightarrow> wf_dict (foldl (\<lambda>d (f, c). dset f (g c) d) d0 xs)"
  by (induction xs arbitrary: d0) (auto intro: wf_dset)

definition manifest_files :: "(string \<Rightarrow> string) \<Rightarrow> string dict \<Rightarrow> pyval dict" where
  "manifest_files sha fs = foldl (\<lambda>d (f, c). dset f (PStr (sha c)) d) [] (filter (\<lambda>(f, _). checked_file f) fs)"

lemma manifest_files_lookup:
  assumes "wf_dict fs"
  shows "map_of (manifest_files sha fs) f = (if checked_file f then map_option (\<lambda>c. PStr (sha c)) (map_of fs f) else None)"
proof -
  have d: "distinct (map fst (filter (\<lambda>(f, _). checked_file f) fs))"
    using assms by (simp add: wf_dict_def distinct_map_filter)
  have "map_of (rev (filter (\<lambda>(f, _). checked_file f) fs)) = map_of (filter (\<lambda>(f, _). checked_file f) fs)"
    by (rule map_of_inject_set [THEN iffD2]) (use d in \<open>simp_all flip: rev_map\<close>)
  moreover have "map_of (filter (\<lambda>(f, _). checked_file f) fs) f = (if checked_file f then map_of fs f else None)"
    by (induction fs) auto
  ultimately show ?thesis by (auto simp: manifest_files_def foldl_dset_map_of split: option.split)
qed

text \<open>Checking a tree against the manifest made of another tree reports exactly the compiled files of the second
  that are gone from the first or whose content has another checksum; files that were added, and files of other
  kinds, are never reported.\<close>

theorem manifest_reports_changes:
  assumes "wf_dict fs"
  shows "\<exists>t. verify_manifest sha fs' (Some (generate_manifest sha stamp fs)) = Inr (length t = 0, t)
    \<and> (\<forall>f. f \<in> set t \<longleftrightarrow> checked_file f \<and> (\<exists>c. map_of fs f = Some c \<and> map_option sha (map_of fs' f) \<noteq> Some (sha c)))"
proof -
  let ?files = "manifest_files sha fs" and ?m = "generate_manifest sha stamp fs"
  have wf: "wf_dict ?files" unfolding manifest_files_def by (rule wf_foldl_dset) (simp add: wf_dict_def)
  have entry: "(f, v) \<in> set ?files \<longleftrightarrow> checked_file f \<and> (\<exists>c. map_of fs f = Some c \<and> v = PStr (sha c))" for f v
  proof -
    have "(f, v) \<in> set ?files \<longleftrightarrow> map_of ?files f = Some v" using wf by (blast intro: in_dict_map_of map_of_in_dict)
    then show ?thesis by (auto simp: manifest_files_lookup [OF assms])
  qed
  have m: "?m = PDict [(''files'', PDict ?files), (''generated_at'', PStr stamp), (''file_count'', PInt (int (length ?files)))]"
    by (simp add: generate_manifest_def manifest_files_def Let_def)
  let ?t = "tampered_files sha fs' ?files"
  have "verify_manifest sha fs' (Some ?m) = Inr (length ?t = 0, ?t)"
    by (cases "?files = []") (simp_all add: m verify_manifest_def pget_def dget_def tampered_files_def Let_def)
  moreover have "f \<in> set ?t \<longleftrightarrow> checked_file f \<and> (\<exists>c. map_of fs f = Some c \<and> map_option sha (map_of fs' f) \<noteq> Some (sha c))" for f
    by (auto simp: tampered_files_def entry image_iff split: option.splits)
  ultimately show ?thesis by blast
qed

theorem manifest_reports_changes_witness:
  "\<exists>t. verify_manifest rev [(''a.so'', ''Y'')] (Some (generate_manifest rev ''now'' [(''a.so'', ''X''), (''b.py'', ''Z'')]))
     = Inr (length t = 0, t)
    \<and> ''a.so'' \<in> set t \<and> ''b.py'' \<notin> set t"
proof -
  have "wf_dict [(''a.so'', ''X''), (''b.py'', ''Z'')]" by (simp add: wf_dict_def)
  from manifest_reports_changes [OF this, of rev "[(''a.so'', ''Y'')]" "''now''"] show ?thesis
    by (auto simp: checked_file_def endswith_def)
qed

text \<open>Without a readable manifest nothing is checked.\<close>

lemma no_manifest_no_check: "verify_at_startup sha fs None stamp st = Inr (True, st)"
  by (simp add: verify_at_startup_def load_manifest_def)

theorem admin_key_required_witness:
  "case require_admin_key True '' secret'' ''secret'' \<lparr>admin_cached = [], admin_file = None, admin_writable = True\<rparr> of
     Inl e \<Rightarrow> False | Inr st' \<Rightarrow> get_or_create_admin_key ''x'' st' = (''secret'', st')"
proof -
  let ?st = "\<lparr>admin_cached = [], admin_file = None, admin_writable = True\<rparr>"
  have k: "fst (get_or_create_admin_key ''secret'' ?st) = ''secret''" by (simp add: get_or_create_admin_key_def)
  have "strip '' secret'' = ''secret''" by (simp add: strip_def rstrip_def lstrip_def is_space_def)
  then show ?thesis
    using admin_key_required [of "''secret''" ?st "'' secret''" True "''x''"] k by (simp add: ascii_def split: sum.splits)
qed

section \<open>Audit sinks\<close>

text \<open>The sinks of each tenant.\<close>

type_synonym sinks = "pyval dict list dict"

definition sinks_for :: "sinks \<Rightarrow> string \<Rightarrow> pyval dict list" where
  "sinks_for s tenant = dget s tenant []"

definition list_sinks :: "sinks \<Rightarrow> string \<Rightarrow> pyval dict list" where
  "list_sinks s tenant =
     map (\<lambda>k. if dhas k ''secret'' then dset ''secret'' (PStr ''***'') k else k) (sinks_for s tenant)"

definition new_sink :: "string \<Rightarrow> string \<Rightarrow> string \<Rightarrow> pyval dict" where
  "new_sink hex kind now =
     [(''id'', PStr (''asink-'' @ take 10 hex)), (''kind'', PStr kind), (''created_at'', PStr now), (''event_count'', PInt 0),
      (''last_emit_at'', PNone), (''last_error'', PNone)]"

definition sink_field :: "pyval dict \<Rightarrow> string \<Rightarrow> string \<Rightarrow> string" where
  "sink_field spec k v = py_str (py_or (pget spec k) (PStr v))"

definition register_sink :: "string \<Rightarrow> string \<Rightarrow> string \<Rightarrow> pyval dict \<Rightarrow> sinks \<Rightarrow> (pyval dict \<times> sinks) result" where
  "register_sink hex now tenant spec s =
     (let kind = lower (strip (sink_field spec ''kind'' ''webhook''));
          url = strip (sink_field spec ''url'' []); path = strip (sink_field spec ''path'' []);
          add = (\<lambda>sink. Inr (sink, dset tenant (sinks_for s tenant @ [sink]) s))
      in if kind \<notin> {''webhook'', ''file''} then Inl (ValueError (''unknown sink kind: '' @ kind))
         else if kind = ''webhook'' then
           (if \<not> startswith_any url [''http://'', ''https://''] then Inl (ValueError ''webhook sink requires url=http(s)://...'')
            else add (new_sink hex kind now @ [(''url'', PStr url), (''secret'', PStr (sink_field spec ''secret'' []))]))
         else if path = [] then Inl (ValueError ''file sink requires path=...'')
         else add (new_sink hex kind now @ [(''path'', PStr path)]))"

definition delete_sink :: "string \<Rightarrow> string \<Rightarrow> sinks \<Rightarrow> bool \<times> sinks" where
  "delete_sink tenant sink_id s =
     (let kept = filter (\<lambda>k. pget k ''id'' \<noteq> PStr sink_id) (sinks_for s tenant)
      in (length kept < length (sinks_for s tenant), dset tenant kept s))"

text \<open>What a delivery leaves on its sink; the delivery itself is a parameter of \<open>emit\<close>, the threads run one after another.\<close>

definition sink_sent :: "bool \<Rightarrow> string \<Rightarrow> string \<Rightarrow> pyval dict \<Rightarrow> pyval dict result" where
  "sink_sent ok msg now sink =
     (let k = dset ''last_error'' (if ok then PNone else PStr msg) (dset ''last_emit_at'' (PStr now) sink)
      in if ok then rbind (py_int (py_or (pget sink ''event_count'') (PInt 0))) (\<lambda>n. Inr (dset ''event_count'' (PInt (n + 1)) k))
         else Inr k)"

definition emit_payload :: "string \<Rightarrow> string \<Rightarrow> pyval dict \<Rightarrow> pyval dict" where
  "emit_payload tenant now event = dset ''emitted_at'' (PStr now) (dset ''tenant_id'' (PStr tenant) event)"

definition emit :: "(pyval dict \<Rightarrow> pyval dict \<Rightarrow> bool \<times> string) \<Rightarrow> string \<Rightarrow> string \<Rightarrow> pyval dict \<Rightarrow> sinks \<Rightarrow> sinks" where
  "emit deliver tenant now event s =
     (if sinks_for s tenant = [] then s
      else dset tenant (map (\<lambda>sink.
             case deliver sink (emit_payload tenant now event) of (ok, msg) \<Rightarrow>
               (case sink_sent ok msg now sink of Inr k \<Rightarrow> k | Inl _ \<Rightarrow> sink)) (sinks_for s tenant)) s)"

text \<open>The listing of a tenant's sinks never contains the secret of one, registering and deleting touch only the
  tenant they name, and a delivered event is counted on every sink of the tenant.\<close>

theorem sinks_private:
  assumes "register_sink hex now tenant spec s = Inr (sink, s')"
  shows "(\<forall>k \<in> set (list_sinks s' t). dget k ''secret'' (PStr ''***'') = PStr ''***'')
    \<and> sinks_for s' tenant = sinks_for s tenant @ [sink]
    \<and> (if t = tenant then True else sinks_for s' t = sinks_for s t \<and> sinks_for (snd (delete_sink tenant i s)) t = sinks_for s t)
    \<and> sink \<notin> set (sinks_for (snd (delete_sink tenant (''asink-'' @ take 10 hex) s')) tenant)"
proof -
  have reg: "s' = dset tenant (sinks_for s tenant @ [sink]) s" "pget sink ''id'' = PStr (''asink-'' @ take 10 hex)"
    using assms by (auto simp: register_sink_def new_sink_def pget_def dget_def Let_def split: if_splits)
  have "dget k ''secret'' (PStr ''***'') = PStr ''***''" if "k \<in> set (list_sinks s' t)" for k
    using that by (auto simp: list_sinks_def dict_simps dget_def dhas_def split: option.splits)
  then show ?thesis using reg by (auto simp: sinks_for_def delete_sink_def dict_simps Let_def)
qed

theorem sinks_private_witness:
  "\<exists>sink s'. register_sink ''0123456789'' ''now'' ''t1'' [(''url'', PStr ''https://x''), (''secret'', PStr ''pw'')] [] = Inr (sink, s')
    \<and> sinks_for s' ''t1'' = [sink] \<and> sinks_for s' ''t2'' = []"
proof -
  let ?spec = "[(''url'', PStr ''https://x''), (''secret'', PStr ''pw'')]"
  obtain sink s' where r: "register_sink ''0123456789'' ''now'' ''t1'' ?spec [] = Inr (sink, s')"
    by (simp add: register_sink_def sink_field_def py_or_def pget_def dget_def strip_def rstrip_def lstrip_def is_space_def
        lower_def char_lower_def startswith_any_def sinks_for_def Let_def)
  from sinks_private [OF r, of "''t2''"] r show ?thesis by (auto simp: sinks_for_def dget_def)
qed

end
