(* ===== verification/Py_Compare.thy ===== *)
theory Py_Compare
imports Py_Strings Complex_Main "HOL-Library.List_Lexorder" "HOL-Library.Char_ord"
begin

text \<open>Equality and order of dynamic values: numbers of all three types compare by value, text and lists
  lexicographically, and values of different kinds are unequal and raise \<open>TypeError\<close> when ordered.  A float stands
  for the number its text spells.\<close>

section \<open>Numbers\<close>

datatype py_num = Fin rat | PosInf | NegInf | NotNum

definition digits_rat :: "string \<Rightarrow> rat" where
  "digits_rat s = of_nat (digits_val s)"

text \<open>The value of a printed float: digits, a fraction, an exponent.\<close>

definition exp_val :: "string \<Rightarrow> int" where
  "exp_val s =
     (case s of
        [] \<Rightarrow> 0
      | c # r \<Rightarrow> if c = CHR ''-'' then - int (digits_val r)
                 else if c = CHR ''+'' then int (digits_val r)
                 else int (digits_val s))"

definition scale10 :: "int \<Rightarrow> rat \<Rightarrow> rat" where
  "scale10 e r = (if 0 \<le> e then r * 10 ^ nat e else r / 10 ^ nat (- e))"

definition unsigned_val :: "string \<Rightarrow> rat" where
  "unsigned_val s =
     (let mant = takeWhile (\<lambda>c. c \<noteq> CHR ''e'') s; ex = drop 1 (dropWhile (\<lambda>c. c \<noteq> CHR ''e'') s);
          ip = takeWhile (\<lambda>c. c \<noteq> CHR ''.'') mant; fp = drop 1 (dropWhile (\<lambda>c. c \<noteq> CHR ''.'') mant)
      in scale10 (exp_val ex) (digits_rat ip + digits_rat fp / 10 ^ length fp))"

definition float_val :: "string \<Rightarrow> py_num" where
  "float_val s =
     (if s = ''inf'' then PosInf else if s = ''-inf'' then NegInf else if s = ''nan'' then NotNum
      else case s of
             [] \<Rightarrow> NotNum
           | c # r \<Rightarrow> Fin (if c = CHR ''-'' then - unsigned_val r else unsigned_val s))"

definition num_of :: "pyval \<Rightarrow> py_num option" where
  "num_of v =
     (case v of
        PBool b \<Rightarrow> Some (Fin (if b then 1 else 0))
      | PInt i \<Rightarrow> Some (Fin (of_int i))
      | PFloat s \<Rightarrow> Some (float_val s)
      | _ \<Rightarrow> None)"

fun num_eq :: "py_num \<Rightarrow> py_num \<Rightarrow> bool" where
  "num_eq (Fin x) (Fin y) = (x = y)"
| "num_eq PosInf PosInf = True"
| "num_eq NegInf NegInf = True"
| "num_eq _ _ = False"

fun num_lt :: "py_num \<Rightarrow> py_num \<Rightarrow> bool" where
  "num_lt (Fin x) (Fin y) = (x < y)"
| "num_lt NegInf (Fin _) = True"
| "num_lt (Fin _) PosInf = True"
| "num_lt NegInf PosInf = True"
| "num_lt _ _ = False"

section \<open>Values\<close>

text \<open>\<open>a == b\<close>.  Dictionaries are equal when they have the same keys with equal values.\<close>

fun py_eq :: "pyval \<Rightarrow> pyval \<Rightarrow> bool" where
  "py_eq (PList xs) w = (case w of PList ys \<Rightarrow> list_all2 py_eq xs ys | _ \<Rightarrow> False)"
| "py_eq (PDict d) w =
     (case w of
        PDict e \<Rightarrow> length d = length e
          \<and> (\<forall>(k, v)\<in>set d. case map_of e k of Some u \<Rightarrow> py_eq v u | None \<Rightarrow> False)
      | _ \<Rightarrow> False)"
| "py_eq (PStr s) w = (w = PStr s)"
| "py_eq PNone w = (w = PNone)"
| "py_eq v w =
     (case (num_of v, num_of w) of (Some x, Some y) \<Rightarrow> num_eq x y | _ \<Rightarrow> False)"

text \<open>\<open>a < b\<close>, \<open>None\<close> for a \<open>TypeError\<close>.  A list is smaller at its first unequal element.\<close>

fun py_lt :: "pyval \<Rightarrow> pyval \<Rightarrow> bool option" where
  "py_lt (PStr s) w = (case w of PStr t \<Rightarrow> Some (s < t) | _ \<Rightarrow> None)"
| "py_lt (PList []) w = (case w of PList ys \<Rightarrow> Some (ys \<noteq> []) | _ \<Rightarrow> None)"
| "py_lt (PList (x # xs)) w =
     (case w of
        PList (y # ys) \<Rightarrow> (if py_eq x y then py_lt (PList xs) (PList ys) else py_lt x y)
      | PList [] \<Rightarrow> Some False
      | _ \<Rightarrow> None)"
| "py_lt v w =
     (case (num_of v, num_of w) of (Some x, Some y) \<Rightarrow> Some (num_lt x y) | _ \<Rightarrow> None)"

definition py_le :: "pyval \<Rightarrow> pyval \<Rightarrow> bool option" where
  "py_le v w = (case py_lt v w of Some b \<Rightarrow> Some (b \<or> py_eq v w) | None \<Rightarrow> None)"

definition py_in :: "pyval \<Rightarrow> pyval list \<Rightarrow> bool" where
  "py_in v xs = (\<exists>x\<in>set xs. py_eq v x)"

text \<open>Values without floats that are not numbers are equal to themselves.\<close>

fun no_nan :: "pyval \<Rightarrow> bool" where
  "no_nan (PFloat s) = (s \<noteq> ''nan'' \<and> s \<noteq> [])"
| "no_nan (PList xs) = (\<forall>x\<in>set xs. no_nan x)"
| "no_nan (PDict d) = (wf_dict d \<and> (\<forall>(k, v)\<in>set d. no_nan v))"
| "no_nan v = True"

lemma num_eq_refl: "x \<noteq> NotNum \<Longrightarrow> num_eq x x"
  by (cases x) simp_all

lemma float_val_num: "s \<noteq> ''nan'' \<Longrightarrow> s \<noteq> [] \<Longrightarrow> float_val s \<noteq> NotNum"
  by (cases s) (simp_all add: float_val_def)

lemma py_eq_refl: "no_nan v \<Longrightarrow> py_eq v v"
proof (induction v)
  case (PFloat s) then show ?case by (simp add: num_of_def num_eq_refl float_val_num)
next
  case (PList xs) then show ?case by (simp add: list_all2_same)
next
  case (PDict d)
  have "case map_of d k of Some u \<Rightarrow> py_eq v u | None \<Rightarrow> False" if "(k, v) \<in> set d" for k v
  proof -
    have "map_of d k = Some v" using PDict.prems that by (simp add: in_dict_map_of)
    moreover have "py_eq v v" using PDict.IH [OF that, of v] PDict.prems that by auto
    ultimately show ?thesis by simp
  qed
  then show ?case by (auto split: prod.splits)
qed (simp_all add: num_of_def)

lemma py_eq_str: "py_eq (PStr s) v \<longleftrightarrow> v = PStr s"
  by auto

section \<open>Sorting\<close>

text \<open>A stable sort by a strict order on keys; descending order keeps equal elements in place as well.\<close>

fun insert_by :: "('a \<Rightarrow> 'a \<Rightarrow> bool) \<Rightarrow> 'a \<Rightarrow> 'a list \<Rightarrow> 'a list" where
  "insert_by lt x [] = [x]"
| "insert_by lt x (y # ys) = (if lt y x then y # insert_by lt x ys else x # y # ys)"

definition stable_sort :: "('a \<Rightarrow> 'a \<Rightarrow> bool) \<Rightarrow> 'a list \<Rightarrow> 'a list" where
  "stable_sort lt xs = foldr (insert_by lt) xs []"

lemma set_insert_by [simp]: "set (insert_by lt x ys) = insert x (set ys)"
  by (induction ys) auto

lemma set_stable_sort [simp]: "set (stable_sort lt xs) = set xs"
  by (induction xs) (auto simp: stable_sort_def)

lemma length_insert_by [simp]: "length (insert_by lt x ys) = Suc (length ys)"
  by (induction ys) auto

lemma length_stable_sort [simp]: "length (stable_sort lt xs) = length xs"
  by (induction xs) (auto simp: stable_sort_def)

end
