(* ===== verification/Firestore.thy ===== *)
theory Firestore
imports Py_Json Py_Compare Gcp_Iam
begin

text \<open>Firestore (\<open>FirestoreEngine\<close> of \<open>core/cloudlearn_platform.py\<close> and the document handlers of \<open>server.py\<close>): the
  table of documents with its primary key, create, read, update, delete and list, typed values, filters, queries and
  the recorded indexes.  The clock, random names and the active space are arguments.\<close>

section \<open>The table\<close>

text \<open>Space, project, database, collection, document.\<close>

type_synonym doc_key = "string \<times> string \<times> string \<times> string \<times> string"

record fs_row =
  fs_key :: doc_key
  fields_json :: string
  create_time :: string
  update_time :: string

type_synonym fs_table = "fs_row list"

definition row_find :: "fs_table \<Rightarrow> doc_key \<Rightarrow> fs_row option" where
  "row_find t k = find (\<lambda>r. fs_key r = k) t"

text \<open>\<open>INSERT \<dots> ON CONFLICT \<dots> DO UPDATE\<close> of the fields and the update time.\<close>

definition row_upsert :: "fs_row \<Rightarrow> fs_table \<Rightarrow> fs_table" where
  "row_upsert r t =
     (if row_find t (fs_key r) = None then t @ [r]
      else map (\<lambda>q. if fs_key q = fs_key r then q\<lparr>fields_json := fields_json r, update_time := update_time r\<rparr> else q) t)"

definition row_update :: "doc_key \<Rightarrow> string \<Rightarrow> string \<Rightarrow> fs_table \<Rightarrow> fs_table" where
  "row_update k payload now t =
     map (\<lambda>q. if fs_key q = k then q\<lparr>fields_json := payload, update_time := now\<rparr> else q) t"

definition row_delete :: "doc_key \<Rightarrow> fs_table \<Rightarrow> fs_table" where
  "row_delete k t = filter (\<lambda>q. fs_key q \<noteq> k) t"

section \<open>Keys and views\<close>

definition space_id :: "pyval dict option \<Rightarrow> string" where
  "space_id active =
     (case active of Some sp \<Rightarrow> py_str (py_or (pget sp ''space_id'') (PStr ''global'')) | None \<Rightarrow> ''global'')"

definition project_id :: "string \<Rightarrow> string \<Rightarrow> string" where
  "project_id space project = str_or (strip project) space"

definition database_id :: "string \<Rightarrow> string" where
  "database_id database = str_or database ''(default)''"

definition doc_key :: "string \<Rightarrow> string \<Rightarrow> string \<Rightarrow> string \<Rightarrow> string \<Rightarrow> doc_key" where
  "doc_key space project database collection doc =
     (space, project_id space project, database_id database, strip collection, strip doc)"

definition doc_view :: "string \<Rightarrow> string \<Rightarrow> string \<Rightarrow> string \<Rightarrow> pyval \<Rightarrow> string \<Rightarrow> string \<Rightarrow> pyval dict" where
  "doc_view project database collection doc flds created updated =
     [(''name'', PStr (''https://firestore.googleapis.com/v1/projects/'' @ project @ ''/databases/'' @ database @
         ''/documents/'' @ collection @ ''/'' @ doc)),
      (''fields'', py_or flds (PDict [])), (''createTime'', PStr created), (''updateTime'', PStr updated)]"

definition row_to_view :: "fs_row \<Rightarrow> pyval dict" where
  "row_to_view r =
     (case fs_key r of (_, project, database, collection, doc) \<Rightarrow>
        let flds = (case json_loads (fields_json r) of Some v \<Rightarrow> v | None \<Rightarrow> PDict [])
        in doc_view project database collection doc flds (create_time r) (update_time r))"

section \<open>The operations of the engine\<close>

definition doc_order :: "fs_row \<Rightarrow> fs_row \<Rightarrow> bool" where
  "doc_order r q =
     (case (fs_key r, fs_key q) of ((_, _, _, _, d), (_, _, _, _, e)) \<Rightarrow>
        create_time r < create_time q \<or> (create_time r = create_time q \<and> d < e))"

definition list_documents :: "string \<Rightarrow> string \<Rightarrow> string \<Rightarrow> string \<Rightarrow> fs_table \<Rightarrow> pyval dict list" where
  "list_documents space project database collection t =
     (if strip collection = [] then []
      else map row_to_view (stable_sort doc_order (filter (\<lambda>r.
        case fs_key r of (s, p, d, c, _) \<Rightarrow>
          s = space \<and> p = project_id space project \<and> d = database_id database \<and> c = strip collection) t)))"

definition root_order :: "fs_row \<Rightarrow> fs_row \<Rightarrow> bool" where
  "root_order r q =
     (case (fs_key r, fs_key q) of ((_, _, _, c, _), (_, _, _, c', _)) \<Rightarrow> c < c' \<or> (c = c' \<and> doc_order r q))"

definition list_root_documents :: "string \<Rightarrow> string \<Rightarrow> string \<Rightarrow> fs_table \<Rightarrow> pyval dict list" where
  "list_root_documents space project database t =
     map row_to_view (stable_sort root_order (filter (\<lambda>r.
       case fs_key r of (s, p, d, _, _) \<Rightarrow> s = space \<and> p = project_id space project \<and> d = database_id database) t))"

definition get_document :: "string \<Rightarrow> string \<Rightarrow> string \<Rightarrow> string \<Rightarrow> string \<Rightarrow> fs_table \<Rightarrow> pyval dict option" where
  "get_document space project database collection doc t =
     (if strip collection = [] \<or> strip doc = [] then None
      else map_option row_to_view (row_find t (doc_key space project database collection doc)))"

definition create_document ::
  "string \<Rightarrow> string \<Rightarrow> string \<Rightarrow> string \<Rightarrow> string \<Rightarrow> string \<Rightarrow> string \<Rightarrow> pyval dict \<Rightarrow> string \<Rightarrow> fs_table \<Rightarrow> pyval dict \<times> fs_table" where
  "create_document space hex now now' project database collection flds doc t =
     (let collection = str_or (strip collection) ''documents'';
          doc = str_or (strip doc) (''doc-'' @ take 12 hex);
          k = doc_key space project database collection doc;
          created = (case row_find t k of Some r \<Rightarrow> create_time r | None \<Rightarrow> now);
          t' = row_upsert \<lparr>fs_key = k, fields_json = dumps_sorted (PDict flds), create_time = created, update_time = now'\<rparr> t
      in (case get_document space project database collection doc t' of Some v \<Rightarrow> v | None \<Rightarrow> [], t'))"

definition update_document ::
  "string \<Rightarrow> string \<Rightarrow> string \<Rightarrow> string \<Rightarrow> string \<Rightarrow> string \<Rightarrow> pyval dict \<Rightarrow> fs_table \<Rightarrow> (pyval dict \<times> fs_table) result" where
  "update_document space now project database collection doc flds t =
     (let k = doc_key space project database collection doc
      in if strip collection = [] \<or> strip doc = [] then Inl (KeyError (strip doc))
         else case row_find t k of
                None \<Rightarrow> Inl (KeyError (strip doc))
              | Some _ \<Rightarrow>
                  (let t' = row_update k (dumps_sorted (PDict flds)) now t
                   in Inr (case get_document space project database collection doc t' of Some v \<Rightarrow> v | None \<Rightarrow> [], t')))"

definition delete_document :: "string \<Rightarrow> string \<Rightarrow> string \<Rightarrow> string \<Rightarrow> string \<Rightarrow> fs_table \<Rightarrow> fs_table result" where
  "delete_document space project database collection doc t =
     (let k = doc_key space project database collection doc; t' = row_delete k t
      in if length t' < length t then Inr t' else Inl (KeyError (strip doc)))"

section \<open>The table is a map\<close>

text \<open>One row per key.\<close>

definition fs_wf :: "fs_table \<Rightarrow> bool" where
  "fs_wf t \<longleftrightarrow> distinct (map fs_key t)"

text \<open>What a row stores.\<close>

definition stored :: "fs_row \<Rightarrow> string \<times> string \<times> string" where
  "stored r = (fields_json r, create_time r, update_time r)"

definition fs_lookup :: "fs_table \<Rightarrow> doc_key \<Rightarrow> (string \<times> string \<times> string) option" where
  "fs_lookup t k = map_option stored (row_find t k)"

definition fs_put :: "doc_key \<Rightarrow> string \<times> string \<times> string \<Rightarrow> fs_table \<Rightarrow> fs_table" where
  "fs_put k v t =
     (case v of (f, c, u) \<Rightarrow>
        if row_find t k = None then t @ [\<lparr>fs_key = k, fields_json = f, create_time = c, update_time = u\<rparr>]
        else map (\<lambda>q. if fs_key q = k then q\<lparr>fields_json := f, create_time := c, update_time := u\<rparr> else q) t)"

lemma row_find_key: "row_find t k = Some r \<Longrightarrow> fs_key r = k \<and> r \<in> set t"
  by (auto simp: row_find_def find_Some_iff)

lemma row_find_None: "row_find t k = None \<longleftrightarrow> k \<notin> fs_key ` set t"
  by (auto simp: row_find_def find_None_iff)

lemma row_find_Cons: "row_find (r # t) k = (if fs_key r = k then Some r else row_find t k)"
  by (simp add: row_find_def)

lemma row_find_Nil [simp]: "row_find [] k = None"
  by (simp add: row_find_def)

lemma row_find_snoc: "row_find t (fs_key r) = None \<Longrightarrow> row_find (t @ [r]) k = (if fs_key r = k then Some r else row_find t k)"
  by (induction t) (auto simp: row_find_Cons split: if_splits)

lemma row_find_map:
  "(\<And>q. fs_key (f q) = fs_key q) \<Longrightarrow> row_find (map f t) k = map_option f (row_find t k)"
  by (induction t) (auto simp: row_find_Cons)

lemma row_find_delete: "row_find (row_delete k t) k' = (if k' = k then None else row_find t k')"
  by (induction t) (auto simp: row_find_Cons row_delete_def)

lemma row_find_update:
  "row_find (row_update k f u t) k' =
     (if k' = k then map_option (\<lambda>q. q\<lparr>fields_json := f, update_time := u\<rparr>) (row_find t k) else row_find t k')"
  by (induction t) (auto simp: row_update_def row_find_Cons)

interpretation docs: keyed_store fs_lookup fs_put row_delete fs_wf
proof
  fix t :: fs_table and k k' :: doc_key and v :: "string \<times> string \<times> string"
  assume t: "fs_wf t"
  obtain f c u where v: "v = (f, c, u)" by (cases v)
  show "fs_lookup (fs_put k v t) k' = (if k' = k then Some v else fs_lookup t k')"
  proof (cases "row_find t k")
    case None then show ?thesis by (auto simp: v fs_put_def fs_lookup_def row_find_snoc stored_def)
  next
    case (Some r)
    then show ?thesis
      by (cases "row_find t k'") (auto simp: v fs_put_def fs_lookup_def row_find_map stored_def dest: row_find_key)
  qed
  show "fs_wf (fs_put k v t)"
    using t by (auto simp: v fs_put_def fs_wf_def row_find_None comp_def if_distrib cong: if_cong)
  show "fs_lookup (row_delete k t) k' = (if k' = k then None else fs_lookup t k')"
    by (simp add: fs_lookup_def row_find_delete)
  show "fs_wf (row_delete k t)" using t by (simp add: fs_wf_def row_delete_def distinct_map_filter)
qed

lemma fs_lookup_upsert:
  "fs_lookup (row_upsert r t) k =
     (if k = fs_key r
      then Some (fields_json r, case row_find t k of Some q \<Rightarrow> create_time q | None \<Rightarrow> create_time r, update_time r)
      else fs_lookup t k)"
proof (cases "row_find t (fs_key r)")
  case None then show ?thesis by (auto simp: row_upsert_def fs_lookup_def row_find_snoc stored_def)
next
  case (Some q)
  have "row_find (map (\<lambda>q. if fs_key q = fs_key r then q\<lparr>fields_json := fields_json r, update_time := update_time r\<rparr> else q) t) k
    = map_option (\<lambda>q. if fs_key q = fs_key r then q\<lparr>fields_json := fields_json r, update_time := update_time r\<rparr> else q) (row_find t k)"
    by (rule row_find_map) simp
  with Some show ?thesis
    by (cases "row_find t k") (auto simp: row_upsert_def fs_lookup_def stored_def dest: row_find_key)
qed

lemma fs_wf_upsert: "fs_wf t \<Longrightarrow> fs_wf (row_upsert r t)"
  by (auto simp: row_upsert_def fs_wf_def row_find_None comp_def if_distrib cong: if_cong)

lemma fs_wf_update: "fs_wf t \<Longrightarrow> fs_wf (row_update k f u t)"
  by (simp add: row_update_def fs_wf_def comp_def if_distrib cong: if_cong)

text \<open>The view of a stored document.\<close>

definition stored_view :: "string \<Rightarrow> string \<Rightarrow> string \<Rightarrow> string \<Rightarrow> string \<times> string \<times> string \<Rightarrow> pyval dict" where
  "stored_view project database collection doc st =
     (case st of (f, c, u) \<Rightarrow>
        doc_view project database collection doc (case json_loads f of Some v \<Rightarrow> v | None \<Rightarrow> PDict []) c u)"

lemma get_document_lookup:
  "get_document space project database collection doc t =
     (if strip collection = [] \<or> strip doc = [] then None
      else map_option (stored_view (project_id space project) (database_id database) (strip collection) (strip doc))
             (fs_lookup t (doc_key space project database collection doc)))"
  by (cases "row_find t (doc_key space project database collection doc)")
     (auto simp: get_document_def fs_lookup_def row_to_view_def stored_view_def stored_def doc_key_def Let_def dest!: row_find_key)

lemma row_find_lookup: "row_find t k = None \<longleftrightarrow> fs_lookup t k = None"
  by (simp add: fs_lookup_def)

lemma fs_wf_ops:
  assumes "fs_wf t"
  shows "fs_wf (snd (create_document space hex now now' project database collection flds doc t))"
    and "update_document space now project database collection doc flds t = Inr (v, t1) \<Longrightarrow> fs_wf t1"
    and "delete_document space project database collection doc t = Inr t2 \<Longrightarrow> fs_wf t2"
  using assms
  by (auto simp: create_document_def update_document_def delete_document_def fs_wf_upsert fs_wf_update docs.inv_remove Let_def
      split: if_splits option.splits)

lemma row_delete_length: "length (row_delete k t) < length t \<longleftrightarrow> row_find t k \<noteq> None"
  by (auto simp: row_delete_def filter_length_lt_iff row_find_None)

lemma firestore_map_create:
  assumes "strip collection \<noteq> []" and "strip doc \<noteq> []" and "k = doc_key space project database collection doc"
  shows "fs_lookup (snd (create_document space hex now now' project database collection flds doc t))
      = (fs_lookup t)(k \<mapsto> (dumps_sorted (PDict flds), case fs_lookup t k of Some (_, c, _) \<Rightarrow> c | None \<Rightarrow> now, now'))"
proof -
  have key: "doc_key space project database (strip collection) (strip doc) = k" using assms(3) by (simp add: doc_key_def)
  show ?thesis
  proof (cases "row_find t k")
    case None
    then have "fs_lookup t k = None" by (simp add: fs_lookup_def)
    with None assms(1,2) key show ?thesis
      by (intro ext) (simp add: create_document_def str_or_def fs_lookup_upsert Let_def)
  next
    case (Some r)
    then have "fs_lookup t k = Some (fields_json r, create_time r, update_time r)" by (simp add: fs_lookup_def stored_def)
    with Some assms(1,2) key show ?thesis
      by (intro ext) (simp add: create_document_def str_or_def fs_lookup_upsert Let_def)
  qed
qed

lemma get_document_strip: "get_document space project database (strip collection) (strip doc) t = get_document space project database collection doc t"
  by (simp add: get_document_def doc_key_def)

lemma create_document_answer:
  assumes "strip collection \<noteq> []" and "strip doc \<noteq> []"
  shows "get_document space project database collection doc (snd (create_document space hex now now' project database collection flds doc t))
     = Some (fst (create_document space hex now now' project database collection flds doc t))"
proof -
  let ?t = "snd (create_document space hex now now' project database collection flds doc t)"
  have "get_document space project database collection doc ?t \<noteq> None"
    using assms by (simp add: get_document_lookup firestore_map_create [OF assms refl])
  then obtain v where v: "get_document space project database collection doc ?t = Some v" by blast
  have "fst (create_document space hex now now' project database collection flds doc t)
      = (case get_document space project database (strip collection) (strip doc) ?t of Some v \<Rightarrow> v | None \<Rightarrow> [])"
    using assms by (simp add: create_document_def str_or_def Let_def)
  with v show ?thesis by (simp add: get_document_strip)
qed

text \<open>C14. The engine refines a map from (space, project, database, collection, document) to fields and times: creating
  writes one point and keeps the creation time of a document that is there, updating replaces the fields of a present
  document and is a \<open>KeyError\<close> otherwise, deleting clears one point and is a \<open>KeyError\<close> on nothing, and reading
  answers the point; nothing else of the table changes.\<close>

theorem firestore_refines_map:
  assumes "strip collection \<noteq> []" and "strip doc \<noteq> []" and "k = doc_key space project database collection doc"
  shows "fs_lookup (snd (create_document space hex now now' project database collection flds doc t))
      = (fs_lookup t)(k \<mapsto> (dumps_sorted (PDict flds), case fs_lookup t k of Some (_, c, _) \<Rightarrow> c | None \<Rightarrow> now, now'))
    \<and> (case fs_lookup t k of
        None \<Rightarrow> update_document space now project database collection doc flds t = Inl (KeyError (strip doc))
          \<and> delete_document space project database collection doc t = Inl (KeyError (strip doc))
      | Some (f, c, u) \<Rightarrow>
          (\<exists>t' v. update_document space now project database collection doc flds t = Inr (v, t')
             \<and> fs_lookup t' = (fs_lookup t)(k \<mapsto> (dumps_sorted (PDict flds), c, now)))
          \<and> (\<exists>t'. delete_document space project database collection doc t = Inr t' \<and> fs_lookup t' = (fs_lookup t)(k := None)))
    \<and> get_document space project database collection doc t
      = map_option (stored_view (project_id space project) (database_id database) (strip collection) (strip doc)) (fs_lookup t k)"
proof -
  have "fs_lookup (snd (create_document space hex now now' project database collection flds doc t))
      = (fs_lookup t)(k \<mapsto> (dumps_sorted (PDict flds), case fs_lookup t k of Some (_, c, _) \<Rightarrow> c | None \<Rightarrow> now, now'))"
    by (rule firestore_map_create [OF assms])
  moreover have "case fs_lookup t k of
        None \<Rightarrow> update_document space now project database collection doc flds t = Inl (KeyError (strip doc))
          \<and> delete_document space project database collection doc t = Inl (KeyError (strip doc))
      | Some (f, c, u) \<Rightarrow>
          (\<exists>t' v. update_document space now project database collection doc flds t = Inr (v, t')
             \<and> fs_lookup t' = (fs_lookup t)(k \<mapsto> (dumps_sorted (PDict flds), c, now)))
          \<and> (\<exists>t'. delete_document space project database collection doc t = Inr t' \<and> fs_lookup t' = (fs_lookup t)(k := None))"
  proof (cases "row_find t k")
    case None
    then show ?thesis using assms
      by (simp add: update_document_def delete_document_def row_delete_length fs_lookup_def Let_def)
  next
    case (Some r)
    have "fs_lookup (row_update k f u t) = (fs_lookup t)(k \<mapsto> (f, create_time r, u))" for f u
      using Some by (auto simp: fs_lookup_def row_find_update stored_def fun_eq_iff)
    moreover have "fs_lookup (row_delete k t) = (fs_lookup t)(k := None)"
      by (auto simp: fs_lookup_def row_find_delete fun_eq_iff)
    ultimately show ?thesis using Some assms
      by (simp add: update_document_def delete_document_def row_delete_length fs_lookup_def stored_def Let_def)
  qed
  ultimately show ?thesis using assms by (simp add: get_document_lookup)
qed

section \<open>Typed values\<close>

definition typed_keys :: "string list" where
  "typed_keys = [''nullValue'', ''booleanValue'', ''integerValue'', ''doubleValue'', ''timestampValue'', ''stringValue'',
     ''bytesValue'', ''referenceValue'', ''geoPointValue'', ''arrayValue'', ''mapValue'']"

definition typed :: "pyval dict \<Rightarrow> bool" where
  "typed d = list_ex (dhas d) typed_keys"

fun value_from_json :: "pyval \<Rightarrow> pyval" where
  "value_from_json (PDict d) =
     (if typed d then PDict d
      else PDict [(''mapValue'', PDict [(''fields'', PDict (map (\<lambda>(k, v). (k, value_from_json v)) d))])])"
| "value_from_json (PList xs) = PDict [(''arrayValue'', PDict [(''values'', PList (map value_from_json xs))])]"
| "value_from_json (PBool b) = PDict [(''booleanValue'', PBool b)]"
| "value_from_json (PInt i) = PDict [(''integerValue'', PStr (int_str i))]"
| "value_from_json (PFloat s) = PDict [(''doubleValue'', PFloat s)]"
| "value_from_json PNone = PDict [(''nullValue'', PNone)]"
| "value_from_json (PStr s) = PDict [(''stringValue'', PStr s)]"

lemma size_map_of: "map_of d k = Some v \<Longrightarrow> size (v :: pyval) < size (PDict d)"
  by (induction d) (auto split: if_splits)

lemma in_dict_size: "(k, v) \<in> set fs \<Longrightarrow> size (v :: pyval) < size (PDict fs)"
  by (induction fs) auto

lemma in_list_size: "x \<in> set xs \<Longrightarrow> size (x :: pyval) < size (PList xs)"
  by (induction xs) auto

lemma size_nested_list:
  "map_of d k = Some (PDict e) \<Longrightarrow> map_of e k' = Some (PList xs) \<Longrightarrow> x \<in> set xs \<Longrightarrow> size (x :: pyval) < size (PDict d)"
  by (rule less_trans [OF in_list_size less_trans [OF size_map_of size_map_of]])

lemma size_nested_dict:
  "map_of d k = Some (PDict e) \<Longrightarrow> map_of e k' = Some (PDict fs) \<Longrightarrow> (j, v) \<in> set fs \<Longrightarrow> size (v :: pyval) < size (PDict d)"
  by (rule less_trans [OF in_dict_size less_trans [OF size_map_of size_map_of]])

definition int_or_raw :: "pyval \<Rightarrow> pyval" where
  "int_or_raw v = (case py_int v of Inr i \<Rightarrow> PInt i | Inl _ \<Rightarrow> v)"

text \<open>The handler's reading of a typed value.  \<open>flt\<close> is \<open>float(\<dots>)\<close>, \<open>None\<close> when it raises.\<close>

function plain_value :: "(pyval \<Rightarrow> pyval option) \<Rightarrow> pyval \<Rightarrow> pyval" where
  "plain_value flt (PDict d) =
     (if dhas d ''stringValue'' then pget d ''stringValue''
      else if dhas d ''booleanValue'' then PBool (truthy (pget d ''booleanValue''))
      else if dhas d ''integerValue'' then int_or_raw (pget d ''integerValue'')
      else if dhas d ''doubleValue'' then
        (case flt (pget d ''doubleValue'') of Some v \<Rightarrow> v | None \<Rightarrow> pget d ''doubleValue'')
      else if dhas d ''nullValue'' then PNone
      else case map_of d ''mapValue'' of
        Some m \<Rightarrow>
          (case m of
             PDict e \<Rightarrow>
               (case map_of e ''fields'' of
                  Some (PDict fs) \<Rightarrow> PDict (map (\<lambda>(k, v). (k, plain_value flt v)) fs)
                | _ \<Rightarrow> PDict [])
           | _ \<Rightarrow> PDict [])
      | None \<Rightarrow>
          (case map_of d ''arrayValue'' of
             Some a \<Rightarrow>
               (case a of
                  PDict e \<Rightarrow>
                    (case map_of e ''values'' of
                       Some (PList xs) \<Rightarrow> PList (map (plain_value flt) xs)
                     | _ \<Rightarrow> PList [])
                | _ \<Rightarrow> PList [])
           | None \<Rightarrow> PDict d))"
| "plain_value flt PNone = PNone"
| "plain_value flt (PBool b) = PBool b"
| "plain_value flt (PInt i) = PInt i"
| "plain_value flt (PFloat s) = PFloat s"
| "plain_value flt (PStr s) = PStr s"
| "plain_value flt (PList xs) = PList xs"
  by pat_completeness auto
termination
  by (relation "measure (\<lambda>(flt, v). size v)")
    (simp_all only: wf_measure in_measure prod.case,
     blast intro: size_nested_list size_nested_dict, metis size_nested_dict)

text \<open>The engine's own reading, for the comparison with a stored field: the first scalar key in its order decides.
  \<open>None\<close> stands for an exception: the members of an array or a map are not what the code iterates over.\<close>

definition scalar_keys :: "string list" where
  "scalar_keys = [''nullValue'', ''booleanValue'', ''integerValue'', ''doubleValue'', ''stringValue'', ''timestampValue'',
     ''bytesValue'', ''referenceValue'']"

definition scalar_value :: "(pyval \<Rightarrow> pyval option) \<Rightarrow> string \<Rightarrow> pyval \<Rightarrow> pyval" where
  "scalar_value flt key raw =
     (if key = ''nullValue'' then PNone
      else if key = ''integerValue'' then int_or_raw raw
      else if key = ''doubleValue'' then (case flt raw of Some v \<Rightarrow> v | None \<Rightarrow> raw)
      else raw)"

function engine_value :: "(pyval \<Rightarrow> pyval option) \<Rightarrow> pyval \<Rightarrow> pyval option" where
  "engine_value flt (PDict d) =
     (case find (dhas d) scalar_keys of
        Some key \<Rightarrow> Some (scalar_value flt key (pget d key))
      | None \<Rightarrow>
          (case map_of d ''arrayValue'' of
             Some a \<Rightarrow>
               (if \<not> truthy a then Some (PList [])
                else case a of
                  PDict e \<Rightarrow>
                    (case map_of e ''values'' of
                       None \<Rightarrow> Some (PList [])
                     | Some vs \<Rightarrow>
                         (case vs of
                            PList xs \<Rightarrow> map_option PList (those (map (engine_value flt) xs))
                          | _ \<Rightarrow> (case py_iter vs of Inr ys \<Rightarrow> Some (PList ys) | Inl _ \<Rightarrow> None)))
                | _ \<Rightarrow> None)
           | None \<Rightarrow>
               (case map_of d ''mapValue'' of
                  Some m \<Rightarrow>
                    (if \<not> truthy m then Some (PDict [])
                     else case m of
                       PDict e \<Rightarrow>
                         (case map_of e ''fields'' of
                            None \<Rightarrow> Some (PDict [])
                          | Some w \<Rightarrow>
                              (case w of
                                 PDict fs \<Rightarrow>
                                   map_option PDict (those (map (\<lambda>(k, v). map_option (Pair k) (engine_value flt v)) fs))
                               | _ \<Rightarrow> None))
                     | _ \<Rightarrow> None)
                | None \<Rightarrow> Some (PDict d))))"
| "engine_value flt PNone = Some PNone"
| "engine_value flt (PBool b) = Some (PBool b)"
| "engine_value flt (PInt i) = Some (PInt i)"
| "engine_value flt (PFloat s) = Some (PFloat s)"
| "engine_value flt (PStr s) = Some (PStr s)"
| "engine_value flt (PList xs) = Some (PList xs)"
  by pat_completeness auto
termination
  by (relation "measure (\<lambda>(flt, v). size v)")
    (simp_all only: wf_measure in_measure prod.case,
     (blast intro: size_nested_list size_nested_dict | metis size_nested_dict)+)

section \<open>Filters and queries\<close>

definition holds :: "bool option \<Rightarrow> bool" where
  "holds b = (case b of Some x \<Rightarrow> x | None \<Rightarrow> False)"

text \<open>One filter; a comparison of values without an order is false.\<close>

definition matches :: "pyval \<Rightarrow> string \<Rightarrow> pyval \<Rightarrow> bool" where
  "matches v op w =
     (let op = upper (str_or op ''EQUAL'')
      in if op \<in> {''EQUAL'', ''==''} then py_eq v w
         else if op \<in> {''NOT_EQUAL'', ''!=''} then \<not> py_eq v w
         else if op \<in> {''LESS_THAN'', ''<''} then v \<noteq> PNone \<and> holds (py_lt v w)
         else if op \<in> {''LESS_THAN_OR_EQUAL'', ''<=''} then v \<noteq> PNone \<and> holds (py_le v w)
         else if op \<in> {''GREATER_THAN'', ''>''} then v \<noteq> PNone \<and> holds (py_lt w v)
         else if op \<in> {''GREATER_THAN_OR_EQUAL'', ''>=''} then v \<noteq> PNone \<and> holds (py_le w v)
         else if op = ''ARRAY_CONTAINS'' then (case v of PList xs \<Rightarrow> py_in w xs | _ \<Rightarrow> False)
         else if op = ''ARRAY_CONTAINS_ANY'' then
           (case (v, w) of (PList xs, PList ys) \<Rightarrow> list_ex (\<lambda>y. py_in y xs) ys | _ \<Rightarrow> False)
         else if op = ''IN'' then (case w of PList ys \<Rightarrow> py_in v ys | _ \<Rightarrow> False)
         else if op = ''NOT_IN'' then (case w of PList ys \<Rightarrow> \<not> py_in v ys | _ \<Rightarrow> False)
         else py_eq v w)"

record fs_filter =
  flt_field :: string
  flt_op :: string
  flt_value :: pyval

definition field_of :: "(pyval \<Rightarrow> pyval option) \<Rightarrow> pyval dict \<Rightarrow> string \<Rightarrow> pyval option" where
  "field_of flt doc path = engine_value flt (pget (dict_or_empty (pget doc ''fields'')) path)"

text \<open>The order of the sort keys \<open>(value is None, value)\<close>, \<open>None\<close> when two values have no order.\<close>

definition key_lt :: "pyval \<Rightarrow> pyval \<Rightarrow> bool option" where
  "key_lt v w =
     (if v = PNone then Some False else if w = PNone then Some True else if py_eq v w then Some False else py_lt v w)"

text \<open>An interrupted sort leaves an order the language does not fix, \<open>broken\<close>.\<close>

definition sort_docs ::
  "(pyval dict list \<Rightarrow> pyval dict list) \<Rightarrow> (pyval \<Rightarrow> pyval option) \<Rightarrow> string \<Rightarrow> string \<Rightarrow> pyval dict list
   \<Rightarrow> pyval dict list option" where
  "sort_docs broken flt order_by dir docs =
     (case those (map (\<lambda>d. field_of flt d order_by) docs) of
        None \<Rightarrow> None
      | Some keys \<Rightarrow>
          let keyed = zip keys docs; down = startswith (upper dir) ''DESC'';
              lt = (\<lambda>(v, _) (w, _). if down then holds (key_lt w v) else holds (key_lt v w))
          in Some (if list_all (\<lambda>v. list_all (\<lambda>w. key_lt v w \<noteq> None) keys) keys
                   then map snd (stable_sort lt keyed) else broken docs))"

text \<open>The entries of an answer; the last one is marked.\<close>

fun query_results :: "string \<Rightarrow> pyval dict list \<Rightarrow> pyval dict list" where
  "query_results now [] = [[(''readTime'', PStr now), (''done'', PBool True)]]"
| "query_results now [d] = [[(''document'', PDict d), (''readTime'', PStr now), (''done'', PBool True)]]"
| "query_results now (d # e # ds) =
     [(''document'', PDict d), (''readTime'', PStr now), (''done'', PBool False)] # query_results now (e # ds)"

definition filter_by :: "(pyval \<Rightarrow> pyval option) \<Rightarrow> fs_filter \<Rightarrow> pyval dict list \<Rightarrow> pyval dict list option" where
  "filter_by flt f docs =
     (if flt_field f = [] then Some docs
      else case those (map (\<lambda>d. field_of flt d (flt_field f)) docs) of
             None \<Rightarrow> None
           | Some vs \<Rightarrow> Some (map snd (filter (\<lambda>(v, _). matches v (flt_op f) (flt_value f)) (zip vs docs))))"

fun filter_docs :: "(pyval \<Rightarrow> pyval option) \<Rightarrow> fs_filter list \<Rightarrow> pyval dict list \<Rightarrow> pyval dict list option" where
  "filter_docs flt [] docs = Some docs"
| "filter_docs flt (f # fs) docs = Option.bind (filter_by flt f docs) (filter_docs flt fs)"

definition run_query ::
  "(pyval dict list \<Rightarrow> pyval dict list) \<Rightarrow> (pyval \<Rightarrow> pyval option) \<Rightarrow> string \<Rightarrow> string \<Rightarrow> string \<Rightarrow> string \<Rightarrow> string
   \<Rightarrow> string \<Rightarrow> pyval \<Rightarrow> int \<Rightarrow> fs_filter list option \<Rightarrow> string \<Rightarrow> string \<Rightarrow> fs_table \<Rightarrow> pyval dict list option" where
  "run_query broken flt space now project database collection field v limit filters order_by dir t =
     (let docs = list_documents space project database collection t;
          fs = (case filters of
                  Some l \<Rightarrow> l
                | None \<Rightarrow> (if field = [] then [] else [\<lparr>flt_field = field, flt_op = ''EQUAL'', flt_value = v\<rparr>]))
      in Option.bind (filter_docs flt fs docs) (\<lambda>hits.
         Option.bind (if order_by = [] then Some hits else sort_docs broken flt order_by dir hits) (\<lambda>sorted.
           Some (query_results now (if 0 < limit then take (nat limit) sorted else sorted)))))"

section \<open>The handlers\<close>

record fs_state =
  fs_docs :: fs_table
  fs_indexes :: "pyval dict dict"

definition body_dict :: "pyval option \<Rightarrow> pyval dict" where
  "body_dict body = (case body of Some v \<Rightarrow> dict_or_empty v | None \<Rightarrow> [])"

definition normalize_fields :: "pyval dict \<Rightarrow> pyval dict" where
  "normalize_fields d = map (\<lambda>(k, v). (k, value_from_json v)) d"

definition rsplit_slash :: "string \<Rightarrow> string" where
  "rsplit_slash s = last (split_char CHR ''/'' s)"

definition api_create_document ::
  "string \<Rightarrow> string \<Rightarrow> string \<Rightarrow> string \<Rightarrow> string \<Rightarrow> string \<Rightarrow> string \<Rightarrow> pyval option \<Rightarrow> fs_state \<Rightarrow> pyval dict \<times> fs_state" where
  "api_create_document space gen now now' project database collection body st =
     (let payload = body_dict body;
          doc0 = py_str (py_or (py_or (pget payload ''name'') (pget payload ''documentId'')) (PStr gen));
          doc = rsplit_slash doc0;
          flds = dict_or_empty (pget payload ''fields'');
          (v, t) = create_document space gen now now' (gcp_project_name project) (database_id database) collection (normalize_fields flds) doc (fs_docs st)
      in (v, st\<lparr>fs_docs := t\<rparr>))"

definition not_found :: "string \<Rightarrow> py_exc" where
  "not_found what = HTTPException 404 (PStr (what @ '' not found''))"

definition api_get_document :: "string \<Rightarrow> string \<Rightarrow> string \<Rightarrow> string \<Rightarrow> string \<Rightarrow> fs_state \<Rightarrow> pyval dict result" where
  "api_get_document space project database collection doc st =
     (case get_document space (gcp_project_name project) (database_id database) collection doc (fs_docs st) of
        Some v \<Rightarrow> Inr v | None \<Rightarrow> Inl (not_found ''Document''))"

definition api_delete_document :: "string \<Rightarrow> string \<Rightarrow> string \<Rightarrow> string \<Rightarrow> string \<Rightarrow> fs_state \<Rightarrow> fs_state result" where
  "api_delete_document space project database collection doc st =
     (case delete_document space (gcp_project_name project) (database_id database) collection doc (fs_docs st) of
        Inr t \<Rightarrow> Inr (st\<lparr>fs_docs := t\<rparr>) | Inl _ \<Rightarrow> Inl (not_found ''Document''))"

definition api_update_document ::
  "string \<Rightarrow> string \<Rightarrow> string \<Rightarrow> string \<Rightarrow> string \<Rightarrow> string \<Rightarrow> pyval option \<Rightarrow> fs_state \<Rightarrow> (pyval dict \<times> fs_state) result" where
  "api_update_document space now project database collection doc body st =
     (let flds = dict_or_empty (pget (body_dict body) ''fields'')
      in case update_document space now (gcp_project_name project) (database_id database) collection doc (normalize_fields flds) (fs_docs st) of
           Inr (v, t) \<Rightarrow> Inr (v, st\<lparr>fs_docs := t\<rparr>) | Inl _ \<Rightarrow> Inl (not_found ''Document''))"

definition index_record :: "string \<Rightarrow> string \<Rightarrow> string \<Rightarrow> string \<Rightarrow> string \<Rightarrow> pyval dict \<Rightarrow> pyval dict" where
  "index_record gen now project database collection payload =
     (let name = str_or (strip (py_str (py_or (py_or (pget payload ''name'') (pget payload ''indexId'')) (PStr [])))) (''index-'' @ gen);
          flds = list_items (pget payload ''fields'');
          text = (\<lambda>k v. PStr (py_str (py_or (pget payload k) (PStr v))))
      in [(''project'', PStr project), (''database'', PStr database), (''collection'', PStr collection), (''name'', PStr name),
          (''fields'', PList (if flds = [] then [PDict [(''fieldPath'', PStr ''__name__''), (''order'', PStr ''ASCENDING'')]] else flds)),
          (''queryScope'', text ''queryScope'' ''COLLECTION''), (''state'', text ''state'' ''READY''),
          (''description'', text ''description'' []), (''createTime'', PStr now), (''updateTime'', PStr now)])"

definition index_key :: "string \<Rightarrow> string \<Rightarrow> string \<Rightarrow> string \<Rightarrow> string" where
  "index_key project database collection name = project @ '':'' @ database @ '':'' @ collection @ '':'' @ name"

definition index_view :: "pyval dict \<Rightarrow> pyval dict" where
  "index_view i =
     (let text = (\<lambda>k v. py_str (py_or (pget i k) (PStr v)))
      in [(''name'', PStr (''projects/'' @ text ''project'' ''cloudlearn'' @ ''/databases/'' @ text ''database'' ''(default)''
             @ ''/collectionGroups/'' @ text ''collection'' [] @ ''/indexes/'' @ text ''name'' [])),
          (''collectionGroup'', PStr (text ''collection'' [])), (''queryScope'', dget i ''queryScope'' (PStr ''COLLECTION'')),
          (''fields'', dget i ''fields'' (PList [])), (''state'', dget i ''state'' (PStr ''READY'')),
          (''description'', dget i ''description'' (PStr [])), (''createTime'', pget i ''createTime''),
          (''updateTime'', pget i ''updateTime'')])"

definition api_create_index ::
  "string \<Rightarrow> string \<Rightarrow> string \<Rightarrow> string \<Rightarrow> string \<Rightarrow> pyval option \<Rightarrow> fs_state \<Rightarrow> pyval dict \<times> fs_state" where
  "api_create_index gen now project database collection body st =
     (let i = index_record gen now (gcp_project_name project) (database_id database) collection (body_dict body);
          k = index_key (gcp_project_name project) (database_id database) collection (py_str (pget i ''name''))
      in (index_view i, st\<lparr>fs_indexes := dset k i (fs_indexes st)\<rparr>))"

definition api_delete_index :: "string \<Rightarrow> string \<Rightarrow> string \<Rightarrow> string \<Rightarrow> fs_state \<Rightarrow> fs_state result" where
  "api_delete_index project database collection name st =
     (let k = index_key (gcp_project_name project) (database_id database) collection name
      in case map_of (fs_indexes st) k of
           None \<Rightarrow> Inl (not_found ''Index'')
         | Some i \<Rightarrow> if i = [] then Inl (not_found ''Index'') else Inr (st\<lparr>fs_indexes := dpop k (fs_indexes st)\<rparr>))"

definition api_list_indexes :: "string \<Rightarrow> string \<Rightarrow> string \<Rightarrow> fs_state \<Rightarrow> pyval dict list" where
  "api_list_indexes project database collection st =
     stable_sort (\<lambda>a b. py_str (pget a ''name'') < py_str (pget b ''name''))
       (map index_view (filter (\<lambda>i.
          py_str (py_or (pget i ''project'') (PStr (gcp_project_name project))) = gcp_project_name project
          \<and> py_str (py_or (pget i ''database'') (PStr (database_id database))) = database_id database
          \<and> (collection = [] \<or> py_str (py_or (pget i ''collection'') (PStr [])) = collection)) (dvals (fs_indexes st))))"

text \<open>A structured query: its collection, its limit, and its field filter, of which the operator is not read.\<close>

definition query_collection :: "string \<Rightarrow> pyval dict \<Rightarrow> string" where
  "query_collection collection query =
     (if collection \<noteq> [] then collection
      else case pget query ''from'' of
             PList (PDict s # _) \<Rightarrow> py_str (py_or (pget s ''collectionId'') (PStr []))
           | _ \<Rightarrow> [])"

definition query_filter :: "pyval dict \<Rightarrow> pyval dict" where
  "query_filter query = dict_or_empty (pget (dict_or_empty (pget query ''where'')) ''fieldFilter'')"

definition query_field :: "pyval dict \<Rightarrow> string" where
  "query_field query =
     py_str (py_or (pget (dict_or_empty (pget (query_filter query) ''field'')) ''fieldPath'') (PStr []))"

definition query_limit :: "pyval dict \<Rightarrow> pyval option \<Rightarrow> int result" where
  "query_limit query body =
     (if truthy (pget query ''limit'') then py_int (pget query ''limit'')
      else case body of
             Some (PDict p) \<Rightarrow> py_int (py_or (pget p ''limit'') (PInt 50))
           | None \<Rightarrow> Inr 50
           | Some _ \<Rightarrow> Inl (AttributeError ''get''))"

definition index_order :: "pyval dict \<Rightarrow> string" where
  "index_order query = py_str (dget query ''orderBy'' (PStr ''ASCENDING''))"

text \<open>The answer to a query, and the index that is recorded for its field when there is none yet.\<close>

definition query_index :: "string \<Rightarrow> string \<Rightarrow> string \<Rightarrow> string \<Rightarrow> string \<Rightarrow> string \<Rightarrow> string \<Rightarrow> string \<Rightarrow> fs_state \<Rightarrow> fs_state" where
  "query_index gen now project database coll field order order' st =
     (let key = index_key project database coll (field @ '':'' @ order);
          payload = [(''name'', PStr (last (split_char CHR '':'' key))),
                     (''fields'', PList [PDict [(''fieldPath'', PStr field), (''order'', PStr order')]]),
                     (''queryScope'', PStr ''COLLECTION''),
                     (''description'', PStr (''Auto-generated from query on '' @ coll @ ''.'' @ field))]
      in if coll \<noteq> [] \<and> field \<noteq> [] then
           st\<lparr>fs_indexes := dsetdefault key (index_record gen now project database coll payload) (fs_indexes st)\<rparr>
         else st)"

definition answer_query ::
  "(pyval dict list \<Rightarrow> pyval dict list) \<Rightarrow> (pyval \<Rightarrow> pyval option) \<Rightarrow> string \<Rightarrow> string \<Rightarrow> string \<Rightarrow> string \<Rightarrow> string \<Rightarrow> string
   \<Rightarrow> pyval dict \<Rightarrow> int \<Rightarrow> fs_state \<Rightarrow> (pyval dict list \<times> fs_state) result" where
  "answer_query broken flt space gen now project database coll query limit st =
     (let field = query_field query;
          v = (if field = [] then PNone else plain_value flt (pget (query_filter query) ''value''))
      in case run_query broken flt space now project database coll field v limit None [] ''ASCENDING'' (fs_docs st) of
           None \<Rightarrow> Inl (AttributeError ''get'')
         | Some results \<Rightarrow>
             Inr (results, query_index gen now project database coll field (index_order query)
               (py_str (py_or (pget query ''orderBy'') (PStr ''ASCENDING''))) st))"

definition api_run_query ::
  "(pyval dict list \<Rightarrow> pyval dict list) \<Rightarrow> (pyval \<Rightarrow> pyval option) \<Rightarrow> string \<Rightarrow> string \<Rightarrow> string \<Rightarrow> string \<Rightarrow> string \<Rightarrow> string
   \<Rightarrow> pyval option \<Rightarrow> fs_state \<Rightarrow> (pyval dict list \<times> fs_state) result" where
  "api_run_query broken flt space gen now project database collection body st =
     (let query = dict_or_empty (pget (body_dict body) ''structuredQuery'')
      in rbind (query_limit query body) (\<lambda>limit.
           answer_query broken flt space gen now (gcp_project_name project) (database_id database) (query_collection collection query) query limit st))"

section \<open>Writing and reading back\<close>

text \<open>JSON without objects that already are typed values.\<close>

fun untyped :: "pyval \<Rightarrow> bool" where
  "untyped (PDict d) = (\<not> typed d \<and> (\<forall>(k, v)\<in>set d. untyped v))"
| "untyped (PList xs) = (\<forall>x\<in>set xs. untyped x)"
| "untyped v = True"

lemma plain_value_from_json:
  assumes flt: "\<And>s. flt (PFloat s) = Some (PFloat s)"
  shows "untyped v \<Longrightarrow> plain_value flt (sorted_keys (value_from_json v)) = sorted_keys v"
proof (induction v)
  case (PFloat s) then show ?case by (simp add: flt dhas_def pget_def dget_def sort_key_def)
next
  case (PList xs)
  then have "map (plain_value flt \<circ> (sorted_keys \<circ> value_from_json)) xs = map sorted_keys xs" by simp
  then show ?case by (simp add: dhas_def pget_def dget_def sort_key_def comp_assoc)
next
  case (PDict d)
  let ?e = "map (\<lambda>(k, v). (k, sorted_keys (value_from_json v))) d"
  have plain: "map (\<lambda>(k, v). (k, plain_value flt v)) ?e = map (\<lambda>(k, v). (k, sorted_keys v)) d"
    using PDict by fastforce
  have "map (\<lambda>(k, v). (k, plain_value flt v)) (sort_key fst ?e) = sort_key fst (map (\<lambda>(k, v). (k, plain_value flt v)) ?e)"
    by (rule sort_key_fst_map [symmetric])
  then have "map (\<lambda>(k, v). (k, plain_value flt v)) (sort_key fst ?e) = sort_key fst (map (\<lambda>(k, v). (k, sorted_keys v)) d)"
    by (simp only: plain)
  then show ?case using PDict.prems by (simp add: dhas_def pget_def dget_def sort_key_def comp_def split_def)
qed (simp_all add: dhas_def pget_def dget_def sort_key_def int_or_raw_def py_int_def)

lemma json_ok_from_json: "json_ok v \<Longrightarrow> json_ok (value_from_json v)"
proof (induction v)
  case (PDict d)
  have "wf_dict (map (\<lambda>(k, v). (k, value_from_json v)) d)" using PDict.prems by (simp add: wf_dict_def map_fst_pairs del: map_map)
  then show ?case using PDict by (auto simp: wf_dict_def)
qed (auto simp: wf_dict_def)

lemma strip_not_slash: "CHR ''/'' \<notin> set s \<Longrightarrow> rsplit_slash s = s"
  by (simp add: rsplit_slash_def split_char_absent)

text \<open>What a client writes it reads back: a document created through the API is found under its name, and the plain
  values of its fields are the JSON that was sent, keys sorted.\<close>

theorem firestore_write_read:
  assumes "json_ok (PDict flds)" and "untyped (PDict flds)" and "\<And>s. flt (PFloat s) = Some (PFloat s)"
    and "name \<noteq> []" and "strip name = name" and "CHR ''/'' \<notin> set name" and "strip collection \<noteq> []"
    and "api_create_document space gen now now' project database collection
           (Some (PDict [(''name'', PStr name), (''fields'', PDict flds)])) st = (doc, st')"
  shows "api_get_document space project database collection name st' = Inr doc
    \<and> plain_value flt (PDict [(''mapValue'', PDict [(''fields'', pget doc ''fields'')])]) = sorted_keys (PDict flds)"
proof -
  let ?db = "database_id database" and ?norm = "normalize_fields flds"
  let ?k = "doc_key space (gcp_project_name project) ?db collection name"
  have db: "database_id ?db = ?db" by (simp add: database_id_def str_or_def)
  have st': "st' = st\<lparr>fs_docs := snd (create_document space gen now now' (gcp_project_name project) ?db collection ?norm name (fs_docs st))\<rparr>"
    and doc: "doc = fst (create_document space gen now now' (gcp_project_name project) ?db collection ?norm name (fs_docs st))"
    using assms(4,6,8)
    by (auto simp: api_create_document_def body_dict_def py_or_def pget_def dget_def strip_not_slash Let_def split: prod.splits)
  have lookup: "fs_lookup (fs_docs st') ?k
      = Some (dumps_sorted (PDict ?norm), case fs_lookup (fs_docs st) ?k of Some (_, c, _) \<Rightarrow> c | None \<Rightarrow> now, now')"
    using assms(4,5) by (simp add: st' firestore_map_create [OF assms(7) _ refl])
  then obtain c where c: "fs_lookup (fs_docs st') ?k = Some (dumps_sorted (PDict ?norm), c, now')" by blast
  have "json_ok (PDict ?norm)"
  proof -
    have "wf_dict ?norm" using assms(1) by (simp add: normalize_fields_def wf_dict_def map_fst_pairs del: map_map)
    then show ?thesis using assms(1) json_ok_from_json by (auto simp: normalize_fields_def)
  qed
  then have loads: "json_loads (dumps_sorted (PDict ?norm)) = Some (sorted_keys (PDict ?norm))" by (rule loads_dumps_sorted)
  have get: "get_document space (gcp_project_name project) ?db collection name (fs_docs st')
      = Some (doc_view (project_id space (gcp_project_name project)) ?db (strip collection) name (sorted_keys (PDict ?norm)) c now')"
    using assms(4,5,7) c loads by (simp add: get_document_lookup stored_view_def db del: sorted_keys.simps)
  have docv: "doc = doc_view (project_id space (gcp_project_name project)) ?db (strip collection) name (sorted_keys (PDict ?norm)) c now'"
    using get assms(4,5) create_document_answer [OF assms(7), of name space "gcp_project_name project" ?db gen now now' ?norm "fs_docs st"]
    by (simp add: st' doc)
  have "pget doc ''fields'' = sorted_keys (PDict ?norm)"
    unfolding docv by (simp add: doc_view_def pget_def dget_def py_or_def)
  moreover have "sorted_keys (value_from_json (PDict flds)) = PDict [(''mapValue'', PDict [(''fields'', sorted_keys (PDict ?norm))])]"
    using assms(2) by (simp add: normalize_fields_def sort_key_def)
  ultimately show ?thesis
    using get docv plain_value_from_json [OF assms(3) assms(2)] by (simp add: api_get_document_def del: sorted_keys.simps value_from_json.simps)
qed

text \<open>A structured query reads only the field and the value of its filter: every comparison is answered as an
  equality, whatever operator the client asked for.\<close>

theorem firestore_query_ignores_operator:
  "api_run_query broken flt space gen now project database collection
     (Some (PDict [(''structuredQuery'', PDict [(''from'', from), (''where'', PDict [(''fieldFilter'', PDict (dset ''op'' oper f))])])])) st
   = api_run_query broken flt space gen now project database collection
     (Some (PDict [(''structuredQuery'', PDict [(''from'', from), (''where'', PDict [(''fieldFilter'', PDict f)])])])) st"
proof -
  let ?q = "\<lambda>f. [(''from'', from), (''where'', PDict [(''fieldFilter'', PDict f)])]"
  have flt: "query_filter (?q g) = g" for g by (simp add: query_filter_def pget_def dget_def)
  have field: "query_field (?q (dset ''op'' oper f)) = query_field (?q f)"
    and val: "pget (query_filter (?q (dset ''op'' oper f))) ''value'' = pget (query_filter (?q f)) ''value''"
    by (simp_all add: query_field_def flt pget_def dict_simps)
  have rest: "query_collection collection (?q g) = query_collection collection (?q f)" "index_order (?q g) = index_order (?q f)"
    "pget (?q g) ''orderBy'' = pget (?q f) ''orderBy''" for g
    by (simp_all add: query_collection_def index_order_def pget_def dget_def)
  have limit: "query_limit (?q g) (Some (PDict [(''structuredQuery'', PDict (?q g))])) = Inr 50" for g
    by (simp add: query_limit_def pget_def dget_def py_or_def py_int_def)
  have body: "dict_or_empty (pget (body_dict (Some (PDict [(''structuredQuery'', PDict (?q g))]))) ''structuredQuery'') = ?q g" for g
    by (simp add: body_dict_def pget_def dget_def)
  have eq: "answer_query broken flt space gen now (gcp_project_name project) (database_id database) c (?q (dset ''op'' oper f)) n st
      = answer_query broken flt space gen now (gcp_project_name project) (database_id database) c (?q f) n st" for c n
    unfolding answer_query_def field val rest(2) [of "dset ''op'' oper f"] rest(3) [of "dset ''op'' oper f"] ..
  show ?thesis
    unfolding api_run_query_def Let_def body limit rest(1) [of "dset ''op'' oper f"] rbind_simps by (rule eq)
qed

section \<open>What a query answers\<close>

lemma those_map_the: "those (map f xs) = Some ys \<Longrightarrow> ys = map (\<lambda>x. the (f x)) xs"
  by (induction xs arbitrary: ys) (auto split: option.splits)

lemma zip_filter_map: "map snd (filter (\<lambda>(v, _). P v) (zip (map f ds) ds)) = filter (\<lambda>d. P (f d)) ds"
  by (induction ds) auto

text \<open>A query that does not raise answers the documents of the collection whose field equals the value, in the order of
  creation, at most the limit, each in an entry of its own.\<close>

theorem firestore_query_exact:
  assumes "run_query broken flt space now project database collection field v limit None [] dir t = Some results"
    and "field \<noteq> []" and "0 < limit"
  shows "results = query_results now (take (nat limit)
      (filter (\<lambda>d. py_eq (the (field_of flt d field)) v) (list_documents space project database collection t)))"
proof -
  let ?docs = "list_documents space project database collection t"
  obtain vs where vs: "those (map (\<lambda>d. field_of flt d field) ?docs) = Some vs"
    using assms(1,2) by (auto simp: run_query_def filter_by_def Let_def split: option.splits bind_splits)
  then have v: "vs = map (\<lambda>d. the (field_of flt d field)) ?docs" by (rule those_map_the)
  have "matches u ''EQUAL'' w = py_eq u w" for u w 
  proof -
    have "upper ''EQUAL'' = ''EQUAL''" by code_simp
    then show ?thesis by (simp add: matches_def str_or_def)
  qed
  then show ?thesis
    using assms vs zip_filter_map [of "\<lambda>u. py_eq u v" "\<lambda>d. the (field_of flt d field)" ?docs]
    by (simp add: run_query_def filter_by_def v Let_def)
qed

section \<open>Concrete runs\<close>

lemma demo_strip: "strip ''users'' = ''users''" "strip ''ada'' = ''ada''" "strip ''p'' = ''p''"
  by code_simp+

theorem firestore_refines_map_witness:
  "fs_lookup (snd (create_document ''global'' ''h'' ''t1'' ''t2'' ''p'' [] ''users'' [(''age'', PInt 3)] ''ada'' []))
     (''global'', ''p'', ''(default)'', ''users'', ''ada'') = Some (dumps_sorted (PDict [(''age'', PInt 3)]), ''t1'', ''t2'')
   \<and> update_document ''global'' ''t1'' ''p'' [] ''users'' ''ada'' [(''age'', PInt 3)] [] = Inl (KeyError ''ada'')"
proof -
  have k: "(''global'', ''p'', ''(default)'', ''users'', ''ada'') = doc_key ''global'' ''p'' [] ''users'' ''ada''"
    by (simp add: doc_key_def project_id_def database_id_def str_or_def demo_strip)
  have n: "strip ''users'' \<noteq> []" "strip ''ada'' \<noteq> []" by (simp_all add: demo_strip)
  have "fs_lookup [] x = None" for x by (simp add: fs_lookup_def)
  with firestore_refines_map [OF n k, of "''h''" "''t1''" "''t2''" "[(''age'', PInt 3)]" "[]"]
  show ?thesis by (simp add: demo_strip)
qed

definition demo_float :: "pyval \<Rightarrow> pyval option" where
  "demo_float v = (case v of PFloat s \<Rightarrow> Some v | _ \<Rightarrow> None)"

definition demo_fields :: "pyval dict" where
  "demo_fields = [(''tags'', PList [PStr ''x'', PNone]), (''age'', PInt 3)]"

theorem firestore_write_read_witness:
  "\<exists>doc st'. api_create_document ''global'' ''g'' ''t1'' ''t2'' ''p'' [] ''users''
       (Some (PDict [(''name'', PStr ''ada''), (''fields'', PDict demo_fields)])) \<lparr>fs_docs = [], fs_indexes = []\<rparr> = (doc, st')
     \<and> api_get_document ''global'' ''p'' [] ''users'' ''ada'' st' = Inr doc
     \<and> plain_value demo_float (PDict [(''mapValue'', PDict [(''fields'', pget doc ''fields'')])])
         = PDict [(''age'', PInt 3), (''tags'', PList [PStr ''x'', PNone])]"
proof -
  obtain doc st' where c: "api_create_document ''global'' ''g'' ''t1'' ''t2'' ''p'' [] ''users''
       (Some (PDict [(''name'', PStr ''ada''), (''fields'', PDict demo_fields)])) \<lparr>fs_docs = [], fs_indexes = []\<rparr> = (doc, st')"
    by (cases "api_create_document ''global'' ''g'' ''t1'' ''t2'' ''p'' [] ''users''
       (Some (PDict [(''name'', PStr ''ada''), (''fields'', PDict demo_fields)])) \<lparr>fs_docs = [], fs_indexes = []\<rparr>")
  have s: "sorted_keys (PDict demo_fields) = PDict [(''age'', PInt 3), (''tags'', PList [PStr ''x'', PNone])]" by code_simp
  have "json_ok (PDict demo_fields)" "untyped (PDict demo_fields)"
    by (simp_all add: demo_fields_def wf_dict_def typed_def typed_keys_def dhas_def)
  from firestore_write_read [OF this _ _ demo_strip(2) _ _ c, of demo_float] s c show ?thesis
    by (simp add: demo_float_def demo_strip)
qed

definition demo_docs :: fs_table where
  "demo_docs = snd (create_document ''global'' ''h'' ''t1'' ''t1'' ''p'' [] ''users'' (normalize_fields [(''age'', PInt 3)]) ''ada'' [])"

theorem firestore_query_exact_witness:
  "\<exists>results. run_query id demo_float ''global'' ''now'' ''p'' [] ''users'' ''age'' (PInt 4) 50 None [] ''ASCENDING'' demo_docs = Some results
     \<and> results = query_results ''now'' (take 50
         (filter (\<lambda>d. py_eq (the (field_of demo_float d ''age'')) (PInt 4)) (list_documents ''global'' ''p'' [] ''users'' demo_docs)))"
proof -
  have "field_of demo_float d ''age'' \<noteq> None" if "d \<in> set (list_documents ''global'' ''p'' [] ''users'' demo_docs)" for d
  proof -
    have l: "json_loads (dumps_sorted (PDict (normalize_fields [(''age'', PInt 3)]))) = Some (PDict [(''age'', PDict [(''integerValue'', PStr ''3'')])])"
    proof -
      have "json_ok (PDict (normalize_fields [(''age'', PInt 3)]))" by (simp add: normalize_fields_def wf_dict_def)
      moreover have "sorted_keys (PDict (normalize_fields [(''age'', PInt 3)])) = PDict [(''age'', PDict [(''integerValue'', PStr ''3'')])]"
        by code_simp
      ultimately show ?thesis using loads_dumps_sorted by metis
    qed
    show ?thesis using that l
      by (auto simp: list_documents_def demo_docs_def create_document_def row_upsert_def demo_strip str_or_def row_to_view_def
          doc_key_def field_of_def doc_view_def pget_def dget_def py_or_def scalar_keys_def dhas_def Let_def split: if_splits)
  qed
  then obtain vs where "those (map (\<lambda>d. field_of demo_float d ''age'') (list_documents ''global'' ''p'' [] ''users'' demo_docs)) = Some vs"
    using those_all [of "list_documents ''global'' ''p'' [] ''users'' demo_docs" "\<lambda>d. field_of demo_float d ''age''"] by blast
  then obtain results where r: "run_query id demo_float ''global'' ''now'' ''p'' [] ''users'' ''age'' (PInt 4) 50 None [] ''ASCENDING'' demo_docs = Some results"
    by (simp add: run_query_def filter_by_def)
  from firestore_query_exact [OF r] r show ?thesis by simp
qed

end
