(* ===== verification/Ddb_Values.thy ===== *)
theory Ddb_Values
imports Py_Json
begin

text \<open>The values of DynamoDB (\<open>routes/aws_dynamodb.py\<close>): the typed JSON of the wire and the native values of the tables,
  the two conversions, and what they keep.  \<open>flt\<close> is \<open>float(text)\<close>, giving the text Python prints for the result,
  or \<open>None\<close> when it raises.\<close>

section \<open>Conversions\<close>

definition ddb_types :: "string list" where
  "ddb_types = [''S'', ''N'', ''BOOL'', ''NULL'', ''M'', ''L'', ''SS'', ''NS'', ''BS'', ''B'']"

definition is_typed_value :: "pyval \<Rightarrow> bool" where
  "is_typed_value v = (case v of PDict [(t, _)] \<Rightarrow> t \<in> set ddb_types | _ \<Rightarrow> False)"

text \<open>\<open>re.fullmatch(r"-?\\d+", s)\<close>.\<close>

definition int_text :: "string \<Rightarrow> bool" where
  "int_text s =
     (let u = (case s of c # r \<Rightarrow> (if c = CHR ''-'' then r else s) | [] \<Rightarrow> s) in u \<noteq> [] \<and> list_all is_digit u)"

definition int_text_val :: "string \<Rightarrow> int" where
  "int_text_val s =
     (case s of
        c # r \<Rightarrow> (if c = CHR ''-'' then - int (digits_val r) else int (digits_val s))
      | [] \<Rightarrow> 0)"

definition number_text :: "(string \<Rightarrow> string option) \<Rightarrow> string \<Rightarrow> pyval" where
  "number_text flt s =
     (if int_text s then PInt (int_text_val s)
      else case flt s of Some f \<Rightarrow> PFloat f | None \<Rightarrow> PStr s)"

text \<open>\<open>raw or []\<close>, iterated.\<close>

definition iter_or_empty :: "pyval \<Rightarrow> pyval list option" where
  "iter_or_empty raw =
     (if \<not> truthy raw then Some [] else case py_iter raw of Inr xs \<Rightarrow> Some xs | Inl _ \<Rightarrow> None)"

text \<open>\<open>None\<close> stands for an exception: a list or a map whose members cannot be iterated over.\<close>

function json_to_native :: "(string \<Rightarrow> string option) \<Rightarrow> pyval \<Rightarrow> pyval option" where
  "json_to_native flt (PDict d) =
     (if is_typed_value (PDict d) then
        (case d of
           (t, raw) # _ \<Rightarrow>
             (if t = ''S'' then Some (PStr (py_str raw))
              else if t = ''N'' then Some (number_text flt (py_str raw))
              else if t = ''BOOL'' then Some (PBool (truthy raw))
              else if t = ''NULL'' then Some PNone
              else if t = ''B'' then Some raw
              else if t = ''SS'' then map_option (\<lambda>xs. PList (map (\<lambda>x. PStr (py_str x)) xs)) (iter_or_empty raw)
              else if t = ''NS'' then map_option (\<lambda>xs. PList (map (\<lambda>x. number_text flt (py_str x)) xs)) (iter_or_empty raw)
              else if t = ''BS'' then map_option PList (iter_or_empty raw)
              else if t = ''L'' then
                (case raw of
                   PList xs \<Rightarrow> map_option PList (those (map (json_to_native flt) xs))
                 | _ \<Rightarrow> map_option PList (iter_or_empty raw))
              else if \<not> truthy raw then Some (PDict [])
              else
                (case raw of
                   PDict e \<Rightarrow> map_option PDict (those (map (\<lambda>(k, v). map_option (Pair k) (json_to_native flt v)) e))
                 | _ \<Rightarrow> None))
         | [] \<Rightarrow> None)
      else map_option PDict (those (map (\<lambda>(k, v). map_option (Pair k) (json_to_native flt v)) d)))"
| "json_to_native flt (PList xs) = map_option PList (those (map (json_to_native flt) xs))"
| "json_to_native flt PNone = Some PNone"
| "json_to_native flt (PBool b) = Some (PBool b)"
| "json_to_native flt (PInt i) = Some (PInt i)"
| "json_to_native flt (PFloat s) = Some (PFloat s)"
| "json_to_native flt (PStr s) = Some (PStr s)"
  by pat_completeness auto

lemma size_in_list: "x \<in> set xs \<Longrightarrow> size (x :: pyval) < size (PList xs)"
  by (induction xs) auto

lemma size_in_dict: "(k, v) \<in> set d \<Longrightarrow> size (v :: pyval) < size (PDict d)"
  by (induction d) auto

lemma size_member_list: "d = (t, PList xs) # r \<Longrightarrow> x \<in> set xs \<Longrightarrow> size (x :: pyval) < size (PDict d)"
  by (rule less_trans [OF size_in_list size_in_dict [of t]]) auto

lemma size_member_dict: "d = (t, PDict e) # r \<Longrightarrow> (k, v) \<in> set e \<Longrightarrow> size (v :: pyval) < size (PDict d)"
  by (rule less_trans [OF size_in_dict size_in_dict [of t]]) auto

termination json_to_native
  by (relation "measure (\<lambda>(flt, v). size v)")
    (simp_all only: wf_measure in_measure prod.case,
     (blast intro: size_in_list size_in_dict size_member_list size_member_dict
      | metis size_in_dict size_member_dict size_member_list)+)

definition is_number :: "pyval \<Rightarrow> bool" where
  "is_number v = (case v of PInt _ \<Rightarrow> True | PFloat _ \<Rightarrow> True | _ \<Rightarrow> False)"

fun native_to_json :: "pyval \<Rightarrow> pyval" where
  "native_to_json (PDict d) = PDict [(''M'', PDict (map (\<lambda>(k, v). (k, native_to_json v)) d))]"
| "native_to_json (PList xs) =
     (if list_all is_str xs then PDict [(''SS'', PList (map (\<lambda>x. PStr (py_str x)) xs))]
      else if list_all is_number xs then PDict [(''NS'', PList (map (\<lambda>x. PStr (py_str x)) xs))]
      else PDict [(''L'', PList (map native_to_json xs))])"
| "native_to_json (PBool b) = PDict [(''BOOL'', PBool b)]"
| "native_to_json PNone = PDict [(''NULL'', PBool True)]"
| "native_to_json (PInt i) = PDict [(''N'', PStr (int_str i))]"
| "native_to_json (PFloat s) = PDict [(''N'', PStr s)]"
| "native_to_json (PStr s) = PDict [(''S'', PStr s)]"

definition native_item_to_json :: "pyval dict \<Rightarrow> pyval dict" where
  "native_item_to_json item = map (\<lambda>(k, v). (k, native_to_json v)) item"

definition item_to_native_item :: "(string \<Rightarrow> string option) \<Rightarrow> pyval \<Rightarrow> pyval dict result" where
  "item_to_native_item flt item =
     (case item of
        PDict d \<Rightarrow>
          (case those (map (\<lambda>(k, v). map_option (Pair k) (json_to_native flt v)) d) of
             Some e \<Rightarrow> Inr e | None \<Rightarrow> Inl (TypeError ''object is not iterable''))
      | _ \<Rightarrow> Inl (HTTPException 400 (PStr ''ValidationException: Item must be an object.'')))"

section \<open>What comes back\<close>

text \<open>A printed float is not the text of an integer, and is read as itself.\<close>

fun floats_kept :: "(string \<Rightarrow> string option) \<Rightarrow> pyval \<Rightarrow> bool" where
  "floats_kept flt (PFloat s) = (\<not> int_text s \<and> flt s = Some s)"
| "floats_kept flt (PList xs) = (\<forall>x\<in>set xs. floats_kept flt x)"
| "floats_kept flt (PDict d) = (\<forall>(k, v)\<in>set d. floats_kept flt v)"
| "floats_kept flt v = True"

lemma int_text_int_str: "int_text (int_str i) \<and> int_text_val (int_str i) = i"
proof -
  obtain c r where cr: "nat_str (nat \<bar>i\<bar>) = c # r" by (meson neq_Nil_conv nat_str_not_Nil)
  then have "is_digit c" using nat_str_digits [of "nat \<bar>i\<bar>"] by simp
  then have "c \<noteq> CHR ''-''" by (auto simp: is_digit_def)
  then show ?thesis
    using nat_str_digits [of "nat \<bar>i\<bar>"] digits_val_nat_str [of "nat \<bar>i\<bar>"] cr
    by (cases "i < 0") (simp_all add: int_text_def int_text_val_def int_str_def)
qed

lemma number_text_int [simp]: "number_text flt (int_str i) = PInt i"
  using int_text_int_str [of i] by (simp add: number_text_def)

lemma those_pairs: "\<forall>(k, v)\<in>set d. f v = Some (g v) \<Longrightarrow>
    those (map (\<lambda>(k, v). map_option (Pair k) (f v)) d) = Some (map (\<lambda>(k, v). (k, g v)) d)"
  by (induction d) auto

lemma those_Some_map: "\<forall>x\<in>set xs. f x = Some (g x) \<Longrightarrow> those (map f xs) = Some (map g xs)"
  by (induction xs) auto

lemma typed_singleton: "is_typed_value (PDict [(t, raw)]) = (t \<in> set ddb_types)"
  by (simp add: is_typed_value_def)

lemma iter_list [simp]: "iter_or_empty (PList xs) = Some xs"
  by (simp add: iter_or_empty_def py_iter_def)

lemma native_json_native: "floats_kept flt v \<Longrightarrow> json_to_native flt (native_to_json v) = Some v"
proof (induction v)
  case (PFloat s) then show ?case by (simp add: typed_singleton ddb_types_def number_text_def)
next
  case (PList xs)
  consider (strings) "list_all is_str xs" | (numbers) "\<not> list_all is_str xs" "list_all is_number xs"
    | (mixed) "\<not> list_all is_str xs" "\<not> list_all is_number xs" by blast
  then show ?case
  proof cases
    case strings
    then have "map (\<lambda>x. PStr (py_str x)) xs = xs"
      by (induction xs) (auto simp: is_str_def split: pyval.splits)
    then have "json_to_native flt (native_to_json (PList xs)) = Some (PList (map (\<lambda>x. PStr (py_str x)) xs))"
      using strings by (simp add: typed_singleton ddb_types_def)
    then show ?thesis using \<open>map (\<lambda>x. PStr (py_str x)) xs = xs\<close> by simp
  next
    case numbers
    have "number_text flt (py_str x) = x" if "x \<in> set xs" for x
    proof -
      have "is_number x" "floats_kept flt x" using that numbers(2) PList.prems by (simp_all add: list_all_iff)
      then show ?thesis by (cases x) (simp_all add: is_number_def py_str_def number_text_def int_text_int_str)
    qed
    then have "map (\<lambda>x. number_text flt (py_str (PStr (py_str x)))) xs = xs" by (simp add: map_idI)
    then show ?thesis using numbers by (simp add: typed_singleton ddb_types_def comp_def)
  next
    case mixed
    have "\<forall>x\<in>set xs. (json_to_native flt \<circ> native_to_json) x = Some (id x)" using PList by simp
    then have "those (map (json_to_native flt \<circ> native_to_json) xs) = Some (map id xs)" by (rule those_Some_map)
    then show ?thesis using mixed by (simp add: typed_singleton ddb_types_def)
  qed
next
  case (PDict d)
  let ?e = "map (\<lambda>(k, v). (k, native_to_json v)) d"
  have "\<forall>(k, v)\<in>set d. json_to_native flt (native_to_json v) = Some (id v)"
    using PDict by fastforce
  then have "those (map (\<lambda>(k, v). map_option (Pair k) (json_to_native flt (native_to_json v))) d) = Some (map (\<lambda>(k, v). (k, id v)) d)"
    by (rule those_pairs)
  then have "those (map (\<lambda>(k, v). map_option (Pair k) (json_to_native flt v)) ?e) = Some d"
    by (simp add: comp_def split_def)
  then show ?case by (cases d) (simp_all add: typed_singleton ddb_types_def)
qed (simp_all add: typed_singleton ddb_types_def)

text \<open>An item that was stored and is sent to a client is read back as it is.\<close>

lemma item_json_item:
  "floats_kept flt (PDict item) \<Longrightarrow> item_to_native_item flt (PDict (native_item_to_json item)) = Inr item"
proof -
  assume f: "floats_kept flt (PDict item)"
  have "\<forall>(k, v)\<in>set item. json_to_native flt (native_to_json v) = Some (id v)"
    using f native_json_native by fastforce
  then have "those (map (\<lambda>(k, v). map_option (Pair k) (json_to_native flt (native_to_json v))) item) = Some (map (\<lambda>(k, v). (k, id v)) item)"
    by (rule those_pairs)
  then show ?thesis by (simp add: item_to_native_item_def native_item_to_json_def comp_def split_def)
qed

text \<open>The other way round two types are lost: a list of texts is answered as a set of texts, and binary data as text.\<close>

lemma list_answered_as_set:
  "json_to_native flt (PDict [(''L'', PList [PDict [(''S'', PStr a)], PDict [(''S'', PStr a)]])]) = Some (PList [PStr a, PStr a])
   \<and> native_to_json (PList [PStr a, PStr a]) = PDict [(''SS'', PList [PStr a, PStr a])]"
  by (simp add: typed_singleton ddb_types_def is_str_def)

lemma binary_answered_as_text:
  "json_to_native flt (PDict [(''B'', PStr b)]) = Some (PStr b) \<and> native_to_json (PStr b) = PDict [(''S'', PStr b)]"
  by (simp add: typed_singleton ddb_types_def)

end
