(* ===== verification/Dynamo.thy ===== *)
theory Dynamo
imports Ddb_Values Py_Compare Py_Base64
begin

text \<open>DynamoDB tables (\<open>routes/aws_dynamodb.py\<close> and the JSON-RPC handler of \<open>providers/aws_services.py\<close> that answers
  when no external emulator is there): tables and their keys, items, the stream of changes, updates, queries and scans,
  batches, tags and shard iterators.  The clock, random identifiers and \<open>float()\<close> are arguments.\<close>

section \<open>Tables\<close>

record ddb_item =
  i_item :: "pyval dict"
  i_created :: string
  i_updated :: string
  i_size :: int

record ddb_stream =
  s_enabled :: bool
  s_view :: pyval
  s_arn :: pyval
  s_label :: string

record ddb_table =
  t_name :: string
  t_pk :: string
  t_pk_type :: string
  t_sk :: string
  t_sk_type :: string
  t_billing :: string
  t_throughput :: "int \<times> int"
  t_tags :: pyval
  t_indexes :: "pyval dict list"
  t_attributes :: "(string \<times> string) list"
  t_stream :: ddb_stream
  t_records :: "pyval list"
  t_items :: "ddb_item dict"
  t_count :: int
  t_size :: int
  t_created :: string
  t_modified :: string

type_synonym ddb_tables = "ddb_table dict"

definition table_arn :: "string \<Rightarrow> string \<Rightarrow> string" where
  "table_arn account name = ''arn:aws:dynamodb:us-east-1:'' @ account @ '':table/'' @ name"

definition invalid :: "string \<Rightarrow> py_exc" where
  "invalid what = HTTPException 400 (PStr (''ValidationException: '' @ what))"

text \<open>The key of an item: its partition value, and its sort value when the table has a sort key.\<close>

definition item_key_tuple :: "ddb_table \<Rightarrow> pyval dict \<Rightarrow> (pyval \<times> pyval) result" where
  "item_key_tuple t item =
     (if \<not> dhas item (t_pk t) then Inl (invalid (''Missing partition key '' @ CHR 0x27 # t_pk t @ [CHR 0x27, CHR ''.'']))
      else let sk = (if t_sk t = [] then PNone else pget item (t_sk t))
           in if t_sk t \<noteq> [] \<and> sk = PNone
              then Inl (invalid (''Missing sort key '' @ CHR 0x27 # t_sk t @ [CHR 0x27, CHR ''.'']))
              else Inr (pget item (t_pk t), sk))"

definition key_text :: "pyval \<times> pyval \<Rightarrow> string" where
  "key_text k = dumps_compact (PList [fst k, snd k])"

definition item_key_string :: "ddb_table \<Rightarrow> pyval dict \<Rightarrow> string result" where
  "item_key_string t item = rbind (item_key_tuple t item) (\<lambda>k. Inr (key_text k))"

definition item_size :: "pyval dict \<Rightarrow> int" where
  "item_size item = int (length (dumps_sorted (PDict item)))"

definition refresh_metrics :: "string \<Rightarrow> ddb_table \<Rightarrow> ddb_table" where
  "refresh_metrics now t =
     t\<lparr>t_count := int (length (t_items t)),
       t_size := sum_list (map (\<lambda>(_, r). item_size (i_item r)) (t_items t)),
       t_modified := now\<rparr>"

section \<open>The stream of changes\<close>

definition zfill :: "nat \<Rightarrow> string \<Rightarrow> string" where
  "zfill n s = replicate (n - length s) CHR ''0'' @ s"

definition stream_keys :: "ddb_table \<Rightarrow> pyval dict \<Rightarrow> pyval dict" where
  "stream_keys t source =
     (let ks = (if dhas source (t_pk t) then [(t_pk t, native_to_json (pget source (t_pk t)))] else [])
      in if t_sk t \<noteq> [] \<and> dhas source (t_sk t) then dset (t_sk t) (native_to_json (pget source (t_sk t))) ks else ks)"

definition image_field :: "string list \<Rightarrow> pyval \<Rightarrow> string \<Rightarrow> pyval dict option \<Rightarrow> pyval dict" where
  "image_field kinds kind name pic =
     (case pic of
        Some item \<Rightarrow> (if list_ex (\<lambda>w. kind = PStr w) kinds then [(name, PDict (native_item_to_json item))] else [])
      | None \<Rightarrow> [])"

text \<open>The record numbers itself by the length of the kept records, of which there are at most 1000.\<close>

definition sequence_number :: "ddb_table \<Rightarrow> string" where
  "sequence_number t = zfill 21 (nat_str (length (t_records t) + 1))"

definition stream_record :: "string \<Rightarrow> string \<Rightarrow> ddb_table \<Rightarrow> string \<Rightarrow> pyval dict option \<Rightarrow> pyval dict option \<Rightarrow> pyval" where
  "stream_record now uuid t event old new =
     (let source = (case new of Some n \<Rightarrow> (if n \<noteq> [] then n else case old of Some d \<Rightarrow> d | None \<Rightarrow> [])
                              | None \<Rightarrow> (case old of Some d \<Rightarrow> d | None \<Rightarrow> []));
          view = s_view (t_stream t)
      in PDict [(''eventID'', PStr (take 32 uuid)), (''eventName'', PStr event), (''eventVersion'', PStr ''1.1''),
           (''eventSource'', PStr ''aws:dynamodb''), (''awsRegion'', PStr ''us-east-1''),
           (''approximateCreationDateTime'', PStr now),
           (''dynamodb'', PDict ([(''ApproximateCreationDateTime'', PStr now), (''SequenceNumber'', PStr (sequence_number t)),
               (''SizeBytes'', PInt 0), (''StreamViewType'', view), (''Keys'', PDict (stream_keys t source))]
             @ image_field [''NEW_AND_OLD_IMAGES'', ''NEW_IMAGE''] view ''NewImage'' new
             @ image_field [''NEW_AND_OLD_IMAGES'', ''OLD_IMAGE''] view ''OldImage'' old))])"

definition last_n :: "nat \<Rightarrow> 'a list \<Rightarrow> 'a list" where
  "last_n n xs = drop (length xs - n) xs"

definition emit_stream ::
  "string \<Rightarrow> string \<Rightarrow> string \<Rightarrow> pyval dict option \<Rightarrow> pyval dict option \<Rightarrow> ddb_table \<Rightarrow> ddb_table" where
  "emit_stream now uuid event old new t =
     (if \<not> s_enabled (t_stream t) then t
      else t\<lparr>t_records := last_n 1000 (t_records t @ [stream_record now uuid t event old new])\<rparr>)"

section \<open>Items\<close>

text \<open>\<open>payload.get(a) or payload.get(b)\<close>.\<close>

definition either_of :: "pyval dict \<Rightarrow> string \<Rightarrow> string \<Rightarrow> pyval" where
  "either_of p a b = py_or (pget p a) (pget p b)"

definition native_of :: "(string \<Rightarrow> string option) \<Rightarrow> pyval dict \<Rightarrow> string \<Rightarrow> string \<Rightarrow> pyval dict result" where
  "native_of flt payload a b = item_to_native_item flt (py_or (either_of payload a b) (PDict []))"

text \<open>The wire handlers of \<open>providers/aws_services.py\<close> keep a copy of the three writers that tells no stream:
  what a write tells is the argument \<open>tell\<close>, given the event, the old and the new image.\<close>

type_synonym telling = "string \<Rightarrow> pyval dict option \<Rightarrow> pyval dict option \<Rightarrow> ddb_table \<Rightarrow> ddb_table"

definition untold :: telling where
  "untold event old new t = t"

definition kept_created :: "string \<Rightarrow> ddb_item option \<Rightarrow> string" where
  "kept_created now old = (case old of Some q \<Rightarrow> i_created q | None \<Rightarrow> now)"

definition item_record :: "string \<Rightarrow> ddb_item option \<Rightarrow> pyval dict \<Rightarrow> ddb_item" where
  "item_record now old item =
     \<lparr>i_item = item, i_created = kept_created now old, i_updated = now, i_size = item_size item\<rparr>"

definition put_item ::
  "(string \<Rightarrow> string option) \<Rightarrow> telling \<Rightarrow> string \<Rightarrow> pyval dict \<Rightarrow> ddb_table \<Rightarrow> (ddb_item option \<times> ddb_table) result" where
  "put_item flt tell now payload t =
     rbind (native_of flt payload ''item'' ''Item'') (\<lambda>item.
     rbind (item_key_string t item) (\<lambda>key.
       let old = map_of (t_items t) key;
           event = (if old = None then ''INSERT'' else ''MODIFY'');
           t1 = t\<lparr>t_items := dset key (item_record now old item) (t_items t)\<rparr>
       in Inr (old, refresh_metrics now (tell event (map_option i_item old) (Some item) t1))))"

definition get_item :: "(string \<Rightarrow> string option) \<Rightarrow> pyval dict \<Rightarrow> ddb_table \<Rightarrow> ddb_item option result" where
  "get_item flt payload t =
     rbind (native_of flt payload ''key'' ''Key'') (\<lambda>k.
     rbind (item_key_string t k) (\<lambda>key. Inr (map_of (t_items t) key)))"

definition delete_item ::
  "(string \<Rightarrow> string option) \<Rightarrow> telling \<Rightarrow> string \<Rightarrow> pyval dict \<Rightarrow> ddb_table \<Rightarrow> (ddb_item option \<times> ddb_table) result" where
  "delete_item flt tell now payload t =
     rbind (native_of flt payload ''key'' ''Key'') (\<lambda>k.
     rbind (item_key_string t k) (\<lambda>key.
       let removed = map_of (t_items t) key; t1 = t\<lparr>t_items := dpop key (t_items t)\<rparr>
       in Inr (removed, refresh_metrics now
            (case removed of None \<Rightarrow> t1 | Some r \<Rightarrow> tell ''REMOVE'' (Some (i_item r)) None t1))))"

subsection \<open>Updates\<close>

text \<open>\<open>AttributeUpdates\<close>: every action other than DELETE stores the value.\<close>

definition attribute_update ::
  "(string \<Rightarrow> string option) \<Rightarrow> string \<Rightarrow> pyval \<Rightarrow> pyval dict \<Rightarrow> pyval dict result" where
  "attribute_update flt name spec current =
     (case spec of
        PDict s \<Rightarrow>
          (if upper (py_str (dget s ''Action'' (PStr ''PUT''))) = ''DELETE'' then Inr (dpop name current)
           else if pget s ''Value'' = PNone then Inr current
           else case json_to_native flt (pget s ''Value'') of
                  Some v \<Rightarrow> Inr (dset name v current) | None \<Rightarrow> Inl (TypeError ''object is not iterable''))
      | _ \<Rightarrow> Inr current)"

fun attribute_updates :: "(string \<Rightarrow> string option) \<Rightarrow> pyval dict \<Rightarrow> pyval dict \<Rightarrow> pyval dict result" where
  "attribute_updates flt [] current = Inr current"
| "attribute_updates flt ((name, spec) # us) current =
     rbind (attribute_update flt name spec current) (attribute_updates flt us)"

text \<open>The clauses of a SET expression: a right side that is no placeholder is stored as its text.\<close>

definition set_clause :: "(string \<Rightarrow> string option) \<Rightarrow> pyval \<Rightarrow> string \<Rightarrow> pyval dict \<Rightarrow> pyval dict result" where
  "set_clause flt vals clause current =
     (case split_once ''='' clause of
        None \<Rightarrow> Inr current
      | Some (left, right) \<Rightarrow>
          rbind (as_dict vals) (\<lambda>vs.
            case json_to_native flt (dget vs (strip right) (PStr (strip right))) of
              Some v \<Rightarrow> Inr (dset (strip left) v current)
            | None \<Rightarrow> Inl (TypeError ''object is not iterable'')))"

fun set_clauses :: "(string \<Rightarrow> string option) \<Rightarrow> pyval \<Rightarrow> string list \<Rightarrow> pyval dict \<Rightarrow> pyval dict result" where
  "set_clauses flt vals [] current = Inr current"
| "set_clauses flt vals (c # cs) current = rbind (set_clause flt vals c current) (set_clauses flt vals cs)"

definition apply_update :: "(string \<Rightarrow> string option) \<Rightarrow> pyval dict \<Rightarrow> pyval dict \<Rightarrow> pyval dict result" where
  "apply_update flt payload current =
     (let updates = either_of payload ''attribute_updates'' ''AttributeUpdates'';
          expr = strip (py_str (py_or (either_of payload ''update_expression'' ''UpdateExpression'') (PStr [])));
          vals = py_or (either_of payload ''expression_attribute_values'' ''ExpressionAttributeValues'') (PDict [])
      in if truthy updates then rbind (as_dict updates) (\<lambda>us. attribute_updates flt us current)
         else if startswith (upper expr) ''SET '' then set_clauses flt vals (split_char CHR '','' (drop 4 expr)) current
         else Inr current)"

text \<open>An absent item, and one without attributes, starts from the key; the record stays under the key it was asked for.\<close>

definition update_item ::
  "(string \<Rightarrow> string option) \<Rightarrow> telling \<Rightarrow> string \<Rightarrow> pyval dict \<Rightarrow> ddb_table \<Rightarrow> (ddb_item \<times> ddb_table) result" where
  "update_item flt tell now payload t =
     rbind (native_of flt payload ''key'' ''Key'') (\<lambda>k.
     rbind (item_key_string t k) (\<lambda>key.
       let old = map_of (t_items t) key;
           base = (case old of Some r \<Rightarrow> (if i_item r = [] then k else i_item r) | None \<Rightarrow> k);
           modified = (case old of Some q \<Rightarrow> i_item q \<noteq> [] | None \<Rightarrow> False)
       in rbind (apply_update flt payload base) (\<lambda>item.
            let r = item_record now old item
            in Inr (r, refresh_metrics now
                 (tell (if modified then ''MODIFY'' else ''INSERT'') (map_option i_item old) (Some item)
                    (t\<lparr>t_items := dset key r (t_items t)\<rparr>))))))"

section \<open>Keys\<close>

text \<open>What the kept records promise: their attributes are a dictionary that JSON can print, each lies under the key
  text of its own attributes, and its size is that of its text.\<close>

definition stored_ok :: "ddb_table \<Rightarrow> string \<times> ddb_item \<Rightarrow> bool" where
  "stored_ok t = (\<lambda>(key, r). item_key_string t (i_item r) = Inr key \<and> i_size r = item_size (i_item r))"

definition table_ok :: "ddb_table \<Rightarrow> bool" where
  "table_ok t \<longleftrightarrow> wf_dict (t_items t) \<and> list_all (stored_ok t) (t_items t) \<and> t_count t = int (length (t_items t))"

text \<open>A table as a map from keys to attributes.\<close>

definition items_map :: "ddb_table \<Rightarrow> pyval \<times> pyval \<Rightarrow> pyval dict option" where
  "items_map t k = map_option i_item (map_of (t_items t) (key_text k))"

definition key_ok :: "pyval \<times> pyval \<Rightarrow> bool" where
  "key_ok k \<longleftrightarrow> json_ok (fst k) \<and> json_ok (snd k)"

lemma key_text_inj:
  assumes "key_ok k" and "key_ok k'" and "key_text k = key_text k'"
  shows "k = k'"
proof -
  have "PList [fst k, snd k] = PList [fst k', snd k']"
    by (rule inj_dumps) (use assms in \<open>simp_all add: key_ok_def key_text_def\<close>)
  then show ?thesis by (simp add: prod_eq_iff)
qed

lemma item_key_fields:
  "t_pk t' = t_pk t \<Longrightarrow> t_sk t' = t_sk t \<Longrightarrow> item_key_tuple t' = item_key_tuple t"
  by (simp add: item_key_tuple_def fun_eq_iff Let_def)

definition tells_only :: "telling \<Rightarrow> bool" where
  "tells_only tell \<longleftrightarrow> (\<forall>event old new t. t_items (tell event old new t) = t_items t
     \<and> t_pk (tell event old new t) = t_pk t \<and> t_sk (tell event old new t) = t_sk t)"

lemma tells_untold: "tells_only untold"
  by (simp add: tells_only_def untold_def)

lemma tells_stream: "tells_only (emit_stream now uuid)"
  by (simp add: tells_only_def emit_stream_def)

lemma refresh_keeps [simp]:
  "t_items (refresh_metrics now t) = t_items t" "t_pk (refresh_metrics now t) = t_pk t" "t_sk (refresh_metrics now t) = t_sk t"
  "t_count (refresh_metrics now t) = int (length (t_items t))"
  by (simp_all add: refresh_metrics_def)

section \<open>The writers refine a map\<close>

lemma tells_fields: "tells_only tell \<Longrightarrow> t_items (tell e old new t) = t_items t \<and> t_pk (tell e old new t) = t_pk t \<and> t_sk (tell e old new t) = t_sk t"
  by (simp add: tells_only_def)

lemma put_item_result:
  assumes "native_of flt payload ''item'' ''Item'' = Inr item" and "item_key_tuple t item = Inr k" and "tells_only tell"
  shows "\<exists>t'. put_item flt tell now payload t = Inr (map_of (t_items t) (key_text k), t')
    \<and> t_items t' = dset (key_text k) (item_record now (map_of (t_items t) (key_text k)) item) (t_items t)
    \<and> t_pk t' = t_pk t \<and> t_sk t' = t_sk t \<and> t_count t' = int (length (t_items t'))"
  using assms by (simp add: put_item_def item_key_string_def tells_fields Let_def)

lemma delete_item_result:
  assumes "native_of flt payload ''key'' ''Key'' = Inr kd" and "item_key_tuple t kd = Inr k" and "tells_only tell"
  shows "\<exists>t'. delete_item flt tell now payload t = Inr (map_of (t_items t) (key_text k), t')
    \<and> t_items t' = dpop (key_text k) (t_items t)
    \<and> t_pk t' = t_pk t \<and> t_sk t' = t_sk t \<and> t_count t' = int (length (t_items t'))"
  using assms by (cases "map_of (t_items t) (key_text k)") (simp_all add: delete_item_def item_key_string_def tells_fields Let_def)

lemma update_item_result:
  assumes "native_of flt payload ''key'' ''Key'' = Inr kd" and "item_key_tuple t kd = Inr k" and "tells_only tell"
    and "apply_update flt payload (case items_map t k of Some item \<Rightarrow> (if item = [] then kd else item) | None \<Rightarrow> kd) = Inr item"
  shows "\<exists>r t'. update_item flt tell now payload t = Inr (r, t') \<and> i_item r = item
    \<and> t_items t' = dset (key_text k) (item_record now (map_of (t_items t) (key_text k)) item) (t_items t)
    \<and> t_pk t' = t_pk t \<and> t_sk t' = t_sk t \<and> t_count t' = int (length (t_items t'))"
  using assms by (cases "map_of (t_items t) (key_text k)")
    (simp_all add: update_item_def item_key_string_def items_map_def item_record_def tells_fields Let_def)

lemma update_item_error:
  assumes "native_of flt payload ''key'' ''Key'' = Inr kd" and "item_key_tuple t kd = Inr k"
    and "apply_update flt payload (case items_map t k of Some item \<Rightarrow> (if item = [] then kd else item) | None \<Rightarrow> kd) = Inl e"
  shows "update_item flt tell now payload t = Inl e"
  using assms by (cases "map_of (t_items t) (key_text k)")
    (simp_all add: update_item_def item_key_string_def items_map_def Let_def)

lemma items_map_dset:
  assumes "t_items t' = dset (key_text k) r (t_items t)" and "key_ok k" and "key_ok k'"
  shows "items_map t' k' = (if k' = k then Some (i_item r) else items_map t k')"
  using key_text_inj [OF assms(3,2)] assms(1) by (auto simp: items_map_def dict_simps)

lemma items_map_dpop:
  assumes "t_items t' = dpop (key_text k) (t_items t)" and "key_ok k" and "key_ok k'"
  shows "items_map t' k' = (if k' = k then None else items_map t k')"
  using key_text_inj [OF assms(3,2)] assms(1) by (auto simp: items_map_def dict_simps)

definition map_upd :: "(pyval \<times> pyval \<Rightarrow> pyval dict option) \<Rightarrow> (pyval \<times> pyval) \<Rightarrow> pyval dict option \<Rightarrow> (pyval \<times> pyval \<Rightarrow> pyval dict option) \<Rightarrow> bool" where
  "map_upd m k v m' \<longleftrightarrow> (\<forall>k'. key_ok k' \<longrightarrow> m' k' = (m(k := v)) k')"

text \<open>C15. A table refines a map from keys to attributes: putting sets the point of the item's own key, an update sets the
  point it names to the changed attributes (starting from the key when nothing is there), deleting clears the point,
  reading answers it; every other key that JSON can print keeps its attributes, with streams or without.\<close>

theorem ddb_refines_map:
  assumes "tells_only tell" and "key_ok k"
    and "native_of flt payload ''item'' ''Item'' = Inr item" and "item_key_tuple t item = Inr k"
    and "native_of flt payload ''key'' ''Key'' = Inr kd" and "item_key_tuple t kd = Inr k"
    and "apply_update flt payload (case items_map t k of Some i \<Rightarrow> (if i = [] then kd else i) | None \<Rightarrow> kd) = Inr changed"
  shows "(\<exists>old t'. put_item flt tell now payload t = Inr (old, t') \<and> map_option i_item old = items_map t k
        \<and> map_upd (items_map t) k (Some item) (items_map t'))
    \<and> (\<exists>r t'. update_item flt tell now payload t = Inr (r, t') \<and> i_item r = changed
        \<and> map_upd (items_map t) k (Some changed) (items_map t'))
    \<and> (\<exists>old t'. delete_item flt tell now payload t = Inr (old, t') \<and> map_option i_item old = items_map t k
        \<and> map_upd (items_map t) k None (items_map t'))
    \<and> (\<exists>r. get_item flt payload t = Inr r \<and> map_option i_item r = items_map t k)"
proof -
  have "\<exists>r. get_item flt payload t = Inr r \<and> map_option i_item r = items_map t k"
    using assms by (simp add: get_item_def item_key_string_def items_map_def)
  moreover have "map_upd (items_map t) k (Some (i_item r)) (items_map t')"
    if "t_items t' = dset (key_text k) r (t_items t)" for t' r
    using items_map_dset [OF that assms(2)] by (simp add: map_upd_def)
  moreover have "map_upd (items_map t) k None (items_map t')" if "t_items t' = dpop (key_text k) (t_items t)" for t'
    using items_map_dpop [OF that assms(2)] by (simp add: map_upd_def)
  ultimately show ?thesis
    using put_item_result [OF assms(3,4,1), of now] update_item_result [OF assms(5,6,1,7), of now]
      delete_item_result [OF assms(5,6,1), of now]
    by (fastforce simp: items_map_def item_record_def)
qed

section \<open>What the writers keep\<close>

lemma stored_ok_cong:
  assumes "t_pk t' = t_pk t" and "t_sk t' = t_sk t"
  shows "stored_ok t' = stored_ok t"
  by (simp only: stored_ok_def item_key_string_def item_key_fields [OF assms])

lemma set_dset: "wf_dict d \<Longrightarrow> x \<in> set (dset k v d) \<Longrightarrow> x = (k, v) \<or> x \<in> set d"
  by (cases x) (metis dict_simps(2) fun_upd_apply in_dict_map_of map_of_in_dict option.inject wf_dset)

lemma list_all_dset: "wf_dict d \<Longrightarrow> list_all P d \<Longrightarrow> P (k, v) \<Longrightarrow> list_all P (dset k v d)"
  using set_dset by (fastforce simp: list_all_iff)

lemma list_all_dpop: "list_all P d \<Longrightarrow> list_all P (dpop k d)"
  by (simp add: list_all_iff dict_simps)

lemma table_ok_dset:
  assumes "table_ok t" and "t_items t' = dset (key_text k) (item_record now old item) (t_items t)"
    and "t_pk t' = t_pk t" and "t_sk t' = t_sk t" and "t_count t' = int (length (t_items t'))" and "item_key_tuple t item = Inr k"
  shows "table_ok t'"
  using assms stored_ok_cong [OF assms(3,4)]
  by (simp add: table_ok_def wf_dset list_all_dset)
    (rule list_all_dset; simp add: stored_ok_def item_record_def item_key_string_def)

lemma table_ok_dpop:
  assumes "table_ok t" and "t_items t' = dpop k (t_items t)"
    and "t_pk t' = t_pk t" and "t_sk t' = t_sk t" and "t_count t' = int (length (t_items t'))"
  shows "table_ok t'"
  using assms stored_ok_cong [OF assms(3,4)] by (simp add: table_ok_def wf_dpop list_all_dpop)

text \<open>The attributes an update names; the others keep their values.\<close>

definition clause_name :: "string \<Rightarrow> string list" where
  "clause_name clause = (case split_once ''='' clause of None \<Rightarrow> [] | Some (left, _) \<Rightarrow> [strip left])"

definition updated_names :: "pyval dict \<Rightarrow> string list" where
  "updated_names payload =
     (let updates = either_of payload ''attribute_updates'' ''AttributeUpdates'';
          expr = strip (py_str (py_or (either_of payload ''update_expression'' ''UpdateExpression'') (PStr [])))
      in if truthy updates then map fst (dict_or_empty updates)
         else if startswith (upper expr) ''SET '' then concat (map clause_name (split_char CHR '','' (drop 4 expr)))
         else [])"

lemma attribute_update_other:
  "attribute_update flt name spec current = Inr item \<Longrightarrow> n \<noteq> name \<Longrightarrow> map_of item n = map_of current n"
  by (auto simp: attribute_update_def dict_simps split: pyval.splits if_splits option.splits)

lemma attribute_updates_other:
  "attribute_updates flt us current = Inr item \<Longrightarrow> n \<notin> fst ` set us \<Longrightarrow> map_of item n = map_of current n"
proof (induction us arbitrary: current)
  case (Cons u us)
  obtain name spec where u: "u = (name, spec)" by (cases u)
  from Cons.prems obtain c where c: "attribute_update flt name spec current = Inr c" "attribute_updates flt us c = Inr item"
    by (auto simp: u rbind_Inr)
  have "map_of item n = map_of c n" using Cons.IH [OF c(2)] Cons.prems(2) by simp
  also have "\<dots> = map_of current n" using attribute_update_other [OF c(1)] Cons.prems(2) u by simp
  finally show ?case .
qed simp

lemma set_clause_other:
  "set_clause flt vals clause current = Inr item \<Longrightarrow> n \<notin> set (clause_name clause) \<Longrightarrow> map_of item n = map_of current n"
  by (auto simp: set_clause_def clause_name_def rbind_Inr dict_simps split: option.splits prod.splits)

lemma set_clauses_other:
  "set_clauses flt vals cs current = Inr item \<Longrightarrow> n \<notin> set (concat (map clause_name cs)) \<Longrightarrow> map_of item n = map_of current n"
proof (induction cs arbitrary: current)
  case (Cons c cs)
  from Cons.prems obtain m where m: "set_clause flt vals c current = Inr m" "set_clauses flt vals cs m = Inr item"
    by (auto simp: rbind_Inr)
  have "map_of item n = map_of m n" using Cons.IH [OF m(2)] Cons.prems(2) by simp
  also have "\<dots> = map_of current n" using set_clause_other [OF m(1)] Cons.prems(2) by simp
  finally show ?case .
qed simp

lemma dict_or_empty_as_dict: "as_dict v = Inr d \<Longrightarrow> dict_or_empty v = d"
  by (cases v) (simp_all add: as_dict_def)

lemma apply_update_other:
  assumes "apply_update flt payload current = Inr item" and "n \<notin> set (updated_names payload)"
  shows "map_of item n = map_of current n"
proof (cases "truthy (either_of payload ''attribute_updates'' ''AttributeUpdates'')")
  case True
  with assms(1) obtain us where us: "as_dict (either_of payload ''attribute_updates'' ''AttributeUpdates'') = Inr us"
    "attribute_updates flt us current = Inr item"
    by (auto simp: apply_update_def rbind_Inr Let_def)
  with True assms(2) show ?thesis
    by (intro attribute_updates_other [OF us(2)]) (simp add: updated_names_def dict_or_empty_as_dict [OF us(1)] Let_def)
next
  case False
  then show ?thesis using assms set_clauses_other
    by (auto simp: apply_update_def updated_names_def Let_def split: if_splits)
qed

lemma item_key_string_same:
  assumes "map_of item (t_pk t) = map_of base (t_pk t)" and "map_of item (t_sk t) = map_of base (t_sk t)"
  shows "item_key_string t item = item_key_string t base"
proof -
  have "dhas item (t_pk t) = dhas base (t_pk t)" using assms(1) by (simp add: dhas_def)
  moreover have "pget item (t_pk t) = pget base (t_pk t)" "pget item (t_sk t) = pget base (t_sk t)"
    using assms by (simp_all add: pget_def dget_def)
  ultimately show ?thesis by (simp add: item_key_string_def item_key_tuple_def Let_def)
qed

lemma put_keeps_table:
  assumes "table_ok t" and "tells_only tell" and "put_item flt tell now payload t = Inr (old, t1)"
  shows "table_ok t1"
proof -
  note \<open>put_item flt tell now payload t = Inr (old, t1)\<close>
  then obtain item k where "native_of flt payload ''item'' ''Item'' = Inr item" "item_key_tuple t item = Inr k"
    by (auto simp: put_item_def item_key_string_def rbind_Inr)
  with put_item_result [OF this assms(2), of now] \<open>put_item flt tell now payload t = Inr (old, t1)\<close>
  show "table_ok t1" using table_ok_dset [OF assms(1)] by fastforce
qed

lemma delete_keeps_table:
  assumes "table_ok t" and "tells_only tell" and "delete_item flt tell now payload t = Inr (old, t2)"
  shows "table_ok t2"
proof -
  note \<open>delete_item flt tell now payload t = Inr (old, t2)\<close>
  then obtain kd k where "native_of flt payload ''key'' ''Key'' = Inr kd" "item_key_tuple t kd = Inr k"
    by (auto simp: delete_item_def item_key_string_def rbind_Inr)
  with delete_item_result [OF this assms(2), of now] \<open>delete_item flt tell now payload t = Inr (old, t2)\<close>
  show "table_ok t2" using table_ok_dpop [OF assms(1)] by fastforce
qed

lemma update_keeps_table:
  assumes "table_ok t" and "tells_only tell" and u: "update_item flt tell now payload t = Inr (r, t3) \<and> t_pk t \<notin> set (updated_names payload)
         \<and> t_sk t \<notin> set (updated_names payload)"
  shows "table_ok t3"
proof -
  from u obtain kd k where k: "native_of flt payload ''key'' ''Key'' = Inr kd" "item_key_tuple t kd = Inr k"
    by (auto simp: update_item_def item_key_string_def rbind_Inr)
  define base where "base = (case items_map t k of Some i \<Rightarrow> (if i = [] then kd else i) | None \<Rightarrow> kd)"
  obtain item where item: "apply_update flt payload base = Inr item"
  proof (cases "apply_update flt payload base")
    case (Inl e)
    with u update_item_error [OF k Inl [unfolded base_def]] show thesis by simp
  qed blast
  have "item_key_string t base = Inr (key_text k)"
  proof (cases "map_of (t_items t) (key_text k)")
    case None then show ?thesis using k by (simp add: base_def items_map_def item_key_string_def)
  next
    case (Some q)
    then have "stored_ok t (key_text k, q)"
      using assms(1) by (auto simp: table_ok_def list_all_iff dest: map_of_in_dict)
    then show ?thesis using Some k by (simp add: base_def items_map_def stored_ok_def) (simp add: item_key_string_def)
  qed
  moreover have "item_key_string t item = item_key_string t base"
    by (rule item_key_string_same; rule apply_update_other [OF item]) (use u in simp_all)
  ultimately have "item_key_string t item = Inr (key_text k)" by (rule trans [rotated])
  then obtain k' where k': "item_key_tuple t item = Inr k'" "key_text k' = key_text k"
    by (cases "item_key_tuple t item") (simp_all add: item_key_string_def)
  obtain t' where "update_item flt tell now payload t = Inr (r, t')" "t_pk t' = t_pk t" "t_sk t' = t_sk t"
    "t_items t' = dset (key_text k') (item_record now (map_of (t_items t) (key_text k)) item) (t_items t)"
    "t_count t' = int (length (t_items t'))"
    using update_item_result [OF k assms(2) item [unfolded base_def], of now] u k' by auto
  with u k' show ?thesis using table_ok_dset [OF assms(1)] by fastforce
qed

text \<open>Writers keep a table in order: every record lies under the key of its own attributes, with its own size, no key
  twice, and the item count is right.  An update keeps this when it names neither key attribute.\<close>

theorem ddb_writers_keep_table:
  assumes "table_ok t" and "tells_only tell"
  shows "(put_item flt tell now payload t = Inr (old, t1) \<longrightarrow> table_ok t1)
    \<and> (delete_item flt tell now payload t = Inr (old, t2) \<longrightarrow> table_ok t2)
    \<and> (update_item flt tell now payload t = Inr (r, t3) \<and> t_pk t \<notin> set (updated_names payload)
         \<and> t_sk t \<notin> set (updated_names payload) \<longrightarrow> table_ok t3)"
  using put_keeps_table [OF assms] delete_keeps_table [OF assms] update_keeps_table [OF assms] by blast

end
