(* ===== verification/Ddb_Query.thy ===== *)
theory Ddb_Query
imports Dynamo
begin

text \<open>Queries and scans of a DynamoDB table (\<open>_ddb_query_filter\<close>, \<open>_ddb_scan_filter\<close> of \<open>routes/aws_dynamodb.py\<close> and
  \<open>providers/aws_services.py\<close>): the order of the records, the regular expressions that read a key condition, the filter and
  its limit.  Letters are folded and classified as in ASCII.\<close>

section \<open>The order of records\<close>

definition sort_text :: "string \<Rightarrow> string \<Rightarrow> pyval dict \<Rightarrow> string \<times> string" where
  "sort_text pk sk item =
     (py_str (dget item pk (PStr [])), if sk = [] then [] else py_str (dget item sk (PStr [])))"

definition pair_lt :: "string \<times> string \<Rightarrow> string \<times> string \<Rightarrow> bool" where
  "pair_lt a b \<longleftrightarrow> fst a < fst b \<or> fst a = fst b \<and> snd a < snd b"

definition sorted_records :: "ddb_table \<Rightarrow> ddb_item list" where
  "sorted_records t =
     stable_sort (\<lambda>r q. pair_lt (sort_text (t_pk t) (t_sk t) (i_item r)) (sort_text (t_pk t) (t_sk t) (i_item q)))
       (map snd (t_items t))"

section \<open>Key conditions\<close>

text \<open>A pattern is a list of steps: literal text without regard to case, \<open>\\s*\<close>, \<open>\\s+\<close>, \<open>\\b\<close>, and the captured
  \<open>:\\w+\<close>, which never gives back a letter because every step after it starts outside \<open>\\w\<close>.\<close>

datatype rx = RLit string | RSpaces | RSpace1 | RBound | RPlace

definition is_word :: "char \<Rightarrow> bool" where
  "is_word c = (let n = (of_char c :: nat)
     in (48 \<le> n \<and> n \<le> 57) \<or> (65 \<le> n \<and> n \<le> 90) \<or> (97 \<le> n \<and> n \<le> 122) \<or> n = 95)"

definition word_at :: "char option \<Rightarrow> bool" where
  "word_at c = (case c of Some d \<Rightarrow> is_word d | None \<Rightarrow> False)"

definition head_char :: "string \<Rightarrow> char option" where
  "head_char s = (case s of c # _ \<Rightarrow> Some c | [] \<Rightarrow> None)"

definition last_char :: "char option \<Rightarrow> string \<Rightarrow> char option" where
  "last_char prev s = (if s = [] then prev else Some (last s))"

text \<open>The captured texts of a match of the whole pattern at the start of \<open>s\<close>, \<open>prev\<close> being the character before it; a run of
  spaces takes as many as it can and gives them back one at a time.\<close>

function rx_match :: "rx list \<Rightarrow> char option \<Rightarrow> string \<Rightarrow> string list option" where
  "rx_match [] prev s = Some []"
| "rx_match (RLit l # ts) prev s =
     (if lower (take (length l) s) = lower l then rx_match ts (last_char prev (take (length l) s)) (drop (length l) s) else None)"
| "rx_match (RSpaces # ts) prev s =
     (case s of
        c # r \<Rightarrow>
          (if is_space c
           then (case rx_match (RSpaces # ts) (Some c) r of Some m \<Rightarrow> Some m | None \<Rightarrow> rx_match ts prev s)
           else rx_match ts prev s)
      | [] \<Rightarrow> rx_match ts prev s)"
| "rx_match (RSpace1 # ts) prev s =
     (case s of c # r \<Rightarrow> (if is_space c then rx_match (RSpaces # ts) (Some c) r else None) | [] \<Rightarrow> None)"
| "rx_match (RBound # ts) prev s =
     (if word_at prev \<noteq> word_at (head_char s) then rx_match ts prev s else None)"
| "rx_match (RPlace # ts) prev s =
     (case s of
        c # r \<Rightarrow>
          (let w = takeWhile is_word r
           in if c = CHR '':'' \<and> w \<noteq> []
              then map_option (\<lambda>m. (c # w) # m) (rx_match ts (Some (last w)) (dropWhile is_word r))
              else None)
      | [] \<Rightarrow> None)"
  by pat_completeness auto

lemma length_dropWhile_lt: "length (dropWhile P r) < Suc (length r)"
  using length_dropWhile_le [of P r] by simp

termination rx_match
  by (relation "measure (\<lambda>(ts, _, s). 2 * length ts + length s)") (auto simp: length_dropWhile_lt intro: le_less_trans [OF length_dropWhile_le])

text \<open>\<open>re.search\<close>: the first position where the pattern matches.\<close>

fun rx_search :: "rx list \<Rightarrow> char option \<Rightarrow> string \<Rightarrow> string list option" where
  "rx_search ts prev [] = rx_match ts prev []"
| "rx_search ts prev (c # s) =
     (case rx_match ts prev (c # s) of Some m \<Rightarrow> Some m | None \<Rightarrow> rx_search ts (Some c) s)"

definition rx_equals :: "string \<Rightarrow> rx list" where
  "rx_equals name = [RBound, RLit name, RSpaces, RLit ''='', RSpaces, RPlace]"

definition rx_begins :: "string \<Rightarrow> rx list" where
  "rx_begins name = [RLit ''begins_with'', RSpaces, RLit ''('', RSpaces, RLit name, RSpaces, RLit '','', RSpaces, RPlace, RSpaces, RLit '')'']"

definition rx_between :: "string \<Rightarrow> rx list" where
  "rx_between name = [RBound, RLit name, RSpace1, RLit ''BETWEEN'', RSpace1, RPlace, RSpace1, RLit ''AND'', RSpace1, RPlace]"

text \<open>Aliases are replaced wherever their text stands, in the order they are given.\<close>

definition resolve_names :: "pyval dict \<Rightarrow> string \<Rightarrow> string" where
  "resolve_names names expr = foldl (\<lambda>e (alias, actual). replace_str alias (py_str actual) e) expr names"

section \<open>The filter\<close>

record key_cond =
  q_pk :: pyval
  q_equals :: pyval
  q_begins :: string
  q_between :: pyval

definition place_value :: "(string \<Rightarrow> string option) \<Rightarrow> pyval \<Rightarrow> string \<Rightarrow> pyval result" where
  "place_value flt vals tok =
     rbind (as_dict vals) (\<lambda>vs.
       case json_to_native flt (pget vs tok) of
         Some v \<Rightarrow> Inr v
       | None \<Rightarrow> Inl (TypeError ''object is not iterable''))"

definition search_values ::
  "(string \<Rightarrow> string option) \<Rightarrow> pyval \<Rightarrow> string \<Rightarrow> rx list \<Rightarrow> pyval list option result" where
  "search_values flt vals expr ts =
     (case rx_search ts None expr of
        None \<Rightarrow> Inr None
      | Some toks \<Rightarrow> rbind (rmap (place_value flt vals) toks) (\<lambda>vs. Inr (Some vs)))"

definition given_cond :: "pyval dict \<Rightarrow> key_cond" where
  "given_cond payload =
     \<lparr>q_pk = pget payload ''partition_key_value'', q_equals = pget payload ''sort_key_equals'',
      q_begins = py_str (py_or (pget payload ''sort_key_begins_with'') (PStr [])),
      q_between = py_or (pget payload ''sort_key_between'') (PList [])\<rparr>"

definition found_pk :: "pyval list option \<Rightarrow> key_cond \<Rightarrow> key_cond" where
  "found_pk m c = (case m of Some [v] \<Rightarrow> c\<lparr>q_pk := v\<rparr> | _ \<Rightarrow> c)"

definition found_sk :: "pyval list option \<Rightarrow> pyval list option \<Rightarrow> pyval list option \<Rightarrow> key_cond \<Rightarrow> key_cond" where
  "found_sk eqs begins between c =
     (let c1 = (case eqs of Some [v] \<Rightarrow> c\<lparr>q_equals := v\<rparr> | _ \<Rightarrow> c);
          c2 = (case begins of Some [v] \<Rightarrow> c1\<lparr>q_begins := py_str (py_or v (PStr []))\<rparr> | _ \<Rightarrow> c1)
      in (case between of Some vs \<Rightarrow> c2\<lparr>q_between := PList vs\<rparr> | None \<Rightarrow> c2))"

definition read_cond ::
  "(string \<Rightarrow> string option) \<Rightarrow> string \<Rightarrow> string \<Rightarrow> pyval dict \<Rightarrow> key_cond result" where
  "read_cond flt pk sk payload =
     (let c = given_cond payload;
          expr = strip (py_str (py_or (either_of payload ''key_condition_expression'' ''KeyConditionExpression'') (PStr [])));
          names = py_or (either_of payload ''expression_attribute_names'' ''ExpressionAttributeNames'') (PDict []);
          vals = py_or (either_of payload ''expression_attribute_values'' ''ExpressionAttributeValues'') (PDict [])
      in if expr = [] then Inr c
         else rbind (as_dict names) (\<lambda>ns.
           let e = resolve_names ns expr; look = search_values flt vals e
           in rbind (if q_pk c = PNone then look (rx_equals pk) else Inr None) (\<lambda>p.
              let c1 = found_pk p c
              in if sk \<noteq> [] \<and> \<not> truthy (q_equals c) \<and> q_begins c = [] \<and> \<not> truthy (q_between c)
                 then rbind (look (rx_equals sk)) (\<lambda>a.
                      rbind (look (rx_begins sk)) (\<lambda>b.
                      rbind (look (rx_between sk)) (\<lambda>d. Inr (found_sk a b d c1))))
                 else Inr c1)))"

definition sort_matches :: "key_cond \<Rightarrow> pyval \<Rightarrow> bool" where
  "sort_matches c cur \<longleftrightarrow>
     (q_equals c = PNone \<or> py_eq cur (q_equals c))
   \<and> (q_begins c = [] \<or> startswith (py_str (py_or cur (PStr []))) (q_begins c))
   \<and> (case q_between c of
        PList [low, high] \<Rightarrow> py_str low \<le> py_str cur \<and> py_str cur \<le> py_str high
      | _ \<Rightarrow> True)"

definition cond_matches :: "string \<Rightarrow> string \<Rightarrow> key_cond \<Rightarrow> pyval dict \<Rightarrow> bool" where
  "cond_matches pk sk c item \<longleftrightarrow>
     (q_pk c = PNone \<or> py_eq (pget item pk) (q_pk c)) \<and> (sk = [] \<or> sort_matches c (pget item sk))"

definition page_limit :: "pyval dict \<Rightarrow> nat result" where
  "page_limit payload =
     rbind (py_int (py_or (either_of payload ''limit'' ''Limit'') (PInt 100))) (\<lambda>n. Inr (nat (max 1 (min n 1000))))"

definition query_filter ::
  "(string \<Rightarrow> string option) \<Rightarrow> string \<Rightarrow> string \<Rightarrow> pyval dict \<Rightarrow> ddb_table \<Rightarrow> (ddb_item list \<times> nat) result" where
  "query_filter flt pk sk payload t =
     (let records = sorted_records t
      in if records = [] then Inr ([], 0)
         else rbind (read_cond flt pk sk payload) (\<lambda>c.
              let matched = filter (\<lambda>r. cond_matches pk sk c (i_item r)) records
              in rbind (page_limit payload) (\<lambda>n. Inr (take n matched, length matched))))"

definition scan_filter :: "pyval dict \<Rightarrow> ddb_table \<Rightarrow> (ddb_item list \<times> nat) result" where
  "scan_filter payload t =
     rbind (page_limit payload) (\<lambda>n. Inr (take n (sorted_records t), length (sorted_records t)))"

text \<open>The keys of an index, if it has a partition key.\<close>

fun schema_keys :: "pyval list \<Rightarrow> string \<times> string \<Rightarrow> string \<times> string" where
  "schema_keys [] ks = ks"
| "schema_keys (e # es) (pk, sk) =
     (let d = dict_or_empty e
      in schema_keys es
           (if pget d ''KeyType'' = PStr ''HASH'' then (str_field d ''AttributeName'' [], sk)
            else if pget d ''KeyType'' = PStr ''RANGE'' then (pk, str_field d ''AttributeName'' [])
            else (pk, sk)))"

definition index_key_fields :: "ddb_table \<Rightarrow> pyval \<Rightarrow> (string \<times> string) option" where
  "index_key_fields t name =
     (case filter (\<lambda>ix. py_eq (pget ix ''IndexName'') name) (t_indexes t) of
        ix # _ \<Rightarrow>
          (let (pk, sk) = schema_keys (list_items (pget ix ''KeySchema'')) ([], [])
           in if pk = [] then None else Some (pk, sk))
      | [] \<Rightarrow> None)"

text \<open>The copy in \<open>routes/aws_dynamodb.py\<close> looks at the index the request names; the one of
  \<open>providers/aws_services.py\<close> always asks the table's own keys.\<close>

definition query_keys :: "pyval dict \<Rightarrow> ddb_table \<Rightarrow> string \<times> string" where
  "query_keys payload t =
     (let name = py_or (pget payload ''IndexName'') (pget payload ''index_name'')
      in if truthy name then (case index_key_fields t name of Some ks \<Rightarrow> ks | None \<Rightarrow> (t_pk t, t_sk t)) else (t_pk t, t_sk t))"

definition rest_query :: "(string \<Rightarrow> string option) \<Rightarrow> pyval dict \<Rightarrow> ddb_table \<Rightarrow> (ddb_item list \<times> nat) result" where
  "rest_query flt payload t = (let (pk, sk) = query_keys payload t in query_filter flt pk sk payload t)"

section \<open>What a query answers\<close>

definition word_text :: "string \<Rightarrow> bool" where
  "word_text s \<longleftrightarrow> s \<noteq> [] \<and> list_all is_word s"

lemma word_not_space: "is_word c \<Longrightarrow> \<not> is_space c"
  by (auto simp: is_space_def is_word_def Let_def)

lemma takeWhile_word: "list_all is_word tok \<Longrightarrow> takeWhile is_word tok = tok \<and> dropWhile is_word tok = []"
  by (simp add: list_all_iff takeWhile_eq_all_conv)

lemma rx_place: "word_text tok \<Longrightarrow> rx_match [RPlace] prev (CHR '':'' # tok) = Some [CHR '':'' # tok]"
  by (simp add: word_text_def takeWhile_word Let_def)

lemma rx_lit: "rx_match (RLit l # ts) prev (l @ s) = rx_match ts (last_char prev l) s"
  by simp

lemma rx_no_space: "\<not> is_space c \<Longrightarrow> rx_match (RSpaces # ts) prev (c # s) = rx_match ts prev (c # s)"
  by simp

lemma rx_one_space:
  "\<not> is_space c \<Longrightarrow> rx_match ts (Some CHR '' '') (c # s) = Some m \<Longrightarrow> rx_match (RSpaces # ts) prev (CHR '' '' # c # s) = Some m"
  by (simp add: is_space_def)

lemma rx_equals_found:
  assumes "word_text name" and "word_text tok"
  shows "rx_match (rx_equals name) None (name @ '' = :'' @ tok) = Some [CHR '':'' # tok]"
proof -
  obtain c r where n: "name = c # r" "is_word c" using assms(1) by (cases name) (auto simp: word_text_def)
  have e: "\<not> is_space CHR ''=''" "\<not> is_space CHR '':''" by code_simp+
  have "rx_match [RSpaces, RPlace] p (CHR '' '' # CHR '':'' # tok) = Some [CHR '':'' # tok]" for p
    by (rule rx_one_space [OF e(2) rx_place [OF assms(2)]])
  then have "rx_match [RLit ''='', RSpaces, RPlace] p (CHR ''='' # CHR '' '' # CHR '':'' # tok) = Some [CHR '':'' # tok]" for p
    using rx_lit [of "''=''" "[RSpaces, RPlace]" p "CHR '' '' # CHR '':'' # tok"] by simp
  then have "rx_match [RSpaces, RLit ''='', RSpaces, RPlace] p (CHR '' '' # CHR ''='' # CHR '' '' # CHR '':'' # tok) = Some [CHR '':'' # tok]" for p
    by (intro rx_one_space [OF e(1)])
  then have "rx_match [RLit name, RSpaces, RLit ''='', RSpaces, RPlace] None (name @ '' = :'' @ tok) = Some [CHR '':'' # tok]"
    using rx_lit [of name "[RSpaces, RLit ''='', RSpaces, RPlace]" None "'' = :'' @ tok"] by simp
  then show ?thesis
    by (simp add: rx_equals_def n word_at_def head_char_def del: rx_match.simps)
      (simp only: rx_match.simps(5) word_at_def head_char_def option.case list.case n if_True simp_thms)
qed

lemma rx_search_first: "rx_match ts prev s = Some m \<Longrightarrow> rx_search ts prev s = Some m"
  by (cases s) simp_all

lemma strip_equals: "word_text name \<Longrightarrow> word_text tok \<Longrightarrow> strip (name @ '' = :'' @ tok) = name @ '' = :'' @ tok"
proof -
  assume a: "word_text name" "word_text tok"
  have "is_word (hd name)" "is_word (last tok)" using a by (auto simp: word_text_def list_all_iff)
  then show ?thesis using a word_not_space by (intro strip_ends) (auto simp: word_text_def)
qed


text \<open>The order of the records.\<close>

definition before_eq :: "ddb_table \<Rightarrow> ddb_item \<Rightarrow> ddb_item \<Rightarrow> bool" where
  "before_eq t r q \<longleftrightarrow> sort_text (t_pk t) (t_sk t) (i_item r) = sort_text (t_pk t) (t_sk t) (i_item q)
     \<or> pair_lt (sort_text (t_pk t) (t_sk t) (i_item r)) (sort_text (t_pk t) (t_sk t) (i_item q))"

lemma pair_lt_cases: "pair_lt a b \<or> a = b \<or> pair_lt b a"
  by (auto simp: pair_lt_def prod_eq_iff)

lemma pair_lt_trans: "pair_lt a b \<Longrightarrow> pair_lt b c \<Longrightarrow> pair_lt a c"
  by (auto simp: pair_lt_def)

lemma sorted_insert_by:
  assumes "\<And>x y z. le x y \<Longrightarrow> le y z \<Longrightarrow> le x z" and "\<And>x y. lt x y \<Longrightarrow> le x y" and "\<And>x y. \<not> lt x y \<Longrightarrow> le y x"
  shows "sorted_wrt le xs \<Longrightarrow> sorted_wrt le (insert_by lt x xs)"
proof (induction xs)
  case (Cons y ys)
  show ?case
  proof (cases "lt y x")
    case True then show ?thesis using Cons assms(2) by auto
  next
    case False
    then have "le x y" by (rule assms(3))
    then show ?thesis using False Cons.prems assms(1) by auto
  qed
qed simp

lemma sorted_records_sorted: "sorted_wrt (before_eq t) (sorted_records t)"
proof -
  have "sorted_wrt (before_eq t) (foldr (insert_by (\<lambda>r q. pair_lt (sort_text (t_pk t) (t_sk t) (i_item r))
      (sort_text (t_pk t) (t_sk t) (i_item q)))) xs [])" for xs
  proof (induction xs)
    case (Cons x xs)
    show ?case unfolding foldr.simps comp_apply
    proof (rule sorted_insert_by [OF _ _ _ Cons.IH])
      show "before_eq t a c" if "before_eq t a b" "before_eq t b c" for a b c
        using that by (auto simp: before_eq_def dest: pair_lt_trans)
    next
      show "before_eq t b a"
        if "\<not> pair_lt (sort_text (t_pk t) (t_sk t) (i_item a)) (sort_text (t_pk t) (t_sk t) (i_item b))" for a b
        using that pair_lt_cases unfolding before_eq_def by metis
    qed (simp add: before_eq_def)
  qed simp
  then show ?thesis by (simp add: sorted_records_def stable_sort_def)
qed

lemma set_sorted_records: "set (sorted_records t) = snd ` set (t_items t)"
  by (simp add: sorted_records_def)

end
