(* ===== verification/Ddb_API.thy ===== *)
theory Ddb_API
imports Ddb_Query
begin

text \<open>The calls on DynamoDB tables: creating, deleting and describing a table (\<open>routes/aws_dynamodb.py\<close>), the JSON-RPC
  handler an SDK reaches when no external emulator answers (\<open>providers/aws_services.py\<close>) and the console's REST calls.
  Names of attributes that are not text are read as their text; \<open>fmt\<close> writes a size for people.\<close>

section \<open>Creating a table\<close>

definition text_or :: "pyval dict \<Rightarrow> string \<Rightarrow> string \<Rightarrow> string \<Rightarrow> string" where
  "text_or p a b dflt = strip (py_str (py_or (either_of p a b) (PStr dflt)))"

definition upper_or :: "pyval dict \<Rightarrow> string \<Rightarrow> string \<Rightarrow> string \<Rightarrow> string" where
  "upper_or p a b dflt = str_or (upper (text_or p a b dflt)) dflt"

definition tag_dict :: "string list \<Rightarrow> string list \<Rightarrow> pyval list \<Rightarrow> pyval dict" where
  "tag_dict ks vs tags =
     foldl (\<lambda>d tag. case tag of
         PDict e \<Rightarrow> dset (py_str (foldr (dget e) ks (PStr []))) (PStr (py_str (foldr (dget e) vs (PStr [])))) d
       | _ \<Rightarrow> d) [] tags"

definition created_tags :: "pyval dict \<Rightarrow> pyval" where
  "created_tags p =
     (case py_or (either_of p ''tags'' ''Tags'') (PDict []) of
        PList tags \<Rightarrow> PDict (tag_dict [''Key'', ''key''] [''Value'', ''value''] tags)
      | v \<Rightarrow> v)"

definition capacity :: "pyval dict \<Rightarrow> pyval dict \<Rightarrow> string \<Rightarrow> string \<Rightarrow> int result" where
  "capacity th p a b = py_int (py_or (dget th a (dget p b (PInt 5))) (PInt 5))"

definition no_stream :: ddb_stream where
  "no_stream = \<lparr>s_enabled = False, s_view = PNone, s_arn = PNone, s_label = []\<rparr>"

definition new_table ::
  "string \<Rightarrow> string \<Rightarrow> pyval dict \<Rightarrow> string \<times> string \<Rightarrow> string \<times> string \<Rightarrow> ddb_table result" where
  "new_table now name p = (\<lambda>(pk, pkt) (sk, skt).
     rbind (as_dict (py_or (either_of p ''provisioned_throughput'' ''ProvisionedThroughput'') (PDict []))) (\<lambda>th.
     rbind (capacity th p ''ReadCapacityUnits'' ''read_capacity_units'') (\<lambda>rc.
     rbind (capacity th p ''WriteCapacityUnits'' ''write_capacity_units'') (\<lambda>wc.
       Inr \<lparr>t_name = name, t_pk = pk, t_pk_type = pkt, t_sk = sk, t_sk_type = skt,
         t_billing = upper_or p ''billing_mode'' ''BillingMode'' ''PAY_PER_REQUEST'', t_throughput = (rc, wc),
         t_tags = created_tags p, t_indexes = [],
         t_attributes = (if sk = [] then [(pk, pkt)] else [(pk, pkt), (sk, skt)]),
         t_stream = no_stream, t_records = [], t_items = [], t_count = 0, t_size = 0,
         t_created = now, t_modified = now\<rparr>))))"

definition fresh_name :: "pyval dict \<Rightarrow> ddb_tables \<Rightarrow> string result" where
  "fresh_name p ts =
     (let name = text_or p ''table_name'' ''TableName'' []
      in if name = [] then Inl (invalid ''TableName is required.'')
         else if dhas ts name then Inl (HTTPException 409 (PStr ''ResourceInUseException: Table already exists.''))
         else Inr name)"

definition given_pk :: "pyval dict \<Rightarrow> string" where
  "given_pk p = str_or (text_or p ''partition_key_name'' ''PartitionKeyName'' ''id'') ''id''"

definition given_sk :: "pyval dict \<Rightarrow> string" where
  "given_sk p = text_or p ''sort_key_name'' ''SortKeyName'' []"

text \<open>The copy behind the wire protocol: the key schema of the request is not read.\<close>

definition sdk_create_table :: "string \<Rightarrow> pyval dict \<Rightarrow> ddb_tables \<Rightarrow> (ddb_table \<times> ddb_tables) result" where
  "sdk_create_table now p ts =
     rbind (fresh_name p ts) (\<lambda>name.
     rbind (new_table now name p
         (given_pk p, upper_or p ''partition_key_type'' ''PartitionKeyType'' ''S'')
         (given_sk p, upper_or p ''sort_key_type'' ''SortKeyType'' ''S'')) (\<lambda>t.
       Inr (t, dset name t ts)))"

subsection \<open>Key schema, indexes and streams\<close>

definition attr_types :: "pyval list \<Rightarrow> string dict" where
  "attr_types ads = foldl (\<lambda>d ad. case ad of
       PDict e \<Rightarrow> dset (str_field e ''AttributeName'' []) (str_field e ''AttributeType'' ''S'') d | _ \<Rightarrow> d) [] ads"

definition index_record :: "string \<Rightarrow> string \<Rightarrow> string \<Rightarrow> pyval dict \<Rightarrow> pyval dict" where
  "index_record acct name kind d =
     (let iname = dget d ''IndexName'' (dget d ''index_name'' (PStr []))
      in [(''IndexName'', iname), (''IndexType'', PStr kind),
          (''KeySchema'', dget d ''KeySchema'' (dget d ''key_schema'' (PList []))),
          (''Projection'', dget d ''Projection'' (dget d ''projection'' (PDict [(''ProjectionType'', PStr ''ALL'')]))),
          (''IndexStatus'', PStr ''ACTIVE''), (''IndexArn'', PStr (table_arn acct name @ ''/index/'' @ py_str iname))]
         @ (if kind = ''GSI'' \<and> truthy (pget d ''ProvisionedThroughput'')
            then [(''ProvisionedThroughput'', pget d ''ProvisionedThroughput'')] else []))"

definition add_attribute :: "string dict \<Rightarrow> pyval \<Rightarrow> string dict result" where
  "add_attribute attrs ks =
     rbind (as_dict ks) (\<lambda>e.
       let n = pget e ''AttributeName''
       in Inr (if truthy n \<and> \<not> dhas attrs (py_str n) then attrs @ [(py_str n, ''S'')] else attrs))"

definition type_attribute :: "string dict \<Rightarrow> pyval \<Rightarrow> string dict result" where
  "type_attribute attrs ad =
     rbind (as_dict ad) (\<lambda>e.
       let n = str_field e ''AttributeName'' []
       in Inr (if n = [] then attrs else dset n (str_field e ''AttributeType'' (dget attrs n ''S'')) attrs))"

fun rfold :: "('s \<Rightarrow> 'a \<Rightarrow> 's result) \<Rightarrow> 'a list \<Rightarrow> 's \<Rightarrow> 's result" where
  "rfold f [] s = Inr s"
| "rfold f (x # xs) s = rbind (f s x) (rfold f xs)"

definition add_index :: "string \<Rightarrow> string \<Rightarrow> ddb_table \<Rightarrow> pyval \<Rightarrow> ddb_table result" where
  "add_index acct kind t d =
     rbind (as_dict d) (\<lambda>e.
       let ix = index_record acct (t_name t) kind e
       in rbind (py_iter (pget ix ''KeySchema'')) (\<lambda>schema.
          rbind (rfold add_attribute schema (t_attributes t)) (\<lambda>attrs.
            Inr (t\<lparr>t_indexes := t_indexes t @ [ix], t_attributes := attrs\<rparr>))))"

definition add_stream :: "string \<Rightarrow> string \<Rightarrow> pyval \<Rightarrow> ddb_table \<Rightarrow> ddb_table result" where
  "add_stream acct now spec t =
     (if \<not> truthy spec then Inr t
      else rbind (as_dict spec) (\<lambda>e.
        let on = dget e ''StreamEnabled'' (dget e ''stream_enabled'' (PBool False));
            view = dget e ''StreamViewType'' (dget e ''stream_view_type'' (PStr ''NEW_AND_OLD_IMAGES''));
            label = replace_char CHR ''+'' ''-'' (replace_char CHR '':'' ''-'' now)
        in Inr (if \<not> truthy on then t
                else t\<lparr>t_stream := \<lparr>s_enabled = True, s_view = view,
                    s_arn = PStr (table_arn acct (t_name t) @ ''/stream/'' @ label), s_label = label\<rparr>,
                  t_records := []\<rparr>)))"

definition listed :: "pyval dict \<Rightarrow> string \<Rightarrow> string \<Rightarrow> pyval list result" where
  "listed p a b = py_iter (py_or (either_of p a b) (PList []))"

text \<open>The copy of the console, which also reads the key schema, the indexes and the stream of the request.\<close>

definition create_table :: "string \<Rightarrow> string \<Rightarrow> pyval dict \<Rightarrow> ddb_tables \<Rightarrow> (ddb_table \<times> ddb_tables) result" where
  "create_table acct now p ts =
     rbind (fresh_name p ts) (\<lambda>name.
     rbind (listed p ''KeySchema'' ''key_schema'') (\<lambda>schema.
     rbind (listed p ''AttributeDefinitions'' ''attribute_definitions'') (\<lambda>ads.
       let (hash, range_key) = schema_keys schema ([], []);
           pk = (if hash = [] then given_pk p else hash);
           sk = (if range_key = [] then given_sk p else range_key);
           pkt = dget (attr_types ads) pk (upper_or p ''partition_key_type'' ''PartitionKeyType'' ''S'');
           skt = dget (attr_types ads) sk (upper_or p ''sort_key_type'' ''SortKeyType'' ''S'')
       in rbind (new_table now name p (pk, pkt) (sk, skt)) (\<lambda>t0.
          rbind (listed p ''GlobalSecondaryIndexes'' ''global_secondary_indexes'') (\<lambda>gsi.
          rbind (listed p ''LocalSecondaryIndexes'' ''local_secondary_indexes'') (\<lambda>lsi.
          rbind (rfold (add_index acct ''GSI'') gsi t0) (\<lambda>t1.
          rbind (rfold (add_index acct ''LSI'') lsi t1) (\<lambda>t2.
          rbind (rfold type_attribute ads (t_attributes t2)) (\<lambda>attrs.
          rbind (add_stream acct now (py_or (either_of p ''StreamSpecification'' ''stream_specification'') (PDict []))
                  (t2\<lparr>t_attributes := attrs\<rparr>)) (\<lambda>t3.
            Inr (t3, dset name t3 ts)))))))))))"

definition delete_table :: "string \<Rightarrow> ddb_tables \<Rightarrow> ddb_tables result" where
  "delete_table name ts =
     (if dhas ts name then Inr (dpop name ts)
      else Inl (HTTPException 404 (PStr ''ResourceNotFoundException: Table not found.'')))"

section \<open>Views\<close>

definition item_view :: "(int \<Rightarrow> string) \<Rightarrow> ddb_table \<Rightarrow> ddb_item \<Rightarrow> pyval" where
  "item_view fmt t r =
     (let item = i_item r; key = [(t_pk t, pget item (t_pk t))]
      in PDict [(''key'', PDict (if t_sk t = [] then key else dset (t_sk t) (pget item (t_sk t)) key)),
           (''item'', PDict item), (''item_json'', PDict (native_item_to_json item)),
           (''created'', PStr (i_created r)), (''updated'', PStr (i_updated r)),
           (''size_bytes'', PInt (i_size r)), (''size_human'', PStr (fmt (i_size r)))])"

definition stream_view :: "ddb_stream \<Rightarrow> pyval" where
  "stream_view s =
     PDict ((''enabled'', PBool (s_enabled s))
       # (if s_enabled s then [(''stream_view_type'', s_view s), (''stream_arn'', s_arn s)] else [])
       @ [(''latest_stream_label'', PStr (s_label s))])"

definition key_row :: "ddb_table \<Rightarrow> ddb_item \<Rightarrow> (string \<times> ddb_item) result" where
  "key_row t r = rbind (item_key_tuple t (i_item r)) (\<lambda>k. Inr (dumps (PList [fst k, snd k]), r))"

definition sorted_rows :: "ddb_table \<Rightarrow> ddb_item list result" where
  "sorted_rows t =
     rbind (rmap (key_row t) (map snd (t_items t))) (\<lambda>rows. Inr (map snd (stable_sort (\<lambda>a b. fst a < fst b) rows)))"

definition table_fields :: "(int \<Rightarrow> string) \<Rightarrow> string \<Rightarrow> ddb_table \<Rightarrow> pyval dict" where
  "table_fields fmt acct t =
     [(''table_name'', PStr (t_name t)), (''table_arn'', PStr (table_arn acct (t_name t))), (''table_status'', PStr ''ACTIVE''),
      (''partition_key_name'', PStr (t_pk t)), (''partition_key_type'', PStr (t_pk_type t)),
      (''sort_key_name'', PStr (t_sk t)), (''sort_key_type'', PStr (t_sk_type t)), (''billing_mode'', PStr (t_billing t)),
      (''provisioned_throughput'', PDict [(''ReadCapacityUnits'', PInt (fst (t_throughput t))), (''WriteCapacityUnits'', PInt (snd (t_throughput t)))]),
      (''tags'', t_tags t), (''indexes'', PList (map PDict (t_indexes t))), (''streams'', stream_view (t_stream t)),
      (''created'', PStr (t_created t)), (''last_modified'', PStr (t_modified t)), (''item_count'', PInt (t_count t)),
      (''table_size_bytes'', PInt (t_size t)), (''table_size_human'', PStr (fmt (t_size t)))]"

text \<open>Looking at a table counts it anew, which also moves its time of modification; the rows are sorted, and so keyed,
  whether they are shown or not.\<close>

definition table_view ::
  "(int \<Rightarrow> string) \<Rightarrow> string \<Rightarrow> string \<Rightarrow> bool \<Rightarrow> ddb_table \<Rightarrow> pyval dict result \<times> ddb_table" where
  "table_view fmt acct now with_items t0 =
     (let t = refresh_metrics now t0
      in (rbind (sorted_rows t) (\<lambda>rows.
            Inr (table_fields fmt acct t
              @ (if with_items
                 then [(''items'', PList (map (\<lambda>r. PDict (i_item r)) rows)), (''item_rows'', PList (map (item_view fmt t) rows))]
                 else []))), t))"

definition view_named ::
  "(int \<Rightarrow> string) \<Rightarrow> string \<Rightarrow> string \<Rightarrow> bool \<Rightarrow> string \<Rightarrow> ddb_table \<Rightarrow> ddb_tables \<Rightarrow> pyval dict result \<times> ddb_tables" where
  "view_named fmt acct now with_items name t ts =
     (let (v, t') = table_view fmt acct now with_items t in (v, dset name t' ts))"

fun view_all ::
  "(int \<Rightarrow> string) \<Rightarrow> string \<Rightarrow> string \<Rightarrow> string list \<Rightarrow> ddb_tables \<Rightarrow> pyval dict list result \<times> ddb_tables" where
  "view_all fmt acct now [] ts = (Inr [], ts)"
| "view_all fmt acct now (n # ns) ts =
     (case map_of ts n of
        None \<Rightarrow> view_all fmt acct now ns ts
      | Some t \<Rightarrow>
          (let (v, ts1) = view_named fmt acct now False n t ts
           in case v of
                Inl e \<Rightarrow> (Inl e, ts1)
              | Inr d \<Rightarrow> (let (vs, ts2) = view_all fmt acct now ns ts1 in (rbind vs (\<lambda>ds. Inr (d # ds)), ts2))))"

definition list_tables :: "(int \<Rightarrow> string) \<Rightarrow> string \<Rightarrow> string \<Rightarrow> ddb_tables \<Rightarrow> pyval result \<times> ddb_tables" where
  "list_tables fmt acct now ts =
     (let (vs, ts') = view_all fmt acct now (sort_key id (map fst ts)) ts
      in (rbind vs (\<lambda>ds. Inr (PDict [(''table_names'', PList (map (\<lambda>d. pget d ''table_name'') ds)),
            (''tables'', PList (map PDict ds)), (''count'', PInt (int (length ds)))])), ts'))"

section \<open>Tags\<close>

definition tags_view :: "ddb_table \<Rightarrow> pyval" where
  "tags_view t = (case t_tags t of PList tags \<Rightarrow> PDict (tag_dict [''Key''] [''Value''] tags) | v \<Rightarrow> v)"

definition str_items :: "pyval dict \<Rightarrow> pyval dict" where
  "str_items d = map (\<lambda>(k, v). (k, PStr (py_str v))) d"

definition set_tags :: "string \<Rightarrow> pyval \<Rightarrow> ddb_table \<Rightarrow> ddb_table result" where
  "set_tags now tags t =
     rbind (as_dict (py_or tags (PDict []))) (\<lambda>d. Inr (t\<lparr>t_tags := PDict (str_items d), t_modified := now\<rparr>))"

definition request_tags :: "pyval \<Rightarrow> pyval" where
  "request_tags tags =
     (case tags of PList l \<Rightarrow> PDict (tag_dict [''Key''] [''Value''] l) | PDict d \<Rightarrow> PDict d | _ \<Rightarrow> PDict [])"

definition drop_tags :: "pyval list \<Rightarrow> pyval dict \<Rightarrow> pyval dict" where
  "drop_tags ks d = foldl (\<lambda>d k. dpop (py_str k) d) d ks"

section \<open>The wire protocol\<close>

type_synonym answer = "(nat \<times> pyval) result"

definition sdk_error :: "string \<Rightarrow> string \<Rightarrow> nat \<Rightarrow> answer" where
  "sdk_error code message status = Inr (status, PDict [(''__type'', PStr code), (''message'', PStr message)])"

definition sdk_ok :: "pyval dict \<Rightarrow> answer" where
  "sdk_ok d = Inr (200, PDict d)"

definition not_there :: "string \<Rightarrow> answer" where
  "not_there message = sdk_error ''ResourceNotFoundException'' message 404"

definition sdk_name :: "pyval dict \<Rightarrow> string" where
  "sdk_name p = strip (py_str (py_or (either_of p ''TableName'' ''table_name'') (PStr [])))"

text \<open>\<open>f\<close> on the table of the request, or the answer that there is none; a read leaves the tables alone, a write stores
  the table it returns and loses nothing when it fails.\<close>

definition on_table :: "pyval dict \<Rightarrow> ddb_tables \<Rightarrow> (string \<Rightarrow> ddb_table \<Rightarrow> answer \<times> ddb_tables) \<Rightarrow> answer \<times> ddb_tables" where
  "on_table p ts f = (case map_of ts (sdk_name p) of None \<Rightarrow> (not_there ''Table not found.'', ts) | Some t \<Rightarrow> f (sdk_name p) t)"

definition reading :: "ddb_tables \<Rightarrow> 'a result \<Rightarrow> ('a \<Rightarrow> answer) \<Rightarrow> answer \<times> ddb_tables" where
  "reading ts r f = (rbind r f, ts)"

definition writing :: "ddb_tables \<Rightarrow> string \<Rightarrow> ('a \<times> ddb_table) result \<Rightarrow> ('a \<Rightarrow> answer) \<Rightarrow> answer \<times> ddb_tables" where
  "writing ts name r f = (case r of Inl e \<Rightarrow> (Inl e, ts) | Inr (x, t) \<Rightarrow> (f x, dset name t ts))"

definition record_json :: "ddb_item \<Rightarrow> pyval" where
  "record_json r = PDict (native_item_to_json (i_item r))"

definition old_asked :: "pyval dict \<Rightarrow> bool result" where
  "old_asked p =
     (case dget p ''ReturnValues'' (PStr ''NONE'') of
        PStr s \<Rightarrow> Inr (upper s \<in> {''ALL_OLD'', ''UPDATED_OLD''})
      | _ \<Rightarrow> Inl (AttributeError ''upper''))"

definition put_answer :: "pyval dict \<Rightarrow> ddb_item option \<Rightarrow> answer" where
  "put_answer p old =
     (case old of
        None \<Rightarrow> sdk_ok [(''Attributes'', PDict [])]
      | Some r \<Rightarrow> rbind (old_asked p) (\<lambda>b. sdk_ok [(''Attributes'', if b then record_json r else PDict [])]))"

definition rows_answer :: "ddb_item list \<times> nat \<Rightarrow> answer" where
  "rows_answer = (\<lambda>(rows, scanned). sdk_ok [(''Items'', PList (map record_json rows)),
     (''Count'', PInt (int (length rows))), (''ScannedCount'', PInt (int scanned))])"

subsection \<open>Batches\<close>

fun batch_keys :: "(string \<Rightarrow> string option) \<Rightarrow> ddb_table \<Rightarrow> pyval list \<Rightarrow> pyval list result" where
  "batch_keys flt t [] = Inr []"
| "batch_keys flt t (k # ks) =
     rbind (get_item flt [(''key'', k)] t) (\<lambda>r.
     rbind (batch_keys flt t ks) (\<lambda>rows. Inr (case r of Some q \<Rightarrow> record_json q # rows | None \<Rightarrow> rows)))"

fun batch_get :: "(string \<Rightarrow> string option) \<Rightarrow> ddb_tables \<Rightarrow> pyval dict \<Rightarrow> pyval dict result" where
  "batch_get flt ts [] = Inr []"
| "batch_get flt ts ((n, req) # reqs) =
     (case map_of ts n of
        None \<Rightarrow> batch_get flt ts reqs
      | Some t \<Rightarrow>
          rbind (as_dict req) (\<lambda>d.
          rbind (py_iter (py_or (pget d ''Keys'') (PList []))) (\<lambda>ks.
          rbind (batch_keys flt t ks) (\<lambda>rows.
          rbind (batch_get flt ts reqs) (\<lambda>d'. Inr ((n, PList rows) # d'))))))"

text \<open>\<open>name in op\<close> for an operation of any kind of value.\<close>

definition names_request :: "string \<Rightarrow> pyval \<Rightarrow> bool result" where
  "names_request n op =
     (case op of
        PDict d \<Rightarrow> Inr (dhas d n)
      | PList xs \<Rightarrow> Inr (PStr n \<in> set xs)
      | PStr s \<Rightarrow> Inr (contains n s)
      | _ \<Rightarrow> Inl (TypeError ''argument is not iterable''))"

definition request_part :: "pyval \<Rightarrow> string \<Rightarrow> string \<Rightarrow> pyval result" where
  "request_part op n field =
     (case op of
        PDict d \<Rightarrow> rbind (as_dict (pget d n)) (\<lambda>e. Inr (dget e field (PDict [])))
      | _ \<Rightarrow> Inl (TypeError ''indices must be integers''))"

definition batch_op :: "(string \<Rightarrow> string option) \<Rightarrow> string \<Rightarrow> pyval \<Rightarrow> ddb_table \<Rightarrow> ddb_table result" where
  "batch_op flt now op t =
     rbind (names_request ''PutRequest'' op) (\<lambda>put.
       if put then rbind (request_part op ''PutRequest'' ''Item'') (\<lambda>i.
                   rbind (put_item flt untold now [(''item'', i)] t) (\<lambda>(_, t'). Inr t'))
       else rbind (names_request ''DeleteRequest'' op) (\<lambda>del.
         if del then rbind (request_part op ''DeleteRequest'' ''Key'') (\<lambda>k.
                     rbind (delete_item flt untold now [(''key'', k)] t) (\<lambda>(_, t'). Inr t'))
         else Inr t))"

text \<open>What was written before an operation fails stays written.\<close>

fun batch_ops :: "(string \<Rightarrow> string option) \<Rightarrow> string \<Rightarrow> pyval list \<Rightarrow> ddb_table \<Rightarrow> py_exc option \<times> ddb_table" where
  "batch_ops flt now [] t = (None, t)"
| "batch_ops flt now (op # ops) t =
     (case batch_op flt now op t of Inl e \<Rightarrow> (Some e, t) | Inr t' \<Rightarrow> batch_ops flt now ops t')"

fun batch_write :: "(string \<Rightarrow> string option) \<Rightarrow> string \<Rightarrow> pyval dict \<Rightarrow> ddb_tables \<Rightarrow> answer \<times> ddb_tables" where
  "batch_write flt now [] ts = (sdk_ok [(''UnprocessedItems'', PDict [])], ts)"
| "batch_write flt now ((n, ops) # reqs) ts =
     (case map_of ts n of
        None \<Rightarrow> batch_write flt now reqs ts
      | Some t \<Rightarrow>
          (case py_iter (py_or ops (PList [])) of
             Inl e \<Rightarrow> (Inl e, ts)
           | Inr os \<Rightarrow>
               (case batch_ops flt now os t of
                  (Some e, t') \<Rightarrow> (Inl e, dset n t' ts)
                | (None, t') \<Rightarrow> batch_write flt now reqs (dset n t' ts))))"

subsection \<open>Streams and shard iterators\<close>

definition stream_table :: "ddb_tables \<Rightarrow> pyval \<Rightarrow> ddb_table option" where
  "stream_table ts arn = find (\<lambda>t. py_eq (s_arn (t_stream t)) arn) (map snd ts)"

definition key_schema :: "ddb_table \<Rightarrow> pyval" where
  "key_schema t =
     PList (map PDict ([(''AttributeName'', PStr (t_pk t)), (''KeyType'', PStr ''HASH'')]
       # (if t_sk t = [] then [] else [[(''AttributeName'', PStr (t_sk t)), (''KeyType'', PStr ''RANGE'')]])))"

definition describe_stream :: "ddb_tables \<Rightarrow> pyval dict \<Rightarrow> answer" where
  "describe_stream ts p =
     (case stream_table ts (dget p ''StreamArn'' (PStr [])) of
        None \<Rightarrow> not_there ''Stream not found.''
      | Some t \<Rightarrow>
          (let s = t_stream t
           in sdk_ok [(''StreamDescription'', PDict
                [(''StreamArn'', if s_enabled s then s_arn s else PStr []), (''StreamLabel'', PStr (s_label s)),
                 (''StreamStatus'', PStr (if s_enabled s then ''ENABLED'' else ''DISABLED'')),
                 (''StreamViewType'', if s_enabled s then s_view s else PStr ''NEW_AND_OLD_IMAGES''),
                 (''TableName'', PStr (t_name t)), (''KeySchema'', key_schema t),
                 (''Shards'', PList [PDict [(''ShardId'', PStr ''shardId-00000001''),
                    (''SequenceNumberRange'', PDict [(''StartingSequenceNumber'', PStr ''000000000000000000001'')])]])])]))"

definition iterator_text :: "pyval \<Rightarrow> pyval \<Rightarrow> pyval \<Rightarrow> int \<Rightarrow> string" where
  "iterator_text arn shard kind position =
     b64encode (dumps (PDict [(''stream_arn'', arn), (''shard_id'', shard), (''type'', kind), (''position'', PInt position)]))"

definition get_shard_iterator :: "pyval dict \<Rightarrow> answer" where
  "get_shard_iterator p =
     sdk_ok [(''ShardIterator'', PStr (iterator_text (dget p ''StreamArn'' (PStr [])) (dget p ''ShardId'' (PStr []))
       (dget p ''ShardIteratorType'' (PStr ''TRIM_HORIZON'')) 0))]"

definition read_iterator :: "pyval \<Rightarrow> pyval option" where
  "read_iterator v =
     (case v of PStr s \<Rightarrow> (case b64decode s of Some text \<Rightarrow> json_loads text | None \<Rightarrow> None) | _ \<Rightarrow> None)"

definition get_records :: "ddb_tables \<Rightarrow> pyval dict \<Rightarrow> answer" where
  "get_records ts p =
     rbind (py_int (dget p ''Limit'' (PInt 1000))) (\<lambda>asked.
       case read_iterator (dget p ''ShardIterator'' (PStr [])) of
         None \<Rightarrow> sdk_error ''TrimmedDataAccessException'' ''Invalid shard iterator.'' 400
       | Some data \<Rightarrow>
           rbind (as_dict data) (\<lambda>d.
           rbind (py_int (dget d ''position'' (PInt 0))) (\<lambda>position.
             case stream_table ts (dget d ''stream_arn'' (PStr [])) of
               None \<Rightarrow> sdk_ok [(''Records'', PList []), (''NextShardIterator'', PNone)]
             | Some t \<Rightarrow>
                 (let page = py_slice position (position + min asked 1000) (t_records t);
                      next_position = position + int (length page)
                  in sdk_ok [(''Records'', PList page),
                       (''NextShardIterator'',
                        if next_position < int (length (t_records t))
                        then PStr (iterator_text (dget d ''stream_arn'' (PStr [])) (dget d ''shard_id'' (PStr []))
                               (PStr ''AT_SEQUENCE_NUMBER'') next_position)
                        else PNone)]))))"

definition list_streams :: "ddb_tables \<Rightarrow> pyval dict \<Rightarrow> answer" where
  "list_streams ts p =
     (let asked = dget p ''TableName'' (PStr [])
      in sdk_ok [(''Streams'', PList (map (\<lambda>(n, t). PDict [(''StreamArn'', s_arn (t_stream t)),
             (''StreamLabel'', PStr (s_label (t_stream t))), (''TableName'', PStr n)])
           (filter (\<lambda>(n, t). (truthy asked \<longrightarrow> asked = PStr n) \<and> s_enabled (t_stream t)) ts)))])"

subsection \<open>The handler\<close>

definition sdk_action :: "string \<Rightarrow> string" where
  "sdk_action target = (if target = [] then [] else after_last ''.'' target)"

definition tag_resource :: "string \<Rightarrow> pyval dict \<Rightarrow> ddb_table \<Rightarrow> (unit \<times> ddb_table) result" where
  "tag_resource now p t =
     rbind (set_tags now (request_tags (py_or (either_of p ''Tags'' ''tags'') (PDict []))) t) (\<lambda>t'. Inr ((), t'))"

definition untag_resource :: "string \<Rightarrow> pyval dict \<Rightarrow> ddb_table \<Rightarrow> (unit \<times> ddb_table) result" where
  "untag_resource now p t =
     rbind (py_iter (py_or (either_of p ''TagKeys'' ''tag_keys'') (PList []))) (\<lambda>ks.
     rbind (as_dict (tags_view t)) (\<lambda>d.
     rbind (set_tags now (PDict (drop_tags ks d)) t) (\<lambda>t'. Inr ((), t'))))"

definition tag_list :: "pyval \<Rightarrow> answer" where
  "tag_list v = rbind (as_dict v) (\<lambda>d. sdk_ok [(''Tags'', PList (map (\<lambda>(k, w). PDict [(''Key'', PStr k), (''Value'', w)]) d))])"

definition sdk_handler ::
  "(string \<Rightarrow> string option) \<Rightarrow> (int \<Rightarrow> string) \<Rightarrow> string \<Rightarrow> string \<Rightarrow> string \<Rightarrow> pyval dict \<Rightarrow> ddb_tables \<Rightarrow> answer \<times> ddb_tables" where
  "sdk_handler flt fmt acct now target p ts =
     (let a = sdk_action target in
      if a = [] then (sdk_error ''MissingAction'' ''The request must include X-Amz-Target.'' 400, ts)
      else if a = ''ListTables'' then (let (v, ts') = list_tables fmt acct now ts in (rbind v (\<lambda>w. Inr (200, w)), ts'))
      else if a = ''CreateTable'' then
        (case sdk_create_table now p ts of
           Inl e \<Rightarrow> (Inl e, ts)
         | Inr (t, ts1) \<Rightarrow>
             (let (v, ts2) = view_named fmt acct now False (t_name t) t ts1
              in (rbind v (\<lambda>d. sdk_ok [(''TableDescription'', PDict d)]), ts2)))
      else if a = ''DescribeTable'' then
        (case map_of ts (sdk_name p) of
           None \<Rightarrow> (not_there (''Table '' @ sdk_name p @ '' not found.''), ts)
         | Some t \<Rightarrow> (let (v, ts') = view_named fmt acct now True (sdk_name p) t ts in (rbind v (\<lambda>d. sdk_ok [(''Table'', PDict d)]), ts')))
      else if a = ''DeleteTable'' then
        (case delete_table (sdk_name p) ts of
           Inl e \<Rightarrow> (Inl e, ts)
         | Inr ts' \<Rightarrow> (sdk_ok [(''TableDescription'', PDict [(''TableName'', PStr (sdk_name p)), (''TableStatus'', PStr ''DELETED'')])], ts'))
      else if a = ''PutItem'' then on_table p ts (\<lambda>n t. writing ts n (put_item flt untold now p t) (put_answer p))
      else if a = ''GetItem'' then
        on_table p ts (\<lambda>n t. reading ts (get_item flt p t) (\<lambda>r. sdk_ok (case r of Some q \<Rightarrow> [(''Item'', record_json q)] | None \<Rightarrow> [])))
      else if a = ''DeleteItem'' then
        on_table p ts (\<lambda>n t. writing ts n (delete_item flt untold now p t)
          (\<lambda>r. sdk_ok (case r of Some q \<Rightarrow> [(''Attributes'', record_json q)] | None \<Rightarrow> [])))
      else if a = ''UpdateItem'' then
        on_table p ts (\<lambda>n t. writing ts n (update_item flt untold now p t) (\<lambda>r. sdk_ok [(''Attributes'', record_json r)]))
      else if a = ''Query'' then on_table p ts (\<lambda>n t. reading ts (query_filter flt (t_pk t) (t_sk t) p t) rows_answer)
      else if a = ''Scan'' then on_table p ts (\<lambda>n t. reading ts (scan_filter p t) rows_answer)
      else if a = ''BatchGetItem'' then
        reading ts (rbind (as_dict (py_or (pget p ''RequestItems'') (PDict []))) (batch_get flt ts)) (\<lambda>d. sdk_ok [(''Responses'', PDict d)])
      else if a = ''BatchWriteItem'' then
        (case as_dict (py_or (pget p ''RequestItems'') (PDict [])) of Inl e \<Rightarrow> (Inl e, ts) | Inr reqs \<Rightarrow> batch_write flt now reqs ts)
      else if a = ''TagResource'' then on_table p ts (\<lambda>n t. writing ts n (tag_resource now p t) (\<lambda>_. sdk_ok []))
      else if a = ''UntagResource'' then on_table p ts (\<lambda>n t. writing ts n (untag_resource now p t) (\<lambda>_. sdk_ok []))
      else if a = ''ListTagsOfResource'' then on_table p ts (\<lambda>n t. (tag_list (tags_view t), ts))
      else if a = ''DescribeStream'' then (describe_stream ts p, ts)
      else if a = ''GetShardIterator'' then (get_shard_iterator p, ts)
      else if a = ''GetRecords'' then (get_records ts p, ts)
      else if a = ''ListStreams'' then (list_streams ts p, ts)
      else (sdk_error ''UnknownOperationException'' (''The action '' @ a @ '' is not implemented.'') 400, ts))"

section \<open>The console\<close>

text \<open>The REST calls, when the external emulator is not available.  Every one but the creation of a table needs it.\<close>

definition rest_table :: "string \<Rightarrow> ddb_tables \<Rightarrow> (ddb_table \<Rightarrow> 'a result) \<Rightarrow> 'a result" where
  "rest_table name ts f =
     (case map_of ts name of None \<Rightarrow> Inl (HTTPException 404 (PStr ''TableNotFound'')) | Some t \<Rightarrow> f t)"

record table_request =
  r_name :: string
  r_pk :: string
  r_pk_type :: string
  r_sk :: string
  r_sk_type :: string
  r_billing :: string
  r_read :: int
  r_write :: int
  r_tags :: "pyval dict"

definition table_payload :: "table_request \<Rightarrow> pyval dict" where
  "table_payload r =
     [(''table_name'', PStr (r_name r)), (''partition_key_name'', PStr (r_pk r)), (''partition_key_type'', PStr (r_pk_type r)),
      (''sort_key_name'', PStr (r_sk r)), (''sort_key_type'', PStr (r_sk_type r)), (''billing_mode'', PStr (r_billing r)),
      (''read_capacity_units'', PInt (r_read r)), (''write_capacity_units'', PInt (r_write r)), (''tags'', PDict (r_tags r))]"

definition api_create_table ::
  "(int \<Rightarrow> string) \<Rightarrow> string \<Rightarrow> string \<Rightarrow> table_request \<Rightarrow> ddb_tables \<Rightarrow> pyval result \<times> ddb_tables" where
  "api_create_table fmt acct now r ts =
     (case create_table acct now (table_payload r) ts of
        Inl e \<Rightarrow> (Inl e, ts)
      | Inr (t, ts1) \<Rightarrow>
          (let (v, ts2) = view_named fmt acct now False (t_name t) t ts1
           in (rbind v (\<lambda>d. Inr (PDict [(''table'', PDict d)])), ts2)))"

definition api_get_table ::
  "(int \<Rightarrow> string) \<Rightarrow> string \<Rightarrow> string \<Rightarrow> string \<Rightarrow> ddb_tables \<Rightarrow> pyval result \<times> ddb_tables" where
  "api_get_table fmt acct now name ts =
     (case map_of ts name of
        None \<Rightarrow> (Inl (HTTPException 404 (PStr ''TableNotFound'')), ts)
      | Some t \<Rightarrow>
          (let (v, ts') = view_named fmt acct now True name t ts in (rbind v (\<lambda>d. Inr (PDict [(''table'', PDict d)])), ts')))"

definition api_delete_table :: "string \<Rightarrow> ddb_tables \<Rightarrow> (pyval \<times> ddb_tables) result" where
  "api_delete_table name ts =
     rbind (delete_table name ts) (\<lambda>ts'. Inr (PDict [(''deleted'', PBool True), (''table_name'', PStr name)], ts'))"

definition api_put_item ::
  "(string \<Rightarrow> string option) \<Rightarrow> (int \<Rightarrow> string) \<Rightarrow> telling \<Rightarrow> string \<Rightarrow> string \<Rightarrow> pyval dict \<Rightarrow> ddb_tables \<Rightarrow> (pyval \<times> ddb_tables) result" where
  "api_put_item flt fmt tell now name item ts =
     rest_table name ts (\<lambda>t.
       rbind (put_item flt tell now [(''item'', PDict item)] t) (\<lambda>(old, t').
       rbind (item_to_native_item flt (PDict item)) (\<lambda>native.
       rbind (item_key_string t' native) (\<lambda>key.
         Inr (PDict [(''table_name'', PStr name),
                (''item'', case map_of (t_items t') key of Some r \<Rightarrow> item_view fmt t' r | None \<Rightarrow> PNone),
                (''previous'', PDict (case old of Some r \<Rightarrow> i_item r | None \<Rightarrow> []))], dset name t' ts)))))"

definition api_update_item ::
  "(string \<Rightarrow> string option) \<Rightarrow> telling \<Rightarrow> string \<Rightarrow> string \<Rightarrow> pyval dict \<Rightarrow> pyval dict \<Rightarrow> string \<Rightarrow> pyval dict \<Rightarrow> ddb_tables
     \<Rightarrow> (pyval \<times> ddb_tables) result" where
  "api_update_item flt tell now name key updates expr vals ts =
     rest_table name ts (\<lambda>t.
       rbind (update_item flt tell now [(''key'', PDict key), (''attribute_updates'', PDict updates),
           (''update_expression'', PStr expr), (''expression_attribute_values'', PDict vals)] t) (\<lambda>(r, t').
         Inr (PDict [(''table_name'', PStr name), (''item'', PDict (i_item r))], dset name t' ts)))"

definition api_delete_item ::
  "(string \<Rightarrow> string option) \<Rightarrow> telling \<Rightarrow> string \<Rightarrow> string \<Rightarrow> pyval dict \<Rightarrow> ddb_tables \<Rightarrow> (pyval \<times> ddb_tables) result" where
  "api_delete_item flt tell now name key ts =
     rest_table name ts (\<lambda>t.
       rbind (delete_item flt tell now [(''key'', PDict key)] t) (\<lambda>(old, t').
         Inr (PDict [(''table_name'', PStr name), (''deleted'', PBool True),
                (''item'', PDict (case old of Some r \<Rightarrow> i_item r | None \<Rightarrow> []))], dset name t' ts)))"

record query_request =
  k_pk :: pyval
  k_equals :: pyval
  k_begins :: string
  k_between :: "pyval list"
  k_limit :: int
  k_expr :: string
  k_values :: "pyval dict"
  k_names :: "pyval dict"

definition query_payload :: "query_request \<Rightarrow> pyval dict" where
  "query_payload q =
     [(''partition_key_value'', k_pk q), (''sort_key_equals'', k_equals q), (''sort_key_begins_with'', PStr (k_begins q)),
      (''sort_key_between'', PList (k_between q)), (''limit'', PInt (k_limit q)), (''key_condition_expression'', PStr (k_expr q)),
      (''expression_attribute_values'', PDict (k_values q)), (''expression_attribute_names'', PDict (k_names q))]"

definition rows_view :: "(int \<Rightarrow> string) \<Rightarrow> ddb_table \<Rightarrow> string \<Rightarrow> ddb_item list \<times> nat \<Rightarrow> pyval result" where
  "rows_view fmt t name = (\<lambda>(rows, scanned).
     Inr (PDict [(''table_name'', PStr name), (''items'', PList (map (item_view fmt t) rows)),
       (''count'', PInt (int (length rows))), (''scanned_count'', PInt (int scanned))]))"

definition api_query_items ::
  "(string \<Rightarrow> string option) \<Rightarrow> (int \<Rightarrow> string) \<Rightarrow> string \<Rightarrow> query_request \<Rightarrow> ddb_tables \<Rightarrow> pyval result" where
  "api_query_items flt fmt name q ts =
     rest_table name ts (\<lambda>t. rbind (rest_query flt (query_payload q) t) (rows_view fmt t name))"

definition api_scan_items :: "(int \<Rightarrow> string) \<Rightarrow> string \<Rightarrow> int \<Rightarrow> ddb_tables \<Rightarrow> pyval result" where
  "api_scan_items fmt name limit ts =
     rest_table name ts (\<lambda>t. rbind (scan_filter [(''limit'', PInt limit)] t) (rows_view fmt t name))"

definition api_list_items ::
  "(int \<Rightarrow> string) \<Rightarrow> string \<Rightarrow> string \<Rightarrow> string \<Rightarrow> ddb_tables \<Rightarrow> pyval result" where
  "api_list_items fmt acct now name ts =
     rest_table name ts (\<lambda>t. rbind (fst (table_view fmt acct now True t)) (\<lambda>d.
       Inr (PDict [(''table_name'', PStr name), (''items'', pget d ''item_rows''),
         (''count'', PInt (int (length (list_items (pget d ''item_rows'')))))])))"

definition api_tag_table :: "string \<Rightarrow> string \<Rightarrow> pyval dict \<Rightarrow> ddb_tables \<Rightarrow> (pyval \<times> ddb_tables) result" where
  "api_tag_table now name tags ts =
     rest_table name ts (\<lambda>t.
       rbind (as_dict (tags_view t)) (\<lambda>d.
       rbind (set_tags now (PDict (foldl (\<lambda>d (k, v). dset k v d) d (str_items tags))) t) (\<lambda>t'.
         Inr (PDict [(''table_name'', PStr name), (''tags'', tags_view t')], dset name t' ts))))"

definition api_untag_table :: "string \<Rightarrow> string \<Rightarrow> pyval \<Rightarrow> ddb_tables \<Rightarrow> (pyval \<times> ddb_tables) result" where
  "api_untag_table now name payload ts =
     rest_table name ts (\<lambda>t.
       rbind (case payload of PDict p \<Rightarrow> py_iter (dget p ''keys'' (PList [])) | _ \<Rightarrow> Inr []) (\<lambda>ks.
       rbind (as_dict (tags_view t)) (\<lambda>d.
       rbind (set_tags now (PDict (drop_tags ks d)) t) (\<lambda>t'.
         Inr (PDict [(''table_name'', PStr name), (''tags'', tags_view t')], dset name t' ts)))))"

end
