(* ===== verification/Ddb_Props.thy ===== *)
theory Ddb_Props
imports Ddb_API
begin

text \<open>What the DynamoDB calls promise: typed values on the wire, tables that stay in order under every call of the wire
  protocol, shard iterators that deliver every record once, and where the calls depart from what an SDK expects.\<close>

section \<open>Typed values\<close>

text \<open>The values of the wire: one tag from the list of types with a payload of its kind, all the way down.\<close>

fun wire_value :: "pyval \<Rightarrow> bool" where
  "wire_value (PDict [(t, raw)]) =
     (case raw of
        PStr s \<Rightarrow> t = ''S'' \<or> t = ''N''
      | PBool b \<Rightarrow> t = ''BOOL'' \<or> t = ''NULL'' \<and> b
      | PList xs \<Rightarrow> (t = ''SS'' \<or> t = ''NS'') \<and> list_all is_str xs \<or> t = ''L'' \<and> (\<forall>x\<in>set xs. wire_value x)
      | PDict d \<Rightarrow> t = ''M'' \<and> (\<forall>(k, v)\<in>set d. wire_value v)
      | _ \<Rightarrow> False)"
| "wire_value _ = False"


section \<open>Tables in order\<close>

definition tables_ok :: "ddb_tables \<Rightarrow> bool" where
  "tables_ok ts \<longleftrightarrow> wf_dict ts \<and> list_all (\<lambda>(n, t). t_name t = n \<and> table_ok t) ts"

lemma tables_ok_found: "tables_ok ts \<Longrightarrow> map_of ts n = Some t \<Longrightarrow> t_name t = n \<and> table_ok t"
  by (auto simp: tables_ok_def list_all_iff dest!: map_of_in_dict)

lemma tables_ok_dset: "tables_ok ts \<Longrightarrow> t_name t = n \<Longrightarrow> table_ok t \<Longrightarrow> tables_ok (dset n t ts)"
  by (simp add: tables_ok_def wf_dset list_all_dset)

lemma tables_ok_dpop: "tables_ok ts \<Longrightarrow> tables_ok (dpop n ts)"
  by (simp add: tables_ok_def wf_dpop list_all_dpop)

lemma refresh_ok: "table_ok t \<Longrightarrow> table_ok (refresh_metrics now t) \<and> t_name (refresh_metrics now t) = t_name t"
  using stored_ok_cong [of "refresh_metrics now t" t] by (simp add: table_ok_def) (simp add: refresh_metrics_def)

lemma view_named_state: "snd (view_named fmt acct now w n t ts) = dset n (refresh_metrics now t) ts"
  by (simp add: view_named_def table_view_def Let_def)

lemma view_named_ok: "tables_ok ts \<Longrightarrow> table_ok t \<Longrightarrow> t_name t = n \<Longrightarrow> tables_ok (snd (view_named fmt acct now w n t ts))"
  using refresh_ok by (simp add: view_named_state tables_ok_dset)

lemma view_all_ok: "tables_ok ts \<Longrightarrow> tables_ok (snd (view_all fmt acct now ns ts))"
proof (induction ns arbitrary: ts)
  case (Cons n ns)
  show ?case
  proof (cases "map_of ts n")
    case None then show ?thesis using Cons by simp
  next
    case (Some t)
    obtain v ts1 where v: "view_named fmt acct now False n t ts = (v, ts1)" by (cases "view_named fmt acct now False n t ts")
    have ok: "tables_ok ts1" using view_named_ok [of ts t n fmt acct now False] tables_ok_found [OF Cons.prems Some] Cons.prems v by simp
    show ?thesis using Some v ok Cons.IH [OF ok] by (cases v) (auto simp: Let_def split: prod.splits)
  qed
qed simp

lemma put_item_name: "put_item flt untold now p t = Inr (old, t') \<Longrightarrow> t_name t' = t_name t"
  by (auto simp: put_item_def rbind_Inr untold_def refresh_metrics_def Let_def)

lemma delete_item_name: "delete_item flt untold now p t = Inr (old, t') \<Longrightarrow> t_name t' = t_name t"
  by (auto simp: delete_item_def rbind_Inr untold_def refresh_metrics_def Let_def split: option.splits)

lemma update_item_name: "update_item flt untold now p t = Inr (r, t') \<Longrightarrow> t_name t' = t_name t"
  by (auto simp: update_item_def rbind_Inr untold_def refresh_metrics_def Let_def split: option.splits)

lemma put_item_ok: "table_ok t \<Longrightarrow> put_item flt untold now p t = Inr (old, t') \<Longrightarrow> table_ok t' \<and> t_name t' = t_name t"
  using put_keeps_table [OF _ tells_untold] put_item_name by blast

lemma delete_item_ok: "table_ok t \<Longrightarrow> delete_item flt untold now p t = Inr (old, t') \<Longrightarrow> table_ok t' \<and> t_name t' = t_name t"
  using delete_keeps_table [OF _ tells_untold] delete_item_name by blast

lemma update_item_ok:
  "table_ok t \<Longrightarrow> t_pk t \<notin> set (updated_names p) \<Longrightarrow> t_sk t \<notin> set (updated_names p)
    \<Longrightarrow> update_item flt untold now p t = Inr (r, t') \<Longrightarrow> table_ok t' \<and> t_name t' = t_name t"
  using update_keeps_table [OF _ tells_untold] update_item_name by blast

lemma batch_op_ok:
  assumes "table_ok t" and "batch_op flt now op t = Inr t'"
  shows "table_ok t' \<and> t_name t' = t_name t"
proof -
  from assms(2) consider (put) i old where "put_item flt untold now [(''item'', i)] t = Inr (old, t')"
    | (del) k old where "delete_item flt untold now [(''key'', k)] t = Inr (old, t')" | (none) "t' = t"
    by (auto simp: batch_op_def rbind_Inr split: if_splits)
  then show ?thesis
    by cases (use assms(1) put_item_ok delete_item_ok in blast)+
qed

lemma batch_ops_ok: "table_ok t \<Longrightarrow> batch_ops flt now ops t = (e, t') \<Longrightarrow> table_ok t' \<and> t_name t' = t_name t"
proof (induction ops arbitrary: t)
  case (Cons op ops)
  show ?case
  proof (cases "batch_op flt now op t")
    case (Inl x) then show ?thesis using Cons.prems by simp
  next
    case (Inr t1)
    with Cons.prems have "batch_ops flt now ops t1 = (e, t')" by simp
    then show ?thesis using Cons.IH [of t1] batch_op_ok [OF Cons.prems(1) Inr] by simp
  qed
qed simp

lemma batch_write_ok: "tables_ok ts \<Longrightarrow> tables_ok (snd (batch_write flt now reqs ts))"
proof (induction reqs arbitrary: ts)
  case (Cons r reqs)
  obtain n ops where r: "r = (n, ops)" by (cases r)
  show ?case
  proof (cases "map_of ts n")
    case None then show ?thesis using Cons by (simp add: r)
  next
    case (Some t)
    show ?thesis
    proof (cases "py_iter (py_or ops (PList []))")
      case (Inl e) then show ?thesis using Some Cons.prems by (simp add: r)
    next
      case (Inr os)
      obtain e t' where b: "batch_ops flt now os t = (e, t')" by (cases "batch_ops flt now os t")
      have "tables_ok (dset n t' ts)"
        using batch_ops_ok [OF _ b] tables_ok_found [OF Cons.prems Some] tables_ok_dset [OF Cons.prems, of t' n] by simp
      then show ?thesis using Some Inr b Cons.IH by (cases e) (simp_all add: r)
    qed
  qed
qed simp

lemma new_table_ok: "new_table now name p k s = Inr t \<Longrightarrow> table_ok t \<and> t_name t = name"
  by (cases k; cases s) (auto simp: new_table_def rbind_Inr table_ok_def wf_dict_def)

lemma sdk_create_ok:
  "tables_ok ts \<Longrightarrow> sdk_create_table now p ts = Inr (t, ts') \<Longrightarrow> tables_ok ts' \<and> table_ok t"
  by (auto simp: sdk_create_table_def rbind_Inr dest!: new_table_ok intro: tables_ok_dset)

lemma on_table_ok:
  assumes "tables_ok ts" and "\<And>t. map_of ts (sdk_name p) = Some t \<Longrightarrow> table_ok t \<Longrightarrow> t_name t = sdk_name p \<Longrightarrow> tables_ok (snd (f (sdk_name p) t))"
  shows "tables_ok (snd (on_table p ts f))"
  using assms tables_ok_found [OF assms(1)] by (cases "map_of ts (sdk_name p)") (simp_all add: on_table_def)

lemma reading_ok: "tables_ok ts \<Longrightarrow> tables_ok (snd (reading ts r f))"
  by (simp add: reading_def)

lemma writing_ok:
  assumes "tables_ok ts" and "\<And>x t'. r = Inr (x, t') \<Longrightarrow> table_ok t' \<and> t_name t' = n"
  shows "tables_ok (snd (writing ts n r f))"
  using assms by (cases r) (auto simp: writing_def intro: tables_ok_dset)

lemma set_tags_ok: "table_ok t \<Longrightarrow> set_tags now v t = Inr t' \<Longrightarrow> table_ok t' \<and> t_name t' = t_name t"
  using stored_ok_cong [of t' t] by (auto simp: set_tags_def rbind_Inr table_ok_def)

lemma tag_resource_ok: "table_ok t \<Longrightarrow> tag_resource now p t = Inr (x, t') \<Longrightarrow> table_ok t' \<and> t_name t' = t_name t"
  by (auto simp: tag_resource_def rbind_Inr dest: set_tags_ok)

lemma untag_resource_ok: "table_ok t \<Longrightarrow> untag_resource now p t = Inr (x, t') \<Longrightarrow> table_ok t' \<and> t_name t' = t_name t"
  by (auto simp: untag_resource_def rbind_Inr dest: set_tags_ok)

lemma snd_if: "(c \<Longrightarrow> tables_ok (snd x)) \<Longrightarrow> (\<not> c \<Longrightarrow> tables_ok (snd y)) \<Longrightarrow> tables_ok (snd (if c then x else y))"
  by simp

lemma snd_view: "P (snd v) \<Longrightarrow> P (snd (let (a, ts) = v in (f a, ts)))"
  by (simp add: case_prod_beta Let_def)

lemma sdk_create_state:
  assumes "tables_ok ts"
  shows "tables_ok (snd (case sdk_create_table now p ts of Inl e \<Rightarrow> (Inl e, ts)
    | Inr (t, ts1) \<Rightarrow> (let (v, ts2) = view_named fmt acct now False (t_name t) t ts1 in (f v, ts2))))"
  using assms sdk_create_ok [OF assms] view_named_ok by (auto split: sum.split prod.split simp: case_prod_beta Let_def)

lemma sdk_describe_state:
  assumes "tables_ok ts"
  shows "tables_ok (snd (case map_of ts n of None \<Rightarrow> (a, ts)
    | Some t \<Rightarrow> (let (v, ts') = view_named fmt acct now True n t ts in (f v, ts'))))"
  using assms tables_ok_found [OF assms] view_named_ok by (auto split: option.split simp: case_prod_beta Let_def)

lemma sdk_delete_state:
  "tables_ok ts \<Longrightarrow> tables_ok (snd (case delete_table n ts of Inl e \<Rightarrow> (Inl e, ts) | Inr ts' \<Rightarrow> (a, ts')))"
  by (auto simp: delete_table_def tables_ok_dpop)

lemma list_tables_ok: "tables_ok ts \<Longrightarrow> tables_ok (snd (list_tables fmt acct now ts))"
  by (simp add: list_tables_def case_prod_beta Let_def view_all_ok)

lemma sdk_list_state: "tables_ok ts \<Longrightarrow> tables_ok (snd (let (v, ts') = list_tables fmt acct now ts in (f v, ts')))"
  by (rule snd_view) (rule list_tables_ok)

lemma sdk_batch_state:
  "tables_ok ts \<Longrightarrow> tables_ok (snd (case r of Inl e \<Rightarrow> (Inl e, ts) | Inr reqs \<Rightarrow> batch_write flt now reqs ts))"
  by (auto simp: batch_write_ok split: sum.split)


section \<open>Reading a stream\<close>

text \<open>A consumer that follows the iterators it is given, \<open>f\<close> calls at most.\<close>

fun follow :: "nat \<Rightarrow> ddb_tables \<Rightarrow> int \<Rightarrow> string \<Rightarrow> pyval list option" where
  "follow 0 ts n it = None"
| "follow (Suc f) ts n it =
     (case get_records ts [(''ShardIterator'', PStr it), (''Limit'', PInt n)] of
        Inr (_, PDict d) \<Rightarrow>
          (case pget d ''NextShardIterator'' of
             PStr it' \<Rightarrow> map_option ((@) (list_items (pget d ''Records''))) (follow f ts n it')
           | _ \<Rightarrow> (if dhas d ''Records'' then Some (list_items (pget d ''Records'')) else None))
      | _ \<Rightarrow> None)"

lemma read_iterator_text:
  assumes "json_ok shard" and "json_ok kind"
  shows "read_iterator (PStr (iterator_text (PStr arn) shard kind i))
    = Some (PDict [(''stream_arn'', PStr arn), (''shard_id'', shard), (''type'', kind), (''position'', PInt i)])"
  using assms by (simp add: read_iterator_def iterator_text_def wf_dict_def)

lemma py_slice_page: "i \<le> length xs \<Longrightarrow> 0 \<le> n \<Longrightarrow> py_slice (int i) (int i + n) xs = take (nat n) (drop i xs)"
  by (auto simp: py_slice_def Let_def min_def)

lemma get_records_page:
  assumes "stream_table ts (PStr arn) = Some t" and "json_ok shard" and "json_ok kind" and "i \<le> length (t_records t)" and "1 \<le> n"
  shows "get_records ts [(''ShardIterator'', PStr (iterator_text (PStr arn) shard kind (int i))), (''Limit'', PInt n)]
    = (let m = nat (min n 1000) in
       sdk_ok [(''Records'', PList (take m (drop i (t_records t)))),
               (''NextShardIterator'', if i + m < length (t_records t)
                  then PStr (iterator_text (PStr arn) shard (PStr ''AT_SEQUENCE_NUMBER'') (int (i + m))) else PNone)])"
proof -
  have l: "int i + int (length (take (nat (min n 1000)) (drop i (t_records t)))) < int (length (t_records t))
      \<longleftrightarrow> i + nat (min n 1000) < length (t_records t)"
    "i + nat (min n 1000) < length (t_records t) \<Longrightarrow> length (take (nat (min n 1000)) (drop i (t_records t))) = nat (min n 1000)"
    using assms(4) by (auto simp: min_def)
  show ?thesis
    using assms l read_iterator_text [OF assms(2,3), of arn "int i"]
    by (auto simp: get_records_def dget_def py_slice_page Let_def simp del: length_take)
qed

lemma follow_rest:
  assumes "stream_table ts (PStr arn) = Some t" and "json_ok shard" and "1 \<le> n"
  shows "json_ok kind \<Longrightarrow> i \<le> length (t_records t) \<Longrightarrow> length (t_records t) - i < f
    \<Longrightarrow> follow f ts n (iterator_text (PStr arn) shard kind (int i)) = Some (drop i (t_records t))"
proof (induction f arbitrary: i kind)
  case (Suc f)
  let ?m = "nat (min n 1000)"
  have g: "get_records ts [(''ShardIterator'', PStr (iterator_text (PStr arn) shard kind (int i))), (''Limit'', PInt n)]
    = sdk_ok [(''Records'', PList (take ?m (drop i (t_records t)))),
               (''NextShardIterator'', if i + ?m < length (t_records t)
                  then PStr (iterator_text (PStr arn) shard (PStr ''AT_SEQUENCE_NUMBER'') (int (i + ?m))) else PNone)]"
    using get_records_page [OF assms(1,2) Suc.prems(1,2) assms(3)] by (simp add: Let_def)
  show ?case
  proof (cases "i + ?m < length (t_records t)")
    case True
    have "0 < ?m" using assms(3) by simp
    then have "follow f ts n (iterator_text (PStr arn) shard (PStr ''AT_SEQUENCE_NUMBER'') (int (i + ?m))) = Some (drop (i + ?m) (t_records t))"
      using True Suc.prems by (intro Suc.IH) simp_all
    moreover have "take ?m (drop i (t_records t)) @ drop (i + ?m) (t_records t) = drop i (t_records t)"
      by (metis add.commute append_take_drop_id drop_drop)
    ultimately show ?thesis using True by (simp add: g sdk_ok_def pget_def dget_def list_items_def del: of_nat_add)
  next
    case False
    then show ?thesis by (simp add: g sdk_ok_def pget_def dget_def list_items_def dhas_def)
  qed
qed simp

text \<open>C32. A consumer that starts with the iterator of \<open>GetShardIterator\<close> and follows the iterators it is given, with any page
  size from one, comes to an end after at most one call more than there are records, and has seen every kept record once,
  in order.\<close>

theorem ddb_stream_read_out:
  assumes "stream_table ts (PStr arn) = Some t" and "1 \<le> n" and "json_ok shard" and "json_ok kind"
  shows "\<exists>it. get_shard_iterator [(''StreamArn'', PStr arn), (''ShardId'', shard), (''ShardIteratorType'', kind)]
      = sdk_ok [(''ShardIterator'', PStr it)]
    \<and> follow (Suc (length (t_records t))) ts n it = Some (t_records t)"
proof -
  have "get_shard_iterator [(''StreamArn'', PStr arn), (''ShardId'', shard), (''ShardIteratorType'', kind)]
      = sdk_ok [(''ShardIterator'', PStr (iterator_text (PStr arn) shard kind 0))]"
    by (simp add: get_shard_iterator_def dget_def)
  moreover have "follow (Suc (length (t_records t))) ts n (iterator_text (PStr arn) shard kind 0) = Some (t_records t)"
    using follow_rest [OF assms(1,3,2,4), of 0 "Suc (length (t_records t))"] by (simp del: follow.simps)
  ultimately show ?thesis by blast
qed

text \<open>Once a table keeps 1000 stream records, every further write gives its record the same sequence number and drops the
  oldest one.\<close>

theorem ddb_sequence_numbers_stick:
  assumes "s_enabled (t_stream t)" and "length (t_records t) = 1000"
  shows "let t1 = emit_stream now uuid event old new t in
      t_records t1 = tl (t_records t) @ [stream_record now uuid t event old new]
    \<and> length (t_records t1) = 1000 \<and> sequence_number t1 = sequence_number t"
  using assms by (auto simp: emit_stream_def last_n_def sequence_number_def Let_def drop_Suc)

section \<open>Where the calls depart from what an SDK expects\<close>

lemma those_keys: "those (map (\<lambda>(k, v). map_option (Pair k) (f v)) d) = Some e \<Longrightarrow> map fst e = map fst d"
proof (induction d arbitrary: e)
  case (Cons x d)
  then show ?case by (cases x) (auto split: option.splits)
qed simp

lemma native_keys:
  assumes "item_to_native_item flt (PDict d) = Inr e"
  shows "dhas e k = dhas d k"
proof -
  have "map fst e = map fst d"
    using assms by (auto simp: item_to_native_item_def split: option.splits intro: those_keys)
  then show ?thesis by (simp only: dhas_iff_keys)
qed

lemma rbind_fails: "\<exists>e. r = Inl e \<Longrightarrow> \<exists>e. rbind r f = Inl e"
  by auto

lemma action_put: "sdk_action ''DynamoDB_20120810.PutItem'' = ''PutItem''"
  by code_simp

text \<open>The wire protocol's \<open>CreateTable\<close> does not read \<open>KeySchema\<close>: whatever schema the request holds, a request without
  the console's own fields makes a table whose only key is \<open>id\<close>, and every item without an attribute \<open>id\<close> is then refused.\<close>

theorem ddb_create_ignores_key_schema:
  assumes "sdk_create_table now p ts = Inr (t, ts')"
    and "\<not> truthy (either_of p ''partition_key_name'' ''PartitionKeyName'')" and "\<not> truthy (either_of p ''sort_key_name'' ''SortKeyName'')"
    and "item_to_native_item flt (PDict item) = Inr native" and "item \<noteq> []" and "\<not> dhas item ''id''"
  shows "t_pk t = ''id'' \<and> t_sk t = []
    \<and> sdk_handler flt fmt acct now' ''DynamoDB_20120810.PutItem'' [(''TableName'', PStr (t_name t)), (''Item'', PDict item)] ts'
      = (Inl (invalid (''Missing partition key '' @ CHR 0x27 # ''id'' @ [CHR 0x27, CHR ''.''])), ts')"
proof -
  from assms(1) obtain name where n: "fresh_name p ts = Inr name" "ts' = dset name t ts"
    and t: "new_table now name p (given_pk p, upper_or p ''partition_key_type'' ''PartitionKeyType'' ''S'')
         (given_sk p, upper_or p ''sort_key_type'' ''SortKeyType'' ''S'') = Inr t"
    by (auto simp: sdk_create_table_def rbind_Inr)
  have pk: "given_pk p = ''id''"
  proof -
    have "strip ''id'' = ''id''" by code_simp
    then show ?thesis using assms(2) by (simp add: given_pk_def text_or_def py_or_def str_or_def)
  qed
  have "given_sk p = []" using assms(3) by (simp add: given_sk_def text_or_def py_or_def)
  then have keys: "t_pk t = ''id''" "t_sk t = []" "t_name t = name" using t pk by (auto simp: new_table_def rbind_Inr)
  have name: "strip name = name" "name \<noteq> []"
    using n(1) by (auto simp: fresh_name_def text_or_def Let_def split: if_splits)
  have m: "map_of ts' name = Some t" by (simp add: n(2) dict_simps)
  have k: "item_key_string t native = Inl (invalid (''Missing partition key '' @ CHR 0x27 # ''id'' @ [CHR 0x27, CHR ''.'']))"
    using assms(6) native_keys [OF assms(4), of "''id''"] by (simp add: item_key_string_def item_key_tuple_def keys)
  let ?p = "[(''TableName'', PStr name), (''Item'', PDict item)]"
  have "put_item flt untold now' ?p t = Inl (invalid (''Missing partition key '' @ CHR 0x27 # ''id'' @ [CHR 0x27, CHR ''.'']))"
    using assms(4,5) k by (simp add: put_item_def native_of_def either_of_def pget_def dget_def py_or_def)
  moreover have "sdk_name ?p = name"
    using name by (simp add: sdk_name_def either_of_def pget_def dget_def py_or_def)
  ultimately show ?thesis
    using m keys by (simp add: sdk_handler_def action_put on_table_def writing_def)
qed

lemma rmap_Inl: "x \<in> set xs \<Longrightarrow> f x = Inl e \<Longrightarrow> \<exists>e. rmap f xs = Inl e"
proof (induction xs)
  case (Cons y ys)
  show ?case
  proof (cases "f y")
    case (Inr z)
    then have "x \<in> set ys" using Cons.prems by auto
    then show ?thesis using Cons Inr by fastforce
  qed simp
qed simp

lemma view_fails:
  assumes "(key, r) \<in> set (t_items t)" and "item_key_tuple t (i_item r) = Inl e"
  shows "\<exists>e. fst (table_view fmt acct now w t) = Inl e"
proof -
  have "item_key_tuple (refresh_metrics now t) = item_key_tuple t" by (rule item_key_fields) simp_all
  then have "key_row (refresh_metrics now t) r = Inl e" using assms(2) by (simp add: key_row_def)
  moreover have "r \<in> set (map snd (t_items t))" using assms(1) by force
  ultimately have "\<exists>e. rmap (key_row (refresh_metrics now t)) (map snd (t_items t)) = Inl e" using rmap_Inl by metis
  then show ?thesis by (auto simp: table_view_def sorted_rows_def Let_def)
qed

lemma view_all_fails:
  assumes "\<And>w now'. \<exists>e. fst (table_view fmt acct now' w t) = Inl e"
  shows "n \<in> set ns \<Longrightarrow> map_of ts n = Some t \<Longrightarrow> \<exists>e. fst (view_all fmt acct now ns ts) = Inl e"
proof (induction ns arbitrary: ts)
  case (Cons m ns)
  show ?case
  proof (cases "m = n")
    case True
    then show ?thesis using Cons.prems assms [of now False]
      by (auto simp: view_named_def case_prod_beta Let_def)
  next
    case False
    then have m: "n \<in> set ns" "map_of (dset m x ts) n = Some t" for x using Cons.prems by (simp_all add: dict_simps)
    show ?thesis
    proof (cases "map_of ts m")
      case None then show ?thesis using Cons.IH [OF m(1) Cons.prems(2)] by simp
    next
      case (Some u)
      have "\<exists>e. rbind (fst (view_all fmt acct now ns (dset m x ts))) (\<lambda>ds. Inr (b # ds)) = Inl e" for x b
        by (rule rbind_fails [OF Cons.IH [OF m]])
      then show ?thesis using Some
        by (cases "fst (view_named fmt acct now False m u ts)") (auto simp: view_named_def case_prod_beta Let_def)
    qed
  qed
qed simp

text \<open>An update may take the partition key out of an item: the call succeeds, and from then on describing the table,
  listing its items and listing all tables fail with a validation error.\<close>

theorem ddb_update_can_lose_key:
  assumes "table_ok t" and "item_to_native_item flt (PDict kd) = Inr native" and "kd \<noteq> []" and "item_key_tuple t native = Inr k"
    and "update_item flt untold now [(''Key'', PDict kd),
          (''AttributeUpdates'', PDict [(t_pk t, PDict [(''Action'', PStr ''DELETE'')])])] t = Inr (r, t')"
  shows "(\<exists>e. fst (table_view fmt acct now' w t') = Inl e)
    \<and> (\<exists>e. fst (list_tables fmt acct now' (dset n t' ts)) = Inl e)"
proof -
  let ?p = "[(''Key'', PDict kd), (''AttributeUpdates'', PDict [(t_pk t, PDict [(''Action'', PStr ''DELETE'')])])]"
  have nk: "native_of flt ?p ''key'' ''Key'' = Inr native"
    using assms(2,3) by (simp add: native_of_def either_of_def pget_def dget_def py_or_def)
  have up: "upper ''DELETE'' = ''DELETE''" by code_simp
  have a: "apply_update flt ?p base = Inr (dpop (t_pk t) base)" for base
    by (simp add: apply_update_def either_of_def pget_def dget_def py_or_def attribute_update_def up Let_def)
  obtain base where "t_items t' = dset (key_text k) (item_record now (map_of (t_items t) (key_text k)) (dpop (t_pk t) base)) (t_items t)"
    and f: "t_pk t' = t_pk t" "t_sk t' = t_sk t"
    using update_item_result [OF nk assms(4) tells_untold a, of now] assms(5) by auto
  then have m: "map_of (t_items t') (key_text k) = Some (item_record now (map_of (t_items t) (key_text k)) (dpop (t_pk t) base))"
    by (simp add: dict_simps)
  have "\<exists>e. item_key_tuple t' (dpop (t_pk t) base) = Inl e"
    by (simp add: item_key_tuple_def f dict_simps)
  then obtain e where e: "item_key_tuple t' (i_item (item_record now (map_of (t_items t) (key_text k)) (dpop (t_pk t) base))) = Inl e"
    by (auto simp: item_record_def)
  note v = view_fails [OF map_of_in_dict [OF m] e]
  have "n \<in> set (sort_key id (map fst (dset n t' ts)))" "map_of (dset n t' ts) n = Some t'"
    using dhas_iff_keys [of "dset n t' ts" n] by (auto simp: dict_simps dhas_dset)
  from rbind_fails [OF view_all_fails [OF v this]] show ?thesis using v
    by (simp add: list_tables_def case_prod_beta Let_def)
qed

section \<open>Concrete runs\<close>

definition demo_no_float :: "string \<Rightarrow> string option" where
  "demo_no_float s = None"

definition demo_attrs :: "pyval dict" where
  "demo_attrs = [(''id'', PStr ''a''), (''n'', PInt 1)]"

definition demo_stream :: ddb_stream where
  "demo_stream = \<lparr>s_enabled = True, s_view = PStr ''KEYS_ONLY'', s_arn = PStr ''arn'', s_label = ''l''\<rparr>"

definition demo_table :: ddb_table where
  "demo_table =
     \<lparr>t_name = ''t'', t_pk = ''id'', t_pk_type = ''S'', t_sk = [], t_sk_type = ''S'', t_billing = ''PAY_PER_REQUEST'',
      t_throughput = (5, 5), t_tags = PDict [], t_indexes = [], t_attributes = [(''id'', ''S'')], t_stream = demo_stream,
      t_records = [PInt 1, PInt 2, PInt 3],
      t_items = [(key_text (PStr ''a'', PNone), item_record ''now'' None demo_attrs)], t_count = 1, t_size = 0,
      t_created = ''now'', t_modified = ''now''\<rparr>"

definition demo_wire :: pyval where
  "demo_wire = PDict [(''id'', PDict [(''S'', PStr ''a'')])]"

lemma demo_native: "item_to_native_item demo_no_float demo_wire = Inr [(''id'', PStr ''a'')]"
  by code_simp

lemma demo_table_ok: "table_ok demo_table"
  by (simp add: table_ok_def demo_table_def wf_dict_def stored_ok_def item_record_def item_key_string_def item_key_tuple_def
      demo_attrs_def dhas_def pget_def dget_def)

lemma demo_tables_ok: "tables_ok [(''t'', demo_table)]"
  using demo_table_ok by (simp add: tables_ok_def wf_dict_def) (simp add: demo_table_def)

lemma demo_key: "item_key_tuple demo_table [(''id'', PStr ''a'')] = Inr (PStr ''a'', PNone)"
  by (simp add: item_key_tuple_def demo_table_def dhas_def pget_def dget_def)

lemma demo_map: "items_map demo_table (PStr ''a'', PNone) = Some demo_attrs"
  by (simp add: items_map_def demo_table_def item_record_def)

theorem ddb_refines_map_witness:
  "(\<exists>r t'. update_item demo_no_float untold ''later'' [(''Item'', demo_wire), (''Key'', demo_wire)] demo_table = Inr (r, t')
     \<and> i_item r = demo_attrs)
   \<and> (\<exists>r. get_item demo_no_float [(''Item'', demo_wire), (''Key'', demo_wire)] demo_table = Inr r \<and> map_option i_item r = Some demo_attrs)"
proof -
  let ?p = "[(''Item'', demo_wire), (''Key'', demo_wire)]"
  have n: "native_of demo_no_float ?p ''item'' ''Item'' = Inr [(''id'', PStr ''a'')]"
    "native_of demo_no_float ?p ''key'' ''Key'' = Inr [(''id'', PStr ''a'')]"
    using demo_native by (simp_all add: native_of_def either_of_def pget_def dget_def py_or_def) (simp_all add: demo_wire_def)
  have e: "upper (strip []) = []" by (simp add: upper_def)
  have "apply_update demo_no_float ?p demo_attrs = Inr demo_attrs"
    by (simp add: apply_update_def either_of_def pget_def dget_def py_or_def Let_def) (simp add: upper_def)
  then have "apply_update demo_no_float ?p (case items_map demo_table (PStr ''a'', PNone) of Some i \<Rightarrow> (if i = [] then [(''id'', PStr ''a'')] else i) | None \<Rightarrow> [(''id'', PStr ''a'')]) = Inr demo_attrs"
    by (simp add: demo_map) (simp add: demo_attrs_def)
  from ddb_refines_map [OF tells_untold _ n(1) demo_key n(2) demo_key this, of "''later''"] show ?thesis
    by (simp add: key_ok_def demo_map) blast
qed


theorem ddb_stream_read_out_witness:
  "\<exists>it. get_shard_iterator [(''StreamArn'', PStr ''arn''), (''ShardId'', PStr ''s''), (''ShardIteratorType'', PStr ''TRIM_HORIZON'')]
      = sdk_ok [(''ShardIterator'', PStr it)]
    \<and> follow (Suc (length (t_records demo_table))) [(''t'', demo_table)] 2 it = Some [PInt 1, PInt 2, PInt 3]"
proof -
  have s: "stream_table [(''t'', demo_table)] (PStr ''arn'') = Some demo_table"
    by (simp add: stream_table_def demo_table_def demo_stream_def)
  have r: "t_records demo_table = [PInt 1, PInt 2, PInt 3]" by (simp add: demo_table_def)
  show ?thesis using ddb_stream_read_out [OF s, of 2 "PStr ''s''" "PStr ''TRIM_HORIZON''"] unfolding r by simp
qed


definition demo_schema :: "pyval dict" where
  "demo_schema = [(''TableName'', PStr ''users''),
     (''KeySchema'', PList [PDict [(''AttributeName'', PStr ''email''), (''KeyType'', PStr ''HASH'')]])]"

theorem ddb_create_ignores_key_schema_witness:
  "\<exists>t ts'. sdk_create_table ''now'' demo_schema [] = Inr (t, ts') \<and> t_pk t = ''id''
     \<and> sdk_handler demo_no_float (\<lambda>_. []) ''1'' ''now'' ''DynamoDB_20120810.PutItem''
         [(''TableName'', PStr (t_name t)), (''Item'', PDict [(''email'', PDict [(''S'', PStr ''a@b'')])])] ts'
       = (Inl (invalid (''Missing partition key '' @ CHR 0x27 # ''id'' @ [CHR 0x27, CHR ''.''])), ts')"
proof -
  have "case sdk_create_table ''now'' demo_schema [] of Inl _ \<Rightarrow> False | Inr _ \<Rightarrow> True" by code_simp
  then obtain t ts' where c: "sdk_create_table ''now'' demo_schema [] = Inr (t, ts')" by (auto split: sum.splits)
  have "item_to_native_item demo_no_float (PDict [(''email'', PDict [(''S'', PStr ''a@b'')])]) = Inr [(''email'', PStr ''a@b'')]"
    by code_simp
  from ddb_create_ignores_key_schema [OF c _ _ this, of "\<lambda>_. []" "''1''" "''now''"] c show ?thesis
    by (simp add: demo_schema_def either_of_def pget_def dget_def py_or_def dhas_def)
qed

theorem ddb_update_can_lose_key_witness:
  "\<exists>r t'. update_item demo_no_float untold ''now'' [(''Key'', demo_wire),
        (''AttributeUpdates'', PDict [(''id'', PDict [(''Action'', PStr ''DELETE'')])])] demo_table = Inr (r, t')
     \<and> (\<exists>e. fst (table_view (\<lambda>_. []) ''1'' ''now'' True t') = Inl e)"
proof -
  have "case update_item demo_no_float untold ''now'' [(''Key'', demo_wire),
        (''AttributeUpdates'', PDict [(''id'', PDict [(''Action'', PStr ''DELETE'')])])] demo_table of Inl _ \<Rightarrow> False | Inr _ \<Rightarrow> True" by code_simp
  then obtain r t' where u: "update_item demo_no_float untold ''now'' [(''Key'', demo_wire),
        (''AttributeUpdates'', PDict [(''id'', PDict [(''Action'', PStr ''DELETE'')])])] demo_table = Inr (r, t')" by (auto split: sum.splits)
  have k: "t_pk demo_table = ''id''" by (simp add: demo_table_def)
  show ?thesis
    using ddb_update_can_lose_key [OF demo_table_ok demo_native [unfolded demo_wire_def] _ demo_key, of "''now''" r t'] u
    unfolding k demo_wire_def by simp
qed

end
