(* ===== verification/Azure_Catalog.thy ===== *)
theory Azure_Catalog
imports Py_Strings
begin

text \<open>The resource types of the Azure control plane (\<open>RESOURCE_CATALOG\<close> of \<open>providers/azure_services.py\<close>), entry by
  entry as the source spells them: names, API versions, columns and fields of the console, default properties and the
  paths of the endpoints.  A character outside ASCII stands as its bytes in UTF-8.\<close>

definition cat_vm :: "pyval dict" where
  "cat_vm =
     [(''key'', PStr ''vm''),
      (''label'', PStr ''Virtual Machines''),
      (''icon'', PStr ''computer''),
      (''namespace'', PStr ''Microsoft.Compute''),
      (''type'', PStr ''virtualMachines''),
      (''api_version'', PStr ''2023-09-01''),
      (''scope'', PStr ''rg''),
      (''columns'', PList [PList [PStr ''name'', PStr ''Name''], PList [PStr ''location'', PStr ''Location''],
        PList [PStr ''properties.hardwareProfile.vmSize'', PStr ''Size''], PList [PStr ''properties.provisioningState'', PStr ''Status'']]),
      (''create_fields'', PList [PDict [(''name'', PStr ''name''),
          (''label'', PStr ''Virtual machine name''),
          (''default'', PStr ''vm-demo'')], PDict [(''name'', PStr ''properties.hardwareProfile.vmSize''),
          (''label'', PStr ''Size''),
          (''default'', PStr ''Standard_B1s'')], PDict [(''name'', PStr ''properties.osProfile.computerName''),
          (''label'', PStr ''Computer name''),
          (''default'', PStr ''vm-demo'')]]),
      (''defaults'', PDict [(''properties'', PDict [(''hardwareProfile'', PDict [(''vmSize'', PStr ''Standard_B1s'')]),
          (''storageProfile'', PDict [(''imageReference'', PDict [(''publisher'', PStr ''Canonical''),
              (''offer'', PStr ''0001-com-ubuntu-server-jammy''),
              (''sku'', PStr ''22_04-lts''),
              (''version'', PStr ''latest'')])]),
          (''osProfile'', PDict [(''computerName'', PStr ''vm-demo''),
            (''adminUsername'', PStr ''azureuser'')]),
          (''provisioningState'', PStr ''Succeeded''),
          (''vmId'', PStr ''__UUID__'')])])]"

definition cat_storage :: "pyval dict" where
  "cat_storage =
     [(''key'', PStr ''storage''),
      (''label'', PStr ''Storage accounts''),
      (''icon'', PStr ''storage''),
      (''namespace'', PStr ''Microsoft.Storage''),
      (''type'', PStr ''storageAccounts''),
      (''api_version'', PStr ''2023-01-01''),
      (''scope'', PStr ''rg''),
      (''columns'', PList [PList [PStr ''name'', PStr ''Name''], PList [PStr ''location'', PStr ''Location''], PList [PStr ''sku.name'',
        PStr ''SKU''], PList [PStr ''kind'', PStr ''Kind''], PList [PStr ''properties.provisioningState'', PStr ''Status'']]),
      (''create_fields'', PList [PDict [(''name'', PStr ''name''),
          (''label'', PStr ''Storage account name''),
          (''default'', PStr ''stcloudlearn'')], PDict [(''name'', PStr ''sku.name''),
          (''label'', PStr ''Performance/redundancy''),
          (''default'', PStr ''Standard_LRS'')], PDict [(''name'', PStr ''kind''),
          (''label'', PStr ''Kind''),
          (''default'', PStr ''StorageV2'')]]),
      (''defaults'', PDict [(''sku'', PDict [(''name'', PStr ''Standard_LRS''),
          (''tier'', PStr ''Standard'')]),
        (''kind'', PStr ''StorageV2''),
        (''properties'', PDict [(''provisioningState'', PStr ''Succeeded''),
          (''accessTier'', PStr ''Hot'')])]),
      (''endpoints'', PDict [(''properties.primaryEndpoints.blob'', PStr ''/azure-data/blob/__NAME__/''),
        (''properties.primaryEndpoints.queue'', PStr ''/azure-data/queue/__NAME__/''),
        (''properties.primaryEndpoints.table'', PStr ''/azure-data/table/__NAME__/'')])]"

definition cat_sql :: "pyval dict" where
  "cat_sql =
     [(''key'', PStr ''sql''),
      (''label'', PStr ''SQL servers''),
      (''icon'', PStr ''database''),
      (''namespace'', PStr ''Microsoft.Sql''),
      (''type'', PStr ''servers''),
      (''api_version'', PStr ''2023-05-01-preview''),
      (''scope'', PStr ''rg''),
      (''children'', PList [PDict [(''type'', PStr ''databases''),
          (''label'', PStr ''Databases''),
          (''icon'', PStr ''database'')]]),
      (''columns'', PList [PList [PStr ''name'', PStr ''Name''], PList [PStr ''location'', PStr ''Location''],
        PList [PStr ''properties.administratorLogin'', PStr ''Admin''], PList [PStr ''properties.state'', PStr ''Status'']]),
      (''create_fields'', PList [PDict [(''name'', PStr ''name''),
          (''label'', PStr ''Server name''),
          (''default'', PStr ''sql-cloudlearn'')], PDict [(''name'', PStr ''properties.administratorLogin''),
          (''label'', PStr ''Admin login''),
          (''default'', PStr ''sqladmin'')], PDict [(''name'', PStr ''properties.version''),
          (''label'', PStr ''Version''),
          (''default'', PStr ''12.0'')]]),
      (''defaults'', PDict [(''properties'', PDict [(''administratorLogin'', PStr ''sqladmin''),
          (''version'', PStr ''12.0''),
          (''state'', PStr ''Ready'')])]),
      (''endpoints'', PDict [(''properties.fullyQualifiedDomainName'', PStr ''/azure-data/sql/__NAME__'')])]"

definition cat_servicebus :: "pyval dict" where
  "cat_servicebus =
     [(''key'', PStr ''servicebus''),
      (''label'', PStr ''Service Bus''),
      (''icon'', PStr ''queue''),
      (''namespace'', PStr ''Microsoft.ServiceBus''),
      (''type'', PStr ''namespaces''),
      (''api_version'', PStr ''2022-10-01-preview''),
      (''scope'', PStr ''rg''),
      (''notes'',
        PStr (''CloudLearn Service Bus supports REST messaging protocol. AMQP (Advanced Message Queuing Protocol) is not supported '' @ [CHR 0xE2, CHR 0x80, CHR 0x94] @ '' use HTTP REST endpoints for send/receive operations.'')),
      (''children'', PList [PDict [(''type'', PStr ''queues''),
          (''label'', PStr ''Queues''),
          (''icon'', PStr ''queue'')], PDict [(''type'', PStr ''topics''),
          (''label'', PStr ''Topics''),
          (''icon'', PStr ''campaign'')]]),
      (''columns'', PList [PList [PStr ''name'', PStr ''Name''], PList [PStr ''location'', PStr ''Location''], PList [PStr ''sku.name'',
        PStr ''Tier''], PList [PStr ''properties.provisioningState'', PStr ''Status'']]),
      (''create_fields'', PList [PDict [(''name'', PStr ''name''),
          (''label'', PStr ''Namespace name''),
          (''default'', PStr ''sb-cloudlearn'')], PDict [(''name'', PStr ''sku.name''),
          (''label'', PStr ''Pricing tier''),
          (''default'', PStr ''Standard'')]]),
      (''defaults'', PDict [(''sku'', PDict [(''name'', PStr ''Standard''),
          (''tier'', PStr ''Standard'')]),
        (''properties'', PDict [(''provisioningState'', PStr ''Succeeded''),
          (''status'', PStr ''Active''),
          (''serviceBusEndpoint'', PStr ''http://localhost:9000/azure-data/servicebus/__NAME__''),
          (''messagingProtocol'', PStr ''REST (AMQP not supported in simulator)'')])]),
      (''endpoints'', PDict [(''properties.serviceBusEndpoint'', PStr ''/azure-data/servicebus/__NAME__/'')])]"

definition cat_cosmos :: "pyval dict" where
  "cat_cosmos =
     [(''key'', PStr ''cosmos''),
      (''label'', PStr ''Cosmos DB''),
      (''icon'', PStr ''hub''),
      (''namespace'', PStr ''Microsoft.DocumentDB''),
      (''type'', PStr ''databaseAccounts''),
      (''api_version'', PStr ''2024-05-15''),
      (''scope'', PStr ''rg''),
      (''children'', PList [PDict [(''type'', PStr ''sqlDatabases''),
          (''label'', PStr ''SQL databases''),
          (''icon'', PStr ''database'')]]),
      (''columns'', PList [PList [PStr ''name'', PStr ''Name''], PList [PStr ''location'', PStr ''Location''], PList [PStr ''kind'',
        PStr ''Kind''], PList [PStr ''properties.provisioningState'', PStr ''Status'']]),
      (''create_fields'', PList [PDict [(''name'', PStr ''name''),
          (''label'', PStr ''Account name''),
          (''default'', PStr ''cosmos-cloudlearn'')], PDict [(''name'', PStr ''kind''),
          (''label'', PStr ''API''),
          (''default'', PStr ''GlobalDocumentDB'')]]),
      (''defaults'', PDict [(''kind'', PStr ''GlobalDocumentDB''),
        (''properties'', PDict [(''provisioningState'', PStr ''Succeeded''),
          (''databaseAccountOfferType'', PStr ''Standard''),
          (''consistencyPolicy'', PDict [(''defaultConsistencyLevel'', PStr ''Session'')])])]),
      (''endpoints'', PDict [(''properties.documentEndpoint'', PStr ''/azure-data/cosmos/__NAME__/'')])]"

definition cat_functionapp :: "pyval dict" where
  "cat_functionapp =
     [(''key'', PStr ''functionapp''),
      (''label'', PStr ''Function apps''),
      (''icon'', PStr ''bolt''),
      (''namespace'', PStr ''Microsoft.Web''),
      (''type'', PStr ''sites''),
      (''api_version'', PStr ''2023-12-01''),
      (''scope'', PStr ''rg''),
      (''columns'', PList [PList [PStr ''name'', PStr ''Name''], PList [PStr ''location'', PStr ''Location''], PList [PStr ''kind'',
        PStr ''Kind''], PList [PStr ''properties.state'', PStr ''Status'']]),
      (''create_fields'', PList [PDict [(''name'', PStr ''name''),
          (''label'', PStr ''Function app name''),
          (''default'', PStr ''fn-cloudlearn'')], PDict [(''name'', PStr ''properties.runtime''),
          (''label'', PStr ''Runtime''),
          (''default'', PStr ''python'')]]),
      (''defaults'', PDict [(''kind'', PStr ''functionapp''),
        (''properties'', PDict [(''state'', PStr ''Running''),
          (''runtime'', PStr ''python''),
          (''enabled'', PBool True)])]),
      (''endpoints'', PDict [(''properties.defaultHostName'', PStr ''/azure-data/functions/__NAME__'')])]"

definition cat_apim :: "pyval dict" where
  "cat_apim =
     [(''key'', PStr ''apim''),
      (''label'', PStr ''API Management''),
      (''icon'', PStr ''api''),
      (''namespace'', PStr ''Microsoft.ApiManagement''),
      (''type'', PStr ''service''),
      (''api_version'', PStr ''2023-05-01-preview''),
      (''scope'', PStr ''rg''),
      (''children'', PList [PDict [(''type'', PStr ''apis''),
          (''label'', PStr ''APIs''),
          (''icon'', PStr ''api'')], PDict [(''type'', PStr ''products''),
          (''label'', PStr ''Products''),
          (''icon'', PStr ''inventory_2'')], PDict [(''type'', PStr ''subscriptions''),
          (''label'', PStr ''Subscriptions''),
          (''icon'', PStr ''subscriptions'')]]),
      (''columns'', PList [PList [PStr ''name'', PStr ''Name''], PList [PStr ''location'', PStr ''Location''], PList [PStr ''sku.name'',
        PStr ''Tier''], PList [PStr ''properties.provisioningState'', PStr ''Status'']]),
      (''create_fields'', PList [PDict [(''name'', PStr ''name''),
          (''label'', PStr ''Service name''),
          (''default'', PStr ''apim-cloudlearn'')], PDict [(''name'', PStr ''sku.name''),
          (''label'', PStr ''Tier''),
          (''default'', PStr ''Developer'')], PDict [(''name'', PStr ''properties.publisherEmail''),
          (''label'', PStr ''Publisher email''),
          (''default'', PStr ''admin@cloudlearn.dev'')]]),
      (''defaults'', PDict [(''sku'', PDict [(''name'', PStr ''Developer''),
          (''capacity'', PInt 1)]),
        (''properties'', PDict [(''provisioningState'', PStr ''Succeeded''),
          (''publisherEmail'', PStr ''admin@cloudlearn.dev''),
          (''publisherName'', PStr ''CloudLearn'')])]),
      (''endpoints'', PDict [(''properties.gatewayUrl'', PStr ''/azure-data/apim/__NAME__'')])]"

definition cat_vnet :: "pyval dict" where
  "cat_vnet =
     [(''key'', PStr ''vnet''),
      (''label'', PStr ''Virtual networks''),
      (''icon'', PStr ''lan''),
      (''namespace'', PStr ''Microsoft.Network''),
      (''type'', PStr ''virtualNetworks''),
      (''api_version'', PStr ''2023-11-01''),
      (''scope'', PStr ''rg''),
      (''children'', PList [PDict [(''type'', PStr ''subnets''),
          (''label'', PStr ''Subnets''),
          (''icon'', PStr ''lan'')]]),
      (''columns'', PList [PList [PStr ''name'', PStr ''Name''], PList [PStr ''location'', PStr ''Location''],
        PList [PStr ''properties.addressSpace.addressPrefixes.0'', PStr ''Address space''], PList [PStr ''properties.provisioningState'',
        PStr ''Status'']]),
      (''create_fields'', PList [PDict [(''name'', PStr ''name''),
          (''label'', PStr ''Virtual network name''),
          (''default'', PStr ''vnet-cloudlearn'')], PDict [(''name'', PStr ''properties.addressSpace.addressPrefixes.0''),
          (''label'', PStr ''Address space (CIDR)''),
          (''default'', PStr ''10.0.0.0/16'')]]),
      (''defaults'', PDict [(''properties'', PDict [(''provisioningState'', PStr ''Succeeded''),
          (''addressSpace'', PDict [(''addressPrefixes'', PList [PStr ''10.0.0.0/16''])]),
          (''subnets'', PList [])])])]"

definition cat_nsg :: "pyval dict" where
  "cat_nsg =
     [(''key'', PStr ''nsg''),
      (''label'', PStr ''Network Security Group''),
      (''icon'', PStr ''security''),
      (''namespace'', PStr ''Microsoft.Network''),
      (''type'', PStr ''networkSecurityGroups''),
      (''api_version'', PStr ''2023-11-01''),
      (''scope'', PStr ''rg''),
      (''columns'', PList [PList [PStr ''name'', PStr ''Name''], PList [PStr ''location'', PStr ''Location''],
        PList [PStr ''properties.provisioningState'', PStr ''Status'']]),
      (''create_fields'', PList [PDict [(''name'', PStr ''name''),
          (''label'', PStr ''Name''),
          (''type'', PStr ''text''),
          (''required'', PBool True)], PDict [(''name'', PStr ''location''),
          (''label'', PStr ''Location''),
          (''type'', PStr ''text''),
          (''default'', PStr ''eastus'')]]),
      (''defaults'', PDict [(''properties'', PDict [(''provisioningState'', PStr ''Succeeded''),
          (''securityRules'', PList [])])]),
      (''children'', PList [PDict [(''type'', PStr ''securityRules''),
          (''key'', PStr ''security_rule''),
          (''label'', PStr ''Security Rule''),
          (''columns'', PList [PList [PStr ''name'', PStr ''Name''], PList [PStr ''properties.priority'', PStr ''Priority''],
        PList [PStr ''properties.direction'', PStr ''Direction''], PList [PStr ''properties.access'', PStr ''Access''],
        PList [PStr ''properties.protocol'', PStr ''Protocol''], PList [PStr ''properties.destinationPortRange'', PStr ''Port'']]),
          (''create_fields'', PList [PDict [(''name'', PStr ''name''),
              (''label'', PStr ''Name''),
              (''type'', PStr ''text''),
              (''required'', PBool True)], PDict [(''name'', PStr ''properties.priority''),
              (''label'', PStr ''Priority''),
              (''type'', PStr ''number''),
              (''default'', PInt 100)], PDict [(''name'', PStr ''properties.direction''),
              (''label'', PStr ''Direction''),
              (''type'', PStr ''select''),
              (''options'', PList [PStr ''Inbound'', PStr ''Outbound'']),
              (''default'', PStr ''Inbound'')], PDict [(''name'', PStr ''properties.access''),
              (''label'', PStr ''Access''),
              (''type'', PStr ''select''),
              (''options'', PList [PStr ''Allow'', PStr ''Deny'']),
              (''default'', PStr ''Allow'')], PDict [(''name'', PStr ''properties.protocol''),
              (''label'', PStr ''Protocol''),
              (''type'', PStr ''select''),
              (''options'', PList [PStr ''Tcp'', PStr ''Udp'', PStr ''Icmp'', PStr ''*'']),
              (''default'', PStr ''*'')], PDict [(''name'', PStr ''properties.sourceAddressPrefix''),
              (''label'', PStr ''Source''),
              (''type'', PStr ''text''),
              (''default'', PStr ''*'')], PDict [(''name'', PStr ''properties.destinationAddressPrefix''),
              (''label'', PStr ''Destination''),
              (''type'', PStr ''text''),
              (''default'', PStr ''*'')], PDict [(''name'', PStr ''properties.sourcePortRange''),
              (''label'', PStr ''Source Port''),
              (''type'', PStr ''text''),
              (''default'', PStr ''*'')], PDict [(''name'', PStr ''properties.destinationPortRange''),
              (''label'', PStr ''Destination Port''),
              (''type'', PStr ''text''),
              (''default'', PStr ''*'')]]),
          (''defaults'', PDict [(''properties'', PDict [(''provisioningState'', PStr ''Succeeded''),
              (''priority'', PInt 100),
              (''direction'', PStr ''Inbound''),
              (''access'', PStr ''Allow''),
              (''protocol'', PStr ''*''),
              (''sourceAddressPrefix'', PStr ''*''),
              (''destinationAddressPrefix'', PStr ''*''),
              (''sourcePortRange'', PStr ''*''),
              (''destinationPortRange'', PStr ''*'')])])]])]"

definition cat_eventgrid :: "pyval dict" where
  "cat_eventgrid =
     [(''key'', PStr ''eventgrid''),
      (''label'', PStr ''Event Grid topics''),
      (''icon'', PStr ''hub''),
      (''namespace'', PStr ''Microsoft.EventGrid''),
      (''type'', PStr ''topics''),
      (''api_version'', PStr ''2024-06-01-preview''),
      (''scope'', PStr ''rg''),
      (''children'', PList [PDict [(''type'', PStr ''eventSubscriptions''),
          (''label'', PStr ''Event subscriptions''),
          (''icon'', PStr ''subscriptions'')]]),
      (''columns'', PList [PList [PStr ''name'', PStr ''Name''], PList [PStr ''location'', PStr ''Location''],
        PList [PStr ''properties.inputSchema'', PStr ''Input schema''], PList [PStr ''properties.publicNetworkAccess'',
        PStr ''Network access''], PList [PStr ''properties.provisioningState'', PStr ''Status'']]),
      (''create_fields'', PList [PDict [(''name'', PStr ''name''),
          (''label'', PStr ''Topic name''),
          (''default'', PStr ''egtopic-cloudlearn'')], PDict [(''name'', PStr ''properties.inputSchema''),
          (''label'', PStr ''Input schema''),
          (''default'', PStr ''EventGridSchema'')]]),
      (''defaults'', PDict [(''properties'', PDict [(''inputSchema'', PStr ''EventGridSchema''),
          (''publicNetworkAccess'', PStr ''Enabled''),
          (''minimumTlsVersionAllowed'', PStr ''1.2''),
          (''disableLocalAuth'', PBool False),
          (''provisioningState'', PStr ''Succeeded'')])]),
      (''endpoints'', PDict [(''properties.endpoint'', PStr ''/azure-data/eventgrid/__NAME__/api/events'')])]"

definition cat_keyvault :: "pyval dict" where
  "cat_keyvault =
     [(''key'', PStr ''keyvault''),
      (''label'', PStr ''Key vaults''),
      (''icon'', PStr ''vpn_key''),
      (''namespace'', PStr ''Microsoft.KeyVault''),
      (''type'', PStr ''vaults''),
      (''api_version'', PStr ''2023-07-01''),
      (''scope'', PStr ''rg''),
      (''children'', PList [PDict [(''type'', PStr ''secrets''),
          (''label'', PStr ''Secrets''),
          (''icon'', PStr ''key'')], PDict [(''type'', PStr ''keys''),
          (''label'', PStr ''Keys''),
          (''icon'', PStr ''lock'')]]),
      (''columns'', PList [PList [PStr ''name'', PStr ''Name''], PList [PStr ''location'', PStr ''Location''],
        PList [PStr ''properties.sku.name'', PStr ''Pricing tier''], PList [PStr ''properties.provisioningState'', PStr ''Status'']]),
      (''create_fields'', PList [PDict [(''name'', PStr ''name''),
          (''label'', PStr ''Key vault name''),
          (''default'', PStr ''kv-cloudlearn'')], PDict [(''name'', PStr ''properties.tenantId''),
          (''label'', PStr ''Tenant ID''),
          (''default'', PStr ''00000000-0000-0000-0000-000000000000'')], PDict [(''name'', PStr ''properties.sku.name''),
          (''label'', PStr ''Pricing tier''),
          (''default'', PStr ''standard'')]]),
      (''defaults'', PDict [(''properties'', PDict [(''tenantId'', PStr ''00000000-0000-0000-0000-000000000000''),
          (''sku'', PDict [(''family'', PStr ''A''),
            (''name'', PStr ''standard'')]),
          (''accessPolicies'', PList []),
          (''enabledForDeployment'', PBool False),
          (''enabledForDiskEncryption'', PBool False),
          (''enabledForTemplateDeployment'', PBool False),
          (''enableSoftDelete'', PBool True),
          (''softDeleteRetentionInDays'', PInt 90),
          (''enableRbacAuthorization'', PBool False),
          (''enablePurgeProtection'', PBool False),
          (''provisioningState'', PStr ''Succeeded'')])]),
      (''endpoints'', PDict [(''properties.vaultUri'', PStr ''/azure-data/keyvault/__NAME__/'')])]"

definition cat_role_definition :: "pyval dict" where
  "cat_role_definition =
     [(''key'', PStr ''role_definition''),
      (''label'', PStr ''Role Definition''),
      (''icon'', PStr ''admin_panel_settings''),
      (''namespace'', PStr ''Microsoft.Authorization''),
      (''type'', PStr ''roleDefinitions''),
      (''api_version'', PStr ''2022-04-01''),
      (''scope'', PStr ''sub''),
      (''columns'', PList [PList [PStr ''name'', PStr ''Name''], PList [PStr ''properties.roleName'', PStr ''Role Name''],
        PList [PStr ''properties.type'', PStr ''Type'']]),
      (''create_fields'', PList [PDict [(''name'', PStr ''properties.roleName''),
          (''label'', PStr ''Role Name''),
          (''type'', PStr ''text''),
          (''required'', PBool True)], PDict [(''name'', PStr ''properties.description''),
          (''label'', PStr ''Description''),
          (''type'', PStr ''text'')], PDict [(''name'', PStr ''properties.type''),
          (''label'', PStr ''Type''),
          (''type'', PStr ''select''),
          (''options'', PList [PStr ''BuiltInRole'', PStr ''CustomRole'']),
          (''default'', PStr ''CustomRole'')]]),
      (''defaults'', PDict [(''properties'', PDict [(''type'', PStr ''CustomRole''),
          (''permissions'', PList [PDict [(''actions'', PList [PStr ''*'']),
              (''notActions'', PList [])]]),
          (''assignableScopes'', PList [PStr ''/''])])])]"

definition cat_rbac :: "pyval dict" where
  "cat_rbac =
     [(''key'', PStr ''rbac''),
      (''label'', PStr ''Entra ID / RBAC''),
      (''icon'', PStr ''admin_panel_settings''),
      (''namespace'', PStr ''Microsoft.Authorization''),
      (''type'', PStr ''roleAssignments''),
      (''api_version'', PStr ''2022-04-01''),
      (''scope'', PStr ''rg''),
      (''columns'', PList [PList [PStr ''name'', PStr ''Assignment id''], PList [PStr ''properties.principalId'', PStr ''Principal''],
        PList [PStr ''properties.roleDefinitionId'', PStr ''Role'']]),
      (''create_fields'', PList [PDict [(''name'', PStr ''name''),
          (''label'', PStr ''Assignment name (GUID)''),
          (''default'', PStr ''__UUID__'')], PDict [(''name'', PStr ''properties.principalId''),
          (''label'', PStr ''Principal (object id)''),
          (''default'', PStr ''user@cloudlearn.dev'')], PDict [(''name'', PStr ''properties.roleDefinitionId''),
          (''label'', PStr ''Role''),
          (''default'', PStr ''Contributor'')]]),
      (''defaults'', PDict [(''properties'', PDict [(''principalType'', PStr ''User''),
          (''scope'', PStr '''')])])]"

definition RESOURCE_CATALOG :: "pyval dict list" where
  "RESOURCE_CATALOG =
     [cat_vm, cat_storage, cat_sql, cat_servicebus, cat_cosmos, cat_functionapp, cat_apim, cat_vnet, cat_nsg, cat_eventgrid, cat_keyvault,
        cat_role_definition, cat_rbac]"

definition BUILTIN_ROLES :: "pyval dict list" where
  "BUILTIN_ROLES =
     [[(''id'', PStr ''owner''),
       (''name'', PStr ''Owner''),
       (''properties'', PDict [(''roleName'', PStr ''Owner''),
         (''type'', PStr ''BuiltInRole''),
         (''description'', PStr ''Full access to all resources''),
         (''permissions'', PList [PDict [(''actions'', PList [PStr ''*'']),
             (''notActions'', PList [])]])])],
      [(''id'', PStr ''contributor''),
       (''name'', PStr ''Contributor''),
       (''properties'', PDict [(''roleName'', PStr ''Contributor''),
         (''type'', PStr ''BuiltInRole''),
         (''description'', PStr ''Create and manage all resources, but cannot grant access''),
         (''permissions'', PList [PDict [(''actions'', PList [PStr ''*'']),
             (''notActions'', PList [PStr ''Microsoft.Authorization/*/Write'', PStr ''Microsoft.Authorization/*/Delete''])]])])],
      [(''id'', PStr ''reader''),
       (''name'', PStr ''Reader''),
       (''properties'', PDict [(''roleName'', PStr ''Reader''),
         (''type'', PStr ''BuiltInRole''),
         (''description'', PStr ''View all resources''),
         (''permissions'', PList [PDict [(''actions'', PList [PStr ''*/read'']),
             (''notActions'', PList [])]])])],
      [(''id'', PStr ''vm-contributor''),
       (''name'', PStr ''Virtual Machine Contributor''),
       (''properties'', PDict [(''roleName'', PStr ''Virtual Machine Contributor''),
         (''type'', PStr ''BuiltInRole''),
         (''description'', PStr ''Manage VMs but not access''),
         (''permissions'', PList [PDict [(''actions'', PList [PStr ''Microsoft.Compute/*'']),
             (''notActions'', PList [])]])])],
      [(''id'', PStr ''storage-contributor''),
       (''name'', PStr ''Storage Account Contributor''),
       (''properties'', PDict [(''roleName'', PStr ''Storage Account Contributor''),
         (''type'', PStr ''BuiltInRole''),
         (''description'', PStr ''Manage storage accounts''),
         (''permissions'', PList [PDict [(''actions'', PList [PStr ''Microsoft.Storage/*'']),
             (''notActions'', PList [])]])])],
      [(''id'', PStr ''sql-contributor''),
       (''name'', PStr ''SQL DB Contributor''),
       (''properties'', PDict [(''roleName'', PStr ''SQL DB Contributor''),
         (''type'', PStr ''BuiltInRole''),
         (''description'', PStr ''Manage SQL databases''),
         (''permissions'', PList [PDict [(''actions'', PList [PStr ''Microsoft.Sql/*'']),
             (''notActions'', PList [])]])])]]"

end
