(* ===== verification/Launch_Budget.thy ===== *)
theory Launch_Budget
imports Runtime_Sizer
begin

text \<open>The share of the host the simulator may use (\<open>server.py\<close>, \<open>_simulator_budget\<close> to \<open>_check_budget_for_launch\<close>): what
  all live instances of all spaces and providers use, and the gate before a machine is created.  The host's CPUs and
  memory and the environment are arguments.\<close>

section \<open>The budget\<close>

definition SIMULATOR_BUDGET_PCT_MIN :: int where "SIMULATOR_BUDGET_PCT_MIN = 30"
definition SIMULATOR_BUDGET_PCT_MAX :: int where "SIMULATOR_BUDGET_PCT_MAX = 50"

definition budget_bypassed :: "string \<Rightarrow> bool" where
  "budget_bypassed env \<longleftrightarrow> strip (lower env) \<notin> {''enabled'', ''on'', ''true'', ''1''}"

definition simulator_budget_pct :: "string option \<Rightarrow> int" where
  "simulator_budget_pct env =
     (let v = (case int_of_str (case env of Some s \<Rightarrow> s | None \<Rightarrow> ''40'') of Some i \<Rightarrow> i | None \<Rightarrow> 40)
      in max SIMULATOR_BUDGET_PCT_MIN (min SIMULATOR_BUDGET_PCT_MAX v))"

text \<open>CPUs and megabytes.\<close>

definition simulator_budget :: "string option \<Rightarrow> int \<times> int \<Rightarrow> int \<times> int" where
  "simulator_budget env = (\<lambda>(host_cpu, host_mem).
     let pct = simulator_budget_pct env in (max 1 (host_cpu * pct div 100), max 256 (host_mem * pct div 100)))"

section \<open>What is used\<close>

definition sizing_use :: "pyval \<Rightarrow> (int \<times> int) result" where
  "sizing_use sz =
     rbind (as_dict sz) (\<lambda>d.
     rbind (int_field d ''cpu'' 0) (\<lambda>c.
     rbind (int_field d ''memory_mb'' 0) (\<lambda>m. Inr (c, m))))"

definition instance_use :: "string \<Rightarrow> pyval \<Rightarrow> (int \<times> int) result" where
  "instance_use field inst =
     (case inst of
        PDict i \<Rightarrow>
          (if lower (py_str (py_or (pget i field) (PStr []))) = ''terminated'' then Inr (0, 0)
           else sizing_use (py_or (pget i ''runtime_sizing'') (PDict [])))
      | _ \<Rightarrow> Inr (0, 0))"

definition sub_dict :: "pyval dict \<Rightarrow> string \<Rightarrow> pyval dict" where
  "sub_dict d k = dict_or_empty (pget d k)"

definition azure_use :: "pyval \<Rightarrow> (int \<times> int) result" where
  "azure_use rec =
     (case rec of
        PDict r \<Rightarrow>
          (if lower (py_str (py_or (pget r ''_type'') (PStr []))) \<noteq> ''microsoft.compute/virtualmachines'' then Inr (0, 0)
           else (case pget (sub_dict (sub_dict r ''properties'') ''runtime'') ''sizing'' of
                   PDict sz \<Rightarrow> sizing_use (PDict sz)
                 | _ \<Rightarrow> Inr (0, 0)))
      | _ \<Rightarrow> Inr (0, 0))"

fun sum_use :: "('a \<Rightarrow> (int \<times> int) result) \<Rightarrow> 'a list \<Rightarrow> (int \<times> int) result" where
  "sum_use f [] = Inr (0, 0)"
| "sum_use f (x # xs) =
     rbind (f x) (\<lambda>(c, m). rbind (sum_use f xs) (\<lambda>(c', m'). Inr (c + c', m + m')))"

definition service_use :: "pyval dict \<Rightarrow> string \<Rightarrow> string \<Rightarrow> (pyval \<Rightarrow> (int \<times> int) result) \<Rightarrow> (int \<times> int) result" where
  "service_use ss service field f =
     rbind (as_dict (py_or (pget ss service) (PDict []))) (\<lambda>d.
     rbind (as_dict (py_or (pget d field) (PDict []))) (\<lambda>e. sum_use f (map snd e)))"

definition space_use :: "pyval \<Rightarrow> (int \<times> int) result" where
  "space_use sp =
     (case sp of
        PDict s \<Rightarrow>
          (let ss = sub_dict s ''service_states''
           in if ss = [] then Inr (0, 0)
              else sum_use (\<lambda>(service, field, f). service_use ss service field f)
                     [(''ec2'', ''instances'', instance_use ''state''), (''gcp_compute'', ''instances'', instance_use ''status''),
                      (''azure_arm'', ''resources'', azure_use)])
      | _ \<Rightarrow> Inr (0, 0))"

definition simulator_used :: "pyval dict \<Rightarrow> (int \<times> int) result" where
  "simulator_used spaces = sum_use space_use (map snd spaces)"

section \<open>The gate\<close>

definition over_budget :: "string \<Rightarrow> int \<Rightarrow> int \<Rightarrow> int \<Rightarrow> int \<Rightarrow> py_exc" where
  "over_budget unit new allowed pct host =
     HTTPException 403 (PStr (''SimulatorBudgetExceeded: launching this instance would use ''
       @ (if unit = ''CPU'' then int_str new @ '' CPU of '' @ int_str allowed @ '' available (simulator allowed ''
            @ int_str pct @ ''% of '' @ int_str host @ '' host CPUs). ''
          else int_str new @ '' MB of '' @ int_str allowed @ '' MB available (simulator allowed ''
            @ int_str pct @ ''% of '' @ int_str host @ '' MB host). '')
       @ ''Delete an existing instance or pick a smaller type.''))"

definition check_budget_for_launch ::
  "string option \<Rightarrow> bool \<Rightarrow> int \<times> int \<Rightarrow> pyval dict \<Rightarrow> string \<Rightarrow> string \<Rightarrow> itype_limits option result" where
  "check_budget_for_launch env bypassed host spaces itype provider =
     (case for_instance_type host itype provider of
        None \<Rightarrow> Inr None
      | Some sizing \<Rightarrow>
          if bypassed then Inr (Some sizing)
          else rbind (simulator_used spaces) (\<lambda>(used_cpu, used_mem).
            let (cpu, mem) = simulator_budget env host; pct = simulator_budget_pct env;
                new_cpu = used_cpu + lx_cpu sizing; new_mem = used_mem + lx_memory_mb sizing
            in if cpu < new_cpu then Inl (over_budget ''CPU'' new_cpu cpu pct (fst host))
               else if mem < new_mem then Inl (over_budget ''MB'' new_mem mem pct (snd host))
               else Inr (Some sizing)))"

section \<open>The host keeps its half\<close>

lemma budget_pct_bounds: "30 \<le> simulator_budget_pct env \<and> simulator_budget_pct env \<le> 50"
  by (simp add: simulator_budget_pct_def SIMULATOR_BUDGET_PCT_MIN_def SIMULATOR_BUDGET_PCT_MAX_def Let_def)

lemma half_share: "0 \<le> h \<Longrightarrow> p \<le> 50 \<Longrightarrow> (h::int) * p div 100 \<le> h div 2"
proof -
  assume "0 \<le> h" "p \<le> 50"
  then have "h * p \<le> h * 50" by (simp add: mult_left_mono)
  then have "h * p div 100 \<le> (h * 50) div 100" by (rule zdiv_mono1) simp
  also have "\<dots> = h div 2" by simp
  finally show ?thesis .
qed

text \<open>C30. With the gate on, a launch that is admitted keeps everything the instances of all spaces use, the new one
  included, within half of the host, or one CPU and 256 MB on a host too small for that.\<close>

theorem launch_keeps_half_of_host:
  assumes "check_budget_for_launch env False host spaces itype provider = Inr (Some sizing)"
    and "simulator_used spaces = Inr (used_cpu, used_mem)" and "0 \<le> fst host" and "0 \<le> snd host"
  shows "used_cpu + lx_cpu sizing \<le> max 1 (fst host div 2) \<and> used_mem + lx_memory_mb sizing \<le> max 256 (snd host div 2)"
proof -
  obtain c m where h: "host = (c, m)" by (cases host)
  have "used_cpu + lx_cpu sizing \<le> fst (simulator_budget env host) \<and> used_mem + lx_memory_mb sizing \<le> snd (simulator_budget env host)"
    using assms(1,2) by (auto simp: check_budget_for_launch_def Let_def split: option.splits prod.splits if_splits)
  moreover have "fst (simulator_budget env host) \<le> max 1 (fst host div 2)" "snd (simulator_budget env host) \<le> max 256 (snd host div 2)"
    using half_share [of c "simulator_budget_pct env"] half_share [of m "simulator_budget_pct env"] budget_pct_bounds [of env] assms(3,4)
    by (auto simp: simulator_budget_def h Let_def)
  ultimately show ?thesis by linarith
qed

definition demo_spaces :: "pyval dict" where
  "demo_spaces = [(''s'', PDict [(''service_states'', PDict [(''ec2'', PDict [(''instances'', PDict
     [(''i'', PDict [(''state'', PStr ''running''), (''runtime_sizing'', PDict [(''cpu'', PInt 1), (''memory_mb'', PInt 512)])])])])])])]"

theorem launch_keeps_half_of_host_witness:
  "\<exists>sizing. check_budget_for_launch None False (16, 32768) demo_spaces ''Standard_B1s'' ''azure'' = Inr (Some sizing)
     \<and> 1 + lx_cpu sizing \<le> 8 \<and> 512 + lx_memory_mb sizing \<le> 16384"
proof -
  have u: "simulator_used demo_spaces = Inr (1, 512)" by code_simp
  have "case check_budget_for_launch None False (16, 32768) demo_spaces ''Standard_B1s'' ''azure'' of Inr (Some _) \<Rightarrow> True | _ \<Rightarrow> False"
    by code_simp
  then obtain sizing where c: "check_budget_for_launch None False (16, 32768) demo_spaces ''Standard_B1s'' ''azure'' = Inr (Some sizing)"
    by (auto split: sum.splits option.splits)
  show ?thesis using launch_keeps_half_of_host [OF c u] c by simp
qed

end
