(* ===== verification/Azure_Arm.thy ===== *)
theory Azure_Arm
imports Azure_Catalog Launch_Budget Py_Base64 "HOL-Library.List_Lexorder" "HOL-Library.Char_ord"
begin

text \<open>The Azure Resource Manager of \<open>providers/azure_services.py\<close>: dotted paths, merging, canonical ids, creating, reading,
  listing and deleting resources below subscriptions and resource groups, actions on machines, and the gates a new machine
  passes.  What the surroundings give is a record of arguments: clock, random identifiers, the provisioning of a real
  backend, the commands run in it, the host's disk and the quantity cap of the active space.\<close>

section \<open>Dotted paths\<close>

definition all_digits :: "string \<Rightarrow> bool" where
  "all_digits s \<longleftrightarrow> s \<noteq> [] \<and> list_all is_digit s"

definition extend_list :: "nat \<Rightarrow> pyval \<Rightarrow> pyval list \<Rightarrow> pyval list" where
  "extend_list idx fill xs = xs @ replicate (Suc idx - length xs) fill"

definition empty_for :: "string \<Rightarrow> pyval" where
  "empty_for nxt = (if all_digits nxt then PList [] else PDict [])"

definition container_or :: "pyval \<Rightarrow> pyval \<Rightarrow> pyval" where
  "container_or v fresh = (if is_dict v \<or> is_list v then v else fresh)"

fun set_path :: "string list \<Rightarrow> pyval \<Rightarrow> pyval \<Rightarrow> pyval result" where
  "set_path [] v cur = Inr cur"
| "set_path [p] v cur =
     (if all_digits p then
        (case cur of
           PList xs \<Rightarrow> Inr (PList ((extend_list (digits_val p) PNone xs)[digits_val p := v]))
         | _ \<Rightarrow> Inr cur)
      else (case cur of
              PDict d \<Rightarrow> Inr (PDict (dset p v d))
            | _ \<Rightarrow> Inl (TypeError ''list indices must be integers or slices, not str'')))"
| "set_path (p # q # ps) v cur =
     (if all_digits p then
        (case cur of
           PList xs \<Rightarrow>
             (let ys = extend_list (digits_val p) (empty_for q) xs
              in rbind (set_path (q # ps) v (container_or (ys ! digits_val p) (empty_for q)))
                   (\<lambda>c. Inr (PList (ys[digits_val p := c]))))
         | _ \<Rightarrow> Inr cur)
      else (case cur of
              PDict d \<Rightarrow>
                rbind (set_path (q # ps) v (container_or (pget d p) (empty_for q))) (\<lambda>c. Inr (PDict (dset p c d)))
            | _ \<Rightarrow> Inl (AttributeError ''get'')))"

fun get_path :: "string list \<Rightarrow> pyval \<Rightarrow> pyval" where
  "get_path [] cur = cur"
| "get_path (p # ps) cur =
     (let nxt = (case cur of
                   PList xs \<Rightarrow> (if all_digits p \<and> digits_val p < length xs then xs ! digits_val p else PNone)
                 | PDict d \<Rightarrow> pget d p
                 | _ \<Rightarrow> PNone)
      in if nxt = PNone then PNone else get_path ps nxt)"

text \<open>The overlay wins, dictionaries are merged key by key.\<close>

function py_merge :: "pyval dict \<Rightarrow> pyval dict \<Rightarrow> pyval dict" where
  "py_merge base [] = base"
| "py_merge base ((k, v) # ov) =
     py_merge (dset k (case v of
         PDict e \<Rightarrow> (case map_of base k of Some (PDict b) \<Rightarrow> PDict (py_merge b e) | _ \<Rightarrow> v)
       | _ \<Rightarrow> v) base) ov"
  by pat_completeness auto

termination py_merge
  by (relation "measure (\<lambda>(_, ov). size (PDict ov))") simp_all

fun expand_tokens :: "string \<Rightarrow> string \<Rightarrow> string \<Rightarrow> pyval \<Rightarrow> pyval" where
  "expand_tokens uuid name base (PStr s) =
     PStr (replace_str ''__BASE__'' base (replace_str ''__NAME__'' name (replace_str ''__UUID__'' uuid s)))"
| "expand_tokens uuid name base (PDict d) = PDict (map (\<lambda>(k, v). (k, expand_tokens uuid name base v)) d)"
| "expand_tokens uuid name base (PList xs) = PList (map (expand_tokens uuid name base) xs)"
| "expand_tokens uuid name base v = v"

section \<open>Identifiers and paths\<close>

definition path_segments :: "string \<Rightarrow> string list" where
  "path_segments s = filter (\<lambda>x. x \<noteq> []) (split_char CHR ''/'' s)"

fun interleave :: "string list \<Rightarrow> string list \<Rightarrow> string list" where
  "interleave (t # ts) (n # ns) = t # n # interleave ts ns"
| "interleave (t # ts) [] = [t]"
| "interleave [] ns = ns"

text \<open>\<open>names\<close> has as many members as there are types below the namespace, or one less.\<close>

definition canonical_id :: "string \<Rightarrow> string option \<Rightarrow> string list \<Rightarrow> string list \<Rightarrow> string" where
  "canonical_id sub rg chain names =
     join ''/'' ([''/subscriptions/'' @ sub]
       @ (case rg of Some g \<Rightarrow> (if g = [] then [] else [''resourceGroups/'' @ g]) | None \<Rightarrow> [])
       @ [''providers'', hd chain] @ interleave (tl chain) names)"

fun rg_after :: "string list \<Rightarrow> string option" where
  "rg_after (p # q # ps) = (if lower p = ''resourcegroups'' then Some q else rg_after (q # ps))"
| "rg_after _ = None"

definition rg_from_id :: "string \<Rightarrow> string option" where
  "rg_from_id rid = rg_after (split_char CHR ''/'' rid)"

fun odd_even :: "string list \<Rightarrow> string list \<times> string list" where
  "odd_even [] = ([], [])"
| "odd_even [t] = ([t], [])"
| "odd_even (t # n # r) = (let (ts, ns) = odd_even r in (t # ts, n # ns))"

section \<open>Records\<close>

type_synonym arm_rec = "pyval dict"

record arm_state =
  a_state :: "arm_rec dict"
  a_ops :: "arm_rec dict"

definition DEFAULT_SUBSCRIPTION :: string where "DEFAULT_SUBSCRIPTION = ''00000000-0000-0000-0000-cloudlearn01''"
definition DEFAULT_RG :: string where "DEFAULT_RG = ''cloudlearn-rg''"
definition DEFAULT_LOCATION :: string where "DEFAULT_LOCATION = ''eastus''"

definition arm_view :: "arm_rec \<Rightarrow> pyval" where
  "arm_view rec = PDict (filter (\<lambda>(k, _). \<not> startswith k ''_'') rec)"

text \<open>Answers: status, body and the headers a long-running operation adds; a raised exception is an error value.\<close>

record arm_reply =
  ar_status :: nat
  ar_body :: pyval
  ar_headers :: "string dict"

definition reply :: "nat \<Rightarrow> pyval \<Rightarrow> arm_reply" where
  "reply status body = \<lparr>ar_status = status, ar_body = body, ar_headers = []\<rparr>"

definition arm_error :: "nat \<Rightarrow> string \<Rightarrow> string \<Rightarrow> arm_reply" where
  "arm_error status code message =
     reply status (PDict [(''error'', PDict [(''code'', PStr code), (''message'', PStr message)])])"

definition catalog_type :: "pyval dict \<Rightarrow> string" where
  "catalog_type c = str_field c ''namespace'' [] @ ''/'' @ str_field c ''type'' []"

definition by_type :: "string \<Rightarrow> string \<Rightarrow> pyval dict option" where
  "by_type ns ty =
     find (\<lambda>c. lower (str_field c ''namespace'' []) = lower ns \<and> lower (str_field c ''type'' []) = lower ty) RESOURCE_CATALOG"

text \<open>What the request brings and what the surroundings give.\<close>

record arm_env =
  e_base :: string
  e_now :: string
  e_uuid :: string
  e_op :: string
  e_tier :: string
  e_budget :: "string \<Rightarrow> itype_limits option result"
  e_disk :: "unit result"
  e_quantity :: "string \<Rightarrow> unit result"
  e_provision :: "string \<Rightarrow> arm_rec \<Rightarrow> arm_rec"
  e_run :: "string \<Rightarrow> string \<Rightarrow> string \<Rightarrow> string option"
  e_exc_text :: "py_exc \<Rightarrow> string"
  e_sha :: "string \<Rightarrow> string"

section \<open>Creating and changing\<close>

definition is_top :: "pyval dict \<Rightarrow> string \<Rightarrow> bool" where
  "is_top c full_type \<longleftrightarrow> lower full_type = lower (catalog_type c)"

definition seed_fields :: "arm_env \<Rightarrow> pyval dict \<Rightarrow> string \<Rightarrow> string \<Rightarrow> pyval dict" where
  "seed_fields en c full_type name =
     (if is_top c full_type
      then dict_or_empty (expand_tokens (e_uuid en) name (e_base en) (dget c ''defaults'' (PDict [])))
      else [(''properties'', PDict [(''provisioningState'', PStr ''Succeeded'')])])"

definition endpoint_paths :: "pyval dict \<Rightarrow> string \<Rightarrow> pyval dict" where
  "endpoint_paths c full_type = (if is_top c full_type then dict_or_empty (dget c ''endpoints'' (PDict [])) else [])"

definition opt_str :: "string option \<Rightarrow> pyval" where
  "opt_str v = (case v of Some s \<Rightarrow> PStr s | None \<Rightarrow> PNone)"

definition fresh_record :: "arm_env \<Rightarrow> string \<Rightarrow> string \<Rightarrow> string \<Rightarrow> pyval dict \<Rightarrow> pyval dict \<Rightarrow> arm_rec" where
  "fresh_record en rid full_type name c payload =
     foldl (\<lambda>r (k, v). dset k v r)
       [(''id'', PStr rid), (''name'', PStr name), (''type'', PStr full_type),
        (''location'', py_or (pget payload ''location'') (PStr DEFAULT_LOCATION)), (''tags'', PDict []), (''properties'', PDict []),
        (''_type'', PStr full_type), (''_sub'', PStr (split_char CHR ''/'' rid ! 2)), (''_rg'', opt_str (rg_from_id rid)),
        (''_created'', PStr (e_now en))]
       (seed_fields en c full_type name)"

definition copy_field :: "pyval dict \<Rightarrow> string \<Rightarrow> arm_rec \<Rightarrow> arm_rec" where
  "copy_field payload f r = (if pget payload f = PNone then r else dset f (pget payload f) r)"

definition merge_field :: "pyval dict \<Rightarrow> string \<Rightarrow> arm_rec \<Rightarrow> arm_rec" where
  "merge_field payload f r =
     (case pget payload f of
        PDict e \<Rightarrow> dset f (PDict (py_merge (dict_or_empty (dget r f (PDict []))) e)) r
      | _ \<Rightarrow> r)"

definition provisioned :: "arm_rec \<Rightarrow> arm_rec" where
  "provisioned r =
     (let props = dict_or_empty (dget r ''properties'' (PDict []))
      in dset ''properties'' (PDict (dsetdefault ''provisioningState'' (PStr ''Succeeded'') props)) r)"

definition overlay :: "pyval dict \<Rightarrow> arm_rec \<Rightarrow> arm_rec" where
  "overlay payload r =
     provisioned (merge_field payload ''properties'' (merge_field payload ''sku'' (merge_field payload ''tags''
       (copy_field payload ''kind'' (copy_field payload ''location'' r)))))"

definition dotted :: "string \<Rightarrow> string list" where
  "dotted p = split_char CHR ''.'' p"

definition fill_endpoint :: "arm_env \<Rightarrow> string \<Rightarrow> string \<times> pyval \<Rightarrow> arm_rec \<Rightarrow> arm_rec result" where
  "fill_endpoint en name = (\<lambda>(path, suffix) r.
     (if get_path (dotted path) (PDict r) \<in> {PNone, PStr []}
      then rbind (set_path (dotted path) (PStr (e_base en @ replace_str ''__NAME__'' name (py_str suffix))) (PDict r))
             (\<lambda>v. Inr (dict_or_empty v))
      else Inr r))"

text \<open>The record reached and the error that stopped the filling, if one did.\<close>

fun fill_endpoints :: "arm_env \<Rightarrow> string \<Rightarrow> pyval dict \<Rightarrow> arm_rec \<Rightarrow> arm_rec \<times> py_exc option" where
  "fill_endpoints en name [] r = (r, None)"
| "fill_endpoints en name (e # es) r =
     (case fill_endpoint en name e r of Inl x \<Rightarrow> (r, Some x) | Inr r' \<Rightarrow> fill_endpoints en name es r')"

text \<open>A patch changes the stored record in place, so what was laid over it stays when an endpoint cannot be set.\<close>

definition upsert ::
  "arm_env \<Rightarrow> string \<Rightarrow> string \<Rightarrow> string \<Rightarrow> string \<Rightarrow> pyval dict \<Rightarrow> pyval dict \<Rightarrow> bool \<Rightarrow> arm_state
     \<Rightarrow> arm_reply result \<times> arm_state" where
  "upsert en rid key full_type name c payload patch st =
     (let old = map_of (a_state st) key;
          patched = (patch \<and> old \<noteq> None);
          r0 = (case (patch, old) of (True, Some q) \<Rightarrow> q | _ \<Rightarrow> fresh_record en rid full_type name c payload);
          (r, e) = fill_endpoints en name (endpoint_paths c full_type) (overlay payload r0)
      in case e of
           Some x \<Rightarrow> (Inl x, if patched then st\<lparr>a_state := dset key r (a_state st)\<rparr> else st)
         | None \<Rightarrow> (Inr (reply (if old = None then 201 else 200) (arm_view r)), st\<lparr>a_state := dset key r (a_state st)\<rparr>))"

section \<open>Reading\<close>

definition listed_type :: "string \<Rightarrow> string option \<Rightarrow> string \<Rightarrow> arm_rec \<Rightarrow> bool" where
  "listed_type sub rg full_type r \<longleftrightarrow>
     lower (str_field r ''_type'' []) = lower full_type \<and> pget r ''_sub'' = PStr sub
   \<and> (case rg of None \<Rightarrow> True | Some g \<Rightarrow> lower (py_str (py_or (pget r ''_rg'') (PStr []))) = lower g)"

definition list_resources :: "string \<Rightarrow> string option \<Rightarrow> string \<Rightarrow> arm_state \<Rightarrow> arm_reply" where
  "list_resources sub rg full_type st =
     reply 200 (PDict [(''value'', PList (map arm_view (filter (listed_type sub rg full_type) (map snd (a_state st)))))])"

definition rg_view :: "string \<Rightarrow> string \<Rightarrow> pyval \<Rightarrow> pyval dict \<Rightarrow> pyval" where
  "rg_view sub n location tail =
     PDict ([(''id'', PStr (''/subscriptions/'' @ sub @ ''/resourceGroups/'' @ n)), (''name'', PStr n),
             (''type'', PStr ''Microsoft.Resources/resourceGroups''), (''location'', location)]
       @ tail @ [(''properties'', PDict [(''provisioningState'', PStr ''Succeeded'')])])"

definition list_resource_groups :: "string \<Rightarrow> arm_state \<Rightarrow> pyval list" where
  "list_resource_groups sub st =
     map (\<lambda>n. rg_view sub n (PStr DEFAULT_LOCATION) [])
       (dict_fromkeys (DEFAULT_RG # map (\<lambda>r. py_str (pget r ''_rg''))
          (filter (\<lambda>r. pget r ''_sub'' = PStr sub \<and> truthy (pget r ''_rg'')) (map snd (a_state st)))))"

definition resource_group_item :: "string \<Rightarrow> string \<Rightarrow> string \<Rightarrow> pyval dict \<Rightarrow> arm_reply" where
  "resource_group_item verb sub rg payload =
     (if verb = ''DELETE'' then reply 200 PNone
      else reply (if verb \<in> {''PUT'', ''PATCH'', ''GET''} then 200 else 405)
             (rg_view sub rg (py_or (pget payload ''location'') (PStr DEFAULT_LOCATION)) [(''tags'', dget payload ''tags'' (PDict []))]))"

definition provider_info :: "string \<Rightarrow> pyval" where
  "provider_info ns =
     PDict [(''id'', PStr (''/subscriptions/'' @ DEFAULT_SUBSCRIPTION @ ''/providers/'' @ ns)), (''namespace'', PStr ns),
       (''registrationState'', PStr ''Registered''), (''registrationPolicy'', PStr ''RegistrationRequired''),
       (''resourceTypes'', PList (map (\<lambda>c. PDict [(''resourceType'', pget c ''type''), (''apiVersions'', PList [pget c ''api_version'']),
            (''locations'', PList [PStr DEFAULT_LOCATION]), (''capabilities'', PStr ''None'')])
          (filter (\<lambda>c. lower (str_field c ''namespace'' []) = lower ns) RESOURCE_CATALOG)))]"

definition all_providers :: "pyval list" where
  "all_providers = map provider_info (sort_key id (remdups (map (\<lambda>c. str_field c ''namespace'' []) RESOURCE_CATALOG)))"

definition not_simulated :: "string \<Rightarrow> string \<Rightarrow> arm_reply" where
  "not_simulated ns ty =
     arm_error 404 ''ResourceTypeNotSupported'' (''Type '' @ CHR 0x27 # ns @ ''/'' @ ty @ [CHR 0x27] @ '' is not simulated. Supported: ''
       @ join '', '' (sort_key id (map catalog_type RESOURCE_CATALOG)) @ ''.'')"

section \<open>Actions\<close>

definition run_status :: "string \<Rightarrow> string" where
  "run_status action =
     (if action = ''poweroff'' then ''stopped'' else if action = ''deallocate'' then ''deallocated'' else ''running'')"

definition run_command :: "string \<Rightarrow> string" where
  "run_command action = (if action \<in> {''poweroff'', ''deallocate''} then ''stop'' else action)"

text \<open>The properties and the runtime below them, created when they are missing; what is there must be a dictionary.\<close>

definition sub_or_new :: "pyval dict \<Rightarrow> string \<Rightarrow> pyval dict result" where
  "sub_or_new d k = as_dict (dget d k (PDict []))"

definition with_status :: "string \<Rightarrow> arm_rec \<Rightarrow> pyval dict \<Rightarrow> pyval dict \<Rightarrow> arm_rec" where
  "with_status status r props rt =
     dset ''properties'' (PDict (dset ''powerState'' (PStr (''PowerState/'' @ status))
       (dset ''runtime'' (PDict (dset ''containerStatus'' (PStr status) rt)) props))) r"

definition created_subs :: "arm_rec \<Rightarrow> pyval dict \<Rightarrow> pyval dict \<Rightarrow> arm_rec" where
  "created_subs r props rt = dset ''properties'' (PDict (dset ''runtime'' (PDict rt) props)) r"

definition vm_action :: "arm_env \<Rightarrow> string \<Rightarrow> string \<Rightarrow> arm_rec \<Rightarrow> arm_state \<Rightarrow> arm_reply result \<times> arm_state" where
  "vm_action en action key r st =
     (case sub_or_new r ''properties'' of
        Inl e \<Rightarrow> (Inl e, st)
      | Inr props \<Rightarrow>
          (case sub_or_new props ''runtime'' of
             Inl e \<Rightarrow> (Inl e, st)
           | Inr rt \<Rightarrow>
               (let keep = (\<lambda>q. st\<lparr>a_state := dset key q (a_state st)\<rparr>); status = run_status action; box = pget rt ''containerName'';
                    backend = pget rt ''backend''
                in if \<not> truthy box \<or> backend \<notin> {PStr ''lxd'', PStr ''multipass''}
                   then (Inr (reply 200 (PDict [(''status'', PStr ''Succeeded''), (''action'', PStr action),
                            (''containerStatus'', PStr status),
                            (''note'', PStr ''metadata-only (no runtime backing); logical state updated'')])),
                         keep (with_status status r props rt))
                   else (case e_run en (py_str backend) (run_command action) (py_str box) of
                           Some msg \<Rightarrow> (Inr (arm_error 500 ''ActionFailed'' (action @ '' failed: '' @ take 200 msg)), keep (created_subs r props rt))
                         | None \<Rightarrow>
                             (Inr (reply 200 (PDict [(''status'', PStr ''Succeeded''), (''action'', PStr action), (''container'', box),
                                (''containerStatus'', PStr status)])),
                              keep (with_status status r props rt))))))"

definition storage_keys :: "(string \<Rightarrow> string) \<Rightarrow> string \<Rightarrow> pyval" where
  "storage_keys sha account =
     (let seed = sha (''cloudlearn-azure-'' @ account)
      in PDict [(''keys'', PList
           [PDict [(''keyName'', PStr ''key1''), (''value'', PStr (b64encode seed)), (''permissions'', PStr ''FULL'')],
            PDict [(''keyName'', PStr ''key2''), (''value'', PStr (b64encode (rev seed))), (''permissions'', PStr ''FULL'')]])])"

definition arm_action ::
  "arm_env \<Rightarrow> string \<Rightarrow> string list \<Rightarrow> string \<Rightarrow> string \<Rightarrow> arm_state \<Rightarrow> arm_reply result \<times> arm_state" where
  "arm_action en action chain name parent st =
     (if action \<in> {''start'', ''poweroff'', ''restart'', ''deallocate''} then
        (if lower (chain ! 0) \<noteq> ''microsoft.compute'' \<or> lower (chain ! 1) \<noteq> ''virtualmachines''
         then (Inr (arm_error 400 ''ActionNotSupported'' (''Action '' @ CHR 0x27 # action @ [CHR 0x27] @
                 '' is only supported on Microsoft.Compute/virtualMachines.'')), st)
         else (case map_of (a_state st) (lower parent) of
                 None \<Rightarrow> (Inr (arm_error 404 ''ResourceNotFound'' (''Virtual machine '' @ CHR 0x27 # name @ [CHR 0x27] @ '' not found.'')), st)
               | Some r \<Rightarrow> vm_action en action (lower parent) r st))
      else if action \<in> {''listkeys'', ''regeneratekey''} then (Inr (reply 200 (storage_keys (e_sha en) name)), st)
      else if action = ''listconnectionstrings'' then (Inr (reply 200 (PDict [(''connectionStrings'', PList [])])), st)
      else (Inr (reply 200 (PDict [])), st))"

section \<open>The gates of a new resource\<close>

definition VM_TYPE :: string where "VM_TYPE = ''microsoft.compute/virtualmachines''"

definition AZURE_TYPE_TO_QUANTITY_KEY :: "string dict" where
  "AZURE_TYPE_TO_QUANTITY_KEY =
     [(''microsoft.compute/virtualmachines'', ''vm''), (''microsoft.sql/servers/databases'', ''database''),
      (''microsoft.storage/storageaccounts'', ''bucket''), (''microsoft.servicebus/namespaces/queues'', ''queue''),
      (''microsoft.apimanagement/service'', ''api_gateway''), (''microsoft.web/sites'', ''lambda_function''),
      (''microsoft.keyvault/vaults'', ''kms_key'')]"

definition vm_size_of :: "pyval dict \<Rightarrow> string" where
  "vm_size_of payload =
     py_str (py_or (pget (dict_or_empty (pget (dict_or_empty (pget payload ''properties'')) ''hardwareProfile'')) ''vmSize'') (PStr []))"

definition is_http :: "py_exc \<Rightarrow> bool" where
  "is_http e = (case e of HTTPException _ _ \<Rightarrow> True | _ \<Rightarrow> False)"

text \<open>The budget and disk gate turns any other exception into a 500; the cap and size gates swallow it.\<close>

definition budget_gate :: "arm_env \<Rightarrow> string \<Rightarrow> unit result" where
  "budget_gate en vm =
     (case rbind (e_budget en vm) (\<lambda>_. e_disk en) of
        Inl e \<Rightarrow> Inl (if is_http e then e else HTTPException 500 (PStr (''budget check failed: '' @ e_exc_text en e)))
      | Inr _ \<Rightarrow> Inr ())"

definition only_http :: "unit result \<Rightarrow> unit result" where
  "only_http r = (case r of Inl e \<Rightarrow> (if is_http e then Inl e else Inr ()) | Inr _ \<Rightarrow> Inr ())"

definition quantity_gate :: "arm_env \<Rightarrow> string \<Rightarrow> unit result" where
  "quantity_gate en full_type =
     (case map_of AZURE_TYPE_TO_QUANTITY_KEY (lower full_type) of
        Some rt \<Rightarrow> only_http (e_quantity en rt) | None \<Rightarrow> Inr ())"

definition size_gate :: "arm_env \<Rightarrow> string \<Rightarrow> unit result" where
  "size_gate en vm = (if vm = [] then Inr () else only_http (enforce_size_cap (e_tier en) ''vm'' ''azure'' vm))"

definition create_gates :: "arm_env \<Rightarrow> string \<Rightarrow> pyval dict \<Rightarrow> unit result" where
  "create_gates en full_type payload =
     rbind (if lower full_type = VM_TYPE then budget_gate en (vm_size_of payload) else Inr ()) (\<lambda>_.
     rbind (quantity_gate en full_type) (\<lambda>_.
       if lower full_type = VM_TYPE then size_gate en (vm_size_of payload) else Inr ()))"

section \<open>The handler\<close>

definition is_lro_type :: "string \<Rightarrow> string list \<Rightarrow> bool" where
  "is_lro_type ns chain \<longleftrightarrow> length chain = 2 \<and> lower ns \<noteq> ''microsoft.authorization''"

definition operation_record :: "arm_env \<Rightarrow> string \<Rightarrow> string \<Rightarrow> arm_rec" where
  "operation_record en rid verb =
     [(''id'', PStr (e_op en)), (''name'', PStr (e_op en)), (''status'', PStr ''Succeeded''), (''startTime'', PStr (e_now en)),
      (''endTime'', PStr (e_now en)), (''resourceId'', PStr rid), (''method'', PStr verb)]"

definition lro_headers :: "arm_env \<Rightarrow> string \<Rightarrow> string dict" where
  "lro_headers en api =
     (let url = e_base en @ ''/api/azure/operations/'' @ e_op en @ ''?api-version='' @ api
      in [(''Azure-AsyncOperation'', url), (''Location'', url), (''Retry-After'', ''0'')])"

definition put_resource ::
  "arm_env \<Rightarrow> string \<Rightarrow> pyval dict \<Rightarrow> string \<Rightarrow> string \<Rightarrow> string list \<Rightarrow> string list \<Rightarrow> pyval dict \<Rightarrow> string \<Rightarrow> arm_state
     \<Rightarrow> arm_reply result \<times> arm_state" where
  "put_resource en verb c rid ns chain names payload api st =
     (let key = lower rid; full_type = join ''/'' chain; fresh = (verb = ''PUT'' \<and> \<not> dhas (a_state st) key)
      in case (if fresh then create_gates en full_type payload else Inr ()) of
           Inl e \<Rightarrow> (Inl e, st)
         | Inr _ \<Rightarrow>
             (case upsert en rid key full_type (last names) c payload (verb = ''PATCH'') st of
                (Inl e, st1) \<Rightarrow> (Inl e, st1)
              | (Inr a, st1) \<Rightarrow>
                  (let st2 = st1\<lparr>a_state := dmap_at key (e_provision en full_type) (a_state st1)\<rparr>
                   in if is_lro_type ns chain
                      then (Inr \<lparr>ar_status = 200, ar_body = ar_body a, ar_headers = lro_headers en api\<rparr>,
                            st2\<lparr>a_ops := dset (e_op en) (operation_record en rid verb) (a_ops st2)\<rparr>)
                      else (Inr a, st2))))"

definition resource_call ::
  "arm_env \<Rightarrow> string \<Rightarrow> string option \<Rightarrow> pyval dict \<Rightarrow> string \<Rightarrow> string option \<Rightarrow> string list \<Rightarrow> pyval dict \<Rightarrow> arm_state
     \<Rightarrow> arm_reply result \<times> arm_state" where
  "resource_call en verb api c sub rg after payload st =
     (let ns = hd after; (types, names) = odd_even (tl after); chain = ns # types;
          rid = canonical_id sub rg chain names; key = lower rid
      in if verb = ''POST'' \<and> length types = Suc (length names) \<and> 3 \<le> length chain \<and> names \<noteq> []
         then arm_action en (lower (last chain)) chain (last names) (canonical_id sub rg (butlast chain) names) st
         else if length types = Suc (length names) then
           (if verb \<noteq> ''GET'' then (Inr (arm_error 405 ''MethodNotAllowed'' ''Collection supports GET only.''), st)
            else (Inr (list_resources sub rg (join ''/'' chain) st), st))
         else if verb = ''GET'' then
           (case map_of (a_state st) key of
              None \<Rightarrow> (Inr (arm_error 404 ''ResourceNotFound'' (''Resource '' @ CHR 0x27 # rid @ [CHR 0x27] @ '' not found.'')), st)
            | Some r \<Rightarrow> (Inr (reply 200 (arm_view r)), st))
         else if verb \<in> {''PUT'', ''PATCH''} then
           put_resource en verb c rid ns chain names payload
             (str_or (case api of Some a \<Rightarrow> a | None \<Rightarrow> []) (str_or (str_field c ''api_version'' []) ''2023-01-01'')) st
         else if verb = ''DELETE'' then
           (Inr (reply (if dhas (a_state st) key then 200 else 204) PNone), st\<lparr>a_state := dpop key (a_state st)\<rparr>)
         else (Inr (arm_error 405 ''MethodNotAllowed'' (verb @ '' not allowed.'')), st))"

definition provider_call ::
  "arm_env \<Rightarrow> string \<Rightarrow> string option \<Rightarrow> string \<Rightarrow> string option \<Rightarrow> string list \<Rightarrow> pyval dict \<Rightarrow> arm_state
     \<Rightarrow> arm_reply result \<times> arm_state" where
  "provider_call en verb api sub rg after payload st =
     (if after = [] \<and> verb = ''GET'' then (Inr (reply 200 (PDict [(''value'', PList all_providers)])), st)
      else if length after = 1 \<and> verb = ''GET'' then (Inr (reply 200 (provider_info (hd after))), st)
      else if length after = 2 \<and> lower (after ! 1) = ''register'' \<and> verb = ''POST'' then (Inr (reply 200 (provider_info (hd after))), st)
      else if length after < 2 then (Inr (arm_error 400 ''BadRequest'' ''Missing provider namespace/type.''), st)
      else (case by_type (hd after) (after ! 1) of
              None \<Rightarrow> (Inr (not_simulated (hd after) (after ! 1)), st)
            | Some c \<Rightarrow> resource_call en verb api c sub rg after payload st))"

definition handle_arm ::
  "arm_env \<Rightarrow> string \<Rightarrow> string option \<Rightarrow> string \<Rightarrow> pyval dict \<Rightarrow> arm_state \<Rightarrow> arm_reply result \<times> arm_state" where
  "handle_arm en verb api rest payload st =
     (case path_segments rest of
        [] \<Rightarrow> (Inr (arm_error 400 ''BadRequest'' ''Missing subscription id.''), st)
      | [sub] \<Rightarrow> (Inr (reply 200 (PDict [(''id'', PStr (''/subscriptions/'' @ sub)), (''subscriptionId'', PStr sub),
            (''displayName'', PStr ''CloudLearn Subscription''), (''state'', PStr ''Enabled'')])), st)
      | sub # p # ps \<Rightarrow>
          (if lower p = ''resourcegroups'' then
             (case ps of
                [] \<Rightarrow> (if verb = ''GET'' then (Inr (reply 200 (PDict [(''value'', PList (list_resource_groups sub st))])), st)
                       else (Inr (arm_error 405 ''MethodNotAllowed'' ''Use PUT /resourcegroups/{name}.''), st))
              | [rg] \<Rightarrow> (Inr (resource_group_item verb sub rg payload), st)
              | rg # q # after \<Rightarrow>
                  (if lower q \<noteq> ''providers''
                   then (Inr (arm_error 400 ''BadRequest'' (''Unrecognized ARM path: /subscriptions/'' @ rest)), st)
                   else provider_call en verb api sub (Some rg) after payload st))
           else if lower p \<noteq> ''providers''
           then (Inr (arm_error 400 ''BadRequest'' (''Unrecognized ARM path: /subscriptions/'' @ rest)), st)
           else provider_call en verb api sub None ps payload st))"

definition operation_status :: "string \<Rightarrow> arm_state \<Rightarrow> pyval" where
  "operation_status op st =
     (case map_of (a_ops st) op of
        None \<Rightarrow> PDict [(''status'', PStr ''Succeeded'')]
      | Some r \<Rightarrow> PDict [(''id'', pget r ''id''), (''name'', pget r ''name''), (''status'', pget r ''status''),
          (''startTime'', pget r ''startTime''), (''endTime'', pget r ''endTime''),
          (''properties'', PDict [(''provisioningState'', pget r ''status'')])])"

end
