(* ===== verification/Azure_Props.thy ===== *)
theory Azure_Props
imports Azure_Arm
begin

text \<open>What the Azure Resource Manager promises: a resource is read back under any spelling of its path, a call touches only
  the resource it names, every record lies under its own id, and which creations the gates see.\<close>

section \<open>Paths\<close>

text \<open>The subscription, resource group and provider path of a request below \<open>providers\<close>.\<close>

fun arm_target :: "string list \<Rightarrow> (string \<times> string option \<times> string list) option" where
  "arm_target (sub # p # ps) =
     (if lower p = ''resourcegroups'' then
        (case ps of rg # q # after \<Rightarrow> (if lower q = ''providers'' then Some (sub, Some rg, after) else None) | _ \<Rightarrow> None)
      else if lower p = ''providers'' then Some (sub, None, ps) else None)"
| "arm_target _ = None"

lemma handle_arm_target:
  "arm_target (path_segments rest) = Some (sub, rg, after)
    \<Longrightarrow> handle_arm en verb api rest payload st = provider_call en verb api sub rg after payload st"
  by (auto simp: handle_arm_def split: list.splits if_splits)

text \<open>The path of one resource: namespace, then types and names in turn.\<close>

definition item_path :: "string list \<Rightarrow> bool" where
  "item_path after \<longleftrightarrow> 3 \<le> length after \<and> odd (length after)"

lemma odd_even_lengths: "(ts, ns) = odd_even xs \<Longrightarrow> length ts = (Suc (length xs)) div 2 \<and> length ns = length xs div 2"
  by (induction xs arbitrary: ts ns rule: odd_even.induct) (auto split: prod.splits)

lemma item_path_parts:
  assumes "item_path after" and "odd_even (tl after) = (types, names)"
  shows "length types = length names \<and> names \<noteq> []"
proof -
  obtain a b r where "after = a # b # r" using assms(1) by (cases after; cases "tl after") (auto simp: item_path_def)
  then show ?thesis
    using odd_even_lengths [OF assms(2) [symmetric]] assms(1) by (auto simp: item_path_def elim!: oddE)
qed

definition target_id :: "string \<Rightarrow> string option \<Rightarrow> string list \<Rightarrow> string" where
  "target_id sub rg after = (let (types, names) = odd_even (tl after) in canonical_id sub rg (hd after # types) names)"

definition target_type :: "string list \<Rightarrow> string" where
  "target_type after = join ''/'' (hd after # fst (odd_even (tl after)))"

lemma lower_join: "lower (join s xs) = join (lower s) (map lower xs)"
  by (induction s xs rule: join.induct) (simp_all add: lower_append)

lemma lower_interleave: "map lower (interleave ts ns) = interleave (map lower ts) (map lower ns)"
  by (induction ts ns rule: interleave.induct) simp_all

lemma odd_even_map: "odd_even (map f xs) = (map f (fst (odd_even xs)), map f (snd (odd_even xs)))"
  by (induction xs rule: odd_even.induct) (simp_all add: case_prod_beta)

text \<open>The key of a resource does not depend on the letter case of its path.\<close>

lemma lower_target_id:
  assumes "lower sub' = lower sub" and "map_option lower rg' = map_option lower rg" and "map lower after' = map lower after" and "after \<noteq> []"
  shows "lower (target_id sub' rg' after') = lower (target_id sub rg after)"
proof -
  have tl: "map lower (tl after') = map lower (tl after)" using assms(3) by (metis map_tl)
  have hd: "lower (hd after') = lower (hd after)" using assms(3,4) by (metis list.map_disc_iff list.map_sel(1))
  have parts: "map lower (fst (odd_even (tl after'))) = map lower (fst (odd_even (tl after)))"
    "map lower (snd (odd_even (tl after'))) = map lower (snd (odd_even (tl after)))"
    using odd_even_map [of lower "tl after'"] odd_even_map [of lower "tl after"] tl by simp_all
  have g: "map lower (case rg' of Some g \<Rightarrow> (if g = [] then [] else [''resourceGroups/'' @ g]) | None \<Rightarrow> [])
    = map lower (case rg of Some g \<Rightarrow> (if g = [] then [] else [''resourceGroups/'' @ g]) | None \<Rightarrow> [])"
  proof (cases rg)
    case (Some a)
    then obtain a' where a: "rg' = Some a'" "lower a' = lower a" using assms(2) by auto
    then have "(a' = []) = (a = [])" by (metis lower_Nil_iff)
    then show ?thesis by (simp add: Some a lower_append del: append_Cons)
  qed (use assms(2) in simp)
  show ?thesis
    unfolding target_id_def canonical_id_def case_prod_beta Let_def lower_join
    by (simp add: g lower_interleave parts hd assms(1) lower_append del: append_Cons)
qed

lemma by_type_lower: "lower ns' = lower ns \<Longrightarrow> lower ty' = lower ty \<Longrightarrow> by_type ns' ty' = by_type ns ty"
  by (simp add: by_type_def)

lemma provider_item:
  assumes "item_path after"
  shows "provider_call en verb api sub rg after payload st =
    (case by_type (hd after) (after ! 1) of
       None \<Rightarrow> (Inr (not_simulated (hd after) (after ! 1)), st)
     | Some c \<Rightarrow> resource_call en verb api c sub rg after payload st)"
  using assms by (auto simp: provider_call_def item_path_def)

lemma resource_get:
  assumes "item_path after"
  shows "resource_call en ''GET'' api c sub rg after payload st =
    (case map_of (a_state st) (lower (target_id sub rg after)) of
       None \<Rightarrow> (Inr (arm_error 404 ''ResourceNotFound'' (''Resource '' @ CHR 0x27 # target_id sub rg after @ [CHR 0x27] @ '' not found.'')), st)
     | Some r \<Rightarrow> (Inr (reply 200 (arm_view r)), st))"
  using item_path_parts [OF assms prod.collapse [symmetric]]
  by (simp add: resource_call_def target_id_def case_prod_beta Let_def split: option.split)

lemma resource_put:
  assumes "item_path after" and "verb \<in> {''PUT'', ''PATCH''}"
  shows "resource_call en verb api c sub rg after payload st =
    put_resource en verb c (target_id sub rg after) (hd after) (hd after # fst (odd_even (tl after))) (snd (odd_even (tl after))) payload
      (str_or (case api of Some a \<Rightarrow> a | None \<Rightarrow> []) (str_or (str_field c ''api_version'' []) ''2023-01-01'')) st"
  using item_path_parts [OF assms(1) prod.collapse [symmetric]] assms(2)
  by (auto simp: resource_call_def target_id_def case_prod_beta Let_def)

lemma resource_delete:
  assumes "item_path after"
  shows "resource_call en ''DELETE'' api c sub rg after payload st =
    (Inr (reply (if dhas (a_state st) (lower (target_id sub rg after)) then 200 else 204) PNone),
     st\<lparr>a_state := dpop (lower (target_id sub rg after)) (a_state st)\<rparr>)"
  using item_path_parts [OF assms prod.collapse [symmetric]] by (simp add: resource_call_def target_id_def case_prod_beta Let_def)

section \<open>Reading back\<close>

lemma upsert_stored:
  assumes "upsert en rid key full_type name c payload patch st = (Inr a, st')"
  shows "\<exists>r. a_state st' = dset key r (a_state st) \<and> ar_body a = arm_view r"
  using assms by (auto simp: upsert_def reply_def Let_def split: prod.splits option.splits)

lemma put_stored:
  assumes "put_resource en verb c rid ns chain names payload api st = (Inr a, st')" and "\<And>t r. e_provision en t r = r"
  shows "\<exists>r. map_of (a_state st') (lower rid) = Some r \<and> ar_body a = arm_view r"
proof -
  have p: "e_provision en (join ''/'' chain) = id" using assms(2) by auto
  have d: "dmap_at k id d = d" for k and d :: "arm_rec dict" by (simp add: dmap_at_def case_prod_beta cong: if_cong)
  obtain a1 st1 where "upsert en rid (lower rid) (join ''/'' chain) (last names) c payload (verb = ''PATCH'') st = (Inr a1, st1)"
    and s: "a_state st' = a_state st1" "ar_body a = ar_body a1"
    using assms(1) unfolding put_resource_def p Let_def d by (auto split: sum.splits prod.splits if_splits)
  then show ?thesis using upsert_stored by (fastforce simp: dict_simps)
qed


section \<open>Touching one resource\<close>

lemma dmap_at_other: "k' \<noteq> k \<Longrightarrow> map_of (dmap_at k f d) k' = map_of d k'"
  by (simp add: dict_simps)

lemma upsert_other:
  "k \<noteq> key \<Longrightarrow> map_of (a_state (snd (upsert en rid key full_type name c payload patch st))) k = map_of (a_state st) k"
  by (auto simp: upsert_def dict_simps Let_def split: prod.splits option.splits)

lemma put_resource_other:
  "k \<noteq> lower rid \<Longrightarrow> map_of (a_state (snd (put_resource en verb c rid ns chain names payload api st))) k = map_of (a_state st) k"
  using upsert_other [of k "lower rid" en rid "join ''/'' chain" "last names" c payload "verb = ''PATCH''" st]
  by (auto simp: put_resource_def dmap_at_other Let_def split: sum.splits prod.splits)

text \<open>Putting, patching or deleting a resource changes no other one.  A delete takes away exactly the resource it names
  and answers 200 when it was there, 204 otherwise; the resources below it stay.\<close>

theorem arm_changes_one_resource:
  assumes "arm_target (path_segments rest) = Some (sub, rg, after)" and "item_path after" and "verb \<in> {''PUT'', ''PATCH'', ''DELETE''}"
    and "by_type (hd after) (after ! 1) = Some c"
  shows "(\<forall>k. k \<noteq> lower (target_id sub rg after) \<longrightarrow>
        map_of (a_state (snd (handle_arm en verb api rest payload st))) k = map_of (a_state st) k)
    \<and> (verb = ''DELETE'' \<longrightarrow>
        handle_arm en verb api rest payload st
          = (Inr (reply (if dhas (a_state st) (lower (target_id sub rg after)) then 200 else 204) PNone),
             st\<lparr>a_state := dpop (lower (target_id sub rg after)) (a_state st)\<rparr>))"
proof (cases "verb = ''DELETE''")
  case True
  then have "handle_arm en verb api rest payload st
      = (Inr (reply (if dhas (a_state st) (lower (target_id sub rg after)) then 200 else 204) PNone),
         st\<lparr>a_state := dpop (lower (target_id sub rg after)) (a_state st)\<rparr>)"
    by (simp add: handle_arm_target [OF assms(1)] provider_item [OF assms(2)] assms(4) resource_delete [OF assms(2)] del: One_nat_def)
  then show ?thesis using True by (auto simp: dict_simps)
next
  case False
  then have v: "verb \<in> {''PUT'', ''PATCH''}" using assms(3) by simp
  have "handle_arm en verb api rest payload st =
      put_resource en verb c (target_id sub rg after) (hd after) (hd after # fst (odd_even (tl after))) (snd (odd_even (tl after))) payload
        (str_or (case api of Some a \<Rightarrow> a | None \<Rightarrow> []) (str_or (str_field c ''api_version'' []) ''2023-01-01'')) st"
    by (simp add: handle_arm_target [OF assms(1)] provider_item [OF assms(2)] assms(4) resource_put [OF assms(2) v] del: One_nat_def)
  then show ?thesis using False put_resource_other by simp
qed

section \<open>The gates\<close>

definition with_gates ::
  "(string \<Rightarrow> itype_limits option result) \<Rightarrow> unit result \<Rightarrow> (string \<Rightarrow> unit result) \<Rightarrow> string \<Rightarrow> arm_env \<Rightarrow> arm_env" where
  "with_gates budget disk quantity tier en = en\<lparr>e_budget := budget, e_disk := disk, e_quantity := quantity, e_tier := tier\<rparr>"

lemma gates_apart [simp]:
  "e_base (with_gates b d q t en) = e_base en" "e_now (with_gates b d q t en) = e_now en" "e_uuid (with_gates b d q t en) = e_uuid en"
  "e_op (with_gates b d q t en) = e_op en" "e_provision (with_gates b d q t en) = e_provision en"
  by (simp_all add: with_gates_def)

lemma fill_endpoint_gates [simp]: "fill_endpoint (with_gates b d q t en) name = fill_endpoint en name"
  by (simp add: fill_endpoint_def fun_eq_iff)

lemma fill_endpoints_gates: "fill_endpoints (with_gates b d q t en) name es r = fill_endpoints en name es r"
  by (induction es arbitrary: r) (auto split: sum.split)

lemma fresh_gates [simp]: "fresh_record (with_gates b d q t en) = fresh_record en"
  by (simp add: fresh_record_def seed_fields_def fun_eq_iff)

lemma upsert_gates: "upsert (with_gates b d q t en) rid key full_type name c payload patch st = upsert en rid key full_type name c payload patch st"
  unfolding upsert_def fresh_gates fill_endpoints_gates by (rule refl)

lemma patch_gates:
  "put_resource (with_gates b d q t en) ''PATCH'' c rid ns chain names payload api st = put_resource en ''PATCH'' c rid ns chain names payload api st"
  by (simp add: put_resource_def upsert_gates lro_headers_def operation_record_def Let_def split: prod.split sum.split)

text \<open>C23. A resource that is not there yet passes every gate of its type before it is put: when one refuses, the answer is its
  error and nothing is stored.  A patch of the same path creates the same resource and asks no gate: whatever budget,
  disk, quantity cap and tier say, the outcome is the same.\<close>

theorem arm_patch_skips_gates:
  assumes "arm_target (path_segments rest) = Some (sub, rg, after)" and "item_path after" and "by_type (hd after) (after ! 1) = Some c"
    and "\<not> dhas (a_state st) (lower (target_id sub rg after))" and "create_gates en (target_type after) payload = Inl e"
  shows "handle_arm en ''PUT'' api rest payload st = (Inl e, st)
    \<and> handle_arm (with_gates b d q t en) ''PATCH'' api rest payload st = handle_arm en ''PATCH'' api rest payload st"
proof
  show "handle_arm en ''PUT'' api rest payload st = (Inl e, st)"
    using assms(4,5)
    by (simp add: handle_arm_target [OF assms(1)] provider_item [OF assms(2)] assms(3) resource_put [OF assms(2)] put_resource_def
        target_type_def Let_def del: One_nat_def)
  show "handle_arm (with_gates b d q t en) ''PATCH'' api rest payload st = handle_arm en ''PATCH'' api rest payload st"
    by (simp add: handle_arm_target [OF assms(1)] provider_item [OF assms(2)] assms(3) resource_put [OF assms(2)] patch_gates del: One_nat_def)
qed

section \<open>Records under their ids\<close>

definition id_fields :: "string list" where
  "id_fields = [''id'', ''_type'', ''_sub'', ''_rg'']"

definition record_ok :: "string \<Rightarrow> arm_rec \<Rightarrow> bool" where
  "record_ok k r \<longleftrightarrow> (\<exists>rid ft. k = lower rid \<and> map_of r ''id'' = Some (PStr rid) \<and> map_of r ''_type'' = Some (PStr ft)
     \<and> map_of r ''_sub'' = Some (PStr (split_char CHR ''/'' rid ! 2)) \<and> map_of r ''_rg'' = Some (opt_str (rg_from_id rid)))"

definition index_ok :: "arm_state \<Rightarrow> bool" where
  "index_ok st \<longleftrightarrow> wf_dict (a_state st) \<and> (\<forall>k r. map_of (a_state st) k = Some r \<longrightarrow> record_ok k r)"

definition same_ids :: "arm_rec \<Rightarrow> arm_rec \<Rightarrow> bool" where
  "same_ids r q \<longleftrightarrow> (\<forall>f\<in>set id_fields. map_of r f = map_of q f)"

lemma record_ok_same: "same_ids r q \<Longrightarrow> record_ok k r = record_ok k q"
  by (simp add: same_ids_def id_fields_def record_ok_def)

lemma same_ids_trans: "same_ids r q \<Longrightarrow> same_ids q p \<Longrightarrow> same_ids r p"
  by (simp add: same_ids_def)

lemma same_ids_refl [simp]: "same_ids r r"
  by (simp add: same_ids_def)

lemma same_ids_dset: "f \<notin> set id_fields \<Longrightarrow> same_ids (dset f v r) r"
  by (auto simp: same_ids_def dict_simps)

lemma same_ids_copy: "f \<notin> set id_fields \<Longrightarrow> same_ids (copy_field p f r) r"
  by (simp add: copy_field_def same_ids_dset)

lemma same_ids_merge: "f \<notin> set id_fields \<Longrightarrow> same_ids (merge_field p f r) r"
  by (simp add: merge_field_def same_ids_dset split: pyval.split)

lemma overlay_ids: "same_ids (overlay p r) r"
proof -
  have f: "''properties'' \<notin> set id_fields" "''sku'' \<notin> set id_fields" "''tags'' \<notin> set id_fields" "''kind'' \<notin> set id_fields"
    "''location'' \<notin> set id_fields" by (simp_all add: id_fields_def)
  note step = same_ids_trans [OF same_ids_merge] same_ids_trans [OF same_ids_copy]
  have "same_ids (overlay p r) (merge_field p ''properties'' (merge_field p ''sku'' (merge_field p ''tags''
       (copy_field p ''kind'' (copy_field p ''location'' r)))))"
    by (simp add: overlay_def provisioned_def same_ids_dset f Let_def)
  then show ?thesis
    by (rule same_ids_trans) (intro step f same_ids_copy)
qed

lemma set_path_head:
  assumes "set_path (p # ps) v (PDict r) = Inr w" and "\<not> all_digits p" and "f \<noteq> p"
  shows "map_of (dict_or_empty w) f = map_of r f"
  using assms by (cases ps) (auto simp: rbind_Inr dict_simps)

definition own_endpoints :: "pyval dict \<Rightarrow> bool" where
  "own_endpoints c \<longleftrightarrow> list_all (\<lambda>(path, _). hd (dotted path) = ''properties'') (dict_or_empty (dget c ''endpoints'' (PDict [])))
     \<and> list_all (\<lambda>k. k \<notin> set id_fields) (map fst (dict_or_empty (dget c ''defaults'' (PDict []))))"

lemma catalog_own: "list_all own_endpoints RESOURCE_CATALOG"
  by code_simp

lemma by_type_own: "by_type ns ty = Some c \<Longrightarrow> own_endpoints c"
  using catalog_own by (auto simp: by_type_def find_Some_iff list_all_length)

lemma fill_endpoint_ids:
  assumes "hd (dotted path) = ''properties''" and "fill_endpoint en name (path, sfx) r = Inr r'"
  shows "same_ids r' r"
proof (cases "get_path (dotted path) (PDict r) \<in> {PNone, PStr []}")
  case True
  then obtain w where w: "set_path (dotted path) (PStr (e_base en @ replace_str ''__NAME__'' name (py_str sfx))) (PDict r) = Inr w"
    "r' = dict_or_empty w"
    using assms(2) by (auto simp: fill_endpoint_def rbind_Inr)
  have "dotted path = ''properties'' # tl (dotted path)"
    using assms(1) split_char_not_Nil [of "CHR ''.''" path] by (metis dotted_def list.collapse)
  moreover have "\<not> all_digits ''properties''" by code_simp
  ultimately show ?thesis using w set_path_head [of "''properties''" "tl (dotted path)"] by (auto simp: same_ids_def id_fields_def)
next
  case False
  then show ?thesis using assms(2) by (simp add: fill_endpoint_def)
qed

lemma fill_endpoints_ids:
  "list_all (\<lambda>(path, _). hd (dotted path) = ''properties'') es \<Longrightarrow> same_ids (fst (fill_endpoints en name es r)) r"
proof (induction es arbitrary: r)
  case (Cons e es)
  obtain path sfx where e: "e = (path, sfx)" by (cases e)
  show ?case
  proof (cases "fill_endpoint en name e r")
    case (Inr r')
    have "same_ids r' r" using fill_endpoint_ids [of path en name sfx r r'] Inr Cons.prems by (simp add: e)
    moreover have "same_ids (fst (fill_endpoints en name es r')) r'" using Cons by (simp add: e)
    ultimately show ?thesis using Inr same_ids_trans by fastforce
  qed simp
qed simp

lemma foldl_dset_other: "f \<notin> set (map fst kvs) \<Longrightarrow> map_of (foldl (\<lambda>r (k, v). dset k v r) r kvs) f = map_of r f"
  by (induction kvs arbitrary: r) (auto simp: dict_simps)

lemma seed_keys:
  "own_endpoints c \<Longrightarrow> f \<in> set id_fields \<Longrightarrow> f \<notin> set (map fst (seed_fields en c full_type name))"
proof -
  assume o: "own_endpoints c" "f \<in> set id_fields"
  have "map fst (dict_or_empty (expand_tokens u n b v)) = map fst (dict_or_empty v)" for u n b v
    by (cases v) (simp_all add: dict_or_empty_def case_prod_beta comp_def)
  then have k: "is_top c full_type \<Longrightarrow> map fst (seed_fields en c full_type name) = map fst (dict_or_empty (dget c ''defaults'' (PDict [])))"
    by (simp add: seed_fields_def)
  show ?thesis
  proof (cases "is_top c full_type")
    case True
    have "\<forall>k\<in>set (map fst (dict_or_empty (dget c ''defaults'' (PDict [])))). k \<notin> set id_fields"
      using o(1) by (simp only: own_endpoints_def list_all_iff) blast
    then show ?thesis using o(2) unfolding k [OF True] by blast
  next
    case False
    then show ?thesis using o(2) by (auto simp: seed_fields_def id_fields_def)
  qed
qed

lemma fresh_record_ok: "own_endpoints c \<Longrightarrow> record_ok (lower rid) (fresh_record en rid full_type name c payload)"
  using seed_keys [of c _ en full_type name]
  by (auto simp: record_ok_def fresh_record_def foldl_dset_other id_fields_def)

lemma index_ok_dset: "index_ok st \<Longrightarrow> record_ok k r \<Longrightarrow> index_ok (st\<lparr>a_state := dset k r (a_state st)\<rparr>)"
  by (auto simp: index_ok_def wf_dset dict_simps)

lemma upsert_index:
  assumes "index_ok st" and "own_endpoints c"
  shows "index_ok (snd (upsert en rid (lower rid) full_type name c payload patch st))"
proof -
  define r0 where "r0 = (case (patch, map_of (a_state st) (lower rid)) of (True, Some q) \<Rightarrow> q | _ \<Rightarrow> fresh_record en rid full_type name c payload)"
  have "record_ok (lower rid) r0"
    using assms fresh_record_ok [OF assms(2)] by (auto simp: r0_def index_ok_def split: bool.split option.split)
  moreover have "list_all (\<lambda>(path, _). hd (dotted path) = ''properties'') (endpoint_paths c full_type)"
    using assms(2) by (simp add: own_endpoints_def endpoint_paths_def)
  ultimately have "record_ok (lower rid) (fst (fill_endpoints en name (endpoint_paths c full_type) (overlay payload r0)))"
    using record_ok_same [OF same_ids_trans [OF fill_endpoints_ids overlay_ids]] by blast
  then show ?thesis
    unfolding upsert_def r0_def [symmetric] Let_def
    by (cases "fill_endpoints en name (endpoint_paths c full_type) (overlay payload r0)")
      (auto simp: index_ok_dset [OF assms(1)] assms(1) split: option.split)
qed

definition keeps_ids :: "arm_env \<Rightarrow> bool" where
  "keeps_ids en \<longleftrightarrow> (\<forall>full_type r. same_ids (e_provision en full_type r) r)"

lemma provision_index:
  assumes "index_ok st" and "keeps_ids en"
  shows "index_ok (st\<lparr>a_state := dmap_at k (e_provision en full_type) (a_state st)\<rparr>)"
  using assms record_ok_same
  by (fastforce simp: index_ok_def wf_dmap_at keeps_ids_def dict_simps split: if_splits option.splits)

lemma index_ok_ops [simp]: "index_ok (st\<lparr>a_ops := x\<rparr>) = index_ok st"
  by (simp add: index_ok_def)

lemma put_resource_index:
  assumes "index_ok st" and "own_endpoints c" and "keeps_ids en"
  shows "index_ok (snd (put_resource en verb c rid ns chain names payload api st))"
  using upsert_index [OF assms(1,2), of en rid "join ''/'' chain" "last names" payload "verb = ''PATCH''"] provision_index [OF _ assms(3)] assms(1)
  by (auto simp: put_resource_def Let_def split: sum.split prod.split)

lemma with_status_ids: "same_ids (with_status status r props rt) r" "same_ids (created_subs r props rt) r"
  by (simp_all add: with_status_def created_subs_def same_ids_dset id_fields_def)

lemma vm_action_index:
  assumes "index_ok st" and "map_of (a_state st) k = Some r"
  shows "index_ok (snd (vm_action en action k r st))"
proof -
  have r: "record_ok k r" using assms by (simp add: index_ok_def)
  have "index_ok (st\<lparr>a_state := dset k q (a_state st)\<rparr>)" if "same_ids q r" for q
    using index_ok_dset [OF assms(1)] record_ok_same [OF that] r by simp
  then show ?thesis using assms(1) with_status_ids
    by (simp add: vm_action_def Let_def split: sum.split option.split)
qed

lemma arm_action_index: "index_ok st \<Longrightarrow> index_ok (snd (arm_action en action chain name parent st))"
  by (auto simp: arm_action_def vm_action_index split: option.split)

lemma dpop_index: "index_ok st \<Longrightarrow> index_ok (st\<lparr>a_state := dpop k (a_state st)\<rparr>)"
  by (auto simp: index_ok_def wf_dpop dict_simps split: if_splits)

lemma resource_call_index:
  assumes "index_ok st" and "own_endpoints c" and "keeps_ids en"
  shows "index_ok (snd (resource_call en verb api c sub rg after payload st))"
  using assms put_resource_index arm_action_index dpop_index
  by (simp add: resource_call_def case_prod_beta Let_def split: option.split)

lemma provider_call_index:
  assumes "index_ok st" and "keeps_ids en"
  shows "index_ok (snd (provider_call en verb api sub rg after payload st))"
  using assms resource_call_index [OF assms(1) _ assms(2)] by_type_own
  by (auto simp: provider_call_def simp del: One_nat_def split: option.split)

text \<open>C22. Every record lies under the lower-case spelling of its own id, with the subscription and the resource group that id
  names, whatever calls were made with whatever bodies: no body can move a resource or hide it from its list.\<close>

theorem arm_handler_keeps_index:
  assumes "index_ok st" and "keeps_ids en"
  shows "index_ok (snd (handle_arm en verb api rest payload st))"
  using assms provider_call_index [OF assms]
  by (simp add: handle_arm_def split: list.split)

section \<open>Concrete runs\<close>

definition demo_env :: arm_env where
  "demo_env =
     \<lparr>e_base = ''http://sim'', e_now = ''now'', e_uuid = ''u'', e_op = ''op'', e_tier = ''free'', e_budget = (\<lambda>_. Inr None), e_disk = Inr (),
      e_quantity = (\<lambda>rt. if rt = ''bucket'' then Inl (HTTPException 403 (PStr ''cap'')) else Inr ()), e_provision = (\<lambda>_ r. r),
      e_run = (\<lambda>_ _ _. None), e_exc_text = (\<lambda>_. []), e_sha = id\<rparr>"

definition demo_arm :: arm_state where
  "demo_arm = \<lparr>a_state = [], a_ops = []\<rparr>"

definition demo_rest :: string where
  "demo_rest = ''s1/resourceGroups/g/providers/Microsoft.Storage/storageAccounts/Logs''"

definition demo_after :: "string list" where
  "demo_after = [''Microsoft.Storage'', ''storageAccounts'', ''Logs'']"

lemma demo_target: "arm_target (path_segments demo_rest) = Some (''s1'', Some ''g'', demo_after)"
  by code_simp

lemma demo_target_lower:
  "arm_target (path_segments ''S1/RESOURCEGROUPS/G/providers/microsoft.storage/storageaccounts/logs'')
    = Some (''S1'', Some ''G'', [''microsoft.storage'', ''storageaccounts'', ''logs''])"
  by code_simp

lemma demo_storage: "by_type ''Microsoft.Storage'' ''storageAccounts'' = Some cat_storage"
  by code_simp

lemma demo_item: "item_path demo_after"
  by code_simp


theorem arm_changes_one_resource_witness:
  "handle_arm demo_env ''DELETE'' None demo_rest [] demo_arm = (Inr (reply 204 PNone), demo_arm)"
proof -
  have c: "by_type (hd demo_after) (demo_after ! 1) = Some cat_storage" using demo_storage by (simp add: demo_after_def)
  from arm_changes_one_resource [OF demo_target demo_item _ c, of "''DELETE''" demo_env None "[]" demo_arm] show ?thesis
    by (simp add: demo_arm_def dhas_def dpop_def)
qed

theorem arm_patch_skips_gates_witness:
  "handle_arm demo_env ''PUT'' None demo_rest [] demo_arm = (Inl (HTTPException 403 (PStr ''cap'')), demo_arm)
   \<and> (\<exists>a st'. handle_arm demo_env ''PATCH'' None demo_rest [] demo_arm = (Inr a, st'))"
proof -
  have c: "by_type (hd demo_after) (demo_after ! 1) = Some cat_storage" using demo_storage by (simp add: demo_after_def)
  have n: "\<not> dhas (a_state demo_arm) (lower (target_id ''s1'' (Some ''g'') demo_after))" by (simp add: demo_arm_def dhas_def)
  have g: "create_gates demo_env (target_type demo_after) [] = Inl (HTTPException 403 (PStr ''cap''))" by code_simp
  have "case fst (handle_arm demo_env ''PATCH'' None demo_rest [] demo_arm) of Inl _ \<Rightarrow> False | Inr _ \<Rightarrow> True" by code_simp
  then have "\<exists>a st'. handle_arm demo_env ''PATCH'' None demo_rest [] demo_arm = (Inr a, st')"
    by (cases "handle_arm demo_env ''PATCH'' None demo_rest [] demo_arm") (auto split: sum.splits)
  with arm_patch_skips_gates [OF demo_target demo_item c n g, of None] show ?thesis by simp
qed

theorem arm_handler_keeps_index_witness:
  "index_ok (snd (handle_arm demo_env ''PUT'' None ''s1/resourceGroups/g/providers/Microsoft.Sql/servers/db'' [(''_rg'', PStr ''x'')] demo_arm))"
proof -
  have "index_ok demo_arm" by (simp add: index_ok_def demo_arm_def wf_dict_def)
  moreover have "keeps_ids demo_env" by (simp add: keeps_ids_def demo_env_def)
  ultimately show ?thesis by (rule arm_handler_keeps_index)
qed

end
