(* ===== verification/Azure_Data.thy ===== *)
theory Azure_Data
imports Py_Compare Py_Base64 Py_Json
begin

text \<open>The data planes of Azure (\<open>core/azure_dataplane.py\<close>): blobs of storage accounts, the queues of a service bus namespace,
  the documents of a Cosmos account, the invocation of function apps and the gateway of API Management.  Every plane keeps
  its own store per space.  Clock, random identifiers, digests, the runtime that executes code and the backend a gateway
  calls are arguments.\<close>

section \<open>Requests and answers\<close>

record data_request =
  d_method :: string
  d_query :: "string dict"
  d_headers :: "string dict"
  d_body :: string
  d_json :: "pyval option"

datatype data_content = Text string | Json pyval

record data_reply =
  dr_status :: nat
  dr_content :: data_content
  dr_headers :: "string dict"

record data_env =
  x_date :: string
  x_etag :: string
  x_id :: string
  x_rid :: string
  x_sid :: string
  x_ts :: int
  x_md5 :: "string \<Rightarrow> string"

definition json_reply :: "nat \<Rightarrow> pyval \<Rightarrow> data_reply" where
  "json_reply status v = \<lparr>dr_status = status, dr_content = Json v, dr_headers = []\<rparr>"

definition empty_reply :: "nat \<Rightarrow> data_reply" where
  "empty_reply status = \<lparr>dr_status = status, dr_content = Text [], dr_headers = []\<rparr>"

definition query_get :: "data_request \<Rightarrow> string \<Rightarrow> string" where
  "query_get rq k = dget (d_query rq) k []"

section \<open>Blobs\<close>

record blob_rec =
  b_data :: string
  b_ct :: string
  b_etag :: string
  b_mtime :: string
  b_meta :: "string dict"

record blob_account =
  ba_containers :: "string dict"
  ba_blobs :: "((string \<times> string) \<times> blob_rec) list"

type_synonym blob_store = "blob_account dict"

definition account_key :: "string \<Rightarrow> string \<Rightarrow> string" where
  "account_key sid acct = sid @ ''|'' @ acct"

definition blob_account_of :: "blob_store \<Rightarrow> string \<Rightarrow> string \<Rightarrow> blob_account" where
  "blob_account_of bs sid acct = dget bs (account_key sid acct) \<lparr>ba_containers = [], ba_blobs = []\<rparr>"

definition blob_headers :: "data_env \<Rightarrow> string dict \<Rightarrow> string dict" where
  "blob_headers en extra =
     foldl (\<lambda>h (k, v). dset k v h)
       [(''x-ms-version'', ''2023-11-03''), (''x-ms-request-id'', x_id en), (''Date'', x_date en), (''Server'', ''CloudLearn-Azurite/1.0'')]
       extra"

definition xml_escape :: "string \<Rightarrow> string" where
  "xml_escape s = replace_char CHR ''>'' ''&gt;'' (replace_char CHR ''<'' ''&lt;'' (replace_char CHR ''&'' ''&amp;'' s))"

definition xml_head :: string where
  "xml_head = ''<?xml version='' @ [CHR 0x22] @ ''1.0'' @ [CHR 0x22] @ '' encoding='' @ [CHR 0x22] @ ''utf-8'' @ [CHR 0x22] @ ''?>''"

definition lease_xml :: string where
  "lease_xml = ''<LeaseStatus>unlocked</LeaseStatus><LeaseState>available</LeaseState></Properties>''"

definition containers_xml :: "data_env \<Rightarrow> blob_account \<Rightarrow> string" where
  "containers_xml en a =
     xml_head @ ''<EnumerationResults><Containers>''
       @ concat (map (\<lambda>(n, _). ''<Container><Name>'' @ xml_escape n @ ''</Name><Properties><Last-Modified>'' @ x_date en
            @ ''</Last-Modified><Etag>'' @ x_etag en @ ''</Etag>'' @ lease_xml @ ''</Container>'') (ba_containers a))
       @ ''</Containers><NextMarker /></EnumerationResults>''"

definition blob_row :: "string \<Rightarrow> blob_rec \<Rightarrow> string" where
  "blob_row b r =
     ''<Blob><Name>'' @ xml_escape b @ ''</Name><Properties><Last-Modified>'' @ b_mtime r @ ''</Last-Modified><Etag>'' @ b_etag r
       @ ''</Etag><Content-Length>'' @ nat_str (length (b_data r)) @ ''</Content-Length><Content-Type>'' @ xml_escape (b_ct r)
       @ ''</Content-Type><BlobType>BlockBlob</BlobType>'' @ lease_xml @ ''</Blob>''"

definition blobs_xml :: "string \<Rightarrow> string \<Rightarrow> blob_account \<Rightarrow> string" where
  "blobs_xml container pre a =
     xml_head @ ''<EnumerationResults ContainerName='' @ [CHR 0x22] @ xml_escape container @ [CHR 0x22] @ ''><Blobs>''
       @ concat (map (\<lambda>((c, b), r). blob_row b r) (filter (\<lambda>((c, b), _). c = container \<and> startswith b pre) (ba_blobs a)))
       @ ''</Blobs><NextMarker /></EnumerationResults>''"

definition blob_reply :: "data_env \<Rightarrow> nat \<Rightarrow> string \<Rightarrow> string dict \<Rightarrow> data_reply" where
  "blob_reply en status content extra = \<lparr>dr_status = status, dr_content = Text content, dr_headers = blob_headers en extra\<rparr>"

definition ms_error :: "string \<Rightarrow> string dict" where
  "ms_error code = [(''x-ms-error-code'', code)]"

definition container_call :: "data_env \<Rightarrow> data_request \<Rightarrow> string \<Rightarrow> blob_account \<Rightarrow> data_reply \<times> blob_account" where
  "container_call en rq c a =
     (let v = d_method rq in
      if v = ''GET'' \<and> query_get rq ''comp'' = ''list'' then
        (blob_reply en 200 (blobs_xml c (query_get rq ''prefix'') a) [], a)
      else if query_get rq ''restype'' = ''container'' \<and> v = ''PUT'' then
        (if dhas (ba_containers a) c then (blob_reply en 409 [] (ms_error ''ContainerAlreadyExists''), a)
         else (blob_reply en 201 [] [(''ETag'', x_etag en), (''Last-Modified'', x_date en)],
               a\<lparr>ba_containers := dset c (x_date en) (ba_containers a)\<rparr>))
      else if query_get rq ''restype'' = ''container'' \<and> v = ''DELETE'' then
        (blob_reply en 202 [] [],
         a\<lparr>ba_containers := dpop c (ba_containers a), ba_blobs := filter (\<lambda>(k, _). fst k \<noteq> c) (ba_blobs a)\<rparr>)
      else if query_get rq ''restype'' = ''container'' \<and> v \<in> {''GET'', ''HEAD''} then
        (if dhas (ba_containers a) c then (blob_reply en 200 [] [(''ETag'', x_etag en), (''Last-Modified'', x_date en)], a)
         else (blob_reply en 404 [] (ms_error ''ContainerNotFound''), a))
      else (blob_reply en 400 [] [], a))"

definition blob_type :: "data_request \<Rightarrow> string" where
  "blob_type rq =
     str_or (dget (d_headers rq) ''content-type'' []) (str_or (dget (d_headers rq) ''x-ms-blob-content-type'' []) ''application/octet-stream'')"

definition blob_meta :: "data_request \<Rightarrow> string dict" where
  "blob_meta rq =
     foldl (\<lambda>d (k, v). dset (drop (length ''x-ms-meta-'') k) v d) [] (filter (\<lambda>(k, _). startswith (lower k) ''x-ms-meta-'') (d_headers rq))"

definition read_headers :: "blob_rec \<Rightarrow> string dict" where
  "read_headers r =
     [(''ETag'', b_etag r), (''Last-Modified'', b_mtime r), (''Content-Length'', nat_str (length (b_data r))),
      (''Accept-Ranges'', ''bytes''), (''x-ms-blob-type'', ''BlockBlob''), (''x-ms-creation-time'', b_mtime r)]
     @ map (\<lambda>(k, v). (''x-ms-meta-'' @ k, v)) (b_meta r)"

definition blob_call :: "data_env \<Rightarrow> data_request \<Rightarrow> string \<times> string \<Rightarrow> blob_account \<Rightarrow> data_reply \<times> blob_account" where
  "blob_call en rq key a =
     (let v = d_method rq; old = map_of (ba_blobs a) key in
      if v = ''PUT'' then
        (blob_reply en 201 [] [(''ETag'', x_etag en), (''Last-Modified'', x_date en), (''Content-MD5'', b64encode (x_md5 en (d_body rq))),
             (''x-ms-request-server-encrypted'', ''true'')],
         a\<lparr>ba_containers := dsetdefault (fst key) (x_date en) (ba_containers a),
           ba_blobs := AList.update key \<lparr>b_data = d_body rq, b_ct = blob_type rq, b_etag = x_etag en, b_mtime = x_date en,
             b_meta = blob_meta rq\<rparr> (ba_blobs a)\<rparr>)
      else if v \<in> {''GET'', ''HEAD''} then
        ((case old of
            None \<Rightarrow> blob_reply en 404 [] (ms_error ''BlobNotFound'')
          | Some r \<Rightarrow> blob_reply en 200 (if v = ''HEAD'' then [] else b_data r) (read_headers r)), a)
      else if v = ''DELETE'' then
        (blob_reply en (if old = None then 404 else 202) [] [], a\<lparr>ba_blobs := AList.delete key (ba_blobs a)\<rparr>)
      else (blob_reply en 405 [] [], a))"

definition blob_handle :: "data_env \<Rightarrow> data_request \<Rightarrow> string \<Rightarrow> string \<Rightarrow> blob_store \<Rightarrow> data_reply \<times> blob_store" where
  "blob_handle en rq acct rest bs =
     (let a = blob_account_of bs (x_sid en) acct;
          (r, a') = (if rest = [] then
                       ((if d_method rq = ''GET'' \<and> query_get rq ''comp'' = ''list'' then blob_reply en 200 (containers_xml en a) []
                         else blob_reply en 400 [] []), a)
                     else case split_once ''/'' rest of
                            None \<Rightarrow> container_call en rq rest a
                          | Some (c, b) \<Rightarrow> (if b = [] then container_call en rq c a else blob_call en rq (c, b) a))
      in (r, dset (account_key (x_sid en) acct) a' bs))"

section \<open>Service bus\<close>

type_synonym bus_key = "string \<times> string \<times> string"
type_synonym bus_store = "(bus_key \<times> pyval dict list) list"

definition bus_queue :: "bus_store \<Rightarrow> bus_key \<Rightarrow> pyval dict list" where
  "bus_queue sb k = (case map_of sb k of Some q \<Rightarrow> q | None \<Rightarrow> [])"

definition bus_message :: "data_env \<Rightarrow> data_request \<Rightarrow> pyval dict" where
  "bus_message en rq =
     [(''messageId'', PStr (x_id en)), (''body'', PStr (d_body rq)),
      (''ct'', PStr (dget (d_headers rq) ''content-type'' ''text/plain'')), (''enqueuedTimeUtc'', PStr (x_date en))]"

definition rest_segments :: "string \<Rightarrow> string list" where
  "rest_segments rest = filter (\<lambda>s. s \<noteq> []) (split_char CHR ''/'' rest)"

definition bus_reply :: "pyval dict \<Rightarrow> data_reply" where
  "bus_reply m =
     \<lparr>dr_status = 200, dr_content = Json (PDict m),
      dr_headers = [(''BrokerProperties'', dumps (PDict [(''MessageId'', pget m ''messageId''), (''EnqueuedTimeUtc'', pget m ''enqueuedTimeUtc'')]))]\<rparr>"

definition bus_handle :: "data_env \<Rightarrow> data_request \<Rightarrow> string \<Rightarrow> string \<Rightarrow> bus_store \<Rightarrow> data_reply \<times> bus_store" where
  "bus_handle en rq ns rest sb =
     (let segs = rest_segments rest; v = d_method rq; unsupported = json_reply 400 (PDict [(''error'', PStr ''unsupported Service Bus REST op'')]);
          k = (x_sid en, ns, hd segs); q = bus_queue sb k
      in if segs = [] then (unsupported, sb)
         else if 2 \<le> length segs \<and> segs ! 1 = ''messages'' then
           (let head = (3 \<le> length segs \<and> segs ! 2 = ''head'') in
            if v = ''POST'' \<and> \<not> head then
              (json_reply 201 (PDict [(''messageId'', PStr (x_id en)), (''queued'', PInt (int (length q) + 1))]),
               AList.update k (q @ [bus_message en rq]) sb)
            else if head \<and> v \<in> {''DELETE'', ''GET''} then
              (case q of
                 [] \<Rightarrow> (empty_reply 204, AList.update k q sb)
               | m # ms \<Rightarrow> (bus_reply m, AList.update k (if v = ''GET'' then q else ms) sb))
            else (unsupported, AList.update k q sb))
         else if v = ''GET'' \<and> length segs = 1 then
           (json_reply 200 (PDict [(''entity'', PStr (hd segs)), (''namespace'', PStr ns), (''activeMessageCount'', PInt (int (length q)))]),
            AList.update k q sb)
         else (unsupported, sb))"

section \<open>Cosmos documents\<close>

text \<open>Python dictionaries whose keys come from request bodies: a key is found when it is equal, \<open>1\<close> under \<open>True\<close> as well,
  and a list or a dictionary cannot be one.\<close>

type_synonym 'v vdict = "(pyval \<times> 'v) list"

definition hashable :: "pyval \<Rightarrow> bool" where
  "hashable v = (\<not> is_list v \<and> \<not> is_dict v)"

definition vfind :: "'v vdict \<Rightarrow> pyval \<Rightarrow> 'v option" where
  "vfind d k = map_option snd (find (\<lambda>(k', _). py_eq k' k) d)"

fun vset :: "pyval \<Rightarrow> 'v \<Rightarrow> 'v vdict \<Rightarrow> 'v vdict" where
  "vset k v [] = [(k, v)]"
| "vset k v ((k', w) # d) = (if py_eq k' k then (k', v) # d else (k', w) # vset k v d)"

definition vdel :: "pyval \<Rightarrow> 'v vdict \<Rightarrow> 'v vdict" where
  "vdel k d = filter (\<lambda>(k', _). \<not> py_eq k' k) d"

definition vdefault :: "pyval \<Rightarrow> 'v \<Rightarrow> 'v vdict \<Rightarrow> 'v vdict" where
  "vdefault k v d = (if vfind d k = None then vset k v d else d)"

definition vget :: "'v vdict \<Rightarrow> pyval \<Rightarrow> 'v \<Rightarrow> 'v" where
  "vget d k v = (case vfind d k of Some w \<Rightarrow> w | None \<Rightarrow> v)"

type_synonym cosmos_colls = "pyval dict vdict vdict"
type_synonym cosmos_account = "cosmos_colls vdict"

definition cosmos_body :: "data_request \<Rightarrow> pyval dict" where
  "cosmos_body rq = (case d_json rq of Some (PDict d) \<Rightarrow> d | _ \<Rightarrow> [])"

definition cos_404 :: data_reply where
  "cos_404 = json_reply 404 (PDict [(''code'', PStr ''NotFound'')])"

definition unhashable :: "pyval \<Rightarrow> data_reply" where
  "unhashable v =
     json_reply 400 (PDict [(''error'', PStr (''unhashable type: '' @ [CHR 0x27] @ (if is_list v then ''list'' else ''dict'') @ [CHR 0x27]))])"

definition id_reply :: "nat \<Rightarrow> pyval \<Rightarrow> data_reply" where
  "id_reply status k = json_reply status (PDict [(''id'', k)])"

definition id_list :: "string \<Rightarrow> 'v vdict \<Rightarrow> data_reply" where
  "id_list name d =
     json_reply 200 (PDict [(name, PList (map (\<lambda>(k, _). PDict [(''id'', k)]) d)), (''_count'', PInt (int (length d)))])"

definition unsupported_cosmos :: data_reply where
  "unsupported_cosmos = json_reply 400 (PDict [(''error'', PStr ''unsupported Cosmos REST op'')])"

text \<open>\<open>POST\<close> of a named thing: what it holds already stays.\<close>

definition create_named :: "data_request \<Rightarrow> 'v \<Rightarrow> 'v vdict \<Rightarrow> data_reply \<times> 'v vdict" where
  "create_named rq fresh d =
     (let k = pget (cosmos_body rq) ''id'' in if hashable k then (id_reply 201 k, vdefault k fresh d) else (unhashable k, d))"

definition posted_doc :: "data_env \<Rightarrow> pyval dict \<Rightarrow> pyval \<times> pyval dict" where
  "posted_doc en body =
     (let did = py_or (pget body ''id'') (PStr (x_id en))
      in (did, dset ''_ts'' (PInt (x_ts en)) (dsetdefault ''_rid'' (PStr (x_rid en)) (dset ''id'' did body))))"

definition docs_call :: "data_env \<Rightarrow> data_request \<Rightarrow> string list \<Rightarrow> pyval dict vdict \<Rightarrow> data_reply \<times> pyval dict vdict" where
  "docs_call en rq ids docs =
     (let v = d_method rq in
      case ids of
        [] \<Rightarrow>
          (if v = ''POST'' then
             (let (did, doc) = posted_doc en (cosmos_body rq)
              in if hashable did then (json_reply 201 (PDict doc), vset did doc docs) else (unhashable did, docs))
           else if v = ''GET'' then
             (json_reply 200 (PDict [(''Documents'', PList (map (\<lambda>(_, d). PDict d) docs)), (''_count'', PInt (int (length docs)))]), docs)
           else (json_reply 400 (PDict [(''error'', PStr ''list index out of range'')]), docs))
      | i # _ \<Rightarrow>
          (if v = ''GET'' then ((case vfind docs (PStr i) of Some d \<Rightarrow> json_reply 200 (PDict d) | None \<Rightarrow> cos_404), docs)
           else if v = ''PUT'' then
             (let doc = dset ''id'' (PStr i) (cosmos_body rq) in (json_reply 200 (PDict doc), vset (PStr i) doc docs))
           else if v = ''DELETE'' then (empty_reply 204, vdel (PStr i) docs)
           else (unsupported_cosmos, docs)))"

definition colls_call :: "data_env \<Rightarrow> data_request \<Rightarrow> string list \<Rightarrow> cosmos_colls \<Rightarrow> data_reply \<times> cosmos_colls" where
  "colls_call en rq segs dbo =
     (let v = d_method rq in
      case segs of
        [] \<Rightarrow>
          (if v = ''GET'' then (id_list ''DocumentCollections'' dbo, dbo)
           else if v = ''POST'' then create_named rq [] dbo
           else (json_reply 400 (PDict [(''error'', PStr ''list index out of range'')]), dbo))
      | [c] \<Rightarrow>
          (if v = ''PUT'' then (id_reply 201 (PStr c), vdefault (PStr c) [] dbo)
           else if v = ''DELETE'' then (empty_reply 204, vdel (PStr c) dbo)
           else (unsupported_cosmos, dbo))
      | c # w # ids \<Rightarrow>
          (if w = ''docs'' then
             (let (r, docs) = docs_call en rq ids (vget dbo (PStr c) []) in (r, vset (PStr c) docs dbo))
           else (unsupported_cosmos, dbo)))"

definition cosmos_call :: "data_env \<Rightarrow> data_request \<Rightarrow> string list \<Rightarrow> cosmos_account \<Rightarrow> data_reply \<times> cosmos_account" where
  "cosmos_call en rq segs a =
     (let v = d_method rq in
      case segs of
        [] \<Rightarrow>
          (if v = ''GET'' then (id_list ''Databases'' a, a)
           else if v = ''POST'' then create_named rq [] a
           else (json_reply 400 (PDict [(''error'', PStr ''list index out of range'')]), a))
      | [db] \<Rightarrow>
          (if v = ''PUT'' then (id_reply 201 (PStr db), vdefault (PStr db) [] a)
           else if v = ''GET'' then (if vfind a (PStr db) = None then cos_404 else id_reply 200 (PStr db), a)
           else if v = ''DELETE'' then (empty_reply 204, vdel (PStr db) a)
           else (unsupported_cosmos, a))
      | db # w # rest \<Rightarrow>
          (if w = ''colls'' then
             (let (r, dbo) = colls_call en rq rest (vget a (PStr db) []) in (r, vset (PStr db) dbo a))
           else (unsupported_cosmos, a)))"

type_synonym cosmos_store = "((string \<times> string) \<times> cosmos_account) list"

definition cosmos_handle :: "data_env \<Rightarrow> data_request \<Rightarrow> string \<Rightarrow> string \<Rightarrow> cosmos_store \<Rightarrow> data_reply \<times> cosmos_store" where
  "cosmos_handle en rq acct rest cs =
     (let k = (x_sid en, acct); a = (case map_of cs k of Some a \<Rightarrow> a | None \<Rightarrow> [])
      in case rest_segments rest of
           w # segs \<Rightarrow> (if w = ''dbs'' then (let (r, a') = cosmos_call en rq segs a in (r, AList.update k a' cs))
                        else (unsupported_cosmos, AList.update k a cs))
         | [] \<Rightarrow> (unsupported_cosmos, AList.update k a cs))"

section \<open>Function apps\<close>

definition find_named :: "string \<Rightarrow> string \<Rightarrow> pyval dict dict \<Rightarrow> pyval dict option" where
  "find_named full_type name resources =
     find (\<lambda>r. lower (py_str (dget r ''_type'' (PStr []))) = full_type \<and> lower (str_field r ''name'' []) = lower name) (map snd resources)"

text \<open>What ran: the runtime's answer, or the text of its exception.\<close>

type_synonym code_runner = "string \<Rightarrow> pyval \<Rightarrow> pyval \<Rightarrow> pyval \<Rightarrow> int \<Rightarrow> string + pyval dict"

definition fallback_fields :: "data_env \<Rightarrow> string \<Rightarrow> string \<Rightarrow> pyval \<Rightarrow> pyval dict" where
  "fallback_fields en app fn payload =
     [(''invocationId'', PStr (x_id en)),
      (''result'', PDict [(''message'', PStr (''Hello from '' @ app @ ''/'' @ fn)), (''input'', payload)]), (''status'', PStr ''FALLBACK'')]"

definition function_app_handle ::
  "data_env \<Rightarrow> code_runner \<Rightarrow> string \<Rightarrow> string \<Rightarrow> pyval option \<Rightarrow> pyval dict dict \<Rightarrow> data_reply result" where
  "function_app_handle en run app fn json resources =
     (case find_named ''microsoft.web/sites'' app resources of
        None \<Rightarrow> Inr (json_reply 404 (PDict [(''error'', PStr (''Function App '' @ CHR 0x27 # app @ [CHR 0x27] @ '' not found''))]))
      | Some r \<Rightarrow>
          rbind (as_dict (py_or (pget r ''properties'') (PDict []))) (\<lambda>props.
            let code = py_or (py_or (pget props ''code'') (pget props ''sourceCode'')) (PStr []);
                payload = (case json of Some v \<Rightarrow> v | None \<Rightarrow> PDict [])
            in rbind (int_field props ''timeout'' 30) (\<lambda>timeout.
               case code of
                 PStr s \<Rightarrow>
                   (if strip s = [] then Inr (json_reply 200 (PDict (fallback_fields en app fn payload)))
                    else case run s (py_or (pget props ''entryPoint'') (PStr ''main'')) (py_or (pget props ''runtime'') (PStr ''python''))
                           payload timeout of
                      Inl msg \<Rightarrow> Inr (json_reply 200 (PDict (fallback_fields en app fn payload @ [(''note'', PStr (take 200 msg))])))
                    | Inr out \<Rightarrow>
                        (if pget out ''status'' = PStr ''SUCCESS''
                         then Inr (json_reply 200 (PDict [(''invocationId'', PStr (x_id en)), (''result'', pget out ''result''),
                                (''logs'', dget out ''logs'' (PStr [])), (''status'', PStr ''SUCCESS'')]))
                         else Inr (json_reply 500 (PDict [(''invocationId'', PStr (x_id en)), (''error'', pget out ''error''),
                                (''logs'', dget out ''logs'' (PStr [])), (''status'', PStr ''ERROR'')]))))
               | _ \<Rightarrow> Inl (AttributeError ''strip''))))"

section \<open>API Management\<close>

type_synonym apim_buckets = "((string \<times> string \<times> string) \<times> rat \<times> rat) list"

definition APIM_RATE_RPS :: rat where "APIM_RATE_RPS = 10"

definition apim_key :: "data_request \<Rightarrow> string" where
  "apim_key rq = str_or (dget (d_headers rq) ''ocp-apim-subscription-key'' []) (query_get rq ''subscription-key'')"

definition apim_level :: "string \<times> string \<times> string \<Rightarrow> rat \<Rightarrow> apim_buckets \<Rightarrow> rat" where
  "apim_level k now bs =
     (let (tokens, since) = (case map_of bs k of Some b \<Rightarrow> b | None \<Rightarrow> (APIM_RATE_RPS * 4, now))
      in min (APIM_RATE_RPS * 4) (tokens + (now - since) * APIM_RATE_RPS))"

definition strip_slash :: "string \<Rightarrow> string" where
  "strip_slash s = rev (dropWhile (\<lambda>c. c = CHR ''/'') (rev (dropWhile (\<lambda>c. c = CHR ''/'') s)))"

definition api_matches :: "string \<Rightarrow> pyval dict \<Rightarrow> bool" where
  "api_matches segment r \<longleftrightarrow>
     lower (py_str (dget r ''_type'' (PStr []))) = ''microsoft.apimanagement/service/apis''
   \<and> (lower (str_field r ''name'' []) = lower segment
      \<or> lower (strip_slash (str_field (dict_or_empty (py_or (pget r ''properties'') (PDict []))) ''path'' [])) = lower segment)"

definition apim_error :: "nat \<Rightarrow> string \<Rightarrow> data_reply" where
  "apim_error status message = json_reply status (PDict [(''statusCode'', PInt (int status)), (''message'', PStr message)])"

definition backend_target :: "string \<Rightarrow> string \<Rightarrow> string" where
  "backend_target url rest =
     (let sub = (case split_once ''/'' rest of Some (_, s) \<Rightarrow> s | None \<Rightarrow> [])
      in if sub = [] then url else rstrip_char CHR ''/'' url @ ''/'' @ sub)"

definition passed_headers :: "string dict \<Rightarrow> string dict" where
  "passed_headers h = filter (\<lambda>(k, _). lower k \<notin> {''host'', ''content-length'', ''ocp-apim-subscription-key''}) h"

text \<open>\<open>call\<close> is the backend: method, address, headers and body, with its answer or the text of the error.\<close>

definition apim_route ::
  "(string \<Rightarrow> string \<Rightarrow> string dict \<Rightarrow> string \<Rightarrow> string + data_reply) \<Rightarrow> data_request \<Rightarrow> string \<Rightarrow> string \<Rightarrow> pyval dict dict \<Rightarrow> data_reply" where
  "apim_route call rq service rest resources =
     (let general = json_reply 200 (PDict [(''statusCode'', PInt 200), (''message'', PStr ''OK''), (''service'', PStr service),
            (''path'', PStr rest), (''method'', PStr (d_method rq)), (''mock'', PBool True)])
      in case find (api_matches (before_first ''/'' rest)) (map snd resources) of
           None \<Rightarrow> general
         | Some r \<Rightarrow>
             (let props = dict_or_empty (py_or (pget r ''properties'') (PDict []));
                  mock = py_or (pget props ''mockResponse'') (pget props ''mock_response'');
                  url = py_or (py_or (pget props ''serviceUrl'') (pget props ''backendUrl'')) (PStr [])
              in if truthy mock then json_reply 200 (if is_dict mock then mock else PDict [(''value'', mock)])
                 else if truthy url then
                   (case call (d_method rq) (backend_target (py_str url) rest) (passed_headers (d_headers rq)) (d_body rq) of
                      Inr r \<Rightarrow> r
                    | Inl msg \<Rightarrow> apim_error 502 (take 300 (''Backend unavailable: '' @ msg)))
                 else general))"

definition apim_handle ::
  "(string \<Rightarrow> string \<Rightarrow> string dict \<Rightarrow> string \<Rightarrow> string + data_reply) \<Rightarrow> string \<Rightarrow> rat \<Rightarrow> data_request \<Rightarrow> string \<Rightarrow> string
     \<Rightarrow> pyval dict dict \<Rightarrow> apim_buckets \<Rightarrow> data_reply \<times> apim_buckets" where
  "apim_handle call sid now rq service rest resources bs =
     (if find_named ''microsoft.apimanagement/service'' service resources = None then
        (json_reply 404 (PDict [(''error'', PDict [(''code'', PStr ''ServiceNotFound''),
            (''message'', PStr (''APIM service '' @ CHR 0x27 # service @ [CHR 0x27] @ '' not found''))])]), bs)
      else if apim_key rq = [] then
        (apim_error 401 (''Access denied due to missing subscription key. Include '' @ [CHR 0x27] @ ''Ocp-Apim-Subscription-Key''
            @ [CHR 0x27] @ '' header.''), bs)
      else let k = (sid, service, apim_key rq); tokens = apim_level k now bs
           in if tokens < 1 then (apim_error 429 ''Rate limit exceeded. Try again later.'', bs)
              else (apim_route call rq service rest resources, AList.update k (tokens - 1, now) bs))"

section \<open>Queues of messages\<close>

text \<open>The interface a consumer of a queue relies on: sending appends to one queue, receiving takes its first message, and
  neither touches another queue.\<close>

locale message_store =
  fixes queue_of :: "'s \<Rightarrow> 'k \<Rightarrow> 'm list"
    and send :: "'k \<Rightarrow> 'm \<Rightarrow> 's \<Rightarrow> 's"
    and receive :: "'k \<Rightarrow> 's \<Rightarrow> 'm option \<times> 's"
  assumes queue_send: "queue_of (send k m s) k' = (if k' = k then queue_of s k @ [m] else queue_of s k')"
    and receive_first: "fst (receive k s) = (case queue_of s k of [] \<Rightarrow> None | m # _ \<Rightarrow> Some m)"
    and queue_receive: "queue_of (snd (receive k s)) k' = (if k' = k then tl (queue_of s k) else queue_of s k')"
begin

fun send_all :: "'k \<Rightarrow> 'm list \<Rightarrow> 's \<Rightarrow> 's" where
  "send_all k [] s = s"
| "send_all k (m # ms) s = send_all k ms (send k m s)"

fun receive_times :: "nat \<Rightarrow> 'k \<Rightarrow> 's \<Rightarrow> 'm option list \<times> 's" where
  "receive_times 0 k s = ([], s)"
| "receive_times (Suc n) k s = (let (m, s1) = receive k s; (ms, s2) = receive_times n k s1 in (m # ms, s2))"

lemma queue_send_all: "queue_of (send_all k ms s) k' = (if k' = k then queue_of s k @ ms else queue_of s k')"
  by (induction ms arbitrary: s) (auto simp: queue_send)

lemma receive_times_queue:
  "length ms = n \<Longrightarrow> queue_of s k = ms @ rest \<Longrightarrow>
    fst (receive_times n k s) = map Some ms \<and> queue_of (snd (receive_times n k s)) k = rest
    \<and> (\<forall>k'. k' \<noteq> k \<longrightarrow> queue_of (snd (receive_times n k s)) k' = queue_of s k')"
proof (induction ms arbitrary: s n)
  case (Cons m ms)
  obtain j where n: "n = Suc j" "length ms = j" using Cons.prems(1) by (cases n) auto
  obtain x s1 where r: "receive k s = (x, s1)" by (cases "receive k s")
  have "x = Some m" using receive_first [of k s] Cons.prems(2) r by simp
  moreover have q: "queue_of s1 k = ms @ rest" "\<forall>k'. k' \<noteq> k \<longrightarrow> queue_of s1 k' = queue_of s k'"
    using queue_receive [of k s] Cons.prems(2) r by auto
  moreover have "fst (receive_times j k s1) = map Some ms \<and> queue_of (snd (receive_times j k s1)) k = rest
    \<and> (\<forall>k'. k' \<noteq> k \<longrightarrow> queue_of (snd (receive_times j k s1)) k' = queue_of s1 k')"
    by (rule Cons.IH [OF n(2) q(1)])
  ultimately show ?case by (auto simp: n r case_prod_beta Let_def)
qed simp

text \<open>What was sent to an empty queue comes back in order, whatever else happens to the other queues.\<close>

lemma sent_received:
  assumes "queue_of s k = []"
  shows "fst (receive_times (length ms) k (send_all k ms s)) = map Some ms
    \<and> queue_of (snd (receive_times (length ms) k (send_all k ms s))) k = []"
  using receive_times_queue [of ms "length ms" "send_all k ms s" k "[]"] assms by (simp add: queue_send_all)

end

text \<open>The calls of the bus for one entity.\<close>

definition bus_send :: "bus_key \<Rightarrow> pyval dict \<Rightarrow> bus_store \<Rightarrow> bus_store" where
  "bus_send k m sb = AList.update k (bus_queue sb k @ [m]) sb"

definition bus_receive :: "bus_key \<Rightarrow> bus_store \<Rightarrow> pyval dict option \<times> bus_store" where
  "bus_receive k sb =
     (case bus_queue sb k of [] \<Rightarrow> (None, AList.update k [] sb) | m # ms \<Rightarrow> (Some m, AList.update k ms sb))"

lemma bus_queue_update: "bus_queue (AList.update k q sb) k' = (if k' = k then q else bus_queue sb k')"
  by (simp add: bus_queue_def update_conv')

interpretation bus: message_store bus_queue bus_send bus_receive
proof
  fix k k' :: bus_key and m :: "pyval dict" and s :: bus_store
  show "bus_queue (bus_send k m s) k' = (if k' = k then bus_queue s k @ [m] else bus_queue s k')"
    by (simp add: bus_send_def bus_queue_update)
  show "fst (bus_receive k s) = (case bus_queue s k of [] \<Rightarrow> None | m # _ \<Rightarrow> Some m)"
    by (simp add: bus_receive_def split: list.split)
  show "bus_queue (snd (bus_receive k s)) k' = (if k' = k then tl (bus_queue s k) else bus_queue s k')"
    by (simp add: bus_receive_def bus_queue_update split: list.split)
qed


text \<open>Messages posted to an empty entity are received in the order they were posted, each once.\<close>

lemma bus_delivers_in_order:
  assumes "bus_queue sb k = []"
  shows "fst (bus.receive_times (length ms) k (bus.send_all k ms sb)) = map Some ms"
  using bus.sent_received [OF assms] by blast

section \<open>Blobs and documents read back\<close>

lemma blob_call_level:
  assumes "split_once ''/'' rest = Some (c, b)" and "b \<noteq> []" and "rest \<noteq> []"
  shows "blob_handle en rq acct rest bs =
    (let (r, a) = blob_call en rq (c, b) (blob_account_of bs (x_sid en) acct) in (r, dset (account_key (x_sid en) acct) a bs))"
  using assms by (simp add: blob_handle_def)

lemma account_of_dset [simp]: "blob_account_of (dset (account_key sid acct) a bs) sid acct = a"
  by (simp add: blob_account_of_def dict_simps)


lemma vfind_vset_same: "vfind (vset (PStr i) v d) (PStr i) = Some v"
  by (induction d) (auto simp: vfind_def)

lemma vfind_vset_other: "i \<noteq> j \<Longrightarrow> vfind (vset (PStr i) v d) (PStr j) = vfind d (PStr j)"
proof (induction d)
  case (Cons x d)
  obtain k w where x: "x = (k, w)" by (cases x)
  have "py_eq k (PStr i) \<Longrightarrow> k = PStr i" "py_eq k (PStr j) \<Longrightarrow> k = PStr j"
    by (cases k; simp add: num_of_def)+
  then show ?case using Cons by (auto simp: vfind_def x)
qed (simp add: vfind_def)

text \<open>A document that was put is read back as it was answered, and the other documents stay what they were.\<close>

theorem cosmos_put_then_get:
  assumes "rest_segments rest = [''dbs'', db, ''colls'', c, ''docs'', i]" and "rest_segments rest' = [''dbs'', db, ''colls'', c, ''docs'', j]"
    and "d_method put = ''PUT''" and "d_method get = ''GET''" and "x_sid en' = x_sid en"
  shows "let (r, s1) = cosmos_handle en put acct rest cs in
      fst (cosmos_handle en' get acct rest' s1) = (if j = i then r else fst (cosmos_handle en' get acct rest' cs))"
proof -
  have g: "vget (vset (PStr k) x d) (PStr k) y = x" for k x y and d :: "'x vdict"
    by (simp add: vget_def vfind_vset_same)
  show ?thesis
  proof (cases "j = i")
    case True
    then show ?thesis using assms
      by (simp add: cosmos_handle_def cosmos_call_def colls_call_def docs_call_def g vfind_vset_same update_conv' case_prod_beta Let_def)
  next
    case False
    then show ?thesis using assms
      by (simp add: cosmos_handle_def cosmos_call_def colls_call_def docs_call_def g vfind_vset_other update_conv' case_prod_beta Let_def)
  qed
qed

section \<open>The gateway\<close>

text \<open>The gateway asks for a subscription key but compares it with nothing: any text that was not used before passes, with a
  full bucket of its own, so a caller who changes the key is neither refused nor limited.\<close>

theorem apim_any_fresh_key_passes:
  assumes "find_named ''microsoft.apimanagement/service'' service resources \<noteq> None" and "apim_key rq \<noteq> []"
    and "map_of bs (sid, service, apim_key rq) = None"
  shows "apim_handle call sid now rq service rest resources bs
    = (apim_route call rq service rest resources, AList.update (sid, service, apim_key rq) (39, now) bs)"
  using assms(2,3) by (auto simp: apim_handle_def apim_level_def APIM_RATE_RPS_def Let_def dest: assms(1) [THEN notE])

section \<open>Concrete runs\<close>

definition demo_data :: data_env where
  "demo_data = \<lparr>x_date = ''d'', x_etag = ''e'', x_id = ''i'', x_rid = ''r'', x_sid = ''s'', x_ts = 1, x_md5 = id\<rparr>"

definition demo_request :: "string \<Rightarrow> string dict \<Rightarrow> string \<Rightarrow> data_request" where
  "demo_request verb query body = \<lparr>d_method = verb, d_query = query, d_headers = [], d_body = body, d_json = None\<rparr>"



theorem apim_any_fresh_key_passes_witness:
  "\<exists>resources. apim_handle (\<lambda>_ _ _ _. Inl []) ''s'' 0 \<lparr>d_method = ''GET'', d_query = [(''subscription-key'', ''made-up'')], d_headers = [], d_body = [], d_json = None\<rparr>
      ''gw'' ''orders'' resources []
    = (apim_route (\<lambda>_ _ _ _. Inl []) \<lparr>d_method = ''GET'', d_query = [(''subscription-key'', ''made-up'')], d_headers = [], d_body = [], d_json = None\<rparr>
         ''gw'' ''orders'' resources, [((''s'', ''gw'', ''made-up''), (39, 0))])"
proof -
  let ?rs = "[(''k'', [(''_type'', PStr ''Microsoft.ApiManagement/service''), (''name'', PStr ''gw'')])]"
  have "find_named ''microsoft.apimanagement/service'' ''gw'' ?rs \<noteq> None" by code_simp
  from apim_any_fresh_key_passes [OF this, where rq = "\<lparr>d_method = ''GET'', d_query = [(''subscription-key'', ''made-up'')], d_headers = [], d_body = [], d_json = None\<rparr>"
      and bs = "[]" and sid = "''s''" and call = "\<lambda>_ _ _ _. Inl []" and now = 0 and rest = "''orders''"]
  show ?thesis by (intro exI [of _ ?rs]) (simp add: apim_key_def query_get_def dget_def str_or_def)
qed

end
