(* ===== verification/Pubsub.thy ===== *)
theory Pubsub
imports Gcp_Iam Py_Compare
begin

text \<open>
  Pub/Sub as the server answers it when no emulator is configured (\<open>providers/gcp_services.py\<close>, \<open>server.py\<close>):
  topics, subscriptions and schemas, publishing, pulling with leases and ordering keys, acknowledging and retention.  One
  state is the service of one space.  Times are rationals for \<open>time.time()\<close> and texts for \<open>_now()\<close>;
  \<open>hex n\<close> is the \<open>n\<close>-th random identifier.  A topic and each of its subscriptions keep their messages in one
  dictionary under their short names, as in the code.
\<close>

section \<open>Records\<close>

record ps_topic =
  tp_id :: string
  tp_project :: string
  tp_name :: string
  tp_labels :: pyval
  tp_retention :: string
  tp_kms :: string
  tp_schema :: pyval
  tp_created :: string
  tp_updated :: string

record ps_sub =
  sb_id :: string
  sb_project :: string
  sb_name :: string
  sb_topic :: string
  sb_deadline :: int
  sb_retain :: bool
  sb_retention :: string
  sb_labels :: pyval
  sb_created :: string
  sb_updated :: string

text \<open>An entry of a queue.  The copy a topic keeps has no acknowledgement id and no subscription; \<open>_visibleAt\<close> and
  \<open>_deliveryAttempt\<close> start at zero, which is what the code reads when they are missing.\<close>

record ps_message =
  pm_id :: string
  pm_data :: string
  pm_attributes :: pyval
  pm_time :: string
  pm_topic :: string
  pm_key :: string
  pm_published :: rat
  pm_ack :: "string option"
  pm_sub :: "string option"
  pm_visible :: rat
  pm_attempt :: int

record pubsub =
  ps_topics :: "ps_topic dict"
  ps_subs :: "ps_sub dict"
  ps_messages :: "ps_message list dict"
  ps_schemas :: "pyval dict dict"
  ps_drawn :: nat

record ps_env =
  pe_hex :: "nat \<Rightarrow> string"
  pe_now :: rat
  pe_text :: string

definition dict_field :: "pyval dict \<Rightarrow> string \<Rightarrow> pyval" where
  "dict_field d k = (if is_dict (pget d k) then pget d k else PDict [])"

definition topic_path :: "string \<Rightarrow> string \<Rightarrow> string" where
  "topic_path project t = ''projects/'' @ project @ ''/topics/'' @ t"

definition sub_path :: "string \<Rightarrow> string \<Rightarrow> string" where
  "sub_path project s = ''projects/'' @ project @ ''/subscriptions/'' @ s"

definition topic_record :: "string \<Rightarrow> string \<Rightarrow> string \<Rightarrow> pyval dict \<Rightarrow> ps_topic" where
  "topic_record now project t payload =
     \<lparr>tp_id = t, tp_project = project, tp_name = topic_path project t, tp_labels = dict_field payload ''labels'',
      tp_retention = str_field payload ''messageRetentionDuration'' ''604800s'', tp_kms = str_field payload ''kmsKeyName'' [],
      tp_schema = dict_field payload ''schemaSettings'', tp_created = now, tp_updated = now\<rparr>"

definition subscription_record :: "string \<Rightarrow> string \<Rightarrow> string \<Rightarrow> pyval dict \<Rightarrow> ps_sub result" where
  "subscription_record now project s payload =
     rbind (int_field payload ''ackDeadlineSeconds'' 10) (\<lambda>deadline.
       Inr \<lparr>sb_id = s, sb_project = project, sb_name = sub_path project s, sb_topic = str_field payload ''topic'' [],
            sb_deadline = deadline, sb_retain = truthy (pget payload ''retainAckedMessages''),
            sb_retention = str_field payload ''messageRetentionDuration'' ''604800s'', sb_labels = dict_field payload ''labels'',
            sb_created = now, sb_updated = now\<rparr>)"

text \<open>What a client sees of a record.  The view puts the path in front of the record's name, which is a path already.\<close>

definition topic_view :: "string \<Rightarrow> ps_topic \<Rightarrow> pyval dict" where
  "topic_view project t =
     [(''name'', PStr (topic_path project (tp_name t))), (''labels'', tp_labels t),
      (''messageStoragePolicy'', PDict [(''allowedPersistenceRegions'', PList []), (''enforceInTransit'', PBool False)]),
      (''kmsKeyName'', PStr (tp_kms t)), (''schemaSettings'', tp_schema t), (''satisfiesPzs'', PBool False),
      (''state'', PStr ''ACTIVE''), (''ingestionDataSourceSettings'', PDict []), (''messageTransforms'', PList [])]
     @ (if tp_retention t = [] then [] else [(''messageRetentionDuration'', PStr (tp_retention t))])"

definition subscription_view :: "string \<Rightarrow> ps_sub \<Rightarrow> pyval dict" where
  "subscription_view project s =
     [(''name'', PStr (sub_path project (sb_name s))), (''topic'', PStr (sb_topic s)),
      (''ackDeadlineSeconds'', PInt (sb_deadline s)), (''retainAckedMessages'', PBool (sb_retain s)),
      (''messageRetentionDuration'', PStr (sb_retention s)), (''labels'', sb_labels s), (''filter'', PStr []),
      (''enableMessageOrdering'', PBool False), (''enableExactlyOnceDelivery'', PBool False), (''state'', PStr ''ACTIVE''),
      (''deadLetterPolicy'', PDict []), (''retryPolicy'', PDict []), (''expirationPolicy'', PDict [])]"

definition ps_missing :: "string \<Rightarrow> py_exc" where
  "ps_missing what = HTTPException 404 (PStr what)"

definition ps_required :: "string \<Rightarrow> py_exc" where
  "ps_required what = HTTPException 400 (PStr what)"

text \<open>\<open>await request.json()\<close> raises on a body that is not JSON (\<open>None\<close>); a body that is not a dictionary counts as
  an empty one.\<close>

definition ps_payload :: "pyval option \<Rightarrow> pyval dict result" where
  "ps_payload body = (case body of None \<Rightarrow> Inl (ValueError ''json'') | Some v \<Rightarrow> Inr (dict_or_empty v))"

definition lenient_payload :: "pyval option \<Rightarrow> pyval dict" where
  "lenient_payload body = (case body of None \<Rightarrow> [] | Some v \<Rightarrow> dict_or_empty v)"

definition short_name :: "string \<Rightarrow> string" where
  "short_name s = strip (after_last ''/'' s)"

definition sub_suffixes :: "string list" where
  "sub_suffixes = ['':purge'', '':pull'', '':acknowledge'', '':modifyAckDeadline'']"

definition find_topic :: "string \<Rightarrow> string \<Rightarrow> pubsub \<Rightarrow> ps_topic option" where
  "find_topic project t st =
     (case map_of (ps_topics st) t of
        Some r \<Rightarrow> if str_or (tp_project r) project = project then Some r else None
      | None \<Rightarrow> None)"

definition find_sub :: "string \<Rightarrow> string \<Rightarrow> pubsub \<Rightarrow> ps_sub option" where
  "find_sub project s st =
     (case map_of (ps_subs st) s of
        Some r \<Rightarrow> if str_or (sb_project r) project = project then Some r else None
      | None \<Rightarrow> None)"

definition sub_of_topic :: "string \<Rightarrow> string \<Rightarrow> ps_sub \<Rightarrow> bool" where
  "sub_of_topic project t s \<longleftrightarrow> str_or (sb_project s) project = project \<and> sb_topic s = topic_path project t"

section \<open>Topics and subscriptions\<close>

text \<open>A list answer is sorted by a field the views do not have, so every key is the empty text.\<close>

definition sort_views :: "string \<Rightarrow> pyval dict list \<Rightarrow> pyval dict list" where
  "sort_views field views = stable_sort (\<lambda>a b. py_str (dget a field (PStr [])) < py_str (dget b field (PStr []))) views"

definition list_topics :: "string \<Rightarrow> pubsub \<Rightarrow> pyval" where
  "list_topics project st =
     PDict [(''topics'', PList (map PDict (sort_views ''topicId''
              (map (topic_view project) (filter (\<lambda>t. str_or (tp_project t) project = project) (dvals (ps_topics st))))))),
            (''nextPageToken'', PStr []), (''kind'', PStr ''pubsub#topicList'')]"

definition list_subscriptions :: "string \<Rightarrow> pubsub \<Rightarrow> pyval" where
  "list_subscriptions project st =
     PDict [(''subscriptions'', PList (map PDict (sort_views ''subscriptionId''
              (map (subscription_view project) (filter (\<lambda>s. str_or (sb_project s) project = project) (dvals (ps_subs st))))))),
            (''nextPageToken'', PStr []), (''kind'', PStr ''pubsub#subscriptionList'')]"

text \<open>A new topic brings a subscription of its own, by default under the topic's name.\<close>

definition default_sub_payload :: "string \<Rightarrow> string \<Rightarrow> pyval dict \<Rightarrow> pyval dict" where
  "default_sub_payload project t payload =
     [(''topic'', PStr (topic_path project t)), (''labels'', dict_field payload ''labels''),
      (''ackDeadlineSeconds'', dget payload ''ackDeadlineSeconds'' (PInt 10))]"

definition create_topic :: "ps_env \<Rightarrow> string \<Rightarrow> pyval option \<Rightarrow> pubsub \<Rightarrow> pyval result \<times> pubsub" where
  "create_topic en project body st =
     (case ps_payload body of
        Inl e \<Rightarrow> (Inl e, st)
      | Inr payload \<Rightarrow>
          (let t = short_name (py_str (py_or (py_or (py_or (pget payload ''topicId'') (pget payload ''name''))
                                              (pget payload ''topic'')) (PStr [])))
           in if t = [] then (Inl (ps_required ''Topic id is ps_required''), st)
              else let r = topic_record (pe_text en) project t payload;
                       st1 = st\<lparr>ps_topics := dset t r (ps_topics st)\<rparr>;
                       s = short_name (py_str (py_or (pget payload ''subscriptionId'') (PStr t)))
                   in if s = [] \<or> dhas (ps_subs st) s then (Inr (PDict (topic_view project r)), st1)
                      else case subscription_record (pe_text en) project s (default_sub_payload project t payload) of
                             Inl e \<Rightarrow> (Inl e, st1)
                           | Inr d \<Rightarrow> (Inr (PDict (topic_view project r)), st1\<lparr>ps_subs := dset s d (ps_subs st)\<rparr>)))"

definition put_topic :: "ps_env \<Rightarrow> string \<Rightarrow> string \<Rightarrow> pyval option \<Rightarrow> pubsub \<Rightarrow> pyval result \<times> pubsub" where
  "put_topic en project topic body st =
     (let payload = lenient_payload body;
          t = short_name (if topic = [] then py_str (py_or (pget payload ''name'') (PStr [])) else topic)
      in if t = [] then (Inl (ps_required ''Topic id is ps_required''), st)
         else let r = topic_record (pe_text en) project t payload
              in (Inr (PDict (topic_view project r)), st\<lparr>ps_topics := dset t r (ps_topics st)\<rparr>))"

definition get_topic :: "string \<Rightarrow> string \<Rightarrow> pubsub \<Rightarrow> pyval result" where
  "get_topic project topic st =
     (case find_topic project (strip_action_suffix topic ['':publish'']) st of
        None \<Rightarrow> Inl (ps_missing ''Topic not found'')
      | Some r \<Rightarrow> Inr (PDict (topic_view project r)))"

definition update_topic :: "ps_env \<Rightarrow> string \<Rightarrow> string \<Rightarrow> pyval option \<Rightarrow> pubsub \<Rightarrow> pyval result \<times> pubsub" where
  "update_topic en project topic body st =
     (let t = strip_action_suffix topic ['':publish'']
      in case find_topic project t st of
           None \<Rightarrow> (Inl (ps_missing ''Topic not found''), st)
         | Some r \<Rightarrow>
             (case ps_payload body of
                Inl e \<Rightarrow> (Inl e, st)
              | Inr payload \<Rightarrow>
                  (let r1 = (if is_dict (pget payload ''labels'') then r\<lparr>tp_labels := pget payload ''labels''\<rparr> else r);
                       r2 = (if dhas payload ''messageRetentionDuration''
                             then r1\<lparr>tp_retention := str_field payload ''messageRetentionDuration'' (str_or (tp_retention r1) ''604800s'')\<rparr>
                             else r1);
                       r3 = (if dhas payload ''kmsKeyName'' then r2\<lparr>tp_kms := str_field payload ''kmsKeyName'' []\<rparr> else r2);
                       r4 = r3\<lparr>tp_updated := pe_text en\<rparr>
                   in (Inr (PDict (topic_view project r4)), st\<lparr>ps_topics := dset t r4 (ps_topics st)\<rparr>))))"

text \<open>Deleting a topic takes the subscriptions of its project that read it, and all their messages.\<close>

definition delete_topic :: "string \<Rightarrow> string \<Rightarrow> pubsub \<Rightarrow> pyval result \<times> pubsub" where
  "delete_topic project topic st =
     (let t = strip_action_suffix topic ['':publish'']
      in case find_topic project t st of
           None \<Rightarrow> (Inl (ps_missing ''Topic not found''), st)
         | Some _ \<Rightarrow>
             (let gone = filter (\<lambda>(k, s). sub_of_topic project t s) (ps_subs st)
              in (Inr (PDict [(''done'', PBool True)]),
                  st\<lparr>ps_topics := dpop t (ps_topics st),
                     ps_subs := fold (\<lambda>(k, s). dpop k) gone (ps_subs st),
                     ps_messages := dpop t (fold (\<lambda>(k, s). dpop k) gone (ps_messages st))\<rparr>)))"

definition create_subscription :: "ps_env \<Rightarrow> string \<Rightarrow> pyval option \<Rightarrow> string \<Rightarrow> pubsub \<Rightarrow> pyval result \<times> pubsub" where
  "create_subscription en project body queue_name st =
     (case ps_payload body of
        Inl e \<Rightarrow> (Inl e, st)
      | Inr payload \<Rightarrow>
          (let s = short_name (py_str (py_or (py_or (py_or (pget payload ''subscriptionId'') (pget payload ''name''))
                                              (PStr queue_name)) (PStr [])))
           in if s = [] then (Inl (ps_required ''Subscription id is ps_required''), st)
              else case subscription_record (pe_text en) project s payload of
                     Inl e \<Rightarrow> (Inl e, st)
                   | Inr r \<Rightarrow> if sb_topic r = [] then (Inl (ps_required ''Topic is ps_required''), st)
                              else (Inr (PDict (subscription_view project r)), st\<lparr>ps_subs := dset s r (ps_subs st)\<rparr>)))"

definition put_subscription :: "ps_env \<Rightarrow> string \<Rightarrow> string \<Rightarrow> pyval option \<Rightarrow> pubsub \<Rightarrow> pyval result \<times> pubsub" where
  "put_subscription en project subn body st =
     (let payload = lenient_payload body;
          s = short_name (if subn = [] then py_str (py_or (pget payload ''name'') (PStr [])) else subn)
      in if s = [] then (Inl (ps_required ''Subscription id is ps_required''), st)
         else case subscription_record (pe_text en) project s payload of
                Inl e \<Rightarrow> (Inl e, st)
              | Inr r \<Rightarrow> if sb_topic r = [] then (Inl (ps_required ''Topic is ps_required''), st)
                         else (Inr (PDict (subscription_view project r)), st\<lparr>ps_subs := dset s r (ps_subs st)\<rparr>))"

definition get_subscription :: "string \<Rightarrow> string \<Rightarrow> pubsub \<Rightarrow> pyval result" where
  "get_subscription project subn st =
     (case find_sub project (strip_action_suffix subn sub_suffixes) st of
        None \<Rightarrow> Inl (ps_missing ''Subscription not found'')
      | Some r \<Rightarrow> Inr (PDict (subscription_view project r)))"

text \<open>A deadline that is no number is skipped.\<close>

definition patched_sub :: "pyval dict \<Rightarrow> ps_sub \<Rightarrow> ps_sub" where
  "patched_sub b r =
     (let r1 = (if dhas b ''ackDeadlineSeconds''
                then (case py_int (pget b ''ackDeadlineSeconds'') of Inr i \<Rightarrow> r\<lparr>sb_deadline := i\<rparr> | Inl _ \<Rightarrow> r) else r);
          r2 = (if truthy (pget b ''messageRetentionDuration'')
                then r1\<lparr>sb_retention := py_str (pget b ''messageRetentionDuration'')\<rparr> else r1);
          r3 = (if dhas b ''retainAckedMessages'' then r2\<lparr>sb_retain := truthy (pget b ''retainAckedMessages'')\<rparr> else r2)
      in if is_dict (pget b ''labels'') then r3\<lparr>sb_labels := pget b ''labels''\<rparr> else r3)"

definition patch_subscription :: "ps_env \<Rightarrow> string \<Rightarrow> string \<Rightarrow> pyval option \<Rightarrow> pubsub \<Rightarrow> pyval result \<times> pubsub" where
  "patch_subscription en project subn body st =
     (let s = strip_action_suffix subn sub_suffixes
      in case find_sub project s st of
           None \<Rightarrow> (Inl (ps_missing ''Subscription not found''), st)
         | Some r \<Rightarrow>
             (case ps_payload body of
                Inl e \<Rightarrow> (Inl e, st)
              | Inr payload \<Rightarrow>
                  (let b = (if is_dict (pget payload ''subscription'') then dict_or_empty (pget payload ''subscription'') else payload);
                       r1 = (patched_sub b r)\<lparr>sb_updated := pe_text en\<rparr>
                   in (Inr (PDict (subscription_view project r1)), st\<lparr>ps_subs := dset s r1 (ps_subs st)\<rparr>))))"

definition purge_subscription :: "string \<Rightarrow> string \<Rightarrow> pubsub \<Rightarrow> pyval result \<times> pubsub" where
  "purge_subscription project subn st =
     (let s = strip_action_suffix subn sub_suffixes
      in case find_sub project s st of
           None \<Rightarrow> (Inl (ps_missing ''Subscription not found''), st)
         | Some _ \<Rightarrow> (Inr (PDict [(''done'', PBool True)]), st\<lparr>ps_messages := dset s [] (ps_messages st)\<rparr>))"

definition delete_subscription :: "string \<Rightarrow> string \<Rightarrow> pubsub \<Rightarrow> pyval result \<times> pubsub" where
  "delete_subscription project subn st =
     (let s = strip_action_suffix subn sub_suffixes
      in case find_sub project s st of
           None \<Rightarrow> (Inl (ps_missing ''Subscription not found''), st)
         | Some _ \<Rightarrow> (Inr (PDict [(''done'', PBool True)]),
                      st\<lparr>ps_subs := dpop s (ps_subs st), ps_messages := dpop s (ps_messages st)\<rparr>))"

text \<open>The messages kept for a topic or for a subscription, as they are stored.\<close>

definition list_topic_messages :: "string \<Rightarrow> string \<Rightarrow> pubsub \<Rightarrow> ps_message list result" where
  "list_topic_messages project topic st =
     (let t = strip_action_suffix topic ['':publish'']
      in if find_topic project t st = None then Inl (ps_missing ''Topic not found'') else Inr (dget (ps_messages st) t []))"

definition list_subscription_messages :: "string \<Rightarrow> string \<Rightarrow> pubsub \<Rightarrow> ps_message list result" where
  "list_subscription_messages project subn st =
     (let s = strip_action_suffix subn sub_suffixes
      in if find_sub project s st = None then Inl (ps_missing ''Subscription not found'') else Inr (dget (ps_messages st) s []))"

definition list_topic_subscriptions :: "string \<Rightarrow> string \<Rightarrow> pubsub \<Rightarrow> pyval" where
  "list_topic_subscriptions project t st =
     PDict [(''subscriptions'', PList (map PStr (stable_sort (<)
              (map (\<lambda>s. sub_path project (str_or (sb_id s) (sb_name s))) (filter (sub_of_topic project t) (dvals (ps_subs st))))))),
            (''nextPageToken'', PStr [])]"

section \<open>Publishing\<close>

definition enqueue :: "string \<Rightarrow> ps_message \<Rightarrow> ps_message list dict \<Rightarrow> ps_message list dict" where
  "enqueue k m qs = dset k (dget qs k [] @ [m]) qs"

definition message_entry :: "ps_env \<Rightarrow> string \<Rightarrow> nat \<Rightarrow> pyval dict \<Rightarrow> ps_message" where
  "message_entry en t n message =
     \<lparr>pm_id = ''msg-'' @ pe_hex en n, pm_data = str_field message ''data'' [], pm_attributes = dict_field message ''attributes'',
      pm_time = pe_text en, pm_topic = t, pm_key = str_field message ''orderingKey'' [], pm_published = pe_now en,
      pm_ack = None, pm_sub = None, pm_visible = 0, pm_attempt = 0\<rparr>"

text \<open>Every subscription of the topic gets a copy under an acknowledgement id of its own.\<close>

fun fan_out :: "ps_env \<Rightarrow> string \<Rightarrow> string \<Rightarrow> ps_message \<Rightarrow> ps_sub list \<Rightarrow> nat \<times> ps_message list dict \<Rightarrow> nat \<times> ps_message list dict" where
  "fan_out en project t m [] (n, qs) = (n, qs)"
| "fan_out en project t m (s # ss) (n, qs) =
     (if sub_of_topic project t s
      then fan_out en project t m ss
             (Suc n, enqueue (sb_id s) (m\<lparr>pm_ack := Some (''ack-'' @ pe_hex en n), pm_sub := Some (sb_id s)\<rparr>) qs)
      else fan_out en project t m ss (n, qs))"

fun publish_all ::
  "ps_env \<Rightarrow> string \<Rightarrow> string \<Rightarrow> ps_sub list \<Rightarrow> pyval list \<Rightarrow> nat \<times> ps_message list dict \<Rightarrow> string list \<times> nat \<times> ps_message list dict" where
  "publish_all en project t subs [] acc = ([], acc)"
| "publish_all en project t subs (PDict d # ms) (n, qs) =
     (let m = message_entry en t n d;
          (ids, acc) = publish_all en project t subs ms (fan_out en project t m subs (Suc n, enqueue t m qs))
      in (pm_id m # ids, acc))"
| "publish_all en project t subs (_ # ms) acc = publish_all en project t subs ms acc"

definition publish :: "ps_env \<Rightarrow> string \<Rightarrow> string \<Rightarrow> pyval option \<Rightarrow> pubsub \<Rightarrow> pyval result \<times> pubsub" where
  "publish en project topic body st =
     (let t = strip_action_suffix topic ['':publish'']
      in case ps_payload body of
           Inl e \<Rightarrow> (Inl e, st)
         | Inr payload \<Rightarrow>
             if find_topic project t st = None then (Inl (ps_missing ''Topic not found''), st)
             else let (ids, n, qs) = publish_all en project t (dvals (ps_subs st)) (list_items (pget payload ''messages''))
                                       (ps_drawn st, ps_messages st)
                  in (Inr (PDict [(''messageIds'', PList (map PStr ids))]), st\<lparr>ps_messages := qs, ps_drawn := n\<rparr>))"

section \<open>Pulling\<close>

text \<open>\<open>float(text)\<close> as far as \<open>int\<close> of it is a number: \<open>None\<close> where one of the two raises.  Underscores between
  digits are accepted.\<close>

definition digit_groups :: "string \<Rightarrow> bool" where
  "digit_groups s = list_all (\<lambda>g. g \<noteq> [] \<and> list_all is_digit g) (split_char (CHR ''_'') s)"

definition plain_digits :: "string \<Rightarrow> string" where
  "plain_digits s = filter (\<lambda>c. c \<noteq> CHR ''_'') s"

definition unsigned_text :: "string \<Rightarrow> rat option" where
  "unsigned_text s =
     (let low = lower s; mant = takeWhile (\<lambda>c. c \<noteq> CHR ''e'') low; ex = dropWhile (\<lambda>c. c \<noteq> CHR ''e'') low;
          ip = takeWhile (\<lambda>c. c \<noteq> CHR ''.'') mant; fp = dropWhile (\<lambda>c. c \<noteq> CHR ''.'') mant;
          et = drop 1 ex; eu = (if et \<noteq> [] \<and> hd et \<in> {CHR ''+'', CHR ''-''} then tl et else et)
      in if (ip = [] \<or> digit_groups ip) \<and> (drop 1 fp = [] \<or> digit_groups (drop 1 fp)) \<and> ip @ drop 1 fp \<noteq> []
            \<and> (ex = [] \<or> digit_groups eu)
         then Some (unsigned_val (plain_digits low)) else None)"

definition float_of_text :: "string \<Rightarrow> rat option" where
  "float_of_text s =
     (case strip s of
        [] \<Rightarrow> None
      | c # r \<Rightarrow> if c = CHR ''-'' then map_option uminus (unsigned_text r)
                 else if c = CHR ''+'' then unsigned_text r else unsigned_text (c # r))"

definition trunc :: "rat \<Rightarrow> int" where
  "trunc r = (if 0 \<le> r then floor r else ceiling r)"

definition parse_duration_seconds :: "string \<Rightarrow> int" where
  "parse_duration_seconds s =
     (let d = strip s
      in if d = [] then 0
         else case float_of_text (if endswith d ''s'' then butlast d else d) of None \<Rightarrow> 0 | Some r \<Rightarrow> trunc r)"

definition retention_seconds :: "pubsub \<Rightarrow> ps_sub \<Rightarrow> int" where
  "retention_seconds st r =
     parse_duration_seconds
       (if sb_retention r \<noteq> [] then sb_retention r
        else case map_of (ps_topics st) (after_last ''/'' (sb_topic r)) of
               Some t \<Rightarrow> tp_retention t
             | None \<Rightarrow> (case map_of (ps_topics st) (sb_topic r) of Some t \<Rightarrow> tp_retention t | None \<Rightarrow> []))"

definition unexpired :: "rat \<Rightarrow> int \<Rightarrow> ps_message list \<Rightarrow> ps_message list" where
  "unexpired now retention q =
     (if retention > 0 then filter (\<lambda>m. \<not> (pm_published m \<noteq> 0 \<and> now - pm_published m > of_int retention)) q else q)"

definition received :: "string \<Rightarrow> ps_message \<Rightarrow> pyval" where
  "received ack m =
     PDict [(''ackId'', PStr ack), (''deliveryAttempt'', PInt (pm_attempt m)),
            (''message'', PDict [(''data'', PStr (pm_data m)), (''messageId'', PStr (pm_id m)), (''publishTime'', PStr (pm_time m)),
                                 (''attributes'', pm_attributes m), (''orderingKey'', PStr (pm_key m))])]"

definition leased :: "rat \<Rightarrow> int \<Rightarrow> ps_message \<Rightarrow> ps_message" where
  "leased now deadline m = m\<lparr>pm_visible := now + of_int deadline, pm_attempt := pm_attempt m + 1\<rparr>"

text \<open>One pass over the queue: \<open>room\<close> is how many more messages the answer takes, \<open>blocked\<close> the ordering keys that
  wait for an earlier message.  The answer pairs every delivered message with its acknowledgement id.\<close>

fun deliver ::
  "ps_env \<Rightarrow> int \<Rightarrow> nat \<Rightarrow> int \<Rightarrow> string list \<Rightarrow> ps_message list \<Rightarrow> (string \<times> ps_message) list \<times> ps_message list \<times> nat" where
  "deliver en deadline n room blocked [] = ([], [], n)"
| "deliver en deadline n room blocked (m # ms) =
     (if room \<le> 0 then ([], m # ms, n)
      else let key = pm_key m; blocked1 = (if key = [] then blocked else key # blocked)
           in if key \<noteq> [] \<and> key \<in> set blocked then
                (let (out, q, n1) = deliver en deadline n room blocked ms in (out, m # q, n1))
              else if pm_visible m > pe_now en then
                (let (out, q, n1) = deliver en deadline n room blocked1 ms in (out, m # q, n1))
              else let m1 = leased (pe_now en) deadline m;
                       (ack, n0) = (case pm_ack m of None \<Rightarrow> (''ack-'' @ pe_hex en n, Suc n)
                                                   | Some a \<Rightarrow> if a = [] then (''ack-'' @ pe_hex en n, Suc n) else (a, n));
                       (out, q, n1) = deliver en deadline n0 (room - 1) blocked1 ms
                   in ((ack, m1) # out, m1 # q, n1))"

definition pull_limit :: "pyval dict \<Rightarrow> int result" where
  "pull_limit payload = py_int (py_or (py_or (pget payload ''maxMessages'') (pget payload ''max_messages'')) (PInt 10))"

definition lease_seconds :: "ps_sub \<Rightarrow> int" where
  "lease_seconds r = (if sb_deadline r = 0 then 10 else sb_deadline r)"

definition pull :: "ps_env \<Rightarrow> string \<Rightarrow> string \<Rightarrow> pyval option \<Rightarrow> pubsub \<Rightarrow> (string \<times> ps_message) list result \<times> pubsub" where
  "pull en project subn body st =
     (let s = strip_action_suffix subn sub_suffixes
      in case rbind (ps_payload body) pull_limit of
           Inl e \<Rightarrow> (Inl e, st)
         | Inr limit \<Rightarrow>
             (case find_sub project s st of
                None \<Rightarrow> (Inl (ps_missing ''Subscription not found''), st)
              | Some r \<Rightarrow>
                  (case map_of (ps_messages st) s of
                     None \<Rightarrow> (Inr [], st)
                   | Some queue \<Rightarrow>
                       (let (out, q, n) = deliver en (lease_seconds r) (ps_drawn st) limit []
                                            (unexpired (pe_now en) (retention_seconds st r) queue)
                        in (Inr out, st\<lparr>ps_messages := dset s q (ps_messages st), ps_drawn := n\<rparr>)))))"

definition pull_response :: "(string \<times> ps_message) list \<Rightarrow> pyval" where
  "pull_response out = PDict [(''receivedMessages'', PList (map (\<lambda>(ack, m). received ack m) out))]"

section \<open>Acknowledging\<close>

text \<open>Neither call looks at the project of the subscription.\<close>

definition ack_ids :: "pyval dict \<Rightarrow> string list" where
  "ack_ids payload = map py_str (list_items (pget payload ''ackIds''))"

definition acknowledged :: "string list \<Rightarrow> string \<Rightarrow> ps_message \<Rightarrow> bool" where
  "acknowledged ids receipt m = (case pm_ack m of None \<Rightarrow> False | Some a \<Rightarrow> a \<in> set ids \<or> a = receipt)"

definition acknowledge :: "string \<Rightarrow> pyval option \<Rightarrow> string \<Rightarrow> pubsub \<Rightarrow> pyval result \<times> pubsub" where
  "acknowledge subn body receipt st =
     (let s = strip_action_suffix subn sub_suffixes
      in case ps_payload body of
           Inl e \<Rightarrow> (Inl e, st)
         | Inr payload \<Rightarrow>
             if \<not> dhas (ps_subs st) s then (Inl (ps_missing ''Subscription not found''), st)
             else (Inr (PDict [(''acknowledged'', PBool True)]),
                   st\<lparr>ps_messages := dset s (filter (\<lambda>m. \<not> acknowledged (ack_ids payload) receipt m) (dget (ps_messages st) s []))
                        (ps_messages st)\<rparr>))"

definition release_lease :: "rat \<Rightarrow> int \<Rightarrow> string list \<Rightarrow> ps_message \<Rightarrow> ps_message" where
  "release_lease now deadline ids m =
     (case pm_ack m of
        None \<Rightarrow> m
      | Some a \<Rightarrow> if a \<in> set ids then m\<lparr>pm_visible := now + of_int deadline\<rparr> else m)"

definition modify_ack_deadline :: "ps_env \<Rightarrow> string \<Rightarrow> pyval option \<Rightarrow> pubsub \<Rightarrow> pyval result \<times> pubsub" where
  "modify_ack_deadline en subn body st =
     (let s = strip_action_suffix subn sub_suffixes
      in if \<not> dhas (ps_subs st) s then (Inl (ps_missing ''Subscription not found''), st)
         else case ps_payload body of
                Inl e \<Rightarrow> (Inl e, st)
              | Inr payload \<Rightarrow>
                  (let ids = map py_str (filter truthy (list_items (pget payload ''ackIds'')))
                   in case int_field payload ''ackDeadlineSeconds'' 0 of
                        Inl e \<Rightarrow> (Inl e, st)
                      | Inr deadline \<Rightarrow> (Inr (PDict []),
                          st\<lparr>ps_messages := dmap_at s (map (release_lease (pe_now en) deadline ids)) (ps_messages st)\<rparr>)))"

section \<open>Schemas\<close>

definition schema_record :: "ps_env \<Rightarrow> string \<Rightarrow> nat \<Rightarrow> pyval dict \<Rightarrow> pyval dict" where
  "schema_record en project n payload =
     (let given = strip (py_str (py_or (py_or (pget payload ''name'') (pget payload ''schemaId'')) (PStr [])))
      in [(''project'', PStr project), (''name'', PStr (if given = [] then ''schema-sch-'' @ pe_hex en n else given)),
          (''type'', PStr (str_field payload ''type'' ''AVRO'')),
          (''definition'', PStr (py_str (py_or (py_or (pget payload ''definition'') (pget payload ''schema'')) (PStr [])))),
          (''revisionId'', PStr (str_field payload ''revisionId'' ''1'')), (''state'', PStr (str_field payload ''state'' ''ACTIVE'')),
          (''description'', PStr (str_field payload ''description'' [])),
          (''createTime'', PStr (pe_text en)), (''updateTime'', PStr (pe_text en))])"

definition schema_view :: "ps_env \<Rightarrow> pyval dict \<Rightarrow> pyval dict" where
  "schema_view en r =
     [(''name'', PStr (''projects/'' @ str_field r ''project'' ''cloudlearn'' @ ''/schemas/'' @ str_field r ''name'' [])),
      (''type'', dget r ''type'' (PStr ''AVRO'')), (''definition'', dget r ''definition'' (PStr [])),
      (''revisionId'', dget r ''revisionId'' (PStr ''1'')), (''state'', dget r ''state'' (PStr ''ACTIVE'')),
      (''description'', dget r ''description'' (PStr [])), (''createTime'', dget r ''createTime'' (PStr (pe_text en))),
      (''updateTime'', dget r ''updateTime'' (PStr (pe_text en)))]"

definition schema_in :: "string \<Rightarrow> pyval dict \<Rightarrow> bool" where
  "schema_in project r \<longleftrightarrow> str_field r ''project'' project = project"

definition list_schemas :: "ps_env \<Rightarrow> string \<Rightarrow> pubsub \<Rightarrow> pyval" where
  "list_schemas en project st =
     PDict [(''schemas'', PList (map PDict (sort_views ''name'' (map (schema_view en) (filter (schema_in project) (dvals (ps_schemas st))))))),
            (''nextPageToken'', PStr []), (''kind'', PStr ''pubsub#schemaList'')]"

definition create_schema :: "ps_env \<Rightarrow> string \<Rightarrow> pyval option \<Rightarrow> pubsub \<Rightarrow> pyval \<times> pubsub" where
  "create_schema en project body st =
     (let r = schema_record en project (ps_drawn st) (lenient_payload body)
      in (PDict (schema_view en r),
          st\<lparr>ps_schemas := dset (py_str (pget r ''name'')) r (ps_schemas st), ps_drawn := Suc (ps_drawn st)\<rparr>))"

definition delete_schema :: "string \<Rightarrow> string \<Rightarrow> pubsub \<Rightarrow> pyval result \<times> pubsub" where
  "delete_schema project schema st =
     (case map_of (ps_schemas st) schema of
        None \<Rightarrow> (Inl (ps_missing ''SchemaNotFound''), st)
      | Some r \<Rightarrow>
          if schema_in project r
          then (Inr (PDict [(''kind'', PStr ''pubsub#schema''), (''deleted'', PBool True), (''name'', PStr schema)]),
                st\<lparr>ps_schemas := dpop schema (ps_schemas st)\<rparr>)
          else (Inl (ps_missing ''SchemaNotFound''), st))"

section \<open>Calls\<close>

datatype ps_call =
    CreateTopic "pyval option"
  | PutTopic string "pyval option"
  | UpdateTopic string "pyval option"
  | DeleteTopic string
  | Publish string "pyval option"
  | CreateSubscription "pyval option" string
  | PutSubscription string "pyval option"
  | PatchSubscription string "pyval option"
  | DeleteSubscription string
  | Purge string
  | Pull string "pyval option"
  | Acknowledge string "pyval option" string
  | ModifyAckDeadline string "pyval option"
  | CreateSchema "pyval option"
  | DeleteSchema string

text \<open>What a call that changes something does to the state; every handler first completes the name of the project.\<close>

definition ps_run :: "ps_env \<Rightarrow> string \<Rightarrow> ps_call \<Rightarrow> pubsub \<Rightarrow> pubsub" where
  "ps_run en project0 c st =
     (let project = gcp_project_name project0 in
      case c of
        CreateTopic b \<Rightarrow> snd (create_topic en project b st)
      | PutTopic t b \<Rightarrow> snd (put_topic en project t b st)
      | UpdateTopic t b \<Rightarrow> snd (update_topic en project t b st)
      | DeleteTopic t \<Rightarrow> snd (delete_topic project t st)
      | Publish t b \<Rightarrow> snd (publish en project t b st)
      | CreateSubscription b q \<Rightarrow> snd (create_subscription en project b q st)
      | PutSubscription s b \<Rightarrow> snd (put_subscription en project s b st)
      | PatchSubscription s b \<Rightarrow> snd (patch_subscription en project s b st)
      | DeleteSubscription s \<Rightarrow> snd (delete_subscription project s st)
      | Purge s \<Rightarrow> snd (purge_subscription project s st)
      | Pull s b \<Rightarrow> snd (pull en project s b st)
      | Acknowledge s b a \<Rightarrow> snd (acknowledge s b a st)
      | ModifyAckDeadline s b \<Rightarrow> snd (modify_ack_deadline en s b st)
      | CreateSchema b \<Rightarrow> snd (create_schema en project b st)
      | DeleteSchema s \<Rightarrow> snd (delete_schema project s st))"

definition empty_pubsub :: pubsub where
  "empty_pubsub = \<lparr>ps_topics = [], ps_subs = [], ps_messages = [], ps_schemas = [], ps_drawn = 0\<rparr>"

inductive ps_reachable :: "(nat \<Rightarrow> string) \<Rightarrow> pubsub \<Rightarrow> bool" for hex where
  start: "ps_reachable hex empty_pubsub"
| call: "ps_reachable hex st \<Longrightarrow> pe_hex en = hex \<Longrightarrow> ps_reachable hex (ps_run en project c st)"

end
