(* ===== verification/Pubsub_Props.thy ===== *)
theory Pubsub_Props
imports Pubsub
begin

text \<open>
  What Pub/Sub promises: a pull delivers exactly the messages that are ready, in order; a subscription refines a backlog
  that publishing extends and acknowledging shortens; the tables stay in order.  And where it does not: the subscription a
  topic brings along never gets rid of its messages, and projects share one name space of topics.
\<close>

section \<open>What a pull delivers\<close>

text \<open>A message is ready when no lease hides it and no earlier message of its ordering key is in the queue.\<close>

definition ready :: "rat \<Rightarrow> ps_message list \<Rightarrow> nat \<Rightarrow> bool" where
  "ready now q i \<longleftrightarrow> pm_visible (q ! i) \<le> now \<and> (pm_key (q ! i) = [] \<or> (\<forall>j<i. pm_key (q ! j) \<noteq> pm_key (q ! i)))"

definition ready_positions :: "rat \<Rightarrow> ps_message list \<Rightarrow> nat list" where
  "ready_positions now q = filter (ready now q) [0..<length q]"

lemma ready_head:
  "ready now (p @ m # ms) (length p) \<longleftrightarrow> pm_visible m \<le> now \<and> (pm_key m = [] \<or> pm_key m \<notin> pm_key ` set p)"
proof -
  have "(pm_key m \<notin> pm_key ` set p) = (\<forall>j<length p. pm_key ((p @ m # ms) ! j) \<noteq> pm_key m)"
    by (auto simp: nth_append image_iff) (metis in_set_conv_nth)+
  then show ?thesis by (simp add: ready_def)
qed

definition ready_from :: "rat \<Rightarrow> ps_message list \<Rightarrow> ps_message list \<Rightarrow> nat list" where
  "ready_from now p ms = filter (ready now (p @ ms)) [length p..<length (p @ ms)]"

lemma ready_from_Cons:
  "ready_from now p (m # ms)
    = (if pm_visible m \<le> now \<and> (pm_key m = [] \<or> pm_key m \<notin> pm_key ` set p) then length p # ready_from now (p @ [m]) ms
       else ready_from now (p @ [m]) ms)"
proof -
  have "[length p..<length (p @ m # ms)] = length p # [length (p @ [m])..<length ((p @ [m]) @ ms)]"
    by (simp add: upt_rec)
  then show ?thesis by (simp add: ready_from_def ready_head)
qed

lemma ready_from_ge: "i \<in> set (ready_from now p ms) \<Longrightarrow> length p \<le> i"
  by (auto simp: ready_from_def)

lemma deliver_ready:
  assumes "set blocked = {k \<in> pm_key ` set p. k \<noteq> []}"
  shows "map snd (fst (deliver en deadline n room blocked ms))
    = map (\<lambda>i. leased (pe_now en) deadline ((p @ ms) ! i)) (take (nat room) (ready_from (pe_now en) p ms))"
  using assms
proof (induction ms arbitrary: n room blocked p)
  case (Cons m ms)
  let ?k = "pm_key m" and ?p = "p @ [m]"
  have app: "p @ m # ms = ?p @ ms" by simp
  show ?case
  proof (cases "room \<le> 0")
    case False
    have b1: "set (if ?k = [] then blocked else ?k # blocked) = {k \<in> pm_key ` set ?p. k \<noteq> []}" using Cons.prems by auto
    consider "?k \<noteq> []" "?k \<in> pm_key ` set p" | "\<not> (?k \<noteq> [] \<and> ?k \<in> pm_key ` set p)" "pm_visible m > pe_now en"
      | "\<not> (?k \<noteq> [] \<and> ?k \<in> pm_key ` set p)" "pm_visible m \<le> pe_now en" by fastforce
    then show ?thesis
    proof cases
      case 1
      then have bl: "?k \<in> set blocked" "set blocked = {k \<in> pm_key ` set ?p. k \<noteq> []}" using Cons.prems by auto
      show ?thesis using 1 False bl(1) Cons.IH [OF bl(2)] by (simp add: case_prod_beta Let_def ready_from_Cons)
    next
      case 2
      then have "\<not> (?k \<noteq> [] \<and> ?k \<in> set blocked)" using Cons.prems by auto
      then show ?thesis using 2 False Cons.IH [OF b1] by (auto simp: case_prod_beta Let_def ready_from_Cons)
    next
      case 3
      then have nb: "\<not> (?k \<noteq> [] \<and> ?k \<in> set blocked)" using Cons.prems by auto
      have r: "nat room = Suc (nat (room - 1))" using False by simp
      show ?thesis using 3 nb False Cons.IH [OF b1] unfolding r
        by (auto simp: case_prod_beta Let_def ready_from_Cons nth_append split: option.split)
    qed
  qed simp
qed (simp add: ready_from_def)

text \<open>The queue afterwards: the entries of the first \<open>k\<close> ready positions are leased.\<close>

definition lease_at :: "rat \<Rightarrow> int \<Rightarrow> nat list \<Rightarrow> nat \<Rightarrow> ps_message \<Rightarrow> ps_message" where
  "lease_at now deadline is i m = (if i \<in> set is then leased now deadline m else m)"

lemma lease_at_absent: "i \<notin> set is \<Longrightarrow> lease_at now deadline is i m = m"
  by (simp add: lease_at_def)

lemma deliver_queue:
  assumes "set blocked = {k \<in> pm_key ` set p. k \<noteq> []}"
  shows "fst (snd (deliver en deadline n room blocked ms))
    = map2 (lease_at (pe_now en) deadline (take (nat room) (ready_from (pe_now en) p ms))) [length p..<length (p @ ms)] ms"
  using assms
proof (induction ms arbitrary: n room blocked p)
  case (Cons m ms)
  let ?k = "pm_key m" and ?p = "p @ [m]"
  have upt: "[length p..<length (p @ m # ms)] = length p # [length ?p..<length (?p @ ms)]" by (simp add: upt_rec)
  have fresh: "length p \<notin> set (take j (ready_from (pe_now en) ?p ms))" for j
    using ready_from_ge [of "length p" "pe_now en" ?p ms] by (auto dest: in_set_takeD)
  have skip: "map2 (lease_at (pe_now en) deadline (length p # is)) [length ?p..<length (?p @ ms)] ms
      = map2 (lease_at (pe_now en) deadline is) [length ?p..<length (?p @ ms)] ms" for "is"
    by (rule map_cong [OF refl]) (auto simp: lease_at_def dest!: set_zip_leftD)
  show ?case
  proof (cases "room \<le> 0")
    case True
    then show ?thesis by (simp add: lease_at_def map2_map_map[symmetric] upt del: upt_Suc)
      (rule nth_equalityI, auto simp: lease_at_def)
  next
    case False
    have b1: "set (if ?k = [] then blocked else ?k # blocked) = {k \<in> pm_key ` set ?p. k \<noteq> []}" using Cons.prems by auto
    consider "?k \<noteq> []" "?k \<in> pm_key ` set p" | "\<not> (?k \<noteq> [] \<and> ?k \<in> pm_key ` set p)" "pm_visible m > pe_now en"
      | "\<not> (?k \<noteq> [] \<and> ?k \<in> pm_key ` set p)" "pm_visible m \<le> pe_now en" by fastforce
    then show ?thesis
    proof cases
      case 1
      then have bl: "?k \<in> set blocked" "set blocked = {k \<in> pm_key ` set ?p. k \<noteq> []}" using Cons.prems by auto
      show ?thesis using 1 False bl(1) Cons.IH [OF bl(2)] fresh unfolding upt
        by (simp add: case_prod_beta Let_def ready_from_Cons lease_at_absent)
    next
      case 2
      then have "\<not> (?k \<noteq> [] \<and> ?k \<in> set blocked)" using Cons.prems by auto
      then show ?thesis using 2 False Cons.IH [OF b1] fresh unfolding upt
        by (auto simp: case_prod_beta Let_def ready_from_Cons lease_at_absent)
    next
      case 3
      then have nb: "\<not> (?k \<noteq> [] \<and> ?k \<in> set blocked)" using Cons.prems by auto
      have r: "nat room = Suc (nat (room - 1))" using False by simp
      show ?thesis using 3 nb False Cons.IH [OF b1] skip unfolding r upt
        by (auto simp: case_prod_beta Let_def ready_from_Cons lease_at_def split: option.split)
    qed
  qed
qed simp

text \<open>A pull that succeeds, opened up.\<close>

lemma pull_Inr:
  assumes "pull en project subn body st = (Inr out, st')" and "s = strip_action_suffix subn sub_suffixes"
  obtains limit r where "rbind (ps_payload body) pull_limit = Inr limit" and "find_sub project s st = Some r"
    and "\<And>q. q = unexpired (pe_now en) (retention_seconds st r) (dget (ps_messages st) s []) \<Longrightarrow>
          out = fst (deliver en (lease_seconds r) (ps_drawn st) limit [] q)
          \<and> dget (ps_messages st') s [] = fst (snd (deliver en (lease_seconds r) (ps_drawn st) limit [] q))"
proof -
  from assms(1) obtain limit where l: "rbind (ps_payload body) pull_limit = Inr limit"
    by (auto simp: pull_def Let_def split: sum.splits)
  with assms obtain r where r: "find_sub project s st = Some r"
    by (auto simp: pull_def Let_def split: option.splits)
  show thesis
    using assms l r
    by (intro that [OF l r], cases "map_of (ps_messages st) s")
      (auto simp: pull_def Let_def unexpired_def dict_simps case_prod_beta)
qed

text \<open>C17. A pull delivers exactly the first \<open>maxMessages\<close> ready entries of the subscription's queue, in the order they were
  published, each with its attempt counted; afterwards just these are leased for the acknowledgement deadline, and apart from
  what has expired the queue keeps every entry.  An entry is ready when its lease is over and no earlier entry of its ordering
  key is still in the queue, so of one key at most one message is on its way.\<close>

theorem pubsub_pull_exact:
  assumes "pull en project subn body st = (Inr out, st')" and "s = strip_action_suffix subn sub_suffixes"
  shows "\<exists>limit r q chosen. rbind (ps_payload body) pull_limit = Inr limit \<and> find_sub project s st = Some r
    \<and> q = unexpired (pe_now en) (retention_seconds st r) (dget (ps_messages st) s [])
    \<and> chosen = take (nat limit) (ready_positions (pe_now en) q)
    \<and> map snd out = map (\<lambda>i. leased (pe_now en) (lease_seconds r) (q ! i)) chosen
    \<and> dget (ps_messages st') s []
        = map2 (\<lambda>i m. if i \<in> set chosen then leased (pe_now en) (lease_seconds r) m else m) [0..<length q] q"
proof -
  from assms obtain limit r where l: "rbind (ps_payload body) pull_limit = Inr limit" "find_sub project s st = Some r"
    and d: "\<And>q. q = unexpired (pe_now en) (retention_seconds st r) (dget (ps_messages st) s []) \<Longrightarrow>
          out = fst (deliver en (lease_seconds r) (ps_drawn st) limit [] q)
          \<and> dget (ps_messages st') s [] = fst (snd (deliver en (lease_seconds r) (ps_drawn st) limit [] q))"
    by (rule pull_Inr) blast
  let ?q = "unexpired (pe_now en) (retention_seconds st r) (dget (ps_messages st) s [])"
  have "ready_from (pe_now en) [] ?q = ready_positions (pe_now en) ?q"
    by (simp add: ready_from_def ready_positions_def)
  then show ?thesis
    using l d [OF refl] deliver_ready [of "[]" "[]" en "lease_seconds r" "ps_drawn st" limit ?q]
      deliver_queue [of "[]" "[]" en "lease_seconds r" "ps_drawn st" limit ?q]
    by (intro exI conjI) (auto simp: lease_at_def)
qed

section \<open>Tables in order\<close>

text \<open>Where an entry belongs: the topic's own copy carries the topic, a subscription's copy the subscription and an
  acknowledgement id that was drawn for it alone.\<close>

definition tags :: "ps_message \<Rightarrow> string option \<times> string option \<times> string" where
  "tags m = (pm_ack m, pm_sub m, pm_topic m)"

definition tag_ok :: "(nat \<Rightarrow> string) \<Rightarrow> nat \<Rightarrow> string \<Rightarrow> string option \<times> string option \<times> string \<Rightarrow> bool" where
  "tag_ok hex n k x =
     (case x of
        (None, s, t) \<Rightarrow> s = None \<and> t = k
      | (Some a, s, t) \<Rightarrow> s = Some k \<and> (\<exists>i<n. a = ''ack-'' @ hex i))"

definition copies_ok :: "(nat \<Rightarrow> string) \<Rightarrow> nat \<Rightarrow> string \<Rightarrow> ps_message list \<Rightarrow> bool" where
  "copies_ok hex n k q \<longleftrightarrow> (\<forall>x\<in>set (map tags q). tag_ok hex n k x)
     \<and> (inj hex \<longrightarrow> distinct (filter (\<lambda>a. a \<noteq> None) (map fst (map tags q))))"

definition queues_ok :: "(nat \<Rightarrow> string) \<Rightarrow> nat \<Rightarrow> (string \<Rightarrow> bool) \<Rightarrow> ps_message list dict \<Rightarrow> bool" where
  "queues_ok hex n owner qs \<longleftrightarrow> wf_dict qs \<and> (\<forall>k q. map_of qs k = Some q \<longrightarrow> owner k \<and> copies_ok hex n k q)"

definition topics_ok :: "ps_topic dict \<Rightarrow> bool" where
  "topics_ok ts \<longleftrightarrow> wf_dict ts \<and> (\<forall>k t. map_of ts k = Some t \<longrightarrow>
     tp_id t = k \<and> k \<noteq> [] \<and> tp_project t \<noteq> [] \<and> tp_name t = topic_path (tp_project t) k)"

definition subs_ok :: "ps_sub dict \<Rightarrow> bool" where
  "subs_ok ss \<longleftrightarrow> wf_dict ss \<and> (\<forall>k s. map_of ss k = Some s \<longrightarrow>
     sb_id s = k \<and> k \<noteq> [] \<and> sb_project s \<noteq> [] \<and> sb_name s = sub_path (sb_project s) k \<and> sb_topic s \<noteq> [])"

definition ps_ok :: "(nat \<Rightarrow> string) \<Rightarrow> pubsub \<Rightarrow> bool" where
  "ps_ok hex st \<longleftrightarrow> topics_ok (ps_topics st) \<and> subs_ok (ps_subs st) \<and> wf_dict (ps_schemas st)
     \<and> queues_ok hex (ps_drawn st) (\<lambda>k. dhas (ps_topics st) k \<or> dhas (ps_subs st) k) (ps_messages st)"

lemma gcp_project_name_not_Nil [simp]: "gcp_project_name p \<noteq> []"
  by (simp add: gcp_project_name_def str_or_def)

lemma tag_ok_mono: "tag_ok hex n k x \<Longrightarrow> n \<le> n' \<Longrightarrow> tag_ok hex n' k x"
  by (auto simp: tag_ok_def split: prod.splits option.splits) (metis order_less_le_trans)

lemma copies_ok_mono: "copies_ok hex n k q \<Longrightarrow> n \<le> n' \<Longrightarrow> copies_ok hex n' k q"
  by (auto simp: copies_ok_def intro: tag_ok_mono)

lemma queues_ok_mono: "queues_ok hex n owner qs \<Longrightarrow> n \<le> n' \<Longrightarrow> queues_ok hex n' owner qs"
  by (auto simp: queues_ok_def intro: copies_ok_mono)

lemma queues_ok_owner: "queues_ok hex n owner qs \<Longrightarrow> (\<And>k. owner k \<Longrightarrow> owner' k) \<Longrightarrow> queues_ok hex n owner' qs"
  by (auto simp: queues_ok_def)

lemma copies_ok_Nil [simp]: "copies_ok hex n k []"
  by (simp add: copies_ok_def)

lemma copies_ok_tags: "map tags q' = map tags q \<Longrightarrow> copies_ok hex n k q' = copies_ok hex n k q"
  by (simp add: copies_ok_def)

lemma copies_ok_filter:
  assumes "copies_ok hex n k q"
  shows "copies_ok hex n k (filter P q)"
proof -
  let ?f = "\<lambda>m. fst (tags m)" and ?Q = "\<lambda>a. a \<noteq> None"
  have "filter ?Q (map ?f (filter P q)) = map ?f (filter P (filter (\<lambda>m. ?Q (?f m)) q))"
    by (simp add: filter_map o_def conj_commute)
  moreover have "filter ?Q (map ?f q) = map ?f (filter (\<lambda>m. ?Q (?f m)) q)" by (simp add: filter_map o_def)
  ultimately show ?thesis
    using assms distinct_map_filter [of ?f "filter (\<lambda>m. ?Q (?f m)) q" P] by (auto simp: copies_ok_def o_def simp del: not_None_eq)
qed

lemma queues_ok_dset: "queues_ok hex n owner qs \<Longrightarrow> owner k \<Longrightarrow> copies_ok hex n k q \<Longrightarrow> queues_ok hex n owner (dset k q qs)"
  by (auto simp: queues_ok_def dict_simps)

lemma queues_ok_dpop: "queues_ok hex n owner qs \<Longrightarrow> queues_ok hex n (\<lambda>k'. owner k' \<and> k' \<noteq> k) (dpop k qs)"
  by (auto simp: queues_ok_def dict_simps)

lemma queues_ok_dget: "queues_ok hex n owner qs \<Longrightarrow> copies_ok hex n k (dget qs k [])"
  by (cases "map_of qs k") (auto simp: queues_ok_def dict_simps)

lemma copies_ok_topic_copy: "copies_ok hex n k q \<Longrightarrow> tags m = (None, None, k) \<Longrightarrow> copies_ok hex n k (q @ [m])"
  by (auto simp: copies_ok_def tag_ok_def)

lemma copies_ok_sub_copy:
  assumes "copies_ok hex n k q" and "tags m = (Some (''ack-'' @ hex n), Some k, t)"
  shows "copies_ok hex (Suc n) k (q @ [m])"
proof -
  have "inj hex \<Longrightarrow> Some (''ack-'' @ hex n) \<notin> fst ` tags ` set q"
  proof
    assume i: "inj hex" and "Some (''ack-'' @ hex n) \<in> fst ` tags ` set q"
    then obtain x where x: "x \<in> set q" "fst (tags x) = Some (''ack-'' @ hex n)" by auto
    have "tag_ok hex n k (tags x)" using assms(1) x(1) by (simp add: copies_ok_def)
    then obtain j where "j < n" "hex n = hex j" using x(2) by (cases "tags x") (auto simp: tag_ok_def)
    then show False using i by (auto dest: injD)
  qed
  then show ?thesis using copies_ok_mono [OF assms(1), of "Suc n"] assms(2)
    by (auto simp: copies_ok_def tag_ok_def image_iff)
qed

lemmas queue_rules = copies_ok_filter queues_ok_dset queues_ok_dget queues_ok_mono

lemma fan_out_ok:
  assumes "queues_ok (pe_hex en) n owner qs" and "\<And>s. s \<in> set ss \<Longrightarrow> owner (sb_id s)"
  shows "queues_ok (pe_hex en) (fst (fan_out en project t m ss (n, qs))) owner (snd (fan_out en project t m ss (n, qs)))
    \<and> n \<le> fst (fan_out en project t m ss (n, qs))"
  using assms
proof (induction ss arbitrary: n qs)
  case (Cons s ss)
  let ?m = "m\<lparr>pm_ack := Some (''ack-'' @ pe_hex en n), pm_sub := Some (sb_id s)\<rparr>"
  have "copies_ok (pe_hex en) (Suc n) (sb_id s) (dget qs (sb_id s) [] @ [?m])"
    by (rule copies_ok_sub_copy [where t = "pm_topic m", OF queues_ok_dget [OF Cons.prems(1)]]) (simp add: tags_def)
  then have "queues_ok (pe_hex en) (Suc n) owner (enqueue (sb_id s) ?m qs)"
    unfolding enqueue_def by (intro queues_ok_dset queues_ok_mono [OF Cons.prems(1)]) (auto simp: Cons.prems(2))
  then show ?case using Cons.IH [of "Suc n" "enqueue (sb_id s) ?m qs"] Cons.IH [of n qs] Cons.prems
    by (auto dest: Suc_leD)
qed simp

lemma publish_all_ok:
  assumes "queues_ok (pe_hex en) n owner qs" and "\<And>s. s \<in> set ss \<Longrightarrow> owner (sb_id s)" and "owner t"
  shows "queues_ok (pe_hex en) (fst (snd (publish_all en project t ss ms (n, qs)))) owner (snd (snd (publish_all en project t ss ms (n, qs))))"
  using assms
proof (induction en project t ss ms "(n, qs)" arbitrary: n qs rule: publish_all.induct)
  case (2 en project t subs d ms n qs)
  let ?m = "message_entry en t n d"
  have "copies_ok (pe_hex en) n t (dget qs t [] @ [?m])"
    by (rule copies_ok_topic_copy [OF queues_ok_dget [OF "2.prems"(1)]]) (simp add: tags_def message_entry_def)
  then have "queues_ok (pe_hex en) (Suc n) owner (enqueue t ?m qs)"
    unfolding enqueue_def by (intro queues_ok_mono [of _ n _ _ "Suc n"] queues_ok_dset) (auto simp: "2.prems")
  then have f: "queues_ok (pe_hex en) (fst (fan_out en project t ?m subs (Suc n, enqueue t ?m qs))) owner
      (snd (fan_out en project t ?m subs (Suc n, enqueue t ?m qs)))"
    using fan_out_ok "2.prems"(2) by blast
  show ?case
    using "2.hyps" [OF refl prod.collapse [symmetric] f "2.prems"(2,3)] by (simp add: case_prod_beta Let_def)
qed simp_all

lemma topics_ok_dset:
  "topics_ok ts \<Longrightarrow> tp_id r = t \<Longrightarrow> t \<noteq> [] \<Longrightarrow> tp_project r \<noteq> [] \<Longrightarrow> tp_name r = topic_path (tp_project r) t \<Longrightarrow> topics_ok (dset t r ts)"
  by (auto simp: topics_ok_def dict_simps)

lemma subs_ok_dset:
  "subs_ok ss \<Longrightarrow> sb_id r = s \<Longrightarrow> s \<noteq> [] \<Longrightarrow> sb_project r \<noteq> [] \<Longrightarrow> sb_name r = sub_path (sb_project r) s \<Longrightarrow> sb_topic r \<noteq> []
    \<Longrightarrow> subs_ok (dset s r ss)"
  by (auto simp: subs_ok_def dict_simps)

lemma subscription_record_Inr:
  "subscription_record now project s payload = Inr r \<Longrightarrow>
    sb_id r = s \<and> sb_project r = project \<and> sb_name r = sub_path project s \<and> sb_topic r = str_field payload ''topic'' []"
  by (auto simp: subscription_record_def rbind_Inr)

lemma find_topic_Some:
  "find_topic project t st = Some r \<Longrightarrow> topics_ok (ps_topics st) \<Longrightarrow>
    map_of (ps_topics st) t = Some r \<and> tp_id r = t \<and> t \<noteq> [] \<and> tp_project r = project \<and> project \<noteq> [] \<and> tp_name r = topic_path project t"
  by (force simp: find_topic_def topics_ok_def str_or_def split: option.splits if_splits)

lemma find_sub_Some:
  "find_sub project s st = Some r \<Longrightarrow> subs_ok (ps_subs st) \<Longrightarrow>
    map_of (ps_subs st) s = Some r \<and> sb_id r = s \<and> s \<noteq> [] \<and> sb_project r = project \<and> project \<noteq> []
    \<and> sb_name r = sub_path project s \<and> sb_topic r \<noteq> []"
  by (force simp: find_sub_def subs_ok_def str_or_def split: option.splits if_splits)

lemma topic_path_not_Nil [simp]: "topic_path p t \<noteq> []"
  by (simp add: topic_path_def)

lemma ps_ok_topic:
  "ps_ok hex st \<Longrightarrow> topics_ok (dset t r (ps_topics st)) \<Longrightarrow> ps_ok hex (st\<lparr>ps_topics := dset t r (ps_topics st)\<rparr>)"
  by (auto simp: ps_ok_def dict_simps elim!: queues_ok_owner)

lemma ps_ok_sub:
  "ps_ok hex st \<Longrightarrow> subs_ok (dset s r (ps_subs st)) \<Longrightarrow> ps_ok hex (st\<lparr>ps_subs := dset s r (ps_subs st)\<rparr>)"
  by (auto simp: ps_ok_def dict_simps elim!: queues_ok_owner)

lemma ps_ok_queue:
  "ps_ok hex st \<Longrightarrow> dhas (ps_subs st) s \<Longrightarrow> copies_ok hex (ps_drawn st) s q \<Longrightarrow> ps_ok hex (st\<lparr>ps_messages := dset s q (ps_messages st)\<rparr>)"
  by (auto simp: ps_ok_def intro: queues_ok_dset)

lemma ps_ok_new_topic:
  assumes "ps_ok hex st" and "project \<noteq> []" and "t \<noteq> []"
  shows "ps_ok hex (st\<lparr>ps_topics := dset t (topic_record now project t payload) (ps_topics st)\<rparr>)"
  by (rule ps_ok_topic [OF assms(1) topics_ok_dset]) (use assms in \<open>auto simp: ps_ok_def topic_record_def\<close>)

lemma ps_ok_new_sub:
  assumes "ps_ok hex st" and "project \<noteq> []" and "s \<noteq> []"
    and "subscription_record now project s payload = Inr r" and "sb_topic r \<noteq> []"
  shows "ps_ok hex (st\<lparr>ps_subs := dset s r (ps_subs st)\<rparr>)"
  by (rule ps_ok_sub [OF assms(1) subs_ok_dset])
    (use assms(1-3,5) subscription_record_Inr [OF assms(4)] in \<open>auto simp: ps_ok_def\<close>)

lemma default_sub_topic: "str_field (default_sub_payload project t payload) ''topic'' [] = topic_path project t"
  by (simp add: default_sub_payload_def str_field_def pget_def dget_def py_or_def)

lemma ps_ok_create_topic:
  assumes "ps_ok hex st" and "project \<noteq> []"
  shows "ps_ok hex (snd (create_topic en project body st))"
proof -
  have "ps_ok hex (st1\<lparr>ps_subs := dset s r (ps_subs st1)\<rparr>)"
    if "ps_ok hex st1" "s \<noteq> []" "subscription_record now project s (default_sub_payload project t payload) = Inr r"
    for st1 s r now t payload
    using ps_ok_new_sub [OF that(1) assms(2) that(2,3)] subscription_record_Inr [OF that(3)] by (simp add: default_sub_topic)
  from this [OF ps_ok_new_topic [OF assms]] show ?thesis
    by (auto simp: create_topic_def Let_def assms ps_ok_new_topic split: sum.split)
qed

lemma ps_ok_put_topic:
  assumes "ps_ok hex st" and "project \<noteq> []"
  shows "ps_ok hex (snd (put_topic en project topic body st))"
  by (simp add: put_topic_def Let_def ps_ok_new_topic assms)

lemma ps_ok_update_topic:
  assumes "ps_ok hex st"
  shows "ps_ok hex (snd (update_topic en project topic body st))"
proof (cases "find_topic project (strip_action_suffix topic ['':publish'']) st")
  case (Some r)
  have r: "tp_id r = strip_action_suffix topic ['':publish'']" "tp_id r \<noteq> []" "tp_project r \<noteq> []"
    "tp_name r = topic_path (tp_project r) (tp_id r)" "topics_ok (ps_topics st)"
    using find_topic_Some [OF Some] assms by (auto simp: ps_ok_def)
  show ?thesis using Some r
    by (auto simp: update_topic_def Let_def assms split: sum.split intro!: ps_ok_topic [OF assms] topics_ok_dset)
qed (simp add: update_topic_def assms)

lemma ps_ok_subscribe:
  assumes "ps_ok hex st" and "project \<noteq> []"
  shows "ps_ok hex (snd (create_subscription en project body q st))" "ps_ok hex (snd (put_subscription en project s body st))"
  using assms by (auto simp: create_subscription_def put_subscription_def Let_def ps_ok_new_sub split: sum.split)

lemma patched_sub_fields:
  "sb_id (patched_sub b r) = sb_id r" "sb_project (patched_sub b r) = sb_project r"
  "sb_name (patched_sub b r) = sb_name r" "sb_topic (patched_sub b r) = sb_topic r"
  by (auto simp: patched_sub_def Let_def split: sum.split)

lemma ps_ok_patch_subscription:
  assumes "ps_ok hex st"
  shows "ps_ok hex (snd (patch_subscription en project subn body st))"
proof (cases "find_sub project (strip_action_suffix subn sub_suffixes) st")
  case (Some r)
  have "sb_id r = strip_action_suffix subn sub_suffixes" "sb_id r \<noteq> []" "sb_project r \<noteq> []" "sb_topic r \<noteq> []"
    "sb_name r = sub_path (sb_project r) (sb_id r)" "subs_ok (ps_subs st)"
    using find_sub_Some [OF Some] assms by (auto simp: ps_ok_def)
  then show ?thesis using Some
    by (auto simp: patch_subscription_def Let_def patched_sub_fields assms split: sum.split intro!: ps_ok_sub [OF assms] subs_ok_dset)
qed (simp add: patch_subscription_def assms)

definition drop_all :: "(string \<times> 'b) list \<Rightarrow> 'v dict \<Rightarrow> 'v dict" where
  "drop_all gone d = fold (\<lambda>(k, s). dpop k) gone d"

lemma map_of_drop_all [dict_simps]: "map_of (drop_all gone d) k = (if k \<in> fst ` set gone then None else map_of d k)"
  unfolding drop_all_def by (induction gone arbitrary: d) (auto simp: dict_simps)

lemma wf_drop_all [dict_simps, intro]: "wf_dict d \<Longrightarrow> wf_dict (drop_all gone d)"
  unfolding drop_all_def by (induction gone arbitrary: d) (auto simp: dict_simps)

lemma ps_ok_delete_topic:
  assumes "ps_ok hex st"
  shows "ps_ok hex (snd (delete_topic project topic st))"
proof (cases "find_topic project (strip_action_suffix topic ['':publish'']) st")
  case (Some r)
  let ?t = "strip_action_suffix topic ['':publish'']"
  let ?gone = "filter (\<lambda>(k, s). sub_of_topic project ?t s) (ps_subs st)"
  have "snd (delete_topic project topic st) = st\<lparr>ps_topics := dpop ?t (ps_topics st),
      ps_subs := drop_all ?gone (ps_subs st), ps_messages := dpop ?t (drop_all ?gone (ps_messages st))\<rparr>"
    using Some by (simp add: delete_topic_def Let_def drop_all_def)
  then show ?thesis using assms
    by (auto simp: ps_ok_def topics_ok_def subs_ok_def queues_ok_def dict_simps dhas_def)
qed (simp add: delete_topic_def assms)

lemma ps_ok_delete_subscription:
  assumes "ps_ok hex st"
  shows "ps_ok hex (snd (delete_subscription project subn st))"
  using assms by (auto simp: delete_subscription_def Let_def ps_ok_def subs_ok_def queues_ok_def dict_simps split: option.split)

lemma find_sub_dhas: "find_sub project s st = Some r \<Longrightarrow> dhas (ps_subs st) s"
  by (auto simp: find_sub_def dhas_def split: option.splits)

lemma ps_ok_purge:
  assumes "ps_ok hex st"
  shows "ps_ok hex (snd (purge_subscription project subn st))"
  using assms by (auto simp: purge_subscription_def Let_def dest!: find_sub_dhas intro!: ps_ok_queue split: option.split)

lemma ps_ok_dget: "ps_ok hex st \<Longrightarrow> copies_ok hex (ps_drawn st) s (dget (ps_messages st) s [])"
  by (auto simp: ps_ok_def intro: queues_ok_dget)

lemma ps_ok_acknowledge:
  assumes "ps_ok hex st"
  shows "ps_ok hex (snd (acknowledge subn body receipt st))"
  using assms by (auto simp: acknowledge_def Let_def intro!: ps_ok_queue copies_ok_filter ps_ok_dget split: sum.split)

lemma tags_release [simp]: "tags (release_lease now deadline ids m) = tags m"
  by (auto simp: release_lease_def tags_def split: option.split)

lemma queues_ok_dmap_at:
  assumes "queues_ok hex n owner qs" and "\<And>m. tags (f m) = tags m"
  shows "queues_ok hex n owner (dmap_at k (map f) qs)"
proof -
  have "copies_ok hex n k' (map f q) = copies_ok hex n k' q" for k' q
    by (rule copies_ok_tags) (simp add: assms(2))
  then show ?thesis using assms(1) by (auto simp: queues_ok_def dict_simps split: if_splits)
qed

lemma ps_ok_modify:
  assumes "ps_ok hex st"
  shows "ps_ok hex (snd (modify_ack_deadline en subn body st))"
  using assms by (auto simp: modify_ack_deadline_def Let_def ps_ok_def intro!: queues_ok_dmap_at split: sum.split)

lemma ps_ok_publish:
  assumes "ps_ok (pe_hex en) st"
  shows "ps_ok (pe_hex en) (snd (publish en project topic body st))"
proof (cases "ps_payload body")
  case (Inr payload)
  let ?t = "strip_action_suffix topic ['':publish'']"
  show ?thesis
  proof (cases "find_topic project ?t st")
    case (Some r)
    have q: "queues_ok (pe_hex en) (ps_drawn st) (\<lambda>k. dhas (ps_topics st) k \<or> dhas (ps_subs st) k) (ps_messages st)"
      using assms by (simp add: ps_ok_def)
    have t: "dhas (ps_topics st) ?t" using find_topic_Some [OF Some] assms by (auto simp: ps_ok_def dhas_def)
    have s: "dhas (ps_subs st) (sb_id s)" if sub: "s \<in> set (dvals (ps_subs st))" for s
    proof -
      obtain k where "(k, s) \<in> set (ps_subs st)" using sub by (auto simp: dvals_def)
      then have "map_of (ps_subs st) k = Some s" using assms by (auto simp: ps_ok_def subs_ok_def in_dict_map_of)
      then show ?thesis using assms by (auto simp: ps_ok_def subs_ok_def dhas_def)
    qed
    show ?thesis
      using publish_all_ok [OF q, of "dvals (ps_subs st)" ?t project "list_items (pget payload ''messages'')"] s t assms Inr Some
      by (auto simp: publish_def Let_def case_prod_beta ps_ok_def)
  qed (simp add: publish_def Inr Let_def assms)
qed (simp add: publish_def Let_def assms)

lemma deliver_drawn: "n \<le> snd (snd (deliver en deadline n room blocked ms))"
proof (induction ms arbitrary: n room blocked)
  case (Cons m ms)
  have "n \<le> snd (snd (deliver en deadline (Suc n) r b ms))" for r b using Cons.IH [of "Suc n" r b] by simp
  then show ?case using Cons.IH by (auto simp: case_prod_beta Let_def split: option.split)
qed simp

lemma tags_leased [simp]: "tags (leased now deadline m) = tags m"
  by (simp add: leased_def tags_def)

lemma deliver_tags: "map tags (fst (snd (deliver en deadline n room blocked ms))) = map tags ms"
  by (induction ms arbitrary: n room blocked) (auto simp: case_prod_beta Let_def)

lemma ps_ok_pull:
  assumes "ps_ok hex st"
  shows "ps_ok hex (snd (pull en project subn body st))"
proof (cases "fst (pull en project subn body st)")
  case (Inl e)
  then have "snd (pull en project subn body st) = st"
    by (auto simp: pull_def Let_def case_prod_beta split: sum.splits option.splits)
  then show ?thesis using assms by simp
next
  case (Inr out)
  let ?s = "strip_action_suffix subn sub_suffixes"
  from Inr obtain limit r where l: "rbind (ps_payload body) pull_limit = Inr limit" and r: "find_sub project ?s st = Some r"
    by (auto simp: pull_def Let_def split: sum.splits option.splits)
  show ?thesis
  proof (cases "map_of (ps_messages st) ?s")
    case (Some queue)
    let ?q = "unexpired (pe_now en) (retention_seconds st r) queue"
    let ?d = "deliver en (lease_seconds r) (ps_drawn st) limit [] ?q"
    have "copies_ok hex (ps_drawn st) ?s queue" using ps_ok_dget [OF assms, of ?s] Some by (simp add: dict_simps)
    then have "copies_ok hex (ps_drawn st) ?s ?q" by (auto simp: unexpired_def intro: copies_ok_filter)
    then have "copies_ok hex (ps_drawn st) ?s (fst (snd ?d))" using copies_ok_tags [OF deliver_tags] by blast
    then have "ps_ok hex (st\<lparr>ps_messages := dset ?s (fst (snd ?d)) (ps_messages st)\<rparr>)"
      by (rule ps_ok_queue [OF assms find_sub_dhas [OF r]])
    then have "ps_ok hex (st\<lparr>ps_messages := dset ?s (fst (snd ?d)) (ps_messages st), ps_drawn := snd (snd ?d)\<rparr>)"
      using queues_ok_mono [OF _ deliver_drawn] by (auto simp: ps_ok_def)
    then show ?thesis using l r Some by (simp add: pull_def Let_def case_prod_beta)
  qed (use l r assms in \<open>simp add: pull_def Let_def\<close>)
qed

lemma ps_ok_schemas:
  assumes "ps_ok hex st"
  shows "ps_ok hex (snd (create_schema en project body st))" "ps_ok hex (snd (delete_schema project schema st))"
  using assms queues_ok_mono [of hex "ps_drawn st" _ _ "Suc (ps_drawn st)"]
  by (auto simp: create_schema_def delete_schema_def Let_def ps_ok_def dict_simps split: option.split)

lemmas ps_ok_calls = ps_ok_create_topic ps_ok_put_topic ps_ok_update_topic ps_ok_delete_topic ps_ok_subscribe
  ps_ok_patch_subscription ps_ok_delete_subscription ps_ok_purge ps_ok_acknowledge ps_ok_modify ps_ok_pull ps_ok_schemas

lemma ps_ok_run: "ps_ok (pe_hex en) st \<Longrightarrow> ps_ok (pe_hex en) (ps_run en project c st)"
  by (cases c) (auto simp: ps_run_def Let_def intro: ps_ok_calls ps_ok_publish)

lemma ps_reachable_ok: "ps_reachable hex st \<Longrightarrow> ps_ok hex st"
proof (induction rule: ps_reachable.induct)
  case start
  show ?case by (simp add: empty_pubsub_def ps_ok_def topics_ok_def subs_ok_def queues_ok_def wf_dict_def)
next
  case (call st en project c)
  then show ?case using ps_ok_run [of en st project c] by simp
qed

text \<open>C27. Whatever calls are made, in whatever projects and with whatever bodies, the tables of Pub/Sub stay in order: a record
  lies under its short name and carries the path of its project, every queue belongs to a topic or a subscription that
  exists, the entries of a queue belong there, and no two copies share an acknowledgement id when random identifiers do not
  repeat.\<close>

theorem pubsub_reachable_ok: "ps_reachable hex st \<Longrightarrow> ps_ok hex st"
  by (rule ps_reachable_ok)

section \<open>A subscription as a backlog\<close>

text \<open>The abstract view of a subscription: the messages that wait, in order, each with the id that acknowledges it.\<close>

type_synonym waiting = "string option \<times> string \<times> string \<times> pyval \<times> string"

definition waits :: "ps_message \<Rightarrow> waiting" where
  "waits m = (pm_ack m, pm_id m, pm_data m, pm_attributes m, pm_key m)"

definition backlog :: "pubsub \<Rightarrow> string \<Rightarrow> waiting list" where
  "backlog st s = map waits (dget (ps_messages st) s [])"

definition dict_messages :: "pyval list \<Rightarrow> pyval dict list" where
  "dict_messages ms = concat (map (\<lambda>v. case v of PDict d \<Rightarrow> [d] | _ \<Rightarrow> []) ms)"

lemma dict_messages_simps [simp]:
  "dict_messages [] = []" "dict_messages (PDict d # ms) = d # dict_messages ms" "dict_messages (PNone # ms) = dict_messages ms"
  "dict_messages (PBool b # ms) = dict_messages ms" "dict_messages (PInt i # ms) = dict_messages ms"
  "dict_messages (PFloat f # ms) = dict_messages ms" "dict_messages (PStr s # ms) = dict_messages ms"
  "dict_messages (PList xs # ms) = dict_messages ms"
  by (simp_all add: dict_messages_def)

definition published :: "string \<Rightarrow> pyval dict \<Rightarrow> string \<times> string \<times> pyval \<times> string" where
  "published i d = (i, str_field d ''data'' [], dict_field d ''attributes'', str_field d ''orderingKey'' [])"

text \<open>Subscription \<open>k\<close> is among those that get a message of the topic.\<close>

definition reads_topic :: "string \<Rightarrow> string \<Rightarrow> ps_sub list \<Rightarrow> string \<Rightarrow> bool" where
  "reads_topic project t ss k \<longleftrightarrow> (\<exists>x\<in>set ss. sub_of_topic project t x \<and> sb_id x = k)"

lemma reads_topic_Nil [simp]: "\<not> reads_topic project t [] k"
  by (simp add: reads_topic_def)

lemma reads_topic_Cons: "reads_topic project t (s # ss) k \<longleftrightarrow> sub_of_topic project t s \<and> sb_id s = k \<or> reads_topic project t ss k"
  by (auto simp: reads_topic_def)

lemma dget_enqueue: "dget (enqueue k m qs) k' [] = (if k' = k then dget qs k [] @ [m] else dget qs k' [])"
  by (simp add: enqueue_def dict_simps)

lemma fan_out_queue:
  assumes "distinct (map sb_id ss)"
  shows "\<exists>new. dget (snd (fan_out en project t m ss (n, qs))) k [] = dget qs k [] @ new
    \<and> map (snd \<circ> waits) new = (if reads_topic project t ss k then [snd (waits m)] else [])
    \<and> (\<forall>x\<in>set new. pm_ack x \<noteq> None)"
  using assms
proof (induction ss arbitrary: n qs)
  case (Cons s ss)
  let ?m = "m\<lparr>pm_ack := Some (''ack-'' @ pe_hex en n), pm_sub := Some (sb_id s)\<rparr>"
  let ?n = "if sub_of_topic project t s then Suc n else n"
  let ?qs = "if sub_of_topic project t s then enqueue (sb_id s) ?m qs else qs"
  have step: "fan_out en project t m (s # ss) (n, qs) = fan_out en project t m ss (?n, ?qs)" by simp
  obtain new where new: "dget (snd (fan_out en project t m ss (?n, ?qs))) k [] = dget ?qs k [] @ new"
    "map (snd \<circ> waits) new = (if reads_topic project t ss k then [snd (waits m)] else [])"
    "\<forall>x\<in>set new. pm_ack x \<noteq> None"
    using Cons.IH [of ?n ?qs] Cons.prems unfolding list.map distinct.simps by blast
  show ?case
  proof (cases "sub_of_topic project t s \<and> sb_id s = k")
    case True
    then have none: "\<not> reads_topic project t ss k" using Cons.prems by (auto simp: image_iff reads_topic_def)
    show ?thesis unfolding step new(1) using True new(2,3) none
      by (intro exI [of _ "?m # new"]) (auto simp: dget_enqueue waits_def reads_topic_Cons)
  next
    case False
    then have "dget ?qs k [] = dget qs k []" by (auto simp: dget_enqueue)
    then show ?thesis unfolding step new(1) using False new(2,3) by (intro exI [of _ new]) (auto simp: reads_topic_Cons)
  qed
qed simp

lemma publish_all_queue:
  assumes "distinct (map sb_id ss)"
  shows "\<exists>new ids. fst (publish_all en project t ss ms (n, qs)) = ids \<and> length ids = length (dict_messages ms)
    \<and> dget (snd (snd (publish_all en project t ss ms (n, qs)))) k [] = dget qs k [] @ new
    \<and> (k \<noteq> t \<longrightarrow> map (snd \<circ> waits) new
          = (if reads_topic project t ss k then map2 published ids (dict_messages ms) else [])
          \<and> (\<forall>x\<in>set new. pm_ack x \<noteq> None))
    \<and> (k = t \<longrightarrow> map (snd \<circ> waits) (filter (\<lambda>x. pm_ack x = None) new) = map2 published ids (dict_messages ms))"
  using assms
proof (induction en project t ss ms "(n, qs)" arbitrary: n qs rule: publish_all.induct)
  case (2 en project t ss d ms n qs)
  let ?m = "message_entry en t n d"
  let ?f = "fan_out en project t ?m ss (Suc n, enqueue t ?m qs)"
  let ?p = "publish_all en project t ss ms ?f"
  obtain a where a: "dget (snd ?f) k [] = dget (enqueue t ?m qs) k [] @ a"
      "map (snd \<circ> waits) a = (if reads_topic project t ss k then [snd (waits ?m)] else [])"
      "\<forall>x\<in>set a. pm_ack x \<noteq> None"
    using fan_out_queue [OF "2.prems"] by blast
  obtain b where b: "length (fst ?p) = length (dict_messages ms)" "dget (snd (snd ?p)) k [] = dget (snd ?f) k [] @ b"
      "k \<noteq> t \<longrightarrow> map (snd \<circ> waits) b = (if reads_topic project t ss k then map2 published (fst ?p) (dict_messages ms) else []) \<and> (\<forall>x\<in>set b. pm_ack x \<noteq> None)"
      "k = t \<longrightarrow> map (snd \<circ> waits) (filter (\<lambda>x. pm_ack x = None) b) = map2 published (fst ?p) (dict_messages ms)"
    using "2.hyps" [OF refl prod.collapse [symmetric] "2.prems"] by auto
  have fst_p: "publish_all en project t ss (PDict d # ms) (n, qs) = (pm_id ?m # fst ?p, snd ?p)"
    by (simp add: case_prod_beta Let_def)
  have w: "snd (waits ?m) = published (pm_id ?m) d" "pm_ack ?m = None"
    by (simp_all add: waits_def published_def message_entry_def)
  have none: "filter (\<lambda>x. pm_ack x = None) a = []" using a(3) by (simp add: filter_empty_conv)
  show ?case
  proof (cases "k = t")
    case True
    then show ?thesis unfolding fst_p using a b w none
      by (intro exI [of _ "?m # a @ b"] exI [of _ "pm_id ?m # fst ?p"]) (auto simp: dget_enqueue)
  next
    case False
    then show ?thesis unfolding fst_p using a b w
      by (intro exI [of _ "a @ b"] exI [of _ "pm_id ?m # fst ?p"]) (auto simp: dget_enqueue)
  qed
qed (simp_all split del: if_split cong: if_cong)

lemma waits_release_lease [simp]: "waits (release_lease now deadline ids m) = waits m"
  by (auto simp: release_lease_def waits_def split: option.split)

lemma waits_leased [simp]: "waits (leased now deadline m) = waits m"
  by (simp add: leased_def waits_def)

lemma deliver_waits: "map waits (fst (snd (deliver en deadline n room blocked ms))) = map waits ms"
  by (induction ms arbitrary: n room blocked) (auto simp: case_prod_beta Let_def)

lemma subs_ok_distinct: "subs_ok ss \<Longrightarrow> distinct (map sb_id (dvals ss))"
proof -
  assume ok: "subs_ok ss"
  have m: "map sb_id (dvals ss) = map fst ss"
    unfolding dvals_def map_map by (rule map_cong [OF refl]) (use ok in \<open>auto simp: subs_ok_def in_dict_map_of\<close>)
  show ?thesis unfolding m using ok by (simp add: subs_ok_def wf_dict_def)
qed

lemma subs_ok_reads:
  assumes "subs_ok ss" and "map_of ss s = Some r"
  shows "reads_topic project t (dvals ss) s \<longleftrightarrow> sub_of_topic project t r"
proof -
  have one: "x = r" if sub: "x \<in> set (dvals ss)" and "sb_id x = s" for x
  proof -
    obtain k where "(k, x) \<in> set ss" using sub by (auto simp: dvals_def)
    then have "map_of ss k = Some x" using assms(1) by (simp add: subs_ok_def in_dict_map_of)
    moreover from this have "sb_id x = k" using assms(1) by (simp add: subs_ok_def)
    ultimately show ?thesis using assms(2) \<open>sb_id x = s\<close> by simp
  qed
  have r: "r \<in> set (dvals ss)" "sb_id r = s"
    using imageI [OF map_of_in_dict [OF assms(2)], of snd] assms by (simp_all add: dvals_def subs_ok_def)
  show ?thesis unfolding reads_topic_def
  proof
    assume "\<exists>x\<in>set (dvals ss). sub_of_topic project t x \<and> sb_id x = s"
    then obtain x where "x \<in> set (dvals ss)" "sub_of_topic project t x" "sb_id x = s" by blast
    then show "sub_of_topic project t r" using one [of x] by simp
  next
    assume "sub_of_topic project t r"
    then show "\<exists>x\<in>set (dvals ss). sub_of_topic project t x \<and> sb_id x = s" using r by blast
  qed
qed

lemma publish_Inr:
  assumes "publish en project topic body st = (Inr ans, st1)" and "t = strip_action_suffix topic ['':publish'']"
  obtains payload r p where "ps_payload body = Inr payload" and "find_topic project t st = Some r"
    and "p = publish_all en project t (dvals (ps_subs st)) (list_items (pget payload ''messages'')) (ps_drawn st, ps_messages st)"
    and "ans = PDict [(''messageIds'', PList (map PStr (fst p)))]" and "st1 = st\<lparr>ps_messages := snd (snd p), ps_drawn := fst (snd p)\<rparr>"
proof -
  obtain payload where b: "ps_payload body = Inr payload"
    using assms(1) by (auto simp: publish_def Let_def split: sum.splits)
  then obtain r where r: "find_topic project t st = Some r"
    using assms by (auto simp: publish_def Let_def split: if_splits)
  from that [OF b r refl] show thesis using assms b r by (simp add: publish_def Let_def case_prod_beta)
qed

lemma backlog_publish:
  assumes "ps_ok hex st" and "map_of (ps_subs st) s = Some r" and "\<not> dhas (ps_topics st) s"
    and "publish en project topic body st = (Inr ans, st1)" and "t = strip_action_suffix topic ['':publish'']"
  shows "\<exists>payload ids new. ps_payload body = Inr payload \<and> ans = PDict [(''messageIds'', PList (map PStr ids))]
    \<and> length ids = length (dict_messages (list_items (pget payload ''messages'')))
    \<and> backlog st1 s = backlog st s @ new
    \<and> map snd new = (if sub_of_topic project t r then map2 published ids (dict_messages (list_items (pget payload ''messages''))) else [])
    \<and> (\<forall>x\<in>set new. fst x \<noteq> None)"
proof -
  from assms(4,5) obtain payload tr p where p: "ps_payload body = Inr payload" "find_topic project t st = Some tr"
    "p = publish_all en project t (dvals (ps_subs st)) (list_items (pget payload ''messages'')) (ps_drawn st, ps_messages st)"
    "ans = PDict [(''messageIds'', PList (map PStr (fst p)))]" "st1 = st\<lparr>ps_messages := snd (snd p), ps_drawn := fst (snd p)\<rparr>"
    by (rule publish_Inr)
  have ok: "subs_ok (ps_subs st)" "topics_ok (ps_topics st)" using assms(1) by (auto simp: ps_ok_def)
  have "s \<noteq> t" using find_topic_Some [OF p(2) ok(2)] assms(3) by (auto simp: dhas_def)
  with publish_all_queue [OF subs_ok_distinct [OF ok(1)], where k = s and en = en and project = project and t = t and n = "ps_drawn st"
      and qs = "ps_messages st" and ms = "list_items (pget payload ''messages'')"] p(3)
  obtain new where "length (fst p) = length (dict_messages (list_items (pget payload ''messages'')))"
    "dget (snd (snd p)) s [] = dget (ps_messages st) s [] @ new"
    "map (snd \<circ> waits) new = (if reads_topic project t (dvals (ps_subs st)) s
       then map2 published (fst p) (dict_messages (list_items (pget payload ''messages''))) else [])"
    "\<forall>x\<in>set new. pm_ack x \<noteq> None" by blast
  then show ?thesis using p subs_ok_reads [OF ok(1) assms(2), of project t]
    by (intro exI [of _ payload] exI [of _ "fst p"] exI [of _ "map waits new"]) (auto simp: backlog_def waits_def)
qed

lemma backlog_acknowledge:
  assumes "acknowledge subn body receipt st = (Inr ans, st1)"
  shows "\<exists>payload. ps_payload body = Inr payload \<and> backlog st1 s = (if strip_action_suffix subn sub_suffixes = s
      then filter (\<lambda>x. \<forall>a. fst x = Some a \<longrightarrow> a \<notin> set (ack_ids payload) \<and> a \<noteq> receipt) (backlog st s) else backlog st s)"
proof -
  have "map waits (filter (\<lambda>m. \<not> acknowledged ids receipt m) q)
      = filter (\<lambda>x. \<forall>a. fst x = Some a \<longrightarrow> a \<notin> set ids \<and> a \<noteq> receipt) (map waits q)" for ids q
    by (induction q) (auto simp: acknowledged_def waits_def split: option.split)
  then show ?thesis using assms
    by (auto simp: acknowledge_def Let_def backlog_def dict_simps split: sum.splits if_splits)
qed

lemma dget_dmap_at: "dget (dmap_at k f d) k' w = (if k' = k \<and> dhas d k then f (dget d k w) else dget d k' w)"
  by (cases "map_of d k'") (auto simp: dget_def dict_simps dhas_def)

lemma backlog_modify: "backlog (snd (modify_ack_deadline en subn body st)) s = backlog st s"
  by (auto simp: modify_ack_deadline_def Let_def backlog_def dget_dmap_at split: sum.split)

lemma backlog_pull:
  assumes "pull en project subn body st = (Inr out, st1)"
  shows "\<exists>r. find_sub project (strip_action_suffix subn sub_suffixes) st = Some r
    \<and> backlog st1 s = (if strip_action_suffix subn sub_suffixes = s
        then map waits (unexpired (pe_now en) (retention_seconds st r) (dget (ps_messages st) s [])) else backlog st s)"
proof -
  from assms obtain limit r where l: "find_sub project (strip_action_suffix subn sub_suffixes) st = Some r"
    and d: "\<And>q. q = unexpired (pe_now en) (retention_seconds st r) (dget (ps_messages st) (strip_action_suffix subn sub_suffixes) []) \<Longrightarrow>
          out = fst (deliver en (lease_seconds r) (ps_drawn st) limit [] q)
          \<and> dget (ps_messages st1) (strip_action_suffix subn sub_suffixes) []
              = fst (snd (deliver en (lease_seconds r) (ps_drawn st) limit [] q))"
    by (rule pull_Inr [OF _ refl]) blast
  have other: "strip_action_suffix subn sub_suffixes \<noteq> s \<Longrightarrow> dget (ps_messages st1) s [] = dget (ps_messages st) s []"
    using assms by (auto simp: pull_def Let_def case_prod_beta dict_simps split: sum.splits option.splits)
  show ?thesis using l d [OF refl] other by (auto simp: backlog_def deliver_waits)
qed


section \<open>The subscription a topic brings along\<close>

definition consumer_call :: "ps_call \<Rightarrow> bool" where
  "consumer_call c = (case c of Pull _ _ \<Rightarrow> True | Acknowledge _ _ _ \<Rightarrow> True | ModifyAckDeadline _ _ \<Rightarrow> True | _ \<Rightarrow> False)"

fun run_calls :: "(ps_env \<times> string \<times> ps_call) list \<Rightarrow> pubsub \<Rightarrow> pubsub" where
  "run_calls [] st = st"
| "run_calls ((en, project, c) # cs) st = run_calls cs (ps_run en project c st)"

definition stamp :: "ps_message \<Rightarrow> string option \<times> string \<times> rat" where
  "stamp m = (pm_ack m, pm_id m, pm_published m)"

lemma stamp_release [simp]: "stamp (release_lease now deadline ids m) = stamp m"
  by (auto simp: release_lease_def stamp_def split: option.split)

lemma stamp_leased [simp]: "stamp (leased now deadline m) = stamp m"
  by (simp add: leased_def stamp_def)

lemma deliver_stamp: "map stamp (fst (snd (deliver en deadline n room blocked ms))) = map stamp ms"
  by (induction ms arbitrary: n room blocked) (auto simp: case_prod_beta Let_def)

lemma consumer_tables:
  "consumer_call c \<Longrightarrow> ps_subs (ps_run en project c st) = ps_subs st \<and> ps_topics (ps_run en project c st) = ps_topics st"
  by (cases c) (auto simp: consumer_call_def ps_run_def Let_def pull_def acknowledge_def modify_ack_deadline_def case_prod_beta
      split: sum.split option.split)

definition has_stamp :: "pubsub \<Rightarrow> string \<Rightarrow> string option \<times> string \<times> rat \<Rightarrow> bool" where
  "has_stamp st k x \<longleftrightarrow> x \<in> stamp ` set (dget (ps_messages st) k [])"

lemma unexpired_stamp:
  assumes "x \<in> stamp ` set q" and "snd (snd x) = p" and "now - p \<le> of_int retention"
  shows "x \<in> stamp ` set (unexpired now retention q)"
proof -
  obtain m where "m \<in> set q" "x = stamp m" using assms(1) by auto
  then show ?thesis using assms(2,3) by (auto simp: unexpired_def stamp_def intro!: rev_image_eqI [of m])
qed

lemma has_stamp_pull:
  assumes "has_stamp st t (None, i, p)" and "map_of (ps_subs st) t = Some r" and "pe_now en - p \<le> of_int (retention_seconds st r)"
  shows "has_stamp (snd (pull en project subn body st)) t (None, i, p)"
proof (cases "fst (pull en project subn body st)")
  case (Inl e)
  then have "snd (pull en project subn body st) = st"
    by (auto simp: pull_def Let_def case_prod_beta split: sum.splits option.splits)
  then show ?thesis using assms by simp
next
  case (Inr out)
  let ?s = "strip_action_suffix subn sub_suffixes" and ?st1 = "snd (pull en project subn body st)"
  have pull: "pull en project subn body st = (Inr out, ?st1)" using Inr by (metis prod.collapse)
  obtain limit r' where r': "find_sub project ?s st = Some r'"
    and d: "\<And>q. q = unexpired (pe_now en) (retention_seconds st r') (dget (ps_messages st) ?s []) \<Longrightarrow>
          out = fst (deliver en (lease_seconds r') (ps_drawn st) limit [] q)
          \<and> dget (ps_messages ?st1) ?s [] = fst (snd (deliver en (lease_seconds r') (ps_drawn st) limit [] q))"
    by (rule pull_Inr [OF pull refl]) blast
  show ?thesis
  proof (cases "?s = t")
    case True
    then have "r' = r" using r' assms(2) by (auto simp: find_sub_def split: if_splits)
    then have "(None, i, p) \<in> stamp ` set (unexpired (pe_now en) (retention_seconds st r') (dget (ps_messages st) ?s []))"
      using unexpired_stamp [of "(None, i, p)" _ p] assms True by (simp add: has_stamp_def)
    then show ?thesis using d [OF refl] deliver_stamp True unfolding has_stamp_def by (metis list.set_map)
  next
    case False
    then have "dget (ps_messages ?st1) t [] = dget (ps_messages st) t []"
      by (auto simp: pull_def Let_def case_prod_beta dict_simps split: sum.split option.split)
    then show ?thesis using assms by (simp add: has_stamp_def)
  qed
qed

lemma has_stamp_run:
  assumes "has_stamp st t (None, i, p)" and "map_of (ps_subs st) t = Some r" and "pe_now en - p \<le> of_int (retention_seconds st r)"
    and "consumer_call c"
  shows "has_stamp (ps_run en project c st) t (None, i, p)"
proof (cases c)
  case (Acknowledge s b a)
  show ?thesis using assms(1) Acknowledge
    by (auto simp: ps_run_def Let_def acknowledge_def has_stamp_def dict_simps stamp_def acknowledged_def image_iff
        split: sum.split intro!: bexI)
next
  case (ModifyAckDeadline s b)
  have "stamp ` set (map (release_lease now d ids) q) = stamp ` set q" for now d ids q by (force simp: image_iff)
  then show ?thesis using assms(1) ModifyAckDeadline
    by (auto simp: ps_run_def Let_def modify_ack_deadline_def has_stamp_def dget_dmap_at split: sum.split)
qed (use assms has_stamp_pull in \<open>auto simp: ps_run_def Let_def consumer_call_def\<close>)

lemma has_stamp_run_calls:
  assumes "has_stamp st t (None, i, p)" and "map_of (ps_subs st) t = Some r"
    and "\<forall>(en, project, c)\<in>set cs. consumer_call c \<and> pe_now en - p \<le> of_int (retention_seconds st r)"
  shows "has_stamp (run_calls cs st) t (None, i, p)"
  using assms
proof (induction cs arbitrary: st)
  case (Cons x cs)
  obtain en project c where x: "x = (en, project, c)" by (cases x)
  let ?st = "ps_run en project c st"
  have c: "consumer_call c" "pe_now en - p \<le> of_int (retention_seconds st r)" using Cons.prems(3) x by auto
  have top: "ps_topics ?st = ps_topics st" using consumer_tables [OF c(1)] by simp
  have "retention_seconds ?st r = retention_seconds st r" by (simp only: retention_seconds_def top)
  then show ?case
    using Cons.IH [of ?st] Cons.prems has_stamp_run [OF Cons.prems(1,2) c(2,1)] consumer_tables [OF c(1)] by (simp add: x)
qed simp

lemma fan_out_published:
  "x \<in> set (dget (snd (fan_out en project t m ss (n, qs))) k []) \<Longrightarrow>
    x \<in> set (dget qs k []) \<or> pm_published x = pm_published m"
proof (induction ss arbitrary: n qs)
  case (Cons s ss)
  then show ?case by (cases "sub_of_topic project t s") (fastforce simp: dget_enqueue split: if_splits)+
qed simp

lemma publish_all_published:
  "x \<in> set (dget (snd (snd (publish_all en project t ss ms (n, qs)))) k []) \<Longrightarrow>
    x \<in> set (dget qs k []) \<or> pm_published x = pe_now en"
proof (induction en project t ss ms "(n, qs)" arbitrary: n qs rule: publish_all.induct)
  case (2 en project t ss d ms n qs)
  let ?m = "message_entry en t n d"
  let ?f = "fan_out en project t ?m ss (Suc n, enqueue t ?m qs)"
  have "x \<in> set (dget (snd ?f) k []) \<or> pm_published x = pe_now en"
    using "2.hyps" [OF refl prod.collapse [symmetric]] "2.prems" by (simp add: case_prod_beta Let_def)
  then show ?case using fan_out_published [of x en project t ?m ss "Suc n" "enqueue t ?m qs" k]
    by (auto simp: dget_enqueue message_entry_def split: if_splits)
qed simp_all

lemma published_ids: "length ids = length ds \<Longrightarrow> map fst (map2 published ids ds) = ids"
  by (induction ids ds rule: list_induct2) (auto simp: published_def)

lemma week: "parse_duration_seconds ''604800s'' = 604800"
proof -
  have "unsigned_val ''604800'' = 604800"
    by (simp add: unsigned_val_def scale10_def exp_val_def digits_rat_def digits_val_def digit_val_def)
  moreover have "digit_groups ''604800''" "plain_digits ''604800'' = ''604800''" "lower ''604800'' = ''604800''"
    "strip ''604800s'' = ''604800s''" "strip ''604800'' = ''604800''" by code_simp+
  ultimately show ?thesis
    by (simp add: parse_duration_seconds_def endswith_def float_of_text_def unsigned_text_def trunc_def Let_def)
qed

lemma fresh_queue: "ps_ok hex st \<Longrightarrow> \<not> dhas (ps_topics st) t \<Longrightarrow> \<not> dhas (ps_subs st) t \<Longrightarrow> dget (ps_messages st) t [] = []"
  by (cases "map_of (ps_messages st) t") (auto simp: ps_ok_def queues_ok_def dict_simps)

text \<open>Creating a topic \<open>t\<close> with its default subscription.\<close>

lemma create_topic_default:
  assumes "create_topic en project (Some (PDict d)) st = (Inr v, st1)" and "pget d ''topicId'' = PStr t" and "t \<noteq> []" and "short_name t = t"
    and "pget d ''subscriptionId'' = PNone" and "\<not> dhas (ps_subs st) t"
  obtains r where "map_of (ps_subs st1) t = Some r" and "sb_retention r = ''604800s''" and "ps_messages st1 = ps_messages st"
proof -
  obtain r where r: "subscription_record (pe_text en) project t (default_sub_payload project t d) = Inr r"
    using assms by (auto simp: create_topic_def ps_payload_def Let_def py_or_def split: sum.splits)
  then have "sb_retention r = ''604800s''"
    by (auto simp: subscription_record_def rbind_Inr default_sub_payload_def str_field_def pget_def dget_def py_or_def)
  moreover have "st1 = st\<lparr>ps_topics := dset t (topic_record (pe_text en) project t d) (ps_topics st), ps_subs := dset t r (ps_subs st)\<rparr>"
    using assms r by (simp add: create_topic_def ps_payload_def Let_def py_or_def)
  ultimately show thesis by (intro that [of r]) (auto simp: dict_simps)
qed

text \<open>C20. The subscription a new topic brings along has the topic's own name, and so its queue is also the one where the topic
  keeps a copy of every message.  That copy has no acknowledgement id: whatever consumers pull, acknowledge or move the deadline
  of, in any project, the copy of every published message is still in the queue until its retention of a week ends, so the
  message is delivered once more after every lease.\<close>

theorem pubsub_default_copy_stays:
  assumes "ps_ok hex st" and "\<not> dhas (ps_topics st) t" and "\<not> dhas (ps_subs st) t" and "t \<noteq> []" and "short_name t = t"
    and "create_topic en project (Some (PDict d)) st = (Inr v, st1)" and "pget d ''topicId'' = PStr t" and "pget d ''subscriptionId'' = PNone"
    and "project \<noteq> []" and "publish en1 project t body st1 = (Inr (PDict [(''messageIds'', PList (map PStr ids))]), st2)"
    and "strip_action_suffix t ['':publish''] = t" and "i \<in> set ids"
    and "\<forall>(en, p, c)\<in>set cs. consumer_call c \<and> pe_now en \<le> pe_now en1 + 604800"
  shows "\<exists>m\<in>set (dget (ps_messages (run_calls cs st2)) t []). pm_id m = i \<and> pm_ack m = None"
proof -
  obtain r where r: "map_of (ps_subs st1) t = Some r" "sb_retention r = ''604800s''" "ps_messages st1 = ps_messages st"
    using create_topic_default [OF assms(6,7,4,5,8,3)] by blast
  obtain payload tr p where p: "p = publish_all en1 project t (dvals (ps_subs st1)) (list_items (pget payload ''messages'')) (ps_drawn st1, ps_messages st1)"
    "map PStr ids = map PStr (fst p)" "st2 = st1\<lparr>ps_messages := snd (snd p), ps_drawn := fst (snd p)\<rparr>"
    by (rule publish_Inr [OF assms(10) assms(11) [symmetric]]) auto
  have ids: "fst p = ids" using p(2) by (simp add: inj_map_eq_map inj_def)
  have ok: "ps_ok hex st1" using ps_ok_create_topic [OF assms(1) assms(9), of en "Some (PDict d)"] assms(6) by simp
  let ?ds = "dict_messages (list_items (pget payload ''messages''))"
  have empty: "dget (ps_messages st1) t [] = []" using fresh_queue [OF assms(1-3)] r(3) by simp
  obtain new where new: "length ids = length ?ds" "dget (snd (snd p)) t [] = new"
      "map (snd \<circ> waits) (filter (\<lambda>x. pm_ack x = None) new) = map2 published ids ?ds"
    using publish_all_queue [OF subs_ok_distinct, of "ps_subs st1" en1 project t "list_items (pget payload ''messages'')" "ps_drawn st1"
        "ps_messages st1" t] ok p(1) ids empty by (auto simp: ps_ok_def)
  have "i \<in> fst ` set (map2 published ids ?ds)"
  proof -
    have "map fst (map2 published ids ?ds) = ids" by (rule published_ids [OF new(1)])
    then show ?thesis using assms(12) by (metis list.set_map)
  qed
  then obtain m where m: "m \<in> set new" "pm_ack m = None" "pm_id m = i"
    unfolding new(3) [symmetric] by (auto simp: waits_def)
  have "pm_published m = pe_now en1"
    using publish_all_published [of m en1 project t "dvals (ps_subs st1)" "list_items (pget payload ''messages'')" "ps_drawn st1" "ps_messages st1" t]
      m(1) new(2) p(1) empty by simp
  then have s: "has_stamp st2 t (None, i, pe_now en1)" using m p(3) new(2) by (auto simp: has_stamp_def stamp_def image_iff intro!: bexI [of _ m])
  have "retention_seconds st2 r = 604800" by (simp add: retention_seconds_def r(2) week)
  then have "has_stamp (run_calls cs st2) t (None, i, pe_now en1)"
    using assms(13) by (intro has_stamp_run_calls [OF s, of r]) (auto simp: p(3) r(1))
  then show ?thesis by (auto simp: has_stamp_def stamp_def)
qed

section \<open>Projects\<close>

text \<open>Topics are kept under their short names alone: creating a topic in one project takes the topic of that name away from
  every other project, whose calls on it then answer that it is not found; its subscriptions stay and no longer get anything
  published by their own project.\<close>

theorem pubsub_topics_collide:
  assumes "get_topic p t st = Inr v" and "strip_action_suffix t ['':publish''] = t" and "short_name t = t" and "t \<noteq> []"
    and "p \<noteq> q" and "p \<noteq> []" and "q \<noteq> []"
  shows "let st1 = snd (put_topic en q t body st)
    in (\<exists>w. get_topic q t st1 = Inr w) \<and> get_topic p t st1 = Inl (ps_missing ''Topic not found'')
      \<and> fst (publish en' p t (Some m) st1) = Inl (ps_missing ''Topic not found'') \<and> ps_subs st1 = ps_subs st"
  using assms
  by (auto simp: put_topic_def Let_def get_topic_def find_topic_def topic_record_def dict_simps str_or_def publish_def ps_payload_def)

section \<open>Examples\<close>

declare strip_action_suffix.simps [simp del]

definition ps_demo_env :: "rat \<Rightarrow> ps_env" where
  "ps_demo_env now = \<lparr>pe_hex = (\<lambda>n. replicate n CHR ''a''), pe_now = now, pe_text = ''now''\<rparr>"

definition demo_topic :: pyval where
  "demo_topic = PDict [(''topicId'', PStr ''t'')]"

definition demo_body :: pyval where
  "demo_body = PDict [(''messages'', PList [PDict [(''data'', PStr ''x'')]])]"

definition demo_created :: pubsub where
  "demo_created = snd (create_topic (ps_demo_env 100) ''p'' (Some demo_topic) empty_pubsub)"

definition demo_published :: pubsub where
  "demo_published = snd (publish (ps_demo_env 100) ''p'' ''t'' (Some demo_body) demo_created)"

lemma demo_names: "short_name ''t'' = ''t''" "strip_action_suffix ''t'' ['':publish''] = ''t''" "strip_action_suffix ''t'' sub_suffixes = ''t''"
  "short_name ''s'' = ''s''" "strip_action_suffix ''s'' sub_suffixes = ''s''"
  by code_simp+

lemma ps_demo_env_simps [simp]: "pe_hex (ps_demo_env n) = (\<lambda>n. replicate n CHR ''a'')" "pe_now (ps_demo_env n) = n" "pe_text (ps_demo_env n) = ''now''"
  by (simp_all add: ps_demo_env_def)

definition demo_copy :: "string option \<Rightarrow> string option \<Rightarrow> ps_message" where
  "demo_copy a s = \<lparr>pm_id = ''msg-'', pm_data = ''x'', pm_attributes = PDict [], pm_time = ''now'', pm_topic = ''t'', pm_key = [],
     pm_published = 100, pm_ack = a, pm_sub = s, pm_visible = 0, pm_attempt = 0\<rparr>"

definition demo_sub :: "string \<Rightarrow> ps_sub" where
  "demo_sub s = \<lparr>sb_id = s, sb_project = ''p'', sb_name = sub_path ''p'' s, sb_topic = topic_path ''p'' ''t'', sb_deadline = 10,
     sb_retain = False, sb_retention = ''604800s'', sb_labels = PDict [], sb_created = ''now'', sb_updated = ''now''\<rparr>"

lemma demo_created_eq: "demo_created = \<lparr>ps_topics = [(''t'', topic_record ''now'' ''p'' ''t'' [(''topicId'', PStr ''t'')])],
    ps_subs = [(''t'', demo_sub ''t'')], ps_messages = [], ps_schemas = [], ps_drawn = 0\<rparr>"
  by (simp add: demo_created_def create_topic_def demo_topic_def ps_payload_def Let_def pget_def dget_def py_or_def demo_names
      empty_pubsub_def dhas_def dset_def subscription_record_def default_sub_payload_def int_field_def str_field_def dict_field_def
      is_dict_def demo_sub_def)

lemma demo_publish: "publish (ps_demo_env 100) ''p'' ''t'' (Some demo_body) demo_created
    = (Inr (PDict [(''messageIds'', PList (map PStr [''msg-'']))]), demo_published)"
  "ps_messages demo_published = [(''t'', [demo_copy None None, demo_copy (Some ''ack-a'') (Some ''t'')])]"
  "ps_subs demo_published = ps_subs demo_created" "ps_topics demo_published = ps_topics demo_created"
  by (simp_all add: demo_published_def publish_def Let_def demo_names demo_created_eq ps_payload_def demo_body_def find_topic_def topic_record_def
      str_or_def list_items_def pget_def dget_def dvals_def sub_of_topic_def demo_sub_def enqueue_def dset_def message_entry_def
      str_field_def dict_field_def py_or_def is_dict_def demo_copy_def)

lemma ps_demo_create: "create_topic (ps_demo_env 100) ''p'' (Some demo_topic) empty_pubsub
    = (Inr (PDict (topic_view ''p'' (topic_record ''now'' ''p'' ''t'' [(''topicId'', PStr ''t'')]))), demo_created)"
  unfolding demo_created_def by (simp add: create_topic_def demo_topic_def ps_payload_def Let_def pget_def dget_def py_or_def demo_names
      empty_pubsub_def dhas_def subscription_record_def default_sub_payload_def int_field_def)

lemma empty_ok: "ps_ok hex empty_pubsub"
  by (rule ps_reachable_ok [OF ps_reachable.start])

theorem pubsub_default_copy_stays_witness:
  "\<exists>m\<in>set (dget (ps_messages (run_calls [(ps_demo_env 105, ''p'', Pull ''t'' (Some (PDict []))),
      (ps_demo_env 106, ''p'', Acknowledge ''t'' (Some (PDict [(''ackIds'', PList [PStr ''ack-a'', PStr ''ack-aa''])])) [])] demo_published)) ''t'' []).
    pm_id m = ''msg-'' \<and> pm_ack m = None"
proof (rule pubsub_default_copy_stays)
  show "create_topic (ps_demo_env 100) ''p'' (Some (PDict [(''topicId'', PStr ''t'')])) empty_pubsub
    = (Inr (PDict (topic_view ''p'' (topic_record ''now'' ''p'' ''t'' [(''topicId'', PStr ''t'')]))), demo_created)"
    using ps_demo_create by (simp add: demo_topic_def)
  show "publish (ps_demo_env 100) ''p'' ''t'' (Some demo_body) demo_created
    = (Inr (PDict [(''messageIds'', PList (map PStr [''msg-'']))]), demo_published)" by (rule demo_publish(1))
qed (auto simp: demo_names empty_ok consumer_call_def pget_def dget_def, simp_all add: empty_pubsub_def dhas_def)

theorem pubsub_topics_collide_witness:
  "let st1 = snd (put_topic (ps_demo_env 101) ''q'' ''t'' None demo_created)
    in (\<exists>w. get_topic ''q'' ''t'' st1 = Inr w) \<and> get_topic ''p'' ''t'' st1 = Inl (ps_missing ''Topic not found'')
      \<and> fst (publish (ps_demo_env 102) ''p'' ''t'' (Some demo_body) st1) = Inl (ps_missing ''Topic not found'') \<and> ps_subs st1 = ps_subs demo_created"
  by (rule pubsub_topics_collide [of "''p''" "''t''" demo_created "PDict (topic_view ''p'' (topic_record ''now'' ''p'' ''t'' [(''topicId'', PStr ''t'')]))"])
    (auto simp: demo_names get_topic_def find_topic_def demo_created_eq topic_record_def str_or_def)

lemma demo_reachable: "ps_reachable (\<lambda>n. replicate n CHR ''a'') demo_created"
proof -
  have eq: "demo_created = ps_run (ps_demo_env 100) ''p'' (CreateTopic (Some demo_topic)) empty_pubsub"
    by (simp add: ps_run_def Let_def gcp_project_name_def str_or_def strip_def lstrip_def rstrip_def is_space_def ps_demo_create)
  show "ps_reachable (\<lambda>n. replicate n CHR ''a'') demo_created"
    unfolding eq by (rule ps_reachable.call [OF ps_reachable.start ps_demo_env_simps(1)])
qed

theorem pubsub_reachable_ok_witness: "ps_ok (\<lambda>n. replicate n CHR ''a'') demo_created"
  by (rule pubsub_reachable_ok [OF demo_reachable])

text \<open>The default subscription delivers the one message twice.\<close>

lemma demo_pull: "pull (ps_demo_env 105) ''p'' ''t'' (Some (PDict [])) demo_published
    = (Inr [(''ack-aa'', leased 105 10 (demo_copy None None)), (''ack-a'', leased 105 10 (demo_copy (Some ''ack-a'') (Some ''t'')))],
       snd (pull (ps_demo_env 105) ''p'' ''t'' (Some (PDict [])) demo_published))"
proof -
  have d: "ps_drawn demo_published = 2"
    by (simp add: demo_published_def publish_def Let_def demo_names demo_created_eq ps_payload_def demo_body_def find_topic_def topic_record_def
        str_or_def list_items_def pget_def dget_def dvals_def sub_of_topic_def demo_sub_def enqueue_def)
  have u: "unexpired 105 n [demo_copy None None, demo_copy (Some ''ack-a'') (Some ''t'')]
      = [demo_copy None None, demo_copy (Some ''ack-a'') (Some ''t'')]" if "n = 604800" for n
    by (simp add: unexpired_def demo_copy_def that)
  have w: "retention_seconds demo_published (demo_sub ''t'') = 604800" by (simp add: retention_seconds_def demo_sub_def week)
  show ?thesis
    by (simp add: pull_def demo_names Let_def ps_payload_def pull_limit_def py_or_def pget_def dget_def find_sub_def demo_publish demo_created_eq
        w u lease_seconds_def d)
      (simp add: demo_sub_def str_or_def demo_copy_def leased_def d numeral_2_eq_2)
qed

theorem pubsub_pull_exact_witness:
  "\<exists>limit r q chosen. rbind (ps_payload (Some (PDict []))) pull_limit = Inr limit \<and> find_sub ''p'' ''t'' demo_published = Some r
    \<and> q = unexpired 105 (retention_seconds demo_published r) (dget (ps_messages demo_published) ''t'' [])
    \<and> chosen = take (nat limit) (ready_positions 105 q)
    \<and> map snd [(''ack-aa'', leased 105 10 (demo_copy None None)), (''ack-a'', leased 105 10 (demo_copy (Some ''ack-a'') (Some ''t'')))]
        = map (\<lambda>i. leased 105 (lease_seconds r) (q ! i)) chosen"
  using pubsub_pull_exact [OF demo_pull demo_names(3) [symmetric]] by (simp only: ps_demo_env_simps) blast

text \<open>A second subscription of the topic, under a name of its own.\<close>

definition demo_two :: pubsub where
  "demo_two = snd (create_subscription (ps_demo_env 101) ''p''
     (Some (PDict [(''name'', PStr ''s''), (''topic'', PStr (topic_path ''p'' ''t''))])) [] demo_created)"

lemma demo_two_eq: "demo_two = demo_created\<lparr>ps_subs := [(''t'', demo_sub ''t''), (''s'', demo_sub ''s'')]\<rparr>"
  by (simp add: demo_two_def create_subscription_def ps_payload_def Let_def pget_def dget_def py_or_def demo_names demo_created_eq
      subscription_record_def int_field_def str_field_def dict_field_def is_dict_def demo_sub_def dset_def)

lemma demo_two_ok: "ps_ok (\<lambda>n. replicate n CHR ''a'') demo_two"
  unfolding demo_two_def by (rule ps_ok_subscribe(1)) (use ps_reachable_ok [OF demo_reachable] in simp_all)

lemma demo_two_publish: "\<exists>st1. publish (ps_demo_env 102) ''p'' ''t'' (Some demo_body) demo_two
    = (Inr (PDict [(''messageIds'', PList [PStr ''msg-''])]), st1)"
  by (simp add: publish_def Let_def demo_names demo_two_eq demo_created_eq ps_payload_def demo_body_def find_topic_def topic_record_def
      str_or_def list_items_def pget_def dget_def dvals_def sub_of_topic_def demo_sub_def message_entry_def)


end
