(* ===== verification/Firewalls.thy ===== *)
theory Firewalls
imports Py_Compare
begin

text \<open>
  The firewall scripts: the rules of a GCP network (\<open>core/gcp_vpc_enforce.py\<close>) and of an Azure security group
  (\<open>core/azure_nsg_enforce.py\<close>) as iptables commands, text by text.  What iptables does with a command is not modelled:
  which packets a command's conditions match is a parameter of the properties.
\<close>

section \<open>GCP\<close>

definition GCP_CHAIN :: string where
  "GCP_CHAIN = ''CL_FW''"

definition EGRESS_CHAIN :: string where
  "EGRESS_CHAIN = ''CL_FW_EGRESS''"

definition norm_ports :: "pyval dict \<Rightarrow> string list" where
  "norm_ports entry =
     (let ports = py_or (pget entry ''ports'') (PList []); ps = (if is_list ports then list_items ports else [ports])
      in filter (\<lambda>p. p \<noteq> []) (map (\<lambda>p. replace_char CHR ''-'' '':'' (strip (py_str p))) ps))"

text \<open>The commands of one entry for one address: per port for TCP and UDP, otherwise one.\<close>

definition entry_lines :: "string \<Rightarrow> string \<Rightarrow> string list \<Rightarrow> string \<Rightarrow> string list" where
  "entry_lines base proto ports action =
     (if proto \<in> {''tcp'', ''udp''} \<and> ports \<noteq> []
      then map (\<lambda>p. base @ '' -p '' @ proto @ '' --dport '' @ p @ '' -j '' @ action) ports
      else if proto \<in> {''tcp'', ''udp''} then [base @ '' -p '' @ proto @ '' -j '' @ action]
      else if proto \<in> {''icmp'', ''1''} then [base @ '' -p icmp -j '' @ action]
      else [base @ '' -j '' @ action])"

definition addresses :: "pyval dict \<Rightarrow> string \<Rightarrow> string list" where
  "addresses rule field =
     (let v = py_or (pget rule field) (PList [PStr ''0.0.0.0/0''])
      in if is_list v \<and> list_items v \<noteq> [] then map py_str (list_items v) else [''0.0.0.0/0''])"

definition spec_lines :: "string \<Rightarrow> string \<Rightarrow> string list \<Rightarrow> pyval dict \<Rightarrow> string \<Rightarrow> string \<Rightarrow> string list result" where
  "spec_lines chain flag addrs rule spec action =
     rbind (py_iter (py_or (pget rule spec) (PList []))) (\<lambda>entries.
       Inr (concat (map (\<lambda>e. case e of
               PDict d \<Rightarrow> concat (map (\<lambda>a. entry_lines (''iptables -A '' @ chain @ '' '' @ flag @ '' '' @ a)
                                   (lower (py_str (py_or (py_or (pget d ''IPProtocol'') (pget d ''protocol'')) (PStr ''all''))))
                                   (norm_ports d) action) addrs)
             | _ \<Rightarrow> []) entries)))"

definition direction_of :: "pyval dict \<Rightarrow> string" where
  "direction_of rule = upper (str_field rule ''direction'' ''INGRESS'')"

text \<open>The allowing and the denying commands of a rule.\<close>

definition rule_pair :: "pyval \<Rightarrow> (string list \<times> string list) result" where
  "rule_pair v =
     (case v of
        PDict rule \<Rightarrow>
          if truthy (pget rule ''disabled'') then Inr ([], [])
          else let go = (\<lambda>chain flag addrs.
                     rbind (spec_lines chain flag addrs rule ''allowed'' ''RETURN'') (\<lambda>al.
                       rbind (spec_lines chain flag addrs rule ''denied'' ''DROP'') (\<lambda>dn. Inr (al, dn))))
               in if direction_of rule = ''EGRESS'' then go EGRESS_CHAIN ''-d'' (addresses rule ''destinationRanges'')
                  else if direction_of rule = ''INGRESS'' then go GCP_CHAIN ''-s'' (addresses rule ''sourceRanges'')
                  else Inr ([], [])
      | _ \<Rightarrow> Inr ([], []))"

definition rule_lines :: "pyval list \<Rightarrow> (string list \<times> string list) result" where
  "rule_lines rules = rbind (rmap rule_pair rules) (\<lambda>ps. Inr (concat (map fst ps), concat (map snd ps)))"

definition gcp_preamble :: "string list" where
  "gcp_preamble =
     [''iptables -N '' @ GCP_CHAIN @ '' 2>/dev/null || true'', ''iptables -F '' @ GCP_CHAIN,
      ''iptables -C INPUT -j '' @ GCP_CHAIN @ '' 2>/dev/null || iptables -I INPUT -j '' @ GCP_CHAIN,
      ''iptables -A '' @ GCP_CHAIN @ '' -i lo -j RETURN'',
      ''iptables -A '' @ GCP_CHAIN @ '' -m state --state ESTABLISHED,RELATED -j RETURN'',
      ''iptables -N '' @ EGRESS_CHAIN @ '' 2>/dev/null || true'', ''iptables -F '' @ EGRESS_CHAIN,
      ''iptables -C OUTPUT -j '' @ EGRESS_CHAIN @ '' 2>/dev/null || iptables -I OUTPUT -j '' @ EGRESS_CHAIN,
      ''iptables -A '' @ EGRESS_CHAIN @ '' -o lo -j RETURN'',
      ''iptables -A '' @ EGRESS_CHAIN @ '' -m state --state ESTABLISHED,RELATED -j RETURN'']"

definition gcp_commands :: "pyval list \<Rightarrow> string list result" where
  "gcp_commands rules = rbind (rule_lines rules) (\<lambda>(al, dn). Inr (dict_fromkeys (al @ dn)))"

definition gcp_build_script :: "pyval list \<Rightarrow> string result" where
  "gcp_build_script rules = rbind (gcp_commands rules) (\<lambda>ls. Inr (join ''; '' (gcp_preamble @ ls)))"

definition gcp_clear_script :: string where
  "gcp_clear_script =
     ''iptables -D INPUT -j '' @ GCP_CHAIN @ '' 2>/dev/null || true; iptables -F '' @ GCP_CHAIN @ '' 2>/dev/null || true; ''
     @ ''iptables -D OUTPUT -j '' @ EGRESS_CHAIN @ '' 2>/dev/null || true; iptables -F '' @ EGRESS_CHAIN @ '' 2>/dev/null || true''"

definition gcp_rule_applies :: "pyval dict \<Rightarrow> string list \<Rightarrow> bool" where
  "gcp_rule_applies rule tags =
     (let targets = list_items (pget rule ''targetTags'')
      in targets = [] \<or> list_ex (\<lambda>t. py_str t \<in> set tags) targets)"

section \<open>Azure\<close>

definition NSG_CHAIN :: string where
  "NSG_CHAIN = ''CL_NSG''"

text \<open>\<open>r.get("properties") or {}\<close>; anything else than a dictionary raises.\<close>

definition nsg_props :: "pyval \<Rightarrow> pyval dict result" where
  "nsg_props v = rbind (as_dict v) (\<lambda>r. as_dict (py_or (pget r ''properties'') (PDict [])))"

definition nsg_priority :: "pyval dict \<Rightarrow> int result" where
  "nsg_priority props = py_int (dget props ''priority'' (PInt 65000))"

definition text_of :: "pyval dict \<Rightarrow> string \<Rightarrow> string \<Rightarrow> string" where
  "text_of props k dflt = py_str (dget props k (PStr dflt))"

definition some_filter :: "string \<Rightarrow> bool" where
  "some_filter s = (s \<notin> {''*'', [], ''any''})"

definition nsg_line :: "pyval dict \<Rightarrow> string" where
  "nsg_line props =
     (let direction = lower (text_of props ''direction'' []); protocol = lower (text_of props ''protocol'' ''*'');
          src = text_of props ''sourceAddressPrefix'' ''*''; dst = text_of props ''destinationAddressPrefix'' ''*'';
          port = text_of props ''destinationPortRange'' ''*''
      in ''iptables -A '' @ NSG_CHAIN
         @ (if protocol \<in> {''tcp'', ''udp'', ''icmp''} then '' -p '' @ protocol else [])
         @ (if some_filter src \<and> direction = ''inbound'' then '' -s '' @ src else [])
         @ (if some_filter dst \<and> direction = ''outbound'' then '' -d '' @ dst else [])
         @ (if some_filter port \<and> protocol \<in> {''tcp'', ''udp''} then '' --dport '' @ replace_char CHR ''-'' '':'' port else [])
         @ '' -j '' @ (if upper (text_of props ''access'' []) = ''ALLOW'' then ''ACCEPT'' else ''DROP''))"

definition nsg_preamble :: "string list" where
  "nsg_preamble =
     [''#!/bin/sh'', ''set -e'', ''iptables -N '' @ NSG_CHAIN @ '' 2>/dev/null || iptables -F '' @ NSG_CHAIN,
      ''iptables -C INPUT -j '' @ NSG_CHAIN @ '' 2>/dev/null || iptables -I INPUT 1 -j '' @ NSG_CHAIN,
      ''iptables -C OUTPUT -j '' @ NSG_CHAIN @ '' 2>/dev/null || iptables -I OUTPUT 1 -j '' @ NSG_CHAIN]"

definition nsg_keyed :: "pyval \<Rightarrow> (int \<times> pyval dict) result" where
  "nsg_keyed v = rbind (nsg_props v) (\<lambda>p. rbind (nsg_priority p) (\<lambda>i. Inr (i, p)))"

definition nsg_sorted :: "pyval list \<Rightarrow> (int \<times> pyval dict) list result" where
  "nsg_sorted rules = rbind (rmap nsg_keyed rules) (\<lambda>ks. Inr (stable_sort (\<lambda>a b. fst a < fst b) ks))"

definition nsg_build_script :: "pyval list \<Rightarrow> string result" where
  "nsg_build_script rules = rbind (nsg_sorted rules) (\<lambda>ks. Inr (join [CHR 0x0A] (nsg_preamble @ map (\<lambda>(i, p). nsg_line p) ks)))"

definition nsg_clear_script :: string where
  "nsg_clear_script =
     ''#!/bin/sh'' @ [CHR 0x0A] @ ''iptables -D INPUT -j '' @ NSG_CHAIN @ '' 2>/dev/null || true'' @ [CHR 0x0A]
     @ ''iptables -D OUTPUT -j '' @ NSG_CHAIN @ '' 2>/dev/null || true'' @ [CHR 0x0A]
     @ ''iptables -F '' @ NSG_CHAIN @ '' 2>/dev/null || true'' @ [CHR 0x0A]
     @ ''iptables -X '' @ NSG_CHAIN @ '' 2>/dev/null || true'' @ [CHR 0x0A]"

definition nsg_rule_applies :: "pyval dict \<Rightarrow> bool result" where
  "nsg_rule_applies rule =
     rbind (as_dict (py_or (pget rule ''properties'') (PDict []))) (\<lambda>p. Inr (lower (text_of p ''provisioningState'' []) = ''succeeded''))"

section \<open>Which command decides\<close>

text \<open>The first command of a chain whose conditions a packet meets decides; \<open>hits\<close> says of a command whether the packet meets
  its conditions.  The last letter of a command tells a \<open>RETURN\<close> from a \<open>DROP\<close>.\<close>

definition verdict :: "(string \<Rightarrow> bool) \<Rightarrow> string list \<Rightarrow> char option" where
  "verdict hits ls = map_option last (find hits ls)"

lemma entry_lines_last: "l \<in> set (entry_lines base proto ports action) \<Longrightarrow> action \<noteq> [] \<Longrightarrow> last l = last action"
  by (auto simp: entry_lines_def split: if_splits)

lemma spec_lines_last:
  "spec_lines chain flag addrs rule spec action = Inr ls \<Longrightarrow> action \<noteq> [] \<Longrightarrow> l \<in> set ls \<Longrightarrow> last l = last action"
  by (auto simp: spec_lines_def rbind_Inr entry_lines_last split: pyval.splits)

lemma rule_pair_last:
  assumes "rule_pair v = Inr (al, dn)"
  shows "(\<forall>l\<in>set al. last l = CHR ''N'') \<and> (\<forall>l\<in>set dn. last l = CHR ''P'')"
  using assms
  by (auto simp: rule_pair_def rbind_Inr Let_def dest!: spec_lines_last split: pyval.splits if_splits)

lemma rule_lines_pairs:
  assumes "rule_lines rules = Inr (al, dn)"
  obtains ps where "\<And>p. p \<in> set ps \<longleftrightarrow> Inr p \<in> rule_pair ` set rules" and "al = concat (map fst ps)" and "dn = concat (map snd ps)"
proof -
  obtain ps where ps: "list_all2 (\<lambda>v p. rule_pair v = Inr p) rules ps" "al = concat (map fst ps)" "dn = concat (map snd ps)"
    using assms by (auto simp: rule_lines_def rbind_Inr rmap_Inr)
  have "Inr p \<in> rule_pair ` set rules \<longleftrightarrow> p \<in> set ps" for p
    using ps(1) by (induction rules ps rule: list_all2_induct) auto
  then show thesis using that ps(2,3) by metis
qed

lemma rule_lines_mem:
  assumes "rule_lines rules = Inr (al, dn)"
  shows "l \<in> set al \<longleftrightarrow> (\<exists>x y. Inr (x, y) \<in> rule_pair ` set rules \<and> l \<in> set x)"
    "l \<in> set dn \<longleftrightarrow> (\<exists>x y. Inr (x, y) \<in> rule_pair ` set rules \<and> l \<in> set y)"
proof -
  obtain ps where ps: "\<And>p. p \<in> set ps \<longleftrightarrow> Inr p \<in> rule_pair ` set rules" "al = concat (map fst ps)" "dn = concat (map snd ps)"
    by (rule rule_lines_pairs [OF assms]) blast
  show "l \<in> set al \<longleftrightarrow> (\<exists>x y. Inr (x, y) \<in> rule_pair ` set rules \<and> l \<in> set x)"
    unfolding ps(2) by (simp add: ps(1) [symmetric] Bex_def)
  show "l \<in> set dn \<longleftrightarrow> (\<exists>x y. Inr (x, y) \<in> rule_pair ` set rules \<and> l \<in> set y)"
    unfolding ps(3) by (simp add: ps(1) [symmetric] Bex_def)
qed

lemma rule_lines_last:
  assumes "rule_lines rules = Inr (al, dn)"
  shows "l \<in> set al \<Longrightarrow> last l = CHR ''N''" "l \<in> set dn \<Longrightarrow> last l = CHR ''P''"
  unfolding rule_lines_mem [OF assms] using rule_pair_last by (metis (no_types, lifting) imageE)+

lemma find_fromkeys_acc: "(\<And>x. x \<in> set seen \<Longrightarrow> \<not> P x) \<Longrightarrow> find P (fromkeys_acc seen xs) = find P xs"
  by (induction seen xs rule: fromkeys_acc.induct) (auto simp del: not_None_eq)

lemma find_dict_fromkeys: "find P (dict_fromkeys xs) = find P xs"
  unfolding dict_fromkeys_def by (rule find_fromkeys_acc) simp

lemma find_in_append: "find P (xs @ ys) = (case find P xs of Some x \<Rightarrow> Some x | None \<Rightarrow> find P ys)"
  by (induction xs) auto

lemma find_last:
  assumes "\<And>l. l \<in> set xs \<Longrightarrow> last l = c"
  shows "map_option last (find P xs) = (if \<exists>l\<in>set xs. P l then Some c else None)"
proof (cases "find P xs")
  case (Some l)
  then have "l \<in> set xs" "P l" by (auto simp: find_Some_iff)
  then show ?thesis using Some assms by auto
qed (auto simp: find_None_iff)

lemma gcp_verdict:
  assumes "rule_lines rules = Inr (al, dn)" and "gcp_commands rules = Inr ls"
  shows "verdict hits ls = (if \<exists>l\<in>set al. hits l then Some CHR ''N'' else if \<exists>l\<in>set dn. hits l then Some CHR ''P'' else None)"
proof -
  have ls: "ls = dict_fromkeys (al @ dn)" using assms by (simp add: gcp_commands_def)
  have a: "map_option last (find hits al) = (if \<exists>l\<in>set al. hits l then Some CHR ''N'' else None)"
    by (rule find_last) (rule rule_lines_last(1) [OF assms(1)])
  have d: "map_option last (find hits dn) = (if \<exists>l\<in>set dn. hits l then Some CHR ''P'' else None)"
    by (rule find_last) (rule rule_lines_last(2) [OF assms(1)])
  have "verdict hits ls = (case map_option last (find hits al) of Some c \<Rightarrow> Some c | None \<Rightarrow> map_option last (find hits dn))"
    by (simp add: verdict_def ls find_dict_fromkeys find_in_append split: option.split)
  then show ?thesis unfolding a d by simp
qed

lemma rule_pair_priority: "rule_pair (PDict (dset ''priority'' v rule)) = rule_pair (PDict rule)"
  by (simp add: rule_pair_def spec_lines_def addresses_def direction_of_def str_field_def pget_def dget_dset)

text \<open>C29. A packet is let through as soon as one allowing command of any rule fits it, and dropped only when none does and a denying one
  fits.  So what the script does with a packet depends on the set of the rules alone: neither their order nor the priority that
  a rule states, by which the cloud decides, makes a difference.\<close>

theorem gcp_firewall_verdict:
  assumes "rule_lines rules = Inr (al, dn)" and "gcp_commands rules = Inr ls"
  shows "verdict hits ls = (if \<exists>l\<in>set al. hits l then Some CHR ''N'' else if \<exists>l\<in>set dn. hits l then Some CHR ''P'' else None)
    \<and> (\<forall>rules' ls'. gcp_commands rules' = Inr ls' \<longrightarrow> rule_pair ` set rules' = rule_pair ` set rules \<longrightarrow> verdict hits ls' = verdict hits ls)
    \<and> (\<forall>rule v. rule_pair (PDict (dset ''priority'' v rule)) = rule_pair (PDict rule))"
proof (intro conjI allI impI)
  fix rules' ls' assume c: "gcp_commands rules' = Inr ls'" and same: "rule_pair ` set rules' = rule_pair ` set rules"
  obtain al' dn' where r: "rule_lines rules' = Inr (al', dn')" using c by (auto simp: gcp_commands_def rbind_Inr)
  have "l \<in> set al' \<longleftrightarrow> l \<in> set al" "l \<in> set dn' \<longleftrightarrow> l \<in> set dn" for l
    unfolding rule_lines_mem [OF r] rule_lines_mem [OF assms(1)] same by (rule refl)+
  then show "verdict hits ls' = verdict hits ls" by (simp add: gcp_verdict [OF r c] gcp_verdict [OF assms] Bex_def)
qed (auto simp: gcp_verdict [OF assms] rule_pair_priority)

definition ssh_rule :: "pyval \<Rightarrow> string \<Rightarrow> pyval dict" where
  "ssh_rule priority spec =
     [(''priority'', priority), (spec, PList [PDict [(''IPProtocol'', PStr ''tcp''), (''ports'', PList [PStr ''22''])]])]"

lemma ssh_rule_pair:
  "rule_pair (PDict (ssh_rule p ''allowed'')) = Inr ([''iptables -A CL_FW -s 0.0.0.0/0 -p tcp --dport 22 -j RETURN''], [])"
  "rule_pair (PDict (ssh_rule p ''denied'')) = Inr ([], [''iptables -A CL_FW -s 0.0.0.0/0 -p tcp --dport 22 -j DROP''])"
proof -
  have c: "upper ''INGRESS'' = ''INGRESS''" "lower ''tcp'' = ''tcp''" "strip ''22'' = ''22''" "replace_char CHR ''-'' '':'' ''22'' = ''22''"
    by code_simp+
  show "rule_pair (PDict (ssh_rule p ''allowed'')) = Inr ([''iptables -A CL_FW -s 0.0.0.0/0 -p tcp --dport 22 -j RETURN''], [])"
    "rule_pair (PDict (ssh_rule p ''denied'')) = Inr ([], [''iptables -A CL_FW -s 0.0.0.0/0 -p tcp --dport 22 -j DROP''])"
    by (simp_all add: rule_pair_def ssh_rule_def direction_of_def str_field_def pget_def dget_def py_or_def addresses_def is_list_def
        list_items_def spec_lines_def py_iter_def norm_ports_def entry_lines_def GCP_CHAIN_def c)
qed

text \<open>A rule that denies with priority 1 loses against one that allows with priority 1000.\<close>

theorem gcp_firewall_verdict_witness:
  "verdict (\<lambda>l. True) [''iptables -A CL_FW -s 0.0.0.0/0 -p tcp --dport 22 -j RETURN'',
      ''iptables -A CL_FW -s 0.0.0.0/0 -p tcp --dport 22 -j DROP''] = Some CHR ''N''"
proof -
  let ?rules = "[PDict (ssh_rule (PInt 1) ''denied''), PDict (ssh_rule (PInt 1000) ''allowed'')]"
  have r: "rule_lines ?rules = Inr ([''iptables -A CL_FW -s 0.0.0.0/0 -p tcp --dport 22 -j RETURN''],
      [''iptables -A CL_FW -s 0.0.0.0/0 -p tcp --dport 22 -j DROP''])" by (simp add: rule_lines_def ssh_rule_pair)
  have "gcp_commands ?rules = Inr [''iptables -A CL_FW -s 0.0.0.0/0 -p tcp --dport 22 -j RETURN'',
      ''iptables -A CL_FW -s 0.0.0.0/0 -p tcp --dport 22 -j DROP'']" by (simp add: gcp_commands_def r dict_fromkeys_def)
  from gcp_firewall_verdict [OF r this, of "\<lambda>_. True"] show ?thesis by simp
qed

text \<open>The address of a rule goes into the script as it was sent: whatever text a client gives as a source range stands in the
  command line that a shell then runs as root inside the container, so a semicolon in it starts a command of the client's own.\<close>

theorem gcp_script_takes_any_text:
  "gcp_build_script [PDict [(''sourceRanges'', PList [PStr u]), (''allowed'', PList [PDict [(''IPProtocol'', PStr ''tcp'')]])]]
    = Inr (join ''; '' (gcp_preamble @ [''iptables -A CL_FW -s '' @ u @ '' -p tcp -j RETURN'']))"
proof -
  have c: "upper ''INGRESS'' = ''INGRESS''" "lower ''tcp'' = ''tcp''" by code_simp+
  show ?thesis
    by (simp add: gcp_build_script_def gcp_commands_def rule_lines_def rule_pair_def direction_of_def str_field_def pget_def dget_def py_or_def
        addresses_def is_list_def list_items_def spec_lines_def py_iter_def norm_ports_def entry_lines_def GCP_CHAIN_def dict_fromkeys_def c)
qed

text \<open>The commands of a security group stand in one chain that inbound and outbound packets both pass; a rule without addresses gives
  the same command for either direction, so one that denies outbound traffic stops inbound traffic too.\<close>

lemma nsg_direction_ignored:
  assumes "\<not> some_filter (text_of props ''sourceAddressPrefix'' ''*'')" and "\<not> some_filter (text_of props ''destinationAddressPrefix'' ''*'')"
  shows "nsg_line (dset ''direction'' v props) = nsg_line (dset ''direction'' w props)"
proof -
  have "text_of (dset ''direction'' v props) k d = text_of props k d" if "k \<noteq> ''direction''" for v k d
    using that by (simp add: text_of_def dget_dset)
  then show ?thesis using assms by (simp add: nsg_line_def)
qed

lemma nsg_deny_all: "nsg_line [(''direction'', PStr ''Outbound''), (''access'', PStr ''Deny''), (''protocol'', PStr ''*'')] = ''iptables -A CL_NSG -j DROP''"
proof -
  have c: "lower ''Outbound'' = ''outbound''" "lower ''*'' = ''*''" "upper ''Deny'' = ''DENY''" by code_simp+
  show ?thesis by (simp add: nsg_line_def text_of_def dget_def some_filter_def NSG_CHAIN_def c)
qed

text \<open>The commands of a security group come in the order of the priorities.\<close>

lemma sorted_priority_insert:
  fixes ks :: "(int \<times> 'a) list"
  assumes "sorted_wrt (\<lambda>a b. fst a \<le> fst b) ks"
  shows "sorted_wrt (\<lambda>a b. fst a \<le> fst b) (insert_by (\<lambda>a b. fst a < fst b) x ks)"
  using assms by (induction ks) auto

lemma nsg_sorted_by_priority:
  assumes "nsg_sorted rules = Inr ks"
  shows "sorted_wrt (\<lambda>a b. fst a \<le> fst b) ks \<and> set ks = {k. \<exists>v\<in>set rules. nsg_keyed v = Inr k}"
proof -
  obtain xs where x: "list_all2 (\<lambda>v k. nsg_keyed v = Inr k) rules xs" "ks = stable_sort (\<lambda>a b. fst a < fst b) xs"
    using assms by (auto simp: nsg_sorted_def rbind_Inr rmap_Inr)
  have "k \<in> set xs \<longleftrightarrow> (\<exists>v\<in>set rules. nsg_keyed v = Inr k)" for k
    using x(1) by (induction rules xs rule: list_all2_induct) auto
  moreover have "sorted_wrt (\<lambda>a b. fst a \<le> fst b) (stable_sort (\<lambda>a b. fst a < fst b) xs)"
    unfolding stable_sort_def by (induct xs) (auto intro: sorted_priority_insert)
  ultimately show ?thesis using x(2) by auto
qed

end
