(* ===== verification/Tenant_Config.thy ===== *)
theory Tenant_Config
imports Py_Json Complex_Main
begin

text \<open>
  What a tenant configures for itself: its domain and the look of its console (\<open>core/tenant_theming.py\<close>), the channels its
  notifications go to (\<open>core/notifications.py\<close>) and the pipelines of its builds (\<open>core/ci_integration.py\<close>).  The
  clock, random identifiers and the answer to an HTTP request are arguments; the threads of a notification run one after another.
\<close>

section \<open>Domains\<close>

definition is_letter :: "char \<Rightarrow> bool" where
  "is_letter c = (let n = (of_char (char_lower c) :: nat) in 97 \<le> n \<and> n \<le> 122)"

definition domain_char :: "char \<Rightarrow> bool" where
  "domain_char c = (is_letter c \<or> is_digit c)"

definition label_ok :: "string \<Rightarrow> bool" where
  "label_ok l = (l \<noteq> [] \<and> length l \<le> 63 \<and> domain_char (hd l) \<and> domain_char (last l)
     \<and> list_all (\<lambda>c. domain_char c \<or> c = CHR ''-'') l)"

definition top_level_ok :: "string \<Rightarrow> bool" where
  "top_level_ok l = (2 \<le> length l \<and> length l \<le> 63 \<and> list_all is_letter l)"

text \<open>The regular expression of a domain: labels that each end in a dot, then letters.\<close>

definition domain_ok :: "string \<Rightarrow> bool" where
  "domain_ok d =
     (4 \<le> length d \<and> length d \<le> 253
      \<and> (let ls = split_char CHR ''.'' d in 2 \<le> length ls \<and> list_all label_ok (butlast ls) \<and> top_level_ok (last ls)))"

text \<open>The tenant of each domain.\<close>

type_synonym domains = "string dict"

definition set_custom_domain :: "string \<Rightarrow> string \<Rightarrow> string \<Rightarrow> domains \<Rightarrow> (pyval dict \<times> domains) result" where
  "set_custom_domain now tenant domain0 dm =
     (let domain = lower (strip domain0)
      in if \<not> domain_ok domain then Inl (ValueError (''invalid domain: '' @ repr_str domain))
         else Inr ([(''domain'', PStr domain), (''tenant_id'', PStr tenant), (''set_at'', PStr now)],
                   dset domain tenant (filter (\<lambda>(d, owner). \<not> (owner = tenant \<and> d \<noteq> domain)) dm)))"

definition get_custom_domain :: "string \<Rightarrow> domains \<Rightarrow> string option" where
  "get_custom_domain tenant dm = map_option fst (find (\<lambda>(d, owner). owner = tenant) dm)"

definition delete_custom_domain :: "string \<Rightarrow> domains \<Rightarrow> bool \<times> domains" where
  "delete_custom_domain tenant dm =
     (list_ex (\<lambda>(d, owner). owner = tenant) dm, filter (\<lambda>(d, owner). owner \<noteq> tenant) dm)"

definition resolve_domain_to_tenant :: "string \<Rightarrow> domains \<Rightarrow> string option" where
  "resolve_domain_to_tenant host dm = (if host = [] then None else map_of dm (lower (strip (before_first '':'' host))))"

section \<open>Branding\<close>

definition default_branding :: "pyval dict" where
  "default_branding =
     [(''name_override'', PStr []), (''logo_url'', PStr []), (''favicon_url'', PStr []), (''primary_color'', PStr ''#2563eb''),
      (''accent_color'', PStr ''#0a7d36''), (''header_bg'', PStr ''#0f1b2d''), (''header_fg'', PStr ''#ffffff'')]"

definition hex_char :: "char \<Rightarrow> bool" where
  "hex_char c = (is_digit c \<or> (let n = (of_char (char_lower c) :: nat) in 97 \<le> n \<and> n \<le> 102))"

definition color_ok :: "string \<Rightarrow> bool" where
  "color_ok s = (case s of [] \<Rightarrow> False | c # r \<Rightarrow> c = CHR ''#'' \<and> length r = 6 \<and> list_all hex_char r)"

definition url_ok :: "string \<Rightarrow> bool" where
  "url_ok s = (startswith_any s [''http://'', ''https://'', ''/''] \<and> length s \<le> 2048)"

type_synonym brandings = "pyval dict dict"

text \<open>\<open>{**a, **b}\<close>.\<close>

definition merged :: "pyval dict \<Rightarrow> pyval dict \<Rightarrow> pyval dict" where
  "merged a b = fold (\<lambda>(k, v). dset k v) b a"

definition get_branding :: "string \<Rightarrow> brandings \<Rightarrow> pyval dict" where
  "get_branding tenant bm = merged default_branding (dget bm tenant [])"

text \<open>One field of the request: checked when it is not empty, then stored.\<close>

definition brand_field :: "(string \<Rightarrow> bool) \<Rightarrow> string \<Rightarrow> pyval dict \<Rightarrow> string \<Rightarrow> pyval dict \<Rightarrow> pyval dict result" where
  "brand_field ok complaint spec k upd =
     (if \<not> dhas spec k then Inr upd
      else let v = strip (py_str (py_or (pget spec k) (PStr [])))
           in if v \<noteq> [] \<and> \<not> ok v then Inl (ValueError (k @ complaint)) else Inr (dset k (PStr v) upd))"

fun brand_fields :: "(string \<times> (string \<Rightarrow> bool) \<times> string) list \<Rightarrow> pyval dict \<Rightarrow> pyval dict \<Rightarrow> pyval dict result" where
  "brand_fields [] spec upd = Inr upd"
| "brand_fields ((k, ok, complaint) # fs) spec upd = rbind (brand_field ok complaint spec k upd) (brand_fields fs spec)"

definition url_complaint :: string where
  "url_complaint = '' must be http(s):// or /-prefixed path''"

definition color_complaint :: string where
  "color_complaint = '' must be #RRGGBB hex''"

definition branding_fields :: "(string \<times> (string \<Rightarrow> bool) \<times> string) list" where
  "branding_fields =
     [(''name_override'', \<lambda>_. True, []), (''logo_url'', url_ok, url_complaint), (''favicon_url'', url_ok, url_complaint),
      (''primary_color'', color_ok, color_complaint), (''accent_color'', color_ok, color_complaint),
      (''header_bg'', color_ok, color_complaint), (''header_fg'', color_ok, color_complaint)]"

definition set_branding :: "string \<Rightarrow> string \<Rightarrow> pyval dict \<Rightarrow> brandings \<Rightarrow> (pyval dict \<times> brandings) result" where
  "set_branding now tenant spec bm =
     rbind (brand_fields branding_fields spec (dget bm tenant [])) (\<lambda>upd.
       let bm1 = dset tenant (dset ''updated_at'' (PStr now) upd) bm in Inr (get_branding tenant bm1, bm1))"

definition css_line :: "string \<Rightarrow> string \<Rightarrow> string" where
  "css_line name v = name @ v @ '';'' @ [CHR 0x0A]"

definition css_head :: "string \<Rightarrow> pyval dict \<Rightarrow> string" where
  "css_head tenant b =
     (let v = (\<lambda>k. py_str (pget b k)); name = replace_char CHR 0x22 [CHR 0x27] (str_field b ''name_override'' ''CloudLearn'')
      in ''/* CloudLearn branding '' @ [CHR 0xE2, CHR 0x80, CHR 0x94] @ '' tenant: '' @ tenant @ '' */'' @ [CHR 0x0A]
         @ '':root {'' @ [CHR 0x0A]
         @ css_line ''  --cl-primary: '' (v ''primary_color'') @ css_line ''  --cl-accent:  '' (v ''accent_color'')
         @ css_line ''  --cl-hdr-bg:  '' (v ''header_bg'') @ css_line ''  --cl-hdr-fg:  '' (v ''header_fg'')
         @ css_line ''  --cl-name:    '' (CHR 0x22 # name @ [CHR 0x22]) @ ''}'' @ [CHR 0x0A]
         @ ''.cl-branded-name::after { content: var(--cl-name); }'' @ [CHR 0x0A])"

definition css_logo :: "pyval dict \<Rightarrow> string" where
  "css_logo b =
     (if truthy (pget b ''logo_url'')
      then ''background-image: '' @ ''url('' @ [CHR 0x22] @ py_str (pget b ''logo_url'') @ [CHR 0x22] @ '');'' else ''display: none;'')"

definition branding_css :: "string \<Rightarrow> brandings \<Rightarrow> string" where
  "branding_css tenant bm =
     css_head tenant (get_branding tenant bm) @ ''.cl-branded-logo { '' @ css_logo (get_branding tenant bm) @ '' }'' @ [CHR 0x0A]
     @ ''.cl-header { background: var(--cl-hdr-bg); color: var(--cl-hdr-fg); }'' @ [CHR 0x0A]
     @ ''.cl-primary-btn,'' @ [CHR 0x0A] @ ''button.cta.primary { background: var(--cl-primary); }'' @ [CHR 0x0A]
     @ ''.cl-accent { color: var(--cl-accent); }'' @ [CHR 0x0A]"

section \<open>Notification channels\<close>

text \<open>The records each tenant keeps in a list: its channels, or its pipelines.\<close>

type_synonym tenant_lists = "pyval dict list dict"

definition KNOWN_EVENTS :: "string list" where
  "KNOWN_EVENTS = [''license.expiring_soon'', ''license.expired'', ''tier.limit_denied'', ''tier.upgrade_recommended'',
     ''space.created'', ''space.deleted'', ''audit.spike'']"

definition entries_of :: "tenant_lists \<Rightarrow> string \<Rightarrow> pyval dict list" where
  "entries_of s tenant = dget s tenant []"

definition masked :: "pyval dict \<Rightarrow> pyval dict" where
  "masked c = (if dhas c ''secret'' then dset ''secret'' (PStr ''***'') c else c)"

definition list_channels :: "tenant_lists \<Rightarrow> string \<Rightarrow> pyval dict list" where
  "list_channels s tenant = map masked (entries_of s tenant)"

definition event_list :: "pyval \<Rightarrow> pyval" where
  "event_list v = (let ev = py_or v (PList [PStr ''*'']) in if is_list ev then ev else PList [PStr (py_str ev)])"

definition new_channel :: "string \<Rightarrow> string \<Rightarrow> string \<Rightarrow> string \<Rightarrow> pyval dict \<Rightarrow> pyval dict" where
  "new_channel hex now kind url spec =
     [(''id'', PStr (''nch-'' @ take 10 hex)), (''kind'', PStr kind), (''name'', PStr (str_field spec ''name'' kind)), (''url'', PStr url),
      (''events'', event_list (pget spec ''events'')), (''secret'', PStr (str_field spec ''secret'' [])), (''created_at'', PStr now),
      (''sent_count'', PInt 0), (''last_sent_at'', PNone), (''last_error'', PNone)]"

definition register_channel :: "string \<Rightarrow> string \<Rightarrow> string \<Rightarrow> pyval dict \<Rightarrow> tenant_lists \<Rightarrow> (pyval dict \<times> tenant_lists) result" where
  "register_channel hex now tenant spec s =
     (let kind = lower (strip (str_field spec ''kind'' ''webhook'')); url = strip (str_field spec ''url'' [])
      in if kind \<notin> {''webhook'', ''slack'', ''email''} then Inl (ValueError (''unknown notification kind: '' @ kind))
         else if kind \<in> {''webhook'', ''slack''} \<and> \<not> startswith_any url [''http://'', ''https://'']
         then Inl (ValueError (kind @ '' channel requires url=http(s)://...''))
         else if kind = ''email'' \<and> \<not> startswith url ''mailto:'' then Inl (ValueError ''email channel requires url=mailto:user@host'')
         else let c = new_channel hex now kind url spec in Inr (c, dset tenant (entries_of s tenant @ [c]) s))"

definition delete_entry :: "string \<Rightarrow> string \<Rightarrow> tenant_lists \<Rightarrow> bool \<times> tenant_lists" where
  "delete_entry tenant i s =
     (let kept = filter (\<lambda>c. pget c ''id'' \<noteq> PStr i) (entries_of s tenant)
      in (length kept < length (entries_of s tenant), dset tenant kept s))"

text \<open>The handler's own check: a tier with webhooks only refuses every other kind.\<close>

definition api_notif_register ::
  "pyval \<Rightarrow> string \<Rightarrow> string \<Rightarrow> string \<Rightarrow> string \<Rightarrow> pyval dict \<Rightarrow> tenant_lists \<Rightarrow> (pyval dict \<times> tenant_lists) result" where
  "api_notif_register level tier hex now tenant body s =
     (if level = PStr ''webhook'' \<and> str_field body ''kind'' ''webhook'' \<noteq> ''webhook'' then
        Inl (HTTPException 403 (PDict [(''ok'', PBool False), (''code'', PStr ''tier_feature_level''),
          (''reason'', PStr ''Developer tier supports webhook channels only; upgrade for Slack/email.''),
          (''active_tier'', PStr tier), (''upgrade_to'', PStr ''enterprise'')]))
      else case register_channel hex now tenant body s of
             Inl (ValueError e) \<Rightarrow> Inl (HTTPException 400 (PStr e))
           | r \<Rightarrow> r)"

definition slack_fields :: "pyval dict \<Rightarrow> pyval list" where
  "slack_fields body =
     concat (map (\<lambda>k. if truthy (pget body k)
               then [PDict [(''type'', PStr ''mrkdwn''), (''text'', PStr (''*'' @ k @ ''*: '' @ [CHR 0x60] @ py_str (pget body k) @ [CHR 0x60]))]]
               else []) [''active_tier'', ''code'', ''feature'', ''upgrade_to''])"

definition shape_for_slack :: "string \<Rightarrow> pyval dict \<Rightarrow> pyval" where
  "shape_for_slack event body =
     (let summary = py_or (py_or (pget body ''summary'') (pget body ''reason'')) (PStr []); fields = slack_fields body
      in PDict [(''text'', PStr (take 1500 (''[CloudLearn] '' @ event @ '': '' @ py_str summary))),
           (''blocks'', PList ([PDict [(''type'', PStr ''header''), (''text'', PDict [(''type'', PStr ''plain_text''), (''text'', PStr event)])]]
             @ (if truthy summary then [PDict [(''type'', PStr ''section''), (''text'', PDict [(''type'', PStr ''mrkdwn''), (''text'', summary)])]] else [])
             @ (if fields \<noteq> [] then [PDict [(''type'', PStr ''section''), (''fields'', PList (take 10 fields))]] else [])))])"

text \<open>What is sent: address, body and headers.  \<open>http\<close> answers with a status, or with the text of the error.\<close>

type_synonym http_out = "string \<times> string \<times> string dict \<Rightarrow> string + int"

definition secret_header :: "string \<Rightarrow> pyval dict \<Rightarrow> string dict" where
  "secret_header name c = (if truthy (pget c ''secret'') then [(name, py_str (pget c ''secret''))] else [])"

definition http_outcome :: "string + int \<Rightarrow> bool \<times> string" where
  "http_outcome r = (case r of Inl e \<Rightarrow> (False, e) | Inr status \<Rightarrow> (200 \<le> status \<and> status < 300, ''HTTP '' @ int_str status))"

definition webhook_body :: "string \<Rightarrow> string \<Rightarrow> pyval dict \<Rightarrow> pyval dict \<Rightarrow> pyval" where
  "webhook_body now event body c =
     PDict [(''event'', PStr event), (''body'', PDict body), (''sent_at'', PStr now), (''channel_id'', pget c ''id'')]"

definition post_channel :: "http_out \<Rightarrow> string \<Rightarrow> string \<Rightarrow> pyval dict \<Rightarrow> pyval dict \<Rightarrow> bool \<times> string" where
  "post_channel http now event body c =
     (let kind = py_str (pget c ''kind'')
      in if kind \<noteq> ''slack'' \<and> kind \<noteq> ''webhook'' then (True, ''email-channel-noop'')
         else http_outcome (http (py_str (pget c ''url''),
                dumps (if kind = ''slack'' then shape_for_slack event body else webhook_body now event body c),
                [(''Content-Type'', ''application/json''), (''User-Agent'', ''CloudLearn-Notifier/1.0'')]
                @ secret_header ''X-CloudLearn-Notif-Secret'' c)))"

text \<open>What a delivery leaves on its record: the time, the error, and the count when it succeeded.\<close>

definition delivered :: "string \<Rightarrow> string \<Rightarrow> string \<Rightarrow> bool \<times> string \<Rightarrow> pyval dict \<Rightarrow> pyval dict" where
  "delivered at_field count_field now r c =
     (let c1 = dset ''last_error'' (if fst r then PNone else PStr (snd r)) (dset at_field (PStr now) c)
      in if fst r then (case int_field c count_field 0 of Inr n \<Rightarrow> dset count_field (PInt (n + 1)) c1 | Inl _ \<Rightarrow> c1) else c1)"

definition subscribed :: "string \<Rightarrow> pyval dict \<Rightarrow> bool" where
  "subscribed event c =
     (let ev = list_items (py_or (pget c ''events'') (PList [PStr ''*''])) in PStr ''*'' \<in> set ev \<or> PStr event \<in> set ev)"

definition emit_event :: "http_out \<Rightarrow> string \<Rightarrow> string \<Rightarrow> string \<Rightarrow> pyval dict \<Rightarrow> tenant_lists \<Rightarrow> nat \<times> tenant_lists" where
  "emit_event http now tenant event body s =
     (length (filter (subscribed event) (entries_of s tenant)),
      dset tenant (map (\<lambda>c. if subscribed event c then delivered ''last_sent_at'' ''sent_count'' now (post_channel http now event body c) c else c)
        (entries_of s tenant)) s)"

text \<open>The first record with the id, changed in place, with what the change answers.\<close>

fun update_first :: "('a \<Rightarrow> bool) \<Rightarrow> ('a \<Rightarrow> 'b \<times> 'a) \<Rightarrow> 'a list \<Rightarrow> ('b \<times> 'a list) option" where
  "update_first P f [] = None"
| "update_first P f (x # xs) =
     (if P x then Some (fst (f x), snd (f x) # xs) else map_option (\<lambda>(r, ys). (r, x # ys)) (update_first P f xs))"

definition send_test :: "http_out \<Rightarrow> string \<Rightarrow> string \<Rightarrow> string \<Rightarrow> tenant_lists \<Rightarrow> pyval dict \<times> tenant_lists" where
  "send_test http now tenant i s =
     (case update_first (\<lambda>c. pget c ''id'' = PStr i)
             (\<lambda>c. let r = post_channel http now ''test.notification''
                            [(''summary'', PStr ''CloudLearn notification test''), (''channel_kind'', pget c ''kind''), (''tenant_id'', PStr tenant)] c
                  in (r, delivered ''last_sent_at'' ''sent_count'' now r c)) (entries_of s tenant) of
        None \<Rightarrow> ([(''ok'', PBool False), (''result'', PStr ''channel-not-found'')], s)
      | Some (r, cs) \<Rightarrow> ([(''ok'', PBool (fst r)), (''result'', PStr (snd r)), (''channel_id'', PStr i)], dset tenant cs s))"

section \<open>Pipelines\<close>

definition list_pipelines :: "tenant_lists \<Rightarrow> string \<Rightarrow> pyval dict list" where
  "list_pipelines s tenant = map masked (entries_of s tenant)"

definition register_pipeline :: "string \<Rightarrow> string \<Rightarrow> string \<Rightarrow> string \<Rightarrow> pyval dict \<Rightarrow> tenant_lists \<Rightarrow> (pyval dict \<times> tenant_lists) result" where
  "register_pipeline hex token now tenant spec s =
     (let name = strip (str_field spec ''name'' []); url = strip (str_field spec ''trigger_url'' [])
      in if name = [] then Inl (ValueError (''pipeline requires '' @ [CHR 0x60] @ ''name'' @ [CHR 0x60]))
         else if \<not> startswith_any url [''http://'', ''https://'']
         then Inl (ValueError (''pipeline '' @ [CHR 0x60] @ ''trigger_url'' @ [CHR 0x60] @ '' must be http(s)://...''))
         else let p = [(''id'', PStr (''pipe-'' @ take 10 hex)), (''name'', PStr name),
                       (''kind'', PStr (lower (strip (str_field spec ''kind'' ''github'')))), (''trigger_url'', PStr url),
                       (''secret'', PStr (str_field spec ''secret'' [])), (''inbound_token'', PStr token),
                       (''events_subscribed'', py_or (pget spec ''events_subscribed'') (PList [PStr ''deploy.complete'', PStr ''tier.upgraded''])),
                       (''created_at'', PStr now), (''last_triggered_at'', PNone), (''last_inbound_at'', PNone),
                       (''trigger_count'', PInt 0), (''inbound_count'', PInt 0), (''last_error'', PNone)]
              in Inr (p, dset tenant (entries_of s tenant @ [p]) s))"

definition trigger_body :: "string \<Rightarrow> string \<Rightarrow> string \<Rightarrow> pyval \<Rightarrow> pyval" where
  "trigger_body now tenant i payload =
     PDict [(''event_type'', PStr ''cloudlearn.trigger''), (''client_payload'', py_or payload (PDict [])), (''tenant_id'', PStr tenant),
            (''pipeline_id'', PStr i), (''sent_at'', PStr now)]"

definition trigger_pipeline :: "http_out \<Rightarrow> string \<Rightarrow> string \<Rightarrow> string \<Rightarrow> pyval \<Rightarrow> tenant_lists \<Rightarrow> pyval dict \<times> tenant_lists" where
  "trigger_pipeline http now tenant i payload s =
     (case update_first (\<lambda>p. pget p ''id'' = PStr i)
             (\<lambda>p. let r = http_outcome (http (py_str (pget p ''trigger_url''), dumps (trigger_body now tenant i payload),
                            [(''Content-Type'', ''application/json''), (''User-Agent'', ''CloudLearn-CI/1.0'')] @ secret_header ''X-CloudLearn-CI-Secret'' p))
                  in (r, delivered ''last_triggered_at'' ''trigger_count'' now r p)) (entries_of s tenant) of
        None \<Rightarrow> ([(''ok'', PBool False), (''result'', PStr ''pipeline-not-found'')], s)
      | Some (r, ps) \<Rightarrow> ([(''ok'', PBool (fst r)), (''result'', PStr (snd r)), (''pipeline_id'', PStr i)], dset tenant ps s))"

text \<open>A call from outside: the first pipeline of any tenant with the token counts it and keeps the last twenty.\<close>

definition inbound :: "string \<Rightarrow> pyval \<Rightarrow> pyval dict \<Rightarrow> pyval dict" where
  "inbound now payload p =
     (let p1 = dset ''last_inbound_at'' (PStr now) p;
          p2 = (case int_field p ''inbound_count'' 0 of Inr n \<Rightarrow> dset ''inbound_count'' (PInt (n + 1)) p1 | Inl _ \<Rightarrow> p1);
          log = list_items (dget p ''inbound_log'' (PList [])) @ [PDict [(''at'', PStr now), (''payload'', payload)]]
      in dset ''inbound_log'' (PList (drop (length log - 20) log)) p2)"

fun receive_inbound :: "string \<Rightarrow> string \<Rightarrow> pyval \<Rightarrow> tenant_lists \<Rightarrow> (pyval dict \<times> tenant_lists) option" where
  "receive_inbound now token payload [] = None"
| "receive_inbound now token payload ((tenant, ps) # s) =
     (case update_first (\<lambda>p. pget p ''inbound_token'' = PStr token) (\<lambda>p. (inbound now payload p, inbound now payload p)) ps of
        Some (p, ps') \<Rightarrow> Some (merged [(''tenant_id'', PStr tenant)] p, (tenant, ps') # s)
      | None \<Rightarrow> map_option (\<lambda>(r, s'). (r, (tenant, ps) # s')) (receive_inbound now token payload s))"

section \<open>What is promised\<close>

definition one_per_tenant :: "domains \<Rightarrow> bool" where
  "one_per_tenant dm \<longleftrightarrow> (\<forall>d d' t. map_of dm d = Some t \<longrightarrow> map_of dm d' = Some t \<longrightarrow> d = d')"

lemma set_custom_domain_Inr:
  assumes "set_custom_domain now t d dm = Inr (v, dm')" and "wf_dict dm"
  shows "domain_ok (lower (strip d))" "wf_dict dm'"
    "map_of dm' d' = (if d' = lower (strip d) then Some t else if map_of dm d' = Some t then None else map_of dm d')"
  using assms
  by (auto simp: set_custom_domain_def Let_def dict_simps wf_filter map_of_filter_wf split: if_splits option.split)

lemma find_map_of:
  assumes "wf_dict dm" and "one_per_tenant dm" and "map_of dm d = Some t"
  shows "get_custom_domain t dm = Some d"
proof -
  have "\<exists>x\<in>set dm. snd x = t" using map_of_in_dict [OF assms(3)] by force
  then obtain x where x: "find (\<lambda>(d, owner). owner = t) dm = Some x"
    by (metis (mono_tags, lifting) case_prod_beta find_None_iff option.exhaust)
  then have "x \<in> set dm" "snd x = t" by (auto simp: find_Some_iff) (metis nth_mem)
  then have "map_of dm (fst x) = Some t" using in_dict_map_of [OF assms(1), of "fst x" "snd x"] unfolding prod.collapse by blast
  then have "fst x = d" using assms(2,3) by (auto simp: one_per_tenant_def)
  then show ?thesis by (simp add: get_custom_domain_def x)
qed

lemma get_custom_domain_None: "wf_dict dm \<Longrightarrow> (\<And>d. map_of dm d \<noteq> Some t) \<Longrightarrow> get_custom_domain t dm = None"
  by (auto simp: get_custom_domain_def find_None_iff dest!: in_dict_map_of)

text \<open>C39. Setting a domain makes every spelling of the host, with any port and case, lead to the tenant, and makes it the tenant's only
  domain; the domains of the other tenants stay, except that a domain another tenant had is taken from it without a word, and
  that tenant then has none.\<close>

theorem custom_domain_set:
  assumes "set_custom_domain now t d dm = Inr (v, dm')" and "wf_dict dm" and "one_per_tenant dm"
  shows "wf_dict dm' \<and> one_per_tenant dm'
    \<and> (\<forall>host. host \<noteq> [] \<longrightarrow> lower (strip (before_first '':'' host)) = lower (strip d) \<longrightarrow> resolve_domain_to_tenant host dm' = Some t)
    \<and> get_custom_domain t dm' = Some (lower (strip d))
    \<and> (\<forall>u. u \<noteq> t \<longrightarrow> get_custom_domain u dm' = (if get_custom_domain u dm = Some (lower (strip d)) then None else get_custom_domain u dm))"
proof -
  note s = set_custom_domain_Inr [OF assms(1,2)]
  have one: "one_per_tenant dm'" using assms(3) by (auto simp: one_per_tenant_def s(3) split: if_splits)
  have other: "get_custom_domain u dm' = (if get_custom_domain u dm = Some (lower (strip d)) then None else get_custom_domain u dm)"
    if "u \<noteq> t" for u
  proof (cases "\<exists>e. map_of dm e = Some u")
    case True
    then obtain e where e: "map_of dm e = Some u" by blast
    have g: "get_custom_domain u dm = Some e" by (rule find_map_of [OF assms(2,3) e])
    show ?thesis
    proof (cases "e = lower (strip d)")
      case True
      have "map_of dm' x \<noteq> Some u" for x
        using e assms(3) that True by (auto simp: s(3) one_per_tenant_def)
      then show ?thesis using g True get_custom_domain_None [OF s(2)] by simp
    next
      case False
      then have "map_of dm' e = Some u" using e that by (simp add: s(3))
      then show ?thesis using g False find_map_of [OF s(2) one] by simp
    qed
  next
    case False
    then have "get_custom_domain u dm = None" using get_custom_domain_None [OF assms(2)] by blast
    moreover have "map_of dm' x \<noteq> Some u" for x using False that by (auto simp: s(3))
    ultimately show ?thesis using get_custom_domain_None [OF s(2)] by simp
  qed
  show ?thesis
    using s(2) one other find_map_of [OF s(2) one, of "lower (strip d)" t] by (auto simp: s(3) resolve_domain_to_tenant_def)
qed

theorem custom_domain_set_witness:
  "\<exists>v dm'. set_custom_domain ''now'' ''b'' ''Cloud.acme.com'' [(''cloud.acme.com'', ''a'')] = Inr (v, dm')
    \<and> resolve_domain_to_tenant ''CLOUD.acme.com:443'' dm' = Some ''b'' \<and> get_custom_domain ''a'' dm' = None"
proof -
  have "split_char CHR ''.'' ''cloud.acme.com'' = [''cloud'', ''acme'', ''com'']" by code_simp
  moreover have "list_all label_ok [''cloud'', ''acme'']"
    by (simp add: label_ok_def domain_char_def is_letter_def char_lower_def is_digit_def)
  moreover have "top_level_ok ''com''" by (simp add: top_level_ok_def is_letter_def char_lower_def)
  ultimately have "domain_ok ''cloud.acme.com''" by (simp add: domain_ok_def)
  moreover have "lower (strip ''Cloud.acme.com'') = ''cloud.acme.com''"
    "lower (strip (before_first '':'' ''CLOUD.acme.com:443'')) = ''cloud.acme.com''" by code_simp+
  moreover note ok = calculation
  ultimately obtain v dm' where r: "set_custom_domain ''now'' ''b'' ''Cloud.acme.com'' [(''cloud.acme.com'', ''a'')] = Inr (v, dm')"
    by (simp add: set_custom_domain_def Let_def)
  have g: "get_custom_domain ''a'' [(''cloud.acme.com'', ''a'')] = Some ''cloud.acme.com''" by (simp add: get_custom_domain_def)
  have w: "wf_dict [(''cloud.acme.com'', ''a'')]" "one_per_tenant [(''cloud.acme.com'', ''a'')]"
    by (simp_all add: wf_dict_def one_per_tenant_def)
  note c = custom_domain_set [OF r w]
  have "resolve_domain_to_tenant ''CLOUD.acme.com:443'' dm' = Some ''b''"
    using c ok(2,3) by (elim conjE) (drule spec [of _ "''CLOUD.acme.com:443''"], simp)
  moreover have "get_custom_domain ''a'' dm' = None"
    using c ok(2) g by (elim conjE) (drule spec [of _ "''a''"], simp)
  ultimately show ?thesis using r by blast
qed

text \<open>A logo's address goes into the style sheet as it was sent, quotes and braces included: a tenant can write rules of its own
  into the sheet every console page of it loads.\<close>

lemma contains_append: "contains s (a @ s @ b)"
  by (simp add: contains_sublist)

lemma map_of_merged: "wf_dict b \<Longrightarrow> map_of (merged a b) k = (case map_of b k of Some v \<Rightarrow> Some v | None \<Rightarrow> map_of a k)"
proof (induction b arbitrary: a)
  case (Cons x b)
  have step: "merged a (x # b) = merged (dset (fst x) (snd x) a) b" by (simp add: merged_def case_prod_beta)
  have "map_of b (fst x) = None" "wf_dict b" using Cons.prems by (auto simp: wf_dict_def map_of_eq_None_iff)
  then show ?case using Cons.IH [of "dset (fst x) (snd x) a"] unfolding step
    by (cases x) (auto simp: dict_simps split: option.split)
qed (simp add: merged_def)

lemma contains_mid: "contains s (a @ b @ (c @ s) @ d)"
  by (simp add: contains_sublist) (metis append_assoc sublist_appendI)

lemma contains_css:
  assumes "pget (get_branding t bm) ''logo_url'' = PStr u" and "u \<noteq> []"
  shows "contains (''url('' @ [CHR 0x22] @ u @ [CHR 0x22] @ '');'') (branding_css t bm)"
proof -
  have "css_logo (get_branding t bm) = ''background-image: '' @ (''url('' @ [CHR 0x22] @ u @ [CHR 0x22] @ '');'')"
    using assms by (simp add: css_logo_def)
  then show ?thesis unfolding branding_css_def by (simp only:) (rule contains_mid)
qed

theorem logo_reaches_css:
  assumes "url_ok u" and "strip u = u" and "u \<noteq> []" and "wf_dict (dget bm t [])"
  shows "\<exists>v bm'. set_branding now t [(''logo_url'', PStr u)] bm = Inr (v, bm')
    \<and> contains (''url('' @ [CHR 0x22] @ u @ [CHR 0x22] @ '');'') (branding_css t bm')"
proof -
  let ?upd = "dset ''updated_at'' (PStr now) (dset ''logo_url'' (PStr u) (dget bm t []))"
  let ?bm = "dset t ?upd bm"
  have f: "brand_fields branding_fields [(''logo_url'', PStr u)] (dget bm t []) = Inr (dset ''logo_url'' (PStr u) (dget bm t []))"
    using assms by (simp add: branding_fields_def brand_field_def dhas_def pget_def dget_def py_or_def)
  have r: "set_branding now t [(''logo_url'', PStr u)] bm = Inr (get_branding t ?bm, ?bm)"
    by (simp add: set_branding_def f Let_def)
  have "map_of (get_branding t ?bm) ''logo_url'' = Some (PStr u)"
    using map_of_merged [of ?upd default_branding "''logo_url''"] assms(4) by (simp add: get_branding_def dict_simps wf_dset)
  then have p: "pget (get_branding t ?bm) ''logo_url'' = PStr u" by (simp add: pget_def dict_simps)
  show ?thesis using contains_css [OF p assms(3)] r by blast
qed

theorem logo_reaches_css_witness:
  "\<exists>v bm'. set_branding ''now'' ''t'' [(''logo_url'', PStr (''/x'' @ [CHR 0x22] @ ''); } body { display: none''))] [] = Inr (v, bm')
    \<and> contains (''url('' @ [CHR 0x22] @ (''/x'' @ [CHR 0x22] @ ''); } body { display: none'') @ [CHR 0x22] @ '');'') (branding_css ''t'' bm')"
proof (rule logo_reaches_css)
  show "url_ok (''/x'' @ [CHR 0x22] @ ''); } body { display: none'')" by (simp add: url_ok_def startswith_any_def)
  show "strip (''/x'' @ [CHR 0x22] @ ''); } body { display: none'') = ''/x'' @ [CHR 0x22] @ ''); } body { display: none''" by code_simp
qed (simp_all add: dget_def wf_dict_def)

text \<open>Colours are safe: whatever was set, a stored colour is empty or a hash and six hexadecimal digits.\<close>

definition colors_ok :: "pyval dict \<Rightarrow> bool" where
  "colors_ok b \<longleftrightarrow> (\<forall>k\<in>{''primary_color'', ''accent_color'', ''header_bg'', ''header_fg''}. \<forall>v. map_of b k = Some v \<longrightarrow> v = PStr [] \<or> (\<exists>s. v = PStr s \<and> color_ok s))"

lemma brand_field_color:
  "brand_field ok complaint spec k upd = Inr upd' \<Longrightarrow> colors_ok upd \<Longrightarrow>
    (k \<in> {''primary_color'', ''accent_color'', ''header_bg'', ''header_fg''} \<Longrightarrow> ok = color_ok) \<Longrightarrow> colors_ok upd'"
  by (auto simp: brand_field_def Let_def colors_ok_def dict_simps split: if_splits)

lemma set_branding_colors:
  assumes "set_branding now t spec bm = Inr (v, bm')" and "colors_ok (dget bm t [])"
  shows "colors_ok (dget bm' t [])"
proof -
  obtain upd where u: "brand_fields branding_fields spec (dget bm t []) = Inr upd" "bm' = dset t (dset ''updated_at'' (PStr now) upd) bm"
    using assms(1) by (auto simp: set_branding_def rbind_Inr Let_def)
  have "colors_ok upd"
    using u(1) assms(2) unfolding branding_fields_def
    by (auto simp: rbind_Inr dest!: brand_field_color [where ok = "\<lambda>_. True"] brand_field_color [where ok = url_ok] brand_field_color [where ok = color_ok])
  then show ?thesis by (simp add: u(2) dict_simps colors_ok_def)
qed

text \<open>A call from outside reaches the first pipeline with the token, or none, and no log grows beyond twenty entries.\<close>

lemma update_first_None: "update_first P f xs = None \<longleftrightarrow> (\<forall>x\<in>set xs. \<not> P x)"
  by (induction xs) auto

lemma update_first_Some: "update_first P f xs = Some r \<Longrightarrow> \<exists>x\<in>set xs. P x"
  by (induction xs arbitrary: r) (auto split: if_splits)

lemma receive_inbound_None:
  "receive_inbound now token payload s = None \<longleftrightarrow> (\<forall>(t, ps)\<in>set s. \<forall>p\<in>set ps. pget p ''inbound_token'' \<noteq> PStr token)"
  by (induction now token payload s rule: receive_inbound.induct) (auto simp: update_first_None split: option.split dest: update_first_Some)

lemma inbound_log_bounded: "\<exists>log. pget (inbound now payload p) ''inbound_log'' = PList log \<and> length log \<le> 20 \<and> log \<noteq> []"
  by (auto simp: inbound_def Let_def pget_def dict_simps)

lemma channels_isolated:
  assumes "u \<noteq> t"
  shows "register_channel hex now t spec s = Inr (c, s') \<Longrightarrow> entries_of s' u = entries_of s u"
    "register_pipeline hex token now t spec s = Inr (c, s') \<Longrightarrow> entries_of s' u = entries_of s u"
    "entries_of (snd (delete_entry t i s)) u = entries_of s u" "entries_of (snd (emit_event http now t event body s)) u = entries_of s u"
    "entries_of (snd (send_test http now t i s)) u = entries_of s u" "entries_of (snd (trigger_pipeline http now t i payload s)) u = entries_of s u"
  using assms
  by (auto simp: register_channel_def register_pipeline_def delete_entry_def emit_event_def send_test_def trigger_pipeline_def Let_def
      entries_of_def dict_simps split: if_splits option.split)

text \<open>Listings show no secret, though the token that admits a call from outside is shown.\<close>

lemma masked_secret: "pget (masked c) ''secret'' \<in> {PNone, PStr ''***''}" "pget (masked c) ''inbound_token'' = pget c ''inbound_token''"
  by (auto simp: masked_def pget_def dict_simps dhas_def dget_def)

end
