(* ===== verification/Vpc.thy ===== *)
theory Vpc
imports Py_Strings
begin

text \<open>
  Virtual networks of AWS (\<open>providers/aws_vpc.py\<close> and the \<open>_vpc_\<close> functions of \<open>server.py\<close>): VPCs with their
  subnets, route tables, security groups and internet gateways, the calls of the console and the actions of the query protocol.
  An action answers with the record it made or \<open>true\<close>; the XML around it is left out.  Clock and random identifiers are
  arguments.
\<close>

section \<open>Records\<close>

type_synonym vpc_tag_list = "string dict list"

record vpc =
  vp_id :: string
  vp_name :: string
  vp_cidr :: string
  vp_encryption :: string
  vp_tenancy :: string
  vp_ipv6 :: string
  vp_tags :: vpc_tag_list
  vp_created :: string
  vp_state :: string
  vp_dhcp :: string
  vp_main_rt :: string
  vp_default_sg :: string
  vp_igw :: string

record vpc_subnet =
  sn_id :: string
  sn_vpc :: string
  sn_cidr :: string
  sn_zone :: string
  sn_name :: string
  sn_rt :: string
  sn_created :: string
  sn_tags :: vpc_tag_list

record vpc_route =
  ro_destination :: pyval
  ro_target_type :: pyval
  ro_target_id :: pyval
  ro_type :: string
  ro_created :: string

record route_table =
  rt_id :: string
  rt_vpc :: string
  rt_name :: string
  rt_routes :: "vpc_route list"
  rt_subnets :: "string list"
  rt_main :: bool
  rt_created :: string
  rt_tags :: vpc_tag_list

record security_group =
  sg_id :: string
  sg_vpc :: string
  sg_name :: string
  sg_description :: string
  sg_ingress :: "pyval dict list"
  sg_egress :: "pyval dict list"
  sg_default :: bool
  sg_created :: string
  sg_tags :: vpc_tag_list

record internet_gateway =
  ig_id :: string
  ig_name :: string
  ig_vpc :: string
  ig_created :: string
  ig_tags :: vpc_tag_list

text \<open>The machines of EC2 are read for their network and state only.\<close>

record vpc_st =
  v_vpcs :: "vpc dict"
  v_subnets :: "vpc_subnet dict"
  v_rts :: "route_table dict"
  v_sgs :: "security_group dict"
  v_igws :: "internet_gateway dict"
  v_instances :: "pyval dict dict"

section \<open>Creating\<close>

record vpc_request =
  vr_name :: string
  vr_cidr :: string
  vr_encryption :: string
  vr_tenancy :: string
  vr_ipv6 :: string
  vr_tags :: vpc_tag_list

definition local_route :: "string \<Rightarrow> string \<Rightarrow> string \<Rightarrow> vpc_route" where
  "local_route now cidr vid =
     \<lparr>ro_destination = PStr cidr, ro_target_type = PStr ''local'', ro_target_id = PStr vid, ro_type = ''CreateRouteTable'', ro_created = now\<rparr>"

definition open_egress :: "string \<Rightarrow> pyval dict" where
  "open_egress now =
     [(''protocol'', PStr ''-1''), (''from_port'', PInt 0), (''to_port'', PInt 0), (''cidr'', PStr ''0.0.0.0/0''), (''source_sg'', PStr []),
      (''description'', PStr ''allow all outbound traffic''), (''created'', PStr now)]"

text \<open>The identifiers of the VPC, its main route table and its default group, and a token for the DHCP options.\<close>

definition create_vpc :: "string \<Rightarrow> string \<Rightarrow> string \<Rightarrow> string \<Rightarrow> string \<Rightarrow> vpc_request \<Rightarrow> vpc_st \<Rightarrow> vpc \<times> vpc_st" where
  "create_vpc now vid rid gid token req st =
     (let v = \<lparr>vp_id = vid, vp_name = vr_name req, vp_cidr = vr_cidr req, vp_encryption = vr_encryption req, vp_tenancy = vr_tenancy req,
               vp_ipv6 = vr_ipv6 req, vp_tags = vr_tags req, vp_created = now, vp_state = ''available'',
               vp_dhcp = ''dopt-'' @ str_or (take 8 (replace_str ''vpc-'' [] vid)) token, vp_main_rt = rid, vp_default_sg = gid, vp_igw = []\<rparr>;
          r = \<lparr>rt_id = rid, rt_vpc = vid, rt_name = (if vr_name req = [] then rid else vr_name req @ ''-main''),
               rt_routes = [local_route now (vr_cidr req) vid], rt_subnets = [], rt_main = True, rt_created = now, rt_tags = []\<rparr>;
          g = \<lparr>sg_id = gid, sg_vpc = vid, sg_name = ''default'', sg_description = ''default VPC security group'', sg_ingress = [],
               sg_egress = [open_egress now], sg_default = True, sg_created = now, sg_tags = []\<rparr>
      in (v, st\<lparr>v_vpcs := dset vid v (v_vpcs st), v_rts := dset rid r (v_rts st), v_sgs := dset gid g (v_sgs st)\<rparr>))"

definition missing_vpc :: py_exc where
  "missing_vpc = HTTPException 404 (PStr ''NoSuchVpc'')"

definition association_id :: "(string \<Rightarrow> string) \<Rightarrow> string \<Rightarrow> string \<Rightarrow> string" where
  "association_id sha1 rid sid = ''rtbassoc-'' @ take 17 (sha1 (rid @ '':'' @ sid))"

definition rt_without :: "string \<Rightarrow> route_table \<Rightarrow> route_table" where
  "rt_without sid r = r\<lparr>rt_subnets := filter (\<lambda>s. s \<noteq> sid) (rt_subnets r)\<rparr>"

definition rt_including :: "string \<Rightarrow> route_table \<Rightarrow> route_table" where
  "rt_including sid r = (if sid \<in> set (rt_subnets r) then r else r\<lparr>rt_subnets := rt_subnets r @ [sid]\<rparr>)"

text \<open>A subnet leaves the table it was in and enters the new one.\<close>

definition associate_subnet :: "(string \<Rightarrow> string) \<Rightarrow> string \<Rightarrow> string \<Rightarrow> vpc_st \<Rightarrow> string result \<times> vpc_st" where
  "associate_subnet sha1 rid sid st =
     (case (map_of (v_rts st) rid, map_of (v_subnets st) sid) of
        (None, _) \<Rightarrow> (Inl (HTTPException 404 (PStr ''NoSuchRouteTable'')), st)
      | (Some _, None) \<Rightarrow> (Inl (HTTPException 404 (PStr ''NoSuchSubnet'')), st)
      | (Some r, Some s) \<Rightarrow>
          if sn_vpc s \<noteq> rt_vpc r then (Inl (HTTPException 400 (PStr ''SubnetAndRouteTableMustBeInSameVpc'')), st)
          else let rts1 = (if sn_rt s \<noteq> [] then dmap_at (sn_rt s) (rt_without sid) (v_rts st) else v_rts st)
               in (Inr (association_id sha1 rid sid),
                   st\<lparr>v_rts := dmap_at rid (rt_including sid) rts1, v_subnets := dset sid (s\<lparr>sn_rt := rid\<rparr>) (v_subnets st)\<rparr>))"

record subnet_request =
  sr_vpc :: string
  sr_cidr :: string
  sr_zone :: string
  sr_name :: string
  sr_tags :: vpc_tag_list

definition create_subnet :: "(string \<Rightarrow> string) \<Rightarrow> string \<Rightarrow> string \<Rightarrow> subnet_request \<Rightarrow> vpc_st \<Rightarrow> vpc_subnet result \<times> vpc_st" where
  "create_subnet sha1 now sid req st =
     (case map_of (v_vpcs st) (sr_vpc req) of
        None \<Rightarrow> (Inl missing_vpc, st)
      | Some v \<Rightarrow>
          (let s = \<lparr>sn_id = sid, sn_vpc = sr_vpc req, sn_cidr = sr_cidr req, sn_zone = sr_zone req, sn_name = str_or (sr_name req) sid,
                    sn_rt = vp_main_rt v, sn_created = now, sn_tags = sr_tags req\<rparr>;
               st1 = st\<lparr>v_subnets := dset sid s (v_subnets st)\<rparr>
           in if vp_main_rt v \<noteq> [] \<and> dhas (v_rts st) (vp_main_rt v)
              then (case associate_subnet sha1 (vp_main_rt v) sid st1 of (Inl e, st2) \<Rightarrow> (Inl e, st2) | (Inr _, st2) \<Rightarrow> (Inr s, st2))
              else (Inr s, st1)))"

definition create_security_group :: "string \<Rightarrow> string \<Rightarrow> string \<Rightarrow> string \<Rightarrow> string \<Rightarrow> vpc_tag_list \<Rightarrow> vpc_st \<Rightarrow> security_group result \<times> vpc_st" where
  "create_security_group now gid vid name description tags st =
     (if \<not> dhas (v_vpcs st) vid then (Inl missing_vpc, st)
      else let g = \<lparr>sg_id = gid, sg_vpc = vid, sg_name = name, sg_description = description, sg_ingress = [], sg_egress = [open_egress now],
                    sg_default = False, sg_created = now, sg_tags = tags\<rparr>
           in (Inr g, st\<lparr>v_sgs := dset gid g (v_sgs st)\<rparr>))"

definition ingress_rule :: "string \<Rightarrow> pyval dict \<Rightarrow> pyval dict" where
  "ingress_rule now payload =
     [(''protocol'', dget payload ''protocol'' (PStr ''tcp'')), (''from_port'', dget payload ''from_port'' (PInt 0)),
      (''to_port'', dget payload ''to_port'' (PInt 65535)), (''cidr'', dget payload ''cidr'' (PStr ''0.0.0.0/0'')),
      (''source_sg'', dget payload ''source_sg'' (PStr [])), (''description'', dget payload ''description'' (PStr [])), (''created'', PStr now)]"

definition add_ingress :: "string \<Rightarrow> string \<Rightarrow> pyval dict \<Rightarrow> vpc_st \<Rightarrow> security_group result \<times> vpc_st" where
  "add_ingress now gid payload st =
     (case map_of (v_sgs st) gid of
        None \<Rightarrow> (Inl (HTTPException 404 (PStr ''NoSuchSecurityGroup'')), st)
      | Some g \<Rightarrow> (let g1 = g\<lparr>sg_ingress := sg_ingress g @ [ingress_rule now payload]\<rparr> in (Inr g1, st\<lparr>v_sgs := dset gid g1 (v_sgs st)\<rparr>)))"

definition create_route_table :: "string \<Rightarrow> string \<Rightarrow> string \<Rightarrow> string \<Rightarrow> vpc_tag_list \<Rightarrow> vpc_st \<Rightarrow> route_table result \<times> vpc_st" where
  "create_route_table now rid vid name tags st =
     (case map_of (v_vpcs st) vid of
        None \<Rightarrow> (Inl missing_vpc, st)
      | Some v \<Rightarrow>
          (let r = \<lparr>rt_id = rid, rt_vpc = vid, rt_name = str_or name rid, rt_routes = [local_route now (vp_cidr v) vid], rt_subnets = [],
                    rt_main = False, rt_created = now, rt_tags = tags\<rparr>
           in (Inr r, st\<lparr>v_rts := dset rid r (v_rts st)\<rparr>)))"

definition create_internet_gateway :: "string \<Rightarrow> string \<Rightarrow> string \<Rightarrow> vpc_tag_list \<Rightarrow> vpc_st \<Rightarrow> internet_gateway \<times> vpc_st" where
  "create_internet_gateway now gid name tags st =
     (let g = \<lparr>ig_id = gid, ig_name = str_or name gid, ig_vpc = [], ig_created = now, ig_tags = tags\<rparr>
      in (g, st\<lparr>v_igws := dset gid g (v_igws st)\<rparr>))"

definition add_route :: "string \<Rightarrow> string \<Rightarrow> pyval dict \<Rightarrow> vpc_st \<Rightarrow> route_table result \<times> vpc_st" where
  "add_route now rid payload st =
     (case map_of (v_rts st) rid of
        None \<Rightarrow> (Inl (HTTPException 404 (PStr ''NoSuchRouteTable'')), st)
      | Some r \<Rightarrow>
          (let route = \<lparr>ro_destination = dget payload ''destination_cidr'' (PStr ''0.0.0.0/0''),
                        ro_target_type = dget payload ''target_type'' (PStr ''internet-gateway''),
                        ro_target_id = dget payload ''target_id'' (PStr []), ro_type = ''CreateRoute'', ro_created = now\<rparr>;
               r1 = r\<lparr>rt_routes := rt_routes r @ [route]\<rparr>
           in (Inr r1, st\<lparr>v_rts := dset rid r1 (v_rts st)\<rparr>)))"

section \<open>Attaching and detaching\<close>

definition attach_gateway :: "string \<Rightarrow> string \<Rightarrow> vpc_st \<Rightarrow> internet_gateway result \<times> vpc_st" where
  "attach_gateway gid vid st =
     (case map_of (v_igws st) gid of
        None \<Rightarrow> (Inl (HTTPException 404 (PStr ''NoSuchInternetGateway'')), st)
      | Some g \<Rightarrow>
          if \<not> dhas (v_vpcs st) vid then (Inl missing_vpc, st)
          else if ig_vpc g \<noteq> [] \<and> ig_vpc g \<noteq> vid then (Inl (HTTPException 409 (PStr ''InternetGatewayAlreadyAttached'')), st)
          else let g1 = g\<lparr>ig_vpc := vid\<rparr>
               in (Inr g1, st\<lparr>v_igws := dset gid g1 (v_igws st), v_vpcs := dmap_at vid (\<lambda>v. v\<lparr>vp_igw := gid\<rparr>) (v_vpcs st)\<rparr>))"

definition detach_gateway :: "string \<Rightarrow> vpc_st \<Rightarrow> internet_gateway result \<times> vpc_st" where
  "detach_gateway gid st =
     (case map_of (v_igws st) gid of
        None \<Rightarrow> (Inl (HTTPException 404 (PStr ''NoSuchInternetGateway'')), st)
      | Some g \<Rightarrow>
          (let g1 = g\<lparr>ig_vpc := []\<rparr>
           in (Inr g1, st\<lparr>v_igws := dset gid g1 (v_igws st),
                 v_vpcs := (if ig_vpc g = [] then v_vpcs st
                            else dmap_at (ig_vpc g) (\<lambda>v. if vp_igw v = gid then v\<lparr>vp_igw := []\<rparr> else v) (v_vpcs st))\<rparr>)))"

text \<open>A subnet that leaves its table goes back to the main one of the VPC.\<close>

definition disassociate_subnet :: "(string \<Rightarrow> string) \<Rightarrow> string \<Rightarrow> string \<Rightarrow> vpc_st \<Rightarrow> string result \<times> vpc_st" where
  "disassociate_subnet sha1 rid sid st =
     (case (map_of (v_rts st) rid, map_of (v_subnets st) sid) of
        (None, _) \<Rightarrow> (Inl (HTTPException 404 (PStr ''NoSuchRouteTable'')), st)
      | (Some _, None) \<Rightarrow> (Inl (HTTPException 404 (PStr ''NoSuchSubnet'')), st)
      | (Some r, Some s) \<Rightarrow>
          if sn_rt s \<noteq> rid then (Inl (HTTPException 409 (PStr ''InvalidAssociationID.NotFound'')), st)
          else let main = (case map_of (v_vpcs st) (rt_vpc r) of None \<Rightarrow> [] | Some v \<Rightarrow> vp_main_rt v);
                   rts1 = dmap_at rid (rt_without sid) (v_rts st)
               in (Inr (association_id sha1 rid sid),
                   st\<lparr>v_rts := (if main = [] then rts1 else dmap_at main (rt_including sid) rts1),
                      v_subnets := dset sid (s\<lparr>sn_rt := main\<rparr>) (v_subnets st)\<rparr>))"

section \<open>Deleting\<close>

definition active_in :: "string \<Rightarrow> string \<Rightarrow> pyval dict \<Rightarrow> bool" where
  "active_in field i inst = (pget inst field = PStr i \<and> pget inst ''state'' \<noteq> PStr ''terminated'')"

definition delete_subnet :: "string \<Rightarrow> vpc_st \<Rightarrow> unit result \<times> vpc_st" where
  "delete_subnet sid st =
     (if \<not> dhas (v_subnets st) sid then (Inl (HTTPException 404 (PStr ''NoSuchSubnet'')), st)
      else if list_ex (active_in ''subnet_id'' sid) (dvals (v_instances st)) then (Inl (HTTPException 409 (PStr ''DependencyViolation'')), st)
      else (Inr (), st\<lparr>v_rts := map (\<lambda>(k, r). (k, rt_without sid r)) (v_rts st), v_subnets := dpop sid (v_subnets st)\<rparr>))"

definition delete_route_table :: "string \<Rightarrow> vpc_st \<Rightarrow> unit result \<times> vpc_st" where
  "delete_route_table rid st =
     (case map_of (v_rts st) rid of
        None \<Rightarrow> (Inl (HTTPException 404 (PStr ''NoSuchRouteTable'')), st)
      | Some r \<Rightarrow>
          if rt_main r then (Inl (HTTPException 409 (PStr ''CannotDeleteMainRouteTable'')), st)
          else if rt_subnets r \<noteq> [] then (Inl (HTTPException 409 (PStr ''RouteTableInUse'')), st)
          else (Inr (), st\<lparr>v_rts := dpop rid (v_rts st)\<rparr>))"

definition delete_internet_gateway :: "string \<Rightarrow> vpc_st \<Rightarrow> unit result \<times> vpc_st" where
  "delete_internet_gateway gid st =
     (case map_of (v_igws st) gid of
        None \<Rightarrow> (Inl (HTTPException 404 (PStr ''NoSuchInternetGateway'')), st)
      | Some g \<Rightarrow> if ig_vpc g \<noteq> [] then (Inl (HTTPException 409 (PStr ''DependencyViolation'')), st)
                 else (Inr (), st\<lparr>v_igws := dpop gid (v_igws st)\<rparr>))"

definition terminated :: "string \<Rightarrow> pyval dict \<Rightarrow> pyval dict" where
  "terminated now inst = dset ''updated'' (PStr now) (dset ''terminated_at'' (PStr now) (dset ''state'' (PStr ''terminated'') inst))"

text \<open>One subnet of a VPC that goes away.\<close>

definition drop_subnet :: "string \<times> vpc_subnet \<Rightarrow> vpc_st \<Rightarrow> vpc_st" where
  "drop_subnet p st =
     (let st1 = (if sn_rt (snd p) \<noteq> [] then st\<lparr>v_rts := dmap_at (sn_rt (snd p)) (rt_without (fst p)) (v_rts st)\<rparr> else st)
      in st1\<lparr>v_subnets := dpop (fst p) (v_subnets st1)\<rparr>)"

definition delete_vpc :: "string \<Rightarrow> string \<Rightarrow> bool \<Rightarrow> vpc_st \<Rightarrow> unit result \<times> vpc_st" where
  "delete_vpc now vid force st =
     (if \<not> dhas (v_vpcs st) vid then (Inl missing_vpc, st)
      else if list_ex (active_in ''vpc_id'' vid) (dvals (v_instances st)) \<and> \<not> force
      then (Inl (HTTPException 409 (PStr ''VpcHasActiveInstances'')), st)
      else let st1 = st\<lparr>v_instances := map (\<lambda>(k, i). (k, if force \<and> active_in ''vpc_id'' vid i then terminated now i else i)) (v_instances st)\<rparr>;
               st2 = fold drop_subnet (filter (\<lambda>(_, s). sn_vpc s = vid) (v_subnets st)) st1
           in (Inr (), st2\<lparr>v_rts := filter (\<lambda>(_, r). rt_vpc r \<noteq> vid) (v_rts st2), v_sgs := filter (\<lambda>(_, g). sg_vpc g \<noteq> vid) (v_sgs st2),
                           v_igws := filter (\<lambda>(_, g). ig_vpc g \<noteq> vid) (v_igws st2), v_vpcs := dpop vid (v_vpcs st2)\<rparr>))"

section \<open>Actions of the query protocol\<close>

text \<open>A parameter under either of its spellings.\<close>

definition query_text :: "pyval dict \<Rightarrow> string \<Rightarrow> string \<Rightarrow> string" where
  "query_text params a b = strip (py_str (dget params a (dget params b (PStr []))))"

definition missing_parameter :: "string \<Rightarrow> py_exc" where
  "missing_parameter p = HTTPException 400 (PStr (''MissingParameter: '' @ p))"

text \<open>An action that names one resource and changes the state.\<close>

definition on_named :: "pyval dict \<Rightarrow> string \<Rightarrow> string \<Rightarrow> (string \<Rightarrow> vpc_st \<Rightarrow> 'a result \<times> vpc_st) \<Rightarrow> vpc_st \<Rightarrow> 'a result \<times> vpc_st" where
  "on_named params a b f st = (let i = query_text params a b in if i = [] then (Inl (missing_parameter a), st) else f i st)"

definition query_attach_gateway :: "pyval dict \<Rightarrow> vpc_st \<Rightarrow> internet_gateway result \<times> vpc_st" where
  "query_attach_gateway params =
     on_named params ''InternetGatewayId'' ''internetGatewayId'' (\<lambda>g. on_named params ''VpcId'' ''vpcId'' (attach_gateway g))"

definition query_detach_gateway :: "pyval dict \<Rightarrow> vpc_st \<Rightarrow> internet_gateway result \<times> vpc_st" where
  "query_detach_gateway params = on_named params ''InternetGatewayId'' ''internetGatewayId'' detach_gateway"

definition route_targets :: "(string \<times> string \<times> string) list" where
  "route_targets =
     [(''GatewayId'', ''gatewayId'', ''internet-gateway''), (''InstanceId'', ''instanceId'', ''instance''),
      (''VpcPeeringConnectionId'', ''vpcPeeringConnectionId'', ''vpc-peering-connection''),
      (''NatGatewayId'', ''natGatewayId'', ''nat-gateway''), (''TransitGatewayId'', ''transitGatewayId'', ''transit-gateway'')]"

text \<open>The first target that is named, its kind and its identifier.\<close>

definition route_target :: "pyval dict \<Rightarrow> string \<times> string" where
  "route_target params =
     (case find (\<lambda>(a, b, _). query_text params a b \<noteq> []) route_targets of
        None \<Rightarrow> (''internet-gateway'', [])
      | Some (a, b, kind) \<Rightarrow> (kind, query_text params a b))"

definition query_create_route :: "string \<Rightarrow> pyval dict \<Rightarrow> vpc_st \<Rightarrow> unit result \<times> vpc_st" where
  "query_create_route now params =
     on_named params ''RouteTableId'' ''routeTableId'' (\<lambda>rid st.
       case map_of (v_rts st) rid of
         None \<Rightarrow> (Inl (HTTPException 404 (PStr ''NoSuchRouteTable'')), st)
       | Some r \<Rightarrow>
           (let destination = str_or (strip (py_str (dget params ''DestinationCidrBlock''
                  (dget params ''destinationCidrBlock'' (dget params ''DestinationCidr'' (PStr ''0.0.0.0/0'')))))) ''0.0.0.0/0'';
                route = \<lparr>ro_destination = PStr destination, ro_target_type = PStr (fst (route_target params)),
                         ro_target_id = PStr (snd (route_target params)), ro_type = ''CreateRoute'', ro_created = now\<rparr>
            in (Inr (), st\<lparr>v_rts := dset rid (r\<lparr>rt_routes := rt_routes r @ [route]\<rparr>) (v_rts st)\<rparr>)))"

definition query_associate :: "(string \<Rightarrow> string) \<Rightarrow> pyval dict \<Rightarrow> vpc_st \<Rightarrow> string result \<times> vpc_st" where
  "query_associate sha1 params =
     on_named params ''RouteTableId'' ''routeTableId'' (\<lambda>rid st.
       let sid = query_text params ''SubnetId'' ''subnetId''
       in if sid \<noteq> [] then associate_subnet sha1 rid sid st
          else if query_text params ''GatewayId'' ''gatewayId'' \<noteq> []
          then (Inl (HTTPException 400 (PStr ''Gateway associations are not implemented in the simulator yet.'')), st)
          else (Inl (missing_parameter ''SubnetId''), st))"

text \<open>The table and the subnet an association stands for: the first pair that hashes to it.\<close>

definition association_pairs :: "vpc_st \<Rightarrow> (string \<times> string) list" where
  "association_pairs st = concat (map (\<lambda>r. map (Pair (rt_id r)) (rt_subnets r)) (dvals (v_rts st)))"

definition query_disassociate :: "(string \<Rightarrow> string) \<Rightarrow> pyval dict \<Rightarrow> vpc_st \<Rightarrow> string result \<times> vpc_st" where
  "query_disassociate sha1 params =
     on_named params ''AssociationId'' ''associationId'' (\<lambda>aid st.
       case find (\<lambda>(r, s). r \<noteq> [] \<and> association_id sha1 r s = aid) (association_pairs st) of
         None \<Rightarrow> (Inl (HTTPException 404 (PStr ''InvalidAssociationID.NotFound'')), st)
       | Some (r, s) \<Rightarrow> if s = [] then (Inl (HTTPException 404 (PStr ''InvalidAssociationID.NotFound'')), st)
                       else disassociate_subnet sha1 r s st)"

definition query_delete_subnet :: "pyval dict \<Rightarrow> vpc_st \<Rightarrow> unit result \<times> vpc_st" where
  "query_delete_subnet params = on_named params ''SubnetId'' ''subnetId'' delete_subnet"

definition query_delete_route_table :: "pyval dict \<Rightarrow> vpc_st \<Rightarrow> unit result \<times> vpc_st" where
  "query_delete_route_table params = on_named params ''RouteTableId'' ''routeTableId'' delete_route_table"

definition query_delete_gateway :: "pyval dict \<Rightarrow> vpc_st \<Rightarrow> unit result \<times> vpc_st" where
  "query_delete_gateway params = on_named params ''InternetGatewayId'' ''internetGatewayId'' delete_internet_gateway"

definition query_delete_vpc :: "string \<Rightarrow> pyval dict \<Rightarrow> vpc_st \<Rightarrow> unit result \<times> vpc_st" where
  "query_delete_vpc now params = on_named params ''VpcId'' ''vpcId'' (\<lambda>vid. delete_vpc now vid True)"

section \<open>Tags\<close>

definition tag_text :: "string dict \<Rightarrow> string \<Rightarrow> string \<Rightarrow> string" where
  "tag_text t a b = str_or (dget t a []) (dget t b [])"

definition normalize_tags :: "vpc_tag_list \<Rightarrow> vpc_tag_list" where
  "normalize_tags tags =
     map (\<lambda>(k, v). [(''key'', k), (''value'', v)])
       (fold (\<lambda>t d. let k = strip (tag_text t ''key'' ''Key'') in if k = [] then d else dset k (tag_text t ''value'' ''Value'') d) tags [])"

text \<open>The kind of resource an identifier names, by its prefix and its table.\<close>

datatype vpc_resource = RVpc | RSubnet | RGroup | RTable | RGateway

definition find_resource :: "vpc_st \<Rightarrow> string \<Rightarrow> vpc_resource option" where
  "find_resource st i =
     (if startswith i ''vpc-'' \<and> dhas (v_vpcs st) i then Some RVpc
      else if startswith i ''subnet-'' \<and> dhas (v_subnets st) i then Some RSubnet
      else if startswith i ''sg-'' \<and> dhas (v_sgs st) i then Some RGroup
      else if startswith i ''rtb-'' \<and> dhas (v_rts st) i then Some RTable
      else if startswith i ''igw-'' \<and> dhas (v_igws st) i then Some RGateway else None)"

definition vpc_set_tags :: "vpc_tag_list \<Rightarrow> string \<Rightarrow> vpc_st \<Rightarrow> vpc_st" where
  "vpc_set_tags tags i st =
     (let ts = normalize_tags tags
      in case find_resource st i of
           None \<Rightarrow> st
         | Some RVpc \<Rightarrow> st\<lparr>v_vpcs := dmap_at i (\<lambda>v. v\<lparr>vp_tags := ts\<rparr>) (v_vpcs st)\<rparr>
         | Some RSubnet \<Rightarrow> st\<lparr>v_subnets := dmap_at i (\<lambda>s. s\<lparr>sn_tags := ts\<rparr>) (v_subnets st)\<rparr>
         | Some RGroup \<Rightarrow> st\<lparr>v_sgs := dmap_at i (\<lambda>g. g\<lparr>sg_tags := ts\<rparr>) (v_sgs st)\<rparr>
         | Some RTable \<Rightarrow> st\<lparr>v_rts := dmap_at i (\<lambda>r. r\<lparr>rt_tags := ts\<rparr>) (v_rts st)\<rparr>
         | Some RGateway \<Rightarrow> st\<lparr>v_igws := dmap_at i (\<lambda>g. g\<lparr>ig_tags := ts\<rparr>) (v_igws st)\<rparr>)"

definition resource_ids :: "pyval dict \<Rightarrow> string list" where
  "resource_ids params =
     concat (map (\<lambda>(k, v). if startswith (lower k) ''resourceid'' \<and> truthy v
                           then (case v of PList xs \<Rightarrow> map py_str (filter truthy xs) | _ \<Rightarrow> [py_str v]) else []) params)"

text \<open>The parts of a name; a pattern with \<open>$\<close> also fits before a newline at the end.\<close>

definition dollar :: "string \<Rightarrow> string" where
  "dollar k = (if k \<noteq> [] \<and> last k = CHR 0x0A then butlast k else k)"

definition index_text :: "string \<Rightarrow> bool" where
  "index_text s = (s \<noteq> [] \<and> list_all is_digit s)"

text \<open>The index in \<open>Tag.N.Key\<close>.\<close>

definition tag_index :: "string \<Rightarrow> string option" where
  "tag_index k =
     (case split_char CHR ''.'' (dollar k) of
        [t, idx, last_part] \<Rightarrow> if t = ''Tag'' \<and> index_text idx \<and> last_part = ''Key'' then Some idx else None
      | _ \<Rightarrow> None)"

definition given_tags :: "pyval dict \<Rightarrow> vpc_tag_list" where
  "given_tags params =
     concat (map (\<lambda>(k, v). case tag_index k of
                             None \<Rightarrow> []
                           | Some idx \<Rightarrow> if py_str v = [] then []
                                         else [[(''key'', py_str v), (''value'', py_str (dget params (''Tag.'' @ idx @ ''.Value'') (PStr [])))]]) params)"

definition query_create_tags :: "pyval dict \<Rightarrow> vpc_st \<Rightarrow> unit result \<times> vpc_st" where
  "query_create_tags params st =
     (if resource_ids params = [] then (Inl (missing_parameter ''ResourceId''), st)
      else if given_tags params = [] then (Inl (missing_parameter ''Tag''), st)
      else (Inr (), fold (vpc_set_tags (given_tags params)) (resource_ids params) st))"

section \<open>Creating through the query protocol\<close>

text \<open>One \<open>TagSpecification\<close>: its type of resource and its tags by index.\<close>

type_synonym tag_spec = "string \<times> string dict dict"

definition put_tag :: "string \<Rightarrow> string \<Rightarrow> string \<Rightarrow> tag_spec \<Rightarrow> tag_spec" where
  "put_tag idx part v spec = (fst spec, dset idx (dset (lower part) v (dget (snd spec) idx [])) (snd spec))"

definition spec_param :: "string \<times> pyval \<Rightarrow> tag_spec dict \<Rightarrow> tag_spec dict" where
  "spec_param p specs =
     (let at = (\<lambda>i f. dset i (f (dget specs i ([], []))) specs); v = py_str (snd p)
      in case split_char CHR ''.'' (dollar (fst p)) of
           [t, i, part] \<Rightarrow>
             if t \<noteq> ''TagSpecification'' \<or> \<not> index_text i then specs
             else if part = ''ResourceType'' then at i (\<lambda>spec. (v, snd spec))
             else if part = ''Key'' \<or> part = ''Value'' then at i (put_tag ''1'' part v) else specs
         | [t, i, tag, j, part] \<Rightarrow>
             if t = ''TagSpecification'' \<and> index_text i \<and> tag = ''Tag'' \<and> index_text j \<and> (part = ''Key'' \<or> part = ''Value'')
             then at i (put_tag j part v) else specs
         | _ \<Rightarrow> specs)"

definition by_index :: "'v dict \<Rightarrow> 'v list" where
  "by_index d = map snd (sort_key (\<lambda>p. digits_val (fst p)) d)"

definition spec_tags :: "string \<Rightarrow> tag_spec \<Rightarrow> vpc_tag_list" where
  "spec_tags kind spec =
     (let t = lower (strip (fst spec))
      in if t \<noteq> [] \<and> t \<noteq> lower kind then []
         else concat (map (\<lambda>tag. let k = strip (dget tag ''key'' []) in if k = [] then [] else [[(''key'', k), (''value'', dget tag ''value'' [])]])
                        (by_index (snd spec))))"

definition parse_tag_specifications :: "pyval dict \<Rightarrow> string \<Rightarrow> vpc_tag_list" where
  "parse_tag_specifications params kind = normalize_tags (concat (map (spec_tags kind) (by_index (fold spec_param params []))))"

definition name_tag :: "vpc_tag_list \<Rightarrow> string" where
  "name_tag tags = (case find (\<lambda>t. lower (dget t ''key'' []) = ''name'') tags of None \<Rightarrow> [] | Some t \<Rightarrow> dget t ''value'' [])"

definition vpc_ipv6_mode :: "pyval dict \<Rightarrow> string" where
  "vpc_ipv6_mode params =
     (if lower (py_str (dget params ''AmazonProvidedIpv6CidrBlock'' (PStr []))) = ''true'' then ''amazon-provided''
      else str_or (strip (py_str (dget params ''Ipv6CidrBlock'' (PStr [])))) ''none'')"

definition query_default :: "pyval dict \<Rightarrow> string \<Rightarrow> string \<Rightarrow> string \<Rightarrow> string" where
  "query_default params a b v = str_or (strip (py_str (dget params a (dget params b (PStr v))))) v"

definition query_create_vpc :: "string \<Rightarrow> string \<Rightarrow> string \<Rightarrow> string \<Rightarrow> string \<Rightarrow> pyval dict \<Rightarrow> vpc_st \<Rightarrow> vpc \<times> vpc_st" where
  "query_create_vpc now vid rid gid token params =
     (let tags = parse_tag_specifications params ''vpc''
      in create_vpc now vid rid gid token
           \<lparr>vr_name = str_or (name_tag tags) (str_or (py_str (dget params ''TagSpecification.1.Tag.1.Value'' (PStr []))) (''vpc-'' @ token)),
            vr_cidr = query_default params ''CidrBlock'' ''cidrBlock'' ''10.0.0.0/16'', vr_encryption = ''None'',
            vr_tenancy = query_default params ''InstanceTenancy'' ''instanceTenancy'' ''default'',
            vr_ipv6 = vpc_ipv6_mode params, vr_tags = tags\<rparr>)"

definition query_create_subnet ::
  "(string \<Rightarrow> string) \<Rightarrow> string \<Rightarrow> string \<Rightarrow> string \<Rightarrow> pyval dict \<Rightarrow> vpc_st \<Rightarrow> vpc_subnet result \<times> vpc_st" where
  "query_create_subnet sha1 now sid token params =
     on_named params ''VpcId'' ''vpcId'' (\<lambda>vid.
       let tags = parse_tag_specifications params ''subnet''
       in create_subnet sha1 now sid
            \<lparr>sr_vpc = vid, sr_cidr = query_text params ''CidrBlock'' ''cidrBlock'',
             sr_zone = query_default params ''AvailabilityZone'' ''availabilityZone'' ''us-east-1a'',
             sr_name = str_or (name_tag tags) (''subnet-'' @ token), sr_tags = tags\<rparr>)"

definition query_create_security_group :: "string \<Rightarrow> string \<Rightarrow> pyval dict \<Rightarrow> vpc_st \<Rightarrow> security_group result \<times> vpc_st" where
  "query_create_security_group now gid params =
     on_named params ''GroupName'' ''groupName'' (\<lambda>name. on_named params ''GroupDescription'' ''groupDescription'' (\<lambda>description.
       on_named params ''VpcId'' ''vpcId'' (\<lambda>vid.
         create_security_group now gid vid name description (parse_tag_specifications params ''security-group''))))"

definition query_create_route_table :: "string \<Rightarrow> string \<Rightarrow> string \<Rightarrow> pyval dict \<Rightarrow> vpc_st \<Rightarrow> route_table result \<times> vpc_st" where
  "query_create_route_table now rid token params =
     on_named params ''VpcId'' ''vpcId'' (\<lambda>vid.
       let tags = parse_tag_specifications params ''route-table''
       in create_route_table now rid vid (str_or (name_tag tags) (str_or (py_str (dget params ''Name'' (PStr []))) (''rtb-'' @ token))) tags)"

definition query_create_gateway :: "string \<Rightarrow> string \<Rightarrow> string \<Rightarrow> pyval dict \<Rightarrow> vpc_st \<Rightarrow> internet_gateway \<times> vpc_st" where
  "query_create_gateway now gid token params =
     (let tags = parse_tag_specifications params ''internet-gateway''
      in create_internet_gateway now gid (str_or (name_tag tags) (''igw-'' @ token)) tags)"

section \<open>Rules of a group through the query protocol\<close>

text \<open>The index and the field of \<open>IpPermissions.N.field\<close>; a field holds no newline.\<close>

definition permission_key :: "string \<Rightarrow> (string \<times> string) option" where
  "permission_key k0 =
     (let k = drop 14 (dollar k0); i = takeWhile is_digit k; rest = drop (length i) k
      in if startswith k0 ''IpPermissions.'' \<and> i \<noteq> [] \<and> length rest > 1 \<and> hd rest = CHR ''.'' \<and> CHR 0x0A \<notin> set rest
         then Some (i, tl rest) else None)"

definition indexed_permissions :: "pyval dict \<Rightarrow> pyval dict list" where
  "indexed_permissions params =
     dvals (fold (\<lambda>(k, v) d. case permission_key k of None \<Rightarrow> d | Some (i, f) \<Rightarrow> dset i (dset f v (dget d i [])) d) params [])"

definition permission_entries :: "pyval dict \<Rightarrow> pyval dict list" where
  "permission_entries params =
     (if list_ex (\<lambda>k. startswith k ''IpPermissions.'') (dkeys params) then indexed_permissions params
      else [[(''IpProtocol'', dget params ''IpProtocol'' (PStr ''tcp'')), (''FromPort'', dget params ''FromPort'' (PInt 0)),
             (''ToPort'', dget params ''ToPort'' (PInt 65535)), (''CidrIp'', dget params ''CidrIp'' (PStr ''0.0.0.0/0''))]])"

definition port_of :: "pyval \<Rightarrow> int \<Rightarrow> int result" where
  "port_of v dflt = (let s = py_str v in if s = [] then Inr dflt else py_int (PStr s))"

definition query_rule :: "string \<Rightarrow> pyval dict \<Rightarrow> pyval dict result" where
  "query_rule now entry =
     rbind (port_of (dget entry ''FromPort'' (PInt 0)) 0) (\<lambda>lo. rbind (port_of (dget entry ''ToPort'' (PInt 65535)) 65535) (\<lambda>hi. Inr
       [(''protocol'', PStr (py_str (dget entry ''IpProtocol'' (PStr ''tcp'')))), (''from_port'', PInt lo), (''to_port'', PInt hi),
        (''cidr'', PStr (py_str (dget entry ''CidrIp'' (dget entry ''CidrIpv6'' (PStr ''0.0.0.0/0''))))),
        (''source_sg'', PStr (py_str (dget entry ''GroupId'' (dget entry ''SourceSecurityGroupName'' (PStr []))))),
        (''description'', PStr (py_str (dget entry ''Description'' (PStr [])))), (''created'', PStr now)]))"

text \<open>Rules enter one by one: those before a port that is no number stay.\<close>

fun add_rules :: "string \<Rightarrow> pyval dict list \<Rightarrow> pyval dict list \<Rightarrow> unit result \<times> pyval dict list" where
  "add_rules now [] rules = (Inr (), rules)"
| "add_rules now (e # es) rules =
     (case query_rule now e of
        Inl x \<Rightarrow> (Inl x, rules)
      | Inr r \<Rightarrow> add_rules now es (if r \<in> set rules then rules else rules @ [r]))"

definition target_group :: "string \<Rightarrow> string \<Rightarrow> vpc_st \<Rightarrow> (string \<times> security_group) option" where
  "target_group i name st =
     (case (if i = [] then None else map_of (v_sgs st) i) of
        Some g \<Rightarrow> Some (i, g)
      | None \<Rightarrow> if name = [] then None else find (\<lambda>(_, g). sg_name g = name) (v_sgs st))"

definition query_authorize_ingress :: "string \<Rightarrow> pyval dict \<Rightarrow> vpc_st \<Rightarrow> unit result \<times> vpc_st" where
  "query_authorize_ingress now params st =
     (let i = query_text params ''GroupId'' ''groupId''; name = query_text params ''GroupName'' ''groupName''
      in if i = [] \<and> name = [] then (Inl (missing_parameter ''GroupId''), st)
         else case target_group i name st of
                None \<Rightarrow> (Inl (HTTPException 404 (PStr ''NoSuchSecurityGroup'')), st)
              | Some (k, g) \<Rightarrow>
                  (let (r, rules) = add_rules now (permission_entries params) (sg_ingress g)
                   in (r, st\<lparr>v_sgs := dset k (g\<lparr>sg_ingress := rules\<rparr>) (v_sgs st)\<rparr>)))"

section \<open>The actions that change something\<close>

text \<open>The identifiers an action may need are drawn beforehand.\<close>

record vpc_ids =
  di_vpc :: string
  di_subnet :: string
  di_table :: string
  di_group :: string
  di_gateway :: string
  di_token :: string

definition settled :: "'a result \<times> vpc_st \<Rightarrow> unit result \<times> vpc_st" where
  "settled r = (map_sum id (\<lambda>_. ()) (fst r), snd r)"

definition vpc_change :: "(string \<Rightarrow> string) \<Rightarrow> string \<Rightarrow> vpc_ids \<Rightarrow> string \<Rightarrow> pyval dict \<Rightarrow> vpc_st \<Rightarrow> (unit result \<times> vpc_st) option" where
  "vpc_change sha1 now ids action params st =
     (if action = ''CreateVpc''
      then Some (Inr (), snd (query_create_vpc now (di_vpc ids) (di_table ids) (di_group ids) (di_token ids) params st))
      else if action = ''DeleteVpc'' then Some (query_delete_vpc now params st)
      else if action = ''CreateSubnet'' then Some (settled (query_create_subnet sha1 now (di_subnet ids) (di_token ids) params st))
      else if action = ''DeleteSubnet'' then Some (query_delete_subnet params st)
      else if action = ''CreateSecurityGroup'' then Some (settled (query_create_security_group now (di_group ids) params st))
      else if action = ''AuthorizeSecurityGroupIngress'' then Some (query_authorize_ingress now params st)
      else if action = ''CreateRouteTable'' then Some (settled (query_create_route_table now (di_table ids) (di_token ids) params st))
      else if action = ''DeleteRouteTable'' then Some (query_delete_route_table params st)
      else if action = ''CreateRoute'' then Some (query_create_route now params st)
      else if action = ''AssociateRouteTable'' then Some (settled (query_associate sha1 params st))
      else if action = ''DisassociateRouteTable'' then Some (settled (query_disassociate sha1 params st))
      else if action = ''CreateInternetGateway''
      then Some (Inr (), snd (query_create_gateway now (di_gateway ids) (di_token ids) params st))
      else if action = ''AttachInternetGateway'' then Some (settled (query_attach_gateway params st))
      else if action = ''DetachInternetGateway'' then Some (settled (query_detach_gateway params st))
      else if action = ''DeleteInternetGateway'' then Some (query_delete_gateway params st)
      else if action = ''CreateTags'' then Some (query_create_tags params st)
      else None)"

text \<open>The actions the root endpoint hands to the VPC handler; the others go to the one of EC2.\<close>

definition EC2_VPC_ACTIONS :: "string list" where
  "EC2_VPC_ACTIONS =
     [''CreateVpc'', ''DescribeVpcs'', ''DeleteVpc'', ''CreateSubnet'', ''DescribeSubnets'', ''DeleteSubnet'', ''CreateSecurityGroup'',
      ''AuthorizeSecurityGroupIngress'', ''AuthorizeSecurityGroupEgress'', ''CreateRouteTable'', ''DescribeRouteTables'',
      ''DeleteRouteTable'', ''CreateRoute'', ''AssociateRouteTable'', ''DisassociateRouteTable'', ''CreateInternetGateway'',
      ''DescribeInternetGateways'', ''AttachInternetGateway'']"

end
