(* ===== verification/Vpc_Props.thy ===== *)
theory Vpc_Props
imports Vpc
begin

text \<open>
  What the operations on virtual networks keep: references between VPCs, subnets, route tables, groups and gateways never
  dangle, a subnet stands in exactly the table it names, and deleting a VPC leaves nothing of it.
\<close>

section \<open>The invariant\<close>

definition subnet_ok :: "vpc_st \<Rightarrow> string \<Rightarrow> vpc_subnet \<Rightarrow> bool" where
  "subnet_ok st sid s = (sid \<noteq> [] \<and> (\<exists>r. map_of (v_rts st) (sn_rt s) = Some r \<and> rt_vpc r = sn_vpc s \<and> sid \<in> set (rt_subnets r)))"

definition route_table_ok :: "vpc_st \<Rightarrow> string \<Rightarrow> route_table \<Rightarrow> bool" where
  "route_table_ok st rid r = (rid \<noteq> [] \<and> dhas (v_vpcs st) (rt_vpc r) \<and> distinct (rt_subnets r) \<and>
     (\<forall>sid\<in>set (rt_subnets r). \<exists>s. map_of (v_subnets st) sid = Some s \<and> sn_rt s = rid))"

definition vpc_entry_ok :: "vpc_st \<Rightarrow> string \<Rightarrow> vpc \<Rightarrow> bool" where
  "vpc_entry_ok st vid v = (vid \<noteq> [] \<and>
     (\<exists>r. map_of (v_rts st) (vp_main_rt v) = Some r \<and> rt_main r \<and> rt_vpc r = vid) \<and>
     (\<exists>g. map_of (v_sgs st) (vp_default_sg v) = Some g \<and> sg_default g \<and> sg_vpc g = vid) \<and>
     (vp_igw v \<noteq> [] \<longrightarrow> (\<exists>g. map_of (v_igws st) (vp_igw v) = Some g \<and> ig_vpc g = vid)))"

definition vpc_ok :: "vpc_st \<Rightarrow> bool" where
  "vpc_ok st = (wf_dict (v_vpcs st) \<and> wf_dict (v_subnets st) \<and> wf_dict (v_rts st) \<and> wf_dict (v_sgs st) \<and> wf_dict (v_igws st) \<and>
     (\<forall>sid s. map_of (v_subnets st) sid = Some s \<longrightarrow> subnet_ok st sid s) \<and>
     (\<forall>rid r. map_of (v_rts st) rid = Some r \<longrightarrow> route_table_ok st rid r) \<and>
     (\<forall>vid v. map_of (v_vpcs st) vid = Some v \<longrightarrow> vpc_entry_ok st vid v) \<and>
     (\<forall>gid g. map_of (v_sgs st) gid = Some g \<longrightarrow> dhas (v_vpcs st) (sg_vpc g)) \<and>
     (\<forall>gid g. map_of (v_igws st) gid = Some g \<longrightarrow> ig_vpc g \<noteq> [] \<longrightarrow> dhas (v_vpcs st) (ig_vpc g)))"

lemma vpc_ok_wf [dest]: "vpc_ok st \<Longrightarrow> wf_dict (v_vpcs st) \<and> wf_dict (v_subnets st) \<and> wf_dict (v_rts st) \<and> wf_dict (v_sgs st) \<and> wf_dict (v_igws st)"
  by (simp add: vpc_ok_def)

lemma vpc_okD:
  assumes "vpc_ok st"
  shows vpc_ok_subnet: "map_of (v_subnets st) sid = Some s \<Longrightarrow> subnet_ok st sid s"
    and vpc_ok_table: "map_of (v_rts st) rid = Some r \<Longrightarrow> route_table_ok st rid r"
    and vpc_ok_entry: "map_of (v_vpcs st) vid = Some v \<Longrightarrow> vpc_entry_ok st vid v"
    and vpc_ok_group: "map_of (v_sgs st) gid = Some g \<Longrightarrow> dhas (v_vpcs st) (sg_vpc g)"
    and vpc_ok_gateway: "map_of (v_igws st) igid = Some ig \<Longrightarrow> ig_vpc ig \<noteq> [] \<Longrightarrow> dhas (v_vpcs st) (ig_vpc ig)"
  using assms by (auto simp: vpc_ok_def)

lemmas vpc_oks = subnet_ok_def route_table_ok_def vpc_entry_ok_def dict_simps

text \<open>What is known of an entry before a step, for the entry after it.\<close>

lemma vpc_ok_step:
  assumes ok: "vpc_ok st"
    and wf: "wf_dict (v_vpcs st')" "wf_dict (v_subnets st')" "wf_dict (v_rts st')" "wf_dict (v_sgs st')" "wf_dict (v_igws st')"
    and subnets: "\<And>sid s. \<forall>s0. map_of (v_subnets st) sid = Some s0 \<longrightarrow> subnet_ok st sid s0 \<Longrightarrow> map_of (v_subnets st') sid = Some s \<Longrightarrow> subnet_ok st' sid s"
    and tables: "\<And>rid r. \<forall>r0. map_of (v_rts st) rid = Some r0 \<longrightarrow> route_table_ok st rid r0 \<Longrightarrow> map_of (v_rts st') rid = Some r \<Longrightarrow> route_table_ok st' rid r"
    and entries: "\<And>vid v. \<forall>v0. map_of (v_vpcs st) vid = Some v0 \<longrightarrow> vpc_entry_ok st vid v0 \<Longrightarrow> map_of (v_vpcs st') vid = Some v \<Longrightarrow> vpc_entry_ok st' vid v"
    and groups: "\<And>gid g. \<forall>g0. map_of (v_sgs st) gid = Some g0 \<longrightarrow> dhas (v_vpcs st) (sg_vpc g0) \<Longrightarrow> map_of (v_sgs st') gid = Some g \<Longrightarrow> dhas (v_vpcs st') (sg_vpc g)"
    and gateways: "\<And>gid g. \<forall>g0. map_of (v_igws st) gid = Some g0 \<longrightarrow> ig_vpc g0 \<noteq> [] \<longrightarrow> dhas (v_vpcs st) (ig_vpc g0) \<Longrightarrow> map_of (v_igws st') gid = Some g \<Longrightarrow> ig_vpc g \<noteq> [] \<Longrightarrow> dhas (v_vpcs st') (ig_vpc g)"
  shows "vpc_ok st'"
  unfolding vpc_ok_def
proof (intro conjI allI impI)
  fix sid s assume "map_of (v_subnets st') sid = Some s" then show "subnet_ok st' sid s"
    by (intro subnets) (use ok in \<open>auto simp: vpc_ok_def\<close>)
next
  fix rid r assume "map_of (v_rts st') rid = Some r" then show "route_table_ok st' rid r"
    by (intro tables) (use ok in \<open>auto simp: vpc_ok_def\<close>)
next
  fix vid v assume "map_of (v_vpcs st') vid = Some v" then show "vpc_entry_ok st' vid v"
    by (intro entries) (use ok in \<open>auto simp: vpc_ok_def\<close>)
next
  fix gid g assume "map_of (v_sgs st') gid = Some g" then show "dhas (v_vpcs st') (sg_vpc g)"
    by (rule groups [rotated]) (use ok in \<open>auto simp: vpc_ok_def\<close>)
next
  fix gid g assume "map_of (v_igws st') gid = Some g" "ig_vpc g \<noteq> []" then show "dhas (v_vpcs st') (ig_vpc g)"
    by (rule gateways [rotated]) (use ok in \<open>auto simp: vpc_ok_def\<close>)
qed (fact wf)+

lemma vpc_ok_create_vpc:
  assumes ok: "vpc_ok st" and fresh: "\<not> dhas (v_vpcs st) vid" "\<not> dhas (v_rts st) rid" "\<not> dhas (v_sgs st) gid" and ids: "vid \<noteq> []" "rid \<noteq> []"
  shows "vpc_ok (snd (create_vpc now vid rid gid token req st))"
  using fresh ids vpc_ok_wf [OF ok]
  by (intro vpc_ok_step [OF ok]) (auto simp: create_vpc_def Let_def vpc_oks dhas_def split: if_splits)

lemma vpc_ok_associate:
  assumes ok: "vpc_ok st"
  shows "vpc_ok (snd (associate_subnet sha1 rid sid st))"
proof (cases "\<exists>r s. map_of (v_rts st) rid = Some r \<and> map_of (v_subnets st) sid = Some s \<and> sn_vpc s = rt_vpc r")
  case False
  then show ?thesis using ok by (auto simp: associate_subnet_def split: option.splits)
next
  case True
  then obtain r s where rs: "map_of (v_rts st) rid = Some r" "map_of (v_subnets st) sid = Some s" "sn_vpc s = rt_vpc r" by auto
  have *: "subnet_ok st sid s" "route_table_ok st rid r" using vpc_ok_subnet [OF ok] vpc_ok_table [OF ok] rs by auto
  have wf: "wf_dict (v_vpcs st)" "wf_dict (v_subnets st)" "wf_dict (v_rts st)" "wf_dict (v_sgs st)" "wf_dict (v_igws st)" using ok by auto
  have eq: "snd (associate_subnet sha1 rid sid st) =
      st\<lparr>v_rts := dmap_at rid (rt_including sid) (dmap_at (sn_rt s) (rt_without sid) (v_rts st)), v_subnets := dset sid (s\<lparr>sn_rt := rid\<rparr>) (v_subnets st)\<rparr>"
    using rs * vpc_ok_table [OF ok] by (auto simp: associate_subnet_def Let_def subnet_ok_def route_table_ok_def)
  show ?thesis unfolding eq using rs * wf
    apply (intro vpc_ok_step [OF ok])
    subgoal by (simp add: dict_simps)
    subgoal by (simp add: dict_simps)
    subgoal by (simp add: dict_simps)
    subgoal by (simp add: dict_simps)
    subgoal by (simp add: dict_simps)
    subgoal by (auto simp: vpc_oks rt_including_def rt_without_def split: if_splits)
    subgoal by (auto simp: vpc_oks rt_including_def rt_without_def split: if_splits)
    subgoal by (auto simp: vpc_oks rt_including_def rt_without_def split: if_splits)
    subgoal by (auto simp: vpc_oks rt_including_def rt_without_def split: if_splits)
    subgoal by (auto simp: vpc_oks rt_including_def rt_without_def split: if_splits)
    done
qed

lemma vpc_ok_create_subnet:
  assumes ok: "vpc_ok st" and fresh: "\<not> dhas (v_subnets st) sid" "sid \<noteq> []"
  shows "vpc_ok (snd (create_subnet sha1 now sid req st))"
proof (cases "map_of (v_vpcs st) (sr_vpc req)")
  case None
  then show ?thesis using ok by (simp add: create_subnet_def)
next
  case (Some v)
  let ?m = "vp_main_rt v"
  obtain r where r: "map_of (v_rts st) ?m = Some r" "rt_vpc r = sr_vpc req"
    using vpc_ok_entry [OF ok Some] by (auto simp: vpc_entry_ok_def)
  have tab: "route_table_ok st ?m r" using vpc_ok_table [OF ok r(1)] .
  have old: "\<forall>k q. map_of (v_rts st) k = Some q \<longrightarrow> sid \<notin> set (rt_subnets q)"
    using vpc_ok_table [OF ok] fresh by (fastforce simp: route_table_ok_def dhas_def)
  have wf: "wf_dict (v_vpcs st)" "wf_dict (v_subnets st)" "wf_dict (v_rts st)" "wf_dict (v_sgs st)" "wf_dict (v_igws st)" using ok by auto
  define s where "s = \<lparr>sn_id = sid, sn_vpc = sr_vpc req, sn_cidr = sr_cidr req, sn_zone = sr_zone req, sn_name = str_or (sr_name req) sid,
                    sn_rt = ?m, sn_created = now, sn_tags = sr_tags req\<rparr>"
  have s: "sn_vpc s = sr_vpc req" "sn_rt s = ?m" "s\<lparr>sn_rt := ?m\<rparr> = s" by (simp_all add: s_def)
  have eq: "snd (create_subnet sha1 now sid req st) =
      st\<lparr>v_rts := dmap_at ?m (rt_including sid) (dmap_at ?m (rt_without sid) (v_rts st)), v_subnets := dset sid s (dset sid s (v_subnets st))\<rparr>"
    using Some r tab s(1,2)
    by (simp add: s(3) create_subnet_def Let_def associate_subnet_def s_def [symmetric] dict_simps dhas_def route_table_ok_def split: prod.split sum.split)
  show ?thesis unfolding eq using r s fresh old tab wf
    by (intro vpc_ok_step [OF ok]) (auto simp: vpc_oks dhas_def rt_including_def rt_without_def split: if_splits)
qed

lemma vpc_ok_disassociate:
  assumes ok: "vpc_ok st"
  shows "vpc_ok (snd (disassociate_subnet sha1 rid sid st))"
proof (cases "\<exists>r s. map_of (v_rts st) rid = Some r \<and> map_of (v_subnets st) sid = Some s \<and> sn_rt s = rid")
  case False
  then show ?thesis using ok by (auto simp: disassociate_subnet_def split: option.splits)
next
  case True
  then obtain r s where rs: "map_of (v_rts st) rid = Some r" "map_of (v_subnets st) sid = Some s" "sn_rt s = rid" by auto
  have *: "subnet_ok st sid s" "route_table_ok st rid r" using vpc_ok_subnet [OF ok] vpc_ok_table [OF ok] rs by auto
  obtain v where v: "map_of (v_vpcs st) (rt_vpc r) = Some v" using * by (auto simp: route_table_ok_def dhas_def)
  let ?m = "vp_main_rt v"
  obtain m where m: "map_of (v_rts st) ?m = Some m" "rt_vpc m = rt_vpc r"
    using vpc_ok_entry [OF ok v] by (auto simp: vpc_entry_ok_def)
  have tab: "route_table_ok st ?m m" using vpc_ok_table [OF ok m(1)] .
  have wf: "wf_dict (v_vpcs st)" "wf_dict (v_subnets st)" "wf_dict (v_rts st)" "wf_dict (v_sgs st)" "wf_dict (v_igws st)" using ok by auto
  have eq: "snd (disassociate_subnet sha1 rid sid st) =
      st\<lparr>v_rts := dmap_at ?m (rt_including sid) (dmap_at rid (rt_without sid) (v_rts st)), v_subnets := dset sid (s\<lparr>sn_rt := ?m\<rparr>) (v_subnets st)\<rparr>"
    using rs v tab by (simp add: disassociate_subnet_def Let_def route_table_ok_def)
  show ?thesis unfolding eq using rs * m tab wf
    by (intro vpc_ok_step [OF ok]) (auto simp: vpc_oks rt_including_def rt_without_def split: if_splits)
qed

lemma vpc_ok_create_security_group:
  assumes ok: "vpc_ok st" and new: "\<not> dhas (v_sgs st) gid"
  shows "vpc_ok (snd (create_security_group now gid vid name description tags st))"
proof (cases "dhas (v_vpcs st) vid")
  case False
  then show ?thesis using ok by (simp add: create_security_group_def)
next
  case True
  then show ?thesis  using vpc_ok_wf [OF ok] new
    by (intro vpc_ok_step [OF ok]) (auto simp: create_security_group_def Let_def vpc_oks dhas_def split: if_splits)
qed

lemma vpc_ok_add_ingress:
  assumes ok: "vpc_ok st"
  shows "vpc_ok (snd (add_ingress now gid payload st))"
proof (cases "map_of (v_sgs st) gid")
  case None
  then show ?thesis using ok by (simp add: add_ingress_def)
next
  case (Some x)
  then show ?thesis  using vpc_ok_wf [OF ok]
    by (intro vpc_ok_step [OF ok]) (auto simp: add_ingress_def Let_def vpc_oks dhas_def split: if_splits)
qed

lemma vpc_ok_create_route_table:
  assumes ok: "vpc_ok st" and new: "\<not> dhas (v_rts st) rid" "rid \<noteq> []"
  shows "vpc_ok (snd (create_route_table now rid vid name tags st))"
proof (cases "map_of (v_vpcs st) vid")
  case None
  then show ?thesis using ok by (simp add: create_route_table_def)
next
  case (Some x)
  then show ?thesis  using vpc_ok_wf [OF ok] new
    by (intro vpc_ok_step [OF ok]) (auto simp: create_route_table_def Let_def vpc_oks dhas_def split: if_splits)
qed

lemma vpc_ok_create_internet_gateway:
  assumes ok: "vpc_ok st" and new: "\<not> dhas (v_igws st) gid"
  shows "vpc_ok (snd (create_internet_gateway now gid name tags st))"
  using vpc_ok_wf [OF ok] new
  by (intro vpc_ok_step [OF ok]) (auto simp: create_internet_gateway_def Let_def vpc_oks dhas_def split: if_splits)

lemma vpc_ok_with_routes:
  assumes ok: "vpc_ok st" and r: "map_of (v_rts st) rid = Some r"
  shows "vpc_ok (st\<lparr>v_rts := dset rid (r\<lparr>rt_routes := rs\<rparr>) (v_rts st)\<rparr>)"
  using vpc_ok_wf [OF ok] r by (intro vpc_ok_step [OF ok]) (auto simp: vpc_oks split: if_splits)

lemma vpc_ok_add_route: "vpc_ok st \<Longrightarrow> vpc_ok (snd (add_route now rid payload st))"
  by (auto simp: add_route_def Let_def intro: vpc_ok_with_routes split: option.split)

text \<open>A step that touches gateways, and of the VPCs only the gateway they name.\<close>

lemma vpc_ok_gateways:
  assumes ok: "vpc_ok st" and wf: "wf_dict V" "wf_dict I"
    and keys: "\<And>k. dhas V k = dhas (v_vpcs st) k"
    and vpcs: "\<And>k v. map_of V k = Some v \<Longrightarrow> \<exists>v0. map_of (v_vpcs st) k = Some v0 \<and> vp_main_rt v = vp_main_rt v0 \<and>
        vp_default_sg v = vp_default_sg v0 \<and> (vp_igw v \<noteq> [] \<longrightarrow> (\<exists>g. map_of I (vp_igw v) = Some g \<and> ig_vpc g = k))"
    and igws: "\<And>k g. map_of I k = Some g \<Longrightarrow> ig_vpc g \<noteq> [] \<Longrightarrow> dhas (v_vpcs st) (ig_vpc g)"
  shows "vpc_ok (st\<lparr>v_igws := I, v_vpcs := V\<rparr>)"
proof (intro vpc_ok_step [OF ok])
  fix k v assume k: "\<forall>v0. map_of (v_vpcs st) k = Some v0 \<longrightarrow> vpc_entry_ok st k v0"
    and v: "map_of (v_vpcs (st\<lparr>v_igws := I, v_vpcs := V\<rparr>)) k = Some v"
  obtain v0 where v0: "map_of (v_vpcs st) k = Some v0" "vp_main_rt v = vp_main_rt v0" "vp_default_sg v = vp_default_sg v0"
    "vp_igw v \<noteq> [] \<longrightarrow> (\<exists>g. map_of I (vp_igw v) = Some g \<and> ig_vpc g = k)" using vpcs v by fastforce
  then show "vpc_entry_ok (st\<lparr>v_igws := I, v_vpcs := V\<rparr>) k v" using k by (auto simp: vpc_entry_ok_def)
qed (use vpc_ok_wf [OF ok] wf keys igws in \<open>auto simp: subnet_ok_def route_table_ok_def\<close>)

lemma vpc_ok_attach:
  assumes ok: "vpc_ok st"
  shows "vpc_ok (snd (attach_gateway gid vid st))"
proof (cases "\<exists>g. map_of (v_igws st) gid = Some g \<and> dhas (v_vpcs st) vid \<and> (ig_vpc g = [] \<or> ig_vpc g = vid)")
  case False
  then show ?thesis using ok by (auto simp: attach_gateway_def split: option.splits)
next
  case True
  then obtain g where g: "map_of (v_igws st) gid = Some g" "dhas (v_vpcs st) vid" "ig_vpc g = [] \<or> ig_vpc g = vid" by auto
  have eq: "snd (attach_gateway gid vid st) =
      st\<lparr>v_igws := dset gid (g\<lparr>ig_vpc := vid\<rparr>) (v_igws st), v_vpcs := dmap_at vid (\<lambda>v. v\<lparr>vp_igw := gid\<rparr>) (v_vpcs st)\<rparr>"
    using g by (auto simp: attach_gateway_def Let_def)
  have old: "vp_igw v \<noteq> [] \<longrightarrow> (\<exists>g. map_of (v_igws st) (vp_igw v) = Some g \<and> ig_vpc g = k)" "k \<noteq> []"
    if "map_of (v_vpcs st) k = Some v" for k v using vpc_ok_entry [OF ok that] by (auto simp: vpc_entry_ok_def)
  show ?thesis unfolding eq
  proof (rule vpc_ok_gateways [OF ok])
    fix k v assume "map_of (dmap_at vid (\<lambda>v. v\<lparr>vp_igw := gid\<rparr>) (v_vpcs st)) k = Some v"
    then obtain v0 where v0: "map_of (v_vpcs st) k = Some v0" "v = (if k = vid then v0\<lparr>vp_igw := gid\<rparr> else v0)"
      by (auto simp: dict_simps split: if_splits)
    then show "\<exists>v0. map_of (v_vpcs st) k = Some v0 \<and> vp_main_rt v = vp_main_rt v0 \<and> vp_default_sg v = vp_default_sg v0 \<and>
        (vp_igw v \<noteq> [] \<longrightarrow> (\<exists>h. map_of (dset gid (g\<lparr>ig_vpc := vid\<rparr>) (v_igws st)) (vp_igw v) = Some h \<and> ig_vpc h = k))"
      using old [OF v0(1)] g by (auto simp: dict_simps)
  qed (use vpc_ok_wf [OF ok] g vpc_ok_gateway [OF ok] in \<open>auto simp: dict_simps split: if_splits\<close>)
qed

lemma vpc_ok_detach:
  assumes ok: "vpc_ok st"
  shows "vpc_ok (snd (detach_gateway gid st))"
proof (cases "map_of (v_igws st) gid")
  case None
  then show ?thesis using ok by (simp add: detach_gateway_def)
next
  case (Some g)
  let ?V = "if ig_vpc g = [] then v_vpcs st else dmap_at (ig_vpc g) (\<lambda>v. if vp_igw v = gid then v\<lparr>vp_igw := []\<rparr> else v) (v_vpcs st)"
  have eq: "snd (detach_gateway gid st) = st\<lparr>v_igws := dset gid (g\<lparr>ig_vpc := []\<rparr>) (v_igws st), v_vpcs := ?V\<rparr>"
    using Some by (simp add: detach_gateway_def Let_def)
  have old: "vp_igw v \<noteq> [] \<longrightarrow> (\<exists>g. map_of (v_igws st) (vp_igw v) = Some g \<and> ig_vpc g = k)" "k \<noteq> []"
    if "map_of (v_vpcs st) k = Some v" for k v using vpc_ok_entry [OF ok that] by (auto simp: vpc_entry_ok_def)
  show ?thesis unfolding eq
  proof (rule vpc_ok_gateways [OF ok])
    fix k v assume "map_of ?V k = Some v"
    then have "\<exists>v0. map_of (v_vpcs st) k = Some v0 \<and> v = (if k = ig_vpc g \<and> vp_igw v0 = gid then v0\<lparr>vp_igw := []\<rparr> else v0)"
      using old(2) [of k v] by (cases "ig_vpc g = []"; cases "k = ig_vpc g") (auto simp: dict_simps)
    then obtain v0 where v0: "map_of (v_vpcs st) k = Some v0" "v = (if k = ig_vpc g \<and> vp_igw v0 = gid then v0\<lparr>vp_igw := []\<rparr> else v0)" by auto
    then show "\<exists>v0. map_of (v_vpcs st) k = Some v0 \<and> vp_main_rt v = vp_main_rt v0 \<and> vp_default_sg v = vp_default_sg v0 \<and>
        (vp_igw v \<noteq> [] \<longrightarrow> (\<exists>h. map_of (dset gid (g\<lparr>ig_vpc := []\<rparr>) (v_igws st)) (vp_igw v) = Some h \<and> ig_vpc h = k))"
      using old [OF v0(1)] Some by (auto simp: dict_simps)
  qed (use vpc_ok_wf [OF ok] Some vpc_ok_gateway [OF ok] in \<open>auto simp: dict_simps split: if_splits\<close>)
qed

lemma vpc_ok_delete_internet_gateway:
  assumes ok: "vpc_ok st"
  shows "vpc_ok (snd (delete_internet_gateway gid st))"
proof (cases "\<exists>g. map_of (v_igws st) gid = Some g \<and> ig_vpc g = []")
  case False
  then show ?thesis using ok by (auto simp: delete_internet_gateway_def split: option.splits)
next
  case True
  then obtain g where "map_of (v_igws st) gid = Some g" "ig_vpc g = []" by auto
  then show ?thesis
    using vpc_ok_wf [OF ok]
    by (intro vpc_ok_step [OF ok]) (auto simp: delete_internet_gateway_def vpc_oks dhas_def split: if_splits)
qed

lemma vpc_ok_delete_route_table:
  assumes ok: "vpc_ok st"
  shows "vpc_ok (snd (delete_route_table rid st))"
proof (cases "\<exists>r. map_of (v_rts st) rid = Some r \<and> \<not> rt_main r \<and> rt_subnets r = []")
  case False
  then show ?thesis using ok by (auto simp: delete_route_table_def split: option.splits)
next
  case True
  then obtain r where "map_of (v_rts st) rid = Some r" "\<not> rt_main r" "rt_subnets r = []" by auto
  then show ?thesis
    using vpc_ok_wf [OF ok]
    by (intro vpc_ok_step [OF ok]) (auto simp: delete_route_table_def vpc_oks dhas_def split: if_splits)
qed

lemma map_of_map_vals: "map_of (map (\<lambda>(k, v). (k, f v)) d) k = map_option f (map_of d k)"
  by (induction d) auto

lemma wf_map_vals: "wf_dict (map (\<lambda>(k, v). (k, f v)) d) = wf_dict d"
  by (simp add: wf_dict_def comp_def case_prod_beta)

lemma vpc_ok_delete_subnet:
  assumes ok: "vpc_ok st"
  shows "vpc_ok (snd (delete_subnet sid st))"
  using vpc_ok_wf [OF ok] ok
  by (cases "snd (delete_subnet sid st) = st", simp, intro vpc_ok_step [OF ok])
    (auto simp: delete_subnet_def vpc_oks dhas_def rt_without_def map_of_map_vals wf_map_vals split: if_splits)

section \<open>Deleting a VPC\<close>

lemma drop_subnet_simps:
  "v_vpcs (drop_subnet p st) = v_vpcs st" "v_sgs (drop_subnet p st) = v_sgs st" "v_igws (drop_subnet p st) = v_igws st"
  "v_instances (drop_subnet p st) = v_instances st" "v_subnets (drop_subnet p st) = dpop (fst p) (v_subnets st)"
  "v_rts (drop_subnet p st) = (if sn_rt (snd p) \<noteq> [] then dmap_at (sn_rt (snd p)) (rt_without (fst p)) (v_rts st) else v_rts st)"
  by (simp_all add: drop_subnet_def Let_def)

text \<open>What dropping subnets one by one amounts to.\<close>

lemma fold_drop_subnet:
  fixes ps :: "(string \<times> vpc_subnet) list" and st :: vpc_st
  defines "st' \<equiv> fold drop_subnet ps st"
  shows "v_vpcs st' = v_vpcs st" "v_sgs st' = v_sgs st" "v_igws st' = v_igws st" "v_instances st' = v_instances st"
    and "wf_dict (v_subnets st) \<Longrightarrow> wf_dict (v_subnets st')" and "wf_dict (v_rts st) \<Longrightarrow> wf_dict (v_rts st')"
    and "map_of (v_subnets st') k = (if k \<in> fst ` set ps then None else map_of (v_subnets st) k)"
    and "map_option rt_vpc (map_of (v_rts st') k) = map_option rt_vpc (map_of (v_rts st) k)"
    and "k \<notin> (\<lambda>p. sn_rt (snd p)) ` set ps \<Longrightarrow> map_of (v_rts st') k = map_of (v_rts st) k"
  unfolding st'_def
proof (induction ps arbitrary: st)
  case (Cons p ps)
  have vpc: "rt_vpc (rt_without i r) = rt_vpc r" for i r by (simp add: rt_without_def)
  { case 1 then show ?case by (simp add: Cons.IH drop_subnet_simps) }
  { case 2 then show ?case by (simp add: Cons.IH drop_subnet_simps) }
  { case 3 then show ?case by (simp add: Cons.IH drop_subnet_simps) }
  { case 4 then show ?case by (simp add: Cons.IH drop_subnet_simps) }
  { case 5 then show ?case by (simp add: Cons.IH(5) drop_subnet_simps dict_simps) }
  { case 6 then show ?case by (simp add: Cons.IH(6) drop_subnet_simps dict_simps) }
  { case 7 show ?case by (auto simp: Cons.IH(7) drop_subnet_simps dict_simps) }
  { case 8 show ?case by (auto simp: Cons.IH(8) drop_subnet_simps dict_simps option.map_comp comp_def vpc) }
  { case 9 then show ?case by (auto simp: Cons.IH(9) drop_subnet_simps dict_simps) }
qed simp_all

definition kept :: "('v \<Rightarrow> bool) \<Rightarrow> 'v dict \<Rightarrow> string \<Rightarrow> 'v option" where
  "kept P d k = (case map_of d k of Some v \<Rightarrow> if P v then Some v else None | None \<Rightarrow> None)"

lemma kept_Some [simp]: "kept P d k = Some v \<longleftrightarrow> map_of d k = Some v \<and> P v"
  by (auto simp: kept_def split: option.splits)

lemma map_of_filter_vals: "wf_dict d \<Longrightarrow> map_of (filter (\<lambda>(_, v). P v) d) k = kept P d k"
  by (simp add: map_of_filter_wf kept_def)

lemma delete_vpc_state:
  assumes ok: "vpc_ok st" and vid: "dhas (v_vpcs st) vid" and go: "force \<or> \<not> list_ex (active_in ''vpc_id'' vid) (dvals (v_instances st))"
  shows "fst (delete_vpc now vid force st) = Inr ()"
    and "map_of (v_vpcs (snd (delete_vpc now vid force st))) = (map_of (v_vpcs st))(vid := None)"
    and "map_of (v_subnets (snd (delete_vpc now vid force st))) k = kept (\<lambda>s. sn_vpc s \<noteq> vid) (v_subnets st) k"
    and "map_of (v_rts (snd (delete_vpc now vid force st))) k = kept (\<lambda>r. rt_vpc r \<noteq> vid) (v_rts st) k"
    and "map_of (v_sgs (snd (delete_vpc now vid force st))) k = kept (\<lambda>g. sg_vpc g \<noteq> vid) (v_sgs st) k"
    and "map_of (v_igws (snd (delete_vpc now vid force st))) k = kept (\<lambda>g. ig_vpc g \<noteq> vid) (v_igws st) k"
    and "v_instances (snd (delete_vpc now vid force st)) =
           map (\<lambda>(k, i). (k, if active_in ''vpc_id'' vid i then terminated now i else i)) (v_instances st)"
    and "wf_dict (v_vpcs (snd (delete_vpc now vid force st)))" "wf_dict (v_subnets (snd (delete_vpc now vid force st)))"
        "wf_dict (v_rts (snd (delete_vpc now vid force st)))" "wf_dict (v_sgs (snd (delete_vpc now vid force st)))"
        "wf_dict (v_igws (snd (delete_vpc now vid force st)))"
proof -
  let ?ps = "filter (\<lambda>(_, s). sn_vpc s = vid) (v_subnets st)"
  let ?st1 = "st\<lparr>v_instances := map (\<lambda>(k, i). (k, if force \<and> active_in ''vpc_id'' vid i then terminated now i else i)) (v_instances st)\<rparr>"
  let ?st2 = "fold drop_subnet ?ps ?st1"
  have eq: "delete_vpc now vid force st =
      (Inr (), ?st2\<lparr>v_rts := filter (\<lambda>(_, r). rt_vpc r \<noteq> vid) (v_rts ?st2), v_sgs := filter (\<lambda>(_, g). sg_vpc g \<noteq> vid) (v_sgs st),
                    v_igws := filter (\<lambda>(_, g). ig_vpc g \<noteq> vid) (v_igws st), v_vpcs := dpop vid (v_vpcs st)\<rparr>)"
    using vid go by (auto simp: delete_vpc_def Let_def fold_drop_subnet(1,2,3))
  note wf = vpc_ok_wf [OF ok]
  have wf2: "wf_dict (v_subnets ?st2)" "wf_dict (v_rts ?st2)" using fold_drop_subnet(5,6) [of ?st1 ?ps] wf by auto
  have gone: "k \<in> fst ` set ?ps \<longleftrightarrow> (\<exists>s. map_of (v_subnets st) k = Some s \<and> sn_vpc s = vid)" for k
  proof -
    have "map_of (v_subnets st) k = Some s \<longleftrightarrow> (k, s) \<in> set (v_subnets st)" for s
      using wf in_dict_map_of map_of_in_dict by metis
    then show ?thesis by force
  qed
  have other: "map_of (v_rts ?st2) k = map_of (v_rts st) k" if "map_of (v_rts st) k = Some r" "rt_vpc r \<noteq> vid" for k r
  proof -
    have "k \<notin> (\<lambda>p. sn_rt (snd p)) ` set ?ps"
    proof
      assume "k \<in> (\<lambda>p. sn_rt (snd p)) ` set ?ps"
      then obtain sid s where s: "(sid, s) \<in> set (v_subnets st)" "sn_vpc s = vid" "k = sn_rt s" by auto
      then have "map_of (v_subnets st) sid = Some s" using wf by (intro in_dict_map_of) auto
      then have "subnet_ok st sid s" by (rule vpc_ok_subnet [OF ok])
      then show False using s that by (simp add: subnet_ok_def)
    qed
    then show ?thesis using fold_drop_subnet(9) [of k ?ps ?st1] by simp
  qed
  show "fst (delete_vpc now vid force st) = Inr ()" by (simp add: eq)
  show "map_of (v_vpcs (snd (delete_vpc now vid force st))) = (map_of (v_vpcs st))(vid := None)" by (simp add: eq dict_simps)
  show "map_of (v_subnets (snd (delete_vpc now vid force st))) k = kept (\<lambda>s. sn_vpc s \<noteq> vid) (v_subnets st) k"
    using gone [of k] by (auto simp: eq fold_drop_subnet(7) kept_def simp del: set_filter split: option.splits)
  have same: "map_option rt_vpc (map_of (v_rts ?st2) k) = map_option rt_vpc (map_of (v_rts st) k)"
    using fold_drop_subnet(8) [of ?ps ?st1 k] by simp
  have "kept (\<lambda>r. rt_vpc r \<noteq> vid) (v_rts ?st2) k = kept (\<lambda>r. rt_vpc r \<noteq> vid) (v_rts st) k"
    using same other [of k] by (cases "map_of (v_rts st) k"; cases "map_of (v_rts ?st2) k") (auto simp: kept_def)
  then show "map_of (v_rts (snd (delete_vpc now vid force st))) k = kept (\<lambda>r. rt_vpc r \<noteq> vid) (v_rts st) k"
    using wf2 by (simp add: eq map_of_filter_vals)
  show "map_of (v_sgs (snd (delete_vpc now vid force st))) k = kept (\<lambda>g. sg_vpc g \<noteq> vid) (v_sgs st) k"
    using wf by (simp add: eq map_of_filter_vals)
  show "map_of (v_igws (snd (delete_vpc now vid force st))) k = kept (\<lambda>g. ig_vpc g \<noteq> vid) (v_igws st) k"
    using wf by (simp add: eq map_of_filter_vals)
  show "v_instances (snd (delete_vpc now vid force st)) =
      map (\<lambda>(k, i). (k, if active_in ''vpc_id'' vid i then terminated now i else i)) (v_instances st)"
    using go by (auto simp: eq fold_drop_subnet(4) list_ex_iff dvals_def)
  show "wf_dict (v_vpcs (snd (delete_vpc now vid force st)))" "wf_dict (v_subnets (snd (delete_vpc now vid force st)))"
    "wf_dict (v_rts (snd (delete_vpc now vid force st)))" "wf_dict (v_sgs (snd (delete_vpc now vid force st)))"
    "wf_dict (v_igws (snd (delete_vpc now vid force st)))"
    using wf wf2 by (auto simp: eq wf_filter dict_simps)
qed

lemma vpc_ok_delete_vpc:
  assumes ok: "vpc_ok st"
  shows "vpc_ok (snd (delete_vpc now vid force st))"
proof (cases "dhas (v_vpcs st) vid \<and> (force \<or> \<not> list_ex (active_in ''vpc_id'' vid) (dvals (v_instances st)))")
  case False
  then show ?thesis using ok by (auto simp: delete_vpc_def)
next
  case True
  then have vid: "dhas (v_vpcs st) vid" and go: "force \<or> \<not> list_ex (active_in ''vpc_id'' vid) (dvals (v_instances st))" by auto
  note del = delete_vpc_state [OF ok vid go]
  have same: "sn_vpc s = rt_vpc r" if "map_of (v_rts st) (sn_rt s) = Some r" "map_of (v_subnets st) sid = Some s" for sid s r
    using vpc_ok_subnet [OF ok that(2)] that(1) by (auto simp: subnet_ok_def)
  show ?thesis
    apply (intro vpc_ok_step [OF ok] del(8-))
    subgoal by (simp add: del(2-6) subnet_ok_def) (metis kept_Some)
    subgoal by (clarsimp simp: del(2-6) route_table_ok_def dhas_def) (metis same)
    subgoal by (auto simp: del(2-6) vpc_entry_ok_def dhas_def split: if_splits)
    subgoal by (auto simp: del(2-6) dhas_def split: if_splits)
    subgoal by (auto simp: del(2-6) dhas_def split: if_splits)
    done
qed

section \<open>Tags and rules\<close>

lemma vpc_ok_set_tags:
  assumes ok: "vpc_ok st"
  shows "vpc_ok (vpc_set_tags tags i st)"
proof (cases "find_resource st i")
  case None
  then show ?thesis using ok by (simp add: vpc_set_tags_def Let_def)
next
  case (Some kind)
  show ?thesis
    using vpc_ok_wf [OF ok] Some
    by (cases kind; intro vpc_ok_step [OF ok])
      (auto simp: vpc_set_tags_def Let_def vpc_oks split: if_splits)
qed

lemma vpc_ok_fold_set_tags: "vpc_ok st \<Longrightarrow> vpc_ok (fold (vpc_set_tags tags) is st)"
  by (induction "is" arbitrary: st) (auto intro: vpc_ok_set_tags)

lemma vpc_ok_with_rules:
  assumes ok: "vpc_ok st" and g: "map_of (v_sgs st) gid = Some g"
  shows "vpc_ok (st\<lparr>v_sgs := dset gid (g\<lparr>sg_ingress := rs\<rparr>) (v_sgs st)\<rparr>)"
  using vpc_ok_wf [OF ok] g by (intro vpc_ok_step [OF ok]) (auto simp: vpc_oks split: if_splits)

lemma find_Some_in_list: "find P xs = Some x \<Longrightarrow> x \<in> set xs"
  by (auto simp: find_Some_iff)

lemma target_group_in: "wf_dict (v_sgs st) \<Longrightarrow> target_group i name st = Some (k, g) \<Longrightarrow> map_of (v_sgs st) k = Some g"
  by (auto simp: target_group_def split: option.splits if_splits intro!: in_dict_map_of dest: find_Some_in_list)

lemma vpc_ok_authorize: "vpc_ok st \<Longrightarrow> vpc_ok (snd (query_authorize_ingress now params st))"
  by (auto simp: query_authorize_ingress_def Let_def intro!: vpc_ok_with_rules dest!: target_group_in [rotated] split: option.splits prod.splits)

section \<open>Every action\<close>

lemma vpc_ok_on_named: "vpc_ok st \<Longrightarrow> (\<And>i. vpc_ok (snd (f i st))) \<Longrightarrow> vpc_ok (snd (on_named params a b f st))"
  by (simp add: on_named_def Let_def)

lemma settled_state [simp]: "snd (settled r) = snd r"
  by (simp add: settled_def)

lemmas vpc_ok_ops = vpc_ok_create_vpc vpc_ok_create_subnet vpc_ok_associate vpc_ok_disassociate vpc_ok_create_security_group
  vpc_ok_add_ingress vpc_ok_create_route_table vpc_ok_create_internet_gateway vpc_ok_add_route vpc_ok_attach vpc_ok_detach
  vpc_ok_delete_internet_gateway vpc_ok_delete_route_table vpc_ok_delete_subnet vpc_ok_delete_vpc vpc_ok_fold_set_tags vpc_ok_authorize

text \<open>Identifiers that name nothing yet.\<close>

definition fresh_ids :: "vpc_ids \<Rightarrow> vpc_st \<Rightarrow> bool" where
  "fresh_ids ids st \<longleftrightarrow> di_vpc ids \<noteq> [] \<and> di_subnet ids \<noteq> [] \<and> di_table ids \<noteq> [] \<and>
     \<not> dhas (v_vpcs st) (di_vpc ids) \<and> \<not> dhas (v_subnets st) (di_subnet ids) \<and> \<not> dhas (v_rts st) (di_table ids) \<and>
     \<not> dhas (v_sgs st) (di_group ids) \<and> \<not> dhas (v_igws st) (di_gateway ids)"

lemmas query_defs = query_create_vpc_def query_delete_vpc_def query_create_subnet_def query_delete_subnet_def
  query_create_security_group_def query_create_route_table_def query_delete_route_table_def query_create_route_def
  query_associate_def query_disassociate_def query_create_gateway_def query_attach_gateway_def query_detach_gateway_def
  query_delete_gateway_def query_create_tags_def

lemma vpc_ok_change:
  assumes ok: "vpc_ok st" and ids: "fresh_ids ids st" and run: "vpc_change sha1 now ids action params st = Some r"
  shows "vpc_ok (snd r)"
  using run ok ids
  by (auto simp: vpc_change_def query_defs fresh_ids_def Let_def intro!: vpc_ok_on_named vpc_ok_ops vpc_ok_with_routes
      split: if_splits option.split prod.split)

section \<open>Reachable states\<close>

text \<open>Calls of the console and actions of the query protocol, in any order; EC2 changes its machines at will.\<close>

definition vpc_start :: vpc_st where
  "vpc_start = \<lparr>v_vpcs = [], v_subnets = [], v_rts = [], v_sgs = [], v_igws = [], v_instances = []\<rparr>"

inductive vpc_step :: "(string \<Rightarrow> string) \<Rightarrow> vpc_st \<Rightarrow> vpc_st \<Rightarrow> bool" for sha1 where
  query: "fresh_ids ids st \<Longrightarrow> vpc_change sha1 now ids action params st = Some (r, st') \<Longrightarrow> vpc_step sha1 st st'"
| vpc: "fresh_ids ids st \<Longrightarrow> vpc_step sha1 st (snd (create_vpc now (di_vpc ids) (di_table ids) (di_group ids) token req st))"
| drop: "vpc_step sha1 st (snd (delete_vpc now vid force st))"
| subnet: "fresh_ids ids st \<Longrightarrow> vpc_step sha1 st (snd (create_subnet sha1 now (di_subnet ids) sreq st))"
| group: "fresh_ids ids st \<Longrightarrow> vpc_step sha1 st (snd (create_security_group now (di_group ids) vid name description tags st))"
| ingress: "vpc_step sha1 st (snd (add_ingress now gid payload st))"
| table: "fresh_ids ids st \<Longrightarrow> vpc_step sha1 st (snd (create_route_table now (di_table ids) vid name tags st))"
| gateway: "fresh_ids ids st \<Longrightarrow> vpc_step sha1 st (snd (create_internet_gateway now (di_gateway ids) name tags st))"
| attach: "vpc_step sha1 st (snd (attach_gateway gid vid st))"
| route: "vpc_step sha1 st (snd (add_route now rid payload st))"
| associate: "vpc_step sha1 st (snd (associate_subnet sha1 rid sid st))"
| machines: "vpc_step sha1 st (st\<lparr>v_instances := ms\<rparr>)"

inductive vpc_reachable :: "(string \<Rightarrow> string) \<Rightarrow> vpc_st \<Rightarrow> bool" for sha1 where
  start: "vpc_reachable sha1 vpc_start"
| step: "vpc_reachable sha1 st \<Longrightarrow> vpc_step sha1 st st' \<Longrightarrow> vpc_reachable sha1 st'"

lemma vpc_ok_machines: "vpc_ok st \<Longrightarrow> vpc_ok (st\<lparr>v_instances := ms\<rparr>)"
  by (simp add: vpc_ok_def subnet_ok_def route_table_ok_def vpc_entry_ok_def)

lemma vpc_step_ok: "vpc_step sha1 st st' \<Longrightarrow> vpc_ok st \<Longrightarrow> vpc_ok st'"
proof (induction rule: vpc_step.induct)
  case (query ids st now action params r st')
  then show ?case using vpc_ok_change by fastforce
qed (auto simp: fresh_ids_def intro: vpc_ok_ops vpc_ok_machines)

lemma vpc_ok_start: "vpc_ok vpc_start"
  by (simp add: vpc_start_def vpc_ok_def wf_dict_def)

lemma vpc_reachable_vpc_ok: "vpc_reachable sha1 st \<Longrightarrow> vpc_ok st"
  by (induction rule: vpc_reachable.induct) (auto intro: vpc_ok_start vpc_step_ok)

text \<open>A VPC with one subnet and one running machine in it.\<close>

definition sample_ids :: vpc_ids where
  "sample_ids = \<lparr>di_vpc = ''vpc-1'', di_subnet = ''subnet-1'', di_table = ''rtb-1'', di_group = ''sg-1'', di_gateway = ''igw-1'', di_token = ''t''\<rparr>"

definition sample_vpc :: vpc_st where
  "sample_vpc = snd (create_vpc ''now'' ''vpc-1'' ''rtb-1'' ''sg-1'' ''t''
      \<lparr>vr_name = ''net'', vr_cidr = ''10.0.0.0/16'', vr_encryption = ''None'', vr_tenancy = ''default'', vr_ipv6 = ''none'', vr_tags = []\<rparr> vpc_start)"

definition sample_subnet :: vpc_st where
  "sample_subnet = snd (create_subnet (\<lambda>s. s) ''now'' ''subnet-1''
      \<lparr>sr_vpc = ''vpc-1'', sr_cidr = ''10.0.1.0/24'', sr_zone = ''us-east-1a'', sr_name = ''a'', sr_tags = []\<rparr> sample_vpc)"

definition sample_net :: vpc_st where
  "sample_net = sample_subnet\<lparr>v_instances := [(''i-1'', [(''vpc_id'', PStr ''vpc-1''), (''state'', PStr ''running'')])]\<rparr>"

lemma sample_net_reachable: "vpc_reachable (\<lambda>s. s) sample_net"
proof -
  have v: "fresh_ids sample_ids vpc_start" by (simp add: fresh_ids_def sample_ids_def vpc_start_def dhas_def)
  have 1: "vpc_reachable (\<lambda>s. s) sample_vpc"
    using vpc_reachable.step [OF vpc_reachable.start vpc_step.vpc [OF v]] by (simp add: sample_vpc_def sample_ids_def)
  have "fresh_ids (sample_ids\<lparr>di_vpc := ''vpc-2'', di_table := ''rtb-2'', di_group := ''sg-2''\<rparr>) sample_vpc"
    by (simp add: fresh_ids_def sample_ids_def sample_vpc_def vpc_start_def create_vpc_def Let_def dict_simps) (simp add: dhas_def)
  from vpc_reachable.step [OF 1 vpc_step.subnet [OF this]] have "vpc_reachable (\<lambda>s. s) sample_subnet"
    by (simp add: sample_subnet_def sample_ids_def)
  then show ?thesis unfolding sample_net_def by (rule vpc_reachable.step) (rule vpc_step.machines)
qed

lemma sample_net_has: "dhas (v_vpcs sample_net) ''vpc-1''"
  by (simp add: sample_net_def sample_subnet_def sample_vpc_def create_vpc_def create_subnet_def associate_subnet_def Let_def vpc_start_def dict_simps)

section \<open>What is promised\<close>

text \<open>The tables a subnet stands in.\<close>

definition tables_with :: "string \<Rightarrow> vpc_st \<Rightarrow> string set" where
  "tables_with sid st = {rid. \<exists>r. map_of (v_rts st) rid = Some r \<and> sid \<in> set (rt_subnets r)}"

lemma tables_with_ok: "vpc_ok st \<Longrightarrow> map_of (v_subnets st) sid = Some s \<Longrightarrow> tables_with sid st = {sn_rt s}"
  using vpc_ok_subnet [of st sid s] vpc_ok_table [of st]
  by (fastforce simp: tables_with_def subnet_ok_def route_table_ok_def)



text \<open>C33. Deleting a VPC takes its subnets, route tables, groups and attached gateways with it and leaves every record of the
  other VPCs as it was; forced, it succeeds whatever runs there, and the machines that ran in it are terminated.\<close>

theorem vpc_delete_exact:
  assumes "vpc_reachable sha1 st" and "dhas (v_vpcs st) vid"
    and "force \<or> \<not> list_ex (active_in ''vpc_id'' vid) (dvals (v_instances st))"
  shows "\<exists>st'. delete_vpc now vid force st = (Inr (), st') \<and>
     map_of (v_vpcs st') = (map_of (v_vpcs st))(vid := None) \<and>
     (\<forall>k. map_of (v_subnets st') k = kept (\<lambda>s. sn_vpc s \<noteq> vid) (v_subnets st) k \<and>
          map_of (v_rts st') k = kept (\<lambda>r. rt_vpc r \<noteq> vid) (v_rts st) k \<and>
          map_of (v_sgs st') k = kept (\<lambda>g. sg_vpc g \<noteq> vid) (v_sgs st) k \<and>
          map_of (v_igws st') k = kept (\<lambda>g. ig_vpc g \<noteq> vid) (v_igws st) k) \<and>
     v_instances st' = map (\<lambda>(k, i). (k, if active_in ''vpc_id'' vid i then terminated now i else i)) (v_instances st)"
proof (intro exI conjI allI)
  note del = delete_vpc_state [OF vpc_reachable_vpc_ok [OF assms(1)] assms(2,3), of now]
  show "delete_vpc now vid force st = (Inr (), snd (delete_vpc now vid force st))" using del(1) by (metis prod.collapse)
qed (rule delete_vpc_state [OF vpc_reachable_vpc_ok [OF assms(1)] assms(2,3)])+

lemma vpc_delete_exact_witness:
  "\<exists>st'. delete_vpc ''t2'' ''vpc-1'' True sample_net = (Inr (), st') \<and> map_of (v_subnets st') ''subnet-1'' = None \<and>
     v_instances st' =
       [(''i-1'', [(''vpc_id'', PStr ''vpc-1''), (''state'', PStr ''terminated''), (''terminated_at'', PStr ''t2''), (''updated'', PStr ''t2'')])]"
proof -
  have nosub: "kept (\<lambda>s. sn_vpc s \<noteq> ''vpc-1'') (v_subnets sample_net) ''subnet-1'' = None"
    by (simp add: kept_def sample_net_def sample_subnet_def sample_vpc_def create_vpc_def create_subnet_def associate_subnet_def Let_def
        vpc_start_def dict_simps dset_def dhas_def)
  have machines: "v_instances sample_net = [(''i-1'', [(''vpc_id'', PStr ''vpc-1''), (''state'', PStr ''running'')])]" by (simp add: sample_net_def)
  obtain st' where "delete_vpc ''t2'' ''vpc-1'' True sample_net = (Inr (), st')" "map_of (v_subnets st') ''subnet-1'' = None"
    "v_instances st' = map (\<lambda>(k, i). (k, if active_in ''vpc_id'' ''vpc-1'' i then terminated ''t2'' i else i)) (v_instances sample_net)"
    using vpc_delete_exact [OF sample_net_reachable sample_net_has disjI1 [OF TrueI], of "''t2''"] nosub by auto
  then show ?thesis by (simp add: machines active_in_def pget_def dget_def terminated_def dset_def)
qed

text \<open>The query protocol always forces, so it terminates machines where the console refuses.\<close>

lemma query_delete_forces:
  "query_text params ''VpcId'' ''vpcId'' = vid \<Longrightarrow> vid \<noteq> [] \<Longrightarrow> dhas (v_vpcs st) vid \<Longrightarrow> fst (query_delete_vpc now params st) = Inr ()"
  by (auto simp: query_delete_vpc_def on_named_def delete_vpc_def Let_def)

lemma console_delete_refuses:
  "dhas (v_vpcs st) vid \<Longrightarrow> list_ex (active_in ''vpc_id'' vid) (dvals (v_instances st)) \<Longrightarrow>
   delete_vpc now vid False st = (Inl (HTTPException 409 (PStr ''VpcHasActiveInstances'')), st)"
  by (simp add: delete_vpc_def)

text \<open>Tags that are not named again are lost.\<close>

lemma tags_replaced:
  "startswith i ''vpc-'' \<Longrightarrow> map_of (v_vpcs st) i = Some v \<Longrightarrow>
   map_of (v_vpcs (vpc_set_tags tags i st)) i = Some (v\<lparr>vp_tags := normalize_tags tags\<rparr>)"
  by (simp add: vpc_set_tags_def find_resource_def Let_def dict_simps dhas_def)

text \<open>Three actions the handler has that requests at the root never reach.\<close>

lemma root_misses_actions:
  "\<forall>a\<in>{''DetachInternetGateway'', ''DeleteInternetGateway'', ''CreateTags''}.
     vpc_change sha1 now ids a params st \<noteq> None \<and> a \<notin> set EC2_VPC_ACTIONS"
  by (auto simp: vpc_change_def EC2_VPC_ACTIONS_def)

end
