(* ===== verification/Spec2Isabelle.thy ===== *)
theory Spec2Isabelle
imports Runtime_Sizer Space_API Aws_Iam Sqs S3_Examples Gate_Examples State_Store Audit_Chain Admin_Guard Firestore Ddb_Props Azure_Props
  Azure_Data Pubsub_Props Firewalls Tenant_Config Vpc_Props
begin

text \<open>
  CloudLearn is an emulator of the AWS, GCP and Azure control planes: a FastAPI server that answers the calls of
  the three clouds' SDKs and consoles from state it keeps itself.  This development models its core and proves what
  makes it correct, and where it falls short.

  The parts and how they meet.  A request first runs through the middleware (tier gate, rate limit, IAM and
  capability gate, tenant context, provider gate), then reaches a handler of one cloud.  The handler reaches its
  state through the proxies of \<open>core/app_context.py\<close>, which pick the store of the space the tenant has made
  active.  The kernel (\<open>core/cloudlearn_platform.py\<close>) keeps spaces, packs and documents, writes the whole state
  to a signed SQLite file and reads it back at start.  Licence tiers (\<open>core/tier_policy.py\<close>) cap sizes, counts
  and features throughout.

  \<^bold>\<open>Python.\<close>  \<open>Py_Prelude\<close>: dynamic values, exceptions as a sum type, dictionaries in insertion order
  with the interface \<open>keyed_store\<close> and its instance \<open>dict\<close>.  \<open>Py_Strings\<close>: the string methods and
  \<open>fnmatch\<close>.  \<open>Py_Json\<close>: \<open>json.dumps\<close> and \<open>json.loads\<close> with their round trip.  \<open>Py_Base64\<close>:
  base64 with its round trip.  \<open>Py_Compare\<close>: equality and order of dynamic values.

  \<^bold>\<open>Tiers and sizes.\<close>  \<open>Tier_Policy\<close> is \<open>core/tier_policy.py\<close>: the table of tiers and every check,
  what each admits, that paid tiers only widen.  \<open>Runtime_Sizer\<close> is \<open>core/instance_catalog.py\<close> and
  \<open>core/runtime_sizer.py\<close>: shapes of machines and container limits.  \<open>Launch_Budget\<close> is the share of the
  host that all live machines may use (\<open>_simulator_budget\<close>, \<open>_check_budget_for_launch\<close> of
  \<open>server.py\<close>): a launch keeps half of the host free.

  \<^bold>\<open>Spaces and tenants.\<close>  \<open>Spaces\<close> is the kernel's store of spaces, with its operations as a step
  relation and an invariant over all reachable states.  \<open>Tenants\<close> is the tenant of a request, the proxies and
  the resource counter; a call on behalf of one tenant leaves the stores of all other spaces as they were.
  \<open>Space_API\<close> is \<open>routes/spaces.py\<close> over the kernel and the CloudSim engine.

  \<^bold>\<open>Gates.\<close>  \<open>Iam_Routes\<close> maps a path to action and resource (\<open>_iam_route_action_resource\<close>);
  \<open>Aws_Iam\<close> decides and manages policies; \<open>Gcp_Iam\<close>, \<open>Azure_Rbac\<close>, \<open>Tenant_Rbac\<close>,
  \<open>Capabilities\<close>, \<open>Sso_Config\<close>, \<open>Cedar_Engine\<close> and \<open>Rate_Limit\<close> are the other deciders, and
  \<open>Request_Gates\<close> composes the layers of \<open>core/middleware.py\<close> in the order Starlette runs them (locale
  \<open>gate_chain\<close>, interpreted for the state and for the rules a request reads): what reaches a handler has passed
  every layer, and which header is never checked.  \<open>Gate_Examples\<close> holds concrete requests.

  \<^bold>\<open>State.\<close>  \<open>State_Store\<close> is the tagged JSON encoding, the SQLite store, its signature, events and
  snapshots and the resource graph: saving and loading is the identity up to the values JSON cannot carry, and the
  graph refines a map.  \<open>Audit_Chain\<close> is the hash-chained trail of \<open>core/security_audit.py\<close>;
  \<open>Admin_Guard\<close> is the admin key, the file manifest and the sinks of audit events.

  \<^bold>\<open>AWS.\<close>  \<open>Sqs\<close>: queues as steps, the invariant, no second delivery before a timeout, release and
  deduplication.  \<open>S3_Objects\<close>, \<open>S3_Buckets\<close>, \<open>S3_API\<close>: versions, buckets, handlers;
  \<open>S3_Facts\<close>, \<open>S3_Props\<close>, \<open>S3_Listing\<close>, \<open>S3_Notify\<close>, \<open>S3_Wf\<close>, \<open>S3_Examples\<close>: the
  history of a key as abstraction of its entry, versions never lost, complete paging, notifications and the
  invariant.  \<open>Ddb_Values\<close>, \<open>Dynamo\<close>, \<open>Ddb_Query\<close>, \<open>Ddb_API\<close>, \<open>Ddb_Props\<close>: DynamoDB values,
  items and streams, queries and scans, the JSON-RPC handler and the console's calls; a table refines a map from keys
  to items, and every call keeps the tables in order.  \<open>Vpc\<close>,
  \<open>Vpc_Props\<close>: the networks of \<open>providers/aws_vpc.py\<close> and the \<open>_vpc_\<close> functions of \<open>server.py\<close>; no
  reference between their records dangles, and deleting a VPC removes exactly what is its own.

  \<^bold>\<open>GCP.\<close>  \<open>Pubsub\<close> and \<open>Pubsub_Props\<close>: topics, subscriptions, leases and ordering keys; a pull delivers
  exactly the ready messages and a subscription refines a backlog, except the one a topic brings along.
  \<open>Firestore\<close>: documents with a primary key, typed values, filters and queries; the table refines
  a map from paths to documents.

  \<^bold>\<open>Azure.\<close>  \<open>Azure_Catalog\<close>, \<open>Azure_Arm\<close>, \<open>Azure_Props\<close>: the resource types, creating,
  reading, listing, changing and deleting resources, and what the gates of a new machine see.  \<open>Azure_Data\<close>: blobs,
  service bus queues (locale \<open>message_store\<close>, interpreted as \<open>bus\<close>), Cosmos documents, function apps and the
  API gateway.

  \<^bold>\<open>Around the clouds.\<close>  \<open>Firewalls\<close>: firewall rules of GCP and Azure as iptables commands; which command decides, and that
  priorities do not.  \<open>Tenant_Config\<close>: custom domains, branding, notification channels and build pipelines of a tenant.

  \<^bold>\<open>How the model reads.\<close>  A handler is a function from its state and the parts of the request it reads to a
  new state and a response; an exception is a value; a dictionary is an association list in insertion order.  A
  definition has the name of the function it translates, or of the piece of it.  Machine arithmetic does not occur:
  Python's integers are unbounded, floats are rationals or the text they print as, and each theory says which.

  \<^bold>\<open>Arguments of the model.\<close>  Clock, random identifiers, MD5, SHA-256, HMAC, the XML parser and printer, date
  formats, the signature checks of tokens, HTTP fetches, the evaluator \<open>cedarpy\<close>, the CloudSim engine, code
  runtimes, provisioning of real backends, the host's disk, CPUs and memory are arguments of the definitions that use
  them.  Where a property needs a law of one of them (different messages have different digests, identifiers are not
  drawn twice), the law is a hypothesis of that property and its witness gives a concrete function.

  \<^bold>\<open>Fuel and termination.\<close>  Recursion over data is structural or has a measure.  Where a loop follows a cursor
  the model takes fuel: paging through a bucket takes one step per key and one to see the end, \<open>json.loads\<close> two
  steps per character, following a shard one call per record and one more; each property states that this much is
  enough for a result.

  \<^bold>\<open>Not modelled.\<close>  Console pages, wizards and catalogs of the user interface; the runtimes that start machines,
  containers and databases (subprocesses and sockets); Terraform runs and exports; clients of Vault, NATS, MinIO, ElasticMQ
  and the Google emulators; the remote licence service; cost tables, disk clean-up and generated charts; the CloudSim engine;
  API Gateway and Lambda; the records of EC2 and RDS and of the compute, storage, SQL and network services of GCP.  They
  are input and output, text for display, or records without rules the core relies on;
  where the core calls them, what they answer is an argument.
\<close>

end
